(* ===== verification/Vcx_Prelude.thy ===== *)
theory Vcx_Prelude
  imports Main
begin

text \<open>
  Shared vocabulary of the development: Rust's \<open>Result\<close> with its combinators (and a third
  outcome for a panic), loops that stop at the first error, association lists, the
  \<open>named_theorems\<close> collections the component theories fill, and the locales that state
  what every protocol state machine of the library promises.
\<close>

named_theorems vcx_ops \<open>definitions of the state-changing operations of the components\<close>
named_theorems vcx_views \<open>definitions of the read-only accessors of the components\<close>

section \<open>Results\<close>

text \<open>
  \<open>Result<T, E>\<close> of the source, extended by \<open>Panic\<close>: the value of a call that unwinds instead
  of returning (an \<open>unwrap\<close> on an error, an index that is out of range).
\<close>

datatype ('e, 'a) result = Ok (the_ok: 'a) | Err 'e | Panic

primrec is_ok :: "('e, 'a) result \<Rightarrow> bool" where
  "is_ok (Ok x) = True"
| "is_ok (Err e) = False"
| "is_ok Panic = False"

text \<open>The \<open>?\<close> operator and \<open>Result::and_then\<close>.\<close>

primrec and_then :: "('e, 'a) result \<Rightarrow> ('a \<Rightarrow> ('e, 'b) result) \<Rightarrow> ('e, 'b) result" where
  "and_then (Ok x) f = f x"
| "and_then (Err e) f = Err e"
| "and_then Panic f = Panic"

primrec map_err :: "('e \<Rightarrow> 'f) \<Rightarrow> ('e, 'a) result \<Rightarrow> ('f, 'a) result" where
  "map_err f (Ok x) = Ok x"
| "map_err f (Err e) = Err (f e)"
| "map_err f Panic = Panic"

primrec map_ok :: "('a \<Rightarrow> 'b) \<Rightarrow> ('e, 'a) result \<Rightarrow> ('e, 'b) result" where
  "map_ok f (Ok x) = Ok (f x)"
| "map_ok f (Err e) = Err e"
| "map_ok f Panic = Panic"

text \<open>\<open>Option::ok_or\<close>, \<open>Option::transpose\<close> and \<open>Result::unwrap_or\<close>.\<close>

primrec ok_or :: "'a option \<Rightarrow> 'e \<Rightarrow> ('e, 'a) result" where
  "ok_or (Some x) e = Ok x"
| "ok_or None e = Err e"

primrec transpose_opt :: "('e, 'a) result option \<Rightarrow> ('e, 'a option) result" where
  "transpose_opt None = Ok None"
| "transpose_opt (Some r) = map_ok Some r"

text \<open>A panic is not an \<open>Err\<close>: \<open>unwrap_or\<close> lets it through.\<close>

primrec unwrap_or :: "('e, 'a) result \<Rightarrow> 'a \<Rightarrow> ('e, 'a) result" where
  "unwrap_or (Ok x) d = Ok x"
| "unwrap_or (Err e) d = Ok d"
| "unwrap_or Panic d = Panic"

lemma and_then_eq_Ok [simp]: "and_then r f = Ok y \<longleftrightarrow> (\<exists>x. r = Ok x \<and> f x = Ok y)"
  by (cases r) auto

lemma and_then_eq_Err:
  "and_then r f = Err e \<longleftrightarrow> r = Err e \<or> (\<exists>x. r = Ok x \<and> f x = Err e)"
  by (cases r) auto

lemma and_then_eq_Panic:
  "and_then r f = Panic \<longleftrightarrow> r = Panic \<or> (\<exists>x. r = Ok x \<and> f x = Panic)"
  by (cases r) auto

lemma map_err_eq_Ok [simp]: "map_err f r = Ok x \<longleftrightarrow> r = Ok x"
  by (cases r) auto

lemma map_err_eq_Err [simp]: "map_err f r = Err e \<longleftrightarrow> (\<exists>e'. r = Err e' \<and> e = f e')"
  by (cases r) auto

lemma map_err_eq_Panic [simp]: "map_err f r = Panic \<longleftrightarrow> r = Panic"
  by (cases r) auto

lemma map_ok_eq_Ok [simp]: "map_ok f r = Ok y \<longleftrightarrow> (\<exists>x. r = Ok x \<and> y = f x)"
  by (cases r) auto

lemma map_ok_eq_Err [simp]: "map_ok f r = Err e \<longleftrightarrow> r = Err e"
  by (cases r) auto

lemma map_ok_eq_Panic [simp]: "map_ok f r = Panic \<longleftrightarrow> r = Panic"
  by (cases r) auto

lemma ok_or_eq_Ok [simp]: "ok_or opt e = Ok x \<longleftrightarrow> opt = Some x"
  by (cases opt) auto

lemma ok_or_eq_Err [simp]: "ok_or opt e = Err e' \<longleftrightarrow> opt = None \<and> e' = e"
  by (cases opt) auto

lemma ok_or_not_Panic [simp]: "ok_or opt e \<noteq> Panic"
  by (cases opt) auto

lemma unwrap_or_eq_Ok:
  "unwrap_or r d = Ok x \<longleftrightarrow> r = Ok x \<or> (\<exists>e. r = Err e) \<and> x = d"
  by (cases r) auto

lemma unwrap_or_not_Err [simp]: "unwrap_or r d \<noteq> Err e"
  by (cases r) auto

section \<open>Loops that stop at the first error\<close>

text \<open>\<open>for x in xs \{ acc = body(acc, x)?; \}\<close>\<close>

primrec try_fold :: "('s \<Rightarrow> 'a \<Rightarrow> ('e, 's) result) \<Rightarrow> 's \<Rightarrow> 'a list \<Rightarrow> ('e, 's) result" where
  "try_fold f s [] = Ok s"
| "try_fold f s (x # xs) = and_then (f s x) (\<lambda>s'. try_fold f s' xs)"

text \<open>\<open>for x in xs \{ rtn.push(body(x)?); \}\<close>\<close>

primrec try_map :: "('a \<Rightarrow> ('e, 'b) result) \<Rightarrow> 'a list \<Rightarrow> ('e, 'b list) result" where
  "try_map f [] = Ok []"
| "try_map f (x # xs) = and_then (f x) (\<lambda>y. map_ok (\<lambda>ys. y # ys) (try_map f xs))"

lemma try_fold_append:
  "try_fold f s (xs @ ys) = and_then (try_fold f s xs) (\<lambda>s'. try_fold f s' ys)"
proof (induction xs arbitrary: s)
  case (Cons x xs)
  then show ?case by (cases "f s x") auto
qed simp

text \<open>An invariant of the loop body holds for the result of the loop.\<close>

lemma try_fold_invariant:
  assumes "try_fold f s xs = Ok s'" and "P s"
    and keep: "\<And>s x s'. P s \<Longrightarrow> x \<in> set xs \<Longrightarrow> f s x = Ok s' \<Longrightarrow> P s'"
  shows "P s'"
  using assms
proof (induction xs arbitrary: s)
  case (Cons x xs)
  from Cons.prems(1) obtain t where t: "f s x = Ok t" "try_fold f t xs = Ok s'" by auto
  have "P t" by (rule Cons.prems(3) [OF Cons.prems(2) _ t(1)]) simp
  then show ?case by (rule Cons.IH [OF t(2)]) (rule Cons.prems(3), simp_all)
qed simp

lemma try_map_Ok_iff:
  "try_map f xs = Ok ys \<longleftrightarrow> list_all2 (\<lambda>x y. f x = Ok y) xs ys"
  by (induction xs arbitrary: ys) (auto simp: list_all2_Cons1)

lemma try_map_length: "try_map f xs = Ok ys \<Longrightarrow> length ys = length xs"
  by (auto simp: try_map_Ok_iff dest: list_all2_lengthD)

lemma try_map_total:
  "(\<And>x. x \<in> set xs \<Longrightarrow> f x = Ok (g x)) \<Longrightarrow> try_map f xs = Ok (map g xs)"
  by (induction xs) auto

text \<open>
  A \<open>HashMap\<close> that is iterated is the list of its entries in the order of the iteration, with
  distinct keys.
\<close>

type_synonym ('k, 'v) hash_map = "('k \<times> 'v) list"

section \<open>Interfaces of the protocol state machines\<close>

text \<open>
  What a client of a protocol state machine relies on. A state machine is given by its step
  relation (one step is one call of a public operation that returned \<open>Ok\<close>), by the \<open>phase\<close> its
  \<open>get_state\<close> reports and by an abstract transition graph \<open>edge\<close> on phases. The laws: every
  step follows the graph or leaves the phase alone, and a state in a terminal phase is left
  exactly as it is.
\<close>

locale protocol_machine =
  fixes step :: "'s \<Rightarrow> 's \<Rightarrow> bool"
    and phase :: "'s \<Rightarrow> 'p"
    and edge :: "'p \<Rightarrow> 'p \<Rightarrow> bool"
    and terminal :: "'p \<Rightarrow> bool"
  assumes step_edge: "step s t \<Longrightarrow> phase t = phase s \<or> edge (phase s) (phase t)"
    and step_terminal: "step s t \<Longrightarrow> terminal (phase s) \<Longrightarrow> t = s"
begin

lemma steps_edges: "step\<^sup>*\<^sup>* s t \<Longrightarrow> edge\<^sup>*\<^sup>* (phase s) (phase t)"
proof (induction rule: rtranclp_induct)
  case (step t u)
  from step_edge [OF step.hyps(2)] show ?case
  proof
    assume "phase u = phase t"
    with step.IH show ?thesis by simp
  next
    assume "edge (phase t) (phase u)"
    with step.IH show ?thesis by simp
  qed
qed simp

lemma steps_terminal: "step\<^sup>*\<^sup>* s t \<Longrightarrow> terminal (phase s) \<Longrightarrow> t = s"
proof (induction rule: rtranclp_induct)
  case (step t u)
  then show ?case using step_terminal by blast
qed simp

text \<open>
  A set of phases no edge leaves is never left: how "from here on the protocol cannot go back"
  facts are derived from the graph alone.
\<close>

lemma steps_closed:
  assumes run: "step\<^sup>*\<^sup>* s t" and start: "phase s \<in> C"
    and closed: "\<And>p q. p \<in> C \<Longrightarrow> edge p q \<Longrightarrow> q \<in> C"
  shows "phase t \<in> C"
  using run start
proof (induction rule: rtranclp_induct)
  case (step t u)
  then show ?case using step_edge [OF step.hyps(2)] closed by auto
qed simp

text \<open>
  Every run that enters a set of phases from outside passes one of its entry edges.
\<close>

lemma steps_enter:
  assumes run: "step\<^sup>*\<^sup>* s t" and out: "phase s \<notin> C" and into: "phase t \<in> C"
  obtains u v where "step\<^sup>*\<^sup>* s u" "step u v" "step\<^sup>*\<^sup>* v t"
    "phase u \<notin> C" "phase v \<in> C" "edge (phase u) (phase v)"
  using run into
proof (induction arbitrary: thesis rule: rtranclp_induct)
  case base
  with out show ?case by simp
next
  case (step t u)
  show ?case
  proof (cases "phase t \<in> C")
    case True
    from step.IH [OF _ True] step.hyps(2) show ?thesis
      by (metis step.prems(1) rtranclp.rtrancl_into_rtrancl)
  next
    case False
    moreover from this step.prems(2) have "phase u \<noteq> phase t" by auto
    ultimately show ?thesis
      using step.prems step.hyps step_edge [OF step.hyps(2)] by blast
  qed
qed

end

text \<open>
  A machine that also owns a thread id and a source id. The law: the source id never changes,
  and the thread id changes only on a step out of an \<open>open_phase\<close> (a phase in which the thread
  is not yet settled).
\<close>

locale threaded_machine = protocol_machine step phase edge terminal
  for step :: "'s \<Rightarrow> 's \<Rightarrow> bool"
    and phase :: "'s \<Rightarrow> 'p"
    and edge :: "'p \<Rightarrow> 'p \<Rightarrow> bool"
    and terminal :: "'p \<Rightarrow> bool" +
  fixes source :: "'s \<Rightarrow> string"
    and thread :: "'s \<Rightarrow> string"
    and open_phase :: "'p \<Rightarrow> bool"
  assumes step_source: "step s t \<Longrightarrow> source t = source s"
    and step_thread: "step s t \<Longrightarrow> \<not> open_phase (phase s) \<Longrightarrow> thread t = thread s"
    and open_not_entered: "step s t \<Longrightarrow> open_phase (phase t) \<Longrightarrow> open_phase (phase s)"
begin

lemma steps_source: "step\<^sup>*\<^sup>* s t \<Longrightarrow> source t = source s"
  by (induction rule: rtranclp_induct) (simp_all add: step_source)

lemma steps_settled: "step\<^sup>*\<^sup>* s t \<Longrightarrow> \<not> open_phase (phase s) \<Longrightarrow> \<not> open_phase (phase t)"
  by (induction rule: rtranclp_induct) (auto dest: open_not_entered)

lemma steps_thread: "step\<^sup>*\<^sup>* s t \<Longrightarrow> \<not> open_phase (phase s) \<Longrightarrow> thread t = thread s"
proof (induction rule: rtranclp_induct)
  case (step t u)
  from steps_settled [OF step.hyps(1) step.prems] step_thread [OF step.hyps(2)] step.IH step.prems
  show ?case by simp
qed simp

end

end
