(* ===== verification/Rust_Std.thy ===== *)
theory Rust_Std
  imports Vcx_Prelude "HOL-Library.Word"
begin

text \<open>
  The parts of Rust's standard library that the modelled code uses on strings and integers:
  \<open>str::parse\<close> and \<open>to_string\<close> of the unsigned types, \<open>str::split\<close>, \<open>str::rsplit_once\<close>,
  \<open>str::strip_prefix\<close> and \<open>String::from_utf8\<close>. A Rust string is
  modelled by its bytes, a \<open>string\<close>; \<open>u32\<close> is a 32-bit word.
\<close>

type_synonym u8 = "8 word"
type_synonym u32 = "32 word"
type_synonym u64 = "64 word"

section \<open>Decimal text of unsigned integers\<close>

definition digit_char :: "nat \<Rightarrow> char" where
  "digit_char d = char_of (48 + d)"

definition to_digit :: "char \<Rightarrow> nat option" where
  "to_digit c = (let n = of_char c in if 48 \<le> n \<and> n \<le> 57 then Some (n - 48) else None)"

text \<open>\<open>ToString\<close> of an unsigned integer: its decimal digits without leading zeros.\<close>

fun show_nat :: "nat \<Rightarrow> string" where
  "show_nat n = (if n < 10 then [digit_char n] else show_nat (n div 10) @ [digit_char (n mod 10)])"

declare show_nat.simps [simp del]

definition show_u32 :: "u32 \<Rightarrow> string" where
  "show_u32 w = show_nat (unat w)"

definition show_u64 :: "u64 \<Rightarrow> string" where
  "show_u64 w = show_nat (unat w)"

text \<open>
  \<open>u32::from_str\<close>: an optional sign \<open>+\<close>, then at least one digit. The loop multiplies before it
  looks at the digit and reports the bad digit first, as \<open>core::num\<close> does.
\<close>

datatype ParseIntError = PIE_Empty | PIE_InvalidDigit | PIE_PosOverflow

definition show_ParseIntError :: "ParseIntError \<Rightarrow> string" where
  "show_ParseIntError e = (case e of
     PIE_Empty \<Rightarrow> ''cannot parse integer from empty string''
   | PIE_InvalidDigit \<Rightarrow> ''invalid digit found in string''
   | PIE_PosOverflow \<Rightarrow> ''number too large to fit in target type'')"

fun parse_digits :: "nat \<Rightarrow> nat \<Rightarrow> string \<Rightarrow> (ParseIntError, nat) result" where
  "parse_digits bound acc [] = Ok acc"
| "parse_digits bound acc (c # cs) =
     (case to_digit c of
        None \<Rightarrow> Err PIE_InvalidDigit
      | Some d \<Rightarrow>
          if acc * 10 < bound \<and> acc * 10 + d < bound then parse_digits bound (acc * 10 + d) cs
          else Err PIE_PosOverflow)"

definition parse_unsigned :: "nat \<Rightarrow> string \<Rightarrow> (ParseIntError, nat) result" where
  "parse_unsigned bound s =
     (if s = [] then Err PIE_Empty
      else if s = ''+'' \<or> s = ''-'' then Err PIE_InvalidDigit
      else parse_digits bound 0 (if hd s = CHR ''+'' then tl s else s))"

definition parse_u32 :: "string \<Rightarrow> (ParseIntError, u32) result" where
  "parse_u32 s = map_ok word_of_nat (parse_unsigned (2 ^ 32) s)"

definition show_u8 :: "u8 \<Rightarrow> string" where
  "show_u8 w = show_nat (unat w)"

definition parse_u8 :: "string \<Rightarrow> (ParseIntError, u8) result" where
  "parse_u8 s = map_ok word_of_nat (parse_unsigned (2 ^ 8) s)"

subsection \<open>Digits\<close>

lemma of_char_digit_char: "d < 10 \<Longrightarrow> of_char (digit_char d) = (48 + d :: nat)"
  by (simp add: digit_char_def)

lemma to_digit_digit_char [simp]: "d < 10 \<Longrightarrow> to_digit (digit_char d) = Some d"
  by (simp add: to_digit_def of_char_digit_char Let_def)

lemma to_digit_less: "to_digit c = Some d \<Longrightarrow> d < 10"
  by (auto simp: to_digit_def Let_def split: if_splits)

lemma digit_char_to_digit: "to_digit c = Some d \<Longrightarrow> digit_char d = c"
  by (auto simp: to_digit_def digit_char_def Let_def split: if_splits)

lemma digit_char_neq [simp]:
  assumes "d < 10"
  shows "digit_char d \<noteq> CHR ''+''" "digit_char d \<noteq> CHR ''-''" "digit_char d \<noteq> CHR '':''"
  using to_digit_digit_char [OF assms] by (auto simp: to_digit_def)

lemma show_nat_digits: "c \<in> set (show_nat n) \<Longrightarrow> \<exists>d. to_digit c = Some d"
proof (induction n rule: show_nat.induct)
  case (1 n)
  show ?case
  proof (cases "n < 10")
    case True
    with "1.prems" show ?thesis by (simp add: show_nat.simps)
  next
    case False
    with "1.prems" show ?thesis
      by (auto simp: show_nat.simps [of n] dest: "1.IH")
  qed
qed

lemma show_nat_nonempty [simp]: "show_nat n \<noteq> []"
  by (subst show_nat.simps) simp

subsection \<open>Parsing what was printed\<close>

text \<open>The number a string of digits denotes, read from the left.\<close>

definition digits_value :: "nat \<Rightarrow> string \<Rightarrow> nat" where
  "digits_value = foldl (\<lambda>acc c. acc * 10 + the (to_digit c))"

lemma digits_value_simps [simp]:
  "digits_value acc [] = acc"
  "digits_value acc (c # cs) = digits_value (acc * 10 + the (to_digit c)) cs"
  "digits_value acc (cs @ ds) = digits_value (digits_value acc cs) ds"
  by (simp_all add: digits_value_def)

lemma digits_value_ge: "acc \<le> digits_value acc cs"
proof (induction cs arbitrary: acc)
  case (Cons c cs)
  have "acc \<le> acc * 10 + the (to_digit c)" by simp
  also have "\<dots> \<le> digits_value (acc * 10 + the (to_digit c)) cs" by (rule Cons.IH)
  finally show ?case by simp
qed simp

lemma digits_value_show_nat [simp]: "digits_value 0 (show_nat n) = n"
proof (induction n rule: show_nat.induct)
  case (1 n)
  then show ?case by (cases "n < 10") (simp_all add: show_nat.simps [of n])
qed

lemma parse_digits_Ok_iff:
  "parse_digits bound acc cs = Ok v \<longleftrightarrow>
     (\<forall>c \<in> set cs. to_digit c \<noteq> None) \<and> v = digits_value acc cs \<and> (cs \<noteq> [] \<longrightarrow> v < bound)"
proof (induction cs arbitrary: acc)
  case (Cons c cs)
  show ?case
  proof (cases "to_digit c")
    case (Some d)
    let ?a = "acc * 10 + d"
    have ge: "?a \<le> digits_value ?a cs" by (rule digits_value_ge)
    show ?thesis
    proof (cases "?a < bound")
      case True
      with Some Cons.IH [of ?a] show ?thesis by auto
    next
      case False
      with ge Some show ?thesis by auto
    qed
  qed simp
qed auto

lemma parse_unsigned_show_nat: "n < bound \<Longrightarrow> parse_unsigned bound (show_nat n) = Ok n"
proof -
  assume n: "n < bound"
  have digits: "\<forall>c \<in> set (show_nat n). to_digit c \<noteq> None"
    using show_nat_digits by fastforce
  have hd_digit: "to_digit (hd (show_nat n)) \<noteq> None"
    using digits by (simp add: hd_in_set)
  have not_sign: "to_digit CHR ''+'' = None" "to_digit CHR ''-'' = None"
    by (simp_all add: to_digit_def)
  have "hd (show_nat n) \<noteq> CHR ''+''" "show_nat n \<noteq> ''+''" "show_nat n \<noteq> ''-''"
    using hd_digit not_sign by (metis, metis list.sel(1), metis list.sel(1))
  with n digits show ?thesis
    by (simp add: parse_unsigned_def parse_digits_Ok_iff)
qed

lemma unat_u32_bound: "unat (w :: u32) < 2 ^ 32"
  using unsigned_less [of w] by simp

lemma parse_show_u32: "parse_u32 (show_u32 w) = Ok w"
proof -
  have "parse_unsigned (2 ^ 32) (show_nat (unat w)) = Ok (unat w)"
    by (rule parse_unsigned_show_nat) (rule unat_u32_bound)
  then show ?thesis by (simp add: parse_u32_def show_u32_def)
qed

lemma parse_show_u8: "parse_u8 (show_u8 w) = Ok w"
proof -
  have "parse_unsigned (2 ^ 8) (show_nat (unat w)) = Ok (unat w)"
    using unsigned_less [of w] by (intro parse_unsigned_show_nat) simp
  then show ?thesis by (simp add: parse_u8_def show_u8_def)
qed

text \<open>
  The interface between the printer and the parser of an integer type, and what follows from
  it alone: printing is injective, and printing a parsed text gives the canonical spelling.
\<close>

locale decimal_codec =
  fixes show_num :: "'n \<Rightarrow> string" and parse_num :: "string \<Rightarrow> ('e, 'n) result"
  assumes parse_show: "parse_num (show_num n) = Ok n"
begin

lemma show_inject: "show_num m = show_num n \<Longrightarrow> m = n"
  by (metis parse_show result.inject(1))

lemma canonical_idem: "parse_num s = Ok n \<Longrightarrow> parse_num (show_num n) = parse_num s"
  by (simp add: parse_show)

end

interpretation u32_text: decimal_codec show_u32 parse_u32
  by unfold_locales (rule parse_show_u32)

interpretation u8_text: decimal_codec show_u8 parse_u8
  by unfold_locales (rule parse_show_u8)

lemma show_nat_no_char: "to_digit c = None \<Longrightarrow> c \<notin> set (show_nat n)"
  using show_nat_digits by fastforce

section \<open>Prefixes and splitting at a character\<close>

definition starts_with :: "string \<Rightarrow> string \<Rightarrow> bool" where
  "starts_with s p \<longleftrightarrow> take (length p) s = p"

definition strip_prefix :: "string \<Rightarrow> string \<Rightarrow> string option" where
  "strip_prefix s p = (if starts_with s p then Some (drop (length p) s) else None)"

text \<open>\<open>s.split(c)\<close>: the parts between the separators, at least one.\<close>

fun split_char :: "char \<Rightarrow> string \<Rightarrow> string list" where
  "split_char c [] = [[]]"
| "split_char c (x # s) =
     (if x = c then [] # split_char c s
      else (case split_char c s of p # ps \<Rightarrow> (x # p) # ps | [] \<Rightarrow> [[x]]))"

text \<open>\<open>s.split_once(c)\<close> and \<open>s.rsplit_once(c)\<close>: around the first and the last separator.\<close>

fun split_once :: "char \<Rightarrow> string \<Rightarrow> (string \<times> string) option" where
  "split_once c [] = None"
| "split_once c (x # s) =
     (if x = c then Some ([], s)
      else (case split_once c s of Some (a, b) \<Rightarrow> Some (x # a, b) | None \<Rightarrow> None))"

fun rsplit_once :: "char \<Rightarrow> string \<Rightarrow> (string \<times> string) option" where
  "rsplit_once c [] = None"
| "rsplit_once c (x # s) =
     (case rsplit_once c s of
        Some (a, b) \<Rightarrow> Some (x # a, b)
      | None \<Rightarrow> if x = c then Some ([], s) else None)"

lemma starts_with_append [simp]: "starts_with (p @ s) p"
  by (simp add: starts_with_def)

lemma strip_prefix_append [simp]: "strip_prefix (p @ s) p = Some s"
  by (simp add: strip_prefix_def)

lemma strip_prefix_Some: "strip_prefix s p = Some r \<longleftrightarrow> s = p @ r"
  unfolding strip_prefix_def starts_with_def by (auto, metis append_take_drop_id)

lemma split_char_nonempty [simp]: "split_char c s \<noteq> []"
  by (induction s) (auto split: list.splits)

lemma split_char_none: "c \<notin> set s \<Longrightarrow> split_char c s = [s]"
  by (induction s) auto

lemma split_char_append: "c \<notin> set a \<Longrightarrow> split_char c (a @ c # s) = a # split_char c s"
  by (induction a) auto

lemma split_char_join:
  "concat (map (\<lambda>p. p @ [c]) (split_char c s)) = s @ [c]"
proof (induction s)
  case (Cons x s)
  then show ?case by (cases "split_char c s") auto
qed simp

lemma split_char_parts: "p \<in> set (split_char c s) \<Longrightarrow> c \<notin> set p"
proof (induction s arbitrary: p)
  case (Cons x s)
  then show ?case by (cases "split_char c s") (auto split: if_splits)
qed simp

lemma rsplit_once_None_iff: "rsplit_once c s = None \<longleftrightarrow> c \<notin> set s"
  by (induction s) (auto split: option.splits)

lemma rsplit_once_none: "c \<notin> set s \<Longrightarrow> rsplit_once c s = None"
  by (simp add: rsplit_once_None_iff)

lemma rsplit_once_append: "c \<notin> set b \<Longrightarrow> rsplit_once c (a @ c # b) = Some (a, b)"
  by (induction a) (auto simp: rsplit_once_none)

lemma rsplit_once_Some: "rsplit_once c s = Some (a, b) \<Longrightarrow> s = a @ c # b \<and> c \<notin> set b"
proof (induction s arbitrary: a)
  case (Cons x s)
  show ?case
  proof (cases "rsplit_once c s")
    case None
    with Cons.prems show ?thesis by (auto simp: rsplit_once_None_iff split: if_splits)
  next
    case (Some p)
    with Cons show ?thesis by (cases p) auto
  qed
qed simp

lemma split_once_Some: "split_once c s = Some (a, b) \<Longrightarrow> s = a @ c # b \<and> c \<notin> set a"
  by (induction s arbitrary: a) (auto split: if_splits option.splits)

lemma split_once_append: "c \<notin> set a \<Longrightarrow> split_once c (a @ c # b) = Some (a, b)"
  by (induction a) auto

section \<open>Splitting at a double colon\<close>

text \<open>\<open>s.split("::").collect::<Vec<&str>>()\<close>; the accumulator holds the current part reversed.\<close>

fun split_cc_from :: "string \<Rightarrow> string \<Rightarrow> string list" where
  "split_cc_from acc [] = [rev acc]"
| "split_cc_from acc [c] = [rev acc @ [c]]"
| "split_cc_from acc (a # b # r) =
     (if a = CHR '':'' \<and> b = CHR '':'' then rev acc # split_cc_from [] r
      else split_cc_from (a # acc) (b # r))"

definition split_cc :: "string \<Rightarrow> string list" where
  "split_cc s = split_cc_from [] s"

lemma split_cc_from_nonempty: "split_cc_from acc s \<noteq> []"
  by (induction acc s rule: split_cc_from.induct) auto

lemma split_cc_nonempty: "split_cc s \<noteq> []"
  by (simp add: split_cc_def split_cc_from_nonempty)

text \<open>The parts of a text that has no separator of its own, followed by the separator.\<close>

lemma split_cc_from_append:
  "length (split_cc_from acc r) = 1 \<Longrightarrow> r = [] \<or> last r \<noteq> CHR '':'' \<Longrightarrow>
     split_cc_from acc (r @ CHR '':'' # CHR '':'' # s) = (rev acc @ r) # split_cc_from [] s"
proof (induction acc r rule: split_cc_from.induct)
  case (3 acc a b r)
  then show ?case by (auto simp: split_cc_from_nonempty split: if_splits)
qed auto

lemma split_cc_append:
  assumes "length (split_cc r) = 1" and "r = [] \<or> last r \<noteq> CHR '':''"
  shows "split_cc (r @ ''::'' @ s) = r # split_cc s"
  using split_cc_from_append [of "[]" r s] assms by (simp add: split_cc_def)

lemma split_cc_from_no_colon: "CHR '':'' \<notin> set s \<Longrightarrow> split_cc_from acc s = [rev acc @ s]"
  by (induction acc s rule: split_cc_from.induct) auto

lemma split_cc_no_colon: "CHR '':'' \<notin> set s \<Longrightarrow> split_cc s = [s]"
  by (simp add: split_cc_def split_cc_from_no_colon)

lemma split_cc_show_u32: "split_cc (show_u32 w) = [show_u32 w]"
proof (rule split_cc_no_colon)
  have "to_digit CHR '':'' = None" by (simp add: to_digit_def)
  then show "CHR '':'' \<notin> set (show_u32 w)"
    using show_nat_digits [of "CHR '':''" "unat w"] by (auto simp: show_u32_def)
qed

section \<open>UTF-8\<close>

text \<open>
  \<open>String::from_utf8\<close> accepts exactly the well-formed UTF-8 byte sequences: the ranges of the
  first and second byte per length, overlong forms and surrogates excluded.
\<close>

definition in_range :: "nat \<Rightarrow> nat \<Rightarrow> char \<Rightarrow> bool" where
  "in_range lo hi c \<longleftrightarrow> lo \<le> of_char c \<and> of_char c \<le> hi"

abbreviation cont_byte :: "char \<Rightarrow> bool" where
  "cont_byte \<equiv> in_range 128 191"

fun utf8_valid :: "string \<Rightarrow> bool" where
  "utf8_valid [] = True"
| "utf8_valid (a # r) =
     (if in_range 0 127 a then utf8_valid r
      else if in_range 194 223 a then
        (case r of b # r' \<Rightarrow> cont_byte b \<and> utf8_valid r' | [] \<Rightarrow> False)
      else if in_range 224 239 a then
        (case r of b # c # r' \<Rightarrow>
           in_range (if a = CHR 0xE0 then 160 else 128) (if a = CHR 0xED then 159 else 191) b
           \<and> cont_byte c \<and> utf8_valid r'
         | _ \<Rightarrow> False)
      else if in_range 240 244 a then
        (case r of b # c # d # r' \<Rightarrow>
           in_range (if a = CHR 0xF0 then 144 else 128) (if a = CHR 0xF4 then 143 else 191) b
           \<and> cont_byte c \<and> cont_byte d \<and> utf8_valid r'
         | _ \<Rightarrow> False)
      else False)"

definition from_utf8 :: "string \<Rightarrow> string option" where
  "from_utf8 bytes = (if utf8_valid bytes then Some bytes else None)"

lemma utf8_valid_ascii: "\<forall>c \<in> set s. of_char c \<le> (127 :: nat) \<Longrightarrow> utf8_valid s"
  by (induction s) (auto simp: in_range_def)

declare utf8_valid.simps [simp del]

end
