(* ===== verification/Json.thy ===== *)
theory Json
  imports Rust_Std "HOL-Library.List_Lexorder" "HOL-Library.Char_ord"
begin

text \<open>
  JSON values as the code sees them: the public enum \<open>serde_json::Value\<close>, whose constructors the
  sources match on, with the accessors they call. Its object type is an ordered map (the
  \<open>preserve_order\<close> feature is off), modelled by an association list in key order. Parsing and
  printing text are code of the \<open>serde_json\<close> crate and stay parameters of the operations that
  use them. The theory also states the interface of a key-value store and the loop that fetches
  every missing key once, which the proof components share.
\<close>

section \<open>Ordered maps\<close>

text \<open>\<open>BTreeMap::insert\<close> on the key-sorted list of its entries.\<close>

fun btree_insert :: "'k :: linorder \<Rightarrow> 'v \<Rightarrow> ('k \<times> 'v) list \<Rightarrow> ('k \<times> 'v) list" where
  "btree_insert k v [] = [(k, v)]"
| "btree_insert k v ((k', v') # m) =
     (if k = k' then (k, v) # m
      else if k < k' then (k, v) # (k', v') # m
      else (k', v') # btree_insert k v m)"

definition btree_ok :: "('k :: linorder \<times> 'v) list \<Rightarrow> bool" where
  "btree_ok m \<longleftrightarrow> sorted_wrt (<) (map fst m)"

lemma btree_ok_Nil [simp]: "btree_ok []"
  by (simp add: btree_ok_def)

lemma map_of_btree_insert [simp]: "map_of (btree_insert k v m) = (map_of m)(k \<mapsto> v)"
  by (induction k v m rule: btree_insert.induct) auto

lemma fst_btree_insert: "fst ` set (btree_insert k v m) = insert k (fst ` set m)"
  by (induction k v m rule: btree_insert.induct) auto

lemma btree_ok_insert: "btree_ok m \<Longrightarrow> btree_ok (btree_insert k v m)"
proof (induction k v m rule: btree_insert.induct)
  case (2 k v k' v' m)
  then show ?case
    by (auto simp: btree_ok_def fst_btree_insert set_map [symmetric] simp del: set_map)
      (auto simp: fst_btree_insert)
qed (simp add: btree_ok_def)

section \<open>JSON values\<close>

datatype json_number = PosInt u64 | NegInt u64 | Float string

datatype json =
    JNull
  | JBool bool
  | JNumber json_number
  | JString string
  | JArray "json list"
  | JObject "(string \<times> json) list"

text \<open>\<open>Value::get\<close>, \<open>Index\<close> by a string (\<open>Null\<close> where there is no such member) and the \<open>as_*\<close> views.\<close>

fun json_get :: "json \<Rightarrow> string \<Rightarrow> json option" where
  "json_get (JObject m) k = map_of m k"
| "json_get _ k = None"

definition json_index :: "json \<Rightarrow> string \<Rightarrow> json" where
  "json_index v k = (case json_get v k of Some x \<Rightarrow> x | None \<Rightarrow> JNull)"

fun as_str :: "json \<Rightarrow> string option" where
  "as_str (JString s) = Some s"
| "as_str _ = None"

fun as_object :: "json \<Rightarrow> (string \<times> json) list option" where
  "as_object (JObject m) = Some m"
| "as_object _ = None"

fun as_u64 :: "json \<Rightarrow> u64 option" where
  "as_u64 (JNumber (PosInt n)) = Some n"
| "as_u64 _ = None"

definition json_is_null :: "json \<Rightarrow> bool" where
  "json_is_null v \<longleftrightarrow> v = JNull"

text \<open>
  \<open>Index\<close> on \<open>serde_json::Map\<close> itself, unlike the one on \<open>Value\<close>, panics on a missing key.
\<close>

definition map_index :: "(string \<times> json) list \<Rightarrow> string \<Rightarrow> ('e, json) result" where
  "map_index m k = (case map_of m k of Some x \<Rightarrow> Ok x | None \<Rightarrow> Panic)"

text \<open>\<open>value[key] = x\<close>: inserts into an object, turns \<open>Null\<close> into an object, panics otherwise.\<close>

fun json_set :: "json \<Rightarrow> string \<Rightarrow> json \<Rightarrow> ('e, json) result" where
  "json_set (JObject m) k x = Ok (JObject (btree_insert k x m))"
| "json_set JNull k x = Ok (JObject [(k, x)])"
| "json_set _ k x = Panic"

section \<open>Key-value stores and fetching what is missing\<close>

text \<open>
  \<open>for x in xs \{ if !store.contains_key(key(x)) \{ store.insert(key(x), fetch(x)?); \} \}\<close>
\<close>

definition fetch_missing ::
  "('m \<Rightarrow> 'k \<Rightarrow> 'v option) \<Rightarrow> ('k \<Rightarrow> 'v \<Rightarrow> 'm \<Rightarrow> 'm) \<Rightarrow> ('a \<Rightarrow> 'k) \<Rightarrow> ('a \<Rightarrow> ('e, 'v) result) \<Rightarrow>
   'm \<Rightarrow> 'a list \<Rightarrow> ('e, 'm) result" where
  "fetch_missing lookup ins key fetch =
     try_fold (\<lambda>m x. if lookup m (key x) = None
                     then and_then (fetch x) (\<lambda>v. Ok (ins (key x) v m))
                     else Ok m)"

text \<open>
  The contract of a store, and what the loop guarantees over any store that keeps it: the keys
  of the result are the old keys and those of the list, old entries are untouched, and every new
  entry is the value fetched for the first element with that key.
\<close>

locale key_store =
  fixes empty :: "'m"
    and lookup :: "'m \<Rightarrow> 'k \<Rightarrow> 'v option"
    and ins :: "'k \<Rightarrow> 'v \<Rightarrow> 'm \<Rightarrow> 'm"
  assumes lookup_empty: "lookup empty = Map.empty"
    and lookup_ins: "lookup (ins k v m) = (lookup m)(k \<mapsto> v)"
begin

lemma fetch_missing_Nil: "fetch_missing lookup ins key fetch m [] = Ok m"
  by (simp add: fetch_missing_def)

lemma fetch_missing_Cons:
  "fetch_missing lookup ins key fetch m (x # xs) =
     (if lookup m (key x) = None
      then and_then (fetch x) (\<lambda>v. fetch_missing lookup ins key fetch (ins (key x) v m) xs)
      else fetch_missing lookup ins key fetch m xs)"
  by (cases "fetch x") (simp_all add: fetch_missing_def)

lemma fetch_missing_keys:
  "fetch_missing lookup ins key fetch m xs = Ok m' \<Longrightarrow>
     dom (lookup m') = dom (lookup m) \<union> key ` set xs"
proof (induction xs arbitrary: m)
  case (Cons x xs)
  then show ?case
    by (cases "lookup m (key x) = None")
      (fastforce simp: fetch_missing_Cons lookup_ins, auto simp: fetch_missing_Cons)
qed (simp add: fetch_missing_Nil)

lemma fetch_missing_old:
  "fetch_missing lookup ins key fetch m xs = Ok m' \<Longrightarrow> lookup m k = Some v \<Longrightarrow> lookup m' k = Some v"
proof (induction xs arbitrary: m)
  case (Cons x xs)
  show ?case
  proof (cases "lookup m (key x) = None")
    case True
    with Cons.prems(1) obtain u where
      "fetch_missing lookup ins key fetch (ins (key x) u m) xs = Ok m'"
      by (auto simp: fetch_missing_Cons)
    from Cons.IH [OF this] True Cons.prems(2) show ?thesis
      by (cases "k = key x") (simp_all add: lookup_ins)
  next
    case False
    with Cons show ?thesis by (simp add: fetch_missing_Cons)
  qed
qed (simp add: fetch_missing_Nil)

lemma fetch_missing_value:
  assumes "fetch_missing lookup ins key fetch m xs = Ok m'" and "lookup m k = None"
    and "lookup m' k = Some v"
  shows "\<exists>x \<in> set xs. key x = k \<and> fetch x = Ok v"
  using assms
proof (induction xs arbitrary: m)
  case (Cons x xs)
  show ?case
  proof (cases "lookup m (key x) = None")
    case True
    with Cons.prems(1) obtain u where u: "fetch x = Ok u"
      "fetch_missing lookup ins key fetch (ins (key x) u m) xs = Ok m'"
      by (auto simp: fetch_missing_Cons)
    show ?thesis
    proof (cases "k = key x")
      case True
      with fetch_missing_old [OF u(2), of k u] Cons.prems(3) u(1) show ?thesis
        by (simp add: lookup_ins)
    next
      case False
      with Cons.IH [OF u(2)] Cons.prems show ?thesis by (auto simp: lookup_ins)
    qed
  next
    case False
    with Cons show ?thesis by (auto simp: fetch_missing_Cons)
  qed
qed (simp add: fetch_missing_Nil)

text \<open>
  Starting from the empty store: every key of the list is served, by a fetch for that key.
\<close>

lemma fetch_all_serves:
  assumes "fetch_missing lookup ins key fetch empty xs = Ok m'" and "x \<in> set xs"
  shows "\<exists>y \<in> set xs. key y = key x \<and> (\<exists>v. fetch y = Ok v \<and> lookup m' (key x) = Some v)"
proof -
  from fetch_missing_keys [OF assms(1)] assms(2) obtain v where v: "lookup m' (key x) = Some v"
    by (auto simp: lookup_empty)
  with fetch_missing_value [OF assms(1) _ v] show ?thesis by (auto simp: lookup_empty)
qed

end

text \<open>\<open>HashMap\<close>, as a HOL map, and the members of a JSON object are such stores.\<close>

definition hash_insert :: "'k \<Rightarrow> 'v \<Rightarrow> ('k \<rightharpoonup> 'v) \<Rightarrow> ('k \<rightharpoonup> 'v)" where
  "hash_insert k v m = m(k \<mapsto> v)"

interpretation hash_map: key_store Map.empty "\<lambda>m. m" hash_insert
  by unfold_locales (simp_all add: hash_insert_def)

interpretation btree_map: key_store "[]" map_of btree_insert
  by unfold_locales simp_all

end
