(* ===== verification/Msg_Types.thy ===== *)
theory Msg_Types
  imports Json
begin

text \<open>
  The types of messages (\<open>messages/src/msg_types\<close>): protocols with their major and minor versions,
  the kinds of messages each version has, the registry of the supported versions, and the text
  form \<open>prefix/protocol/major.minor/kind\<close> of the \<open>@type\<close> field with its parser. What the derive
  macro \<open>MessageType\<close> of the crate \<open>messages_macros\<close> generates for every protocol is written once,
  as a function of the match arms it collects. \<open>MsgKindType\<close> is a marker without data, so a
  minor version is a constant.
\<close>

datatype ('t, 'u) MaybeKnown = Known 't | Unknown 'u

datatype Role =
    Role_Inviter | Role_Invitee | Role_Issuer | Role_Holder | Role_Prover | Role_Verifier
  | Role_Sender | Role_Receiver | Role_Requester | Role_Responder | Role_Notified | Role_Notifier
  | Role_Mediator | Role_Recipient

datatype MsgTypeError =
    UnknownPrefix string
  | UnknownMsgKind string
  | UnsupportedMinorVer u8
  | UnsupportedMajorVer u8
  | UnknownProtocol string
  | InvalidVersion ParseIntError
  | PartNotFound string

type_synonym 'a MsgTypeResult = "(MsgTypeError, 'a) result"

fun show_MsgTypeError :: "MsgTypeError \<Rightarrow> string" where
  "show_MsgTypeError (UnknownPrefix s) = ''Unknown message type prefix: '' @ s"
| "show_MsgTypeError (UnknownMsgKind s) = ''Unknown message kind: '' @ s"
| "show_MsgTypeError (UnsupportedMinorVer v) = ''Unsupported protocol minor version: '' @ show_u8 v"
| "show_MsgTypeError (UnsupportedMajorVer v) = ''Unsupported protocol major version: '' @ show_u8 v"
| "show_MsgTypeError (UnknownProtocol s) = ''Unknown protocol name: '' @ s"
| "show_MsgTypeError (InvalidVersion e) = ''Error parsing version: '' @ show_ParseIntError e"
| "show_MsgTypeError (PartNotFound s) = ''No '' @ s @ '' found in the message type''"

section \<open>Protocols and versions\<close>

datatype RoutingTypeV1 = RoutingV1_0
datatype RoutingType = RoutingType_V1 RoutingTypeV1

datatype ConnectionTypeV1 = ConnectionV1_0
datatype ConnectionType = ConnectionType_V1 ConnectionTypeV1

datatype SignatureTypeV1 = SignatureV1_0
datatype SignatureType = SignatureType_V1 SignatureTypeV1

datatype RevocationTypeV2 = RevocationV2_0
datatype RevocationType = RevocationType_V2 RevocationTypeV2

datatype CredentialIssuanceTypeV1 = CredentialIssuanceV1_0
datatype CredentialIssuanceTypeV2 = CredentialIssuanceV2_0
datatype CredentialIssuanceType = CredentialIssuanceType_V1 CredentialIssuanceTypeV1 | CredentialIssuanceType_V2 CredentialIssuanceTypeV2

datatype ReportProblemTypeV1 = ReportProblemV1_0
datatype ReportProblemType = ReportProblemType_V1 ReportProblemTypeV1

datatype PresentProofTypeV1 = PresentProofV1_0
datatype PresentProofTypeV2 = PresentProofV2_0
datatype PresentProofType = PresentProofType_V1 PresentProofTypeV1 | PresentProofType_V2 PresentProofTypeV2

datatype TrustPingTypeV1 = TrustPingV1_0
datatype TrustPingType = TrustPingType_V1 TrustPingTypeV1

datatype DiscoverFeaturesTypeV1 = DiscoverFeaturesV1_0
datatype DiscoverFeaturesType = DiscoverFeaturesType_V1 DiscoverFeaturesTypeV1

datatype BasicMessageTypeV1 = BasicMessageV1_0
datatype BasicMessageType = BasicMessageType_V1 BasicMessageTypeV1

datatype OutOfBandTypeV1 = OutOfBandV1_1
datatype OutOfBandType = OutOfBandType_V1 OutOfBandTypeV1

datatype NotificationTypeV1 = NotificationV1_0
datatype NotificationType = NotificationType_V1 NotificationTypeV1

datatype PickupTypeV2 = PickupV2_0
datatype PickupType = PickupType_V2 PickupTypeV2

datatype CoordinateMediationTypeV1 = CoordinateMediationV1_0
datatype CoordinateMediationType = CoordinateMediationType_V1 CoordinateMediationTypeV1

datatype DidExchangeTypeV1 = DidExchangeV1_1 | DidExchangeV1_0
datatype DidExchangeType = DidExchangeType_V1 DidExchangeTypeV1

datatype Protocol =
    RoutingType RoutingType
  | ConnectionType ConnectionType
  | SignatureType SignatureType
  | RevocationType RevocationType
  | CredentialIssuanceType CredentialIssuanceType
  | ReportProblemType ReportProblemType
  | PresentProofType PresentProofType
  | TrustPingType TrustPingType
  | DiscoverFeaturesType DiscoverFeaturesType
  | BasicMessageType BasicMessageType
  | OutOfBandType OutOfBandType
  | NotificationType NotificationType
  | PickupType PickupType
  | CoordinateMediationType CoordinateMediationType
  | DidExchangeType DidExchangeType

text \<open>
  The generated \<open>as_version_parts\<close> (here only the minor version; the major one is the constant
  \<open>MAJOR\<close> of the enum) and \<open>roles\<close>, one arm per variant.
\<close>

fun RoutingTypeV1_minor :: "RoutingTypeV1 \<Rightarrow> u8" where
  "RoutingTypeV1_minor RoutingV1_0 = 0"

fun RoutingTypeV1_roles :: "RoutingTypeV1 \<Rightarrow> Role list" where
  "RoutingTypeV1_roles RoutingV1_0 = [Role_Mediator]"

fun ConnectionTypeV1_minor :: "ConnectionTypeV1 \<Rightarrow> u8" where
  "ConnectionTypeV1_minor ConnectionV1_0 = 0"

fun ConnectionTypeV1_roles :: "ConnectionTypeV1 \<Rightarrow> Role list" where
  "ConnectionTypeV1_roles ConnectionV1_0 = [Role_Inviter, Role_Invitee]"

fun SignatureTypeV1_minor :: "SignatureTypeV1 \<Rightarrow> u8" where
  "SignatureTypeV1_minor SignatureV1_0 = 0"

fun SignatureTypeV1_roles :: "SignatureTypeV1 \<Rightarrow> Role list" where
  "SignatureTypeV1_roles SignatureV1_0 = []"

fun RevocationTypeV2_minor :: "RevocationTypeV2 \<Rightarrow> u8" where
  "RevocationTypeV2_minor RevocationV2_0 = 0"

fun RevocationTypeV2_roles :: "RevocationTypeV2 \<Rightarrow> Role list" where
  "RevocationTypeV2_roles RevocationV2_0 = [Role_Holder, Role_Issuer]"

fun CredentialIssuanceTypeV1_minor :: "CredentialIssuanceTypeV1 \<Rightarrow> u8" where
  "CredentialIssuanceTypeV1_minor CredentialIssuanceV1_0 = 0"

fun CredentialIssuanceTypeV1_roles :: "CredentialIssuanceTypeV1 \<Rightarrow> Role list" where
  "CredentialIssuanceTypeV1_roles CredentialIssuanceV1_0 = [Role_Holder, Role_Issuer]"

fun CredentialIssuanceTypeV2_minor :: "CredentialIssuanceTypeV2 \<Rightarrow> u8" where
  "CredentialIssuanceTypeV2_minor CredentialIssuanceV2_0 = 0"

fun CredentialIssuanceTypeV2_roles :: "CredentialIssuanceTypeV2 \<Rightarrow> Role list" where
  "CredentialIssuanceTypeV2_roles CredentialIssuanceV2_0 = [Role_Holder, Role_Issuer]"

fun ReportProblemTypeV1_minor :: "ReportProblemTypeV1 \<Rightarrow> u8" where
  "ReportProblemTypeV1_minor ReportProblemV1_0 = 0"

fun ReportProblemTypeV1_roles :: "ReportProblemTypeV1 \<Rightarrow> Role list" where
  "ReportProblemTypeV1_roles ReportProblemV1_0 = [Role_Notified, Role_Notifier]"

fun PresentProofTypeV1_minor :: "PresentProofTypeV1 \<Rightarrow> u8" where
  "PresentProofTypeV1_minor PresentProofV1_0 = 0"

fun PresentProofTypeV1_roles :: "PresentProofTypeV1 \<Rightarrow> Role list" where
  "PresentProofTypeV1_roles PresentProofV1_0 = [Role_Prover, Role_Verifier]"

fun PresentProofTypeV2_minor :: "PresentProofTypeV2 \<Rightarrow> u8" where
  "PresentProofTypeV2_minor PresentProofV2_0 = 0"

fun PresentProofTypeV2_roles :: "PresentProofTypeV2 \<Rightarrow> Role list" where
  "PresentProofTypeV2_roles PresentProofV2_0 = [Role_Prover, Role_Verifier]"

fun TrustPingTypeV1_minor :: "TrustPingTypeV1 \<Rightarrow> u8" where
  "TrustPingTypeV1_minor TrustPingV1_0 = 0"

fun TrustPingTypeV1_roles :: "TrustPingTypeV1 \<Rightarrow> Role list" where
  "TrustPingTypeV1_roles TrustPingV1_0 = [Role_Sender, Role_Receiver]"

fun DiscoverFeaturesTypeV1_minor :: "DiscoverFeaturesTypeV1 \<Rightarrow> u8" where
  "DiscoverFeaturesTypeV1_minor DiscoverFeaturesV1_0 = 0"

fun DiscoverFeaturesTypeV1_roles :: "DiscoverFeaturesTypeV1 \<Rightarrow> Role list" where
  "DiscoverFeaturesTypeV1_roles DiscoverFeaturesV1_0 = [Role_Requester, Role_Responder]"

fun BasicMessageTypeV1_minor :: "BasicMessageTypeV1 \<Rightarrow> u8" where
  "BasicMessageTypeV1_minor BasicMessageV1_0 = 0"

fun BasicMessageTypeV1_roles :: "BasicMessageTypeV1 \<Rightarrow> Role list" where
  "BasicMessageTypeV1_roles BasicMessageV1_0 = [Role_Receiver, Role_Sender]"

fun OutOfBandTypeV1_minor :: "OutOfBandTypeV1 \<Rightarrow> u8" where
  "OutOfBandTypeV1_minor OutOfBandV1_1 = 1"

fun OutOfBandTypeV1_roles :: "OutOfBandTypeV1 \<Rightarrow> Role list" where
  "OutOfBandTypeV1_roles OutOfBandV1_1 = [Role_Receiver, Role_Sender]"

fun NotificationTypeV1_minor :: "NotificationTypeV1 \<Rightarrow> u8" where
  "NotificationTypeV1_minor NotificationV1_0 = 0"

fun NotificationTypeV1_roles :: "NotificationTypeV1 \<Rightarrow> Role list" where
  "NotificationTypeV1_roles NotificationV1_0 = [Role_Notified, Role_Notifier]"

fun PickupTypeV2_minor :: "PickupTypeV2 \<Rightarrow> u8" where
  "PickupTypeV2_minor PickupV2_0 = 0"

fun PickupTypeV2_roles :: "PickupTypeV2 \<Rightarrow> Role list" where
  "PickupTypeV2_roles PickupV2_0 = [Role_Mediator, Role_Recipient]"

fun CoordinateMediationTypeV1_minor :: "CoordinateMediationTypeV1 \<Rightarrow> u8" where
  "CoordinateMediationTypeV1_minor CoordinateMediationV1_0 = 0"

fun CoordinateMediationTypeV1_roles :: "CoordinateMediationTypeV1 \<Rightarrow> Role list" where
  "CoordinateMediationTypeV1_roles CoordinateMediationV1_0 = [Role_Mediator, Role_Recipient]"

fun DidExchangeTypeV1_minor :: "DidExchangeTypeV1 \<Rightarrow> u8" where
  "DidExchangeTypeV1_minor DidExchangeV1_1 = 1"
| "DidExchangeTypeV1_minor DidExchangeV1_0 = 0"

fun DidExchangeTypeV1_roles :: "DidExchangeTypeV1 \<Rightarrow> Role list" where
  "DidExchangeTypeV1_roles DidExchangeV1_1 = [Role_Requester, Role_Responder]"
| "DidExchangeTypeV1_roles DidExchangeV1_0 = [Role_Requester, Role_Responder]"

text \<open>The generated \<open>as_protocol_parts\<close>, with the name given to the macro.\<close>

fun RoutingType_parts :: "RoutingType \<Rightarrow> string \<times> u8 \<times> u8" where
  "RoutingType_parts (RoutingType_V1 v) = (''routing'', 1, RoutingTypeV1_minor v)"

fun ConnectionType_parts :: "ConnectionType \<Rightarrow> string \<times> u8 \<times> u8" where
  "ConnectionType_parts (ConnectionType_V1 v) = (''connections'', 1, ConnectionTypeV1_minor v)"

fun SignatureType_parts :: "SignatureType \<Rightarrow> string \<times> u8 \<times> u8" where
  "SignatureType_parts (SignatureType_V1 v) = (''signature'', 1, SignatureTypeV1_minor v)"

fun RevocationType_parts :: "RevocationType \<Rightarrow> string \<times> u8 \<times> u8" where
  "RevocationType_parts (RevocationType_V2 v) = (''revocation_notification'', 2, RevocationTypeV2_minor v)"

fun CredentialIssuanceType_parts :: "CredentialIssuanceType \<Rightarrow> string \<times> u8 \<times> u8" where
  "CredentialIssuanceType_parts (CredentialIssuanceType_V1 v) = (''issue-credential'', 1, CredentialIssuanceTypeV1_minor v)"
| "CredentialIssuanceType_parts (CredentialIssuanceType_V2 v) = (''issue-credential'', 2, CredentialIssuanceTypeV2_minor v)"

fun ReportProblemType_parts :: "ReportProblemType \<Rightarrow> string \<times> u8 \<times> u8" where
  "ReportProblemType_parts (ReportProblemType_V1 v) = (''report-problem'', 1, ReportProblemTypeV1_minor v)"

fun PresentProofType_parts :: "PresentProofType \<Rightarrow> string \<times> u8 \<times> u8" where
  "PresentProofType_parts (PresentProofType_V1 v) = (''present-proof'', 1, PresentProofTypeV1_minor v)"
| "PresentProofType_parts (PresentProofType_V2 v) = (''present-proof'', 2, PresentProofTypeV2_minor v)"

fun TrustPingType_parts :: "TrustPingType \<Rightarrow> string \<times> u8 \<times> u8" where
  "TrustPingType_parts (TrustPingType_V1 v) = (''trust_ping'', 1, TrustPingTypeV1_minor v)"

fun DiscoverFeaturesType_parts :: "DiscoverFeaturesType \<Rightarrow> string \<times> u8 \<times> u8" where
  "DiscoverFeaturesType_parts (DiscoverFeaturesType_V1 v) = (''discover-features'', 1, DiscoverFeaturesTypeV1_minor v)"

fun BasicMessageType_parts :: "BasicMessageType \<Rightarrow> string \<times> u8 \<times> u8" where
  "BasicMessageType_parts (BasicMessageType_V1 v) = (''basicmessage'', 1, BasicMessageTypeV1_minor v)"

fun OutOfBandType_parts :: "OutOfBandType \<Rightarrow> string \<times> u8 \<times> u8" where
  "OutOfBandType_parts (OutOfBandType_V1 v) = (''out-of-band'', 1, OutOfBandTypeV1_minor v)"

fun NotificationType_parts :: "NotificationType \<Rightarrow> string \<times> u8 \<times> u8" where
  "NotificationType_parts (NotificationType_V1 v) = (''notification'', 1, NotificationTypeV1_minor v)"

fun PickupType_parts :: "PickupType \<Rightarrow> string \<times> u8 \<times> u8" where
  "PickupType_parts (PickupType_V2 v) = (''messagepickup'', 2, PickupTypeV2_minor v)"

fun CoordinateMediationType_parts :: "CoordinateMediationType \<Rightarrow> string \<times> u8 \<times> u8" where
  "CoordinateMediationType_parts (CoordinateMediationType_V1 v) = (''coordinate-mediation'', 1, CoordinateMediationTypeV1_minor v)"

fun DidExchangeType_parts :: "DidExchangeType \<Rightarrow> string \<times> u8 \<times> u8" where
  "DidExchangeType_parts (DidExchangeType_V1 v) = (''didexchange'', 1, DidExchangeTypeV1_minor v)"

fun as_parts :: "Protocol \<Rightarrow> string \<times> u8 \<times> u8" where
  "as_parts (RoutingType v) = RoutingType_parts v"
| "as_parts (ConnectionType v) = ConnectionType_parts v"
| "as_parts (SignatureType v) = SignatureType_parts v"
| "as_parts (RevocationType v) = RevocationType_parts v"
| "as_parts (CredentialIssuanceType v) = CredentialIssuanceType_parts v"
| "as_parts (ReportProblemType v) = ReportProblemType_parts v"
| "as_parts (PresentProofType v) = PresentProofType_parts v"
| "as_parts (TrustPingType v) = TrustPingType_parts v"
| "as_parts (DiscoverFeaturesType v) = DiscoverFeaturesType_parts v"
| "as_parts (BasicMessageType v) = BasicMessageType_parts v"
| "as_parts (OutOfBandType v) = OutOfBandType_parts v"
| "as_parts (NotificationType v) = NotificationType_parts v"
| "as_parts (PickupType v) = PickupType_parts v"
| "as_parts (CoordinateMediationType v) = CoordinateMediationType_parts v"
| "as_parts (DidExchangeType v) = DidExchangeType_parts v"

section \<open>The registry\<close>

record RegistryEntry =
  re_protocol :: Protocol
  re_minor :: u8
  re_str_pid :: string
  re_roles :: "(Role, string) MaybeKnown list"

type_synonym RegistryMap = "((string \<times> u8) \<times> RegistryEntry list) list"

definition DID_COM_ORG_PREFIX :: string where
  "DID_COM_ORG_PREFIX = ''https://didcomm.org''"

definition DID_SOV_PREFIX :: string where
  "DID_SOV_PREFIX = ''did:sov:BzCbsNYhMrjHiqZDTUASHg;spec''"

text \<open>\<open>map.entry(k).or_default().push(e)\<close> on the entries of the map.\<close>

fun entry_push :: "'k \<Rightarrow> 'e \<Rightarrow> ('k \<times> 'e list) list \<Rightarrow> ('k \<times> 'e list) list" where
  "entry_push k e [] = [(k, [e])]"
| "entry_push k e ((k', es) # m) =
     (if k' = k then (k', es @ [e]) # m else (k', es) # entry_push k e m)"

text \<open>\<open>extract_parts!\<close> and \<open>map_insert\<close>.\<close>

definition map_insert :: "RegistryMap \<Rightarrow> Protocol \<times> Role list \<Rightarrow> RegistryMap" where
  "map_insert m = (\<lambda>(protocol, roles).
     case as_parts protocol of (name, major, minor) \<Rightarrow>
       entry_push (name, major)
         \<lparr>re_protocol = protocol, re_minor = minor,
          re_str_pid = DID_COM_ORG_PREFIX @ ''/'' @ name @ ''/'' @ show_u8 major @ ''.'' @ show_u8 minor,
          re_roles = map Known roles\<rparr> m)"

definition registered :: "(Protocol \<times> Role list) list" where
  "registered =
    [(RoutingType (RoutingType_V1 RoutingV1_0), RoutingTypeV1_roles RoutingV1_0),
     (BasicMessageType (BasicMessageType_V1 BasicMessageV1_0), BasicMessageTypeV1_roles BasicMessageV1_0),
     (ConnectionType (ConnectionType_V1 ConnectionV1_0), ConnectionTypeV1_roles ConnectionV1_0),
     (SignatureType (SignatureType_V1 SignatureV1_0), SignatureTypeV1_roles SignatureV1_0),
     (CredentialIssuanceType (CredentialIssuanceType_V1 CredentialIssuanceV1_0), CredentialIssuanceTypeV1_roles CredentialIssuanceV1_0),
     (CredentialIssuanceType (CredentialIssuanceType_V2 CredentialIssuanceV2_0), CredentialIssuanceTypeV2_roles CredentialIssuanceV2_0),
     (DiscoverFeaturesType (DiscoverFeaturesType_V1 DiscoverFeaturesV1_0), DiscoverFeaturesTypeV1_roles DiscoverFeaturesV1_0),
     (NotificationType (NotificationType_V1 NotificationV1_0), NotificationTypeV1_roles NotificationV1_0),
     (OutOfBandType (OutOfBandType_V1 OutOfBandV1_1), OutOfBandTypeV1_roles OutOfBandV1_1),
     (PresentProofType (PresentProofType_V1 PresentProofV1_0), PresentProofTypeV1_roles PresentProofV1_0),
     (PresentProofType (PresentProofType_V2 PresentProofV2_0), PresentProofTypeV2_roles PresentProofV2_0),
     (ReportProblemType (ReportProblemType_V1 ReportProblemV1_0), ReportProblemTypeV1_roles ReportProblemV1_0),
     (RevocationType (RevocationType_V2 RevocationV2_0), RevocationTypeV2_roles RevocationV2_0),
     (TrustPingType (TrustPingType_V1 TrustPingV1_0), TrustPingTypeV1_roles TrustPingV1_0),
     (PickupType (PickupType_V2 PickupV2_0), PickupTypeV2_roles PickupV2_0),
     (CoordinateMediationType (CoordinateMediationType_V1 CoordinateMediationV1_0), CoordinateMediationTypeV1_roles CoordinateMediationV1_0),
     (DidExchangeType (DidExchangeType_V1 DidExchangeV1_0), DidExchangeTypeV1_roles DidExchangeV1_0),
     (DidExchangeType (DidExchangeType_V1 DidExchangeV1_1), DidExchangeTypeV1_roles DidExchangeV1_1)]"

definition PROTOCOL_REGISTRY :: RegistryMap where
  "PROTOCOL_REGISTRY = foldl map_insert [] registered"

definition get_supported_version :: "string \<Rightarrow> u8 \<Rightarrow> u8 \<Rightarrow> u8 option" where
  "get_supported_version name major minor =
     Option.bind (map_of PROTOCOL_REGISTRY (name, major))
       (\<lambda>v. find (\<lambda>x. x \<le> minor) (map re_minor (rev v)))"

section \<open>From parts and text to a protocol\<close>

text \<open>The generated \<open>try_resolve_version\<close>, given the arms of its match.\<close>

definition try_resolve_version ::
  "(u8 \<times> 'v) list \<Rightarrow> string \<Rightarrow> u8 \<Rightarrow> u8 \<Rightarrow> 'v MsgTypeResult" where
  "try_resolve_version arms protocol major minor =
     (case get_supported_version protocol major minor of
        None \<Rightarrow> Err (UnsupportedMinorVer minor)
      | Some m \<Rightarrow> (case map_of arms m of
            Some v \<Rightarrow> Ok v
          | None \<Rightarrow> Err (UnsupportedMinorVer m)))"

text \<open>The generated \<open>try_from_version_parts\<close> of each protocol.\<close>

definition RoutingType_try_from :: "u8 \<Rightarrow> u8 \<Rightarrow> RoutingType MsgTypeResult" where
  "RoutingType_try_from major minor =
     (if major = 1 then map_ok RoutingType_V1 (try_resolve_version [(0, RoutingV1_0)] ''routing'' 1 minor)
      else Err (UnsupportedMajorVer major))"

definition ConnectionType_try_from :: "u8 \<Rightarrow> u8 \<Rightarrow> ConnectionType MsgTypeResult" where
  "ConnectionType_try_from major minor =
     (if major = 1 then map_ok ConnectionType_V1 (try_resolve_version [(0, ConnectionV1_0)] ''connections'' 1 minor)
      else Err (UnsupportedMajorVer major))"

definition SignatureType_try_from :: "u8 \<Rightarrow> u8 \<Rightarrow> SignatureType MsgTypeResult" where
  "SignatureType_try_from major minor =
     (if major = 1 then map_ok SignatureType_V1 (try_resolve_version [(0, SignatureV1_0)] ''signature'' 1 minor)
      else Err (UnsupportedMajorVer major))"

definition RevocationType_try_from :: "u8 \<Rightarrow> u8 \<Rightarrow> RevocationType MsgTypeResult" where
  "RevocationType_try_from major minor =
     (if major = 2 then map_ok RevocationType_V2 (try_resolve_version [(0, RevocationV2_0)] ''revocation_notification'' 2 minor)
      else Err (UnsupportedMajorVer major))"

definition CredentialIssuanceType_try_from :: "u8 \<Rightarrow> u8 \<Rightarrow> CredentialIssuanceType MsgTypeResult" where
  "CredentialIssuanceType_try_from major minor =
     (if major = 1 then map_ok CredentialIssuanceType_V1 (try_resolve_version [(0, CredentialIssuanceV1_0)] ''issue-credential'' 1 minor)
      else if major = 2 then map_ok CredentialIssuanceType_V2 (try_resolve_version [(0, CredentialIssuanceV2_0)] ''issue-credential'' 2 minor)
      else Err (UnsupportedMajorVer major))"

definition ReportProblemType_try_from :: "u8 \<Rightarrow> u8 \<Rightarrow> ReportProblemType MsgTypeResult" where
  "ReportProblemType_try_from major minor =
     (if major = 1 then map_ok ReportProblemType_V1 (try_resolve_version [(0, ReportProblemV1_0)] ''report-problem'' 1 minor)
      else Err (UnsupportedMajorVer major))"

definition PresentProofType_try_from :: "u8 \<Rightarrow> u8 \<Rightarrow> PresentProofType MsgTypeResult" where
  "PresentProofType_try_from major minor =
     (if major = 1 then map_ok PresentProofType_V1 (try_resolve_version [(0, PresentProofV1_0)] ''present-proof'' 1 minor)
      else if major = 2 then map_ok PresentProofType_V2 (try_resolve_version [(0, PresentProofV2_0)] ''present-proof'' 2 minor)
      else Err (UnsupportedMajorVer major))"

definition TrustPingType_try_from :: "u8 \<Rightarrow> u8 \<Rightarrow> TrustPingType MsgTypeResult" where
  "TrustPingType_try_from major minor =
     (if major = 1 then map_ok TrustPingType_V1 (try_resolve_version [(0, TrustPingV1_0)] ''trust_ping'' 1 minor)
      else Err (UnsupportedMajorVer major))"

definition DiscoverFeaturesType_try_from :: "u8 \<Rightarrow> u8 \<Rightarrow> DiscoverFeaturesType MsgTypeResult" where
  "DiscoverFeaturesType_try_from major minor =
     (if major = 1 then map_ok DiscoverFeaturesType_V1 (try_resolve_version [(0, DiscoverFeaturesV1_0)] ''discover-features'' 1 minor)
      else Err (UnsupportedMajorVer major))"

definition BasicMessageType_try_from :: "u8 \<Rightarrow> u8 \<Rightarrow> BasicMessageType MsgTypeResult" where
  "BasicMessageType_try_from major minor =
     (if major = 1 then map_ok BasicMessageType_V1 (try_resolve_version [(0, BasicMessageV1_0)] ''basicmessage'' 1 minor)
      else Err (UnsupportedMajorVer major))"

definition OutOfBandType_try_from :: "u8 \<Rightarrow> u8 \<Rightarrow> OutOfBandType MsgTypeResult" where
  "OutOfBandType_try_from major minor =
     (if major = 1 then map_ok OutOfBandType_V1 (try_resolve_version [(1, OutOfBandV1_1)] ''out-of-band'' 1 minor)
      else Err (UnsupportedMajorVer major))"

definition NotificationType_try_from :: "u8 \<Rightarrow> u8 \<Rightarrow> NotificationType MsgTypeResult" where
  "NotificationType_try_from major minor =
     (if major = 1 then map_ok NotificationType_V1 (try_resolve_version [(0, NotificationV1_0)] ''notification'' 1 minor)
      else Err (UnsupportedMajorVer major))"

definition PickupType_try_from :: "u8 \<Rightarrow> u8 \<Rightarrow> PickupType MsgTypeResult" where
  "PickupType_try_from major minor =
     (if major = 2 then map_ok PickupType_V2 (try_resolve_version [(0, PickupV2_0)] ''messagepickup'' 2 minor)
      else Err (UnsupportedMajorVer major))"

definition CoordinateMediationType_try_from :: "u8 \<Rightarrow> u8 \<Rightarrow> CoordinateMediationType MsgTypeResult" where
  "CoordinateMediationType_try_from major minor =
     (if major = 1 then map_ok CoordinateMediationType_V1 (try_resolve_version [(0, CoordinateMediationV1_0)] ''coordinate-mediation'' 1 minor)
      else Err (UnsupportedMajorVer major))"

definition DidExchangeType_try_from :: "u8 \<Rightarrow> u8 \<Rightarrow> DidExchangeType MsgTypeResult" where
  "DidExchangeType_try_from major minor =
     (if major = 1 then map_ok DidExchangeType_V1 (try_resolve_version [(1, DidExchangeV1_1), (0, DidExchangeV1_0)] ''didexchange'' 1 minor)
      else Err (UnsupportedMajorVer major))"

definition from_parts :: "string \<Rightarrow> u8 \<Rightarrow> u8 \<Rightarrow> Protocol MsgTypeResult" where
  "from_parts protocol major minor =
     (if protocol = ''routing'' then map_ok RoutingType (RoutingType_try_from major minor)
      else if protocol = ''connections'' then map_ok ConnectionType (ConnectionType_try_from major minor)
      else if protocol = ''signature'' then map_ok SignatureType (SignatureType_try_from major minor)
      else if protocol = ''revocation_notification'' then map_ok RevocationType (RevocationType_try_from major minor)
      else if protocol = ''issue-credential'' then map_ok CredentialIssuanceType (CredentialIssuanceType_try_from major minor)
      else if protocol = ''report-problem'' then map_ok ReportProblemType (ReportProblemType_try_from major minor)
      else if protocol = ''present-proof'' then map_ok PresentProofType (PresentProofType_try_from major minor)
      else if protocol = ''trust_ping'' then map_ok TrustPingType (TrustPingType_try_from major minor)
      else if protocol = ''discover-features'' then map_ok DiscoverFeaturesType (DiscoverFeaturesType_try_from major minor)
      else if protocol = ''basicmessage'' then map_ok BasicMessageType (BasicMessageType_try_from major minor)
      else if protocol = ''out-of-band'' then map_ok OutOfBandType (OutOfBandType_try_from major minor)
      else if protocol = ''notification'' then map_ok NotificationType (NotificationType_try_from major minor)
      else if protocol = ''messagepickup'' then map_ok PickupType (PickupType_try_from major minor)
      else if protocol = ''coordinate-mediation'' then map_ok CoordinateMediationType (CoordinateMediationType_try_from major minor)
      else if protocol = ''didexchange'' then map_ok DidExchangeType (DidExchangeType_try_from major minor)
      else Err (UnknownProtocol protocol))"

text \<open>\<open>Protocol::next_part\<close> on the remaining parts: the part and the rest.\<close>

definition next_part :: "string list \<Rightarrow> string \<Rightarrow> (string \<times> string list) MsgTypeResult" where
  "next_part iter name = (case iter of [] \<Rightarrow> Err (PartNotFound name) | x # r \<Rightarrow> Ok (x, r))"

definition Protocol_from_str :: "string \<Rightarrow> Protocol MsgTypeResult" where
  "Protocol_from_str s =
     and_then
       (if starts_with s DID_COM_ORG_PREFIX then Ok (3 :: nat)
        else if starts_with s DID_SOV_PREFIX then Ok 1
        else Err (UnknownPrefix s)) (\<lambda>skip_slash.
     and_then (next_part (drop skip_slash (split_char (CHR ''/'') s)) ''protocol name'')
       (\<lambda>(protocol_name, iter).
     and_then (next_part iter ''protocol version'') (\<lambda>(version, _).
     and_then (next_part (split_char (CHR ''.'') version) ''protocol major version'')
       (\<lambda>(major_str, version_iter).
     and_then (map_err InvalidVersion (parse_u8 major_str)) (\<lambda>major.
     and_then (next_part version_iter ''protocol minor version'') (\<lambda>(minor_str, _).
     and_then (map_err InvalidVersion (parse_u8 minor_str)) (\<lambda>minor.
       from_parts protocol_name major minor)))))))"

text \<open>\<open>Display\<close> and \<open>Serialize\<close> of \<open>Protocol\<close> print the same text.\<close>

definition show_Protocol :: "Protocol \<Rightarrow> string" where
  "show_Protocol p = (case as_parts p of (protocol, major, minor) \<Rightarrow>
     DID_COM_ORG_PREFIX @ ''/'' @ protocol @ ''/'' @ show_u8 major @ ''.'' @ show_u8 minor)"

section \<open>Message kinds\<close>

text \<open>
  The kinds of every minor version, with the text the enum attributes give to a variant, and
  the derived \<open>FromStr\<close>, which finds the variant with exactly that text.
\<close>

datatype kind_error = VariantNotFound

definition kind_from_str :: "'k list \<Rightarrow> ('k \<Rightarrow> string) \<Rightarrow> string \<Rightarrow> (kind_error, 'k) result" where
  "kind_from_str variants as_ref s =
     (case find (\<lambda>k. as_ref k = s) variants of Some k \<Rightarrow> Ok k | None \<Rightarrow> Err VariantNotFound)"

datatype RoutingTypeV1_0 = Routing10_Forward

fun RoutingTypeV1_0_as_ref :: "RoutingTypeV1_0 \<Rightarrow> string" where
  "RoutingTypeV1_0_as_ref Routing10_Forward = ''forward''"

definition RoutingTypeV1_0_variants :: "RoutingTypeV1_0 list" where
  "RoutingTypeV1_0_variants = [Routing10_Forward]"

datatype ConnectionTypeV1_0 = Connection10_Invitation | Connection10_Request | Connection10_Response | Connection10_ProblemReport

fun ConnectionTypeV1_0_as_ref :: "ConnectionTypeV1_0 \<Rightarrow> string" where
  "ConnectionTypeV1_0_as_ref Connection10_Invitation = ''invitation''"
| "ConnectionTypeV1_0_as_ref Connection10_Request = ''request''"
| "ConnectionTypeV1_0_as_ref Connection10_Response = ''response''"
| "ConnectionTypeV1_0_as_ref Connection10_ProblemReport = ''problem_report''"

definition ConnectionTypeV1_0_variants :: "ConnectionTypeV1_0 list" where
  "ConnectionTypeV1_0_variants = [Connection10_Invitation, Connection10_Request, Connection10_Response, Connection10_ProblemReport]"

datatype SignatureTypeV1_0 = Signature10_Ed25519Sha512Single

fun SignatureTypeV1_0_as_ref :: "SignatureTypeV1_0 \<Rightarrow> string" where
  "SignatureTypeV1_0_as_ref Signature10_Ed25519Sha512Single = ''ed25519Sha512_single''"

definition SignatureTypeV1_0_variants :: "SignatureTypeV1_0 list" where
  "SignatureTypeV1_0_variants = [Signature10_Ed25519Sha512Single]"

datatype RevocationTypeV2_0 = Revocation20_Revoke | Revocation20_Ack

fun RevocationTypeV2_0_as_ref :: "RevocationTypeV2_0 \<Rightarrow> string" where
  "RevocationTypeV2_0_as_ref Revocation20_Revoke = ''revoke''"
| "RevocationTypeV2_0_as_ref Revocation20_Ack = ''ack''"

definition RevocationTypeV2_0_variants :: "RevocationTypeV2_0 list" where
  "RevocationTypeV2_0_variants = [Revocation20_Revoke, Revocation20_Ack]"

datatype CredentialIssuanceTypeV1_0 = CredentialIssuance10_OfferCredential | CredentialIssuance10_ProposeCredential | CredentialIssuance10_RequestCredential | CredentialIssuance10_IssueCredential | CredentialIssuance10_CredentialPreview | CredentialIssuance10_Ack | CredentialIssuance10_ProblemReport

fun CredentialIssuanceTypeV1_0_as_ref :: "CredentialIssuanceTypeV1_0 \<Rightarrow> string" where
  "CredentialIssuanceTypeV1_0_as_ref CredentialIssuance10_OfferCredential = ''offer-credential''"
| "CredentialIssuanceTypeV1_0_as_ref CredentialIssuance10_ProposeCredential = ''propose-credential''"
| "CredentialIssuanceTypeV1_0_as_ref CredentialIssuance10_RequestCredential = ''request-credential''"
| "CredentialIssuanceTypeV1_0_as_ref CredentialIssuance10_IssueCredential = ''issue-credential''"
| "CredentialIssuanceTypeV1_0_as_ref CredentialIssuance10_CredentialPreview = ''credential-preview''"
| "CredentialIssuanceTypeV1_0_as_ref CredentialIssuance10_Ack = ''ack''"
| "CredentialIssuanceTypeV1_0_as_ref CredentialIssuance10_ProblemReport = ''problem-report''"

definition CredentialIssuanceTypeV1_0_variants :: "CredentialIssuanceTypeV1_0 list" where
  "CredentialIssuanceTypeV1_0_variants = [CredentialIssuance10_OfferCredential, CredentialIssuance10_ProposeCredential, CredentialIssuance10_RequestCredential, CredentialIssuance10_IssueCredential, CredentialIssuance10_CredentialPreview, CredentialIssuance10_Ack, CredentialIssuance10_ProblemReport]"

datatype CredentialIssuanceTypeV2_0 = CredentialIssuance20_OfferCredential | CredentialIssuance20_ProposeCredential | CredentialIssuance20_RequestCredential | CredentialIssuance20_IssueCredential | CredentialIssuance20_CredentialPreview | CredentialIssuance20_Ack | CredentialIssuance20_ProblemReport

fun CredentialIssuanceTypeV2_0_as_ref :: "CredentialIssuanceTypeV2_0 \<Rightarrow> string" where
  "CredentialIssuanceTypeV2_0_as_ref CredentialIssuance20_OfferCredential = ''offer-credential''"
| "CredentialIssuanceTypeV2_0_as_ref CredentialIssuance20_ProposeCredential = ''propose-credential''"
| "CredentialIssuanceTypeV2_0_as_ref CredentialIssuance20_RequestCredential = ''request-credential''"
| "CredentialIssuanceTypeV2_0_as_ref CredentialIssuance20_IssueCredential = ''issue-credential''"
| "CredentialIssuanceTypeV2_0_as_ref CredentialIssuance20_CredentialPreview = ''credential-preview''"
| "CredentialIssuanceTypeV2_0_as_ref CredentialIssuance20_Ack = ''ack''"
| "CredentialIssuanceTypeV2_0_as_ref CredentialIssuance20_ProblemReport = ''problem-report''"

definition CredentialIssuanceTypeV2_0_variants :: "CredentialIssuanceTypeV2_0 list" where
  "CredentialIssuanceTypeV2_0_variants = [CredentialIssuance20_OfferCredential, CredentialIssuance20_ProposeCredential, CredentialIssuance20_RequestCredential, CredentialIssuance20_IssueCredential, CredentialIssuance20_CredentialPreview, CredentialIssuance20_Ack, CredentialIssuance20_ProblemReport]"

datatype ReportProblemTypeV1_0 = ReportProblem10_ProblemReport

fun ReportProblemTypeV1_0_as_ref :: "ReportProblemTypeV1_0 \<Rightarrow> string" where
  "ReportProblemTypeV1_0_as_ref ReportProblem10_ProblemReport = ''problem-report''"

definition ReportProblemTypeV1_0_variants :: "ReportProblemTypeV1_0 list" where
  "ReportProblemTypeV1_0_variants = [ReportProblem10_ProblemReport]"

datatype PresentProofTypeV1_0 = PresentProof10_ProposePresentation | PresentProof10_RequestPresentation | PresentProof10_Presentation | PresentProof10_PresentationPreview | PresentProof10_Ack | PresentProof10_ProblemReport

fun PresentProofTypeV1_0_as_ref :: "PresentProofTypeV1_0 \<Rightarrow> string" where
  "PresentProofTypeV1_0_as_ref PresentProof10_ProposePresentation = ''propose-presentation''"
| "PresentProofTypeV1_0_as_ref PresentProof10_RequestPresentation = ''request-presentation''"
| "PresentProofTypeV1_0_as_ref PresentProof10_Presentation = ''presentation''"
| "PresentProofTypeV1_0_as_ref PresentProof10_PresentationPreview = ''presentation-preview''"
| "PresentProofTypeV1_0_as_ref PresentProof10_Ack = ''ack''"
| "PresentProofTypeV1_0_as_ref PresentProof10_ProblemReport = ''problem-report''"

definition PresentProofTypeV1_0_variants :: "PresentProofTypeV1_0 list" where
  "PresentProofTypeV1_0_variants = [PresentProof10_ProposePresentation, PresentProof10_RequestPresentation, PresentProof10_Presentation, PresentProof10_PresentationPreview, PresentProof10_Ack, PresentProof10_ProblemReport]"

datatype PresentProofTypeV2_0 = PresentProof20_ProposePresentation | PresentProof20_RequestPresentation | PresentProof20_Presentation | PresentProof20_PresentationPreview | PresentProof20_Ack | PresentProof20_ProblemReport

fun PresentProofTypeV2_0_as_ref :: "PresentProofTypeV2_0 \<Rightarrow> string" where
  "PresentProofTypeV2_0_as_ref PresentProof20_ProposePresentation = ''propose-presentation''"
| "PresentProofTypeV2_0_as_ref PresentProof20_RequestPresentation = ''request-presentation''"
| "PresentProofTypeV2_0_as_ref PresentProof20_Presentation = ''presentation''"
| "PresentProofTypeV2_0_as_ref PresentProof20_PresentationPreview = ''presentation-preview''"
| "PresentProofTypeV2_0_as_ref PresentProof20_Ack = ''ack''"
| "PresentProofTypeV2_0_as_ref PresentProof20_ProblemReport = ''problem-report''"

definition PresentProofTypeV2_0_variants :: "PresentProofTypeV2_0 list" where
  "PresentProofTypeV2_0_variants = [PresentProof20_ProposePresentation, PresentProof20_RequestPresentation, PresentProof20_Presentation, PresentProof20_PresentationPreview, PresentProof20_Ack, PresentProof20_ProblemReport]"

datatype TrustPingTypeV1_0 = TrustPing10_Ping | TrustPing10_PingResponse

fun TrustPingTypeV1_0_as_ref :: "TrustPingTypeV1_0 \<Rightarrow> string" where
  "TrustPingTypeV1_0_as_ref TrustPing10_Ping = ''ping''"
| "TrustPingTypeV1_0_as_ref TrustPing10_PingResponse = ''ping_response''"

definition TrustPingTypeV1_0_variants :: "TrustPingTypeV1_0 list" where
  "TrustPingTypeV1_0_variants = [TrustPing10_Ping, TrustPing10_PingResponse]"

datatype DiscoverFeaturesTypeV1_0 = DiscoverFeatures10_Query | DiscoverFeatures10_Disclose

fun DiscoverFeaturesTypeV1_0_as_ref :: "DiscoverFeaturesTypeV1_0 \<Rightarrow> string" where
  "DiscoverFeaturesTypeV1_0_as_ref DiscoverFeatures10_Query = ''query''"
| "DiscoverFeaturesTypeV1_0_as_ref DiscoverFeatures10_Disclose = ''disclose''"

definition DiscoverFeaturesTypeV1_0_variants :: "DiscoverFeaturesTypeV1_0 list" where
  "DiscoverFeaturesTypeV1_0_variants = [DiscoverFeatures10_Query, DiscoverFeatures10_Disclose]"

datatype BasicMessageTypeV1_0 = BasicMessage10_Message

fun BasicMessageTypeV1_0_as_ref :: "BasicMessageTypeV1_0 \<Rightarrow> string" where
  "BasicMessageTypeV1_0_as_ref BasicMessage10_Message = ''message''"

definition BasicMessageTypeV1_0_variants :: "BasicMessageTypeV1_0 list" where
  "BasicMessageTypeV1_0_variants = [BasicMessage10_Message]"

datatype OutOfBandTypeV1_1 = OutOfBand11_Invitation | OutOfBand11_HandshakeReuse | OutOfBand11_HandshakeReuseAccepted

fun OutOfBandTypeV1_1_as_ref :: "OutOfBandTypeV1_1 \<Rightarrow> string" where
  "OutOfBandTypeV1_1_as_ref OutOfBand11_Invitation = ''invitation''"
| "OutOfBandTypeV1_1_as_ref OutOfBand11_HandshakeReuse = ''handshake-reuse''"
| "OutOfBandTypeV1_1_as_ref OutOfBand11_HandshakeReuseAccepted = ''handshake-reuse-accepted''"

definition OutOfBandTypeV1_1_variants :: "OutOfBandTypeV1_1 list" where
  "OutOfBandTypeV1_1_variants = [OutOfBand11_Invitation, OutOfBand11_HandshakeReuse, OutOfBand11_HandshakeReuseAccepted]"

datatype NotificationTypeV1_0 = Notification10_Ack | Notification10_ProblemReport

fun NotificationTypeV1_0_as_ref :: "NotificationTypeV1_0 \<Rightarrow> string" where
  "NotificationTypeV1_0_as_ref Notification10_Ack = ''ack''"
| "NotificationTypeV1_0_as_ref Notification10_ProblemReport = ''problem-report''"

definition NotificationTypeV1_0_variants :: "NotificationTypeV1_0 list" where
  "NotificationTypeV1_0_variants = [Notification10_Ack, Notification10_ProblemReport]"

datatype PickupTypeV2_0 = Pickup20_Status | Pickup20_StatusRequest | Pickup20_DeliveryRequest | Pickup20_Delivery | Pickup20_MessagesReceived | Pickup20_LiveDeliveryChange

fun PickupTypeV2_0_as_ref :: "PickupTypeV2_0 \<Rightarrow> string" where
  "PickupTypeV2_0_as_ref Pickup20_Status = ''status''"
| "PickupTypeV2_0_as_ref Pickup20_StatusRequest = ''status-request''"
| "PickupTypeV2_0_as_ref Pickup20_DeliveryRequest = ''delivery-request''"
| "PickupTypeV2_0_as_ref Pickup20_Delivery = ''delivery''"
| "PickupTypeV2_0_as_ref Pickup20_MessagesReceived = ''messages-received''"
| "PickupTypeV2_0_as_ref Pickup20_LiveDeliveryChange = ''live-delivery-change''"

definition PickupTypeV2_0_variants :: "PickupTypeV2_0 list" where
  "PickupTypeV2_0_variants = [Pickup20_Status, Pickup20_StatusRequest, Pickup20_DeliveryRequest, Pickup20_Delivery, Pickup20_MessagesReceived, Pickup20_LiveDeliveryChange]"

datatype CoordinateMediationTypeV1_0 = CoordinateMediation10_MediateRequest | CoordinateMediation10_MediateDeny | CoordinateMediation10_MediateGrant | CoordinateMediation10_KeylistUpdate | CoordinateMediation10_KeylistUpdateResponse | CoordinateMediation10_KeylistQuery | CoordinateMediation10_Keylist

fun CoordinateMediationTypeV1_0_as_ref :: "CoordinateMediationTypeV1_0 \<Rightarrow> string" where
  "CoordinateMediationTypeV1_0_as_ref CoordinateMediation10_MediateRequest = ''mediate-request''"
| "CoordinateMediationTypeV1_0_as_ref CoordinateMediation10_MediateDeny = ''mediate-deny''"
| "CoordinateMediationTypeV1_0_as_ref CoordinateMediation10_MediateGrant = ''mediate-grant''"
| "CoordinateMediationTypeV1_0_as_ref CoordinateMediation10_KeylistUpdate = ''keylist-update''"
| "CoordinateMediationTypeV1_0_as_ref CoordinateMediation10_KeylistUpdateResponse = ''keylist-update-response''"
| "CoordinateMediationTypeV1_0_as_ref CoordinateMediation10_KeylistQuery = ''keylist-query''"
| "CoordinateMediationTypeV1_0_as_ref CoordinateMediation10_Keylist = ''keylist''"

definition CoordinateMediationTypeV1_0_variants :: "CoordinateMediationTypeV1_0 list" where
  "CoordinateMediationTypeV1_0_variants = [CoordinateMediation10_MediateRequest, CoordinateMediation10_MediateDeny, CoordinateMediation10_MediateGrant, CoordinateMediation10_KeylistUpdate, CoordinateMediation10_KeylistUpdateResponse, CoordinateMediation10_KeylistQuery, CoordinateMediation10_Keylist]"

datatype DidExchangeTypeV1_1 = DidExchange11_Request | DidExchange11_Response | DidExchange11_ProblemReport | DidExchange11_Complete

fun DidExchangeTypeV1_1_as_ref :: "DidExchangeTypeV1_1 \<Rightarrow> string" where
  "DidExchangeTypeV1_1_as_ref DidExchange11_Request = ''request''"
| "DidExchangeTypeV1_1_as_ref DidExchange11_Response = ''response''"
| "DidExchangeTypeV1_1_as_ref DidExchange11_ProblemReport = ''problem_report''"
| "DidExchangeTypeV1_1_as_ref DidExchange11_Complete = ''complete''"

definition DidExchangeTypeV1_1_variants :: "DidExchangeTypeV1_1 list" where
  "DidExchangeTypeV1_1_variants = [DidExchange11_Request, DidExchange11_Response, DidExchange11_ProblemReport, DidExchange11_Complete]"

datatype DidExchangeTypeV1_0 = DidExchange10_Request | DidExchange10_Response | DidExchange10_ProblemReport | DidExchange10_Complete

fun DidExchangeTypeV1_0_as_ref :: "DidExchangeTypeV1_0 \<Rightarrow> string" where
  "DidExchangeTypeV1_0_as_ref DidExchange10_Request = ''request''"
| "DidExchangeTypeV1_0_as_ref DidExchange10_Response = ''response''"
| "DidExchangeTypeV1_0_as_ref DidExchange10_ProblemReport = ''problem_report''"
| "DidExchangeTypeV1_0_as_ref DidExchange10_Complete = ''complete''"

definition DidExchangeTypeV1_0_variants :: "DidExchangeTypeV1_0 list" where
  "DidExchangeTypeV1_0_variants = [DidExchange10_Request, DidExchange10_Response, DidExchange10_ProblemReport, DidExchange10_Complete]"

text \<open>
  What the readers of messages rely on: the enum lists all its variants, no two share a text and
  no text contains the separator of the parts of a message type.
\<close>

locale message_kind =
  fixes variants :: "'k list" and as_ref :: "'k \<Rightarrow> string"
  assumes complete: "k \<in> set variants"
    and distinct_texts: "as_ref j = as_ref k \<Longrightarrow> j = k"
    and no_slash: "CHR ''/'' \<notin> set (as_ref k)"
begin

lemma kind_from_str_iff: "kind_from_str variants as_ref s = Ok k \<longleftrightarrow> as_ref k = s"
proof
  assume "kind_from_str variants as_ref s = Ok k"
  then show "as_ref k = s"
    by (auto simp: kind_from_str_def find_Some_iff split: option.splits)
next
  assume s: "as_ref k = s"
  then have "find (\<lambda>k. as_ref k = s) variants \<noteq> None"
    using complete by (auto simp: find_None_iff)
  then obtain j where j: "find (\<lambda>k. as_ref k = s) variants = Some j" by blast
  then have "as_ref j = s" by (auto simp: find_Some_iff)
  with s distinct_texts have "j = k" by blast
  with j show "kind_from_str variants as_ref s = Ok k" by (simp add: kind_from_str_def)
qed

lemma kind_roundtrip: "kind_from_str variants as_ref (as_ref k) = Ok k"
  by (simp add: kind_from_str_iff)

end

interpretation routingv1_0: message_kind RoutingTypeV1_0_variants RoutingTypeV1_0_as_ref
proof
  fix j k :: RoutingTypeV1_0
  show "k \<in> set RoutingTypeV1_0_variants" by (cases k) (simp_all add: RoutingTypeV1_0_variants_def)
  show "j = k" if "RoutingTypeV1_0_as_ref j = RoutingTypeV1_0_as_ref k" using that by (cases j; cases k) simp_all
  show "CHR ''/'' \<notin> set (RoutingTypeV1_0_as_ref k)" by (cases k) simp_all
qed

interpretation connectionv1_0: message_kind ConnectionTypeV1_0_variants ConnectionTypeV1_0_as_ref
proof
  fix j k :: ConnectionTypeV1_0
  show "k \<in> set ConnectionTypeV1_0_variants" by (cases k) (simp_all add: ConnectionTypeV1_0_variants_def)
  show "j = k" if "ConnectionTypeV1_0_as_ref j = ConnectionTypeV1_0_as_ref k" using that by (cases j; cases k) simp_all
  show "CHR ''/'' \<notin> set (ConnectionTypeV1_0_as_ref k)" by (cases k) simp_all
qed

interpretation signaturev1_0: message_kind SignatureTypeV1_0_variants SignatureTypeV1_0_as_ref
proof
  fix j k :: SignatureTypeV1_0
  show "k \<in> set SignatureTypeV1_0_variants" by (cases k) (simp_all add: SignatureTypeV1_0_variants_def)
  show "j = k" if "SignatureTypeV1_0_as_ref j = SignatureTypeV1_0_as_ref k" using that by (cases j; cases k) simp_all
  show "CHR ''/'' \<notin> set (SignatureTypeV1_0_as_ref k)" by (cases k) simp_all
qed

interpretation revocationv2_0: message_kind RevocationTypeV2_0_variants RevocationTypeV2_0_as_ref
proof
  fix j k :: RevocationTypeV2_0
  show "k \<in> set RevocationTypeV2_0_variants" by (cases k) (simp_all add: RevocationTypeV2_0_variants_def)
  show "j = k" if "RevocationTypeV2_0_as_ref j = RevocationTypeV2_0_as_ref k" using that by (cases j; cases k) simp_all
  show "CHR ''/'' \<notin> set (RevocationTypeV2_0_as_ref k)" by (cases k) simp_all
qed

interpretation credentialissuancev1_0: message_kind CredentialIssuanceTypeV1_0_variants CredentialIssuanceTypeV1_0_as_ref
proof
  fix j k :: CredentialIssuanceTypeV1_0
  show "k \<in> set CredentialIssuanceTypeV1_0_variants" by (cases k) (simp_all add: CredentialIssuanceTypeV1_0_variants_def)
  show "j = k" if "CredentialIssuanceTypeV1_0_as_ref j = CredentialIssuanceTypeV1_0_as_ref k" using that by (cases j; cases k) simp_all
  show "CHR ''/'' \<notin> set (CredentialIssuanceTypeV1_0_as_ref k)" by (cases k) simp_all
qed

interpretation credentialissuancev2_0: message_kind CredentialIssuanceTypeV2_0_variants CredentialIssuanceTypeV2_0_as_ref
proof
  fix j k :: CredentialIssuanceTypeV2_0
  show "k \<in> set CredentialIssuanceTypeV2_0_variants" by (cases k) (simp_all add: CredentialIssuanceTypeV2_0_variants_def)
  show "j = k" if "CredentialIssuanceTypeV2_0_as_ref j = CredentialIssuanceTypeV2_0_as_ref k" using that by (cases j; cases k) simp_all
  show "CHR ''/'' \<notin> set (CredentialIssuanceTypeV2_0_as_ref k)" by (cases k) simp_all
qed

interpretation reportproblemv1_0: message_kind ReportProblemTypeV1_0_variants ReportProblemTypeV1_0_as_ref
proof
  fix j k :: ReportProblemTypeV1_0
  show "k \<in> set ReportProblemTypeV1_0_variants" by (cases k) (simp_all add: ReportProblemTypeV1_0_variants_def)
  show "j = k" if "ReportProblemTypeV1_0_as_ref j = ReportProblemTypeV1_0_as_ref k" using that by (cases j; cases k) simp_all
  show "CHR ''/'' \<notin> set (ReportProblemTypeV1_0_as_ref k)" by (cases k) simp_all
qed

interpretation presentproofv1_0: message_kind PresentProofTypeV1_0_variants PresentProofTypeV1_0_as_ref
proof
  fix j k :: PresentProofTypeV1_0
  show "k \<in> set PresentProofTypeV1_0_variants" by (cases k) (simp_all add: PresentProofTypeV1_0_variants_def)
  show "j = k" if "PresentProofTypeV1_0_as_ref j = PresentProofTypeV1_0_as_ref k" using that by (cases j; cases k) simp_all
  show "CHR ''/'' \<notin> set (PresentProofTypeV1_0_as_ref k)" by (cases k) simp_all
qed

interpretation presentproofv2_0: message_kind PresentProofTypeV2_0_variants PresentProofTypeV2_0_as_ref
proof
  fix j k :: PresentProofTypeV2_0
  show "k \<in> set PresentProofTypeV2_0_variants" by (cases k) (simp_all add: PresentProofTypeV2_0_variants_def)
  show "j = k" if "PresentProofTypeV2_0_as_ref j = PresentProofTypeV2_0_as_ref k" using that by (cases j; cases k) simp_all
  show "CHR ''/'' \<notin> set (PresentProofTypeV2_0_as_ref k)" by (cases k) simp_all
qed

interpretation trustpingv1_0: message_kind TrustPingTypeV1_0_variants TrustPingTypeV1_0_as_ref
proof
  fix j k :: TrustPingTypeV1_0
  show "k \<in> set TrustPingTypeV1_0_variants" by (cases k) (simp_all add: TrustPingTypeV1_0_variants_def)
  show "j = k" if "TrustPingTypeV1_0_as_ref j = TrustPingTypeV1_0_as_ref k" using that by (cases j; cases k) simp_all
  show "CHR ''/'' \<notin> set (TrustPingTypeV1_0_as_ref k)" by (cases k) simp_all
qed

interpretation discoverfeaturesv1_0: message_kind DiscoverFeaturesTypeV1_0_variants DiscoverFeaturesTypeV1_0_as_ref
proof
  fix j k :: DiscoverFeaturesTypeV1_0
  show "k \<in> set DiscoverFeaturesTypeV1_0_variants" by (cases k) (simp_all add: DiscoverFeaturesTypeV1_0_variants_def)
  show "j = k" if "DiscoverFeaturesTypeV1_0_as_ref j = DiscoverFeaturesTypeV1_0_as_ref k" using that by (cases j; cases k) simp_all
  show "CHR ''/'' \<notin> set (DiscoverFeaturesTypeV1_0_as_ref k)" by (cases k) simp_all
qed

interpretation basicmessagev1_0: message_kind BasicMessageTypeV1_0_variants BasicMessageTypeV1_0_as_ref
proof
  fix j k :: BasicMessageTypeV1_0
  show "k \<in> set BasicMessageTypeV1_0_variants" by (cases k) (simp_all add: BasicMessageTypeV1_0_variants_def)
  show "j = k" if "BasicMessageTypeV1_0_as_ref j = BasicMessageTypeV1_0_as_ref k" using that by (cases j; cases k) simp_all
  show "CHR ''/'' \<notin> set (BasicMessageTypeV1_0_as_ref k)" by (cases k) simp_all
qed

interpretation outofbandv1_1: message_kind OutOfBandTypeV1_1_variants OutOfBandTypeV1_1_as_ref
proof
  fix j k :: OutOfBandTypeV1_1
  show "k \<in> set OutOfBandTypeV1_1_variants" by (cases k) (simp_all add: OutOfBandTypeV1_1_variants_def)
  show "j = k" if "OutOfBandTypeV1_1_as_ref j = OutOfBandTypeV1_1_as_ref k" using that by (cases j; cases k) simp_all
  show "CHR ''/'' \<notin> set (OutOfBandTypeV1_1_as_ref k)" by (cases k) simp_all
qed

interpretation notificationv1_0: message_kind NotificationTypeV1_0_variants NotificationTypeV1_0_as_ref
proof
  fix j k :: NotificationTypeV1_0
  show "k \<in> set NotificationTypeV1_0_variants" by (cases k) (simp_all add: NotificationTypeV1_0_variants_def)
  show "j = k" if "NotificationTypeV1_0_as_ref j = NotificationTypeV1_0_as_ref k" using that by (cases j; cases k) simp_all
  show "CHR ''/'' \<notin> set (NotificationTypeV1_0_as_ref k)" by (cases k) simp_all
qed

interpretation pickupv2_0: message_kind PickupTypeV2_0_variants PickupTypeV2_0_as_ref
proof
  fix j k :: PickupTypeV2_0
  show "k \<in> set PickupTypeV2_0_variants" by (cases k) (simp_all add: PickupTypeV2_0_variants_def)
  show "j = k" if "PickupTypeV2_0_as_ref j = PickupTypeV2_0_as_ref k" using that by (cases j; cases k) simp_all
  show "CHR ''/'' \<notin> set (PickupTypeV2_0_as_ref k)" by (cases k) simp_all
qed

interpretation coordinatemediationv1_0: message_kind CoordinateMediationTypeV1_0_variants CoordinateMediationTypeV1_0_as_ref
proof
  fix j k :: CoordinateMediationTypeV1_0
  show "k \<in> set CoordinateMediationTypeV1_0_variants" by (cases k) (simp_all add: CoordinateMediationTypeV1_0_variants_def)
  show "j = k" if "CoordinateMediationTypeV1_0_as_ref j = CoordinateMediationTypeV1_0_as_ref k" using that by (cases j; cases k) simp_all
  show "CHR ''/'' \<notin> set (CoordinateMediationTypeV1_0_as_ref k)" by (cases k) simp_all
qed

interpretation didexchangev1_1: message_kind DidExchangeTypeV1_1_variants DidExchangeTypeV1_1_as_ref
proof
  fix j k :: DidExchangeTypeV1_1
  show "k \<in> set DidExchangeTypeV1_1_variants" by (cases k) (simp_all add: DidExchangeTypeV1_1_variants_def)
  show "j = k" if "DidExchangeTypeV1_1_as_ref j = DidExchangeTypeV1_1_as_ref k" using that by (cases j; cases k) simp_all
  show "CHR ''/'' \<notin> set (DidExchangeTypeV1_1_as_ref k)" by (cases k) simp_all
qed

interpretation didexchangev1_0: message_kind DidExchangeTypeV1_0_variants DidExchangeTypeV1_0_as_ref
proof
  fix j k :: DidExchangeTypeV1_0
  show "k \<in> set DidExchangeTypeV1_0_variants" by (cases k) (simp_all add: DidExchangeTypeV1_0_variants_def)
  show "j = k" if "DidExchangeTypeV1_0_as_ref j = DidExchangeTypeV1_0_as_ref k" using that by (cases j; cases k) simp_all
  show "CHR ''/'' \<notin> set (DidExchangeTypeV1_0_as_ref k)" by (cases k) simp_all
qed

lemmas try_from_defs =
  RoutingType_try_from_def
  ConnectionType_try_from_def
  SignatureType_try_from_def
  RevocationType_try_from_def
  CredentialIssuanceType_try_from_def
  ReportProblemType_try_from_def
  PresentProofType_try_from_def
  TrustPingType_try_from_def
  DiscoverFeaturesType_try_from_def
  BasicMessageType_try_from_def
  OutOfBandType_try_from_def
  NotificationType_try_from_def
  PickupType_try_from_def
  CoordinateMediationType_try_from_def
  DidExchangeType_try_from_def
section \<open>The text of a message type\<close>

record MessageType =
  mt_protocol :: Protocol
  mt_kind :: string

definition MessageType_try_from :: "string \<Rightarrow> (string, MessageType) result" where
  "MessageType_try_from s =
     (case rsplit_once (CHR ''/'') s of
        None \<Rightarrow> Err (''Invalid message type: '' @ s)
      | Some (protocol_str, kind) \<Rightarrow>
          (case Protocol_from_str protocol_str of
             Ok v \<Rightarrow> Ok \<lparr>mt_protocol = v, mt_kind = kind\<rparr>
           | Err e \<Rightarrow> Err (''Cannot parse message type: '' @ s @ ''; Error: '' @ show_MsgTypeError e)
           | Panic \<Rightarrow> Panic))"

text \<open>\<open>serialize_msg_type\<close>, given the parent protocol of the kind and its text.\<close>

definition serialize_msg_type :: "Protocol \<Rightarrow> string \<Rightarrow> string" where
  "serialize_msg_type protocol kind = show_Protocol protocol @ ''/'' @ kind"

section \<open>Properties\<close>

text \<open>The registry, evaluated: one list of entries per name and major version.\<close>

lemma registry_minors:
  "map (\<lambda>(k, es). (k, map re_minor es)) PROTOCOL_REGISTRY =
     [((''routing'', 1), [0]), ((''basicmessage'', 1), [0]), ((''connections'', 1), [0]),
      ((''signature'', 1), [0]), ((''issue-credential'', 1), [0]), ((''issue-credential'', 2), [0]),
      ((''discover-features'', 1), [0]), ((''notification'', 1), [0]), ((''out-of-band'', 1), [1]),
      ((''present-proof'', 1), [0]), ((''present-proof'', 2), [0]), ((''report-problem'', 1), [0]),
      ((''revocation_notification'', 2), [0]), ((''trust_ping'', 1), [0]),
      ((''messagepickup'', 2), [0]), ((''coordinate-mediation'', 1), [0]),
      ((''didexchange'', 1), [0, 1])]"
  by (simp add: PROTOCOL_REGISTRY_def registered_def map_insert_def)

lemma registry_entries:
  "list_all (\<lambda>((name, major), es). list_all (\<lambda>e. as_parts (re_protocol e) = (name, major, re_minor e)
     \<and> re_str_pid e = show_Protocol (re_protocol e)) es) PROTOCOL_REGISTRY"
  by (simp add: PROTOCOL_REGISTRY_def registered_def map_insert_def show_Protocol_def)

lemma get_supported_version_minors:
  "get_supported_version name major minor =
     Option.bind (map_of (map (\<lambda>(k, es). (k, map re_minor es)) PROTOCOL_REGISTRY) (name, major))
       (\<lambda>v. find (\<lambda>x. x \<le> minor) (rev v))"
  by (simp add: get_supported_version_def map_of_map rev_map option.case_eq_if Option.bind_eq_None_conv
      split: bind_splits)

lemma supported_simps [simp]:
  "get_supported_version ''routing'' 1 minor = Some 0"
  "get_supported_version ''basicmessage'' 1 minor = Some 0"
  "get_supported_version ''connections'' 1 minor = Some 0"
  "get_supported_version ''signature'' 1 minor = Some 0"
  "get_supported_version ''issue-credential'' 1 minor = Some 0"
  "get_supported_version ''issue-credential'' 2 minor = Some 0"
  "get_supported_version ''discover-features'' 1 minor = Some 0"
  "get_supported_version ''notification'' 1 minor = Some 0"
  "get_supported_version ''out-of-band'' 1 minor = (if 1 \<le> minor then Some 1 else None)"
  "get_supported_version ''present-proof'' 1 minor = Some 0"
  "get_supported_version ''present-proof'' 2 minor = Some 0"
  "get_supported_version ''report-problem'' 1 minor = Some 0"
  "get_supported_version ''revocation_notification'' 2 minor = Some 0"
  "get_supported_version ''trust_ping'' 1 minor = Some 0"
  "get_supported_version ''messagepickup'' 2 minor = Some 0"
  "get_supported_version ''coordinate-mediation'' 1 minor = Some 0"
  "get_supported_version ''didexchange'' 1 minor = (if 1 \<le> minor then Some 1 else Some 0)"
  by (simp_all add: get_supported_version_minors registry_minors)

lemma find_largest:
  assumes "find (\<lambda>x. x \<le> minor) (rev v) = Some (m :: 'a :: linorder)" and "sorted v"
  shows "m \<in> set v \<and> m \<le> minor \<and> (\<forall>k \<in> set v. k \<le> minor \<longrightarrow> k \<le> m)"
proof -
  from assms(1) obtain i where i: "i < length v" "rev v ! i \<le> minor" "m = rev v ! i"
    and least: "\<forall>j < i. \<not> rev v ! j \<le> minor"
    by (auto simp: find_Some_iff)
  have "k \<le> m" if "k \<in> set v" "k \<le> minor" for k
  proof -
    from that(1) obtain j where j: "j < length v" "k = rev v ! j"
      by (metis in_set_conv_nth length_rev set_rev)
    with least that(2) have "i \<le> j" by (meson not_le)
    with j i assms(2) show ?thesis
      by (simp add: rev_nth sorted_nth_mono)
  qed
  with i show ?thesis by (metis length_rev nth_mem set_rev)
qed

lemma ifE_result: "(if b then x else y) = Ok z \<Longrightarrow> (b \<Longrightarrow> x = Ok z \<Longrightarrow> Q) \<Longrightarrow> (y = Ok z \<Longrightarrow> Q) \<Longrightarrow> Q"
  by (cases b) simp_all

lemma map_ok_OkE: "map_ok f r = Ok z \<Longrightarrow> (\<And>x. r = Ok x \<Longrightarrow> z = f x \<Longrightarrow> Q) \<Longrightarrow> Q"
  by auto

text \<open>Every protocol the type can express is registered.\<close>

lemma protocol_registered: "p \<in> set (map fst registered)"
  by (cases p; rename_tac v; case_tac v; rename_tac w; case_tac w) (simp_all add: registered_def)

lemma supported_largest:
  assumes "as_parts q = (name, major, k)" and "k \<le> minor"
  shows "\<exists>m. get_supported_version name major minor = Some m \<and> k \<le> m \<and> m \<le> minor"
  using assms by (cases q; rename_tac v; case_tac v; rename_tac w; case_tac w) (auto simp: not_le)

lemma supported_le: "get_supported_version name major minor = Some m \<Longrightarrow> m \<le> minor"
  by (auto simp: get_supported_version_def find_Some_iff dest: bind_eq_Some_conv [THEN iffD1])

text \<open>Every generated \<open>try_from_version_parts\<close> returns the variant of the resolved version.\<close>

lemmas resolve_defs = try_from_defs try_resolve_version_def

lemma try_from_Ok:
  "RoutingType_try_from major minor = Ok v0 \<Longrightarrow>
     \<exists>m. get_supported_version ''routing'' major minor = Some m \<and> RoutingType_parts v0 = (''routing'', major, m)"
  "ConnectionType_try_from major minor = Ok v1 \<Longrightarrow>
     \<exists>m. get_supported_version ''connections'' major minor = Some m \<and> ConnectionType_parts v1 = (''connections'', major, m)"
  "SignatureType_try_from major minor = Ok v2 \<Longrightarrow>
     \<exists>m. get_supported_version ''signature'' major minor = Some m \<and> SignatureType_parts v2 = (''signature'', major, m)"
  "RevocationType_try_from major minor = Ok v3 \<Longrightarrow>
     \<exists>m. get_supported_version ''revocation_notification'' major minor = Some m \<and> RevocationType_parts v3 = (''revocation_notification'', major, m)"
  "CredentialIssuanceType_try_from major minor = Ok v4 \<Longrightarrow>
     \<exists>m. get_supported_version ''issue-credential'' major minor = Some m \<and> CredentialIssuanceType_parts v4 = (''issue-credential'', major, m)"
  "ReportProblemType_try_from major minor = Ok v5 \<Longrightarrow>
     \<exists>m. get_supported_version ''report-problem'' major minor = Some m \<and> ReportProblemType_parts v5 = (''report-problem'', major, m)"
  "PresentProofType_try_from major minor = Ok v6 \<Longrightarrow>
     \<exists>m. get_supported_version ''present-proof'' major minor = Some m \<and> PresentProofType_parts v6 = (''present-proof'', major, m)"
  "TrustPingType_try_from major minor = Ok v7 \<Longrightarrow>
     \<exists>m. get_supported_version ''trust_ping'' major minor = Some m \<and> TrustPingType_parts v7 = (''trust_ping'', major, m)"
  "DiscoverFeaturesType_try_from major minor = Ok v8 \<Longrightarrow>
     \<exists>m. get_supported_version ''discover-features'' major minor = Some m \<and> DiscoverFeaturesType_parts v8 = (''discover-features'', major, m)"
  "BasicMessageType_try_from major minor = Ok v9 \<Longrightarrow>
     \<exists>m. get_supported_version ''basicmessage'' major minor = Some m \<and> BasicMessageType_parts v9 = (''basicmessage'', major, m)"
  "OutOfBandType_try_from major minor = Ok v10 \<Longrightarrow>
     \<exists>m. get_supported_version ''out-of-band'' major minor = Some m \<and> OutOfBandType_parts v10 = (''out-of-band'', major, m)"
  "NotificationType_try_from major minor = Ok v11 \<Longrightarrow>
     \<exists>m. get_supported_version ''notification'' major minor = Some m \<and> NotificationType_parts v11 = (''notification'', major, m)"
  "PickupType_try_from major minor = Ok v12 \<Longrightarrow>
     \<exists>m. get_supported_version ''messagepickup'' major minor = Some m \<and> PickupType_parts v12 = (''messagepickup'', major, m)"
  "CoordinateMediationType_try_from major minor = Ok v13 \<Longrightarrow>
     \<exists>m. get_supported_version ''coordinate-mediation'' major minor = Some m \<and> CoordinateMediationType_parts v13 = (''coordinate-mediation'', major, m)"
  "DidExchangeType_try_from major minor = Ok v14 \<Longrightarrow>
     \<exists>m. get_supported_version ''didexchange'' major minor = Some m \<and> DidExchangeType_parts v14 = (''didexchange'', major, m)"
  by (auto simp: resolve_defs split: if_split_asm)

text \<open>\<open>from_parts\<close> finds the variant of the version the registry resolves to.\<close>

lemma from_parts_sound:
  assumes "from_parts name major minor = Ok p"
  shows "\<exists>m. get_supported_version name major minor = Some m \<and> as_parts p = (name, major, m)"
  using assms unfolding from_parts_def
  by (elim ifE_result map_ok_OkE; simp) (drule try_from_Ok, assumption)+

lemma try_from_complete:
  "RoutingType_parts v0 = (n, major, m) \<Longrightarrow> get_supported_version n major minor = Some m \<Longrightarrow>
     n = ''routing'' \<and> RoutingType_try_from major minor = Ok v0"
  "ConnectionType_parts v1 = (n, major, m) \<Longrightarrow> get_supported_version n major minor = Some m \<Longrightarrow>
     n = ''connections'' \<and> ConnectionType_try_from major minor = Ok v1"
  "SignatureType_parts v2 = (n, major, m) \<Longrightarrow> get_supported_version n major minor = Some m \<Longrightarrow>
     n = ''signature'' \<and> SignatureType_try_from major minor = Ok v2"
  "RevocationType_parts v3 = (n, major, m) \<Longrightarrow> get_supported_version n major minor = Some m \<Longrightarrow>
     n = ''revocation_notification'' \<and> RevocationType_try_from major minor = Ok v3"
  "CredentialIssuanceType_parts v4 = (n, major, m) \<Longrightarrow> get_supported_version n major minor = Some m \<Longrightarrow>
     n = ''issue-credential'' \<and> CredentialIssuanceType_try_from major minor = Ok v4"
  "ReportProblemType_parts v5 = (n, major, m) \<Longrightarrow> get_supported_version n major minor = Some m \<Longrightarrow>
     n = ''report-problem'' \<and> ReportProblemType_try_from major minor = Ok v5"
  "PresentProofType_parts v6 = (n, major, m) \<Longrightarrow> get_supported_version n major minor = Some m \<Longrightarrow>
     n = ''present-proof'' \<and> PresentProofType_try_from major minor = Ok v6"
  "TrustPingType_parts v7 = (n, major, m) \<Longrightarrow> get_supported_version n major minor = Some m \<Longrightarrow>
     n = ''trust_ping'' \<and> TrustPingType_try_from major minor = Ok v7"
  "DiscoverFeaturesType_parts v8 = (n, major, m) \<Longrightarrow> get_supported_version n major minor = Some m \<Longrightarrow>
     n = ''discover-features'' \<and> DiscoverFeaturesType_try_from major minor = Ok v8"
  "BasicMessageType_parts v9 = (n, major, m) \<Longrightarrow> get_supported_version n major minor = Some m \<Longrightarrow>
     n = ''basicmessage'' \<and> BasicMessageType_try_from major minor = Ok v9"
  "OutOfBandType_parts v10 = (n, major, m) \<Longrightarrow> get_supported_version n major minor = Some m \<Longrightarrow>
     n = ''out-of-band'' \<and> OutOfBandType_try_from major minor = Ok v10"
  "NotificationType_parts v11 = (n, major, m) \<Longrightarrow> get_supported_version n major minor = Some m \<Longrightarrow>
     n = ''notification'' \<and> NotificationType_try_from major minor = Ok v11"
  "PickupType_parts v12 = (n, major, m) \<Longrightarrow> get_supported_version n major minor = Some m \<Longrightarrow>
     n = ''messagepickup'' \<and> PickupType_try_from major minor = Ok v12"
  "CoordinateMediationType_parts v13 = (n, major, m) \<Longrightarrow> get_supported_version n major minor = Some m \<Longrightarrow>
     n = ''coordinate-mediation'' \<and> CoordinateMediationType_try_from major minor = Ok v13"
  "DidExchangeType_parts v14 = (n, major, m) \<Longrightarrow> get_supported_version n major minor = Some m \<Longrightarrow>
     n = ''didexchange'' \<and> DidExchangeType_try_from major minor = Ok v14"
  subgoal by (cases v0; rename_tac w; case_tac w) (auto simp: resolve_defs split: if_split_asm)
  subgoal by (cases v1; rename_tac w; case_tac w) (auto simp: resolve_defs split: if_split_asm)
  subgoal by (cases v2; rename_tac w; case_tac w) (auto simp: resolve_defs split: if_split_asm)
  subgoal by (cases v3; rename_tac w; case_tac w) (auto simp: resolve_defs split: if_split_asm)
  subgoal by (cases v4; rename_tac w; case_tac w) (auto simp: resolve_defs split: if_split_asm)
  subgoal by (cases v5; rename_tac w; case_tac w) (auto simp: resolve_defs split: if_split_asm)
  subgoal by (cases v6; rename_tac w; case_tac w) (auto simp: resolve_defs split: if_split_asm)
  subgoal by (cases v7; rename_tac w; case_tac w) (auto simp: resolve_defs split: if_split_asm)
  subgoal by (cases v8; rename_tac w; case_tac w) (auto simp: resolve_defs split: if_split_asm)
  subgoal by (cases v9; rename_tac w; case_tac w) (auto simp: resolve_defs split: if_split_asm)
  subgoal by (cases v10; rename_tac w; case_tac w) (auto simp: resolve_defs split: if_split_asm)
  subgoal by (cases v11; rename_tac w; case_tac w) (auto simp: resolve_defs split: if_split_asm)
  subgoal by (cases v12; rename_tac w; case_tac w) (auto simp: resolve_defs split: if_split_asm)
  subgoal by (cases v13; rename_tac w; case_tac w) (auto simp: resolve_defs split: if_split_asm)
  subgoal by (cases v14; rename_tac w; case_tac w) (auto simp: resolve_defs split: if_split_asm)
  done

lemma from_parts_complete:
  assumes "as_parts p = (name, major, m)" and "get_supported_version name major minor = Some m"
  shows "from_parts name major minor = Ok p"
proof (cases p)
  case (RoutingType v)
  with assms try_from_complete(1) [of v name major m minor] show ?thesis by (simp add: from_parts_def)
next
  case (ConnectionType v)
  with assms try_from_complete(2) [of v name major m minor] show ?thesis by (simp add: from_parts_def)
next
  case (SignatureType v)
  with assms try_from_complete(3) [of v name major m minor] show ?thesis by (simp add: from_parts_def)
next
  case (RevocationType v)
  with assms try_from_complete(4) [of v name major m minor] show ?thesis by (simp add: from_parts_def)
next
  case (CredentialIssuanceType v)
  with assms try_from_complete(5) [of v name major m minor] show ?thesis by (simp add: from_parts_def)
next
  case (ReportProblemType v)
  with assms try_from_complete(6) [of v name major m minor] show ?thesis by (simp add: from_parts_def)
next
  case (PresentProofType v)
  with assms try_from_complete(7) [of v name major m minor] show ?thesis by (simp add: from_parts_def)
next
  case (TrustPingType v)
  with assms try_from_complete(8) [of v name major m minor] show ?thesis by (simp add: from_parts_def)
next
  case (DiscoverFeaturesType v)
  with assms try_from_complete(9) [of v name major m minor] show ?thesis by (simp add: from_parts_def)
next
  case (BasicMessageType v)
  with assms try_from_complete(10) [of v name major m minor] show ?thesis by (simp add: from_parts_def)
next
  case (OutOfBandType v)
  with assms try_from_complete(11) [of v name major m minor] show ?thesis by (simp add: from_parts_def)
next
  case (NotificationType v)
  with assms try_from_complete(12) [of v name major m minor] show ?thesis by (simp add: from_parts_def)
next
  case (PickupType v)
  with assms try_from_complete(13) [of v name major m minor] show ?thesis by (simp add: from_parts_def)
next
  case (CoordinateMediationType v)
  with assms try_from_complete(14) [of v name major m minor] show ?thesis by (simp add: from_parts_def)
next
  case (DidExchangeType v)
  with assms try_from_complete(15) [of v name major m minor] show ?thesis by (simp add: from_parts_def)
qed

lemma supported_protocol:
  assumes "get_supported_version name major minor = Some m"
  shows "\<exists>p. as_parts p = (name, major, m)"
proof -
  from assms obtain es where es: "((name, major), es) \<in> set PROTOCOL_REGISTRY" "m \<in> re_minor ` set es"
    by (auto simp: get_supported_version_def find_Some_iff Option.bind_eq_Some_conv dest!: map_of_SomeD)
      (metis image_eqI length_rev nth_mem set_rev)
  from registry_entries es show ?thesis by (force simp: list_all_iff)
qed

text \<open>
  Semantic versioning of protocols: the parts of a message type resolve exactly to the
  supported protocol with that name and major version whose minor version is the largest that
  does not exceed the requested one; nothing resolves when there is none.
\<close>

theorem version_resolution:
  "from_parts name major minor = Ok p \<longleftrightarrow>
     (\<exists>m. as_parts p = (name, major, m) \<and> m \<le> minor
        \<and> (\<forall>q k. as_parts q = (name, major, k) \<and> k \<le> minor \<longrightarrow> k \<le> m))"
proof
  assume "from_parts name major minor = Ok p"
  then obtain m where m: "get_supported_version name major minor = Some m"
    "as_parts p = (name, major, m)" using from_parts_sound by blast
  have "m \<le> minor" by (rule supported_le [OF m(1)])
  moreover have "k \<le> m" if "as_parts q = (name, major, k)" "k \<le> minor" for q k
    using supported_largest [OF that] m(1) by auto
  ultimately show "\<exists>m. as_parts p = (name, major, m) \<and> m \<le> minor
      \<and> (\<forall>q k. as_parts q = (name, major, k) \<and> k \<le> minor \<longrightarrow> k \<le> m)"
    using m(2) by blast
next
  assume "\<exists>m. as_parts p = (name, major, m) \<and> m \<le> minor
      \<and> (\<forall>q k. as_parts q = (name, major, k) \<and> k \<le> minor \<longrightarrow> k \<le> m)"
  then obtain m where m: "as_parts p = (name, major, m)" "m \<le> minor"
    and largest: "\<And>q k. as_parts q = (name, major, k) \<Longrightarrow> k \<le> minor \<Longrightarrow> k \<le> m" by blast
  from supported_largest [OF m] obtain n where
    n: "get_supported_version name major minor = Some n" "m \<le> n" "n \<le> minor" by blast
  from supported_protocol [OF n(1)] obtain q where "as_parts q = (name, major, n)" ..
  from largest [OF this n(3)] n(2) have "n = m" by simp
  with n(1) m(1) show "from_parts name major minor = Ok p" by (simp add: from_parts_complete)
qed

theorem version_resolution_witness:
  "from_parts ''didexchange'' 1 7 = Ok (DidExchangeType (DidExchangeType_V1 DidExchangeV1_1))"
proof -
  have *: "k \<le> 1" if "as_parts q = (''didexchange'', 1, k)" for q k
    using that by (cases q; rename_tac v; case_tac v; rename_tac w; case_tac w) auto
  show ?thesis by (simp add: version_resolution) (blast intro: *)
qed

lemma exact_version: "as_parts p = (name, major, m) \<Longrightarrow> from_parts name major m = Ok p"
  using supported_largest [of p name major m m] by (auto simp: from_parts_complete)

lemma as_parts_inject: "as_parts p = as_parts q \<Longrightarrow> p = q"
  by (metis exact_version prod_cases3 result.inject(1))

lemma protocol_name_plain:
  "as_parts p = (name, major, m) \<Longrightarrow> CHR ''/'' \<notin> set name"
  by (cases p; rename_tac v; case_tac v; rename_tac w; case_tac w) auto

lemma show_u8_plain: "CHR ''/'' \<notin> set (show_u8 w)" "CHR ''.'' \<notin> set (show_u8 w)"
  by (simp_all add: show_u8_def show_nat_no_char to_digit_def)

text \<open>The common part of both prefixes: a name, a version, and whatever follows.\<close>

lemma from_str_parts:
  assumes "CHR ''/'' \<notin> set name" "CHR ''/'' \<notin> set version"
  shows "Protocol_from_str (DID_COM_ORG_PREFIX @ ''/'' @ name @ ''/'' @ version) =
    and_then (next_part (split_char (CHR ''.'') version) ''protocol major version'') (\<lambda>(ma, r).
    and_then (map_err InvalidVersion (parse_u8 ma)) (\<lambda>major.
    and_then (next_part r ''protocol minor version'') (\<lambda>(mi, _).
    and_then (map_err InvalidVersion (parse_u8 mi)) (\<lambda>minor. from_parts name major minor))))"
proof -
  have "split_char (CHR ''/'') (DID_COM_ORG_PREFIX @ ''/'' @ name @ ''/'' @ version) =
      [''https:'', [], ''didcomm.org'', name, version]"
    using assms by (simp add: DID_COM_ORG_PREFIX_def split_char_append split_char_none)
  then show ?thesis
    by (simp add: Protocol_from_str_def next_part_def del: append.simps)
qed

text \<open>
  Reading back the text of a message type gives the protocol and the kind it was built from,
  for every protocol and every kind without a slash; in particular every message type the
  library writes is one it understands.
\<close>

lemma msg_type_roundtrip:
  assumes "CHR ''/'' \<notin> set kind"
  shows "MessageType_try_from (serialize_msg_type p kind) = Ok \<lparr>mt_protocol = p, mt_kind = kind\<rparr>"
proof -
  obtain name major minor where p: "as_parts p = (name, major, minor)" by (rule prod_cases3)
  let ?v = "show_u8 major @ ''.'' @ show_u8 minor"
  have v: "CHR ''/'' \<notin> set ?v" "split_char (CHR ''.'') ?v = [show_u8 major, show_u8 minor]"
    by (simp_all add: show_u8_plain split_char_append split_char_none)
  have "show_Protocol p = DID_COM_ORG_PREFIX @ ''/'' @ name @ ''/'' @ ?v"
    by (simp add: show_Protocol_def p)
  with from_str_parts [OF protocol_name_plain [OF p] v(1)] v(2)
  have "Protocol_from_str (show_Protocol p) = Ok p"
    by (simp add: next_part_def parse_show_u8 exact_version [OF p] del: append_assoc)
  moreover have "rsplit_once (CHR ''/'') (serialize_msg_type p kind) = Some (show_Protocol p, kind)"
    using assms by (simp add: serialize_msg_type_def rsplit_once_append)
  ultimately show ?thesis by (simp add: MessageType_try_from_def)
qed

theorem msg_type_roundtrip_witness:
  "MessageType_try_from (serialize_msg_type (ConnectionType (ConnectionType_V1 ConnectionV1_0))
       ''problem_report'') =
     Ok \<lparr>mt_protocol = ConnectionType (ConnectionType_V1 ConnectionV1_0), mt_kind = ''problem_report''\<rparr>"
  by (rule msg_type_roundtrip) simp

text \<open>
  The older prefix is an alias of the newer one: the same protocol or the same error, whatever
  follows it.
\<close>

theorem legacy_prefix_alias:
  "Protocol_from_str (DID_SOV_PREFIX @ ''/'' @ rest) = Protocol_from_str (DID_COM_ORG_PREFIX @ ''/'' @ rest)"
proof -
  have "split_char (CHR ''/'') (DID_COM_ORG_PREFIX @ ''/'' @ rest) =
      [''https:'', [], ''didcomm.org''] @ split_char (CHR ''/'') rest"
    by (simp add: DID_COM_ORG_PREFIX_def)
  moreover have "split_char (CHR ''/'') (DID_SOV_PREFIX @ ''/'' @ rest) =
      DID_SOV_PREFIX # split_char (CHR ''/'') rest"
    by (simp add: DID_SOV_PREFIX_def)
  moreover have "\<not> starts_with (DID_SOV_PREFIX @ ''/'' @ rest) DID_COM_ORG_PREFIX"
    by (simp add: DID_SOV_PREFIX_def DID_COM_ORG_PREFIX_def starts_with_def)
  ultimately show ?thesis by (simp add: Protocol_from_str_def del: append.simps(2))
qed

text \<open>
  The prefix is compared as text, not as a path segment: a longer host name passes for it.
\<close>

lemma prefix_not_anchored:
  "Protocol_from_str ''https://didcomm.org.example/connections/1.0'' =
     Ok (ConnectionType (ConnectionType_V1 ConnectionV1_0))"
  by code_simp

end
