(* ===== verification/Vcx_Errors.thy ===== *)
theory Vcx_Errors
  imports Rust_Std
begin

text \<open>
  The error types of the library and of the three crates below it, and the conversions between
  them (\<open>aries_vcx/src/errors\<close>, \<open>aries_vcx_wallet\<close>, \<open>aries_vcx_anoncreds\<close>, \<open>aries_vcx_ledger\<close>).
  Errors of third-party crates that the enums wrap are represented by their \<open>Display\<close> text. The
  library is modelled with the feature \<open>backtrace_errors\<close> off, its default.
\<close>

section \<open>The error of the library\<close>

datatype (plugins only: code) AriesVcxErrorKind =
    InvalidState | InvalidConfiguration | AuthenticationError | InvalidJson | InvalidOption
  | InvalidMessagePack | NotReady | IOError | LibindyInvalidStructure | InvalidLibindyParam
  | ActionNotSupported | InvalidInput | UnimplementedFeature | CredDefAlreadyCreated
  | RevDeltaNotFound | RevDeltaFailedToClear | CreateRevRegDef | InvalidRevocationDetails
  | InvalidRevocationEntry | InvalidRevocationTimestamp | RevRegDefNotFound
  | InvalidAttributesStructure | InvalidProof | InvalidSchema | InvalidProofCredentialData
  | InvalidProofRequest | ProofRejected | InvalidSchemaSeqNo | DuplicationSchema
  | UnknownSchemaRejection | InvalidGenesisTxnPath | CreatePoolConfig | PoolLedgerConnect
  | InvalidLedgerResponse | LedgerItemNotFound | NoPoolOpen | PostMessageFailed
  | WalletCreate | WalletAccessFailed | InvalidWalletHandle | DuplicationWallet
  | WalletRecordNotFound | DuplicationWalletRecord | WalletNotFound | WalletAlreadyOpen
  | DuplicationMasterSecret | DuplicationDid | LoggingError | EncodeError | UnknownError
  | InvalidDid | InvalidVerkey | InvalidNonce | InvalidUrl | SerializationError | NotBase58
  | ParsingError | WalletError | InvalidHttpResponse | InvalidMessages | UrsaError
  | NoAgentInformation | InvalidMessageFormat

record AriesVcxError =
  err_msg :: string
  err_kind :: AriesVcxErrorKind
  err_backtrace :: "string option"

type_synonym 'a VcxResult = "(AriesVcxError, 'a) result"

definition try_capture_backtrace :: "string option" where
  "try_capture_backtrace = None"

definition from_msg :: "AriesVcxErrorKind \<Rightarrow> string \<Rightarrow> AriesVcxError" where
  "from_msg k m = \<lparr>err_msg = m, err_kind = k, err_backtrace = try_capture_backtrace\<rparr>"

text \<open>
  \<open>Display\<close>: a line with the message, a line with the backtrace if there is one. The struct has
  no source field, so the loop over causes has nothing to print.
\<close>

definition format_error :: "AriesVcxError \<Rightarrow> string" where
  "format_error e = ''Error: '' @ err_msg e @ [CHR 0x0A]
     @ (case err_backtrace e of None \<Rightarrow> [] | Some b \<Rightarrow> ''Backtrace: '' @ b @ [CHR 0x0A])"

text \<open>\<open>AriesVcxError::extend\<close> and \<open>AriesVcxError::map\<close>.\<close>

definition extend_error :: "AriesVcxError \<Rightarrow> string \<Rightarrow> AriesVcxError" where
  "extend_error e m = from_msg (err_kind e) (err_msg e @ [CHR 0x0A] @ m)"

definition map_error :: "AriesVcxError \<Rightarrow> AriesVcxErrorKind \<Rightarrow> string \<Rightarrow> AriesVcxError" where
  "map_error e k m = from_msg k m"

lemma err_kind_from_msg [simp]: "err_kind (from_msg k m) = k"
  by (simp add: from_msg_def)

lemma err_msg_from_msg [simp]: "err_msg (from_msg k m) = m"
  by (simp add: from_msg_def)

lemma from_msg_inject [simp]: "from_msg k m = from_msg k' m' \<longleftrightarrow> k = k' \<and> m = m'"
  by (auto simp: from_msg_def)

abbreviation vcx_err :: "AriesVcxErrorKind \<Rightarrow> string \<Rightarrow> 'a VcxResult" where
  "vcx_err k m \<equiv> Err (from_msg k m)"

section \<open>Wallet errors\<close>

datatype VcxWalletError =
    We_DuplicateRecord string
  | We_NotUtf8 string
  | We_NotBase58 string
  | We_NotBase64 string
  | We_RecordNotFound "string option"
  | We_UnknownRecordCategory string
  | We_InvalidInput string
  | We_NoRecipientKeyFound
  | We_InvalidJson string
  | We_PublicKeyError string
  | We_Unimplemented string
  | We_Unknown string
  | We_WalletCreate string

text \<open>\<open>NotFoundInfo\<close> is the optional text of \<open>RecordNotFound\<close>; this is its \<open>Display\<close>.\<close>

definition show_NotFoundInfo :: "string option \<Rightarrow> string" where
  "show_NotFoundInfo i = (case i of None \<Rightarrow> ''no details provided'' | Some payload \<Rightarrow> payload)"

fun show_wallet_error :: "VcxWalletError \<Rightarrow> string" where
  "show_wallet_error (We_DuplicateRecord i) = ''Duplicate record: '' @ i"
| "show_wallet_error (We_NotUtf8 i) = ''Not UTF-8: '' @ i"
| "show_wallet_error (We_NotBase58 i) = ''Not Base58: '' @ i"
| "show_wallet_error (We_NotBase64 i) = ''Not Base64: '' @ i"
| "show_wallet_error (We_RecordNotFound i) = ''Record not found: '' @ show_NotFoundInfo i"
| "show_wallet_error (We_UnknownRecordCategory i) = ''Unknown RecordCategory: '' @ i"
| "show_wallet_error (We_InvalidInput i) = ''Invalid input: '' @ i"
| "show_wallet_error We_NoRecipientKeyFound = ''No recipient key found''"
| "show_wallet_error (We_InvalidJson i) = ''Invalid JSON: '' @ i"
| "show_wallet_error (We_PublicKeyError i) = ''Public key error: '' @ i"
| "show_wallet_error (We_Unimplemented i) = ''Not implemented: '' @ i"
| "show_wallet_error (We_Unknown i) = ''Unknown error: '' @ i"
| "show_wallet_error (We_WalletCreate i) = ''Error creating a wallet: '' @ i"

fun wallet_error_kind :: "VcxWalletError \<Rightarrow> AriesVcxErrorKind" where
  "wallet_error_kind (We_DuplicateRecord _) = DuplicationWalletRecord"
| "wallet_error_kind (We_RecordNotFound _) = WalletRecordNotFound"
| "wallet_error_kind (We_UnknownRecordCategory _) = InvalidInput"
| "wallet_error_kind (We_InvalidInput _) = InvalidInput"
| "wallet_error_kind We_NoRecipientKeyFound = WalletRecordNotFound"
| "wallet_error_kind (We_InvalidJson _) = InvalidJson"
| "wallet_error_kind (We_PublicKeyError _) = InvalidInput"
| "wallet_error_kind (We_Unimplemented _) = UnimplementedFeature"
| "wallet_error_kind (We_Unknown _) = UnknownError"
| "wallet_error_kind (We_WalletCreate _) = WalletCreate"
| "wallet_error_kind (We_NotUtf8 _) = ParsingError"
| "wallet_error_kind (We_NotBase58 _) = NotBase58"
| "wallet_error_kind (We_NotBase64 _) = ParsingError"

definition from_wallet_error :: "VcxWalletError \<Rightarrow> AriesVcxError" where
  "from_wallet_error e = from_msg (wallet_error_kind e) (show_wallet_error e)"

section \<open>Anoncreds errors\<close>

datatype VcxAnoncredsError =
    Ae_InvalidJson string
  | Ae_InvalidInput string
  | Ae_InvalidState string
  | Ae_WalletError VcxWalletError
  | Ae_UrsaError string
  | Ae_IOError string
  | Ae_UnknownError string
  | Ae_ProofRejected string
  | Ae_ActionNotSupported string
  | Ae_InvalidProofRequest string
  | Ae_InvalidAttributesStructure string
  | Ae_InvalidOption string
  | Ae_InvalidSchema string
  | Ae_DuplicationMasterSecret string
  | Ae_UnimplementedFeature string

fun show_anoncreds_error :: "VcxAnoncredsError \<Rightarrow> string" where
  "show_anoncreds_error (Ae_InvalidJson i) = ''Invalid JSON: '' @ i"
| "show_anoncreds_error (Ae_InvalidInput i) = ''Invalid input: '' @ i"
| "show_anoncreds_error (Ae_InvalidState i) = ''Invalid state: '' @ i"
| "show_anoncreds_error (Ae_WalletError e) = ''Wallet error: '' @ show_wallet_error e"
| "show_anoncreds_error (Ae_UrsaError i) = ''Ursa error: '' @ i"
| "show_anoncreds_error (Ae_IOError i) = ''IO error: '' @ i"
| "show_anoncreds_error (Ae_UnknownError i) = ''Unknown error: '' @ i"
| "show_anoncreds_error (Ae_ProofRejected i) = ''Proof rejected: '' @ i"
| "show_anoncreds_error (Ae_ActionNotSupported i) = ''Action not supported: '' @ i"
| "show_anoncreds_error (Ae_InvalidProofRequest i) = ''Invalid proof request: '' @ i"
| "show_anoncreds_error (Ae_InvalidAttributesStructure i) = ''Invalid attributes structure: '' @ i"
| "show_anoncreds_error (Ae_InvalidOption i) = ''Invalid option: '' @ i"
| "show_anoncreds_error (Ae_InvalidSchema i) = ''Invalid schema: '' @ i"
| "show_anoncreds_error (Ae_DuplicationMasterSecret i) = ''Invalid master secret: '' @ i"
| "show_anoncreds_error (Ae_UnimplementedFeature i) = ''Unimplemented feature: '' @ i"

fun from_anoncreds_error :: "VcxAnoncredsError \<Rightarrow> AriesVcxError" where
  "from_anoncreds_error (Ae_WalletError inner) = from_wallet_error inner"
| "from_anoncreds_error e = from_msg
     (case e of
        Ae_InvalidJson _ \<Rightarrow> InvalidJson
      | Ae_InvalidInput _ \<Rightarrow> InvalidInput
      | Ae_InvalidState _ \<Rightarrow> InvalidState
      | Ae_UrsaError _ \<Rightarrow> UrsaError
      | Ae_IOError _ \<Rightarrow> IOError
      | Ae_UnknownError _ \<Rightarrow> UnknownError
      | Ae_ProofRejected _ \<Rightarrow> ProofRejected
      | Ae_ActionNotSupported _ \<Rightarrow> ActionNotSupported
      | Ae_InvalidProofRequest _ \<Rightarrow> InvalidProofRequest
      | Ae_InvalidAttributesStructure _ \<Rightarrow> InvalidAttributesStructure
      | Ae_InvalidOption _ \<Rightarrow> InvalidOption
      | Ae_InvalidSchema _ \<Rightarrow> InvalidSchema
      | Ae_DuplicationMasterSecret _ \<Rightarrow> DuplicationMasterSecret
      | Ae_UnimplementedFeature _ \<Rightarrow> UnimplementedFeature)
     (show_anoncreds_error e)"

section \<open>Ledger errors\<close>

datatype VcxLedgerError =
    Le_InvalidConfiguration string
  | Le_PoolLedgerConnect string
  | Le_IOError string
  | Le_LedgerItemNotFound
  | Le_InvalidLedgerResponse string
  | Le_DuplicationSchema
  | Le_InvalidJson string
  | Le_WalletError VcxWalletError
  | Le_InvalidState string
  | Le_InvalidOption string
  | Le_InvalidInput string
  | Le_UnsupportedLedgerIdentifier string
  | Le_UnknownError string
  | Le_IndyVdrValidation string
  | Le_ParseError string
  | Le_UnimplementedFeature string

fun show_ledger_error :: "VcxLedgerError \<Rightarrow> string" where
  "show_ledger_error (Le_InvalidConfiguration i) = ''Invalid configuration: '' @ i"
| "show_ledger_error (Le_PoolLedgerConnect i) = ''Pool ledger connect: '' @ i"
| "show_ledger_error (Le_IOError i) = ''IO error: '' @ i"
| "show_ledger_error Le_LedgerItemNotFound = ''Ledger item not found''"
| "show_ledger_error (Le_InvalidLedgerResponse i) = ''Invalid ledger response '' @ i"
| "show_ledger_error Le_DuplicationSchema = ''Duplicated schema''"
| "show_ledger_error (Le_InvalidJson i) = ''Invalid JSON: '' @ i"
| "show_ledger_error (Le_WalletError e) = ''Wallet error: '' @ show_wallet_error e"
| "show_ledger_error (Le_InvalidState i) = ''Invalid state: '' @ i"
| "show_ledger_error (Le_InvalidOption i) = ''Invalid option: '' @ i"
| "show_ledger_error (Le_InvalidInput i) = ''Invalid input: '' @ i"
| "show_ledger_error (Le_UnsupportedLedgerIdentifier i) = ''Unsupported ledger identifier: '' @ i"
| "show_ledger_error (Le_UnknownError i) = ''Unknown error: '' @ i"
| "show_ledger_error (Le_IndyVdrValidation i) = ''Indy Vdr Validation error: '' @ i"
| "show_ledger_error (Le_ParseError i) = ''Parse error: '' @ i"
| "show_ledger_error (Le_UnimplementedFeature i) = ''Unimplemented feature: '' @ i"

fun ledger_error_kind :: "VcxLedgerError \<Rightarrow> AriesVcxErrorKind" where
  "ledger_error_kind Le_LedgerItemNotFound = LedgerItemNotFound"
| "ledger_error_kind (Le_InvalidLedgerResponse _) = InvalidLedgerResponse"
| "ledger_error_kind Le_DuplicationSchema = DuplicationSchema"
| "ledger_error_kind (Le_InvalidJson _) = InvalidJson"
| "ledger_error_kind (Le_WalletError _) = WalletError"
| "ledger_error_kind (Le_InvalidState _) = InvalidState"
| "ledger_error_kind (Le_InvalidOption _) = InvalidOption"
| "ledger_error_kind (Le_ParseError _) = ParsingError"
| "ledger_error_kind (Le_UnimplementedFeature _) = UnimplementedFeature"
| "ledger_error_kind (Le_InvalidConfiguration _) = InvalidConfiguration"
| "ledger_error_kind (Le_PoolLedgerConnect _) = PoolLedgerConnect"
| "ledger_error_kind (Le_IOError _) = IOError"
| "ledger_error_kind (Le_InvalidInput _) = InvalidInput"
| "ledger_error_kind (Le_IndyVdrValidation _) = InvalidInput"
| "ledger_error_kind (Le_UnsupportedLedgerIdentifier _) = InvalidInput"
| "ledger_error_kind (Le_UnknownError _) = UnknownError"

definition from_ledger_error :: "VcxLedgerError \<Rightarrow> AriesVcxError" where
  "from_ledger_error e = from_msg (ledger_error_kind e) (show_ledger_error e)"

section \<open>Errors of other crates\<close>

text \<open>\<open>serde_json::Error\<close> loses its text; the others keep it and differ in the kind.\<close>

definition from_serde_error :: AriesVcxError where
  "from_serde_error = from_msg InvalidJson ''Invalid json''"

definition from_parse_int_error :: "ParseIntError \<Rightarrow> AriesVcxError" where
  "from_parse_int_error e = from_msg InvalidInput (show_ParseIntError e)"

definition from_anoncreds_types_error :: "string \<Rightarrow> AriesVcxError" where
  "from_anoncreds_types_error text = from_msg InvalidState text"

section \<open>Which kinds a conversion can produce\<close>

text \<open>
  \<open>InvalidProof\<close>, the kind by which the verifier tells a wrong proof from a failure to check it,
  is never produced by a conversion: only the verifier's own checks raise it.
\<close>

lemma wallet_error_not_invalid_proof: "wallet_error_kind e \<noteq> InvalidProof"
  by (cases e) simp_all

lemma from_anoncreds_error_not_invalid_proof: "err_kind (from_anoncreds_error e) \<noteq> InvalidProof"
  by (cases e) (simp_all add: from_wallet_error_def wallet_error_not_invalid_proof)

lemma from_ledger_error_not_invalid_proof: "err_kind (from_ledger_error e) \<noteq> InvalidProof"
  by (cases e) (simp_all add: from_ledger_error_def)

lemmas foreign_error_not_invalid_proof =
  from_anoncreds_error_not_invalid_proof from_ledger_error_not_invalid_proof

end
