(* ===== verification/Diddoc_Legacy.thy ===== *)
theory Diddoc_Legacy
  imports Json Vcx_Errors
begin

text \<open>
  The DID documents of the legacy connection protocols: the crate \<open>diddoc_legacy\<close> with the key and
  DID validation of the crate \<open>shared\<close>. Decoding base58 and the \<open>Debug\<close> texts are parameters,
  collected in the record \<open>dd_ext\<close>. A URL is its text. The counter of \<open>set_recipient_keys\<close>
  is a natural number: lists are shorter than the range of \<open>i32\<close>.
\<close>

section \<open>Data\<close>

definition CONTEXT :: string where
  "CONTEXT = ''https://w3id.org/did/v1''"

definition KEY_TYPE :: string where
  "KEY_TYPE = ''Ed25519VerificationKey2018''"

definition KEY_AUTHENTICATION_TYPE :: string where
  "KEY_AUTHENTICATION_TYPE = ''Ed25519SignatureAuthentication2018''"

record Ed25519PublicKey =
  pk_id :: string
  pk_type :: string
  pk_controller :: string
  pk_base58 :: string

record Authentication =
  au_type :: string
  au_public_key :: string

record DdoKeyReference =
  kr_did :: "string option"
  kr_key_id :: string

record AriesService =
  sv_id :: string
  sv_type :: string
  sv_priority :: u32
  sv_recipient_keys :: "string list"
  sv_routing_keys :: "string list"
  sv_service_endpoint :: string

record AriesDidDoc =
  dd_context :: string
  dd_id :: string
  dd_public_key :: "Ed25519PublicKey list"
  dd_authentication :: "Authentication list"
  dd_service :: "AriesService list"

text \<open>Code of other crates: \<open>bs58\<close> (an error is its text) and the \<open>Debug\<close> texts.\<close>

record dd_ext =
  dx_b58_decode :: "string \<Rightarrow> (string, string) result"
  dx_b58_encode :: "string \<Rightarrow> string"
  dx_debug_str :: "string \<Rightarrow> string"
  dx_debug_key_ref :: "DdoKeyReference \<Rightarrow> string"
  dx_debug_doc :: "AriesDidDoc \<Rightarrow> string"

section \<open>Errors\<close>

datatype ValidationErrorKind = Ve_InvalidDid | Ve_InvalidVerkey | Ve_NotBase58

record ValidationError =
  ve_msg :: string
  ve_kind :: ValidationErrorKind

definition ve_from_msg :: "ValidationErrorKind \<Rightarrow> string \<Rightarrow> ValidationError" where
  "ve_from_msg k m = \<lparr>ve_msg = m, ve_kind = k\<rparr>"

text \<open>The \<open>Display\<close> of both error types: a line with the message and an empty line.\<close>

definition show_ValidationError :: "ValidationError \<Rightarrow> string" where
  "show_ValidationError e = ''Error: '' @ ve_msg e @ [CHR 0x0A, CHR 0x0A]"

datatype DiddocErrorKind =
    De_InvalidState | De_InvalidJson | De_SerializationError | De_InvalidUrl | De_InvalidDid
  | De_InvalidVerkey | De_NotBase58

record DiddocError =
  de_msg :: string
  de_kind :: DiddocErrorKind

type_synonym 'a DiddocResult = "(DiddocError, 'a) result"

definition de_from_msg :: "DiddocErrorKind \<Rightarrow> string \<Rightarrow> DiddocError" where
  "de_from_msg k m = \<lparr>de_msg = m, de_kind = k\<rparr>"

definition show_DiddocError :: "DiddocError \<Rightarrow> string" where
  "show_DiddocError e = ''Error: '' @ de_msg e @ [CHR 0x0A, CHR 0x0A]"

fun diddoc_kind_of_validation :: "ValidationErrorKind \<Rightarrow> DiddocErrorKind" where
  "diddoc_kind_of_validation Ve_InvalidDid = De_InvalidDid"
| "diddoc_kind_of_validation Ve_InvalidVerkey = De_InvalidVerkey"
| "diddoc_kind_of_validation Ve_NotBase58 = De_NotBase58"

definition from_validation_error :: "ValidationError \<Rightarrow> DiddocError" where
  "from_validation_error e = de_from_msg (diddoc_kind_of_validation (ve_kind e)) (show_ValidationError e)"

fun vcx_kind_of_diddoc :: "DiddocErrorKind \<Rightarrow> AriesVcxErrorKind" where
  "vcx_kind_of_diddoc De_InvalidState = InvalidState"
| "vcx_kind_of_diddoc De_InvalidJson = InvalidJson"
| "vcx_kind_of_diddoc De_InvalidDid = InvalidDid"
| "vcx_kind_of_diddoc De_InvalidVerkey = InvalidVerkey"
| "vcx_kind_of_diddoc De_InvalidUrl = InvalidUrl"
| "vcx_kind_of_diddoc De_NotBase58 = NotBase58"
| "vcx_kind_of_diddoc De_SerializationError = SerializationError"

definition from_diddoc_error :: "DiddocError \<Rightarrow> AriesVcxError" where
  "from_diddoc_error e = from_msg (vcx_kind_of_diddoc (de_kind e)) (show_DiddocError e)"

definition from_diddoc :: "'a DiddocResult \<Rightarrow> 'a VcxResult" where
  "from_diddoc = map_err from_diddoc_error"

lemma from_diddoc_simps [simp]:
  "from_diddoc (Ok x) = Ok x" "from_diddoc (Err e) = Err (from_diddoc_error e)"
  "from_diddoc Panic = Panic"
  by (simp_all add: from_diddoc_def)

section \<open>Validating keys and DIDs\<close>

definition validate_verkey :: "dd_ext \<Rightarrow> string \<Rightarrow> (ValidationError, string) result" where
  "validate_verkey X verkey =
     (case dx_b58_decode X verkey of
        Ok x \<Rightarrow>
          if length x = 32 then Ok verkey
          else Err (ve_from_msg Ve_InvalidVerkey (''Invalid verkey length, expected 32 bytes, decoded ''
                 @ show_nat (length x) @ '' bytes''))
      | Err err \<Rightarrow> Err (ve_from_msg Ve_NotBase58 (''Verkey is not valid base58, details: '' @ err))
      | Panic \<Rightarrow> Panic)"

text \<open>
  The pattern \<open>did:([a-z0-9]+):([a-zA-Z0-9:.-_]*)\<close> is not anchored and its last group may be empty:
  it matches where \<open>did:\<close>, a method name and a colon occur.
\<close>

definition method_colon :: "string \<Rightarrow> bool" where
  "method_colon s \<longleftrightarrow>
     (let is_m = (\<lambda>c. in_range 97 122 c \<or> in_range 48 57 c) in
      takeWhile is_m s \<noteq> [] \<and> starts_with (dropWhile is_m s) '':'')"

fun is_fully_qualified :: "string \<Rightarrow> bool" where
  "is_fully_qualified [] = False"
| "is_fully_qualified (c # s) =
     ((case strip_prefix (c # s) ''did:'' of Some r \<Rightarrow> method_colon r | None \<Rightarrow> False)
      \<or> is_fully_qualified s)"

definition validate_did :: "dd_ext \<Rightarrow> string \<Rightarrow> (ValidationError, string) result" where
  "validate_did X did =
     (if is_fully_qualified did then Ok did
      else case dx_b58_decode X did of
        Ok x \<Rightarrow>
          if length x = 16 then Ok did
          else Err (ve_from_msg Ve_InvalidDid (''Invalid DID length, expected 16 bytes, decoded ''
                 @ show_nat (length x) @ '' bytes''))
      | Err err \<Rightarrow> Err (ve_from_msg Ve_NotBase58 (''DID is not valid base58, details: '' @ err))
      | Panic \<Rightarrow> Panic)"

section \<open>Services\<close>

definition default_service :: AriesService where
  "default_service = \<lparr>sv_id = ''did:example:123456789abcdefghi;indy'', sv_type = ''IndyAgent'',
     sv_priority = 0, sv_recipient_keys = [], sv_routing_keys = [],
     sv_service_endpoint = ''https://dummy.dummy/dummy''\<rparr>"

definition service_set_service_endpoint :: "AriesService \<Rightarrow> string \<Rightarrow> AriesService" where
  "service_set_service_endpoint s e = s\<lparr>sv_service_endpoint := e\<rparr>"

definition service_set_routing_keys :: "AriesService \<Rightarrow> string list \<Rightarrow> AriesService" where
  "service_set_routing_keys s ks = s\<lparr>sv_routing_keys := ks\<rparr>"

definition service_set_recipient_keys :: "AriesService \<Rightarrow> string list \<Rightarrow> AriesService" where
  "service_set_recipient_keys s ks = s\<lparr>sv_recipient_keys := ks\<rparr>"

text \<open>The hand-written \<open>PartialEq\<close> compares the keys only.\<close>

definition service_eq :: "AriesService \<Rightarrow> AriesService \<Rightarrow> bool" where
  "service_eq s t \<longleftrightarrow> sv_recipient_keys s = sv_recipient_keys t \<and> sv_routing_keys s = sv_routing_keys t"

section \<open>Building a document\<close>

definition default_did_doc :: AriesDidDoc where
  "default_did_doc = \<lparr>dd_context = CONTEXT, dd_id = [], dd_public_key = [], dd_authentication = [],
     dd_service = [default_service]\<rparr>"

definition set_id :: "string \<Rightarrow> AriesDidDoc \<Rightarrow> AriesDidDoc" where
  "set_id i d = d\<lparr>dd_id := i\<rparr>"

text \<open>\<open>if let Some(service) = self.service.get_mut(0) \{ ... \}\<close>\<close>

definition update_first :: "(AriesService \<Rightarrow> AriesService) \<Rightarrow> AriesDidDoc \<Rightarrow> AriesDidDoc" where
  "update_first f d = d\<lparr>dd_service := (case dd_service d of [] \<Rightarrow> [] | s # r \<Rightarrow> f s # r)\<rparr>"

definition set_service_endpoint :: "string \<Rightarrow> AriesDidDoc \<Rightarrow> AriesDidDoc" where
  "set_service_endpoint e = update_first (\<lambda>s. s\<lparr>sv_service_endpoint := e\<rparr>)"

definition build_key_reference :: "string \<Rightarrow> string \<Rightarrow> string" where
  "build_key_reference did i = did @ ''#'' @ i"

text \<open>One round of the loop of \<open>set_recipient_keys\<close>: the counter is incremented first.\<close>

definition add_recipient_key :: "nat \<times> AriesDidDoc \<Rightarrow> string \<Rightarrow> nat \<times> AriesDidDoc" where
  "add_recipient_key = (\<lambda>(key_id, d) key_in_base58.
     let key_id = key_id + 1;
         key_reference = build_key_reference (dd_id d) (show_nat key_id);
         d = d\<lparr>dd_public_key := dd_public_key d @ [\<lparr>pk_id = key_reference, pk_type = KEY_TYPE,
               pk_controller = dd_id d, pk_base58 = key_in_base58\<rparr>]\<rparr>;
         d = d\<lparr>dd_authentication := dd_authentication d @ [\<lparr>au_type = KEY_AUTHENTICATION_TYPE,
               au_public_key = key_reference\<rparr>]\<rparr>
     in (key_id, update_first (\<lambda>s. s\<lparr>sv_recipient_keys := sv_recipient_keys s @ [key_in_base58]\<rparr>) d))"

definition set_recipient_keys :: "string list \<Rightarrow> AriesDidDoc \<Rightarrow> AriesDidDoc" where
  "set_recipient_keys ks d = snd (foldl add_recipient_key (0, d) ks)"

definition set_routing_keys :: "string list \<Rightarrow> AriesDidDoc \<Rightarrow> AriesDidDoc" where
  "set_routing_keys ks d =
     foldl (\<lambda>d key. update_first (\<lambda>s. s\<lparr>sv_routing_keys := sv_routing_keys s @ [key]\<rparr>) d) d ks"

section \<open>Reading a document\<close>

definition key_parts :: "string \<Rightarrow> string list" where
  "key_parts = split_char (CHR ''#'')"

definition parse_key_reference :: "dd_ext \<Rightarrow> string \<Rightarrow> DdoKeyReference DiddocResult" where
  "parse_key_reference X key_reference =
     (case key_parts key_reference of
        [] \<Rightarrow> Err (de_from_msg De_InvalidJson
                (''DIDDoc validation failed: Invalid key reference: '' @ dx_debug_str X key_reference))
      | [a] \<Rightarrow> Ok \<lparr>kr_did = None, kr_key_id = a\<rparr>
      | a # b # _ \<Rightarrow> Ok \<lparr>kr_did = Some a, kr_key_id = b\<rparr>)"

definition find_key_by_reference ::
  "dd_ext \<Rightarrow> AriesDidDoc \<Rightarrow> DdoKeyReference \<Rightarrow> Ed25519PublicKey DiddocResult" where
  "find_key_by_reference X d key_ref =
     ok_or (find (\<lambda>k. case kr_did key_ref of
              None \<Rightarrow> pk_id k = kr_key_id key_ref
            | Some did \<Rightarrow> pk_id k = kr_key_id key_ref \<or> pk_id k = did @ ''#'' @ kr_key_id key_ref)
            (dd_public_key d))
       (de_from_msg De_InvalidJson (''Failed to find entry in public_key by key reference: ''
          @ dx_debug_key_ref X key_ref))"

definition find_key_by_value :: "AriesDidDoc \<Rightarrow> string \<Rightarrow> Ed25519PublicKey DiddocResult" where
  "find_key_by_value d key =
     ok_or (find (\<lambda>k. pk_base58 k = key) (dd_public_key d))
       (de_from_msg De_InvalidJson (''Failed to find entry in public_key by key value: '' @ key))"

definition validate_ed25519_key :: "dd_ext \<Rightarrow> Ed25519PublicKey \<Rightarrow> unit DiddocResult" where
  "validate_ed25519_key X k =
     (if pk_type k \<noteq> KEY_TYPE then
        Err (de_from_msg De_InvalidJson
          (''DIDDoc validation failed: Unsupported PublicKey type: '' @ dx_debug_str X (pk_type k)))
      else map_ok (\<lambda>_. ()) (map_err from_validation_error (validate_verkey X (pk_base58 k))))"

definition get_key :: "dd_ext \<Rightarrow> AriesDidDoc \<Rightarrow> string \<Rightarrow> Ed25519PublicKey DiddocResult" where
  "get_key X d key_value_or_reference =
     and_then
       (case validate_verkey X key_value_or_reference of
          Ok key \<Rightarrow> find_key_by_value d key
        | Err _ \<Rightarrow> and_then (parse_key_reference X key_value_or_reference) (find_key_by_reference X d)
        | Panic \<Rightarrow> Panic)
       (\<lambda>public_key. and_then (validate_ed25519_key X public_key) (\<lambda>_. Ok public_key))"

definition is_authentication_key :: "dd_ext \<Rightarrow> AriesDidDoc \<Rightarrow> string \<Rightarrow> unit DiddocResult" where
  "is_authentication_key X d key =
     (if dd_authentication d = [] then Ok ()
      else and_then
        (ok_or (find (\<lambda>a. au_public_key a = key
                    \<or> (case parse_key_reference X (au_public_key a) of
                         Ok r \<Rightarrow> kr_key_id r = key | _ \<Rightarrow> False)) (dd_authentication d))
           (de_from_msg De_InvalidJson
              (''DIDDoc validation failed: Cannot find Authentication record key: '' @ dx_debug_str X key)))
        (\<lambda>a. if au_type a \<noteq> KEY_AUTHENTICATION_TYPE \<and> au_type a \<noteq> KEY_TYPE then
               Err (de_from_msg De_InvalidJson
                 (''DIDDoc validation failed: Unsupported Authentication type: ''
                  @ dx_debug_str X (au_type a)))
             else Ok ()))"

text \<open>\<open>validate\<close>, with the body of its loop over the services.\<close>

definition validate_service :: "dd_ext \<Rightarrow> AriesDidDoc \<Rightarrow> AriesService \<Rightarrow> unit DiddocResult" where
  "validate_service X d s =
     and_then (try_map (\<lambda>e. and_then (get_key X d e) (\<lambda>k. is_authentication_key X d (pk_id k)))
                 (sv_recipient_keys s)) (\<lambda>_.
     map_ok (\<lambda>_. ()) (try_map (\<lambda>e. map_err from_validation_error (validate_verkey X e))
                         (sv_routing_keys s)))"

definition validate_did_doc :: "dd_ext \<Rightarrow> AriesDidDoc \<Rightarrow> unit DiddocResult" where
  "validate_did_doc X d =
     (if dd_context d \<noteq> CONTEXT then
        Err (de_from_msg De_InvalidJson
          (''DIDDoc validation failed: Unsupported @context value: '' @ dx_debug_str X (dd_context d)))
      else if dd_id d = [] then
        Err (de_from_msg De_InvalidJson ''DIDDoc validation failed: id is empty'')
      else map_ok (\<lambda>_. ()) (try_map (validate_service X d) (dd_service d)))"

definition recipient_keys :: "dd_ext \<Rightarrow> AriesDidDoc \<Rightarrow> string list DiddocResult" where
  "recipient_keys X d =
     (case dd_service d of
        [] \<Rightarrow> Ok []
      | s # _ \<Rightarrow> try_map (\<lambda>e. map_ok pk_base58 (get_key X d e)) (sv_recipient_keys s))"

definition routing_keys :: "AriesDidDoc \<Rightarrow> string list" where
  "routing_keys d = (case dd_service d of [] \<Rightarrow> [] | s # _ \<Rightarrow> sv_routing_keys s)"

definition get_endpoint :: "AriesDidDoc \<Rightarrow> string option" where
  "get_endpoint d = (case dd_service d of [] \<Rightarrow> None | s # _ \<Rightarrow> Some (sv_service_endpoint s))"

definition get_service_of :: "dd_ext \<Rightarrow> AriesDidDoc \<Rightarrow> AriesService DiddocResult" where
  "get_service_of X d =
     and_then (ok_or (case dd_service d of [] \<Rightarrow> None | s # _ \<Rightarrow> Some s)
                 (de_from_msg De_InvalidState (''No service found on did doc: '' @ dx_debug_doc X d)))
       (\<lambda>service.
     and_then (recipient_keys X d) (\<lambda>rks.
       Ok (service\<lparr>sv_recipient_keys := rks, sv_routing_keys := routing_keys d\<rparr>)))"

section \<open>Properties\<close>

definition valid_verkey :: "dd_ext \<Rightarrow> string \<Rightarrow> bool" where
  "valid_verkey X k = (case dx_b58_decode X k of Ok x \<Rightarrow> length x = 32 | _ \<Rightarrow> False)"

lemma validate_verkey_Ok: "validate_verkey X k = Ok k' \<longleftrightarrow> valid_verkey X k \<and> k' = k"
  by (auto simp: validate_verkey_def valid_verkey_def split: result.splits)

lemma validate_verkey_valid [simp]: "valid_verkey X k \<Longrightarrow> validate_verkey X k = Ok k"
  by (simp add: validate_verkey_Ok)

lemma validate_ed25519_key_Ok:
  "validate_ed25519_key X k = Ok u \<longleftrightarrow> pk_type k = KEY_TYPE \<and> valid_verkey X (pk_base58 k)"
  by (cases u) (auto simp: validate_ed25519_key_def validate_verkey_Ok)

lemma find_Some_in: "find P xs = Some x \<Longrightarrow> x \<in> set xs \<and> P x"
  by (auto simp: find_Some_iff)

lemma find_exists: "x \<in> set xs \<Longrightarrow> P x \<Longrightarrow> \<exists>y. find P xs = Some y"
  by (induction xs) auto

text \<open>A key that is found is an entry of the document, of the supported type and a valid verkey.\<close>

lemma get_key_sound:
  assumes "get_key X d e = Ok k"
  shows "k \<in> set (dd_public_key d) \<and> pk_type k = KEY_TYPE \<and> valid_verkey X (pk_base58 k)"
  using assms
  by (auto simp: get_key_def validate_ed25519_key_Ok find_key_by_value_def find_key_by_reference_def
      dest: find_Some_in split: result.splits)

lemma try_map_checks_Ok:
  "map_ok (\<lambda>_. ()) (try_map f xs) = Ok u \<longleftrightarrow> (\<forall>x \<in> set xs. \<exists>y. f x = Ok y)"
proof -
  have "(\<exists>ys. list_all2 (\<lambda>x y. f x = Ok y) xs ys) \<longleftrightarrow> (\<forall>x \<in> set xs. \<exists>y. f x = Ok y)"
    by (induction xs) (auto simp: list_all2_Cons1)
  then show ?thesis by (simp add: try_map_Ok_iff)
qed

lemma try_map_total_iff: "(\<exists>ys. try_map f xs = Ok ys) \<longleftrightarrow> (\<forall>x \<in> set xs. \<exists>y. f x = Ok y)"
  using try_map_checks_Ok [of f xs "()"] by simp

text \<open>
  A DID document that passes validation can be used: its id is not empty, its recipient keys
  resolve, each of them to a valid key that is an entry of the document, and every routing key of
  every service is a valid key.
\<close>

theorem validated_doc_usable:
  assumes "validate_did_doc X d = Ok u"
  shows "dd_id d \<noteq> [] \<and> (\<exists>ks. recipient_keys X d = Ok ks
      \<and> (\<forall>k \<in> set ks. valid_verkey X k \<and> k \<in> pk_base58 ` set (dd_public_key d)))
    \<and> (\<forall>s \<in> set (dd_service d). \<forall>k \<in> set (sv_routing_keys s). valid_verkey X k)"
proof -
  from assms have did: "dd_id d \<noteq> []"
    and "map_ok (\<lambda>_. ()) (try_map (validate_service X d) (dd_service d)) = Ok u"
    unfolding validate_did_doc_def by (simp_all split: if_splits del: map_ok_eq_Ok)
  then have svcs: "\<forall>s \<in> set (dd_service d). \<exists>y. validate_service X d s = Ok y"
    by (simp only: try_map_checks_Ok)
  have svc: "(\<forall>e \<in> set (sv_recipient_keys s). \<exists>k. get_key X d e = Ok k)
      \<and> (\<forall>e \<in> set (sv_routing_keys s). valid_verkey X e)" if "s \<in> set (dd_service d)" for s
  proof -
    from svcs that obtain y where "validate_service X d s = Ok y" by blast
    then have "\<exists>ys. try_map (\<lambda>e. and_then (get_key X d e) (\<lambda>k. is_authentication_key X d (pk_id k)))
          (sv_recipient_keys s) = Ok ys"
      and "\<exists>ys. try_map (\<lambda>e. map_err from_validation_error (validate_verkey X e)) (sv_routing_keys s) = Ok ys"
      by (auto simp: validate_service_def)
    then show ?thesis by (auto simp: try_map_total_iff validate_verkey_Ok)
  qed
  have "\<exists>ks. recipient_keys X d = Ok ks"
  proof (cases "dd_service d")
    case (Cons s r)
    with svc [of s] have "\<forall>e \<in> set (sv_recipient_keys s). \<exists>y. map_ok pk_base58 (get_key X d e) = Ok y"
      by auto
    then have "\<exists>ks. try_map (\<lambda>e. map_ok pk_base58 (get_key X d e)) (sv_recipient_keys s) = Ok ks"
      unfolding try_map_total_iff .
    with Cons show ?thesis by (simp add: recipient_keys_def)
  qed (simp add: recipient_keys_def)
  then obtain ks where ks: "recipient_keys X d = Ok ks" ..
  have "valid_verkey X k \<and> k \<in> pk_base58 ` set (dd_public_key d)" if "k \<in> set ks" for k
  proof -
    from ks that obtain e p where "get_key X d e = Ok p" "k = pk_base58 p"
      by (auto simp: recipient_keys_def try_map_Ok_iff list_all2_conv_all_nth in_set_conv_nth
          split: list.splits)
    with get_key_sound show ?thesis by blast
  qed
  with did ks svc show ?thesis by blast
qed

subsection \<open>The documents the protocols build\<close>

fun numbered_keys :: "string \<Rightarrow> nat \<Rightarrow> string list \<Rightarrow> Ed25519PublicKey list" where
  "numbered_keys did n [] = []"
| "numbered_keys did n (k # ks) =
     \<lparr>pk_id = build_key_reference did (show_nat (n + 1)), pk_type = KEY_TYPE, pk_controller = did,
      pk_base58 = k\<rparr> # numbered_keys did (n + 1) ks"

definition auth_of :: "Ed25519PublicKey \<Rightarrow> Authentication" where
  "auth_of k = \<lparr>au_type = KEY_AUTHENTICATION_TYPE, au_public_key = pk_id k\<rparr>"

text \<open>
  The document for an id, an endpoint and keys; \<open>kd\<close> is the id the document had when the recipient
  keys were added.
\<close>

definition key_doc :: "string \<Rightarrow> string \<Rightarrow> string \<Rightarrow> string list \<Rightarrow> string list \<Rightarrow> AriesDidDoc" where
  "key_doc kd did e rks ks = \<lparr>dd_context = CONTEXT, dd_id = did, dd_public_key = numbered_keys kd 0 ks,
     dd_authentication = map auth_of (numbered_keys kd 0 ks),
     dd_service = [default_service\<lparr>sv_recipient_keys := ks, sv_routing_keys := rks,
       sv_service_endpoint := e\<rparr>]\<rparr>"

lemma add_recipient_keys:
  "foldl add_recipient_key (n, d) ks =
     (n + length ks,
      update_first (\<lambda>s. s\<lparr>sv_recipient_keys := sv_recipient_keys s @ ks\<rparr>)
        (d\<lparr>dd_public_key := dd_public_key d @ numbered_keys (dd_id d) n ks,
           dd_authentication := dd_authentication d @ map auth_of (numbered_keys (dd_id d) n ks)\<rparr>))"
proof (induction ks arbitrary: n d)
  case Nil
  show ?case by (simp add: update_first_def split: list.splits)
next
  case (Cons k ks)
  have "dd_id (snd (add_recipient_key (n, d) k)) = dd_id d"
    by (simp add: add_recipient_key_def update_first_def Let_def)
  with Cons.IH [of "n + 1" "snd (add_recipient_key (n, d) k)"] show ?case
    by (auto simp: add_recipient_key_def update_first_def Let_def auth_of_def split: list.splits)
qed

lemma set_routing_keys_eq:
  "set_routing_keys ks d = update_first (\<lambda>s. s\<lparr>sv_routing_keys := sv_routing_keys s @ ks\<rparr>) d"
  unfolding set_routing_keys_def
  by (induction ks arbitrary: d) (auto simp: update_first_def split: list.splits)

lemmas build_doc_defs = set_recipient_keys_def add_recipient_keys set_routing_keys_eq
  set_service_endpoint_def set_id_def update_first_def default_did_doc_def default_service_def
  key_doc_def

text \<open>The two orders in which the code calls the setters.\<close>

lemma build_doc_id_first:
  "set_recipient_keys ks (set_routing_keys rks (set_service_endpoint e (set_id did default_did_doc)))
     = key_doc did did e rks ks"
  "set_routing_keys rks (set_recipient_keys ks (set_service_endpoint e (set_id did default_did_doc)))
     = key_doc did did e rks ks"
  by (simp_all add: build_doc_defs)

lemma build_doc_id_last:
  "set_id did (set_recipient_keys ks (set_routing_keys rks (set_service_endpoint e default_did_doc)))
     = key_doc [] did e rks ks"
  by (simp add: build_doc_defs)

lemma numbered_keys_set:
  "p \<in> set (numbered_keys kd n ks) \<Longrightarrow> pk_type p = KEY_TYPE \<and> pk_base58 p \<in> set ks"
  by (induction ks arbitrary: n) auto

lemma numbered_keys_values: "map pk_base58 (numbered_keys kd n ks) = ks"
  by (induction ks arbitrary: n) auto

lemma key_doc_sel [simp]:
  "dd_id (key_doc kd did e rks ks) = did" "dd_context (key_doc kd did e rks ks) = CONTEXT"
  "get_endpoint (key_doc kd did e rks ks) = Some e" "routing_keys (key_doc kd did e rks ks) = rks"
  by (simp_all add: key_doc_def get_endpoint_def routing_keys_def)

lemma key_doc_get_key:
  assumes "k \<in> set ks" and "valid_verkey X k"
  shows "\<exists>p \<in> set (numbered_keys kd 0 ks).
    get_key X (key_doc kd did e rks ks) k = Ok p \<and> pk_base58 p = k"
proof -
  from assms(1) numbered_keys_values [of kd 0 ks] obtain q where
    "q \<in> set (numbered_keys kd 0 ks)" "pk_base58 q = k" by (metis in_set_conv_nth length_map nth_map)
  then obtain p where p: "find (\<lambda>q. pk_base58 q = k) (numbered_keys kd 0 ks) = Some p"
    using find_exists [of q "numbered_keys kd 0 ks" "\<lambda>q. pk_base58 q = k"] by blast
  from find_Some_in [OF p] numbered_keys_set [of p kd 0 ks] assms(2)
  have "validate_ed25519_key X p = Ok ()" by (simp add: validate_ed25519_key_Ok)
  with p assms find_Some_in [OF p] show ?thesis
    by (auto simp: get_key_def find_key_by_value_def key_doc_def)
qed

lemma key_doc_authentication:
  assumes "p \<in> set (numbered_keys kd 0 ks)"
  shows "is_authentication_key X (key_doc kd did e rks ks) (pk_id p) = Ok ()"
proof -
  let ?P = "\<lambda>a. au_public_key a = pk_id p
      \<or> (case parse_key_reference X (au_public_key a) of Ok r \<Rightarrow> kr_key_id r = pk_id p | _ \<Rightarrow> False)"
  let ?as = "map auth_of (numbered_keys kd 0 ks)"
  from find_exists [of "auth_of p" ?as ?P] assms obtain a where a: "find ?P ?as = Some a"
    by (auto simp: auth_of_def)
  from find_Some_in [OF a] have "au_type a = KEY_AUTHENTICATION_TYPE" by (auto simp: auth_of_def)
  with a show ?thesis
    by (simp add: is_authentication_key_def key_doc_def)
qed

lemma key_doc_recipient_keys:
  assumes "\<forall>k \<in> set ks. valid_verkey X k"
  shows "recipient_keys X (key_doc kd did e rks ks) = Ok ks"
proof -
  have "try_map (\<lambda>k. map_ok pk_base58 (get_key X (key_doc kd did e rks ks) k)) ks = Ok (map (\<lambda>k. k) ks)"
    by (rule try_map_total) (use assms key_doc_get_key [of _ ks X kd did e rks] in fastforce)
  then show ?thesis by (simp add: recipient_keys_def key_doc_def)
qed

lemma key_doc_valid:
  assumes "did \<noteq> []" and "\<forall>k \<in> set ks. valid_verkey X k" and "\<forall>k \<in> set rks. valid_verkey X k"
  shows "validate_did_doc X (key_doc kd did e rks ks) = Ok ()"
proof -
  let ?d = "key_doc kd did e rks ks"
  let ?s = "default_service\<lparr>sv_recipient_keys := ks, sv_routing_keys := rks, sv_service_endpoint := e\<rparr>"
  have "try_map (\<lambda>k. and_then (get_key X ?d k) (\<lambda>p. is_authentication_key X ?d (pk_id p))) ks
      = Ok (map (\<lambda>_. ()) ks)"
    by (rule try_map_total)
      (use assms(2) key_doc_get_key [of _ ks X kd did e rks] in
        \<open>fastforce simp: key_doc_authentication\<close>)
  moreover have "try_map (\<lambda>k. map_err from_validation_error (validate_verkey X k)) rks
      = Ok (map (\<lambda>k. k) rks)"
    by (rule try_map_total) (use assms(3) in simp)
  ultimately have "validate_service X ?d ?s = Ok ()"
    by (simp add: validate_service_def default_service_def)
  moreover have "dd_service ?d = [?s]" by (simp add: key_doc_def)
  ultimately show ?thesis using assms(1) by (simp add: validate_did_doc_def)
qed

text \<open>
  Whatever the order of the setters, a document built from a non-empty id and valid keys passes
  validation and gives back the keys and the endpoint it was built from.
\<close>

theorem built_doc_roundtrip:
  assumes "did \<noteq> []" and "\<forall>k \<in> set ks. valid_verkey X k" and "\<forall>k \<in> set rks. valid_verkey X k"
    and "d = set_recipient_keys ks (set_routing_keys rks (set_service_endpoint e (set_id did default_did_doc)))
      \<or> d = set_id did (set_recipient_keys ks (set_routing_keys rks (set_service_endpoint e default_did_doc)))"
  shows "validate_did_doc X d = Ok () \<and> recipient_keys X d = Ok ks \<and> routing_keys d = rks
    \<and> get_endpoint d = Some e"
proof -
  from assms(4) obtain kd where "d = key_doc kd did e rks ks"
    by (auto simp: build_doc_id_first build_doc_id_last)
  with assms(1-3) show ?thesis by (simp add: key_doc_valid key_doc_recipient_keys)
qed

text \<open>An instance for evaluating the model: every text is its own base58 decoding.\<close>

definition sample_dx :: dd_ext where
  "sample_dx = \<lparr>dx_b58_decode = Ok, dx_b58_encode = (\<lambda>s. s), dx_debug_str = (\<lambda>s. s),
     dx_debug_key_ref = (\<lambda>_. []), dx_debug_doc = (\<lambda>_. [])\<rparr>"

definition sample_verkey :: string where
  "sample_verkey = ''abcdefghijkmnopqrstuvwxyzABCDEFG''"

lemma sample_verkey_valid [simp]: "valid_verkey sample_dx sample_verkey"
  by (simp add: valid_verkey_def sample_dx_def sample_verkey_def)

theorem built_doc_roundtrip_witness:
  "validate_did_doc sample_dx (set_id ''did'' (set_recipient_keys [sample_verkey]
       (set_routing_keys [] (set_service_endpoint ''u'' default_did_doc)))) = Ok ()"
  using built_doc_roundtrip [of "''did''" "[sample_verkey]" sample_dx "[]" _ "''u''"] by simp

theorem validated_doc_usable_witness:
  "\<exists>ks. recipient_keys sample_dx (key_doc ''d'' ''d'' ''u'' [] [sample_verkey]) = Ok ks"
  using validated_doc_usable [of sample_dx "key_doc ''d'' ''d'' ''u'' [] [sample_verkey]" "()"]
    key_doc_valid [of "''d''" "[sample_verkey]" sample_dx "[]" "''d''" "''u''"] by auto

text \<open>A reference is read back as the pair it was built from, when neither part contains the separator.\<close>

lemma key_reference_roundtrip:
  assumes "CHR ''#'' \<notin> set did" "CHR ''#'' \<notin> set i"
  shows "parse_key_reference X (build_key_reference did i) = Ok \<lparr>kr_did = Some did, kr_key_id = i\<rparr>"
  using assms
  by (simp add: parse_key_reference_def key_parts_def build_key_reference_def split_char_append
      split_char_none)

end
