(* ===== verification/Messages.thy ===== *)
theory Messages
  imports Msg_Types Diddoc_Legacy
begin

text \<open>
  The messages of the \<open>messages\<close> crate: decorators, attachments, the common shape
  \<open>MsgParts<C, D>\<close>, the content and the decorators of every message of every protocol, and the
  enum \<open>AriesMessage\<close> over all of them. Decorator structs with the same fields share a record. Time
  stamps are integers, URLs their text.
\<close>

section \<open>Decorators\<close>

type_synonym DateTime = int

datatype ThreadGoalCode =
  AriesVc | AriesVcIssue | AriesVcVerify | AriesVcRevoke | AriesRel | AriesRelBuild

record Thread =
  thid :: string
  pthid :: "string option"
  sender_order :: "u32 option"
  received_orders :: "(string, u32) hash_map option"
  goal_code :: "(ThreadGoalCode, string) MaybeKnown option"

definition new_thread :: "string \<Rightarrow> Thread" where
  "new_thread t = \<lparr>thid = t, pthid = None, sender_order = None, received_orders = None,
     goal_code = None\<rparr>"

record Timing =
  in_time :: "DateTime option"
  out_time :: "DateTime option"
  stale_time :: "DateTime option"
  expires_time :: "DateTime option"
  delay_milli :: "u32 option"
  wait_until_time :: "DateTime option"

text \<open>\<open>Timing::builder().out_time(now).build()\<close>\<close>

definition timing_out :: "DateTime \<Rightarrow> Timing" where
  "timing_out now = \<lparr>in_time = None, out_time = Some now, stale_time = None, expires_time = None,
     delay_milli = None, wait_until_time = None\<rparr>"

datatype AckOn = Receipt | Outcome

record PleaseAck =
  ack_on :: "AckOn list"

datatype MimeType =
  Mime_Json | Mime_Jpg | Mime_Jpeg | Mime_Png | Mime_Pdf | Mime_Plain | Mime_String | Mime_Aip1
| Mime_Aip2Rfc19 | Mime_Aip2Rfc587 | Mime_DidcommV2

datatype AttachmentType = Base64 string | Json_value json | Links "string list"

record AttachmentData =
  ad_jws :: "(string, json) hash_map option"
  ad_sha256 :: "string option"
  ad_content :: AttachmentType

record Attachment =
  att_id :: "string option"
  att_description :: "string option"
  att_filename :: "string option"
  att_mime_type :: "(MimeType, string) MaybeKnown option"
  att_lastmod_time :: "DateTime option"
  att_byte_count :: "u64 option"
  att_data :: AttachmentData

section \<open>Messages\<close>

record ('c, 'd) MsgParts =
  mp_id :: string
  mp_content :: 'c
  mp_decorators :: 'd

text \<open>
  The decorator structs of the messages come in a few shapes, shared here: an optional thread
  and timing, a mandatory thread and timing, and the latter with \<open>~please_ack\<close>.
\<close>

record OptThreadDecorators =
  od_thread :: "Thread option"
  od_timing :: "Timing option"

record AckDecorators =
  ak_thread :: Thread
  ak_timing :: "Timing option"

record PleaseAckDecorators =
  pd_thread :: Thread
  pd_please_ack :: "PleaseAck option"
  pd_timing :: "Timing option"

subsection \<open>Problem reports and acknowledgements\<close>

datatype WhoRetries = Retry_Me | Retry_You | Retry_Both | Retry_None
datatype Impact = Impact_MessageContent | Impact_Thread | Impact_Connection
datatype WhereParty = Party_Me | Party_You | Party_Other

record Description =
  description_translations :: "(string, string) hash_map"
  description_code :: string

record ProblemReportContent =
  pr_description :: Description
  pr_problem_items :: "(string, string) hash_map list option"
  pr_who_retries :: "WhoRetries option"
  pr_fix_hint :: "string option"
  pr_impact :: "Impact option"
  pr_location :: "(WhereParty \<times> string) option"
  pr_noticed_time :: "string option"
  pr_tracking_uri :: "string option"
  pr_escalation_uri :: "string option"

record ProblemReportDecorators =
  prd_thread :: "Thread option"
  prd_timing :: "Timing option"
  prd_description_locale :: "json option"
  prd_fix_hint_locale :: "json option"

type_synonym ProblemReport = "(ProblemReportContent, ProblemReportDecorators) MsgParts"

text \<open>
  The problem reports of single protocols wrap the content in a struct with the one field
  \<open>inner\<close>; converting one into a \<open>ProblemReport\<close> unwraps it.
\<close>

datatype InnerReport = InnerReport (inner_report: ProblemReportContent)

type_synonym ProtocolProblemReport = "(InnerReport, ProblemReportDecorators) MsgParts"

definition to_problem_report :: "ProtocolProblemReport \<Rightarrow> ProblemReport" where
  "to_problem_report v = \<lparr>mp_id = mp_id v, mp_content = inner_report (mp_content v),
     mp_decorators = mp_decorators v\<rparr>"

definition to_protocol_report :: "ProblemReport \<Rightarrow> ProtocolProblemReport" where
  "to_protocol_report v = \<lparr>mp_id = mp_id v, mp_content = InnerReport (mp_content v),
     mp_decorators = mp_decorators v\<rparr>"

datatype AckStatus = Ack_Ok | Ack_Pending

record AckContent =
  ack_status :: AckStatus

type_synonym Ack = "(AckContent, AckDecorators) MsgParts"

subsection \<open>issue-credential 1.0\<close>

record CredentialAttr =
  attr_name :: string
  attr_value :: string
  attr_mime_type :: "MimeType option"

record CredentialPreviewV1 =
  preview_attributes :: "CredentialAttr list"

record ProposeCredentialV1Content =
  prc_comment :: "string option"
  prc_credential_proposal :: CredentialPreviewV1
  prc_schema_id :: string
  prc_cred_def_id :: string

record OfferCredentialV1Content =
  ofc_comment :: "string option"
  ofc_credential_preview :: CredentialPreviewV1
  ofc_offers_attach :: "Attachment list"

record RequestCredentialV1Content =
  rqc_comment :: "string option"
  rqc_requests_attach :: "Attachment list"

record IssueCredentialV1Content =
  isc_comment :: "string option"
  isc_credentials_attach :: "Attachment list"

type_synonym ProposeCredentialV1 = "(ProposeCredentialV1Content, OptThreadDecorators) MsgParts"
type_synonym OfferCredentialV1 = "(OfferCredentialV1Content, OptThreadDecorators) MsgParts"
type_synonym RequestCredentialV1 = "(RequestCredentialV1Content, OptThreadDecorators) MsgParts"
type_synonym IssueCredentialV1 = "(IssueCredentialV1Content, PleaseAckDecorators) MsgParts"

datatype CredentialIssuanceV1 =
    CI1_OfferCredential OfferCredentialV1
  | CI1_ProposeCredential ProposeCredentialV1
  | CI1_RequestCredential RequestCredentialV1
  | CI1_IssueCredential IssueCredentialV1
  | CI1_Ack Ack
  | CI1_ProblemReport ProtocolProblemReport

subsection \<open>present-proof 1.0\<close>

datatype PredicateOperator = GreaterOrEqual | LessOrEqual | GreterThan | LessThan

record PresentationAttr =
  pa_name :: string
  pa_cred_def_id :: "string option"
  pa_mime_type :: "MimeType option"
  pa_value :: "string option"
  pa_referent :: "string option"

record Predicate =
  pred_name :: string
  pred_operator :: PredicateOperator
  pred_threshold :: "64 word"
  pred_referent :: "(string \<times> string) option"

record PresentationPreview =
  pp_attributes :: "PresentationAttr list"
  pp_predicates :: "Predicate list"

record ProposePresentationV1Content =
  ppc_comment :: "string option"
  ppc_presentation_proposal :: PresentationPreview

record RequestPresentationV1Content =
  rpc_comment :: "string option"
  rpc_request_presentations_attach :: "Attachment list"

record PresentationV1Content =
  psc_comment :: "string option"
  psc_presentations_attach :: "Attachment list"

type_synonym ProposePresentationV1 = "(ProposePresentationV1Content, OptThreadDecorators) MsgParts"
type_synonym RequestPresentationV1 = "(RequestPresentationV1Content, OptThreadDecorators) MsgParts"
type_synonym PresentationV1 = "(PresentationV1Content, PleaseAckDecorators) MsgParts"

datatype PresentProofV1 =
    PP1_ProposePresentation ProposePresentationV1
  | PP1_RequestPresentation RequestPresentationV1
  | PP1_Presentation PresentationV1
  | PP1_Ack Ack
  | PP1_ProblemReport ProtocolProblemReport

subsection \<open>revocation-notification 2.0\<close>

datatype RevocationFormat = IndyAnoncreds

record RevokeContent =
  rvc_credential_id :: string
  rvc_revocation_format :: "(RevocationFormat, string) MaybeKnown"
  rvc_comment :: "string option"

record RevokeDecorators =
  rvd_please_ack :: "PleaseAck option"
  rvd_timing :: "Timing option"
  rvd_thread :: "Thread option"

type_synonym Revoke = "(RevokeContent, RevokeDecorators) MsgParts"

datatype Revocation = Rev_Revoke Revoke | Rev_Ack Ack

subsection \<open>Shapes of decorators the other protocols share\<close>

text \<open>A locale is its ISO 639-1 code.\<close>

record MsgLocalization =
  ml_catalogs :: "string list option"
  ml_locales :: "(string, string list) hash_map option"

datatype ReturnRoute = Route_None | Route_All | Route_Thread

record Transport =
  tr_return_route :: ReturnRoute
  tr_return_route_thread :: "Thread option"

record TimingDecorators =
  td_timing :: "Timing option"

record ThreadDecorators =
  th_thread :: "Thread option"

record TransportDecorators =
  tp_transport :: "Transport option"
  tp_thread :: "Thread option"

subsection \<open>connections 1.0\<close>

record ConnectionData =
  cn_did :: string
  cn_did_doc :: AriesDidDoc

record PublicInvitationContent =
  pub_label :: string
  pub_did :: string

text \<open>\<open>PwInvitationContent<T>\<close>: the endpoint is a URL or a DID, a text in both cases.\<close>

record PwInvitationContent =
  pw_label :: string
  pw_recipient_keys :: "string list"
  pw_routing_keys :: "string list"
  pw_service_endpoint :: string

datatype InvitationContent =
    Inv_Public PublicInvitationContent
  | Inv_PairwiseDID PwInvitationContent
  | Inv_Pairwise PwInvitationContent

record RequestContent =
  rc_label :: string
  rc_connection :: ConnectionData

text \<open>The marker of the signature type has one value and is left out.\<close>

record ConnectionSignature =
  cs_signature :: string
  cs_sig_data :: string
  cs_signer :: string

record ResponseContent =
  rs_connection_sig :: ConnectionSignature

datatype ProblemCode =
    Code_RequestNotAccepted | Code_RequestProcessingError | Code_ResponseNotAccepted
  | Code_ResponseProcessingError

record ConProblemReportContent =
  cp_problem_code :: "ProblemCode option"
  cp_explain :: "string option"

record ConProblemReportDecorators =
  cpd_thread :: Thread
  cpd_localization :: "MsgLocalization option"
  cpd_timing :: "Timing option"

type_synonym Invitation = "(InvitationContent, TimingDecorators) MsgParts"
type_synonym Request = "(RequestContent, OptThreadDecorators) MsgParts"
type_synonym Response = "(ResponseContent, PleaseAckDecorators) MsgParts"
type_synonym ConProblemReport = "(ConProblemReportContent, ConProblemReportDecorators) MsgParts"

datatype Connection =
    Con_Invitation Invitation
  | Con_Request Request
  | Con_Response Response
  | Con_ProblemReport ConProblemReport

subsection \<open>issue-credential 2.0 and present-proof 2.0\<close>

record 'f AttachmentFormatSpecifier =
  af_attach_id :: string
  af_format :: "('f, string) MaybeKnown"

record 'f OptionalIdAttachmentFormatSpecifier =
  oaf_attach_id :: "string option"
  oaf_format :: "('f, string) MaybeKnown"

datatype OfferCredentialAttachmentFormatType =
  OCF_DifManifest | OCF_IndyCredAbstract | OCF_AnoncredsOffer | OCF_AriesLdProof

datatype ProposeCredentialAttachmentFormatType =
  PCF_DifManifest | PCF_AriesLdProof | PCF_AnoncredsFilter | PCF_IndyCredFilter

datatype RequestCredentialAttachmentFormatType =
  RCF_DifManifest | RCF_IndyCredRequest | RCF_AnoncredsRequest | RCF_AriesLdProof

datatype IssueCredentialAttachmentFormatType =
  ICF_AriesLdProof | ICF_AnoncredsCredential | ICF_IndyCredential

record CredentialPreviewV2 =
  preview2_attributes :: "CredentialAttr list"

record OfferCredentialV2Content =
  oc2_goal_code :: "string option"
  oc2_replacement_id :: "string option"
  oc2_comment :: "string option"
  oc2_credential_preview :: CredentialPreviewV2
  oc2_formats :: "OfferCredentialAttachmentFormatType AttachmentFormatSpecifier list"
  oc2_offers_attach :: "Attachment list"

record ProposeCredentialV2Content =
  pc2_goal_code :: "string option"
  pc2_comment :: "string option"
  pc2_credential_preview :: "CredentialPreviewV2 option"
  pc2_formats :: "ProposeCredentialAttachmentFormatType AttachmentFormatSpecifier list"
  pc2_filters_attach :: "Attachment list"

record RequestCredentialV2Content =
  rc2_goal_code :: "string option"
  rc2_comment :: "string option"
  rc2_formats :: "RequestCredentialAttachmentFormatType AttachmentFormatSpecifier list"
  rc2_requests_attach :: "Attachment list"

record IssueCredentialV2Content =
  ic2_goal_code :: "string option"
  ic2_replacement_id :: "string option"
  ic2_comment :: "string option"
  ic2_formats :: "IssueCredentialAttachmentFormatType AttachmentFormatSpecifier list"
  ic2_credentials_attach :: "Attachment list"

text \<open>The acknowledgements of version 2 wrap the content of \<open>Ack\<close>, as the problem reports do.\<close>

datatype InnerAck = InnerAck (inner_ack: AckContent)

type_synonym ProtocolAck = "(InnerAck, AckDecorators) MsgParts"

definition to_ack :: "ProtocolAck \<Rightarrow> Ack" where
  "to_ack v = \<lparr>mp_id = mp_id v, mp_content = inner_ack (mp_content v), mp_decorators = mp_decorators v\<rparr>"

datatype CredentialIssuanceV2 =
    CI2_OfferCredential "(OfferCredentialV2Content, OptThreadDecorators) MsgParts"
  | CI2_ProposeCredential "(ProposeCredentialV2Content, OptThreadDecorators) MsgParts"
  | CI2_RequestCredential "(RequestCredentialV2Content, OptThreadDecorators) MsgParts"
  | CI2_IssueCredential "(IssueCredentialV2Content, PleaseAckDecorators) MsgParts"
  | CI2_Ack ProtocolAck
  | CI2_ProblemReport ProtocolProblemReport

datatype CredentialIssuance = CI_V1 CredentialIssuanceV1 | CI_V2 CredentialIssuanceV2

datatype ProposePresentationAttachmentFormatType =
  PPF_DifDefinitions | PPF_IndyProofRequest | PPF_AnoncredsProofRequest

datatype PresentationRequestAttachmentFormatType =
  PRF_IndyProofRequest | PRF_AnoncredsProofRequest | PRF_DifDefinitions

datatype PresentationAttachmentFormatType =
  PF_IndyProof | PF_AnoncredsProof | PF_DifSubmission

record ProposePresentationV2Content =
  pp2_goal_code :: "string option"
  pp2_comment :: "string option"
  pp2_formats :: "ProposePresentationAttachmentFormatType OptionalIdAttachmentFormatSpecifier list"
  pp2_proposals_attach :: "Attachment list option"

record RequestPresentationV2Content =
  rp2_goal_code :: "string option"
  rp2_comment :: "string option"
  rp2_will_confirm :: "bool option"
  rp2_formats :: "PresentationRequestAttachmentFormatType AttachmentFormatSpecifier list"
  rp2_request_presentations_attach :: "Attachment list"

record PresentationV2Content =
  ps2_comment :: "string option"
  ps2_goal_code :: "string option"
  ps2_formats :: "PresentationAttachmentFormatType AttachmentFormatSpecifier list"
  ps2_presentations_attach :: "Attachment list"

datatype PresentProofV2 =
    PP2_ProposePresentation "(ProposePresentationV2Content, OptThreadDecorators) MsgParts"
  | PP2_RequestPresentation "(RequestPresentationV2Content, OptThreadDecorators) MsgParts"
  | PP2_Presentation "(PresentationV2Content, PleaseAckDecorators) MsgParts"
  | PP2_Ack ProtocolAck
  | PP2_ProblemReport ProtocolProblemReport

datatype PresentProof = PP_V1 PresentProofV1 | PP_V2 PresentProofV2

subsection \<open>trust_ping 1.0, discover-features 1.0, basicmessage 1.0 and routing 1.0\<close>

record PingContent =
  ping_response_requested :: bool
  ping_comment :: "string option"

record PingResponseContent =
  pong_comment :: "string option"

type_synonym Ping = "(PingContent, OptThreadDecorators) MsgParts"
type_synonym PingResponse = "(PingResponseContent, AckDecorators) MsgParts"

datatype TrustPing = TP_Ping Ping | TP_PingResponse PingResponse

record ProtocolDescriptor =
  prd_pid :: "(Protocol, string) MaybeKnown"
  prd_roles :: "(Role, string) MaybeKnown list option"

record QueryContent =
  query_text :: string
  query_comment :: "string option"

record DiscloseContent =
  disclose_protocols :: "ProtocolDescriptor list"

type_synonym Disclose = "(DiscloseContent, AckDecorators) MsgParts"

datatype DiscoverFeatures =
    DF_Query "(QueryContent, TimingDecorators) MsgParts"
  | DF_Disclose Disclose

record BasicMessageContent =
  bm_content :: string
  bm_sent_time :: DateTime

record BasicMessageDecorators =
  bmd_l10n :: "MsgLocalization option"
  bmd_thread :: "Thread option"
  bmd_timing :: "Timing option"

record ForwardContent =
  fwd_to :: string
  fwd_msg :: json

type_synonym Forward = "(ForwardContent, unit) MsgParts"

subsection \<open>out-of-band 1.1\<close>

datatype OobGoalCode = Goal_IssueVC | Goal_RequestProof | Goal_CreateAccount | Goal_P2PMessaging

datatype OobService = Oob_AriesService AriesService | Oob_Did string

record OobInvitationContent =
  oi_label :: "string option"
  oi_goal_code :: "(OobGoalCode, string) MaybeKnown option"
  oi_goal :: "string option"
  oi_accept :: "MimeType list option"
  oi_handshake_protocols :: "(Protocol, string) MaybeKnown list option"
  oi_requests_attach :: "Attachment list option"
  oi_services :: "OobService list"

type_synonym OobInvitation = "(OobInvitationContent, TimingDecorators) MsgParts"
type_synonym HandshakeReuse = "(unit, AckDecorators) MsgParts"
type_synonym HandshakeReuseAccepted = "(unit, AckDecorators) MsgParts"

datatype OutOfBand =
    OOB_Invitation OobInvitation
  | OOB_HandshakeReuse HandshakeReuse
  | OOB_HandshakeReuseAccepted HandshakeReuseAccepted

datatype Notification = Not_Ack Ack | Not_ProblemReport ProtocolProblemReport

subsection \<open>messagepickup 2.0 and coordinate-mediation 1.0\<close>

record StatusContent =
  st_message_count :: u32
  st_recipient_key :: "string option"

record StatusRequestContent =
  sr_recipient_key :: "string option"

record DeliveryRequestContent =
  dr_limit :: u32
  dr_recipient_key :: "string option"

record DeliveryContent =
  dl_recipient_key :: "string option"
  dl_attach :: "Attachment list"

record MessagesReceivedContent =
  mr_message_id_list :: "string list"

record LiveDeliveryChangeContent =
  ld_live_delivery :: bool

datatype Pickup =
    PU_Status "(StatusContent, TransportDecorators) MsgParts"
  | PU_StatusRequest "(StatusRequestContent, TransportDecorators) MsgParts"
  | PU_DeliveryRequest "(DeliveryRequestContent, TransportDecorators) MsgParts"
  | PU_Delivery "(DeliveryContent, TransportDecorators) MsgParts"
  | PU_MessagesReceived "(MessagesReceivedContent, TransportDecorators) MsgParts"
  | PU_LiveDeliveryChange "(LiveDeliveryChangeContent, TransportDecorators) MsgParts"

record MediateGrantContent =
  mg_endpoint :: string
  mg_routing_keys :: "string list"

datatype KeylistUpdateItemAction = Key_Add | Key_Remove

record KeylistUpdateItem =
  ku_recipient_key :: string
  ku_action :: KeylistUpdateItemAction

record KeylistUpdateContent =
  ku_updates :: "KeylistUpdateItem list"

datatype KeylistUpdateItemResult =
  Update_ClientError | Update_ServerError | Update_NoChange | Update_Success

record KeylistUpdateResponseItem =
  kr_recipient_key :: string
  kr_action :: KeylistUpdateItemAction
  kr_result :: KeylistUpdateItemResult

record KeylistUpdateResponseContent =
  kr_updated :: "KeylistUpdateResponseItem list"

record KeylistQueryPaginateParams =
  kq_limit :: "u64 option"
  kq_offset :: "u64 option"

record KeylistQueryContent =
  kq_paginate :: "KeylistQueryPaginateParams option"

record KeylistPagination =
  kp_count :: u64
  kp_offset :: u64
  kp_remaining :: u64

record KeylistItem =
  ki_recipient_key :: string

record KeylistContent =
  kl_keys :: "KeylistItem list"
  kl_pagination :: "KeylistPagination option"

datatype CoordinateMediation =
    CM_MediateRequest "(unit, unit) MsgParts"
  | CM_MediateDeny "(unit, ThreadDecorators) MsgParts"
  | CM_MediateGrant "(MediateGrantContent, ThreadDecorators) MsgParts"
  | CM_KeylistUpdate "(KeylistUpdateContent, unit) MsgParts"
  | CM_KeylistUpdateResponse "(KeylistUpdateResponseContent, ThreadDecorators) MsgParts"
  | CM_KeylistQuery "(KeylistQueryContent, unit) MsgParts"
  | CM_Keylist "(KeylistContent, ThreadDecorators) MsgParts"

subsection \<open>didexchange 1.0 and 1.1\<close>

record DxRequestContent =
  xq_label :: string
  xq_goal_code :: "(ThreadGoalCode, string) MaybeKnown option"
  xq_goal :: "string option"
  xq_did :: string
  xq_did_doc :: "Attachment option"

record ResponseV1_0Content =
  xr0_did :: string
  xr0_did_doc :: "Attachment option"

record ResponseV1_1Content =
  xr_did :: string
  xr_did_doc :: "Attachment option"
  xr_did_rotate :: "Attachment option"

type_synonym DxRequest = "(DxRequestContent, OptThreadDecorators) MsgParts"
type_synonym ResponseV1_0 = "(ResponseV1_0Content, AckDecorators) MsgParts"
type_synonym ResponseV1_1 = "(ResponseV1_1Content, AckDecorators) MsgParts"
type_synonym DxProblemReport = ConProblemReport
type_synonym Complete = "(unit, AckDecorators) MsgParts"

datatype DidExchangeV1_0 =
    DE0_Request DxRequest | DE0_Response ResponseV1_0 | DE0_ProblemReport DxProblemReport
  | DE0_Complete Complete

datatype DidExchangeV1_1 =
    DE1_Request DxRequest | DE1_Response ResponseV1_1 | DE1_ProblemReport DxProblemReport
  | DE1_Complete Complete

datatype DidExchange = DE_V1_0 DidExchangeV1_0 | DE_V1_1 DidExchangeV1_1

text \<open>\<open>DidExchangeV1MessageVariant\<close> and its users \<open>AnyRequest\<close>, \<open>AnyResponse\<close>, ...\<close>

datatype ('a, 'b) MessageVariant = Variant_V1_0 'a | Variant_V1_1 'b

type_synonym AnyRequest = "(DxRequest, DxRequest) MessageVariant"
type_synonym AnyResponse = "(ResponseV1_0, ResponseV1_1) MessageVariant"
type_synonym AnyProblemReport = "(DxProblemReport, DxProblemReport) MessageVariant"
type_synonym AnyComplete = "(Complete, Complete) MessageVariant"

fun get_version :: "('a, 'b) MessageVariant \<Rightarrow> DidExchangeTypeV1" where
  "get_version (Variant_V1_0 _) = DidExchangeV1_0"
| "get_version (Variant_V1_1 _) = DidExchangeV1_1"

fun variant_inner :: "('a, 'a) MessageVariant \<Rightarrow> 'a" where
  "variant_inner (Variant_V1_0 r) = r"
| "variant_inner (Variant_V1_1 r) = r"

definition response_into_v1_1 :: "ResponseV1_0 \<Rightarrow> ResponseV1_1" where
  "response_into_v1_1 r = \<lparr>mp_id = mp_id r,
     mp_content = \<lparr>xr_did = xr0_did (mp_content r), xr_did_doc = xr0_did_doc (mp_content r),
       xr_did_rotate = None\<rparr>,
     mp_decorators = mp_decorators r\<rparr>"

fun any_response_into_v1_1 :: "AnyResponse \<Rightarrow> ResponseV1_1" where
  "any_response_into_v1_1 (Variant_V1_0 r) = response_into_v1_1 r"
| "any_response_into_v1_1 (Variant_V1_1 r) = r"

section \<open>All messages\<close>

datatype AriesMessage =
    Routing Forward
  | Connection Connection
  | Revocation Revocation
  | CredentialIssuance CredentialIssuance
  | ReportProblem ProblemReport
  | PresentProof PresentProof
  | TrustPing TrustPing
  | DiscoverFeatures DiscoverFeatures
  | BasicMessage "(BasicMessageContent, BasicMessageDecorators) MsgParts"
  | OutOfBand OutOfBand
  | Notification Notification
  | Pickup Pickup
  | CoordinateMediation CoordinateMediation
  | DidExchange DidExchange

text \<open>The conversions \<open>From<...> for AriesMessage\<close> of the messages the components build.\<close>

abbreviation ci1_msg :: "CredentialIssuanceV1 \<Rightarrow> AriesMessage" where
  "ci1_msg m \<equiv> CredentialIssuance (CI_V1 m)"

abbreviation pp1_msg :: "PresentProofV1 \<Rightarrow> AriesMessage" where
  "pp1_msg m \<equiv> PresentProof (PP_V1 m)"

lemma to_problem_report_inverse [simp]: "to_problem_report (to_protocol_report r) = r"
  by (cases r) (simp add: to_problem_report_def to_protocol_report_def)

lemma new_thread_sel [simp]: "thid (new_thread t) = t" "pthid (new_thread t) = None"
  by (simp_all add: new_thread_def)

lemma to_problem_report_sel [simp]:
  "mp_id (to_problem_report r) = mp_id r"
  "mp_decorators (to_problem_report r) = mp_decorators r"
  by (simp_all add: to_problem_report_def)

end
