(* ===== verification/Query.thy ===== *)
theory Query
  imports Json
begin

text \<open>
  The query language of credential restrictions (\<open>anoncreds_types/src/utils/query.rs\<close>): the
  enum \<open>AbstractQuery\<close>, its optimiser and traversals, its JSON form and the parser of that form.
  The lemmas give the language a meaning and show what the optimiser and the two directions of
  the JSON conversion keep of it.
\<close>

datatype ('k, 'v) AbstractQuery =
    And "('k, 'v) AbstractQuery list"
  | Or "('k, 'v) AbstractQuery list"
  | Not "('k, 'v) AbstractQuery"
  | Eq 'k 'v
  | Neq 'k 'v
  | Gt 'k 'v
  | Gte 'k 'v
  | Lt 'k 'v
  | Lte 'k 'v
  | Like 'k 'v
  | In 'k "'v list"
  | Exist "'k list"

type_synonym Query = "(string, string) AbstractQuery"

definition default_query :: "('k, 'v) AbstractQuery" where
  "default_query = And []"

section \<open>Optimisation and traversal\<close>

lemma map_filter_cong [fundef_cong]:
  "xs = ys \<Longrightarrow> (\<And>x. x \<in> set ys \<Longrightarrow> f x = g x) \<Longrightarrow> List.map_filter f xs = List.map_filter g ys"
  unfolding List.map_filter_def by (auto intro!: map_cong filter_cong)

text \<open>\<open>subqueries.into_iter().filter_map(Self::optimise).collect()\<close> is \<open>List.map_filter\<close>.\<close>

fun optimise :: "('k, 'v) AbstractQuery \<Rightarrow> ('k, 'v) AbstractQuery option" where
  "optimise (Not q) = (case optimise q of
     None \<Rightarrow> None
   | Some (Not nested) \<Rightarrow> Some nested
   | Some other \<Rightarrow> Some (Not other))"
| "optimise (And qs) = (case List.map_filter optimise qs of
     [] \<Rightarrow> None
   | [q] \<Rightarrow> Some q
   | subqueries \<Rightarrow> Some (And subqueries))"
| "optimise (Or qs) = (case List.map_filter optimise qs of
     [] \<Rightarrow> None
   | [q] \<Rightarrow> Some q
   | subqueries \<Rightarrow> Some (Or subqueries))"
| "optimise (In key targets) =
     (case targets of [t] \<Rightarrow> Some (Eq key t) | _ \<Rightarrow> Some (In key targets))"
| "optimise other = Some other"

fun get_name :: "('k, 'v) AbstractQuery \<Rightarrow> 'k list" where
  "get_name (And qs) = concat (map get_name qs)"
| "get_name (Or qs) = concat (map get_name qs)"
| "get_name (Exist names) = names"
| "get_name (Not q) = get_name q"
| "get_name (Eq k _) = [k]"
| "get_name (Neq k _) = [k]"
| "get_name (Gt k _) = [k]"
| "get_name (Gte k _) = [k]"
| "get_name (Lt k _) = [k]"
| "get_name (Lte k _) = [k]"
| "get_name (Like k _) = [k]"
| "get_name (In k _) = [k]"

text \<open>
  \<open>map\<close> for converters without state of their own: the value is converted before the name, and
  the first error ends the traversal.
\<close>

fun map_query ::
  "('k \<Rightarrow> ('e, 'rk) result) \<Rightarrow> ('k \<Rightarrow> 'v \<Rightarrow> ('e, 'rv) result) \<Rightarrow> ('k, 'v) AbstractQuery \<Rightarrow>
   ('e, ('rk, 'rv) AbstractQuery) result"
and map_queries ::
  "('k \<Rightarrow> ('e, 'rk) result) \<Rightarrow> ('k \<Rightarrow> 'v \<Rightarrow> ('e, 'rv) result) \<Rightarrow> ('k, 'v) AbstractQuery list \<Rightarrow>
   ('e, ('rk, 'rv) AbstractQuery list) result"
where
  "map_query kf vf (Eq k v) = and_then (vf k v) (\<lambda>v. and_then (kf k) (\<lambda>k. Ok (Eq k v)))"
| "map_query kf vf (Neq k v) = and_then (vf k v) (\<lambda>v. and_then (kf k) (\<lambda>k. Ok (Neq k v)))"
| "map_query kf vf (Gt k v) = and_then (vf k v) (\<lambda>v. and_then (kf k) (\<lambda>k. Ok (Gt k v)))"
| "map_query kf vf (Gte k v) = and_then (vf k v) (\<lambda>v. and_then (kf k) (\<lambda>k. Ok (Gte k v)))"
| "map_query kf vf (Lt k v) = and_then (vf k v) (\<lambda>v. and_then (kf k) (\<lambda>k. Ok (Lt k v)))"
| "map_query kf vf (Lte k v) = and_then (vf k v) (\<lambda>v. and_then (kf k) (\<lambda>k. Ok (Lte k v)))"
| "map_query kf vf (Like k v) = and_then (vf k v) (\<lambda>v. and_then (kf k) (\<lambda>k. Ok (Like k v)))"
| "map_query kf vf (In k vs) = and_then (try_map (vf k) vs) (\<lambda>vs. and_then (kf k) (\<lambda>k. Ok (In k vs)))"
| "map_query kf vf (Exist ks) = and_then (try_map kf ks) (\<lambda>ks. Ok (Exist ks))"
| "map_query kf vf (And qs) = and_then (map_queries kf vf qs) (\<lambda>qs. Ok (And qs))"
| "map_query kf vf (Or qs) = and_then (map_queries kf vf qs) (\<lambda>qs. Ok (Or qs))"
| "map_query kf vf (Not q) = and_then (map_query kf vf q) (\<lambda>q. Ok (Not q))"
| "map_queries kf vf [] = Ok []"
| "map_queries kf vf (q # qs) =
     and_then (map_query kf vf q) (\<lambda>q. and_then (map_queries kf vf qs) (\<lambda>qs. Ok (q # qs)))"

definition map_names ::
  "('k \<Rightarrow> ('e, 'rk) result) \<Rightarrow> ('k, 'v) AbstractQuery \<Rightarrow> ('e, ('rk, 'v) AbstractQuery) result" where
  "map_names f = map_query f (\<lambda>_ v. Ok v)"

definition map_values ::
  "('k \<Rightarrow> 'v \<Rightarrow> ('e, 'rv) result) \<Rightarrow> ('k, 'v) AbstractQuery \<Rightarrow> ('e, ('k, 'rv) AbstractQuery) result" where
  "map_values f = map_query Ok f"

section \<open>The JSON form\<close>

fun to_value :: "Query \<Rightarrow> json" where
  "to_value (Eq k v) = JObject [(k, JString v)]"
| "to_value (Neq k v) = JObject [(k, JObject [(''$neq'', JString v)])]"
| "to_value (Gt k v) = JObject [(k, JObject [(''$gt'', JString v)])]"
| "to_value (Gte k v) = JObject [(k, JObject [(''$gte'', JString v)])]"
| "to_value (Lt k v) = JObject [(k, JObject [(''$lt'', JString v)])]"
| "to_value (Lte k v) = JObject [(k, JObject [(''$lte'', JString v)])]"
| "to_value (Like k v) = JObject [(k, JObject [(''$like'', JString v)])]"
| "to_value (In k vs) = JObject [(k, JObject [(''$in'', JArray (map JString vs))])]"
| "to_value (Exist ks) = JObject [(''$exist'', JArray (map JString ks))]"
| "to_value (And qs) =
     (if qs = [] then JObject [] else JObject [(''$and'', JArray (map to_value qs))])"
| "to_value (Or qs) =
     (if qs = [] then JObject [] else JObject [(''$or'', JArray (map to_value qs))])"
| "to_value (Not q) = JObject [(''$not'', to_value q)]"

text \<open>A list of JSON strings; every caller has its own error text.\<close>

fun parse_strings :: "string \<Rightarrow> json list \<Rightarrow> (string, string list) result" where
  "parse_strings err [] = Ok []"
| "parse_strings err (v # vs) = (case v of
     JString s \<Rightarrow> map_ok (\<lambda>ss. s # ss) (parse_strings err vs)
   | _ \<Rightarrow> Err err)"

definition string_operand ::
  "string \<Rightarrow> (string \<Rightarrow> string \<Rightarrow> Query) \<Rightarrow> string \<Rightarrow> json \<Rightarrow> (string, Query) result" where
  "string_operand name con key value = (case value of
     JString v \<Rightarrow> Ok (con key v)
   | _ \<Rightarrow> Err (name @ '' must be used with string''))"

definition parse_single_operator :: "string \<Rightarrow> string \<Rightarrow> json \<Rightarrow> (string, Query) result" where
  "parse_single_operator name key value =
     (if name = ''$neq'' then string_operand name Neq key value
      else if name = ''$gt'' then string_operand name Gt key value
      else if name = ''$gte'' then string_operand name Gte key value
      else if name = ''$lt'' then string_operand name Lt key value
      else if name = ''$lte'' then string_operand name Lte key value
      else if name = ''$like'' then string_operand name Like key value
      else if name = ''$in'' then
        (case value of
           JArray vs \<Rightarrow> map_ok (In key) (parse_strings ''$in must be used with array of strings'' vs)
         | _ \<Rightarrow> Err ''$in must be used with array of strings'')
      else Err ''Unknown operator'')"

text \<open>
  \<open>parse_members\<close> is the loop of \<open>parse_query\<close> over the members of the object, in key order.
\<close>

definition finish_query :: "Query list \<Rightarrow> Query" where
  "finish_query operators = (case operators of [q] \<Rightarrow> q | _ \<Rightarrow> And operators)"

function parse_query :: "(string \<times> json) list \<Rightarrow> (string, Query) result"
and parse_members :: "(string \<times> json) list \<Rightarrow> (string, Query list) result"
and parse_operator :: "string \<Rightarrow> json \<Rightarrow> (string, Query option) result"
and parse_list_operators :: "json list \<Rightarrow> (string, Query list) result"
where
  "parse_query m = and_then (parse_members m) (\<lambda>operators. Ok (finish_query operators))"
| "parse_members [] = Ok []"
| "parse_members (kv # m) =
     and_then (parse_operator (fst kv) (snd kv)) (\<lambda>op.
     and_then (parse_members m) (\<lambda>ops.
       Ok (case op of Some q \<Rightarrow> q # ops | None \<Rightarrow> ops)))"
| "parse_operator key value =
     (if key = ''$and'' then
        (case value of
           JArray values \<Rightarrow>
             if values = [] then Ok None
             else map_ok (\<lambda>ops. Some (And ops)) (parse_list_operators values)
         | _ \<Rightarrow> Err ''$and must be array of JSON objects'')
      else if key = ''$or'' then
        (case value of
           JArray values \<Rightarrow>
             if values = [] then Ok None
             else map_ok (\<lambda>ops. Some (Or ops)) (parse_list_operators values)
         | _ \<Rightarrow> Err ''$or must be array of JSON objects'')
      else if key = ''$not'' then
        (case value of
           JObject m \<Rightarrow> map_ok (\<lambda>q. Some (Not q)) (parse_query m)
         | _ \<Rightarrow> Err ''$not must be JSON object'')
      else if key = ''$exist'' then
        (case value of
           JString k \<Rightarrow> Ok (Some (Exist [k]))
         | JArray keys \<Rightarrow>
             if keys = [] then Ok None
             else map_ok (\<lambda>ks. Some (Exist ks))
                    (parse_strings ''$exist must be used with a string or array of strings'' keys)
         | _ \<Rightarrow> Err ''$exist must be used with a string or array of strings'')
      else
        (case value of
           JString v \<Rightarrow> Ok (Some (Eq key v))
         | JObject m \<Rightarrow>
             (case m of
                [(operator_name, v)] \<Rightarrow> map_ok Some (parse_single_operator operator_name key v)
              | _ \<Rightarrow> Err ''value must be JSON object of length 1'')
         | _ \<Rightarrow> Err ''Unsupported value''))"
| "parse_list_operators [] = Ok []"
| "parse_list_operators (value # values) =
     (case value of
        JObject m \<Rightarrow>
          and_then (parse_query m) (\<lambda>q. map_ok (\<lambda>ops. q # ops) (parse_list_operators values))
      | _ \<Rightarrow> Err ''operator must be array of JSON objects'')"
  by pat_completeness auto

termination
  by (relation "measure (\<lambda>x. case x of
        Inl (Inl m) \<Rightarrow> 2 * size_list (size_prod (\<lambda>_. 0) size) m + 2
      | Inl (Inr m) \<Rightarrow> 2 * size_list (size_prod (\<lambda>_. 0) size) m + 1
      | Inr (Inl (k, v)) \<Rightarrow> 2 * size v + 1
      | Inr (Inr vs) \<Rightarrow> 2 * size_list size vs + 1)") auto


declare parse_operator.simps [simp del]

text \<open>
  \<open>Deserialize for Query\<close>: an object is a query, an array of objects the old form of
  restrictions, read as a disjunction of its members without the null entries.
\<close>

datatype de_error = MissingField string | Custom string

fun old_restrictions :: "json list \<Rightarrow> (de_error, json list) result" where
  "old_restrictions [] = Ok []"
| "old_restrictions (sub_query # rest) =
     and_then (ok_or (as_object sub_query) (Custom ''Restriction is invalid'')) (\<lambda>m.
     and_then (old_restrictions rest) (\<lambda>res.
       let m' = filter (\<lambda>kv. \<not> json_is_null (snd kv)) m
       in Ok (if m' = [] then res else JObject m' # res)))"

definition deserialize_query :: "json \<Rightarrow> (de_error, Query) result" where
  "deserialize_query v = (case v of
     JObject m \<Rightarrow> map_err MissingField (parse_query m)
   | JArray array \<Rightarrow>
       and_then (old_restrictions array) (\<lambda>res.
         map_err Custom (parse_query [(''$or'', JArray res)]))
   | _ \<Rightarrow> Err (MissingField ''Restriction must be either object or array''))"

section \<open>The meaning of a query\<close>

text \<open>
  For every valuation of the comparisons: the connectives as usual, \<open>In\<close> as the disjunction of
  equalities.
\<close>

fun eval_query :: "(('k, 'v) AbstractQuery \<Rightarrow> bool) \<Rightarrow> ('k, 'v) AbstractQuery \<Rightarrow> bool" where
  "eval_query leaf (And qs) = (\<forall>q \<in> set qs. eval_query leaf q)"
| "eval_query leaf (Or qs) = (\<exists>q \<in> set qs. eval_query leaf q)"
| "eval_query leaf (Not q) = (\<not> eval_query leaf q)"
| "eval_query leaf (In k vs) = (\<exists>v \<in> set vs. leaf (Eq k v))"
| "eval_query leaf q = leaf q"

text \<open>No connective without operands.\<close>

fun proper_query :: "('k, 'v) AbstractQuery \<Rightarrow> bool" where
  "proper_query (And qs) = (qs \<noteq> [] \<and> (\<forall>q \<in> set qs. proper_query q))"
| "proper_query (Or qs) = (qs \<noteq> [] \<and> (\<forall>q \<in> set qs. proper_query q))"
| "proper_query (Not q) = proper_query q"
| "proper_query _ = True"

text \<open>What the optimiser leaves: two or more operands, no double negation, no singleton \<open>In\<close>.\<close>

fun optimal :: "('k, 'v) AbstractQuery \<Rightarrow> bool" where
  "optimal (And qs) = (length qs \<ge> 2 \<and> (\<forall>q \<in> set qs. optimal q))"
| "optimal (Or qs) = (length qs \<ge> 2 \<and> (\<forall>q \<in> set qs. optimal q))"
| "optimal (Not q) = (optimal q \<and> (case q of Not _ \<Rightarrow> False | _ \<Rightarrow> True))"
| "optimal (In k vs) = (length vs \<noteq> 1)"
| "optimal _ = True"

subsection \<open>The optimiser\<close>

text \<open>The two connectives end their cases alike; this is that tail.\<close>

definition collapse :: "(('k, 'v) AbstractQuery list \<Rightarrow> ('k, 'v) AbstractQuery) \<Rightarrow>
    ('k, 'v) AbstractQuery list \<Rightarrow> ('k, 'v) AbstractQuery option" where
  "collapse con qs = (case qs of [] \<Rightarrow> None | [q] \<Rightarrow> Some q | _ \<Rightarrow> Some (con qs))"

lemma optimise_connective:
  "optimise (And qs) = collapse And (List.map_filter optimise qs)"
  "optimise (Or qs) = collapse Or (List.map_filter optimise qs)"
  by (simp_all add: collapse_def split: list.splits)

lemma collapse_cases:
  obtains "qs = []" "collapse con qs = None"
  | q where "qs = [q]" "collapse con qs = Some q"
  | "2 \<le> length qs" "collapse con qs = Some (con qs)"
proof (cases qs)
  case (Cons q qs')
  with that show ?thesis by (cases qs') (auto simp: collapse_def)
qed (use that in \<open>simp add: collapse_def\<close>)

lemma set_map_filter: "set (List.map_filter f xs) = {y. \<exists>x \<in> set xs. f x = Some y}"
  by (force simp: List.map_filter_def)

lemma map_filter_total:
  "(\<And>x. x \<in> set xs \<Longrightarrow> f x = Some (g x)) \<Longrightarrow> List.map_filter f xs = map g xs"
  by (induction xs) (auto simp: List.map_filter_simps)

lemma optimise_not_cases:
  assumes "optimise q = Some p"
  shows "optimise (Not q) = (case p of Not r \<Rightarrow> Some r | _ \<Rightarrow> Some (Not p))"
  using assms by (cases p) simp_all

lemma eval_optimise:
  "proper_query q \<Longrightarrow>
     \<exists>p. optimise q = Some p \<and> proper_query p \<and> (\<forall>leaf. eval_query leaf p = eval_query leaf q)"
proof (induction q)
  case (And qs)
  then obtain g where g: "\<And>q. q \<in> set qs \<Longrightarrow> optimise q = Some (g q)"
    "\<And>q. q \<in> set qs \<Longrightarrow> proper_query (g q)"
    "\<And>q leaf. q \<in> set qs \<Longrightarrow> eval_query leaf (g q) = eval_query leaf q"
    by (simp, metis)
  then have m: "List.map_filter optimise qs = map g qs" by (intro map_filter_total)
  show ?case unfolding optimise_connective m
    by (rule collapse_cases [of "map g qs" And]) (use And.prems g in auto)
next
  case (Or qs)
  then obtain g where g: "\<And>q. q \<in> set qs \<Longrightarrow> optimise q = Some (g q)"
    "\<And>q. q \<in> set qs \<Longrightarrow> proper_query (g q)"
    "\<And>q leaf. q \<in> set qs \<Longrightarrow> eval_query leaf (g q) = eval_query leaf q"
    by (simp, metis)
  then have m: "List.map_filter optimise qs = map g qs" by (intro map_filter_total)
  show ?case unfolding optimise_connective m
    by (rule collapse_cases [of "map g qs" Or]) (use Or.prems g in auto)
next
  case (Not q)
  then obtain p where p: "optimise q = Some p" "proper_query p"
    "\<And>leaf. eval_query leaf p = eval_query leaf q" by auto
  show ?case unfolding optimise_not_cases [OF p(1)]
    using p(2) by (cases p) (auto simp flip: p(3))
next
  case (In k vs)
  then show ?case by (cases vs rule: remdups_adj.cases) auto
qed auto

lemma optimise_optimal: "optimise q = Some p \<Longrightarrow> optimal p"
proof (induction q arbitrary: p)
  case (And qs)
  then have IH: "\<And>x. x \<in> set (List.map_filter optimise qs) \<Longrightarrow> optimal x"
    by (auto simp: set_map_filter)
  show ?case
    by (rule collapse_cases [of "List.map_filter optimise qs" And])
      (use And.prems [unfolded optimise_connective] IH in auto)
next
  case (Or qs)
  then have IH: "\<And>x. x \<in> set (List.map_filter optimise qs) \<Longrightarrow> optimal x"
    by (auto simp: set_map_filter)
  show ?case
    by (rule collapse_cases [of "List.map_filter optimise qs" Or])
      (use Or.prems [unfolded optimise_connective] IH in auto)
next
  case (Not q)
  then obtain r where r: "optimise q = Some r" by (cases "optimise q") auto
  from Not.IH [OF r] Not.prems [unfolded optimise_not_cases [OF r]] show ?case
    by (cases r) auto
next
  case (In k vs)
  then show ?case by (cases vs rule: remdups_adj.cases) auto
qed auto

lemma optimise_id: "optimal q \<Longrightarrow> optimise q = Some q"
proof (induction q)
  case (And qs)
  then have m: "List.map_filter optimise qs = qs" using map_filter_total [of qs optimise id] by simp
  show ?case unfolding optimise_connective m
    by (rule collapse_cases [of qs And]) (use And.prems in auto)
next
  case (Or qs)
  then have m: "List.map_filter optimise qs = qs" using map_filter_total [of qs optimise id] by simp
  show ?case unfolding optimise_connective m
    by (rule collapse_cases [of qs Or]) (use Or.prems in auto)
next
  case (Not q)
  then show ?case by (cases q) auto
next
  case (In k vs)
  then show ?case by (cases vs rule: remdups_adj.cases) auto
qed auto

lemma optimise_names:
  "get_name q = (case optimise q of None \<Rightarrow> [] | Some p \<Rightarrow> get_name p)"
proof (induction q)
  case (And qs)
  then have "concat (map get_name qs) = concat (map get_name (List.map_filter optimise qs))"
    by (induction qs) (auto simp: List.map_filter_simps split: option.splits)
  then show ?case unfolding optimise_connective
    by (rule_tac collapse_cases [of "List.map_filter optimise qs" And]) auto
next
  case (Or qs)
  then have "concat (map get_name qs) = concat (map get_name (List.map_filter optimise qs))"
    by (induction qs) (auto simp: List.map_filter_simps split: option.splits)
  then show ?case unfolding optimise_connective
    by (rule_tac collapse_cases [of "List.map_filter optimise qs" Or]) auto
next
  case (Not q)
  show ?case
  proof (cases "optimise q")
    case (Some p)
    then show ?thesis using Not.IH by (cases p) auto
  qed (use Not.IH in simp)
next
  case (In k vs)
  then show ?case by (cases vs rule: remdups_adj.cases) auto
qed auto

subsection \<open>Printing and parsing\<close>

text \<open>
  What survives the JSON form: field names that are no operators, no empty disjunction (it
  prints like the empty conjunction) and no empty \<open>Exist\<close> (the parser drops it).
\<close>

definition reserved :: "string set" where
  "reserved = {''$and'', ''$or'', ''$not'', ''$exist''}"

fun printable :: "Query \<Rightarrow> bool" where
  "printable (And qs) = (\<forall>q \<in> set qs. printable q)"
| "printable (Or qs) = (qs \<noteq> [] \<and> (\<forall>q \<in> set qs. printable q))"
| "printable (Not q) = printable q"
| "printable (Exist ks) = (ks \<noteq> [])"
| "printable (Eq k _) = (k \<notin> reserved)"
| "printable (Neq k _) = (k \<notin> reserved)"
| "printable (Gt k _) = (k \<notin> reserved)"
| "printable (Gte k _) = (k \<notin> reserved)"
| "printable (Lt k _) = (k \<notin> reserved)"
| "printable (Lte k _) = (k \<notin> reserved)"
| "printable (Like k _) = (k \<notin> reserved)"
| "printable (In k _) = (k \<notin> reserved)"

lemma to_value_object: "\<exists>m. to_value q = JObject m"
  by (cases q) auto

lemma parse_strings_map [simp]: "parse_strings err (map JString ss) = Ok ss"
  by (induction ss) auto

lemma parse_field:
  "k \<notin> reserved \<Longrightarrow> parse_query [(k, JString v)] = Ok (Eq k v)"
  "k \<notin> reserved \<Longrightarrow> parse_query [(k, JObject [(name, w)])] = parse_single_operator name k w"
proof -
  show "k \<notin> reserved \<Longrightarrow> parse_query [(k, JString v)] = Ok (Eq k v)"
    by (simp add: parse_operator.simps reserved_def finish_query_def)
  show "k \<notin> reserved \<Longrightarrow> parse_query [(k, JObject [(name, w)])] = parse_single_operator name k w"
    by (cases "parse_single_operator name k w")
      (simp_all add: parse_operator.simps reserved_def finish_query_def)
qed

lemma parse_to_values:
  assumes "\<And>q. q \<in> set qs \<Longrightarrow> \<exists>m. to_value q = JObject m \<and> parse_query m = Ok q"
  shows "parse_list_operators (map to_value qs) = Ok qs"
  using assms
proof (induction qs)
  case (Cons q qs)
  from Cons.prems [of q] obtain m where "to_value q = JObject m" "parse_query m = Ok q" by auto
  with Cons show ?case by simp
qed simp

lemma parse_to_value: "printable q \<Longrightarrow> \<exists>m. to_value q = JObject m \<and> parse_query m = Ok q"
proof (induction q)
  case (And qs)
  then have "parse_list_operators (map to_value qs) = Ok qs" by (intro parse_to_values) auto
  then show ?case by (auto simp: parse_operator.simps finish_query_def)
next
  case (Or qs)
  then have "parse_list_operators (map to_value qs) = Ok qs" by (intro parse_to_values) auto
  with Or.prems show ?case by (auto simp: parse_operator.simps finish_query_def)
next
  case (Not q)
  then show ?case by (auto simp: parse_operator.simps finish_query_def)
next
  case (Exist ks)
  then show ?case by (auto simp: parse_operator.simps finish_query_def)
qed (auto simp: parse_field parse_single_operator_def string_operand_def simp del: parse_query.simps)

section \<open>Properties\<close>

text \<open>
  C38. \<open>optimise\<close> keeps the meaning of every query without empty connectives, whatever the atomic
  comparisons mean, never loses such a query, and its result is a fixed point of it.
\<close>

theorem optimise_correct:
  assumes "proper_query q"
  shows "\<exists>p. optimise q = Some p \<and> optimise p = Some p \<and> get_name p = get_name q
    \<and> (\<forall>leaf. eval_query leaf p = eval_query leaf q)"
proof -
  from eval_optimise [OF assms] obtain p where
    p: "optimise q = Some p" "\<forall>leaf. eval_query leaf p = eval_query leaf q" by auto
  moreover from p(1) have "optimise p = Some p" by (intro optimise_id optimise_optimal)
  ultimately show ?thesis using optimise_names [of q] by simp
qed

theorem optimise_correct_witness:
  "\<exists>p. optimise (Not (Not (And [In ''a'' [''1'']]))) = Some p \<and> optimise p = Some p
    \<and> get_name p = [''a'']
    \<and> (\<forall>leaf. eval_query leaf p = eval_query leaf (Not (Not (And [In ''a'' [''1'']]))))"
  using optimise_correct [of "Not (Not (And [In ''a'' [''1'']]))"] by simp

text \<open>
  Reading back the JSON form of a query gives the query, for every query whose field names
  are no operator names and that has no empty \<open>Or\<close> and no empty \<open>Exist\<close>.
\<close>

theorem query_json_roundtrip:
  assumes "printable q"
  shows "deserialize_query (to_value q) = Ok q"
  using parse_to_value [OF assms] by (auto simp: deserialize_query_def simp del: parse_query.simps)

theorem query_json_roundtrip_witness:
  "deserialize_query (to_value (Not (Or [Eq ''a'' ''1'', In ''b'' [], And []])))
     = Ok (Not (Or [Eq ''a'' ''1'', In ''b'' [], And []]))"
  using query_json_roundtrip [of "Not (Or [Eq ''a'' ''1'', In ''b'' [], And []])"]
  by (simp add: reserved_def)

text \<open>
  The two excluded shapes: an empty disjunction, which no valuation satisfies, and an empty
  \<open>Exist\<close> are read back as the empty conjunction, which every valuation satisfies.
\<close>

theorem query_json_degenerate:
  "deserialize_query (to_value (Or [])) = Ok (And [])
   \<and> deserialize_query (to_value (Exist [])) = Ok (And [])
   \<and> \<not> eval_query leaf (Or [] :: Query) \<and> eval_query leaf (And [] :: Query)"
  by (simp_all add: deserialize_query_def parse_operator.simps finish_query_def)

end
