(* ===== verification/Anoncreds_Types.thy ===== *)
theory Anoncreds_Types
  imports Query Vcx_Errors
begin

text \<open>
  The crate \<open>anoncreds_types\<close>: its error type, the identifiers with their patterns, the
  non-revocation interval, presentation requests, and the \<open>Validatable\<close> instances of the objects
  that issuance and presentation exchange. Cryptographic members are kept as their JSON value.
\<close>

section \<open>Errors\<close>

datatype ErrorKind =
  At_Input | At_InvalidState | At_Unexpected | At_ProofRejected | At_ConversionError
| At_ValidationError

record at_error =
  at_kind :: ErrorKind
  at_cause :: "string option"
  at_message :: "string option"

fun show_ErrorKind :: "ErrorKind \<Rightarrow> string" where
  "show_ErrorKind At_Input = ''Input error''"
| "show_ErrorKind At_InvalidState = ''Invalid state''"
| "show_ErrorKind At_Unexpected = ''Unexpected error''"
| "show_ErrorKind At_ProofRejected = ''Proof rejected''"
| "show_ErrorKind At_ConversionError = ''Conversion error''"
| "show_ErrorKind At_ValidationError = ''Validation error''"

definition at_error_msg :: "ErrorKind \<Rightarrow> string \<Rightarrow> at_error" where
  "at_error_msg k m = \<lparr>at_kind = k, at_cause = None, at_message = Some m\<rparr>"

definition show_at_error :: "at_error \<Rightarrow> string" where
  "show_at_error e =
     (case at_message e of
        None \<Rightarrow> show_ErrorKind (at_kind e)
      | Some msg \<Rightarrow>
          if at_kind e = At_Input then msg else show_ErrorKind (at_kind e) @ '': '' @ msg)
     @ (case at_cause e of None \<Rightarrow> [] | Some source \<Rightarrow> '' ['' @ source @ '']'')"

abbreviation invalid :: "string \<Rightarrow> at_error" where
  "invalid m \<equiv> at_error_msg At_ConversionError m"

section \<open>Patterns\<close>

text \<open>
  The regular expressions of \<open>utils/validation.rs\<close>. All are anchored at both ends, and a dot
  matches anything but a line feed.
\<close>

definition in_any_range :: "(nat \<times> nat) list \<Rightarrow> char \<Rightarrow> bool" where
  "in_any_range rs c \<longleftrightarrow> list_ex (\<lambda>(lo, hi). in_range lo hi c) rs"

definition is_alnum :: "char \<Rightarrow> bool" where
  "is_alnum = in_any_range [(48, 57), (65, 90), (97, 122)]"

definition is_b58 :: "char \<Rightarrow> bool" where
  "is_b58 = in_any_range [(49, 57), (65, 72), (74, 78), (80, 90), (97, 107), (109, 122)]"

definition is_scheme_char :: "char \<Rightarrow> bool" where
  "is_scheme_char c \<longleftrightarrow> is_alnum c \<or> c \<in> set ''+-.''"

definition is_version_char :: "char \<Rightarrow> bool" where
  "is_version_char c \<longleftrightarrow> in_range 48 57 c \<or> c = CHR ''.''"

definition no_newline :: "string \<Rightarrow> bool" where
  "no_newline s \<longleftrightarrow> CHR 0x0A \<notin> set s"

text \<open>\<open>strip p s\<close>: what follows the prefix \<open>p\<close> of \<open>s\<close>.\<close>

definition strip :: "string \<Rightarrow> string \<Rightarrow> string option" where
  "strip p s = (if take (length p) s = p then Some (drop (length p) s) else None)"

definition URI_IDENTIFIER :: "string \<Rightarrow> bool" where
  "URI_IDENTIFIER s \<longleftrightarrow>
     takeWhile is_scheme_char s \<noteq> []
     \<and> (case strip '':'' (dropWhile is_scheme_char s) of
          Some rest \<Rightarrow> rest \<noteq> [] \<and> no_newline rest
        | None \<Rightarrow> False)"

definition LEGACY_DID_IDENTIFIER :: "string \<Rightarrow> bool" where
  "LEGACY_DID_IDENTIFIER s \<longleftrightarrow> length s \<in> {21, 22} \<and> list_all is_b58 s"

text \<open>\<open>.+:[0-9.]+\<close> and \<open>.+:[0-9.]+:(.+)?\<close>: some split of the text at colons fits.\<close>

definition splits :: "string \<Rightarrow> (string \<times> string) list" where
  "splits s = map (\<lambda>i. (take i s, drop (Suc i) s)) (filter (\<lambda>i. s ! i = CHR '':'') [0..<length s])"

definition name_and_version :: "string \<Rightarrow> bool" where
  "name_and_version s \<longleftrightarrow> no_newline s
     \<and> list_ex (\<lambda>(a, b). a \<noteq> [] \<and> b \<noteq> [] \<and> list_all is_version_char b) (splits s)"

definition name_version_tag :: "string \<Rightarrow> bool" where
  "name_version_tag s \<longleftrightarrow> no_newline s
     \<and> list_ex (\<lambda>(a, b). a \<noteq> [] \<and>
          list_ex (\<lambda>(v, _). v \<noteq> [] \<and> list_all is_version_char v) (splits b)) (splits s)"

definition LEGACY_SCHEMA_IDENTIFIER :: "string \<Rightarrow> bool" where
  "LEGACY_SCHEMA_IDENTIFIER s \<longleftrightarrow>
     length (takeWhile is_b58 s) \<in> {21, 22}
     \<and> (case strip '':2:'' (dropWhile is_b58 s) of
          Some rest \<Rightarrow> name_and_version rest
        | None \<Rightarrow> False)"

definition seq_no_tag :: "string \<Rightarrow> bool" where
  "seq_no_tag s \<longleftrightarrow>
     (case takeWhile (in_range 48 57) s of
        d # _ \<Rightarrow> d \<noteq> CHR ''0''
          \<and> (case strip '':'' (dropWhile (in_range 48 57) s) of
               Some tag \<Rightarrow> no_newline tag | None \<Rightarrow> False)
      | [] \<Rightarrow> False)"

definition schema_id_tag :: "string \<Rightarrow> bool" where
  "schema_id_tag s \<longleftrightarrow>
     length (takeWhile is_alnum s) \<in> {21, 22}
     \<and> (case strip '':2:'' (dropWhile is_alnum s) of
          Some rest \<Rightarrow> name_version_tag rest
        | None \<Rightarrow> False)"

definition LEGACY_CRED_DEF_IDENTIFIER :: "string \<Rightarrow> bool" where
  "LEGACY_CRED_DEF_IDENTIFIER s \<longleftrightarrow>
     length (takeWhile is_b58 s) \<in> {21, 22}
     \<and> (case strip '':3:CL:'' (dropWhile is_b58 s) of
          Some rest \<Rightarrow> seq_no_tag rest \<or> schema_id_tag rest
        | None \<Rightarrow> False)"

definition is_uri_identifier :: "string \<Rightarrow> bool" where
  "is_uri_identifier s = URI_IDENTIFIER s"

section \<open>Identifiers\<close>

text \<open>
  The three identifier types wrap a string; \<open>new\<close> and the \<open>TryFrom\<close> instances validate it.
\<close>

type_synonym SchemaId = string
type_synonym CredentialDefinitionId = string
type_synonym RevocationRegistryDefinitionId = string

definition invalid_id :: "string \<Rightarrow> string \<Rightarrow> at_error" where
  "invalid_id typ s = at_error_msg At_ConversionError
     (''type: '' @ typ @ '', identifier: '' @ s
      @ '' is invalid. It MUST be a URI or legacy identifier.'')"

definition validate_schema_id :: "SchemaId \<Rightarrow> (at_error, unit) result" where
  "validate_schema_id s =
     (if URI_IDENTIFIER s then Ok ()
      else if LEGACY_SCHEMA_IDENTIFIER s then Ok ()
      else Err (invalid_id ''SchemaId'' s))"

definition validate_cred_def_id :: "CredentialDefinitionId \<Rightarrow> (at_error, unit) result" where
  "validate_cred_def_id s =
     (if URI_IDENTIFIER s then Ok ()
      else if LEGACY_CRED_DEF_IDENTIFIER s then Ok ()
      else Err (invalid_id ''CredentialDefinitionId'' s))"

definition validate_rev_reg_def_id :: "RevocationRegistryDefinitionId \<Rightarrow> (at_error, unit) result" where
  "validate_rev_reg_def_id s =
     (if URI_IDENTIFIER s then Ok ()
      else if LEGACY_DID_IDENTIFIER s then Ok ()
      else Err (invalid_id ''RevocationRegistryDefinitionId'' s))"

definition SchemaId_new :: "string \<Rightarrow> (at_error, SchemaId) result" where
  "SchemaId_new s = and_then (validate_schema_id s) (\<lambda>_. Ok s)"

definition CredentialDefinitionId_new :: "string \<Rightarrow> (at_error, CredentialDefinitionId) result" where
  "CredentialDefinitionId_new s = and_then (validate_cred_def_id s) (\<lambda>_. Ok s)"

definition RevocationRegistryDefinitionId_new ::
  "string \<Rightarrow> (at_error, RevocationRegistryDefinitionId) result" where
  "RevocationRegistryDefinitionId_new s = and_then (validate_rev_reg_def_id s) (\<lambda>_. Ok s)"

text \<open>The same under \<open>?\<close> in \<open>aries_vcx\<close>, where the error becomes an \<open>AriesVcxError\<close>.\<close>

definition vcx_schema_id :: "string \<Rightarrow> SchemaId VcxResult" where
  "vcx_schema_id s = map_err (from_anoncreds_types_error \<circ> show_at_error) (SchemaId_new s)"

definition vcx_cred_def_id :: "string \<Rightarrow> CredentialDefinitionId VcxResult" where
  "vcx_cred_def_id s =
     map_err (from_anoncreds_types_error \<circ> show_at_error) (CredentialDefinitionId_new s)"

definition vcx_rev_reg_def_id :: "string \<Rightarrow> RevocationRegistryDefinitionId VcxResult" where
  "vcx_rev_reg_def_id s =
     map_err (from_anoncreds_types_error \<circ> show_at_error) (RevocationRegistryDefinitionId_new s)"

section \<open>The non-revocation interval\<close>

record NonRevokedInterval =
  nr_from :: "u64 option"
  nr_to :: "u64 option"

definition compare_and_set :: "NonRevokedInterval \<Rightarrow> NonRevokedInterval \<Rightarrow> NonRevokedInterval" where
  "compare_and_set self other =
     (let self = (case (nr_from self, nr_from other) of
          (Some old_from, Some new_from) \<Rightarrow>
            if old_from < new_from then self\<lparr>nr_from := nr_from other\<rparr> else self
        | (None, Some _) \<Rightarrow> self\<lparr>nr_from := nr_from other\<rparr>
        | _ \<Rightarrow> self)
      in case (nr_to self, nr_to other) of
          (Some old_to, Some new_to) \<Rightarrow>
            if new_to < old_to then self\<lparr>nr_to := nr_to other\<rparr> else self
        | (None, Some _) \<Rightarrow> self\<lparr>nr_to := nr_to other\<rparr>
        | _ \<Rightarrow> self)"

definition update_with_override ::
  "NonRevokedInterval \<Rightarrow> (u64 \<rightharpoonup> u64) \<Rightarrow> NonRevokedInterval" where
  "update_with_override self overrides = (case nr_from self of
     None \<Rightarrow> self
   | Some from \<Rightarrow>
       (case overrides from of None \<Rightarrow> self | Some t \<Rightarrow> self\<lparr>nr_from := Some t\<rparr>))"

definition unwrap_default :: "'a option \<Rightarrow> 'a \<Rightarrow> 'a" where
  "unwrap_default opt d = (case opt of Some x \<Rightarrow> x | None \<Rightarrow> d)"

definition interval_is_valid :: "NonRevokedInterval \<Rightarrow> u64 \<Rightarrow> (at_error, unit) result" where
  "interval_is_valid self timestamp =
     (if timestamp < unwrap_default (nr_from self) 0
         \<or> timestamp > unwrap_default (nr_to self) (- 1)
      then Err (invalid ''Invalid timestamp'') else Ok ())"

section \<open>Presentation requests\<close>

record AttributeInfo =
  ai_name :: "string option"
  ai_names :: "string list option"
  ai_restrictions :: "Query option"
  ai_non_revoked :: "NonRevokedInterval option"
  ai_self_attest_allowed :: "bool option"

datatype PredicateTypes = GE | LE | GT | LT

record PredicateInfo =
  pi_name :: string
  pi_p_type :: PredicateTypes
  pi_p_value :: "32 word"
  pi_restrictions :: "Query option"
  pi_non_revoked :: "NonRevokedInterval option"

record PresentationRequestPayload =
  prp_nonce :: string
  prp_name :: string
  prp_version :: string
  prp_requested_attributes :: "(string, AttributeInfo) hash_map"
  prp_requested_predicates :: "(string, PredicateInfo) hash_map"
  prp_non_revoked :: "NonRevokedInterval option"

datatype PresentationRequest =
    PresentationRequestV1 PresentationRequestPayload
  | PresentationRequestV2 PresentationRequestPayload

datatype PresentationRequestVersion = Pr_V1 | Pr_V2

fun pr_value :: "PresentationRequest \<Rightarrow> PresentationRequestPayload" where
  "pr_value (PresentationRequestV1 req) = req"
| "pr_value (PresentationRequestV2 req) = req"

fun pr_version :: "PresentationRequest \<Rightarrow> PresentationRequestVersion" where
  "pr_version (PresentationRequestV1 _) = Pr_V1"
| "pr_version (PresentationRequestV2 _) = Pr_V2"

definition QUALIFIABLE_TAGS :: "string list" where
  "QUALIFIABLE_TAGS =
     [''issuer_did'', ''cred_def_id'', ''schema_id'', ''schema_issuer_did'', ''rev_reg_id'']"

definition check_restriction ::
  "string \<Rightarrow> string \<Rightarrow> PresentationRequestVersion \<Rightarrow> (at_error, unit) result" where
  "check_restriction tag_name tag_value version =
     (if version = Pr_V1 \<and> tag_name \<in> set QUALIFIABLE_TAGS \<and> is_uri_identifier tag_value
      then Err (invalid (''Presentation request validation failed: fully qualified identifiers can not be used ''
        @ ''for presentation request of the first version. Please, set \"ver\":\"2.0\" to use ''
        @ ''fully qualified identifiers.''))
      else Ok ())"

fun process_operator :: "PresentationRequestVersion \<Rightarrow> Query \<Rightarrow> (at_error, unit) result"
and process_operators :: "PresentationRequestVersion \<Rightarrow> Query list \<Rightarrow> (at_error, unit) result"
where
  "process_operator version (Eq k v) = check_restriction k v version"
| "process_operator version (Neq k v) = check_restriction k v version"
| "process_operator version (Gt k v) = check_restriction k v version"
| "process_operator version (Gte k v) = check_restriction k v version"
| "process_operator version (Lt k v) = check_restriction k v version"
| "process_operator version (Lte k v) = check_restriction k v version"
| "process_operator version (Like k v) = check_restriction k v version"
| "process_operator version (In k vs) =
     and_then (try_map (\<lambda>v. check_restriction k v version) vs) (\<lambda>_. Ok ())"
| "process_operator version (Exist ks) =
     and_then (try_map (\<lambda>k. check_restriction k [] version) ks) (\<lambda>_. Ok ())"
| "process_operator version (And qs) = process_operators version qs"
| "process_operator version (Or qs) = process_operators version qs"
| "process_operator version (Not q) = process_operator version q"
| "process_operators version [] = Ok ()"
| "process_operators version (q # qs) =
     and_then (process_operator version q) (\<lambda>_. process_operators version qs)"

definition process_restrictions ::
  "PresentationRequestVersion \<Rightarrow> Query option \<Rightarrow> (at_error, unit) result" where
  "process_restrictions version r =
     (case r of Some q \<Rightarrow> process_operator version q | None \<Rightarrow> Ok ())"

definition has_some :: "'a list option \<Rightarrow> bool" where
  "has_some l = (case l of None \<Rightarrow> False | Some xs \<Rightarrow> xs \<noteq> [])"

definition validate_attribute ::
  "(AttributeInfo \<Rightarrow> string) \<Rightarrow> PresentationRequestVersion \<Rightarrow> AttributeInfo \<Rightarrow> (at_error, unit) result" where
  "validate_attribute debug version a =
     (let has_name = has_some (ai_name a); has_names = has_some (ai_names a) in
      if \<not> has_name \<and> \<not> has_names then
        Err (invalid (''Presentation request validation failed: there is empty requested attribute: ''
          @ debug a))
      else if has_name \<and> has_names then
        Err (invalid (''Presentation request validation failed: there is a requested attribute with ''
          @ ''both name and names: '' @ debug a))
      else process_restrictions version (ai_restrictions a))"

definition validate_predicate ::
  "(PredicateInfo \<Rightarrow> string) \<Rightarrow> PresentationRequestVersion \<Rightarrow> PredicateInfo \<Rightarrow> (at_error, unit) result" where
  "validate_predicate debug version p =
     (if pi_name p = [] then
        Err (invalid (''Presentation request validation failed: there is empty requested attribute: ''
          @ debug p))
      else process_restrictions version (pi_restrictions p))"

definition validate_pres_request ::
  "(AttributeInfo \<Rightarrow> string) \<Rightarrow> (PredicateInfo \<Rightarrow> string) \<Rightarrow> PresentationRequest \<Rightarrow> (at_error, unit) result" where
  "validate_pres_request debug_attr debug_pred self =
     (let value = pr_value self; version = pr_version self in
      if prp_requested_attributes value = [] \<and> prp_requested_predicates value = [] then
        Err (invalid (''Presentation request validation failed: both `requested_attributes` and ''
          @ ''`requested_predicates` are empty''))
      else
        and_then (try_map (validate_attribute debug_attr version \<circ> snd)
                    (prp_requested_attributes value)) (\<lambda>_.
        and_then (try_map (validate_predicate debug_pred version \<circ> snd)
                    (prp_requested_predicates value)) (\<lambda>_. Ok ())))"

section \<open>Offers, requests, credentials and presentations\<close>

record CredentialOffer =
  co_schema_id :: SchemaId
  co_cred_def_id :: CredentialDefinitionId
  co_key_correctness_proof :: json
  co_nonce :: string
  co_method_name :: "string option"

definition validate_cred_offer :: "CredentialOffer \<Rightarrow> (at_error, unit) result" where
  "validate_cred_offer self =
     and_then (validate_schema_id (co_schema_id self)) (\<lambda>_.
     and_then (validate_cred_def_id (co_cred_def_id self)) (\<lambda>_. Ok ()))"

record CredentialRequest =
  cr_entropy :: "string option"
  cr_prover_did :: "string option"
  cr_cred_def_id :: CredentialDefinitionId
  cr_blinded_ms :: json
  cr_blinded_ms_correctness_proof :: json
  cr_nonce :: string

definition validate_cred_request :: "CredentialRequest \<Rightarrow> (at_error, unit) result" where
  "validate_cred_request self =
     and_then (validate_cred_def_id (cr_cred_def_id self)) (\<lambda>_.
       case cr_entropy self of
         Some _ \<Rightarrow>
           if cr_prover_did self \<noteq> None
           then Err (invalid ''Prover did and entropy must not both be supplied'') else Ok ()
       | None \<Rightarrow>
           if LEGACY_CRED_DEF_IDENTIFIER (cr_cred_def_id self) then
             (case cr_prover_did self of
                Some prover_did \<Rightarrow>
                  if LEGACY_DID_IDENTIFIER prover_did then Ok ()
                  else Err (invalid ''Prover did was supplied, not valid'')
              | None \<Rightarrow>
                  Err (invalid ''Legacy identifiers used but no entropy or prover did was supplied''))
           else Err (invalid ''entropy is required''))"

definition CredentialRequest_new ::
  "string option \<Rightarrow> string option \<Rightarrow> CredentialDefinitionId \<Rightarrow> json \<Rightarrow> json \<Rightarrow> string \<Rightarrow>
   (at_error, CredentialRequest) result" where
  "CredentialRequest_new entropy prover_did cred_def_id blinded_ms proof nonce =
     (let s = \<lparr>cr_entropy = entropy, cr_prover_did = prover_did, cr_cred_def_id = cred_def_id,
        cr_blinded_ms = blinded_ms, cr_blinded_ms_correctness_proof = proof, cr_nonce = nonce\<rparr>
      in and_then (validate_cred_request s) (\<lambda>_. Ok s))"

definition request_entropy :: "CredentialRequest \<Rightarrow> (at_error, string) result" where
  "request_entropy self = (case cr_entropy self of
     Some e \<Rightarrow> Ok e
   | None \<Rightarrow> ok_or (cr_prover_did self)
       \<lparr>at_kind = At_Input, at_cause = None, at_message = None\<rparr>)"

record AttributeValues =
  av_raw :: string
  av_encoded :: string

type_synonym CredentialValues = "(string, AttributeValues) hash_map"

definition validate_cred_values :: "CredentialValues \<Rightarrow> (at_error, unit) result" where
  "validate_cred_values self =
     (if self = [] then
        Err (at_error_msg At_Input ''CredentialValues validation failed: empty list has been passed'')
      else Ok ())"

record Credential =
  cd_schema_id :: SchemaId
  cd_cred_def_id :: CredentialDefinitionId
  cd_rev_reg_id :: "RevocationRegistryDefinitionId option"
  cd_values :: CredentialValues
  cd_signature :: json
  cd_signature_correctness_proof :: json
  cd_rev_reg :: "json option"
  cd_witness :: "json option"

definition validate_rev_reg_opt :: "RevocationRegistryDefinitionId option \<Rightarrow> (at_error, unit) result" where
  "validate_rev_reg_opt r = map_ok (\<lambda>_. ()) (transpose_opt (map_option validate_rev_reg_def_id r))"

definition validate_credential :: "Credential \<Rightarrow> (at_error, unit) result" where
  "validate_credential self =
     and_then (validate_cred_values (cd_values self)) (\<lambda>_.
     and_then (validate_schema_id (cd_schema_id self)) (\<lambda>_.
     and_then (validate_cred_def_id (cd_cred_def_id self)) (\<lambda>_.
     and_then (validate_rev_reg_opt (cd_rev_reg_id self)) (\<lambda>_.
       if cd_rev_reg_id self \<noteq> None \<and> (cd_witness self = None \<or> cd_rev_reg self = None) then
         Err (at_error_msg At_Input
           (''Credential validation failed: `witness` and `rev_reg` must be passed for ''
            @ ''revocable Credential''))
       else if cd_values self = [] then
         Err (at_error_msg At_Input ''Credential validation failed: `values` is empty'')
       else Ok ()))))"

record Identifier =
  id_schema_id :: SchemaId
  id_cred_def_id :: CredentialDefinitionId
  id_rev_reg_id :: "RevocationRegistryDefinitionId option"
  id_timestamp :: "u64 option"

record Presentation =
  ps_proof :: json
  ps_requested_proof :: json
  ps_identifiers :: "Identifier list"

definition validate_identifier :: "Identifier \<Rightarrow> (at_error, unit) result" where
  "validate_identifier i =
     and_then (validate_schema_id (id_schema_id i)) (\<lambda>_.
     and_then (validate_cred_def_id (id_cred_def_id i)) (\<lambda>_.
     and_then (validate_rev_reg_opt (id_rev_reg_id i)) (\<lambda>_. Ok ())))"

definition validate_presentation :: "Presentation \<Rightarrow> (at_error, unit) result" where
  "validate_presentation self =
     and_then (try_map validate_identifier (ps_identifiers self)) (\<lambda>_. Ok ())"

record RequestedAttribute =
  ra_cred_id :: string
  ra_timestamp :: "u64 option"
  ra_revealed :: bool

record RequestedPredicate =
  rp_cred_id :: string
  rp_timestamp :: "u64 option"

record RequestedCredentials =
  rc_self_attested_attributes :: "string \<rightharpoonup> string"
  rc_requested_attributes :: "string \<rightharpoonup> RequestedAttribute"
  rc_requested_predicates :: "string \<rightharpoonup> RequestedPredicate"

record RetrievedCredentialInfo =
  rci_referent :: string
  rci_attributes :: "(string, string) hash_map"
  rci_schema_id :: SchemaId
  rci_cred_def_id :: CredentialDefinitionId
  rci_rev_reg_id :: "string option"
  rci_cred_rev_id :: "u32 option"

record RetrievedCredentialForReferent =
  rcr_cred_info :: RetrievedCredentialInfo
  rcr_interval :: "NonRevokedInterval option"

type_synonym RetrievedCredentials = "(string, RetrievedCredentialForReferent list) hash_map"

record SelectedCredentialInfo =
  sci_referent :: string
  sci_schema_id :: SchemaId
  sci_cred_def_id :: CredentialDefinitionId
  sci_rev_reg_id :: "string option"
  sci_cred_rev_id :: "u32 option"
  sci_revealed :: "bool option"

record SelectedCredentialForReferent =
  scr_cred_info :: SelectedCredentialInfo
  scr_tails_dir :: "string option"

type_synonym SelectedCredentials = "(string, SelectedCredentialForReferent) hash_map"

record RevocationRegistryDelta =
  rrd_prev_accum :: "json option"
  rrd_accum :: json
  rrd_issued :: "u32 list"
  rrd_revoked :: "u32 list"

section \<open>Lemmas on patterns\<close>

lemma is_b58_scheme: "is_b58 c \<Longrightarrow> is_scheme_char c"
  by (auto simp: is_b58_def is_scheme_char_def is_alnum_def in_any_range_def in_range_def)

lemma colon_not_scheme [simp]: "\<not> is_scheme_char CHR '':''"
  by (simp add: is_scheme_char_def is_alnum_def in_any_range_def in_range_def)

lemma b58_no_colon: "is_b58 c \<Longrightarrow> c \<noteq> CHR '':''"
  by (auto simp: is_b58_def in_any_range_def in_range_def)

text \<open>
  Base-58 text followed by a colon and something without line feeds is a URI: the shape both
  legacy patterns with a colon share.
\<close>

lemma b58_prefix_uri:
  assumes pre: "takeWhile is_b58 s \<noteq> []" and str: "strip (CHR '':'' # p) (dropWhile is_b58 s) = Some rest"
    and ne: "p @ rest \<noteq> []" and nl: "no_newline (p @ rest)"
  shows "URI_IDENTIFIER s"
proof -
  let ?t = "dropWhile is_b58 s"
  have t: "?t = CHR '':'' # p @ rest"
    using str append_take_drop_id [of "length (CHR '':'' # p)" ?t] unfolding strip_def
    by (metis append_Cons option.distinct(1) option.inject)
  have s: "s = takeWhile is_b58 s @ CHR '':'' # p @ rest"
    using takeWhile_dropWhile_id [of is_b58 s] t by simp
  have all: "\<And>c. c \<in> set (takeWhile is_b58 s) \<Longrightarrow> is_scheme_char c"
    using set_takeWhileD is_b58_scheme by metis
  have "takeWhile is_scheme_char s = takeWhile is_b58 s"
    "dropWhile is_scheme_char s = CHR '':'' # p @ rest"
    by (subst s, simp add: all takeWhile_append2 dropWhile_append2)+
  with pre ne nl show ?thesis by (auto simp: URI_IDENTIFIER_def strip_def)
qed

lemma name_and_version_text: "name_and_version s \<Longrightarrow> s \<noteq> [] \<and> no_newline s"
  by (auto simp: name_and_version_def splits_def)

lemma no_newline_append [simp]: "no_newline (a @ b) \<longleftrightarrow> no_newline a \<and> no_newline b"
  by (auto simp: no_newline_def)

lemma legacy_schema_uri: "LEGACY_SCHEMA_IDENTIFIER s \<Longrightarrow> URI_IDENTIFIER s"
  by (auto simp: LEGACY_SCHEMA_IDENTIFIER_def no_newline_def dest!: name_and_version_text
      intro!: b58_prefix_uri [of s "''2:''"] split: option.splits)

lemma strip_SomeD: "strip p s = Some r \<Longrightarrow> s = p @ r"
  by (metis append_take_drop_id option.distinct(1) option.inject strip_def)

lemma no_newline_scan:
  assumes "\<And>c. P c \<Longrightarrow> c \<noteq> CHR 0x0A" "strip p (dropWhile P s) = Some r" "no_newline (p @ r)"
  shows "no_newline s"
proof -
  have "no_newline (takeWhile P s)"
    using assms(1) by (auto simp: no_newline_def dest: set_takeWhileD)
  with strip_SomeD [OF assms(2)] assms(3) show ?thesis
    using takeWhile_dropWhile_id [of P s] no_newline_append by metis
qed

lemma seq_no_tag_text: "seq_no_tag s \<Longrightarrow> no_newline s"
  by (auto simp: seq_no_tag_def in_range_def
      intro!: no_newline_scan [of "in_range 48 57" "'':''" s] split: list.splits option.splits)
    (auto simp: no_newline_def)

lemma schema_id_tag_text: "schema_id_tag s \<Longrightarrow> no_newline s"
  by (auto simp: schema_id_tag_def name_version_tag_def is_alnum_def in_any_range_def in_range_def
      intro!: no_newline_scan [of is_alnum "'':2:''" s] split: option.splits)
    (auto simp: no_newline_def)

lemma legacy_cred_def_uri:
  assumes "LEGACY_CRED_DEF_IDENTIFIER s"
  shows "URI_IDENTIFIER s"
proof -
  from assms obtain rest where rest: "strip '':3:CL:'' (dropWhile is_b58 s) = Some rest"
    and "seq_no_tag rest \<or> schema_id_tag rest" and pre: "takeWhile is_b58 s \<noteq> []"
    by (force simp: LEGACY_CRED_DEF_IDENTIFIER_def split: option.splits)
  then have "no_newline rest" using seq_no_tag_text schema_id_tag_text by auto
  then show ?thesis using pre rest
    by (intro b58_prefix_uri [of s "''3:CL:''"]) (auto simp: no_newline_def)
qed

lemma legacy_did_not_uri: "LEGACY_DID_IDENTIFIER s \<Longrightarrow> \<not> URI_IDENTIFIER s"
proof -
  assume "LEGACY_DID_IDENTIFIER s"
  then have "dropWhile is_scheme_char s = []"
    unfolding dropWhile_eq_Nil_conv by (auto simp: LEGACY_DID_IDENTIFIER_def list_all_iff is_b58_scheme)
  then show ?thesis unfolding URI_IDENTIFIER_def by (simp only: strip_def) simp
qed

text \<open>\<open>From<RetrievedCredentialForReferent>\<close> and \<open>select_credential_for_referent_from_retrieved\<close>.\<close>

definition select_from_retrieved :: "RetrievedCredentialForReferent \<Rightarrow> SelectedCredentialInfo" where
  "select_from_retrieved value = (let i = rcr_cred_info value in
     \<lparr>sci_referent = rci_referent i, sci_schema_id = rci_schema_id i,
      sci_cred_def_id = rci_cred_def_id i, sci_rev_reg_id = rci_rev_reg_id i,
      sci_cred_rev_id = rci_cred_rev_id i, sci_revealed = None\<rparr>)"

text \<open>\<open>HashMap::insert\<close> on the entries: an old entry for the key is replaced.\<close>

definition entry_insert :: "'k \<Rightarrow> 'v \<Rightarrow> ('k, 'v) hash_map \<Rightarrow> ('k, 'v) hash_map" where
  "entry_insert k v m =
     (if k \<in> fst ` set m then map (\<lambda>(k', v'). if k' = k then (k, v) else (k', v')) m else (k, v) # m)"

definition select_credential_for_referent_from_retrieved ::
  "SelectedCredentials \<Rightarrow> string \<Rightarrow> RetrievedCredentialForReferent \<Rightarrow> string option \<Rightarrow>
   SelectedCredentials" where
  "select_credential_for_referent_from_retrieved self referent retrieved with_tails_dir =
     entry_insert referent
       \<lparr>scr_cred_info = select_from_retrieved retrieved, scr_tails_dir = with_tails_dir\<rparr> self"

section \<open>Lemmas on validation\<close>

lemma unwrap_default_simps [simp]:
  "unwrap_default (Some x) d = x" "unwrap_default None d = d"
  by (simp_all add: unwrap_default_def)

lemma max_u64 [simp]: "\<not> (- 1 :: u64) < t"
  by (simp add: not_less word_n1_ge)

text \<open>The restrictions a query puts on single values; \<open>Exist\<close> compares with the empty text.\<close>

fun restriction_pairs :: "Query \<Rightarrow> (string \<times> string) set" where
  "restriction_pairs (And qs) = (\<Union>q \<in> set qs. restriction_pairs q)"
| "restriction_pairs (Or qs) = (\<Union>q \<in> set qs. restriction_pairs q)"
| "restriction_pairs (Not q) = restriction_pairs q"
| "restriction_pairs (In k vs) = Pair k ` set vs"
| "restriction_pairs (Exist ks) = (\<lambda>k. (k, [])) ` set ks"
| "restriction_pairs (Eq k v) = {(k, v)}"
| "restriction_pairs (Neq k v) = {(k, v)}"
| "restriction_pairs (Gt k v) = {(k, v)}"
| "restriction_pairs (Gte k v) = {(k, v)}"
| "restriction_pairs (Lt k v) = {(k, v)}"
| "restriction_pairs (Lte k v) = {(k, v)}"
| "restriction_pairs (Like k v) = {(k, v)}"

definition allowed_in :: "PresentationRequestVersion \<Rightarrow> string \<times> string \<Rightarrow> bool" where
  "allowed_in version kv \<longleftrightarrow>
     version = Pr_V2 \<or> fst kv \<notin> set QUALIFIABLE_TAGS \<or> \<not> URI_IDENTIFIER (snd kv)"

lemma check_restriction_Ok: "check_restriction k v version = Ok () \<longleftrightarrow> allowed_in version (k, v)"
  by (cases version) (auto simp: check_restriction_def allowed_in_def is_uri_identifier_def)

lemma try_map_unit_Ok:
  "(\<exists>us. try_map f xs = Ok (us :: unit list)) \<longleftrightarrow> (\<forall>x \<in> set xs. f x = Ok ())"
  by (induction xs) auto

lemma process_operator_Ok:
  "process_operator version q = Ok () \<longleftrightarrow> (\<forall>kv \<in> restriction_pairs q. allowed_in version kv)"
  "process_operators version qs = Ok () \<longleftrightarrow>
     (\<forall>q \<in> set qs. \<forall>kv \<in> restriction_pairs q. allowed_in version kv)"
  by (induction version q and version qs rule: process_operator_process_operators.induct)
    (auto simp: check_restriction_Ok try_map_unit_Ok)

lemma unit_result_Ok: "r = Ok u \<longleftrightarrow> r = Ok ()"
  by simp

section \<open>Properties\<close>

text \<open>
  \<open>compare_and_set\<close> computes the intersection: a timestamp is valid for the result exactly
  when it is valid for both intervals, open ends included.
\<close>

theorem compare_and_set_intersects:
  "interval_is_valid (compare_and_set a b) t = Ok () \<longleftrightarrow>
     interval_is_valid a t = Ok () \<and> interval_is_valid b t = Ok ()"
  by (auto simp: compare_and_set_def interval_is_valid_def Let_def not_less split: option.splits)

text \<open>
  Every identifier the legacy schema or credential definition pattern accepts is accepted
  by the URI pattern as well, so validation of these two types is the URI pattern; the legacy
  DID pattern of revocation registry ids accepts only what the URI pattern rejects.
\<close>

theorem identifier_validation:
  "(validate_schema_id s = Ok () \<longleftrightarrow> URI_IDENTIFIER s)
   \<and> (validate_cred_def_id s = Ok () \<longleftrightarrow> URI_IDENTIFIER s)
   \<and> \<not> (URI_IDENTIFIER s \<and> LEGACY_DID_IDENTIFIER s)"
  using legacy_schema_uri [of s] legacy_cred_def_uri [of s] legacy_did_not_uri [of s]
  by (auto simp: validate_schema_id_def validate_cred_def_id_def)

text \<open>
  A credential request that validates names exactly one source of entropy and \<open>entropy()\<close>
  returns it; without \<open>entropy\<close> it is a legacy DID for a legacy credential definition.
\<close>

theorem valid_request_has_entropy:
  assumes "validate_cred_request r = Ok ()"
  shows "(\<exists>e. cr_entropy r = Some e \<and> cr_prover_did r = None \<and> request_entropy r = Ok e)
    \<or> (\<exists>d. cr_entropy r = None \<and> cr_prover_did r = Some d \<and> request_entropy r = Ok d
         \<and> LEGACY_DID_IDENTIFIER d \<and> LEGACY_CRED_DEF_IDENTIFIER (cr_cred_def_id r))"
  using assms
  by (auto simp: validate_cred_request_def request_entropy_def split: option.splits if_splits)

theorem valid_request_has_entropy_witness:
  "let r = \<lparr>cr_entropy = Some ''e'', cr_prover_did = None, cr_cred_def_id = ''mock:uri'',
      cr_blinded_ms = JNull, cr_blinded_ms_correctness_proof = JNull, cr_nonce = ''1''\<rparr>
   in validate_cred_request r = Ok () \<and> request_entropy r = Ok ''e''"
proof -
  let ?r = "\<lparr>cr_entropy = Some ''e'', cr_prover_did = None, cr_cred_def_id = ''mock:uri'',
      cr_blinded_ms = JNull, cr_blinded_ms_correctness_proof = JNull, cr_nonce = ''1''\<rparr>"
  have v: "validate_cred_request ?r = Ok ()" by code_simp
  from valid_request_has_entropy [OF v] v show ?thesis by (simp add: Let_def)
qed

text \<open>
  When a presentation request validates: something is requested, every attribute has a
  name or names and not both, every predicate has a name, and no restriction anywhere in the
  nested queries of a first-version request compares an identifier tag with a URI.
\<close>

theorem validate_pres_request_iff:
  "validate_pres_request da dp req = Ok () \<longleftrightarrow>
     \<not> (prp_requested_attributes (pr_value req) = [] \<and> prp_requested_predicates (pr_value req) = [])
     \<and> list_all (\<lambda>(_, a). has_some (ai_name a) \<noteq> has_some (ai_names a)
         \<and> (case ai_restrictions a of None \<Rightarrow> True
            | Some q \<Rightarrow> restriction_pairs q \<subseteq> Collect (allowed_in (pr_version req))))
         (prp_requested_attributes (pr_value req))
     \<and> list_all (\<lambda>(_, p). pi_name p \<noteq> []
         \<and> (case pi_restrictions p of None \<Rightarrow> True
            | Some q \<Rightarrow> restriction_pairs q \<subseteq> Collect (allowed_in (pr_version req))))
         (prp_requested_predicates (pr_value req))"
proof -
  have attr: "validate_attribute da v a = Ok () \<longleftrightarrow> has_some (ai_name a) \<noteq> has_some (ai_names a)
      \<and> (case ai_restrictions a of None \<Rightarrow> True
         | Some q \<Rightarrow> restriction_pairs q \<subseteq> Collect (allowed_in v))" for v a
    by (auto simp: validate_attribute_def process_restrictions_def process_operator_Ok Let_def
        split: option.splits)
  have pred: "validate_predicate dp v p = Ok () \<longleftrightarrow> pi_name p \<noteq> []
      \<and> (case pi_restrictions p of None \<Rightarrow> True
         | Some q \<Rightarrow> restriction_pairs q \<subseteq> Collect (allowed_in v))" for v p
    by (auto simp: validate_predicate_def process_restrictions_def process_operator_Ok
        split: option.splits)
  show ?thesis
    by (auto simp: validate_pres_request_def Let_def list_all_iff try_map_unit_Ok attr pred)
qed

end
