(* ===== verification/Backends.thy ===== *)
theory Backends
  imports Messages Anoncreds_Types
begin

text \<open>
  What the protocol code calls and does not implement. The record \<open>ext\<close> collects functions of
  third-party crates: parsing and printing JSON, the derived (de)serialisers of the anoncreds
  objects, base64, SHA-256, the iteration order of a \<open>HashMap\<close> and \<open>Debug\<close> texts. The records
  \<open>ledger\<close> and \<open>anoncreds\<close> are the traits \<open>AnoncredsLedgerRead\<close> and \<open>BaseAnonCreds\<close>; an anoncreds
  operation that is given the wallet returns its new state as well. Every operation of the
  model that uses one of these takes it as an argument.
\<close>

record serde_error =
  se_display :: string
  se_debug :: string

type_synonym 'a serde = "(serde_error, 'a) result"

record ext =
  x_json_parse :: "string \<Rightarrow> json serde"
  x_json_print :: "json \<Rightarrow> string"
  x_json_pretty :: "json \<Rightarrow> string"
  x_vec_error :: "string \<Rightarrow> serde_error"
  x_hash_iter :: "(string \<times> json) list \<Rightarrow> (string \<times> json) list"
  x_b64_encode :: "string \<Rightarrow> string"
  x_b64_decode :: "string \<Rightarrow> string option"
  x_sha256 :: "string \<Rightarrow> string"
  x_debug_msg :: "AriesMessage \<Rightarrow> string"
  x_debug_attach :: "Attachment option \<Rightarrow> string"
  x_debug_json :: "json \<Rightarrow> string"
  x_debug_str :: "string \<Rightarrow> string"
  x_debug_opt_str :: "string option \<Rightarrow> string"

record codec =
  c_de_offer :: "string \<Rightarrow> CredentialOffer serde"
  c_ser_offer :: "CredentialOffer \<Rightarrow> string"
  c_de_request :: "string \<Rightarrow> CredentialRequest serde"
  c_ser_request :: "CredentialRequest \<Rightarrow> string"
  c_de_values :: "string \<Rightarrow> CredentialValues serde"
  c_de_credential :: "string \<Rightarrow> Credential serde"
  c_ser_credential :: "Credential \<Rightarrow> string"
  c_de_metadata :: "string \<Rightarrow> json serde"
  c_de_schema :: "string \<Rightarrow> json serde"
  c_de_cred_def :: "string \<Rightarrow> json serde"
  c_clone_cred_def :: "json \<Rightarrow> (string, json) result"
  c_de_cred_data :: "string \<Rightarrow> json serde"
  c_de_pres_request :: "string \<Rightarrow> PresentationRequest serde"
  c_ser_pres_request :: "PresentationRequest \<Rightarrow> string"
  c_de_presentation :: "string \<Rightarrow> Presentation serde"
  c_ser_presentation :: "Presentation \<Rightarrow> string"
  c_de_schemas :: "string \<Rightarrow> (string \<rightharpoonup> json) serde"
  c_de_cred_defs :: "string \<Rightarrow> (string \<rightharpoonup> json) serde"
  c_de_rev_reg_defs :: "string \<Rightarrow> (string \<rightharpoonup> json) option serde"
  c_de_rev_regs :: "string \<Rightarrow> (string \<rightharpoonup> (u64 \<rightharpoonup> json)) option serde"

type_synonym 'a ledger_res = "(VcxLedgerError, 'a) result"

record 'm ledger =
  lg_get_schema :: "SchemaId \<Rightarrow> string option \<Rightarrow> json ledger_res"
  lg_get_cred_def :: "CredentialDefinitionId \<Rightarrow> string option \<Rightarrow> json ledger_res"
  lg_get_rev_reg_def_json :: "RevocationRegistryDefinitionId \<Rightarrow> (json \<times> 'm) ledger_res"
  lg_get_rev_reg_delta_json ::
    "RevocationRegistryDefinitionId \<Rightarrow> u64 option \<Rightarrow> u64 option \<Rightarrow>
     (RevocationRegistryDelta \<times> u64) ledger_res"
  lg_get_rev_status_list ::
    "RevocationRegistryDefinitionId \<Rightarrow> u64 \<Rightarrow> 'm option \<Rightarrow> (json \<times> u64) ledger_res"
  lg_get_rev_reg :: "RevocationRegistryDefinitionId \<Rightarrow> u64 \<Rightarrow> (json \<times> u64) ledger_res"

type_synonym 'a anon_res = "(VcxAnoncredsError, 'a) result"

record 'w anoncreds =
  ac_verifier_verify_proof ::
    "PresentationRequest \<Rightarrow> Presentation \<Rightarrow> (string \<rightharpoonup> json) \<Rightarrow> (string \<rightharpoonup> json) \<Rightarrow>
     (string \<rightharpoonup> json) option \<Rightarrow> (string \<rightharpoonup> (u64 \<rightharpoonup> json)) option \<Rightarrow> bool anon_res"
  ac_issuer_create_and_store_revoc_reg ::
    "'w \<Rightarrow> string \<Rightarrow> CredentialDefinitionId \<Rightarrow> string \<Rightarrow> u32 \<Rightarrow> string \<Rightarrow>
     (RevocationRegistryDefinitionId \<times> json \<times> json) anon_res \<times> 'w"
  ac_issuer_create_and_store_credential_def ::
    "'w \<Rightarrow> string \<Rightarrow> SchemaId \<Rightarrow> json \<Rightarrow> json \<Rightarrow> json anon_res \<times> 'w"
  ac_issuer_create_credential_offer ::
    "'w \<Rightarrow> CredentialDefinitionId \<Rightarrow> CredentialOffer anon_res \<times> 'w"
  ac_issuer_create_credential ::
    "'w \<Rightarrow> CredentialOffer \<Rightarrow> CredentialRequest \<Rightarrow> CredentialValues \<Rightarrow>
     RevocationRegistryDefinitionId option \<Rightarrow> string option \<Rightarrow>
     (Credential \<times> u32 option) anon_res \<times> 'w"
  ac_prover_create_proof ::
    "'w \<Rightarrow> PresentationRequest \<Rightarrow> RequestedCredentials \<Rightarrow> string \<Rightarrow> (string \<rightharpoonup> json) \<Rightarrow>
     (string \<rightharpoonup> json) \<Rightarrow> (string \<rightharpoonup> (u64 \<rightharpoonup> json)) option \<Rightarrow> Presentation anon_res \<times> 'w"
  ac_prover_get_credential :: "'w \<Rightarrow> string \<Rightarrow> RetrievedCredentialInfo anon_res \<times> 'w"
  ac_prover_get_credentials ::
    "'w \<Rightarrow> string option \<Rightarrow> RetrievedCredentialInfo list anon_res \<times> 'w"
  ac_prover_get_credentials_for_proof_req ::
    "'w \<Rightarrow> PresentationRequest \<Rightarrow> RetrievedCredentials anon_res \<times> 'w"
  ac_prover_create_credential_req ::
    "'w \<Rightarrow> string \<Rightarrow> CredentialOffer \<Rightarrow> json \<Rightarrow> string \<Rightarrow> (CredentialRequest \<times> json) anon_res \<times> 'w"
  ac_create_revocation_state :: "string \<Rightarrow> json \<Rightarrow> json \<Rightarrow> u32 \<Rightarrow> json anon_res"
  ac_prover_store_credential ::
    "'w \<Rightarrow> json \<Rightarrow> Credential \<Rightarrow> json \<Rightarrow> json \<Rightarrow> json option \<Rightarrow> string anon_res \<times> 'w"
  ac_prover_delete_credential :: "'w \<Rightarrow> string \<Rightarrow> unit anon_res \<times> 'w"
  ac_prover_create_link_secret :: "'w \<Rightarrow> string \<Rightarrow> unit anon_res \<times> 'w"
  ac_issuer_create_schema :: "string \<Rightarrow> string \<Rightarrow> string \<Rightarrow> string list \<Rightarrow> json anon_res"
  ac_revoke_credential_local ::
    "'w \<Rightarrow> RevocationRegistryDefinitionId \<Rightarrow> u32 \<Rightarrow> RevocationRegistryDelta \<Rightarrow> unit anon_res \<times> 'w"
  ac_get_rev_reg_delta ::
    "'w \<Rightarrow> RevocationRegistryDefinitionId \<Rightarrow> RevocationRegistryDelta option anon_res \<times> 'w"
  ac_clear_rev_reg_delta :: "'w \<Rightarrow> RevocationRegistryDefinitionId \<Rightarrow> unit anon_res \<times> 'w"
  ac_generate_nonce :: "string anon_res"

section \<open>Calling them\<close>

text \<open>The \<open>?\<close> operator on a foreign error in a function that returns \<open>VcxResult\<close>.\<close>

definition from_serde :: "'a serde \<Rightarrow> 'a VcxResult" where
  "from_serde = map_err (\<lambda>_. from_serde_error)"

definition from_ledger :: "'a ledger_res \<Rightarrow> 'a VcxResult" where
  "from_ledger = map_err from_ledger_error"

definition from_anon :: "'a anon_res \<Rightarrow> 'a VcxResult" where
  "from_anon = map_err from_anoncreds_error"

text \<open>
  \<open>and_then\<close> for a result that comes with the state of the wallet: an error keeps the state the
  failed call left behind.
\<close>

fun and_thenw ::
  "('e, 'a) result \<times> 'w \<Rightarrow> ('a \<Rightarrow> 'w \<Rightarrow> ('e, 'b) result \<times> 'w) \<Rightarrow> ('e, 'b) result \<times> 'w" where
  "and_thenw (Ok x, w) f = f x w"
| "and_thenw (Err e, w) f = (Err e, w)"
| "and_thenw (Panic, w) f = (Panic, w)"

definition pure_w :: "('e, 'a) result \<Rightarrow> 'w \<Rightarrow> ('e, 'a) result \<times> 'w" where
  "pure_w r w = (r, w)"

definition anon_w :: "'a anon_res \<times> 'w \<Rightarrow> 'a VcxResult \<times> 'w" where
  "anon_w rw = (from_anon (fst rw), snd rw)"

lemma from_serde_simps [simp]:
  "from_serde (Ok x) = Ok x" "from_serde (Err e) = Err from_serde_error" "from_serde Panic = Panic"
  by (simp_all add: from_serde_def)

lemma from_ledger_simps [simp]:
  "from_ledger (Ok x) = Ok x" "from_ledger (Err l) = Err (from_ledger_error l)"
  "from_ledger Panic = Panic"
  by (simp_all add: from_ledger_def)

lemma from_anon_simps [simp]:
  "from_anon (Ok x) = Ok x" "from_anon (Err a) = Err (from_anoncreds_error a)"
  "from_anon Panic = Panic"
  by (simp_all add: from_anon_def)

lemma pure_w_simps [simp]: "fst (pure_w r w) = r" "snd (pure_w r w) = w"
  by (simp_all add: pure_w_def)

lemma anon_w_simps [simp]: "anon_w (r, w) = (from_anon r, w)"
  by (simp add: anon_w_def)

lemma and_thenw_pure [simp]: "and_thenw (pure_w r w) f =
    (case r of Ok x \<Rightarrow> f x w | Err e \<Rightarrow> (Err e, w) | Panic \<Rightarrow> (Panic, w))"
  by (cases r) (simp_all add: pure_w_def)

lemma and_thenw_Ok:
  "and_thenw rw f = (Ok y, w') \<longleftrightarrow> (\<exists>x w. rw = (Ok x, w) \<and> f x w = (Ok y, w'))"
  by (cases rw; cases "fst rw") auto

text \<open>
  What the proofs that two components understand each other rely on: the documented inverses.
\<close>

definition base64_inverse :: "ext \<Rightarrow> bool" where
  "base64_inverse E \<longleftrightarrow> (\<forall>s. x_b64_decode E (x_b64_encode E s) = Some s)"

definition json_inverse :: "ext \<Rightarrow> bool" where
  "json_inverse E \<longleftrightarrow> (\<forall>v. x_json_parse E (x_json_print E v) = Ok v)"

text \<open>
  A concrete instance, for evaluating the model: base64 and SHA-256 are replaced by the
  identity, texts are printed empty, and the JSON reader is given.
\<close>

definition sample_ext :: "(string \<Rightarrow> json serde) \<Rightarrow> ext" where
  "sample_ext parse = \<lparr>x_json_parse = parse, x_json_print = (\<lambda>_. []), x_json_pretty = (\<lambda>_. []),
     x_vec_error = (\<lambda>_. \<lparr>se_display = [], se_debug = []\<rparr>), x_hash_iter = rev,
     x_b64_encode = (\<lambda>s. s), x_b64_decode = Some, x_sha256 = (\<lambda>s. s),
     x_debug_msg = (\<lambda>_. []), x_debug_attach = (\<lambda>_. []), x_debug_json = (\<lambda>_. []),
     x_debug_str = (\<lambda>s. s), x_debug_opt_str = (\<lambda>_. [])\<rparr>"

lemma sample_base64 [simp]: "base64_inverse (sample_ext parse)"
  by (simp add: base64_inverse_def sample_ext_def)

text \<open>
  Objects that every reader of the instance returns whatever the text, and back ends that
  accept everything. The revocation index of the issued credential is 7.
\<close>

definition sample_offer :: CredentialOffer where
  "sample_offer = \<lparr>co_schema_id = ''s:1'', co_cred_def_id = ''c:1'', co_key_correctness_proof = JNull,
     co_nonce = ''1'', co_method_name = None\<rparr>"

definition sample_request :: CredentialRequest where
  "sample_request = \<lparr>cr_entropy = Some ''e'', cr_prover_did = None, cr_cred_def_id = ''c:1'',
     cr_blinded_ms = JNull, cr_blinded_ms_correctness_proof = JNull, cr_nonce = ''1''\<rparr>"

definition sample_credential :: Credential where
  "sample_credential = \<lparr>cd_schema_id = ''s:1'', cd_cred_def_id = ''c:1'', cd_rev_reg_id = Some ''r:1'',
     cd_values = [(''age'', \<lparr>av_raw = ''42'', av_encoded = ''42''\<rparr>)], cd_signature = JNull,
     cd_signature_correctness_proof = JNull, cd_rev_reg = Some JNull, cd_witness = Some JNull\<rparr>"

definition sample_pres_request :: PresentationRequest where
  "sample_pres_request = PresentationRequestV1 \<lparr>prp_nonce = ''1'', prp_name = ''r'', prp_version = ''1.0'',
     prp_requested_attributes = [(''a'', \<lparr>ai_name = Some ''age'', ai_names = None,
       ai_restrictions = None, ai_non_revoked = None, ai_self_attest_allowed = None\<rparr>)],
     prp_requested_predicates = [], prp_non_revoked = None\<rparr>"

definition sample_presentation :: Presentation where
  "sample_presentation = \<lparr>ps_proof = JNull, ps_requested_proof = JNull, ps_identifiers = []\<rparr>"

definition sample_codec :: codec where
  "sample_codec = \<lparr>c_de_offer = (\<lambda>_. Ok sample_offer), c_ser_offer = (\<lambda>_. ''offer''),
     c_de_request = (\<lambda>_. Ok sample_request), c_ser_request = (\<lambda>_. ''request''),
     c_de_values = (\<lambda>_. Ok (cd_values sample_credential)),
     c_de_credential = (\<lambda>_. Ok sample_credential), c_ser_credential = (\<lambda>_. ''credential''),
     c_de_metadata = (\<lambda>_. Ok JNull), c_de_schema = (\<lambda>_. Ok JNull), c_de_cred_def = (\<lambda>_. Ok JNull),
     c_clone_cred_def = Ok, c_de_cred_data = (\<lambda>_. Ok JNull),
     c_de_pres_request = (\<lambda>_. Ok sample_pres_request), c_ser_pres_request = (\<lambda>_. ''pres request''),
     c_de_presentation = (\<lambda>_. Ok sample_presentation), c_ser_presentation = (\<lambda>_. ''presentation''),
     c_de_schemas = (\<lambda>_. Ok Map.empty), c_de_cred_defs = (\<lambda>_. Ok Map.empty),
     c_de_rev_reg_defs = (\<lambda>_. Ok None), c_de_rev_regs = (\<lambda>_. Ok None)\<rparr>"

definition sample_ledger :: "unit ledger" where
  "sample_ledger = \<lparr>lg_get_schema = (\<lambda>_ _. Ok JNull), lg_get_cred_def = (\<lambda>_ _. Ok JNull),
     lg_get_rev_reg_def_json = (\<lambda>_. Ok (JNull, ())),
     lg_get_rev_reg_delta_json = (\<lambda>_ _ _. Ok (\<lparr>rrd_prev_accum = None, rrd_accum = JNull,
       rrd_issued = [], rrd_revoked = [7]\<rparr>, 0)),
     lg_get_rev_status_list = (\<lambda>_ t _. Ok (JNull, t)), lg_get_rev_reg = (\<lambda>_ t. Ok (JNull, t))\<rparr>"

definition sample_anoncreds :: "unit anoncreds" where
  "sample_anoncreds = \<lparr>ac_verifier_verify_proof = (\<lambda>_ _ _ _ _ _. Ok True),
     ac_issuer_create_and_store_revoc_reg = (\<lambda>w _ _ _ _ _. (Ok (''r:1'', JNull, JNull), w)),
     ac_issuer_create_and_store_credential_def = (\<lambda>w _ _ _ _. (Ok JNull, w)),
     ac_issuer_create_credential_offer = (\<lambda>w _. (Ok sample_offer, w)),
     ac_issuer_create_credential = (\<lambda>w _ _ _ _ _. (Ok (sample_credential, Some 7), w)),
     ac_prover_create_proof = (\<lambda>w _ _ _ _ _ _. (Ok sample_presentation, w)),
     ac_prover_get_credential = (\<lambda>w i. (Ok \<lparr>rci_referent = i, rci_attributes = [],
       rci_schema_id = ''s:1'', rci_cred_def_id = ''c:1'', rci_rev_reg_id = Some ''r:1'',
       rci_cred_rev_id = Some 7\<rparr>, w)),
     ac_prover_get_credentials = (\<lambda>w _. (Ok [], w)),
     ac_prover_get_credentials_for_proof_req = (\<lambda>w _. (Ok [], w)),
     ac_prover_create_credential_req = (\<lambda>w _ _ _ _. (Ok (sample_request, JNull), w)),
     ac_create_revocation_state = (\<lambda>_ _ _ _. Ok JNull),
     ac_prover_store_credential = (\<lambda>w _ _ _ _ _. (Ok ''cred-1'', w)),
     ac_prover_delete_credential = (\<lambda>w _. (Ok (), w)),
     ac_prover_create_link_secret = (\<lambda>w _. (Ok (), w)),
     ac_issuer_create_schema = (\<lambda>_ _ _ _. Ok JNull),
     ac_revoke_credential_local = (\<lambda>w _ _ _. (Ok (), w)),
     ac_get_rev_reg_delta = (\<lambda>w _. (Ok None, w)), ac_clear_rev_reg_delta = (\<lambda>w _. (Ok (), w)),
     ac_generate_nonce = Ok ''1''\<rparr>"

lemmas sample_defs = sample_ext_def sample_codec_def sample_ledger_def sample_anoncreds_def

end
