(* ===== verification/Util.thy ===== *)
theory Util
  imports Backends
begin

text \<open>
  The helpers every handler uses (\<open>aries_vcx/src/handlers/util.rs\<close> and
  \<open>aries_vcx/src/protocols/common.rs\<close>): matching a message against a thread, attachments, the
  outcome \<open>Status\<close> of a protocol and the problem report builder.
\<close>

section \<open>Threads\<close>

definition matches_thread_id :: "Thread \<Rightarrow> string \<Rightarrow> bool" where
  "matches_thread_id t i \<longleftrightarrow> thid t = i \<or> pthid t = Some i"

definition matches_opt_thread_id :: "Thread option \<Rightarrow> string \<Rightarrow> bool" where
  "matches_opt_thread_id ot i = (case ot of Some t \<Rightarrow> thid t = i \<or> pthid t = Some i | None \<Rightarrow> True)"

text \<open>The match of \<open>verify_thread_id\<close>, one equation per arm, grouped by the protocol.\<close>

fun ci1_matches :: "CredentialIssuanceV1 \<Rightarrow> string \<Rightarrow> bool" where
  "ci1_matches (CI1_Ack m) i = matches_thread_id (ak_thread (mp_decorators m)) i"
| "ci1_matches (CI1_IssueCredential m) i = matches_thread_id (pd_thread (mp_decorators m)) i"
| "ci1_matches (CI1_OfferCredential m) i = matches_opt_thread_id (od_thread (mp_decorators m)) i"
| "ci1_matches (CI1_ProposeCredential m) i = matches_opt_thread_id (od_thread (mp_decorators m)) i"
| "ci1_matches (CI1_RequestCredential m) i = matches_opt_thread_id (od_thread (mp_decorators m)) i"
| "ci1_matches (CI1_ProblemReport m) i = matches_opt_thread_id (prd_thread (mp_decorators m)) i"

fun ci2_matches :: "CredentialIssuanceV2 \<Rightarrow> string \<Rightarrow> bool" where
  "ci2_matches (CI2_Ack m) i = matches_thread_id (ak_thread (mp_decorators m)) i"
| "ci2_matches (CI2_IssueCredential m) i = matches_thread_id (pd_thread (mp_decorators m)) i"
| "ci2_matches (CI2_OfferCredential m) i = matches_opt_thread_id (od_thread (mp_decorators m)) i"
| "ci2_matches (CI2_ProposeCredential m) i = matches_opt_thread_id (od_thread (mp_decorators m)) i"
| "ci2_matches (CI2_RequestCredential m) i = matches_opt_thread_id (od_thread (mp_decorators m)) i"
| "ci2_matches (CI2_ProblemReport m) i = matches_opt_thread_id (prd_thread (mp_decorators m)) i"

fun pp1_matches :: "PresentProofV1 \<Rightarrow> string \<Rightarrow> bool" where
  "pp1_matches (PP1_Ack m) i = matches_thread_id (ak_thread (mp_decorators m)) i"
| "pp1_matches (PP1_Presentation m) i = matches_thread_id (pd_thread (mp_decorators m)) i"
| "pp1_matches (PP1_ProposePresentation m) i = matches_opt_thread_id (od_thread (mp_decorators m)) i"
| "pp1_matches (PP1_RequestPresentation m) i = matches_opt_thread_id (od_thread (mp_decorators m)) i"
| "pp1_matches (PP1_ProblemReport m) i = matches_opt_thread_id (prd_thread (mp_decorators m)) i"

fun pp2_matches :: "PresentProofV2 \<Rightarrow> string \<Rightarrow> bool" where
  "pp2_matches (PP2_Ack m) i = matches_thread_id (ak_thread (mp_decorators m)) i"
| "pp2_matches (PP2_Presentation m) i = matches_thread_id (pd_thread (mp_decorators m)) i"
| "pp2_matches (PP2_ProposePresentation m) i = matches_opt_thread_id (od_thread (mp_decorators m)) i"
| "pp2_matches (PP2_RequestPresentation m) i = matches_opt_thread_id (od_thread (mp_decorators m)) i"
| "pp2_matches (PP2_ProblemReport m) i = matches_opt_thread_id (prd_thread (mp_decorators m)) i"

fun de0_matches :: "DidExchangeV1_0 \<Rightarrow> string \<Rightarrow> bool" where
  "de0_matches (DE0_Request m) i = matches_opt_thread_id (od_thread (mp_decorators m)) i"
| "de0_matches (DE0_Response m) i = matches_thread_id (ak_thread (mp_decorators m)) i"
| "de0_matches (DE0_Complete m) i = matches_thread_id (ak_thread (mp_decorators m)) i"
| "de0_matches (DE0_ProblemReport m) i = matches_thread_id (cpd_thread (mp_decorators m)) i"

fun de1_matches :: "DidExchangeV1_1 \<Rightarrow> string \<Rightarrow> bool" where
  "de1_matches (DE1_Request m) i = matches_opt_thread_id (od_thread (mp_decorators m)) i"
| "de1_matches (DE1_Response m) i = matches_thread_id (ak_thread (mp_decorators m)) i"
| "de1_matches (DE1_Complete m) i = matches_thread_id (ak_thread (mp_decorators m)) i"
| "de1_matches (DE1_ProblemReport m) i = matches_thread_id (cpd_thread (mp_decorators m)) i"

fun is_match :: "AriesMessage \<Rightarrow> string \<Rightarrow> bool" where
  "is_match (BasicMessage m) i = matches_opt_thread_id (bmd_thread (mp_decorators m)) i"
| "is_match (Connection (Con_Invitation m)) i = (mp_id m = i)"
| "is_match (Connection (Con_ProblemReport m)) i = matches_thread_id (cpd_thread (mp_decorators m)) i"
| "is_match (Connection (Con_Request m)) i = matches_opt_thread_id (od_thread (mp_decorators m)) i"
| "is_match (Connection (Con_Response m)) i = matches_thread_id (pd_thread (mp_decorators m)) i"
| "is_match (CredentialIssuance (CI_V1 m)) i = ci1_matches m i"
| "is_match (CredentialIssuance (CI_V2 m)) i = ci2_matches m i"
| "is_match (DiscoverFeatures (DF_Query m)) i = (mp_id m = i)"
| "is_match (DiscoverFeatures (DF_Disclose m)) i = matches_thread_id (ak_thread (mp_decorators m)) i"
| "is_match (Notification (Not_Ack m)) i = matches_thread_id (ak_thread (mp_decorators m)) i"
| "is_match (Notification (Not_ProblemReport m)) i =
     matches_opt_thread_id (prd_thread (mp_decorators m)) i"
| "is_match (OutOfBand (OOB_Invitation m)) i = (mp_id m = i)"
| "is_match (OutOfBand (OOB_HandshakeReuse m)) i = matches_thread_id (ak_thread (mp_decorators m)) i"
| "is_match (OutOfBand (OOB_HandshakeReuseAccepted m)) i = matches_thread_id (ak_thread (mp_decorators m)) i"
| "is_match (PresentProof (PP_V1 m)) i = pp1_matches m i"
| "is_match (PresentProof (PP_V2 m)) i = pp2_matches m i"
| "is_match (ReportProblem m) i = matches_opt_thread_id (prd_thread (mp_decorators m)) i"
| "is_match (Revocation (Rev_Revoke m)) i = matches_opt_thread_id (rvd_thread (mp_decorators m)) i"
| "is_match (Revocation (Rev_Ack m)) i = matches_thread_id (ak_thread (mp_decorators m)) i"
| "is_match (Routing m) i = (mp_id m = i)"
| "is_match (TrustPing (TP_Ping m)) i = matches_opt_thread_id (od_thread (mp_decorators m)) i"
| "is_match (TrustPing (TP_PingResponse m)) i = matches_thread_id (ak_thread (mp_decorators m)) i"
| "is_match (Pickup (PU_Status m)) i = matches_opt_thread_id (tp_thread (mp_decorators m)) i"
| "is_match (Pickup (PU_StatusRequest m)) i = matches_opt_thread_id (tp_thread (mp_decorators m)) i"
| "is_match (Pickup (PU_Delivery m)) i = matches_opt_thread_id (tp_thread (mp_decorators m)) i"
| "is_match (Pickup (PU_DeliveryRequest m)) i = matches_opt_thread_id (tp_thread (mp_decorators m)) i"
| "is_match (Pickup (PU_MessagesReceived m)) i = matches_opt_thread_id (tp_thread (mp_decorators m)) i"
| "is_match (Pickup (PU_LiveDeliveryChange m)) i = matches_opt_thread_id (tp_thread (mp_decorators m)) i"
| "is_match (CoordinateMediation (CM_MediateRequest m)) i = (mp_id m = i)"
| "is_match (CoordinateMediation (CM_MediateDeny m)) i = matches_opt_thread_id (th_thread (mp_decorators m)) i"
| "is_match (CoordinateMediation (CM_MediateGrant m)) i = matches_opt_thread_id (th_thread (mp_decorators m)) i"
| "is_match (CoordinateMediation (CM_KeylistUpdate m)) i = (mp_id m = i)"
| "is_match (CoordinateMediation (CM_KeylistUpdateResponse m)) i =
     matches_opt_thread_id (th_thread (mp_decorators m)) i"
| "is_match (CoordinateMediation (CM_KeylistQuery m)) i = (mp_id m = i)"
| "is_match (CoordinateMediation (CM_Keylist m)) i = matches_opt_thread_id (th_thread (mp_decorators m)) i"
| "is_match (DidExchange (DE_V1_0 m)) i = de0_matches m i"
| "is_match (DidExchange (DE_V1_1 m)) i = de1_matches m i"

definition verify_thread_id :: "ext \<Rightarrow> string \<Rightarrow> AriesMessage \<Rightarrow> unit VcxResult" where
  "verify_thread_id E thread_id message =
     (if \<not> is_match message thread_id then
        vcx_err InvalidJson (''Cannot handle message '' @ x_debug_msg E message
          @ '': thread id does not match, expected '' @ x_debug_str E thread_id)
      else Ok ())"

section \<open>Attachments\<close>

definition get_attach_as_string :: "ext \<Rightarrow> Attachment list \<Rightarrow> string VcxResult" where
  "get_attach_as_string E attachments =
     (let first = (case attachments of [] \<Rightarrow> None | a # _ \<Rightarrow> Some a);
          err = vcx_err SerializationError
            (''Attachment is not base 64 encoded JSON: '' @ x_debug_attach E first)
      in case map_option (\<lambda>a. ad_content (att_data a)) first of
           Some (Base64 encoded_attach) \<Rightarrow>
             (case x_b64_decode E encoded_attach of
                Some bytes \<Rightarrow>
                  (case from_utf8 bytes of Some attach_string \<Rightarrow> Ok attach_string | None \<Rightarrow> err)
              | None \<Rightarrow> err)
         | _ \<Rightarrow> err)"

definition make_attach_from_str :: "ext \<Rightarrow> string \<Rightarrow> string \<Rightarrow> Attachment" where
  "make_attach_from_str E str_attach i =
     \<lparr>att_id = Some i, att_description = None, att_filename = None,
      att_mime_type = Some (Known Mime_Json), att_lastmod_time = None, att_byte_count = None,
      att_data = \<lparr>ad_jws = None, ad_sha256 = None, ad_content = Base64 (x_b64_encode E str_attach)\<rparr>\<rparr>"

datatype AttachmentId =
    Att_CredentialOffer | Att_CredentialRequest | Att_Credential | Att_PresentationRequest
  | Att_Presentation

fun AttachmentId_as_ref :: "AttachmentId \<Rightarrow> string" where
  "AttachmentId_as_ref Att_CredentialOffer = ''libindy-cred-offer-0''"
| "AttachmentId_as_ref Att_CredentialRequest = ''libindy-cred-request-0''"
| "AttachmentId_as_ref Att_Credential = ''libindy-cred-0''"
| "AttachmentId_as_ref Att_PresentationRequest = ''libindy-request-presentation-0''"
| "AttachmentId_as_ref Att_Presentation = ''libindy-presentation-0''"

section \<open>Outcomes and problem reports\<close>

datatype Status = Undefined | Success | Failed ProblemReport | Declined ProblemReport

fun status_code :: "Status \<Rightarrow> u32" where
  "status_code Undefined = 0"
| "status_code Success = 1"
| "status_code (Failed _) = 2"
| "status_code (Declined _) = 3"

record OfferInfo =
  oi_credential_json :: string
  oi_cred_def_id :: CredentialDefinitionId
  oi_rev_reg_id :: "string option"
  oi_tails_file :: "string option"

record PresentationProposalData =
  ppd_attributes :: "PresentationAttr list"
  ppd_predicates :: "Predicate list"
  ppd_comment :: "string option"

text \<open>\<open>global/settings.rs\<close>\<close>

definition DEFAULT_LINK_SECRET_ALIAS :: string where
  "DEFAULT_LINK_SECRET_ALIAS = ''main''"

definition build_problem_report_msg :: "string \<Rightarrow> string option \<Rightarrow> string \<Rightarrow> ProblemReport" where
  "build_problem_report_msg uuid comment thread_id =
     \<lparr>mp_id = uuid,
      mp_content =
        \<lparr>pr_description = \<lparr>description_translations = [],
           description_code = unwrap_default comment []\<rparr>,
         pr_problem_items = None, pr_who_retries = None, pr_fix_hint = None, pr_impact = None,
         pr_location = None, pr_noticed_time = None, pr_tracking_uri = None,
         pr_escalation_uri = None\<rparr>,
      mp_decorators =
        \<lparr>prd_thread = Some (new_thread thread_id), prd_timing = None,
         prd_description_locale = None, prd_fix_hint_locale = None\<rparr>\<rparr>"

section \<open>Lemmas\<close>

lemma verify_thread_id_Ok [simp]: "verify_thread_id E i m = Ok u \<longleftrightarrow> is_match m i"
  by (simp add: verify_thread_id_def)

lemma verify_thread_id_not_Panic [simp]: "verify_thread_id E i m \<noteq> Panic"
  by (simp add: verify_thread_id_def)

lemma verify_thread_id_match: "is_match m i \<Longrightarrow> verify_thread_id E i m = Ok ()"
  by simp

lemma matches_new_thread [simp]: "matches_thread_id (new_thread i) j \<longleftrightarrow> i = j"
  by (simp add: matches_thread_id_def)

lemma matches_opt_new_thread [simp]:
  "matches_opt_thread_id (Some (new_thread i)) j \<longleftrightarrow> i = j" "matches_opt_thread_id None j"
  by (simp_all add: matches_opt_thread_id_def)

lemma problem_report_matches [simp]:
  "is_match (ReportProblem (build_problem_report_msg u c i)) i"
  by (simp add: build_problem_report_msg_def)

lemma problem_report_thread [simp]:
  "prd_thread (mp_decorators (build_problem_report_msg u c i)) = Some (new_thread i)"
  by (simp add: build_problem_report_msg_def)

lemma problem_report_code [simp]:
  "description_code (pr_description (mp_content (build_problem_report_msg u c i)))
     = unwrap_default c []"
  by (simp add: build_problem_report_msg_def)

text \<open>An attachment the library made is read back, for text it can read at all (valid UTF-8).\<close>

lemma get_make_attach [simp]:
  assumes "base64_inverse E"
  shows "get_attach_as_string E (make_attach_from_str E s i # as) =
    (if utf8_valid s then Ok s
     else vcx_err SerializationError (''Attachment is not base 64 encoded JSON: ''
       @ x_debug_attach E (Some (make_attach_from_str E s i))))"
  using assms
  by (simp add: get_attach_as_string_def make_attach_from_str_def base64_inverse_def from_utf8_def)

lemma get_attach_not_Panic [simp]: "get_attach_as_string E as \<noteq> Panic"
  by (auto simp: get_attach_as_string_def Let_def split: option.splits AttachmentType.splits list.splits)

lemma get_attach_Err_kind:
  "get_attach_as_string E as = Err e \<Longrightarrow> err_kind e = SerializationError"
  by (auto simp: get_attach_as_string_def Let_def
      split: option.splits AttachmentType.splits list.splits)

end
