(* ===== verification/Encoding.thy ===== *)
theory Encoding
  imports Util "HOL-Library.Multiset"
begin

text \<open>
  Encoding of attribute values and the helpers of \<open>common/credentials\<close>: \<open>utils/openssl.rs\<close>,
  \<open>common/credentials/encoding.rs\<close>, \<open>common/credentials/mod.rs\<close>, \<open>protocols/issuance/mod.rs\<close> and the
  credential preview of \<open>handlers/issuance/issuer.rs\<close>.
\<close>

section \<open>Values\<close>

text \<open>\<open>BigUint::from_bytes_be(bytes).to_str_radix(10)\<close>.\<close>

definition from_bytes_be :: "string \<Rightarrow> nat" where
  "from_bytes_be = foldl (\<lambda>n c. n * 256 + of_char c) 0"

definition encode :: "ext \<Rightarrow> string \<Rightarrow> string VcxResult" where
  "encode E s = (case parse_u32 s of
     Ok val \<Rightarrow> Ok (show_u32 val)
   | _ \<Rightarrow> Ok (show_nat (from_bytes_be (x_sha256 E s))))"

section \<open>Attributes\<close>

text \<open>
  \<open>encode_attributes\<close>. Its input is read as an object first, then as an array. The entries of the
  first \<open>HashMap\<close> come in the order of its iteration, and so do those of the printed dictionary.
\<close>

definition raw_encoded :: "string \<Rightarrow> string \<Rightarrow> json" where
  "raw_encoded raw encoded = JObject [(''encoded'', JString encoded), (''raw'', JString raw)]"

definition first_attr :: "json \<Rightarrow> string VcxResult" where
  "first_attr attr_data = (case attr_data of
     JString s \<Rightarrow> Ok s
   | JArray array_type \<Rightarrow>
       (case array_type of
          JString x # _ \<Rightarrow> Ok x
        | _ \<Rightarrow> vcx_err InvalidAttributesStructure ''Attribute value not found'')
   | _ \<Rightarrow> vcx_err InvalidJson ''Invalid Json for Attribute data'')"

definition encode_member ::
  "ext \<Rightarrow> (string \<times> json) list \<Rightarrow> string \<times> json \<Rightarrow> (string \<times> json) list VcxResult" where
  "encode_member E dictionary kv =
     and_then (first_attr (snd kv)) (\<lambda>raw.
     and_then (encode E raw) (\<lambda>encoded.
       Ok (btree_insert (fst kv) (raw_encoded raw encoded) dictionary)))"

definition encode_entry ::
  "ext \<Rightarrow> (string \<times> json) list \<Rightarrow> json \<Rightarrow> (string \<times> json) list VcxResult" where
  "encode_entry E dictionary cred_value =
     and_then (ok_or (json_get cred_value ''name'') (from_msg InvalidAttributesStructure
       (''No 'name' field in cred_value: '' @ x_debug_json E cred_value))) (\<lambda>name.
     and_then (ok_or (json_get cred_value ''value'') (from_msg InvalidAttributesStructure
       (''No 'value' field in cred_value: '' @ x_debug_json E cred_value))) (\<lambda>value.
     and_then (ok_or (as_str value) (from_msg InvalidAttributesStructure
       (''Failed to convert value '' @ x_debug_json E value @ '' to string''))) (\<lambda>raw.
     and_then (encode E raw) (\<lambda>encoded.
     and_then (ok_or (as_str name) (from_msg InvalidAttributesStructure
       (''Failed to convert attribute name '' @ x_debug_json E cred_value @ '' to string''))) (\<lambda>name.
       Ok (btree_insert name (raw_encoded raw encoded) dictionary))))))"

definition encode_attributes :: "ext \<Rightarrow> string \<Rightarrow> string VcxResult" where
  "encode_attributes E attributes = (case x_json_parse E attributes of
     Ok (JObject m) \<Rightarrow>
       map_ok (\<lambda>d. x_json_pretty E (JObject (x_hash_iter E d)))
         (try_fold (encode_member E) [] (x_hash_iter E m))
   | Ok (JArray vs) \<Rightarrow>
       map_ok (\<lambda>d. x_json_pretty E (JObject (x_hash_iter E d)))
         (try_fold (encode_entry E) [] vs)
   | Panic \<Rightarrow> Panic
   | _ \<Rightarrow> vcx_err InvalidAttributesStructure
       (''Attribute value not found: '' @ se_debug (x_vec_error E attributes)))"

section \<open>The credential preview\<close>

definition plain_attr :: "string \<Rightarrow> string \<Rightarrow> CredentialAttr" where
  "plain_attr name val = \<lparr>attr_name = name, attr_value = val, attr_mime_type = Some Mime_Plain\<rparr>"

definition preview_entry :: "ext \<Rightarrow> json \<Rightarrow> CredentialAttr VcxResult" where
  "preview_entry E cred_value =
     and_then (ok_or (json_get cred_value ''name'') (from_msg InvalidAttributesStructure
       (''No 'name' field in cred_value: '' @ x_debug_json E cred_value))) (\<lambda>key.
     and_then (ok_or (json_get cred_value ''value'') (from_msg InvalidAttributesStructure
       (''No 'value' field in cred_value: '' @ x_debug_json E cred_value))) (\<lambda>value.
     and_then (ok_or (as_str key) (from_msg InvalidOption
       ''Credential value names are currently only allowed to be strings'')) (\<lambda>name.
     and_then (ok_or (as_str value) (from_msg InvalidOption
       ''Credential values are currently only allowed to be strings'')) (\<lambda>value.
       Ok (plain_attr name value)))))"

definition preview_member :: "string \<times> json \<Rightarrow> CredentialAttr VcxResult" where
  "preview_member kv =
     and_then (ok_or (as_str (snd kv)) (from_msg InvalidOption
       ''Credential values are currently only allowed to be strings'')) (\<lambda>value.
       Ok (plain_attr (fst kv) value))"

definition build_credential_preview :: "ext \<Rightarrow> string \<Rightarrow> CredentialPreviewV1 VcxResult" where
  "build_credential_preview E credential_json =
     and_then (map_err (\<lambda>err. from_msg InvalidJson
         (''Can't deserialize credential preview json. credential_json: '' @ credential_json
          @ '', error: '' @ se_debug err)) (x_json_parse E credential_json)) (\<lambda>cred_values.
     and_then (case cred_values of
         JArray vs \<Rightarrow> try_map (preview_entry E) vs
       | JObject m \<Rightarrow> try_map preview_member m
       | _ \<Rightarrow> Ok []) (\<lambda>attributes.
       Ok \<lparr>preview_attributes = attributes\<rparr>))"

section \<open>Revocation status\<close>

definition get_cred_rev_id :: "'w anoncreds \<Rightarrow> 'w \<Rightarrow> string \<Rightarrow> u32 VcxResult \<times> 'w" where
  "get_cred_rev_id A w cred_id =
     and_thenw (anon_w (ac_prover_get_credential A w cred_id)) (\<lambda>cred_json.
       pure_w (ok_or (rci_cred_rev_id cred_json) (from_msg InvalidRevocationDetails
         ''Credenial revocation id missing on credential - is this credential revokable?'')))"

text \<open>\<open>now\<close> is the current Unix time, cast to \<open>u64\<close>.\<close>

definition is_cred_revoked :: "'m ledger \<Rightarrow> u64 \<Rightarrow> string \<Rightarrow> u32 \<Rightarrow> bool VcxResult" where
  "is_cred_revoked L now rev_reg_id rev_id =
     and_then (vcx_rev_reg_def_id rev_reg_id) (\<lambda>rid.
     and_then (from_ledger (lg_get_rev_reg_delta_json L rid None (Some (now + 100)))) (\<lambda>(delta, _).
       Ok (list_ex (\<lambda>s. s = rev_id) (rrd_revoked delta))))"

definition is_cred_def_revokable :: "'m ledger \<Rightarrow> string \<Rightarrow> bool VcxResult" where
  "is_cred_def_revokable L cred_def_id =
     and_then (vcx_cred_def_id cred_def_id) (\<lambda>cid.
     and_then (map_err (\<lambda>err. from_msg InvalidLedgerResponse
         (''Failed to obtain credential definition from ledger or cache: '' @ show_ledger_error err))
       (lg_get_cred_def L cid None)) (\<lambda>parsed_cred_def.
       Ok (\<not> json_is_null (json_index (json_index parsed_cred_def ''value'') ''revocation''))))"

section \<open>Lemmas\<close>

lemma encode_u32: "parse_u32 s = Ok n \<Longrightarrow> encode E s = Ok (show_u32 n)"
  by (simp add: encode_def)

lemma encode_total: "\<exists>t. encode E s = Ok t"
  by (auto simp: encode_def split: result.splits)

definition encoded_value :: "ext \<Rightarrow> string \<Rightarrow> string" where
  "encoded_value E s = the_ok (encode E s)"

lemma encode_eq [simp]: "encode E s = Ok (encoded_value E s)"
  using encode_total [of E s] by (auto simp: encoded_value_def)

lemma encode_member_Ok:
  "encode_member E d kv = Ok d' \<longleftrightarrow> (\<exists>raw. first_attr (snd kv) = Ok raw
     \<and> d' = btree_insert (fst kv) (raw_encoded raw (encoded_value E raw)) d)"
  by (auto simp: encode_member_def)

text \<open>What the dictionary of \<open>encode_attributes\<close> holds for a name: the text and its encoding.\<close>

definition encoded_attr :: "ext \<Rightarrow> json \<Rightarrow> json option" where
  "encoded_attr E v =
     (case first_attr v of Ok raw \<Rightarrow> Some (raw_encoded raw (encoded_value E raw)) | _ \<Rightarrow> None)"

lemma encode_members_lookup:
  assumes "try_fold (encode_member E) d m = Ok d'" and "distinct (map fst m)"
  shows "map_of d' = (\<lambda>k. case map_of m k of Some v \<Rightarrow> encoded_attr E v | None \<Rightarrow> map_of d k)"
  using assms
proof (induction m arbitrary: d)
  case (Cons kv m)
  from Cons.prems(1) obtain raw where raw: "first_attr (snd kv) = Ok raw"
    and rest: "try_fold (encode_member E)
      (btree_insert (fst kv) (raw_encoded raw (encoded_value E raw)) d) m = Ok d'"
    by (auto simp: encode_member_Ok)
  have "map_of m (fst kv) = None" using Cons.prems(2) by (simp add: map_of_eq_None_iff)
  with Cons.IH [OF rest] Cons.prems(2) raw show ?case
    by (auto simp: fun_eq_iff encoded_attr_def split: option.splits)
qed auto

lemma encode_members_total:
  "list_all (\<lambda>kv. is_ok (first_attr (snd kv))) m \<Longrightarrow> \<exists>d'. try_fold (encode_member E) d m = Ok d'"
proof (induction m arbitrary: d)
  case (Cons kv m)
  then obtain raw where "first_attr (snd kv) = Ok raw" by (cases "first_attr (snd kv)") auto
  with Cons show ?case by (auto simp: encode_member_def)
qed simp

lemma encode_members_sorted:
  "try_fold (encode_member E) d m = Ok d' \<Longrightarrow> btree_ok d \<Longrightarrow> btree_ok d'"
  by (erule try_fold_invariant) (auto simp: encode_member_Ok btree_ok_insert)

lemma btree_ok_distinct: "btree_ok m \<Longrightarrow> distinct (map fst m)"
  unfolding btree_ok_def by (simp add: strict_sorted_iff)

subsection \<open>The preview and the encoded values\<close>

text \<open>The dictionary for a list of preview attributes.\<close>

definition encode_attr :: "ext \<Rightarrow> CredentialAttr \<Rightarrow> (string \<times> json) list \<Rightarrow> (string \<times> json) list" where
  "encode_attr E a = btree_insert (attr_name a)
     (raw_encoded (attr_value a) (encoded_value E (attr_value a)))"

lemma fold_encode_attr_dom:
  "dom (map_of (fold (encode_attr E) as d)) = dom (map_of d) \<union> attr_name ` set as"
  by (induction as arbitrary: d) (auto simp: encode_attr_def)

lemma fold_encode_attr_value:
  "map_of (fold (encode_attr E) as d) k = Some v \<Longrightarrow> map_of d k = Some v \<or>
     (\<exists>a \<in> set as. attr_name a = k \<and> v = raw_encoded (attr_value a) (encoded_value E (attr_value a)))"
  by (induction as arbitrary: d) (fastforce simp: encode_attr_def split: if_splits)+

lemma encode_entry_preview:
  "preview_entry E v = Ok a \<Longrightarrow> encode_entry E d v = Ok (encode_attr E a d)"
  by (auto simp: preview_entry_def encode_entry_def encode_attr_def plain_attr_def)

lemma encode_entries_preview:
  "try_map (preview_entry E) vs = Ok as \<Longrightarrow>
     try_fold (encode_entry E) d vs = Ok (fold (encode_attr E) as d)"
  by (induction vs arbitrary: as d) (auto simp: encode_entry_preview)

lemma as_str_Some: "as_str v = Some s \<longleftrightarrow> v = JString s"
  by (cases v) auto

lemma encode_member_preview:
  "preview_member kv = Ok a \<Longrightarrow> encode_member E d kv = Ok (encode_attr E a d)"
  by (auto simp: preview_member_def encode_member_def encode_attr_def plain_attr_def first_attr_def
      as_str_Some)

lemma encode_members_preview:
  "try_map preview_member m = Ok as \<Longrightarrow>
     try_fold (encode_member E) d m = Ok (fold (encode_attr E) as d)"
  by (induction m arbitrary: as d) (auto simp: encode_member_preview)

lemma try_map_set:
  "try_map f xs = Ok ys \<Longrightarrow> set ys = {y. \<exists>x \<in> set xs. f x = Ok y}"
  by (induction xs arbitrary: ys) auto

lemma try_map_permuted:
  assumes "try_map f xs = Ok ys" and "set xs' = set xs"
  shows "\<exists>ys'. try_map f xs' = Ok ys' \<and> set ys' = set ys"
proof -
  have "\<And>x. x \<in> set xs' \<Longrightarrow> f x = Ok (the_ok (f x))"
    using assms by (force simp: try_map_Ok_iff list_all2_conv_all_nth in_set_conv_nth)
  then have "try_map f xs' = Ok (map (the_ok \<circ> f) xs')" using try_map_total [of xs' f] by simp
  then show ?thesis using try_map_set [OF assms(1)] try_map_set assms(2) by blast
qed

section \<open>Properties\<close>

text \<open>
  C39. \<open>encode\<close> never fails and always yields a decimal number. Text that \<open>u32::from_str\<close> accepts is
  encoded by its canonical spelling, on which \<open>encode\<close> is the identity; any other text is
  encoded by the big-endian value of its SHA-256 digest.
\<close>

theorem encode_canonical:
  "\<exists>t. encode E s = Ok t \<and> t \<noteq> [] \<and> list_all (\<lambda>c. to_digit c \<noteq> None) t
    \<and> (case parse_u32 s of
         Ok n \<Rightarrow> t = show_u32 n \<and> encode E t = Ok t
       | _ \<Rightarrow> t = show_nat (from_bytes_be (x_sha256 E s)))"
proof -
  have digits: "list_all (\<lambda>c. to_digit c \<noteq> None) (show_nat n)" for n
    using show_nat_digits [of _ n] by (auto simp: list_all_iff)
  show ?thesis
  proof (cases "parse_u32 s")
    case (Ok n)
    then show ?thesis using digits [of "unat n"] parse_show_u32 [of n]
      by (simp add: encode_u32 show_u32_def [symmetric] del: encode_eq) (simp add: show_u32_def)
  qed (use digits in \<open>simp_all add: encode_def del: encode_eq\<close>)
qed

text \<open>
  For an attribute object whose values are strings (or arrays that start with one),
  \<open>encode_attributes\<close> succeeds, whatever order the hash map is iterated in, and prints a
  dictionary with exactly the given names, each with its text and the encoding of that text.
\<close>

theorem encode_attributes_object:
  assumes "x_json_parse E attributes = Ok (JObject m)" and "btree_ok m"
    and "mset (x_hash_iter E m) = mset m"
    and "list_all (\<lambda>kv. is_ok (first_attr (snd kv))) m"
  shows "\<exists>d. encode_attributes E attributes = Ok (x_json_pretty E (JObject (x_hash_iter E d)))
    \<and> btree_ok d \<and> map_of d = (\<lambda>k. Option.bind (map_of m k) (encoded_attr E))"
proof -
  let ?m = "x_hash_iter E m"
  have set: "set ?m = set m" using assms(3) by (rule mset_eq_setD)
  have dist: "distinct (map fst ?m)"
    using btree_ok_distinct [OF assms(2)] mset_eq_imp_distinct_iff [of "map fst ?m" "map fst m"]
    by (simp add: assms(3))
  from set assms(4) obtain d where d: "try_fold (encode_member E) [] ?m = Ok d"
    using encode_members_total [of ?m E "[]"] by (auto simp: list_all_iff)
  have "map_of ?m = map_of m"
    using map_of_inject_set [OF dist btree_ok_distinct [OF assms(2)]] set by simp
  with encode_members_lookup [OF d dist] encode_members_sorted [OF d]
  show ?thesis using d assms(1)
    by (intro exI [of _ d]) (auto simp: encode_attributes_def fun_eq_iff split: option.splits)
qed

theorem encode_attributes_object_witness:
  "let m = [(''age'', JString ''042''), (''name'', JArray [JString ''Al''])];
       E = sample_ext (\<lambda>_. Ok (JObject m))
   in \<exists>d. encode_attributes E ''x'' = Ok (x_json_pretty E (JObject (x_hash_iter E d)))
    \<and> btree_ok d \<and> map_of d = (\<lambda>k. Option.bind (map_of m k) (encoded_attr E))"
  unfolding Let_def
  by (rule encode_attributes_object) (simp_all add: sample_ext_def btree_ok_def first_attr_def)

text \<open>
  The offer and the credential agree: if the preview built from the credential data has
  attributes, then encoding the same data later succeeds, for exactly the previewed names, and
  every encoded entry carries the text and encoding of a previewed value.
\<close>

theorem preview_then_encode:
  assumes hash: "\<And>m. set (x_hash_iter E m) = set m"
    and preview: "build_credential_preview E j = Ok p" and some: "preview_attributes p \<noteq> []"
  shows "\<exists>d. encode_attributes E j = Ok (x_json_pretty E (JObject (x_hash_iter E d)))
    \<and> dom (map_of d) = attr_name ` set (preview_attributes p)
    \<and> (\<forall>k v. map_of d k = Some v \<longrightarrow> (\<exists>a \<in> set (preview_attributes p). attr_name a = k
         \<and> v = raw_encoded (attr_value a) (encoded_value E (attr_value a))))"
proof -
  from preview obtain v where v: "x_json_parse E j = Ok v" and
    attrs: "(case v of JArray vs \<Rightarrow> try_map (preview_entry E) vs
       | JObject m \<Rightarrow> try_map preview_member m | _ \<Rightarrow> Ok []) = Ok (preview_attributes p)"
    by (auto simp: build_credential_preview_def)
  have "\<exists>as. set as = set (preview_attributes p) \<and>
      encode_attributes E j = Ok (x_json_pretty E (JObject (x_hash_iter E (fold (encode_attr E) as []))))"
  proof (cases v)
    case (JArray vs)
    with attrs v show ?thesis using encode_entries_preview
      by (intro exI [of _ "preview_attributes p"]) (fastforce simp: encode_attributes_def)
  next
    case (JObject m)
    with attrs hash [of m] obtain as where "try_map preview_member (x_hash_iter E m) = Ok as"
      "set as = set (preview_attributes p)"
      using try_map_permuted [of preview_member m "preview_attributes p" "x_hash_iter E m"] by auto
    with JObject v show ?thesis using encode_members_preview
      by (intro exI [of _ as]) (fastforce simp: encode_attributes_def)
  qed (use attrs some in auto)
  then obtain as where as: "set as = set (preview_attributes p)"
    "encode_attributes E j = Ok (x_json_pretty E (JObject (x_hash_iter E (fold (encode_attr E) as []))))"
    by auto
  then show ?thesis
    using fold_encode_attr_dom [of E as "[]"] fold_encode_attr_value [of E as "[]"]
    by (intro exI [of _ "fold (encode_attr E) as []"]) auto
qed

theorem preview_then_encode_witness:
  "let E = sample_ext (\<lambda>_. Ok (JArray [JObject [(''name'', JString ''age''), (''value'', JString ''42'')]]))
   in \<exists>d. encode_attributes E ''x'' = Ok (x_json_pretty E (JObject (x_hash_iter E d)))
        \<and> dom (map_of d) = {''age''}"
proof -
  let ?E = "sample_ext (\<lambda>_. Ok (JArray [JObject [(''name'', JString ''age''), (''value'', JString ''42'')]]))"
  have b: "build_credential_preview ?E ''x'' = Ok \<lparr>preview_attributes = [plain_attr ''age'' ''42'']\<rparr>"
    by (simp add: build_credential_preview_def preview_entry_def sample_ext_def)
  have h: "\<And>m. set (x_hash_iter ?E m) = set m" by (simp add: sample_ext_def)
  from preview_then_encode [OF h b] show ?thesis by (auto simp: plain_attr_def Let_def)
qed

end
