(* ===== verification/Issuer_SM.thy ===== *)
theory Issuer_SM
  imports Encoding
begin

text \<open>
  The issuer of credentials: the state machine \<open>protocols/issuance/issuer/state_machine.rs\<close> with the
  states under \<open>states/\<close>, and the handler \<open>handlers/issuance/issuer.rs\<close>. A transition takes the
  machine by value and returns the new one; the handler replaces its machine only on success.
  Fresh identifiers (\<open>uuid\<close>) and the current time (\<open>now\<close>) are arguments.
\<close>

section \<open>States\<close>

record RevocationInfoV1 =
  ri_cred_rev_id :: "string option"
  ri_rev_reg_id :: "string option"
  ri_tails_file :: "string option"

record OfferSetState =
  os_offer :: OfferCredentialV1
  os_credential_json :: string
  os_cred_def_id :: CredentialDefinitionId
  os_rev_reg_id :: "string option"
  os_tails_file :: "string option"

record ProposalReceivedState =
  prs_credential_proposal :: ProposeCredentialV1
  prs_offer_info :: "OfferInfo option"

record RequestReceivedState =
  rrs_offer :: OfferCredentialV1
  rrs_cred_data :: string
  rrs_rev_reg_id :: "string option"
  rrs_tails_file :: "string option"
  rrs_request :: RequestCredentialV1

record CredentialSetState =
  css_revocation_info_v1 :: "RevocationInfoV1 option"
  css_msg_issue_credential :: IssueCredentialV1

record IssuerFinishedState =
  ifs_cred_id :: "string option"
  ifs_revocation_info_v1 :: "RevocationInfoV1 option"
  ifs_status :: Status

datatype IssuerFullState =
    I_Initial
  | I_OfferSet OfferSetState
  | I_ProposalReceived ProposalReceivedState
  | I_RequestReceived RequestReceivedState
  | I_CredentialSet CredentialSetState
  | I_Finished IssuerFinishedState

datatype IssuerState =
  Is_Initial | Is_OfferSet | Is_ProposalReceived | Is_RequestReceived | Is_CredentialSet
| Is_Finished | Is_Failed

record IssuerSM =
  is_source_id :: string
  is_thread_id :: string
  is_state :: IssuerFullState

fun show_IssuerFullState :: "IssuerFullState \<Rightarrow> string" where
  "show_IssuerFullState I_Initial = ''Initial''"
| "show_IssuerFullState (I_OfferSet _) = ''OfferSet''"
| "show_IssuerFullState (I_ProposalReceived _) = ''ProposalReceived''"
| "show_IssuerFullState (I_RequestReceived _) = ''RequestReceived''"
| "show_IssuerFullState (I_CredentialSet _) = ''CredentialSet''"
| "show_IssuerFullState (I_Finished _) = ''Finished''"

definition OfferSetState_new ::
  "OfferCredentialV1 \<Rightarrow> string \<Rightarrow> CredentialDefinitionId \<Rightarrow> string option \<Rightarrow> string option \<Rightarrow> OfferSetState" where
  "OfferSetState_new cred_offer_msg credential_json cred_def_id rev_reg_id tails_file =
     \<lparr>os_offer = cred_offer_msg, os_credential_json = credential_json, os_cred_def_id = cred_def_id,
      os_rev_reg_id = rev_reg_id, os_tails_file = tails_file\<rparr>"

definition from_offer_set_and_request :: "OfferSetState \<Rightarrow> RequestCredentialV1 \<Rightarrow> RequestReceivedState" where
  "from_offer_set_and_request state request =
     \<lparr>rrs_offer = os_offer state, rrs_cred_data = os_credential_json state,
      rrs_rev_reg_id = os_rev_reg_id state, rrs_tails_file = os_tails_file state,
      rrs_request = request\<rparr>"

definition from_offer_set_and_error :: "OfferSetState \<Rightarrow> ProblemReport \<Rightarrow> IssuerFinishedState" where
  "from_offer_set_and_error state err =
     \<lparr>ifs_cred_id = None,
      ifs_revocation_info_v1 = Some \<lparr>ri_cred_rev_id = None, ri_rev_reg_id = os_rev_reg_id state,
        ri_tails_file = os_tails_file state\<rparr>,
      ifs_status = Failed err\<rparr>"

definition from_request_and_error :: "RequestReceivedState \<Rightarrow> ProblemReport \<Rightarrow> IssuerFinishedState" where
  "from_request_and_error state err =
     \<lparr>ifs_cred_id = None,
      ifs_revocation_info_v1 = Some \<lparr>ri_cred_rev_id = None, ri_rev_reg_id = rrs_rev_reg_id state,
        ri_tails_file = rrs_tails_file state\<rparr>,
      ifs_status = Failed err\<rparr>"

definition from_credential_set_state :: "CredentialSetState \<Rightarrow> IssuerFinishedState" where
  "from_credential_set_state state =
     \<lparr>ifs_cred_id = None, ifs_revocation_info_v1 = css_revocation_info_v1 state,
      ifs_status = Success\<rparr>"

section \<open>Messages\<close>

definition build_credential_message ::
  "ext \<Rightarrow> codec \<Rightarrow> string \<Rightarrow> Credential \<Rightarrow> string \<Rightarrow> IssueCredentialV1" where
  "build_credential_message E C uuid libindy_credential thread_id =
     \<lparr>mp_id = uuid,
      mp_content = \<lparr>isc_comment = None,
        isc_credentials_attach = [make_attach_from_str E (c_ser_credential C libindy_credential)
          (AttachmentId_as_ref Att_Credential)]\<rparr>,
      mp_decorators = \<lparr>pd_thread = new_thread thread_id, pd_please_ack = Some \<lparr>ack_on = []\<rparr>,
        pd_timing = None\<rparr>\<rparr>"

definition build_credential_offer ::
  "ext \<Rightarrow> DateTime \<Rightarrow> string \<Rightarrow> string \<Rightarrow> CredentialPreviewV1 \<Rightarrow> string option \<Rightarrow> OfferCredentialV1 VcxResult" where
  "build_credential_offer E now thread_id credential_offer credential_preview comment =
     Ok \<lparr>mp_id = thread_id,
       mp_content = \<lparr>ofc_comment = comment, ofc_credential_preview = credential_preview,
         ofc_offers_attach = [make_attach_from_str E credential_offer
           (AttachmentId_as_ref Att_CredentialOffer)]\<rparr>,
       mp_decorators = \<lparr>od_thread = None, od_timing = Some (timing_out now)\<rparr>\<rparr>"

section \<open>Transitions\<close>

definition issuer_new :: "string \<Rightarrow> string \<Rightarrow> IssuerSM" where
  "issuer_new uuid source_id =
     \<lparr>is_source_id = source_id, is_thread_id = uuid, is_state = I_Initial\<rparr>"

definition issuer_from_proposal :: "string \<Rightarrow> ProposeCredentialV1 \<Rightarrow> IssuerSM" where
  "issuer_from_proposal source_id credential_proposal =
     \<lparr>is_source_id = source_id, is_thread_id = mp_id credential_proposal,
      is_state = I_ProposalReceived \<lparr>prs_credential_proposal = credential_proposal,
        prs_offer_info = None\<rparr>\<rparr>"

definition issuer_build_credential_offer_msg ::
  "ext \<Rightarrow> DateTime \<Rightarrow> IssuerSM \<Rightarrow> string \<Rightarrow> CredentialPreviewV1 \<Rightarrow> string option \<Rightarrow> OfferInfo \<Rightarrow> IssuerSM VcxResult" where
  "issuer_build_credential_offer_msg E now self credential_offer credential_preview comment offer_info =
     (let proceed =
        and_then (build_credential_offer E now (is_thread_id self) credential_offer
                    credential_preview comment) (\<lambda>cred_offer_msg.
          Ok (self\<lparr>is_state := I_OfferSet (OfferSetState_new cred_offer_msg
            (oi_credential_json offer_info) (oi_cred_def_id offer_info)
            (oi_rev_reg_id offer_info) (oi_tails_file offer_info))\<rparr>))
      in case is_state self of
           I_Initial \<Rightarrow> proceed
         | I_OfferSet _ \<Rightarrow> proceed
         | I_ProposalReceived _ \<Rightarrow> proceed
         | state \<Rightarrow> vcx_err InvalidState
             (''Can not set_offer in current state '' @ show_IssuerFullState state @ ''.''))"

definition issuer_receive_proposal :: "ext \<Rightarrow> IssuerSM \<Rightarrow> ProposeCredentialV1 \<Rightarrow> IssuerSM VcxResult" where
  "issuer_receive_proposal E self proposal =
     and_then (verify_thread_id E (is_thread_id self) (ci1_msg (CI1_ProposeCredential proposal))) (\<lambda>_.
       let received = I_ProposalReceived \<lparr>prs_credential_proposal = proposal, prs_offer_info = None\<rparr>
       in case is_state self of
            I_Initial \<Rightarrow> Ok (self\<lparr>is_state := received, is_thread_id := mp_id proposal\<rparr>)
          | I_OfferSet _ \<Rightarrow> Ok (self\<lparr>is_state := received\<rparr>)
          | _ \<Rightarrow> Ok self)"

definition issuer_receive_request :: "ext \<Rightarrow> IssuerSM \<Rightarrow> RequestCredentialV1 \<Rightarrow> IssuerSM VcxResult" where
  "issuer_receive_request E self request =
     and_then (verify_thread_id E (is_thread_id self) (ci1_msg (CI1_RequestCredential request))) (\<lambda>_.
       case is_state self of
         I_OfferSet state_data \<Rightarrow>
           Ok (self\<lparr>is_state := I_RequestReceived (from_offer_set_and_request state_data request)\<rparr>)
       | _ \<Rightarrow> Ok self)"

definition create_credential ::
  "ext \<Rightarrow> codec \<Rightarrow> 'w anoncreds \<Rightarrow> 'w \<Rightarrow> string \<Rightarrow> RequestCredentialV1 \<Rightarrow> string option \<Rightarrow>
   string option \<Rightarrow> OfferCredentialV1 \<Rightarrow> string \<Rightarrow> string \<Rightarrow>
   (IssueCredentialV1 \<times> u32 option) VcxResult \<times> 'w" where
  "create_credential E C A w uuid request rev_reg_id tails_file offer cred_data thread_id =
     and_thenw (pure_w (
       and_then (get_attach_as_string E (ofc_offers_attach (mp_content offer))) (\<lambda>offer.
       if \<not> matches_opt_thread_id (od_thread (mp_decorators request)) thread_id then
         vcx_err InvalidJson ''Cannot handle credential request: thread id does not match''
       else
       and_then (get_attach_as_string E (rqc_requests_attach (mp_content request))) (\<lambda>request.
       and_then (encode_attributes E cred_data) (\<lambda>cred_data.
       and_then (from_serde (c_de_offer C offer)) (\<lambda>offer.
       and_then (from_serde (c_de_request C request)) (\<lambda>request.
       and_then (from_serde (c_de_values C cred_data)) (\<lambda>values.
       and_then (transpose_opt (map_option vcx_rev_reg_def_id rev_reg_id)) (\<lambda>rev_reg_id.
         Ok (offer, request, values, rev_reg_id))))))))) w)
     (\<lambda>(offer, request, values, rev_reg_id) w.
     and_thenw (anon_w (ac_issuer_create_credential A w offer request values rev_reg_id tails_file))
     (\<lambda>(libindy_credential, cred_rev_id).
       pure_w (Ok (build_credential_message E C uuid libindy_credential thread_id, cred_rev_id))))"

definition issuer_build_credential ::
  "ext \<Rightarrow> codec \<Rightarrow> 'w anoncreds \<Rightarrow> 'w \<Rightarrow> string \<Rightarrow> IssuerSM \<Rightarrow> IssuerSM VcxResult \<times> 'w" where
  "issuer_build_credential E C A w uuid self = (case is_state self of
     I_RequestReceived state_data \<Rightarrow>
       (case create_credential E C A w uuid (rrs_request state_data) (rrs_rev_reg_id state_data)
               (rrs_tails_file state_data) (rrs_offer state_data) (rrs_cred_data state_data)
               (is_thread_id self) of
          (Ok (msg_issue_credential, cred_rev_id), w') \<Rightarrow>
            (Ok (self\<lparr>is_state := I_CredentialSet
               \<lparr>css_revocation_info_v1 = Some
                  \<lparr>ri_cred_rev_id = map_option show_u32 cred_rev_id,
                   ri_rev_reg_id = rrs_rev_reg_id state_data,
                   ri_tails_file = rrs_tails_file state_data\<rparr>,
                css_msg_issue_credential = msg_issue_credential\<rparr>\<rparr>), w')
        | (Err err, w') \<Rightarrow>
            (Ok (self\<lparr>is_state := I_Finished (from_request_and_error state_data
               (build_problem_report_msg uuid (Some (format_error err)) (is_thread_id self)))\<rparr>), w')
        | (Panic, w') \<Rightarrow> (Panic, w'))
   | _ \<Rightarrow> (vcx_err NotReady ''Invalid action'', w))"

definition issuer_receive_ack :: "ext \<Rightarrow> IssuerSM \<Rightarrow> Ack \<Rightarrow> IssuerSM VcxResult" where
  "issuer_receive_ack E self ack =
     and_then (verify_thread_id E (is_thread_id self) (ci1_msg (CI1_Ack ack))) (\<lambda>_.
       case is_state self of
         I_CredentialSet state_data \<Rightarrow>
           Ok (self\<lparr>is_state := I_Finished (from_credential_set_state state_data)\<rparr>)
       | _ \<Rightarrow> Ok self)"

definition issuer_receive_problem_report :: "ext \<Rightarrow> IssuerSM \<Rightarrow> ProblemReport \<Rightarrow> IssuerSM VcxResult" where
  "issuer_receive_problem_report E self problem_report =
     and_then (verify_thread_id E (is_thread_id self) (ReportProblem problem_report)) (\<lambda>_.
       case is_state self of
         I_OfferSet state_data \<Rightarrow>
           Ok (self\<lparr>is_state := I_Finished (from_offer_set_and_error state_data problem_report)\<rparr>)
       | I_CredentialSet state_data \<Rightarrow>
           Ok (self\<lparr>is_state := I_Finished (from_credential_set_state state_data)\<rparr>)
       | _ \<Rightarrow> Ok self)"

section \<open>Views\<close>

definition issuer_get_state :: "IssuerSM \<Rightarrow> IssuerState" where
  "issuer_get_state self = (case is_state self of
     I_Initial \<Rightarrow> Is_Initial
   | I_ProposalReceived _ \<Rightarrow> Is_ProposalReceived
   | I_OfferSet _ \<Rightarrow> Is_OfferSet
   | I_RequestReceived _ \<Rightarrow> Is_RequestReceived
   | I_CredentialSet _ \<Rightarrow> Is_CredentialSet
   | I_Finished f \<Rightarrow> (case ifs_status f of Success \<Rightarrow> Is_Finished | _ \<Rightarrow> Is_Failed))"

definition issuer_get_revocation_info :: "IssuerSM \<Rightarrow> RevocationInfoV1 option" where
  "issuer_get_revocation_info self = (case is_state self of
     I_CredentialSet state \<Rightarrow> css_revocation_info_v1 state
   | I_Finished state \<Rightarrow> ifs_revocation_info_v1 state
   | _ \<Rightarrow> None)"

definition parse_rev_id :: "string \<Rightarrow> u32 VcxResult" where
  "parse_rev_id s = map_err from_parse_int_error (parse_u32 s)"

definition issuer_get_rev_id :: "IssuerSM \<Rightarrow> u32 VcxResult" where
  "issuer_get_rev_id self =
     (let err = from_msg InvalidState ''No revocation info found - is this credential revokable?''
      in and_then (case is_state self of
           I_CredentialSet state \<Rightarrow>
             and_then (ok_or (css_revocation_info_v1 state) err) (\<lambda>i. Ok (ri_cred_rev_id i))
         | I_Finished state \<Rightarrow>
             and_then (ok_or (ifs_revocation_info_v1 state) err) (\<lambda>i. Ok (ri_cred_rev_id i))
         | _ \<Rightarrow> Ok None) (\<lambda>rev_id.
         and_then (ok_or rev_id (from_msg InvalidState ''Revocation info does not contain rev id''))
           parse_rev_id))"

definition issuer_get_rev_reg_id :: "IssuerSM \<Rightarrow> string VcxResult" where
  "issuer_get_rev_reg_id self =
     (let err = from_msg InvalidState ''No revocation info found - is this credential revokable?''
      in and_then (case is_state self of
           I_Initial \<Rightarrow> vcx_err InvalidState ''No revocation info available in the initial state''
         | I_OfferSet state \<Rightarrow> Ok (os_rev_reg_id state)
         | I_ProposalReceived state \<Rightarrow>
             Ok (case prs_offer_info state of Some i \<Rightarrow> oi_rev_reg_id i | None \<Rightarrow> None)
         | I_RequestReceived state \<Rightarrow> Ok (rrs_rev_reg_id state)
         | I_CredentialSet state \<Rightarrow>
             and_then (ok_or (css_revocation_info_v1 state) err) (\<lambda>i. Ok (ri_rev_reg_id i))
         | I_Finished state \<Rightarrow>
             and_then (ok_or (ifs_revocation_info_v1 state) err) (\<lambda>i. Ok (ri_rev_reg_id i)))
         (\<lambda>rev_registry. ok_or rev_registry (from_msg InvalidState
            ''No revocation registry id found on revocation info - is this credential revokable?'')))"

definition issuer_is_revokable :: "IssuerSM \<Rightarrow> bool" where
  "issuer_is_revokable self =
     (let rev_info_revokable = (\<lambda>rev_info :: RevocationInfoV1 option.
            case rev_info of Some i \<Rightarrow> ri_cred_rev_id i \<noteq> None | None \<Rightarrow> False)
      in case is_state self of
           I_CredentialSet state \<Rightarrow> rev_info_revokable (css_revocation_info_v1 state)
         | I_Finished state \<Rightarrow> rev_info_revokable (ifs_revocation_info_v1 state)
         | _ \<Rightarrow> False)"

definition issuer_is_revoked :: "'m ledger \<Rightarrow> u64 \<Rightarrow> IssuerSM \<Rightarrow> bool VcxResult" where
  "issuer_is_revoked L now self =
     (if issuer_is_revokable self then
        and_then (issuer_get_rev_reg_id self) (\<lambda>rev_reg_id.
        and_then (issuer_get_rev_id self) (\<lambda>rev_id.
          is_cred_revoked L now rev_reg_id rev_id))
      else vcx_err InvalidState ''Unable to check revocation status - this credential is not revokable'')"

definition issuer_get_proposal :: "IssuerSM \<Rightarrow> ProposeCredentialV1 VcxResult" where
  "issuer_get_proposal self = (case is_state self of
     I_ProposalReceived state \<Rightarrow> Ok (prs_credential_proposal state)
   | _ \<Rightarrow> vcx_err InvalidState ''Proposal is only available in ProposalReceived state'')"

definition issuer_get_credential_offer_msg :: "IssuerSM \<Rightarrow> OfferCredentialV1 VcxResult" where
  "issuer_get_credential_offer_msg self = (case is_state self of
     I_OfferSet state \<Rightarrow> Ok (os_offer state)
   | state \<Rightarrow> vcx_err InvalidState
       (''Can not get_credential_offer in current state '' @ show_IssuerFullState state @ ''.''))"

definition issuer_get_msg_issue_credential :: "DateTime \<Rightarrow> IssuerSM \<Rightarrow> IssueCredentialV1 VcxResult" where
  "issuer_get_msg_issue_credential now self = (case is_state self of
     I_CredentialSet state_data \<Rightarrow>
       (let m = css_msg_issue_credential state_data in
        Ok (m\<lparr>mp_decorators := (mp_decorators m)\<lparr>pd_timing := Some (timing_out now)\<rparr>\<rparr>))
   | _ \<Rightarrow> vcx_err NotReady ''Invalid action'')"

definition issuer_credential_status :: "IssuerSM \<Rightarrow> u32" where
  "issuer_credential_status self = (case is_state self of
     I_Finished state \<Rightarrow> status_code (ifs_status state)
   | _ \<Rightarrow> status_code Undefined)"

definition issuer_is_terminal_state :: "IssuerSM \<Rightarrow> bool" where
  "issuer_is_terminal_state self = (case is_state self of I_Finished _ \<Rightarrow> True | _ \<Rightarrow> False)"

definition issuer_get_problem_report :: "IssuerSM \<Rightarrow> ProblemReport VcxResult" where
  "issuer_get_problem_report self =
     (let err = vcx_err NotReady ''No problem report available in current state''
      in case is_state self of
           I_Finished state \<Rightarrow>
             (case ifs_status state of
                Failed problem_report \<Rightarrow> Ok problem_report
              | Declined problem_report \<Rightarrow> Ok problem_report
              | _ \<Rightarrow> err)
         | _ \<Rightarrow> err)"

section \<open>The handler\<close>

record Issuer =
  issuer_sm :: IssuerSM

text \<open>\<open>self.issuer_sm = self.issuer_sm.clone().op(...)?; Ok(())\<close>\<close>

definition assign_issuer :: "Issuer \<Rightarrow> IssuerSM VcxResult \<Rightarrow> unit VcxResult \<times> Issuer" where
  "assign_issuer self r = (map_ok (\<lambda>_. ()) r,
     case r of Ok sm \<Rightarrow> self\<lparr>issuer_sm := sm\<rparr> | _ \<Rightarrow> self)"

definition Issuer_create :: "string \<Rightarrow> string \<Rightarrow> Issuer VcxResult" where
  "Issuer_create uuid source_id = Ok \<lparr>issuer_sm = issuer_new uuid source_id\<rparr>"

definition Issuer_create_from_proposal :: "string \<Rightarrow> ProposeCredentialV1 \<Rightarrow> Issuer VcxResult" where
  "Issuer_create_from_proposal source_id proposal =
     Ok \<lparr>issuer_sm = issuer_from_proposal source_id proposal\<rparr>"

definition Issuer_build_credential_offer_msg ::
  "ext \<Rightarrow> codec \<Rightarrow> 'w anoncreds \<Rightarrow> 'w \<Rightarrow> DateTime \<Rightarrow> Issuer \<Rightarrow> OfferInfo \<Rightarrow> string option \<Rightarrow>
   (unit VcxResult \<times> Issuer) \<times> 'w" where
  "Issuer_build_credential_offer_msg E C A w now self offer_info comment =
     (case build_credential_preview E (oi_credential_json offer_info) of
        Ok credential_preview \<Rightarrow>
          (case anon_w (ac_issuer_create_credential_offer A w (oi_cred_def_id offer_info)) of
             (Ok libindy_cred_offer, w') \<Rightarrow>
               (assign_issuer self (issuer_build_credential_offer_msg E now (issuer_sm self)
                  (c_ser_offer C libindy_cred_offer) credential_preview comment offer_info), w')
           | (Err e, w') \<Rightarrow> ((Err e, self), w')
           | (Panic, w') \<Rightarrow> ((Panic, self), w'))
      | Err e \<Rightarrow> ((Err e, self), w)
      | Panic \<Rightarrow> ((Panic, self), w))"

definition Issuer_get_credential_offer_msg :: "Issuer \<Rightarrow> AriesMessage VcxResult" where
  "Issuer_get_credential_offer_msg self =
     and_then (issuer_get_credential_offer_msg (issuer_sm self)) (\<lambda>offer.
       Ok (ci1_msg (CI1_OfferCredential offer)))"

definition Issuer_build_credential ::
  "ext \<Rightarrow> codec \<Rightarrow> 'w anoncreds \<Rightarrow> 'w \<Rightarrow> string \<Rightarrow> Issuer \<Rightarrow> (unit VcxResult \<times> Issuer) \<times> 'w" where
  "Issuer_build_credential E C A w uuid self =
     (case issuer_build_credential E C A w uuid (issuer_sm self) of
        (r, w') \<Rightarrow> (assign_issuer self r, w'))"

definition Issuer_get_revocation_id :: "Issuer \<Rightarrow> u32 VcxResult" where
  "Issuer_get_revocation_id self =
     and_then (ok_or (issuer_get_revocation_info (issuer_sm self))
       (from_msg InvalidState ''Credential has not yet been created'')) (\<lambda>i.
     and_then (ok_or (ri_cred_rev_id i)
       (from_msg InvalidState ''Credential has not yet been created or is irrevocable'')) parse_rev_id)"

definition Issuer_revoke_credential_local ::
  "'w anoncreds \<Rightarrow> 'm ledger \<Rightarrow> 'w \<Rightarrow> Issuer \<Rightarrow> unit VcxResult \<times> 'w" where
  "Issuer_revoke_credential_local A L w self =
     and_thenw (pure_w (
       and_then (ok_or (issuer_get_revocation_info (issuer_sm self)) (from_msg InvalidState
         ''Credential is not revocable, no revocation info has been found.'')) (\<lambda>i.
         case (ri_cred_rev_id i, ri_rev_reg_id i, ri_tails_file i) of
           (Some cred_rev_id, Some rev_reg_id, Some _) \<Rightarrow>
             and_then (vcx_rev_reg_def_id rev_reg_id) (\<lambda>rid.
             and_then (from_ledger (lg_get_rev_reg_delta_json L rid None None)) (\<lambda>(delta, _).
             and_then (vcx_rev_reg_def_id rev_reg_id) (\<lambda>rid.
             and_then (parse_rev_id cred_rev_id) (\<lambda>n. Ok (rid, n, delta)))))
         | _ \<Rightarrow> vcx_err InvalidState ''Revocation info is not complete, cannot revoke credential.'')) w)
     (\<lambda>(rid, n, delta) w. anon_w (ac_revoke_credential_local A w rid n delta))"

definition Issuer_process_aries_msg :: "ext \<Rightarrow> Issuer \<Rightarrow> AriesMessage \<Rightarrow> unit VcxResult \<times> Issuer" where
  "Issuer_process_aries_msg E self msg = assign_issuer self (case msg of
     CredentialIssuance (CI_V1 (CI1_ProposeCredential proposal)) \<Rightarrow>
       issuer_receive_proposal E (issuer_sm self) proposal
   | CredentialIssuance (CI_V1 (CI1_RequestCredential request)) \<Rightarrow>
       issuer_receive_request E (issuer_sm self) request
   | CredentialIssuance (CI_V1 (CI1_Ack ack)) \<Rightarrow> issuer_receive_ack E (issuer_sm self) ack
   | ReportProblem report \<Rightarrow> issuer_receive_problem_report E (issuer_sm self) report
   | Notification (Not_ProblemReport report) \<Rightarrow>
       issuer_receive_problem_report E (issuer_sm self) (to_problem_report report)
   | CredentialIssuance (CI_V1 (CI1_ProblemReport report)) \<Rightarrow>
       issuer_receive_problem_report E (issuer_sm self) (to_problem_report report)
   | _ \<Rightarrow> Ok (issuer_sm self))"

section \<open>Runs\<close>

text \<open>One step is one successful call of a transition of the machine, with any input.\<close>

inductive issuer_step :: "ext \<Rightarrow> codec \<Rightarrow> 'w anoncreds \<Rightarrow> IssuerSM \<Rightarrow> IssuerSM \<Rightarrow> bool"
  for E :: ext and C :: codec and A :: "'w anoncreds" where
  offer: "issuer_build_credential_offer_msg E now s off prev com info = Ok t \<Longrightarrow> issuer_step E C A s t"
| proposal: "issuer_receive_proposal E s p = Ok t \<Longrightarrow> issuer_step E C A s t"
| request: "issuer_receive_request E s r = Ok t \<Longrightarrow> issuer_step E C A s t"
| credential: "issuer_build_credential E C A w uuid s = (Ok t, w') \<Longrightarrow> issuer_step E C A s t"
| ack: "issuer_receive_ack E s a = Ok t \<Longrightarrow> issuer_step E C A s t"
| report: "issuer_receive_problem_report E s pr = Ok t \<Longrightarrow> issuer_step E C A s t"

text \<open>The abstract protocol of RFC 0036 on the issuer's side.\<close>

definition issuer_edge :: "IssuerState \<Rightarrow> IssuerState \<Rightarrow> bool" where
  "issuer_edge p q \<longleftrightarrow> (p, q) \<in>
     {(Is_Initial, Is_OfferSet), (Is_Initial, Is_ProposalReceived),
      (Is_ProposalReceived, Is_OfferSet), (Is_OfferSet, Is_ProposalReceived),
      (Is_OfferSet, Is_RequestReceived), (Is_OfferSet, Is_Failed),
      (Is_RequestReceived, Is_CredentialSet), (Is_RequestReceived, Is_Failed),
      (Is_CredentialSet, Is_Finished)}"

definition issuer_terminal :: "IssuerState \<Rightarrow> bool" where
  "issuer_terminal p \<longleftrightarrow> p \<in> {Is_Finished, Is_Failed}"

definition issuer_open :: "IssuerState \<Rightarrow> bool" where
  "issuer_open p \<longleftrightarrow> p = Is_Initial"

lemmas issuer_finish =
  from_offer_set_and_error_def from_request_and_error_def from_credential_set_state_def

lemma issuer_phase [simp]:
  "issuer_get_state (s\<lparr>is_state := I_ProposalReceived x\<rparr>) = Is_ProposalReceived"
  "issuer_get_state (s\<lparr>is_thread_id := i, is_state := I_ProposalReceived x\<rparr>) = Is_ProposalReceived"
  "issuer_get_state (s\<lparr>is_state := I_OfferSet o'\<rparr>) = Is_OfferSet"
  "issuer_get_state (s\<lparr>is_state := I_RequestReceived r\<rparr>) = Is_RequestReceived"
  "issuer_get_state (s\<lparr>is_state := I_CredentialSet c\<rparr>) = Is_CredentialSet"
  "issuer_get_state (s\<lparr>is_state := I_Finished (from_offer_set_and_error os pr)\<rparr>) = Is_Failed"
  "issuer_get_state (s\<lparr>is_state := I_Finished (from_request_and_error rs pr)\<rparr>) = Is_Failed"
  "issuer_get_state (s\<lparr>is_state := I_Finished (from_credential_set_state cs)\<rparr>) = Is_Finished"
  by (simp_all add: issuer_get_state_def issuer_finish)

lemma issuer_phase_of:
  "is_state s = I_Initial \<Longrightarrow> issuer_get_state s = Is_Initial"
  "is_state s = I_OfferSet os \<Longrightarrow> issuer_get_state s = Is_OfferSet"
  "is_state s = I_ProposalReceived ps \<Longrightarrow> issuer_get_state s = Is_ProposalReceived"
  "is_state s = I_RequestReceived rs \<Longrightarrow> issuer_get_state s = Is_RequestReceived"
  "is_state s = I_CredentialSet cs \<Longrightarrow> issuer_get_state s = Is_CredentialSet"
  by (simp_all add: issuer_get_state_def)

text \<open>
  Every successful call is one of these moves. The rule carries the facts about runs: what
  holds of the moves holds of every operation.
\<close>

inductive issuer_move :: "ext \<Rightarrow> codec \<Rightarrow> 'w anoncreds \<Rightarrow> IssuerSM \<Rightarrow> IssuerSM \<Rightarrow> bool"
  for E :: ext and C :: codec and A :: "'w anoncreds" where
  stay: "issuer_move E C A s s"
| make_offer: "issuer_get_state s \<in> {Is_Initial, Is_OfferSet, Is_ProposalReceived} \<Longrightarrow>
    build_credential_offer E now (is_thread_id s) off prev com = Ok offer \<Longrightarrow>
    issuer_move E C A s (s\<lparr>is_state := I_OfferSet (OfferSetState_new offer json cdid rrid tails)\<rparr>)"
| open_thread: "is_state s = I_Initial \<Longrightarrow>
    issuer_move E C A s (s\<lparr>is_state := I_ProposalReceived
      \<lparr>prs_credential_proposal = p, prs_offer_info = None\<rparr>, is_thread_id := mp_id p\<rparr>)"
| new_proposal: "is_state s = I_OfferSet os \<Longrightarrow>
    is_match (ci1_msg (CI1_ProposeCredential p)) (is_thread_id s) \<Longrightarrow>
    issuer_move E C A s (s\<lparr>is_state := I_ProposalReceived
      \<lparr>prs_credential_proposal = p, prs_offer_info = None\<rparr>\<rparr>)"
| take_request: "is_state s = I_OfferSet os \<Longrightarrow>
    is_match (ci1_msg (CI1_RequestCredential r)) (is_thread_id s) \<Longrightarrow>
    issuer_move E C A s (s\<lparr>is_state := I_RequestReceived (from_offer_set_and_request os r)\<rparr>)"
| set_credential: "is_state s = I_RequestReceived rs \<Longrightarrow>
    create_credential E C A w uuid (rrs_request rs) (rrs_rev_reg_id rs) (rrs_tails_file rs)
      (rrs_offer rs) (rrs_cred_data rs) (is_thread_id s) = (Ok (msg, n), w') \<Longrightarrow>
    issuer_move E C A s (s\<lparr>is_state := I_CredentialSet
      \<lparr>css_revocation_info_v1 = Some \<lparr>ri_cred_rev_id = map_option show_u32 n,
         ri_rev_reg_id = rrs_rev_reg_id rs, ri_tails_file = rrs_tails_file rs\<rparr>,
       css_msg_issue_credential = msg\<rparr>\<rparr>)"
| fail_credential: "is_state s = I_RequestReceived rs \<Longrightarrow>
    issuer_move E C A s (s\<lparr>is_state := I_Finished (from_request_and_error rs
      (build_problem_report_msg uuid (Some (format_error err)) (is_thread_id s)))\<rparr>)"
| reject_offer: "is_state s = I_OfferSet os \<Longrightarrow> is_match (ReportProblem pr) (is_thread_id s) \<Longrightarrow>
    issuer_move E C A s (s\<lparr>is_state := I_Finished (from_offer_set_and_error os pr)\<rparr>)"
| finish: "is_state s = I_CredentialSet cs \<Longrightarrow>
    issuer_move E C A s (s\<lparr>is_state := I_Finished (from_credential_set_state cs)\<rparr>)"

lemma issuer_step_move: "issuer_step E C A s t \<Longrightarrow> issuer_move E C A s t"
proof (induction rule: issuer_step.induct)
  case (offer now s off prev com info t)
  then show ?case
    by (cases "is_state s")
      (auto simp: issuer_build_credential_offer_msg_def issuer_phase_of intro: issuer_move.make_offer)
next
  case (proposal s p t)
  then show ?case
    by (cases "is_state s")
      (auto simp: issuer_receive_proposal_def Let_def
        intro: issuer_move.stay issuer_move.open_thread issuer_move.new_proposal)
next
  case (request s r t)
  then show ?case
    by (cases "is_state s")
      (auto simp: issuer_receive_request_def intro: issuer_move.stay issuer_move.take_request)
next
  case (credential w uuid s t w')
  then show ?case
    by (cases "is_state s")
      (auto simp: issuer_build_credential_def split: prod.splits result.splits
        intro: issuer_move.set_credential issuer_move.fail_credential)
next
  case (ack s a t)
  then show ?case
    by (cases "is_state s")
      (auto simp: issuer_receive_ack_def intro: issuer_move.stay issuer_move.finish)
next
  case (report s pr t)
  then show ?case
    by (cases "is_state s")
      (auto simp: issuer_receive_problem_report_def
        intro: issuer_move.stay issuer_move.reject_offer issuer_move.finish)
qed

interpretation issuer: threaded_machine
  "issuer_step E C A" issuer_get_state issuer_edge issuer_terminal is_source_id is_thread_id
  issuer_open
proof
  fix s t
  assume "issuer_step E C A s t"
  then have move: "issuer_move E C A s t" by (rule issuer_step_move)
  show "issuer_get_state t = issuer_get_state s \<or> issuer_edge (issuer_get_state s) (issuer_get_state t)"
    using move by cases (auto simp: issuer_edge_def issuer_phase_of)
  show "issuer_terminal (issuer_get_state s) \<Longrightarrow> t = s"
    using move by cases (auto simp: issuer_terminal_def issuer_phase_of)
  show "is_source_id t = is_source_id s"
    using move by cases simp_all
  show "\<not> issuer_open (issuer_get_state s) \<Longrightarrow> is_thread_id t = is_thread_id s"
    using move by cases (simp_all add: issuer_open_def issuer_phase_of)
  show "issuer_open (issuer_get_state t) \<Longrightarrow> issuer_open (issuer_get_state s)"
    using move by cases (simp_all add: issuer_open_def issuer_phase_of)
qed

section \<open>The invariant\<close>

definition rev_info_ok :: "RevocationInfoV1 \<Rightarrow> bool" where
  "rev_info_ok i \<longleftrightarrow> (case ri_cred_rev_id i of None \<Rightarrow> True | Some t \<Rightarrow> (\<exists>n. t = show_u32 n))"

definition issuer_inv :: "IssuerSM \<Rightarrow> bool" where
  "issuer_inv s \<longleftrightarrow> (case is_state s of
     I_Initial \<Rightarrow> True
   | I_ProposalReceived ps \<Rightarrow> mp_id (prs_credential_proposal ps) = is_thread_id s
       \<or> is_match (ci1_msg (CI1_ProposeCredential (prs_credential_proposal ps))) (is_thread_id s)
   | I_OfferSet os \<Rightarrow> mp_id (os_offer os) = is_thread_id s
   | I_RequestReceived rs \<Rightarrow> mp_id (rrs_offer rs) = is_thread_id s
       \<and> is_match (ci1_msg (CI1_RequestCredential (rrs_request rs))) (is_thread_id s)
   | I_CredentialSet cs \<Rightarrow>
       is_match (ci1_msg (CI1_IssueCredential (css_msg_issue_credential cs))) (is_thread_id s)
       \<and> pd_please_ack (mp_decorators (css_msg_issue_credential cs)) \<noteq> None
       \<and> (\<exists>i. css_revocation_info_v1 cs = Some i \<and> rev_info_ok i)
   | I_Finished f \<Rightarrow>
       (\<exists>i. ifs_revocation_info_v1 f = Some i \<and> rev_info_ok i
          \<and> (ifs_status f = Success
             \<or> (\<exists>pr. ifs_status f = Failed pr \<and> is_match (ReportProblem pr) (is_thread_id s)
                  \<and> ri_cred_rev_id i = None))))"

lemma create_credential_Ok:
  assumes "create_credential E C A w uuid req rrid tails off data thread = (Ok (msg, n), w')"
  shows "\<exists>cred. msg = build_credential_message E C uuid cred thread"
  using assms
  by (auto simp: create_credential_def and_thenw_Ok pure_w_def anon_w_def split: prod.splits result.splits)

lemma create_credential_succeeds:
  assumes "get_attach_as_string E (ofc_offers_attach (mp_content off)) = Ok o_text"
    and "matches_opt_thread_id (od_thread (mp_decorators req)) thread"
    and "get_attach_as_string E (rqc_requests_attach (mp_content req)) = Ok r_text"
    and "encode_attributes E data = Ok v_text"
    and "c_de_offer C o_text = Ok o'" and "c_de_request C r_text = Ok r" and "c_de_values C v_text = Ok v"
    and "transpose_opt (map_option vcx_rev_reg_def_id rrid) = Ok rid"
    and "ac_issuer_create_credential A w o' r v rid tails = (Ok (cred, n), w')"
  shows "create_credential E C A w uuid req rrid tails off data thread
    = (Ok (build_credential_message E C uuid cred thread, n), w')"
  using assms by (simp add: create_credential_def) (simp add: pure_w_def)

lemma issuer_move_inv: "issuer_move E C A s t \<Longrightarrow> issuer_inv s \<Longrightarrow> issuer_inv t"
proof (induction rule: issuer_move.induct)
  case (make_offer s now off prev com offer json cdid rrid tails)
  then show ?case by (auto simp: issuer_inv_def build_credential_offer_def OfferSetState_new_def)
next
  case (take_request s os r)
  then show ?case by (auto simp: issuer_inv_def from_offer_set_and_request_def)
next
  case (set_credential s rs w uuid msg n w')
  from create_credential_Ok [OF set_credential.hyps(2)] show ?case
    by (auto simp: issuer_inv_def rev_info_ok_def build_credential_message_def split: option.splits)
qed (auto simp: issuer_inv_def rev_info_ok_def issuer_finish)

lemma issuer_steps_inv: "(issuer_step E C A)\<^sup>*\<^sup>* s t \<Longrightarrow> issuer_inv s \<Longrightarrow> issuer_inv t"
  by (induction rule: rtranclp_induct) (auto dest: issuer_step_move issuer_move_inv)

lemma issuer_start_inv: "issuer_inv (issuer_new uuid src)" "issuer_inv (issuer_from_proposal src p)"
  by (simp_all add: issuer_inv_def issuer_new_def issuer_from_proposal_def)

lemma parse_rev_id_show [simp]: "parse_rev_id (show_u32 n) = Ok n"
  by (simp add: parse_rev_id_def parse_show_u32)

lemmas rev_id_defs [vcx_views] = issuer_is_revokable_def issuer_get_rev_id_def Issuer_get_revocation_id_def
  issuer_get_revocation_info_def

lemma rev_id_views:
  assumes "issuer_inv t"
  shows "if issuer_is_revokable t
    then \<exists>n. issuer_get_rev_id t = Ok n \<and> Issuer_get_revocation_id \<lparr>issuer_sm = t\<rparr> = Ok n
      \<and> (\<exists>i. issuer_get_revocation_info t = Some i \<and> ri_cred_rev_id i = Some (show_u32 n))
    else (\<exists>e. issuer_get_rev_id t = Err e \<and> err_kind e = InvalidState)
      \<and> (\<exists>e. Issuer_get_revocation_id \<lparr>issuer_sm = t\<rparr> = Err e \<and> err_kind e = InvalidState)"
proof (cases "is_state t")
  case (I_CredentialSet cs)
  with assms obtain i where i: "css_revocation_info_v1 cs = Some i" "rev_info_ok i"
    by (auto simp: issuer_inv_def)
  with I_CredentialSet show ?thesis
    by (cases "ri_cred_rev_id i") (auto simp: rev_id_defs rev_info_ok_def)
next
  case (I_Finished f)
  with assms obtain i where i: "ifs_revocation_info_v1 f = Some i" "rev_info_ok i"
    by (auto simp: issuer_inv_def)
  with I_Finished show ?thesis
    by (cases "ri_cred_rev_id i") (auto simp: rev_id_defs rev_info_ok_def)
qed (simp_all add: rev_id_defs)

text \<open>The machines a client can hold.\<close>

definition issuer_reachable :: "ext \<Rightarrow> codec \<Rightarrow> 'w anoncreds \<Rightarrow> IssuerSM \<Rightarrow> bool" where
  "issuer_reachable E C A t \<longleftrightarrow>
     (\<exists>uuid src. (issuer_step E C A)\<^sup>*\<^sup>* (issuer_new uuid src) t)
     \<or> (\<exists>src p. (issuer_step E C A)\<^sup>*\<^sup>* (issuer_from_proposal src p) t)"

lemma issuer_reachable_inv: "issuer_reachable E C A t \<Longrightarrow> issuer_inv t"
  by (auto simp: issuer_reachable_def dest: issuer_steps_inv intro: issuer_start_inv)

lemma assign_issuer_cases:
  "assign_issuer self r = (case r of
     Ok sm \<Rightarrow> (Ok (), self\<lparr>issuer_sm := sm\<rparr>) | Err e \<Rightarrow> (Err e, self) | Panic \<Rightarrow> (Panic, self))"
  by (cases r) (simp_all add: assign_issuer_def)

text \<open>A concrete run up to the issued credential, on the sample back ends.\<close>

abbreviation sample_issue_ext :: ext where
  "sample_issue_ext \<equiv> sample_ext (\<lambda>_. Ok (JObject [(''age'', JString ''42'')]))"

definition sample_info :: OfferInfo where
  "sample_info = \<lparr>oi_credential_json = ''{}'', oi_cred_def_id = ''c:1'', oi_rev_reg_id = Some ''r:1'',
     oi_tails_file = Some ''tails''\<rparr>"

definition sample_credential_request :: RequestCredentialV1 where
  "sample_credential_request = \<lparr>mp_id = ''q'', mp_content = \<lparr>rqc_comment = None,
     rqc_requests_attach = [make_attach_from_str sample_issue_ext ''request'' ''0'']\<rparr>,
     mp_decorators = \<lparr>od_thread = Some (new_thread ''t''), od_timing = None\<rparr>\<rparr>"

definition sample_issuer_offered :: IssuerSM where
  "sample_issuer_offered = the_ok (issuer_build_credential_offer_msg sample_issue_ext 0
     (issuer_new ''t'' ''src'') ''offer'' \<lparr>preview_attributes = [plain_attr ''age'' ''42'']\<rparr> None sample_info)"

definition sample_issuer_requested :: IssuerSM where
  "sample_issuer_requested =
     the_ok (issuer_receive_request sample_issue_ext sample_issuer_offered sample_credential_request)"

definition sample_issuer_issued :: IssuerSM where
  "sample_issuer_issued = the_ok (fst (issuer_build_credential sample_issue_ext sample_codec
     sample_anoncreds () ''m'' sample_issuer_requested))"

lemmas sample_issuer_defs = sample_issuer_offered_def sample_issuer_requested_def
  sample_issuer_issued_def sample_info_def sample_credential_request_def issuer_new_def
  OfferSetState_new_def from_offer_set_and_request_def sample_defs

lemma sample_issuer_offered:
  "issuer_build_credential_offer_msg sample_issue_ext 0 (issuer_new ''t'' ''src'') ''offer''
     \<lparr>preview_attributes = [plain_attr ''age'' ''42'']\<rparr> None sample_info = Ok sample_issuer_offered"
  by (simp add: sample_issuer_offered_def issuer_build_credential_offer_msg_def issuer_new_def
      build_credential_offer_def)

lemma sample_issuer_requested:
  "issuer_receive_request sample_issue_ext sample_issuer_offered sample_credential_request
     = Ok sample_issuer_requested"
  by (simp add: sample_issuer_requested_def sample_issuer_offered_def issuer_receive_request_def
      issuer_build_credential_offer_msg_def issuer_new_def build_credential_offer_def
      sample_credential_request_def verify_thread_id_def)

lemma sample_rev_reg_id: "vcx_rev_reg_def_id ''r:1'' = Ok ''r:1''"
  by code_simp

lemma sample_encode: "encode_attributes sample_issue_ext ''{}'' = Ok []"
  by (simp add: encode_attributes_def sample_ext_def encode_member_def first_attr_def)

lemma sample_utf8 [simp]: "utf8_valid ''request''" "utf8_valid ''offer''" "utf8_valid ''credential''"
  by (rule utf8_valid_ascii, simp)+

lemma sample_create_credential:
  "create_credential sample_issue_ext sample_codec sample_anoncreds () ''m''
     sample_credential_request (Some ''r:1'') (Some ''tails'')
     (the_ok (build_credential_offer sample_issue_ext 0 ''t'' ''offer''
        \<lparr>preview_attributes = [plain_attr ''age'' ''42'']\<rparr> None)) ''{}'' ''t''
   = (Ok (build_credential_message sample_issue_ext sample_codec ''m'' sample_credential ''t'', Some 7), ())"
proof (rule create_credential_succeeds [where o' = sample_offer and r = sample_request
    and v = "cd_values sample_credential" and rid = "Some ''r:1''" and r_text = "''request''"
    and o_text = "''offer''" and v_text = "[]"])
  show "get_attach_as_string sample_issue_ext (ofc_offers_attach (mp_content
     (the_ok (build_credential_offer sample_issue_ext 0 ''t'' ''offer''
        \<lparr>preview_attributes = [plain_attr ''age'' ''42'']\<rparr> None)))) = Ok ''offer''"
    by (simp add: build_credential_offer_def)
  show "get_attach_as_string sample_issue_ext
     (rqc_requests_attach (mp_content sample_credential_request)) = Ok ''request''"
    "matches_opt_thread_id (od_thread (mp_decorators sample_credential_request)) ''t''"
    by (simp_all add: sample_credential_request_def)
  show "encode_attributes sample_issue_ext ''{}'' = Ok []" by (rule sample_encode)
qed (simp_all add: sample_codec_def sample_anoncreds_def sample_rev_reg_id)

lemma sample_issuer_requested_state:
  "sample_issuer_requested = \<lparr>is_source_id = ''src'', is_thread_id = ''t'',
     is_state = I_RequestReceived \<lparr>rrs_offer = the_ok (build_credential_offer sample_issue_ext 0 ''t''
         ''offer'' \<lparr>preview_attributes = [plain_attr ''age'' ''42'']\<rparr> None),
       rrs_cred_data = ''{}'', rrs_rev_reg_id = Some ''r:1'', rrs_tails_file = Some ''tails'',
       rrs_request = sample_credential_request\<rparr>\<rparr>"
  by (simp add: sample_issuer_requested_def sample_issuer_offered_def issuer_receive_request_def
      issuer_build_credential_offer_msg_def issuer_new_def build_credential_offer_def
      verify_thread_id_def OfferSetState_new_def from_offer_set_and_request_def sample_info_def)
    (simp add: sample_credential_request_def)

lemma sample_issuer_issued:
  "issuer_build_credential sample_issue_ext sample_codec sample_anoncreds () ''m'' sample_issuer_requested
     = (Ok sample_issuer_issued, ())"
  "issuer_get_state sample_issuer_issued = Is_CredentialSet"
  "issuer_get_revocation_info sample_issuer_issued = Some \<lparr>ri_cred_rev_id = Some (show_u32 7),
     ri_rev_reg_id = Some ''r:1'', ri_tails_file = Some ''tails''\<rparr>"
  by (simp_all add: sample_issuer_issued_def issuer_build_credential_def sample_issuer_requested_state
      sample_create_credential issuer_get_revocation_info_def)
    (simp add: issuer_get_state_def)

lemma sample_issuer_run:
  "(issuer_step sample_issue_ext sample_codec sample_anoncreds)\<^sup>*\<^sup>* (issuer_new ''t'' ''src'')
     sample_issuer_issued"
  using issuer_step.offer [where C = sample_codec and A = sample_anoncreds, OF sample_issuer_offered]
    issuer_step.request [where C = sample_codec and A = sample_anoncreds, OF sample_issuer_requested]
    issuer_step.credential [OF sample_issuer_issued(1)]
  by (meson rtranclp.rtrancl_into_rtrancl rtranclp.rtrancl_refl)

section \<open>Properties\<close>



text \<open>
  C24. What holds in every reachable state: a proposal opened the thread or was received on it, the
  offer carries the thread id as its message id, the accepted request and the produced credential
  message belong to the thread, the credential asks for an acknowledgement, and a finished machine
  either succeeded or holds a problem report of its thread and no revocation id.
\<close>

theorem issuer_invariant:
  assumes "issuer_reachable E C A t"
  shows "issuer_inv t"
  using assms by (rule issuer_reachable_inv)

theorem issuer_invariant_witness:
  "issuer_get_state sample_issuer_issued = Is_CredentialSet \<and> issuer_inv sample_issuer_issued"
proof
  have "issuer_reachable sample_issue_ext sample_codec sample_anoncreds sample_issuer_issued"
    using sample_issuer_run by (auto simp: issuer_reachable_def)
  then show "issuer_inv sample_issuer_issued" by (rule issuer_invariant)
qed (rule sample_issuer_issued(2))

text \<open>
  No credential without a request: a machine that started fresh and holds a credential, or
  has finished with success, went through a state with a request that belongs to its thread.
\<close>

theorem issuer_credential_needs_request:
  assumes run: "(issuer_step E C A)\<^sup>*\<^sup>* (issuer_new uuid src) t"
    and "issuer_get_state t \<in> {Is_CredentialSet, Is_Finished}"
  shows "\<exists>u rs. (issuer_step E C A)\<^sup>*\<^sup>* (issuer_new uuid src) u \<and> (issuer_step E C A)\<^sup>*\<^sup>* u t
    \<and> is_state u = I_RequestReceived rs \<and> is_thread_id u = is_thread_id t
    \<and> is_match (ci1_msg (CI1_RequestCredential (rrs_request rs))) (is_thread_id t)"
proof -
  have start: "issuer_get_state (issuer_new uuid src) \<notin> {Is_CredentialSet, Is_Finished}"
    by (simp add: issuer_get_state_def issuer_new_def)
  from issuer.steps_enter [OF run start assms(2)] obtain u v where
    uv: "(issuer_step E C A)\<^sup>*\<^sup>* (issuer_new uuid src) u" "issuer_step E C A u v"
      "(issuer_step E C A)\<^sup>*\<^sup>* v t" "issuer_get_state u \<notin> {Is_CredentialSet, Is_Finished}"
      "issuer_get_state v \<in> {Is_CredentialSet, Is_Finished}"
      "issuer_edge (issuer_get_state u) (issuer_get_state v)" .
  from uv(4,5,6) have "issuer_get_state u = Is_RequestReceived" by (auto simp: issuer_edge_def)
  then obtain rs where rs: "is_state u = I_RequestReceived rs"
    by (auto simp: issuer_get_state_def split: IssuerFullState.splits Status.splits)
  have ut: "(issuer_step E C A)\<^sup>*\<^sup>* u t" using uv(2,3) by (rule converse_rtranclp_into_rtranclp)
  have "is_thread_id t = is_thread_id u"
    using issuer.steps_thread [OF ut] rs by (simp add: issuer_open_def issuer_phase_of)
  moreover from issuer_steps_inv [OF uv(1) issuer_start_inv(1)] rs
  have "is_match (ci1_msg (CI1_RequestCredential (rrs_request rs))) (is_thread_id u)"
    by (simp add: issuer_inv_def)
  ultimately show ?thesis using uv(1) ut rs by auto
qed

theorem issuer_credential_needs_request_witness:
  "\<exists>u rs. (issuer_step sample_issue_ext sample_codec sample_anoncreds)\<^sup>*\<^sup>* u sample_issuer_issued
    \<and> is_state u = I_RequestReceived rs"
  using issuer_credential_needs_request [OF sample_issuer_run] sample_issuer_issued(2) by auto

text \<open>
  The revocation index survives its detour through text: on every reachable machine both
  accessors agree, they return an index exactly when the credential is revokable, and otherwise
  fail with \<open>InvalidState\<close>; the parse error is never seen.
\<close>

theorem issuer_revocation_id:
  assumes "issuer_reachable E C A t"
  shows "if issuer_is_revokable t
    then \<exists>n. issuer_get_rev_id t = Ok n \<and> Issuer_get_revocation_id \<lparr>issuer_sm = t\<rparr> = Ok n
      \<and> (\<exists>i. issuer_get_revocation_info t = Some i \<and> ri_cred_rev_id i = Some (show_u32 n))
    else (\<exists>e. issuer_get_rev_id t = Err e \<and> err_kind e = InvalidState)
      \<and> (\<exists>e. Issuer_get_revocation_id \<lparr>issuer_sm = t\<rparr> = Err e \<and> err_kind e = InvalidState)"
  by (rule rev_id_views) (rule issuer_reachable_inv [OF assms])

theorem issuer_revocation_id_witness:
  "issuer_get_rev_id sample_issuer_issued = Ok 7"
proof -
  have r: "issuer_reachable sample_issue_ext sample_codec sample_anoncreds sample_issuer_issued"
    using sample_issuer_run by (auto simp: issuer_reachable_def)
  have "issuer_is_revokable sample_issuer_issued"
    using sample_issuer_issued(3)
    by (auto simp: issuer_is_revokable_def issuer_get_revocation_info_def split: IssuerFullState.splits)
  with issuer_revocation_id [OF r] sample_issuer_issued(3) show ?thesis
    by (auto dest: u32_text.show_inject)
qed

text \<open>
  Building the credential, on a received request, never reports an error to the caller:
  whatever \<open>create_credential\<close> fails with becomes a problem report on the thread of the machine
  with the text of the error, and the machine is then failed; when it succeeds the machine
  holds the message and the index, as text, with the registry and tails file of the offer.
\<close>

theorem build_credential_outcome:
  assumes "is_state s = I_RequestReceived rs"
    and "create_credential E C A w uuid (rrs_request rs) (rrs_rev_reg_id rs) (rrs_tails_file rs)
      (rrs_offer rs) (rrs_cred_data rs) (is_thread_id s) = (r, w')" and "r \<noteq> Panic"
  shows "\<exists>t. issuer_build_credential E C A w uuid s = (Ok t, w')
    \<and> is_thread_id t = is_thread_id s
    \<and> (case r of
         Ok (msg, n) \<Rightarrow> issuer_get_state t = Is_CredentialSet
           \<and> (\<forall>now. map_ok mp_content (issuer_get_msg_issue_credential now t) = Ok (mp_content msg))
           \<and> issuer_get_revocation_info t = Some \<lparr>ri_cred_rev_id = map_option show_u32 n,
               ri_rev_reg_id = rrs_rev_reg_id rs, ri_tails_file = rrs_tails_file rs\<rparr>
       | Err e \<Rightarrow> issuer_get_state t = Is_Failed
           \<and> (\<exists>pr. issuer_get_problem_report t = Ok pr \<and> is_match (ReportProblem pr) (is_thread_id s)
                \<and> description_code (pr_description (mp_content pr)) = format_error e)
       | Panic \<Rightarrow> False)"
  using assms
  by (cases r)
    (auto simp: issuer_build_credential_def issuer_get_msg_issue_credential_def Let_def
      issuer_get_revocation_info_def issuer_get_problem_report_def issuer_finish issuer_get_state_def)

theorem build_credential_outcome_witness:
  "\<exists>t. issuer_build_credential sample_issue_ext sample_codec sample_anoncreds () ''m'' sample_issuer_requested
     = (Ok t, ()) \<and> issuer_get_state t = Is_CredentialSet"
proof -
  let ?rs = "\<lparr>rrs_offer = the_ok (build_credential_offer sample_issue_ext 0 ''t''
         ''offer'' \<lparr>preview_attributes = [plain_attr ''age'' ''42'']\<rparr> None),
       rrs_cred_data = ''{}'', rrs_rev_reg_id = Some ''r:1'', rrs_tails_file = Some ''tails'',
       rrs_request = sample_credential_request\<rparr>"
  have s: "is_state sample_issuer_requested = I_RequestReceived ?rs"
    "is_thread_id sample_issuer_requested = ''t''"
    by (simp_all add: sample_issuer_requested_state)
  show ?thesis
    using build_credential_outcome [OF s(1)] sample_create_credential s(2) by force
qed

text \<open>
  Messages of another thread have no effect: the handler is unchanged by every message that
  does not match its thread, and every change it makes on a message is a step of the machine.
\<close>

theorem issuer_process_message:
  assumes "Issuer_process_aries_msg E self msg = (r, self')"
  shows "(is_match msg (is_thread_id (issuer_sm self)) \<or> self' = self)
    \<and> (self' = self \<or> r = Ok () \<and> issuer_step E C A (issuer_sm self) (issuer_sm self'))"
proof
  show "is_match msg (is_thread_id (issuer_sm self)) \<or> self' = self"
    using assms
    by (auto simp: Issuer_process_aries_msg_def assign_issuer_cases issuer_receive_proposal_def
        issuer_receive_request_def issuer_receive_ack_def issuer_receive_problem_report_def
        verify_thread_id_def
        split: AriesMessage.splits CredentialIssuance.splits CredentialIssuanceV1.splits
          Notification.splits result.splits if_splits)
  show "self' = self \<or> r = Ok () \<and> issuer_step E C A (issuer_sm self) (issuer_sm self')"
    using assms
    by (auto simp: Issuer_process_aries_msg_def assign_issuer_cases
        split: AriesMessage.splits CredentialIssuance.splits CredentialIssuanceV1.splits
          Notification.splits result.splits
        intro: issuer_step.intros)
qed

theorem issuer_process_message_witness:
  "Issuer_process_aries_msg sample_issue_ext \<lparr>issuer_sm = sample_issuer_offered\<rparr>
     (ReportProblem (build_problem_report_msg ''u'' None ''other''))
   = (vcx_err InvalidJson ''Cannot handle message : thread id does not match, expected t'',
      \<lparr>issuer_sm = sample_issuer_offered\<rparr>)"
proof -
  let ?i = "\<lparr>issuer_sm = sample_issuer_offered\<rparr>"
    and ?m = "ReportProblem (build_problem_report_msg ''u'' None ''other'')"
  have t: "is_thread_id sample_issuer_offered = ''t''"
    by (simp add: sample_issuer_offered_def issuer_build_credential_offer_msg_def issuer_new_def
        build_credential_offer_def)
  have "snd (Issuer_process_aries_msg sample_issue_ext ?i ?m) = ?i"
    using issuer_process_message [OF surjective_pairing [of "Issuer_process_aries_msg sample_issue_ext ?i ?m"],
        of sample_codec sample_anoncreds] t by simp
  moreover have "fst (Issuer_process_aries_msg sample_issue_ext ?i ?m)
      = vcx_err InvalidJson ''Cannot handle message : thread id does not match, expected t''"
    by (simp add: Issuer_process_aries_msg_def assign_issuer_def issuer_receive_problem_report_def
        verify_thread_id_def t sample_ext_def)
  ultimately show ?thesis by (metis prod.collapse)
qed

text \<open>
  A problem report that arrives after the credential was produced finishes the machine like
  an acknowledgement: the outcome is success and the report is not kept.
\<close>

theorem issuer_report_after_credential:
  assumes "is_state s = I_CredentialSet cs" and "is_match (ReportProblem pr) (is_thread_id s)"
  shows "\<exists>t. issuer_receive_problem_report E s pr = Ok t \<and> issuer_get_state t = Is_Finished
    \<and> issuer_credential_status t = 1 \<and> (\<exists>e. issuer_get_problem_report t = Err e \<and> err_kind e = NotReady)"
  using assms
  by (simp add: issuer_receive_problem_report_def verify_thread_id_def issuer_credential_status_def
      issuer_get_problem_report_def from_credential_set_state_def issuer_get_state_def)

theorem issuer_report_after_credential_witness:
  "\<exists>t. issuer_receive_problem_report sample_issue_ext sample_issuer_issued
      (build_problem_report_msg ''u'' (Some ''no'') ''t'') = Ok t \<and> issuer_get_state t = Is_Finished"
proof -
  obtain cs where "is_state sample_issuer_issued = I_CredentialSet cs"
    using sample_issuer_issued(2)
    by (auto simp: issuer_get_state_def split: IssuerFullState.splits Status.splits)
  moreover have "is_thread_id sample_issuer_issued = ''t''"
    by (simp add: sample_issuer_issued_def issuer_build_credential_def sample_issuer_requested_state
        sample_create_credential)
  ultimately show ?thesis using issuer_report_after_credential by force
qed

end
