(* ===== verification/Revocation_Notification.thy ===== *)
theory Revocation_Notification
  imports Issuer_SM
begin

text \<open>
  Revocation notification 2.0: the sender and the receiver machines under
  \<open>protocols/revocation_notification\<close> and their handlers under \<open>handlers/revocation_notification\<close>. A
  \<open>SendClosure\<close> is a function on the state of the transport, which it may change even when it
  fails.
\<close>

type_synonym 'n SendClosure = "AriesMessage \<Rightarrow> 'n \<Rightarrow> unit VcxResult \<times> 'n"

text \<open>The thread id of a notification: that of its decorator, or the id of the message.\<close>

definition revoke_thread_id :: "Revoke \<Rightarrow> string" where
  "revoke_thread_id m = (case rvd_thread (mp_decorators m) of Some t \<Rightarrow> thid t | None \<Rightarrow> mp_id m)"

text \<open>\<open>please_ack.as_ref().map(|d| d.on.is_empty()).unwrap_or(false)\<close>\<close>

definition ack_on_empty :: "Revoke \<Rightarrow> bool" where
  "ack_on_empty m = (case rvd_please_ack (mp_decorators m) of Some d \<Rightarrow> ack_on d = [] | None \<Rightarrow> False)"

definition ack_on_contains :: "AckOn \<Rightarrow> Revoke \<Rightarrow> bool" where
  "ack_on_contains x m =
     (case rvd_please_ack (mp_decorators m) of Some d \<Rightarrow> x \<in> set (ack_on d) | None \<Rightarrow> False)"

section \<open>The sender\<close>

datatype SenderFullState =
    Snd_Initial
  | Snd_NotificationSent Revoke
  | Snd_Finished Revoke "Ack option"

record SenderConfig =
  scf_rev_reg_id :: string
  scf_cred_rev_id :: u32
  scf_comment :: "string option"
  scf_ack_on :: "AckOn list"

type_synonym SenderSM = SenderFullState

definition sender_create :: SenderSM where
  "sender_create = Snd_Initial"

definition sender_get_notification :: "SenderSM \<Rightarrow> Revoke VcxResult" where
  "sender_get_notification self = (case self of
     Snd_NotificationSent m \<Rightarrow> Ok m
   | Snd_Finished m _ \<Rightarrow> Ok m
   | _ \<Rightarrow> vcx_err InvalidState ''Revocation notification not yet known in this state'')"

definition sender_get_thread_id :: "SenderSM \<Rightarrow> string VcxResult" where
  "sender_get_thread_id self = (case self of
     Snd_NotificationSent m \<Rightarrow> Ok (revoke_thread_id m)
   | Snd_Finished m _ \<Rightarrow> Ok (revoke_thread_id m)
   | _ \<Rightarrow> vcx_err InvalidState ''Thread ID not yet known in this state'')"

definition build_revoke :: "string \<Rightarrow> SenderConfig \<Rightarrow> Revoke" where
  "build_revoke uuid config =
     \<lparr>mp_id = uuid,
      mp_content = \<lparr>
        rvc_credential_id = scf_rev_reg_id config @ ''::'' @ show_u32 (scf_cred_rev_id config),
        rvc_revocation_format = Known IndyAnoncreds, rvc_comment = scf_comment config\<rparr>,
      mp_decorators = \<lparr>rvd_please_ack = Some \<lparr>ack_on = scf_ack_on config\<rparr>, rvd_timing = None,
        rvd_thread = None\<rparr>\<rparr>"

definition sender_send ::
  "'n SendClosure \<Rightarrow> 'n \<Rightarrow> string \<Rightarrow> SenderSM \<Rightarrow> SenderConfig \<Rightarrow> SenderSM VcxResult \<times> 'n" where
  "sender_send send n uuid self config =
     (let proceed =
        (let rev_msg = build_revoke uuid config in
         and_thenw (send (Revocation (Rev_Revoke rev_msg)) n) (\<lambda>_ n.
           let is_finished = \<not> ack_on_empty rev_msg in
           pure_w (Ok (if is_finished then Snd_Finished rev_msg None
                       else Snd_NotificationSent rev_msg)) n))
      in case self of
           Snd_Initial \<Rightarrow> proceed
         | Snd_NotificationSent _ \<Rightarrow> proceed
         | _ \<Rightarrow> (vcx_err InvalidState ''Ack already received'', n))"

definition sender_handle_ack :: "ext \<Rightarrow> SenderSM \<Rightarrow> Ack \<Rightarrow> SenderSM VcxResult" where
  "sender_handle_ack E self ack =
     (let unexpected = vcx_err InvalidState ''Ack not expected in this state''
      in case self of
           Snd_NotificationSent m \<Rightarrow>
             if ack_on_empty m then
               and_then (verify_thread_id E (revoke_thread_id m) (Revocation (Rev_Ack ack))) (\<lambda>_.
                 Ok (Snd_Finished m (Some ack)))
             else unexpected
         | _ \<Rightarrow> unexpected)"

section \<open>The receiver\<close>

datatype ReceiverFullState =
    Rcv_Initial
  | Rcv_NotificationReceived Revoke
  | Rcv_Finished Revoke

record ReceiverSM =
  rcv_state :: ReceiverFullState
  rcv_rev_reg_id :: string
  rcv_cred_rev_id :: u32

definition receiver_create :: "string \<Rightarrow> u32 \<Rightarrow> ReceiverSM" where
  "receiver_create rev_reg_id cred_rev_id =
     \<lparr>rcv_state = Rcv_Initial, rcv_rev_reg_id = rev_reg_id, rcv_cred_rev_id = cred_rev_id\<rparr>"

definition receiver_get_notification :: "ReceiverSM \<Rightarrow> Revoke VcxResult" where
  "receiver_get_notification self = (case rcv_state self of
     Rcv_NotificationReceived m \<Rightarrow> Ok m
   | Rcv_Finished m \<Rightarrow> Ok m
   | _ \<Rightarrow> vcx_err InvalidState ''Revocation notification not yet known in this state'')"

definition receiver_get_thread_id :: "ReceiverSM \<Rightarrow> string VcxResult" where
  "receiver_get_thread_id self = (case rcv_state self of
     Rcv_NotificationReceived m \<Rightarrow> Ok (revoke_thread_id m)
   | Rcv_Finished m \<Rightarrow> Ok (revoke_thread_id m)
   | _ \<Rightarrow> vcx_err InvalidState ''Thread ID not yet known in this state'')"

definition validate_revocation_notification :: "ReceiverSM \<Rightarrow> Revoke \<Rightarrow> unit VcxResult" where
  "validate_revocation_notification self notification =
     (let parts = split_cc (rvc_credential_id (mp_content notification));
          check_rev_format =
            (if rvc_revocation_format (mp_content notification) \<noteq> Known IndyAnoncreds then
               vcx_err InvalidRevocationDetails
                 (''Received revocation notification with unsupported revocation format, only ''
                  @ ''IndyAnoncreds supported'')
             else Ok ());
          check_rev_reg_id = (\<lambda>_.
            case parts of
              rev_reg_id # _ \<Rightarrow>
                if rev_reg_id \<noteq> rcv_rev_reg_id self then
                  vcx_err InvalidRevocationDetails
                    (''Revocation registry ID in received notification does not match ''
                     @ ''revocation registry ID of this credential'')
                else Ok ()
            | [] \<Rightarrow> vcx_err InvalidRevocationDetails
                ''Invalid credential ID, missing revocation registry ID'');
          check_cred_rev_id = (\<lambda>_.
            case parts of
              _ # cred_rev_id # _ \<Rightarrow>
                and_then (parse_rev_id cred_rev_id) (\<lambda>n.
                  if n \<noteq> rcv_cred_rev_id self then
                    vcx_err InvalidRevocationDetails
                      (''Credential revocation ID in received notification does not match ''
                       @ ''revocation ID of this credential'')
                  else Ok ())
            | _ \<Rightarrow> vcx_err InvalidRevocationDetails
                ''Invalid credential ID, missing revocation registry ID'')
      in and_then (and_then check_rev_format check_rev_reg_id) check_cred_rev_id)"

definition receiver_handle_revocation_notification ::
  "ReceiverSM \<Rightarrow> Revoke \<Rightarrow> ReceiverSM VcxResult" where
  "receiver_handle_revocation_notification self notification = (case rcv_state self of
     Rcv_Initial \<Rightarrow>
       and_then (validate_revocation_notification self notification) (\<lambda>_.
         if \<not> ack_on_empty notification \<or> ack_on_contains Receipt notification
         then Ok (self\<lparr>rcv_state := Rcv_Finished notification\<rparr>)
         else Ok (self\<lparr>rcv_state := Rcv_NotificationReceived notification\<rparr>))
   | _ \<Rightarrow> vcx_err InvalidState ''Ack already received'')"

definition build_revoke_ack :: "string \<Rightarrow> DateTime \<Rightarrow> Revoke \<Rightarrow> Ack" where
  "build_revoke_ack uuid now notification =
     \<lparr>mp_id = uuid, mp_content = \<lparr>ack_status = Ack_Ok\<rparr>,
      mp_decorators = \<lparr>ak_thread = new_thread (revoke_thread_id notification),
        ak_timing = Some (timing_out now)\<rparr>\<rparr>"

definition receiver_send_ack ::
  "'n SendClosure \<Rightarrow> 'n \<Rightarrow> string \<Rightarrow> DateTime \<Rightarrow> ReceiverSM \<Rightarrow> ReceiverSM VcxResult \<times> 'n" where
  "receiver_send_ack send n uuid now self =
     (let proceed =
        and_thenw (pure_w (receiver_get_notification self) n) (\<lambda>notification n.
        and_thenw (send (Revocation (Rev_Ack (build_revoke_ack uuid now notification))) n) (\<lambda>_ n.
          pure_w (Ok (self\<lparr>rcv_state := Rcv_Finished notification\<rparr>)) n))
      in case rcv_state self of
           Rcv_NotificationReceived _ \<Rightarrow> proceed
         | Rcv_Finished _ \<Rightarrow> proceed
         | _ \<Rightarrow> (vcx_err InvalidState ''Ack already sent'', n))"

section \<open>The issuer sends a notification\<close>

text \<open>\<open>show_state\<close> is the \<open>Debug\<close> text of the state.\<close>

definition send_revocation_notification ::
  "(IssuerState \<Rightarrow> string) \<Rightarrow> 'n SendClosure \<Rightarrow> 'n \<Rightarrow> string \<Rightarrow> Issuer \<Rightarrow> AckOn list \<Rightarrow> string option \<Rightarrow>
   unit VcxResult \<times> 'n" where
  "send_revocation_notification show_state send n uuid issuer acks comment =
     (if issuer_is_revokable (issuer_sm issuer) then
        and_thenw (pure_w (
          and_then (issuer_get_rev_reg_id (issuer_sm issuer)) (\<lambda>rev_reg_id.
          and_then (issuer_get_rev_id (issuer_sm issuer)) (\<lambda>rev_id.
            Ok \<lparr>scf_rev_reg_id = rev_reg_id, scf_cred_rev_id = rev_id, scf_comment = comment,
              scf_ack_on = acks\<rparr>))) n) (\<lambda>config n.
        and_thenw (sender_send send n uuid sender_create config) (\<lambda>_. pure_w (Ok ())))
      else (vcx_err InvalidState (''Can't send revocation notification in state ''
          @ show_state (issuer_get_state (issuer_sm issuer)) @ '', credential is not revokable''), n))"

section \<open>Runs\<close>

datatype rn_phase = Rn_Initial | Rn_Open | Rn_Finished

fun sender_phase :: "SenderSM \<Rightarrow> rn_phase" where
  "sender_phase Snd_Initial = Rn_Initial"
| "sender_phase (Snd_NotificationSent _) = Rn_Open"
| "sender_phase (Snd_Finished _ _) = Rn_Finished"

definition receiver_phase :: "ReceiverSM \<Rightarrow> rn_phase" where
  "receiver_phase s = (case rcv_state s of
     Rcv_Initial \<Rightarrow> Rn_Initial | Rcv_NotificationReceived _ \<Rightarrow> Rn_Open | Rcv_Finished _ \<Rightarrow> Rn_Finished)"

definition rn_edge :: "rn_phase \<Rightarrow> rn_phase \<Rightarrow> bool" where
  "rn_edge p q \<longleftrightarrow>
     (p, q) \<in> {(Rn_Initial, Rn_Open), (Rn_Initial, Rn_Finished), (Rn_Open, Rn_Finished)}"

definition rn_terminal :: "rn_phase \<Rightarrow> bool" where
  "rn_terminal p \<longleftrightarrow> p = Rn_Finished"

inductive sender_step :: "ext \<Rightarrow> 'n SendClosure \<Rightarrow> SenderSM \<Rightarrow> SenderSM \<Rightarrow> bool"
  for E :: ext and send :: "'n SendClosure" where
  send: "sender_send send n uuid s config = (Ok t, n') \<Longrightarrow> sender_step E send s t"
| ack: "sender_handle_ack E s a = Ok t \<Longrightarrow> sender_step E send s t"

inductive receiver_step :: "'n SendClosure \<Rightarrow> ReceiverSM \<Rightarrow> ReceiverSM \<Rightarrow> bool"
  for send :: "'n SendClosure" where
  notify: "receiver_handle_revocation_notification s m = Ok t \<Longrightarrow> receiver_step send s t"
| ack: "receiver_send_ack send n uuid now s = (Ok t, n') \<Longrightarrow> receiver_step send s t"

interpretation sender: protocol_machine "sender_step E send" sender_phase rn_edge rn_terminal
proof
  fix s t
  assume step: "sender_step E send s t"
  show "sender_phase t = sender_phase s \<or> rn_edge (sender_phase s) (sender_phase t)"
    using step
    by cases (cases s; auto simp: sender_send_def sender_handle_ack_def rn_edge_def and_thenw_Ok
      Let_def pure_w_def split: if_splits)+
  show "rn_terminal (sender_phase s) \<Longrightarrow> t = s"
    using step by cases (cases s; auto simp: sender_send_def sender_handle_ack_def rn_terminal_def)+
qed

interpretation receiver: protocol_machine "receiver_step send" receiver_phase rn_edge rn_terminal
proof
  fix s t
  assume step: "receiver_step send s t"
  show "receiver_phase t = receiver_phase s \<or> rn_edge (receiver_phase s) (receiver_phase t)"
    using step
    by cases (cases "rcv_state s"; auto simp: receiver_handle_revocation_notification_def
      receiver_send_ack_def receiver_get_notification_def receiver_phase_def rn_edge_def and_thenw_Ok
      pure_w_def split: if_splits)+
  show "rn_terminal (receiver_phase s) \<Longrightarrow> t = s"
    using step
    by cases (cases "rcv_state s"; auto simp: receiver_handle_revocation_notification_def
      receiver_send_ack_def receiver_get_notification_def receiver_phase_def rn_terminal_def
      and_thenw_Ok pure_w_def)+
qed

section \<open>Lemmas\<close>

lemma validate_iff:
  "validate_revocation_notification s m = Ok () \<longleftrightarrow>
     rvc_revocation_format (mp_content m) = Known IndyAnoncreds
     \<and> (\<exists>text rest. split_cc (rvc_credential_id (mp_content m)) = rcv_rev_reg_id s # text # rest
          \<and> parse_u32 text = Ok (rcv_cred_rev_id s))"
  by (auto simp: validate_revocation_notification_def Let_def parse_rev_id_def
      split: list.splits if_splits)

text \<open>
  A registry id the textual credential id can carry: it has no double colon of its own and
  does not end in a colon.
\<close>

definition separable :: "string \<Rightarrow> bool" where
  "separable r \<longleftrightarrow> length (split_cc r) = 1 \<and> (r = [] \<or> last r \<noteq> CHR '':'')"

lemma split_credential_id:
  "separable r \<Longrightarrow> split_cc (r @ ''::'' @ show_u32 n) = [r, show_u32 n]"
  using split_cc_append [of r "show_u32 n"] by (simp add: separable_def split_cc_show_u32)

lemma validate_build_revoke:
  assumes "separable (scf_rev_reg_id config)"
  shows "validate_revocation_notification (receiver_create r n) (build_revoke uuid config) = Ok ()
    \<longleftrightarrow> r = scf_rev_reg_id config \<and> n = scf_cred_rev_id config"
  using split_credential_id [OF assms, of "scf_cred_rev_id config"]
  by (auto simp: validate_iff build_revoke_def receiver_create_def parse_show_u32)

lemma ack_on_build_revoke [simp]:
  "ack_on_empty (build_revoke uuid config) \<longleftrightarrow> scf_ack_on config = []"
  "ack_on_contains x (build_revoke uuid config) \<longleftrightarrow> x \<in> set (scf_ack_on config)"
  by (simp_all add: ack_on_empty_def ack_on_contains_def build_revoke_def)

lemma sender_send_ok:
  assumes "send (Revocation (Rev_Revoke (build_revoke uuid config))) n = (Ok (), n')"
  shows "sender_send send n uuid sender_create config =
    (Ok (if scf_ack_on config = [] then Snd_NotificationSent (build_revoke uuid config)
         else Snd_Finished (build_revoke uuid config) None), n')"
  using assms by (simp add: sender_send_def sender_create_def Let_def) (simp add: pure_w_def)

lemma finished_refuse [simp]:
  "sender_handle_ack E (Snd_Finished m x) a = vcx_err InvalidState ''Ack not expected in this state''"
  "receiver_handle_revocation_notification (s\<lparr>rcv_state := Rcv_Finished m\<rparr>) m'
     = vcx_err InvalidState ''Ack already received''"
  by (simp_all add: sender_handle_ack_def receiver_handle_revocation_notification_def)

lemma receiver_accepts:
  assumes "separable (scf_rev_reg_id config)"
  shows "receiver_handle_revocation_notification
      (receiver_create (scf_rev_reg_id config) (scf_cred_rev_id config)) (build_revoke uuid config)
    = Ok ((receiver_create (scf_rev_reg_id config) (scf_cred_rev_id config))
       \<lparr>rcv_state := if scf_ack_on config = [] then Rcv_NotificationReceived (build_revoke uuid config)
                     else Rcv_Finished (build_revoke uuid config)\<rparr>)"
proof -
  let ?r = "receiver_create (scf_rev_reg_id config) (scf_cred_rev_id config)"
  have "validate_revocation_notification ?r (build_revoke uuid config) = Ok ()"
    by (simp add: validate_build_revoke [OF assms])
  then show ?thesis
    by (cases "scf_ack_on config = []")
      (simp_all add: receiver_handle_revocation_notification_def, simp_all add: receiver_create_def)
qed

section \<open>Properties\<close>

text \<open>
  The identifier sent is the identifier checked: for a registry id that can be separated, a
  receiver accepts the notification built for a credential exactly when it waits for that
  registry and that index.
\<close>

theorem notification_identifies_credential:
  assumes "separable (scf_rev_reg_id config)"
  shows "is_ok (receiver_handle_revocation_notification (receiver_create r n) (build_revoke uuid config))
    \<longleftrightarrow> r = scf_rev_reg_id config \<and> n = scf_cred_rev_id config"
proof (cases "r = scf_rev_reg_id config \<and> n = scf_cred_rev_id config")
  case True
  then show ?thesis using receiver_accepts [OF assms] by simp
next
  case False
  then have "validate_revocation_notification (receiver_create r n) (build_revoke uuid config) \<noteq> Ok ()"
    using validate_build_revoke [OF assms] by simp
  then have "\<not> is_ok (receiver_handle_revocation_notification (receiver_create r n) (build_revoke uuid config))"
    by (cases "validate_revocation_notification (receiver_create r n) (build_revoke uuid config)")
      (simp_all add: receiver_handle_revocation_notification_def, simp_all add: receiver_create_def)
  with False show ?thesis by simp
qed

theorem notification_identifies_credential_witness:
  "let config = \<lparr>scf_rev_reg_id = ''V4SG:4:x'', scf_cred_rev_id = 7, scf_comment = None, scf_ack_on = []\<rparr>
   in is_ok (receiver_handle_revocation_notification (receiver_create ''V4SG:4:x'' 7) (build_revoke ''u'' config))
    \<and> \<not> is_ok (receiver_handle_revocation_notification (receiver_create ''V4SG:4:x'' 8) (build_revoke ''u'' config))"
proof -
  let ?c = "\<lparr>scf_rev_reg_id = ''V4SG:4:x'', scf_cred_rev_id = 7, scf_comment = None, scf_ack_on = []\<rparr>"
  have "separable (scf_rev_reg_id ?c)" by (simp add: separable_def split_cc_def)
  from notification_identifies_credential [OF this] show ?thesis by (simp add: Let_def)
qed

text \<open>
  The complete exchange when no acknowledgement is asked for: the sender waits, the receiver
  accepts, the acknowledgement it then sends carries the id of the notification as its thread,
  and it finishes the sender; every later message is an error for both machines.
\<close>

theorem notification_exchange:
  assumes "separable (scf_rev_reg_id config)" and "scf_ack_on config = []"
    and "send (Revocation (Rev_Revoke (build_revoke uuid config))) n = (Ok (), n1)"
    and "send (Revocation (Rev_Ack (build_revoke_ack uuid2 now (build_revoke uuid config)))) n1 = (Ok (), n2)"
  shows "\<exists>snd1 rcv1 rcv2 snd2.
      sender_send send n uuid sender_create config = (Ok snd1, n1)
    \<and> receiver_handle_revocation_notification
        (receiver_create (scf_rev_reg_id config) (scf_cred_rev_id config)) (build_revoke uuid config) = Ok rcv1
    \<and> receiver_send_ack send n1 uuid2 now rcv1 = (Ok rcv2, n2)
    \<and> sender_handle_ack E snd1 (build_revoke_ack uuid2 now (build_revoke uuid config)) = Ok snd2
    \<and> sender_phase snd2 = Rn_Finished \<and> receiver_phase rcv2 = Rn_Finished
    \<and> sender_get_thread_id snd2 = Ok uuid \<and> receiver_get_thread_id rcv2 = Ok uuid
    \<and> (\<forall>a. \<not> is_ok (sender_handle_ack E snd2 a))
    \<and> (\<forall>m. \<not> is_ok (receiver_handle_revocation_notification rcv2 m))"
proof -
  let ?m = "build_revoke uuid config"
  let ?r = "receiver_create (scf_rev_reg_id config) (scf_cred_rev_id config)"
  have thread: "revoke_thread_id ?m = uuid" by (simp add: revoke_thread_id_def build_revoke_def)
  have ack: "receiver_send_ack send n1 uuid2 now (?r\<lparr>rcv_state := Rcv_NotificationReceived ?m\<rparr>)
      = (Ok (?r\<lparr>rcv_state := Rcv_Finished ?m\<rparr>), n2)"
    using assms(4)
    by (simp add: receiver_send_ack_def receiver_get_notification_def) (simp add: pure_w_def)
  have fin: "sender_handle_ack E (Snd_NotificationSent ?m) (build_revoke_ack uuid2 now ?m)
      = Ok (Snd_Finished ?m (Some (build_revoke_ack uuid2 now ?m)))"
    by (simp add: sender_handle_ack_def assms(2) verify_thread_id_def build_revoke_ack_def thread)
  show ?thesis
    by (rule exI [of _ "Snd_NotificationSent ?m"],
        rule exI [of _ "?r\<lparr>rcv_state := Rcv_NotificationReceived ?m\<rparr>"],
        rule exI [of _ "?r\<lparr>rcv_state := Rcv_Finished ?m\<rparr>"],
        rule exI [of _ "Snd_Finished ?m (Some (build_revoke_ack uuid2 now ?m))"])
      (simp add: sender_send_ok [of send, OF assms(3)] receiver_accepts [OF assms(1)] assms(2) ack fin
        receiver_phase_def sender_get_thread_id_def receiver_get_thread_id_def thread)
qed

theorem notification_exchange_witness:
  "let config = \<lparr>scf_rev_reg_id = ''r:1'', scf_cred_rev_id = 7, scf_comment = None, scf_ack_on = []\<rparr>;
       send = (\<lambda>m out. (Ok (), m # out)) :: AriesMessage list SendClosure
   in \<exists>snd1 out. sender_send send [] ''u'' sender_create config = (Ok snd1, out)
        \<and> length out = 1 \<and> sender_phase snd1 = Rn_Open"
proof -
  let ?c = "\<lparr>scf_rev_reg_id = ''r:1'', scf_cred_rev_id = 7, scf_comment = None, scf_ack_on = []\<rparr>"
  let ?send = "(\<lambda>m out. (Ok (), m # out)) :: AriesMessage list SendClosure"
  let ?m = "Revocation (Rev_Revoke (build_revoke ''u'' ?c))"
  let ?a = "build_revoke_ack ''v'' 0 (build_revoke ''u'' ?c)"
  have sep: "separable (scf_rev_reg_id ?c)" "scf_ack_on ?c = []"
    by (simp_all add: separable_def split_cc_def)
  have out: "?send ?m [] = (Ok (), [?m])"
    "?send (Revocation (Rev_Ack ?a)) [?m] = (Ok (), [Revocation (Rev_Ack ?a), ?m])"
    by simp_all
  from notification_exchange [of ?c ?send "''u''" "[]" "[?m]" "''v''" 0, OF sep out]
  obtain snd1 snd2 where s: "sender_send ?send [] ''u'' sender_create ?c = (Ok snd1, [?m])"
    and h: "sender_handle_ack (sample_ext undefined) snd1 ?a = Ok snd2"
    by blast
  from h have "sender_phase snd1 = Rn_Open"
    by (cases snd1) (simp_all add: sender_handle_ack_def)
  with s show ?thesis by (simp add: Let_def)
qed

text \<open>
  Asking for an acknowledgement has the opposite effect: the sender is finished as soon as
  the notification is sent, and no acknowledgement is accepted any more.
\<close>

theorem requested_ack_is_refused:
  assumes "scf_ack_on config \<noteq> []"
    and "send (Revocation (Rev_Revoke (build_revoke uuid config))) n = (Ok (), n')"
  shows "\<exists>t. sender_send send n uuid sender_create config = (Ok t, n') \<and> sender_phase t = Rn_Finished
    \<and> (\<forall>a. \<exists>e. sender_handle_ack E t a = Err e \<and> err_kind e = InvalidState)"
  by (simp add: sender_send_ok [of send, OF assms(2)] assms(1) sender_handle_ack_def)

theorem requested_ack_is_refused_witness:
  "let config = \<lparr>scf_rev_reg_id = ''r:1'', scf_cred_rev_id = 7, scf_comment = None, scf_ack_on = [Receipt]\<rparr>;
       send = (\<lambda>m out. (Ok (), m # out)) :: AriesMessage list SendClosure
   in \<exists>t out. sender_send send [] ''u'' sender_create config = (Ok t, out) \<and> sender_phase t = Rn_Finished
        \<and> (\<forall>a. \<exists>e. sender_handle_ack (sample_ext undefined) t a = Err e \<and> err_kind e = InvalidState)"
  unfolding Let_def using requested_ack_is_refused
  by (metis (no_types, lifting) SenderConfig.select_convs(4) list.distinct(1))

text \<open>
  An issuer that holds a revokable credential sends a notification that names it: the
  message handed to the transport is accepted by the receiver of that registry and index.
\<close>

theorem issuer_notification_accepted:
  assumes "issuer_reachable E C A sm" and "issuer_is_revokable sm"
    and "issuer_get_rev_reg_id sm = Ok rrid" and "separable rrid"
  shows "\<exists>i m. issuer_get_rev_id sm = Ok i
    \<and> fst (send_revocation_notification sh send n uuid \<lparr>issuer_sm = sm\<rparr> acks comment)
        = fst (send (Revocation (Rev_Revoke m)) n)
    \<and> snd (send_revocation_notification sh send n uuid \<lparr>issuer_sm = sm\<rparr> acks comment)
        = snd (send (Revocation (Rev_Revoke m)) n)
    \<and> is_ok (receiver_handle_revocation_notification (receiver_create rrid i) m)"
proof -
  from rev_id_views [OF issuer_reachable_inv [OF assms(1)]] assms(2) obtain i where
    i: "issuer_get_rev_id sm = Ok i" by auto
  let ?c = "\<lparr>scf_rev_reg_id = rrid, scf_cred_rev_id = i, scf_comment = comment, scf_ack_on = acks\<rparr>"
  have ok: "is_ok (receiver_handle_revocation_notification (receiver_create rrid i) (build_revoke uuid ?c))"
    using receiver_accepts [of ?c uuid] assms(4) by simp
  obtain r n' where r: "send (Revocation (Rev_Revoke (build_revoke uuid ?c))) n = (r, n')"
    by (meson surj_pair)
  have "send_revocation_notification sh send n uuid \<lparr>issuer_sm = sm\<rparr> acks comment = (r, n')"
    using r assms(2,3) i
    by (cases r)
      (simp_all add: send_revocation_notification_def sender_send_def sender_create_def Let_def,
       simp add: pure_w_def)
  with i ok r show ?thesis by (intro exI [of _ i] exI [of _ "build_revoke uuid ?c"]) simp
qed

theorem issuer_notification_accepted_witness:
  "\<exists>m. is_ok (receiver_handle_revocation_notification (receiver_create ''r:1'' 7) m)"
proof -
  have r: "issuer_reachable sample_issue_ext sample_codec sample_anoncreds sample_issuer_issued"
    using sample_issuer_run by (auto simp: issuer_reachable_def)
  obtain cs where cs: "is_state sample_issuer_issued = I_CredentialSet cs"
    "css_revocation_info_v1 cs = Some \<lparr>ri_cred_rev_id = Some (show_u32 7),
       ri_rev_reg_id = Some ''r:1'', ri_tails_file = Some ''tails''\<rparr>"
    using sample_issuer_issued(2,3)
    by (auto simp: issuer_get_state_def issuer_get_revocation_info_def
        split: IssuerFullState.splits Status.splits)
  then have v: "issuer_is_revokable sample_issuer_issued"
    "issuer_get_rev_reg_id sample_issuer_issued = Ok ''r:1''"
    "issuer_get_rev_id sample_issuer_issued = Ok 7"
    by (simp_all add: issuer_is_revokable_def issuer_get_rev_reg_id_def issuer_get_rev_id_def)
  have "separable ''r:1''" by (simp add: separable_def split_cc_def)
  from issuer_notification_accepted [OF r v(1,2) this, of "\<lambda>_. []"
      "\<lambda>m out. (Ok (), m # out)" "[]" "''u''" "[]" None] obtain i m where
    "issuer_get_rev_id sample_issuer_issued = Ok i"
    "is_ok (receiver_handle_revocation_notification (receiver_create ''r:1'' i) m)"
    by blast
  with v(3) show ?thesis by auto
qed

end
