(* ===== verification/Holder_SM.thy ===== *)
theory Holder_SM
  imports Revocation_Notification
begin

text \<open>
  The holder of credentials: the state machine \<open>protocols/issuance/holder/state_machine.rs\<close> with the
  states under \<open>states/\<close>, and the handler \<open>handlers/issuance/holder.rs\<close>.
\<close>

section \<open>States\<close>

record RequestSetState =
  rss_req_meta :: string
  rss_cred_def_json :: string
  rss_schema_id :: SchemaId
  rss_msg_credential_request :: RequestCredentialV1

record FinishedHolderState =
  fhs_cred_id :: "string option"
  fhs_credential :: "IssueCredentialV1 option"
  fhs_status :: Status
  fhs_rev_reg_def_json :: "string option"
  fhs_ack_requested :: "bool option"

datatype HolderFullState =
    H_Initial
  | H_ProposalSet ProposeCredentialV1
  | H_OfferReceived OfferCredentialV1
  | H_RequestSet RequestSetState
  | H_Finished FinishedHolderState

datatype HolderState =
  Hs_Initial | Hs_ProposalSet | Hs_OfferReceived | Hs_RequestSet | Hs_Finished | Hs_Failed

record HolderSM =
  hs_state :: HolderFullState
  hs_source_id :: string
  hs_thread_id :: string

definition FinishedHolderState_new :: "ProblemReport \<Rightarrow> FinishedHolderState" where
  "FinishedHolderState_new problem_report =
     \<lparr>fhs_cred_id = None, fhs_credential = None, fhs_status = Failed problem_report,
      fhs_rev_reg_def_json = None, fhs_ack_requested = None\<rparr>"

definition FinishedHolderState_from ::
  "string \<Rightarrow> IssueCredentialV1 \<Rightarrow> string option \<Rightarrow> FinishedHolderState" where
  "FinishedHolderState_from cred_id credential rev_reg_def_json =
     \<lparr>fhs_cred_id = Some cred_id, fhs_credential = Some credential, fhs_status = Success,
      fhs_rev_reg_def_json = rev_reg_def_json,
      fhs_ack_requested = Some (pd_please_ack (mp_decorators credential) \<noteq> None)\<rparr>"

subsection \<open>What the finished state tells\<close>

definition finished_get_attachment :: "ext \<Rightarrow> FinishedHolderState \<Rightarrow> string VcxResult" where
  "finished_get_attachment E self =
     and_then (ok_or (fhs_credential self) (from_msg InvalidState ''No credential found'')) (\<lambda>credential.
       get_attach_as_string E (isc_credentials_attach (mp_content credential)))"

text \<open>\<open>CredentialData\<close> is read for its field \<open>values\<close> only; \<open>c_de_cred_data\<close> yields that field.\<close>

definition finished_get_attributes :: "ext \<Rightarrow> codec \<Rightarrow> FinishedHolderState \<Rightarrow> string VcxResult" where
  "finished_get_attributes E C self =
     and_then (finished_get_attachment E self) (\<lambda>attach.
     and_then (map_err (\<lambda>err. from_msg InvalidJson (''Cannot deserialize '' @ x_debug_str E attach
         @ '', into CredentialData, err: '' @ se_debug err)) (c_de_cred_data C attach)) (\<lambda>values.
       case as_object values of
         Some vs \<Rightarrow>
           and_then (try_fold (\<lambda>new_map (key, value).
             and_then (ok_or (as_str (json_index value ''raw'')) (from_msg InvalidJson
               ''Missing raw encoding on credential value'')) (\<lambda>val.
               Ok (btree_insert key (JString val) new_map))) [] vs) (\<lambda>new_map.
             Ok (x_json_print E (JObject new_map)))
       | None \<Rightarrow> vcx_err InvalidJson (''Cannot convert '' @ x_debug_str E attach @ '' into object'')))"

definition finished_rev_reg_def :: "ext \<Rightarrow> FinishedHolderState \<Rightarrow> (string \<times> json) VcxResult" where
  "finished_rev_reg_def E self =
     and_then (ok_or (fhs_rev_reg_def_json self) (from_msg InvalidState
       ''No revocation registry definition found - is this credential revokable?'')) (\<lambda>text.
     and_then (map_err (\<lambda>err. from_msg SerializationError (''Cannot deserialize '' @ x_debug_str E text
         @ '' into Value, err: '' @ se_debug err)) (x_json_parse E text)) (\<lambda>rev_reg_def.
       Ok (text, rev_reg_def)))"

definition finished_rev_reg_value :: "ext \<Rightarrow> FinishedHolderState \<Rightarrow> (string \<times> json) list VcxResult" where
  "finished_rev_reg_value E self =
     and_then (finished_rev_reg_def E self) (\<lambda>(text, rev_reg_def).
       ok_or (as_object (json_index rev_reg_def ''value'')) (from_msg InvalidJson
         (''The field 'value' not found on rev_reg_def_json: '' @ x_debug_str E text)))"

text \<open>Both accessors index the map itself, which panics when the field is missing.\<close>

definition finished_get_tails_location :: "ext \<Rightarrow> FinishedHolderState \<Rightarrow> string VcxResult" where
  "finished_get_tails_location E self =
     and_then (finished_rev_reg_value E self) (\<lambda>value.
     and_then (map_index value ''tailsLocation'') (\<lambda>v.
       ok_or (as_str v) (from_msg InvalidJson
         (''The field 'tailsLocation' not found on rev_reg_def_json: ''
          @ x_debug_opt_str E (fhs_rev_reg_def_json self)))))"

definition finished_get_tails_hash :: "ext \<Rightarrow> FinishedHolderState \<Rightarrow> string VcxResult" where
  "finished_get_tails_hash E self =
     and_then (finished_rev_reg_value E self) (\<lambda>value.
     and_then (map_index value ''tailsHash'') (\<lambda>v.
       ok_or (as_str v) (from_msg InvalidJson
         (''The field 'tailsLocation' not found on rev_reg_def_json: ''
          @ x_debug_opt_str E (fhs_rev_reg_def_json self)))))"

definition finished_get_rev_reg_id :: "ext \<Rightarrow> FinishedHolderState \<Rightarrow> string VcxResult" where
  "finished_get_rev_reg_id E self =
     and_then (finished_rev_reg_def E self) (\<lambda>(text, rev_reg_def).
       ok_or (as_str (json_index rev_reg_def ''id'')) (from_msg InvalidJson
         (''The field 'id' not found on rev_reg_def_json: '' @ x_debug_str E text)))"

definition finished_get_cred_id :: "FinishedHolderState \<Rightarrow> string VcxResult" where
  "finished_get_cred_id self = ok_or (fhs_cred_id self) (from_msg InvalidJson
     ''The field 'cred_id' not found on FinishedHolderState'')"

subsection \<open>What the offer tells\<close>

definition offer_get_attributes :: "ext \<Rightarrow> OfferCredentialV1 \<Rightarrow> string VcxResult" where
  "offer_get_attributes E offer = Ok (x_json_print E (JObject
     (fold (\<lambda>a. btree_insert (attr_name a) (JString (attr_value a)))
        (preview_attributes (ofc_credential_preview (mp_content offer))) [])))"

definition offer_get_attachment :: "ext \<Rightarrow> OfferCredentialV1 \<Rightarrow> string VcxResult" where
  "offer_get_attachment E offer = get_attach_as_string E (ofc_offers_attach (mp_content offer))"

definition parse_cred_def_id_from_cred_offer :: "ext \<Rightarrow> string \<Rightarrow> string VcxResult" where
  "parse_cred_def_id_from_cred_offer E cred_offer =
     and_then (map_err (\<lambda>err. from_msg InvalidJson (''Invalid Credential Offer Json: '' @ se_debug err))
       (x_json_parse E cred_offer)) (\<lambda>parsed_offer.
       ok_or (as_str (json_index parsed_offer ''cred_def_id'')) (from_msg InvalidJson
         ''Invalid Credential Offer Json: cred_def_id not found''))"

definition offer_is_revokable :: "ext \<Rightarrow> 'm ledger \<Rightarrow> OfferCredentialV1 \<Rightarrow> bool VcxResult" where
  "offer_is_revokable E L self =
     and_then (offer_get_attachment E self) (\<lambda>offer.
     and_then (map_err (\<lambda>err. from_msg InvalidJson
         (''Failed to parse credential definition id from credential offer: '' @ format_error err))
       (parse_cred_def_id_from_cred_offer E offer)) (\<lambda>cred_def_id.
       is_cred_def_revokable L cred_def_id))"

definition request_is_revokable :: "ext \<Rightarrow> RequestSetState \<Rightarrow> bool VcxResult" where
  "request_is_revokable E self =
     and_then (map_err (\<lambda>err. from_msg SerializationError
         (''Failed deserialize credential definition json '' @ rss_cred_def_json self
          @ [CHR 0x0A] @ ''Error: '' @ se_display err)) (x_json_parse E (rss_cred_def_json self)))
       (\<lambda>parsed_cred_def.
         Ok (\<not> json_is_null (json_index (json_index parsed_cred_def ''value'') ''revocation'')))"

section \<open>Work of the transitions\<close>

definition build_credential_request ::
  "ext \<Rightarrow> string \<Rightarrow> DateTime \<Rightarrow> string \<Rightarrow> string \<Rightarrow> RequestCredentialV1" where
  "build_credential_request E uuid now credential_request_attach thread_id =
     \<lparr>mp_id = uuid,
      mp_content = \<lparr>rqc_comment = None,
        rqc_requests_attach = [make_attach_from_str E credential_request_attach
          (AttachmentId_as_ref Att_CredentialRequest)]\<rparr>,
      mp_decorators = \<lparr>od_thread = Some (new_thread thread_id), od_timing = Some (timing_out now)\<rparr>\<rparr>"

definition create_anoncreds_credential_request ::
  "ext \<Rightarrow> codec \<Rightarrow> 'm ledger \<Rightarrow> 'w anoncreds \<Rightarrow> 'w \<Rightarrow> string \<Rightarrow> string \<Rightarrow>
   (string \<times> string \<times> string \<times> string \<times> SchemaId) VcxResult \<times> 'w" where
  "create_anoncreds_credential_request E C L A w prover_did cred_offer =
     and_thenw (pure_w (
       and_then (from_serde (c_de_offer C cred_offer)) (\<lambda>offer.
       and_then (from_ledger (lg_get_cred_def L (co_cred_def_id offer) None)) (\<lambda>cred_def_json.
       and_then (map_err from_anoncreds_types_error (c_clone_cred_def C cred_def_json)) (\<lambda>clone.
         Ok (offer, cred_def_json, clone))))) w)
     (\<lambda>(offer, cred_def_json, clone) w.
       case ac_prover_create_credential_req A w prover_did offer clone DEFAULT_LINK_SECRET_ALIAS of
         (r, w') \<Rightarrow>
           (map_ok (\<lambda>(s1, s2). (c_ser_request C s1, x_json_print E s2, co_cred_def_id offer,
              x_json_print E cred_def_json, co_schema_id offer))
            (map_err (\<lambda>err. from_msg InvalidState
               (''Cannot create credential request; '' @ show_anoncreds_error err)) r), w'))"

definition build_credential_request_msg ::
  "ext \<Rightarrow> codec \<Rightarrow> 'm ledger \<Rightarrow> 'w anoncreds \<Rightarrow> 'w \<Rightarrow> string \<Rightarrow> DateTime \<Rightarrow> string \<Rightarrow> string \<Rightarrow>
   OfferCredentialV1 \<Rightarrow> (RequestCredentialV1 \<times> string \<times> string \<times> SchemaId) VcxResult \<times> 'w" where
  "build_credential_request_msg E C L A w uuid now thread_id my_pw_did offer =
     and_thenw (pure_w (get_attach_as_string E (ofc_offers_attach (mp_content offer))) w)
     (\<lambda>cred_offer w.
     and_thenw (create_anoncreds_credential_request E C L A w my_pw_did cred_offer)
     (\<lambda>(req, req_meta, _, cred_def_json, schema_id).
       pure_w (Ok (build_credential_request E uuid now req thread_id, req_meta, cred_def_json,
         schema_id))))"

definition parse_rev_reg_id_from_credential :: "ext \<Rightarrow> string \<Rightarrow> string option VcxResult" where
  "parse_rev_reg_id_from_credential E credential =
     and_then (map_err (\<lambda>err. from_msg InvalidJson (''Invalid Credential Json: '' @ credential
         @ '', err: '' @ se_debug err)) (x_json_parse E credential)) (\<lambda>parsed_credential.
       Ok (as_str (json_index parsed_credential ''rev_reg_id'')))"

definition store_credential ::
  "ext \<Rightarrow> codec \<Rightarrow> 'm ledger \<Rightarrow> 'w anoncreds \<Rightarrow> 'w \<Rightarrow> IssueCredentialV1 \<Rightarrow> string \<Rightarrow> string \<Rightarrow> string \<Rightarrow>
   (string \<times> string option) VcxResult \<times> 'w" where
  "store_credential E C L A w credential req_meta cred_def_json schema_json =
     and_thenw (pure_w (
       and_then (get_attach_as_string E (isc_credentials_attach (mp_content credential))) (\<lambda>credential_json.
       and_then (parse_rev_reg_id_from_credential E credential_json) (\<lambda>rev_reg_id.
       and_then (case rev_reg_id of
           Some i \<Rightarrow>
             and_then (vcx_rev_reg_def_id i) (\<lambda>rid.
             and_then (from_ledger (lg_get_rev_reg_def_json L rid)) (\<lambda>(json, _). Ok (Some json)))
         | None \<Rightarrow> Ok None) (\<lambda>rev_reg_def_json.
       and_then (from_serde (c_de_metadata C req_meta)) (\<lambda>meta.
       and_then (from_serde (c_de_credential C credential_json)) (\<lambda>cred.
       and_then (from_serde (c_de_schema C schema_json)) (\<lambda>schema.
       and_then (from_serde (c_de_cred_def C cred_def_json)) (\<lambda>cred_def.
         Ok (meta, cred, schema, cred_def, rev_reg_def_json))))))))) w)
     (\<lambda>(meta, cred, schema, cred_def, rev_reg_def_json) w.
     and_thenw (anon_w (ac_prover_store_credential A w meta cred schema cred_def rev_reg_def_json))
     (\<lambda>cred_id. pure_w (Ok (cred_id, map_option (x_json_print E) rev_reg_def_json))))"

section \<open>Transitions\<close>

definition holder_new :: "string \<Rightarrow> string \<Rightarrow> HolderSM" where
  "holder_new uuid source_id =
     \<lparr>hs_state = H_Initial, hs_source_id = source_id, hs_thread_id = uuid\<rparr>"

definition holder_from_offer :: "OfferCredentialV1 \<Rightarrow> string \<Rightarrow> HolderSM" where
  "holder_from_offer offer source_id =
     \<lparr>hs_state = H_OfferReceived offer, hs_source_id = source_id, hs_thread_id = mp_id offer\<rparr>"

definition holder_with_proposal :: "ProposeCredentialV1 \<Rightarrow> string \<Rightarrow> HolderSM" where
  "holder_with_proposal proposal source_id =
     \<lparr>hs_state = H_ProposalSet proposal, hs_source_id = source_id, hs_thread_id = mp_id proposal\<rparr>"

definition holder_set_proposal :: "ext \<Rightarrow> HolderSM \<Rightarrow> ProposeCredentialV1 \<Rightarrow> HolderSM VcxResult" where
  "holder_set_proposal E self proposal =
     and_then (verify_thread_id E (hs_thread_id self) (ci1_msg (CI1_ProposeCredential proposal))) (\<lambda>_.
       let proposal = proposal\<lparr>mp_id := hs_thread_id self\<rparr> in
       case hs_state self of
         H_Initial \<Rightarrow> Ok (self\<lparr>hs_state := H_ProposalSet proposal\<rparr>)
       | H_OfferReceived _ \<Rightarrow> Ok (self\<lparr>hs_state := H_ProposalSet proposal\<rparr>)
       | _ \<Rightarrow> Ok self)"

definition holder_receive_offer :: "ext \<Rightarrow> HolderSM \<Rightarrow> OfferCredentialV1 \<Rightarrow> HolderSM VcxResult" where
  "holder_receive_offer E self offer =
     and_then (verify_thread_id E (hs_thread_id self) (ci1_msg (CI1_OfferCredential offer))) (\<lambda>_.
       case hs_state self of
         H_ProposalSet _ \<Rightarrow> Ok (self\<lparr>hs_state := H_OfferReceived offer\<rparr>)
       | _ \<Rightarrow> Ok self)"

definition holder_prepare_credential_request ::
  "ext \<Rightarrow> codec \<Rightarrow> 'm ledger \<Rightarrow> 'w anoncreds \<Rightarrow> 'w \<Rightarrow> string \<Rightarrow> DateTime \<Rightarrow> HolderSM \<Rightarrow> string \<Rightarrow>
   HolderSM VcxResult \<times> 'w" where
  "holder_prepare_credential_request E C L A w uuid now self my_pw_did = (case hs_state self of
     H_OfferReceived offer \<Rightarrow>
       (case build_credential_request_msg E C L A w uuid now (hs_thread_id self) my_pw_did offer of
          (Ok (msg_credential_request, req_meta, cred_def_json, schema_id), w') \<Rightarrow>
            (Ok (self\<lparr>hs_state := H_RequestSet \<lparr>rss_req_meta = req_meta,
               rss_cred_def_json = cred_def_json, rss_schema_id = schema_id,
               rss_msg_credential_request = msg_credential_request\<rparr>\<rparr>), w')
        | (Err err, w') \<Rightarrow>
            (Ok (self\<lparr>hs_state := H_Finished (FinishedHolderState_new
               (build_problem_report_msg uuid (Some (format_error err)) (hs_thread_id self)))\<rparr>), w')
        | (Panic, w') \<Rightarrow> (Panic, w'))
   | _ \<Rightarrow> (Ok self, w))"

definition holder_decline_offer :: "string \<Rightarrow> HolderSM \<Rightarrow> string option \<Rightarrow> HolderSM VcxResult" where
  "holder_decline_offer uuid self comment = (case hs_state self of
     H_OfferReceived _ \<Rightarrow>
       Ok (self\<lparr>hs_state := H_Finished (FinishedHolderState_new
         (build_problem_report_msg uuid comment (hs_thread_id self)))\<rparr>)
   | _ \<Rightarrow> Ok self)"

definition holder_receive_credential ::
  "ext \<Rightarrow> codec \<Rightarrow> 'm ledger \<Rightarrow> 'w anoncreds \<Rightarrow> 'w \<Rightarrow> string \<Rightarrow> HolderSM \<Rightarrow> IssueCredentialV1 \<Rightarrow>
   HolderSM VcxResult \<times> 'w" where
  "holder_receive_credential E C L A w uuid self credential = (case hs_state self of
     H_RequestSet state_data \<Rightarrow>
       and_thenw (pure_w (from_ledger (lg_get_schema L (rss_schema_id state_data) None)) w) (\<lambda>schema w.
         let schema_json = x_json_print E schema in
         case store_credential E C L A w credential (rss_req_meta state_data)
                (rss_cred_def_json state_data) schema_json of
           (Ok (cred_id, rev_reg_def_json), w') \<Rightarrow>
             (Ok (self\<lparr>hs_state := H_Finished
                (FinishedHolderState_from cred_id credential rev_reg_def_json)\<rparr>), w')
         | (Err err, w') \<Rightarrow>
             (Ok (self\<lparr>hs_state := H_Finished (FinishedHolderState_new
                (build_problem_report_msg uuid (Some (format_error err)) (hs_thread_id self)))\<rparr>), w')
         | (Panic, w') \<Rightarrow> (Panic, w'))
   | _ \<Rightarrow> (Ok self, w))"

definition holder_receive_problem_report :: "HolderSM \<Rightarrow> ProblemReport \<Rightarrow> HolderSM VcxResult" where
  "holder_receive_problem_report self problem_report = (case hs_state self of
     H_ProposalSet _ \<Rightarrow> Ok (self\<lparr>hs_state := H_Finished (FinishedHolderState_new problem_report)\<rparr>)
   | H_RequestSet _ \<Rightarrow> Ok (self\<lparr>hs_state := H_Finished (FinishedHolderState_new problem_report)\<rparr>)
   | _ \<Rightarrow> Ok self)"

section \<open>Views\<close>

definition holder_get_state :: "HolderSM \<Rightarrow> HolderState" where
  "holder_get_state self = (case hs_state self of
     H_Initial \<Rightarrow> Hs_Initial
   | H_ProposalSet _ \<Rightarrow> Hs_ProposalSet
   | H_OfferReceived _ \<Rightarrow> Hs_OfferReceived
   | H_RequestSet _ \<Rightarrow> Hs_RequestSet
   | H_Finished f \<Rightarrow> (case fhs_status f of Success \<Rightarrow> Hs_Finished | _ \<Rightarrow> Hs_Failed))"

definition holder_get_proposal :: "HolderSM \<Rightarrow> ProposeCredentialV1 VcxResult" where
  "holder_get_proposal self = (case hs_state self of
     H_ProposalSet proposal \<Rightarrow> Ok proposal
   | _ \<Rightarrow> vcx_err InvalidState ''Proposal not available in this state'')"

definition holder_credential_status :: "HolderSM \<Rightarrow> u32" where
  "holder_credential_status self = (case hs_state self of
     H_Finished state \<Rightarrow> status_code (fhs_status state)
   | _ \<Rightarrow> status_code Undefined)"

definition holder_is_terminal_state :: "HolderSM \<Rightarrow> bool" where
  "holder_is_terminal_state self = (case hs_state self of H_Finished _ \<Rightarrow> True | _ \<Rightarrow> False)"

definition holder_get_credential :: "HolderSM \<Rightarrow> (string \<times> AriesMessage) VcxResult" where
  "holder_get_credential self = (case hs_state self of
     H_Finished state \<Rightarrow>
       and_then (ok_or (fhs_cred_id state) (from_msg InvalidState
         ''Cannot get credential: Credential Id not found'')) (\<lambda>cred_id.
       and_then (ok_or (fhs_credential state) (from_msg InvalidState
         ''Cannot get credential: Credential not found'')) (\<lambda>credential.
         Ok (cred_id, ci1_msg (CI1_IssueCredential credential))))
   | _ \<Rightarrow> vcx_err NotReady ''Cannot get credential: Credential Issuance is not finished yet'')"

definition holder_get_attributes :: "ext \<Rightarrow> codec \<Rightarrow> HolderSM \<Rightarrow> string VcxResult" where
  "holder_get_attributes E C self = (case hs_state self of
     H_Finished state \<Rightarrow> finished_get_attributes E C state
   | H_OfferReceived offer \<Rightarrow> offer_get_attributes E offer
   | _ \<Rightarrow> vcx_err NotReady (''Cannot get credential attributes: credential offer or credential must be ''
       @ ''receieved first''))"

definition holder_get_attachment :: "ext \<Rightarrow> HolderSM \<Rightarrow> string VcxResult" where
  "holder_get_attachment E self = (case hs_state self of
     H_Finished state \<Rightarrow> finished_get_attachment E state
   | H_OfferReceived offer \<Rightarrow> offer_get_attachment E offer
   | _ \<Rightarrow> vcx_err NotReady (''Cannot get credential attachment: credential offer or credential must be ''
       @ ''receieved first''))"

definition holder_get_tails_location :: "ext \<Rightarrow> HolderSM \<Rightarrow> string VcxResult" where
  "holder_get_tails_location E self = (case hs_state self of
     H_Finished state \<Rightarrow> finished_get_tails_location E state
   | _ \<Rightarrow> vcx_err NotReady ''Cannot get tails location: credential exchange not finished yet'')"

definition holder_get_tails_hash :: "ext \<Rightarrow> HolderSM \<Rightarrow> string VcxResult" where
  "holder_get_tails_hash E self = (case hs_state self of
     H_Finished state \<Rightarrow> finished_get_tails_hash E state
   | _ \<Rightarrow> vcx_err NotReady ''Cannot get tails hash: credential exchange not finished yet'')"

definition holder_get_rev_reg_id :: "ext \<Rightarrow> HolderSM \<Rightarrow> string VcxResult" where
  "holder_get_rev_reg_id E self = (case hs_state self of
     H_Finished state \<Rightarrow> finished_get_rev_reg_id E state
   | _ \<Rightarrow> vcx_err NotReady ''Cannot get rev reg id: credential exchange not finished yet'')"

definition holder_get_cred_id :: "HolderSM \<Rightarrow> string VcxResult" where
  "holder_get_cred_id self = (case hs_state self of
     H_Finished state \<Rightarrow> finished_get_cred_id state
   | _ \<Rightarrow> vcx_err NotReady ''Cannot get credential id: credential exchange not finished yet'')"

definition holder_get_offer :: "HolderSM \<Rightarrow> OfferCredentialV1 VcxResult" where
  "holder_get_offer self = (case hs_state self of
     H_OfferReceived offer \<Rightarrow> Ok offer
   | _ \<Rightarrow> vcx_err InvalidState ''Credential offer can only be obtained from OfferReceived state'')"

definition holder_is_revokable :: "ext \<Rightarrow> 'm ledger \<Rightarrow> HolderSM \<Rightarrow> bool VcxResult" where
  "holder_is_revokable E L self = (case hs_state self of
     H_Initial \<Rightarrow> vcx_err InvalidState ''Revocation information not available in the initial state''
   | H_ProposalSet proposal \<Rightarrow> is_cred_def_revokable L (prc_cred_def_id (mp_content proposal))
   | H_OfferReceived offer \<Rightarrow> offer_is_revokable E L offer
   | H_RequestSet state \<Rightarrow> request_is_revokable E state
   | H_Finished state \<Rightarrow> Ok (fhs_rev_reg_def_json state \<noteq> None))"

definition holder_is_revoked ::
  "ext \<Rightarrow> 'm ledger \<Rightarrow> 'w anoncreds \<Rightarrow> 'w \<Rightarrow> u64 \<Rightarrow> HolderSM \<Rightarrow> bool VcxResult \<times> 'w" where
  "holder_is_revoked E L A w now self =
     and_thenw (pure_w (holder_is_revokable E L self) w) (\<lambda>revokable w.
       if revokable then
         and_thenw (pure_w (holder_get_rev_reg_id E self) w) (\<lambda>rev_reg_id w.
         and_thenw (pure_w (holder_get_cred_id self) w) (\<lambda>cred_id w.
         and_thenw (get_cred_rev_id A w cred_id) (\<lambda>rev_id.
           pure_w (is_cred_revoked L now rev_reg_id rev_id))))
       else pure_w (vcx_err InvalidState
         ''Unable to check revocation status - this credential is not revokable'') w)"

definition holder_delete_credential :: "'w anoncreds \<Rightarrow> 'w \<Rightarrow> HolderSM \<Rightarrow> unit VcxResult \<times> 'w" where
  "holder_delete_credential A w self = (case hs_state self of
     H_Finished state \<Rightarrow>
       and_thenw (pure_w (ok_or (fhs_cred_id state) (from_msg InvalidState
         ''Cannot get credential: credential id not found'')) w) (\<lambda>cred_id w.
         anon_w (ac_prover_delete_credential A w cred_id))
   | _ \<Rightarrow> (vcx_err NotReady ''Cannot delete credential: credential issuance is not finished yet'', w))"

definition holder_get_problem_report :: "HolderSM \<Rightarrow> ProblemReport VcxResult" where
  "holder_get_problem_report self =
     (let err = vcx_err NotReady ''No problem report available in current state''
      in case hs_state self of
           H_Finished state \<Rightarrow>
             (case fhs_status state of
                Failed problem_report \<Rightarrow> Ok problem_report
              | Declined problem_report \<Rightarrow> Ok problem_report
              | _ \<Rightarrow> err)
         | _ \<Rightarrow> err)"

section \<open>The handler\<close>

record Holder =
  holder_sm :: HolderSM

definition assign_holder :: "Holder \<Rightarrow> HolderSM VcxResult \<Rightarrow> unit VcxResult \<times> Holder" where
  "assign_holder self r = (map_ok (\<lambda>_. ()) r,
     case r of Ok sm \<Rightarrow> self\<lparr>holder_sm := sm\<rparr> | _ \<Rightarrow> self)"

definition build_credential_ack :: "string \<Rightarrow> DateTime \<Rightarrow> string \<Rightarrow> Ack" where
  "build_credential_ack uuid now thread_id =
     \<lparr>mp_id = uuid, mp_content = \<lparr>ack_status = Ack_Ok\<rparr>,
      mp_decorators = \<lparr>ak_thread = new_thread thread_id, ak_timing = Some (timing_out now)\<rparr>\<rparr>"

definition Holder_create :: "string \<Rightarrow> string \<Rightarrow> Holder VcxResult" where
  "Holder_create uuid source_id = Ok \<lparr>holder_sm = holder_new uuid source_id\<rparr>"

definition Holder_create_with_proposal :: "string \<Rightarrow> ProposeCredentialV1 \<Rightarrow> Holder VcxResult" where
  "Holder_create_with_proposal source_id proposal =
     Ok \<lparr>holder_sm = holder_with_proposal proposal source_id\<rparr>"

definition Holder_create_from_offer :: "string \<Rightarrow> OfferCredentialV1 \<Rightarrow> Holder VcxResult" where
  "Holder_create_from_offer source_id offer = Ok \<lparr>holder_sm = holder_from_offer offer source_id\<rparr>"

definition Holder_set_proposal :: "ext \<Rightarrow> Holder \<Rightarrow> ProposeCredentialV1 \<Rightarrow> unit VcxResult \<times> Holder" where
  "Holder_set_proposal E self proposal =
     assign_holder self (holder_set_proposal E (holder_sm self) proposal)"

definition Holder_get_msg_credential_request :: "DateTime \<Rightarrow> Holder \<Rightarrow> RequestCredentialV1 VcxResult" where
  "Holder_get_msg_credential_request now self = (case hs_state (holder_sm self) of
     H_RequestSet state \<Rightarrow>
       (let m = rss_msg_credential_request state in
        Ok (m\<lparr>mp_decorators := (mp_decorators m)\<lparr>od_timing := Some (timing_out now)\<rparr>\<rparr>))
   | _ \<Rightarrow> vcx_err NotReady ''Invalid action'')"

definition Holder_prepare_credential_request ::
  "ext \<Rightarrow> codec \<Rightarrow> 'm ledger \<Rightarrow> 'w anoncreds \<Rightarrow> 'w \<Rightarrow> string \<Rightarrow> DateTime \<Rightarrow> Holder \<Rightarrow> string \<Rightarrow>
   (AriesMessage VcxResult \<times> Holder) \<times> 'w" where
  "Holder_prepare_credential_request E C L A w uuid now self my_pw_did =
     (case holder_prepare_credential_request E C L A w uuid now (holder_sm self) my_pw_did of
        (r, w') \<Rightarrow>
          (case assign_holder self r of
             (Ok _, self') \<Rightarrow>
               ((case holder_get_state (holder_sm self') of
                   Hs_Failed \<Rightarrow>
                     and_then (holder_get_problem_report (holder_sm self')) (\<lambda>pr. Ok (ReportProblem pr))
                 | Hs_RequestSet \<Rightarrow>
                     and_then (Holder_get_msg_credential_request now self') (\<lambda>m.
                       Ok (ci1_msg (CI1_RequestCredential m)))
                 | _ \<Rightarrow> vcx_err InvalidState
                     (''Holder::prepare_credential_request >> reached unexpected state after calling ''
                      @ ''prepare_credential_request''), self'), w')
           | (Err e, self') \<Rightarrow> ((Err e, self'), w')
           | (Panic, self') \<Rightarrow> ((Panic, self'), w')))"

definition Holder_decline_offer ::
  "string \<Rightarrow> Holder \<Rightarrow> string option \<Rightarrow> ProblemReport VcxResult \<times> Holder" where
  "Holder_decline_offer uuid self comment =
     (case assign_holder self (holder_decline_offer uuid (holder_sm self) comment) of
        (Ok _, self') \<Rightarrow> (holder_get_problem_report (holder_sm self'), self')
      | (Err e, self') \<Rightarrow> (Err e, self')
      | (Panic, self') \<Rightarrow> (Panic, self'))"

definition Holder_process_credential ::
  "ext \<Rightarrow> codec \<Rightarrow> 'm ledger \<Rightarrow> 'w anoncreds \<Rightarrow> 'w \<Rightarrow> string \<Rightarrow> Holder \<Rightarrow> IssueCredentialV1 \<Rightarrow>
   (unit VcxResult \<times> Holder) \<times> 'w" where
  "Holder_process_credential E C L A w uuid self credential =
     (case holder_receive_credential E C L A w uuid (holder_sm self) credential of
        (r, w') \<Rightarrow> (assign_holder self r, w'))"

definition Holder_process_aries_msg ::
  "ext \<Rightarrow> codec \<Rightarrow> 'm ledger \<Rightarrow> 'w anoncreds \<Rightarrow> 'w \<Rightarrow> string \<Rightarrow> Holder \<Rightarrow> AriesMessage \<Rightarrow>
   (unit VcxResult \<times> Holder) \<times> 'w" where
  "Holder_process_aries_msg E C L A w uuid self message = (case message of
     CredentialIssuance (CI_V1 (CI1_OfferCredential offer)) \<Rightarrow>
       (assign_holder self (holder_receive_offer E (holder_sm self) offer), w)
   | CredentialIssuance (CI_V1 (CI1_IssueCredential credential)) \<Rightarrow>
       (case holder_receive_credential E C L A w uuid (holder_sm self) credential of
          (r, w') \<Rightarrow> (assign_holder self r, w'))
   | ReportProblem report \<Rightarrow>
       (assign_holder self (holder_receive_problem_report (holder_sm self) report), w)
   | _ \<Rightarrow> (assign_holder self (Ok (holder_sm self)), w))"

definition Holder_get_cred_rev_id :: "'w anoncreds \<Rightarrow> 'w \<Rightarrow> Holder \<Rightarrow> u32 VcxResult \<times> 'w" where
  "Holder_get_cred_rev_id A w self =
     and_thenw (pure_w (holder_get_cred_id (holder_sm self)) w) (\<lambda>cred_id w. get_cred_rev_id A w cred_id)"

definition Holder_handle_revocation_notification ::
  "ext \<Rightarrow> 'm ledger \<Rightarrow> 'w anoncreds \<Rightarrow> 'w \<Rightarrow> Holder \<Rightarrow> Revoke \<Rightarrow> unit VcxResult \<times> 'w" where
  "Holder_handle_revocation_notification E L A w self notification =
     and_thenw (pure_w (holder_is_revokable E L (holder_sm self)) w) (\<lambda>revokable w.
       if revokable then
         and_thenw (pure_w (holder_get_rev_reg_id E (holder_sm self)) w) (\<lambda>rev_reg_id w.
         and_thenw (Holder_get_cred_rev_id A w self) (\<lambda>cred_rev_id.
           pure_w (and_then (receiver_handle_revocation_notification
             (receiver_create rev_reg_id cred_rev_id) notification) (\<lambda>_. Ok ()))))
       else pure_w (vcx_err InvalidState
         ''Unexpected revocation notification, credential is not revokable'') w)"

definition Holder_get_final_message :: "string \<Rightarrow> DateTime \<Rightarrow> Holder \<Rightarrow> AriesMessage option VcxResult" where
  "Holder_get_final_message uuid now self = (case hs_state (holder_sm self) of
     H_Finished state \<Rightarrow>
       if fhs_ack_requested state = Some True
       then Ok (Some (ci1_msg (CI1_Ack (build_credential_ack uuid now (hs_thread_id (holder_sm self))))))
       else Ok None
   | _ \<Rightarrow> Ok None)"

section \<open>Runs\<close>

text \<open>One step is one successful call of a transition of the machine, with any input.\<close>

inductive holder_step :: "ext \<Rightarrow> codec \<Rightarrow> 'm ledger \<Rightarrow> 'w anoncreds \<Rightarrow> HolderSM \<Rightarrow> HolderSM \<Rightarrow> bool"
  for E :: ext and C :: codec and L :: "'m ledger" and A :: "'w anoncreds" where
  proposal: "holder_set_proposal E s p = Ok t \<Longrightarrow> holder_step E C L A s t"
| offer: "holder_receive_offer E s off = Ok t \<Longrightarrow> holder_step E C L A s t"
| prepare: "holder_prepare_credential_request E C L A w uuid now s did = (Ok t, w') \<Longrightarrow>
    holder_step E C L A s t"
| decline: "holder_decline_offer uuid s com = Ok t \<Longrightarrow> holder_step E C L A s t"
| credential: "holder_receive_credential E C L A w uuid s cred = (Ok t, w') \<Longrightarrow> holder_step E C L A s t"
| report: "holder_receive_problem_report s pr = Ok t \<Longrightarrow> holder_step E C L A s t"

text \<open>The abstract protocol of RFC 0036 on the holder's side.\<close>

definition holder_edge :: "HolderState \<Rightarrow> HolderState \<Rightarrow> bool" where
  "holder_edge p q \<longleftrightarrow> (p, q) \<in>
     {(Hs_Initial, Hs_ProposalSet), (Hs_ProposalSet, Hs_OfferReceived), (Hs_ProposalSet, Hs_Failed),
      (Hs_OfferReceived, Hs_ProposalSet), (Hs_OfferReceived, Hs_RequestSet),
      (Hs_OfferReceived, Hs_Failed), (Hs_RequestSet, Hs_Finished), (Hs_RequestSet, Hs_Failed)}"

definition holder_terminal :: "HolderState \<Rightarrow> bool" where
  "holder_terminal p \<longleftrightarrow> p \<in> {Hs_Finished, Hs_Failed}"

lemmas holder_finish = FinishedHolderState_new_def FinishedHolderState_from_def

lemma holder_phase [simp]:
  "holder_get_state (s\<lparr>hs_state := H_ProposalSet p\<rparr>) = Hs_ProposalSet"
  "holder_get_state (s\<lparr>hs_state := H_OfferReceived off\<rparr>) = Hs_OfferReceived"
  "holder_get_state (s\<lparr>hs_state := H_RequestSet rs\<rparr>) = Hs_RequestSet"
  "holder_get_state (s\<lparr>hs_state := H_Finished (FinishedHolderState_new pr)\<rparr>) = Hs_Failed"
  "holder_get_state (s\<lparr>hs_state := H_Finished (FinishedHolderState_from i c r)\<rparr>) = Hs_Finished"
  by (simp_all add: holder_get_state_def holder_finish)

lemma holder_phase_of:
  "hs_state s = H_Initial \<Longrightarrow> holder_get_state s = Hs_Initial"
  "hs_state s = H_ProposalSet p \<Longrightarrow> holder_get_state s = Hs_ProposalSet"
  "hs_state s = H_OfferReceived off \<Longrightarrow> holder_get_state s = Hs_OfferReceived"
  "hs_state s = H_RequestSet rs \<Longrightarrow> holder_get_state s = Hs_RequestSet"
  by (simp_all add: holder_get_state_def)

text \<open>
  Where the contents of a state come from. \<open>answers_offer\<close>: the state of a request is what answering
  an offer of the thread gives, the back end's request for the definition the ledger has.
  \<open>stored_from\<close>: the credential is stored from the attachment of the message, with the metadata and the
  definition of the request, the ledger's schema, and the ledger's registry definition when the
  credential names one.
\<close>

definition answers_offer ::
  "ext \<Rightarrow> codec \<Rightarrow> 'm ledger \<Rightarrow> 'w anoncreds \<Rightarrow> string \<Rightarrow> OfferCredentialV1 \<Rightarrow> RequestSetState \<Rightarrow> bool" where
  "answers_offer E C L A th off rs \<longleftrightarrow>
     od_thread (mp_decorators (rss_msg_credential_request rs)) = Some (new_thread th) \<and>
     (\<exists>text o' cdj clone w did r meta w'.
        get_attach_as_string E (ofc_offers_attach (mp_content off)) = Ok text \<and> c_de_offer C text = Ok o' \<and>
        lg_get_cred_def L (co_cred_def_id o') None = Ok cdj \<and> c_clone_cred_def C cdj = Ok clone \<and>
        ac_prover_create_credential_req A w did o' clone DEFAULT_LINK_SECRET_ALIAS = (Ok (r, meta), w') \<and>
        rqc_requests_attach (mp_content (rss_msg_credential_request rs)) =
          [make_attach_from_str E (c_ser_request C r) (AttachmentId_as_ref Att_CredentialRequest)] \<and>
        rss_req_meta rs = x_json_print E meta \<and> rss_cred_def_json rs = x_json_print E cdj \<and>
        rss_schema_id rs = co_schema_id o')"

definition registry_named :: "ext \<Rightarrow> 'm ledger \<Rightarrow> string \<Rightarrow> json option \<Rightarrow> bool" where
  "registry_named E L text rrd \<longleftrightarrow>
     (\<exists>i. parse_rev_reg_id_from_credential E text = Ok i \<and>
        (case i of
           None \<Rightarrow> rrd = None
         | Some i \<Rightarrow> \<exists>r j x. vcx_rev_reg_def_id i = Ok r \<and> lg_get_rev_reg_def_json L r = Ok (j, x) \<and> rrd = Some j))"

definition stored_with ::
  "ext \<Rightarrow> codec \<Rightarrow> 'm ledger \<Rightarrow> 'w anoncreds \<Rightarrow> IssueCredentialV1 \<Rightarrow> string \<Rightarrow> string \<Rightarrow> string \<Rightarrow> string \<Rightarrow>
   string option \<Rightarrow> bool" where
  "stored_with E C L A cred meta cdj schema cred_id rr \<longleftrightarrow>
     (\<exists>text m c sch cd rrd w w'.
        get_attach_as_string E (isc_credentials_attach (mp_content cred)) = Ok text \<and> c_de_credential C text = Ok c \<and>
        c_de_metadata C meta = Ok m \<and> c_de_schema C schema = Ok sch \<and> c_de_cred_def C cdj = Ok cd \<and>
        registry_named E L text rrd \<and> ac_prover_store_credential A w m c sch cd rrd = (Ok cred_id, w') \<and>
        rr = map_option (x_json_print E) rrd)"

definition stored_from ::
  "ext \<Rightarrow> codec \<Rightarrow> 'm ledger \<Rightarrow> 'w anoncreds \<Rightarrow> RequestSetState \<Rightarrow> IssueCredentialV1 \<Rightarrow> string \<Rightarrow> string option \<Rightarrow> bool" where
  "stored_from E C L A rs cred cred_id rr \<longleftrightarrow>
     (\<exists>schema. lg_get_schema L (rss_schema_id rs) None = Ok schema \<and>
        stored_with E C L A cred (rss_req_meta rs) (rss_cred_def_json rs) (x_json_print E schema) cred_id rr)"

text \<open>The moves of the machine; every successful call is one of them.\<close>

inductive holder_move :: "ext \<Rightarrow> codec \<Rightarrow> 'm ledger \<Rightarrow> 'w anoncreds \<Rightarrow> HolderSM \<Rightarrow> HolderSM \<Rightarrow> bool"
  for E :: ext and C :: codec and L :: "'m ledger" and A :: "'w anoncreds" where
  stay: "holder_move E C L A s s"
| propose: "hs_state s = H_Initial \<or> hs_state s = H_OfferReceived off \<Longrightarrow>
    holder_move E C L A s (s\<lparr>hs_state := H_ProposalSet (p\<lparr>mp_id := hs_thread_id s\<rparr>)\<rparr>)"
| take_offer: "hs_state s = H_ProposalSet p \<Longrightarrow>
    is_match (ci1_msg (CI1_OfferCredential off)) (hs_thread_id s) \<Longrightarrow>
    holder_move E C L A s (s\<lparr>hs_state := H_OfferReceived off\<rparr>)"
| request: "hs_state s = H_OfferReceived off \<Longrightarrow> answers_offer E C L A (hs_thread_id s) off rs \<Longrightarrow>
    holder_move E C L A s (s\<lparr>hs_state := H_RequestSet rs\<rparr>)"
| fail_own: "hs_state s = H_OfferReceived off \<or> hs_state s = H_RequestSet rs \<Longrightarrow>
    holder_move E C L A s (s\<lparr>hs_state := H_Finished (FinishedHolderState_new
      (build_problem_report_msg uuid com (hs_thread_id s)))\<rparr>)"
| store: "hs_state s = H_RequestSet rs \<Longrightarrow> stored_from E C L A rs cred cred_id rr \<Longrightarrow>
    holder_move E C L A s (s\<lparr>hs_state := H_Finished (FinishedHolderState_from cred_id cred rr)\<rparr>)"
| fail_peer: "hs_state s = H_ProposalSet p \<or> hs_state s = H_RequestSet rs \<Longrightarrow>
    holder_move E C L A s (s\<lparr>hs_state := H_Finished (FinishedHolderState_new pr)\<rparr>)"

lemma conversion_Ok: "from_ledger r = Ok x \<longleftrightarrow> r = Ok x" "from_serde q = Ok y \<longleftrightarrow> q = Ok y"
  by (cases r; simp) (cases q; simp)

lemma build_credential_request_msg_Ok:
  assumes "build_credential_request_msg E C L A w uuid now th did off = (Ok (req, meta, cd, sch), w')"
  shows "answers_offer E C L A th off \<lparr>rss_req_meta = meta, rss_cred_def_json = cd, rss_schema_id = sch,
    rss_msg_credential_request = req\<rparr>"
proof -
  from assms obtain o_text r m where attached: "get_attach_as_string E (ofc_offers_attach (mp_content off)) = Ok o_text"
    and made: "create_anoncreds_credential_request E C L A w did o_text = (Ok (r, meta, m, cd, sch), w')"
    and req: "req = build_credential_request E uuid now r th"
    by (auto simp: build_credential_request_msg_def and_thenw_Ok pure_w_def)
  from made obtain o' cdj clone where parts: "c_de_offer C o_text = Ok o'"
    "lg_get_cred_def L (co_cred_def_id o') None = Ok cdj" "c_clone_cred_def C cdj = Ok clone"
    and rest: "(case ac_prover_create_credential_req A w did o' clone DEFAULT_LINK_SECRET_ALIAS of (q, w1) \<Rightarrow>
      (map_ok (\<lambda>(s1, s2). (c_ser_request C s1, x_json_print E s2, co_cred_def_id o', x_json_print E cdj, co_schema_id o'))
         (map_err (\<lambda>err. from_msg InvalidState (''Cannot create credential request; '' @ show_anoncreds_error err)) q), w1))
      = (Ok (r, meta, m, cd, sch), w')"
    unfolding create_anoncreds_credential_request_def and_thenw_Ok pure_w_def
    by (auto simp: conversion_Ok)
  from rest obtain s1 s2 where
    "ac_prover_create_credential_req A w did o' clone DEFAULT_LINK_SECRET_ALIAS = (Ok (s1, s2), w')"
    "r = c_ser_request C s1" "meta = x_json_print E s2" "cd = x_json_print E cdj" "sch = co_schema_id o'"
    by (auto split: prod.splits)
  with parts attached req show ?thesis unfolding answers_offer_def by (simp add: build_credential_request_def) blast
qed

lemma store_credential_Ok:
  assumes "store_credential E C L A w cred meta cdj schema = (Ok (cred_id, rr), w')"
  shows "stored_with E C L A cred meta cdj schema cred_id rr"
proof -
  from assms obtain c_text i rrd m c sch cd where
    parts: "get_attach_as_string E (isc_credentials_attach (mp_content cred)) = Ok c_text"
      "parse_rev_reg_id_from_credential E c_text = Ok i"
      "c_de_metadata C meta = Ok m" "c_de_credential C c_text = Ok c" "c_de_schema C schema = Ok sch" "c_de_cred_def C cdj = Ok cd"
    and rrd: "case i of None \<Rightarrow> rrd = None
      | Some i \<Rightarrow> \<exists>r j x. vcx_rev_reg_def_id i = Ok r \<and> lg_get_rev_reg_def_json L r = Ok (j, x) \<and> rrd = Some j"
    and st: "anon_w (ac_prover_store_credential A w m c sch cd rrd) = (Ok cred_id, w')" and rr: "rr = map_option (x_json_print E) rrd"
    by (auto simp: store_credential_def and_thenw_Ok pure_w_def conversion_Ok split: option.splits simp del: and_thenw_pure)
  from st have "ac_prover_store_credential A w m c sch cd rrd = (Ok cred_id, w')"
    by (cases "ac_prover_store_credential A w m c sch cd rrd") (auto simp: anon_w_def from_anon_def)
  with parts rrd rr show ?thesis unfolding stored_with_def registry_named_def by blast
qed

lemma holder_step_move: "holder_step E C L A s t \<Longrightarrow> holder_move E C L A s t"
proof (induction rule: holder_step.induct)
  case (proposal s p t)
  then show ?case
    by (cases "hs_state s")
      (auto simp: holder_set_proposal_def Let_def intro: holder_move.stay holder_move.propose)
next
  case (offer s off t)
  then show ?case
    by (cases "hs_state s")
      (auto simp: holder_receive_offer_def intro: holder_move.stay holder_move.take_offer)
next
  case (prepare w uuid now s did t w')
  then show ?case
    by (cases "hs_state s")
      (auto simp: holder_prepare_credential_request_def split: prod.splits result.splits
        dest: build_credential_request_msg_Ok
        intro: holder_move.stay holder_move.request holder_move.fail_own)
next
  case (decline uuid s com t)
  then show ?case
    by (cases "hs_state s")
      (auto simp: holder_decline_offer_def intro: holder_move.stay holder_move.fail_own)
next
  case (credential w uuid s cred t w')
  then show ?case
    by (cases "hs_state s")
      (auto simp: holder_receive_credential_def Let_def split: prod.splits result.splits
        dest!: store_credential_Ok conversion_Ok(1) [THEN iffD1]
        intro: holder_move.stay holder_move.fail_own holder_move.store [unfolded stored_from_def])
next
  case (report s pr t)
  then show ?case
    by (cases "hs_state s")
      (auto simp: holder_receive_problem_report_def intro: holder_move.stay holder_move.fail_peer)
qed

interpretation holder: threaded_machine
  "holder_step E C L A" holder_get_state holder_edge holder_terminal hs_source_id hs_thread_id
  "\<lambda>_. False"
proof
  fix s t
  assume "holder_step E C L A s t"
  then have move: "holder_move E C L A s t" by (rule holder_step_move)
  show "holder_get_state t = holder_get_state s \<or> holder_edge (holder_get_state s) (holder_get_state t)"
    using move by cases (auto simp: holder_edge_def holder_phase_of)
  show "holder_terminal (holder_get_state s) \<Longrightarrow> t = s"
    using move by cases (auto simp: holder_terminal_def holder_phase_of)
  show "hs_source_id t = hs_source_id s" using move by cases simp_all
  show "hs_thread_id t = hs_thread_id s" using move by cases simp_all
qed auto

section \<open>The invariant\<close>

definition holder_inv :: "ext \<Rightarrow> codec \<Rightarrow> 'm ledger \<Rightarrow> 'w anoncreds \<Rightarrow> HolderSM \<Rightarrow> bool" where
  "holder_inv E C L A s \<longleftrightarrow> (case hs_state s of
     H_Initial \<Rightarrow> True
   | H_ProposalSet p \<Rightarrow> mp_id p = hs_thread_id s
   | H_OfferReceived off \<Rightarrow> mp_id off = hs_thread_id s
       \<or> is_match (ci1_msg (CI1_OfferCredential off)) (hs_thread_id s)
   | H_RequestSet rs \<Rightarrow> (\<exists>off. (mp_id off = hs_thread_id s
         \<or> is_match (ci1_msg (CI1_OfferCredential off)) (hs_thread_id s))
       \<and> answers_offer E C L A (hs_thread_id s) off rs)
   | H_Finished f \<Rightarrow> (\<exists>pr. f = FinishedHolderState_new pr)
       \<or> (\<exists>rs cred_id cred rr. f = FinishedHolderState_from cred_id cred rr
            \<and> stored_from E C L A rs cred cred_id rr))"

lemma holder_move_inv: "holder_move E C L A s t \<Longrightarrow> holder_inv E C L A s \<Longrightarrow> holder_inv E C L A t"
  by (induction rule: holder_move.induct) (auto simp: holder_inv_def)

lemma holder_steps_inv: "(holder_step E C L A)\<^sup>*\<^sup>* s t \<Longrightarrow> holder_inv E C L A s \<Longrightarrow> holder_inv E C L A t"
  by (induction rule: rtranclp_induct) (auto dest: holder_step_move holder_move_inv)

text \<open>The machines a client can hold.\<close>

definition holder_reachable :: "ext \<Rightarrow> codec \<Rightarrow> 'm ledger \<Rightarrow> 'w anoncreds \<Rightarrow> HolderSM \<Rightarrow> bool" where
  "holder_reachable E C L A t \<longleftrightarrow>
     (\<exists>s. (holder_step E C L A)\<^sup>*\<^sup>* s t \<and>
       ((\<exists>uuid src. s = holder_new uuid src) \<or> (\<exists>off src. s = holder_from_offer off src)
        \<or> (\<exists>p src. s = holder_with_proposal p src)))"

lemma holder_start_inv:
  "holder_inv E C L A (holder_new uuid src)" "holder_inv E C L A (holder_from_offer off src)"
  "holder_inv E C L A (holder_with_proposal p src)"
  by (simp_all add: holder_inv_def holder_new_def holder_from_offer_def holder_with_proposal_def)

lemma holder_reachable_inv: "holder_reachable E C L A t \<Longrightarrow> holder_inv E C L A t"
  by (auto simp: holder_reachable_def dest: holder_steps_inv [OF _ holder_start_inv(1)]
      holder_steps_inv [OF _ holder_start_inv(2)] holder_steps_inv [OF _ holder_start_inv(3)])

lemmas holder_view_defs [vcx_views] = holder_get_state_def holder_get_credential_def holder_get_cred_id_def
  finished_get_cred_id_def Holder_get_final_message_def holder_get_problem_report_def Let_def
  holder_credential_status_def

section \<open>When the work succeeds\<close>

lemma build_credential_request_msg_succeeds:
  assumes "get_attach_as_string E (ofc_offers_attach (mp_content off)) = Ok o_text"
    and "c_de_offer C o_text = Ok o'"
    and "lg_get_cred_def L (co_cred_def_id o') None = Ok cdj" and "c_clone_cred_def C cdj = Ok clone"
    and "ac_prover_create_credential_req A w did o' clone DEFAULT_LINK_SECRET_ALIAS = (Ok (r, meta), w')"
  shows "build_credential_request_msg E C L A w uuid now th did off
    = (Ok (build_credential_request E uuid now (c_ser_request C r) th, x_json_print E meta,
         x_json_print E cdj, co_schema_id o'), w')"
  using assms
  by (simp add: build_credential_request_msg_def create_anoncreds_credential_request_def)
    (simp add: pure_w_def)

lemma store_credential_succeeds:
  assumes "get_attach_as_string E (isc_credentials_attach (mp_content cred)) = Ok c_text"
    and "x_json_parse E c_text = Ok pc"
    and "case as_str (json_index pc ''rev_reg_id'') of
           None \<Rightarrow> rrd = None
         | Some i \<Rightarrow> \<exists>rid j m. vcx_rev_reg_def_id i = Ok rid
             \<and> lg_get_rev_reg_def_json L rid = Ok (j, m) \<and> rrd = Some j"
    and "c_de_metadata C meta = Ok m" and "c_de_credential C c_text = Ok c"
    and "c_de_schema C sch = Ok sch'" and "c_de_cred_def C cd = Ok cd'"
    and "ac_prover_store_credential A w m c sch' cd' rrd = (Ok cred_id, w')"
  shows "store_credential E C L A w cred meta cd sch
    = (Ok (cred_id, map_option (x_json_print E) rrd), w')"
  using assms
  by (cases "as_str (json_index pc ''rev_reg_id'')")
    (auto simp: store_credential_def parse_rev_reg_id_from_credential_def pure_w_def)

text \<open>A concrete run up to the stored credential, on the sample back ends.\<close>

definition sample_holder_offered :: HolderSM where
  "sample_holder_offered = holder_from_offer (the_ok (build_credential_offer sample_issue_ext 0 ''t''
     ''offer'' \<lparr>preview_attributes = [plain_attr ''age'' ''42'']\<rparr> None)) ''h''"

definition sample_request_state :: RequestSetState where
  "sample_request_state = \<lparr>rss_req_meta = [], rss_cred_def_json = [], rss_schema_id = ''s:1'',
     rss_msg_credential_request = build_credential_request sample_issue_ext ''u'' 0 ''request'' ''t''\<rparr>"

definition sample_holder_requested :: HolderSM where
  "sample_holder_requested =
     \<lparr>hs_state = H_RequestSet sample_request_state, hs_source_id = ''h'', hs_thread_id = ''t''\<rparr>"

definition sample_issued_msg :: IssueCredentialV1 where
  "sample_issued_msg = build_credential_message sample_issue_ext sample_codec ''m'' sample_credential ''t''"

definition sample_holder_finished :: HolderSM where
  "sample_holder_finished = \<lparr>hs_state = H_Finished (FinishedHolderState_from ''cred-1''
     sample_issued_msg None), hs_source_id = ''h'', hs_thread_id = ''t''\<rparr>"

lemma sample_holder_offered_eq:
  "hs_state sample_holder_offered = H_OfferReceived (the_ok (build_credential_offer sample_issue_ext 0
     ''t'' ''offer'' \<lparr>preview_attributes = [plain_attr ''age'' ''42'']\<rparr> None))"
  "hs_thread_id sample_holder_offered = ''t''" "hs_source_id sample_holder_offered = ''h''"
  by (simp_all add: sample_holder_offered_def holder_from_offer_def build_credential_offer_def)

lemma sample_holder_requested:
  "holder_prepare_credential_request sample_issue_ext sample_codec sample_ledger sample_anoncreds ()
     ''u'' 0 sample_holder_offered ''did'' = (Ok sample_holder_requested, ())"
proof -
  have "build_credential_request_msg sample_issue_ext sample_codec sample_ledger sample_anoncreds ()
     ''u'' 0 ''t'' ''did'' (the_ok (build_credential_offer sample_issue_ext 0
     ''t'' ''offer'' \<lparr>preview_attributes = [plain_attr ''age'' ''42'']\<rparr> None))
     = (Ok (build_credential_request sample_issue_ext ''u'' 0 (c_ser_request sample_codec sample_request) ''t'',
         x_json_print sample_issue_ext JNull, x_json_print sample_issue_ext JNull,
         co_schema_id sample_offer), ())"
    by (rule build_credential_request_msg_succeeds [where o_text = "''offer''" and clone = JNull])
      (simp_all add: build_credential_offer_def sample_codec_def sample_ledger_def sample_anoncreds_def)
  then show ?thesis
    by (simp add: holder_prepare_credential_request_def sample_holder_offered_eq)
      (simp add: sample_holder_requested_def sample_request_state_def sample_holder_offered_def
        holder_from_offer_def build_credential_offer_def sample_defs sample_offer_def)
qed

lemma sample_no_rev_reg: "as_str (json_index (JObject [(''age'', JString ''42'')]) ''rev_reg_id'') = None"
  by code_simp

lemma sample_store:
  "store_credential sample_issue_ext sample_codec sample_ledger sample_anoncreds () sample_issued_msg
     meta cd sch = (Ok (''cred-1'', map_option (x_json_print sample_issue_ext) None), ())"
proof (rule store_credential_succeeds [where c_text = "''credential''"])
  show "x_json_parse sample_issue_ext ''credential'' = Ok (JObject [(''age'', JString ''42'')])"
    by (simp add: sample_ext_def)
qed (simp_all only: sample_no_rev_reg option.case,
    simp_all add: sample_issued_msg_def build_credential_message_def sample_codec_def sample_anoncreds_def)

lemma sample_holder_finished:
  "holder_receive_credential sample_issue_ext sample_codec sample_ledger sample_anoncreds () ''u''
     sample_holder_requested sample_issued_msg = (Ok sample_holder_finished, ())"
  by (simp add: holder_receive_credential_def sample_holder_requested_def sample_store sample_ledger_def
      Let_def) (simp add: sample_holder_finished_def flip: sample_ledger_def add: sample_store)

lemma sample_holder_run:
  "(holder_step sample_issue_ext sample_codec sample_ledger sample_anoncreds)\<^sup>*\<^sup>*
     sample_holder_offered sample_holder_finished"
  using holder_step.prepare [OF sample_holder_requested] holder_step.credential [OF sample_holder_finished]
  by (meson rtranclp.rtrancl_into_rtrancl rtranclp.rtrancl_refl)

section \<open>Properties\<close>

text \<open>
  Every run of the holder follows the protocol graph, never leaves a terminal state (the
  machine is then unchanged by any operation), and keeps its source id and its thread id from
  the very first state.
\<close>

theorem holder_follows_protocol:
  assumes "(holder_step E C L A)\<^sup>*\<^sup>* s t"
  shows "holder_edge\<^sup>*\<^sup>* (holder_get_state s) (holder_get_state t)
    \<and> hs_source_id t = hs_source_id s \<and> hs_thread_id t = hs_thread_id s
    \<and> (holder_get_state s \<notin> {Hs_Finished, Hs_Failed} \<or> t = s)"
  using holder.steps_edges [OF assms] holder.steps_source [OF assms] holder.steps_thread [OF assms]
    holder.steps_terminal [OF assms]
  by (auto simp: holder_terminal_def)

theorem holder_follows_protocol_witness:
  "holder_edge\<^sup>*\<^sup>* Hs_OfferReceived Hs_Finished
    \<and> hs_thread_id sample_holder_finished = hs_thread_id sample_holder_offered"
  using holder_follows_protocol [OF sample_holder_run]
  by (simp add: holder_phase_of(3) [OF sample_holder_offered_eq(1)])
    (simp add: sample_holder_finished_def holder_get_state_def FinishedHolderState_from_def)

text \<open>
  What a finished holder can say. In every reachable machine: the credential and its id are
  available exactly when the machine finished with success, and the id is one the wallet
  returned when it stored a credential; a problem report is available exactly when the
  machine failed; the final message is an acknowledgement on the machine's thread, sent
  exactly when the credential asked for one.
\<close>

theorem holder_outcome:
  assumes "holder_reachable E C L A t"
  shows "(case holder_get_state t of
       Hs_Finished \<Rightarrow> (\<exists>rs cred_id cred rr. stored_from E C L A rs cred cred_id rr
           \<and> holder_get_credential t = Ok (cred_id, ci1_msg (CI1_IssueCredential cred))
           \<and> holder_get_cred_id t = Ok cred_id \<and> holder_credential_status t = 1
           \<and> Holder_get_final_message uuid now \<lparr>holder_sm = t\<rparr> = Ok
               (if pd_please_ack (mp_decorators cred) = None then None
                else Some (ci1_msg (CI1_Ack (build_credential_ack uuid now (hs_thread_id t))))))
     | _ \<Rightarrow> (\<exists>e. holder_get_credential t = Err e) \<and> (\<exists>e. holder_get_cred_id t = Err e)
           \<and> Holder_get_final_message uuid now \<lparr>holder_sm = t\<rparr> = Ok None)
    \<and> (case holder_get_state t of
       Hs_Failed \<Rightarrow> (\<exists>pr. holder_get_problem_report t = Ok pr)
     | _ \<Rightarrow> (\<exists>e. holder_get_problem_report t = Err e \<and> err_kind e = NotReady))"
proof (cases "\<exists>rs cred_id cred rr. hs_state t = H_Finished (FinishedHolderState_from cred_id cred rr)
    \<and> stored_from E C L A rs cred cred_id rr")
  case True
  then obtain rs cred_id cred rr where t: "hs_state t = H_Finished (FinishedHolderState_from cred_id cred rr)"
    and st: "stored_from E C L A rs cred cred_id rr" by blast
  have "\<exists>rs cred_id' cred' rr. stored_from E C L A rs cred' cred_id' rr \<and> cred_id' = cred_id \<and> cred' = cred" using st by blast
  with t show ?thesis by (simp add: holder_view_defs FinishedHolderState_from_def)
next
  case False
  with holder_reachable_inv [OF assms] show ?thesis
    by (cases "hs_state t") (auto simp: holder_inv_def holder_view_defs FinishedHolderState_new_def)
qed

theorem holder_outcome_witness:
  "\<exists>cred. holder_get_credential sample_holder_finished = Ok (''cred-1'', cred)"
proof -
  have r: "holder_reachable sample_issue_ext sample_codec sample_ledger sample_anoncreds
      sample_holder_finished"
    using sample_holder_run by (auto simp: holder_reachable_def sample_holder_offered_def)
  have "holder_get_state sample_holder_finished = Hs_Finished"
    "holder_get_cred_id sample_holder_finished = Ok ''cred-1''"
    by (simp_all add: sample_holder_finished_def holder_get_state_def FinishedHolderState_from_def
        holder_get_cred_id_def finished_get_cred_id_def)
  with holder_outcome [OF r, of "''u''" 0] show ?thesis by auto
qed

text \<open>
  C26. Where a held credential comes from. A holder that started from an offer, a proposal or nothing
  and has finished with success went through a state with a request on the machine's thread that
  answers an offer of that thread, made by the back end for the definition the ledger has. It left that
  state with the credential of a message, stored by the wallet under the identifier the machine now
  holds: the credential attached to the message, against the metadata and definition of that request,
  the schema the ledger has and the registry definition of the registry the credential names. (The
  thread of that message is not looked at.)
\<close>

theorem holder_credential_provenance:
  assumes run: "(holder_step E C L A)\<^sup>*\<^sup>* s t"
    and start: "s = holder_new uuid src \<or> s = holder_from_offer off src \<or> s = holder_with_proposal p src"
    and fin: "holder_get_state t = Hs_Finished"
  shows "\<exists>u rs off cred_id cred rr. (holder_step E C L A)\<^sup>*\<^sup>* s u \<and> hs_state u = H_RequestSet rs
    \<and> (mp_id off = hs_thread_id s \<or> is_match (ci1_msg (CI1_OfferCredential off)) (hs_thread_id s))
    \<and> answers_offer E C L A (hs_thread_id s) off rs \<and> stored_from E C L A rs cred cred_id rr
    \<and> t = u\<lparr>hs_state := H_Finished (FinishedHolderState_from cred_id cred rr)\<rparr>"
proof -
  have out: "holder_get_state s \<notin> {Hs_Finished}"
    using start by (auto simp: holder_get_state_def holder_new_def holder_from_offer_def
        holder_with_proposal_def)
  have into: "holder_get_state t \<in> {Hs_Finished}" using fin by simp
  obtain u v where
    uv: "(holder_step E C L A)\<^sup>*\<^sup>* s u" "holder_step E C L A u v" "(holder_step E C L A)\<^sup>*\<^sup>* v t"
      "holder_get_state u \<noteq> Hs_Finished" "holder_get_state v = Hs_Finished"
    by (rule holder.steps_enter [OF run out into]) auto
  have vt: "t = v" using holder.steps_terminal [OF uv(3)] uv(5) by (simp add: holder_terminal_def)
  have inv: "holder_inv E C L A u" using holder_steps_inv [OF uv(1)] start holder_start_inv by blast
  have thread: "hs_thread_id u = hs_thread_id s" using holder.steps_thread [OF uv(1)] by simp
  from holder_step_move [OF uv(2)] show ?thesis
  proof cases
    case (store rs cred cred_id rr)
    from inv store(2) obtain off where "mp_id off = hs_thread_id u
        \<or> is_match (ci1_msg (CI1_OfferCredential off)) (hs_thread_id u)"
      "answers_offer E C L A (hs_thread_id u) off rs" by (auto simp: holder_inv_def)
    with store uv(1) vt thread show ?thesis by metis
  qed (use uv in auto)
qed

theorem holder_credential_provenance_witness:
  "\<exists>u rs cred rr. (holder_step sample_issue_ext sample_codec sample_ledger sample_anoncreds)\<^sup>*\<^sup>*
      sample_holder_offered u \<and> hs_state u = H_RequestSet rs
    \<and> stored_from sample_issue_ext sample_codec sample_ledger sample_anoncreds rs cred ''cred-1'' rr"
proof -
  have fin: "holder_get_state sample_holder_finished = Hs_Finished"
    by (simp add: sample_holder_finished_def holder_get_state_def FinishedHolderState_from_def)
  obtain u rs cred_id cred rr where
    u: "(holder_step sample_issue_ext sample_codec sample_ledger sample_anoncreds)\<^sup>*\<^sup>* sample_holder_offered u"
      "hs_state u = H_RequestSet rs"
    and st: "stored_from sample_issue_ext sample_codec sample_ledger sample_anoncreds rs cred cred_id rr"
    and t: "sample_holder_finished = u\<lparr>hs_state := H_Finished (FinishedHolderState_from cred_id cred rr)\<rparr>"
    using holder_credential_provenance [OF sample_holder_run _ fin] unfolding sample_holder_offered_def by blast
  have "cred_id = ''cred-1''"
    using arg_cong [OF t, of hs_state] by (simp add: sample_holder_finished_def FinishedHolderState_from_def)
  with u st show ?thesis by blast
qed

text \<open>
  What becomes of a received credential, in the state that waits for it: when the schema
  cannot be fetched the caller gets the ledger's error and may call again with the same
  machine; every later failure ends the exchange with a problem report on the thread that
  carries the error's text; success keeps the credential and the wallet's id.
\<close>

theorem holder_receive_credential_outcome:
  assumes "hs_state s = H_RequestSet rs"
    and "\<And>sch. lg_get_schema L (rss_schema_id rs) None = Ok sch \<Longrightarrow>
      store_credential E C L A w cred (rss_req_meta rs) (rss_cred_def_json rs) (x_json_print E sch) = (r, w')"
    and "r \<noteq> Panic"
  shows "case lg_get_schema L (rss_schema_id rs) None of
      Ok sch \<Rightarrow> (\<exists>t. holder_receive_credential E C L A w uuid s cred = (Ok t, w')
        \<and> hs_thread_id t = hs_thread_id s
        \<and> (case r of
             Ok (cred_id, rr) \<Rightarrow> holder_get_state t = Hs_Finished
               \<and> holder_get_credential t = Ok (cred_id, ci1_msg (CI1_IssueCredential cred))
               \<and> holder_is_revokable E L t = Ok (rr \<noteq> None)
           | Err e \<Rightarrow> holder_get_state t = Hs_Failed
               \<and> (\<exists>pr. holder_get_problem_report t = Ok pr
                    \<and> is_match (ReportProblem pr) (hs_thread_id s)
                    \<and> description_code (pr_description (mp_content pr)) = format_error e)
           | Panic \<Rightarrow> False))
    | Err e \<Rightarrow> Holder_process_credential E C L A w uuid \<lparr>holder_sm = s\<rparr> cred
        = ((Err (from_ledger_error e), \<lparr>holder_sm = s\<rparr>), w)
    | Panic \<Rightarrow> True"
proof (cases "lg_get_schema L (rss_schema_id rs) None")
  case (Ok sch)
  with assms show ?thesis
    by (cases r) (auto simp: holder_receive_credential_def holder_view_defs holder_finish
      holder_is_revokable_def)
next
  case (Err e)
  with assms(1) show ?thesis
    by (simp add: holder_receive_credential_def Holder_process_credential_def assign_holder_def)
qed simp

theorem holder_receive_credential_outcome_witness:
  "\<exists>t. holder_receive_credential sample_issue_ext sample_codec sample_ledger sample_anoncreds () ''u''
      sample_holder_requested sample_issued_msg = (Ok t, ()) \<and> holder_get_state t = Hs_Finished"
proof -
  have s: "hs_state sample_holder_requested = H_RequestSet sample_request_state"
    by (simp add: sample_holder_requested_def)
  have l: "lg_get_schema sample_ledger (rss_schema_id sample_request_state) None = Ok JNull"
    by (simp add: sample_ledger_def)
  from holder_receive_credential_outcome [OF s sample_store, where uuid = "''u''"] l show ?thesis by auto
qed

text \<open>
  The holder checks the thread of proposals and offers, but not of what decides the
  exchange: a credential is stored and a problem report ends the exchange whatever thread they
  name. The same credential on another thread gives the same outcome.
\<close>

theorem holder_thread_unchecked:
  assumes "hs_state s = H_RequestSet rs"
    and "store_credential E C L A w cred (rss_req_meta rs) (rss_cred_def_json rs) (x_json_print E sch)
      = (Ok (cred_id, rr), w')" and "lg_get_schema L (rss_schema_id rs) None = Ok sch"
  shows "(\<forall>d. fst (Holder_process_aries_msg E C L A w uuid \<lparr>holder_sm = s\<rparr>
        (ci1_msg (CI1_IssueCredential (cred\<lparr>mp_decorators := d\<rparr>))))
      = (Ok (), \<lparr>holder_sm = s\<lparr>hs_state :=
          H_Finished (FinishedHolderState_from cred_id (cred\<lparr>mp_decorators := d\<rparr>) rr)\<rparr>\<rparr>))
    \<and> (\<forall>pr. Holder_process_aries_msg E C L A w uuid \<lparr>holder_sm = s\<rparr> (ReportProblem pr)
      = ((Ok (), \<lparr>holder_sm = s\<lparr>hs_state := H_Finished (FinishedHolderState_new pr)\<rparr>\<rparr>), w))"
  using assms
  by (simp add: Holder_process_aries_msg_def holder_receive_credential_def assign_holder_def
      holder_receive_problem_report_def store_credential_def)

theorem holder_thread_unchecked_witness:
  "holder_get_state (holder_sm (snd (fst (Holder_process_aries_msg sample_issue_ext sample_codec
      sample_ledger sample_anoncreds () ''u'' \<lparr>holder_sm = sample_holder_requested\<rparr>
      (ReportProblem (build_problem_report_msg ''v'' None ''other thread'')))))) = Hs_Failed"
proof -
  have s: "hs_state sample_holder_requested = H_RequestSet sample_request_state"
    by (simp add: sample_holder_requested_def)
  have l: "lg_get_schema sample_ledger (rss_schema_id sample_request_state) None = Ok JNull"
    by (simp add: sample_ledger_def)
  from holder_thread_unchecked [OF s sample_store l] show ?thesis by simp
qed

text \<open>
  The tails file of a finished exchange. With a readable registry definition whose \<open>value\<close>
  is an object, the location and the hash are returned when they are texts, a field of another
  type is \<open>InvalidJson\<close>, and a missing field is no error but a panic.
\<close>

theorem tails_accessors:
  assumes "hs_state s = H_Finished f" and "fhs_rev_reg_def_json f = Some text"
    and "x_json_parse E text = Ok j" and "json_index j ''value'' = JObject m"
  shows "(case map_of m ''tailsHash'' of
      Some (JString h) \<Rightarrow> holder_get_tails_hash E s = Ok h
    | Some _ \<Rightarrow> (\<exists>e. holder_get_tails_hash E s = Err e \<and> err_kind e = InvalidJson)
    | None \<Rightarrow> holder_get_tails_hash E s = Panic)
    \<and> (case map_of m ''tailsLocation'' of
      Some (JString h) \<Rightarrow> holder_get_tails_location E s = Ok h
    | Some _ \<Rightarrow> (\<exists>e. holder_get_tails_location E s = Err e \<and> err_kind e = InvalidJson)
    | None \<Rightarrow> holder_get_tails_location E s = Panic)"
  using assms
  by (auto simp: holder_get_tails_hash_def holder_get_tails_location_def finished_get_tails_hash_def
      finished_get_tails_location_def finished_rev_reg_value_def finished_rev_reg_def_def map_index_def
      split: option.splits json.splits)

theorem tails_accessors_witness:
  "holder_get_tails_hash (sample_ext (\<lambda>_. Ok (JObject [(''value'', JObject [])])))
     \<lparr>hs_state = H_Finished (FinishedHolderState_from ''c'' sample_issued_msg (Some [])),
      hs_source_id = ''h'', hs_thread_id = ''t''\<rparr> = Panic"
proof -
  let ?f = "FinishedHolderState_from ''c'' sample_issued_msg (Some [])"
  have f: "hs_state \<lparr>hs_state = H_Finished ?f, hs_source_id = ''h'', hs_thread_id = ''t''\<rparr> = H_Finished ?f"
    "fhs_rev_reg_def_json ?f = Some []" by (simp_all add: FinishedHolderState_from_def)
  have j: "json_index (JObject [(''value'', JObject [])]) ''value'' = JObject []" by code_simp
  have p: "x_json_parse (sample_ext (\<lambda>_. Ok (JObject [(''value'', JObject [])]))) []
      = Ok (JObject [(''value'', JObject [])])" by (simp add: sample_ext_def)
  have g: "map_of [] ''tailsHash'' = None" by simp
  from tails_accessors [OF f(1,2) p j] g show ?thesis by simp
qed

end
