(* ===== verification/Issuance_Exchange.thy ===== *)
theory Issuance_Exchange
  imports Holder_SM
begin

text \<open>
  The two sides of credential issuance together: the messages one side produces are the ones the
  other side accepts. Each lemma is one leg of the exchange on the handlers
  (\<open>handlers/issuance/issuer.rs\<close>, \<open>handlers/issuance/holder.rs\<close>).
\<close>

section \<open>The states of the exchange\<close>

definition exchange_offer ::
  "ext \<Rightarrow> codec \<Rightarrow> DateTime \<Rightarrow> string \<Rightarrow> CredentialOffer \<Rightarrow> CredentialPreviewV1 \<Rightarrow> string option \<Rightarrow>
   OfferCredentialV1" where
  "exchange_offer E C now t o' prev com =
     the_ok (build_credential_offer E now t (c_ser_offer C o') prev com)"

lemma exchange_offer_simps [simp]:
  "mp_id (exchange_offer E C now t o' prev com) = t"
  "build_credential_offer E now t (c_ser_offer C o') prev com = Ok (exchange_offer E C now t o' prev com)"
  "base64_inverse E \<Longrightarrow> utf8_valid (c_ser_offer C o') \<Longrightarrow>
     get_attach_as_string E (ofc_offers_attach (mp_content (exchange_offer E C now t o' prev com)))
       = Ok (c_ser_offer C o')"
  by (simp_all add: exchange_offer_def build_credential_offer_def)

definition offered_issuer :: "string \<Rightarrow> string \<Rightarrow> OfferCredentialV1 \<Rightarrow> OfferInfo \<Rightarrow> Issuer" where
  "offered_issuer t src off info = \<lparr>issuer_sm = \<lparr>is_source_id = src, is_thread_id = t,
     is_state = I_OfferSet (OfferSetState_new off (oi_credential_json info) (oi_cred_def_id info)
       (oi_rev_reg_id info) (oi_tails_file info))\<rparr>\<rparr>"

definition requested_issuer ::
  "string \<Rightarrow> string \<Rightarrow> OfferCredentialV1 \<Rightarrow> OfferInfo \<Rightarrow> RequestCredentialV1 \<Rightarrow> Issuer" where
  "requested_issuer t src off info req = \<lparr>issuer_sm = \<lparr>is_source_id = src, is_thread_id = t,
     is_state = I_RequestReceived \<lparr>rrs_offer = off, rrs_cred_data = oi_credential_json info,
       rrs_rev_reg_id = oi_rev_reg_id info, rrs_tails_file = oi_tails_file info,
       rrs_request = req\<rparr>\<rparr>\<rparr>"

definition issued_issuer :: "string \<Rightarrow> string \<Rightarrow> OfferInfo \<Rightarrow> u32 option \<Rightarrow> IssueCredentialV1 \<Rightarrow> Issuer" where
  "issued_issuer t src info n msg = \<lparr>issuer_sm = \<lparr>is_source_id = src, is_thread_id = t,
     is_state = I_CredentialSet
       \<lparr>css_revocation_info_v1 = Some \<lparr>ri_cred_rev_id = map_option show_u32 n,
          ri_rev_reg_id = oi_rev_reg_id info, ri_tails_file = oi_tails_file info\<rparr>,
        css_msg_issue_credential = msg\<rparr>\<rparr>\<rparr>"

definition requested_holder :: "string \<Rightarrow> string \<Rightarrow> RequestSetState \<Rightarrow> Holder" where
  "requested_holder t src rs =
     \<lparr>holder_sm = \<lparr>hs_state = H_RequestSet rs, hs_source_id = src, hs_thread_id = t\<rparr>\<rparr>"

definition stored_holder :: "string \<Rightarrow> string \<Rightarrow> string \<Rightarrow> IssueCredentialV1 \<Rightarrow> string option \<Rightarrow> Holder" where
  "stored_holder t src cred_id cred rr = \<lparr>holder_sm =
     \<lparr>hs_state = H_Finished (FinishedHolderState_from cred_id cred rr), hs_source_id = src,
      hs_thread_id = t\<rparr>\<rparr>"

section \<open>The legs\<close>

lemma offer_leg:
  assumes "build_credential_preview E (oi_credential_json info) = Ok prev"
    and "ac_issuer_create_credential_offer A w (oi_cred_def_id info) = (Ok o', w')"
  shows "Issuer_build_credential_offer_msg E C A w now \<lparr>issuer_sm = issuer_new t src\<rparr> info com
      = ((Ok (), offered_issuer t src (exchange_offer E C now t o' prev com) info), w')"
    and "Issuer_get_credential_offer_msg (offered_issuer t src off info)
      = Ok (ci1_msg (CI1_OfferCredential off))"
  using assms
  by (simp_all add: Issuer_build_credential_offer_msg_def assign_issuer_def issuer_new_def
      issuer_build_credential_offer_msg_def offered_issuer_def Issuer_get_credential_offer_msg_def
      issuer_get_credential_offer_msg_def OfferSetState_new_def)

lemma request_leg:
  assumes "build_credential_request_msg E C L B v uuid now t did off = (Ok (req, meta, cdj, sch), v')"
    and "mp_id off = t"
  shows "Holder_prepare_credential_request E C L B v uuid now \<lparr>holder_sm = holder_from_offer off src\<rparr> did
      = ((Ok (ci1_msg (CI1_RequestCredential
           (req\<lparr>mp_decorators := (mp_decorators req)\<lparr>od_timing := Some (timing_out now)\<rparr>\<rparr>))),
         requested_holder t src \<lparr>rss_req_meta = meta, rss_cred_def_json = cdj, rss_schema_id = sch,
           rss_msg_credential_request = req\<rparr>), v')"
  using assms
  by (simp add: Holder_prepare_credential_request_def holder_prepare_credential_request_def
      holder_from_offer_def assign_holder_def holder_phase_of Holder_get_msg_credential_request_def
      requested_holder_def)

lemma accept_leg:
  assumes "matches_opt_thread_id (od_thread (mp_decorators req)) t"
  shows "Issuer_process_aries_msg E (offered_issuer t src off info) (ci1_msg (CI1_RequestCredential req))
    = (Ok (), requested_issuer t src off info req)"
  using assms
  by (simp add: Issuer_process_aries_msg_def assign_issuer_def issuer_receive_request_def
      verify_thread_id_def offered_issuer_def requested_issuer_def OfferSetState_new_def
      from_offer_set_and_request_def)

lemma issue_leg:
  assumes "create_credential E C A w uuid req (oi_rev_reg_id info) (oi_tails_file info) off
      (oi_credential_json info) t = (Ok (msg, n), w')"
  shows "Issuer_build_credential E C A w uuid (requested_issuer t src off info req)
      = ((Ok (), issued_issuer t src info n msg), w')"
  using assms
  by (simp add: Issuer_build_credential_def issuer_build_credential_def assign_issuer_def
      requested_issuer_def issued_issuer_def)

lemma issued_msg:
  "issuer_get_msg_issue_credential now (issuer_sm (issued_issuer t src info n msg))
     = Ok (msg\<lparr>mp_decorators := (mp_decorators msg)\<lparr>pd_timing := Some (timing_out now)\<rparr>\<rparr>)"
  by (simp add: issuer_get_msg_issue_credential_def issued_issuer_def)

lemma store_leg:
  assumes "lg_get_schema L (rss_schema_id rs) None = Ok sch"
    and "store_credential E C L B v cred (rss_req_meta rs) (rss_cred_def_json rs) (x_json_print E sch)
      = (Ok (cred_id, rr), v')"
  shows "Holder_process_aries_msg E C L B v uuid (requested_holder t src rs)
      (ci1_msg (CI1_IssueCredential cred)) = ((Ok (), stored_holder t src cred_id cred rr), v')"
  using assms
  by (simp add: Holder_process_aries_msg_def holder_receive_credential_def assign_holder_def
      requested_holder_def stored_holder_def)

lemma ack_leg:
  assumes "pd_please_ack (mp_decorators cred) \<noteq> None"
  shows "Holder_get_final_message uuid now (stored_holder t src cred_id cred rr)
      = Ok (Some (ci1_msg (CI1_Ack (build_credential_ack uuid now t))))"
    and "Issuer_process_aries_msg E (issued_issuer t src info n msg)
        (ci1_msg (CI1_Ack (build_credential_ack uuid now t)))
      = (Ok (), \<lparr>issuer_sm = (issuer_sm (issued_issuer t src info n msg))\<lparr>is_state :=
          I_Finished \<lparr>ifs_cred_id = None,
            ifs_revocation_info_v1 = Some \<lparr>ri_cred_rev_id = map_option show_u32 n,
              ri_rev_reg_id = oi_rev_reg_id info, ri_tails_file = oi_tails_file info\<rparr>,
            ifs_status = Success\<rparr>\<rparr>\<rparr>)"
  using assms
  by (simp_all add: Holder_get_final_message_def stored_holder_def FinishedHolderState_from_def
      Issuer_process_aries_msg_def issuer_receive_ack_def verify_thread_id_def assign_issuer_def
      issued_issuer_def build_credential_ack_def from_credential_set_state_def)

end
