(* ===== verification/Proofs.thy ===== *)
theory Proofs
  imports Encoding
begin

text \<open>
  Preparing and checking proofs: \<open>common/proofs/prover\<close> gathers what the anoncreds back end needs to
  create a presentation, \<open>common/proofs/verifier\<close> what it needs to verify one. Objects of the ledger
  are represented by their JSON value, so the conversions \<open>serde_json::to_value\<close> of the source
  are the identity.
\<close>

section \<open>Verifier\<close>

record CredInfoVerifier =
  civ_schema_id :: SchemaId
  civ_cred_def_id :: string
  civ_rev_reg_id :: "string option"
  civ_timestamp :: "u64 option"

definition parse_proof :: "ext \<Rightarrow> string \<Rightarrow> json VcxResult" where
  "parse_proof E proof = map_err (\<lambda>err. from_msg InvalidJson
     (''Cannot deserialize libndy proof: '' @ se_display err)) (x_json_parse E proof)"

definition identifier_info :: "json \<Rightarrow> CredInfoVerifier VcxResult" where
  "identifier_info identifier =
     (case (as_str (json_index identifier ''schema_id''), as_str (json_index identifier ''cred_def_id'')) of
        (Some schema_id, Some cred_def_id) \<Rightarrow>
          and_then (vcx_schema_id schema_id) (\<lambda>schema_id.
            Ok \<lparr>civ_schema_id = schema_id, civ_cred_def_id = cred_def_id,
                civ_rev_reg_id = as_str (json_index identifier ''rev_reg_id''),
                civ_timestamp = as_u64 (json_index identifier ''timestamp'')\<rparr>)
      | _ \<Rightarrow> vcx_err InvalidProofCredentialData ''Cannot get identifiers'')"

definition get_credential_info :: "ext \<Rightarrow> string \<Rightarrow> CredInfoVerifier list VcxResult" where
  "get_credential_info E proof =
     and_then (parse_proof E proof) (\<lambda>credentials.
       case json_index credentials ''identifiers'' of
         JArray identifiers \<Rightarrow> try_map identifier_info identifiers
       | _ \<Rightarrow> Ok [])"

definition check_revealed :: "ext \<Rightarrow> string \<times> json \<Rightarrow> unit VcxResult" where
  "check_revealed E entry = (case entry of (attr1_referent, info) \<Rightarrow>
     and_then (ok_or (as_str (json_index info ''raw'')) (from_msg InvalidProof
       (''Cannot get raw value for \"'' @ attr1_referent @ ''\" attribute''))) (\<lambda>raw.
     and_then (ok_or (as_str (json_index info ''encoded'')) (from_msg InvalidProof
       (''Cannot get encoded value for \"'' @ attr1_referent @ ''\" attribute''))) (\<lambda>encoded.
     and_then (encode E raw) (\<lambda>expected_encoded.
       if expected_encoded \<noteq> encoded then
         vcx_err InvalidProof (''Encoded values are different. Expected: '' @ expected_encoded
           @ ''. From Proof: '' @ encoded)
       else Ok ()))))"

definition validate_proof_revealed_attributes :: "ext \<Rightarrow> string \<Rightarrow> unit VcxResult" where
  "validate_proof_revealed_attributes E proof_json =
     and_then (parse_proof E proof_json) (\<lambda>proof.
       case as_object (json_index (json_index proof ''requested_proof'') ''revealed_attrs'') of
         Some revealed_attrs \<Rightarrow> try_fold (\<lambda>_ entry. check_revealed E entry) () revealed_attrs
       | None \<Rightarrow> Ok ())"

definition fetch_cred_def :: "'m ledger \<Rightarrow> CredInfoVerifier \<Rightarrow> json VcxResult" where
  "fetch_cred_def L cred_info =
     and_then (vcx_cred_def_id (civ_cred_def_id cred_info)) (\<lambda>i.
       from_ledger (lg_get_cred_def L i None))"

definition build_cred_defs_json_verifier :: "ext \<Rightarrow> 'm ledger \<Rightarrow> CredInfoVerifier list \<Rightarrow> string VcxResult" where
  "build_cred_defs_json_verifier E L credential_data =
     map_ok (\<lambda>m. x_json_print E (JObject m))
       (fetch_missing map_of btree_insert civ_cred_def_id (fetch_cred_def L) [] credential_data)"

definition fetch_schema :: "'m ledger \<Rightarrow> CredInfoVerifier \<Rightarrow> json VcxResult" where
  "fetch_schema L cred_info =
     map_err (\<lambda>_. from_msg InvalidSchema ''Cannot get schema'')
       (lg_get_schema L (civ_schema_id cred_info) None)"

definition build_schemas_json_verifier :: "ext \<Rightarrow> 'm ledger \<Rightarrow> CredInfoVerifier list \<Rightarrow> string VcxResult" where
  "build_schemas_json_verifier E L credential_data =
     map_ok (\<lambda>m. x_json_print E (JObject m))
       (fetch_missing map_of btree_insert civ_schema_id (fetch_schema L) [] credential_data)"

definition fetch_rev_reg_def :: "'m ledger \<Rightarrow> CredInfoVerifier \<Rightarrow> json VcxResult" where
  "fetch_rev_reg_def L cred_info =
     and_then (vcx_rev_reg_def_id (the (civ_rev_reg_id cred_info))) (\<lambda>i.
     and_then (from_ledger (lg_get_rev_reg_def_json L i)) (\<lambda>(json, _). Ok json))"

text \<open>
  The records are filtered for those with a registry id first, so the source's error for a
  missing id cannot occur.
\<close>

definition build_rev_reg_defs_json :: "ext \<Rightarrow> 'm ledger \<Rightarrow> CredInfoVerifier list \<Rightarrow> string VcxResult" where
  "build_rev_reg_defs_json E L credential_data =
     map_ok (\<lambda>m. x_json_print E (JObject m))
       (fetch_missing map_of btree_insert (\<lambda>r. the (civ_rev_reg_id r)) (fetch_rev_reg_def L) []
         (filter (\<lambda>r. civ_rev_reg_id r \<noteq> None) credential_data))"

text \<open>\<open>dbg\<close> is the derived \<open>Debug\<close> text of a record. The timestamp is required even of a record whose
  registry is known already.\<close>

definition add_rev_reg ::
  "(CredInfoVerifier \<Rightarrow> string) \<Rightarrow> 'm ledger \<Rightarrow> (string \<times> json) list \<Rightarrow> CredInfoVerifier \<Rightarrow>
   (string \<times> json) list VcxResult" where
  "add_rev_reg dbg L rev_regs_json cred_info =
     (let rev_reg_id = the (civ_rev_reg_id cred_info) in
      and_then (ok_or (civ_timestamp cred_info) (from_msg InvalidRevocationTimestamp
        (''Revocation timestamp is missing on record '' @ dbg cred_info))) (\<lambda>timestamp.
        if map_of rev_regs_json rev_reg_id = None then
          and_then (vcx_rev_reg_def_id rev_reg_id) (\<lambda>i.
          and_then (from_ledger (lg_get_rev_reg L i timestamp)) (\<lambda>(rev_reg_json, timestamp).
            Ok (btree_insert rev_reg_id (JObject [(show_nat (unat timestamp), rev_reg_json)])
              rev_regs_json)))
        else Ok rev_regs_json))"

definition build_rev_reg_json ::
  "ext \<Rightarrow> (CredInfoVerifier \<Rightarrow> string) \<Rightarrow> 'm ledger \<Rightarrow> CredInfoVerifier list \<Rightarrow> string VcxResult" where
  "build_rev_reg_json E dbg L credential_data =
     map_ok (\<lambda>m. x_json_print E (JObject m))
       (try_fold (add_rev_reg dbg L) [] (filter (\<lambda>r. civ_rev_reg_id r \<noteq> None) credential_data))"

definition validate_indy_proof ::
  "ext \<Rightarrow> codec \<Rightarrow> (CredInfoVerifier \<Rightarrow> string) \<Rightarrow> 'm ledger \<Rightarrow> 'w anoncreds \<Rightarrow> string \<Rightarrow> string \<Rightarrow>
   bool VcxResult" where
  "validate_indy_proof E C dbg L A proof_json proof_req_json =
     and_then (validate_proof_revealed_attributes E proof_json) (\<lambda>_.
     and_then (get_credential_info E proof_json) (\<lambda>credential_data.
     and_then (build_cred_defs_json_verifier E L credential_data) (\<lambda>credential_defs_json.
     and_then (build_schemas_json_verifier E L credential_data) (\<lambda>schemas_json.
     and_then (unwrap_or (build_rev_reg_defs_json E L credential_data) (x_json_print E (JObject [])))
       (\<lambda>rev_reg_defs_json.
     and_then (unwrap_or (build_rev_reg_json E dbg L credential_data) (x_json_print E (JObject [])))
       (\<lambda>rev_regs_json.
     and_then (from_serde (c_de_pres_request C proof_req_json)) (\<lambda>proof_req.
     and_then (from_serde (c_de_presentation C proof_json)) (\<lambda>proof.
     and_then (from_serde (c_de_schemas C schemas_json)) (\<lambda>schemas.
     and_then (from_serde (c_de_cred_defs C credential_defs_json)) (\<lambda>credential_defs.
     and_then (from_serde (c_de_rev_reg_defs C rev_reg_defs_json)) (\<lambda>rev_reg_defs.
     and_then (from_serde (c_de_rev_regs C rev_regs_json)) (\<lambda>rev_regs.
       from_anon (ac_verifier_verify_proof A proof_req proof schemas credential_defs rev_reg_defs
         rev_regs)))))))))))))"

section \<open>Prover\<close>

record CredInfoProver =
  cip_referent :: string
  cip_credential_referent :: string
  cip_schema_id :: SchemaId
  cip_cred_def_id :: CredentialDefinitionId
  cip_rev_reg_id :: "string option"
  cip_cred_rev_id :: "u32 option"
  cip_revocation_interval :: "NonRevokedInterval option"
  cip_tails_dir :: "string option"
  cip_timestamp :: "u64 option"
  cip_revealed :: "bool option"

definition build_schemas_json_prover ::
  "'m ledger \<Rightarrow> CredInfoProver list \<Rightarrow> (SchemaId \<rightharpoonup> json) VcxResult" where
  "build_schemas_json_prover L credentials_identifiers =
     fetch_missing (\<lambda>m. m) hash_insert cip_schema_id
       (\<lambda>cred_info. map_err (\<lambda>err. from_msg InvalidSchema (''Cannot get schema id ''
            @ cip_schema_id cred_info @ ''; '' @ show_ledger_error err))
          (lg_get_schema L (cip_schema_id cred_info) None))
       Map.empty credentials_identifiers"

definition build_cred_defs_json_prover ::
  "'m ledger \<Rightarrow> CredInfoProver list \<Rightarrow> (CredentialDefinitionId \<rightharpoonup> json) VcxResult" where
  "build_cred_defs_json_prover L credentials_identifiers =
     fetch_missing (\<lambda>m. m) hash_insert cip_cred_def_id
       (\<lambda>cred_info. map_err (\<lambda>_. from_msg InvalidProofCredentialData
            ''Cannot get credential definition'')
          (lg_get_cred_def L (cip_cred_def_id cred_info) None))
       Map.empty credentials_identifiers"

definition get_revocation_interval ::
  "string \<Rightarrow> PresentationRequest \<Rightarrow> NonRevokedInterval option VcxResult" where
  "get_revocation_interval name proof_req =
     (let or_global = (\<lambda>i. case i of Some _ \<Rightarrow> i | None \<Rightarrow> prp_non_revoked (pr_value proof_req)) in
      case map_of (prp_requested_attributes (pr_value proof_req)) name of
        Some attr \<Rightarrow> Ok (or_global (ai_non_revoked attr))
      | None \<Rightarrow>
          (case map_of (prp_requested_predicates (pr_value proof_req)) name of
             Some attr \<Rightarrow> Ok (or_global (pi_non_revoked attr))
           | None \<Rightarrow> vcx_err InvalidProofCredentialData (''Attribute not found for: '' @ name)))"

definition credential_def_identifiers ::
  "SelectedCredentials \<Rightarrow> PresentationRequest \<Rightarrow> CredInfoProver list VcxResult" where
  "credential_def_identifiers credentials proof_req =
     try_map (\<lambda>(referent, selected_cred).
       let cred_info = scr_cred_info selected_cred in
       and_then (get_revocation_interval referent proof_req) (\<lambda>interval.
         Ok \<lparr>cip_referent = referent, cip_credential_referent = sci_referent cred_info,
             cip_schema_id = sci_schema_id cred_info, cip_cred_def_id = sci_cred_def_id cred_info,
             cip_rev_reg_id = sci_rev_reg_id cred_info, cip_cred_rev_id = sci_cred_rev_id cred_info,
             cip_revocation_interval = interval, cip_tails_dir = scr_tails_dir selected_cred,
             cip_timestamp = None, cip_revealed = sci_revealed cred_info\<rparr>)) credentials"

text \<open>
  \<open>clock r\<close> is the time read when registry \<open>r\<close> is first met; the loop reads the clock at most once
  for each registry.
\<close>

definition create_rev_state ::
  "'m ledger \<Rightarrow> 'w anoncreds \<Rightarrow> (string \<Rightarrow> u64) \<Rightarrow> CredInfoProver \<Rightarrow> string \<Rightarrow> u32 \<Rightarrow> string \<Rightarrow>
   (u64 \<times> json) VcxResult" where
  "create_rev_state L A clock cred_info rev_reg_id cred_rev_id tails_dir =
     (let to = (case cip_revocation_interval cred_info of Some interval \<Rightarrow> nr_to interval | None \<Rightarrow> None) in
      and_then (vcx_rev_reg_def_id rev_reg_id) (\<lambda>parsed_id.
      and_then (from_ledger (lg_get_rev_reg_def_json L parsed_id)) (\<lambda>(rev_reg_def_json, meta).
      let on_or_before = (case to of Some t \<Rightarrow> t | None \<Rightarrow> clock rev_reg_id) in
      and_then (from_ledger (lg_get_rev_status_list L parsed_id on_or_before (Some meta)))
        (\<lambda>(rev_status_list, timestamp).
      and_then (from_anon (ac_create_revocation_state A tails_dir rev_reg_def_json rev_status_list
          cred_rev_id)) (\<lambda>rev_state_json.
        Ok (timestamp, rev_state_json))))))"

type_synonym RevocationStatesMap = "string \<rightharpoonup> (u64 \<rightharpoonup> json)"

definition rev_states_step ::
  "'m ledger \<Rightarrow> 'w anoncreds \<Rightarrow> (string \<Rightarrow> u64) \<Rightarrow>
   RevocationStatesMap \<times> (string \<rightharpoonup> u64) \<times> CredInfoProver list \<Rightarrow> CredInfoProver \<Rightarrow>
   (RevocationStatesMap \<times> (string \<rightharpoonup> u64) \<times> CredInfoProver list) VcxResult" where
  "rev_states_step L A clock st cred_info = (case st of (rtn, timestamps, out) \<Rightarrow>
     (case (cip_rev_reg_id cred_info, cip_cred_rev_id cred_info, cip_tails_dir cred_info) of
        (Some rev_reg_id, Some cred_rev_id, Some tails_dir) \<Rightarrow>
          and_then (if rtn rev_reg_id = None then
              and_then (create_rev_state L A clock cred_info rev_reg_id cred_rev_id tails_dir)
                (\<lambda>(timestamp, rev_state_json).
                  Ok (rtn(rev_reg_id \<mapsto> [timestamp \<mapsto> rev_state_json]),
                      timestamps(rev_reg_id \<mapsto> timestamp),
                      cred_info\<lparr>cip_timestamp := Some timestamp\<rparr>))
            else Ok (rtn, timestamps, cred_info)) (\<lambda>(rtn, timestamps, cred_info).
          let cred_info = (if cip_timestamp cred_info = None
            then cred_info\<lparr>cip_timestamp := timestamps rev_reg_id\<rparr> else cred_info) in
          Ok (rtn, timestamps, out @ [cred_info]))
      | _ \<Rightarrow> Ok (rtn, timestamps, out @ [cred_info])))"

definition build_rev_states_json ::
  "'m ledger \<Rightarrow> 'w anoncreds \<Rightarrow> (string \<Rightarrow> u64) \<Rightarrow> CredInfoProver list \<Rightarrow>
   (RevocationStatesMap \<times> CredInfoProver list) VcxResult" where
  "build_rev_states_json L A clock credentials_identifiers =
     map_ok (\<lambda>(rtn, _, out). (rtn, out))
       (try_fold (rev_states_step L A clock) (Map.empty, Map.empty, []) credentials_identifiers)"

definition build_requested_credentials_json ::
  "CredInfoProver list \<Rightarrow> (string \<rightharpoonup> string) \<Rightarrow> PresentationRequest \<Rightarrow> RequestedCredentials VcxResult" where
  "build_requested_credentials_json credentials_identifiers self_attested_attrs proof_req =
     Ok \<lparr>rc_self_attested_attributes = self_attested_attrs,
       rc_requested_attributes = fold (\<lambda>c m.
         if map_of (prp_requested_attributes (pr_value proof_req)) (cip_referent c) \<noteq> None
         then m(cip_referent c \<mapsto> \<lparr>ra_cred_id = cip_credential_referent c,
           ra_timestamp = cip_timestamp c, ra_revealed = unwrap_default (cip_revealed c) True\<rparr>)
         else m) credentials_identifiers Map.empty,
       rc_requested_predicates = fold (\<lambda>c m.
         if map_of (prp_requested_predicates (pr_value proof_req)) (cip_referent c) \<noteq> None
         then m(cip_referent c \<mapsto> \<lparr>rp_cred_id = cip_credential_referent c,
           rp_timestamp = cip_timestamp c\<rparr>)
         else m) credentials_identifiers Map.empty\<rparr>"

definition generate_indy_proof ::
  "'m ledger \<Rightarrow> 'w anoncreds \<Rightarrow> 'w \<Rightarrow> (string \<Rightarrow> u64) \<Rightarrow> SelectedCredentials \<Rightarrow> (string \<rightharpoonup> string) \<Rightarrow>
   PresentationRequest \<Rightarrow> Presentation VcxResult \<times> 'w" where
  "generate_indy_proof L A w clock credentials self_attested_attrs proof_req =
     and_thenw (pure_w (
       and_then (credential_def_identifiers credentials proof_req) (\<lambda>credentials_identifiers.
       and_then (build_rev_states_json L A clock credentials_identifiers)
         (\<lambda>(revoc_states_json, credentials_identifiers).
       and_then (build_requested_credentials_json credentials_identifiers self_attested_attrs proof_req)
         (\<lambda>requested_credentials.
       and_then (build_schemas_json_prover L credentials_identifiers) (\<lambda>schemas_json.
       and_then (build_cred_defs_json_prover L credentials_identifiers) (\<lambda>credential_defs_json.
         Ok (requested_credentials, schemas_json, credential_defs_json, revoc_states_json))))))) w)
     (\<lambda>(requested_credentials, schemas_json, credential_defs_json, revoc_states_json) w.
       anon_w (ac_prover_create_proof A w proof_req requested_credentials DEFAULT_LINK_SECRET_ALIAS schemas_json
         credential_defs_json (Some revoc_states_json)))"

section \<open>What the verifier's helpers return\<close>

text \<open>The encoding a revealed attribute must carry; \<open>encode\<close> never fails.\<close>

definition revealed_ok :: "ext \<Rightarrow> string \<times> json \<Rightarrow> bool" where
  "revealed_ok E entry \<longleftrightarrow> (case as_str (json_index (snd entry) ''raw'') of
     None \<Rightarrow> False
   | Some raw \<Rightarrow> as_str (json_index (snd entry) ''encoded'') = Some (the_ok (encode E raw)))"

lemma check_revealed_cases:
  "if revealed_ok E entry then check_revealed E entry = Ok ()
   else \<exists>e. check_revealed E entry = Err e \<and> err_kind e = InvalidProof"
  by (cases "as_str (json_index (snd entry) ''raw'')";
      cases "as_str (json_index (snd entry) ''encoded'')")
    (auto simp: revealed_ok_def check_revealed_def split: prod.splits)

lemma check_all_cases:
  "if list_all (revealed_ok E) m then try_fold (\<lambda>_. check_revealed E) () m = Ok ()
   else \<exists>e. try_fold (\<lambda>_. check_revealed E) () m = Err e \<and> err_kind e = InvalidProof"
proof (induction m)
  case (Cons entry m)
  then show ?case using check_revealed_cases [of E entry] by (cases "revealed_ok E entry") auto
qed simp

lemma build_schemas_serves:
  assumes "build_schemas_json_verifier E L data = Ok text"
  obtains m where "text = x_json_print E (JObject m)"
    "\<And>i. i \<in> set data \<Longrightarrow> \<exists>j. lg_get_schema L (civ_schema_id i) None = Ok j
       \<and> map_of m (civ_schema_id i) = Some j"
proof -
  from assms obtain m where m: "text = x_json_print E (JObject m)"
    "fetch_missing map_of btree_insert civ_schema_id (fetch_schema L) [] data = Ok m"
    by (auto simp: build_schemas_json_verifier_def)
  show ?thesis
    using btree_map.fetch_all_serves [OF m(2)] by (intro that [OF m(1)]) (fastforce simp: fetch_schema_def)
qed

lemma build_cred_defs_serves:
  assumes "build_cred_defs_json_verifier E L data = Ok text"
  obtains m where "text = x_json_print E (JObject m)"
    "\<And>i. i \<in> set data \<Longrightarrow> \<exists>c j. vcx_cred_def_id (civ_cred_def_id i) = Ok c
       \<and> lg_get_cred_def L c None = Ok j \<and> map_of m (civ_cred_def_id i) = Some j"
proof -
  from assms obtain m where m: "text = x_json_print E (JObject m)"
    "fetch_missing map_of btree_insert civ_cred_def_id (fetch_cred_def L) [] data = Ok m"
    by (auto simp: build_cred_defs_json_verifier_def)
  show ?thesis
  proof (rule that [OF m(1)])
    fix i
    assume "i \<in> set data"
    from btree_map.fetch_all_serves [OF m(2) this] obtain y j where
      "civ_cred_def_id y = civ_cred_def_id i" "fetch_cred_def L y = Ok j"
      "map_of m (civ_cred_def_id i) = Some j" by blast
    then show "\<exists>c j. vcx_cred_def_id (civ_cred_def_id i) = Ok c
       \<and> lg_get_cred_def L c None = Ok j \<and> map_of m (civ_cred_def_id i) = Some j"
      by (cases "vcx_cred_def_id (civ_cred_def_id i)") (auto simp: fetch_cred_def_def from_ledger_def)
  qed
qed

section \<open>What the prover's helpers return\<close>

text \<open>The registry of a credential for which a non-revocation state is made.\<close>

definition rev_key :: "CredInfoProver \<Rightarrow> string option" where
  "rev_key c = (if cip_cred_rev_id c = None \<or> cip_tails_dir c = None then None else cip_rev_reg_id c)"

definition stamp :: "(string \<rightharpoonup> u64) \<Rightarrow> CredInfoProver \<Rightarrow> CredInfoProver" where
  "stamp ts c = (case rev_key c of Some r \<Rightarrow> c\<lparr>cip_timestamp := ts r\<rparr> | None \<Rightarrow> c)"

text \<open>One state per registry, with the timestamp that all its credentials get.\<close>

definition states_ok ::
  "CredInfoProver list \<Rightarrow> RevocationStatesMap \<times> (string \<rightharpoonup> u64) \<times> CredInfoProver list \<Rightarrow> bool" where
  "states_ok xs st \<longleftrightarrow> (case st of (rtn, ts, out) \<Rightarrow>
     out = map (stamp ts) xs \<and> dom rtn = Collect (\<lambda>r. Some r \<in> rev_key ` set xs)
     \<and> (\<forall>r. case ts r of None \<Rightarrow> rtn r = None | Some t \<Rightarrow> (\<exists>s. rtn r = Some [t \<mapsto> s])))"

lemma rev_states_step_cases:
  assumes "rev_states_step L A clock (rtn, ts, out) x = Ok st'" and "cip_timestamp x = None"
  shows "(\<exists>r t s. rev_key x = Some r \<and> rtn r = None
        \<and> st' = (rtn(r \<mapsto> [t \<mapsto> s]), ts(r \<mapsto> t), out @ [x\<lparr>cip_timestamp := Some t\<rparr>]))
    \<or> (\<exists>r y. rev_key x = Some r \<and> rtn r = Some y \<and> st' = (rtn, ts, out @ [x\<lparr>cip_timestamp := ts r\<rparr>]))
    \<or> rev_key x = None \<and> st' = (rtn, ts, out @ [x])"
proof (cases "rev_key x")
  case None
  with assms show ?thesis
    by (auto simp: rev_states_step_def rev_key_def split: option.splits if_splits)
next
  case (Some r)
  then obtain c d where
    x: "cip_rev_reg_id x = Some r" "cip_cred_rev_id x = Some c" "cip_tails_dir x = Some d"
    by (auto simp: rev_key_def split: if_splits)
  show ?thesis
  proof (cases "rtn r")
    case None
    with assms(1) x obtain t s where "create_rev_state L A clock x r c d = Ok (t, s)"
      by (auto simp: rev_states_step_def)
    with None assms x Some show ?thesis
      by (intro disjI1 exI [of _ r] exI [of _ t] exI [of _ s]) (simp add: rev_states_step_def)
  next
    case (Some y)
    with assms x \<open>rev_key x = Some r\<close> show ?thesis by (simp add: rev_states_step_def)
  qed
qed

lemma states_ok_step:
  assumes "states_ok xs (rtn, ts, out)" and "rev_states_step L A clock (rtn, ts, out) x = Ok st'"
    and "cip_timestamp x = None"
  shows "states_ok (xs @ [x]) st'"
proof -
  have keep: "map (stamp (ts(r \<mapsto> t))) xs = map (stamp ts) xs" if "rtn r = None" for r t
    using assms(1) that by (auto simp: states_ok_def stamp_def split: option.splits) force
  from rev_states_step_cases [OF assms(2,3)] show ?thesis
  proof (elim disjE exE conjE)
    fix r t s
    assume "rev_key x = Some r" "rtn r = None"
      "st' = (rtn(r \<mapsto> [t \<mapsto> s]), ts(r \<mapsto> t), out @ [x\<lparr>cip_timestamp := Some t\<rparr>])"
    moreover from this keep have "map (stamp (ts(r \<mapsto> t))) xs = map (stamp ts) xs" by blast
    ultimately show ?thesis using assms(1) by (auto simp: states_ok_def stamp_def [of _ x] split: option.splits)
        (metis option.distinct(1))
  next
    fix r y
    assume "rev_key x = Some r" "rtn r = Some y" "st' = (rtn, ts, out @ [x\<lparr>cip_timestamp := ts r\<rparr>])"
    with assms(1) show ?thesis by (auto simp: states_ok_def stamp_def)
  next
    assume "rev_key x = None" "st' = (rtn, ts, out @ [x])"
    with assms(1) show ?thesis by (auto simp: states_ok_def stamp_def)
  qed
qed

lemma rev_states_fold:
  assumes "try_fold (rev_states_step L A clock) (Map.empty, Map.empty, []) xs = Ok st"
    and "\<And>x. x \<in> set xs \<Longrightarrow> cip_timestamp x = None"
  shows "states_ok xs st"
  using assms
proof (induction xs arbitrary: st rule: rev_induct)
  case Nil
  then show ?case by (auto simp: states_ok_def)
next
  case (snoc x xs)
  from snoc.prems(1) obtain st1 where
    st1: "try_fold (rev_states_step L A clock) (Map.empty, Map.empty, []) xs = Ok st1"
      "rev_states_step L A clock st1 x = Ok st"
    by (auto simp: try_fold_append)
  obtain rtn ts out where t: "st1 = (rtn, ts, out)" by (cases st1)
  from snoc.IH [OF st1(1)] snoc.prems(2) have "states_ok xs (rtn, ts, out)" by (simp add: t)
  from states_ok_step [OF this st1(2) [unfolded t]] snoc.prems(2) show ?case by simp
qed

lemma fold_insert_other:
  "x \<notin> k ` set xs \<Longrightarrow> fold (\<lambda>c m. if P c then m(k c \<mapsto> v c) else m) xs m x = m x"
  by (induction xs arbitrary: m) auto

lemma fold_insert_lookup:
  "distinct (map k xs) \<Longrightarrow> c \<in> set xs \<Longrightarrow>
     fold (\<lambda>c m. if P c then m(k c \<mapsto> v c) else m) xs m (k c) = (if P c then Some (v c) else m (k c))"
proof (induction xs arbitrary: m)
  case (Cons x xs)
  show ?case
  proof (cases "c = x")
    case True
    with Cons.prems(1) show ?thesis by (simp add: fold_insert_other)
  next
    case False
    with Cons.prems(2) have "c \<in> set xs" by simp
    moreover from imageI [OF this, of k] Cons.prems(1) have "k c \<noteq> k x" by auto
    ultimately show ?thesis using Cons by simp
  qed
qed simp

lemma try_map_pick: "try_map f xs = Ok ys \<Longrightarrow> x \<in> set xs \<Longrightarrow> \<exists>y \<in> set ys. f x = Ok y"
  by (induction xs arbitrary: ys) auto

lemma identifiers_fields:
  assumes "credential_def_identifiers creds req = Ok xs"
  shows "map cip_referent xs = map fst creds" and "\<And>x. x \<in> set xs \<Longrightarrow> cip_timestamp x = None"
  using assms unfolding credential_def_identifiers_def
  by (induction creds arbitrary: xs) (auto simp: Let_def)

section \<open>Properties\<close>

text \<open>
  What the check of the revealed attributes accepts: exactly the proofs in which every entry
  of \<open>revealed_attrs\<close> has a raw text and, as encoded text, the encoding of that raw text. A
  readable proof that fails is refused as \<open>InvalidProof\<close>, never with another error.
\<close>

theorem revealed_attributes_checked:
  "case x_json_parse E p of
     Ok proof \<Rightarrow>
       (let m = (case as_object (json_index (json_index proof ''requested_proof'') ''revealed_attrs'') of
            None \<Rightarrow> [] | Some m \<Rightarrow> m)
        in if list_all (revealed_ok E) m then validate_proof_revealed_attributes E p = Ok ()
           else \<exists>e. validate_proof_revealed_attributes E p = Err e \<and> err_kind e = InvalidProof)
   | Err _ \<Rightarrow> (\<exists>e. validate_proof_revealed_attributes E p = Err e \<and> err_kind e = InvalidJson)
   | Panic \<Rightarrow> validate_proof_revealed_attributes E p = Panic"
proof (cases "x_json_parse E p")
  case (Ok pf)
  show ?thesis
    using check_all_cases [of E]
    by (simp add: Ok validate_proof_revealed_attributes_def parse_proof_def Let_def split: option.split)
qed (simp_all add: validate_proof_revealed_attributes_def parse_proof_def)

text \<open>
  Only \<open>revealed_attrs\<close> is compared: the values a proof reveals as a group are never checked
  against their encoding, whatever they are.
\<close>

theorem revealed_groups_unchecked:
  assumes "x_json_parse E p = Ok (JObject [(''requested_proof'', JObject
      [(''revealed_attr_groups'', groups), (''revealed_attrs'', JObject m)])])"
    and "list_all (revealed_ok E) m"
  shows "validate_proof_revealed_attributes E p = Ok ()"
proof -
  have "json_index (json_index (JObject [(''requested_proof'', JObject
      [(''revealed_attr_groups'', groups), (''revealed_attrs'', JObject m)])]) ''requested_proof'')
      ''revealed_attrs'' = JObject m" by (simp add: json_index_def)
  then show ?thesis
    using assms check_all_cases [of E m]
    by (simp add: validate_proof_revealed_attributes_def parse_proof_def)
qed

theorem revealed_groups_unchecked_witness:
  "validate_proof_revealed_attributes (sample_ext (\<lambda>_. Ok (JObject [(''requested_proof'', JObject
      [(''revealed_attr_groups'', JObject [(''g'', JObject [(''raw'', JString ''5''),
         (''encoded'', JString ''6'')])]), (''revealed_attrs'', JObject [])])]))) ''p'' = Ok ()"
  by (rule revealed_groups_unchecked [where m = "[]"]) (simp_all add: sample_ext_def)

text \<open>
  C9. A verdict rests on the ledger: when \<open>validate_indy_proof\<close> returns, the revealed attributes
  passed their check, the verdict is the back end's, and the schemas and credential
  definitions it was given are, for every identifier in the proof, the ones the ledger returns.
\<close>

theorem verdict_uses_ledger:
  assumes "validate_indy_proof E C dbg L A p q = Ok b"
  shows "validate_proof_revealed_attributes E p = Ok ()
    \<and> (\<exists>data sm cm req proof schemas defs rrd rr. get_credential_info E p = Ok data
      \<and> c_de_pres_request C q = Ok req \<and> c_de_presentation C p = Ok proof
      \<and> c_de_schemas C (x_json_print E (JObject sm)) = Ok schemas
      \<and> c_de_cred_defs C (x_json_print E (JObject cm)) = Ok defs
      \<and> ac_verifier_verify_proof A req proof schemas defs rrd rr = Ok b
      \<and> list_all (\<lambda>i. (\<exists>j. lg_get_schema L (civ_schema_id i) None = Ok j
            \<and> map_of sm (civ_schema_id i) = Some j)
          \<and> (\<exists>c j. vcx_cred_def_id (civ_cred_def_id i) = Ok c \<and> lg_get_cred_def L c None = Ok j
            \<and> map_of cm (civ_cred_def_id i) = Some j)) data)"
proof -
  from assms obtain data ct st req pf schemas ds rrd rr where
    ok: "validate_proof_revealed_attributes E p = Ok ()" "get_credential_info E p = Ok data"
      "build_cred_defs_json_verifier E L data = Ok ct" "build_schemas_json_verifier E L data = Ok st"
      "c_de_pres_request C q = Ok req" "c_de_presentation C p = Ok pf"
      "c_de_schemas C st = Ok schemas" "c_de_cred_defs C ct = Ok ds"
      "ac_verifier_verify_proof A req pf schemas ds rrd rr = Ok b"
    by (auto simp: validate_indy_proof_def from_serde_def from_anon_def)
  obtain sm where sm: "st = x_json_print E (JObject sm)"
    "\<And>i. i \<in> set data \<Longrightarrow> \<exists>j. lg_get_schema L (civ_schema_id i) None = Ok j
       \<and> map_of sm (civ_schema_id i) = Some j" by (rule build_schemas_serves [OF ok(4)]) blast
  obtain cm where cm: "ct = x_json_print E (JObject cm)"
    "\<And>i. i \<in> set data \<Longrightarrow> \<exists>c j. vcx_cred_def_id (civ_cred_def_id i) = Ok c
       \<and> lg_get_cred_def L c None = Ok j \<and> map_of cm (civ_cred_def_id i) = Some j"
    by (rule build_cred_defs_serves [OF ok(3)]) blast
  have "list_all (\<lambda>i. (\<exists>j. lg_get_schema L (civ_schema_id i) None = Ok j
          \<and> map_of sm (civ_schema_id i) = Some j)
        \<and> (\<exists>c j. vcx_cred_def_id (civ_cred_def_id i) = Ok c \<and> lg_get_cred_def L c None = Ok j
          \<and> map_of cm (civ_cred_def_id i) = Some j)) data"
    using sm(2) cm(2) by (simp add: list_all_iff)
  with ok show ?thesis unfolding sm(1) cm(1) by blast
qed

text \<open>A proof with one identifier, and a ledger that does not know its registry.\<close>

definition sample_identifiers :: json where
  "sample_identifiers = JObject [(''identifiers'', JArray [JObject
     [(''cred_def_id'', JString ''c:1''), (''rev_reg_id'', JString ''r:1''), (''schema_id'', JString ''s:1'')]])]"

definition sample_proof_info :: CredInfoVerifier where
  "sample_proof_info = \<lparr>civ_schema_id = ''s:1'', civ_cred_def_id = ''c:1'', civ_rev_reg_id = Some ''r:1'',
     civ_timestamp = None\<rparr>"

abbreviation sample_proof_ext :: ext where
  "sample_proof_ext \<equiv> sample_ext (\<lambda>_. Ok sample_identifiers)"

definition sample_gap_ledger :: "unit ledger" where
  "sample_gap_ledger = sample_ledger\<lparr>lg_get_rev_reg_def_json := \<lambda>_. Err Le_LedgerItemNotFound\<rparr>"

lemma sample_ids: "vcx_schema_id ''s:1'' = Ok ''s:1''" "vcx_cred_def_id ''c:1'' = Ok ''c:1''"
  "vcx_rev_reg_def_id ''r:1'' = Ok ''r:1''"
  by code_simp+

lemma sample_proof_parts:
  "validate_proof_revealed_attributes sample_proof_ext p = Ok ()"
  "get_credential_info sample_proof_ext p = Ok [sample_proof_info]"
  "build_cred_defs_json_verifier sample_proof_ext sample_gap_ledger [sample_proof_info] = Ok []"
  "build_schemas_json_verifier sample_proof_ext sample_gap_ledger [sample_proof_info] = Ok []"
  by (simp_all add: validate_proof_revealed_attributes_def parse_proof_def sample_identifiers_def
      get_credential_info_def identifier_info_def sample_ids sample_proof_info_def json_index_def
      build_cred_defs_json_verifier_def build_schemas_json_verifier_def fetch_missing_def
      fetch_cred_def_def fetch_schema_def sample_gap_ledger_def sample_ext_def sample_ledger_def)

lemma sample_proof_revocation:
  "\<exists>e. build_rev_reg_defs_json sample_proof_ext sample_gap_ledger [sample_proof_info] = Err e"
  "\<exists>e. build_rev_reg_json sample_proof_ext dbg sample_gap_ledger [sample_proof_info] = Err e"
  by (simp_all add: build_rev_reg_defs_json_def build_rev_reg_json_def sample_proof_info_def
      fetch_missing_def fetch_rev_reg_def_def add_rev_reg_def sample_ids sample_gap_ledger_def)

lemma sample_validate:
  "validate_indy_proof sample_proof_ext sample_codec (\<lambda>_. []) sample_gap_ledger sample_anoncreds p q = Ok True"
proof -
  obtain e1 e2 where
    "build_rev_reg_defs_json sample_proof_ext sample_gap_ledger [sample_proof_info] = Err e1"
    "build_rev_reg_json sample_proof_ext (\<lambda>_. []) sample_gap_ledger [sample_proof_info] = Err e2"
    using sample_proof_revocation by blast
  then show ?thesis
    by (simp add: validate_indy_proof_def sample_proof_parts)
      (simp add: sample_codec_def sample_anoncreds_def)
qed

text \<open>
  Revocation data that cannot be fetched is not an error: when building the registry
  definitions or the registries fails, for whatever reason, the proof is verified with the
  empty object in their place.
\<close>

theorem rev_data_failure_swallowed:
  assumes "build_rev_reg_defs_json E L data = Err e1" and "build_rev_reg_json E dbg L data = Err e2"
    and "validate_proof_revealed_attributes E p = Ok ()" and "get_credential_info E p = Ok data"
    and "build_cred_defs_json_verifier E L data = Ok ct" and "build_schemas_json_verifier E L data = Ok st"
    and "c_de_pres_request C q = Ok req" and "c_de_presentation C p = Ok pf"
    and "c_de_schemas C st = Ok schemas" and "c_de_cred_defs C ct = Ok ds"
    and "c_de_rev_reg_defs C (x_json_print E (JObject [])) = Ok rrd"
    and "c_de_rev_regs C (x_json_print E (JObject [])) = Ok rr"
  shows "validate_indy_proof E C dbg L A p q
    = from_anon (ac_verifier_verify_proof A req pf schemas ds rrd rr)"
  using assms by (simp add: validate_indy_proof_def)

theorem rev_data_failure_swallowed_witness:
  "validate_indy_proof sample_proof_ext sample_codec (\<lambda>_. []) sample_gap_ledger sample_anoncreds ''p'' ''q''
     = Ok True"
proof -
  obtain e1 e2 where
    e: "build_rev_reg_defs_json sample_proof_ext sample_gap_ledger [sample_proof_info] = Err e1"
      "build_rev_reg_json sample_proof_ext (\<lambda>_. []) sample_gap_ledger [sample_proof_info] = Err e2"
    using sample_proof_revocation by blast
  show ?thesis
    using rev_data_failure_swallowed [OF e sample_proof_parts, where C = sample_codec and p = "''p''"
        and q = "''q''" and req = sample_pres_request and pf = sample_presentation and schemas = Map.empty
        and ds = Map.empty and rrd = None and rr = None and A = sample_anoncreds]
    by (simp add: sample_codec_def sample_anoncreds_def)
qed

theorem verdict_uses_ledger_witness:
  "\<exists>j. lg_get_schema sample_gap_ledger ''s:1'' None = Ok j"
  using verdict_uses_ledger [OF sample_validate, of "''p''"]
  by (auto simp: sample_proof_parts(2) sample_proof_info_def)

text \<open>
  The timestamp an entry of the request must carry: that of the one non-revocation state of the
  credential's registry, or none when no state was made for it.
\<close>

definition stamped :: "RevocationStatesMap \<Rightarrow> SelectedCredentialForReferent \<Rightarrow> u64 option \<Rightarrow> bool" where
  "stamped states c ts \<longleftrightarrow>
     (case (sci_rev_reg_id (scr_cred_info c), sci_cred_rev_id (scr_cred_info c), scr_tails_dir c) of
        (Some r, Some _, Some _) \<Rightarrow> (\<exists>t s. ts = Some t \<and> states r = Some [t \<mapsto> s])
      | _ \<Rightarrow> ts = None)"

definition serves :: "'m ledger \<Rightarrow> RequestedCredentials \<Rightarrow> (string \<rightharpoonup> json) \<Rightarrow> (string \<rightharpoonup> json) \<Rightarrow>
    RevocationStatesMap \<Rightarrow> PresentationRequest \<Rightarrow> string \<times> SelectedCredentialForReferent \<Rightarrow> bool" where
  "serves L rc schemas cds states req entry \<longleftrightarrow> (case entry of (ref, c) \<Rightarrow>
     (case map_of (prp_requested_attributes (pr_value req)) ref of
        None \<Rightarrow> rc_requested_attributes rc ref = None
      | Some _ \<Rightarrow> (\<exists>ts. stamped states c ts \<and> rc_requested_attributes rc ref = Some
          \<lparr>ra_cred_id = sci_referent (scr_cred_info c), ra_timestamp = ts,
           ra_revealed = unwrap_default (sci_revealed (scr_cred_info c)) True\<rparr>))
     \<and> (case map_of (prp_requested_predicates (pr_value req)) ref of
        None \<Rightarrow> rc_requested_predicates rc ref = None
      | Some _ \<Rightarrow> (\<exists>ts. stamped states c ts \<and> rc_requested_predicates rc ref = Some
          \<lparr>rp_cred_id = sci_referent (scr_cred_info c), rp_timestamp = ts\<rparr>))
     \<and> (\<exists>j. schemas (sci_schema_id (scr_cred_info c)) = Some j
          \<and> lg_get_schema L (sci_schema_id (scr_cred_info c)) None = Ok j)
     \<and> (\<exists>j. cds (sci_cred_def_id (scr_cred_info c)) = Some j
          \<and> lg_get_cred_def L (sci_cred_def_id (scr_cred_info c)) None = Ok j))"

lemma identifier_of:
  assumes "credential_def_identifiers creds req = Ok xs" and "(ref, c) \<in> set creds"
  obtains x where "x \<in> set xs" "cip_referent x = ref"
    "cip_credential_referent x = sci_referent (scr_cred_info c)"
    "cip_schema_id x = sci_schema_id (scr_cred_info c)" "cip_cred_def_id x = sci_cred_def_id (scr_cred_info c)"
    "cip_revealed x = sci_revealed (scr_cred_info c)" "cip_timestamp x = None"
    "rev_key x = (if sci_cred_rev_id (scr_cred_info c) = None \<or> scr_tails_dir c = None then None
       else sci_rev_reg_id (scr_cred_info c))"
  using try_map_pick [OF assms(1) [unfolded credential_def_identifiers_def] assms(2)]
  by (auto simp: Let_def rev_key_def)

lemma stamp_fields [simp]:
  "cip_referent (stamp ts x) = cip_referent x" "cip_credential_referent (stamp ts x) = cip_credential_referent x"
  "cip_schema_id (stamp ts x) = cip_schema_id x" "cip_cred_def_id (stamp ts x) = cip_cred_def_id x"
  "cip_revealed (stamp ts x) = cip_revealed x"
  by (simp_all add: stamp_def split: option.split)

lemma stamp_stamped:
  assumes "states_ok xs (states, ts, map (stamp ts) xs)" and "x \<in> set xs" and "cip_timestamp x = None"
    and "rev_key x = (if sci_cred_rev_id (scr_cred_info c) = None \<or> scr_tails_dir c = None then None
       else sci_rev_reg_id (scr_cred_info c))"
  shows "stamped states c (cip_timestamp (stamp ts x))"
proof (cases "rev_key x")
  case None
  with assms(3,4) show ?thesis by (auto simp: stamped_def stamp_def split: option.splits if_splits)
next
  case (Some r)
  with assms(1,2) have "r \<in> dom states" by (force simp: states_ok_def)
  with assms(1) obtain t s where "ts r = Some t" "states r = Some [t \<mapsto> s]"
    by (fastforce simp: states_ok_def split: option.splits)
  with Some assms(4) show ?thesis by (auto simp: stamped_def stamp_def split: option.splits if_splits)
qed

lemma requested_dom:
  assumes "build_requested_credentials_json out self_attested req = Ok rc"
  shows "rc_self_attested_attributes rc = self_attested"
    and "dom (rc_requested_attributes rc) \<subseteq> cip_referent ` set out"
    and "dom (rc_requested_predicates rc) \<subseteq> cip_referent ` set out"
proof -
  have none: "fold (\<lambda>c m. if P c then m(cip_referent c \<mapsto> v c) else m) out Map.empty r = Some y \<Longrightarrow>
      r \<in> cip_referent ` set out" for P r y and v :: "CredInfoProver \<Rightarrow> 'z"
    using fold_insert_other [of r cip_referent out P v Map.empty] by (cases "r \<in> cip_referent ` set out") auto
  from assms show "rc_self_attested_attributes rc = self_attested"
    "dom (rc_requested_attributes rc) \<subseteq> cip_referent ` set out"
    "dom (rc_requested_predicates rc) \<subseteq> cip_referent ` set out"
    by (auto simp: build_requested_credentials_json_def dest: none)
qed

lemma selected_served:
  assumes ids: "credential_def_identifiers creds req = Ok xs" and dist: "distinct (map fst creds)"
    and st: "states_ok xs (states, ts, map (stamp ts) xs)"
    and rc: "build_requested_credentials_json (map (stamp ts) xs) self_attested req = Ok rc"
    and schemas: "build_schemas_json_prover L (map (stamp ts) xs) = Ok schemas"
    and cds: "build_cred_defs_json_prover L (map (stamp ts) xs) = Ok cds"
    and sel: "(ref, c) \<in> set creds"
  shows "serves L rc schemas cds states req (ref, c)"
proof (rule identifier_of [OF ids sel])
  fix x
  assume x: "x \<in> set xs" "cip_referent x = ref"
    "cip_credential_referent x = sci_referent (scr_cred_info c)"
    "cip_schema_id x = sci_schema_id (scr_cred_info c)" "cip_cred_def_id x = sci_cred_def_id (scr_cred_info c)"
    "cip_revealed x = sci_revealed (scr_cred_info c)" "cip_timestamp x = None"
    "rev_key x = (if sci_cred_rev_id (scr_cred_info c) = None \<or> scr_tails_dir c = None then None
       else sci_rev_reg_id (scr_cred_info c))"
  have y: "stamp ts x \<in> set (map (stamp ts) xs)" using x(1) by simp
  have d: "distinct (map cip_referent (map (stamp ts) xs))"
    using identifiers_fields(1) [OF ids] dist by (simp add: o_def)
  note lookup = fold_insert_lookup [OF d y, unfolded stamp_fields x(2)]
  from hash_map.fetch_all_serves [OF schemas [unfolded build_schemas_json_prover_def] y]
  have s: "\<exists>j. schemas (cip_schema_id x) = Some j \<and> lg_get_schema L (cip_schema_id x) None = Ok j"
    by auto
  from hash_map.fetch_all_serves [OF cds [unfolded build_cred_defs_json_prover_def] y]
  have cd: "\<exists>j. cds (cip_cred_def_id x) = Some j \<and> lg_get_cred_def L (cip_cred_def_id x) None = Ok j"
    by auto
  from rc stamp_stamped [OF st x(1,7,8)] s cd show ?thesis
    by (auto simp: serves_def build_requested_credentials_json_def lookup x split: option.splits)
qed

text \<open>
  C10. What the back end is asked to prove is what was selected: for every selected referent the
  request names the selected credential, with the timestamp of the one revocation state made
  for its registry; the schemas and definitions are the ledger's; the self-attested values are
  handed through; and every selected referent is one of the request.
\<close>

theorem proof_inputs_consistent:
  assumes "generate_indy_proof L A w clock creds self_attested req = (Ok p, w')"
    and "distinct (map fst creds)"
  shows "\<exists>rc schemas cds states.
      ac_prover_create_proof A w req rc ''main'' schemas cds (Some states) = (Ok p, w')
    \<and> rc_self_attested_attributes rc = self_attested
    \<and> dom (rc_requested_attributes rc) \<subseteq> fst ` set creds \<and> dom (rc_requested_predicates rc) \<subseteq> fst ` set creds
    \<and> list_all (serves L rc schemas cds states req) creds"
proof -
  from assms(1) obtain xs states out rc schemas cds where
    ok: "credential_def_identifiers creds req = Ok xs" "build_rev_states_json L A clock xs = Ok (states, out)"
      "build_requested_credentials_json out self_attested req = Ok rc"
      "build_schemas_json_prover L out = Ok schemas" "build_cred_defs_json_prover L out = Ok cds"
      "ac_prover_create_proof A w req rc ''main'' schemas cds (Some states) = (Ok p, w')"
    by (auto simp: generate_indy_proof_def DEFAULT_LINK_SECRET_ALIAS_def anon_w_def from_anon_def prod_eq_iff
        split: result.splits)
  from ok(2) obtain ts where "states_ok xs (states, ts, out)"
    using rev_states_fold [of L A clock xs] identifiers_fields(2) [OF ok(1)]
    by (auto simp: build_rev_states_json_def)
  then have st: "states_ok xs (states, ts, map (stamp ts) xs)" "out = map (stamp ts) xs"
    by (auto simp: states_ok_def)
  have refs: "cip_referent ` set out = fst ` set creds"
    using arg_cong [OF identifiers_fields(1) [OF ok(1)], of set] by (simp add: st(2) image_image)
  have "list_all (serves L rc schemas cds states req) creds"
    using selected_served [OF ok(1) assms(2) st(1) ok(3-5) [unfolded st(2)]] by (auto simp: list_all_iff)
  with ok(6) requested_dom [OF ok(3), unfolded refs] show ?thesis by blast
qed

definition sample_selection :: SelectedCredentials where
  "sample_selection = [(''a'', \<lparr>scr_cred_info = \<lparr>sci_referent = ''cred-1'', sci_schema_id = ''s:1'',
     sci_cred_def_id = ''c:1'', sci_rev_reg_id = Some ''r:1'', sci_cred_rev_id = Some 7,
     sci_revealed = None\<rparr>, scr_tails_dir = Some ''tails''\<rparr>)]"

lemma sample_generate:
  "generate_indy_proof sample_ledger sample_anoncreds () (\<lambda>_. 3) sample_selection Map.empty
     sample_pres_request = (Ok sample_presentation, ())"
  by (simp add: generate_indy_proof_def sample_selection_def credential_def_identifiers_def
      get_revocation_interval_def sample_pres_request_def build_rev_states_json_def rev_states_step_def
      create_rev_state_def sample_ids build_requested_credentials_json_def build_schemas_json_prover_def
      build_cred_defs_json_prover_def fetch_missing_def sample_ledger_def sample_anoncreds_def)

theorem proof_inputs_consistent_witness:
  "\<exists>rc schemas cds states. list_all (serves sample_ledger rc schemas cds states sample_pres_request)
      sample_selection \<and> dom (rc_requested_attributes rc) \<subseteq> {''a''}"
proof -
  have "distinct (map fst sample_selection)" by (simp add: sample_selection_def)
  from proof_inputs_consistent [OF sample_generate this] show ?thesis
    by (auto simp: sample_selection_def)
qed

end
