(* ===== verification/Verifier_SM.thy ===== *)
theory Verifier_SM
  imports Proofs
begin

text \<open>
  The verifier of presentations: the state machine
  \<open>protocols/proof_presentation/verifier/state_machine.rs\<close> with the states under \<open>states/\<close>, and the
  handler \<open>handlers/proof_presentation/verifier.rs\<close>. \<open>dbg\<close> stands for the derived \<open>Debug\<close> texts.
\<close>

section \<open>States\<close>

datatype PresentationVerificationStatus = Pvs_Valid | Pvs_Invalid | Pvs_Unavailable

record PresentationProposalReceivedState =
  pps_presentation_proposal :: ProposePresentationV1
  pps_presentation_request :: "RequestPresentationV1 option"

record VerifierFinishedState =
  vfs_presentation_request :: "RequestPresentationV1 option"
  vfs_presentation :: "PresentationV1 option"
  vfs_status :: Status
  vfs_verification_status :: PresentationVerificationStatus

datatype VerifierFullState =
    V_Initial
  | V_PresentationRequestSet RequestPresentationV1
  | V_PresentationProposalReceived PresentationProposalReceivedState
  | V_PresentationRequestSent RequestPresentationV1
  | V_Finished VerifierFinishedState

datatype VerifierState =
    Vs_Initial | Vs_PresentationProposalReceived | Vs_PresentationRequestSet
  | Vs_PresentationRequestSent | Vs_Finished | Vs_Failed

record VerifierSM =
  vs_source_id :: string
  vs_thread_id :: string
  vs_state :: VerifierFullState

fun show_VerifierState :: "VerifierState \<Rightarrow> string" where
  "show_VerifierState Vs_Initial = ''Initial''"
| "show_VerifierState Vs_PresentationProposalReceived = ''PresentationProposalReceived''"
| "show_VerifierState Vs_PresentationRequestSet = ''PresentationRequestSet''"
| "show_VerifierState Vs_PresentationRequestSent = ''PresentationRequestSent''"
| "show_VerifierState Vs_Finished = ''Finished''"
| "show_VerifierState Vs_Failed = ''Failed''"

definition verifier_declined :: "ProblemReport \<Rightarrow> VerifierFinishedState" where
  "verifier_declined problem_report =
     \<lparr>vfs_presentation_request = None, vfs_presentation = None, vfs_status = Declined problem_report,
      vfs_verification_status = Pvs_Unavailable\<rparr>"

definition from_sent_and_presentation ::
  "RequestPresentationV1 \<Rightarrow> PresentationV1 \<Rightarrow> PresentationVerificationStatus \<Rightarrow> VerifierFinishedState" where
  "from_sent_and_presentation request presentation verification_status =
     \<lparr>vfs_presentation_request = Some request, vfs_presentation = Some presentation,
      vfs_status = Success, vfs_verification_status = verification_status\<rparr>"

definition from_sent_and_report :: "RequestPresentationV1 \<Rightarrow> ProblemReport \<Rightarrow> VerifierFinishedState" where
  "from_sent_and_report request problem_report =
     \<lparr>vfs_presentation_request = Some request, vfs_presentation = None,
      vfs_status = Failed problem_report, vfs_verification_status = Pvs_Unavailable\<rparr>"

definition proposal_received_new :: "ProposePresentationV1 \<Rightarrow> PresentationProposalReceivedState" where
  "proposal_received_new proposal =
     \<lparr>pps_presentation_proposal = proposal, pps_presentation_request = None\<rparr>"

section \<open>Messages\<close>

definition build_verification_ack :: "string \<Rightarrow> DateTime \<Rightarrow> string \<Rightarrow> Ack" where
  "build_verification_ack uuid now thread_id =
     \<lparr>mp_id = uuid, mp_content = \<lparr>ack_status = Ack_Ok\<rparr>,
      mp_decorators = \<lparr>ak_thread = new_thread thread_id, ak_timing = Some (timing_out now)\<rparr>\<rparr>"

definition build_starting_presentation_request ::
  "ext \<Rightarrow> codec \<Rightarrow> DateTime \<Rightarrow> string \<Rightarrow> PresentationRequest \<Rightarrow> string option \<Rightarrow> RequestPresentationV1 VcxResult" where
  "build_starting_presentation_request E C now thread_id request_data comment =
     Ok \<lparr>mp_id = thread_id,
       mp_content = \<lparr>rpc_comment = comment,
         rpc_request_presentations_attach = [make_attach_from_str E (c_ser_pres_request C request_data)
           (AttachmentId_as_ref Att_PresentationRequest)]\<rparr>,
       mp_decorators = \<lparr>od_thread = None, od_timing = Some (timing_out now)\<rparr>\<rparr>"

text \<open>The thread a proposal belongs to.\<close>

definition proposal_thread :: "ProposePresentationV1 \<Rightarrow> string" where
  "proposal_thread proposal = (case od_thread (mp_decorators proposal) of
     Some thread \<Rightarrow> thid thread | None \<Rightarrow> mp_id proposal)"

section \<open>Transitions\<close>

definition verifier_new :: "string \<Rightarrow> VerifierSM" where
  "verifier_new source_id = \<lparr>vs_source_id = source_id, vs_thread_id = [], vs_state = V_Initial\<rparr>"

definition verifier_set_presentation_request ::
  "ext \<Rightarrow> codec \<Rightarrow> DateTime \<Rightarrow> VerifierSM \<Rightarrow> PresentationRequest \<Rightarrow> string option \<Rightarrow> VerifierSM VcxResult" where
  "verifier_set_presentation_request E C now self request_data comment =
     (let proceed =
        and_then (build_starting_presentation_request E C now (vs_thread_id self) request_data comment)
          (\<lambda>presentation_request. Ok (self\<lparr>vs_state := V_PresentationRequestSet presentation_request\<rparr>))
      in case vs_state self of
           V_Initial \<Rightarrow> proceed
         | V_PresentationRequestSet _ \<Rightarrow> proceed
         | V_PresentationProposalReceived _ \<Rightarrow> proceed
         | _ \<Rightarrow> vcx_err InvalidState ''Cannot set presentation request in this state'')"

definition verifier_from_request ::
  "ext \<Rightarrow> codec \<Rightarrow> string \<Rightarrow> DateTime \<Rightarrow> string \<Rightarrow> PresentationRequest \<Rightarrow> VerifierSM VcxResult" where
  "verifier_from_request E C uuid now source_id presentation_request_data =
     verifier_set_presentation_request E C now
       \<lparr>vs_source_id = source_id, vs_thread_id = uuid, vs_state = V_Initial\<rparr>
       presentation_request_data None"

definition verifier_from_proposal :: "string \<Rightarrow> ProposePresentationV1 \<Rightarrow> VerifierSM" where
  "verifier_from_proposal source_id presentation_proposal =
     \<lparr>vs_source_id = source_id, vs_thread_id = mp_id presentation_proposal,
      vs_state = V_PresentationProposalReceived (proposal_received_new presentation_proposal)\<rparr>"

definition verifier_receive_presentation_proposal ::
  "ext \<Rightarrow> VerifierSM \<Rightarrow> ProposePresentationV1 \<Rightarrow> VerifierSM VcxResult" where
  "verifier_receive_presentation_proposal E self proposal =
     and_then (verify_thread_id E (vs_thread_id self) (pp1_msg (PP1_ProposePresentation proposal))) (\<lambda>_.
       case vs_state self of
         V_Initial \<Rightarrow>
           Ok (self\<lparr>vs_state := V_PresentationProposalReceived (proposal_received_new proposal),
             vs_thread_id := proposal_thread proposal\<rparr>)
       | V_PresentationRequestSent _ \<Rightarrow>
           Ok (self\<lparr>vs_state := V_PresentationProposalReceived (proposal_received_new proposal)\<rparr>)
       | _ \<Rightarrow> Ok self)"

definition verifier_receive_presentation_request_reject ::
  "ext \<Rightarrow> VerifierSM \<Rightarrow> ProblemReport \<Rightarrow> VerifierSM VcxResult" where
  "verifier_receive_presentation_request_reject E self problem_report =
     and_then (verify_thread_id E (vs_thread_id self) (ReportProblem problem_report)) (\<lambda>_.
       case vs_state self of
         V_PresentationRequestSent request \<Rightarrow>
           Ok (self\<lparr>vs_state := V_Finished (from_sent_and_report request problem_report)\<rparr>)
       | _ \<Rightarrow> Ok self)"

definition verifier_reject_presentation_proposal :: "VerifierSM \<Rightarrow> ProblemReport \<Rightarrow> VerifierSM VcxResult" where
  "verifier_reject_presentation_proposal self problem_report = (case vs_state self of
     V_PresentationProposalReceived state \<Rightarrow>
       Ok (self\<lparr>vs_state := V_Finished (verifier_declined problem_report),
         vs_thread_id := proposal_thread (pps_presentation_proposal state)\<rparr>)
   | _ \<Rightarrow> Ok self)"

definition sent_verify_presentation ::
  "ext \<Rightarrow> codec \<Rightarrow> (CredInfoVerifier \<Rightarrow> string) \<Rightarrow> 'm ledger \<Rightarrow> 'w anoncreds \<Rightarrow> RequestPresentationV1 \<Rightarrow>
   PresentationV1 \<Rightarrow> string \<Rightarrow> unit VcxResult" where
  "sent_verify_presentation E C dbg L A request presentation thread_id =
     (if \<not> matches_thread_id (pd_thread (mp_decorators presentation)) thread_id then
        vcx_err InvalidJson (''Cannot handle proof presentation: thread id does not match: ''
          @ x_debug_str E (thid (pd_thread (mp_decorators presentation))))
      else
      and_then (get_attach_as_string E (psc_presentations_attach (mp_content presentation))) (\<lambda>proof_json.
      and_then (get_attach_as_string E (rpc_request_presentations_attach (mp_content request)))
        (\<lambda>proof_req_json.
      and_then (validate_indy_proof E C dbg L A proof_json proof_req_json) (\<lambda>valid.
        if \<not> valid then vcx_err InvalidProof ''Presentation verification failed'' else Ok ()))))"

definition verifier_verify_presentation ::
  "ext \<Rightarrow> codec \<Rightarrow> (CredInfoVerifier \<Rightarrow> string) \<Rightarrow> 'm ledger \<Rightarrow> 'w anoncreds \<Rightarrow> string \<Rightarrow> VerifierSM \<Rightarrow>
   PresentationV1 \<Rightarrow> VerifierSM VcxResult" where
  "verifier_verify_presentation E C dbg L A uuid self presentation =
     and_then (verify_thread_id E (vs_thread_id self) (pp1_msg (PP1_Presentation presentation))) (\<lambda>_.
       case vs_state self of
         V_PresentationRequestSent request \<Rightarrow>
           (case sent_verify_presentation E C dbg L A request presentation (vs_thread_id self) of
              Ok _ \<Rightarrow> Ok (self\<lparr>vs_state := V_Finished
                (from_sent_and_presentation request presentation Pvs_Valid)\<rparr>)
            | Err err \<Rightarrow>
                (let problem_report = build_problem_report_msg uuid (Some (format_error err)) (vs_thread_id self)
                 in case err_kind err of
                      InvalidProof \<Rightarrow> Ok (self\<lparr>vs_state := V_Finished
                        (from_sent_and_presentation request presentation Pvs_Invalid)\<rparr>)
                    | _ \<Rightarrow> Ok (self\<lparr>vs_state := V_Finished (from_sent_and_report request problem_report)\<rparr>))
            | Panic \<Rightarrow> Panic)
       | _ \<Rightarrow> Ok self)"

definition verifier_mark_presentation_request_sent :: "VerifierSM \<Rightarrow> VerifierSM VcxResult" where
  "verifier_mark_presentation_request_sent self = (case vs_state self of
     V_PresentationRequestSet request \<Rightarrow> Ok (self\<lparr>vs_state := V_PresentationRequestSent request\<rparr>)
   | V_PresentationRequestSent request \<Rightarrow> Ok (self\<lparr>vs_state := V_PresentationRequestSent request\<rparr>)
   | _ \<Rightarrow> vcx_err InvalidState ''Can not mark_presentation_request_msg_sent in current state.'')"

section \<open>Views\<close>

definition verifier_get_final_message ::
  "(VerifierFullState \<Rightarrow> string) \<Rightarrow> string \<Rightarrow> DateTime \<Rightarrow> VerifierSM \<Rightarrow> AriesMessage VcxResult" where
  "verifier_get_final_message dbg uuid now self = (case vs_state self of
     V_Finished state \<Rightarrow>
       (if vfs_verification_status state = Pvs_Valid
        then Ok (pp1_msg (PP1_Ack (build_verification_ack uuid now (vs_thread_id self))))
        else case vfs_status state of
          Undefined \<Rightarrow> vcx_err InvalidState
            ''Cannot get final message in this state: finished, status undefined''
        | Success \<Rightarrow> Ok (ReportProblem (build_problem_report_msg uuid None (vs_thread_id self)))
        | Failed problem_report \<Rightarrow> Ok (pp1_msg (PP1_ProblemReport (to_protocol_report problem_report)))
        | Declined problem_report \<Rightarrow> Ok (pp1_msg (PP1_ProblemReport (to_protocol_report problem_report))))
   | s \<Rightarrow> vcx_err InvalidState (''Cannot get final message in this state: '' @ dbg s))"

definition verifier_get_state :: "VerifierSM \<Rightarrow> VerifierState" where
  "verifier_get_state self = (case vs_state self of
     V_Initial \<Rightarrow> Vs_Initial
   | V_PresentationRequestSet _ \<Rightarrow> Vs_PresentationRequestSet
   | V_PresentationProposalReceived _ \<Rightarrow> Vs_PresentationProposalReceived
   | V_PresentationRequestSent _ \<Rightarrow> Vs_PresentationRequestSent
   | V_Finished state \<Rightarrow> (case vfs_status state of Success \<Rightarrow> Vs_Finished | _ \<Rightarrow> Vs_Failed))"

definition verifier_progressable_by_message :: "VerifierSM \<Rightarrow> bool" where
  "verifier_progressable_by_message self = (case vs_state self of
     V_Initial \<Rightarrow> True
   | V_PresentationRequestSent _ \<Rightarrow> True
   | _ \<Rightarrow> False)"

definition verifier_get_verification_status :: "VerifierSM \<Rightarrow> PresentationVerificationStatus" where
  "verifier_get_verification_status self = (case vs_state self of
     V_Finished state \<Rightarrow> vfs_verification_status state
   | _ \<Rightarrow> Pvs_Unavailable)"

definition verifier_presentation_request_msg :: "VerifierSM \<Rightarrow> RequestPresentationV1 VcxResult" where
  "verifier_presentation_request_msg self = (case vs_state self of
     V_Initial \<Rightarrow> vcx_err InvalidState ''Presentation request not set yet''
   | V_PresentationRequestSet request \<Rightarrow> Ok request
   | V_PresentationProposalReceived state \<Rightarrow>
       ok_or (pps_presentation_request state) (from_msg InvalidState ''No presentation request set'')
   | V_PresentationRequestSent request \<Rightarrow> Ok request
   | V_Finished state \<Rightarrow>
       ok_or (vfs_presentation_request state) (from_msg InvalidState ''No presentation request set''))"

definition verifier_get_presentation_msg :: "VerifierSM \<Rightarrow> PresentationV1 VcxResult" where
  "verifier_get_presentation_msg self = (case vs_state self of
     V_Finished state \<Rightarrow> ok_or (vfs_presentation state) (from_msg InvalidState
       ''State machine is final state, but presentation is not available'')
   | _ \<Rightarrow> vcx_err InvalidState ''Presentation not received yet'')"

definition verifier_presentation_proposal :: "VerifierSM \<Rightarrow> ProposePresentationV1 VcxResult" where
  "verifier_presentation_proposal self = (case vs_state self of
     V_PresentationProposalReceived state \<Rightarrow> Ok (pps_presentation_proposal state)
   | _ \<Rightarrow> vcx_err InvalidState ''Presentation proposal not received yet'')"

section \<open>The handler\<close>

record Verifier =
  verifier_sm :: VerifierSM

definition assign_verifier :: "Verifier \<Rightarrow> VerifierSM VcxResult \<Rightarrow> unit VcxResult \<times> Verifier" where
  "assign_verifier self r = (map_ok (\<lambda>_. ()) r,
     case r of Ok sm \<Rightarrow> self\<lparr>verifier_sm := sm\<rparr> | _ \<Rightarrow> self)"

definition Verifier_create :: "string \<Rightarrow> Verifier VcxResult" where
  "Verifier_create source_id = Ok \<lparr>verifier_sm = verifier_new source_id\<rparr>"

definition Verifier_create_from_request ::
  "ext \<Rightarrow> codec \<Rightarrow> string \<Rightarrow> DateTime \<Rightarrow> string \<Rightarrow> PresentationRequest \<Rightarrow> Verifier VcxResult" where
  "Verifier_create_from_request E C uuid now source_id presentation_request =
     and_then (verifier_from_request E C uuid now source_id presentation_request) (\<lambda>sm.
       Ok \<lparr>verifier_sm = sm\<rparr>)"

definition Verifier_create_from_proposal :: "string \<Rightarrow> ProposePresentationV1 \<Rightarrow> Verifier VcxResult" where
  "Verifier_create_from_proposal source_id presentation_proposal =
     Ok \<lparr>verifier_sm = verifier_from_proposal source_id presentation_proposal\<rparr>"

definition Verifier_mark_presentation_request_sent ::
  "Verifier \<Rightarrow> RequestPresentationV1 VcxResult \<times> Verifier" where
  "Verifier_mark_presentation_request_sent self =
     (if verifier_get_state (verifier_sm self) = Vs_PresentationRequestSet then
        (case verifier_presentation_request_msg (verifier_sm self) of
           Ok request \<Rightarrow>
             (case assign_verifier self (verifier_mark_presentation_request_sent (verifier_sm self)) of
                (r, self') \<Rightarrow> (map_ok (\<lambda>_. request) r, self'))
         | Err e \<Rightarrow> (Err e, self)
         | Panic \<Rightarrow> (Panic, self))
      else (vcx_err NotReady ''Cannot send presentation request'', self))"

definition Verifier_verify_presentation ::
  "ext \<Rightarrow> codec \<Rightarrow> (CredInfoVerifier \<Rightarrow> string) \<Rightarrow> (VerifierFullState \<Rightarrow> string) \<Rightarrow> 'm ledger \<Rightarrow> 'w anoncreds \<Rightarrow>
   string \<Rightarrow> string \<Rightarrow> DateTime \<Rightarrow> Verifier \<Rightarrow> PresentationV1 \<Rightarrow> AriesMessage VcxResult \<times> Verifier" where
  "Verifier_verify_presentation E C dbg dbg_state L A uuid uuid2 now self presentation =
     (case assign_verifier self (verifier_verify_presentation E C dbg L A uuid (verifier_sm self) presentation) of
        (Ok _, self') \<Rightarrow> (verifier_get_final_message dbg_state uuid2 now (verifier_sm self'), self')
      | (Err e, self') \<Rightarrow> (Err e, self')
      | (Panic, self') \<Rightarrow> (Panic, self'))"

definition Verifier_set_presentation_request ::
  "ext \<Rightarrow> codec \<Rightarrow> DateTime \<Rightarrow> Verifier \<Rightarrow> PresentationRequest \<Rightarrow> string option \<Rightarrow> unit VcxResult \<times> Verifier" where
  "Verifier_set_presentation_request E C now self presentation_request_data comment =
     assign_verifier self
       (verifier_set_presentation_request E C now (verifier_sm self) presentation_request_data comment)"

definition Verifier_get_presentation_request_attachment :: "ext \<Rightarrow> Verifier \<Rightarrow> string VcxResult" where
  "Verifier_get_presentation_request_attachment E self =
     and_then (verifier_presentation_request_msg (verifier_sm self)) (\<lambda>pres_req.
       get_attach_as_string E (rpc_request_presentations_attach (mp_content pres_req)))"

definition Verifier_get_presentation_attachment :: "ext \<Rightarrow> Verifier \<Rightarrow> string VcxResult" where
  "Verifier_get_presentation_attachment E self =
     and_then (verifier_get_presentation_msg (verifier_sm self)) (\<lambda>presentation.
       get_attach_as_string E (psc_presentations_attach (mp_content presentation)))"

text \<open>
  The new machine is assigned only when the final message could be built too.
\<close>

definition Verifier_process_aries_msg ::
  "ext \<Rightarrow> codec \<Rightarrow> (CredInfoVerifier \<Rightarrow> string) \<Rightarrow> (VerifierFullState \<Rightarrow> string) \<Rightarrow> 'm ledger \<Rightarrow> 'w anoncreds \<Rightarrow>
   string \<Rightarrow> string \<Rightarrow> DateTime \<Rightarrow> Verifier \<Rightarrow> AriesMessage \<Rightarrow> AriesMessage option VcxResult \<times> Verifier" where
  "Verifier_process_aries_msg E C dbg dbg_state L A uuid uuid2 now self message =
     (let r = (case message of
          PresentProof (PP_V1 (PP1_ProposePresentation proposal)) \<Rightarrow>
            and_then (verifier_receive_presentation_proposal E (verifier_sm self) proposal) (\<lambda>sm. Ok (sm, None))
        | PresentProof (PP_V1 (PP1_Presentation presentation)) \<Rightarrow>
            and_then (verifier_verify_presentation E C dbg L A uuid (verifier_sm self) presentation) (\<lambda>sm.
            and_then (verifier_get_final_message dbg_state uuid2 now sm) (\<lambda>m. Ok (sm, Some m)))
        | ReportProblem report \<Rightarrow>
            and_then (verifier_receive_presentation_request_reject E (verifier_sm self) report)
              (\<lambda>sm. Ok (sm, None))
        | Notification (Not_ProblemReport report) \<Rightarrow>
            and_then (verifier_receive_presentation_request_reject E (verifier_sm self)
              (to_problem_report report)) (\<lambda>sm. Ok (sm, None))
        | PresentProof (PP_V1 (PP1_ProblemReport report)) \<Rightarrow>
            and_then (verifier_receive_presentation_request_reject E (verifier_sm self)
              (to_problem_report report)) (\<lambda>sm. Ok (sm, None))
        | _ \<Rightarrow> Ok (verifier_sm self, None))
      in case r of
           Ok (sm, m) \<Rightarrow> (Ok m, self\<lparr>verifier_sm := sm\<rparr>)
         | Err e \<Rightarrow> (Err e, self)
         | Panic \<Rightarrow> (Panic, self))"

definition Verifier_decline_presentation_proposal ::
  "string \<Rightarrow> Verifier \<Rightarrow> string \<Rightarrow> ProblemReport VcxResult \<times> Verifier" where
  "Verifier_decline_presentation_proposal uuid self reason =
     (let state = verifier_get_state (verifier_sm self) in
      if state = Vs_PresentationProposalReceived then
        (case verifier_presentation_proposal (verifier_sm self) of
           Ok proposal \<Rightarrow>
             (let problem_report = build_problem_report_msg uuid (Some reason) (proposal_thread proposal) in
              case assign_verifier self
                     (verifier_reject_presentation_proposal (verifier_sm self) problem_report) of
                (r, self') \<Rightarrow> (map_ok (\<lambda>_. problem_report) r, self'))
         | Err e \<Rightarrow> (Err e, self)
         | Panic \<Rightarrow> (Panic, self))
      else (vcx_err NotReady (''Unable to reject presentation proposal in state ''
        @ show_VerifierState state), self))"

section \<open>Runs\<close>

text \<open>One step is one successful call of a transition of the machine, with any input.\<close>

inductive verifier_step ::
  "ext \<Rightarrow> codec \<Rightarrow> (CredInfoVerifier \<Rightarrow> string) \<Rightarrow> 'm ledger \<Rightarrow> 'w anoncreds \<Rightarrow> VerifierSM \<Rightarrow> VerifierSM \<Rightarrow> bool"
  for E :: ext and C :: codec and dbg :: "CredInfoVerifier \<Rightarrow> string" and L :: "'m ledger"
  and A :: "'w anoncreds" where
  set: "verifier_set_presentation_request E C now s rd com = Ok t \<Longrightarrow> verifier_step E C dbg L A s t"
| sent: "verifier_mark_presentation_request_sent s = Ok t \<Longrightarrow> verifier_step E C dbg L A s t"
| proposal: "verifier_receive_presentation_proposal E s p = Ok t \<Longrightarrow> verifier_step E C dbg L A s t"
| decline: "verifier_reject_presentation_proposal s pr = Ok t \<Longrightarrow> verifier_step E C dbg L A s t"
| reject: "verifier_receive_presentation_request_reject E s pr = Ok t \<Longrightarrow> verifier_step E C dbg L A s t"
| verify: "verifier_verify_presentation E C dbg L A uuid s pres = Ok t \<Longrightarrow> verifier_step E C dbg L A s t"

text \<open>The abstract protocol of RFC 0037 on the verifier's side.\<close>

definition verifier_edge :: "VerifierState \<Rightarrow> VerifierState \<Rightarrow> bool" where
  "verifier_edge p q \<longleftrightarrow> (p, q) \<in>
     {(Vs_Initial, Vs_PresentationProposalReceived), (Vs_Initial, Vs_PresentationRequestSet),
      (Vs_PresentationProposalReceived, Vs_PresentationRequestSet),
      (Vs_PresentationProposalReceived, Vs_Failed),
      (Vs_PresentationRequestSet, Vs_PresentationRequestSent),
      (Vs_PresentationRequestSent, Vs_PresentationProposalReceived),
      (Vs_PresentationRequestSent, Vs_Finished), (Vs_PresentationRequestSent, Vs_Failed)}"

definition verifier_terminal :: "VerifierState \<Rightarrow> bool" where
  "verifier_terminal p \<longleftrightarrow> p \<in> {Vs_Finished, Vs_Failed}"

lemmas verifier_finish =
  verifier_declined_def from_sent_and_presentation_def from_sent_and_report_def

lemma verifier_phase [simp]:
  "verifier_get_state (s\<lparr>vs_state := V_PresentationRequestSet r\<rparr>) = Vs_PresentationRequestSet"
  "verifier_get_state (s\<lparr>vs_state := V_PresentationRequestSent r\<rparr>) = Vs_PresentationRequestSent"
  "verifier_get_state (s\<lparr>vs_state := V_PresentationProposalReceived p\<rparr>) = Vs_PresentationProposalReceived"
  "verifier_get_state (s\<lparr>vs_thread_id := i, vs_state := V_PresentationProposalReceived p\<rparr>)
     = Vs_PresentationProposalReceived"
  "verifier_get_state (s\<lparr>vs_thread_id := i, vs_state := V_Finished (verifier_declined pr)\<rparr>) = Vs_Failed"
  "verifier_get_state (s\<lparr>vs_state := V_Finished (verifier_declined pr), vs_thread_id := i\<rparr>) = Vs_Failed"
  "verifier_get_state (s\<lparr>vs_state := V_Finished (from_sent_and_report r pr)\<rparr>) = Vs_Failed"
  "verifier_get_state (s\<lparr>vs_state := V_Finished (from_sent_and_presentation r pres v)\<rparr>) = Vs_Finished"
  by (simp_all add: verifier_get_state_def verifier_finish)

lemma verifier_phase_of:
  "vs_state s = V_Initial \<Longrightarrow> verifier_get_state s = Vs_Initial"
  "vs_state s = V_PresentationRequestSet r \<Longrightarrow> verifier_get_state s = Vs_PresentationRequestSet"
  "vs_state s = V_PresentationProposalReceived p \<Longrightarrow> verifier_get_state s = Vs_PresentationProposalReceived"
  "vs_state s = V_PresentationRequestSent r \<Longrightarrow> verifier_get_state s = Vs_PresentationRequestSent"
  by (simp_all add: verifier_get_state_def)

text \<open>The moves of the machine; every successful call is one of them.\<close>

inductive verifier_move ::
  "ext \<Rightarrow> codec \<Rightarrow> (CredInfoVerifier \<Rightarrow> string) \<Rightarrow> 'm ledger \<Rightarrow> 'w anoncreds \<Rightarrow> VerifierSM \<Rightarrow> VerifierSM \<Rightarrow> bool"
  for E :: ext and C :: codec and dbg :: "CredInfoVerifier \<Rightarrow> string" and L :: "'m ledger"
  and A :: "'w anoncreds" where
  stay: "verifier_move E C dbg L A s s"
| set_request: "verifier_get_state s \<in> {Vs_Initial, Vs_PresentationRequestSet, Vs_PresentationProposalReceived} \<Longrightarrow>
    mp_id r = vs_thread_id s \<Longrightarrow> verifier_move E C dbg L A s (s\<lparr>vs_state := V_PresentationRequestSet r\<rparr>)"
| send: "vs_state s = V_PresentationRequestSet r \<or> vs_state s = V_PresentationRequestSent r \<Longrightarrow>
    verifier_move E C dbg L A s (s\<lparr>vs_state := V_PresentationRequestSent r\<rparr>)"
| open_thread: "vs_state s = V_Initial \<Longrightarrow> verifier_move E C dbg L A s
    (s\<lparr>vs_state := V_PresentationProposalReceived (proposal_received_new p), vs_thread_id := proposal_thread p\<rparr>)"
| new_proposal: "vs_state s = V_PresentationRequestSent r \<Longrightarrow> verifier_move E C dbg L A s
    (s\<lparr>vs_state := V_PresentationProposalReceived (proposal_received_new p)\<rparr>)"
| decline: "vs_state s = V_PresentationProposalReceived ps \<Longrightarrow> verifier_move E C dbg L A s
    (s\<lparr>vs_state := V_Finished (verifier_declined pr),
       vs_thread_id := proposal_thread (pps_presentation_proposal ps)\<rparr>)"
| rejected: "vs_state s = V_PresentationRequestSent r \<Longrightarrow> is_match (ReportProblem pr) (vs_thread_id s) \<Longrightarrow>
    verifier_move E C dbg L A s (s\<lparr>vs_state := V_Finished (from_sent_and_report r pr)\<rparr>)"
| valid: "vs_state s = V_PresentationRequestSent r \<Longrightarrow>
    sent_verify_presentation E C dbg L A r pres (vs_thread_id s) = Ok () \<Longrightarrow>
    verifier_move E C dbg L A s (s\<lparr>vs_state := V_Finished (from_sent_and_presentation r pres Pvs_Valid)\<rparr>)"
| invalid: "vs_state s = V_PresentationRequestSent r \<Longrightarrow>
    sent_verify_presentation E C dbg L A r pres (vs_thread_id s) = Err e \<Longrightarrow> err_kind e = InvalidProof \<Longrightarrow>
    verifier_move E C dbg L A s (s\<lparr>vs_state := V_Finished (from_sent_and_presentation r pres Pvs_Invalid)\<rparr>)"
| failed: "vs_state s = V_PresentationRequestSent r \<Longrightarrow>
    verifier_move E C dbg L A s (s\<lparr>vs_state := V_Finished (from_sent_and_report r
      (build_problem_report_msg uuid com (vs_thread_id s)))\<rparr>)"

text \<open>Verifying in the state that waits for a presentation, by the outcome of the check.\<close>

lemma verify_presentation_cases:
  assumes "vs_state s = V_PresentationRequestSent r"
    and "is_match (pp1_msg (PP1_Presentation pres)) (vs_thread_id s)"
  shows "verifier_verify_presentation E C dbg L A uuid s pres =
    (case sent_verify_presentation E C dbg L A r pres (vs_thread_id s) of
       Ok _ \<Rightarrow> Ok (s\<lparr>vs_state := V_Finished (from_sent_and_presentation r pres Pvs_Valid)\<rparr>)
     | Err e \<Rightarrow> Ok (s\<lparr>vs_state := V_Finished (if err_kind e = InvalidProof
          then from_sent_and_presentation r pres Pvs_Invalid
          else from_sent_and_report r (build_problem_report_msg uuid (Some (format_error e)) (vs_thread_id s)))\<rparr>)
     | Panic \<Rightarrow> Panic)"
  using assms
  by (cases "sent_verify_presentation E C dbg L A r pres (vs_thread_id s)")
    (auto simp: verifier_verify_presentation_def verify_thread_id_def Let_def
      split: AriesVcxErrorKind.splits)

lemma verify_presentation_elsewhere:
  assumes "verifier_verify_presentation E C dbg L A uuid s pres = Ok t"
    and "\<And>r. vs_state s \<noteq> V_PresentationRequestSent r"
  shows "t = s"
  using assms by (cases "vs_state s") (auto simp: verifier_verify_presentation_def)

lemma verify_presentation_matches:
  "verifier_verify_presentation E C dbg L A uuid s pres = Ok t \<Longrightarrow>
     is_match (pp1_msg (PP1_Presentation pres)) (vs_thread_id s)"
  by (auto simp: verifier_verify_presentation_def)

lemma verify_presentation_move:
  assumes "verifier_verify_presentation E C dbg L A uuid s pres = Ok t"
  shows "verifier_move E C dbg L A s t"
proof (cases "\<exists>r. vs_state s = V_PresentationRequestSent r")
  case True
  then obtain r where r: "vs_state s = V_PresentationRequestSent r" ..
  note eq = verify_presentation_cases [OF r verify_presentation_matches [OF assms],
      of E C dbg L A uuid, unfolded assms]
  with r show ?thesis
    by (cases "sent_verify_presentation E C dbg L A r pres (vs_thread_id s)")
      (auto split: if_splits intro: verifier_move.valid verifier_move.invalid verifier_move.failed)
next
  case False
  with verify_presentation_elsewhere [OF assms] show ?thesis by (auto intro: verifier_move.stay)
qed

lemma verifier_step_move: "verifier_step E C dbg L A s t \<Longrightarrow> verifier_move E C dbg L A s t"
proof (induction rule: verifier_step.induct)
  case (set now s rd com t)
  then show ?case
    by (cases "vs_state s")
      (auto simp: verifier_set_presentation_request_def build_starting_presentation_request_def
        verifier_phase_of intro!: verifier_move.set_request)
next
  case (sent s t)
  then show ?case
    by (cases "vs_state s")
      (auto simp: verifier_mark_presentation_request_sent_def intro: verifier_move.send)
next
  case (proposal s p t)
  then show ?case
    by (cases "vs_state s")
      (auto simp: verifier_receive_presentation_proposal_def
        intro: verifier_move.stay verifier_move.open_thread verifier_move.new_proposal)
next
  case (decline s pr t)
  then show ?case
    by (cases "vs_state s")
      (auto simp: verifier_reject_presentation_proposal_def
        intro: verifier_move.stay verifier_move.decline)
next
  case (reject s pr t)
  then show ?case
    by (cases "vs_state s")
      (auto simp: verifier_receive_presentation_request_reject_def
        intro: verifier_move.stay verifier_move.rejected)
next
  case (verify uuid s pres t)
  then show ?case by (rule verify_presentation_move)
qed

interpretation verifier: protocol_machine
  "verifier_step E C dbg L A" verifier_get_state verifier_edge verifier_terminal
proof
  fix s t
  assume "verifier_step E C dbg L A s t"
  then have move: "verifier_move E C dbg L A s t" by (rule verifier_step_move)
  show "verifier_get_state t = verifier_get_state s
      \<or> verifier_edge (verifier_get_state s) (verifier_get_state t)"
    using move by cases (auto simp: verifier_edge_def verifier_phase_of)
  show "verifier_terminal (verifier_get_state s) \<Longrightarrow> t = s"
    using move by cases (auto simp: verifier_terminal_def verifier_phase_of)
qed

lemma verifier_source: "(verifier_step E C dbg L A)\<^sup>*\<^sup>* s t \<Longrightarrow> vs_source_id t = vs_source_id s"
proof (induction rule: rtranclp_induct)
  case (step t u)
  from verifier_step_move [OF step.hyps(2)] have "vs_source_id u = vs_source_id t" by cases simp_all
  with step.IH show ?case by simp
qed simp

section \<open>The invariant\<close>

definition verifier_inv ::
  "ext \<Rightarrow> codec \<Rightarrow> (CredInfoVerifier \<Rightarrow> string) \<Rightarrow> 'm ledger \<Rightarrow> 'w anoncreds \<Rightarrow> VerifierSM \<Rightarrow> bool" where
  "verifier_inv E C dbg L A s \<longleftrightarrow> (case vs_state s of
     V_PresentationRequestSet r \<Rightarrow> mp_id r = vs_thread_id s
   | V_PresentationRequestSent r \<Rightarrow> mp_id r = vs_thread_id s
   | V_PresentationProposalReceived ps \<Rightarrow> pps_presentation_request ps = None
   | V_Finished f \<Rightarrow>
       (\<exists>r pres. f = from_sent_and_presentation r pres Pvs_Valid \<and> mp_id r = vs_thread_id s
          \<and> sent_verify_presentation E C dbg L A r pres (vs_thread_id s) = Ok ())
     \<or> (\<exists>r pres e. f = from_sent_and_presentation r pres Pvs_Invalid \<and> mp_id r = vs_thread_id s
          \<and> sent_verify_presentation E C dbg L A r pres (vs_thread_id s) = Err e \<and> err_kind e = InvalidProof)
     \<or> (\<exists>r pr. f = from_sent_and_report r pr \<and> mp_id r = vs_thread_id s
          \<and> is_match (ReportProblem pr) (vs_thread_id s))
     \<or> (\<exists>pr. f = verifier_declined pr)
   | V_Initial \<Rightarrow> True)"

lemma verifier_move_inv:
  "verifier_move E C dbg L A s t \<Longrightarrow> verifier_inv E C dbg L A s \<Longrightarrow> verifier_inv E C dbg L A t"
proof (induction rule: verifier_move.induct)
  case (valid s r pres)
  then show ?case by (auto simp: verifier_inv_def)
next
  case (invalid s r pres e)
  then show ?case unfolding verifier_inv_def by simp blast
next
  case (failed s r uuid com)
  have "mp_id r = vs_thread_id s" using failed by (simp add: verifier_inv_def)
  then have "\<exists>r' pr. from_sent_and_report r (build_problem_report_msg uuid com (vs_thread_id s))
      = from_sent_and_report r' pr \<and> mp_id r' = vs_thread_id s \<and> is_match (ReportProblem pr) (vs_thread_id s)"
    using problem_report_matches by blast
  then show ?case by (simp add: verifier_inv_def)
qed (auto simp: verifier_inv_def proposal_received_new_def)

lemma verifier_steps_inv:
  "(verifier_step E C dbg L A)\<^sup>*\<^sup>* s t \<Longrightarrow> verifier_inv E C dbg L A s \<Longrightarrow> verifier_inv E C dbg L A t"
  by (induction rule: rtranclp_induct) (auto dest: verifier_step_move verifier_move_inv)

text \<open>The machines a client can hold.\<close>

definition verifier_start :: "ext \<Rightarrow> codec \<Rightarrow> VerifierSM \<Rightarrow> bool" where
  "verifier_start E C s \<longleftrightarrow> (\<exists>src. s = verifier_new src) \<or> (\<exists>src p. s = verifier_from_proposal src p)
     \<or> (\<exists>uuid now src rd. verifier_from_request E C uuid now src rd = Ok s)"

definition verifier_reachable ::
  "ext \<Rightarrow> codec \<Rightarrow> (CredInfoVerifier \<Rightarrow> string) \<Rightarrow> 'm ledger \<Rightarrow> 'w anoncreds \<Rightarrow> VerifierSM \<Rightarrow> bool" where
  "verifier_reachable E C dbg L A t \<longleftrightarrow>
     (\<exists>s. verifier_start E C s \<and> (verifier_step E C dbg L A)\<^sup>*\<^sup>* s t)"

lemma verifier_start_inv: "verifier_start E C s \<Longrightarrow> verifier_inv E C dbg L A s"
  by (auto simp: verifier_start_def verifier_inv_def verifier_new_def verifier_from_proposal_def
      verifier_from_request_def verifier_set_presentation_request_def proposal_received_new_def
      build_starting_presentation_request_def)

lemma verifier_reachable_inv: "verifier_reachable E C dbg L A t \<Longrightarrow> verifier_inv E C dbg L A t"
  by (auto simp: verifier_reachable_def dest: verifier_steps_inv verifier_start_inv)

lemmas verifier_view_defs [vcx_views] = verifier_get_state_def verifier_get_final_message_def
  verifier_get_verification_status_def verifier_presentation_request_msg_def
  verifier_get_presentation_msg_def

lemma sent_verify_Ok:
  assumes "sent_verify_presentation E C dbg L A r pres th = Ok ()"
  shows "\<exists>p q. get_attach_as_string E (psc_presentations_attach (mp_content pres)) = Ok p
    \<and> get_attach_as_string E (rpc_request_presentations_attach (mp_content r)) = Ok q
    \<and> validate_indy_proof E C dbg L A p q = Ok True"
  using assms by (auto simp: sent_verify_presentation_def split: if_splits)

lemma sent_verify_InvalidProof:
  assumes "matches_thread_id (pd_thread (mp_decorators pres)) th"
    and "get_attach_as_string E (psc_presentations_attach (mp_content pres)) = Ok p"
    and "get_attach_as_string E (rpc_request_presentations_attach (mp_content r)) = Ok q"
    and "validate_indy_proof E C dbg L A p q = Ok False
      \<or> (\<exists>e. validate_indy_proof E C dbg L A p q = Err e \<and> err_kind e = InvalidProof)"
  shows "\<exists>e. sent_verify_presentation E C dbg L A r pres th = Err e \<and> err_kind e = InvalidProof"
  using assms by (auto simp: sent_verify_presentation_def)

text \<open>A concrete run up to the verified presentation, on the sample back ends.\<close>

definition sample_proof_request :: RequestPresentationV1 where
  "sample_proof_request = the_ok (build_starting_presentation_request sample_proof_ext sample_codec 0 ''t''
     sample_pres_request None)"

definition sample_presentation_msg :: PresentationV1 where
  "sample_presentation_msg = \<lparr>mp_id = ''m'', mp_content = \<lparr>psc_comment = None, psc_presentations_attach =
       [make_attach_from_str sample_proof_ext ''presentation'' (AttachmentId_as_ref Att_Presentation)]\<rparr>,
     mp_decorators = \<lparr>pd_thread = new_thread ''t'', pd_please_ack = None, pd_timing = None\<rparr>\<rparr>"

definition sample_verifier :: "VerifierFullState \<Rightarrow> VerifierSM" where
  "sample_verifier st = \<lparr>vs_source_id = ''v'', vs_thread_id = ''t'', vs_state = st\<rparr>"

abbreviation sample_verifier_valid :: VerifierSM where
  "sample_verifier_valid \<equiv> sample_verifier (V_Finished
     (from_sent_and_presentation sample_proof_request sample_presentation_msg Pvs_Valid))"

lemma sample_utf8_proof [simp]: "utf8_valid ''presentation''" "utf8_valid ''pres request''"
  by (rule utf8_valid_ascii, simp)+

lemma sample_verifier_start:
  "verifier_from_request sample_proof_ext sample_codec ''t'' 0 ''v'' sample_pres_request
     = Ok (sample_verifier (V_PresentationRequestSet sample_proof_request))"
  by (simp add: verifier_from_request_def verifier_set_presentation_request_def sample_verifier_def
      build_starting_presentation_request_def sample_proof_request_def)

lemma sample_attachments [simp]:
  "get_attach_as_string (sample_ext pr) (psc_presentations_attach (mp_content sample_presentation_msg))
     = Ok ''presentation''"
  "get_attach_as_string (sample_ext pr) (rpc_request_presentations_attach (mp_content sample_proof_request))
     = Ok ''pres request''"
proof -
  have a: "make_attach_from_str sample_proof_ext x i = make_attach_from_str (sample_ext pr) x i" for x i
    by (simp add: make_attach_from_str_def sample_ext_def)
  show "get_attach_as_string (sample_ext pr) (psc_presentations_attach (mp_content sample_presentation_msg))
     = Ok ''presentation''"
    "get_attach_as_string (sample_ext pr) (rpc_request_presentations_attach (mp_content sample_proof_request))
     = Ok ''pres request''"
    by (simp_all add: sample_presentation_msg_def sample_proof_request_def
        build_starting_presentation_request_def a) (simp add: sample_codec_def)
qed

lemma sample_verified:
  "verifier_verify_presentation sample_proof_ext sample_codec (\<lambda>_. []) sample_gap_ledger sample_anoncreds
     ''u'' (sample_verifier (V_PresentationRequestSent sample_proof_request)) sample_presentation_msg
   = Ok sample_verifier_valid"
proof -
  have "matches_thread_id (pd_thread (mp_decorators sample_presentation_msg)) ''t''"
    by (simp add: sample_presentation_msg_def)
  then show ?thesis
    by (simp add: verify_presentation_cases sample_verifier_def sent_verify_presentation_def sample_validate)
qed

lemma sample_verifier_run:
  "(verifier_step sample_proof_ext sample_codec (\<lambda>_. []) sample_gap_ledger sample_anoncreds)\<^sup>*\<^sup>*
     (sample_verifier (V_PresentationRequestSet sample_proof_request)) sample_verifier_valid"
proof -
  have "verifier_mark_presentation_request_sent (sample_verifier (V_PresentationRequestSet sample_proof_request))
      = Ok (sample_verifier (V_PresentationRequestSent sample_proof_request))"
    by (simp add: verifier_mark_presentation_request_sent_def sample_verifier_def)
  from verifier_step.sent [OF this] verifier_step.verify [OF sample_verified] show ?thesis
    by (meson rtranclp.rtrancl_into_rtrancl rtranclp.rtrancl_refl)
qed

lemma sample_verifier_reachable:
  "verifier_reachable sample_proof_ext sample_codec (\<lambda>_. []) sample_gap_ledger sample_anoncreds
     sample_verifier_valid"
  unfolding verifier_reachable_def verifier_start_def
  using sample_verifier_run sample_verifier_start by blast

section \<open>Properties\<close>

text \<open>
  Every run of the verifier follows the protocol graph, never leaves a terminal state (the
  machine is then unchanged by any operation) and keeps its source id.
\<close>

theorem verifier_follows_protocol:
  assumes "(verifier_step E C dbg L A)\<^sup>*\<^sup>* s t"
  shows "verifier_edge\<^sup>*\<^sup>* (verifier_get_state s) (verifier_get_state t)
    \<and> vs_source_id t = vs_source_id s
    \<and> (verifier_get_state s \<notin> {Vs_Finished, Vs_Failed} \<or> t = s)"
  using verifier.steps_edges [OF assms] verifier_source [OF assms] verifier.steps_terminal [OF assms]
  by (auto simp: verifier_terminal_def)

theorem verifier_follows_protocol_witness:
  "verifier_edge\<^sup>*\<^sup>* Vs_PresentationRequestSet Vs_Finished \<and> vs_source_id sample_verifier_valid = ''v''"
  using verifier_follows_protocol [OF sample_verifier_run]
  by (simp add: sample_verifier_def verifier_get_state_def from_sent_and_presentation_def)

text \<open>
  C7. A presentation reported as valid was valid: in every reachable machine whose verification
  status is \<open>Valid\<close>, the kept presentation belongs to the thread of the kept request, and
  \<open>validate_indy_proof\<close> returned true for exactly the two attachments. A status of \<open>Invalid\<close> means
  that this check refused the presentation as \<open>InvalidProof\<close>.
\<close>

theorem verifier_valid_sound:
  assumes "verifier_reachable E C dbg L A t"
  shows "case verifier_get_verification_status t of
      Pvs_Valid \<Rightarrow> (\<exists>r pres p q. verifier_presentation_request_msg t = Ok r \<and> mp_id r = vs_thread_id t
        \<and> verifier_get_presentation_msg t = Ok pres
        \<and> get_attach_as_string E (psc_presentations_attach (mp_content pres)) = Ok p
        \<and> get_attach_as_string E (rpc_request_presentations_attach (mp_content r)) = Ok q
        \<and> validate_indy_proof E C dbg L A p q = Ok True)
    | Pvs_Invalid \<Rightarrow> (\<exists>r pres e. verifier_presentation_request_msg t = Ok r
        \<and> verifier_get_presentation_msg t = Ok pres
        \<and> sent_verify_presentation E C dbg L A r pres (vs_thread_id t) = Err e \<and> err_kind e = InvalidProof)
    | Pvs_Unavailable \<Rightarrow> (\<exists>e. verifier_get_presentation_msg t = Err e)"
proof (cases "vs_state t")
  case (V_Finished f)
  with verifier_reachable_inv [OF assms] show ?thesis
    by (auto simp: verifier_inv_def vcx_views verifier_finish dest: sent_verify_Ok)
qed (simp_all add: vcx_views)

theorem verifier_valid_sound_witness:
  "\<exists>p q. validate_indy_proof sample_proof_ext sample_codec (\<lambda>_. []) sample_gap_ledger sample_anoncreds p q
     = Ok True \<and> verifier_get_presentation_msg sample_verifier_valid = Ok sample_presentation_msg"
proof -
  have "verifier_get_verification_status sample_verifier_valid = Pvs_Valid"
    "verifier_get_presentation_msg sample_verifier_valid = Ok sample_presentation_msg"
    by (simp_all add: vcx_views sample_verifier_def from_sent_and_presentation_def)
  with verifier_valid_sound [OF sample_verifier_reachable] show ?thesis by auto
qed

text \<open>
  The last message of a finished exchange tells the outcome: an acknowledgement on the thread
  exactly when the presentation is valid, otherwise a problem report, which is the stored one
  when the exchange failed or was declined and an empty one when the presentation is invalid.
\<close>

theorem verifier_final_message:
  assumes "verifier_reachable E C dbg L A t" and "vs_state t = V_Finished f"
  shows "case verifier_get_verification_status t of
      Pvs_Valid \<Rightarrow> verifier_get_state t = Vs_Finished \<and> verifier_get_final_message d uuid now t
        = Ok (pp1_msg (PP1_Ack (build_verification_ack uuid now (vs_thread_id t))))
    | Pvs_Invalid \<Rightarrow> verifier_get_state t = Vs_Finished \<and> verifier_get_final_message d uuid now t
        = Ok (ReportProblem (build_problem_report_msg uuid None (vs_thread_id t)))
    | Pvs_Unavailable \<Rightarrow> verifier_get_state t = Vs_Failed \<and> (\<exists>pr. vfs_status f \<in> {Failed pr, Declined pr}
        \<and> verifier_get_final_message d uuid now t = Ok (pp1_msg (PP1_ProblemReport (to_protocol_report pr))))"
  using verifier_reachable_inv [OF assms(1)] assms(2)
  by (auto simp: verifier_inv_def vcx_views verifier_finish)

theorem verifier_final_message_witness:
  "\<exists>ack. verifier_get_final_message (\<lambda>_. []) ''a'' 1 sample_verifier_valid = Ok (pp1_msg (PP1_Ack ack))"
proof -
  have "verifier_get_verification_status sample_verifier_valid = Pvs_Valid"
    "vs_state sample_verifier_valid = V_Finished
       (from_sent_and_presentation sample_proof_request sample_presentation_msg Pvs_Valid)"
    by (simp_all add: vcx_views sample_verifier_def from_sent_and_presentation_def)
  with verifier_final_message [OF sample_verifier_reachable, of _ "\<lambda>_. []" "''a''" 1] show ?thesis by auto
qed

text \<open>
  C8. A tampered value is caught: when an attribute that the presentation reveals on its own (a member of
  \<open>requested_proof.revealed_attrs\<close>) does not carry the encoding of its raw text, the waiting verifier
  finishes with status \<open>Invalid\<close>, whatever ledger and back end say. Values revealed in groups are not
  among those: the code never compares them (\<open>revealed_groups_unchecked\<close>).
\<close>

theorem tampered_presentation_invalid:
  assumes "vs_state s = V_PresentationRequestSent r"
    and "matches_thread_id (pd_thread (mp_decorators pres)) (vs_thread_id s)"
    and "get_attach_as_string E (psc_presentations_attach (mp_content pres)) = Ok p"
    and "get_attach_as_string E (rpc_request_presentations_attach (mp_content r)) = Ok q"
    and "x_json_parse E p = Ok pf"
    and "as_object (json_index (json_index pf ''requested_proof'') ''revealed_attrs'') = Some m"
    and "\<not> list_all (revealed_ok E) m"
  shows "\<exists>t. verifier_verify_presentation E C dbg L A uuid s pres = Ok t
    \<and> verifier_get_verification_status t = Pvs_Invalid \<and> verifier_presentation_request_msg t = Ok r
    \<and> verifier_get_presentation_msg t = Ok pres"
proof -
  from assms(5-7) check_all_cases [of E m]
  have "\<exists>e. validate_indy_proof E C dbg L A p q = Err e \<and> err_kind e = InvalidProof"
    by (auto simp: validate_indy_proof_def validate_proof_revealed_attributes_def parse_proof_def)
  from sent_verify_InvalidProof [OF assms(2-4) disjI2 [OF this]] obtain e where
    "sent_verify_presentation E C dbg L A r pres (vs_thread_id s) = Err e" "err_kind e = InvalidProof" by blast
  with verify_presentation_cases [OF assms(1), of pres E C dbg L A uuid] assms(2) show ?thesis
    by (simp add: vcx_views from_sent_and_presentation_def)
qed

theorem tampered_presentation_invalid_witness:
  "\<exists>t. verifier_verify_presentation (sample_ext (\<lambda>_. Ok (JObject [(''requested_proof'', JObject
       [(''revealed_attrs'', JObject [(''a'', JObject [(''encoded'', JString ''6''), (''raw'', JString ''5'')])])])])))
     sample_codec (\<lambda>_. []) sample_ledger sample_anoncreds ''u''
     (sample_verifier (V_PresentationRequestSent sample_proof_request)) sample_presentation_msg = Ok t
   \<and> verifier_get_verification_status t = Pvs_Invalid"
proof -
  let ?m = "[(''a'', JObject [(''encoded'', JString ''6''), (''raw'', JString ''5'')])]"
  let ?p = "JObject [(''requested_proof'', JObject [(''revealed_attrs'', JObject ?m)])]"
  let ?E = "sample_ext (\<lambda>_. Ok ?p)"
  have v: "vs_state (sample_verifier (V_PresentationRequestSent sample_proof_request))
      = V_PresentationRequestSent sample_proof_request"
    "matches_thread_id (pd_thread (mp_decorators sample_presentation_msg))
      (vs_thread_id (sample_verifier (V_PresentationRequestSent sample_proof_request)))"
    by (simp_all add: sample_verifier_def sample_presentation_msg_def)
  have p: "x_json_parse ?E ''presentation'' = Ok ?p" by (simp add: sample_ext_def)
  have m: "as_object (json_index (json_index ?p ''requested_proof'') ''revealed_attrs'') = Some ?m"
    by (simp add: json_index_def)
  have "digit_char 5 = CHR ''5''" by code_simp
  then have "show_u32 5 = ''5''" by (simp add: show_u32_def show_nat.simps)
  then have "encoded_value ?E ''5'' = ''5''"
    using encode_u32 [of "''5''" 5 ?E] parse_show_u32 [of 5] by simp
  then have "\<not> list_all (revealed_ok ?E) ?m" by (simp add: revealed_ok_def json_index_def)
  from tampered_presentation_invalid [OF v sample_attachments p m this] show ?thesis by blast
qed

text \<open>
  Messages of another thread have no effect: the handler is unchanged by every message that
  does not match its thread, and every change it makes on a message is a step of the machine.
\<close>

theorem verifier_process_message:
  assumes "Verifier_process_aries_msg E C dbg d L A uuid uuid2 now self msg = (r, self')"
  shows "(is_match msg (vs_thread_id (verifier_sm self)) \<or> self' = self)
    \<and> (self' = self \<or> is_ok r \<and> verifier_step E C dbg L A (verifier_sm self) (verifier_sm self'))"
proof
  show "is_match msg (vs_thread_id (verifier_sm self)) \<or> self' = self"
    using assms
    by (auto simp: Verifier_process_aries_msg_def verifier_receive_presentation_proposal_def
        verifier_receive_presentation_request_reject_def verifier_verify_presentation_def
        verify_thread_id_def Let_def
        split: AriesMessage.splits PresentProof.splits PresentProofV1.splits Notification.splits
          result.splits if_splits prod.splits)
  show "self' = self \<or> is_ok r \<and> verifier_step E C dbg L A (verifier_sm self) (verifier_sm self')"
    using assms
    by (auto simp: Verifier_process_aries_msg_def Let_def
        split: AriesMessage.splits PresentProof.splits PresentProofV1.splits Notification.splits
          result.splits prod.splits
        intro: verifier_step.intros)
qed

theorem verifier_process_message_witness:
  "snd (Verifier_process_aries_msg sample_proof_ext sample_codec (\<lambda>_. []) (\<lambda>_. []) sample_ledger
      sample_anoncreds ''u'' ''w'' 0 \<lparr>verifier_sm = sample_verifier (V_PresentationRequestSent sample_proof_request)\<rparr>
      (ReportProblem (build_problem_report_msg ''x'' None ''other'')))
   = \<lparr>verifier_sm = sample_verifier (V_PresentationRequestSent sample_proof_request)\<rparr>"
  (is "snd (Verifier_process_aries_msg ?E ?C ?d ?f ?L ?A ?u ?w ?n ?self ?msg) = _")
  using verifier_process_message [OF surjective_pairing
      [of "Verifier_process_aries_msg ?E ?C ?d ?f ?L ?A ?u ?w ?n ?self ?msg"]]
  by (simp add: sample_verifier_def)

text \<open>
  A verifier created without a request or proposal has the empty text as its thread id: the
  request it then sets has an empty message id, and it refuses every proposal that names a
  thread of its own.
\<close>

theorem fresh_verifier_thread:
  assumes "od_thread (mp_decorators p) = Some (new_thread i)" and "i \<noteq> []"
  shows "(\<exists>t r. verifier_set_presentation_request E C now (verifier_new src) rd com = Ok t
      \<and> verifier_presentation_request_msg t = Ok r \<and> mp_id r = [])
    \<and> (\<exists>e. verifier_receive_presentation_proposal E (verifier_new src) p = Err e \<and> err_kind e = InvalidJson)"
  using assms
  by (simp add: verifier_set_presentation_request_def verifier_new_def vcx_views
      build_starting_presentation_request_def verifier_receive_presentation_proposal_def
      verify_thread_id_def)

theorem fresh_verifier_thread_witness:
  "\<exists>e. verifier_receive_presentation_proposal sample_proof_ext (verifier_new ''v'')
     \<lparr>mp_id = ''p'', mp_content = \<lparr>ppc_comment = None,
        ppc_presentation_proposal = \<lparr>pp_attributes = [], pp_predicates = []\<rparr>\<rparr>,
      mp_decorators = \<lparr>od_thread = Some (new_thread ''t''), od_timing = None\<rparr>\<rparr> = Err e"
proof -
  let ?p = "\<lparr>mp_id = ''p'', mp_content = \<lparr>ppc_comment = None,
        ppc_presentation_proposal = \<lparr>pp_attributes = [], pp_predicates = []\<rparr>\<rparr>,
      mp_decorators = \<lparr>od_thread = Some (new_thread ''t''), od_timing = None\<rparr>\<rparr> :: ProposePresentationV1"
  have "od_thread (mp_decorators ?p) = Some (new_thread ''t'')" by simp
  from fresh_verifier_thread [OF this] show ?thesis by blast
qed

end
