(* ===== verification/Prover_SM.thy ===== *)
theory Prover_SM
  imports Verifier_SM
begin

text \<open>
  The prover of presentations: the state machine
  \<open>protocols/proof_presentation/prover/state_machine.rs\<close> with the states under \<open>states/\<close>, and the
  handler \<open>handlers/proof_presentation/prover.rs\<close>.
\<close>

section \<open>States\<close>

record PresentationPreparedState =
  pprep_presentation_request :: RequestPresentationV1
  pprep_presentation :: PresentationV1

record PresentationPreparationFailedState =
  ppf_presentation_request :: RequestPresentationV1
  ppf_problem_report :: ProblemReport

record PresentationSentState =
  psent_presentation_request :: RequestPresentationV1
  psent_presentation :: PresentationV1

record ProverFinishedState =
  pfs_presentation_request :: "RequestPresentationV1 option"
  pfs_presentation :: "PresentationV1 option"
  pfs_status :: Status

datatype ProverFullState =
    P_Initial
  | P_PresentationProposalSent ProposePresentationV1
  | P_PresentationRequestReceived RequestPresentationV1
  | P_PresentationPrepared PresentationPreparedState
  | P_PresentationPreparationFailed PresentationPreparationFailedState
  | P_PresentationSent PresentationSentState
  | P_Finished ProverFinishedState

datatype ProverState =
    Ps_Initial | Ps_PresentationProposalSent | Ps_PresentationRequestReceived
  | Ps_PresentationPrepared | Ps_PresentationPreparationFailed | Ps_PresentationSent
  | Ps_Finished | Ps_Failed

record ProverSM =
  ps_source_id :: string
  ps_thread_id :: string
  ps_state :: ProverFullState

definition prover_declined :: "ProblemReport \<Rightarrow> ProverFinishedState" where
  "prover_declined problem_report =
     \<lparr>pfs_presentation_request = None, pfs_presentation = None, pfs_status = Declined problem_report\<rparr>"

definition finished_from_failed :: "PresentationPreparationFailedState \<Rightarrow> ProverFinishedState" where
  "finished_from_failed state =
     \<lparr>pfs_presentation_request = Some (ppf_presentation_request state), pfs_presentation = None,
      pfs_status = Failed (ppf_problem_report state)\<rparr>"

definition sent_from_prepared :: "PresentationPreparedState \<Rightarrow> PresentationSentState" where
  "sent_from_prepared state =
     \<lparr>psent_presentation_request = pprep_presentation_request state,
      psent_presentation = pprep_presentation state\<rparr>"

definition finished_from_prepared :: "PresentationPreparedState \<Rightarrow> ProverFinishedState" where
  "finished_from_prepared state =
     \<lparr>pfs_presentation_request = Some (pprep_presentation_request state), pfs_presentation = None,
      pfs_status = Undefined\<rparr>"

definition finished_from_received :: "RequestPresentationV1 \<Rightarrow> ProverFinishedState" where
  "finished_from_received request =
     \<lparr>pfs_presentation_request = Some request, pfs_presentation = None, pfs_status = Success\<rparr>"

definition finished_from_received_report ::
  "RequestPresentationV1 \<Rightarrow> ProblemReport \<Rightarrow> ProverFinishedState" where
  "finished_from_received_report request problem_report =
     \<lparr>pfs_presentation_request = Some request, pfs_presentation = None,
      pfs_status = Declined problem_report\<rparr>"

definition finished_from_sent_ack :: "PresentationSentState \<Rightarrow> ProverFinishedState" where
  "finished_from_sent_ack state =
     \<lparr>pfs_presentation_request = Some (psent_presentation_request state),
      pfs_presentation = Some (psent_presentation state), pfs_status = Success\<rparr>"

definition finished_from_sent_report :: "PresentationSentState \<Rightarrow> ProblemReport \<Rightarrow> ProverFinishedState" where
  "finished_from_sent_report state problem_report =
     \<lparr>pfs_presentation_request = Some (psent_presentation_request state),
      pfs_presentation = Some (psent_presentation state), pfs_status = Failed problem_report\<rparr>"

section \<open>Messages\<close>

definition build_presentation_msg ::
  "ext \<Rightarrow> codec \<Rightarrow> string \<Rightarrow> DateTime \<Rightarrow> string \<Rightarrow> Presentation \<Rightarrow> PresentationV1 VcxResult" where
  "build_presentation_msg E C uuid now thread_id presentation =
     Ok \<lparr>mp_id = uuid,
       mp_content = \<lparr>psc_comment = None,
         psc_presentations_attach = [make_attach_from_str E (c_ser_presentation C presentation)
           (AttachmentId_as_ref Att_Presentation)]\<rparr>,
       mp_decorators = \<lparr>pd_thread = new_thread thread_id, pd_please_ack = None,
         pd_timing = Some (timing_out now)\<rparr>\<rparr>"

section \<open>Transitions\<close>

definition prover_new :: "string \<Rightarrow> string \<Rightarrow> ProverSM" where
  "prover_new uuid source_id =
     \<lparr>ps_source_id = source_id, ps_thread_id = uuid, ps_state = P_Initial\<rparr>"

definition prover_from_request :: "RequestPresentationV1 \<Rightarrow> string \<Rightarrow> ProverSM" where
  "prover_from_request presentation_request source_id =
     \<lparr>ps_source_id = source_id, ps_thread_id = mp_id presentation_request,
      ps_state = P_PresentationRequestReceived presentation_request\<rparr>"

definition prover_build_presentation_proposal ::
  "string \<Rightarrow> ProverSM \<Rightarrow> PresentationProposalData \<Rightarrow> ProverSM VcxResult" where
  "prover_build_presentation_proposal uuid self proposal_data =
     (let content = \<lparr>ppc_comment = ppd_comment proposal_data,
        ppc_presentation_proposal = \<lparr>pp_attributes = ppd_attributes proposal_data,
          pp_predicates = ppd_predicates proposal_data\<rparr>\<rparr>
      in case ps_state self of
           P_Initial \<Rightarrow> Ok (self\<lparr>ps_state := P_PresentationProposalSent
             \<lparr>mp_id = ps_thread_id self, mp_content = content,
              mp_decorators = \<lparr>od_thread = None, od_timing = None\<rparr>\<rparr>\<rparr>)
         | P_PresentationRequestReceived _ \<Rightarrow> Ok (self\<lparr>ps_state := P_PresentationProposalSent
             \<lparr>mp_id = uuid, mp_content = content,
              mp_decorators = \<lparr>od_thread = Some (new_thread (ps_thread_id self)), od_timing = None\<rparr>\<rparr>\<rparr>)
         | _ \<Rightarrow> Ok self)"

definition prover_decline_presentation_request :: "ProverSM \<Rightarrow> ProblemReport \<Rightarrow> ProverSM VcxResult" where
  "prover_decline_presentation_request self problem_report = (case ps_state self of
     P_PresentationRequestReceived request \<Rightarrow>
       Ok (self\<lparr>ps_state := P_Finished (finished_from_received_report request problem_report)\<rparr>)
   | P_PresentationPrepared _ \<Rightarrow> Ok (self\<lparr>ps_state := P_Finished (prover_declined problem_report)\<rparr>)
   | _ \<Rightarrow> Ok self)"

definition prover_negotiate_presentation :: "ProverSM \<Rightarrow> ProverSM VcxResult" where
  "prover_negotiate_presentation self = (case ps_state self of
     P_PresentationRequestReceived request \<Rightarrow>
       Ok (self\<lparr>ps_state := P_Finished (finished_from_received request)\<rparr>)
   | P_PresentationPrepared state \<Rightarrow> Ok (self\<lparr>ps_state := P_Finished (finished_from_prepared state)\<rparr>)
   | _ \<Rightarrow> Ok self)"

definition received_build_presentation ::
  "ext \<Rightarrow> codec \<Rightarrow> 'm ledger \<Rightarrow> 'w anoncreds \<Rightarrow> 'w \<Rightarrow> (string \<Rightarrow> u64) \<Rightarrow> RequestPresentationV1 \<Rightarrow>
   SelectedCredentials \<Rightarrow> (string \<rightharpoonup> string) \<Rightarrow> Presentation VcxResult \<times> 'w" where
  "received_build_presentation E C L A w clock request credentials self_attested_attrs =
     and_thenw (pure_w (
       and_then (get_attach_as_string E (rpc_request_presentations_attach (mp_content request))) (\<lambda>text.
         from_serde (c_de_pres_request C text))) w)
     (\<lambda>proof_req_data_json w.
       generate_indy_proof L A w clock credentials self_attested_attrs proof_req_data_json)"

definition prover_generate_presentation ::
  "ext \<Rightarrow> codec \<Rightarrow> 'm ledger \<Rightarrow> 'w anoncreds \<Rightarrow> 'w \<Rightarrow> (string \<Rightarrow> u64) \<Rightarrow> string \<Rightarrow> DateTime \<Rightarrow> ProverSM \<Rightarrow>
   SelectedCredentials \<Rightarrow> (string \<rightharpoonup> string) \<Rightarrow> ProverSM VcxResult \<times> 'w" where
  "prover_generate_presentation E C L A w clock uuid now self credentials self_attested_attrs =
     (case ps_state self of
        P_PresentationRequestReceived request \<Rightarrow>
          (case received_build_presentation E C L A w clock request credentials self_attested_attrs of
             (Ok presentation, w') \<Rightarrow>
               (and_then (build_presentation_msg E C uuid now (ps_thread_id self) presentation) (\<lambda>msg.
                  Ok (self\<lparr>ps_state := P_PresentationPrepared \<lparr>pprep_presentation_request = request,
                    pprep_presentation = msg\<rparr>\<rparr>)), w')
           | (Err err, w') \<Rightarrow>
               (Ok (self\<lparr>ps_state := P_PresentationPreparationFailed \<lparr>ppf_presentation_request = request,
                  ppf_problem_report = build_problem_report_msg uuid (Some (format_error err))
                    (ps_thread_id self)\<rparr>\<rparr>), w')
           | (Panic, w') \<Rightarrow> (Panic, w'))
      | _ \<Rightarrow> (Ok self, w))"

definition prover_mark_presentation_sent :: "ProverSM \<Rightarrow> ProverSM VcxResult" where
  "prover_mark_presentation_sent self = (case ps_state self of
     P_PresentationPrepared state \<Rightarrow> Ok (self\<lparr>ps_state := P_PresentationSent (sent_from_prepared state)\<rparr>)
   | P_PresentationPreparationFailed state \<Rightarrow>
       Ok (self\<lparr>ps_state := P_Finished (finished_from_failed state)\<rparr>)
   | _ \<Rightarrow> Ok self)"

definition prover_receive_presentation_request ::
  "ProverSM \<Rightarrow> RequestPresentationV1 \<Rightarrow> ProverSM VcxResult" where
  "prover_receive_presentation_request self request = (case ps_state self of
     P_PresentationProposalSent _ \<Rightarrow> Ok (self\<lparr>ps_state := P_PresentationRequestReceived request\<rparr>)
   | _ \<Rightarrow> Ok self)"

definition prover_receive_presentation_reject :: "ProverSM \<Rightarrow> ProblemReport \<Rightarrow> ProverSM VcxResult" where
  "prover_receive_presentation_reject self problem_report = (case ps_state self of
     P_PresentationProposalSent _ \<Rightarrow> Ok (self\<lparr>ps_state := P_Finished (prover_declined problem_report)\<rparr>)
   | P_PresentationSent state \<Rightarrow>
       Ok (self\<lparr>ps_state := P_Finished (finished_from_sent_report state problem_report)\<rparr>)
   | _ \<Rightarrow> Ok self)"

definition prover_receive_presentation_ack :: "ProverSM \<Rightarrow> Ack \<Rightarrow> ProverSM VcxResult" where
  "prover_receive_presentation_ack self ack = (case ps_state self of
     P_PresentationSent state \<Rightarrow> Ok (self\<lparr>ps_state := P_Finished (finished_from_sent_ack state)\<rparr>)
   | _ \<Rightarrow> Ok self)"

section \<open>Views\<close>

definition prover_get_problem_report :: "ProverSM \<Rightarrow> ProblemReport VcxResult" where
  "prover_get_problem_report self = (case ps_state self of
     P_Finished state \<Rightarrow>
       (case pfs_status state of
          Failed problem_report \<Rightarrow> Ok problem_report
        | Declined problem_report \<Rightarrow> Ok problem_report
        | _ \<Rightarrow> vcx_err NotReady ''Cannot get problem report'')
   | _ \<Rightarrow> vcx_err NotReady ''Cannot get problem report'')"

definition prover_get_state :: "ProverSM \<Rightarrow> ProverState" where
  "prover_get_state self = (case ps_state self of
     P_Initial \<Rightarrow> Ps_Initial
   | P_PresentationProposalSent _ \<Rightarrow> Ps_PresentationProposalSent
   | P_PresentationRequestReceived _ \<Rightarrow> Ps_PresentationRequestReceived
   | P_PresentationPrepared _ \<Rightarrow> Ps_PresentationPrepared
   | P_PresentationPreparationFailed _ \<Rightarrow> Ps_PresentationPreparationFailed
   | P_PresentationSent _ \<Rightarrow> Ps_PresentationSent
   | P_Finished state \<Rightarrow> (case pfs_status state of Success \<Rightarrow> Ps_Finished | _ \<Rightarrow> Ps_Failed))"

definition prover_progressable_by_message :: "ProverSM \<Rightarrow> bool" where
  "prover_progressable_by_message self = (case ps_state self of
     P_Initial \<Rightarrow> False
   | P_PresentationRequestReceived _ \<Rightarrow> False
   | P_Finished _ \<Rightarrow> False
   | _ \<Rightarrow> True)"

definition prover_get_presentation_status :: "ProverSM \<Rightarrow> u32" where
  "prover_get_presentation_status self = (case ps_state self of
     P_Finished state \<Rightarrow> status_code (pfs_status state)
   | _ \<Rightarrow> status_code Undefined)"

definition prover_get_presentation_request :: "ProverSM \<Rightarrow> RequestPresentationV1 VcxResult" where
  "prover_get_presentation_request self =
     (let err = from_msg NotReady ''Presentation request is not available'' in
      case ps_state self of
        P_Initial \<Rightarrow> Err err
      | P_PresentationProposalSent _ \<Rightarrow> Err err
      | P_PresentationRequestReceived request \<Rightarrow> Ok request
      | P_PresentationPrepared state \<Rightarrow> Ok (pprep_presentation_request state)
      | P_PresentationPreparationFailed state \<Rightarrow> Ok (ppf_presentation_request state)
      | P_PresentationSent state \<Rightarrow> Ok (psent_presentation_request state)
      | P_Finished state \<Rightarrow> ok_or (pfs_presentation_request state) err)"

definition prover_get_presentation_msg :: "ProverSM \<Rightarrow> PresentationV1 VcxResult" where
  "prover_get_presentation_msg self = (case ps_state self of
     P_PresentationPrepared state \<Rightarrow> Ok (pprep_presentation state)
   | P_PresentationSent state \<Rightarrow> Ok (psent_presentation state)
   | P_Finished state \<Rightarrow> ok_or (pfs_presentation state) (from_msg NotReady
       ''Presentation is not available in Finished state'')
   | _ \<Rightarrow> vcx_err NotReady ''Presentation is not created yet'')"

definition prover_get_presentation_proposal :: "ProverSM \<Rightarrow> ProposePresentationV1 VcxResult" where
  "prover_get_presentation_proposal self = (case ps_state self of
     P_PresentationProposalSent proposal \<Rightarrow> Ok proposal
   | _ \<Rightarrow> vcx_err NotReady ''Cannot get proposal'')"

section \<open>The handler\<close>

record Prover =
  prover_sm :: ProverSM

definition assign_prover :: "Prover \<Rightarrow> ProverSM VcxResult \<Rightarrow> unit VcxResult \<times> Prover" where
  "assign_prover self r = (map_ok (\<lambda>_. ()) r,
     case r of Ok sm \<Rightarrow> self\<lparr>prover_sm := sm\<rparr> | _ \<Rightarrow> self)"

definition Prover_create :: "string \<Rightarrow> string \<Rightarrow> Prover VcxResult" where
  "Prover_create uuid source_id = Ok \<lparr>prover_sm = prover_new uuid source_id\<rparr>"

definition Prover_create_from_request :: "string \<Rightarrow> RequestPresentationV1 \<Rightarrow> Prover VcxResult" where
  "Prover_create_from_request source_id presentation_request =
     Ok \<lparr>prover_sm = prover_from_request presentation_request source_id\<rparr>"

definition Prover_presentation_request_data :: "ext \<Rightarrow> Prover \<Rightarrow> string VcxResult" where
  "Prover_presentation_request_data E self =
     and_then (prover_get_presentation_request (prover_sm self)) (\<lambda>request.
       get_attach_as_string E (rpc_request_presentations_attach (mp_content request)))"

definition Prover_get_proof_request_attachment :: "ext \<Rightarrow> Prover \<Rightarrow> string VcxResult" where
  "Prover_get_proof_request_attachment E self =
     and_then (Prover_presentation_request_data E self) (\<lambda>data.
     and_then (map_err (\<lambda>err. from_msg InvalidJson (''Cannot deserialize '' @ x_debug_str E data
         @ '' into PresentationRequestData: '' @ se_debug err)) (x_json_parse E data)) (\<lambda>v.
       Ok (x_json_print E v)))"

definition Prover_retrieve_credentials ::
  "ext \<Rightarrow> codec \<Rightarrow> 'w anoncreds \<Rightarrow> 'w \<Rightarrow> Prover \<Rightarrow> RetrievedCredentials VcxResult \<times> 'w" where
  "Prover_retrieve_credentials E C A w self =
     and_thenw (pure_w (
       and_then (Prover_presentation_request_data E self) (\<lambda>presentation_request.
         from_serde (c_de_pres_request C presentation_request))) w)
     (\<lambda>req w. anon_w (ac_prover_get_credentials_for_proof_req A w req))"

definition Prover_generate_presentation ::
  "ext \<Rightarrow> codec \<Rightarrow> 'm ledger \<Rightarrow> 'w anoncreds \<Rightarrow> 'w \<Rightarrow> (string \<Rightarrow> u64) \<Rightarrow> string \<Rightarrow> DateTime \<Rightarrow> Prover \<Rightarrow>
   SelectedCredentials \<Rightarrow> (string \<rightharpoonup> string) \<Rightarrow> (unit VcxResult \<times> Prover) \<times> 'w" where
  "Prover_generate_presentation E C L A w clock uuid now self credentials self_attested_attrs =
     (case prover_generate_presentation E C L A w clock uuid now (prover_sm self) credentials
             self_attested_attrs of
        (r, w') \<Rightarrow> (assign_prover self r, w'))"

definition Prover_build_presentation_proposal ::
  "string \<Rightarrow> Prover \<Rightarrow> PresentationProposalData \<Rightarrow> ProposePresentationV1 VcxResult \<times> Prover" where
  "Prover_build_presentation_proposal uuid self proposal_data =
     (case assign_prover self (prover_build_presentation_proposal uuid (prover_sm self) proposal_data) of
        (Ok _, self') \<Rightarrow> (prover_get_presentation_proposal (prover_sm self'), self')
      | (Err e, self') \<Rightarrow> (Err e, self')
      | (Panic, self') \<Rightarrow> (Panic, self'))"

definition Prover_mark_presentation_sent :: "Prover \<Rightarrow> AriesMessage VcxResult \<times> Prover" where
  "Prover_mark_presentation_sent self =
     (case assign_prover self (prover_mark_presentation_sent (prover_sm self)) of
        (Ok _, self') \<Rightarrow>
          ((case prover_get_state (prover_sm self') of
              Ps_PresentationSent \<Rightarrow>
                map_ok (\<lambda>p. pp1_msg (PP1_Presentation p)) (prover_get_presentation_msg (prover_sm self'))
            | Ps_Finished \<Rightarrow> map_ok ReportProblem (prover_get_problem_report (prover_sm self'))
            | _ \<Rightarrow> vcx_err NotReady ''Cannot send presentation''), self')
      | (Err e, self') \<Rightarrow> (Err e, self')
      | (Panic, self') \<Rightarrow> (Panic, self'))"

definition Prover_process_presentation_ack :: "Prover \<Rightarrow> Ack \<Rightarrow> unit VcxResult \<times> Prover" where
  "Prover_process_presentation_ack self ack =
     assign_prover self (prover_receive_presentation_ack (prover_sm self) ack)"

definition Prover_process_aries_msg :: "Prover \<Rightarrow> AriesMessage \<Rightarrow> unit VcxResult \<times> Prover" where
  "Prover_process_aries_msg self message = assign_prover self (case message of
     PresentProof (PP_V1 (PP1_RequestPresentation request)) \<Rightarrow>
       prover_receive_presentation_request (prover_sm self) request
   | PresentProof (PP_V1 (PP1_Ack ack)) \<Rightarrow> prover_receive_presentation_ack (prover_sm self) ack
   | ReportProblem report \<Rightarrow> prover_receive_presentation_reject (prover_sm self) report
   | Notification (Not_ProblemReport report) \<Rightarrow>
       prover_receive_presentation_reject (prover_sm self) (to_problem_report report)
   | PresentProof (PP_V1 (PP1_ProblemReport report)) \<Rightarrow>
       prover_receive_presentation_reject (prover_sm self) (to_problem_report report)
   | _ \<Rightarrow> Ok (prover_sm self))"

text \<open>\<open>de_preview\<close> is the derived reader of \<open>PresentationPreview\<close>.\<close>

definition Prover_decline_presentation_request ::
  "(string \<Rightarrow> PresentationPreview serde) \<Rightarrow> string \<Rightarrow> DateTime \<Rightarrow> Prover \<Rightarrow> string option \<Rightarrow> string option \<Rightarrow>
   AriesMessage VcxResult \<times> Prover" where
  "Prover_decline_presentation_request de_preview uuid now self reason proposal =
     (let thread_id = ps_thread_id (prover_sm self);
          r = (case (reason, proposal) of
            (Some reason, None) \<Rightarrow>
              (let problem_report = build_problem_report_msg uuid (Some reason) thread_id in
               and_then (prover_decline_presentation_request (prover_sm self) problem_report) (\<lambda>sm.
                 Ok (sm, ReportProblem problem_report)))
          | (None, Some proposal) \<Rightarrow>
              and_then (map_err (\<lambda>err. from_msg InvalidJson
                  (''Cannot serialize Presentation Preview: '' @ se_debug err)) (de_preview proposal))
                (\<lambda>presentation_preview.
              and_then (prover_negotiate_presentation (prover_sm self)) (\<lambda>sm.
                Ok (sm, pp1_msg (PP1_ProposePresentation \<lparr>mp_id = uuid,
                  mp_content = \<lparr>ppc_comment = None, ppc_presentation_proposal = presentation_preview\<rparr>,
                  mp_decorators = \<lparr>od_thread = Some (new_thread thread_id),
                    od_timing = Some (timing_out now)\<rparr>\<rparr>))))
          | (None, None) \<Rightarrow> vcx_err InvalidOption
              ''Either `reason` or `proposal` parameter must be specified.''
          | (Some _, Some _) \<Rightarrow> vcx_err InvalidOption
              ''Only one of `reason` or `proposal` parameters must be specified.'')
      in case r of
           Ok (sm, message) \<Rightarrow> (Ok message, self\<lparr>prover_sm := sm\<rparr>)
         | Err e \<Rightarrow> (Err e, self)
         | Panic \<Rightarrow> (Panic, self))"

section \<open>Runs\<close>

text \<open>One step is one successful call of a transition of the machine, with any input.\<close>

inductive prover_step :: "ext \<Rightarrow> codec \<Rightarrow> 'm ledger \<Rightarrow> 'w anoncreds \<Rightarrow> ProverSM \<Rightarrow> ProverSM \<Rightarrow> bool"
  for E :: ext and C :: codec and L :: "'m ledger" and A :: "'w anoncreds" where
  proposal: "prover_build_presentation_proposal uuid s d = Ok t \<Longrightarrow> prover_step E C L A s t"
| request: "prover_receive_presentation_request s r = Ok t \<Longrightarrow> prover_step E C L A s t"
| decline: "prover_decline_presentation_request s pr = Ok t \<Longrightarrow> prover_step E C L A s t"
| negotiate: "prover_negotiate_presentation s = Ok t \<Longrightarrow> prover_step E C L A s t"
| generate: "prover_generate_presentation E C L A w clock uuid now s creds self_attested = (Ok t, w') \<Longrightarrow>
    prover_step E C L A s t"
| sent: "prover_mark_presentation_sent s = Ok t \<Longrightarrow> prover_step E C L A s t"
| reject: "prover_receive_presentation_reject s pr = Ok t \<Longrightarrow> prover_step E C L A s t"
| ack: "prover_receive_presentation_ack s a = Ok t \<Longrightarrow> prover_step E C L A s t"

text \<open>The abstract protocol of RFC 0037 on the prover's side.\<close>

definition prover_edge :: "ProverState \<Rightarrow> ProverState \<Rightarrow> bool" where
  "prover_edge p q \<longleftrightarrow> (p, q) \<in>
     {(Ps_Initial, Ps_PresentationProposalSent),
      (Ps_PresentationRequestReceived, Ps_PresentationProposalSent),
      (Ps_PresentationProposalSent, Ps_PresentationRequestReceived),
      (Ps_PresentationProposalSent, Ps_Failed),
      (Ps_PresentationRequestReceived, Ps_PresentationPrepared),
      (Ps_PresentationRequestReceived, Ps_PresentationPreparationFailed),
      (Ps_PresentationRequestReceived, Ps_Finished), (Ps_PresentationRequestReceived, Ps_Failed),
      (Ps_PresentationPrepared, Ps_PresentationSent), (Ps_PresentationPrepared, Ps_Failed),
      (Ps_PresentationPreparationFailed, Ps_Failed),
      (Ps_PresentationSent, Ps_Finished), (Ps_PresentationSent, Ps_Failed)}"

definition prover_terminal :: "ProverState \<Rightarrow> bool" where
  "prover_terminal p \<longleftrightarrow> p \<in> {Ps_Finished, Ps_Failed}"

lemmas prover_finish = prover_declined_def finished_from_failed_def sent_from_prepared_def
  finished_from_prepared_def finished_from_received_def finished_from_received_report_def
  finished_from_sent_ack_def finished_from_sent_report_def

lemmas prover_transitions [vcx_ops] = prover_build_presentation_proposal_def
  prover_receive_presentation_request_def prover_decline_presentation_request_def
  prover_negotiate_presentation_def prover_mark_presentation_sent_def
  prover_receive_presentation_reject_def prover_receive_presentation_ack_def

lemmas prover_view_defs [vcx_views] = prover_get_state_def prover_get_problem_report_def
  prover_get_presentation_status_def prover_get_presentation_request_def prover_get_presentation_msg_def
  prover_get_presentation_proposal_def

text \<open>
  A presentation message made for a request: the back end created the proof from the attachment
  of that request, and the message carries it on the thread.
\<close>

definition prover_made ::
  "ext \<Rightarrow> codec \<Rightarrow> 'm ledger \<Rightarrow> 'w anoncreds \<Rightarrow> string \<Rightarrow> RequestPresentationV1 \<Rightarrow> PresentationV1 \<Rightarrow> bool" where
  "prover_made E C L A thread request msg \<longleftrightarrow>
     (\<exists>w clock creds self_attested pres w' uuid now.
        received_build_presentation E C L A w clock request creds self_attested = (Ok pres, w')
        \<and> build_presentation_msg E C uuid now thread pres = Ok msg)"

text \<open>The moves of the machine; every successful call is one of them.\<close>

inductive prover_move :: "ext \<Rightarrow> codec \<Rightarrow> 'm ledger \<Rightarrow> 'w anoncreds \<Rightarrow> ProverSM \<Rightarrow> ProverSM \<Rightarrow> bool"
  for E :: ext and C :: codec and L :: "'m ledger" and A :: "'w anoncreds" where
  stay: "prover_move E C L A s s"
| propose: "ps_state s = P_Initial \<or> ps_state s = P_PresentationRequestReceived r \<Longrightarrow>
    mp_id p = ps_thread_id s \<or> od_thread (mp_decorators p) = Some (new_thread (ps_thread_id s)) \<Longrightarrow>
    prover_move E C L A s (s\<lparr>ps_state := P_PresentationProposalSent p\<rparr>)"
| take_request: "ps_state s = P_PresentationProposalSent p \<Longrightarrow>
    prover_move E C L A s (s\<lparr>ps_state := P_PresentationRequestReceived r\<rparr>)"
| prepared: "ps_state s = P_PresentationRequestReceived r \<Longrightarrow> prover_made E C L A (ps_thread_id s) r m \<Longrightarrow>
    prover_move E C L A s (s\<lparr>ps_state := P_PresentationPrepared
      \<lparr>pprep_presentation_request = r, pprep_presentation = m\<rparr>\<rparr>)"
| not_prepared: "ps_state s = P_PresentationRequestReceived r \<Longrightarrow>
    prover_move E C L A s (s\<lparr>ps_state := P_PresentationPreparationFailed \<lparr>ppf_presentation_request = r,
      ppf_problem_report = build_problem_report_msg uuid com (ps_thread_id s)\<rparr>\<rparr>)"
| send: "ps_state s = P_PresentationPrepared st \<Longrightarrow>
    prover_move E C L A s (s\<lparr>ps_state := P_PresentationSent (sent_from_prepared st)\<rparr>)"
| finish: "(case ps_state s of
       P_PresentationProposalSent _ \<Rightarrow> (\<exists>pr. f = prover_declined pr)
     | P_PresentationRequestReceived r \<Rightarrow>
         f = finished_from_received r \<or> (\<exists>pr. f = finished_from_received_report r pr)
     | P_PresentationPrepared st \<Rightarrow> f = finished_from_prepared st \<or> (\<exists>pr. f = prover_declined pr)
     | P_PresentationPreparationFailed st \<Rightarrow> f = finished_from_failed st
     | P_PresentationSent st \<Rightarrow> f = finished_from_sent_ack st \<or> (\<exists>pr. f = finished_from_sent_report st pr)
     | _ \<Rightarrow> False) \<Longrightarrow>
    prover_move E C L A s (s\<lparr>ps_state := P_Finished f\<rparr>)"

lemma prover_generate_move:
  assumes "prover_generate_presentation E C L A w clock uuid now s creds self_attested = (Ok t, w')"
  shows "prover_move E C L A s t"
proof (cases "ps_state s")
  case (P_PresentationRequestReceived r)
  obtain pr w1 where b: "received_build_presentation E C L A w clock r creds self_attested = (pr, w1)"
    by fastforce
  show ?thesis
  proof (cases pr)
    case (Ok pres)
    obtain m where m: "build_presentation_msg E C uuid now (ps_thread_id s) pres = Ok m"
      by (simp add: build_presentation_msg_def)
    with b Ok have "prover_made E C L A (ps_thread_id s) r m" unfolding prover_made_def by blast
    with assms P_PresentationRequestReceived b Ok m show ?thesis
      by (auto simp: prover_generate_presentation_def intro: prover_move.prepared)
  next
    case (Err e)
    with assms P_PresentationRequestReceived b show ?thesis
      by (auto simp: prover_generate_presentation_def intro: prover_move.not_prepared)
  next
    case Panic
    with assms P_PresentationRequestReceived b show ?thesis by (simp add: prover_generate_presentation_def)
  qed
qed (use assms in \<open>auto simp: prover_generate_presentation_def intro: prover_move.stay\<close>)

lemma prover_step_move: "prover_step E C L A s t \<Longrightarrow> prover_move E C L A s t"
proof (induction rule: prover_step.induct)
  case (proposal uuid s d t)
  then show ?case
    by (cases "ps_state s")
      (auto simp: prover_build_presentation_proposal_def intro: prover_move.stay intro!: prover_move.propose)
next
  case (request s r t)
  then show ?case
    by (cases "ps_state s")
      (auto simp: prover_receive_presentation_request_def intro: prover_move.stay prover_move.take_request)
next
  case (decline s pr t)
  then show ?case
    by (cases "ps_state s")
      (auto simp: prover_decline_presentation_request_def intro: prover_move.stay intro!: prover_move.finish)
next
  case (negotiate s t)
  then show ?case
    by (cases "ps_state s")
      (auto simp: prover_negotiate_presentation_def intro: prover_move.stay intro!: prover_move.finish)
next
  case (generate w clock uuid now s creds self_attested t w')
  then show ?case by (rule prover_generate_move)
next
  case (sent s t)
  then show ?case
    by (cases "ps_state s")
      (auto simp: prover_mark_presentation_sent_def intro: prover_move.stay prover_move.send
        intro!: prover_move.finish)
next
  case (reject s pr t)
  then show ?case
    by (cases "ps_state s")
      (auto simp: prover_receive_presentation_reject_def intro: prover_move.stay intro!: prover_move.finish)
next
  case (ack s a t)
  then show ?case
    by (cases "ps_state s")
      (auto simp: prover_receive_presentation_ack_def intro: prover_move.stay intro!: prover_move.finish)
qed

interpretation prover: threaded_machine
  "prover_step E C L A" prover_get_state prover_edge prover_terminal ps_source_id ps_thread_id "\<lambda>_. False"
proof
  fix s t
  assume "prover_step E C L A s t"
  then have move: "prover_move E C L A s t" by (rule prover_step_move)
  show "prover_get_state t = prover_get_state s \<or> prover_edge (prover_get_state s) (prover_get_state t)"
    using move
    by cases (auto simp: prover_edge_def prover_get_state_def prover_finish
        split: ProverFullState.splits Status.splits)
  show "prover_terminal (prover_get_state s) \<Longrightarrow> t = s"
    using move
    by cases (auto simp: prover_terminal_def prover_get_state_def split: ProverFullState.splits)
  show "ps_source_id t = ps_source_id s" using move by cases simp_all
  show "ps_thread_id t = ps_thread_id s" using move by cases simp_all
qed auto

section \<open>The invariant\<close>

definition prover_inv :: "ext \<Rightarrow> codec \<Rightarrow> 'm ledger \<Rightarrow> 'w anoncreds \<Rightarrow> ProverSM \<Rightarrow> bool" where
  "prover_inv E C L A s \<longleftrightarrow> (case ps_state s of
     P_PresentationProposalSent p \<Rightarrow>
       mp_id p = ps_thread_id s \<or> od_thread (mp_decorators p) = Some (new_thread (ps_thread_id s))
   | P_PresentationPrepared st \<Rightarrow>
       prover_made E C L A (ps_thread_id s) (pprep_presentation_request st) (pprep_presentation st)
   | P_PresentationSent st \<Rightarrow>
       prover_made E C L A (ps_thread_id s) (psent_presentation_request st) (psent_presentation st)
   | P_PresentationPreparationFailed st \<Rightarrow> is_match (ReportProblem (ppf_problem_report st)) (ps_thread_id s)
   | P_Finished f \<Rightarrow>
       (case pfs_presentation f of
          None \<Rightarrow> True
        | Some m \<Rightarrow> (case pfs_presentation_request f of
            None \<Rightarrow> False | Some r \<Rightarrow> prover_made E C L A (ps_thread_id s) r m))
   | _ \<Rightarrow> True)"

lemma prover_move_inv: "prover_move E C L A s t \<Longrightarrow> prover_inv E C L A s \<Longrightarrow> prover_inv E C L A t"
proof (induction rule: prover_move.induct)
  case (finish s f)
  then show ?case by (cases "ps_state s") (auto simp: prover_inv_def prover_finish)
next
  case (not_prepared s r uuid com)
  show ?case using problem_report_matches [of uuid com "ps_thread_id s"]
    by (simp add: prover_inv_def del: is_match.simps)
qed (auto simp: prover_inv_def sent_from_prepared_def)

lemma prover_steps_inv: "(prover_step E C L A)\<^sup>*\<^sup>* s t \<Longrightarrow> prover_inv E C L A s \<Longrightarrow> prover_inv E C L A t"
  by (induction rule: rtranclp_induct) (auto dest: prover_step_move prover_move_inv)

text \<open>The machines a client can hold.\<close>

definition prover_reachable :: "ext \<Rightarrow> codec \<Rightarrow> 'm ledger \<Rightarrow> 'w anoncreds \<Rightarrow> ProverSM \<Rightarrow> bool" where
  "prover_reachable E C L A t \<longleftrightarrow> (\<exists>s. (prover_step E C L A)\<^sup>*\<^sup>* s t
     \<and> ((\<exists>uuid src. s = prover_new uuid src) \<or> (\<exists>r src. s = prover_from_request r src)))"

lemma prover_start_inv: "prover_inv E C L A (prover_new uuid src)" "prover_inv E C L A (prover_from_request r src)"
  by (simp_all add: prover_inv_def prover_new_def prover_from_request_def)

lemma prover_reachable_inv: "prover_reachable E C L A t \<Longrightarrow> prover_inv E C L A t"
  by (auto simp: prover_reachable_def dest: prover_steps_inv [OF _ prover_start_inv(1)]
      prover_steps_inv [OF _ prover_start_inv(2)])

lemma prover_made_message:
  assumes "prover_made E C L A thread r m"
  shows "is_match (pp1_msg (PP1_Presentation m)) thread"
  using assms by (auto simp: prover_made_def build_presentation_msg_def)

lemma assign_prover_cases:
  "assign_prover self r = (case r of
     Ok sm \<Rightarrow> (Ok (), self\<lparr>prover_sm := sm\<rparr>) | Err e \<Rightarrow> (Err e, self) | Panic \<Rightarrow> (Panic, self))"
  by (cases r) (simp_all add: assign_prover_def)

text \<open>A concrete run up to the sent presentation, on the sample back ends.\<close>

definition sample_prover :: "ProverFullState \<Rightarrow> ProverSM" where
  "sample_prover st = \<lparr>ps_source_id = ''p'', ps_thread_id = ''t'', ps_state = st\<rparr>"

definition sample_prepared :: PresentationPreparedState where
  "sample_prepared = \<lparr>pprep_presentation_request = sample_proof_request,
     pprep_presentation = the_ok (build_presentation_msg sample_proof_ext sample_codec ''m'' 1 ''t''
       sample_presentation)\<rparr>"

lemma sample_build_presentation:
  "received_build_presentation sample_proof_ext sample_codec sample_ledger sample_anoncreds () (\<lambda>_. 3)
     sample_proof_request sample_selection Map.empty = (Ok sample_presentation, ())"
proof -
  have "c_de_pres_request sample_codec tx = Ok sample_pres_request" for tx
    by (simp add: sample_codec_def)
  then show ?thesis by (simp add: received_build_presentation_def sample_generate)
qed

lemma sample_prover_prepared:
  "prover_generate_presentation sample_proof_ext sample_codec sample_ledger sample_anoncreds () (\<lambda>_. 3) ''m'' 1
     (sample_prover (P_PresentationRequestReceived sample_proof_request)) sample_selection Map.empty
   = (Ok (sample_prover (P_PresentationPrepared sample_prepared)), ())"
  by (simp add: prover_generate_presentation_def sample_build_presentation sample_prover_def
      build_presentation_msg_def sample_prepared_def)

lemma sample_prover_start:
  "prover_from_request sample_proof_request ''p'' = sample_prover (P_PresentationRequestReceived sample_proof_request)"
  by (simp add: prover_from_request_def sample_prover_def sample_proof_request_def
      build_starting_presentation_request_def)

lemma sample_prover_run:
  "(prover_step sample_proof_ext sample_codec sample_ledger sample_anoncreds)\<^sup>*\<^sup>*
     (prover_from_request sample_proof_request ''p'') (sample_prover (P_PresentationPrepared sample_prepared))"
  unfolding sample_prover_start by (rule r_into_rtranclp) (rule prover_step.generate [OF sample_prover_prepared])

lemma sample_prover_reachable:
  "prover_reachable sample_proof_ext sample_codec sample_ledger sample_anoncreds
     (sample_prover (P_PresentationPrepared sample_prepared))"
  unfolding prover_reachable_def using sample_prover_run by blast

section \<open>Properties\<close>

text \<open>
  Every run of the prover follows the protocol graph, never leaves a terminal state (the
  machine is then unchanged by any operation), and keeps its source id and its thread id.
\<close>

theorem prover_follows_protocol:
  assumes "(prover_step E C L A)\<^sup>*\<^sup>* s t"
  shows "prover_edge\<^sup>*\<^sup>* (prover_get_state s) (prover_get_state t)
    \<and> ps_source_id t = ps_source_id s \<and> ps_thread_id t = ps_thread_id s
    \<and> (prover_get_state s \<notin> {Ps_Finished, Ps_Failed} \<or> t = s)"
  using prover.steps_edges [OF assms] prover.steps_source [OF assms] prover.steps_thread [OF assms]
    prover.steps_terminal [OF assms]
  by (auto simp: prover_terminal_def)

theorem prover_follows_protocol_witness:
  "prover_edge\<^sup>*\<^sup>* Ps_PresentationRequestReceived Ps_PresentationPrepared"
  using prover_follows_protocol [OF sample_prover_run]
  by (simp add: prover_get_state_def sample_prover_start) (simp add: sample_prover_def)

text \<open>
  C23. A prover presents only what its back end proved: whenever a reachable machine hands out a
  presentation, prepared, sent or finished, the anoncreds back end created the proof in it from
  the attachment of the very request the machine holds, and the message is on its thread.
\<close>

theorem prover_presentation_provenance:
  assumes "prover_reachable E C L A t" and "prover_get_presentation_msg t = Ok m"
  shows "\<exists>r text req w clock creds self_attested pres w'. prover_get_presentation_request t = Ok r
    \<and> is_match (pp1_msg (PP1_Presentation m)) (ps_thread_id t)
    \<and> get_attach_as_string E (rpc_request_presentations_attach (mp_content r)) = Ok text
    \<and> c_de_pres_request C text = Ok req
    \<and> generate_indy_proof L A w clock creds self_attested req = (Ok pres, w')
    \<and> psc_presentations_attach (mp_content m) = [make_attach_from_str E (c_ser_presentation C pres)
        (AttachmentId_as_ref Att_Presentation)]"
proof -
  have "\<exists>r. prover_get_presentation_request t = Ok r \<and> prover_made E C L A (ps_thread_id t) r m"
    using prover_reachable_inv [OF assms(1)] assms(2)
    by (cases "ps_state t") (auto simp: prover_inv_def vcx_views split: option.splits)
  then obtain r where r: "prover_get_presentation_request t = Ok r" "prover_made E C L A (ps_thread_id t) r m"
    by blast
  then obtain w clock creds sa pres w' uuid now where
    b: "received_build_presentation E C L A w clock r creds sa = (Ok pres, w')"
      "build_presentation_msg E C uuid now (ps_thread_id t) pres = Ok m"
    unfolding prover_made_def by blast
  from b(1) obtain tx req where
    "get_attach_as_string E (rpc_request_presentations_attach (mp_content r)) = Ok tx"
    "c_de_pres_request C tx = Ok req" "generate_indy_proof L A w clock creds sa req = (Ok pres, w')"
    by (auto simp: received_build_presentation_def from_serde_def split: result.splits)
  moreover from b(2) have "psc_presentations_attach (mp_content m)
      = [make_attach_from_str E (c_ser_presentation C pres) (AttachmentId_as_ref Att_Presentation)]"
    by (auto simp: build_presentation_msg_def)
  ultimately show ?thesis using r(1) prover_made_message [OF r(2)] by blast
qed

theorem prover_presentation_provenance_witness:
  "\<exists>w clock creds sa req pres w'. generate_indy_proof sample_ledger (sample_anoncreds :: unit anoncreds) w clock creds sa req
     = (Ok pres, w')
   \<and> psc_presentations_attach (mp_content (pprep_presentation sample_prepared))
     = [make_attach_from_str sample_proof_ext (c_ser_presentation sample_codec pres)
         (AttachmentId_as_ref Att_Presentation)]"
proof -
  have "prover_get_presentation_msg (sample_prover (P_PresentationPrepared sample_prepared))
      = Ok (pprep_presentation sample_prepared)" by (simp add: vcx_views sample_prover_def)
  from prover_presentation_provenance [OF sample_prover_reachable this] show ?thesis by blast
qed

text \<open>
  What becomes of generating a presentation for a received request: an error never reaches
  the caller but becomes a problem report on the thread, with the error's text, in the state
  that stands for a failed preparation; success keeps the message that carries the proof.
\<close>

theorem prover_generate_outcome:
  assumes "ps_state s = P_PresentationRequestReceived r"
    and "received_build_presentation E C L A w clock r creds self_attested = (res, w')" and "res \<noteq> Panic"
  shows "\<exists>t. prover_generate_presentation E C L A w clock uuid now s creds self_attested = (Ok t, w')
    \<and> prover_get_presentation_request t = Ok r
    \<and> (case res of
         Ok pres \<Rightarrow> prover_get_state t = Ps_PresentationPrepared
           \<and> prover_get_presentation_msg t = build_presentation_msg E C uuid now (ps_thread_id s) pres
       | Err e \<Rightarrow> (\<exists>pr. ps_state t = P_PresentationPreparationFailed
             \<lparr>ppf_presentation_request = r, ppf_problem_report = pr\<rparr>
           \<and> is_match (ReportProblem pr) (ps_thread_id s)
           \<and> description_code (pr_description (mp_content pr)) = format_error e)
       | Panic \<Rightarrow> False)"
  using assms
  by (cases res) (auto simp: prover_generate_presentation_def build_presentation_msg_def vcx_views Let_def)

theorem prover_generate_outcome_witness:
  "\<exists>t. prover_generate_presentation sample_proof_ext sample_codec sample_ledger sample_anoncreds () (\<lambda>_. 3)
      ''m'' 1 (sample_prover (P_PresentationRequestReceived sample_proof_request)) sample_selection Map.empty
    = (Ok t, ()) \<and> prover_get_state t = Ps_PresentationPrepared"
proof -
  have "ps_state (sample_prover (P_PresentationRequestReceived sample_proof_request))
      = P_PresentationRequestReceived sample_proof_request" by (simp add: sample_prover_def)
  from prover_generate_outcome [OF this sample_build_presentation, of "''m''" 1] show ?thesis by auto
qed

text \<open>
  The report of a failed preparation cannot be sent through the handler: \<open>mark_presentation_sent\<close>
  finishes the machine as failed, keeps the report, and answers the caller with \<open>NotReady\<close>, in
  place of the report that its other branch would return.
\<close>

theorem failed_preparation_not_sent:
  assumes "ps_state s = P_PresentationPreparationFailed st"
  shows "\<exists>e t. Prover_mark_presentation_sent \<lparr>prover_sm = s\<rparr> = (Err e, \<lparr>prover_sm = t\<rparr>)
    \<and> err_kind e = NotReady \<and> prover_get_state t = Ps_Failed
    \<and> prover_get_problem_report t = Ok (ppf_problem_report st)"
  using assms
  by (simp add: Prover_mark_presentation_sent_def assign_prover_cases vcx_ops vcx_views prover_finish)

theorem failed_preparation_not_sent_witness:
  "\<exists>e t. Prover_mark_presentation_sent \<lparr>prover_sm = sample_prover (P_PresentationPreparationFailed
      \<lparr>ppf_presentation_request = sample_proof_request,
       ppf_problem_report = build_problem_report_msg ''u'' (Some ''no'') ''t''\<rparr>)\<rparr> = (Err e, t)"
proof -
  let ?st = "\<lparr>ppf_presentation_request = sample_proof_request,
       ppf_problem_report = build_problem_report_msg ''u'' (Some ''no'') ''t''\<rparr>"
  have "ps_state (sample_prover (P_PresentationPreparationFailed ?st)) = P_PresentationPreparationFailed ?st"
    by (simp add: sample_prover_def)
  from failed_preparation_not_sent [OF this] show ?thesis by blast
qed

text \<open>
  Answering a request with a proposal ends the exchange, and how it ends depends on the state:
  a prover that has not prepared anything finishes with success, although nothing was
  presented, and one that has prepared a presentation fails, without a problem report.
\<close>

theorem negotiation_outcome:
  assumes "de_preview text = Ok preview"
  shows "\<exists>m t. Prover_decline_presentation_request de_preview uuid now \<lparr>prover_sm = s\<rparr> None (Some text)
      = (Ok m, \<lparr>prover_sm = t\<rparr>) \<and> is_match m (ps_thread_id s)
    \<and> (case prover_get_state s of
         Ps_PresentationRequestReceived \<Rightarrow> prover_get_state t = Ps_Finished
           \<and> prover_get_presentation_status t = 1 \<and> (\<exists>e. prover_get_presentation_msg t = Err e)
       | Ps_PresentationPrepared \<Rightarrow> prover_get_state t = Ps_Failed
           \<and> prover_get_presentation_status t = 0 \<and> (\<exists>e. prover_get_problem_report t = Err e)
       | _ \<Rightarrow> t = s)"
  using assms
  by (cases "ps_state s")
    (auto simp: Prover_decline_presentation_request_def vcx_ops vcx_views prover_finish Let_def
      split: Status.splits)

theorem negotiation_outcome_witness:
  "\<exists>m t. Prover_decline_presentation_request (\<lambda>_. Ok \<lparr>pp_attributes = [], pp_predicates = []\<rparr>) ''u'' 0
      \<lparr>prover_sm = sample_prover (P_PresentationRequestReceived sample_proof_request)\<rparr> None (Some ''{}'')
    = (Ok m, \<lparr>prover_sm = t\<rparr>) \<and> prover_get_state t = Ps_Finished"
proof -
  have "prover_get_state (sample_prover (P_PresentationRequestReceived sample_proof_request))
      = Ps_PresentationRequestReceived" by (simp add: vcx_views sample_prover_def)
  with negotiation_outcome [of "\<lambda>_. Ok \<lparr>pp_attributes = [], pp_predicates = []\<rparr>" "''{}''",
      OF refl, of "''u''" 0 "sample_prover (P_PresentationRequestReceived sample_proof_request)"]
  show ?thesis by auto
qed

text \<open>
  The prover takes messages of any thread: an acknowledgement ends a sent presentation with
  success and a problem report ends it as failed, whatever thread they name.
\<close>

theorem prover_thread_unchecked:
  assumes "ps_state s = P_PresentationSent st"
  shows "(\<exists>t. Prover_process_aries_msg \<lparr>prover_sm = s\<rparr> (pp1_msg (PP1_Ack ack)) = (Ok (), \<lparr>prover_sm = t\<rparr>)
      \<and> prover_get_state t = Ps_Finished)
    \<and> (\<exists>t. Prover_process_aries_msg \<lparr>prover_sm = s\<rparr> (ReportProblem pr) = (Ok (), \<lparr>prover_sm = t\<rparr>)
      \<and> prover_get_problem_report t = Ok pr)"
  using assms by (simp add: Prover_process_aries_msg_def assign_prover_cases vcx_ops vcx_views prover_finish)

theorem prover_thread_unchecked_witness:
  "\<exists>t. Prover_process_aries_msg \<lparr>prover_sm = sample_prover (P_PresentationSent (sent_from_prepared sample_prepared))\<rparr>
      (pp1_msg (PP1_Ack (build_verification_ack ''a'' 0 ''other thread''))) = (Ok (), \<lparr>prover_sm = t\<rparr>)
    \<and> prover_get_state t = Ps_Finished"
proof -
  have "ps_state (sample_prover (P_PresentationSent (sent_from_prepared sample_prepared)))
      = P_PresentationSent (sent_from_prepared sample_prepared)" by (simp add: sample_prover_def)
  from prover_thread_unchecked [OF this] show ?thesis by blast
qed

end
