(* ===== verification/Presentation_Exchange.thy ===== *)
theory Presentation_Exchange
  imports Prover_SM
begin

text \<open>
  The two sides of proof presentation together: the messages one side produces are the ones the
  other side accepts. Each lemma is one leg of the exchange on the handlers
  (\<open>handlers/proof_presentation/verifier.rs\<close>, \<open>handlers/proof_presentation/prover.rs\<close>).
\<close>

section \<open>The states of the exchange\<close>

definition exchange_request ::
  "ext \<Rightarrow> codec \<Rightarrow> DateTime \<Rightarrow> string \<Rightarrow> PresentationRequest \<Rightarrow> RequestPresentationV1" where
  "exchange_request E C now t req = the_ok (build_starting_presentation_request E C now t req None)"

definition exchange_presentation ::
  "ext \<Rightarrow> codec \<Rightarrow> string \<Rightarrow> DateTime \<Rightarrow> string \<Rightarrow> Presentation \<Rightarrow> PresentationV1" where
  "exchange_presentation E C uuid now t pres = the_ok (build_presentation_msg E C uuid now t pres)"

lemma exchange_request_simps [simp]:
  "mp_id (exchange_request E C now t req) = t"
  "build_starting_presentation_request E C now t req None = Ok (exchange_request E C now t req)"
  "base64_inverse E \<Longrightarrow> utf8_valid (c_ser_pres_request C req) \<Longrightarrow>
     get_attach_as_string E (rpc_request_presentations_attach (mp_content (exchange_request E C now t req)))
       = Ok (c_ser_pres_request C req)"
  by (simp_all add: exchange_request_def build_starting_presentation_request_def)

lemma exchange_presentation_simps [simp]:
  "matches_thread_id (pd_thread (mp_decorators (exchange_presentation E C uuid now t pres))) t"
  "build_presentation_msg E C uuid now t pres = Ok (exchange_presentation E C uuid now t pres)"
  "base64_inverse E \<Longrightarrow> utf8_valid (c_ser_presentation C pres) \<Longrightarrow>
     get_attach_as_string E (psc_presentations_attach (mp_content (exchange_presentation E C uuid now t pres)))
       = Ok (c_ser_presentation C pres)"
  by (simp_all add: exchange_presentation_def build_presentation_msg_def)

definition verifier_at :: "string \<Rightarrow> string \<Rightarrow> VerifierFullState \<Rightarrow> Verifier" where
  "verifier_at t src st = \<lparr>verifier_sm = \<lparr>vs_source_id = src, vs_thread_id = t, vs_state = st\<rparr>\<rparr>"

definition prover_at :: "string \<Rightarrow> string \<Rightarrow> ProverFullState \<Rightarrow> Prover" where
  "prover_at t src st = \<lparr>prover_sm = \<lparr>ps_source_id = src, ps_thread_id = t, ps_state = st\<rparr>\<rparr>"

section \<open>The legs\<close>

lemma request_set_leg:
  "Verifier_create_from_request E C t now src req
     = Ok (verifier_at t src (V_PresentationRequestSet (exchange_request E C now t req)))"
  "Verifier_mark_presentation_request_sent (verifier_at t src (V_PresentationRequestSet r))
     = (Ok r, verifier_at t src (V_PresentationRequestSent r))"
  by (simp_all add: Verifier_create_from_request_def verifier_from_request_def
      verifier_set_presentation_request_def Verifier_mark_presentation_request_sent_def vcx_views
      verifier_mark_presentation_request_sent_def assign_verifier_def verifier_at_def)

lemma generate_leg:
  assumes "get_attach_as_string E (rpc_request_presentations_attach (mp_content r)) = Ok tx"
    and "c_de_pres_request C tx = Ok req" and "generate_indy_proof L B v clock creds sa req = (Ok pres, v')"
    and "mp_id r = t"
  shows "Prover_generate_presentation E C L B v clock uuid now \<lparr>prover_sm = prover_from_request r src\<rparr> creds sa
    = ((Ok (), prover_at t src (P_PresentationPrepared \<lparr>pprep_presentation_request = r,
         pprep_presentation = exchange_presentation E C uuid now t pres\<rparr>)), v')"
  using assms
  by (simp add: Prover_generate_presentation_def prover_generate_presentation_def prover_from_request_def
      received_build_presentation_def assign_prover_cases prover_at_def)

lemma send_leg:
  "Prover_mark_presentation_sent (prover_at t src (P_PresentationPrepared
      \<lparr>pprep_presentation_request = r, pprep_presentation = m\<rparr>))
    = (Ok (pp1_msg (PP1_Presentation m)), prover_at t src (P_PresentationSent
        \<lparr>psent_presentation_request = r, psent_presentation = m\<rparr>))"
  by (simp add: Prover_mark_presentation_sent_def assign_prover_cases vcx_ops vcx_views prover_finish
      prover_at_def)

lemma verify_leg:
  assumes "matches_thread_id (pd_thread (mp_decorators m)) t"
    and "get_attach_as_string E (psc_presentations_attach (mp_content m)) = Ok p"
    and "get_attach_as_string E (rpc_request_presentations_attach (mp_content r)) = Ok q"
    and "validate_indy_proof E C dbg L A p q = Ok valid"
  shows "Verifier_process_aries_msg E C dbg d L A uuid uuid2 now (verifier_at t src (V_PresentationRequestSent r))
      (pp1_msg (PP1_Presentation m))
    = (Ok (Some (if valid then pp1_msg (PP1_Ack (build_verification_ack uuid2 now t))
                 else ReportProblem (build_problem_report_msg uuid2 None t))),
       verifier_at t src (V_Finished (from_sent_and_presentation r m
         (if valid then Pvs_Valid else Pvs_Invalid))))"
proof -
  have "verifier_verify_presentation E C dbg L A uuid
      \<lparr>vs_source_id = src, vs_thread_id = t, vs_state = V_PresentationRequestSent r\<rparr> m
    = Ok \<lparr>vs_source_id = src, vs_thread_id = t, vs_state = V_Finished (from_sent_and_presentation r m
        (if valid then Pvs_Valid else Pvs_Invalid))\<rparr>"
    using assms by (simp add: verify_presentation_cases sent_verify_presentation_def)
  then show ?thesis
    by (simp add: Verifier_process_aries_msg_def verifier_at_def verifier_get_final_message_def
        from_sent_and_presentation_def)
qed

lemma final_leg:
  "Prover_process_aries_msg (prover_at t src (P_PresentationSent st))
       (if b then pp1_msg (PP1_Ack ack) else ReportProblem pr)
     = (Ok (), prover_at t src (P_Finished
         (if b then finished_from_sent_ack st else finished_from_sent_report st pr)))"
  by (simp add: Prover_process_aries_msg_def assign_prover_cases vcx_ops prover_at_def)

end
