(* ===== verification/Public_Key.thy ===== *)
theory Public_Key
  imports Vcx_Errors
begin

text \<open>
  Public keys (crate \<open>did_core/public_key\<close>): a key is its bytes and its type; it is written in
  base58, or as a fingerprint (multibase text of the bytes behind the multicodec code of the
  type). base58, multibase, varints and the askar key objects behind JWKs are third-party code and
  enter as the records \<open>key_ext\<close> and \<open>jwk_ext\<close>.
\<close>

section \<open>Types and errors\<close>

datatype KeyType = Ed25519 | Bls12381g1g2 | Bls12381g1 | Bls12381g2 | X25519 | P256 | P384 | P521

fun key_type_code :: "KeyType \<Rightarrow> u64" where
  "key_type_code Bls12381g1 = 234"
| "key_type_code Bls12381g2 = 235"
| "key_type_code X25519 = 236"
| "key_type_code Ed25519 = 237"
| "key_type_code Bls12381g1g2 = 238"
| "key_type_code P256 = 4608"
| "key_type_code P384 = 4609"
| "key_type_code P521 = 4610"

fun show_KeyType :: "KeyType \<Rightarrow> string" where
  "show_KeyType Bls12381g1 = ''Bls12381g1''"
| "show_KeyType Bls12381g2 = ''Bls12381g2''"
| "show_KeyType X25519 = ''X25519''"
| "show_KeyType Ed25519 = ''Ed25519''"
| "show_KeyType Bls12381g1g2 = ''Bls12381g1g2''"
| "show_KeyType P256 = ''P256''"
| "show_KeyType P384 = ''P384''"
| "show_KeyType P521 = ''P521''"

datatype PublicKeyError =
    Pk_Base64DecodingError string
  | Pk_Base58DecodingError string
  | Pk_MultibaseDecodingError string
  | Pk_VarintDecodingError string
  | Pk_JwkDecodingError string
  | Pk_UnsupportedMulticodecDescriptor u64
  | Pk_UnsupportedKeyType string
  | Pk_InvalidKeyType KeyType KeyType

fun show_PublicKeyError :: "PublicKeyError \<Rightarrow> string" where
  "show_PublicKeyError (Pk_Base64DecodingError _) = ''Base 64 decoding error''"
| "show_PublicKeyError (Pk_Base58DecodingError _) = ''Base 58 decoding error''"
| "show_PublicKeyError (Pk_MultibaseDecodingError _) = ''Multibase decoding error''"
| "show_PublicKeyError (Pk_VarintDecodingError _) = ''Varint decoding error''"
| "show_PublicKeyError (Pk_JwkDecodingError _) = ''JWK decoding error''"
| "show_PublicKeyError (Pk_UnsupportedMulticodecDescriptor c) =
     ''Unsupported multicodec descriptor: '' @ show_u64 c"
| "show_PublicKeyError (Pk_UnsupportedKeyType t) = ''Unsupported multicodec descriptor: '' @ t"
| "show_PublicKeyError (Pk_InvalidKeyType a b) =
     ''Invalid KeyType '' @ show_KeyType a @ '', expected KeyType: '' @ show_KeyType b"

text \<open>\<open>From<PublicKeyError> for AriesVcxError\<close>\<close>

definition from_public_key_error :: "PublicKeyError \<Rightarrow> AriesVcxError" where
  "from_public_key_error e = from_msg InvalidState (show_PublicKeyError e)"

definition from_pk :: "(PublicKeyError, 'a) result \<Rightarrow> 'a VcxResult" where
  "from_pk = map_err from_public_key_error"

lemma from_pk_simps [simp]:
  "from_pk (Ok x) = Ok x" "from_pk (Err e) = Err (from_public_key_error e)" "from_pk Panic = Panic"
  by (simp_all add: from_pk_def)

definition KeyType_try_from :: "u64 \<Rightarrow> (PublicKeyError, KeyType) result" where
  "KeyType_try_from value =
     (if value = 234 then Ok Bls12381g1
      else if value = 235 then Ok Bls12381g2
      else if value = 236 then Ok X25519
      else if value = 237 then Ok Ed25519
      else if value = 238 then Ok Bls12381g1g2
      else if value = 4608 then Ok P256
      else if value = 4609 then Ok P384
      else if value = 4610 then Ok P521
      else Err (Pk_UnsupportedMulticodecDescriptor value))"

section \<open>Keys\<close>

text \<open>Bytes are a \<open>string\<close>, as everywhere in the development.\<close>

record Key =
  ky_type :: KeyType
  ky_bytes :: string

record key_ext =
  kx_b58_encode :: "string \<Rightarrow> string"
  kx_b58_decode :: "string \<Rightarrow> (string, string) result"
  kx_mb_encode :: "string \<Rightarrow> string"
  kx_mb_decode :: "string \<Rightarrow> (string, string) result"
  kx_varint_encode :: "u64 \<Rightarrow> string"
  kx_varint_decode :: "string \<Rightarrow> (string, u64 \<times> string) result"

definition strip_multicodec_prefix_if_present :: "key_ext \<Rightarrow> string \<Rightarrow> KeyType \<Rightarrow> string" where
  "strip_multicodec_prefix_if_present K key kt =
     (case kx_varint_decode K key of
        Ok (value, remaining) \<Rightarrow> if value = key_type_code kt then remaining else key
      | _ \<Rightarrow> key)"

definition Key_new :: "key_ext \<Rightarrow> string \<Rightarrow> KeyType \<Rightarrow> (PublicKeyError, Key) result" where
  "Key_new K key kt =
     Ok \<lparr>ky_type = kt, ky_bytes = strip_multicodec_prefix_if_present K key kt\<rparr>"

definition validate_key_type :: "Key \<Rightarrow> KeyType \<Rightarrow> (PublicKeyError, Key) result" where
  "validate_key_type k kt =
     (if ky_type k \<noteq> kt then Err (Pk_InvalidKeyType (ky_type k) kt) else Ok k)"

definition multicodec_prefixed_key :: "key_ext \<Rightarrow> Key \<Rightarrow> string" where
  "multicodec_prefixed_key K k = kx_varint_encode K (key_type_code (ky_type k)) @ ky_bytes k"

definition fingerprint :: "key_ext \<Rightarrow> Key \<Rightarrow> string" where
  "fingerprint K k = kx_mb_encode K (multicodec_prefixed_key K k)"

definition prefixless_fingerprint :: "key_ext \<Rightarrow> Key \<Rightarrow> string" where
  "prefixless_fingerprint K k = dropWhile (\<lambda>c. c = CHR ''z'') (fingerprint K k)"

definition key_base58 :: "key_ext \<Rightarrow> Key \<Rightarrow> string" where
  "key_base58 K k = kx_b58_encode K (ky_bytes k)"

definition multibase58 :: "key_ext \<Rightarrow> Key \<Rightarrow> string" where
  "multibase58 K k = kx_mb_encode K (ky_bytes k)"

definition from_fingerprint :: "key_ext \<Rightarrow> string \<Rightarrow> (PublicKeyError, Key) result" where
  "from_fingerprint K fp =
     and_then (map_err Pk_MultibaseDecodingError (kx_mb_decode K fp)) (\<lambda>decoded_bytes.
     and_then (map_err Pk_VarintDecodingError (kx_varint_decode K decoded_bytes))
       (\<lambda>(code, remaining_bytes).
     and_then (KeyType_try_from code) (\<lambda>kt.
     Ok \<lparr>ky_type = kt, ky_bytes = remaining_bytes\<rparr>)))"

definition from_base58 :: "key_ext \<Rightarrow> string \<Rightarrow> KeyType \<Rightarrow> (PublicKeyError, Key) result" where
  "from_base58 K base58 kt =
     and_then (map_err Pk_Base58DecodingError (kx_b58_decode K base58)) (\<lambda>decoded_bytes.
     Ok \<lparr>ky_type = kt, ky_bytes = decoded_bytes\<rparr>)"

definition short_prefixless_fingerprint :: "key_ext \<Rightarrow> Key \<Rightarrow> string" where
  "short_prefixless_fingerprint K k = take 8 (prefixless_fingerprint K k)"

section \<open>JSON web keys\<close>

text \<open>The algorithms of \<open>askar_crypto\<close> the code names; every other one is \<open>Alg_Other\<close>.\<close>

datatype BlsCurves = G1G2 | G1 | G2
datatype EcCurves = Secp256r1 | Secp256k1 | Secp384r1
datatype KeyAlg = Alg_Ed25519 | Alg_X25519 | Alg_Bls12_381 BlsCurves | Alg_EcCurve EcCurves
  | Alg_Chacha20_C20P | Alg_Other string

record 'k jwk_ext =
  jx_from_jwk :: "string \<Rightarrow> (string, 'k) result"
  jx_algorithm :: "'k \<Rightarrow> KeyAlg"
  jx_to_public_bytes :: "'k \<Rightarrow> (string, string) result"
  jx_from_public_bytes :: "KeyAlg \<Rightarrow> string \<Rightarrow> (string, 'k) result"
  jx_to_jwk_public :: "'k \<Rightarrow> (string, string) result"
  jx_show_alg :: "KeyAlg \<Rightarrow> string"
  jx_debug_alg :: "KeyAlg \<Rightarrow> string"

definition key_type_of_alg :: "'k jwk_ext \<Rightarrow> KeyAlg \<Rightarrow> (PublicKeyError, KeyType) result" where
  "key_type_of_alg J alg =
     (case alg of
        Alg_Ed25519 \<Rightarrow> Ok Ed25519
      | Alg_Bls12_381 G1G2 \<Rightarrow> Ok Bls12381g1g2
      | Alg_Bls12_381 G1 \<Rightarrow> Ok Bls12381g1
      | Alg_Bls12_381 G2 \<Rightarrow> Ok Bls12381g2
      | Alg_X25519 \<Rightarrow> Ok X25519
      | Alg_EcCurve Secp256r1 \<Rightarrow> Ok P256
      | Alg_EcCurve Secp384r1 \<Rightarrow> Ok P384
      | _ \<Rightarrow> Err (Pk_UnsupportedKeyType (jx_show_alg J alg)))"

definition from_jwk :: "key_ext \<Rightarrow> 'k jwk_ext \<Rightarrow> string \<Rightarrow> (PublicKeyError, Key) result" where
  "from_jwk K J jwk =
     and_then (map_err Pk_JwkDecodingError (jx_from_jwk J jwk)) (\<lambda>askar_key.
     and_then (map_err Pk_JwkDecodingError (jx_to_public_bytes J askar_key)) (\<lambda>pub_key_bytes.
     and_then (key_type_of_alg J (jx_algorithm J askar_key)) (\<lambda>kt.
     Key_new K pub_key_bytes kt)))"

definition public_key_type_to_askar_key_alg :: "KeyType \<Rightarrow> (PublicKeyError, KeyAlg) result" where
  "public_key_type_to_askar_key_alg value =
     (case value of
        Ed25519 \<Rightarrow> Ok Alg_Ed25519
      | X25519 \<Rightarrow> Ok Alg_X25519
      | Bls12381g1g2 \<Rightarrow> Ok (Alg_Bls12_381 G1G2)
      | Bls12381g1 \<Rightarrow> Ok (Alg_Bls12_381 G1)
      | Bls12381g2 \<Rightarrow> Ok (Alg_Bls12_381 G2)
      | P256 \<Rightarrow> Ok (Alg_EcCurve Secp256r1)
      | P384 \<Rightarrow> Ok (Alg_EcCurve Secp384r1)
      | P521 \<Rightarrow> Err (Pk_UnsupportedKeyType ''Unsupported key type: P521''))"

definition to_askar_local_key :: "'k jwk_ext \<Rightarrow> Key \<Rightarrow> (PublicKeyError, 'k) result" where
  "to_askar_local_key J k =
     and_then (public_key_type_to_askar_key_alg (ky_type k)) (\<lambda>alg.
     map_err (\<lambda>e. Pk_UnsupportedKeyType (''Could not process key type '' @ jx_debug_alg J alg @ '': '' @ e))
       (jx_from_public_bytes J alg (ky_bytes k)))"

definition to_jwk :: "'k jwk_ext \<Rightarrow> Key \<Rightarrow> (PublicKeyError, string) result" where
  "to_jwk J k =
     and_then (to_askar_local_key J k) (\<lambda>askar_key.
     map_err (\<lambda>e. Pk_UnsupportedKeyType (''Could not process this key as JWK '' @ e))
       (jx_to_jwk_public J askar_key))"

section \<open>Codes and texts determine the key\<close>

text \<open>The documented inverses of the encodings.\<close>

definition b58_inverse :: "key_ext \<Rightarrow> bool" where
  "b58_inverse K \<longleftrightarrow> (\<forall>b. kx_b58_decode K (kx_b58_encode K b) = Ok b)"

definition multibase_inverse :: "key_ext \<Rightarrow> bool" where
  "multibase_inverse K \<longleftrightarrow> (\<forall>b. kx_mb_decode K (kx_mb_encode K b) = Ok b)"

definition varint_inverse :: "key_ext \<Rightarrow> bool" where
  "varint_inverse K \<longleftrightarrow> (\<forall>c rest. kx_varint_decode K (kx_varint_encode K c @ rest) = Ok (c, rest))"

lemma KeyType_try_from_iff: "KeyType_try_from c = Ok kt \<longleftrightarrow> key_type_code kt = c"
  by (cases kt) (auto simp: KeyType_try_from_def)

lemma key_type_code_inject: "key_type_code a = key_type_code b \<longleftrightarrow> a = b"
  using KeyType_try_from_iff by (metis result.inject(1))

lemma from_base58_base58 [simp]:
  "b58_inverse K \<Longrightarrow> from_base58 K (key_base58 K k) (ky_type k) = Ok k"
  by (simp add: from_base58_def key_base58_def b58_inverse_def)

lemma from_fingerprint_prefixed:
  assumes "multibase_inverse K" and "varint_inverse K"
  shows "from_fingerprint K (kx_mb_encode K (multicodec_prefixed_key K k)) = Ok k"
proof -
  have "KeyType_try_from (key_type_code (ky_type k)) = Ok (ky_type k)"
    by (simp add: KeyType_try_from_iff)
  with assms show ?thesis
    by (simp add: from_fingerprint_def multicodec_prefixed_key_def multibase_inverse_def varint_inverse_def)
qed

text \<open>
  A fingerprint determines the key, bytes and type: reading the fingerprint of a key gives the
  key, for each of the eight types.
\<close>

theorem fingerprint_roundtrip:
  assumes "multibase_inverse K" and "varint_inverse K"
  shows "from_fingerprint K (fingerprint K k) = Ok k"
  using assms by (simp add: fingerprint_def from_fingerprint_prefixed)

text \<open>
  \<open>Key::new\<close> drops a leading multicodec code of the key's own type. A prefixed key is therefore
  accepted, and a raw key whose first bytes happen to be that code is cut: the constructor is not
  the identity on raw keys.
\<close>

lemma Key_new_prefixed:
  assumes "varint_inverse K"
  shows "Key_new K (multicodec_prefixed_key K k) (ky_type k) = Ok k"
  using assms
  by (simp add: Key_new_def strip_multicodec_prefix_if_present_def multicodec_prefixed_key_def
      varint_inverse_def)

text \<open>
  A raw public key whose first bytes equal the multicodec code of its type is stored without
  them: the key built from its bytes has other bytes and another base58 text than the key it was
  made from, and the constructor reports no error.
\<close>

theorem raw_key_truncated:
  assumes "varint_inverse K" and "b58_inverse K"
    and "ky_bytes k = kx_varint_encode K (key_type_code (ky_type k)) @ rest"
    and "kx_varint_encode K (key_type_code (ky_type k)) \<noteq> []"
  shows "\<exists>k'. Key_new K (ky_bytes k) (ky_type k) = Ok k' \<and> ky_bytes k' = rest \<and>
    key_base58 K k' \<noteq> key_base58 K k"
proof -
  let ?k' = "\<lparr>ky_type = ky_type k, ky_bytes = rest\<rparr>"
  have "Key_new K (ky_bytes k) (ky_type k) = Ok ?k'"
    using Key_new_prefixed [OF assms(1), of ?k'] assms(3) by (simp add: multicodec_prefixed_key_def)
  moreover have "key_base58 K ?k' \<noteq> key_base58 K k"
  proof
    assume "key_base58 K ?k' = key_base58 K k"
    with assms(2) have "ky_bytes k = rest" by (metis b58_inverse_def key_base58_def result.inject(1) Key.select_convs(2))
    with assms(3,4) show False by simp
  qed
  ultimately show ?thesis by auto
qed

text \<open>Types and algorithms: every type but P521 has an algorithm, and it is read as that type.\<close>

lemma key_alg_roundtrip:
  "public_key_type_to_askar_key_alg kt = Ok alg \<Longrightarrow> key_type_of_alg J alg = Ok kt"
  by (cases kt) (auto simp: public_key_type_to_askar_key_alg_def key_type_of_alg_def)

lemma jwk_roundtrip:
  assumes "to_jwk J k = Ok jwk"
    and "\<And>alg b ak t. jx_from_public_bytes J alg b = Ok ak \<Longrightarrow> jx_to_jwk_public J ak = Ok t \<Longrightarrow>
      \<exists>ak'. jx_from_jwk J t = Ok ak' \<and> jx_algorithm J ak' = alg \<and> jx_to_public_bytes J ak' = Ok b"
  shows "from_jwk K J jwk = Key_new K (ky_bytes k) (ky_type k)"
proof -
  from assms(1) obtain alg ak where
    alg: "public_key_type_to_askar_key_alg (ky_type k) = Ok alg" and
    ak: "jx_from_public_bytes J alg (ky_bytes k) = Ok ak" "jx_to_jwk_public J ak = Ok jwk"
    by (auto simp: to_jwk_def to_askar_local_key_def)
  from assms(2) [OF ak] obtain ak' where
    "jx_from_jwk J jwk = Ok ak'" "jx_algorithm J ak' = alg" "jx_to_public_bytes J ak' = Ok (ky_bytes k)"
    by blast
  with key_alg_roundtrip [OF alg, of J] show ?thesis by (simp add: from_jwk_def)
qed

section \<open>A concrete instance\<close>

text \<open>
  Base58 is replaced by the identity and multibase by the prefix \<open>z\<close>; a code is written in unary,
  closed by a zero byte.
\<close>

definition unary_decode :: "string \<Rightarrow> (string, u64 \<times> string) result" where
  "unary_decode s =
     (case dropWhile (\<lambda>c. c = CHR ''1'') s of
        [] \<Rightarrow> Err ''insufficient''
      | _ # rest \<Rightarrow> Ok (of_nat (length (takeWhile (\<lambda>c. c = CHR ''1'') s)), rest))"

definition sample_kx :: key_ext where
  "sample_kx = \<lparr>kx_b58_encode = (\<lambda>s. s), kx_b58_decode = Ok, kx_mb_encode = (\<lambda>s. CHR ''z'' # s),
     kx_mb_decode = (\<lambda>s. case s of c # t \<Rightarrow> Ok t | [] \<Rightarrow> Err ''empty''),
     kx_varint_encode = (\<lambda>c. replicate (unat c) (CHR ''1'') @ ''0''),
     kx_varint_decode = unary_decode\<rparr>"

lemma unary_inverse: "unary_decode (replicate n (CHR ''1'') @ CHR ''0'' # rest) = Ok (of_nat n, rest)"
  by (simp add: unary_decode_def takeWhile_append dropWhile_append)

lemma sample_kx_laws [simp]:
  "b58_inverse sample_kx" "multibase_inverse sample_kx" "varint_inverse sample_kx"
  by (simp_all add: sample_kx_def b58_inverse_def multibase_inverse_def varint_inverse_def
      unary_inverse)

theorem fingerprint_roundtrip_witness:
  "from_fingerprint sample_kx (fingerprint sample_kx \<lparr>ky_type = Ed25519, ky_bytes = ''abc''\<rparr>) =
     Ok \<lparr>ky_type = Ed25519, ky_bytes = ''abc''\<rparr>"
  using fingerprint_roundtrip [of sample_kx "\<lparr>ky_type = Ed25519, ky_bytes = ''abc''\<rparr>"] by simp

theorem raw_key_truncated_witness:
  "\<exists>k'. Key_new sample_kx (kx_varint_encode sample_kx 237 @ ''abc'') Ed25519 = Ok k' \<and>
     ky_bytes k' = ''abc''"
proof -
  have "kx_varint_encode sample_kx 237 \<noteq> []" by (simp add: sample_kx_def)
  with raw_key_truncated
    [of sample_kx "\<lparr>ky_type = Ed25519, ky_bytes = kx_varint_encode sample_kx 237 @ ''abc''\<rparr>" "''abc''"]
  show ?thesis by auto
qed

end
