(* ===== verification/Wallet.thy ===== *)
theory Wallet
  imports Util Public_Key
begin

text \<open>
  The wallet interface (\<open>DidWallet\<close> of \<open>aries_vcx_wallet\<close>), pairwise keys
  (\<open>protocols/connection/pairwise_info.rs\<close>) and the signed connection data of a connection
  response (\<open>common/signing.rs\<close>). The wallet is the record \<open>wallet\<close>: an operation that changes it
  returns its new state, one that only reads it does not. \<open>wire\<close> collects the third-party code
  between values and texts that this and the following theories call; \<open>wr_de_error\<close> is the text
  serde gives an error raised while it read a text.
\<close>

section \<open>The wallet\<close>

record DidData =
  dd_did :: string
  dd_verkey :: Key

record UnpackMessageOutput =
  um_message :: string
  um_recipient_verkey :: string
  um_sender_verkey :: "string option"

type_synonym 'a wallet_res = "(VcxWalletError, 'a) result"

record 'w wallet =
  wl_create_and_store_my_did :: "'w \<Rightarrow> string option \<Rightarrow> string option \<Rightarrow> DidData wallet_res \<times> 'w"
  wl_key_for_did :: "'w \<Rightarrow> string \<Rightarrow> Key wallet_res"
  wl_replace_did_key_start :: "'w \<Rightarrow> string \<Rightarrow> string option \<Rightarrow> Key wallet_res \<times> 'w"
  wl_replace_did_key_apply :: "'w \<Rightarrow> string \<Rightarrow> unit wallet_res \<times> 'w"
  wl_sign :: "'w \<Rightarrow> Key \<Rightarrow> string \<Rightarrow> string wallet_res"
  wl_verify :: "'w \<Rightarrow> Key \<Rightarrow> string \<Rightarrow> string \<Rightarrow> bool wallet_res"
  wl_pack_message :: "'w \<Rightarrow> Key option \<Rightarrow> Key list \<Rightarrow> string \<Rightarrow> string wallet_res"
  wl_unpack_message :: "'w \<Rightarrow> string \<Rightarrow> UnpackMessageOutput wallet_res"

definition from_wallet :: "'a wallet_res \<Rightarrow> 'a VcxResult" where
  "from_wallet = map_err from_wallet_error"

lemma from_wallet_simps [simp]:
  "from_wallet (Ok x) = Ok x" "from_wallet (Err e) = Err (from_wallet_error e)"
  "from_wallet Panic = Panic"
  by (simp_all add: from_wallet_def)

lemma from_wallet_eq_Ok [simp]: "from_wallet r = Ok x \<longleftrightarrow> r = Ok x"
  by (simp add: from_wallet_def)

lemma from_pk_eq_Ok [simp]: "from_pk r = Ok x \<longleftrightarrow> r = Ok x"
  by (simp add: from_pk_def)

text \<open>\<open>BaseWallet::configure_issuer\<close>, the default method: the DID made from the seed.\<close>

definition configure_issuer :: "'w wallet \<Rightarrow> 'w \<Rightarrow> string \<Rightarrow> string wallet_res \<times> 'w" where
  "configure_issuer W w key_seed =
     and_thenw (wl_create_and_store_my_did W w (Some key_seed) None) (\<lambda>did_data w.
     (Ok (dd_did did_data), w))"

section \<open>Pairwise keys\<close>

record PairwiseInfo =
  pw_did :: string
  pw_vk :: string

definition PairwiseInfo_create :: "key_ext \<Rightarrow> 'w wallet \<Rightarrow> 'w \<Rightarrow> PairwiseInfo VcxResult \<times> 'w" where
  "PairwiseInfo_create K W w =
     and_thenw (case wl_create_and_store_my_did W w None None of (r, w') \<Rightarrow> (from_wallet r, w'))
       (\<lambda>did_data w. (Ok \<lparr>pw_did = dd_did did_data, pw_vk = key_base58 K (dd_verkey did_data)\<rparr>, w))"

section \<open>Signed connection data\<close>

record wire =
  wr_b64url_encode :: "string \<Rightarrow> string"
  wr_b64url_decode :: "string \<Rightarrow> string serde"
  wr_ser_connection_data :: "ConnectionData \<Rightarrow> string"
  wr_de_connection_data :: "string \<Rightarrow> ConnectionData serde"
  wr_ser_service :: "AriesService \<Rightarrow> json"
  wr_de_service :: "string \<Rightarrow> AriesService serde"
  wr_de_error :: "string \<Rightarrow> string \<Rightarrow> string"

text \<open>\<open>u64::to_be_bytes\<close>\<close>

definition to_be_bytes :: "u64 \<Rightarrow> string" where
  "to_be_bytes n = map (\<lambda>i. char_of (drop_bit (8 * i) (unat n))) (rev [0..<8])"

lemma length_to_be_bytes [simp]: "length (to_be_bytes n) = 8"
  by (simp add: to_be_bytes_def)

definition base64url_decode :: "wire \<Rightarrow> string \<Rightarrow> string VcxResult" where
  "base64url_decode Z encoded =
     map_err (\<lambda>e. from_msg InvalidJson (''Cannot decode Base64URL data: '' @ se_debug e)) (wr_b64url_decode Z encoded)"

text \<open>The time of signing is the argument \<open>now\<close>.\<close>

definition get_signature_data ::
  "key_ext \<Rightarrow> 'w wallet \<Rightarrow> 'w \<Rightarrow> u64 \<Rightarrow> string \<Rightarrow> string \<Rightarrow> (string \<times> string) VcxResult" where
  "get_signature_data K W w now d key =
     (let sig_data = to_be_bytes now @ d
      in and_then (from_pk (from_base58 K key Ed25519)) (\<lambda>k.
         and_then (from_wallet (wl_sign W w k sig_data)) (\<lambda>signature.
         Ok (signature, sig_data))))"

definition sign_connection_response ::
  "key_ext \<Rightarrow> wire \<Rightarrow> 'w wallet \<Rightarrow> 'w \<Rightarrow> u64 \<Rightarrow> string \<Rightarrow> ConnectionData \<Rightarrow> ConnectionSignature VcxResult" where
  "sign_connection_response K Z W w now key con_data =
     and_then (get_signature_data K W w now (wr_ser_connection_data Z con_data) key)
       (\<lambda>(signature, sig_data).
     Ok \<lparr>cs_signature = wr_b64url_encode Z signature, cs_sig_data = wr_b64url_encode Z sig_data,
       cs_signer = key\<rparr>)"

text \<open>The slice \<open>&sig_data[8..]\<close> panics when there are fewer than eight bytes.\<close>

definition decode_signed_connection_response ::
  "key_ext \<Rightarrow> wire \<Rightarrow> 'w wallet \<Rightarrow> 'w \<Rightarrow> ResponseContent \<Rightarrow> string \<Rightarrow> ConnectionData VcxResult" where
  "decode_signed_connection_response K Z W w response their_vk =
     (let con_sig = rs_connection_sig response
      in and_then (map_err (\<lambda>e. from_msg InvalidJson (''Cannot decode ConnectionResponse: '' @ se_debug e))
           (wr_b64url_decode Z (cs_signature con_sig))) (\<lambda>signature.
         and_then (base64url_decode Z (cs_sig_data con_sig)) (\<lambda>sig_data.
         and_then (from_pk (from_base58 K their_vk Ed25519)) (\<lambda>k.
         and_then (from_wallet (wl_verify W w k sig_data signature)) (\<lambda>valid.
         if \<not> valid then
           vcx_err InvalidJson ''ConnectionResponse signature is invalid for original Invite recipient key''
         else if cs_signer con_sig \<noteq> their_vk then
           vcx_err InvalidJson ''Signer declared in ConnectionResponse signed response is not matching the actual signer. Connection ''
         else if length sig_data < 8 then Panic
         else map_err (\<lambda>e. from_msg InvalidJson (se_display e))
           (wr_de_connection_data Z (drop 8 sig_data)))))))"

section \<open>What a signature guarantees\<close>

text \<open>
  The documented behaviour the proofs use: base64 decodes what it encodes, the derived code of
  \<open>ConnectionData\<close> reads what it writes, and a wallet accepts the signatures a wallet made.
\<close>

definition b64url_inverse :: "wire \<Rightarrow> bool" where
  "b64url_inverse Z \<longleftrightarrow> (\<forall>s. wr_b64url_decode Z (wr_b64url_encode Z s) = Ok s)"

definition connection_data_reads :: "wire \<Rightarrow> ConnectionData \<Rightarrow> bool" where
  "connection_data_reads Z c \<longleftrightarrow> wr_de_connection_data Z (wr_ser_connection_data Z c) = Ok c"

definition signatures_verify :: "'w wallet \<Rightarrow> bool" where
  "signatures_verify W \<longleftrightarrow>
     (\<forall>w k m s. wl_sign W w k m = Ok s \<longrightarrow> (\<forall>w'. wl_verify W w' k m s = Ok True))"

lemma decode_of_signed:
  assumes "b64url_inverse Z" and "connection_data_reads Z con_data" and "signatures_verify W"
    and signed: "sign_connection_response K Z W w now vk con_data = Ok con_sig"
  shows "decode_signed_connection_response K Z W w' \<lparr>rs_connection_sig = con_sig\<rparr> vk = Ok con_data"
proof -
  let ?d = "to_be_bytes now @ wr_ser_connection_data Z con_data"
  from signed obtain k s where k: "from_base58 K vk Ed25519 = Ok k" "wl_sign W w k ?d = Ok s"
    "con_sig = \<lparr>cs_signature = wr_b64url_encode Z s, cs_sig_data = wr_b64url_encode Z ?d, cs_signer = vk\<rparr>"
    by (auto simp: sign_connection_response_def get_signature_data_def Let_def)
  moreover from assms(3) k(2) have "wl_verify W w' k ?d s = Ok True"
    by (auto simp: signatures_verify_def)
  ultimately show ?thesis using assms(1,2)
    by (simp add: decode_signed_connection_response_def base64url_decode_def b64url_inverse_def
        connection_data_reads_def)
qed

text \<open>
  Everything the decoder accepts is covered by the signature: the data it returns are the bytes
  after the time stamp of a text the wallet accepts as signed by the expected key, and the
  response names that key as its signer.
\<close>

lemma decode_signed_sound:
  assumes "decode_signed_connection_response K Z W w response vk = Ok con_data"
  shows "\<exists>k s d. from_base58 K vk Ed25519 = Ok k \<and>
    wr_b64url_decode Z (cs_signature (rs_connection_sig response)) = Ok s \<and>
    wr_b64url_decode Z (cs_sig_data (rs_connection_sig response)) = Ok d \<and>
    wl_verify W w k d s = Ok True \<and> 8 \<le> length d \<and> wr_de_connection_data Z (drop 8 d) = Ok con_data \<and>
    cs_signer (rs_connection_sig response) = vk"
  using assms
  by (auto simp: decode_signed_connection_response_def base64url_decode_def Let_def
      split: if_splits)

text \<open>
  A signed connection response decodes to the connection data it was made from when the reader
  expects the key that signed it, and to nothing when the reader expects another key.
\<close>

theorem signed_response_roundtrip:
  assumes "b64url_inverse Z" and "connection_data_reads Z con_data" and "signatures_verify W"
    and "sign_connection_response K Z W w now vk con_data = Ok con_sig"
  shows "decode_signed_connection_response K Z W w' \<lparr>rs_connection_sig = con_sig\<rparr> vk = Ok con_data \<and>
    (\<forall>other d. other \<noteq> vk \<longrightarrow>
      decode_signed_connection_response K Z W w' \<lparr>rs_connection_sig = con_sig\<rparr> other \<noteq> Ok d)"
proof -
  have "cs_signer con_sig = vk" using assms(4) by (auto simp: sign_connection_response_def)
  with decode_of_signed [OF assms] decode_signed_sound show ?thesis
    by (metis ResponseContent.select_convs(1))
qed

text \<open>
  Decoding a response panics exactly when its signature is valid for the expected key, the
  signer is named correctly and the signed data is shorter than the eight bytes of the time
  stamp: the holder of the invitation's key can crash the invitee, nobody else can.
\<close>

theorem short_signed_data_panics:
  assumes "\<And>s. wr_b64url_decode Z s \<noteq> Panic" and "\<And>s. wr_de_connection_data Z s \<noteq> Panic"
    and "\<And>s. kx_b58_decode K s \<noteq> Panic" and "\<And>k m s. wl_verify W w k m s \<noteq> Panic"
  shows "decode_signed_connection_response K Z W w response vk = Panic \<longleftrightarrow>
    (\<exists>k s d. from_base58 K vk Ed25519 = Ok k \<and>
      wr_b64url_decode Z (cs_signature (rs_connection_sig response)) = Ok s \<and>
      wr_b64url_decode Z (cs_sig_data (rs_connection_sig response)) = Ok d \<and>
      wl_verify W w k d s = Ok True \<and> cs_signer (rs_connection_sig response) = vk \<and> length d < 8)"
  using assms
  by (auto simp: decode_signed_connection_response_def base64url_decode_def Let_def
      and_then_eq_Panic from_pk_def from_wallet_def from_base58_def)

section \<open>A concrete instance\<close>

text \<open>
  The signature of a message is the key followed by the message, and verification compares;
  base64 is the identity. The reader of connection data returns one given value.
\<close>

definition sample_wallet :: "nat wallet" where
  "sample_wallet = \<lparr>
     wl_create_and_store_my_did = (\<lambda>w _ _. (Ok \<lparr>dd_did = ''did'',
       dd_verkey = \<lparr>ky_type = Ed25519, ky_bytes = sample_verkey\<rparr>\<rparr>, Suc w)),
     wl_key_for_did = (\<lambda>_ _. Ok \<lparr>ky_type = Ed25519, ky_bytes = sample_verkey\<rparr>),
     wl_replace_did_key_start = (\<lambda>w _ _. (Ok \<lparr>ky_type = Ed25519, ky_bytes = sample_verkey\<rparr>, w)),
     wl_replace_did_key_apply = (\<lambda>w _. (Ok (), w)),
     wl_sign = (\<lambda>_ k m. Ok (ky_bytes k @ m)), wl_verify = (\<lambda>_ k m s. Ok (s = ky_bytes k @ m)),
     wl_pack_message = (\<lambda>_ _ _ m. Ok m),
     wl_unpack_message = (\<lambda>_ m. Ok \<lparr>um_message = m, um_recipient_verkey = sample_verkey,
       um_sender_verkey = None\<rparr>)\<rparr>"

definition sample_wire :: "ConnectionData \<Rightarrow> wire" where
  "sample_wire c = \<lparr>wr_b64url_encode = (\<lambda>s. s), wr_b64url_decode = Ok,
     wr_ser_connection_data = cn_did, wr_de_connection_data = (\<lambda>_. Ok c),
     wr_ser_service = (\<lambda>_. JNull), wr_de_service = (\<lambda>_. Ok default_service),
     wr_de_error = (\<lambda>_ e. e)\<rparr>"

lemma sample_wire_laws [simp]:
  "b64url_inverse (sample_wire c)" "connection_data_reads (sample_wire c) c"
  by (simp_all add: sample_wire_def b64url_inverse_def connection_data_reads_def)

lemma sample_wallet_signs [simp]: "signatures_verify sample_wallet"
  by (simp add: signatures_verify_def sample_wallet_def)

definition sample_con_data :: ConnectionData where
  "sample_con_data = \<lparr>cn_did = ''did'', cn_did_doc = default_did_doc\<rparr>"

theorem signed_response_roundtrip_witness:
  "\<exists>con_sig. sign_connection_response sample_kx (sample_wire sample_con_data) sample_wallet 0 5
       sample_verkey sample_con_data = Ok con_sig \<and>
     decode_signed_connection_response sample_kx (sample_wire sample_con_data) sample_wallet 0
       \<lparr>rs_connection_sig = con_sig\<rparr> sample_verkey = Ok sample_con_data"
proof -
  have "\<exists>con_sig. sign_connection_response sample_kx (sample_wire sample_con_data) sample_wallet 0 5
      sample_verkey sample_con_data = Ok con_sig"
    by (simp add: sign_connection_response_def get_signature_data_def from_base58_def sample_kx_def
        sample_wallet_def Let_def)
  then show ?thesis using signed_response_roundtrip [OF _ _ sample_wallet_signs] sample_wire_laws by blast
qed

theorem short_signed_data_panics_witness:
  "decode_signed_connection_response sample_kx (sample_wire sample_con_data) sample_wallet 0
     \<lparr>rs_connection_sig = \<lparr>cs_signature = sample_verkey @ ''abc'', cs_sig_data = ''abc'',
       cs_signer = sample_verkey\<rparr>\<rparr> sample_verkey = Panic"
  by (subst short_signed_data_panics)
    (simp_all add: sample_wire_def sample_kx_def sample_wallet_def from_base58_def)

end
