(* ===== verification/Message_Serde.thy ===== *)
theory Message_Serde
  imports Messages
begin

text \<open>
  Writing and reading messages (\<open>DelayedSerde\<close> of the protocol enums, \<open>messages/src/lib.rs\<close> and the
  \<open>mod.rs\<close> of every protocol): which \<open>@type\<close> a message is written with, and which struct the reader
  chooses for an \<open>@type\<close>. The derived (de)serialisers of the single structs are parameters, one
  \<open>struct_codec\<close> each: the writer lists the members of the flattened struct, the reader gets the
  members of the object without \<open>@type\<close>.
\<close>

type_synonym members = "(string \<times> json) list"

record 'a struct_codec =
  sc_write :: "'a \<Rightarrow> members"
  sc_read :: "members \<Rightarrow> (string, 'a) result"

text \<open>
  The structs of all messages, and the texts of two errors of third-party code: an unknown kind
  and an object without a textual \<open>@type\<close>.
\<close>

record msg_codecs =
  cd_invitation :: "Invitation struct_codec"
  cd_request :: "Request struct_codec"
  cd_response :: "Response struct_codec"
  cd_con_report :: "ConProblemReport struct_codec"
  cd_revoke :: "Revoke struct_codec"
  cd_ack :: "Ack struct_codec"
  cd_offer1 :: "OfferCredentialV1 struct_codec"
  cd_propose1 :: "ProposeCredentialV1 struct_codec"
  cd_request1 :: "RequestCredentialV1 struct_codec"
  cd_issue1 :: "IssueCredentialV1 struct_codec"
  cd_inner_report :: "ProtocolProblemReport struct_codec"
  cd_offer2 :: "(OfferCredentialV2Content, OptThreadDecorators) MsgParts struct_codec"
  cd_propose2 :: "(ProposeCredentialV2Content, OptThreadDecorators) MsgParts struct_codec"
  cd_request2 :: "(RequestCredentialV2Content, OptThreadDecorators) MsgParts struct_codec"
  cd_issue2 :: "(IssueCredentialV2Content, PleaseAckDecorators) MsgParts struct_codec"
  cd_inner_ack :: "ProtocolAck struct_codec"
  cd_propose_pres1 :: "ProposePresentationV1 struct_codec"
  cd_request_pres1 :: "RequestPresentationV1 struct_codec"
  cd_pres1 :: "PresentationV1 struct_codec"
  cd_propose_pres2 :: "(ProposePresentationV2Content, OptThreadDecorators) MsgParts struct_codec"
  cd_request_pres2 :: "(RequestPresentationV2Content, OptThreadDecorators) MsgParts struct_codec"
  cd_pres2 :: "(PresentationV2Content, PleaseAckDecorators) MsgParts struct_codec"
  cd_ping :: "Ping struct_codec"
  cd_ping_response :: "PingResponse struct_codec"
  cd_query :: "(QueryContent, TimingDecorators) MsgParts struct_codec"
  cd_disclose :: "Disclose struct_codec"
  cd_oob_invitation :: "OobInvitation struct_codec"
  cd_reuse :: "HandshakeReuse struct_codec"
  cd_reuse_accepted :: "HandshakeReuseAccepted struct_codec"
  cd_status :: "(StatusContent, TransportDecorators) MsgParts struct_codec"
  cd_status_request :: "(StatusRequestContent, TransportDecorators) MsgParts struct_codec"
  cd_delivery_request :: "(DeliveryRequestContent, TransportDecorators) MsgParts struct_codec"
  cd_delivery :: "(DeliveryContent, TransportDecorators) MsgParts struct_codec"
  cd_messages_received :: "(MessagesReceivedContent, TransportDecorators) MsgParts struct_codec"
  cd_live_delivery :: "(LiveDeliveryChangeContent, TransportDecorators) MsgParts struct_codec"
  cd_mediate_request :: "(unit, unit) MsgParts struct_codec"
  cd_mediate_deny :: "(unit, ThreadDecorators) MsgParts struct_codec"
  cd_mediate_grant :: "(MediateGrantContent, ThreadDecorators) MsgParts struct_codec"
  cd_kl_change :: "(KeylistUpdateContent, unit) MsgParts struct_codec"
  cd_kl_changed :: "(KeylistUpdateResponseContent, ThreadDecorators) MsgParts struct_codec"
  cd_keylist_query :: "(KeylistQueryContent, unit) MsgParts struct_codec"
  cd_keylist :: "(KeylistContent, ThreadDecorators) MsgParts struct_codec"
  cd_dx_request :: "DxRequest struct_codec"
  cd_dx_response0 :: "ResponseV1_0 struct_codec"
  cd_complete :: "Complete struct_codec"
  cd_dx_response1 :: "ResponseV1_1 struct_codec"
  cd_forward :: "Forward struct_codec"
  cd_report :: "ProblemReport struct_codec"
  cd_basic_message :: "(BasicMessageContent, BasicMessageDecorators) MsgParts struct_codec"
  cd_variant_error :: string
  cd_type_error :: "json \<Rightarrow> string"

text \<open>An object from the members written into it, and \<open>MsgWithType\<close>: the \<open>@type\<close> first.\<close>

definition object_of :: "members \<Rightarrow> members" where
  "object_of ms = fold (\<lambda>(k, v) m. btree_insert k v m) ms []"

definition msg_with_type :: "Protocol \<Rightarrow> string \<Rightarrow> members \<Rightarrow> json" where
  "msg_with_type protocol kind ms =
     JObject (object_of ((''@type'', JString (serialize_msg_type protocol kind)) # ms))"

definition not_standalone_msg :: "string \<Rightarrow> (string, 'a) result" where
  "not_standalone_msg msg_type = Err (msg_type @ '' is not a standalone message'')"

definition kind_of_str ::
  "msg_codecs \<Rightarrow> 'k list \<Rightarrow> ('k \<Rightarrow> string) \<Rightarrow> string \<Rightarrow> (string, 'k) result" where
  "kind_of_str R variants as_ref s =
     map_err (\<lambda>_. cd_variant_error R) (kind_from_str variants as_ref s)"

section \<open>The protocols\<close>

subsection \<open>\<open>Connection\<close>\<close>

fun Connection_delayed_serialize :: "msg_codecs \<Rightarrow> Connection \<Rightarrow> json" where
  "Connection_delayed_serialize R (Con_Invitation v) =
     msg_with_type (ConnectionType (ConnectionType_V1 ConnectionV1_0))
       (ConnectionTypeV1_0_as_ref Connection10_Invitation) (sc_write (cd_invitation R) v)"
| "Connection_delayed_serialize R (Con_Request v) =
     msg_with_type (ConnectionType (ConnectionType_V1 ConnectionV1_0))
       (ConnectionTypeV1_0_as_ref Connection10_Request) (sc_write (cd_request R) v)"
| "Connection_delayed_serialize R (Con_Response v) =
     msg_with_type (ConnectionType (ConnectionType_V1 ConnectionV1_0))
       (ConnectionTypeV1_0_as_ref Connection10_Response) (sc_write (cd_response R) v)"
| "Connection_delayed_serialize R (Con_ProblemReport v) =
     msg_with_type (ConnectionType (ConnectionType_V1 ConnectionV1_0))
       (ConnectionTypeV1_0_as_ref Connection10_ProblemReport) (sc_write (cd_con_report R) v)"

definition Connection_delayed_deserialize ::
  "msg_codecs \<Rightarrow> string \<Rightarrow> members \<Rightarrow> (string, Connection) result" where
  "Connection_delayed_deserialize R kind_str ms =
     and_then (kind_of_str R ConnectionTypeV1_0_variants ConnectionTypeV1_0_as_ref kind_str) (\<lambda>kind.
       case kind of
         Connection10_Invitation \<Rightarrow> map_ok Con_Invitation (sc_read (cd_invitation R) ms)
       | Connection10_Request \<Rightarrow> map_ok Con_Request (sc_read (cd_request R) ms)
       | Connection10_Response \<Rightarrow> map_ok Con_Response (sc_read (cd_response R) ms)
       | Connection10_ProblemReport \<Rightarrow> map_ok Con_ProblemReport (sc_read (cd_con_report R) ms))"

subsection \<open>\<open>Revocation\<close>\<close>

fun Revocation_delayed_serialize :: "msg_codecs \<Rightarrow> Revocation \<Rightarrow> json" where
  "Revocation_delayed_serialize R (Rev_Revoke v) =
     msg_with_type (RevocationType (RevocationType_V2 RevocationV2_0))
       (RevocationTypeV2_0_as_ref Revocation20_Revoke) (sc_write (cd_revoke R) v)"
| "Revocation_delayed_serialize R (Rev_Ack v) =
     msg_with_type (RevocationType (RevocationType_V2 RevocationV2_0))
       (RevocationTypeV2_0_as_ref Revocation20_Ack) (sc_write (cd_ack R) v)"

definition Revocation_delayed_deserialize ::
  "msg_codecs \<Rightarrow> string \<Rightarrow> members \<Rightarrow> (string, Revocation) result" where
  "Revocation_delayed_deserialize R kind_str ms =
     and_then (kind_of_str R RevocationTypeV2_0_variants RevocationTypeV2_0_as_ref kind_str) (\<lambda>kind.
       case kind of
         Revocation20_Revoke \<Rightarrow> map_ok Rev_Revoke (sc_read (cd_revoke R) ms)
       | Revocation20_Ack \<Rightarrow> map_ok Rev_Ack (sc_read (cd_ack R) ms))"

subsection \<open>\<open>CredentialIssuanceV1\<close>\<close>

fun CredentialIssuanceV1_delayed_serialize :: "msg_codecs \<Rightarrow> CredentialIssuanceV1 \<Rightarrow> json" where
  "CredentialIssuanceV1_delayed_serialize R (CI1_OfferCredential v) =
     msg_with_type (CredentialIssuanceType (CredentialIssuanceType_V1 CredentialIssuanceV1_0))
       (CredentialIssuanceTypeV1_0_as_ref CredentialIssuance10_OfferCredential) (sc_write (cd_offer1 R) v)"
| "CredentialIssuanceV1_delayed_serialize R (CI1_ProposeCredential v) =
     msg_with_type (CredentialIssuanceType (CredentialIssuanceType_V1 CredentialIssuanceV1_0))
       (CredentialIssuanceTypeV1_0_as_ref CredentialIssuance10_ProposeCredential) (sc_write (cd_propose1 R) v)"
| "CredentialIssuanceV1_delayed_serialize R (CI1_RequestCredential v) =
     msg_with_type (CredentialIssuanceType (CredentialIssuanceType_V1 CredentialIssuanceV1_0))
       (CredentialIssuanceTypeV1_0_as_ref CredentialIssuance10_RequestCredential) (sc_write (cd_request1 R) v)"
| "CredentialIssuanceV1_delayed_serialize R (CI1_IssueCredential v) =
     msg_with_type (CredentialIssuanceType (CredentialIssuanceType_V1 CredentialIssuanceV1_0))
       (CredentialIssuanceTypeV1_0_as_ref CredentialIssuance10_IssueCredential) (sc_write (cd_issue1 R) v)"
| "CredentialIssuanceV1_delayed_serialize R (CI1_Ack v) =
     msg_with_type (CredentialIssuanceType (CredentialIssuanceType_V1 CredentialIssuanceV1_0))
       (CredentialIssuanceTypeV1_0_as_ref CredentialIssuance10_Ack) (sc_write (cd_ack R) v)"
| "CredentialIssuanceV1_delayed_serialize R (CI1_ProblemReport v) =
     msg_with_type (CredentialIssuanceType (CredentialIssuanceType_V1 CredentialIssuanceV1_0))
       (CredentialIssuanceTypeV1_0_as_ref CredentialIssuance10_ProblemReport) (sc_write (cd_inner_report R) v)"

definition CredentialIssuanceV1_delayed_deserialize ::
  "msg_codecs \<Rightarrow> string \<Rightarrow> members \<Rightarrow> (string, CredentialIssuanceV1) result" where
  "CredentialIssuanceV1_delayed_deserialize R kind_str ms =
     and_then (kind_of_str R CredentialIssuanceTypeV1_0_variants CredentialIssuanceTypeV1_0_as_ref kind_str) (\<lambda>kind.
       case kind of
         CredentialIssuance10_OfferCredential \<Rightarrow> map_ok CI1_OfferCredential (sc_read (cd_offer1 R) ms)
       | CredentialIssuance10_ProposeCredential \<Rightarrow> map_ok CI1_ProposeCredential (sc_read (cd_propose1 R) ms)
       | CredentialIssuance10_RequestCredential \<Rightarrow> map_ok CI1_RequestCredential (sc_read (cd_request1 R) ms)
       | CredentialIssuance10_IssueCredential \<Rightarrow> map_ok CI1_IssueCredential (sc_read (cd_issue1 R) ms)
       | CredentialIssuance10_Ack \<Rightarrow> map_ok CI1_Ack (sc_read (cd_ack R) ms)
       | CredentialIssuance10_ProblemReport \<Rightarrow> map_ok CI1_ProblemReport (sc_read (cd_inner_report R) ms)
       | CredentialIssuance10_CredentialPreview \<Rightarrow> not_standalone_msg kind_str)"

subsection \<open>\<open>CredentialIssuanceV2\<close>\<close>

fun CredentialIssuanceV2_delayed_serialize :: "msg_codecs \<Rightarrow> CredentialIssuanceV2 \<Rightarrow> json" where
  "CredentialIssuanceV2_delayed_serialize R (CI2_OfferCredential v) =
     msg_with_type (CredentialIssuanceType (CredentialIssuanceType_V2 CredentialIssuanceV2_0))
       (CredentialIssuanceTypeV2_0_as_ref CredentialIssuance20_OfferCredential) (sc_write (cd_offer2 R) v)"
| "CredentialIssuanceV2_delayed_serialize R (CI2_ProposeCredential v) =
     msg_with_type (CredentialIssuanceType (CredentialIssuanceType_V2 CredentialIssuanceV2_0))
       (CredentialIssuanceTypeV2_0_as_ref CredentialIssuance20_ProposeCredential) (sc_write (cd_propose2 R) v)"
| "CredentialIssuanceV2_delayed_serialize R (CI2_RequestCredential v) =
     msg_with_type (CredentialIssuanceType (CredentialIssuanceType_V2 CredentialIssuanceV2_0))
       (CredentialIssuanceTypeV2_0_as_ref CredentialIssuance20_RequestCredential) (sc_write (cd_request2 R) v)"
| "CredentialIssuanceV2_delayed_serialize R (CI2_IssueCredential v) =
     msg_with_type (CredentialIssuanceType (CredentialIssuanceType_V2 CredentialIssuanceV2_0))
       (CredentialIssuanceTypeV2_0_as_ref CredentialIssuance20_IssueCredential) (sc_write (cd_issue2 R) v)"
| "CredentialIssuanceV2_delayed_serialize R (CI2_Ack v) =
     msg_with_type (CredentialIssuanceType (CredentialIssuanceType_V2 CredentialIssuanceV2_0))
       (CredentialIssuanceTypeV2_0_as_ref CredentialIssuance20_Ack) (sc_write (cd_inner_ack R) v)"
| "CredentialIssuanceV2_delayed_serialize R (CI2_ProblemReport v) =
     msg_with_type (CredentialIssuanceType (CredentialIssuanceType_V2 CredentialIssuanceV2_0))
       (CredentialIssuanceTypeV2_0_as_ref CredentialIssuance20_ProblemReport) (sc_write (cd_inner_report R) v)"

definition CredentialIssuanceV2_delayed_deserialize ::
  "msg_codecs \<Rightarrow> string \<Rightarrow> members \<Rightarrow> (string, CredentialIssuanceV2) result" where
  "CredentialIssuanceV2_delayed_deserialize R kind_str ms =
     and_then (kind_of_str R CredentialIssuanceTypeV2_0_variants CredentialIssuanceTypeV2_0_as_ref kind_str) (\<lambda>kind.
       case kind of
         CredentialIssuance20_OfferCredential \<Rightarrow> map_ok CI2_OfferCredential (sc_read (cd_offer2 R) ms)
       | CredentialIssuance20_ProposeCredential \<Rightarrow> map_ok CI2_ProposeCredential (sc_read (cd_propose2 R) ms)
       | CredentialIssuance20_RequestCredential \<Rightarrow> map_ok CI2_RequestCredential (sc_read (cd_request2 R) ms)
       | CredentialIssuance20_IssueCredential \<Rightarrow> map_ok CI2_IssueCredential (sc_read (cd_issue2 R) ms)
       | CredentialIssuance20_Ack \<Rightarrow> map_ok CI2_Ack (sc_read (cd_inner_ack R) ms)
       | CredentialIssuance20_ProblemReport \<Rightarrow> map_ok CI2_ProblemReport (sc_read (cd_inner_report R) ms)
       | CredentialIssuance20_CredentialPreview \<Rightarrow> not_standalone_msg kind_str)"

subsection \<open>\<open>PresentProofV1\<close>\<close>

fun PresentProofV1_delayed_serialize :: "msg_codecs \<Rightarrow> PresentProofV1 \<Rightarrow> json" where
  "PresentProofV1_delayed_serialize R (PP1_ProposePresentation v) =
     msg_with_type (PresentProofType (PresentProofType_V1 PresentProofV1_0))
       (PresentProofTypeV1_0_as_ref PresentProof10_ProposePresentation) (sc_write (cd_propose_pres1 R) v)"
| "PresentProofV1_delayed_serialize R (PP1_RequestPresentation v) =
     msg_with_type (PresentProofType (PresentProofType_V1 PresentProofV1_0))
       (PresentProofTypeV1_0_as_ref PresentProof10_RequestPresentation) (sc_write (cd_request_pres1 R) v)"
| "PresentProofV1_delayed_serialize R (PP1_Presentation v) =
     msg_with_type (PresentProofType (PresentProofType_V1 PresentProofV1_0))
       (PresentProofTypeV1_0_as_ref PresentProof10_Presentation) (sc_write (cd_pres1 R) v)"
| "PresentProofV1_delayed_serialize R (PP1_Ack v) =
     msg_with_type (PresentProofType (PresentProofType_V1 PresentProofV1_0))
       (PresentProofTypeV1_0_as_ref PresentProof10_Ack) (sc_write (cd_ack R) v)"
| "PresentProofV1_delayed_serialize R (PP1_ProblemReport v) =
     msg_with_type (PresentProofType (PresentProofType_V1 PresentProofV1_0))
       (PresentProofTypeV1_0_as_ref PresentProof10_ProblemReport) (sc_write (cd_inner_report R) v)"

definition PresentProofV1_delayed_deserialize ::
  "msg_codecs \<Rightarrow> string \<Rightarrow> members \<Rightarrow> (string, PresentProofV1) result" where
  "PresentProofV1_delayed_deserialize R kind_str ms =
     and_then (kind_of_str R PresentProofTypeV1_0_variants PresentProofTypeV1_0_as_ref kind_str) (\<lambda>kind.
       case kind of
         PresentProof10_ProposePresentation \<Rightarrow> map_ok PP1_ProposePresentation (sc_read (cd_propose_pres1 R) ms)
       | PresentProof10_RequestPresentation \<Rightarrow> map_ok PP1_RequestPresentation (sc_read (cd_request_pres1 R) ms)
       | PresentProof10_Presentation \<Rightarrow> map_ok PP1_Presentation (sc_read (cd_pres1 R) ms)
       | PresentProof10_Ack \<Rightarrow> map_ok PP1_Ack (sc_read (cd_ack R) ms)
       | PresentProof10_ProblemReport \<Rightarrow> map_ok PP1_ProblemReport (sc_read (cd_inner_report R) ms)
       | PresentProof10_PresentationPreview \<Rightarrow> not_standalone_msg kind_str)"

subsection \<open>\<open>PresentProofV2\<close>\<close>

fun PresentProofV2_delayed_serialize :: "msg_codecs \<Rightarrow> PresentProofV2 \<Rightarrow> json" where
  "PresentProofV2_delayed_serialize R (PP2_ProposePresentation v) =
     msg_with_type (PresentProofType (PresentProofType_V2 PresentProofV2_0))
       (PresentProofTypeV2_0_as_ref PresentProof20_ProposePresentation) (sc_write (cd_propose_pres2 R) v)"
| "PresentProofV2_delayed_serialize R (PP2_RequestPresentation v) =
     msg_with_type (PresentProofType (PresentProofType_V2 PresentProofV2_0))
       (PresentProofTypeV2_0_as_ref PresentProof20_RequestPresentation) (sc_write (cd_request_pres2 R) v)"
| "PresentProofV2_delayed_serialize R (PP2_Presentation v) =
     msg_with_type (PresentProofType (PresentProofType_V2 PresentProofV2_0))
       (PresentProofTypeV2_0_as_ref PresentProof20_Presentation) (sc_write (cd_pres2 R) v)"
| "PresentProofV2_delayed_serialize R (PP2_Ack v) =
     msg_with_type (PresentProofType (PresentProofType_V2 PresentProofV2_0))
       (PresentProofTypeV2_0_as_ref PresentProof20_Ack) (sc_write (cd_inner_ack R) v)"
| "PresentProofV2_delayed_serialize R (PP2_ProblemReport v) =
     msg_with_type (PresentProofType (PresentProofType_V2 PresentProofV2_0))
       (PresentProofTypeV2_0_as_ref PresentProof20_ProblemReport) (sc_write (cd_inner_report R) v)"

definition PresentProofV2_delayed_deserialize ::
  "msg_codecs \<Rightarrow> string \<Rightarrow> members \<Rightarrow> (string, PresentProofV2) result" where
  "PresentProofV2_delayed_deserialize R kind_str ms =
     and_then (kind_of_str R PresentProofTypeV2_0_variants PresentProofTypeV2_0_as_ref kind_str) (\<lambda>kind.
       case kind of
         PresentProof20_ProposePresentation \<Rightarrow> map_ok PP2_ProposePresentation (sc_read (cd_propose_pres2 R) ms)
       | PresentProof20_RequestPresentation \<Rightarrow> map_ok PP2_RequestPresentation (sc_read (cd_request_pres2 R) ms)
       | PresentProof20_Presentation \<Rightarrow> map_ok PP2_Presentation (sc_read (cd_pres2 R) ms)
       | PresentProof20_Ack \<Rightarrow> map_ok PP2_Ack (sc_read (cd_inner_ack R) ms)
       | PresentProof20_ProblemReport \<Rightarrow> map_ok PP2_ProblemReport (sc_read (cd_inner_report R) ms)
       | PresentProof20_PresentationPreview \<Rightarrow> not_standalone_msg kind_str)"

subsection \<open>\<open>TrustPing\<close>\<close>

fun TrustPing_delayed_serialize :: "msg_codecs \<Rightarrow> TrustPing \<Rightarrow> json" where
  "TrustPing_delayed_serialize R (TP_Ping v) =
     msg_with_type (TrustPingType (TrustPingType_V1 TrustPingV1_0))
       (TrustPingTypeV1_0_as_ref TrustPing10_Ping) (sc_write (cd_ping R) v)"
| "TrustPing_delayed_serialize R (TP_PingResponse v) =
     msg_with_type (TrustPingType (TrustPingType_V1 TrustPingV1_0))
       (TrustPingTypeV1_0_as_ref TrustPing10_PingResponse) (sc_write (cd_ping_response R) v)"

definition TrustPing_delayed_deserialize ::
  "msg_codecs \<Rightarrow> string \<Rightarrow> members \<Rightarrow> (string, TrustPing) result" where
  "TrustPing_delayed_deserialize R kind_str ms =
     and_then (kind_of_str R TrustPingTypeV1_0_variants TrustPingTypeV1_0_as_ref kind_str) (\<lambda>kind.
       case kind of
         TrustPing10_Ping \<Rightarrow> map_ok TP_Ping (sc_read (cd_ping R) ms)
       | TrustPing10_PingResponse \<Rightarrow> map_ok TP_PingResponse (sc_read (cd_ping_response R) ms))"

subsection \<open>\<open>DiscoverFeatures\<close>\<close>

fun DiscoverFeatures_delayed_serialize :: "msg_codecs \<Rightarrow> DiscoverFeatures \<Rightarrow> json" where
  "DiscoverFeatures_delayed_serialize R (DF_Query v) =
     msg_with_type (DiscoverFeaturesType (DiscoverFeaturesType_V1 DiscoverFeaturesV1_0))
       (DiscoverFeaturesTypeV1_0_as_ref DiscoverFeatures10_Query) (sc_write (cd_query R) v)"
| "DiscoverFeatures_delayed_serialize R (DF_Disclose v) =
     msg_with_type (DiscoverFeaturesType (DiscoverFeaturesType_V1 DiscoverFeaturesV1_0))
       (DiscoverFeaturesTypeV1_0_as_ref DiscoverFeatures10_Disclose) (sc_write (cd_disclose R) v)"

definition DiscoverFeatures_delayed_deserialize ::
  "msg_codecs \<Rightarrow> string \<Rightarrow> members \<Rightarrow> (string, DiscoverFeatures) result" where
  "DiscoverFeatures_delayed_deserialize R kind_str ms =
     and_then (kind_of_str R DiscoverFeaturesTypeV1_0_variants DiscoverFeaturesTypeV1_0_as_ref kind_str) (\<lambda>kind.
       case kind of
         DiscoverFeatures10_Query \<Rightarrow> map_ok DF_Query (sc_read (cd_query R) ms)
       | DiscoverFeatures10_Disclose \<Rightarrow> map_ok DF_Disclose (sc_read (cd_disclose R) ms))"

subsection \<open>\<open>OutOfBand\<close>\<close>

fun OutOfBand_delayed_serialize :: "msg_codecs \<Rightarrow> OutOfBand \<Rightarrow> json" where
  "OutOfBand_delayed_serialize R (OOB_Invitation v) =
     msg_with_type (OutOfBandType (OutOfBandType_V1 OutOfBandV1_1))
       (OutOfBandTypeV1_1_as_ref OutOfBand11_Invitation) (sc_write (cd_oob_invitation R) v)"
| "OutOfBand_delayed_serialize R (OOB_HandshakeReuse v) =
     msg_with_type (OutOfBandType (OutOfBandType_V1 OutOfBandV1_1))
       (OutOfBandTypeV1_1_as_ref OutOfBand11_HandshakeReuse) (sc_write (cd_reuse R) v)"
| "OutOfBand_delayed_serialize R (OOB_HandshakeReuseAccepted v) =
     msg_with_type (OutOfBandType (OutOfBandType_V1 OutOfBandV1_1))
       (OutOfBandTypeV1_1_as_ref OutOfBand11_HandshakeReuseAccepted) (sc_write (cd_reuse_accepted R) v)"

definition OutOfBand_delayed_deserialize ::
  "msg_codecs \<Rightarrow> string \<Rightarrow> members \<Rightarrow> (string, OutOfBand) result" where
  "OutOfBand_delayed_deserialize R kind_str ms =
     and_then (kind_of_str R OutOfBandTypeV1_1_variants OutOfBandTypeV1_1_as_ref kind_str) (\<lambda>kind.
       case kind of
         OutOfBand11_Invitation \<Rightarrow> map_ok OOB_Invitation (sc_read (cd_oob_invitation R) ms)
       | OutOfBand11_HandshakeReuse \<Rightarrow> map_ok OOB_HandshakeReuse (sc_read (cd_reuse R) ms)
       | OutOfBand11_HandshakeReuseAccepted \<Rightarrow> map_ok OOB_HandshakeReuseAccepted (sc_read (cd_reuse_accepted R) ms))"

subsection \<open>\<open>Notification\<close>\<close>

fun Notification_delayed_serialize :: "msg_codecs \<Rightarrow> Notification \<Rightarrow> json" where
  "Notification_delayed_serialize R (Not_Ack v) =
     msg_with_type (NotificationType (NotificationType_V1 NotificationV1_0))
       (NotificationTypeV1_0_as_ref Notification10_Ack) (sc_write (cd_ack R) v)"
| "Notification_delayed_serialize R (Not_ProblemReport v) =
     msg_with_type (NotificationType (NotificationType_V1 NotificationV1_0))
       (NotificationTypeV1_0_as_ref Notification10_ProblemReport) (sc_write (cd_inner_report R) v)"

definition Notification_delayed_deserialize ::
  "msg_codecs \<Rightarrow> string \<Rightarrow> members \<Rightarrow> (string, Notification) result" where
  "Notification_delayed_deserialize R kind_str ms =
     and_then (kind_of_str R NotificationTypeV1_0_variants NotificationTypeV1_0_as_ref kind_str) (\<lambda>kind.
       case kind of
         Notification10_Ack \<Rightarrow> map_ok Not_Ack (sc_read (cd_ack R) ms)
       | Notification10_ProblemReport \<Rightarrow> map_ok Not_ProblemReport (sc_read (cd_inner_report R) ms))"

subsection \<open>\<open>Pickup\<close>\<close>

fun Pickup_delayed_serialize :: "msg_codecs \<Rightarrow> Pickup \<Rightarrow> json" where
  "Pickup_delayed_serialize R (PU_Status v) =
     msg_with_type (PickupType (PickupType_V2 PickupV2_0))
       (PickupTypeV2_0_as_ref Pickup20_Status) (sc_write (cd_status R) v)"
| "Pickup_delayed_serialize R (PU_StatusRequest v) =
     msg_with_type (PickupType (PickupType_V2 PickupV2_0))
       (PickupTypeV2_0_as_ref Pickup20_StatusRequest) (sc_write (cd_status_request R) v)"
| "Pickup_delayed_serialize R (PU_DeliveryRequest v) =
     msg_with_type (PickupType (PickupType_V2 PickupV2_0))
       (PickupTypeV2_0_as_ref Pickup20_DeliveryRequest) (sc_write (cd_delivery_request R) v)"
| "Pickup_delayed_serialize R (PU_Delivery v) =
     msg_with_type (PickupType (PickupType_V2 PickupV2_0))
       (PickupTypeV2_0_as_ref Pickup20_Delivery) (sc_write (cd_delivery R) v)"
| "Pickup_delayed_serialize R (PU_MessagesReceived v) =
     msg_with_type (PickupType (PickupType_V2 PickupV2_0))
       (PickupTypeV2_0_as_ref Pickup20_MessagesReceived) (sc_write (cd_messages_received R) v)"
| "Pickup_delayed_serialize R (PU_LiveDeliveryChange v) =
     msg_with_type (PickupType (PickupType_V2 PickupV2_0))
       (PickupTypeV2_0_as_ref Pickup20_LiveDeliveryChange) (sc_write (cd_live_delivery R) v)"

definition Pickup_delayed_deserialize ::
  "msg_codecs \<Rightarrow> string \<Rightarrow> members \<Rightarrow> (string, Pickup) result" where
  "Pickup_delayed_deserialize R kind_str ms =
     and_then (kind_of_str R PickupTypeV2_0_variants PickupTypeV2_0_as_ref kind_str) (\<lambda>kind.
       case kind of
         Pickup20_Status \<Rightarrow> map_ok PU_Status (sc_read (cd_status R) ms)
       | Pickup20_StatusRequest \<Rightarrow> map_ok PU_StatusRequest (sc_read (cd_status_request R) ms)
       | Pickup20_DeliveryRequest \<Rightarrow> map_ok PU_DeliveryRequest (sc_read (cd_delivery_request R) ms)
       | Pickup20_Delivery \<Rightarrow> map_ok PU_Delivery (sc_read (cd_delivery R) ms)
       | Pickup20_MessagesReceived \<Rightarrow> map_ok PU_MessagesReceived (sc_read (cd_messages_received R) ms)
       | Pickup20_LiveDeliveryChange \<Rightarrow> map_ok PU_LiveDeliveryChange (sc_read (cd_live_delivery R) ms))"

subsection \<open>\<open>CoordinateMediation\<close>\<close>

fun CoordinateMediation_delayed_serialize :: "msg_codecs \<Rightarrow> CoordinateMediation \<Rightarrow> json" where
  "CoordinateMediation_delayed_serialize R (CM_MediateRequest v) =
     msg_with_type (CoordinateMediationType (CoordinateMediationType_V1 CoordinateMediationV1_0))
       (CoordinateMediationTypeV1_0_as_ref CoordinateMediation10_MediateRequest) (sc_write (cd_mediate_request R) v)"
| "CoordinateMediation_delayed_serialize R (CM_MediateDeny v) =
     msg_with_type (CoordinateMediationType (CoordinateMediationType_V1 CoordinateMediationV1_0))
       (CoordinateMediationTypeV1_0_as_ref CoordinateMediation10_MediateDeny) (sc_write (cd_mediate_deny R) v)"
| "CoordinateMediation_delayed_serialize R (CM_MediateGrant v) =
     msg_with_type (CoordinateMediationType (CoordinateMediationType_V1 CoordinateMediationV1_0))
       (CoordinateMediationTypeV1_0_as_ref CoordinateMediation10_MediateGrant) (sc_write (cd_mediate_grant R) v)"
| "CoordinateMediation_delayed_serialize R (CM_KeylistUpdate v) =
     msg_with_type (CoordinateMediationType (CoordinateMediationType_V1 CoordinateMediationV1_0))
       (CoordinateMediationTypeV1_0_as_ref CoordinateMediation10_KeylistUpdate) (sc_write (cd_kl_change R) v)"
| "CoordinateMediation_delayed_serialize R (CM_KeylistUpdateResponse v) =
     msg_with_type (CoordinateMediationType (CoordinateMediationType_V1 CoordinateMediationV1_0))
       (CoordinateMediationTypeV1_0_as_ref CoordinateMediation10_KeylistUpdateResponse) (sc_write (cd_kl_changed R) v)"
| "CoordinateMediation_delayed_serialize R (CM_KeylistQuery v) =
     msg_with_type (CoordinateMediationType (CoordinateMediationType_V1 CoordinateMediationV1_0))
       (CoordinateMediationTypeV1_0_as_ref CoordinateMediation10_KeylistQuery) (sc_write (cd_keylist_query R) v)"
| "CoordinateMediation_delayed_serialize R (CM_Keylist v) =
     msg_with_type (CoordinateMediationType (CoordinateMediationType_V1 CoordinateMediationV1_0))
       (CoordinateMediationTypeV1_0_as_ref CoordinateMediation10_Keylist) (sc_write (cd_keylist R) v)"

definition CoordinateMediation_delayed_deserialize ::
  "msg_codecs \<Rightarrow> string \<Rightarrow> members \<Rightarrow> (string, CoordinateMediation) result" where
  "CoordinateMediation_delayed_deserialize R kind_str ms =
     and_then (kind_of_str R CoordinateMediationTypeV1_0_variants CoordinateMediationTypeV1_0_as_ref kind_str) (\<lambda>kind.
       case kind of
         CoordinateMediation10_MediateRequest \<Rightarrow> map_ok CM_MediateRequest (sc_read (cd_mediate_request R) ms)
       | CoordinateMediation10_MediateDeny \<Rightarrow> map_ok CM_MediateDeny (sc_read (cd_mediate_deny R) ms)
       | CoordinateMediation10_MediateGrant \<Rightarrow> map_ok CM_MediateGrant (sc_read (cd_mediate_grant R) ms)
       | CoordinateMediation10_KeylistUpdate \<Rightarrow> map_ok CM_KeylistUpdate (sc_read (cd_kl_change R) ms)
       | CoordinateMediation10_KeylistUpdateResponse \<Rightarrow> map_ok CM_KeylistUpdateResponse (sc_read (cd_kl_changed R) ms)
       | CoordinateMediation10_KeylistQuery \<Rightarrow> map_ok CM_KeylistQuery (sc_read (cd_keylist_query R) ms)
       | CoordinateMediation10_Keylist \<Rightarrow> map_ok CM_Keylist (sc_read (cd_keylist R) ms))"

subsection \<open>\<open>DidExchangeV1_0\<close>\<close>

fun DidExchangeV1_0_delayed_serialize :: "msg_codecs \<Rightarrow> DidExchangeV1_0 \<Rightarrow> json" where
  "DidExchangeV1_0_delayed_serialize R (DE0_Request v) =
     msg_with_type (DidExchangeType (DidExchangeType_V1 DidExchangeV1_0))
       (DidExchangeTypeV1_0_as_ref DidExchange10_Request) (sc_write (cd_dx_request R) v)"
| "DidExchangeV1_0_delayed_serialize R (DE0_Response v) =
     msg_with_type (DidExchangeType (DidExchangeType_V1 DidExchangeV1_0))
       (DidExchangeTypeV1_0_as_ref DidExchange10_Response) (sc_write (cd_dx_response0 R) v)"
| "DidExchangeV1_0_delayed_serialize R (DE0_ProblemReport v) =
     msg_with_type (DidExchangeType (DidExchangeType_V1 DidExchangeV1_0))
       (DidExchangeTypeV1_0_as_ref DidExchange10_ProblemReport) (sc_write (cd_con_report R) v)"
| "DidExchangeV1_0_delayed_serialize R (DE0_Complete v) =
     msg_with_type (DidExchangeType (DidExchangeType_V1 DidExchangeV1_0))
       (DidExchangeTypeV1_0_as_ref DidExchange10_Complete) (sc_write (cd_complete R) v)"

definition DidExchangeV1_0_delayed_deserialize ::
  "msg_codecs \<Rightarrow> string \<Rightarrow> members \<Rightarrow> (string, DidExchangeV1_0) result" where
  "DidExchangeV1_0_delayed_deserialize R kind_str ms =
     and_then (kind_of_str R DidExchangeTypeV1_0_variants DidExchangeTypeV1_0_as_ref kind_str) (\<lambda>kind.
       case kind of
         DidExchange10_Request \<Rightarrow> map_ok DE0_Request (sc_read (cd_dx_request R) ms)
       | DidExchange10_Response \<Rightarrow> map_ok DE0_Response (sc_read (cd_dx_response0 R) ms)
       | DidExchange10_ProblemReport \<Rightarrow> map_ok DE0_ProblemReport (sc_read (cd_con_report R) ms)
       | DidExchange10_Complete \<Rightarrow> map_ok DE0_Complete (sc_read (cd_complete R) ms))"

subsection \<open>\<open>DidExchangeV1_1\<close>\<close>

fun DidExchangeV1_1_delayed_serialize :: "msg_codecs \<Rightarrow> DidExchangeV1_1 \<Rightarrow> json" where
  "DidExchangeV1_1_delayed_serialize R (DE1_Request v) =
     msg_with_type (DidExchangeType (DidExchangeType_V1 DidExchangeV1_1))
       (DidExchangeTypeV1_1_as_ref DidExchange11_Request) (sc_write (cd_dx_request R) v)"
| "DidExchangeV1_1_delayed_serialize R (DE1_Response v) =
     msg_with_type (DidExchangeType (DidExchangeType_V1 DidExchangeV1_1))
       (DidExchangeTypeV1_1_as_ref DidExchange11_Response) (sc_write (cd_dx_response1 R) v)"
| "DidExchangeV1_1_delayed_serialize R (DE1_ProblemReport v) =
     msg_with_type (DidExchangeType (DidExchangeType_V1 DidExchangeV1_1))
       (DidExchangeTypeV1_1_as_ref DidExchange11_ProblemReport) (sc_write (cd_con_report R) v)"
| "DidExchangeV1_1_delayed_serialize R (DE1_Complete v) =
     msg_with_type (DidExchangeType (DidExchangeType_V1 DidExchangeV1_1))
       (DidExchangeTypeV1_1_as_ref DidExchange11_Complete) (sc_write (cd_complete R) v)"

definition DidExchangeV1_1_delayed_deserialize ::
  "msg_codecs \<Rightarrow> string \<Rightarrow> members \<Rightarrow> (string, DidExchangeV1_1) result" where
  "DidExchangeV1_1_delayed_deserialize R kind_str ms =
     and_then (kind_of_str R DidExchangeTypeV1_1_variants DidExchangeTypeV1_1_as_ref kind_str) (\<lambda>kind.
       case kind of
         DidExchange11_Request \<Rightarrow> map_ok DE1_Request (sc_read (cd_dx_request R) ms)
       | DidExchange11_Response \<Rightarrow> map_ok DE1_Response (sc_read (cd_dx_response1 R) ms)
       | DidExchange11_ProblemReport \<Rightarrow> map_ok DE1_ProblemReport (sc_read (cd_con_report R) ms)
       | DidExchange11_Complete \<Rightarrow> map_ok DE1_Complete (sc_read (cd_complete R) ms))"

section \<open>\<open>AriesMessage\<close>\<close>

fun delayed_serialize :: "msg_codecs \<Rightarrow> AriesMessage \<Rightarrow> json" where
  "delayed_serialize R (Routing v) =
     msg_with_type (RoutingType (RoutingType_V1 RoutingV1_0)) (RoutingTypeV1_0_as_ref Routing10_Forward) (sc_write (cd_forward R) v)"
| "delayed_serialize R (ReportProblem v) =
     msg_with_type (ReportProblemType (ReportProblemType_V1 ReportProblemV1_0)) (ReportProblemTypeV1_0_as_ref ReportProblem10_ProblemReport) (sc_write (cd_report R) v)"
| "delayed_serialize R (BasicMessage v) =
     msg_with_type (BasicMessageType (BasicMessageType_V1 BasicMessageV1_0)) (BasicMessageTypeV1_0_as_ref BasicMessage10_Message) (sc_write (cd_basic_message R) v)"
| "delayed_serialize R (Connection v) = Connection_delayed_serialize R v"
| "delayed_serialize R (Revocation v) = Revocation_delayed_serialize R v"
| "delayed_serialize R (CredentialIssuance (CI_V1 v)) = CredentialIssuanceV1_delayed_serialize R v"
| "delayed_serialize R (CredentialIssuance (CI_V2 v)) = CredentialIssuanceV2_delayed_serialize R v"
| "delayed_serialize R (PresentProof (PP_V1 v)) = PresentProofV1_delayed_serialize R v"
| "delayed_serialize R (PresentProof (PP_V2 v)) = PresentProofV2_delayed_serialize R v"
| "delayed_serialize R (TrustPing v) = TrustPing_delayed_serialize R v"
| "delayed_serialize R (DiscoverFeatures v) = DiscoverFeatures_delayed_serialize R v"
| "delayed_serialize R (OutOfBand v) = OutOfBand_delayed_serialize R v"
| "delayed_serialize R (Notification v) = Notification_delayed_serialize R v"
| "delayed_serialize R (Pickup v) = Pickup_delayed_serialize R v"
| "delayed_serialize R (CoordinateMediation v) = CoordinateMediation_delayed_serialize R v"
| "delayed_serialize R (DidExchange (DE_V1_0 v)) = DidExchangeV1_0_delayed_serialize R v"
| "delayed_serialize R (DidExchange (DE_V1_1 v)) = DidExchangeV1_1_delayed_serialize R v"

fun delayed_deserialize :: "msg_codecs \<Rightarrow> Protocol \<Rightarrow> string \<Rightarrow> members \<Rightarrow> (string, AriesMessage) result" where
  "delayed_deserialize R (RoutingType (RoutingType_V1 RoutingV1_0)) kind_str ms =
     and_then (kind_of_str R RoutingTypeV1_0_variants RoutingTypeV1_0_as_ref kind_str) (\<lambda>kind.
       case kind of Routing10_Forward \<Rightarrow> map_ok Routing (sc_read (cd_forward R) ms))"
| "delayed_deserialize R (ReportProblemType (ReportProblemType_V1 ReportProblemV1_0)) kind_str ms =
     and_then (kind_of_str R ReportProblemTypeV1_0_variants ReportProblemTypeV1_0_as_ref kind_str) (\<lambda>kind.
       case kind of ReportProblem10_ProblemReport \<Rightarrow> map_ok ReportProblem (sc_read (cd_report R) ms))"
| "delayed_deserialize R (BasicMessageType (BasicMessageType_V1 BasicMessageV1_0)) kind_str ms =
     and_then (kind_of_str R BasicMessageTypeV1_0_variants BasicMessageTypeV1_0_as_ref kind_str) (\<lambda>kind.
       case kind of BasicMessage10_Message \<Rightarrow> map_ok BasicMessage (sc_read (cd_basic_message R) ms))"
| "delayed_deserialize R (ConnectionType (ConnectionType_V1 ConnectionV1_0)) kind_str ms =
     map_ok Connection (Connection_delayed_deserialize R kind_str ms)"
| "delayed_deserialize R (RevocationType (RevocationType_V2 RevocationV2_0)) kind_str ms =
     map_ok Revocation (Revocation_delayed_deserialize R kind_str ms)"
| "delayed_deserialize R (CredentialIssuanceType (CredentialIssuanceType_V1 CredentialIssuanceV1_0)) kind_str ms =
     map_ok (\<lambda>x. CredentialIssuance (CI_V1 x)) (CredentialIssuanceV1_delayed_deserialize R kind_str ms)"
| "delayed_deserialize R (CredentialIssuanceType (CredentialIssuanceType_V2 CredentialIssuanceV2_0)) kind_str ms =
     map_ok (\<lambda>x. CredentialIssuance (CI_V2 x)) (CredentialIssuanceV2_delayed_deserialize R kind_str ms)"
| "delayed_deserialize R (PresentProofType (PresentProofType_V1 PresentProofV1_0)) kind_str ms =
     map_ok (\<lambda>x. PresentProof (PP_V1 x)) (PresentProofV1_delayed_deserialize R kind_str ms)"
| "delayed_deserialize R (PresentProofType (PresentProofType_V2 PresentProofV2_0)) kind_str ms =
     map_ok (\<lambda>x. PresentProof (PP_V2 x)) (PresentProofV2_delayed_deserialize R kind_str ms)"
| "delayed_deserialize R (TrustPingType (TrustPingType_V1 TrustPingV1_0)) kind_str ms =
     map_ok TrustPing (TrustPing_delayed_deserialize R kind_str ms)"
| "delayed_deserialize R (DiscoverFeaturesType (DiscoverFeaturesType_V1 DiscoverFeaturesV1_0)) kind_str ms =
     map_ok DiscoverFeatures (DiscoverFeatures_delayed_deserialize R kind_str ms)"
| "delayed_deserialize R (OutOfBandType (OutOfBandType_V1 OutOfBandV1_1)) kind_str ms =
     map_ok OutOfBand (OutOfBand_delayed_deserialize R kind_str ms)"
| "delayed_deserialize R (NotificationType (NotificationType_V1 NotificationV1_0)) kind_str ms =
     map_ok Notification (Notification_delayed_deserialize R kind_str ms)"
| "delayed_deserialize R (PickupType (PickupType_V2 PickupV2_0)) kind_str ms =
     map_ok Pickup (Pickup_delayed_deserialize R kind_str ms)"
| "delayed_deserialize R (CoordinateMediationType (CoordinateMediationType_V1 CoordinateMediationV1_0)) kind_str ms =
     map_ok CoordinateMediation (CoordinateMediation_delayed_deserialize R kind_str ms)"
| "delayed_deserialize R (DidExchangeType (DidExchangeType_V1 DidExchangeV1_0)) kind_str ms =
     map_ok (\<lambda>x. DidExchange (DE_V1_0 x)) (DidExchangeV1_0_delayed_deserialize R kind_str ms)"
| "delayed_deserialize R (DidExchangeType (DidExchangeType_V1 DidExchangeV1_1)) kind_str ms =
     map_ok (\<lambda>x. DidExchange (DE_V1_1 x)) (DidExchangeV1_1_delayed_deserialize R kind_str ms)"
| "delayed_deserialize R (SignatureType v) kind_str ms = not_standalone_msg kind_str"

text \<open>\<open>Deserialize for AriesMessage\<close>: the type, then the remaining members to the reader it selects.\<close>

definition deserialize_message :: "msg_codecs \<Rightarrow> json \<Rightarrow> (string, AriesMessage) result" where
  "deserialize_message R j =
     (case j of
        JObject m \<Rightarrow>
          (case map_of m ''@type'' of
             Some (JString t) \<Rightarrow>
               and_then (MessageType_try_from t) (\<lambda>mt.
                 delayed_deserialize R (mt_protocol mt) (mt_kind mt)
                   (filter (\<lambda>(k, _). k \<noteq> ''@type'') m))
           | _ \<Rightarrow> Err (cd_type_error R j))
      | _ \<Rightarrow> Err (cd_type_error R j))"

section \<open>Reading what was written\<close>

text \<open>
  The derived code of one struct inverts itself on a value: the members it writes do not include
  \<open>@type\<close>, and reading them from an object gives the value.
\<close>

definition codec_inverse :: "'a struct_codec \<Rightarrow> 'a \<Rightarrow> bool" where
  "codec_inverse c v \<longleftrightarrow> ''@type'' \<notin> fst ` set (sc_write c v) \<and> sc_read c (object_of (sc_write c v)) = Ok v"

fun Connection_readable :: "msg_codecs \<Rightarrow> Connection \<Rightarrow> bool" where
  "Connection_readable R (Con_Invitation v) = codec_inverse (cd_invitation R) v"
| "Connection_readable R (Con_Request v) = codec_inverse (cd_request R) v"
| "Connection_readable R (Con_Response v) = codec_inverse (cd_response R) v"
| "Connection_readable R (Con_ProblemReport v) = codec_inverse (cd_con_report R) v"

fun Revocation_readable :: "msg_codecs \<Rightarrow> Revocation \<Rightarrow> bool" where
  "Revocation_readable R (Rev_Revoke v) = codec_inverse (cd_revoke R) v"
| "Revocation_readable R (Rev_Ack v) = codec_inverse (cd_ack R) v"

fun CredentialIssuanceV1_readable :: "msg_codecs \<Rightarrow> CredentialIssuanceV1 \<Rightarrow> bool" where
  "CredentialIssuanceV1_readable R (CI1_OfferCredential v) = codec_inverse (cd_offer1 R) v"
| "CredentialIssuanceV1_readable R (CI1_ProposeCredential v) = codec_inverse (cd_propose1 R) v"
| "CredentialIssuanceV1_readable R (CI1_RequestCredential v) = codec_inverse (cd_request1 R) v"
| "CredentialIssuanceV1_readable R (CI1_IssueCredential v) = codec_inverse (cd_issue1 R) v"
| "CredentialIssuanceV1_readable R (CI1_Ack v) = codec_inverse (cd_ack R) v"
| "CredentialIssuanceV1_readable R (CI1_ProblemReport v) = codec_inverse (cd_inner_report R) v"

fun CredentialIssuanceV2_readable :: "msg_codecs \<Rightarrow> CredentialIssuanceV2 \<Rightarrow> bool" where
  "CredentialIssuanceV2_readable R (CI2_OfferCredential v) = codec_inverse (cd_offer2 R) v"
| "CredentialIssuanceV2_readable R (CI2_ProposeCredential v) = codec_inverse (cd_propose2 R) v"
| "CredentialIssuanceV2_readable R (CI2_RequestCredential v) = codec_inverse (cd_request2 R) v"
| "CredentialIssuanceV2_readable R (CI2_IssueCredential v) = codec_inverse (cd_issue2 R) v"
| "CredentialIssuanceV2_readable R (CI2_Ack v) = codec_inverse (cd_inner_ack R) v"
| "CredentialIssuanceV2_readable R (CI2_ProblemReport v) = codec_inverse (cd_inner_report R) v"

fun PresentProofV1_readable :: "msg_codecs \<Rightarrow> PresentProofV1 \<Rightarrow> bool" where
  "PresentProofV1_readable R (PP1_ProposePresentation v) = codec_inverse (cd_propose_pres1 R) v"
| "PresentProofV1_readable R (PP1_RequestPresentation v) = codec_inverse (cd_request_pres1 R) v"
| "PresentProofV1_readable R (PP1_Presentation v) = codec_inverse (cd_pres1 R) v"
| "PresentProofV1_readable R (PP1_Ack v) = codec_inverse (cd_ack R) v"
| "PresentProofV1_readable R (PP1_ProblemReport v) = codec_inverse (cd_inner_report R) v"

fun PresentProofV2_readable :: "msg_codecs \<Rightarrow> PresentProofV2 \<Rightarrow> bool" where
  "PresentProofV2_readable R (PP2_ProposePresentation v) = codec_inverse (cd_propose_pres2 R) v"
| "PresentProofV2_readable R (PP2_RequestPresentation v) = codec_inverse (cd_request_pres2 R) v"
| "PresentProofV2_readable R (PP2_Presentation v) = codec_inverse (cd_pres2 R) v"
| "PresentProofV2_readable R (PP2_Ack v) = codec_inverse (cd_inner_ack R) v"
| "PresentProofV2_readable R (PP2_ProblemReport v) = codec_inverse (cd_inner_report R) v"

fun TrustPing_readable :: "msg_codecs \<Rightarrow> TrustPing \<Rightarrow> bool" where
  "TrustPing_readable R (TP_Ping v) = codec_inverse (cd_ping R) v"
| "TrustPing_readable R (TP_PingResponse v) = codec_inverse (cd_ping_response R) v"

fun DiscoverFeatures_readable :: "msg_codecs \<Rightarrow> DiscoverFeatures \<Rightarrow> bool" where
  "DiscoverFeatures_readable R (DF_Query v) = codec_inverse (cd_query R) v"
| "DiscoverFeatures_readable R (DF_Disclose v) = codec_inverse (cd_disclose R) v"

fun OutOfBand_readable :: "msg_codecs \<Rightarrow> OutOfBand \<Rightarrow> bool" where
  "OutOfBand_readable R (OOB_Invitation v) = codec_inverse (cd_oob_invitation R) v"
| "OutOfBand_readable R (OOB_HandshakeReuse v) = codec_inverse (cd_reuse R) v"
| "OutOfBand_readable R (OOB_HandshakeReuseAccepted v) = codec_inverse (cd_reuse_accepted R) v"

fun Notification_readable :: "msg_codecs \<Rightarrow> Notification \<Rightarrow> bool" where
  "Notification_readable R (Not_Ack v) = codec_inverse (cd_ack R) v"
| "Notification_readable R (Not_ProblemReport v) = codec_inverse (cd_inner_report R) v"

fun Pickup_readable :: "msg_codecs \<Rightarrow> Pickup \<Rightarrow> bool" where
  "Pickup_readable R (PU_Status v) = codec_inverse (cd_status R) v"
| "Pickup_readable R (PU_StatusRequest v) = codec_inverse (cd_status_request R) v"
| "Pickup_readable R (PU_DeliveryRequest v) = codec_inverse (cd_delivery_request R) v"
| "Pickup_readable R (PU_Delivery v) = codec_inverse (cd_delivery R) v"
| "Pickup_readable R (PU_MessagesReceived v) = codec_inverse (cd_messages_received R) v"
| "Pickup_readable R (PU_LiveDeliveryChange v) = codec_inverse (cd_live_delivery R) v"

fun CoordinateMediation_readable :: "msg_codecs \<Rightarrow> CoordinateMediation \<Rightarrow> bool" where
  "CoordinateMediation_readable R (CM_MediateRequest v) = codec_inverse (cd_mediate_request R) v"
| "CoordinateMediation_readable R (CM_MediateDeny v) = codec_inverse (cd_mediate_deny R) v"
| "CoordinateMediation_readable R (CM_MediateGrant v) = codec_inverse (cd_mediate_grant R) v"
| "CoordinateMediation_readable R (CM_KeylistUpdate v) = codec_inverse (cd_kl_change R) v"
| "CoordinateMediation_readable R (CM_KeylistUpdateResponse v) = codec_inverse (cd_kl_changed R) v"
| "CoordinateMediation_readable R (CM_KeylistQuery v) = codec_inverse (cd_keylist_query R) v"
| "CoordinateMediation_readable R (CM_Keylist v) = codec_inverse (cd_keylist R) v"

fun DidExchangeV1_0_readable :: "msg_codecs \<Rightarrow> DidExchangeV1_0 \<Rightarrow> bool" where
  "DidExchangeV1_0_readable R (DE0_Request v) = codec_inverse (cd_dx_request R) v"
| "DidExchangeV1_0_readable R (DE0_Response v) = codec_inverse (cd_dx_response0 R) v"
| "DidExchangeV1_0_readable R (DE0_ProblemReport v) = codec_inverse (cd_con_report R) v"
| "DidExchangeV1_0_readable R (DE0_Complete v) = codec_inverse (cd_complete R) v"

fun DidExchangeV1_1_readable :: "msg_codecs \<Rightarrow> DidExchangeV1_1 \<Rightarrow> bool" where
  "DidExchangeV1_1_readable R (DE1_Request v) = codec_inverse (cd_dx_request R) v"
| "DidExchangeV1_1_readable R (DE1_Response v) = codec_inverse (cd_dx_response1 R) v"
| "DidExchangeV1_1_readable R (DE1_ProblemReport v) = codec_inverse (cd_con_report R) v"
| "DidExchangeV1_1_readable R (DE1_Complete v) = codec_inverse (cd_complete R) v"

fun readable :: "msg_codecs \<Rightarrow> AriesMessage \<Rightarrow> bool" where
  "readable R (Routing v) = codec_inverse (cd_forward R) v"
| "readable R (ReportProblem v) = codec_inverse (cd_report R) v"
| "readable R (BasicMessage v) = codec_inverse (cd_basic_message R) v"
| "readable R (Connection v) = Connection_readable R v"
| "readable R (Revocation v) = Revocation_readable R v"
| "readable R (CredentialIssuance (CI_V1 v)) = CredentialIssuanceV1_readable R v"
| "readable R (CredentialIssuance (CI_V2 v)) = CredentialIssuanceV2_readable R v"
| "readable R (PresentProof (PP_V1 v)) = PresentProofV1_readable R v"
| "readable R (PresentProof (PP_V2 v)) = PresentProofV2_readable R v"
| "readable R (TrustPing v) = TrustPing_readable R v"
| "readable R (DiscoverFeatures v) = DiscoverFeatures_readable R v"
| "readable R (OutOfBand v) = OutOfBand_readable R v"
| "readable R (Notification v) = Notification_readable R v"
| "readable R (Pickup v) = Pickup_readable R v"
| "readable R (CoordinateMediation v) = CoordinateMediation_readable R v"
| "readable R (DidExchange (DE_V1_0 v)) = DidExchangeV1_0_readable R v"
| "readable R (DidExchange (DE_V1_1 v)) = DidExchangeV1_1_readable R v"

lemma btree_ok_object_of: "btree_ok (object_of ms)"
proof -
  have "btree_ok (fold (\<lambda>(k, v) m. btree_insert k v m) ms m)" if "btree_ok m" for m
    using that by (induction ms arbitrary: m) (auto simp: btree_ok_insert)
  then show ?thesis by (simp add: object_of_def)
qed

lemma filter_insert_same: "filter (\<lambda>(k, _). k \<noteq> t) (btree_insert t v m) = filter (\<lambda>(k, _). k \<noteq> t) m"
  by (induction t v m rule: btree_insert.induct) auto

lemma insert_below: "\<forall>x \<in> set (map fst m). k < x \<Longrightarrow> btree_insert k v m = (k, v) # m"
  by (cases m) auto

lemma filter_insert_other:
  "btree_ok m \<Longrightarrow> k \<noteq> t \<Longrightarrow>
     filter (\<lambda>(x, _). x \<noteq> t) (btree_insert k v m) = btree_insert k v (filter (\<lambda>(x, _). x \<noteq> t) m)"
proof (induction k v m rule: btree_insert.induct)
  case (2 k v k' v' m)
  have below: "btree_insert k v (filter (\<lambda>(x, _). x \<noteq> t) m) = (k, v) # filter (\<lambda>(x, _). x \<noteq> t) m"
    if "k < k'"
    using that "2.prems"(1) by (intro insert_below) (auto simp: btree_ok_def)
  from 2 below show ?case by (auto simp: btree_ok_def)
qed simp

lemma object_of_with_type:
  assumes "t \<notin> fst ` set ms"
  shows "map_of (object_of ((t, x) # ms)) t = Some x"
    and "filter (\<lambda>(k, _). k \<noteq> t) (object_of ((t, x) # ms)) = object_of ms"
proof -
  let ?f = "\<lambda>(k, v) m. btree_insert k v m"
  have "map_of (fold ?f ms m) t = map_of m t" for m
    using assms by (induction ms arbitrary: m) auto
  then show "map_of (object_of ((t, x) # ms)) t = Some x" by (simp add: object_of_def)
  have "filter (\<lambda>(k, _). k \<noteq> t) (fold ?f ms m) = fold ?f ms (filter (\<lambda>(k, _). k \<noteq> t) m)"
    if "btree_ok m" for m
    using assms that
  proof (induction ms arbitrary: m)
    case (Cons a ms)
    then show ?case by (cases a) (auto simp: btree_ok_insert filter_insert_other)
  qed simp
  from this [of "[(t, x)]"] show "filter (\<lambda>(k, _). k \<noteq> t) (object_of ((t, x) # ms)) = object_of ms"
    by (simp add: object_of_def btree_ok_def)
qed

lemma deserialize_msg_with_type:
  assumes "''@type'' \<notin> fst ` set ms" and "CHR ''/'' \<notin> set kind"
    and "MessageType_try_from (serialize_msg_type p kind) = Ok \<lparr>mt_protocol = p, mt_kind = kind\<rparr>"
  shows "deserialize_message R (msg_with_type p kind ms) = delayed_deserialize R p kind (object_of ms)"
  using object_of_with_type [OF assms(1)] assms(3)
  by (simp add: deserialize_message_def msg_with_type_def)


lemma deserialize_msg_of_kind:
  assumes "codec_inverse c v" and "CHR ''/'' \<notin> set kind"
  shows "deserialize_message R (msg_with_type p kind (sc_write c v)) =
      delayed_deserialize R p kind (object_of (sc_write c v))"
  using assms by (auto simp: codec_inverse_def intro: deserialize_msg_with_type msg_type_roundtrip)

lemma codec_reads: "codec_inverse c v \<Longrightarrow> sc_read c (object_of (sc_write c v)) = Ok v"
  by (simp add: codec_inverse_def)

lemma Connection_roundtrip:
  "Connection_readable R v \<Longrightarrow>
     deserialize_message R (Connection_delayed_serialize R v) = Ok (Connection v)"
  by (cases v) (simp_all add: deserialize_msg_of_kind codec_reads connectionv1_0.no_slash kind_of_str_def
      connectionv1_0.kind_roundtrip Connection_delayed_deserialize_def del: ConnectionTypeV1_0_as_ref.simps)

lemma Revocation_roundtrip:
  "Revocation_readable R v \<Longrightarrow>
     deserialize_message R (Revocation_delayed_serialize R v) = Ok (Revocation v)"
  by (cases v) (simp_all add: deserialize_msg_of_kind codec_reads revocationv2_0.no_slash kind_of_str_def
      revocationv2_0.kind_roundtrip Revocation_delayed_deserialize_def del: RevocationTypeV2_0_as_ref.simps)

lemma CredentialIssuanceV1_roundtrip:
  "CredentialIssuanceV1_readable R v \<Longrightarrow>
     deserialize_message R (CredentialIssuanceV1_delayed_serialize R v) = Ok (CredentialIssuance (CI_V1 v))"
  by (cases v) (simp_all add: deserialize_msg_of_kind codec_reads credentialissuancev1_0.no_slash kind_of_str_def
      credentialissuancev1_0.kind_roundtrip CredentialIssuanceV1_delayed_deserialize_def del: CredentialIssuanceTypeV1_0_as_ref.simps)

lemma CredentialIssuanceV2_roundtrip:
  "CredentialIssuanceV2_readable R v \<Longrightarrow>
     deserialize_message R (CredentialIssuanceV2_delayed_serialize R v) = Ok (CredentialIssuance (CI_V2 v))"
  by (cases v) (simp_all add: deserialize_msg_of_kind codec_reads credentialissuancev2_0.no_slash kind_of_str_def
      credentialissuancev2_0.kind_roundtrip CredentialIssuanceV2_delayed_deserialize_def del: CredentialIssuanceTypeV2_0_as_ref.simps)

lemma PresentProofV1_roundtrip:
  "PresentProofV1_readable R v \<Longrightarrow>
     deserialize_message R (PresentProofV1_delayed_serialize R v) = Ok (PresentProof (PP_V1 v))"
  by (cases v) (simp_all add: deserialize_msg_of_kind codec_reads presentproofv1_0.no_slash kind_of_str_def
      presentproofv1_0.kind_roundtrip PresentProofV1_delayed_deserialize_def del: PresentProofTypeV1_0_as_ref.simps)

lemma PresentProofV2_roundtrip:
  "PresentProofV2_readable R v \<Longrightarrow>
     deserialize_message R (PresentProofV2_delayed_serialize R v) = Ok (PresentProof (PP_V2 v))"
  by (cases v) (simp_all add: deserialize_msg_of_kind codec_reads presentproofv2_0.no_slash kind_of_str_def
      presentproofv2_0.kind_roundtrip PresentProofV2_delayed_deserialize_def del: PresentProofTypeV2_0_as_ref.simps)

lemma TrustPing_roundtrip:
  "TrustPing_readable R v \<Longrightarrow>
     deserialize_message R (TrustPing_delayed_serialize R v) = Ok (TrustPing v)"
  by (cases v) (simp_all add: deserialize_msg_of_kind codec_reads trustpingv1_0.no_slash kind_of_str_def
      trustpingv1_0.kind_roundtrip TrustPing_delayed_deserialize_def del: TrustPingTypeV1_0_as_ref.simps)

lemma DiscoverFeatures_roundtrip:
  "DiscoverFeatures_readable R v \<Longrightarrow>
     deserialize_message R (DiscoverFeatures_delayed_serialize R v) = Ok (DiscoverFeatures v)"
  by (cases v) (simp_all add: deserialize_msg_of_kind codec_reads discoverfeaturesv1_0.no_slash kind_of_str_def
      discoverfeaturesv1_0.kind_roundtrip DiscoverFeatures_delayed_deserialize_def del: DiscoverFeaturesTypeV1_0_as_ref.simps)

lemma OutOfBand_roundtrip:
  "OutOfBand_readable R v \<Longrightarrow>
     deserialize_message R (OutOfBand_delayed_serialize R v) = Ok (OutOfBand v)"
  by (cases v) (simp_all add: deserialize_msg_of_kind codec_reads outofbandv1_1.no_slash kind_of_str_def
      outofbandv1_1.kind_roundtrip OutOfBand_delayed_deserialize_def del: OutOfBandTypeV1_1_as_ref.simps)

lemma Notification_roundtrip:
  "Notification_readable R v \<Longrightarrow>
     deserialize_message R (Notification_delayed_serialize R v) = Ok (Notification v)"
  by (cases v) (simp_all add: deserialize_msg_of_kind codec_reads notificationv1_0.no_slash kind_of_str_def
      notificationv1_0.kind_roundtrip Notification_delayed_deserialize_def del: NotificationTypeV1_0_as_ref.simps)

lemma Pickup_roundtrip:
  "Pickup_readable R v \<Longrightarrow>
     deserialize_message R (Pickup_delayed_serialize R v) = Ok (Pickup v)"
  by (cases v) (simp_all add: deserialize_msg_of_kind codec_reads pickupv2_0.no_slash kind_of_str_def
      pickupv2_0.kind_roundtrip Pickup_delayed_deserialize_def del: PickupTypeV2_0_as_ref.simps)

lemma CoordinateMediation_roundtrip:
  "CoordinateMediation_readable R v \<Longrightarrow>
     deserialize_message R (CoordinateMediation_delayed_serialize R v) = Ok (CoordinateMediation v)"
  by (cases v) (simp_all add: deserialize_msg_of_kind codec_reads coordinatemediationv1_0.no_slash kind_of_str_def
      coordinatemediationv1_0.kind_roundtrip CoordinateMediation_delayed_deserialize_def del: CoordinateMediationTypeV1_0_as_ref.simps)

lemma DidExchangeV1_0_roundtrip:
  "DidExchangeV1_0_readable R v \<Longrightarrow>
     deserialize_message R (DidExchangeV1_0_delayed_serialize R v) = Ok (DidExchange (DE_V1_0 v))"
  by (cases v) (simp_all add: deserialize_msg_of_kind codec_reads didexchangev1_0.no_slash kind_of_str_def
      didexchangev1_0.kind_roundtrip DidExchangeV1_0_delayed_deserialize_def del: DidExchangeTypeV1_0_as_ref.simps)

lemma DidExchangeV1_1_roundtrip:
  "DidExchangeV1_1_readable R v \<Longrightarrow>
     deserialize_message R (DidExchangeV1_1_delayed_serialize R v) = Ok (DidExchange (DE_V1_1 v))"
  by (cases v) (simp_all add: deserialize_msg_of_kind codec_reads didexchangev1_1.no_slash kind_of_str_def
      didexchangev1_1.kind_roundtrip DidExchangeV1_1_delayed_deserialize_def del: DidExchangeTypeV1_1_as_ref.simps)

lemma Routing_roundtrip:
  "codec_inverse (cd_forward R) v \<Longrightarrow>
     deserialize_message R (delayed_serialize R (Routing v)) = Ok (Routing v)"
  by (simp add: deserialize_msg_of_kind codec_reads routingv1_0.no_slash kind_of_str_def
      routingv1_0.kind_roundtrip del: RoutingTypeV1_0_as_ref.simps split: RoutingTypeV1_0.split)

lemma ReportProblem_roundtrip:
  "codec_inverse (cd_report R) v \<Longrightarrow>
     deserialize_message R (delayed_serialize R (ReportProblem v)) = Ok (ReportProblem v)"
  by (simp add: deserialize_msg_of_kind codec_reads reportproblemv1_0.no_slash kind_of_str_def
      reportproblemv1_0.kind_roundtrip del: ReportProblemTypeV1_0_as_ref.simps split: ReportProblemTypeV1_0.split)

lemma BasicMessage_roundtrip:
  "codec_inverse (cd_basic_message R) v \<Longrightarrow>
     deserialize_message R (delayed_serialize R (BasicMessage v)) = Ok (BasicMessage v)"
  by (simp add: deserialize_msg_of_kind codec_reads basicmessagev1_0.no_slash kind_of_str_def
      basicmessagev1_0.kind_roundtrip del: BasicMessageTypeV1_0_as_ref.simps split: BasicMessageTypeV1_0.split)

lemmas group_roundtrips =
  Connection_roundtrip
  Revocation_roundtrip
  CredentialIssuanceV1_roundtrip
  CredentialIssuanceV2_roundtrip
  PresentProofV1_roundtrip
  PresentProofV2_roundtrip
  TrustPing_roundtrip
  DiscoverFeatures_roundtrip
  OutOfBand_roundtrip
  Notification_roundtrip
  Pickup_roundtrip
  CoordinateMediation_roundtrip
  DidExchangeV1_0_roundtrip
  DidExchangeV1_1_roundtrip
  Routing_roundtrip
  ReportProblem_roundtrip
  BasicMessage_roundtrip

text \<open>
  C34. Every message the library writes is read back as the same message: for each of the message
  types of the sixteen protocols (all versions), the \<open>@type\<close> member selects the struct the message
  was written from, and no other struct is tried. The assumption is that the derived code of that
  one struct reads what it writes.
\<close>

theorem message_roundtrip:
  assumes "readable R m"
  shows "deserialize_message R (delayed_serialize R m) = Ok m"
  using assms by (induction R m rule: delayed_serialize.induct) (simp_all add: group_roundtrips
      del: delayed_serialize.simps(1-3))

text \<open>A reader and writer of pings without comment and thread, and no other struct.\<close>

definition no_codec :: "'a struct_codec" where
  "no_codec = \<lparr>sc_write = (\<lambda>_. []), sc_read = (\<lambda>_. Err ''unsupported'')\<rparr>"

definition ping_codec :: "Ping struct_codec" where
  "ping_codec = \<lparr>
     sc_write = (\<lambda>p. [(''@id'', JString (mp_id p)),
       (''response_requested'', JBool (ping_response_requested (mp_content p)))]),
     sc_read = (\<lambda>m.
       case (map_of m ''@id'', map_of m ''response_requested'') of
         (Some (JString i), Some (JBool b)) \<Rightarrow>
           Ok \<lparr>mp_id = i, mp_content = \<lparr>ping_response_requested = b, ping_comment = None\<rparr>,
             mp_decorators = \<lparr>od_thread = None, od_timing = None\<rparr>\<rparr>
       | _ \<Rightarrow> Err ''missing field'')\<rparr>"

definition ping_codecs :: msg_codecs where
  "ping_codecs = \<lparr>
     cd_invitation = no_codec,
     cd_request = no_codec,
     cd_response = no_codec,
     cd_con_report = no_codec,
     cd_revoke = no_codec,
     cd_ack = no_codec,
     cd_offer1 = no_codec,
     cd_propose1 = no_codec,
     cd_request1 = no_codec,
     cd_issue1 = no_codec,
     cd_inner_report = no_codec,
     cd_offer2 = no_codec,
     cd_propose2 = no_codec,
     cd_request2 = no_codec,
     cd_issue2 = no_codec,
     cd_inner_ack = no_codec,
     cd_propose_pres1 = no_codec,
     cd_request_pres1 = no_codec,
     cd_pres1 = no_codec,
     cd_propose_pres2 = no_codec,
     cd_request_pres2 = no_codec,
     cd_pres2 = no_codec,
     cd_ping = ping_codec,
     cd_ping_response = no_codec,
     cd_query = no_codec,
     cd_disclose = no_codec,
     cd_oob_invitation = no_codec,
     cd_reuse = no_codec,
     cd_reuse_accepted = no_codec,
     cd_status = no_codec,
     cd_status_request = no_codec,
     cd_delivery_request = no_codec,
     cd_delivery = no_codec,
     cd_messages_received = no_codec,
     cd_live_delivery = no_codec,
     cd_mediate_request = no_codec,
     cd_mediate_deny = no_codec,
     cd_mediate_grant = no_codec,
     cd_kl_change = no_codec,
     cd_kl_changed = no_codec,
     cd_keylist_query = no_codec,
     cd_keylist = no_codec,
     cd_dx_request = no_codec,
     cd_dx_response0 = no_codec,
     cd_complete = no_codec,
     cd_dx_response1 = no_codec,
     cd_forward = no_codec,
     cd_report = no_codec,
     cd_basic_message = no_codec,
     cd_variant_error = ''Matching variant not found'', cd_type_error = (\<lambda>_. ''missing field @type'')\<rparr>"

definition sample_ping :: AriesMessage where
  "sample_ping = TrustPing (TP_Ping
    \<lparr>mp_id = ''1'', mp_content = \<lparr>ping_response_requested = True, ping_comment = None\<rparr>,
     mp_decorators = \<lparr>od_thread = None, od_timing = None\<rparr>\<rparr>)"

theorem message_roundtrip_witness:
  "readable ping_codecs sample_ping \<and>
    deserialize_message ping_codecs (delayed_serialize ping_codecs sample_ping) = Ok sample_ping"
proof -
  have "readable ping_codecs sample_ping"
    by (simp add: sample_ping_def ping_codecs_def ping_codec_def codec_inverse_def object_of_def)
  with message_roundtrip show ?thesis by blast
qed
end
