(* ===== verification/Envelope.thy ===== *)
theory Envelope
  imports Wallet Message_Serde "HOL-Library.Countable"
begin

text \<open>
  Encryption envelopes (\<open>aries_vcx/src/utils/encryption_envelope.rs\<close>): a message is packed for its
  recipient and then wrapped, once per routing key, into a \<open>Forward\<close> packed for that key; the
  receiver unpacks and may insist on the sender. Identifiers of the forwards are drawn from the
  argument \<open>uuid\<close>. The last sections show that mediators who each remove one layer deliver the
  message, and that a checked sender is the sender.
\<close>

section \<open>Packing\<close>

definition wrap_into_forward ::
  "ext \<Rightarrow> key_ext \<Rightarrow> msg_codecs \<Rightarrow> 'w wallet \<Rightarrow> 'w \<Rightarrow> string \<Rightarrow> string \<Rightarrow> Key \<Rightarrow> Key \<Rightarrow> string VcxResult" where
  "wrap_into_forward E K R W w uuid d forward_to_key routing_key =
     and_then (from_serde (x_json_parse E d)) (\<lambda>msg.
     let content = \<lparr>fwd_to = key_base58 K forward_to_key, fwd_msg = msg\<rparr>;
         message = x_json_print E (delayed_serialize R
           (Routing \<lparr>mp_id = uuid, mp_content = content, mp_decorators = ()\<rparr>))
     in from_wallet (wl_pack_message W w None [routing_key] message))"

fun wrap_into_forward_messages ::
  "ext \<Rightarrow> key_ext \<Rightarrow> msg_codecs \<Rightarrow> 'w wallet \<Rightarrow> 'w \<Rightarrow> (nat \<Rightarrow> string) \<Rightarrow> string \<Rightarrow> Key \<Rightarrow> Key list \<Rightarrow>
   string VcxResult" where
  "wrap_into_forward_messages E K R W w uuid d forward_to_key [] = Ok d"
| "wrap_into_forward_messages E K R W w uuid d forward_to_key (routing_key # rks) =
     and_then (wrap_into_forward E K R W w (uuid (length rks)) d forward_to_key routing_key)
       (\<lambda>d. wrap_into_forward_messages E K R W w uuid d routing_key rks)"

definition encrypt_for_pairwise ::
  "'w wallet \<Rightarrow> 'w \<Rightarrow> string \<Rightarrow> Key option \<Rightarrow> Key \<Rightarrow> string VcxResult" where
  "encrypt_for_pairwise W w d sender_vk recipient_key =
     from_wallet (wl_pack_message W w sender_vk [recipient_key] d)"

definition create_from_keys ::
  "ext \<Rightarrow> key_ext \<Rightarrow> msg_codecs \<Rightarrow> 'w wallet \<Rightarrow> 'w \<Rightarrow> (nat \<Rightarrow> string) \<Rightarrow> string \<Rightarrow> Key option \<Rightarrow> Key \<Rightarrow>
   Key list \<Rightarrow> string VcxResult" where
  "create_from_keys E K R W w uuid d sender_vk recipient_key rks =
     and_then (from_pk (transpose_opt (map_option (\<lambda>k. validate_key_type k Ed25519) sender_vk))) (\<lambda>_.
     and_then (from_pk (try_map (\<lambda>k. validate_key_type k Ed25519) rks)) (\<lambda>_.
     and_then (from_pk (validate_key_type recipient_key Ed25519)) (\<lambda>k.
     and_then (encrypt_for_pairwise W w d sender_vk k) (\<lambda>message.
     wrap_into_forward_messages E K R W w uuid message recipient_key rks))))"

definition create_from_legacy ::
  "ext \<Rightarrow> dd_ext \<Rightarrow> key_ext \<Rightarrow> msg_codecs \<Rightarrow> 'w wallet \<Rightarrow> 'w \<Rightarrow> (nat \<Rightarrow> string) \<Rightarrow> string \<Rightarrow>
   string option \<Rightarrow> AriesDidDoc \<Rightarrow> string VcxResult" where
  "create_from_legacy E X K R W w uuid d sender_vk did_doc =
     and_then (from_diddoc (recipient_keys X did_doc)) (\<lambda>keys.
     and_then (case keys of
         k # _ \<Rightarrow> Ok k
       | [] \<Rightarrow> vcx_err InvalidState (''No recipient key found in DIDDoc: '' @ dx_debug_doc X did_doc))
       (\<lambda>recipient_key_base58.
     and_then (from_pk (from_base58 K recipient_key_base58 Ed25519)) (\<lambda>recipient_key.
     and_then (from_pk (try_map (\<lambda>k. from_base58 K k Ed25519) (routing_keys did_doc))) (\<lambda>rks.
     and_then (from_pk (transpose_opt (map_option (\<lambda>k. from_base58 K k Ed25519) sender_vk))) (\<lambda>sender_key.
     create_from_keys E K R W w uuid d sender_key recipient_key rks)))))"

section \<open>Unpacking\<close>

definition unpack_a2a_message ::
  "key_ext \<Rightarrow> 'w wallet \<Rightarrow> 'w \<Rightarrow> string \<Rightarrow> (string \<times> Key option \<times> Key) VcxResult" where
  "unpack_a2a_message K W w encrypted_data =
     and_then (from_wallet (wl_unpack_message W w encrypted_data)) (\<lambda>unpacked_msg.
     and_then (from_pk (transpose_opt
         (map_option (\<lambda>k. from_base58 K k Ed25519) (um_sender_verkey unpacked_msg)))) (\<lambda>sender_key.
     and_then (from_pk (from_base58 K (um_recipient_verkey unpacked_msg) Ed25519)) (\<lambda>recipient_key.
     Ok (um_message unpacked_msg, sender_key, recipient_key))))"

definition unpack ::
  "key_ext \<Rightarrow> 'w wallet \<Rightarrow> 'w \<Rightarrow> string \<Rightarrow> Key option \<Rightarrow> (string \<times> Key option \<times> Key) VcxResult" where
  "unpack K W w encrypted_data expected_sender_vk =
     and_then (unpack_a2a_message K W w encrypted_data) (\<lambda>(a2a_message, sender_vk, recipient_vk).
     case expected_sender_vk of
       Some expected_key \<Rightarrow>
         (case sender_vk of
            Some k \<Rightarrow>
              if k \<noteq> expected_key then
                vcx_err AuthenticationError
                  (''Message did not pass authentication check. Expected sender verkey was ''
                    @ key_base58 K expected_key @ '', but actually was '' @ key_base58 K k)
              else Ok (a2a_message, sender_vk, recipient_vk)
          | None \<Rightarrow>
              vcx_err AuthenticationError ''Can't authenticate message because it was anoncrypted.'')
     | None \<Rightarrow> Ok (a2a_message, sender_vk, recipient_vk))"

text \<open>\<open>serde_json::from_str::<AriesMessage>\<close>\<close>

definition read_message :: "ext \<Rightarrow> wire \<Rightarrow> msg_codecs \<Rightarrow> string \<Rightarrow> (string, AriesMessage) result" where
  "read_message E Z R message =
     and_then (map_err se_display (x_json_parse E message)) (\<lambda>j.
     map_err (wr_de_error Z message) (deserialize_message R j))"

definition unpack_aries_msg ::
  "ext \<Rightarrow> wire \<Rightarrow> key_ext \<Rightarrow> msg_codecs \<Rightarrow> 'w wallet \<Rightarrow> 'w \<Rightarrow> string \<Rightarrow> Key option \<Rightarrow>
   (AriesMessage \<times> Key option \<times> Key) VcxResult" where
  "unpack_aries_msg E Z K R W w encrypted_data expected_sender_vk =
     and_then (unpack K W w encrypted_data expected_sender_vk) (\<lambda>(message, sender_vk, recipient_vk).
     and_then (map_err (\<lambda>e. from_msg InvalidJson (''Cannot deserialize A2A message: '' @ e))
         (read_message E Z R message)) (\<lambda>a2a_message.
     Ok (a2a_message, sender_vk, recipient_vk)))"

section \<open>Authentication\<close>

lemma transpose_opt_Ok: "transpose_opt r = Ok s \<longleftrightarrow> (r = None \<and> s = None) \<or> (\<exists>x. r = Some (Ok x) \<and> s = Some x)"
  by (cases r; cases "the r") auto

lemma unpack_a2a_Ok:
  "unpack_a2a_message K W w d = Ok (m, s, r) \<longleftrightarrow>
    (\<exists>u. wl_unpack_message W w d = Ok u \<and> um_message u = m \<and>
      from_base58 K (um_recipient_verkey u) Ed25519 = Ok r \<and>
      (case um_sender_verkey u of
         None \<Rightarrow> s = None | Some t \<Rightarrow> (\<exists>k. from_base58 K t Ed25519 = Ok k \<and> s = Some k)))"
  by (auto simp: unpack_a2a_message_def transpose_opt_Ok split: option.splits)

lemma unpack_expected_iff:
  "unpack K W w d (Some k) = Ok (m, s, r) \<longleftrightarrow> unpack_a2a_message K W w d = Ok (m, Some k, r) \<and> s = Some k"
  by (cases "unpack_a2a_message K W w d") (auto simp: unpack_def split: option.splits if_splits)

lemma unpack_any: "unpack K W w d None = unpack_a2a_message K W w d"
  by (cases "unpack_a2a_message K W w d") (auto simp: unpack_def)

text \<open>
  A message is accepted with an expected sender exactly when the wallet unpacks it, names a
  sender, and that sender is the expected key: an anonymous message or one of another sender is
  never accepted, whatever it contains.
\<close>

theorem unpack_authenticates:
  "unpack K W w d (Some expected) = Ok (m, s, r) \<longleftrightarrow>
    (\<exists>u t. wl_unpack_message W w d = Ok u \<and> um_message u = m \<and> um_sender_verkey u = Some t \<and>
      from_base58 K t Ed25519 = Ok expected \<and> from_base58 K (um_recipient_verkey u) Ed25519 = Ok r \<and>
      s = Some expected)"
  by (auto simp: unpack_expected_iff unpack_a2a_Ok split: option.splits)

section \<open>Delivery through mediators\<close>

text \<open>
  What the wallets and the readers promise. A wallet packs; the owner of the key unpacks the same
  text, learning both keys. An envelope is a JSON text, and unpacking depends only on the JSON
  value it stands for. A printed value reads back, and printing gives valid UTF-8. The derived
  code of \<open>Forward\<close> reads what it writes.
\<close>

definition packs_for_owner :: "key_ext \<Rightarrow> 'w wallet \<Rightarrow> (Key \<Rightarrow> 'w) \<Rightarrow> bool" where
  "packs_for_owner K W own \<longleftrightarrow>
     (\<forall>w s k m p. utf8_valid m \<longrightarrow> wl_pack_message W w s [k] m = Ok p \<longrightarrow>
       wl_unpack_message W (own k) p = Ok \<lparr>um_message = m, um_recipient_verkey = key_base58 K k,
         um_sender_verkey = map_option (key_base58 K) s\<rparr>)"

definition unpacks_json :: "ext \<Rightarrow> 'w wallet \<Rightarrow> bool" where
  "unpacks_json E W \<longleftrightarrow>
     (\<forall>w p j. x_json_parse E p = Ok j \<longrightarrow>
       wl_unpack_message W w (x_json_print E j) = wl_unpack_message W w p)"

definition prints_text :: "ext \<Rightarrow> bool" where
  "prints_text E \<longleftrightarrow> (\<forall>j. utf8_valid (x_json_print E j))"

definition forwards_read :: "msg_codecs \<Rightarrow> bool" where
  "forwards_read R \<longleftrightarrow> (\<forall>f. codec_inverse (cd_forward R) f)"

text \<open>
  A mediator: unpack with the key the envelope was made for, take the message out of the forward
  and print it. The message travels along the routing keys from the outermost layer inwards; each
  mediator sees the key of the next hop.
\<close>

definition relay ::
  "ext \<Rightarrow> wire \<Rightarrow> key_ext \<Rightarrow> msg_codecs \<Rightarrow> 'w wallet \<Rightarrow> 'w \<Rightarrow> string \<Rightarrow> (string \<times> string) option" where
  "relay E Z K R W w d =
     (case unpack_aries_msg E Z K R W w d None of
        Ok (Routing f, _, _) \<Rightarrow> Some (fwd_to (mp_content f), x_json_print E (fwd_msg (mp_content f)))
      | _ \<Rightarrow> None)"

fun deliver ::
  "ext \<Rightarrow> wire \<Rightarrow> key_ext \<Rightarrow> msg_codecs \<Rightarrow> 'w wallet \<Rightarrow> (Key \<Rightarrow> 'w) \<Rightarrow> Key list \<Rightarrow> Key \<Rightarrow> string \<Rightarrow>
   (string \<times> Key option \<times> Key) VcxResult" where
  "deliver E Z K R W own [] r d = unpack K W (own r) d None"
| "deliver E Z K R W own (m # ms) r d =
     (case relay E Z K R W (own m) d of
        Some (to, d') \<Rightarrow>
          if to = key_base58 K (case ms of [] \<Rightarrow> r | m' # _ \<Rightarrow> m') then deliver E Z K R W own ms r d'
          else vcx_err InvalidState ''wrong hop''
      | None \<Rightarrow> vcx_err InvalidState ''not a forward'')"

lemma from_base58_ed25519: "b58_inverse K \<Longrightarrow> ky_type k = Ed25519 \<Longrightarrow> from_base58 K (key_base58 K k) Ed25519 = Ok k"
  using from_base58_base58 [of K k] by simp

lemma owner_unpacks:
  assumes "packs_for_owner K W own" and "b58_inverse K" and "wl_pack_message W w s [k] m = Ok p"
    and "utf8_valid m" and "ky_type k = Ed25519" and "\<forall>i. s = Some i \<longrightarrow> ky_type i = Ed25519"
  shows "unpack K W (own k) p None = Ok (m, s, k)"
  using assms by (cases s)
    (auto simp: unpack_any unpack_a2a_message_def packs_for_owner_def from_base58_ed25519)

lemma relay_forward:
  assumes "packs_for_owner K W own" and "b58_inverse K" and "json_inverse E" and "prints_text E"
    and "forwards_read R" and "ky_type m = Ed25519"
    and wrap: "wrap_into_forward E K R W w u d to m = Ok p"
  shows "\<exists>j. x_json_parse E d = Ok j \<and>
    relay E Z K R W (own m) p = Some (key_base58 K to, x_json_print E j)"
proof -
  from wrap obtain j where j: "x_json_parse E d = Ok j"
    by (auto simp: wrap_into_forward_def from_serde_def)
  let ?f = "\<lparr>mp_id = u, mp_content = \<lparr>fwd_to = key_base58 K to, fwd_msg = j\<rparr>, mp_decorators = ()\<rparr>"
  let ?m = "delayed_serialize R (Routing ?f)"
  have packed: "wl_pack_message W w None [m] (x_json_print E ?m) = Ok p"
    using wrap j by (simp add: wrap_into_forward_def Let_def)
  have read: "deserialize_message R ?m = Ok (Routing ?f)"
    using assms(5) by (intro Routing_roundtrip) (simp add: forwards_read_def)
  have "unpack K W (own m) p None = Ok (x_json_print E ?m, None, m)"
    using owner_unpacks [OF assms(1,2) packed] assms(4,6) by (simp add: prints_text_def)
  then have "unpack_aries_msg E Z K R W (own m) p None = Ok (Routing ?f, None, m)"
    using assms(3) read by (simp add: unpack_aries_msg_def read_message_def json_inverse_def del: delayed_serialize.simps)
  with j show ?thesis by (simp add: relay_def)
qed

lemma unpack_same_json:
  assumes "unpacks_json E W" and "x_json_parse E p = Ok j"
  shows "unpack K W w (x_json_print E j) e = unpack K W w p e"
  using assms by (simp add: unpack_def unpack_a2a_message_def unpacks_json_def)

lemma relay_same_json:
  assumes "unpacks_json E W" and "x_json_parse E p = Ok j"
  shows "relay E Z K R W w (x_json_print E j) = relay E Z K R W w p"
  by (simp add: relay_def unpack_aries_msg_def unpack_same_json [OF assms])

text \<open>Delivery depends on the JSON value of an envelope only, so a printed envelope is as good.\<close>

lemma deliver_same_json:
  assumes "unpacks_json E W" and "x_json_parse E p = Ok j"
  shows "deliver E Z K R W own ms r (x_json_print E j) = deliver E Z K R W own ms r p"
  by (cases ms) (simp_all add: unpack_same_json [OF assms] relay_same_json [OF assms])

lemma validate_key_type_Ok: "validate_key_type k t = Ok k' \<longleftrightarrow> ky_type k = t \<and> k' = k"
  by (auto simp: validate_key_type_def)

lemma validated_keys: "try_map (\<lambda>k. validate_key_type k t) ks = Ok ks' \<Longrightarrow> k \<in> set ks \<Longrightarrow> ky_type k = t"
  by (induction ks arbitrary: ks') (auto simp: validate_key_type_Ok)

lemma deliver_wrapped:
  assumes laws: "packs_for_owner K W own" "b58_inverse K" "json_inverse E" "prints_text E"
    "forwards_read R" "unpacks_json E W"
  shows "\<lbrakk>wrap_into_forward_messages E K R W w uuid d to ms = Ok p; \<forall>m \<in> set ms. ky_type m = Ed25519;
      deliver E Z K R W own (rev inner) r d = Ok x;
      key_base58 K to = key_base58 K (case rev inner of [] \<Rightarrow> r | m # _ \<Rightarrow> m)\<rbrakk> \<Longrightarrow>
    deliver E Z K R W own (rev (inner @ ms)) r p = Ok x"
proof (induction ms arbitrary: d to inner)
  case (Cons m ms)
  from Cons.prems(1) obtain d' where
    wrap: "wrap_into_forward E K R W w (uuid (length ms)) d to m = Ok d'" and
    rest: "wrap_into_forward_messages E K R W w uuid d' m ms = Ok p" by auto
  from relay_forward [OF laws(1-5) _ wrap] Cons.prems(2) obtain j where
    j: "x_json_parse E d = Ok j" and
    hop: "relay E Z K R W (own m) d' = Some (key_base58 K to, x_json_print E j)" by fastforce
  have "deliver E Z K R W own (rev (inner @ [m])) r d' = Ok x"
    using hop Cons.prems(3,4) deliver_same_json [OF laws(6) j] by simp
  from Cons.IH [OF rest _ this] Cons.prems(2) show ?case by simp
qed simp

text \<open>
  C13. Mediators deliver: an envelope made for a recipient and any list of routing keys, opened layer
  by layer by the owners of the routing keys from the outermost one inwards, reaches the recipient,
  who reads the data that was packed and learns the sender's key; on the way each mediator is told
  exactly the next hop. No layer is left over, and none is missing.
\<close>

theorem envelope_delivered:
  assumes "packs_for_owner K W own" and "b58_inverse K" and "json_inverse E" and "prints_text E"
    and "forwards_read R" and "unpacks_json E W" and "utf8_valid d"
    and sent: "create_from_keys E K R W w uuid d sender recipient rks = Ok p"
  shows "deliver E Z K R W own (rev rks) recipient p = Ok (d, sender, recipient)"
proof -
  from sent obtain v rs packed where
    "transpose_opt (map_option (\<lambda>k. validate_key_type k Ed25519) sender) = Ok v"
    "try_map (\<lambda>k. validate_key_type k Ed25519) rks = Ok rs"
    "validate_key_type recipient Ed25519 = Ok recipient" and
    packed: "wl_pack_message W w sender [recipient] d = Ok packed" and
    wrapped: "wrap_into_forward_messages E K R W w uuid packed recipient rks = Ok p"
    by (auto simp: create_from_keys_def encrypt_for_pairwise_def validate_key_type_Ok)
  then have types: "ky_type recipient = Ed25519" "\<forall>m \<in> set rks. ky_type m = Ed25519"
    "\<forall>s. sender = Some s \<longrightarrow> ky_type s = Ed25519"
    by (auto simp: validate_key_type_Ok validated_keys transpose_opt_Ok)
  have "deliver E Z K R W own (rev []) recipient packed = Ok (d, sender, recipient)"
    using owner_unpacks [OF assms(1,2) packed assms(7) types(1)] types(3) by simp
  from deliver_wrapped [OF assms(1-6) wrapped types(2) this] show ?thesis by simp
qed

section \<open>A concrete instance\<close>

text \<open>
  JSON values are numbered and printed as their number, so that every value reads back. An
  envelope is an array of the recipient, the sender and the message.
\<close>

instance word :: (len) countable
  by (rule countable_classI [of unat]) (rule unsigned_word_eqI)

instance json_number :: countable
  by countable_datatype

instance json :: countable
  by countable_datatype

definition number_json :: "json \<Rightarrow> string" where
  "number_json j = show_nat (to_nat j)"

definition read_json :: "string \<Rightarrow> json serde" where
  "read_json s = Ok (from_nat (digits_value 0 s))"

definition counting_ext :: ext where
  "counting_ext = (sample_ext read_json)\<lparr>x_json_print := number_json\<rparr>"

lemma read_number_json [simp]: "read_json (number_json j) = Ok j"
  by (simp add: read_json_def number_json_def)

lemma number_json_text: "utf8_valid (number_json j)"
proof (rule utf8_valid_ascii, rule ballI)
  fix c assume "c \<in> set (number_json j)"
  then obtain d where "to_digit c = Some d" using show_nat_digits by (auto simp: number_json_def)
  then have "c = digit_char d" and "d < 10" by (auto simp: digit_char_to_digit to_digit_less)
  then show "of_char c \<le> (127 :: nat)" by (simp add: of_char_digit_char)
qed

definition json_wallet :: "unit wallet" where
  "json_wallet = \<lparr>
     wl_create_and_store_my_did = (\<lambda>w _ _. (Err We_NoRecipientKeyFound, w)),
     wl_key_for_did = (\<lambda>_ _. Err We_NoRecipientKeyFound),
     wl_replace_did_key_start = (\<lambda>w _ _. (Err We_NoRecipientKeyFound, w)),
     wl_replace_did_key_apply = (\<lambda>w _. (Ok (), w)),
     wl_sign = (\<lambda>_ k m. Ok m), wl_verify = (\<lambda>_ k m s. Ok (s = m)),
     wl_pack_message = (\<lambda>_ s ks m.
       case ks of
         [k] \<Rightarrow> Ok (number_json (JArray [JString (ky_bytes k),
           case s of None \<Rightarrow> JNull | Some i \<Rightarrow> JString (ky_bytes i), JString m]))
       | _ \<Rightarrow> Err We_NoRecipientKeyFound),
     wl_unpack_message = (\<lambda>_ p.
       case read_json p of
         Ok (JArray [JString k, s, JString m]) \<Rightarrow> Ok \<lparr>um_message = m, um_recipient_verkey = k,
           um_sender_verkey = (case s of JString i \<Rightarrow> Some i | _ \<Rightarrow> None)\<rparr>
       | _ \<Rightarrow> Err We_NoRecipientKeyFound)\<rparr>"

definition forward_codec :: "Forward struct_codec" where
  "forward_codec = \<lparr>
     sc_write = (\<lambda>f. [(''@id'', JString (mp_id f)), (''to'', JString (fwd_to (mp_content f))),
       (''msg'', fwd_msg (mp_content f))]),
     sc_read = (\<lambda>m.
       case (map_of m ''@id'', map_of m ''to'', map_of m ''msg'') of
         (Some (JString i), Some (JString t), Some v) \<Rightarrow>
           Ok \<lparr>mp_id = i, mp_content = \<lparr>fwd_to = t, fwd_msg = v\<rparr>, mp_decorators = ()\<rparr>
       | _ \<Rightarrow> Err ''missing field'')\<rparr>"

definition forward_codecs :: msg_codecs where
  "forward_codecs = ping_codecs\<lparr>cd_forward := forward_codec\<rparr>"

lemma forwarding_laws:
  "packs_for_owner sample_kx json_wallet (\<lambda>_. ())" "json_inverse counting_ext"
  "prints_text counting_ext" "forwards_read forward_codecs" "unpacks_json counting_ext json_wallet"
proof -
  show "packs_for_owner sample_kx json_wallet (\<lambda>_. ())"
    by (auto simp: packs_for_owner_def json_wallet_def sample_kx_def key_base58_def split: option.splits)
  show "json_inverse counting_ext" "prints_text counting_ext"
    by (simp_all add: json_inverse_def prints_text_def counting_ext_def sample_ext_def number_json_text)
  show "forwards_read forward_codecs"
    by (simp add: forwards_read_def forward_codecs_def forward_codec_def codec_inverse_def object_of_def)
  show "unpacks_json counting_ext json_wallet"
    by (auto simp: unpacks_json_def counting_ext_def sample_ext_def json_wallet_def)
qed

definition sample_key :: "string \<Rightarrow> Key" where
  "sample_key b = \<lparr>ky_type = Ed25519, ky_bytes = b\<rparr>"

theorem envelope_delivered_witness:
  "\<exists>p. create_from_keys counting_ext sample_kx forward_codecs json_wallet () (\<lambda>_. ''id'') ''hello''
       (Some (sample_key ''s'')) (sample_key ''r'') [sample_key ''a'', sample_key ''b''] = Ok p \<and>
     deliver counting_ext (sample_wire sample_con_data) sample_kx forward_codecs json_wallet (\<lambda>_. ())
       [sample_key ''b'', sample_key ''a''] (sample_key ''r'') p =
       Ok (''hello'', Some (sample_key ''s''), sample_key ''r'')"
proof -
  have "\<exists>p. create_from_keys counting_ext sample_kx forward_codecs json_wallet () (\<lambda>_. ''id'') ''hello''
      (Some (sample_key ''s'')) (sample_key ''r'') [sample_key ''a'', sample_key ''b''] = Ok p"
    by (simp add: create_from_keys_def encrypt_for_pairwise_def wrap_into_forward_def sample_key_def
        validate_key_type_def json_wallet_def counting_ext_def sample_ext_def Let_def)
  then obtain p where p: "create_from_keys counting_ext sample_kx forward_codecs json_wallet ()
      (\<lambda>_. ''id'') ''hello'' (Some (sample_key ''s'')) (sample_key ''r'')
      [sample_key ''a'', sample_key ''b''] = Ok p" by blast
  have "utf8_valid ''hello''" by (simp add: utf8_valid_ascii)
  from envelope_delivered [OF forwarding_laws(1) sample_kx_laws(1) forwarding_laws(2-5) this p] p
  show ?thesis by auto
qed

end
