(* ===== verification/Did_Parser.thy ===== *)
theory Did_Parser
  imports Rust_Std
begin

text \<open>
  DIDs and DID URLs (crate \<open>did_core/did_parser_nom\<close>). A parsed value keeps the whole text and the
  ranges of its parts; the views cut the parts out of the text. The grammar itself is written with the
  combinators of the \<open>nom\<close> crate and enters as the record \<open>nom\<close>; what the crate does with the pieces
  the grammar finds (their ranges, the refusals, the conversions) is defined here.
\<close>

section \<open>Ranges\<close>

type_synonym DidRange = "nat \<times> nat"

text \<open>\<open>&s[a..b]\<close>; the ranges of a parsed value lie inside the text.\<close>

definition slice :: "string \<Rightarrow> DidRange \<Rightarrow> string" where
  "slice s r = take (snd r - fst r) (drop (fst r) s)"

definition range_in :: "string \<Rightarrow> DidRange \<Rightarrow> bool" where
  "range_in s r \<longleftrightarrow> fst r \<le> snd r \<and> snd r \<le> length s"

definition range_in_opt :: "string \<Rightarrow> DidRange option \<Rightarrow> bool" where
  "range_in_opt s r = (case r of None \<Rightarrow> True | Some r \<Rightarrow> range_in s r)"

type_synonym DidPart = "string \<times> string \<times> string option \<times> string"
type_synonym DidRanges = "DidRange option \<times> DidRange option \<times> DidRange option"
type_synonym UrlPart = "string \<times> (string \<times> string) list option \<times> string option"

datatype ParseError = Pe_InvalidInput string | Pe_ParserError string

fun show_ParseError :: "ParseError \<Rightarrow> string" where
  "show_ParseError (Pe_InvalidInput input) = ''Invalid input: '' @ input"
| "show_ParseError (Pe_ParserError e) = ''Parsing library error: '' @ e"

definition to_id_range :: "string \<Rightarrow> DidRanges" where
  "to_id_range i = (None, None, Some (0, length i))"

definition to_did_ranges :: "DidPart \<Rightarrow> DidRanges" where
  "to_did_ranges = (\<lambda>(did_prefix, method, namespace, i).
     let next_start = (if did_prefix \<noteq> [] then length did_prefix + 1 else 0);
         (method_range, next_start) =
           (if method \<noteq> [] then (Some (next_start, next_start + length method), next_start + length method + 1)
            else (None, 0));
         (namespace_range, next_start) =
           (case namespace of
              Some ns \<Rightarrow> (Some (next_start, next_start + length ns), next_start + length ns + 1)
            | None \<Rightarrow> (None, next_start));
         id_end = next_start + length i
     in (method_range, namespace_range, if id_end \<le> next_start then None else Some (next_start, id_end)))"

section \<open>DIDs\<close>

text \<open>
  The parsers that are built from combinators: \<open>all_consuming(parse_did_ranges)\<close>,
  \<open>parse_did_ranges_with_empty_allowed\<close> with the text it leaves, \<open>all_consuming(parse_url_part)\<close> and
  \<open>all_consuming(fragment_parser)\<close>. An error is the text of the library's error.
\<close>

record nom =
  nm_did_ranges :: "string \<Rightarrow> (string, DidRanges) result"
  nm_did_prefix :: "string \<Rightarrow> (string, string \<times> DidRanges) result"
  nm_url_part :: "string \<Rightarrow> (string, UrlPart) result"
  nm_fragment :: "string \<Rightarrow> (string, string) result"

record Did =
  did_text :: string
  did_method_range :: "DidRange option"
  did_namespace_range :: "DidRange option"
  did_id_range :: DidRange

definition parse_did :: "nom \<Rightarrow> string \<Rightarrow> (ParseError, Did) result" where
  "parse_did N did =
     (if did = [] then Err (Pe_InvalidInput ''Empty input'')
      else
        and_then (map_err Pe_ParserError (nm_did_ranges N did)) (\<lambda>(method, namespace, i).
        and_then (ok_or i (Pe_InvalidInput ''Invalid DID'')) (\<lambda>i.
        if snd i > length did then Err (Pe_InvalidInput ''Invalid DID'')
        else Ok \<lparr>did_text = did, did_method_range = method, did_namespace_range = namespace,
          did_id_range = i\<rparr>)))"

definition did_method :: "Did \<Rightarrow> string option" where
  "did_method d = map_option (slice (did_text d)) (did_method_range d)"

definition did_namespace :: "Did \<Rightarrow> string option" where
  "did_namespace d = map_option (slice (did_text d)) (did_namespace_range d)"

definition did_id :: "Did \<Rightarrow> string" where
  "did_id d = slice (did_text d) (did_id_range d)"

text \<open>\<open>derive(Default)\<close>\<close>

definition default_did :: Did where
  "default_did = \<lparr>did_text = [], did_method_range = None, did_namespace_range = None, did_id_range = (0, 0)\<rparr>"

section \<open>DID URLs\<close>

text \<open>The queries are a hash map from ranges to ranges, here in the order in which they were read.\<close>

record DidUrl =
  du_text :: string
  du_did_range :: "DidRange option"
  du_method_range :: "DidRange option"
  du_namespace_range :: "DidRange option"
  du_id_range :: "DidRange option"
  du_path_range :: "DidRange option"
  du_fragment_range :: "DidRange option"
  du_query_ranges :: "(DidRange \<times> DidRange) list"

text \<open>The loop over the queries: each is a key, a separator, a value and a separator.\<close>

fun query_ranges :: "nat \<Rightarrow> (string \<times> string) list \<Rightarrow> (DidRange \<times> DidRange) list \<times> nat" where
  "query_ranges current [] = ([], current)"
| "query_ranges current ((key, value) # queries) =
     (let key_end = current + length key;
          value_start = key_end + 1;
          value_end = value_start + length value;
          (ranges, pos) = query_ranges (value_end + 1) queries
      in (((current, key_end), (value_start, value_end)) # ranges, pos))"

definition to_did_url_ranges ::
  "DidRange option \<Rightarrow> UrlPart \<Rightarrow> DidRange option \<times> (DidRange \<times> DidRange) list \<times> DidRange option" where
  "to_did_url_ranges id_range = (\<lambda>(path, queries, fragment).
     let id_end = (case id_range of Some r \<Rightarrow> snd r | None \<Rightarrow> 0);
         path_range = (if path = [] then None else Some (id_end, id_end + length path));
         current = (case path_range of Some r \<Rightarrow> snd r + 1 | None \<Rightarrow> id_end + 1);
         (query_map, current) = query_ranges current (case queries of Some qs \<Rightarrow> qs | None \<Rightarrow> [])
     in (path_range, query_map, map_option (\<lambda>f. (current, length f + current)) fragment))"

definition validate_result_not_empty :: "UrlPart \<Rightarrow> DidRanges \<Rightarrow> (ParseError, unit) result" where
  "validate_result_not_empty url_part did_ranges =
     (if url_part = ([], None, None) \<and> did_ranges = (None, None, None)
      then Err (Pe_InvalidInput ''Invalid input'') else Ok ())"

definition parse_did_url :: "nom \<Rightarrow> string \<Rightarrow> (ParseError, DidUrl) result" where
  "parse_did_url N did_url =
     (if did_url = [] then Err (Pe_InvalidInput ''Empty input'')
      else
        and_then (map_err Pe_ParserError (nm_did_prefix N did_url)) (\<lambda>(remaining, did_ranges).
        and_then (map_err Pe_ParserError (nm_url_part N remaining)) (\<lambda>url_part.
        and_then (validate_result_not_empty url_part did_ranges) (\<lambda>_.
        case did_ranges of
          (method, namespace, i) \<Rightarrow>
            (case to_did_url_ranges i url_part of
               (path, queries, fragment) \<Rightarrow>
                 Ok \<lparr>du_text = did_url, du_did_range = map_option (\<lambda>r. (0, snd r)) i, du_method_range = method,
                   du_namespace_range = namespace, du_id_range = i, du_path_range = path,
                   du_fragment_range = fragment, du_query_ranges = queries\<rparr>)))))"

definition du_did :: "DidUrl \<Rightarrow> string option" where
  "du_did u = map_option (slice (du_text u)) (du_did_range u)"

definition du_method :: "DidUrl \<Rightarrow> string option" where
  "du_method u = map_option (slice (du_text u)) (du_method_range u)"

definition du_namespace :: "DidUrl \<Rightarrow> string option" where
  "du_namespace u = map_option (slice (du_text u)) (du_namespace_range u)"

definition du_id :: "DidUrl \<Rightarrow> string option" where
  "du_id u = map_option (slice (du_text u)) (du_id_range u)"

definition du_path :: "DidUrl \<Rightarrow> string option" where
  "du_path u = map_option (slice (du_text u)) (du_path_range u)"

definition du_fragment :: "DidUrl \<Rightarrow> string option" where
  "du_fragment u = map_option (slice (du_text u)) (du_fragment_range u)"

definition query_percent_decode :: "(string \<Rightarrow> string) \<Rightarrow> string \<Rightarrow> string" where
  "query_percent_decode percent_decode_lossy input =
     percent_decode_lossy (map (\<lambda>c. if c = CHR ''+'' then CHR '' '' else c) input)"

definition du_queries :: "(string \<Rightarrow> string) \<Rightarrow> DidUrl \<Rightarrow> (string \<times> string) list" where
  "du_queries percent_decode_lossy u =
     map (\<lambda>(k, v). (query_percent_decode percent_decode_lossy (slice (du_text u) k),
       query_percent_decode percent_decode_lossy (slice (du_text u) v))) (du_query_ranges u)"

definition from_fragment :: "nom \<Rightarrow> string \<Rightarrow> (ParseError, DidUrl) result" where
  "from_fragment N fragment =
     (case nm_fragment N fragment of
        Ok _ \<Rightarrow> Ok \<lparr>du_text = CHR ''#'' # fragment, du_did_range = None, du_method_range = None,
          du_namespace_range = None, du_id_range = None, du_path_range = None,
          du_fragment_range = Some (1, length fragment + 1), du_query_ranges = []\<rparr>
      | Err _ \<Rightarrow> Err (Pe_InvalidInput ''Invalid fragment'')
      | Panic \<Rightarrow> Panic)"

text \<open>\<open>From<Did> for DidUrl\<close> (the namespace is dropped) and \<open>TryFrom<&DidUrl> for Did\<close>.\<close>

definition url_of_did :: "Did \<Rightarrow> DidUrl" where
  "url_of_did d = \<lparr>du_text = did_text d, du_did_range = Some (0, length (did_text d)),
     du_method_range = did_method_range d, du_namespace_range = None, du_id_range = Some (did_id_range d),
     du_path_range = None, du_fragment_range = None, du_query_ranges = []\<rparr>"

definition did_of_url :: "DidUrl \<Rightarrow> (ParseError, Did) result" where
  "did_of_url u =
     and_then (ok_or (du_did u) (Pe_InvalidInput ''Unable to construct a DID from relative DID URL'')) (\<lambda>did.
     and_then (ok_or (du_id_range u) (Pe_InvalidInput ''Unable to construct a DID from relative DID URL'')) (\<lambda>i.
     Ok \<lparr>did_text = did, did_method_range = du_method_range u, did_namespace_range = du_namespace_range u,
       did_id_range = i\<rparr>))"

section \<open>What the ranges cut out\<close>

lemma slice_append: "slice (a @ b @ c) (length a, length a + length b) = b"
  by (simp add: slice_def)

lemma slice_at: "s = a @ b @ c \<Longrightarrow> n = length a \<Longrightarrow> m = n + length b \<Longrightarrow> slice s (n, m) = b \<and> range_in s (n, m)"
  by (simp add: slice_def range_in_def)

text \<open>
  A text of the shape the grammar accepts is cut exactly into the pieces it was made of: method,
  namespace and identifier.
\<close>

lemma did_ranges_exact:
  assumes "method \<noteq> []" and "i \<noteq> []"
    and "did = ''did:'' @ method @ '':'' @ (case ns of Some n \<Rightarrow> n @ '':'' | None \<Rightarrow> []) @ i"
    and "nm_did_ranges N did = Ok (to_did_ranges (''did'', method, ns, i))"
  shows "\<exists>d. parse_did N did = Ok d \<and> did_text d = did \<and> did_method d = Some method \<and> did_namespace d = ns \<and>
    did_id d = i"
proof (cases ns)
  case None
  then show ?thesis
    using assms by (auto simp: parse_did_def to_did_ranges_def did_method_def did_namespace_def did_id_def slice_def Let_def)
next
  case (Some n)
  then show ?thesis
    using assms by (auto simp: parse_did_def to_did_ranges_def did_method_def did_namespace_def did_id_def slice_def Let_def)
qed

text \<open>The text of a query list: keys and values joined by separators of the caller's choice.\<close>

fun url_query_text :: "char list \<Rightarrow> (string \<times> string) list \<Rightarrow> string" where
  "url_query_text seps [] = []"
| "url_query_text seps [(k, v)] = k @ CHR ''='' # v"
| "url_query_text seps ((k, v) # q # qs) = k @ CHR ''='' # v @ hd seps # url_query_text (tl seps) (q # qs)"

lemma query_ranges_slices:
  assumes "qs \<noteq> []" and "query_ranges (length a) qs = (rs, pos)"
  shows "map (\<lambda>(k, v). (slice (a @ url_query_text seps qs @ b) k, slice (a @ url_query_text seps qs @ b) v)) rs = qs \<and>
    pos = length a + length (url_query_text seps qs) + 1"
  using assms
proof (induction seps qs arbitrary: a rs pos rule: url_query_text.induct)
  case (2 seps k v)
  then show ?case by (auto simp: Let_def slice_def)
next
  case (3 seps k v q qs)
  let ?a = "a @ k @ CHR ''='' # v @ [hd seps]"
  obtain rs' pos' where r: "query_ranges (length ?a) (q # qs) = (rs', pos')" by fastforce
  then have "query_ranges (Suc (Suc (length a + length k + length v))) (q # qs) = (rs', pos')"
    by (simp add: add.assoc)
  with 3(3) have rs: "rs = ((length a, length a + length k), (length a + length k + 1,
      length a + length k + 1 + length v)) # rs'" "pos = pos'"
    by (simp_all del: query_ranges.simps add: query_ranges.simps(2) [of _ k v "q # qs"] Let_def)
  from 3(1) [OF _ r] show ?case by (auto simp: rs slice_def)
qed simp

text \<open>
  The same for the part of a URL behind the DID: path, queries in their order and fragment are the
  pieces of the text, whatever of them is present, as long as a question mark is followed by a query.
\<close>

definition url_rest :: "char list \<Rightarrow> UrlPart \<Rightarrow> string" where
  "url_rest seps = (\<lambda>(path, queries, fragment).
     path @ (case queries of Some qs \<Rightarrow> CHR ''?'' # url_query_text seps qs | None \<Rightarrow> []) @
     (case fragment of Some f \<Rightarrow> CHR ''#'' # f | None \<Rightarrow> []))"

lemma url_ranges_exact:
  assumes "queries \<noteq> Some []" and "id_range = Some (n, length did)"
    and "to_did_url_ranges id_range (path, queries, fragment) = (p, qs, f)"
    and "u = did @ url_rest seps (path, queries, fragment)"
  shows "map_option (slice u) p = (if path = [] then None else Some path) \<and>
    map (\<lambda>(k, v). (slice u k, slice u v)) qs = (case queries of Some l \<Rightarrow> l | None \<Rightarrow> []) \<and>
    map_option (slice u) f = fragment"
proof -
  let ?q = "case queries of Some l \<Rightarrow> CHR ''?'' # url_query_text seps l | None \<Rightarrow> []"
  let ?f = "case fragment of Some g \<Rightarrow> CHR ''#'' # g | None \<Rightarrow> []"
  have u: "u = did @ path @ ?q @ ?f" using assms(4) by (simp add: url_rest_def)
  have p: "p = (if path = [] then None else Some (length did, length did + length path))"
    using assms(2,3) by (auto simp: to_did_url_ranges_def Let_def split: prod.splits)
  obtain rs pos where r: "query_ranges (length did + length path + 1)
      (case queries of Some l \<Rightarrow> l | None \<Rightarrow> []) = (rs, pos)" by fastforce
  have qf: "qs = rs" "f = map_option (\<lambda>g. (pos, length g + pos)) fragment"
    using assms(2,3) r by (auto simp: to_did_url_ranges_def Let_def split: prod.splits if_splits)
  have "map (\<lambda>(k, v). (slice u k, slice u v)) rs = (case queries of Some l \<Rightarrow> l | None \<Rightarrow> []) \<and>
      pos = length did + length path + length ?q + 1"
  proof (cases queries)
    case (Some l)
    with query_ranges_slices [of l "did @ path @ ''?''" rs pos seps ?f] assms(1) r u show ?thesis by simp
  qed (use r in simp)
  moreover have "map_option (slice u) f = fragment"
    using calculation qf(2) u by (cases fragment) (auto simp: slice_def)
  moreover have "map_option (slice u) p = (if path = [] then None else Some path)"
    using p u by (simp add: slice_def)
  ultimately show ?thesis using qf(1) by blast
qed

lemma from_fragment_fragment: "from_fragment N f = Ok u \<Longrightarrow> du_fragment u = Some f \<and> du_text u = CHR ''#'' # f"
  by (auto simp: from_fragment_def du_fragment_def slice_def split: result.splits)

lemma did_of_url_of_did:
  assumes "did_namespace_range d = None"
  shows "did_of_url (url_of_did d) = Ok d"
  using assms by (simp add: did_of_url_def url_of_did_def du_did_def slice_def)

lemma parse_did_text: "parse_did N s = Ok d \<Longrightarrow> did_text d = s"
  by (auto simp: parse_did_def split: if_splits prod.splits)

section \<open>Parsers that accept every text\<close>

definition sample_nom :: nom where
  "sample_nom = \<lparr>nm_did_ranges = (\<lambda>s. Ok (to_id_range s)), nm_did_prefix = (\<lambda>s. Ok (s, (None, None, None))),
     nm_url_part = (\<lambda>s. Ok ([], None, Some (drop 1 s))), nm_fragment = Ok\<rparr>"

definition sample_did :: Did where
  "sample_did = \<lparr>did_text = ''d'', did_method_range = None, did_namespace_range = None, did_id_range = (0, 1)\<rparr>"

lemma sample_parse: "s \<noteq> [] \<Longrightarrow> parse_did sample_nom s =
    Ok \<lparr>did_text = s, did_method_range = None, did_namespace_range = None, did_id_range = (0, length s)\<rparr>"
  by (simp add: parse_did_def sample_nom_def to_id_range_def)

lemma sample_did_id [simp]: "did_id sample_did = ''d''"
  by (simp add: did_id_def sample_did_def slice_def)

end
