(* ===== verification/Ledger_Transactions.thy ===== *)
theory Ledger_Transactions
  imports Envelope Did_Parser
begin

text \<open>
  Reading from and writing to an Indy ledger (\<open>common/ledger/transactions.rs\<close>,
  \<open>common/ledger/service_didsov.rs\<close> and \<open>common/keys.rs\<close>): services published as attributes of a
  DID, verkeys, and the check of the ledger's replies. The traits \<open>IndyLedgerRead\<close> and
  \<open>IndyLedgerWrite\<close> are records; a write returns the new state of the ledger. \<open>led_ext\<close> holds the
  combinator-built parsers and the derived (de)serialisers used here.
\<close>

section \<open>The ledger\<close>

record indy_read =
  il_get_attr :: "Did \<Rightarrow> string \<Rightarrow> string ledger_res"
  il_get_nym :: "Did \<Rightarrow> string ledger_res"

text \<open>The roles of \<open>indy_vdr\<close>; the code names one.\<close>

datatype LedgerRole = Endorser | OtherRole string
datatype UpdateRole = Role_Reset | Role_Set LedgerRole

record ('w, 'l) indy_write =
  iw_publish_nym :: "'l \<Rightarrow> 'w \<Rightarrow> Did \<Rightarrow> Did \<Rightarrow> Key option \<Rightarrow> string option \<Rightarrow> string option \<Rightarrow>
    string ledger_res \<times> 'l"
  iw_add_attr :: "'l \<Rightarrow> 'w \<Rightarrow> Did \<Rightarrow> string \<Rightarrow> string ledger_res \<times> 'l"
  iw_write_did :: "'l \<Rightarrow> 'w \<Rightarrow> Did \<Rightarrow> Did \<Rightarrow> Key \<Rightarrow> UpdateRole option \<Rightarrow> string option \<Rightarrow>
    string ledger_res \<times> 'l"

section \<open>Replies\<close>

record Reject =
  rj_reason :: string

text \<open>\<open>Reply\<close> has two layouts; both carry the result.\<close>

datatype Reply = ReplyV0 json | ReplyV1 json

datatype LedgerResponse = Res_ReqNACK Reject | Res_Reject Reject | Res_Reply Reply

record EndpointDidSov =
  es_endpoint :: string
  es_routing_keys :: "string list option"
  es_types :: "string list option"

record led_ext =
  lx_nom :: nom
  lx_de_response :: "string \<Rightarrow> LedgerResponse serde"
  lx_debug_reject :: "Reject \<Rightarrow> string"
  lx_de_endpoint :: "json \<Rightarrow> EndpointDidSov serde"
  lx_ser_endpoint :: "EndpointDidSov \<Rightarrow> json"

text \<open>\<open>From<did_parser_nom::ParseError> for AriesVcxError\<close>, with the text of the error\<close>

definition from_parse_error :: "(ParseError, 'a) result \<Rightarrow> 'a VcxResult" where
  "from_parse_error = map_err (from_msg InvalidState \<circ> show_ParseError)"

lemma from_parse_error_simps [simp]:
  "from_parse_error (Ok x) = Ok x" "from_parse_error (Err e) = vcx_err InvalidState (show_ParseError e)"
  "from_parse_error Panic = Panic"
  by (simp_all add: from_parse_error_def)

definition parse_response :: "led_ext \<Rightarrow> string \<Rightarrow> LedgerResponse VcxResult" where
  "parse_response L response =
     map_err (\<lambda>e. from_msg InvalidJson (''Cannot deserialize transaction response: '' @ se_debug e))
       (lx_de_response L response)"

definition check_response :: "led_ext \<Rightarrow> string \<Rightarrow> unit VcxResult" where
  "check_response L response =
     and_then (parse_response L response) (\<lambda>r.
     case r of
       Res_Reply _ \<Rightarrow> Ok ()
     | Res_Reject res \<Rightarrow> vcx_err InvalidLedgerResponse (lx_debug_reject L res)
     | Res_ReqNACK res \<Rightarrow> vcx_err InvalidLedgerResponse (lx_debug_reject L res))"

definition get_data_from_response :: "ext \<Rightarrow> string \<Rightarrow> json VcxResult" where
  "get_data_from_response E resp =
     and_then (map_err (\<lambda>e. from_msg InvalidLedgerResponse (se_debug e)) (x_json_parse E resp)) (\<lambda>r.
     map_err (\<lambda>e. from_msg InvalidLedgerResponse (se_debug e))
       (x_json_parse E (unwrap_default (as_str (json_index (json_index r ''result'') ''data'')) ''{}'')))"

section \<open>Verkeys\<close>

text \<open>
  An abbreviated verkey starts with a tilde and stands for the bytes of the DID followed by its
  own bytes.
\<close>

definition expand_abbreviated_verkey :: "key_ext \<Rightarrow> string \<Rightarrow> string \<Rightarrow> string VcxResult" where
  "expand_abbreviated_verkey K nym verkey =
     (case strip_prefix verkey ''~'' of
        None \<Rightarrow> Ok verkey
      | Some stripped_verkey \<Rightarrow>
          and_then (map_err (\<lambda>e. from_msg InvalidLedgerResponse
              (''Failed to decode did from base58: '' @ nym @ '' (error: '' @ e @ '')''))
              (kx_b58_decode K nym)) (\<lambda>decoded_nym.
          and_then (map_err (\<lambda>e. from_msg InvalidLedgerResponse
              (''Failed to decode verkey from base58: '' @ stripped_verkey @ '' (error: '' @ e @ '')''))
              (kx_b58_decode K stripped_verkey)) (\<lambda>decoded_stripped_verkey.
          Ok (kx_b58_encode K (decoded_nym @ decoded_stripped_verkey)))))"

definition ser_err :: "string \<Rightarrow> AriesVcxError" where
  "ser_err m = from_msg SerializationError m"

definition get_verkey_from_ledger :: "ext \<Rightarrow> key_ext \<Rightarrow> indy_read \<Rightarrow> Did \<Rightarrow> string VcxResult" where
  "get_verkey_from_ledger E K L did =
     and_then (from_ledger (il_get_nym L did)) (\<lambda>nym_response.
     and_then (map_err (\<lambda>e. ser_err (''Cannot deserialize '' @ x_debug_str E nym_response
         @ '' into Value, err: '' @ se_debug e)) (x_json_parse E nym_response)) (\<lambda>nym_json.
     let d = json_index (json_index nym_json ''result'') ''data'' in
     and_then (ok_or (as_str d)
         (ser_err (''Cannot deserialize '' @ x_debug_json E d @ '' into String''))) (\<lambda>nym_data.
     and_then (map_err (\<lambda>e. ser_err (''Cannot deserialize '' @ x_debug_str E nym_data
         @ '' into Value, err: '' @ se_debug e)) (x_json_parse E nym_data)) (\<lambda>nym_data.
     let v = json_index nym_data ''verkey'' in
     and_then (ok_or (as_str v)
         (ser_err (''Cannot deserialize '' @ x_debug_json E v @ '' into String''))) (\<lambda>unparsed_verkey.
     expand_abbreviated_verkey K (did_id did) unparsed_verkey)))))"

definition rotate_verkey_apply ::
  "ext \<Rightarrow> key_ext \<Rightarrow> 'w wallet \<Rightarrow> ('w, 'l) indy_write \<Rightarrow> 'w \<times> 'l \<Rightarrow> Did \<Rightarrow> string \<Rightarrow>
   unit VcxResult \<times> 'w \<times> 'l" where
  "rotate_verkey_apply E K W I s did temp_vk =
     and_thenw (pure_w (from_pk (from_base58 K temp_vk Ed25519)) s) (\<lambda>k (w, l).
     and_thenw (case iw_publish_nym I l w did did (Some k) None None of
         (r, l') \<Rightarrow> (from_ledger r, w, l')) (\<lambda>nym_result s.
     and_thenw (pure_w (map_err (\<lambda>e. ser_err (''Cannot deserialize '' @ x_debug_str E nym_result
         @ '' into Value, err: '' @ se_debug e)) (x_json_parse E nym_result)) s) (\<lambda>nym_result_json s.
     let op = json_index nym_result_json ''op'' in
     and_thenw (pure_w (ok_or (as_str op)
         (ser_err (''Cannot failed to convert '' @ x_debug_json E op @ '' into str''))) s)
       (\<lambda>response_type (w, l).
     if response_type \<noteq> ''REPLY'' then
       (vcx_err InvalidLedgerResponse
          (''Obained non-success ledger response: '' @ x_json_print E nym_result_json), w, l)
     else (case wl_replace_did_key_apply W w (did_text did) of (r, w') \<Rightarrow> (from_wallet r, w', l))))))"

definition rotate_verkey ::
  "ext \<Rightarrow> key_ext \<Rightarrow> 'w wallet \<Rightarrow> ('w, 'l) indy_write \<Rightarrow> 'w \<times> 'l \<Rightarrow> Did \<Rightarrow> unit VcxResult \<times> 'w \<times> 'l" where
  "rotate_verkey E K W I s did =
     (case s of (w, l) \<Rightarrow>
        and_thenw (case wl_replace_did_key_start W w (did_text did) None of
            (r, w') \<Rightarrow> (from_wallet r, w', l)) (\<lambda>trustee_verkey s.
        rotate_verkey_apply E K W I s did (key_base58 K trustee_verkey)))"

section \<open>Services\<close>

definition default_endpoint :: EndpointDidSov where
  "default_endpoint = \<lparr>es_endpoint = ''https://dummy.dummy/dummy'', es_routing_keys = Some [],
     es_types = None\<rparr>"

definition endpoint_set_service_endpoint :: "EndpointDidSov \<Rightarrow> string \<Rightarrow> EndpointDidSov" where
  "endpoint_set_service_endpoint s u = s\<lparr>es_endpoint := u\<rparr>"

definition endpoint_set_routing_keys :: "EndpointDidSov \<Rightarrow> string list option \<Rightarrow> EndpointDidSov" where
  "endpoint_set_routing_keys s ks = s\<lparr>es_routing_keys := ks\<rparr>"

definition endpoint_set_types :: "EndpointDidSov \<Rightarrow> string list option \<Rightarrow> EndpointDidSov" where
  "endpoint_set_types s ts = s\<lparr>es_types := ts\<rparr>"

definition parse_legacy_endpoint_attrib ::
  "ext \<Rightarrow> wire \<Rightarrow> indy_read \<Rightarrow> Did \<Rightarrow> AriesService VcxResult" where
  "parse_legacy_endpoint_attrib E Z L did_raw =
     and_then (from_ledger (il_get_attr L did_raw ''service'')) (\<lambda>attr_resp.
     and_then (get_data_from_response E attr_resp) (\<lambda>d.
     let s = json_index d ''service'';
         ser_service = (case as_str s of Some t \<Rightarrow> t | None \<Rightarrow> x_json_print E s)
     in map_err (\<lambda>e. ser_err (''Failed to deserialize service read from the ledger: '' @ se_debug e))
          (wr_de_service Z ser_service)))"

definition get_service ::
  "ext \<Rightarrow> wire \<Rightarrow> key_ext \<Rightarrow> led_ext \<Rightarrow> indy_read \<Rightarrow> Did \<Rightarrow> AriesService VcxResult" where
  "get_service E Z K X L did =
     and_then (from_ledger (il_get_attr L did ''endpoint'')) (\<lambda>attr_resp.
     and_then (get_data_from_response E attr_resp) (\<lambda>d.
     if as_object (json_index d ''endpoint'') \<noteq> None then
       and_then (from_serde (lx_de_endpoint X (json_index d ''endpoint''))) (\<lambda>endpoint.
       and_then (get_verkey_from_ledger E K L did) (\<lambda>verkey.
       Ok (service_set_routing_keys
         (service_set_service_endpoint (service_set_recipient_keys default_service [verkey])
           (es_endpoint endpoint))
         (unwrap_default (es_routing_keys endpoint) []))))
     else parse_legacy_endpoint_attrib E Z L did))"

fun resolve_service ::
  "ext \<Rightarrow> wire \<Rightarrow> key_ext \<Rightarrow> led_ext \<Rightarrow> indy_read \<Rightarrow> OobService \<Rightarrow> AriesService VcxResult" where
  "resolve_service E Z K X L (Oob_AriesService service) = Ok service"
| "resolve_service E Z K X L (Oob_Did did) =
     and_then (from_parse_error (parse_did (lx_nom X) did)) (\<lambda>d. get_service E Z K X L d)"

section \<open>Writing\<close>

definition add_new_did ::
  "key_ext \<Rightarrow> led_ext \<Rightarrow> 'w wallet \<Rightarrow> ('w, 'l) indy_write \<Rightarrow> 'w \<times> 'l \<Rightarrow> Did \<Rightarrow> string option \<Rightarrow>
   (Did \<times> string) VcxResult \<times> 'w \<times> 'l" where
  "add_new_did K X W I s submitter_did role =
     (case s of (w, l) \<Rightarrow>
        and_thenw (case wl_create_and_store_my_did W w None None of
            (r, w') \<Rightarrow> (from_wallet r, w', l)) (\<lambda>did_data s.
        and_thenw (pure_w (from_parse_error (parse_did (lx_nom X) (dd_did did_data))) s) (\<lambda>did (w, l).
        and_thenw (case iw_publish_nym I l w submitter_did did (Some (dd_verkey did_data)) None role of
            (r, l') \<Rightarrow> (from_ledger r, w, l')) (\<lambda>res s.
        and_thenw (pure_w (check_response X res) s) (\<lambda>_ s.
        and_thenw (pure_w (from_parse_error (parse_did (lx_nom X) (dd_did did_data))) s) (\<lambda>did s.
        (Ok (did, key_base58 K (dd_verkey did_data)), s)))))))"

text \<open>A write of an attribute and the check of the ledger's reply, shared by three operations.\<close>

definition checked_add_attr ::
  "led_ext \<Rightarrow> ('w, 'l) indy_write \<Rightarrow> 'w \<Rightarrow> 'l \<Rightarrow> Did \<Rightarrow> string \<Rightarrow> string VcxResult \<times> 'l" where
  "checked_add_attr X I w l did attrib_json =
     and_thenw (case iw_add_attr I l w did attrib_json of (r, l') \<Rightarrow> (from_ledger r, l')) (\<lambda>res l.
     and_thenw (pure_w (check_response X res) l) (\<lambda>_ l. (Ok res, l)))"

definition write_endpoint_legacy ::
  "ext \<Rightarrow> wire \<Rightarrow> led_ext \<Rightarrow> ('w, 'l) indy_write \<Rightarrow> 'w \<Rightarrow> 'l \<Rightarrow> Did \<Rightarrow> AriesService \<Rightarrow> string VcxResult \<times> 'l" where
  "write_endpoint_legacy E Z X I w l did service =
     checked_add_attr X I w l did (x_json_print E (JObject [(''service'', wr_ser_service Z service)]))"

definition write_endpoint ::
  "ext \<Rightarrow> led_ext \<Rightarrow> ('w, 'l) indy_write \<Rightarrow> 'w \<Rightarrow> 'l \<Rightarrow> Did \<Rightarrow> EndpointDidSov \<Rightarrow> string VcxResult \<times> 'l" where
  "write_endpoint E X I w l did service =
     checked_add_attr X I w l did (x_json_print E (JObject [(''endpoint'', lx_ser_endpoint X service)]))"

definition add_attr ::
  "led_ext \<Rightarrow> ('w, 'l) indy_write \<Rightarrow> 'w \<Rightarrow> 'l \<Rightarrow> Did \<Rightarrow> string \<Rightarrow> unit VcxResult \<times> 'l" where
  "add_attr X I w l did attr =
     and_thenw (case iw_add_attr I l w did attr of (r, l') \<Rightarrow> (from_ledger r, l')) (\<lambda>res l.
     (check_response X res, l))"

definition write_endorser_did ::
  "key_ext \<Rightarrow> led_ext \<Rightarrow> ('w, 'l) indy_write \<Rightarrow> 'w \<Rightarrow> 'l \<Rightarrow> Did \<Rightarrow> Did \<Rightarrow> string \<Rightarrow> string option \<Rightarrow>
   string VcxResult \<times> 'l" where
  "write_endorser_did K X I w l submitter_did target_did target_vk alias =
     and_thenw (pure_w (from_pk (from_base58 K target_vk Ed25519)) l) (\<lambda>k l.
     and_thenw (case iw_write_did I l w submitter_did target_did k (Some (Role_Set Endorser)) alias of
         (r, l') \<Rightarrow> (from_ledger r, l')) (\<lambda>res l.
     and_thenw (pure_w (check_response X res) l) (\<lambda>_ l. (Ok res, l))))"

definition get_attr :: "ext \<Rightarrow> indy_read \<Rightarrow> Did \<Rightarrow> string \<Rightarrow> string VcxResult" where
  "get_attr E L did a_name =
     and_then (from_ledger (il_get_attr L did a_name)) (\<lambda>attr_resp.
     and_then (get_data_from_response E attr_resp) (\<lambda>d.
     case json_get d a_name of
       None \<Rightarrow> Ok []
     | Some attr \<Rightarrow> if json_is_null attr then Ok [] else Ok (x_json_print E attr)))"

definition clear_attr ::
  "ext \<Rightarrow> ('w, 'l) indy_write \<Rightarrow> 'w \<Rightarrow> 'l \<Rightarrow> Did \<Rightarrow> string \<Rightarrow> string VcxResult \<times> 'l" where
  "clear_attr E I w l did a_name =
     (case iw_add_attr I l w did (x_json_print E (JObject [(a_name, JNull)])) of
        (r, l') \<Rightarrow> (from_ledger r, l'))"

section \<open>Properties\<close>

text \<open>
  Abbreviated verkeys: when a DID is the first bytes of its key and the ledger holds the rest
  behind a tilde, expansion gives the base58 text of the whole key; a verkey without a tilde is
  returned as it is.
\<close>

theorem abbreviated_verkey_expands:
  assumes "b58_inverse K"
  shows "expand_abbreviated_verkey K (kx_b58_encode K first) (''~'' @ kx_b58_encode K rest) =
      Ok (kx_b58_encode K (first @ rest)) \<and>
    (hd verkey \<noteq> CHR ''~'' \<longrightarrow> expand_abbreviated_verkey K nym verkey = Ok verkey)"
proof -
  have "strip_prefix (CHR ''~'' # s) ''~'' = Some s" for s
    using strip_prefix_append [of "''~''" s] by simp
  moreover have "strip_prefix verkey ''~'' = None" if "hd verkey \<noteq> CHR ''~''"
    using that by (cases "strip_prefix verkey ''~''") (auto simp: strip_prefix_Some)
  ultimately show ?thesis using assms
    by (simp add: expand_abbreviated_verkey_def b58_inverse_def)
qed

theorem abbreviated_verkey_expands_witness:
  "expand_abbreviated_verkey sample_kx ''abc'' ''~def'' = Ok ''abcdef''"
proof -
  have "kx_b58_encode sample_kx s = s" for s by (simp add: sample_kx_def)
  with abbreviated_verkey_expands [OF sample_kx_laws(1), of "''abc''" "''def''"] show ?thesis by simp
qed

text \<open>The checked writes succeed only when the ledger answered with a reply.\<close>

lemma check_response_Ok: "check_response X res = Ok u \<longleftrightarrow> (\<exists>r. lx_de_response X res = Ok (Res_Reply r))"
  by (cases "lx_de_response X res"; cases "the_ok (lx_de_response X res)")
    (auto simp: check_response_def parse_response_def)

lemma checked_add_attr_Ok:
  assumes "checked_add_attr X I w l did a = (Ok res, l')"
  shows "iw_add_attr I l w did a = (Ok res, l') \<and> (\<exists>r. lx_de_response X res = Ok (Res_Reply r))"
proof -
  from assms obtain m u where "iw_add_attr I l w did a = (Ok res, m)" "check_response X res = Ok u" "m = l'"
    by (cases "iw_add_attr I l w did a"; cases "fst (iw_add_attr I l w did a)";
        cases "check_response X (the_ok (fst (iw_add_attr I l w did a)))")
      (auto simp: checked_add_attr_def)
  then show ?thesis by (simp add: check_response_Ok)
qed

text \<open>
  Clearing an attribute does not look at the ledger's answer: a rejected write is reported as a
  success, although writing an attribute with the same answer is an error.
\<close>

theorem clear_attr_ignores_rejection:
  assumes "iw_add_attr I l w did (x_json_print E (JObject [(a_name, JNull)])) = (Ok res, l')"
    and "lx_de_response X res = Ok (Res_Reject r)"
  shows "clear_attr E I w l did a_name = (Ok res, l') \<and>
    add_attr X I w l did (x_json_print E (JObject [(a_name, JNull)])) =
      (vcx_err InvalidLedgerResponse (lx_debug_reject X r), l')"
  using assms by (simp add: clear_attr_def add_attr_def check_response_def parse_response_def)

text \<open>
  A rotation changes the wallet only after the ledger has accepted the new key: a rejected
  transaction leaves the wallet as the start of the rotation left it.
\<close>

lemma rotate_verkey_apply_rejected:
  assumes "from_base58 K vk Ed25519 = Ok k" and "iw_publish_nym I l w did did (Some k) None None = (Ok res, l')"
    and "x_json_parse E res = Ok j" and "as_str (json_index j ''op'') \<noteq> Some ''REPLY''"
  shows "\<exists>e. rotate_verkey_apply E K W I (w, l) did vk = (Err e, w, l')"
  using assms
  by (cases "as_str (json_index j ''op'')") (auto simp: rotate_verkey_apply_def Let_def)

text \<open>
  A new DID whose publication the ledger rejects stays in the wallet: the operation fails, the key
  pair has been stored.
\<close>

lemma add_new_did_rejected:
  assumes "wl_create_and_store_my_did W w None None = (Ok dd, w')" and "parse_did (lx_nom X) (dd_did dd) = Ok did"
    and "iw_publish_nym I l w' submitter did (Some (dd_verkey dd)) None role = (Ok res, l')"
    and "lx_de_response X res = Ok (Res_Reject r)"
  shows "add_new_did K X W I (w, l) submitter role =
    (vcx_err InvalidLedgerResponse (lx_debug_reject X r), w', l')"
  using assms by (simp add: add_new_did_def check_response_def parse_response_def)

text \<open>
  What is read of a reply: the text under \<open>result\<close>, \<open>data\<close>, which is itself JSON. Other members do not
  matter.
\<close>

definition reply_carries :: "ext \<Rightarrow> string ledger_res \<Rightarrow> json \<Rightarrow> bool" where
  "reply_carries E r d \<longleftrightarrow> (\<exists>reply j t. r = Ok reply \<and> x_json_parse E reply = Ok j \<and>
     json_index (json_index j ''result'') ''data'' = JString t \<and> x_json_parse E t = Ok d)"

text \<open>
  A ledger keeps an attribute: once the write of the object with the member \<open>name\<close> is answered by a
  reply, a query for that attribute carries an object with the member.
\<close>

definition keeps_attribute ::
  "ext \<Rightarrow> led_ext \<Rightarrow> ('w, 'l) indy_write \<Rightarrow> ('l \<Rightarrow> indy_read) \<Rightarrow> string \<Rightarrow> json \<Rightarrow> bool" where
  "keeps_attribute E X I reads name v \<longleftrightarrow> (\<forall>l w did res l' r.
     iw_add_attr I l w did (x_json_print E (JObject [(name, v)])) = (Ok res, l') \<longrightarrow>
     lx_de_response X res = Ok (Res_Reply r) \<longrightarrow>
     (\<exists>d. reply_carries E (il_get_attr (reads l') did name) d \<and> json_index d name = v))"

text \<open>
  C40. Publishing an endpoint and resolving the DID agree: on a ledger that keeps the attribute, when the
  DID's own record carries a verkey, the service read back after a successful write has the endpoint and
  the routing keys that were published and the (expanded) verkey as its only recipient key; an
  abbreviated verkey that cannot be expanded is the error of resolving.
\<close>

theorem published_endpoint_resolves:
  assumes ledger: "keeps_attribute E X I reads ''endpoint'' (lx_ser_endpoint X endpoint)"
    and written: "write_endpoint E X I w l did endpoint = (Ok res, l')"
    and layout: "lx_de_endpoint X (lx_ser_endpoint X endpoint) = Ok endpoint"
      "as_object (lx_ser_endpoint X endpoint) \<noteq> None"
    and nym: "reply_carries E (il_get_nym (reads l') did) n" "json_index n ''verkey'' = JString vk"
  shows "map_ok (\<lambda>s. (sv_service_endpoint s, sv_routing_keys s, sv_recipient_keys s))
      (get_service E Z K X (reads l') did) =
    map_ok (\<lambda>v. (es_endpoint endpoint, unwrap_default (es_routing_keys endpoint) [], [v]))
      (expand_abbreviated_verkey K (did_id did) vk)"
proof -
  from checked_add_attr_Ok [OF written [unfolded write_endpoint_def]] ledger obtain d where
    "reply_carries E (il_get_attr (reads l') did ''endpoint'') d" and d: "json_index d ''endpoint'' = lx_ser_endpoint X endpoint"
    unfolding keeps_attribute_def by blast
  then obtain reply where attr: "il_get_attr (reads l') did ''endpoint'' = Ok reply" "get_data_from_response E reply = Ok d"
    by (auto simp: reply_carries_def get_data_from_response_def)
  have verkey: "get_verkey_from_ledger E K (reads l') did = expand_abbreviated_verkey K (did_id did) vk"
    using nym by (auto simp: get_verkey_from_ledger_def reply_carries_def Let_def)
  show ?thesis
    using attr d layout verkey
    by (cases "expand_abbreviated_verkey K (did_id did) vk")
      (simp_all add: get_service_def service_set_recipient_keys_def
        service_set_service_endpoint_def service_set_routing_keys_def)
qed

section \<open>A concrete instance\<close>

text \<open>A ledger that keeps the last attribute written, and one endpoint.\<close>

definition sample_endpoint :: EndpointDidSov where
  "sample_endpoint = \<lparr>es_endpoint = ''https://a'', es_routing_keys = Some [''k''], es_types = None\<rparr>"

definition sample_led :: "LedgerResponse \<Rightarrow> led_ext" where
  "sample_led r = \<lparr>lx_nom = sample_nom, lx_de_response = (\<lambda>_. Ok r),
     lx_debug_reject = rj_reason, lx_de_endpoint = (\<lambda>_. Ok sample_endpoint),
     lx_ser_endpoint = (\<lambda>e. JObject [(''endpoint'', JString (es_endpoint e))])\<rparr>"

definition sample_indy :: "(unit, string) indy_write" where
  "sample_indy = \<lparr>iw_publish_nym = (\<lambda>l _ _ _ _ _ _. (Ok ''{}'', l)), iw_add_attr = (\<lambda>_ _ _ a. (Ok ''{}'', a)),
     iw_write_did = (\<lambda>l _ _ _ _ _ _. (Ok ''{}'', l))\<rparr>"

text \<open>Its replies name their operation and carry more than what is read.\<close>

definition sample_reply :: "string \<Rightarrow> string" where
  "sample_reply t = number_json (JObject [(''op'', JString ''REPLY''), (''result'', JObject
     [(''data'', JString t), (''type'', JString ''104'')])])"

definition sample_read :: "string \<Rightarrow> indy_read" where
  "sample_read a = \<lparr>
     il_get_attr = (\<lambda>_ _. Ok (sample_reply a)),
     il_get_nym = (\<lambda>_. Ok (sample_reply (number_json (JObject [(''dest'', JString ''d''), (''verkey'', JString ''vk'')]))))\<rparr>"

lemma sample_reply_carries:
  "x_json_parse counting_ext t = Ok d \<Longrightarrow> reply_carries counting_ext (Ok (sample_reply t)) d"
  using forwarding_laws(2) by (simp add: reply_carries_def sample_reply_def json_inverse_def counting_ext_def json_index_def)

theorem clear_attr_ignores_rejection_witness:
  "clear_attr counting_ext sample_indy () [] sample_did ''endpoint'' =
     (Ok ''{}'', number_json (JObject [(''endpoint'', JNull)]))"
proof -
  have print: "x_json_print counting_ext = number_json" by (simp add: counting_ext_def)
  have "iw_add_attr sample_indy [] () d a = (Ok ''{}'', a)" for d a by (simp add: sample_indy_def)
  from clear_attr_ignores_rejection [where X = "sample_led (Res_Reject \<lparr>rj_reason = ''no''\<rparr>)", OF this]
  show ?thesis by (simp add: sample_led_def print)
qed

theorem published_endpoint_resolves_witness:
  "\<exists>l. write_endpoint counting_ext (sample_led (Res_Reply (ReplyV0 JNull))) sample_indy () [] sample_did sample_endpoint =
      (Ok ''{}'', l) \<and>
    map_ok (\<lambda>s. (sv_service_endpoint s, sv_routing_keys s, sv_recipient_keys s))
     (get_service counting_ext (sample_wire sample_con_data) sample_kx (sample_led (Res_Reply (ReplyV0 JNull)))
       (sample_read l) sample_did) = Ok (''https://a'', [''k''], [''vk''])"
proof -
  let ?X = "sample_led (Res_Reply (ReplyV0 JNull))"
  let ?l = "number_json (JObject [(''endpoint'', JObject [(''endpoint'', JString ''https://a'')])])"
  let ?n = "JObject [(''dest'', JString ''d''), (''verkey'', JString ''vk'')]"
  have print: "x_json_print counting_ext = number_json" by (simp add: counting_ext_def)
  have parse: "x_json_parse counting_ext (number_json j) = Ok j" for j
    using forwarding_laws(2) by (simp add: json_inverse_def print)
  have ser: "lx_ser_endpoint ?X sample_endpoint = JObject [(''endpoint'', JString ''https://a'')]"
    by (simp add: sample_led_def sample_endpoint_def)
  have written: "write_endpoint counting_ext ?X sample_indy () [] sample_did sample_endpoint = (Ok ''{}'', ?l)"
    by (simp add: write_endpoint_def checked_add_attr_def check_response_def parse_response_def ser print)
      (simp add: sample_indy_def sample_led_def)
  have "keeps_attribute counting_ext ?X sample_indy sample_read name v" for name v
    unfolding keeps_attribute_def
  proof (intro allI impI)
    fix l w did res l'
    assume "iw_add_attr sample_indy l w did (x_json_print counting_ext (JObject [(name, v)])) = (Ok res, l')"
    then have "il_get_attr (sample_read l') did name = Ok (sample_reply (number_json (JObject [(name, v)])))"
      by (auto simp: sample_indy_def sample_read_def print)
    with sample_reply_carries [OF parse, of "JObject [(name, v)]"]
    show "\<exists>d. reply_carries counting_ext (il_get_attr (sample_read l') did name) d \<and> json_index d name = v"
      by (intro exI [of _ "JObject [(name, v)]"]) (simp add: json_index_def)
  qed
  moreover have "lx_de_endpoint ?X (lx_ser_endpoint ?X sample_endpoint) = Ok sample_endpoint"
    "as_object (lx_ser_endpoint ?X sample_endpoint) \<noteq> None"
    by (simp_all add: ser) (simp add: sample_led_def)
  moreover have "reply_carries counting_ext (il_get_nym (sample_read ?l) sample_did) ?n"
    using sample_reply_carries [OF parse, of ?n] by (simp add: sample_read_def)
  moreover have "json_index ?n ''verkey'' = JString ''vk''" by (simp add: json_index_def)
  ultimately have "map_ok (\<lambda>s. (sv_service_endpoint s, sv_routing_keys s, sv_recipient_keys s))
      (get_service counting_ext (sample_wire sample_con_data) sample_kx ?X (sample_read ?l) sample_did) =
    map_ok (\<lambda>v. (es_endpoint sample_endpoint, unwrap_default (es_routing_keys sample_endpoint) [], [v]))
      (expand_abbreviated_verkey sample_kx (did_id sample_did) ''vk'')"
    by (rule published_endpoint_resolves [OF _ written])
  with written show ?thesis
    by (simp add: sample_endpoint_def expand_abbreviated_verkey_def strip_prefix_def starts_with_def)
qed

end
