(* ===== verification/Oob.thy ===== *)
theory Oob
  imports Ledger_Transactions
begin

text \<open>
  Out-of-band invitations: the messages and the conversion to a DID document of
  \<open>protocols/oob/mod.rs\<close>, and the handlers \<open>handlers/out_of_band/{sender,receiver}.rs\<close> that build,
  encode and read an invitation. URLs are third-party values of a type \<open>'u\<close>.
\<close>

section \<open>Messages of the protocol\<close>

definition DID_KEY_PREFIX :: string where
  "DID_KEY_PREFIX = ''did:key:''"

definition ED25519_MULTIBASE_CODEC :: string where
  "ED25519_MULTIBASE_CODEC = [CHR 0xED, CHR 0x01]"

definition thread_with_parent :: "string \<Rightarrow> string \<Rightarrow> Thread" where
  "thread_with_parent t p = (new_thread t)\<lparr>pthid := Some p\<rparr>"

lemma thread_with_parent_sel [simp]:
  "thid (thread_with_parent t p) = t" "pthid (thread_with_parent t p) = Some p"
  by (simp_all add: thread_with_parent_def)

definition build_handshake_reuse_msg :: "string \<Rightarrow> DateTime \<Rightarrow> OobInvitation \<Rightarrow> HandshakeReuse" where
  "build_handshake_reuse_msg uuid now oob_invitation =
     \<lparr>mp_id = uuid, mp_content = (),
      mp_decorators = \<lparr>ak_thread = thread_with_parent uuid (mp_id oob_invitation),
        ak_timing = Some (timing_out now)\<rparr>\<rparr>"

definition build_handshake_reuse_accepted_msg ::
  "string \<Rightarrow> DateTime \<Rightarrow> HandshakeReuse \<Rightarrow> HandshakeReuseAccepted VcxResult" where
  "build_handshake_reuse_accepted_msg uuid now handshake_reuse =
     (let thread = ak_thread (mp_decorators handshake_reuse)
      in and_then (ok_or (pthid thread) (from_msg InvalidOption ''Parent thread id missing'')) (\<lambda>pthread_id.
         Ok \<lparr>mp_id = uuid, mp_content = (),
           mp_decorators = \<lparr>ak_thread = thread_with_parent (thid thread) pthread_id,
             ak_timing = Some (timing_out now)\<rparr>\<rparr>))"

section \<open>Invitations as DID documents\<close>

definition naked_key :: "key_ext \<Rightarrow> string \<Rightarrow> string VcxResult" where
  "naked_key K key =
     (case strip_prefix key DID_KEY_PREFIX of
        Some stripped_didkey \<Rightarrow>
          and_then (ok_or (strip_prefix stripped_didkey ''z'')
              (from_msg InvalidDid (''z prefix is missing: '' @ key))) (\<lambda>stripped.
          and_then (map_err (\<lambda>_. from_msg InvalidDid
              (''Could not decode base58: '' @ stripped @ '' as portion of '' @ key))
              (kx_b58_decode K stripped)) (\<lambda>decoded_value.
          case strip_prefix decoded_value ED25519_MULTIBASE_CODEC of
            Some public_key_bytes \<Rightarrow> Ok (kx_b58_encode K public_key_bytes)
          | None \<Rightarrow> vcx_err InvalidDid
              (''Only Ed25519-based did:keys are currently supported, got key: '' @ key)))
      | None \<Rightarrow> Ok key)"

definition normalize_keys_as_naked :: "key_ext \<Rightarrow> string list \<Rightarrow> string list VcxResult" where
  "normalize_keys_as_naked K keys_list = try_map (naked_key K) keys_list"

text \<open>
  \<open>services[0]\<close> panics on an empty list. A service that cannot be resolved is replaced by the
  default service, keys that cannot be normalised by none.
\<close>

definition oob_invitation_to_legacy_did_doc ::
  "ext \<Rightarrow> wire \<Rightarrow> key_ext \<Rightarrow> led_ext \<Rightarrow> indy_read \<Rightarrow> OobInvitation \<Rightarrow> AriesDidDoc VcxResult" where
  "oob_invitation_to_legacy_did_doc E Z K X L invitation =
     (case oi_services (mp_content invitation) of
        [] \<Rightarrow> Panic
      | s # _ \<Rightarrow>
          and_then (unwrap_or (resolve_service E Z K X L s) default_service) (\<lambda>service.
          and_then (unwrap_or (normalize_keys_as_naked K (sv_recipient_keys service)) []) (\<lambda>rks.
          Ok (set_routing_keys (sv_routing_keys service)
            (set_recipient_keys rks
              (set_service_endpoint (sv_service_endpoint service)
                (set_id (mp_id invitation) default_did_doc)))))))"

datatype AnyInvitation = Any_Con Invitation | Any_Oob OobInvitation

fun any_invitation_id :: "AnyInvitation \<Rightarrow> string" where
  "any_invitation_id (Any_Con invitation) = mp_id invitation"
| "any_invitation_id (Any_Oob invitation) = mp_id invitation"

section \<open>The sender\<close>

record OutOfBandSender =
  os_oob :: OobInvitation

record 'u oob_ext =
  ox_url_parse :: "string \<Rightarrow> (string, 'u) result"
  ox_append_pair :: "'u \<Rightarrow> string \<Rightarrow> string \<Rightarrow> 'u"
  ox_query_pairs :: "'u \<Rightarrow> (string \<times> string) list"
  ox_url_text :: "'u \<Rightarrow> string"
  ox_utf8_error :: "string \<Rightarrow> string"
  ox_debug_attach :: "Attachment \<Rightarrow> string"
  ox_debug_attach_id :: "AttachmentId \<Rightarrow> string"

definition sender_create :: "string \<Rightarrow> OutOfBandSender" where
  "sender_create uuid = \<lparr>os_oob = \<lparr>mp_id = uuid,
     mp_content = \<lparr>oi_label = None, oi_goal_code = None, oi_goal = None, oi_accept = None,
       oi_handshake_protocols = None, oi_requests_attach = None, oi_services = []\<rparr>,
     mp_decorators = \<lparr>td_timing = None\<rparr>\<rparr>\<rparr>"

definition create_from_invitation :: "OobInvitation \<Rightarrow> OutOfBandSender" where
  "create_from_invitation invitation = \<lparr>os_oob = invitation\<rparr>"

definition with_content ::
  "(OobInvitationContent \<Rightarrow> OobInvitationContent) \<Rightarrow> OutOfBandSender \<Rightarrow> OutOfBandSender" where
  "with_content f s = s\<lparr>os_oob := (os_oob s)\<lparr>mp_content := f (mp_content (os_oob s))\<rparr>\<rparr>"

definition set_label :: "OutOfBandSender \<Rightarrow> string \<Rightarrow> OutOfBandSender" where
  "set_label s label = with_content (\<lambda>c. c\<lparr>oi_label := Some label\<rparr>) s"

definition set_goal_code :: "OutOfBandSender \<Rightarrow> OobGoalCode \<Rightarrow> OutOfBandSender" where
  "set_goal_code s code = with_content (\<lambda>c. c\<lparr>oi_goal_code := Some (Known code)\<rparr>) s"

definition set_goal :: "OutOfBandSender \<Rightarrow> string \<Rightarrow> OutOfBandSender" where
  "set_goal s goal = with_content (\<lambda>c. c\<lparr>oi_goal := Some goal\<rparr>) s"

definition append_service :: "OutOfBandSender \<Rightarrow> OobService \<Rightarrow> OutOfBandSender" where
  "append_service s service = with_content (\<lambda>c. c\<lparr>oi_services := oi_services c @ [service]\<rparr>) s"

definition get_services :: "OutOfBandSender \<Rightarrow> OobService list" where
  "get_services s = oi_services (mp_content (os_oob s))"

definition handshake_protocol_allowed :: "Protocol \<Rightarrow> bool" where
  "handshake_protocol_allowed p =
     (case p of ConnectionType _ \<Rightarrow> True | DidExchangeType _ \<Rightarrow> True | _ \<Rightarrow> False)"

definition append_handshake_protocol :: "OutOfBandSender \<Rightarrow> Protocol \<Rightarrow> OutOfBandSender VcxResult" where
  "append_handshake_protocol s protocol =
     (if \<not> handshake_protocol_allowed protocol then vcx_err ActionNotSupported ''Protocol not supported''
      else Ok (with_content (\<lambda>c. c\<lparr>oi_handshake_protocols :=
        Some (case oi_handshake_protocols c of
                Some protocols \<Rightarrow> protocols @ [Known protocol] | None \<Rightarrow> [Known protocol])\<rparr>) s))"

definition message_text :: "ext \<Rightarrow> msg_codecs \<Rightarrow> AriesMessage \<Rightarrow> string" where
  "message_text E R m = x_json_print E (delayed_serialize R m)"

text \<open>The messages that may be attached, with the identifier of their attachment.\<close>

fun attachable :: "AriesMessage \<Rightarrow> AttachmentId option" where
  "attachable (PresentProof (PP_V1 (PP1_RequestPresentation _))) = Some Att_PresentationRequest"
| "attachable (CredentialIssuance (CI_V1 (CI1_OfferCredential _))) = Some Att_CredentialOffer"
| "attachable _ = None"

definition append_a2a_message ::
  "ext \<Rightarrow> msg_codecs \<Rightarrow> OutOfBandSender \<Rightarrow> AriesMessage \<Rightarrow> OutOfBandSender VcxResult" where
  "append_a2a_message E R s msg =
     (case attachable msg of
        Some attach_id \<Rightarrow>
          Ok (with_content (\<lambda>c. c\<lparr>oi_requests_attach :=
            Some (unwrap_default (oi_requests_attach c) []
              @ [make_attach_from_str E (message_text E R msg) (AttachmentId_as_ref attach_id)])\<rparr>) s)
      | None \<Rightarrow> vcx_err InvalidMessageFormat
          (''Appended message type '' @ x_debug_msg E msg @ '' is not allowed.''))"

definition invitation_to_aries_message :: "OobInvitation \<Rightarrow> AriesMessage" where
  "invitation_to_aries_message oob = OutOfBand (OOB_Invitation oob)"

definition invitation_to_json_string :: "ext \<Rightarrow> msg_codecs \<Rightarrow> OobInvitation \<Rightarrow> string" where
  "invitation_to_json_string E R oob = message_text E R (invitation_to_aries_message oob)"

definition invitation_to_base64_url :: "ext \<Rightarrow> wire \<Rightarrow> msg_codecs \<Rightarrow> OobInvitation \<Rightarrow> string" where
  "invitation_to_base64_url E Z R oob = wr_b64url_encode Z (invitation_to_json_string E R oob)"

definition invitation_to_url ::
  "ext \<Rightarrow> wire \<Rightarrow> msg_codecs \<Rightarrow> 'u oob_ext \<Rightarrow> OobInvitation \<Rightarrow> string \<Rightarrow> 'u VcxResult" where
  "invitation_to_url E Z R U oob domain_path =
     and_then (map_err (from_msg InvalidInput) (ox_url_parse U domain_path)) (\<lambda>url.
     Ok (ox_append_pair U url ''oob'' (invitation_to_base64_url E Z R oob)))"

section \<open>The receiver\<close>

record OutOfBandReceiver =
  or_oob :: OobInvitation

datatype GenericOutOfBand = Oob_Receiver OutOfBandReceiver | Oob_Sender OutOfBandSender

definition create_from_a2a_msg :: "ext \<Rightarrow> AriesMessage \<Rightarrow> OutOfBandReceiver VcxResult" where
  "create_from_a2a_msg E msg =
     (case msg of
        OutOfBand (OOB_Invitation oob) \<Rightarrow> Ok \<lparr>or_oob = oob\<rparr>
      | m \<Rightarrow> vcx_err InvalidMessageFormat
          (''Expected OutOfBandInvitation message to create OutOfBandReceiver, but received message of unknown type: ''
            @ x_debug_msg E m))"

text \<open>
  Reading a struct directly, without the \<open>@type\<close> dispatch: the derived code sees all members of
  the object.
\<close>

definition read_struct :: "'a struct_codec \<Rightarrow> json \<Rightarrow> (string, 'a) result" where
  "read_struct c j = (case j of JObject m \<Rightarrow> sc_read c m | _ \<Rightarrow> Err ''invalid type'')"

definition extract_encoded_invitation_from_json_string ::
  "ext \<Rightarrow> msg_codecs \<Rightarrow> string \<Rightarrow> OobInvitation VcxResult" where
  "extract_encoded_invitation_from_json_string E R oob_json =
     and_then (from_serde (x_json_parse E oob_json)) (\<lambda>j.
     map_err (\<lambda>_. from_serde_error) (read_struct (cd_oob_invitation R) j))"

definition extract_encoded_invitation_from_base64_url ::
  "wire \<Rightarrow> 'u oob_ext \<Rightarrow> string \<Rightarrow> string VcxResult" where
  "extract_encoded_invitation_from_base64_url Z U encoded =
     and_then (map_err (\<lambda>e. from_msg InvalidInput (se_display e)) (wr_b64url_decode Z encoded)) (\<lambda>bytes.
     ok_or (from_utf8 bytes) (from_msg InvalidInput (ox_utf8_error U bytes)))"

definition extract_encoded_invitation_from_url :: "'u oob_ext \<Rightarrow> string \<Rightarrow> string VcxResult" where
  "extract_encoded_invitation_from_url U oob_url_string =
     and_then (map_err (from_msg InvalidInput) (ox_url_parse U oob_url_string)) (\<lambda>oob_url.
     map_ok snd (ok_or (find (\<lambda>(name, _). name = ''oob'') (ox_query_pairs U oob_url))
       (from_msg InvalidInput ''OutOfBand Invitation URL is missing 'oob' query parameter'')))"

definition create_from_json_encoded_oob ::
  "ext \<Rightarrow> msg_codecs \<Rightarrow> string \<Rightarrow> OutOfBandReceiver VcxResult" where
  "create_from_json_encoded_oob E R oob_json =
     map_ok (\<lambda>oob. \<lparr>or_oob = oob\<rparr>) (extract_encoded_invitation_from_json_string E R oob_json)"

definition create_from_url_encoded_oob ::
  "ext \<Rightarrow> wire \<Rightarrow> msg_codecs \<Rightarrow> 'u oob_ext \<Rightarrow> string \<Rightarrow> OutOfBandReceiver VcxResult" where
  "create_from_url_encoded_oob E Z R U oob_url_string =
     and_then (extract_encoded_invitation_from_url U oob_url_string) (\<lambda>encoded.
     and_then (extract_encoded_invitation_from_base64_url Z U encoded) (\<lambda>oob_json.
     map_ok (\<lambda>oob. \<lparr>or_oob = oob\<rparr>) (extract_encoded_invitation_from_json_string E R oob_json)))"

definition AttachmentId_from_str :: "msg_codecs \<Rightarrow> string \<Rightarrow> (string, AttachmentId) result" where
  "AttachmentId_from_str R s =
     ok_or (find (\<lambda>i. AttachmentId_as_ref i = s)
       [Att_CredentialOffer, Att_CredentialRequest, Att_Credential, Att_PresentationRequest, Att_Presentation])
       (cd_variant_error R)"

definition attachment_to_aries_message ::
  "ext \<Rightarrow> msg_codecs \<Rightarrow> 'u oob_ext \<Rightarrow> Attachment \<Rightarrow> AriesMessage option VcxResult" where
  "attachment_to_aries_message E R U attach =
     (let not_b64 = from_msg SerializationError
            (''Attachment is not base 64 encoded JSON: '' @ ox_debug_attach U attach);
          not_read = (\<lambda>j. from_msg SerializationError
            (''Failed to deserialize attachment: '' @ x_debug_json E j))
      in and_then (case ad_content (att_data attach) of
             Base64 encoded_attach \<Rightarrow> ok_or (x_b64_decode E encoded_attach) not_b64
           | _ \<Rightarrow> Err not_b64) (\<lambda>bytes.
         and_then (map_err (\<lambda>_. not_b64) (x_json_parse E bytes)) (\<lambda>attach_json.
         and_then (case att_id attach of
             Some i \<Rightarrow> map_err (\<lambda>e. from_msg SerializationError
               (''Failed to deserialize attachment ID: '' @ e)) (AttachmentId_from_str R i)
           | None \<Rightarrow> vcx_err InvalidMessageFormat
               (''Missing attachment ID on attach: '' @ ox_debug_attach U attach)) (\<lambda>attach_id.
         case attach_id of
           Att_CredentialOffer \<Rightarrow>
             map_ok (\<lambda>offer. Some (ci1_msg (CI1_OfferCredential offer)))
               (map_err (\<lambda>_. not_read attach_json) (read_struct (cd_offer1 R) attach_json))
         | Att_PresentationRequest \<Rightarrow>
             map_ok (\<lambda>request. Some (pp1_msg (PP1_RequestPresentation request)))
               (map_err (\<lambda>_. not_read attach_json) (read_struct (cd_request_pres1 R) attach_json))
         | _ \<Rightarrow> vcx_err InvalidMessageFormat
             (''unexpected attachment type: '' @ ox_debug_attach_id U attach_id)))))"

definition extract_a2a_message ::
  "ext \<Rightarrow> msg_codecs \<Rightarrow> 'u oob_ext \<Rightarrow> OutOfBandReceiver \<Rightarrow> AriesMessage option VcxResult" where
  "extract_a2a_message E R U r =
     (case oi_requests_attach (mp_content (or_oob r)) of
        Some (attach # _) \<Rightarrow> attachment_to_aries_message E R U attach
      | _ \<Rightarrow> Ok None)"

section \<open>Properties\<close>

text \<open>
  The documented behaviour of the third-party code: appending a pair extends the query, a URL is
  read from its text, a derived reader skips the member \<open>@type\<close> it does not know.
\<close>

definition urls_carry_pairs :: "'u oob_ext \<Rightarrow> bool" where
  "urls_carry_pairs U \<longleftrightarrow>
     (\<forall>u k v. ox_query_pairs U (ox_append_pair U u k v) = ox_query_pairs U u @ [(k, v)]) \<and>
     (\<forall>u. ox_url_parse U (ox_url_text U u) = Ok u)"

definition skips_type :: "'a struct_codec \<Rightarrow> bool" where
  "skips_type c \<longleftrightarrow> (\<forall>m. sc_read c m = sc_read c (filter (\<lambda>(k, _). k \<noteq> ''@type'') m))"

lemma read_struct_with_type:
  assumes "skips_type c" and "codec_inverse c v"
  shows "read_struct c (msg_with_type p k (sc_write c v)) = Ok v"
proof -
  let ?m = "object_of ((''@type'', JString (serialize_msg_type p k)) # sc_write c v)"
  have "sc_read c ?m = sc_read c (filter (\<lambda>(k, _). k \<noteq> ''@type'') ?m)"
    using assms(1) by (simp only: skips_type_def)
  also have "\<dots> = sc_read c (object_of (sc_write c v))"
    using assms(2) by (subst object_of_with_type(2)) (simp_all add: codec_inverse_def)
  also have "\<dots> = Ok v" using assms(2) by (simp add: codec_inverse_def)
  finally show ?thesis by (simp add: read_struct_def msg_with_type_def)
qed

lemma find_oob_last: "\<forall>p \<in> set ps. fst p \<noteq> k \<Longrightarrow> find (\<lambda>(n, _). n = k) (ps @ [(k, v)]) = Some (k, v)"
  by (induction ps) auto

text \<open>
  An invitation survives the trip through a URL: the receiver of the URL that the sender made
  holds the sender's invitation, when the address it was attached to carries no \<open>oob\<close> parameter of
  its own.
\<close>

theorem oob_url_roundtrip:
  assumes laws: "urls_carry_pairs U" "b64url_inverse Z" "json_inverse E" "prints_text E"
    "skips_type (cd_oob_invitation R)" "codec_inverse (cd_oob_invitation R) oob"
    and domain: "ox_url_parse U domain_path = Ok u" "\<forall>p \<in> set (ox_query_pairs U u). fst p \<noteq> ''oob''"
    and url: "invitation_to_url E Z R U oob domain_path = Ok url"
  shows "create_from_url_encoded_oob E Z R U (ox_url_text U url) = Ok \<lparr>or_oob = oob\<rparr>"
proof -
  let ?json = "invitation_to_json_string E R oob"
  have "ox_query_pairs U url = ox_query_pairs U u @ [(''oob'', wr_b64url_encode Z ?json)]"
    using url domain(1) laws(1)
    by (auto simp: invitation_to_url_def invitation_to_base64_url_def urls_carry_pairs_def)
  then have "extract_encoded_invitation_from_url U (ox_url_text U url) = Ok (wr_b64url_encode Z ?json)"
    using laws(1) find_oob_last [OF domain(2)]
    by (simp add: extract_encoded_invitation_from_url_def urls_carry_pairs_def)
  moreover have "extract_encoded_invitation_from_base64_url Z U (wr_b64url_encode Z ?json) = Ok ?json"
    using laws(2,4)
    by (simp add: extract_encoded_invitation_from_base64_url_def b64url_inverse_def from_utf8_def
        prints_text_def invitation_to_json_string_def message_text_def)
  moreover have "extract_encoded_invitation_from_json_string E R ?json = Ok oob"
    using laws(3) read_struct_with_type [OF laws(5,6)]
    by (simp add: extract_encoded_invitation_from_json_string_def invitation_to_json_string_def
        message_text_def invitation_to_aries_message_def json_inverse_def)
  ultimately show ?thesis by (simp add: create_from_url_encoded_oob_def)
qed

text \<open>
  The first pair named \<open>oob\<close> wins, so an address that already carries one hides the invitation.
\<close>

lemma oob_url_shadowed:
  assumes "urls_carry_pairs U" and "ox_url_parse U domain_path = Ok u"
    and "ox_query_pairs U u = (''oob'', other) # ps" and "invitation_to_url E Z R U oob domain_path = Ok url"
  shows "extract_encoded_invitation_from_url U (ox_url_text U url) = Ok other"
  using assms by (auto simp: extract_encoded_invitation_from_url_def invitation_to_url_def urls_carry_pairs_def)

text \<open>
  The request attached to an invitation is the one the receiver extracts: for a credential
  offer and a presentation request appended to a new invitation, extraction gives the appended
  message; every other message is refused when it is appended.
\<close>

theorem oob_attachment_roundtrip:
  assumes laws: "base64_inverse E" "json_inverse E" "skips_type (cd_offer1 R)" "skips_type (cd_request_pres1 R)"
    and "attachable msg \<noteq> None \<Longrightarrow> readable R msg"
  shows "case append_a2a_message E R (sender_create uuid) msg of
      Ok s \<Rightarrow> extract_a2a_message E R U \<lparr>or_oob = os_oob s\<rparr> = Ok (Some msg)
    | Err e \<Rightarrow> err_kind e = InvalidMessageFormat \<and>
        (\<forall>v. msg \<noteq> ci1_msg (CI1_OfferCredential v)) \<and> (\<forall>v. msg \<noteq> pp1_msg (PP1_RequestPresentation v))
    | Panic \<Rightarrow> False"
proof -
  have offer: "read_struct (cd_offer1 R) (delayed_serialize R (ci1_msg (CI1_OfferCredential v))) = Ok v"
    if "codec_inverse (cd_offer1 R) v" for v
    using read_struct_with_type [OF laws(3) that] by simp
  have request: "read_struct (cd_request_pres1 R) (delayed_serialize R (pp1_msg (PP1_RequestPresentation v))) = Ok v"
    if "codec_inverse (cd_request_pres1 R) v" for v
    using read_struct_with_type [OF laws(4) that] by simp
  note defs = append_a2a_message_def extract_a2a_message_def attachment_to_aries_message_def
    AttachmentId_from_str_def with_content_def sender_create_def message_text_def
    make_attach_from_str_def base64_inverse_def json_inverse_def Let_def
  show ?thesis
  proof (cases "attachable msg")
    case None
    then show ?thesis by (auto simp: append_a2a_message_def)
  next
    case (Some i)
    then consider v where "msg = pp1_msg (PP1_RequestPresentation v)" "i = Att_PresentationRequest"
      | v where "msg = ci1_msg (CI1_OfferCredential v)" "i = Att_CredentialOffer"
      by (auto elim!: attachable.elims)
    then show ?thesis
      by cases (use laws(1,2) assms(5) Some offer request in \<open>simp_all add: defs del: delayed_serialize.simps\<close>)
  qed
qed

text \<open>
  A reuse is always accepted on the thread of the reuse and under the invitation: the accepting
  message carries the identifier of the reuse as its thread and the identifier of the invitation as
  its parent thread.
\<close>

theorem handshake_reuse_threads:
  "map_ok (\<lambda>m. (thid (ak_thread (mp_decorators m)), pthid (ak_thread (mp_decorators m))))
     (build_handshake_reuse_accepted_msg uuid' now' (build_handshake_reuse_msg uuid now invitation))
   = Ok (uuid, Some (mp_id invitation))"
  by (simp add: build_handshake_reuse_accepted_msg_def build_handshake_reuse_msg_def Let_def)

text \<open>
  The keys of an invitation in \<open>did:key\<close> form are turned into the base58 texts of the same keys:
  for the fingerprint of an Ed25519 key the result is the key's base58 text, keys of the other types
  are refused, and a naked key stays.
\<close>

theorem did_keys_normalised:
  assumes b58: "b58_inverse K"
    and multibase: "\<And>b. kx_mb_encode K b = ''z'' @ kx_b58_encode K b"
    and varint: "kx_varint_encode K (key_type_code Ed25519) = ED25519_MULTIBASE_CODEC"
      "\<And>t. t \<noteq> Ed25519 \<Longrightarrow> \<not> starts_with (kx_varint_encode K (key_type_code t) @ ky_bytes k) ED25519_MULTIBASE_CODEC"
  shows "naked_key K (DID_KEY_PREFIX @ fingerprint K k) =
      (if ky_type k = Ed25519 then Ok (key_base58 K k)
       else vcx_err InvalidDid (''Only Ed25519-based did:keys are currently supported, got key: ''
         @ DID_KEY_PREFIX @ fingerprint K k)) \<and>
    (strip_prefix key DID_KEY_PREFIX = None \<longrightarrow> naked_key K key = Ok key)"
proof -
  let ?b = "multicodec_prefixed_key K k"
  have fp: "strip_prefix (fingerprint K k) ''z'' = Some (kx_b58_encode K ?b)"
    by (simp add: fingerprint_def multibase strip_prefix_Some)
  have "strip_prefix ?b ED25519_MULTIBASE_CODEC = (if ky_type k = Ed25519 then Some (ky_bytes k) else None)"
    using varint by (simp add: multicodec_prefixed_key_def strip_prefix_def)
  with fp b58 show ?thesis
    by (simp add: naked_key_def b58_inverse_def key_base58_def)
qed

text \<open>
  A document made from an invitation lists the service's keys under the invitation's identifier;
  when the service or a key cannot be resolved, the invitation is silently replaced by the default
  service or by no keys.
\<close>

lemma oob_doc_resolved:
  assumes "oi_services (mp_content iv) = s # ss" and "resolve_service E Z K X L s = Ok service"
    and "normalize_keys_as_naked K (sv_recipient_keys service) = Ok ks"
  shows "oob_invitation_to_legacy_did_doc E Z K X L iv =
    Ok (key_doc (mp_id iv) (mp_id iv) (sv_service_endpoint service) (sv_routing_keys service) ks)"
  using assms by (simp add: oob_invitation_to_legacy_did_doc_def build_doc_id_first)

text \<open>
  An invitation whose service cannot be resolved is not refused: it becomes a document with the
  placeholder endpoint and no recipient key, and an invitation without services crashes.
\<close>

theorem unresolved_invitation_accepted:
  "(oi_services (mp_content iv) = [] \<longrightarrow> oob_invitation_to_legacy_did_doc E Z K X L iv = Panic) \<and>
   (oi_services (mp_content iv) = s # ss \<and> resolve_service E Z K X L s = Err e \<longrightarrow>
      oob_invitation_to_legacy_did_doc E Z K X L iv =
        Ok (key_doc (mp_id iv) (mp_id iv) ''https://dummy.dummy/dummy'' [] []))"
  by (simp add: oob_invitation_to_legacy_did_doc_def normalize_keys_as_naked_def default_service_def
      build_doc_id_first)

section \<open>A concrete instance\<close>

text \<open>A URL is its query, written as a number; the readers return one given value.\<close>

definition sample_urls :: "(string \<times> string) list oob_ext" where
  "sample_urls = \<lparr>ox_url_parse = (\<lambda>s. Ok (from_nat (digits_value 0 s))),
     ox_append_pair = (\<lambda>u k v. u @ [(k, v)]), ox_query_pairs = (\<lambda>u. u),
     ox_url_text = (\<lambda>u. show_nat (to_nat u)), ox_utf8_error = (\<lambda>_. []),
     ox_debug_attach = (\<lambda>_. []), ox_debug_attach_id = (\<lambda>_. [])\<rparr>"

definition constant_codec :: "'a \<Rightarrow> 'a struct_codec" where
  "constant_codec v = \<lparr>sc_write = (\<lambda>_. []), sc_read = (\<lambda>_. Ok v)\<rparr>"

lemma constant_codec_laws [simp]: "skips_type (constant_codec v)" "codec_inverse (constant_codec v) v"
  by (simp_all add: skips_type_def codec_inverse_def constant_codec_def)

lemma no_codec_skips [simp]: "skips_type no_codec"
  by (simp add: skips_type_def no_codec_def)

definition sample_oob :: OobInvitation where
  "sample_oob = os_oob (append_service (sender_create ''oob-1'') (Oob_Did ''did:x''))"

lemma sample_urls_law [simp]: "urls_carry_pairs sample_urls"
  by (simp add: urls_carry_pairs_def sample_urls_def)

definition oob_codecs :: msg_codecs where
  "oob_codecs = ping_codecs\<lparr>cd_oob_invitation := constant_codec sample_oob\<rparr>"

theorem oob_url_roundtrip_witness:
  "\<exists>url. invitation_to_url counting_ext (sample_wire sample_con_data) oob_codecs sample_urls sample_oob
       (ox_url_text sample_urls []) = Ok url \<and>
     create_from_url_encoded_oob counting_ext (sample_wire sample_con_data) oob_codecs sample_urls
       (ox_url_text sample_urls url) = Ok \<lparr>or_oob = sample_oob\<rparr>"
proof -
  have codec: "cd_oob_invitation oob_codecs = constant_codec sample_oob" by (simp add: oob_codecs_def)
  have parse: "ox_url_parse sample_urls (ox_url_text sample_urls []) = Ok []"
    by (simp add: sample_urls_def)
  then obtain url where url: "invitation_to_url counting_ext (sample_wire sample_con_data) oob_codecs
      sample_urls sample_oob (ox_url_text sample_urls []) = Ok url"
    by (simp add: invitation_to_url_def)
  have "create_from_url_encoded_oob counting_ext (sample_wire sample_con_data) oob_codecs sample_urls
      (ox_url_text sample_urls url) = Ok \<lparr>or_oob = sample_oob\<rparr>"
    by (rule oob_url_roundtrip [OF sample_urls_law sample_wire_laws(1) forwarding_laws(2,3) _ _ parse _ url])
      (simp_all add: codec sample_urls_def)
  with url show ?thesis by blast
qed

definition sample_offer_msg :: OfferCredentialV1 where
  "sample_offer_msg = \<lparr>mp_id = ''offer-1'', mp_content = \<lparr>ofc_comment = None,
     ofc_credential_preview = \<lparr>preview_attributes = []\<rparr>, ofc_offers_attach = []\<rparr>,
     mp_decorators = \<lparr>od_thread = None, od_timing = None\<rparr>\<rparr>"

definition offer_codecs :: msg_codecs where
  "offer_codecs = ping_codecs\<lparr>cd_offer1 := constant_codec sample_offer_msg\<rparr>"

theorem oob_attachment_roundtrip_witness:
  "\<exists>s. append_a2a_message counting_ext offer_codecs (sender_create ''1'') (ci1_msg (CI1_OfferCredential sample_offer_msg)) = Ok s \<and>
     extract_a2a_message counting_ext offer_codecs sample_urls \<lparr>or_oob = os_oob s\<rparr> =
       Ok (Some (ci1_msg (CI1_OfferCredential sample_offer_msg)))"
proof -
  have codec: "cd_offer1 offer_codecs = constant_codec sample_offer_msg" "cd_request_pres1 offer_codecs = no_codec"
    by (simp_all add: offer_codecs_def ping_codecs_def)
  have "base64_inverse counting_ext" by (simp add: base64_inverse_def counting_ext_def sample_ext_def)
  from oob_attachment_roundtrip [where R = offer_codecs and U = sample_urls and uuid = "''1''" and
      msg = "ci1_msg (CI1_OfferCredential sample_offer_msg)", OF this forwarding_laws(2)] codec
  have "case append_a2a_message counting_ext offer_codecs (sender_create ''1'') (ci1_msg (CI1_OfferCredential sample_offer_msg)) of
      Ok s \<Rightarrow> extract_a2a_message counting_ext offer_codecs sample_urls \<lparr>or_oob = os_oob s\<rparr> =
        Ok (Some (ci1_msg (CI1_OfferCredential sample_offer_msg)))
    | Err e \<Rightarrow> False | Panic \<Rightarrow> False"
    by (simp split: result.splits)
  moreover have "\<exists>s. append_a2a_message counting_ext offer_codecs (sender_create ''1'') (ci1_msg (CI1_OfferCredential sample_offer_msg)) = Ok s"
    by (simp add: append_a2a_message_def)
  ultimately show ?thesis by auto
qed

definition codec_kx :: key_ext where
  "codec_kx = sample_kx\<lparr>kx_varint_encode :=
     (\<lambda>c. if c = 237 then ED25519_MULTIBASE_CODEC else [CHR 0x00])\<rparr>"

theorem did_keys_normalised_witness:
  "naked_key codec_kx (DID_KEY_PREFIX @ fingerprint codec_kx \<lparr>ky_type = Ed25519, ky_bytes = ''abc''\<rparr>) = Ok ''abc''"
proof -
  have "b58_inverse codec_kx" by (simp add: b58_inverse_def codec_kx_def sample_kx_def)
  moreover have "kx_mb_encode codec_kx b = ''z'' @ kx_b58_encode codec_kx b" for b
    by (simp add: codec_kx_def sample_kx_def)
  moreover have "kx_varint_encode codec_kx (key_type_code Ed25519) = ED25519_MULTIBASE_CODEC"
    by (simp add: codec_kx_def)
  moreover have "\<not> starts_with (kx_varint_encode codec_kx (key_type_code t) @ x) ED25519_MULTIBASE_CODEC"
    if "t \<noteq> Ed25519" for t x
    using that by (cases t) (simp_all add: codec_kx_def starts_with_def ED25519_MULTIBASE_CODEC_def)
  ultimately have "naked_key codec_kx (DID_KEY_PREFIX @ fingerprint codec_kx \<lparr>ky_type = Ed25519, ky_bytes = ''abc''\<rparr>) =
      Ok (key_base58 codec_kx \<lparr>ky_type = Ed25519, ky_bytes = ''abc''\<rparr>)"
    using did_keys_normalised [of codec_kx "\<lparr>ky_type = Ed25519, ky_bytes = ''abc''\<rparr>"] by simp
  then show ?thesis by (simp add: key_base58_def codec_kx_def sample_kx_def)
qed

theorem unresolved_invitation_accepted_witness:
  "oob_invitation_to_legacy_did_doc counting_ext (sample_wire sample_con_data) sample_kx
     ((sample_led (Res_Reply (ReplyV0 JNull)))\<lparr>lx_nom := sample_nom\<lparr>nm_did_ranges := (\<lambda>_. Err ''bad'')\<rparr>\<rparr>) (sample_read []) sample_oob =
   Ok (key_doc ''oob-1'' ''oob-1'' ''https://dummy.dummy/dummy'' [] [])"
proof -
  have "oi_services (mp_content sample_oob) = [Oob_Did ''did:x'']" "mp_id sample_oob = ''oob-1''"
    by (simp_all add: sample_oob_def append_service_def with_content_def sender_create_def)
  moreover have "resolve_service counting_ext (sample_wire sample_con_data) sample_kx
      ((sample_led (Res_Reply (ReplyV0 JNull)))\<lparr>lx_nom := sample_nom\<lparr>nm_did_ranges := (\<lambda>_. Err ''bad'')\<rparr>\<rparr>) (sample_read [])
      (Oob_Did ''did:x'') = vcx_err InvalidState ''Parsing library error: bad''"
    by (simp add: parse_did_def)
  ultimately show ?thesis using unresolved_invitation_accepted [of sample_oob] by metis
qed

end
