(* ===== verification/Small_Protocols.thy ===== *)
theory Small_Protocols
  imports Util
begin

text \<open>
  Two small protocols: trust ping (\<open>protocols/trustping/mod.rs\<close>, \<open>handlers/trust_ping/mod.rs\<close>) and
  the answers of discover-features (\<open>discover_features/{query,disclose}.rs\<close> of the messages crate).
\<close>

section \<open>Trust ping\<close>

definition build_ping :: "string \<Rightarrow> DateTime \<Rightarrow> bool \<Rightarrow> string option \<Rightarrow> Ping" where
  "build_ping uuid now request_response comment =
     \<lparr>mp_id = uuid,
      mp_content = \<lparr>ping_response_requested = request_response, ping_comment = comment\<rparr>,
      mp_decorators = \<lparr>od_thread = None, od_timing = Some (timing_out now)\<rparr>\<rparr>"

definition ping_thread_id :: "Ping \<Rightarrow> string" where
  "ping_thread_id ping =
     (case od_thread (mp_decorators ping) of Some t \<Rightarrow> thid t | None \<Rightarrow> mp_id ping)"

definition build_ping_response :: "string \<Rightarrow> DateTime \<Rightarrow> Ping \<Rightarrow> PingResponse" where
  "build_ping_response uuid now ping =
     \<lparr>mp_id = uuid, mp_content = \<lparr>pong_comment = None\<rparr>,
      mp_decorators = \<lparr>ak_thread = new_thread (ping_thread_id ping), ak_timing = Some (timing_out now)\<rparr>\<rparr>"

definition build_ping_response_msg :: "string \<Rightarrow> DateTime \<Rightarrow> Ping \<Rightarrow> AriesMessage" where
  "build_ping_response_msg uuid now ping = TrustPing (TP_PingResponse (build_ping_response uuid now ping))"

record TrustPingSender =
  ts_ping :: Ping
  ts_ping_sent :: bool
  ts_response_received :: bool

definition TrustPingSender_build :: "string \<Rightarrow> DateTime \<Rightarrow> bool \<Rightarrow> string option \<Rightarrow> TrustPingSender" where
  "TrustPingSender_build uuid now request_response comment =
     \<lparr>ts_ping = build_ping uuid now request_response comment, ts_ping_sent = False,
      ts_response_received = False\<rparr>"

definition get_thread_id :: "TrustPingSender \<Rightarrow> string" where
  "get_thread_id s = ping_thread_id (ts_ping s)"

text \<open>The closure that sends a message is an argument: it may fail.\<close>

definition send_ping ::
  "(AriesMessage \<Rightarrow> unit VcxResult) \<Rightarrow> TrustPingSender \<Rightarrow> unit VcxResult \<times> TrustPingSender" where
  "send_ping send_message s =
     (if ts_ping_sent s then (vcx_err NotReady ''Ping message has already been sent'', s)
      else case send_message (TrustPing (TP_Ping (ts_ping s))) of
             Ok _ \<Rightarrow> (Ok (), s\<lparr>ts_ping_sent := True\<rparr>)
           | Err e \<Rightarrow> (Err e, s)
           | Panic \<Rightarrow> (Panic, s))"

definition handle_ping_response :: "TrustPingSender \<Rightarrow> PingResponse \<Rightarrow> unit VcxResult \<times> TrustPingSender" where
  "handle_ping_response s ping =
     (if \<not> matches_thread_id (ak_thread (mp_decorators ping)) (get_thread_id s) then
        (vcx_err NotReady ''Thread ID mismatch'', s)
      else if \<not> ping_response_requested (mp_content (ts_ping s)) then
        (vcx_err NotReady ''Message was not expected'', s)
      else (Ok (), s\<lparr>ts_response_received := True\<rparr>))"

text \<open>
  A ping is answered: the response the receiver builds is accepted by the sender of the ping,
  exactly when a response was asked for; the ping is sent at most once, and a failed attempt to send
  it can be repeated.
\<close>

theorem ping_answered:
  "handle_ping_response s (build_ping_response uuid now (ts_ping s)) =
      (if ping_response_requested (mp_content (ts_ping s)) then (Ok (), s\<lparr>ts_response_received := True\<rparr>)
       else (vcx_err NotReady ''Message was not expected'', s)) \<and>
    (case send_ping send s of
       (Ok _, s') \<Rightarrow> \<not> ts_ping_sent s \<and> ts_ping_sent s' \<and> fst (send_ping send s') \<noteq> Ok ()
     | (_, s') \<Rightarrow> s' = s)"
  by (cases "ts_ping_sent s"; cases "send (TrustPing (TP_Ping (ts_ping s)))")
    (simp_all add: handle_ping_response_def get_thread_id_def build_ping_response_def send_ping_def)

section \<open>Discover features\<close>

text \<open>
  The registry is a hash map; the order in which its values are visited is the argument \<open>order\<close>.
\<close>

definition descriptor_of :: "RegistryEntry \<Rightarrow> ProtocolDescriptor" where
  "descriptor_of e = \<lparr>prd_pid = Known (re_protocol e), prd_roles = Some (re_roles e)\<rparr>"

definition lookup :: "(RegistryMap \<Rightarrow> RegistryMap) \<Rightarrow> QueryContent \<Rightarrow> ProtocolDescriptor list" where
  "lookup order q =
     (let query = hd (split_char (CHR ''*'') (query_text q))
      in map descriptor_of (filter (\<lambda>e. starts_with (re_str_pid e) query)
           (concat (map snd (order PROTOCOL_REGISTRY)))))"

definition default_disclose :: "(RegistryMap \<Rightarrow> RegistryMap) \<Rightarrow> DiscloseContent" where
  "default_disclose order =
     \<lparr>disclose_protocols = map descriptor_of (concat (map snd (order PROTOCOL_REGISTRY)))\<rparr>"

lemma starts_with_nil [simp]: "starts_with s []"
  by (simp add: starts_with_def)

text \<open>
  A query lists exactly the registered protocols whose identifier starts with the text before the
  first star, in whatever order the registry is visited: the query for a star lists what a default
  disclosure lists, and what follows the star is ignored.
\<close>

theorem lookup_matches:
  assumes "set (order PROTOCOL_REGISTRY) = set PROTOCOL_REGISTRY" and "CHR ''*'' \<notin> set p"
  shows "set (lookup order \<lparr>query_text = p @ CHR ''*'' # rest, query_comment = c\<rparr>) =
      descriptor_of ` {e. \<exists>es. es \<in> snd ` set PROTOCOL_REGISTRY \<and> e \<in> set es \<and>
        starts_with (show_Protocol (re_protocol e)) p} \<and>
    lookup order \<lparr>query_text = ''*'', query_comment = c\<rparr> = disclose_protocols (default_disclose order)"
proof -
  have pid: "re_str_pid e = show_Protocol (re_protocol e)"
    if "es \<in> snd ` set PROTOCOL_REGISTRY" "e \<in> set es" for es e
    using registry_entries that by (fastforce simp: list_all_iff)
  have "set (filter (\<lambda>e. starts_with (re_str_pid e) p) (concat (map snd (order PROTOCOL_REGISTRY)))) =
      {e. \<exists>es. es \<in> snd ` set PROTOCOL_REGISTRY \<and> e \<in> set es \<and> starts_with (re_str_pid e) p}"
    using assms(1) by auto
  also have "\<dots> = {e. \<exists>es. es \<in> snd ` set PROTOCOL_REGISTRY \<and> e \<in> set es \<and>
      starts_with (show_Protocol (re_protocol e)) p}"
    using pid by (metis (no_types, lifting))
  finally show ?thesis
    using assms(2) by (simp add: lookup_def default_disclose_def split_char_append del: set_filter set_concat)
qed

theorem lookup_matches_witness:
  "lookup rev \<lparr>query_text = ''*'', query_comment = None\<rparr> = disclose_protocols (default_disclose rev)"
  using lookup_matches [of rev "[]"] by simp

end
