(* ===== verification/Connection_SM.thy ===== *)
theory Connection_SM
  imports Oob Small_Protocols
begin

text \<open>
  The connection protocol (\<open>protocols/connection\<close>): the type-state \<open>Connection\<close> with its invitee and
  inviter states, the operations that move between them, the untyped \<open>GenericConnection\<close> with its
  conversions, and the messages sent over a connection. Identifiers (\<open>uuid\<close>), the time of a message
  (\<open>now\<close>) and of a signature (\<open>ts\<close>) are arguments. Operations that store keys thread the wallet.
\<close>

section \<open>States\<close>

datatype Invitee = Invitee
datatype Inviter = Inviter

text \<open>\<open>invitee/states\<close>\<close>

datatype InviteeInitial = InviteeInitial

record InviteeInvited =
  eei_did_doc :: AriesDidDoc
  eei_invitation :: AnyInvitation

record InviteeRequested =
  eer_did_doc :: AriesDidDoc
  eer_thread_id :: string
  eer_request :: Request

record InviteeCompleted =
  eec_did_doc :: AriesDidDoc
  eec_bootstrap_did_doc :: AriesDidDoc
  eec_thread_id :: string
  eec_protocols :: "ProtocolDescriptor list option"

text \<open>\<open>inviter/states\<close>\<close>

datatype InviterInitial = InviterInitial

record InviterInvited =
  eri_invitation :: AnyInvitation

record InviterRequested =
  err_signed_response :: Response
  err_did_doc :: AriesDidDoc

record InviterCompleted =
  erc_did_doc :: AriesDidDoc
  erc_thread_id :: string
  erc_protocols :: "ProtocolDescriptor list option"

record ('i, 's) Con =
  con_source_id :: string
  con_pairwise_info :: PairwiseInfo
  con_initiation_type :: 'i
  con_state :: 's

type_synonym 's InviteeConnection = "(Invitee, 's) Con"
type_synonym 's InviterConnection = "(Inviter, 's) Con"

text \<open>\<open>generic/mod.rs\<close>: a connection in any state, and \<open>Debug\<close> texts of values of this protocol.\<close>

datatype InviterState =
    Er_Initial InviterInitial | Er_Invited InviterInvited | Er_Requested InviterRequested
  | Er_Completed InviterCompleted

datatype InviteeState =
    Ee_Initial InviteeInitial | Ee_Invited InviteeInvited | Ee_Requested InviteeRequested
  | Ee_Completed InviteeCompleted

datatype GenericState = Gen_Inviter InviterState | Gen_Invitee InviteeState

record GenericConnection =
  gc_source_id :: string
  gc_pairwise_info :: PairwiseInfo
  gc_state :: GenericState

record con_ext =
  cx_debug_response :: "Response \<Rightarrow> string"
  cx_debug_inviter :: "InviterState \<Rightarrow> string"
  cx_debug_invitee :: "InviteeState \<Rightarrow> string"

definition with_state :: "('i, 's) Con \<Rightarrow> 't \<Rightarrow> ('i, 't) Con" where
  "with_state c s = \<lparr>con_source_id = con_source_id c, con_pairwise_info = con_pairwise_info c,
     con_initiation_type = con_initiation_type c, con_state = s\<rparr>"

lemma with_state_sel [simp]:
  "con_source_id (with_state c s) = con_source_id c"
  "con_pairwise_info (with_state c s) = con_pairwise_info c" "con_state (with_state c s) = s"
  by (simp_all add: with_state_def)

section \<open>Views of the states\<close>

definition invited_thread_id :: "AnyInvitation \<Rightarrow> string" where
  "invited_thread_id invitation = any_invitation_id invitation"

definition inviter_requested_thread_id :: "InviterRequested \<Rightarrow> string" where
  "inviter_requested_thread_id s = thid (pd_thread (mp_decorators (err_signed_response s)))"

definition invitee_handle_disclose :: "InviteeCompleted \<Rightarrow> Disclose \<Rightarrow> InviteeCompleted" where
  "invitee_handle_disclose s disclose = s\<lparr>eec_protocols := Some (disclose_protocols (mp_content disclose))\<rparr>"

definition inviter_handle_disclose :: "InviterCompleted \<Rightarrow> Disclose \<Rightarrow> InviterCompleted" where
  "inviter_handle_disclose s disclose = s\<lparr>erc_protocols := Some (disclose_protocols (mp_content disclose))\<rparr>"

definition protocols :: "(RegistryMap \<Rightarrow> RegistryMap) \<Rightarrow> ProtocolDescriptor list" where
  "protocols order = lookup order \<lparr>query_text = ''*'', query_comment = None\<rparr>"

definition remote_vk_of :: "dd_ext \<Rightarrow> AriesDidDoc \<Rightarrow> string VcxResult" where
  "remote_vk_of X did_doc =
     and_then (from_diddoc (recipient_keys X did_doc)) (\<lambda>ks.
     case ks of
       k # _ \<Rightarrow> Ok k
     | [] \<Rightarrow> vcx_err NotReady ''Can't resolve recipient key from the counterparty diddoc.'')"

section \<open>The invitee\<close>

definition new_invitee :: "string \<Rightarrow> PairwiseInfo \<Rightarrow> InviteeInitial InviteeConnection" where
  "new_invitee source_id info = \<lparr>con_source_id = source_id, con_pairwise_info = info,
     con_initiation_type = Invitee, con_state = InviteeInitial\<rparr>"

definition any_invitation_into_did_doc ::
  "ext \<Rightarrow> wire \<Rightarrow> key_ext \<Rightarrow> led_ext \<Rightarrow> indy_read \<Rightarrow> AnyInvitation \<Rightarrow> AriesDidDoc VcxResult" where
  "any_invitation_into_did_doc E Z K G L invitation =
     (case invitation of
        Any_Con i \<Rightarrow>
          (case mp_content i of
             Inv_Public content \<Rightarrow>
               and_then (from_parse_error (parse_did (lx_nom G) (pub_did content))) (\<lambda>did.
               and_then (unwrap_or (get_service E Z K G L did) default_service) (\<lambda>service.
               Ok (set_routing_keys (sv_routing_keys service)
                 (set_recipient_keys (sv_recipient_keys service)
                   (set_service_endpoint (sv_service_endpoint service)
                     (set_id (pub_did content) default_did_doc))))))
           | Inv_Pairwise content \<Rightarrow>
               Ok (set_routing_keys (pw_routing_keys content)
                 (set_recipient_keys (pw_recipient_keys content)
                   (set_service_endpoint (pw_service_endpoint content)
                     (set_id (mp_id i) default_did_doc))))
           | Inv_PairwiseDID _ \<Rightarrow> vcx_err InvalidDid ''PairwiseDID invitation not supported yet!'')
      | Any_Oob i \<Rightarrow> oob_invitation_to_legacy_did_doc E Z K G L i)"

definition accept_invitation ::
  "ext \<Rightarrow> wire \<Rightarrow> key_ext \<Rightarrow> led_ext \<Rightarrow> indy_read \<Rightarrow> InviteeInitial InviteeConnection \<Rightarrow> AnyInvitation \<Rightarrow>
   InviteeInvited InviteeConnection VcxResult" where
  "accept_invitation E Z K G L c invitation =
     and_then (any_invitation_into_did_doc E Z K G L invitation) (\<lambda>did_doc.
     Ok (with_state c \<lparr>eei_did_doc = did_doc, eei_invitation = invitation\<rparr>))"

text \<open>The document of a party: its id, endpoint, routing keys and its one key.\<close>

definition request_doc :: "PairwiseInfo \<Rightarrow> string \<Rightarrow> string list \<Rightarrow> AriesDidDoc" where
  "request_doc info service_endpoint rks =
     set_recipient_keys [pw_vk info]
       (set_routing_keys rks
         (set_service_endpoint service_endpoint (default_did_doc\<lparr>dd_id := pw_did info\<rparr>)))"

definition request_thread :: "string \<Rightarrow> AnyInvitation \<Rightarrow> Thread" where
  "request_thread uuid invitation =
     (case invitation of
        Any_Oob invite \<Rightarrow> thread_with_parent uuid (mp_id invite)
      | Any_Con invite \<Rightarrow>
          (case mp_content invite of
             Inv_Public _ \<Rightarrow> thread_with_parent uuid (invited_thread_id invitation)
           | _ \<Rightarrow> new_thread (invited_thread_id invitation)))"

definition prepare_request ::
  "string \<Rightarrow> DateTime \<Rightarrow> InviteeInvited InviteeConnection \<Rightarrow> string \<Rightarrow> string list \<Rightarrow>
   InviteeRequested InviteeConnection VcxResult" where
  "prepare_request uuid now c service_endpoint rks =
     (let info = con_pairwise_info c;
          con_data = \<lparr>cn_did = pw_did info, cn_did_doc = request_doc info service_endpoint rks\<rparr>;
          thread = request_thread uuid (eei_invitation (con_state c));
          request = \<lparr>mp_id = uuid,
            mp_content = \<lparr>rc_label = con_source_id c, rc_connection = con_data\<rparr>,
            mp_decorators = \<lparr>od_thread = Some thread, od_timing = Some (timing_out now)\<rparr>\<rparr>
      in Ok (with_state c \<lparr>eer_did_doc = eei_did_doc (con_state c), eer_thread_id = thid thread,
           eer_request = request\<rparr>))"

definition handle_response ::
  "ext \<Rightarrow> dd_ext \<Rightarrow> key_ext \<Rightarrow> wire \<Rightarrow> con_ext \<Rightarrow> 'w wallet \<Rightarrow> 'w \<Rightarrow>
   InviteeRequested InviteeConnection \<Rightarrow> Response \<Rightarrow> InviteeCompleted InviteeConnection VcxResult" where
  "handle_response E X K Z D W w c response =
     (let s = con_state c
      in if \<not> matches_thread_id (pd_thread (mp_decorators response)) (eer_thread_id s) then
           vcx_err InvalidJson (''Cannot handle message '' @ cx_debug_response D response
             @ '': thread id does not match, expected '' @ x_debug_str E (eer_thread_id s))
         else
           and_then (from_diddoc (recipient_keys X (eer_did_doc s))) (\<lambda>keys.
           and_then (case keys of
               k # _ \<Rightarrow> Ok k
             | [] \<Rightarrow> vcx_err InvalidState ''Cannot handle response: remote verkey not found'') (\<lambda>their_vk.
           and_then (decode_signed_connection_response K Z W w (mp_content response) their_vk) (\<lambda>con_data.
           Ok (with_state c \<lparr>eec_did_doc = cn_did_doc con_data, eec_bootstrap_did_doc = eer_did_doc s,
             eec_thread_id = eer_thread_id s, eec_protocols = None\<rparr>)))))"

definition get_request :: "InviteeRequested InviteeConnection \<Rightarrow> Request" where
  "get_request c = eer_request (con_state c)"

definition get_ack :: "string \<Rightarrow> DateTime \<Rightarrow> InviteeCompleted InviteeConnection \<Rightarrow> Ack" where
  "get_ack uuid now c =
     \<lparr>mp_id = uuid, mp_content = \<lparr>ack_status = Ack_Ok\<rparr>,
      mp_decorators = \<lparr>ak_thread = new_thread (eec_thread_id (con_state c)),
        ak_timing = Some (timing_out now)\<rparr>\<rparr>"

section \<open>The inviter\<close>

definition new_inviter :: "string \<Rightarrow> PairwiseInfo \<Rightarrow> InviterInitial InviterConnection" where
  "new_inviter source_id info = \<lparr>con_source_id = source_id, con_pairwise_info = info,
     con_initiation_type = Inviter, con_state = InviterInitial\<rparr>"

definition pairwise_invitation :: "string \<Rightarrow> (Inviter, 's) Con \<Rightarrow> string list \<Rightarrow> string \<Rightarrow> Invitation" where
  "pairwise_invitation i c rks service_endpoint =
     \<lparr>mp_id = i,
      mp_content = Inv_Pairwise \<lparr>pw_label = con_source_id c, pw_recipient_keys = [pw_vk (con_pairwise_info c)],
        pw_routing_keys = rks, pw_service_endpoint = service_endpoint\<rparr>,
      mp_decorators = \<lparr>td_timing = None\<rparr>\<rparr>"

definition create_invitation ::
  "string \<Rightarrow> InviterInitial InviterConnection \<Rightarrow> string list \<Rightarrow> string \<Rightarrow> InviterInvited InviterConnection" where
  "create_invitation uuid c rks service_endpoint =
     with_state c \<lparr>eri_invitation = Any_Con (pairwise_invitation uuid c rks service_endpoint)\<rparr>"

definition into_invited :: "InviterInitial InviterConnection \<Rightarrow> string \<Rightarrow> InviterInvited InviterConnection" where
  "into_invited c thread_id =
     with_state c \<lparr>eri_invitation =
       Any_Con (pairwise_invitation thread_id c [] ''https://dummy.dummy/dummy'')\<rparr>"

definition response_doc :: "PairwiseInfo \<Rightarrow> string \<Rightarrow> string list \<Rightarrow> AriesDidDoc" where
  "response_doc info service_endpoint rks =
     set_recipient_keys [pw_vk info]
       (set_routing_keys rks
         (set_service_endpoint service_endpoint (set_id (pw_did info) default_did_doc)))"

definition build_response_content ::
  "key_ext \<Rightarrow> wire \<Rightarrow> 'w wallet \<Rightarrow> 'w \<Rightarrow> string \<Rightarrow> DateTime \<Rightarrow> u64 \<Rightarrow> InviterInvited InviterConnection \<Rightarrow>
   string \<Rightarrow> PairwiseInfo \<Rightarrow> string \<Rightarrow> string list \<Rightarrow> Response VcxResult" where
  "build_response_content K Z W w uuid now ts c thread_id new_info new_service_endpoint new_rks =
     (let con_data = \<lparr>cn_did = pw_did new_info,
            cn_did_doc = response_doc new_info new_service_endpoint new_rks\<rparr>
      in and_then (sign_connection_response K Z W w ts (pw_vk (con_pairwise_info c)) con_data) (\<lambda>con_sig.
         Ok \<lparr>mp_id = uuid, mp_content = \<lparr>rs_connection_sig = con_sig\<rparr>,
           mp_decorators = \<lparr>pd_thread = new_thread thread_id, pd_please_ack = None,
             pd_timing = Some (timing_out now)\<rparr>\<rparr>))"

definition request_thread_id :: "Request \<Rightarrow> string" where
  "request_thread_id request =
     (case od_thread (mp_decorators request) of Some t \<Rightarrow> thid t | None \<Rightarrow> mp_id request)"

definition handle_request ::
  "ext \<Rightarrow> dd_ext \<Rightarrow> key_ext \<Rightarrow> wire \<Rightarrow> 'w wallet \<Rightarrow> 'w \<Rightarrow> string \<Rightarrow> DateTime \<Rightarrow> u64 \<Rightarrow>
   InviterInvited InviterConnection \<Rightarrow> Request \<Rightarrow> string \<Rightarrow> string list \<Rightarrow>
   InviterRequested InviterConnection VcxResult \<times> 'w" where
  "handle_request E X K Z W w uuid now ts c request new_service_endpoint new_rks =
     and_thenw (pure_w (verify_thread_id E (invited_thread_id (eri_invitation (con_state c)))
         (Connection (Con_Request request))) w) (\<lambda>_ w.
     and_thenw (pure_w (from_diddoc (validate_did_doc X (cn_did_doc (rc_connection (mp_content request))))) w)
       (\<lambda>_ w.
     and_thenw (PairwiseInfo_create K W w) (\<lambda>new_info w.
     and_thenw (pure_w (build_response_content K Z W w uuid now ts c (request_thread_id request) new_info
         new_service_endpoint new_rks) w) (\<lambda>content w.
     (Ok \<lparr>con_source_id = con_source_id c, con_pairwise_info = new_info,
        con_initiation_type = con_initiation_type c,
        con_state = \<lparr>err_signed_response = content,
          err_did_doc = cn_did_doc (rc_connection (mp_content request))\<rparr>\<rparr>, w)))))"

definition get_connection_response_msg :: "InviterRequested InviterConnection \<Rightarrow> Response" where
  "get_connection_response_msg c = err_signed_response (con_state c)"

definition acknowledge_connection ::
  "InviterRequested InviterConnection \<Rightarrow> AriesMessage \<Rightarrow> InviterCompleted InviterConnection VcxResult" where
  "acknowledge_connection c msg =
     Ok (with_state c \<lparr>erc_did_doc = err_did_doc (con_state c),
       erc_thread_id = inviter_requested_thread_id (con_state c), erc_protocols = None\<rparr>)"

section \<open>Connections of any state\<close>

datatype ConState = Initial | Invited | Requested | Responded | Completed
datatype ThinState = Thin_Invitee ConState | Thin_Inviter ConState

fun state_of_inviter :: "InviterState \<Rightarrow> ConState" where
  "state_of_inviter (Er_Initial _) = Initial"
| "state_of_inviter (Er_Invited _) = Invited"
| "state_of_inviter (Er_Requested _) = Requested"
| "state_of_inviter (Er_Completed _) = Completed"

fun state_of_invitee :: "InviteeState \<Rightarrow> ConState" where
  "state_of_invitee (Ee_Initial _) = Initial"
| "state_of_invitee (Ee_Invited _) = Invited"
| "state_of_invitee (Ee_Requested _) = Requested"
| "state_of_invitee (Ee_Completed _) = Completed"

fun thin_state :: "GenericState \<Rightarrow> ThinState" where
  "thin_state (Gen_Invitee v) = Thin_Invitee (state_of_invitee v)"
| "thin_state (Gen_Inviter v) = Thin_Inviter (state_of_inviter v)"

definition generic_state :: "GenericConnection \<Rightarrow> ThinState" where
  "generic_state g = thin_state (gc_state g)"

text \<open>\<open>From\<close> a concrete connection, given the constructor of its state; \<open>TryFrom\<close>, given its inverse.\<close>

definition into_generic :: "('s \<Rightarrow> GenericState) \<Rightarrow> ('i, 's) Con \<Rightarrow> GenericConnection" where
  "into_generic con c = \<lparr>gc_source_id = con_source_id c, gc_pairwise_info = con_pairwise_info c,
     gc_state = con (con_state c)\<rparr>"

definition try_invitee ::
  "con_ext \<Rightarrow> (InviteeState \<Rightarrow> 's option) \<Rightarrow> GenericConnection \<Rightarrow> 's InviteeConnection VcxResult" where
  "try_invitee D sel g =
     and_then (case gc_state g of
         Gen_Invitee s \<Rightarrow> ok_or (sel s)
           (from_msg InvalidState (''unexpected connection state: '' @ cx_debug_invitee D s @ ''!''))
       | Gen_Inviter _ \<Rightarrow> vcx_err InvalidState
           ''Expected VagueState::Inviteeconnection state, found VagueState::Inviter'') (\<lambda>s.
     Ok \<lparr>con_source_id = gc_source_id g, con_pairwise_info = gc_pairwise_info g,
       con_initiation_type = Invitee, con_state = s\<rparr>)"

definition try_inviter ::
  "con_ext \<Rightarrow> (InviterState \<Rightarrow> 's option) \<Rightarrow> GenericConnection \<Rightarrow> 's InviterConnection VcxResult" where
  "try_inviter D sel g =
     and_then (case gc_state g of
         Gen_Inviter s \<Rightarrow> ok_or (sel s)
           (from_msg InvalidState (''unexpected connection state: '' @ cx_debug_inviter D s @ ''!''))
       | Gen_Invitee _ \<Rightarrow> vcx_err InvalidState
           ''Expected VagueState::Inviterconnection state, found VagueState::Invitee'') (\<lambda>s.
     Ok \<lparr>con_source_id = gc_source_id g, con_pairwise_info = gc_pairwise_info g,
       con_initiation_type = Inviter, con_state = s\<rparr>)"

fun ee_initial :: "InviteeState \<Rightarrow> InviteeInitial option" where
  "ee_initial (Ee_Initial s) = Some s" | "ee_initial _ = None"

fun ee_invited :: "InviteeState \<Rightarrow> InviteeInvited option" where
  "ee_invited (Ee_Invited s) = Some s" | "ee_invited _ = None"

fun ee_requested :: "InviteeState \<Rightarrow> InviteeRequested option" where
  "ee_requested (Ee_Requested s) = Some s" | "ee_requested _ = None"

fun ee_completed :: "InviteeState \<Rightarrow> InviteeCompleted option" where
  "ee_completed (Ee_Completed s) = Some s" | "ee_completed _ = None"

fun er_initial :: "InviterState \<Rightarrow> InviterInitial option" where
  "er_initial (Er_Initial s) = Some s" | "er_initial _ = None"

fun er_invited :: "InviterState \<Rightarrow> InviterInvited option" where
  "er_invited (Er_Invited s) = Some s" | "er_invited _ = None"

fun er_requested :: "InviterState \<Rightarrow> InviterRequested option" where
  "er_requested (Er_Requested s) = Some s" | "er_requested _ = None"

fun er_completed :: "InviterState \<Rightarrow> InviterCompleted option" where
  "er_completed (Er_Completed s) = Some s" | "er_completed _ = None"

fun generic_thread_id :: "GenericState \<Rightarrow> string option" where
  "generic_thread_id (Gen_Invitee (Ee_Initial _)) = None"
| "generic_thread_id (Gen_Invitee (Ee_Invited s)) = Some (invited_thread_id (eei_invitation s))"
| "generic_thread_id (Gen_Invitee (Ee_Requested s)) = Some (eer_thread_id s)"
| "generic_thread_id (Gen_Invitee (Ee_Completed s)) = Some (eec_thread_id s)"
| "generic_thread_id (Gen_Inviter (Er_Initial _)) = None"
| "generic_thread_id (Gen_Inviter (Er_Invited s)) = Some (invited_thread_id (eri_invitation s))"
| "generic_thread_id (Gen_Inviter (Er_Requested s)) = Some (inviter_requested_thread_id s)"
| "generic_thread_id (Gen_Inviter (Er_Completed s)) = Some (erc_thread_id s)"

fun generic_their_did_doc :: "GenericState \<Rightarrow> AriesDidDoc option" where
  "generic_their_did_doc (Gen_Invitee (Ee_Initial _)) = None"
| "generic_their_did_doc (Gen_Invitee (Ee_Invited s)) = Some (eei_did_doc s)"
| "generic_their_did_doc (Gen_Invitee (Ee_Requested s)) = Some (eer_did_doc s)"
| "generic_their_did_doc (Gen_Invitee (Ee_Completed s)) = Some (eec_did_doc s)"
| "generic_their_did_doc (Gen_Inviter (Er_Initial _)) = None"
| "generic_their_did_doc (Gen_Inviter (Er_Invited _)) = None"
| "generic_their_did_doc (Gen_Inviter (Er_Requested s)) = Some (err_did_doc s)"
| "generic_their_did_doc (Gen_Inviter (Er_Completed s)) = Some (erc_did_doc s)"

fun generic_bootstrap_did_doc :: "GenericState \<Rightarrow> AriesDidDoc option" where
  "generic_bootstrap_did_doc (Gen_Inviter _) = None"
| "generic_bootstrap_did_doc (Gen_Invitee (Ee_Initial _)) = None"
| "generic_bootstrap_did_doc (Gen_Invitee (Ee_Invited s)) = Some (eei_did_doc s)"
| "generic_bootstrap_did_doc (Gen_Invitee (Ee_Requested s)) = Some (eer_did_doc s)"
| "generic_bootstrap_did_doc (Gen_Invitee (Ee_Completed s)) = Some (eec_bootstrap_did_doc s)"

fun generic_invitation :: "GenericState \<Rightarrow> AnyInvitation option" where
  "generic_invitation (Gen_Inviter (Er_Invited s)) = Some (eri_invitation s)"
| "generic_invitation (Gen_Invitee (Ee_Invited s)) = Some (eei_invitation s)"
| "generic_invitation _ = None"

definition no_doc :: "'a VcxResult" where
  "no_doc = vcx_err NotReady ''No DidDoc present''"

definition generic_remote_did :: "GenericConnection \<Rightarrow> string option" where
  "generic_remote_did g = map_option dd_id (generic_their_did_doc (gc_state g))"

definition generic_remote_vk :: "dd_ext \<Rightarrow> GenericConnection \<Rightarrow> string VcxResult" where
  "generic_remote_vk X g =
     (case generic_their_did_doc (gc_state g) of Some d \<Rightarrow> remote_vk_of X d | None \<Rightarrow> no_doc)"

section \<open>Messages over a connection\<close>

definition encrypt_message ::
  "ext \<Rightarrow> dd_ext \<Rightarrow> key_ext \<Rightarrow> msg_codecs \<Rightarrow> 'w wallet \<Rightarrow> 'w \<Rightarrow> (nat \<Rightarrow> string) \<Rightarrow> PairwiseInfo \<Rightarrow>
   AriesDidDoc \<Rightarrow> AriesMessage \<Rightarrow> string VcxResult" where
  "encrypt_message E X K R W w uuid info their_did_doc message =
     create_from_legacy E X K R W w uuid (message_text E R message) (Some (pw_vk info)) their_did_doc"

text \<open>The transport is an argument: it is given the envelope and the endpoint, and may fail.\<close>

definition send_message ::
  "ext \<Rightarrow> dd_ext \<Rightarrow> key_ext \<Rightarrow> msg_codecs \<Rightarrow> 'w wallet \<Rightarrow> 'w \<Rightarrow> (nat \<Rightarrow> string) \<Rightarrow>
   (string \<Rightarrow> string \<Rightarrow> unit VcxResult) \<Rightarrow> PairwiseInfo \<Rightarrow> AriesDidDoc \<Rightarrow> AriesMessage \<Rightarrow> unit VcxResult" where
  "send_message E X K R W w uuid transport info their_did_doc message =
     and_then (encrypt_message E X K R W w uuid info their_did_doc message) (\<lambda>msg.
     and_then (ok_or (get_endpoint their_did_doc) (from_msg InvalidUrl ''No URL in DID Doc'')) (\<lambda>endpoint.
     transport msg endpoint))"

definition generic_encrypt_message ::
  "ext \<Rightarrow> dd_ext \<Rightarrow> key_ext \<Rightarrow> msg_codecs \<Rightarrow> 'w wallet \<Rightarrow> 'w \<Rightarrow> (nat \<Rightarrow> string) \<Rightarrow> GenericConnection \<Rightarrow>
   AriesMessage \<Rightarrow> string VcxResult" where
  "generic_encrypt_message E X K R W w uuid g message =
     (case generic_their_did_doc (gc_state g) of
        Some d \<Rightarrow> encrypt_message E X K R W w uuid (gc_pairwise_info g) d message
      | None \<Rightarrow> no_doc)"

definition generic_send_message ::
  "ext \<Rightarrow> dd_ext \<Rightarrow> key_ext \<Rightarrow> msg_codecs \<Rightarrow> 'w wallet \<Rightarrow> 'w \<Rightarrow> (nat \<Rightarrow> string) \<Rightarrow>
   (string \<Rightarrow> string \<Rightarrow> unit VcxResult) \<Rightarrow> GenericConnection \<Rightarrow> AriesMessage \<Rightarrow> unit VcxResult" where
  "generic_send_message E X K R W w uuid transport g message =
     (case generic_their_did_doc (gc_state g) of
        Some d \<Rightarrow>
          and_then (generic_encrypt_message E X K R W w uuid g message) (\<lambda>msg.
          and_then (ok_or (get_endpoint d) (from_msg InvalidUrl ''No URL in DID Doc'')) (\<lambda>endpoint.
          transport msg endpoint))
      | None \<Rightarrow> no_doc)"

section \<open>Steps\<close>

text \<open>
  One step is one successful operation on a connection in the state the operation requires, seen
  through \<open>GenericConnection\<close>. The wallet may change between steps.
\<close>

inductive con_step ::
  "ext \<Rightarrow> dd_ext \<Rightarrow> key_ext \<Rightarrow> wire \<Rightarrow> led_ext \<Rightarrow> indy_read \<Rightarrow> con_ext \<Rightarrow> 'w wallet \<Rightarrow>
   GenericConnection \<Rightarrow> GenericConnection \<Rightarrow> bool"
  for E X K Z G L D W where
  accept: "try_invitee D ee_initial g = Ok c \<Longrightarrow> accept_invitation E Z K G L c i = Ok c' \<Longrightarrow>
    con_step E X K Z G L D W g (into_generic (Gen_Invitee \<circ> Ee_Invited) c')"
| prepare: "try_invitee D ee_invited g = Ok c \<Longrightarrow> prepare_request uuid now c e rks = Ok c' \<Longrightarrow>
    con_step E X K Z G L D W g (into_generic (Gen_Invitee \<circ> Ee_Requested) c')"
| response: "try_invitee D ee_requested g = Ok c \<Longrightarrow> handle_response E X K Z D W w c r = Ok c' \<Longrightarrow>
    con_step E X K Z G L D W g (into_generic (Gen_Invitee \<circ> Ee_Completed) c')"
| invitee_disclose: "try_invitee D ee_completed g = Ok c \<Longrightarrow>
    con_step E X K Z G L D W g (into_generic (Gen_Invitee \<circ> Ee_Completed)
      (with_state c (invitee_handle_disclose (con_state c) d)))"
| invite: "try_inviter D er_initial g = Ok c \<Longrightarrow>
    con_step E X K Z G L D W g (into_generic (Gen_Inviter \<circ> Er_Invited) (create_invitation uuid c rks e))"
| into: "try_inviter D er_initial g = Ok c \<Longrightarrow>
    con_step E X K Z G L D W g (into_generic (Gen_Inviter \<circ> Er_Invited) (into_invited c t))"
| request: "try_inviter D er_invited g = Ok c \<Longrightarrow>
    handle_request E X K Z W w uuid now ts c r e rks = (Ok c', w') \<Longrightarrow>
    con_step E X K Z G L D W g (into_generic (Gen_Inviter \<circ> Er_Requested) c')"
| acknowledge: "try_inviter D er_requested g = Ok c \<Longrightarrow> acknowledge_connection c m = Ok c' \<Longrightarrow>
    con_step E X K Z G L D W g (into_generic (Gen_Inviter \<circ> Er_Completed) c')"
| inviter_disclose: "try_inviter D er_completed g = Ok c \<Longrightarrow>
    con_step E X K Z G L D W g (into_generic (Gen_Inviter \<circ> Er_Completed)
      (with_state c (inviter_handle_disclose (con_state c) d)))"

text \<open>The order of the states, as the protocol has it: one step forward at a time, on each side.\<close>

fun con_edge :: "ThinState \<Rightarrow> ThinState \<Rightarrow> bool" where
  "con_edge (Thin_Invitee a) (Thin_Invitee b) =
     ((a, b) \<in> {(Initial, Invited), (Invited, Requested), (Requested, Completed)})"
| "con_edge (Thin_Inviter a) (Thin_Inviter b) =
     ((a, b) \<in> {(Initial, Invited), (Invited, Requested), (Requested, Completed)})"
| "con_edge _ _ = False"

fun con_open :: "ThinState \<Rightarrow> bool" where
  "con_open (Thin_Invitee s) = (s \<in> {Initial, Invited})"
| "con_open (Thin_Inviter s) = (s \<in> {Initial, Invited})"

definition con_thread :: "GenericConnection \<Rightarrow> string" where
  "con_thread g = unwrap_default (generic_thread_id (gc_state g)) []"

lemma ee_selectors [simp]:
  "ee_initial s = Some x \<longleftrightarrow> s = Ee_Initial x" "ee_invited s = Some i \<longleftrightarrow> s = Ee_Invited i"
  "ee_requested s = Some r \<longleftrightarrow> s = Ee_Requested r" "ee_completed s = Some c \<longleftrightarrow> s = Ee_Completed c"
  by (cases s; auto)+

lemma er_selectors [simp]:
  "er_initial s = Some x \<longleftrightarrow> s = Er_Initial x" "er_invited s = Some i \<longleftrightarrow> s = Er_Invited i"
  "er_requested s = Some r \<longleftrightarrow> s = Er_Requested r" "er_completed s = Some c \<longleftrightarrow> s = Er_Completed c"
  by (cases s; auto)+

lemma try_invitee_Ok:
  "try_invitee D sel g = Ok c \<longleftrightarrow> (\<exists>s x. gc_state g = Gen_Invitee s \<and> sel s = Some x \<and>
     c = \<lparr>con_source_id = gc_source_id g, con_pairwise_info = gc_pairwise_info g,
       con_initiation_type = Invitee, con_state = x\<rparr>)"
  by (auto simp: try_invitee_def split: GenericState.splits)

lemma try_inviter_Ok:
  "try_inviter D sel g = Ok c \<longleftrightarrow> (\<exists>s x. gc_state g = Gen_Inviter s \<and> sel s = Some x \<and>
     c = \<lparr>con_source_id = gc_source_id g, con_pairwise_info = gc_pairwise_info g,
       con_initiation_type = Inviter, con_state = x\<rparr>)"
  by (auto simp: try_inviter_def split: GenericState.splits)

lemma handle_request_Ok:
  assumes "handle_request E X K Z W w uuid now ts c r e rks = (Ok c', w')"
  obtains info where
    "is_match (Connection (Con_Request r)) (invited_thread_id (eri_invitation (con_state c)))"
    "validate_did_doc X (cn_did_doc (rc_connection (mp_content r))) = Ok ()"
    "PairwiseInfo_create K W w = (Ok info, w')"
    "build_response_content K Z W w' uuid now ts c (request_thread_id r) info e rks =
       Ok (err_signed_response (con_state c'))"
    "con_source_id c' = con_source_id c" "con_pairwise_info c' = info"
    "err_did_doc (con_state c') = cn_did_doc (rc_connection (mp_content r))"
  using assms
  by (auto simp: handle_request_def and_thenw_Ok pure_w_def from_diddoc_def simp del: and_thenw_pure)

lemma build_response_thread:
  "build_response_content K Z W w uuid now ts c t info e rks = Ok r \<Longrightarrow> thid (pd_thread (mp_decorators r)) = t"
  by (auto simp: build_response_content_def Let_def)

lemma first_or_Ok: "(case ks of k # _ \<Rightarrow> Ok k | [] \<Rightarrow> Err e) = Ok v \<longleftrightarrow> (\<exists>rest. ks = v # rest)"
  by (cases ks) auto

lemma handle_response_Ok:
  assumes "handle_response E X K Z D W w c r = Ok c'"
  obtains vk con_data ks where
    "matches_thread_id (pd_thread (mp_decorators r)) (eer_thread_id (con_state c))"
    "recipient_keys X (eer_did_doc (con_state c)) = Ok (vk # ks)"
    "decode_signed_connection_response K Z W w (mp_content r) vk = Ok con_data"
    "c' = with_state c \<lparr>eec_did_doc = cn_did_doc con_data, eec_bootstrap_did_doc = eer_did_doc (con_state c),
       eec_thread_id = eer_thread_id (con_state c), eec_protocols = None\<rparr>"
  using assms
  by (auto simp: handle_response_def Let_def from_diddoc_def first_or_Ok split: if_splits)

interpretation con: threaded_machine
  "con_step E X K Z G L D W" generic_state con_edge "\<lambda>_. False" gc_source_id con_thread con_open
proof
  fix s t
  assume step: "con_step E X K Z G L D W s t"
  show "generic_state t = generic_state s \<or> con_edge (generic_state s) (generic_state t)"
    using step by cases (auto simp: generic_state_def into_generic_def try_invitee_Ok try_inviter_Ok)
  show "gc_source_id t = gc_source_id s"
    using step
    by cases (auto simp: into_generic_def try_invitee_Ok try_inviter_Ok accept_invitation_def
        prepare_request_def Let_def create_invitation_def into_invited_def acknowledge_connection_def
        elim!: handle_request_Ok handle_response_Ok)
  show "\<not> con_open (generic_state s) \<Longrightarrow> con_thread t = con_thread s"
    using step
    by cases (auto simp: generic_state_def into_generic_def try_invitee_Ok try_inviter_Ok con_thread_def
        acknowledge_connection_def invitee_handle_disclose_def inviter_handle_disclose_def
        elim!: handle_response_Ok)
  show "con_open (generic_state t) \<Longrightarrow> con_open (generic_state s)"
    using step by cases (auto simp: generic_state_def into_generic_def try_invitee_Ok try_inviter_Ok)
qed simp

section \<open>The typed and the untyped view\<close>

lemma invitee_back: "(\<And>s. sel (con s) = Some s) \<Longrightarrow> try_invitee D sel (into_generic (Gen_Invitee \<circ> con) k) = Ok k"
  by (cases k; cases "con_initiation_type k") (simp add: try_invitee_def into_generic_def)

lemma inviter_back: "(\<And>s. sel (con s) = Some s) \<Longrightarrow> try_inviter D sel (into_generic (Gen_Inviter \<circ> con) k) = Ok k"
  by (cases k; cases "con_initiation_type k") (simp add: try_inviter_def into_generic_def)

text \<open>A conversion that succeeds in the one state \<open>st\<close> and is an \<open>InvalidState\<close> error in every other.\<close>

definition only_in :: "ThinState \<Rightarrow> GenericConnection \<Rightarrow> 'a VcxResult \<Rightarrow> bool" where
  "only_in st i r \<longleftrightarrow> (case r of
     Ok _ \<Rightarrow> generic_state i = st
   | Err e \<Rightarrow> err_kind e = InvalidState \<and> generic_state i \<noteq> st
   | Panic \<Rightarrow> False)"

lemma only_in_conversions:
  "only_in (Thin_Invitee Initial) i (try_invitee D ee_initial i)"
  "only_in (Thin_Invitee Invited) i (try_invitee D ee_invited i)"
  "only_in (Thin_Invitee Requested) i (try_invitee D ee_requested i)"
  "only_in (Thin_Invitee Completed) i (try_invitee D ee_completed i)"
  "only_in (Thin_Inviter Initial) i (try_inviter D er_initial i)"
  "only_in (Thin_Inviter Invited) i (try_inviter D er_invited i)"
  "only_in (Thin_Inviter Requested) i (try_inviter D er_requested i)"
  "only_in (Thin_Inviter Completed) i (try_inviter D er_completed i)"
  by (cases "gc_state i"; rename_tac s; case_tac s;
      simp add: only_in_def generic_state_def try_invitee_def try_inviter_def)+

text \<open>
  C28. Each of the eight conversions from the untyped form gives back, unchanged, a connection that was put
  into that form in its state, and succeeds for that role and state only: for any other it is an
  \<open>InvalidState\<close> error.
\<close>

theorem generic_conversion:
  "try_invitee D ee_initial (into_generic (Gen_Invitee \<circ> Ee_Initial) a) = Ok a \<and>
   try_invitee D ee_invited (into_generic (Gen_Invitee \<circ> Ee_Invited) b) = Ok b \<and>
   try_invitee D ee_requested (into_generic (Gen_Invitee \<circ> Ee_Requested) c) = Ok c \<and>
   try_invitee D ee_completed (into_generic (Gen_Invitee \<circ> Ee_Completed) d) = Ok d \<and>
   try_inviter D er_initial (into_generic (Gen_Inviter \<circ> Er_Initial) e) = Ok e \<and>
   try_inviter D er_invited (into_generic (Gen_Inviter \<circ> Er_Invited) f) = Ok f \<and>
   try_inviter D er_requested (into_generic (Gen_Inviter \<circ> Er_Requested) g) = Ok g \<and>
   try_inviter D er_completed (into_generic (Gen_Inviter \<circ> Er_Completed) h) = Ok h \<and>
   only_in (Thin_Invitee Initial) i (try_invitee D ee_initial i) \<and>
   only_in (Thin_Invitee Invited) i (try_invitee D ee_invited i) \<and>
   only_in (Thin_Invitee Requested) i (try_invitee D ee_requested i) \<and>
   only_in (Thin_Invitee Completed) i (try_invitee D ee_completed i) \<and>
   only_in (Thin_Inviter Initial) i (try_inviter D er_initial i) \<and>
   only_in (Thin_Inviter Invited) i (try_inviter D er_invited i) \<and>
   only_in (Thin_Inviter Requested) i (try_inviter D er_requested i) \<and>
   only_in (Thin_Inviter Completed) i (try_inviter D er_completed i)"
  by (intro conjI invitee_back inviter_back only_in_conversions) simp_all

section \<open>Runs\<close>

text \<open>
  A connection follows the protocol: whatever sequence of operations succeeds on it, the states it
  passes are those of its own role, each one step after the last; the source id never changes, and
  from the request on the thread does not change either.
\<close>

theorem connection_follows_protocol:
  assumes "(con_step E X K Z G L D W)\<^sup>*\<^sup>* g h"
  shows "con_edge\<^sup>*\<^sup>* (generic_state g) (generic_state h) \<and> gc_source_id h = gc_source_id g \<and>
    (\<not> con_open (generic_state g) \<longrightarrow> con_thread h = con_thread g)"
  using con.steps_edges [OF assms] con.steps_source [OF assms] con.steps_thread [OF assms] by blast

text \<open>What a state promises about the request that was sent and the documents that are kept.\<close>

definition request_tells :: "PairwiseInfo \<Rightarrow> Request \<Rightarrow> bool" where
  "request_tells info r \<longleftrightarrow>
     (\<exists>e rks. rc_connection (mp_content r) =
        \<lparr>cn_did = pw_did info, cn_did_doc = key_doc (pw_did info) (pw_did info) e rks [pw_vk info]\<rparr>)"

lemma request_tellsI:
  "rc_connection (mp_content r) =
     \<lparr>cn_did = pw_did info, cn_did_doc = key_doc (pw_did info) (pw_did info) e rks [pw_vk info]\<rparr> \<Longrightarrow>
   request_tells info r"
  by (auto simp: request_tells_def)

fun con_inv :: "dd_ext \<Rightarrow> PairwiseInfo \<Rightarrow> GenericState \<Rightarrow> bool" where
  "con_inv X info (Gen_Invitee (Ee_Requested s)) \<longleftrightarrow>
     request_tells info (eer_request s) \<and> request_thread_id (eer_request s) = eer_thread_id s"
| "con_inv X info (Gen_Inviter (Er_Requested s)) \<longleftrightarrow> validate_did_doc X (err_did_doc s) = Ok ()"
| "con_inv X info (Gen_Inviter (Er_Completed s)) \<longleftrightarrow> validate_did_doc X (erc_did_doc s) = Ok ()"
| "con_inv X info _ \<longleftrightarrow> True"

lemma request_doc_eq: "request_doc info e rks = key_doc (pw_did info) (pw_did info) e rks [pw_vk info]"
  using build_doc_id_first(1) [of "[pw_vk info]" rks e "pw_did info"]
  by (simp add: request_doc_def set_id_def)

lemma response_doc_eq: "response_doc info e rks = key_doc (pw_did info) (pw_did info) e rks [pw_vk info]"
  by (simp add: response_doc_def build_doc_id_first)

text \<open>
  C27. Invariant of every run from a new connection: the request an invitee has sent names the invitee's
  own DID and key and carries the thread the invitee waits on, and an inviter that has seen a request
  holds a DID document that passed validation.
\<close>

theorem connection_invariant:
  assumes "(con_step E X K Z G L D W)\<^sup>*\<^sup>* g h"
    and "generic_state g = Thin_Invitee Initial \<or> generic_state g = Thin_Inviter Initial"
  shows "con_inv X (gc_pairwise_info h) (gc_state h)"
  using assms(1)
proof (induction rule: rtranclp_induct)
  case base
  from assms(2) show ?case
    by (cases "gc_state g"; rename_tac s; case_tac s) (auto simp: generic_state_def)
next
  case (step t u)
  from step.hyps(2) show ?case
  proof cases
    case (prepare c uuid now e rks c')
    then show ?thesis
      by (auto simp: prepare_request_def Let_def into_generic_def request_doc_eq request_thread_id_def
          intro: request_tellsI)
  next
    case (request c w uuid now ts r e rks c' w')
    then show ?thesis by (auto simp: into_generic_def elim!: handle_request_Ok)
  next
    case (acknowledge c m c')
    with step.IH show ?thesis by (auto simp: acknowledge_connection_def into_generic_def try_inviter_Ok)
  next
    case (inviter_disclose c d)
    with step.IH show ?thesis by (auto simp: inviter_handle_disclose_def into_generic_def try_inviter_Ok)
  qed (auto simp: into_generic_def)
qed

section \<open>The handshake\<close>

text \<open>
  C11. Only the inviter can complete an invitee's connection: a response that an invitee accepts is on
  the invitee's thread, carries a signature that the wallet verifies under the first recipient key of
  the invitation's document over the very bytes the new document is read from, and names that key as
  its signer. The document of the invitation is kept beside the new one.
\<close>

theorem invitee_response_authentic:
  assumes "handle_response E X K Z D W w c r = Ok c'"
  shows "\<exists>vk ks k s d con_data.
    matches_thread_id (pd_thread (mp_decorators r)) (eer_thread_id (con_state c)) \<and>
    recipient_keys X (eer_did_doc (con_state c)) = Ok (vk # ks) \<and>
    from_base58 K vk Ed25519 = Ok k \<and> cs_signer (rs_connection_sig (mp_content r)) = vk \<and>
    wr_b64url_decode Z (cs_signature (rs_connection_sig (mp_content r))) = Ok s \<and>
    wr_b64url_decode Z (cs_sig_data (rs_connection_sig (mp_content r))) = Ok d \<and>
    wl_verify W w k d s = Ok True \<and> wr_de_connection_data Z (drop 8 d) = Ok con_data \<and>
    eec_did_doc (con_state c') = cn_did_doc con_data \<and>
    eec_bootstrap_did_doc (con_state c') = eer_did_doc (con_state c) \<and>
    eec_thread_id (con_state c') = eer_thread_id (con_state c)"
proof -
  from assms obtain vk con_data ks where
    r: "matches_thread_id (pd_thread (mp_decorators r)) (eer_thread_id (con_state c))"
      "recipient_keys X (eer_did_doc (con_state c)) = Ok (vk # ks)"
      "decode_signed_connection_response K Z W w (mp_content r) vk = Ok con_data" and
    c': "c' = with_state c \<lparr>eec_did_doc = cn_did_doc con_data, eec_bootstrap_did_doc = eer_did_doc (con_state c),
       eec_thread_id = eer_thread_id (con_state c), eec_protocols = None\<rparr>"
    by (rule handle_response_Ok)
  from decode_signed_sound [OF r(3)] r(1,2) c' show ?thesis by (fastforce simp: with_state_def)
qed

lemma accept_pairwise:
  "accept_invitation E Z K G L c (Any_Con (pairwise_invitation i ic rks e)) =
     Ok (with_state c \<lparr>eei_did_doc = key_doc i i e rks [pw_vk (con_pairwise_info ic)],
       eei_invitation = Any_Con (pairwise_invitation i ic rks e)\<rparr>)"
  by (simp add: accept_invitation_def any_invitation_into_did_doc_def pairwise_invitation_def build_doc_id_first)

lemma pairwise_request:
  "\<exists>accepted requested.
    accept_invitation E Z K G L (new_invitee sid info) (Any_Con (pairwise_invitation i ic rks e)) = Ok accepted \<and>
    prepare_request uuid now accepted e' rks' = Ok requested \<and>
    con_pairwise_info requested = info \<and>
    eer_did_doc (con_state requested) = key_doc i i e rks [pw_vk (con_pairwise_info ic)] \<and>
    eer_thread_id (con_state requested) = i \<and>
    od_thread (mp_decorators (get_request requested)) = Some (new_thread i) \<and>
    cn_did_doc (rc_connection (mp_content (get_request requested))) = request_doc info e' rks'"
  by (simp add: accept_pairwise) (simp add: prepare_request_def get_request_def request_thread_def
      pairwise_invitation_def invited_thread_id_def new_invitee_def)

lemma key_doc_remote_vk:
  "valid_verkey X k \<Longrightarrow> remote_vk_of X (key_doc kd did e rks [k]) = Ok k"
  by (simp add: remote_vk_of_def key_doc_recipient_keys)

text \<open>
  A response to a request of this protocol, given that the wallet can create a key pair and sign with
  the key of the invitation.
\<close>

lemma handle_request_succeeds:
  assumes "is_match (Connection (Con_Request r)) (invited_thread_id (eri_invitation (con_state c)))"
    and "validate_did_doc X (cn_did_doc (rc_connection (mp_content r))) = Ok ()"
    and "PairwiseInfo_create K W w = (Ok info, w')"
    and "sign_connection_response K Z W w' ts (pw_vk (con_pairwise_info c))
      \<lparr>cn_did = pw_did info, cn_did_doc = response_doc info e rks\<rparr> = Ok con_sig"
  shows "handle_request E X K Z W w uuid now ts c r e rks =
    (Ok \<lparr>con_source_id = con_source_id c, con_pairwise_info = info,
        con_initiation_type = con_initiation_type c,
        con_state = \<lparr>err_signed_response = \<lparr>mp_id = uuid, mp_content = \<lparr>rs_connection_sig = con_sig\<rparr>,
           mp_decorators = \<lparr>pd_thread = new_thread (request_thread_id r), pd_please_ack = None,
             pd_timing = Some (timing_out now)\<rparr>\<rparr>,
          err_did_doc = cn_did_doc (rc_connection (mp_content r))\<rparr>\<rparr>, w')"
  using assms by (simp add: handle_request_def verify_thread_id_match build_response_content_def)

lemma handle_response_succeeds:
  assumes "eer_did_doc (con_state c) = key_doc kd did e rks [vk]" and "valid_verkey X vk"
    and "matches_thread_id (pd_thread (mp_decorators r)) (eer_thread_id (con_state c))"
    and "decode_signed_connection_response K Z W w (mp_content r) vk = Ok con_data"
  shows "handle_response E X K Z D W w c r = Ok (with_state c \<lparr>eec_did_doc = cn_did_doc con_data,
    eec_bootstrap_did_doc = eer_did_doc (con_state c), eec_thread_id = eer_thread_id (con_state c),
    eec_protocols = None\<rparr>)"
  using assms by (simp add: handle_response_def key_doc_recipient_keys)

lemma signed_response_accepted:
  assumes "b64url_inverse Z" "signatures_verify W" "connection_data_reads Z con_data"
    and "sign_connection_response K Z W w ts vk con_data = Ok con_sig"
    and "eer_did_doc (con_state c) = key_doc kd did e rks [vk]" and "valid_verkey X vk"
    and "mp_content r = \<lparr>rs_connection_sig = con_sig\<rparr>"
    and "pd_thread (mp_decorators r) = new_thread (eer_thread_id (con_state c))"
  shows "\<exists>c'. handle_response E X K Z D W v c r = Ok c' \<and> con_pairwise_info c' = con_pairwise_info c \<and>
    con_state c' = \<lparr>eec_did_doc = cn_did_doc con_data, eec_bootstrap_did_doc = eer_did_doc (con_state c),
      eec_thread_id = eer_thread_id (con_state c), eec_protocols = None\<rparr>"
  using handle_response_succeeds [OF assms(5,6), of r K Z W v con_data E D]
    decode_of_signed [OF assms(1,3,2,4)] assms(7,8) by simp

lemma wallet_signs_response:
  assumes "from_base58 K vk Ed25519 = Ok k" and "\<And>m. \<exists>s. wl_sign W w k m = Ok s"
  obtains con_sig where "sign_connection_response K Z W w ts vk con_data = Ok con_sig"
  using assms(1) assms(2) [of "to_be_bytes ts @ wr_ser_connection_data Z con_data"]
  by (auto simp: sign_connection_response_def get_signature_data_def Let_def)

text \<open>
  C4. The handshake completes. An inviter makes an invitation, the invitee accepts it and sends a
  request, the inviter answers with fresh keys, the invitee checks the answer and acknowledges it: all
  operations succeed, both sides end in the completed state on the thread of the invitation, and each
  side holds the other's document, from which the other's current key is read.
\<close>

theorem handshake_completes:
  assumes laws: "b64url_inverse Z" "signatures_verify W"
      "connection_data_reads Z \<lparr>cn_did = pw_did new_info, cn_did_doc = response_doc new_info e' rks'\<rparr>"
    and keys: "valid_verkey X (pw_vk info_r)" "valid_verkey X (pw_vk info_e)"
      "valid_verkey X (pw_vk new_info)" "\<forall>k \<in> set rks_e. valid_verkey X k" "pw_did info_e \<noteq> []"
    and wallet: "PairwiseInfo_create K W w = (Ok new_info, w')" "from_base58 K (pw_vk info_r) Ed25519 = Ok k"
      "\<And>m. \<exists>s. wl_sign W w' k m = Ok s"
  shows "\<exists>invited accepted requested responded invitee_done inviter_done.
    invited = create_invitation uuid1 (new_inviter sid_r info_r) rks_r e_r \<and>
    accept_invitation E Z K G L (new_invitee sid_e info_e) (eri_invitation (con_state invited)) = Ok accepted \<and>
    prepare_request uuid2 now2 accepted e_e rks_e = Ok requested \<and>
    handle_request E X K Z W w uuid3 now3 ts invited (get_request requested) e' rks' = (Ok responded, w') \<and>
    handle_response E X K Z D W v requested (get_connection_response_msg responded) = Ok invitee_done \<and>
    acknowledge_connection responded (Notification (Not_Ack (get_ack uuid4 now4 invitee_done))) = Ok inviter_done \<and>
    eec_thread_id (con_state invitee_done) = uuid1 \<and> erc_thread_id (con_state inviter_done) = uuid1 \<and>
    eec_did_doc (con_state invitee_done) = response_doc (con_pairwise_info inviter_done) e' rks' \<and>
    erc_did_doc (con_state inviter_done) = request_doc (con_pairwise_info invitee_done) e_e rks_e \<and>
    remote_vk_of X (eec_did_doc (con_state invitee_done)) = Ok (pw_vk (con_pairwise_info inviter_done)) \<and>
    remote_vk_of X (erc_did_doc (con_state inviter_done)) = Ok (pw_vk (con_pairwise_info invitee_done))"
proof -
  let ?invited = "create_invitation uuid1 (new_inviter sid_r info_r) rks_r e_r"
  let ?inv = "eri_invitation (con_state ?invited)"
  have inv: "?inv = Any_Con (pairwise_invitation uuid1 (new_inviter sid_r info_r) rks_r e_r)"
    by (simp add: create_invitation_def)
  have info_r: "con_pairwise_info (new_inviter sid_r info_r) = info_r" by (simp add: new_inviter_def)
  from pairwise_request [where ic = "new_inviter sid_r info_r"] obtain accepted requested where acc:
    "accept_invitation E Z K G L (new_invitee sid_e info_e) ?inv = Ok accepted" and req:
    "prepare_request uuid2 now2 accepted e_e rks_e = Ok requested" "con_pairwise_info requested = info_e"
    "eer_did_doc (con_state requested) = key_doc uuid1 uuid1 e_r rks_r [pw_vk info_r]"
    "eer_thread_id (con_state requested) = uuid1"
    "od_thread (mp_decorators (get_request requested)) = Some (new_thread uuid1)"
    "cn_did_doc (rc_connection (mp_content (get_request requested))) = request_doc info_e e_e rks_e"
    unfolding inv info_r by metis
  let ?r = "get_request requested"
  from wallet_signs_response [OF wallet(2,3)] obtain con_sig where sig:
    "sign_connection_response K Z W w' ts (pw_vk info_r)
      \<lparr>cn_did = pw_did new_info, cn_did_doc = response_doc new_info e' rks'\<rparr> = Ok con_sig" by metis
  then have sig': "sign_connection_response K Z W w' ts (pw_vk (con_pairwise_info ?invited))
      \<lparr>cn_did = pw_did new_info, cn_did_doc = response_doc new_info e' rks'\<rparr> = Ok con_sig"
    by (simp add: create_invitation_def info_r)
  have match: "is_match (Connection (Con_Request ?r)) (invited_thread_id ?inv)"
    by (simp add: req inv invited_thread_id_def pairwise_invitation_def)
  have valid: "validate_did_doc X (cn_did_doc (rc_connection (mp_content ?r))) = Ok ()"
    using keys by (simp add: req request_doc_eq key_doc_valid)
  from handle_request_succeeds [OF match valid wallet(1) sig'] obtain responded where resp:
    "handle_request E X K Z W w uuid3 now3 ts ?invited ?r e' rks' = (Ok responded, w')"
    "con_pairwise_info responded = new_info" "err_did_doc (con_state responded) = request_doc info_e e_e rks_e"
    "mp_content (get_connection_response_msg responded) = \<lparr>rs_connection_sig = con_sig\<rparr>"
    "pd_thread (mp_decorators (get_connection_response_msg responded)) = new_thread uuid1"
    by (simp add: req get_connection_response_msg_def request_thread_id_def)
  from signed_response_accepted [OF laws sig req(3) keys(1) resp(4), of E D v] obtain invitee_done where fin:
    "handle_response E X K Z D W v requested (get_connection_response_msg responded) = Ok invitee_done"
    "con_state invitee_done = \<lparr>eec_did_doc = response_doc new_info e' rks',
       eec_bootstrap_did_doc = eer_did_doc (con_state requested), eec_thread_id = uuid1, eec_protocols = None\<rparr>"
    "con_pairwise_info invitee_done = info_e"
    by (auto simp: req resp)
  have vks: "remote_vk_of X (response_doc new_info e' rks') = Ok (pw_vk new_info)"
    "remote_vk_of X (request_doc info_e e_e rks_e) = Ok (pw_vk info_e)"
    using keys by (simp_all add: response_doc_eq request_doc_eq key_doc_remote_vk)
  show ?thesis
    using acc req resp fin vks
    by (simp add: acknowledge_connection_def inviter_requested_thread_id_def get_connection_response_msg_def)
qed

text \<open>
  The two sides differ in what they check: an inviter refuses a request whose DID document does not
  validate, an invitee completes with any document its inviter signed, valid or not.
\<close>

theorem response_doc_not_validated:
  assumes laws: "b64url_inverse Z" "signatures_verify W" "connection_data_reads Z con_data"
    and signed: "sign_connection_response K Z W w ts vk con_data = Ok con_sig"
    and doc: "eer_did_doc (con_state c) = key_doc kd did e rks [vk]" "valid_verkey X vk"
    and invalid: "validate_did_doc X (cn_did_doc con_data) \<noteq> Ok ()"
    and r: "rc_connection (mp_content request) = con_data"
      "is_match (Connection (Con_Request request)) (invited_thread_id (eri_invitation (con_state ic)))"
  shows "map_ok (\<lambda>c'. eec_did_doc (con_state c')) (handle_response E X K Z D W v c
      \<lparr>mp_id = i, mp_content = \<lparr>rs_connection_sig = con_sig\<rparr>,
       mp_decorators = \<lparr>pd_thread = new_thread (eer_thread_id (con_state c)), pd_please_ack = None, pd_timing = None\<rparr>\<rparr>)
      = Ok (cn_did_doc con_data) \<and>
    fst (handle_request E X K Z W w uuid now ts' ic request e' rks') \<noteq> Ok ic'"
proof
  show "map_ok (\<lambda>c'. eec_did_doc (con_state c')) (handle_response E X K Z D W v c
      \<lparr>mp_id = i, mp_content = \<lparr>rs_connection_sig = con_sig\<rparr>,
       mp_decorators = \<lparr>pd_thread = new_thread (eer_thread_id (con_state c)), pd_please_ack = None, pd_timing = None\<rparr>\<rparr>)
      = Ok (cn_did_doc con_data)"
    using decode_of_signed [OF laws(1,3,2) signed] doc
    by (simp add: handle_response_def key_doc_recipient_keys)
  show "fst (handle_request E X K Z W w uuid now ts' ic request e' rks') \<noteq> Ok ic'"
  proof
    assume "fst (handle_request E X K Z W w uuid now ts' ic request e' rks') = Ok ic'"
    then have "handle_request E X K Z W w uuid now ts' ic request e' rks' =
        (Ok ic', snd (handle_request E X K Z W w uuid now ts' ic request e' rks'))" by (simp add: prod_eq_iff)
    with invalid r(1) show False by (auto elim!: handle_request_Ok)
  qed
qed

section \<open>A concrete run\<close>

definition sample_pair :: "string \<Rightarrow> PairwiseInfo" where
  "sample_pair d = \<lparr>pw_did = d, pw_vk = sample_verkey\<rparr>"

definition sample_cx :: con_ext where
  "sample_cx = \<lparr>cx_debug_response = (\<lambda>_. []), cx_debug_inviter = (\<lambda>_. []), cx_debug_invitee = (\<lambda>_. [])\<rparr>"

definition handshake_wire :: wire where
  "handshake_wire = sample_wire \<lparr>cn_did = ''did'', cn_did_doc = response_doc (sample_pair ''did'') ''u'' []\<rparr>"

lemma sample_create: "PairwiseInfo_create sample_kx sample_wallet w = (Ok (sample_pair ''did''), Suc w)"
  by (simp add: PairwiseInfo_create_def sample_wallet_def key_base58_def sample_kx_def sample_pair_def)

lemma sample_from_base58: "from_base58 sample_kx s t = Ok \<lparr>ky_type = t, ky_bytes = s\<rparr>"
  by (simp add: from_base58_def sample_kx_def)

lemma sample_signs: "wl_sign sample_wallet w k m = Ok (ky_bytes k @ m)"
  by (simp add: sample_wallet_def)

abbreviation sample_invited :: "InviterInvited InviterConnection" where
  "sample_invited \<equiv> create_invitation ''t'' (new_inviter ''a'' (sample_pair ''i'')) [] ''v''"

theorem handshake_completes_witness:
  "\<exists>accepted requested responded invitee_done inviter_done.
    accept_invitation counting_ext handshake_wire sample_kx (sample_led (Res_Reply (ReplyV0 JNull))) (sample_read [])
      (new_invitee ''b'' (sample_pair ''e'')) (eri_invitation (con_state sample_invited)) = Ok accepted \<and>
    prepare_request ''q'' 0 accepted ''w'' [] = Ok requested \<and>
    handle_request counting_ext sample_dx sample_kx handshake_wire sample_wallet 0 ''r'' 0 0 sample_invited
      (get_request requested) ''u'' [] = (Ok responded, 1) \<and>
    handle_response counting_ext sample_dx sample_kx handshake_wire sample_cx sample_wallet 0 requested
      (get_connection_response_msg responded) = Ok invitee_done \<and>
    acknowledge_connection responded (Notification (Not_Ack (get_ack ''k'' 0 invitee_done))) = Ok inviter_done \<and>
    eec_thread_id (con_state invitee_done) = ''t'' \<and> erc_thread_id (con_state inviter_done) = ''t''"
proof -
  have "connection_data_reads handshake_wire
      \<lparr>cn_did = pw_did (sample_pair ''did''), cn_did_doc = response_doc (sample_pair ''did'') ''u'' []\<rparr>"
    by (simp add: handshake_wire_def sample_pair_def)
  moreover have "b64url_inverse handshake_wire" by (simp add: handshake_wire_def)
  ultimately show ?thesis
    using handshake_completes [of handshake_wire sample_wallet "sample_pair ''did''" "''u''" "[]" sample_dx
        "sample_pair ''i''" "sample_pair ''e''" "[]" sample_kx 0 1] sample_create [of 0]
    by (simp add: sample_pair_def sample_from_base58 sample_signs) metis
qed

definition sample_requested :: "InviteeRequested InviteeConnection" where
  "sample_requested = \<lparr>con_source_id = ''b'', con_pairwise_info = sample_pair ''e'', con_initiation_type = Invitee,
     con_state = \<lparr>eer_did_doc = key_doc ''t'' ''t'' ''v'' [] [sample_verkey], eer_thread_id = ''t'',
       eer_request = \<lparr>mp_id = ''q'', mp_content = \<lparr>rc_label = ''b'', rc_connection = sample_con_data\<rparr>,
         mp_decorators = \<lparr>od_thread = None, od_timing = None\<rparr>\<rparr>\<rparr>\<rparr>"

definition sample_response :: "ConnectionSignature \<Rightarrow> Response" where
  "sample_response s = \<lparr>mp_id = ''r'', mp_content = \<lparr>rs_connection_sig = s\<rparr>,
     mp_decorators = \<lparr>pd_thread = new_thread ''t'', pd_please_ack = None, pd_timing = None\<rparr>\<rparr>"

lemma sample_sign:
  "\<exists>s. sign_connection_response sample_kx Z sample_wallet w ts vk c = Ok s"
  by (simp add: sign_connection_response_def get_signature_data_def sample_from_base58 sample_signs Let_def)

lemma sample_requested_facts:
  "eer_did_doc (con_state sample_requested) = key_doc ''t'' ''t'' ''v'' [] [sample_verkey]"
  "valid_verkey sample_dx sample_verkey"
  "matches_thread_id (pd_thread (mp_decorators (sample_response s))) (eer_thread_id (con_state sample_requested))"
  by (simp_all add: sample_requested_def sample_response_def)

lemma sample_handle_response:
  "\<exists>s c'. handle_response counting_ext sample_dx sample_kx (sample_wire sample_con_data) sample_cx sample_wallet 0
     sample_requested (sample_response s) = Ok c'"
proof -
  from sample_sign obtain s where "sign_connection_response sample_kx (sample_wire sample_con_data)
      sample_wallet 0 0 sample_verkey sample_con_data = Ok s" by metis
  from decode_of_signed [OF _ _ _ this] have "decode_signed_connection_response sample_kx
      (sample_wire sample_con_data) sample_wallet 0 \<lparr>rs_connection_sig = s\<rparr> sample_verkey = Ok sample_con_data"
    by simp
  then have "decode_signed_connection_response sample_kx (sample_wire sample_con_data) sample_wallet 0
      (mp_content (sample_response s)) sample_verkey = Ok sample_con_data"
    by (simp add: sample_response_def)
  from handle_response_succeeds [OF sample_requested_facts(1,2) sample_requested_facts(3) this]
  show ?thesis by blast
qed

theorem invitee_response_authentic_witness:
  "\<exists>c r c'. handle_response counting_ext sample_dx sample_kx (sample_wire sample_con_data) sample_cx sample_wallet 0 c r = Ok c' \<and>
     eec_bootstrap_did_doc (con_state c') = eer_did_doc (con_state c)"
proof -
  from sample_handle_response obtain r c' where
    r: "handle_response counting_ext sample_dx sample_kx (sample_wire sample_con_data) sample_cx sample_wallet 0
      sample_requested r = Ok c'" by metis
  from invitee_response_authentic [OF r] r show ?thesis by metis
qed

lemma default_doc_invalid: "validate_did_doc sample_dx default_did_doc \<noteq> Ok ()"
  by (simp add: validate_did_doc_def default_did_doc_def)

theorem response_doc_not_validated_witness:
  "\<exists>s c'. handle_response counting_ext sample_dx sample_kx (sample_wire sample_con_data) sample_cx sample_wallet 0
     sample_requested (sample_response s) = Ok c' \<and> eec_did_doc (con_state c') = default_did_doc"
proof -
  let ?req = "\<lparr>mp_id = ''q'', mp_content = \<lparr>rc_label = [], rc_connection = sample_con_data\<rparr>,
    mp_decorators = \<lparr>od_thread = None, od_timing = None\<rparr>\<rparr>"
  from sample_sign obtain s where s: "sign_connection_response sample_kx (sample_wire sample_con_data)
      sample_wallet 0 0 sample_verkey sample_con_data = Ok s" by metis
  have doc: "cn_did_doc sample_con_data = default_did_doc" by (simp add: sample_con_data_def)
  from response_doc_not_validated [where request = ?req and ic = sample_invited and c = sample_requested
      and i = "''r''" and X = sample_dx and E = counting_ext and D = sample_cx and v = 0,
      OF sample_wire_laws(1) sample_wallet_signs sample_wire_laws(2) s]
  have "map_ok (\<lambda>c'. eec_did_doc (con_state c')) (handle_response counting_ext sample_dx sample_kx
      (sample_wire sample_con_data) sample_cx sample_wallet 0 sample_requested (sample_response s)) = Ok default_did_doc"
    using default_doc_invalid doc by (simp add: sample_requested_def sample_response_def)
  then obtain c' where "handle_response counting_ext sample_dx sample_kx (sample_wire sample_con_data) sample_cx
      sample_wallet 0 sample_requested (sample_response s) = Ok c'" "default_did_doc = eec_did_doc (con_state c')"
    by auto
  then show ?thesis by metis
qed

theorem connection_follows_protocol_witness:
  "\<exists>g h. (con_step counting_ext sample_dx sample_kx (sample_wire sample_con_data)
       (sample_led (Res_Reply (ReplyV0 JNull))) (sample_read []) sample_cx sample_wallet)\<^sup>*\<^sup>* g h \<and>
     generic_state g = Thin_Invitee Requested \<and> generic_state h = Thin_Invitee Completed \<and> con_thread h = con_thread g"
proof -
  let ?g = "into_generic (Gen_Invitee \<circ> Ee_Requested) sample_requested"
  from sample_handle_response obtain r c' where
    r: "handle_response counting_ext sample_dx sample_kx (sample_wire sample_con_data) sample_cx sample_wallet 0
      sample_requested r = Ok c'" by metis
  have "try_invitee sample_cx ee_requested ?g = Ok sample_requested" by (rule invitee_back) simp
  from con_step.response [OF this r] have run: "(con_step counting_ext sample_dx sample_kx (sample_wire sample_con_data)
      (sample_led (Res_Reply (ReplyV0 JNull))) (sample_read []) sample_cx sample_wallet)\<^sup>*\<^sup>* ?g
      (into_generic (Gen_Invitee \<circ> Ee_Completed) c')" by blast
  have st: "generic_state ?g = Thin_Invitee Requested"
    "generic_state (into_generic (Gen_Invitee \<circ> Ee_Completed) c') = Thin_Invitee Completed"
    by (simp_all add: generic_state_def into_generic_def)
  moreover have "con_thread (into_generic (Gen_Invitee \<circ> Ee_Completed) c') = con_thread ?g"
    using connection_follows_protocol [OF run] st by simp
  ultimately show ?thesis using run by blast
qed

theorem connection_invariant_witness:
  "\<exists>h. (con_step counting_ext sample_dx sample_kx (sample_wire sample_con_data)
       (sample_led (Res_Reply (ReplyV0 JNull))) (sample_read []) sample_cx sample_wallet)\<^sup>*\<^sup>*
       (into_generic (Gen_Inviter \<circ> Er_Initial) (new_inviter ''a'' (sample_pair ''i''))) h \<and>
     generic_state h = Thin_Inviter Invited \<and> con_inv sample_dx (gc_pairwise_info h) (gc_state h)"
proof -
  let ?g = "into_generic (Gen_Inviter \<circ> Er_Initial) (new_inviter ''a'' (sample_pair ''i''))"
  have "try_inviter sample_cx er_initial ?g = Ok (new_inviter ''a'' (sample_pair ''i''))"
    by (rule inviter_back) simp
  from con_step.invite [OF this] have run: "(con_step counting_ext sample_dx sample_kx (sample_wire sample_con_data)
      (sample_led (Res_Reply (ReplyV0 JNull))) (sample_read []) sample_cx sample_wallet)\<^sup>*\<^sup>* ?g
      (into_generic (Gen_Inviter \<circ> Er_Invited) sample_invited)" by blast
  from connection_invariant [OF run] run show ?thesis
    by (auto simp: generic_state_def into_generic_def create_invitation_def)
qed

end
