(* ===== verification/Mediated_Connection.thy ===== *)
theory Mediated_Connection
  imports Connection_SM
begin

text \<open>
  The older connection protocol for agents that are reached through a mediator
  (\<open>protocols/mediated_connection\<close>): the machines \<open>SmMediatedConnectionInviter\<close> and
  \<open>SmMediatedConnectionInvitee\<close>. They have one more state, \<open>Responded\<close>, send their messages through a
  closure and fall back to \<open>Initial\<close> when something goes wrong. The closure is a function on the state
  \<open>n\<close> of the transport, which it may change even when it fails.
\<close>

type_synonym 'n SendClosureConnection = "AriesMessage \<Rightarrow> string \<Rightarrow> AriesDidDoc \<Rightarrow> 'n \<Rightarrow> unit VcxResult \<times> 'n"

text \<open>\<open>send_message(...).await.ok()\<close>: an error is dropped, a panic is not.\<close>

definition ignoring_errors :: "('e, 'a) result \<times> 'n \<Rightarrow> ('f, unit) result \<times> 'n" where
  "ignoring_errors rn = (case rn of (Panic, n) \<Rightarrow> (Panic, n) | (_, n) \<Rightarrow> (Ok (), n))"

lemma ignoring_errors_Ok [simp]: "ignoring_errors rn = (Ok u, n) \<longleftrightarrow> fst rn \<noteq> Panic \<and> snd rn = n"
  by (cases rn; cases "fst rn") (auto simp: ignoring_errors_def)

text \<open>A problem report of the connection protocol that explains an error.\<close>

definition explaining_report :: "string \<Rightarrow> DateTime \<Rightarrow> string \<Rightarrow> string \<Rightarrow> ConProblemReport" where
  "explaining_report uuid now thread_id explain =
     \<lparr>mp_id = uuid, mp_content = \<lparr>cp_problem_code = None, cp_explain = Some explain\<rparr>,
      mp_decorators = \<lparr>cpd_thread = new_thread thread_id, cpd_localization = None,
        cpd_timing = Some (timing_out now)\<rparr>\<rparr>"

section \<open>The inviter\<close>

record MInviterInitial =
  miri_problem_report :: "ConProblemReport option"

record MInviterInvited =
  mird_invitation :: AnyInvitation

record MInviterRequested =
  mirq_signed_response :: Response
  mirq_did_doc :: AriesDidDoc
  mirq_thread_id :: string

record MInviterResponded =
  mirs_signed_response :: Response
  mirs_did_doc :: AriesDidDoc

record MInviterCompleted =
  mirc_did_doc :: AriesDidDoc
  mirc_protocols :: "ProtocolDescriptor list option"
  mirc_thread_id :: "string option"

datatype MediatedInviterFullState =
    Mir_Initial MInviterInitial | Mir_Invited MInviterInvited | Mir_Requested MInviterRequested
  | Mir_Responded MInviterResponded | Mir_Completed MInviterCompleted

record SmMediatedConnectionInviter =
  mir_source_id :: string
  mir_thread_id :: string
  mir_pairwise_info :: PairwiseInfo
  mir_state :: MediatedInviterFullState

definition inviter_eq :: "SmMediatedConnectionInviter \<Rightarrow> SmMediatedConnectionInviter \<Rightarrow> bool" where
  "inviter_eq a b \<longleftrightarrow> mir_source_id a = mir_source_id b \<and> mir_pairwise_info a = mir_pairwise_info b \<and>
     mir_state a = mir_state b"

fun inviter_full_state :: "MediatedInviterFullState \<Rightarrow> ConState" where
  "inviter_full_state (Mir_Initial _) = Initial"
| "inviter_full_state (Mir_Invited _) = Invited"
| "inviter_full_state (Mir_Requested _) = Requested"
| "inviter_full_state (Mir_Responded _) = Responded"
| "inviter_full_state (Mir_Completed _) = Completed"

definition inviter_new :: "string \<Rightarrow> string \<Rightarrow> PairwiseInfo \<Rightarrow> SmMediatedConnectionInviter" where
  "inviter_new uuid source_id info = \<lparr>mir_source_id = source_id, mir_thread_id = uuid,
     mir_pairwise_info = info, mir_state = Mir_Initial \<lparr>miri_problem_report = None\<rparr>\<rparr>"

definition inviter_get_state :: "SmMediatedConnectionInviter \<Rightarrow> ConState" where
  "inviter_get_state self = inviter_full_state (mir_state self)"

fun inviter_doc_of :: "MediatedInviterFullState \<Rightarrow> AriesDidDoc option" where
  "inviter_doc_of (Mir_Initial _) = None"
| "inviter_doc_of (Mir_Invited _) = None"
| "inviter_doc_of (Mir_Requested s) = Some (mirq_did_doc s)"
| "inviter_doc_of (Mir_Responded s) = Some (mirs_did_doc s)"
| "inviter_doc_of (Mir_Completed s) = Some (mirc_did_doc s)"

definition inviter_their_did_doc :: "SmMediatedConnectionInviter \<Rightarrow> AriesDidDoc option" where
  "inviter_their_did_doc self = inviter_doc_of (mir_state self)"

definition inviter_get_invitation :: "SmMediatedConnectionInviter \<Rightarrow> AnyInvitation option" where
  "inviter_get_invitation self =
     (case mir_state self of Mir_Invited s \<Rightarrow> Some (mird_invitation s) | _ \<Rightarrow> None)"

definition inviter_get_remote_protocols :: "SmMediatedConnectionInviter \<Rightarrow> ProtocolDescriptor list option" where
  "inviter_get_remote_protocols self =
     (case mir_state self of Mir_Completed s \<Rightarrow> mirc_protocols s | _ \<Rightarrow> None)"

definition inviter_is_in_null_state :: "SmMediatedConnectionInviter \<Rightarrow> bool" where
  "inviter_is_in_null_state self = (case mir_state self of Mir_Initial _ \<Rightarrow> True | _ \<Rightarrow> False)"

definition inviter_is_in_final_state :: "SmMediatedConnectionInviter \<Rightarrow> bool" where
  "inviter_is_in_final_state self = (case mir_state self of Mir_Completed _ \<Rightarrow> True | _ \<Rightarrow> False)"

text \<open>\<open>remote_did\<close> and \<open>remote_vk\<close> of both machines, as functions of the other side's document.\<close>

definition mediated_remote_did :: "AriesDidDoc option \<Rightarrow> string VcxResult" where
  "mediated_remote_did their_did_doc =
     (case their_did_doc of
        Some did_doc \<Rightarrow> Ok (dd_id did_doc)
      | None \<Rightarrow> vcx_err NotReady ''Remote Connection DID is not set'')"

definition mediated_remote_vk :: "dd_ext \<Rightarrow> AriesDidDoc option \<Rightarrow> string VcxResult" where
  "mediated_remote_vk X their_did_doc =
     (case their_did_doc of
        Some did_doc \<Rightarrow> remote_vk_of X did_doc
      | None \<Rightarrow> vcx_err NotReady ''Counterparty diddoc is not available.'')"

fun asks_or_reports :: "AriesMessage \<Rightarrow> bool" where
  "asks_or_reports (Connection (Con_Request _)) = True"
| "asks_or_reports (Connection (Con_ProblemReport _)) = True"
| "asks_or_reports _ = False"

fun confirms_or_reports :: "AriesMessage \<Rightarrow> bool" where
  "confirms_or_reports (Notification _) = True"
| "confirms_or_reports (TrustPing (TP_Ping _)) = True"
| "confirms_or_reports (Connection (Con_ProblemReport _)) = True"
| "confirms_or_reports _ = False"

definition inviter_can_progress_state :: "SmMediatedConnectionInviter \<Rightarrow> AriesMessage \<Rightarrow> bool" where
  "inviter_can_progress_state self message =
     (case mir_state self of
        Mir_Invited _ \<Rightarrow> asks_or_reports message
      | Mir_Responded _ \<Rightarrow> confirms_or_reports message
      | _ \<Rightarrow> False)"

text \<open>The messages are listed in the order in which the hash map is iterated.\<close>

definition inviter_find_message_to_update_state ::
  "SmMediatedConnectionInviter \<Rightarrow> (string \<times> AriesMessage) list \<Rightarrow> (string \<times> AriesMessage) option" where
  "inviter_find_message_to_update_state self messages =
     find (\<lambda>(uid, message). inviter_can_progress_state self message) messages"

definition inviter_create_invitation ::
  "SmMediatedConnectionInviter \<Rightarrow> string list \<Rightarrow> string \<Rightarrow> SmMediatedConnectionInviter VcxResult" where
  "inviter_create_invitation self rks service_endpoint =
     (case mir_state self of
        Mir_Initial _ \<Rightarrow>
          Ok (self\<lparr>mir_state := Mir_Invited \<lparr>mird_invitation = Any_Con
            \<lparr>mp_id = mir_thread_id self,
             mp_content = Inv_Pairwise \<lparr>pw_label = mir_source_id self,
               pw_recipient_keys = [pw_vk (mir_pairwise_info self)],
               pw_routing_keys = rks, pw_service_endpoint = service_endpoint\<rparr>,
             mp_decorators = \<lparr>td_timing = None\<rparr>\<rparr>\<rparr>\<rparr>)
      | _ \<Rightarrow> Ok self)"

definition inviter_build_response ::
  "key_ext \<Rightarrow> wire \<Rightarrow> 'w wallet \<Rightarrow> 'w \<Rightarrow> string \<Rightarrow> DateTime \<Rightarrow> u64 \<Rightarrow> SmMediatedConnectionInviter \<Rightarrow>
   string \<Rightarrow> PairwiseInfo \<Rightarrow> string list \<Rightarrow> string \<Rightarrow> Response VcxResult" where
  "inviter_build_response K Z W w uuid now ts self thread_id new_info new_rks new_service_endpoint =
     (if inviter_get_state self \<in> {Invited, Initial} then
        and_then (sign_connection_response K Z W w ts (pw_vk (mir_pairwise_info self))
            \<lparr>cn_did = pw_did new_info, cn_did_doc = response_doc new_info new_service_endpoint new_rks\<rparr>)
          (\<lambda>con_sig. Ok \<lparr>mp_id = uuid, mp_content = \<lparr>rs_connection_sig = con_sig\<rparr>,
             mp_decorators = \<lparr>pd_thread = new_thread thread_id, pd_please_ack = None,
               pd_timing = Some (timing_out now)\<rparr>\<rparr>)
      else vcx_err NotReady ''Building connection ack in current state is not allowed'')"

definition inviter_handle_connection_request ::
  "ext \<Rightarrow> dd_ext \<Rightarrow> key_ext \<Rightarrow> wire \<Rightarrow> 'w wallet \<Rightarrow> 'w \<Rightarrow> string \<Rightarrow> DateTime \<Rightarrow> u64 \<Rightarrow>
   SmMediatedConnectionInviter \<Rightarrow> Request \<Rightarrow> PairwiseInfo \<Rightarrow> string list \<Rightarrow> string \<Rightarrow>
   'n SendClosureConnection \<Rightarrow> 'n \<Rightarrow> SmMediatedConnectionInviter VcxResult \<times> 'n" where
  "inviter_handle_connection_request E X K Z W w uuid now ts self request new_info new_rks
       new_service_endpoint send n =
     and_thenw (pure_w (if inviter_is_in_null_state self then Ok ()
         else verify_thread_id E (mir_thread_id self) (Connection (Con_Request request))) n) (\<lambda>_ n.
     if inviter_get_state self \<in> {Invited, Initial} then
       (case validate_did_doc X (cn_did_doc (rc_connection (mp_content request))) of
          Err err \<Rightarrow>
            (let problem_report = explaining_report uuid now (mir_thread_id self) (show_DiddocError err)
             in and_thenw (ignoring_errors (send (Connection (Con_ProblemReport problem_report))
                   (pw_vk (mir_pairwise_info self)) (cn_did_doc (rc_connection (mp_content request))) n)) (\<lambda>_ n.
                (Ok (self\<lparr>mir_state := Mir_Initial \<lparr>miri_problem_report = Some problem_report\<rparr>\<rparr>), n)))
        | Panic \<Rightarrow> (Panic, n)
        | Ok _ \<Rightarrow>
            (let thread_id = request_thread_id request
             in and_thenw (pure_w (inviter_build_response K Z W w uuid now ts self thread_id new_info new_rks
                  new_service_endpoint) n) (\<lambda>signed_response n.
                (Ok (self\<lparr>mir_pairwise_info := new_info, mir_thread_id := thread_id,
                   mir_state := Mir_Requested \<lparr>mirq_signed_response = signed_response,
                     mirq_did_doc = cn_did_doc (rc_connection (mp_content request)),
                     mirq_thread_id = mp_id request\<rparr>\<rparr>), n))))
     else (Ok (self\<lparr>mir_pairwise_info := new_info\<rparr>), n))"

definition inviter_handle_problem_report ::
  "SmMediatedConnectionInviter \<Rightarrow> ConProblemReport \<Rightarrow> SmMediatedConnectionInviter VcxResult" where
  "inviter_handle_problem_report self problem_report =
     (if inviter_get_state self \<in> {Responded, Invited}
      then Ok (self\<lparr>mir_state := Mir_Initial \<lparr>miri_problem_report = Some problem_report\<rparr>\<rparr>)
      else Ok self)"

definition inviter_handle_send_response ::
  "SmMediatedConnectionInviter \<Rightarrow> 'n SendClosureConnection \<Rightarrow> 'n \<Rightarrow> SmMediatedConnectionInviter VcxResult \<times> 'n" where
  "inviter_handle_send_response self send n =
     (case mir_state self of
        Mir_Requested s \<Rightarrow>
          and_thenw (send (Connection (Con_Response (mirq_signed_response s)))
              (pw_vk (mir_pairwise_info self)) (mirq_did_doc s) n) (\<lambda>_ n.
          (Ok (self\<lparr>mir_state := Mir_Responded \<lparr>mirs_signed_response = mirq_signed_response s,
             mirs_did_doc = mirq_did_doc s\<rparr>\<rparr>), n))
      | _ \<Rightarrow> (Ok self, n))"

definition inviter_handle_disclose_msg ::
  "SmMediatedConnectionInviter \<Rightarrow> Disclose \<Rightarrow> SmMediatedConnectionInviter VcxResult" where
  "inviter_handle_disclose_msg self disclose =
     (case mir_state self of
        Mir_Completed s \<Rightarrow> Ok (self\<lparr>mir_state :=
          Mir_Completed (s\<lparr>mirc_protocols := Some (disclose_protocols (mp_content disclose))\<rparr>)\<rparr>)
      | _ \<Rightarrow> Ok self)"

definition inviter_handle_confirmation_message ::
  "ext \<Rightarrow> SmMediatedConnectionInviter \<Rightarrow> AriesMessage \<Rightarrow> SmMediatedConnectionInviter VcxResult" where
  "inviter_handle_confirmation_message E self msg =
     and_then (verify_thread_id E (mir_thread_id self) msg) (\<lambda>_.
     case mir_state self of
       Mir_Responded s \<Rightarrow> Ok (self\<lparr>mir_state := Mir_Completed \<lparr>mirc_did_doc = mirs_did_doc s,
         mirc_protocols = None, mirc_thread_id = Some (thid (pd_thread (mp_decorators (mirs_signed_response s))))\<rparr>\<rparr>)
     | _ \<Rightarrow> Ok self)"

section \<open>The invitee\<close>

record MInviteeInitial =
  miei_problem_report :: "ConProblemReport option"
  miei_did_doc :: "AriesDidDoc option"

record MInviteeInvited =
  mied_invitation :: AnyInvitation
  mied_did_doc :: AriesDidDoc

record MInviteeRequested =
  mieq_request :: Request
  mieq_did_doc :: AriesDidDoc

record MInviteeResponded =
  mies_resp_con_data :: ConnectionData
  mies_request :: Request
  mies_did_doc :: AriesDidDoc

record MInviteeCompleted =
  miec_did_doc :: AriesDidDoc
  miec_bootstrap_did_doc :: AriesDidDoc
  miec_protocols :: "ProtocolDescriptor list option"

datatype MediatedInviteeFullState =
    Mie_Initial MInviteeInitial | Mie_Invited MInviteeInvited | Mie_Requested MInviteeRequested
  | Mie_Responded MInviteeResponded | Mie_Completed MInviteeCompleted

record SmMediatedConnectionInvitee =
  mie_source_id :: string
  mie_thread_id :: string
  mie_pairwise_info :: PairwiseInfo
  mie_state :: MediatedInviteeFullState

definition invitee_eq :: "SmMediatedConnectionInvitee \<Rightarrow> SmMediatedConnectionInvitee \<Rightarrow> bool" where
  "invitee_eq a b \<longleftrightarrow> mie_source_id a = mie_source_id b \<and> mie_pairwise_info a = mie_pairwise_info b \<and>
     mie_state a = mie_state b"

fun invitee_full_state :: "MediatedInviteeFullState \<Rightarrow> ConState" where
  "invitee_full_state (Mie_Initial _) = Initial"
| "invitee_full_state (Mie_Invited _) = Invited"
| "invitee_full_state (Mie_Requested _) = Requested"
| "invitee_full_state (Mie_Responded _) = Responded"
| "invitee_full_state (Mie_Completed _) = Completed"

definition invitee_new :: "string \<Rightarrow> PairwiseInfo \<Rightarrow> AriesDidDoc \<Rightarrow> SmMediatedConnectionInvitee" where
  "invitee_new source_id info did_doc = \<lparr>mie_source_id = source_id, mie_thread_id = [],
     mie_pairwise_info = info,
     mie_state = Mie_Initial \<lparr>miei_problem_report = None, miei_did_doc = Some did_doc\<rparr>\<rparr>"

definition invitee_get_state :: "SmMediatedConnectionInvitee \<Rightarrow> ConState" where
  "invitee_get_state self = invitee_full_state (mie_state self)"

definition invitee_is_in_null_state :: "SmMediatedConnectionInvitee \<Rightarrow> bool" where
  "invitee_is_in_null_state self = (case mie_state self of Mie_Initial _ \<Rightarrow> True | _ \<Rightarrow> False)"

definition invitee_is_in_final_state :: "SmMediatedConnectionInvitee \<Rightarrow> bool" where
  "invitee_is_in_final_state self = (case mie_state self of Mie_Completed _ \<Rightarrow> True | _ \<Rightarrow> False)"

fun invitee_doc_of :: "MediatedInviteeFullState \<Rightarrow> AriesDidDoc option" where
  "invitee_doc_of (Mie_Initial s) = miei_did_doc s"
| "invitee_doc_of (Mie_Invited s) = Some (mied_did_doc s)"
| "invitee_doc_of (Mie_Requested s) = Some (mieq_did_doc s)"
| "invitee_doc_of (Mie_Responded s) = Some (mies_did_doc s)"
| "invitee_doc_of (Mie_Completed s) = Some (miec_did_doc s)"

definition invitee_their_did_doc :: "SmMediatedConnectionInvitee \<Rightarrow> AriesDidDoc option" where
  "invitee_their_did_doc self = invitee_doc_of (mie_state self)"

definition invitee_bootstrap_did_doc :: "SmMediatedConnectionInvitee \<Rightarrow> AriesDidDoc option" where
  "invitee_bootstrap_did_doc self =
     (case mie_state self of Mie_Completed s \<Rightarrow> Some (miec_bootstrap_did_doc s) | s \<Rightarrow> invitee_doc_of s)"

definition invitee_get_invitation :: "SmMediatedConnectionInvitee \<Rightarrow> AnyInvitation option" where
  "invitee_get_invitation self =
     (case mie_state self of Mie_Invited s \<Rightarrow> Some (mied_invitation s) | _ \<Rightarrow> None)"

definition invitee_get_remote_protocols :: "SmMediatedConnectionInvitee \<Rightarrow> ProtocolDescriptor list option" where
  "invitee_get_remote_protocols self =
     (case mie_state self of Mie_Completed s \<Rightarrow> miec_protocols s | _ \<Rightarrow> None)"

fun answers_or_reports :: "AriesMessage \<Rightarrow> bool" where
  "answers_or_reports (Connection (Con_Response _)) = True"
| "answers_or_reports (Connection (Con_ProblemReport _)) = True"
| "answers_or_reports _ = False"

definition invitee_can_progress_state :: "SmMediatedConnectionInvitee \<Rightarrow> AriesMessage \<Rightarrow> bool" where
  "invitee_can_progress_state self message =
     (case mie_state self of Mie_Requested _ \<Rightarrow> answers_or_reports message | _ \<Rightarrow> False)"

definition invitee_find_message_to_update_state ::
  "SmMediatedConnectionInvitee \<Rightarrow> (string \<times> AriesMessage) list \<Rightarrow> (string \<times> AriesMessage) option" where
  "invitee_find_message_to_update_state self messages =
     find (\<lambda>(uid, message). invitee_can_progress_state self message) messages"

definition mediated_request_doc :: "PairwiseInfo \<Rightarrow> string \<Rightarrow> string list \<Rightarrow> AriesDidDoc" where
  "mediated_request_doc info service_endpoint rks =
     set_id (pw_did info)
       (set_recipient_keys [pw_vk info]
         (set_routing_keys rks (set_service_endpoint service_endpoint default_did_doc)))"

definition mediated_request_thread :: "string \<Rightarrow> string \<Rightarrow> AnyInvitation \<Rightarrow> Thread" where
  "mediated_request_thread uuid thread_id invitation =
     (case invitation of
        Any_Oob invite \<Rightarrow> thread_with_parent uuid (mp_id invite)
      | Any_Con invite \<Rightarrow>
          (case mp_content invite of
             Inv_Public _ \<Rightarrow> thread_with_parent uuid thread_id
           | _ \<Rightarrow> new_thread thread_id))"

definition build_connection_request_msg ::
  "string \<Rightarrow> DateTime \<Rightarrow> SmMediatedConnectionInvitee \<Rightarrow> string list \<Rightarrow> string \<Rightarrow> (Request \<times> string) VcxResult" where
  "build_connection_request_msg uuid now self rks service_endpoint =
     (case mie_state self of
        Mie_Invited s \<Rightarrow>
          (let info = mie_pairwise_info self;
               con_data = \<lparr>cn_did = pw_did info, cn_did_doc = mediated_request_doc info service_endpoint rks\<rparr>;
               thread = mediated_request_thread uuid (mie_thread_id self) (mied_invitation s);
               request = \<lparr>mp_id = uuid,
                 mp_content = \<lparr>rc_label = mie_source_id self, rc_connection = con_data\<rparr>,
                 mp_decorators = \<lparr>od_thread = Some thread, od_timing = Some (timing_out now)\<rparr>\<rparr>
           in Ok (request, thid thread))
      | _ \<Rightarrow> vcx_err NotReady ''Building connection request in current state is not allowed'')"

definition build_connection_ack_msg :: "string \<Rightarrow> DateTime \<Rightarrow> SmMediatedConnectionInvitee \<Rightarrow> Ack VcxResult" where
  "build_connection_ack_msg uuid now self =
     (case mie_state self of
        Mie_Responded _ \<Rightarrow> Ok \<lparr>mp_id = uuid, mp_content = \<lparr>ack_status = Ack_Ok\<rparr>,
          mp_decorators = \<lparr>ak_thread = new_thread (mie_thread_id self), ak_timing = Some (timing_out now)\<rparr>\<rparr>
      | _ \<Rightarrow> vcx_err NotReady ''Building connection ack in current state is not allowed'')"

definition handle_invitation ::
  "(MediatedInviteeFullState \<Rightarrow> string) \<Rightarrow> SmMediatedConnectionInvitee \<Rightarrow> AnyInvitation \<Rightarrow>
   SmMediatedConnectionInvitee VcxResult" where
  "handle_invitation debug self invitation =
     (case mie_state self of
        Mie_Initial s \<Rightarrow>
          (case miei_did_doc s of
             Some did_doc \<Rightarrow> Ok (self\<lparr>mie_thread_id := any_invitation_id invitation,
               mie_state := Mie_Invited \<lparr>mied_invitation = invitation, mied_did_doc = did_doc\<rparr>\<rparr>)
           | None \<Rightarrow> vcx_err InvalidState ''Expected none None state.did_doc result given current state'')
      | s \<Rightarrow> vcx_err InvalidState
          (''Cannot handle inviation: not in Initial state, current state: '' @ debug s))"

definition send_connection_request ::
  "string \<Rightarrow> DateTime \<Rightarrow> SmMediatedConnectionInvitee \<Rightarrow> string list \<Rightarrow> string \<Rightarrow>
   'n SendClosureConnection \<Rightarrow> 'n \<Rightarrow> SmMediatedConnectionInvitee VcxResult \<times> 'n" where
  "send_connection_request uuid now self rks service_endpoint send n =
     (case mie_state self of
        Mie_Invited s \<Rightarrow>
          and_thenw (pure_w (case invitee_their_did_doc self of
              Some ddo \<Rightarrow> Ok ddo | None \<Rightarrow> vcx_err InvalidState ''Missing did doc'') n) (\<lambda>ddo n.
          and_thenw (pure_w (build_connection_request_msg uuid now self rks service_endpoint) n) (\<lambda>(request, thread_id) n.
          and_thenw (send (Connection (Con_Request request)) (pw_vk (mie_pairwise_info self)) ddo n) (\<lambda>_ n.
          (Ok (self\<lparr>mie_thread_id := thread_id,
             mie_state := Mie_Requested \<lparr>mieq_request = request, mieq_did_doc = ddo\<rparr>\<rparr>), n))))
      | _ \<Rightarrow> (Ok self, n))"

definition handle_connection_response ::
  "ext \<Rightarrow> dd_ext \<Rightarrow> key_ext \<Rightarrow> wire \<Rightarrow> 'w wallet \<Rightarrow> 'w \<Rightarrow> string \<Rightarrow> DateTime \<Rightarrow>
   SmMediatedConnectionInvitee \<Rightarrow> Response \<Rightarrow> 'n SendClosureConnection \<Rightarrow> 'n \<Rightarrow>
   SmMediatedConnectionInvitee VcxResult \<times> 'n" where
  "handle_connection_response E X K Z W w uuid now self response send n =
     and_thenw (pure_w (verify_thread_id E (mie_thread_id self) (Connection (Con_Response response))) n) (\<lambda>_ n.
     case mie_state self of
       Mie_Requested s \<Rightarrow>
         and_thenw (pure_w (from_diddoc (recipient_keys X (mieq_did_doc s))) n) (\<lambda>keys n.
         and_thenw (pure_w (case keys of
             k # _ \<Rightarrow> Ok k
           | [] \<Rightarrow> vcx_err InvalidState ''Cannot handle response: remote verkey not found'') n) (\<lambda>remote_vk n.
         (case decode_signed_connection_response K Z W w (mp_content response) remote_vk of
            Ok con_data \<Rightarrow>
              (let thread_id = request_thread_id (mieq_request s)
               in if \<not> matches_thread_id (pd_thread (mp_decorators response)) thread_id then
                    (vcx_err InvalidJson (''Cannot handle response: thread id does not match: ''
                       @ x_debug_str E thread_id), n)
                  else (Ok (self\<lparr>mie_state := Mie_Responded \<lparr>mies_resp_con_data = con_data,
                    mies_request = mieq_request s, mies_did_doc = mieq_did_doc s\<rparr>\<rparr>), n))
          | Err err \<Rightarrow>
              (let problem_report = explaining_report uuid now (mie_thread_id self) (format_error err)
               in and_thenw (ignoring_errors (send (Connection (Con_ProblemReport problem_report))
                     (pw_vk (mie_pairwise_info self)) (mieq_did_doc s) n)) (\<lambda>_ n.
                  (Ok (self\<lparr>mie_state := Mie_Initial \<lparr>miei_problem_report = Some problem_report,
                     miei_did_doc = None\<rparr>\<rparr>), n)))
          | Panic \<Rightarrow> (Panic, n))))
     | _ \<Rightarrow> (Ok self, n))"

definition invitee_handle_disclose_msg ::
  "SmMediatedConnectionInvitee \<Rightarrow> Disclose \<Rightarrow> SmMediatedConnectionInvitee VcxResult" where
  "invitee_handle_disclose_msg self disclose =
     (case mie_state self of
        Mie_Completed s \<Rightarrow> Ok (self\<lparr>mie_state :=
          Mie_Completed (s\<lparr>miec_protocols := Some (disclose_protocols (mp_content disclose))\<rparr>)\<rparr>)
      | _ \<Rightarrow> Ok self)"

definition handle_send_ack ::
  "string \<Rightarrow> DateTime \<Rightarrow> SmMediatedConnectionInvitee \<Rightarrow> 'n SendClosureConnection \<Rightarrow> 'n \<Rightarrow>
   SmMediatedConnectionInvitee VcxResult \<times> 'n" where
  "handle_send_ack uuid now self send n =
     (case mie_state self of
        Mie_Responded s \<Rightarrow>
          and_thenw (pure_w (build_connection_ack_msg uuid now self) n) (\<lambda>ack n.
          and_thenw (send (Notification (Not_Ack ack)) (pw_vk (mie_pairwise_info self))
              (cn_did_doc (mies_resp_con_data s)) n) (\<lambda>_ n.
          (Ok (self\<lparr>mie_state := Mie_Completed \<lparr>miec_did_doc = cn_did_doc (mies_resp_con_data s),
             miec_bootstrap_did_doc = mies_did_doc s, miec_protocols = None\<rparr>\<rparr>), n)))
      | _ \<Rightarrow> (Ok self, n))"

definition invitee_handle_problem_report ::
  "SmMediatedConnectionInvitee \<Rightarrow> ConProblemReport \<Rightarrow> SmMediatedConnectionInvitee VcxResult" where
  "invitee_handle_problem_report self problem_report =
     (if invitee_get_state self \<in> {Requested, Invited}
      then Ok (self\<lparr>mie_state := Mie_Initial \<lparr>miei_problem_report = None, miei_did_doc = None\<rparr>\<rparr>)
      else Ok self)"


section \<open>Runs\<close>

text \<open>
  The operations as steps on the machine and the state of its transport. Every step may use its own
  closure, wallet state, identifiers and times.
\<close>

inductive inviter_step ::
  "ext \<Rightarrow> dd_ext \<Rightarrow> key_ext \<Rightarrow> wire \<Rightarrow> 'w wallet \<Rightarrow>
   SmMediatedConnectionInviter \<times> 'n \<Rightarrow> SmMediatedConnectionInviter \<times> 'n \<Rightarrow> bool"
  for E X K Z W where
  invite: "inviter_create_invitation s rks e = Ok t \<Longrightarrow> inviter_step E X K Z W (s, n) (t, n)"
| request: "inviter_handle_connection_request E X K Z W w uuid now ts s r info rks e send n = (Ok t, n') \<Longrightarrow>
    inviter_step E X K Z W (s, n) (t, n')"
| report: "inviter_handle_problem_report s p = Ok t \<Longrightarrow> inviter_step E X K Z W (s, n) (t, n)"
| respond: "inviter_handle_send_response s send n = (Ok t, n') \<Longrightarrow> inviter_step E X K Z W (s, n) (t, n')"
| disclose: "inviter_handle_disclose_msg s d = Ok t \<Longrightarrow> inviter_step E X K Z W (s, n) (t, n)"
| confirm: "inviter_handle_confirmation_message E s m = Ok t \<Longrightarrow> inviter_step E X K Z W (s, n) (t, n)"

inductive invitee_step ::
  "ext \<Rightarrow> dd_ext \<Rightarrow> key_ext \<Rightarrow> wire \<Rightarrow> 'w wallet \<Rightarrow> (MediatedInviteeFullState \<Rightarrow> string) \<Rightarrow>
   SmMediatedConnectionInvitee \<times> 'n \<Rightarrow> SmMediatedConnectionInvitee \<times> 'n \<Rightarrow> bool"
  for E X K Z W D where
  invitation: "handle_invitation D s i = Ok t \<Longrightarrow> invitee_step E X K Z W D (s, n) (t, n)"
| ask: "send_connection_request uuid now s rks e send n = (Ok t, n') \<Longrightarrow> invitee_step E X K Z W D (s, n) (t, n')"
| response: "handle_connection_response E X K Z W w uuid now s r send n = (Ok t, n') \<Longrightarrow>
    invitee_step E X K Z W D (s, n) (t, n')"
| told: "invitee_handle_disclose_msg s d = Ok t \<Longrightarrow> invitee_step E X K Z W D (s, n) (t, n)"
| ack: "handle_send_ack uuid now s send n = (Ok t, n') \<Longrightarrow> invitee_step E X K Z W D (s, n) (t, n')"
| problem: "invitee_handle_problem_report s p = Ok t \<Longrightarrow> invitee_step E X K Z W D (s, n) (t, n)"

fun inviter_edge :: "ConState \<Rightarrow> ConState \<Rightarrow> bool" where
  "inviter_edge a b \<longleftrightarrow> (a, b) \<in> {(Initial, Invited), (Initial, Requested), (Invited, Requested), (Invited, Initial),
     (Requested, Responded), (Responded, Initial), (Responded, Completed)}"

fun invitee_edge :: "ConState \<Rightarrow> ConState \<Rightarrow> bool" where
  "invitee_edge a b \<longleftrightarrow> (a, b) \<in> {(Initial, Invited), (Invited, Requested), (Invited, Initial),
     (Requested, Responded), (Requested, Initial), (Responded, Completed)}"

text \<open>What a successful request and a successful response leave behind.\<close>

lemma inviter_request_Ok:
  assumes "inviter_handle_connection_request E X K Z W w uuid now ts s r info rks e send n = (Ok t, n')"
  shows "(inviter_get_state s \<in> {Invited, Initial} \<and>
      ((\<exists>p. t = s\<lparr>mir_state := Mir_Initial p\<rparr>) \<or>
       (\<exists>resp. validate_did_doc X (cn_did_doc (rc_connection (mp_content r))) = Ok () \<and>
          inviter_build_response K Z W w uuid now ts s (request_thread_id r) info rks e = Ok resp \<and>
          t = s\<lparr>mir_pairwise_info := info, mir_thread_id := request_thread_id r,
            mir_state := Mir_Requested \<lparr>mirq_signed_response = resp,
              mirq_did_doc = cn_did_doc (rc_connection (mp_content r)), mirq_thread_id = mp_id r\<rparr>\<rparr>))) \<or>
     (inviter_get_state s \<notin> {Invited, Initial} \<and> t = s\<lparr>mir_pairwise_info := info\<rparr>)"
  using assms
  by (auto simp: inviter_handle_connection_request_def and_thenw_Ok pure_w_def Let_def
      simp del: and_thenw_pure split: if_splits result.splits)

lemma inviter_build_response_thread:
  "inviter_build_response K Z W w uuid now ts s t info rks e = Ok r \<Longrightarrow> thid (pd_thread (mp_decorators r)) = t"
  by (auto simp: inviter_build_response_def split: if_splits)

lemma invitee_response_Ok:
  assumes "handle_connection_response E X K Z W w uuid now s r send n = (Ok t, n')"
  shows "t = s \<or> (\<exists>q. mie_state s = Mie_Requested q \<and>
     ((\<exists>p. t = s\<lparr>mie_state := Mie_Initial \<lparr>miei_problem_report = Some p, miei_did_doc = None\<rparr>\<rparr>) \<or>
      (\<exists>con_data vk ks. recipient_keys X (mieq_did_doc q) = Ok (vk # ks) \<and>
         decode_signed_connection_response K Z W w (mp_content r) vk = Ok con_data \<and>
         t = s\<lparr>mie_state := Mie_Responded \<lparr>mies_resp_con_data = con_data, mies_request = mieq_request q,
           mies_did_doc = mieq_did_doc q\<rparr>\<rparr>)))"
proof (cases "mie_state s")
  case (Mie_Requested q)
  from assms Mie_Requested obtain vk ks where k: "recipient_keys X (mieq_did_doc q) = Ok (vk # ks)"
    by (auto simp: handle_connection_response_def and_thenw_Ok pure_w_def from_diddoc_def first_or_Ok
        simp del: and_thenw_pure)
  show ?thesis
    using assms Mie_Requested k
    by (cases "decode_signed_connection_response K Z W w (mp_content r) vk")
      (auto simp: handle_connection_response_def and_thenw_Ok pure_w_def Let_def
        simp del: and_thenw_pure split: if_splits)
qed (use assms in \<open>auto simp: handle_connection_response_def and_thenw_Ok pure_w_def simp del: and_thenw_pure\<close>)

lemma send_request_Ok:
  assumes "send_connection_request uuid now s rks e send n = (Ok t, n')"
  shows "t = s \<or> (\<exists>i r tid. mie_state s = Mie_Invited i \<and>
     build_connection_request_msg uuid now s rks e = Ok (r, tid) \<and>
     t = s\<lparr>mie_thread_id := tid, mie_state := Mie_Requested \<lparr>mieq_request = r, mieq_did_doc = mied_did_doc i\<rparr>\<rparr>)"
  using assms
  by (auto simp: send_connection_request_def and_thenw_Ok pure_w_def invitee_their_did_doc_def
      simp del: and_thenw_pure split: MediatedInviteeFullState.splits)

lemma send_ack_Ok:
  assumes "handle_send_ack uuid now s send n = (Ok t, n')"
  shows "t = s \<or> (\<exists>q. mie_state s = Mie_Responded q \<and>
     t = s\<lparr>mie_state := Mie_Completed \<lparr>miec_did_doc = cn_did_doc (mies_resp_con_data q),
       miec_bootstrap_did_doc = mies_did_doc q, miec_protocols = None\<rparr>\<rparr>)"
  using assms
  by (auto simp: handle_send_ack_def and_thenw_Ok pure_w_def
      simp del: and_thenw_pure split: MediatedInviteeFullState.splits)

lemma send_response_Ok:
  assumes "inviter_handle_send_response s send n = (Ok t, n')"
  shows "t = s \<or> (\<exists>q. mir_state s = Mir_Requested q \<and>
     t = s\<lparr>mir_state := Mir_Responded \<lparr>mirs_signed_response = mirq_signed_response q,
       mirs_did_doc = mirq_did_doc q\<rparr>\<rparr>)"
  using assms
  by (auto simp: inviter_handle_send_response_def and_thenw_Ok split: MediatedInviterFullState.splits)

interpretation minviter: protocol_machine
  "inviter_step E X K Z W" "\<lambda>(s, n). inviter_get_state s" inviter_edge "\<lambda>_. False"
proof
  fix s t
  assume "inviter_step E X K Z W s t"
  then show "(\<lambda>(s, n). inviter_get_state s) t = (\<lambda>(s, n). inviter_get_state s) s \<or>
      inviter_edge ((\<lambda>(s, n). inviter_get_state s) s) ((\<lambda>(s, n). inviter_get_state s) t)"
  proof cases
    case (request w uuid now ts s r info rks e send n t n')
    then show ?thesis by (auto simp: inviter_get_state_def dest!: inviter_request_Ok)
  next
    case (respond s send n t n')
    then show ?thesis by (auto simp: inviter_get_state_def dest!: send_response_Ok)
  qed (auto simp: inviter_get_state_def inviter_create_invitation_def inviter_handle_problem_report_def
      inviter_handle_disclose_msg_def inviter_handle_confirmation_message_def
      split: MediatedInviterFullState.splits if_splits)
qed simp

interpretation minvitee: protocol_machine
  "invitee_step E X K Z W D" "\<lambda>(s, n). invitee_get_state s" invitee_edge "\<lambda>_. False"
proof
  fix s t
  assume "invitee_step E X K Z W D s t"
  then show "(\<lambda>(s, n). invitee_get_state s) t = (\<lambda>(s, n). invitee_get_state s) s \<or>
      invitee_edge ((\<lambda>(s, n). invitee_get_state s) s) ((\<lambda>(s, n). invitee_get_state s) t)"
  proof cases
    case (ask uuid now s rks e send n t n')
    then show ?thesis by (auto simp: invitee_get_state_def dest!: send_request_Ok)
  next
    case (response w uuid now s r send n t n')
    then show ?thesis by (auto simp: invitee_get_state_def dest!: invitee_response_Ok)
  next
    case (ack uuid now s send n t n')
    then show ?thesis by (auto simp: invitee_get_state_def dest!: send_ack_Ok)
  qed (auto simp: invitee_get_state_def handle_invitation_def invitee_handle_disclose_msg_def
      invitee_handle_problem_report_def split: MediatedInviteeFullState.splits option.splits if_splits)
qed simp


text \<open>
  Both machines follow the protocol: the states of every run are a walk in the graph of their
  role, with the way back to \<open>Initial\<close> after a problem; an invitee never leaves \<open>Completed\<close>,
  nor does an inviter.
\<close>

theorem mediated_follows_protocol:
  assumes "(inviter_step E X K Z W)\<^sup>*\<^sup>* (s, n) (t, m)" and "(invitee_step E X K Z W D)\<^sup>*\<^sup>* (s', n') (t', m')"
  shows "inviter_edge\<^sup>*\<^sup>* (inviter_get_state s) (inviter_get_state t) \<and>
    invitee_edge\<^sup>*\<^sup>* (invitee_get_state s') (invitee_get_state t') \<and>
    (inviter_get_state s = Completed \<longrightarrow> inviter_get_state t = Completed) \<and>
    (invitee_get_state s' = Completed \<longrightarrow> invitee_get_state t' = Completed)"
proof -
  have e: "inviter_edge\<^sup>*\<^sup>* (inviter_get_state s) (inviter_get_state t)"
    "invitee_edge\<^sup>*\<^sup>* (invitee_get_state s') (invitee_get_state t')"
    using minviter.steps_edges [OF assms(1)] minvitee.steps_edges [OF assms(2)] by simp_all
  have "b = Completed" if "inviter_edge\<^sup>*\<^sup>* a b" "a = Completed" for a b
    using that by (induction rule: rtranclp_induct) auto
  moreover have "b = Completed" if "invitee_edge\<^sup>*\<^sup>* a b" "a = Completed" for a b
    using that by (induction rule: rtranclp_induct) auto
  ultimately show ?thesis using e by blast
qed

text \<open>What the states keep: the threads of the messages they hold and the checked documents.\<close>

definition inviter_ok :: "dd_ext \<Rightarrow> SmMediatedConnectionInviter \<Rightarrow> bool" where
  "inviter_ok X s \<longleftrightarrow>
     (case mir_state s of
        Mir_Requested q \<Rightarrow> thid (pd_thread (mp_decorators (mirq_signed_response q))) = mir_thread_id s \<and>
          validate_did_doc X (mirq_did_doc q) = Ok ()
      | Mir_Responded q \<Rightarrow> thid (pd_thread (mp_decorators (mirs_signed_response q))) = mir_thread_id s \<and>
          validate_did_doc X (mirs_did_doc q) = Ok ()
      | Mir_Completed q \<Rightarrow> mirc_thread_id q = Some (mir_thread_id s) \<and> validate_did_doc X (mirc_did_doc q) = Ok ()
      | Mir_Invited q \<Rightarrow> any_invitation_id (mird_invitation q) = mir_thread_id s
      | Mir_Initial _ \<Rightarrow> True)"

definition invitee_ok :: "SmMediatedConnectionInvitee \<Rightarrow> bool" where
  "invitee_ok s \<longleftrightarrow>
     (case mie_state s of
        Mie_Invited q \<Rightarrow> any_invitation_id (mied_invitation q) = mie_thread_id s
      | Mie_Requested q \<Rightarrow> request_thread_id (mieq_request q) = mie_thread_id s
      | Mie_Responded q \<Rightarrow> request_thread_id (mies_request q) = mie_thread_id s
      | _ \<Rightarrow> True)"

lemma inviter_ok_step:
  assumes "inviter_step E X K Z W (s, n) (t, m)" and "inviter_ok X s"
  shows "inviter_ok X t"
  using assms
proof cases
  case (request w uuid now ts r info rks e send)
  with assms(2) show ?thesis
    by (auto simp: inviter_ok_def inviter_get_state_def inviter_build_response_thread dest!: inviter_request_Ok
        split: MediatedInviterFullState.splits)
next
  case (respond send)
  with assms(2) show ?thesis by (auto simp: inviter_ok_def dest!: send_response_Ok)
qed (use assms(2) in \<open>auto simp: inviter_ok_def inviter_create_invitation_def inviter_handle_problem_report_def
    inviter_handle_disclose_msg_def inviter_handle_confirmation_message_def
    split: MediatedInviterFullState.splits if_splits\<close>)

lemma invitee_ok_step:
  assumes "invitee_step E X K Z W D (s, n) (t, m)" and "invitee_ok s"
  shows "invitee_ok t"
  using assms
proof cases
  case (ask uuid now rks e send)
  with assms(2) show ?thesis
    by (auto simp: invitee_ok_def build_connection_request_msg_def Let_def request_thread_id_def dest!: send_request_Ok)
next
  case (response w uuid now r send)
  with assms(2) show ?thesis by (auto simp: invitee_ok_def dest!: invitee_response_Ok)
next
  case (ack uuid now send)
  with assms(2) show ?thesis by (auto simp: invitee_ok_def dest!: send_ack_Ok)
qed (use assms(2) in \<open>auto simp: invitee_ok_def handle_invitation_def invitee_handle_disclose_msg_def
    invitee_handle_problem_report_def split: MediatedInviteeFullState.splits option.splits if_splits\<close>)

text \<open>
  Invariant of both machines: from a new machine on, the messages a machine holds belong to its
  thread (the response an inviter is about to send or has sent, the request an invitee has sent,
  the invitation of either), and an inviter past the request holds a DID document that passed
  validation.
\<close>

theorem mediated_invariant:
  assumes "(inviter_step E X K Z W)\<^sup>*\<^sup>* (inviter_new uuid sid info, n) (t, m)"
    and "(invitee_step E X K Z W D)\<^sup>*\<^sup>* (invitee_new sid' info' doc, n') (t', m')"
  shows "inviter_ok X t \<and> invitee_ok t'"
proof
  have "inviter_ok X (fst c)" if "(inviter_step E X K Z W)\<^sup>*\<^sup>* (inviter_new uuid sid info, n) c" for c
    using that
  proof (induction rule: rtranclp_induct)
    case base
    show ?case by (simp add: inviter_ok_def inviter_new_def)
  next
    case (step b c)
    then show ?case by (cases b; cases c) (auto dest: inviter_ok_step)
  qed
  from this [OF assms(1)] show "inviter_ok X t" by simp
  have "invitee_ok (fst c)" if "(invitee_step E X K Z W D)\<^sup>*\<^sup>* (invitee_new sid' info' doc, n') c" for c
    using that
  proof (induction rule: rtranclp_induct)
    case base
    show ?case by (simp add: invitee_ok_def invitee_new_def)
  next
    case (step b c)
    then show ?case by (cases b; cases c) (auto dest: invitee_ok_step)
  qed
  from this [OF assms(2)] show "invitee_ok t'" by simp
qed

text \<open>A state without a document is a dead end.\<close>

lemma dead_step:
  assumes "invitee_step E X K Z W D (s, n) (t, m)"
    and "mie_state s = Mie_Initial \<lparr>miei_problem_report = p, miei_did_doc = None\<rparr>"
  shows "t = s"
  using assms
proof cases
  case (ask uuid now rks e send)
  with assms(2) show ?thesis by (auto dest!: send_request_Ok)
next
  case (response w uuid now r send)
  with assms(2) show ?thesis by (auto dest!: invitee_response_Ok)
next
  case (ack uuid now send)
  with assms(2) show ?thesis by (auto dest!: send_ack_Ok)
qed (use assms(2) in \<open>auto simp: handle_invitation_def invitee_handle_disclose_msg_def
    invitee_handle_problem_report_def invitee_get_state_def\<close>)

text \<open>
  An invitee that gives up is dead: after a problem report in \<open>Invited\<close> or \<open>Requested\<close> the machine
  is back in \<open>Initial\<close> without a document; every invitation is then refused with \<open>InvalidState\<close>, and
  no sequence of operations changes the machine again.
\<close>

theorem failed_invitee_is_dead:
  assumes "invitee_get_state s \<in> {Invited, Requested}" and "invitee_handle_problem_report s p = Ok s'"
    and "(invitee_step E X K Z W D)\<^sup>*\<^sup>* (s', n) (t, m)"
  shows "t = s' \<and> invitee_is_in_null_state t \<and> map_err err_kind (handle_invitation D t i) = Err InvalidState"
proof -
  from assms(1,2) have s': "mie_state s' = Mie_Initial \<lparr>miei_problem_report = None, miei_did_doc = None\<rparr>"
    by (auto simp: invitee_handle_problem_report_def split: if_splits)
  have "fst c = s'" if "(invitee_step E X K Z W D)\<^sup>*\<^sup>* (s', n) c" for c
    using that
  proof (induction rule: rtranclp_induct)
    case (step b c)
    then have "invitee_step E X K Z W D (s', snd b) (fst c, snd c)" by (cases b; cases c) simp
    from dead_step [OF this s'] show ?case .
  qed simp
  from this [OF assms(3)] s' show ?thesis
    by (simp add: invitee_is_in_null_state_def handle_invitation_def)
qed

text \<open>
  A repeated request changes the keys of an inviter that has already answered: in \<open>Requested\<close>,
  \<open>Responded\<close> and \<open>Completed\<close> the state is kept, but the pairwise keys are replaced by those the caller
  prepared. A response that is sent afterwards is packed with the new key although the signed
  response in it names the keys of the first request.
\<close>

theorem repeated_request_replaces_keys:
  assumes "inviter_get_state s \<notin> {Initial, Invited}"
    and "is_match (Connection (Con_Request r)) (mir_thread_id s)"
  shows "inviter_handle_connection_request E X K Z W w uuid now ts s r info rks e send n =
      (Ok (s\<lparr>mir_pairwise_info := info\<rparr>), n) \<and>
    (case mir_state s of
       Mir_Requested q \<Rightarrow> inviter_handle_send_response (s\<lparr>mir_pairwise_info := info\<rparr>) send n =
         and_thenw (send (Connection (Con_Response (mirq_signed_response q))) (pw_vk info) (mirq_did_doc q) n)
           (\<lambda>_ n. (Ok (s\<lparr>mir_pairwise_info := info, mir_state := Mir_Responded
              \<lparr>mirs_signed_response = mirq_signed_response q, mirs_did_doc = mirq_did_doc q\<rparr>\<rparr>), n))
     | _ \<Rightarrow> True)"
  using assms
  by (auto simp: inviter_handle_connection_request_def verify_thread_id_def inviter_get_state_def inviter_is_in_null_state_def
      inviter_handle_send_response_def split: MediatedInviterFullState.splits)


text \<open>
  C32. The handshake of the two machines completes over a transport that delivers: invitation, request,
  response and acknowledgement are each accepted by the other side, both machines end in \<open>Completed\<close>
  on the thread of the invitation, and each reads the other's current key from the document it holds.
\<close>

theorem mediated_handshake_completes:
  assumes laws: "b64url_inverse Z" "signatures_verify W"
      "connection_data_reads Z \<lparr>cn_did = pw_did new_info, cn_did_doc = response_doc new_info e' rks'\<rparr>"
    and keys: "valid_verkey X (pw_vk info_r)" "valid_verkey X (pw_vk info_e)"
      "valid_verkey X (pw_vk new_info)" "\<forall>k \<in> set rks_e. valid_verkey X k" "pw_did info_e \<noteq> []"
    and signed: "sign_connection_response K Z W w ts (pw_vk info_r)
        \<lparr>cn_did = pw_did new_info, cn_did_doc = response_doc new_info e' rks'\<rparr> = Ok con_sig"
    and delivers: "\<And>m k d n. fst (send m k d n) = Ok ()"
  shows "\<exists>inv doc invited accepted requested req answered ans responded informed ack done_r done_e n1 n2 n3 n4.
    inviter_create_invitation (inviter_new tid sid info_r) rks e = Ok invited \<and>
    inviter_get_invitation invited = Some inv \<and> any_invitation_into_did_doc E Z K G L inv = Ok doc \<and>
    handle_invitation D (invitee_new sid' info_e doc) inv = Ok accepted \<and>
    send_connection_request uuid now accepted rks_e e_e send n = (Ok requested, n1) \<and>
    mie_state requested = Mie_Requested req \<and>
    inviter_handle_connection_request E X K Z W w uuid' now ts invited (mieq_request req) new_info rks' e' send n1
      = (Ok answered, n1) \<and>
    mir_state answered = Mir_Requested ans \<and>
    inviter_handle_send_response answered send n1 = (Ok responded, n2) \<and>
    handle_connection_response E X K Z W v uuid'' now requested (mirq_signed_response ans) send n2 = (Ok informed, n3) \<and>
    build_connection_ack_msg uuid'' now informed = Ok ack \<and>
    handle_send_ack uuid'' now informed send n3 = (Ok done_e, n4) \<and>
    inviter_handle_confirmation_message E responded (Notification (Not_Ack ack)) = Ok done_r \<and>
    inviter_is_in_final_state done_r \<and> invitee_is_in_final_state done_e \<and>
    mir_thread_id done_r = tid \<and> mie_thread_id done_e = tid \<and>
    mediated_remote_vk X (inviter_their_did_doc done_r) = Ok (pw_vk info_e) \<and>
    mediated_remote_vk X (invitee_their_did_doc done_e) = Ok (pw_vk new_info)"
proof -
  let ?con_data = "\<lparr>cn_did = pw_did new_info, cn_did_doc = response_doc new_info e' rks'\<rparr>"
  have sent: "and_thenw (send m k d n) f = f () (snd (send m k d n))" for m k d n
      and f :: "unit \<Rightarrow> 'b \<Rightarrow> 'c VcxResult \<times> 'b"
    using delivers [of m k d n] by (metis and_thenw.simps(1) prod.collapse)
  have decoded: "decode_signed_connection_response K Z W v \<lparr>rs_connection_sig = con_sig\<rparr> (pw_vk info_r) = Ok ?con_data"
    using laws signed by (rule_tac decode_of_signed)
  have valid: "validate_did_doc X (key_doc [] (pw_did info_e) e_e rks_e [pw_vk info_e]) = Ok ()"
    using keys by (intro key_doc_valid) auto
  have vks: "remote_vk_of X (key_doc kd did e rks [pw_vk info_e]) = Ok (pw_vk info_e)"
    "remote_vk_of X (response_doc new_info e' rks') = Ok (pw_vk new_info)"
    "recipient_keys X (key_doc kd did e rks [pw_vk info_r]) = Ok [pw_vk info_r]" for kd did e rks
    using keys by (simp_all add: response_doc_eq key_doc_remote_vk key_doc_recipient_keys)
  show ?thesis
    by (simp add: inviter_create_invitation_def inviter_new_def inviter_get_invitation_def
        any_invitation_into_did_doc_def build_doc_id_first handle_invitation_def invitee_new_def
        send_connection_request_def invitee_their_did_doc_def build_connection_request_msg_def Let_def
        mediated_request_thread_def mediated_request_doc_def build_doc_id_last sent
        inviter_handle_connection_request_def inviter_is_in_null_state_def inviter_get_state_def valid
        verify_thread_id_def request_thread_id_def inviter_build_response_def signed
        inviter_handle_send_response_def handle_connection_response_def vks decoded
        build_connection_ack_msg_def handle_send_ack_def inviter_handle_confirmation_message_def
        inviter_is_in_final_state_def invitee_is_in_final_state_def inviter_their_did_doc_def
        mediated_remote_vk_def)
qed


section \<open>A concrete run\<close>

definition outbox_send :: "string list SendClosureConnection" where
  "outbox_send m k d n = (Ok (), k # n)"

abbreviation sample_minviter :: SmMediatedConnectionInviter where
  "sample_minviter \<equiv> inviter_new ''t'' ''a'' (sample_pair ''i'')"

abbreviation sample_minvitee :: SmMediatedConnectionInvitee where
  "sample_minvitee \<equiv> invitee_new ''b'' (sample_pair ''e'') default_did_doc"

definition sample_con_invitation :: AnyInvitation where
  "sample_con_invitation = Any_Con \<lparr>mp_id = ''t'', mp_content = Inv_Pairwise \<lparr>pw_label = ''a'',
     pw_recipient_keys = [sample_verkey], pw_routing_keys = [], pw_service_endpoint = ''v''\<rparr>,
     mp_decorators = \<lparr>td_timing = None\<rparr>\<rparr>"

definition sample_minvited :: SmMediatedConnectionInvitee where
  "sample_minvited = sample_minvitee\<lparr>mie_thread_id := ''t'', mie_state := Mie_Invited
     \<lparr>mied_invitation = sample_con_invitation, mied_did_doc = default_did_doc\<rparr>\<rparr>"

lemma sample_invitee_run:
  "(invitee_step counting_ext sample_dx sample_kx handshake_wire sample_wallet (\<lambda>_. []))\<^sup>*\<^sup>*
     (sample_minvitee, []) (sample_minvited, ([] :: string list))"
proof -
  have "handle_invitation (\<lambda>_. []) sample_minvitee sample_con_invitation = Ok sample_minvited"
    by (simp add: handle_invitation_def sample_minvited_def invitee_new_def sample_con_invitation_def)
  from invitee_step.invitation [OF this] show ?thesis by (rule r_into_rtranclp)
qed

lemma sample_inviter_run:
  "\<exists>t. (inviter_step counting_ext sample_dx sample_kx handshake_wire sample_wallet)\<^sup>*\<^sup>*
     (sample_minviter, []) (t, ([] :: string list)) \<and> inviter_get_state t = Invited"
proof -
  obtain t where t: "inviter_create_invitation sample_minviter [] ''v'' = Ok t" "inviter_get_state t = Invited"
    by (simp add: inviter_create_invitation_def inviter_new_def inviter_get_state_def)
  from r_into_rtranclp [of "inviter_step counting_ext sample_dx sample_kx handshake_wire sample_wallet",
      OF inviter_step.invite [OF t(1), where n = "[] :: string list"]] t(2) show ?thesis by metis
qed

lemma sample_states: "inviter_get_state sample_minviter = Initial" "invitee_get_state sample_minvitee = Initial"
  "invitee_get_state sample_minvited = Invited"
  by (simp_all add: inviter_get_state_def inviter_new_def invitee_get_state_def invitee_new_def sample_minvited_def)

theorem mediated_follows_protocol_witness: "inviter_edge\<^sup>*\<^sup>* Initial Invited \<and> invitee_edge\<^sup>*\<^sup>* Initial Invited"
proof -
  from sample_inviter_run obtain t where
    t: "(inviter_step counting_ext sample_dx sample_kx handshake_wire sample_wallet)\<^sup>*\<^sup>*
      (sample_minviter, []) (t, ([] :: string list))" "inviter_get_state t = Invited" by blast
  from mediated_follows_protocol [OF t(1) sample_invitee_run] t(2) show ?thesis
    by (simp only: sample_states)
qed

theorem mediated_invariant_witness:
  "\<exists>t. inviter_get_state t = Invited \<and> inviter_ok sample_dx t \<and> invitee_ok sample_minvited"
proof -
  from sample_inviter_run obtain t where
    t: "(inviter_step counting_ext sample_dx sample_kx handshake_wire sample_wallet)\<^sup>*\<^sup>*
      (sample_minviter, []) (t, ([] :: string list))" "inviter_get_state t = Invited" by blast
  from mediated_invariant [OF t(1) sample_invitee_run] t(2) show ?thesis by blast
qed

theorem failed_invitee_is_dead_witness:
  "\<exists>s'. invitee_handle_problem_report sample_minvited (explaining_report [] 0 [] []) = Ok s' \<and>
     map_err err_kind (handle_invitation (\<lambda>_. []) s' sample_con_invitation) = Err InvalidState"
proof -
  obtain s' where s': "invitee_handle_problem_report sample_minvited (explaining_report [] 0 [] []) = Ok s'"
    by (simp add: invitee_handle_problem_report_def sample_states)
  have "invitee_get_state sample_minvited \<in> {Invited, Requested}" by (simp add: sample_states)
  from failed_invitee_is_dead [OF this s' rtranclp.rtrancl_refl] s' show ?thesis by metis
qed

definition sample_answer :: Response where
  "sample_answer = sample_response \<lparr>cs_signature = [], cs_sig_data = [], cs_signer = []\<rparr>"

definition sample_manswered :: SmMediatedConnectionInviter where
  "sample_manswered = sample_minviter\<lparr>mir_state := Mir_Responded \<lparr>mirs_signed_response = sample_answer,
     mirs_did_doc = default_did_doc\<rparr>\<rparr>"

theorem repeated_request_replaces_keys_witness:
  "inviter_handle_connection_request counting_ext sample_dx sample_kx handshake_wire sample_wallet 0 ''u'' 0 0
     sample_manswered (eer_request (con_state sample_requested)) (sample_pair ''z'') [] ''v'' outbox_send [] =
     (Ok (sample_manswered\<lparr>mir_pairwise_info := sample_pair ''z''\<rparr>), [])"
proof -
  have "inviter_get_state sample_manswered \<notin> {Initial, Invited}"
    by (simp add: inviter_get_state_def sample_manswered_def)
  moreover have "is_match (Connection (Con_Request (eer_request (con_state sample_requested)))) (mir_thread_id sample_manswered)"
    by (simp add: sample_requested_def matches_opt_thread_id_def)
  ultimately show ?thesis
    using repeated_request_replaces_keys [of sample_manswered "eer_request (con_state sample_requested)" counting_ext
        sample_dx sample_kx handshake_wire sample_wallet 0 "''u''" 0 0 "sample_pair ''z''" "[]" "''v''" outbox_send "[]"]
    by blast
qed

theorem mediated_handshake_completes_witness:
  "\<exists>invited inv done_r done_e. inviter_create_invitation sample_minviter [] ''v'' = Ok invited \<and>
     inviter_get_invitation invited = Some inv \<and>
     inviter_is_in_final_state done_r \<and> invitee_is_in_final_state done_e \<and>
     mir_thread_id done_r = ''t'' \<and> mie_thread_id done_e = ''t''"
proof -
  have reads: "connection_data_reads handshake_wire
      \<lparr>cn_did = pw_did (sample_pair ''did''), cn_did_doc = response_doc (sample_pair ''did'') ''u'' []\<rparr>"
    by (simp add: handshake_wire_def sample_pair_def)
  have b64: "b64url_inverse handshake_wire" by (simp add: handshake_wire_def)
  from sample_sign obtain con_sig where sig: "sign_connection_response sample_kx handshake_wire sample_wallet 0 0
      (pw_vk (sample_pair ''i'')) \<lparr>cn_did = pw_did (sample_pair ''did''),
        cn_did_doc = response_doc (sample_pair ''did'') ''u'' []\<rparr> = Ok con_sig" by blast
  have keys: "valid_verkey sample_dx (pw_vk (sample_pair d))" "pw_did (sample_pair ''e'') \<noteq> []" for d
    by (simp_all add: sample_pair_def)
  have sends: "fst (outbox_send m k d n) = Ok ()" for m k d n by (simp add: outbox_send_def)
  have "\<forall>k\<in>set []. valid_verkey sample_dx k" by simp
  from mediated_handshake_completes [of handshake_wire sample_wallet "sample_pair ''did''" "''u''" "[]" sample_dx
      "sample_pair ''i''" "sample_pair ''e''" "[]" sample_kx 0 0 con_sig outbox_send "''t''" "''a''" "[]" "''v''",
      OF b64 sample_wallet_signs reads keys(1) keys(1) keys(1) this keys(2) sig sends]
  show ?thesis by metis
qed

end
