(* ===== verification/Mediator_Storage.thy ===== *)
theory Mediator_Storage
  imports Connection_SM "HOL-Library.Multiset"
begin

text \<open>
  The storage of the mediator agent (\<open>agents/mediator/src/persistence\<close>): the trait
  \<open>MediatorPersistence\<close> and its implementation on a MySQL database (\<open>database/mysql.rs\<close>) with the tables
  of the migration. The SQL statements are evaluated on lists of rows; what SQL leaves to the server is
  a parameter: the collation of text columns, the order of selected rows, the identifiers it makes, and
  a refusal of any statement (an outage, a value that does not fit its column).
\<close>

section \<open>The trait\<close>

text \<open>
  The error sets of \<open>persistence/errors.rs\<close> are subsets of one type; every operation uses the
  variants its own set has.
\<close>

datatype persistence_error =
    StorageBackendError string
  | AccountNotFound string
  | DecodeError string
  | AnyhowError string

fun show_persistence_error :: "persistence_error \<Rightarrow> string" where
  "show_persistence_error (StorageBackendError s) = s"
| "show_persistence_error (AccountNotFound s) = ''No account found matching given input: '' @ s"
| "show_persistence_error (DecodeError s) = ''Couldn't retrieve or decode expected data: '' @ s"
| "show_persistence_error (AnyhowError s) = s"

text \<open>\<open>CreateAccountError\<close> is declared by hand, with a text of its own.\<close>

fun show_create_account_error :: "persistence_error \<Rightarrow> string" where
  "show_create_account_error (StorageBackendError s) = ''Failed to create account in storage layer''"
| "show_create_account_error e = show_persistence_error e"

type_synonym 'a pers_res = "(persistence_error, 'a) result"

record AccountDetails =
  ad_account_id :: string
  ad_account_name :: string
  ad_auth_pubkey :: string
  ad_our_signing_key :: string
  ad_their_did_doc :: AriesDidDoc

record 'p persistence =
  ps_create_account :: "'p \<Rightarrow> string \<Rightarrow> string \<Rightarrow> string \<Rightarrow> unit pers_res \<times> 'p"
  ps_get_account_id :: "'p \<Rightarrow> string \<Rightarrow> string pers_res"
  ps_add_recipient :: "'p \<Rightarrow> string \<Rightarrow> string \<Rightarrow> unit pers_res \<times> 'p"
  ps_remove_recipient :: "'p \<Rightarrow> string \<Rightarrow> string \<Rightarrow> unit pers_res \<times> 'p"
  ps_list_recipient_keys :: "'p \<Rightarrow> string \<Rightarrow> string list pers_res"
  ps_persist_forward_message :: "'p \<Rightarrow> string \<Rightarrow> string \<Rightarrow> unit pers_res \<times> 'p"
  ps_retrieve_pending_message_count :: "'p \<Rightarrow> string \<Rightarrow> string option \<Rightarrow> u32 pers_res"
  ps_retrieve_pending_messages :: "'p \<Rightarrow> string \<Rightarrow> u32 \<Rightarrow> string option \<Rightarrow> (string \<times> string) list pers_res"
  ps_list_accounts :: "'p \<Rightarrow> (string \<times> string) list pers_res"
  ps_get_account_details :: "'p \<Rightarrow> string \<Rightarrow> AccountDetails pers_res"

section \<open>The tables\<close>

record account_row =
  ac_account_id :: string
  ac_auth_pubkey :: string
  ac_our_signing_key :: string
  ac_did_doc :: json

record recipient_row =
  rp_account_id :: string
  rp_recipient_key :: string

record message_row =
  ms_account_id :: string
  ms_recipient_key :: "string option"
  ms_message_idb :: string
  ms_message_data :: string

record tables =
  tb_accounts :: "account_row list"
  tb_recipients :: "recipient_row list"
  tb_messages :: "message_row list"

datatype sql_statement =
    Insert_Account | Select_Account_Id | Select_Accounts | Select_Account | Select_Recipient | Insert_Message
  | Count_Messages | Select_Messages | Insert_Recipient | Delete_Recipient | Select_Recipient_Keys

text \<open>
  The server: a refusal of a statement with its bound values, the weight of a text under the collation
  of its column (two texts are equal to the server when their weights are), the identifier of a new
  row, its readable form, the rank of a row in the result of a query without \<open>ORDER BY\<close>, the text of a
  violated constraint, and the reader of JSON values and of the document in one.
\<close>

record mysql =
  sq_refuses :: "sql_statement \<Rightarrow> string list \<Rightarrow> string option"
  sq_weight :: "string \<Rightarrow> string"
  sq_new_uuid :: "tables \<Rightarrow> string"
  sq_uuid_text :: "string \<Rightarrow> string"
  sq_account_rank :: "account_row \<Rightarrow> nat"
  sq_recipient_rank :: "recipient_row \<Rightarrow> nat"
  sq_message_rank :: "message_row \<Rightarrow> nat"
  sq_violation :: string
  sq_json :: "string \<Rightarrow> json option"
  sq_de_did_doc :: "json \<Rightarrow> AriesDidDoc serde"

definition sql :: "mysql \<Rightarrow> sql_statement \<Rightarrow> string list \<Rightarrow> 'a \<Rightarrow> (string, 'a) result" where
  "sql M statement bound v = (case sq_refuses M statement bound of None \<Rightarrow> Ok v | Some e \<Rightarrow> Err e)"

definition sql_equal :: "mysql \<Rightarrow> string \<Rightarrow> string \<Rightarrow> bool" where
  "sql_equal M a b \<longleftrightarrow> sq_weight M a = sq_weight M b"

text \<open>\<open>fetch_one\<close>: the first row of the result, or \<open>RowNotFound\<close> (here \<open>None\<close>).\<close>

definition accounts_of :: "mysql \<Rightarrow> tables \<Rightarrow> string \<Rightarrow> account_row list" where
  "accounts_of M db auth_pubkey =
     sort_key (sq_account_rank M) (filter (\<lambda>r. sql_equal M (ac_auth_pubkey r) auth_pubkey) (tb_accounts db))"

definition recipients_with :: "mysql \<Rightarrow> tables \<Rightarrow> string \<Rightarrow> recipient_row list" where
  "recipients_with M db k =
     sort_key (sq_recipient_rank M) (filter (\<lambda>r. sql_equal M (rp_recipient_key r) k) (tb_recipients db))"

definition messages_of :: "mysql \<Rightarrow> tables \<Rightarrow> string \<Rightarrow> string option \<Rightarrow> message_row list" where
  "messages_of M db account_id recipient_key =
     sort_key (sq_message_rank M) (filter (\<lambda>r. ms_account_id r = account_id \<and>
       (case recipient_key of
          None \<Rightarrow> True
        | Some k \<Rightarrow> (case ms_recipient_key r of Some k' \<Rightarrow> sql_equal M k' k | None \<Rightarrow> False))) (tb_messages db))"

section \<open>The operations\<close>

definition account_not_found :: "string \<Rightarrow> persistence_error" where
  "account_not_found auth_pubkey = AccountNotFound (''auth_pubkey='' @ auth_pubkey)"

definition fetch_account ::
  "mysql \<Rightarrow> tables \<Rightarrow> sql_statement \<Rightarrow> string \<Rightarrow> account_row pers_res" where
  "fetch_account M db statement auth_pubkey =
     and_then (map_err StorageBackendError (sql M statement [auth_pubkey] (accounts_of M db auth_pubkey))) (\<lambda>rows.
     case rows of row # _ \<Rightarrow> Ok row | [] \<Rightarrow> Err (account_not_found auth_pubkey))"

definition get_account_id :: "mysql \<Rightarrow> tables \<Rightarrow> string \<Rightarrow> string pers_res" where
  "get_account_id M db auth_pubkey = map_ok ac_account_id (fetch_account M db Select_Account_Id auth_pubkey)"

definition list_accounts :: "mysql \<Rightarrow> tables \<Rightarrow> (string \<times> string) list pers_res" where
  "list_accounts M db =
     and_then (map_err StorageBackendError
         (sql M Select_Accounts [] (sort_key (sq_account_rank M) (tb_accounts db)))) (\<lambda>rows.
     Ok (map (\<lambda>row. (sq_uuid_text M (ac_account_id row), ac_auth_pubkey row)) rows))"

definition get_account_details :: "mysql \<Rightarrow> tables \<Rightarrow> string \<Rightarrow> AccountDetails pers_res" where
  "get_account_details M db auth_pubkey =
     and_then (fetch_account M db Select_Account auth_pubkey) (\<lambda>row.
     and_then (map_err (\<lambda>e. DecodeError (se_display e)) (sq_de_did_doc M (ac_did_doc row))) (\<lambda>doc.
     Ok \<lparr>ad_account_id = ac_account_id row, ad_account_name = sq_uuid_text M (ac_account_id row),
       ad_auth_pubkey = ac_auth_pubkey row, ad_our_signing_key = ac_our_signing_key row,
       ad_their_did_doc = doc\<rparr>))"

text \<open>\<open>INSERT INTO accounts\<close>: a JSON column takes JSON only; the key and the identifier are \<open>UNIQUE\<close>.\<close>

definition insert_account :: "mysql \<Rightarrow> tables \<Rightarrow> string \<Rightarrow> string \<Rightarrow> string \<Rightarrow> (string, unit) result \<times> tables" where
  "insert_account M db auth_pubkey our_signing_key did_doc =
     (case sql M Insert_Account [auth_pubkey, our_signing_key, did_doc] () of
        Ok _ \<Rightarrow>
          (case sq_json M did_doc of
             None \<Rightarrow> (Err (sq_violation M), db)
           | Some j \<Rightarrow>
               if (\<exists>r \<in> set (tb_accounts db). sql_equal M (ac_auth_pubkey r) auth_pubkey \<or>
                     ac_account_id r = sq_new_uuid M db)
               then (Err (sq_violation M), db)
               else (Ok (), db\<lparr>tb_accounts := tb_accounts db @ [\<lparr>ac_account_id = sq_new_uuid M db,
                 ac_auth_pubkey = auth_pubkey, ac_our_signing_key = our_signing_key, ac_did_doc = j\<rparr>]\<rparr>))
      | Err e \<Rightarrow> (Err e, db)
      | Panic \<Rightarrow> (Panic, db))"

definition create_account :: "mysql \<Rightarrow> tables \<Rightarrow> string \<Rightarrow> string \<Rightarrow> string \<Rightarrow> unit pers_res \<times> tables" where
  "create_account M db auth_pubkey our_signing_key did_doc =
     (case insert_account M db auth_pubkey our_signing_key did_doc of
        (Ok _, db) \<Rightarrow>
          (map_err (\<lambda>_. AnyhowError
               ''Possibly created account, but failed to retrieve created account's ID'')
             (map_ok (\<lambda>_. ()) (get_account_details M db auth_pubkey)), db)
      | (Err e, db) \<Rightarrow> (Err (StorageBackendError e), db)
      | (Panic, db) \<Rightarrow> (Panic, db))"

definition add_recipient :: "mysql \<Rightarrow> tables \<Rightarrow> string \<Rightarrow> string \<Rightarrow> unit pers_res \<times> tables" where
  "add_recipient M db auth_pubkey k =
     and_thenw (pure_w (get_account_id M db auth_pubkey) db) (\<lambda>account_id db.
     case sql M Insert_Recipient [account_id, k] () of
       Ok _ \<Rightarrow>
         if (\<exists>r \<in> set (tb_recipients db). sql_equal M (rp_recipient_key r) k)
         then (Err (AnyhowError ''Error while inserting recipient entry into the database''), db)
         else (Ok (), db\<lparr>tb_recipients := tb_recipients db @ [\<lparr>rp_account_id = account_id, rp_recipient_key = k\<rparr>]\<rparr>)
     | Err e \<Rightarrow> (Err (AnyhowError ''Error while inserting recipient entry into the database''), db)
     | Panic \<Rightarrow> (Panic, db))"

text \<open>
  \<open>DELETE FROM recipients\<close>; the messages that refer to a deleted recipient key lose the reference
  (\<open>ON DELETE SET NULL\<close>).
\<close>

definition unreferenced :: "mysql \<Rightarrow> recipient_row list \<Rightarrow> message_row \<Rightarrow> message_row" where
  "unreferenced M gone row =
     (case ms_recipient_key row of
        Some k \<Rightarrow> if (\<exists>r \<in> set gone. sql_equal M (rp_recipient_key r) k) then row\<lparr>ms_recipient_key := None\<rparr> else row
      | None \<Rightarrow> row)"

definition delete_recipient :: "mysql \<Rightarrow> tables \<Rightarrow> string \<Rightarrow> string \<Rightarrow> tables" where
  "delete_recipient M db account_id k =
     (let hit = (\<lambda>r. rp_account_id r = account_id \<and> sql_equal M (rp_recipient_key r) k)
      in db\<lparr>tb_recipients := filter (\<lambda>r. \<not> hit r) (tb_recipients db),
            tb_messages := map (unreferenced M (filter hit (tb_recipients db))) (tb_messages db)\<rparr>)"

definition remove_recipient :: "mysql \<Rightarrow> tables \<Rightarrow> string \<Rightarrow> string \<Rightarrow> unit pers_res \<times> tables" where
  "remove_recipient M db auth_pubkey k =
     and_thenw (pure_w (get_account_id M db auth_pubkey) db) (\<lambda>account_id db.
     case sql M Delete_Recipient [account_id, k] () of
       Ok _ \<Rightarrow> (Ok (), delete_recipient M db account_id k)
     | Err e \<Rightarrow> (Err (AnyhowError ''Error while deleting recipient entry from the database''), db)
     | Panic \<Rightarrow> (Panic, db))"

definition list_recipient_keys :: "mysql \<Rightarrow> tables \<Rightarrow> string \<Rightarrow> string list pers_res" where
  "list_recipient_keys M db auth_pubkey =
     and_then (get_account_id M db auth_pubkey) (\<lambda>account_id.
     map_err (\<lambda>_. AnyhowError ''Error while fetching recipient_keys from database'')
       (sql M Select_Recipient_Keys [account_id]
         (map rp_recipient_key (sort_key (sq_recipient_rank M)
           (filter (\<lambda>r. rp_account_id r = account_id) (tb_recipients db))))))"

text \<open>\<open>INSERT INTO messages\<close>: the identifier is \<open>UNIQUE\<close>, the references must exist.\<close>

definition insert_message :: "mysql \<Rightarrow> tables \<Rightarrow> string \<Rightarrow> string \<Rightarrow> string \<Rightarrow> (string, unit) result \<times> tables" where
  "insert_message M db account_id k message_data =
     (case sql M Insert_Message [account_id, k, message_data] () of
        Ok _ \<Rightarrow>
          if (\<exists>r \<in> set (tb_messages db). ms_message_idb r = sq_new_uuid M db) \<or>
             (\<forall>r \<in> set (tb_accounts db). ac_account_id r \<noteq> account_id) \<or>
             (\<forall>r \<in> set (tb_recipients db). \<not> sql_equal M (rp_recipient_key r) k)
          then (Err (sq_violation M), db)
          else (Ok (), db\<lparr>tb_messages := tb_messages db @ [\<lparr>ms_account_id = account_id, ms_recipient_key = Some k,
                 ms_message_idb = sq_new_uuid M db, ms_message_data = message_data\<rparr>]\<rparr>)
      | Err e \<Rightarrow> (Err e, db)
      | Panic \<Rightarrow> (Panic, db))"

definition persist_forward_message :: "mysql \<Rightarrow> tables \<Rightarrow> string \<Rightarrow> string \<Rightarrow> unit pers_res \<times> tables" where
  "persist_forward_message M db k message_data =
     (case sql M Select_Recipient [k] (recipients_with M db k) of
        Ok (row # _) \<Rightarrow>
          (case insert_message M db (rp_account_id row) k message_data of
             (Ok _, db) \<Rightarrow> (Ok (), db)
           | (Err e, db) \<Rightarrow> (Err (StorageBackendError e), db)
           | (Panic, db) \<Rightarrow> (Panic, db))
      | Ok [] \<Rightarrow> (Err (AccountNotFound (''reipient_key='' @ k)), db)
      | Err e \<Rightarrow> (Err (StorageBackendError e), db)
      | Panic \<Rightarrow> (Panic, db))"

text \<open>The count is read as an \<open>i32\<close>: \<open>Row::get\<close> panics on a number that does not fit.\<close>

definition retrieve_pending_message_count ::
  "mysql \<Rightarrow> tables \<Rightarrow> string \<Rightarrow> string option \<Rightarrow> u32 pers_res" where
  "retrieve_pending_message_count M db auth_pubkey recipient_key =
     and_then (get_account_id M db auth_pubkey) (\<lambda>account_id.
     and_then (map_err AnyhowError (sql M Count_Messages (account_id # (case recipient_key of Some k \<Rightarrow> [k] | None \<Rightarrow> []))
         (length (messages_of M db account_id recipient_key)))) (\<lambda>n.
     if n < 2 ^ 31 then Ok (of_nat n) else Panic))"

text \<open>The loop over the rows: a message is pushed before the limit is compared.\<close>

fun fetch_rows :: "mysql \<Rightarrow> u32 \<Rightarrow> (string \<times> string) list \<Rightarrow> message_row list \<Rightarrow> (string \<times> string) list pers_res" where
  "fetch_rows M limit messages [] = Ok messages"
| "fetch_rows M limit messages (row # rows) =
     (let messages = messages @ [(sq_uuid_text M (ms_message_idb row), ms_message_data row)]
      in if 2 ^ 32 \<le> length messages then
           Err (AnyhowError ''out of range integral type conversion attempted'')
         else if unat limit \<le> length messages then Ok messages
         else fetch_rows M limit messages rows)"

definition retrieve_pending_messages ::
  "mysql \<Rightarrow> tables \<Rightarrow> string \<Rightarrow> u32 \<Rightarrow> string option \<Rightarrow> (string \<times> string) list pers_res" where
  "retrieve_pending_messages M db auth_pubkey limit recipient_key =
     and_then (get_account_id M db auth_pubkey) (\<lambda>account_id.
     case sql M Select_Messages (account_id # (case recipient_key of Some k \<Rightarrow> [k] | None \<Rightarrow> []))
         (messages_of M db account_id recipient_key) of
       Ok rows \<Rightarrow> fetch_rows M limit [] rows
     | _ \<Rightarrow> Panic)"

definition mysql_persistence :: "mysql \<Rightarrow> tables persistence" where
  "mysql_persistence M =
     \<lparr>ps_create_account = create_account M, ps_get_account_id = get_account_id M,
      ps_add_recipient = add_recipient M, ps_remove_recipient = remove_recipient M,
      ps_list_recipient_keys = list_recipient_keys M, ps_persist_forward_message = persist_forward_message M,
      ps_retrieve_pending_message_count = retrieve_pending_message_count M,
      ps_retrieve_pending_messages = retrieve_pending_messages M,
      ps_list_accounts = list_accounts M, ps_get_account_details = get_account_details M\<rparr>"


section \<open>What the storage promises\<close>

text \<open>
  The contract of the trait, as the handlers rely on it. The state \<open>s\<close> of the storage is seen through
  the account of an authentication key, the account that owns a recipient key, and the bag of pending
  messages of an account, each with the recipient key it was sent to (unless that key was removed).
  Keys count as equal when their weights are.
\<close>

definition addressed :: "(string \<Rightarrow> string) \<Rightarrow> string option \<Rightarrow> string option \<times> string \<Rightarrow> bool" where
  "addressed weight recipient_key p \<longleftrightarrow>
     (case recipient_key of None \<Rightarrow> True | Some k \<Rightarrow> fst p = Some (weight k))"

locale mediator_storage =
  fixes P :: "'p persistence"
    and weight :: "string \<Rightarrow> string"
    and sound :: "'p \<Rightarrow> bool"
    and acct :: "'p \<Rightarrow> string \<Rightarrow> string option"
    and owner :: "'p \<Rightarrow> string \<Rightarrow> string option"
    and pending :: "'p \<Rightarrow> string \<Rightarrow> (string option \<times> string) multiset"
  assumes add: "sound s \<Longrightarrow> ps_add_recipient P s a k = (Ok u, s') \<Longrightarrow>
      sound s' \<and> acct s a \<noteq> None \<and> owner s k = None \<and> acct s' = acct s \<and> pending s' = pending s \<and>
      owner s' = (\<lambda>k'. if weight k' = weight k then acct s a else owner s k')"
    and remove: "sound s \<Longrightarrow> ps_remove_recipient P s a k = (Ok u, s') \<Longrightarrow>
      sound s' \<and> acct s a \<noteq> None \<and> acct s' = acct s \<and>
      (\<forall>acc. image_mset snd (pending s' acc) = image_mset snd (pending s acc)) \<and>
      owner s' = (\<lambda>k'. if weight k' = weight k \<and> owner s k = acct s a then None else owner s k')"
    and persist: "sound s \<Longrightarrow> ps_persist_forward_message P s k m = (Ok u, s') \<Longrightarrow>
      sound s' \<and> acct s' = acct s \<and> owner s' = owner s \<and>
      (\<exists>acc. owner s k = Some acc \<and>
        pending s' = (pending s)(acc := add_mset (Some (weight k), m) (pending s acc)))"
    and refused: "fst (ps_add_recipient P s a k) \<noteq> Ok () \<Longrightarrow> snd (ps_add_recipient P s a k) = s"
      "fst (ps_remove_recipient P s a k) \<noteq> Ok () \<Longrightarrow> snd (ps_remove_recipient P s a k) = s"
      "fst (ps_persist_forward_message P s k m) \<noteq> Ok () \<Longrightarrow> snd (ps_persist_forward_message P s k m) = s"
    and create: "sound s \<Longrightarrow> ps_create_account P s a v d = (r, s') \<Longrightarrow>
      sound s' \<and> owner s' = owner s \<and> pending s' = pending s \<and>
      (\<forall>b acc. acct s b = Some acc \<longrightarrow> acct s' b = Some acc) \<and> (r = Ok () \<longrightarrow> acct s a = None \<and> acct s' a \<noteq> None)"
    and details: "sound s \<Longrightarrow> ps_get_account_details P s a = Ok det \<Longrightarrow>
      acct s a = Some (ad_account_id det) \<and> weight (ad_auth_pubkey det) = weight a"
    and retrieve: "sound s \<Longrightarrow> ps_retrieve_pending_messages P s a limit rk = Ok ms \<Longrightarrow>
      (\<exists>acc. acct s a = Some acc \<and>
        mset (map snd ms) \<subseteq># image_mset snd (filter_mset (addressed weight rk) (pending s acc)) \<and>
        length ms = min (max 1 (unat limit)) (size (filter_mset (addressed weight rk) (pending s acc))))"
    and count: "sound s \<Longrightarrow> ps_retrieve_pending_message_count P s a rk = Ok n \<Longrightarrow>
      (\<exists>acc. acct s a = Some acc \<and> unat n = size (filter_mset (addressed weight rk) (pending s acc)))"
    and owned: "sound s \<Longrightarrow> owner s k = Some acc \<Longrightarrow> \<exists>a. acct s a = Some acc"
    and weighed: "weight k = weight k' \<Longrightarrow> owner s k = owner s k' \<and> acct s k = acct s k'"
begin

text \<open>Taking as many messages as there are gives all of them.\<close>

lemma retrieve_all:
  assumes "sound s" and "ps_retrieve_pending_messages P s a limit rk = Ok ms" and "acct s a = Some acc"
    and "size (pending s acc) \<le> unat limit"
  shows "mset (map snd ms) = image_mset snd (filter_mset (addressed weight rk) (pending s acc))"
proof -
  let ?A = "filter_mset (addressed weight rk) (pending s acc)"
  from retrieve [OF assms(1,2)] assms(3) have
    m: "mset (map snd ms) \<subseteq># image_mset snd ?A" "length ms = min (max 1 (unat limit)) (size ?A)"
    by auto
  have "size ?A \<le> size (pending s acc)" by (simp add: size_filter_mset_lesseq)
  with assms(4) m(2) have "size (mset (map snd ms)) = size (image_mset snd ?A)" by simp
  with m(1) show ?thesis by (metis mset_subset_size subset_mset.le_imp_less_or_eq nat_neq_iff)
qed

text \<open>
  A message forwarded to a registered key reaches the account of that key, and no other account sees
  any difference.
\<close>

lemma forwarded_message_waits:
  assumes "sound s" and "acct s a = Some acc" and "owner s k = Some acc"
    and "ps_persist_forward_message P s k m = (Ok u, s')"
    and "ps_retrieve_pending_messages P s' a limit rk = Ok ms" and "rk = None \<or> rk = Some k"
    and "size (pending s' acc) \<le> unat limit"
  shows "m \<in> set (map snd ms)"
proof -
  from persist [OF assms(1,4)] assms(2,3) have
    p: "sound s'" "acct s' a = Some acc" "pending s' acc = add_mset (Some (weight k), m) (pending s acc)"
    by auto
  from retrieve_all [OF p(1) assms(5) p(2) assms(7)] p(3) assms(6)
  have "m \<in># mset (map snd ms)" by (auto simp: addressed_def)
  then show ?thesis by (simp only: set_mset_mset)
qed

lemma other_accounts_unaffected:
  assumes "sound s" and "ps_persist_forward_message P s k m = (Ok u, s')" and "acct s b = Some acc"
    and "owner s k \<noteq> Some acc"
  shows "pending s' acc = pending s acc"
  using persist [OF assms(1,2)] assms(4) by auto

end

section \<open>The tables keep the promise\<close>

definition acct_of :: "mysql \<Rightarrow> tables \<Rightarrow> string \<Rightarrow> string option" where
  "acct_of M db a = map_option ac_account_id (find (\<lambda>r. sql_equal M (ac_auth_pubkey r) a) (tb_accounts db))"

definition owner_of :: "mysql \<Rightarrow> tables \<Rightarrow> string \<Rightarrow> string option" where
  "owner_of M db k = map_option rp_account_id (find (\<lambda>r. sql_equal M (rp_recipient_key r) k) (tb_recipients db))"

definition letter :: "mysql \<Rightarrow> message_row \<Rightarrow> string option \<times> string" where
  "letter M r = (map_option (sq_weight M) (ms_recipient_key r), ms_message_data r)"

definition pending_of :: "mysql \<Rightarrow> tables \<Rightarrow> string \<Rightarrow> (string option \<times> string) multiset" where
  "pending_of M db acc = image_mset (letter M) (filter_mset (\<lambda>r. ms_account_id r = acc) (mset (tb_messages db)))"

text \<open>
  The invariant of the tables: the constraints of the migration, and that a message that still names a
  recipient key belongs to the account that owns this key.
\<close>

definition tables_ok :: "mysql \<Rightarrow> tables \<Rightarrow> bool" where
  "tables_ok M db \<longleftrightarrow>
     distinct (map (sq_weight M \<circ> ac_auth_pubkey) (tb_accounts db)) \<and>
     distinct (map ac_account_id (tb_accounts db)) \<and>
     distinct (map (sq_weight M \<circ> rp_recipient_key) (tb_recipients db)) \<and>
     distinct (map ms_message_idb (tb_messages db)) \<and>
     (\<forall>r \<in> set (tb_recipients db). rp_account_id r \<in> ac_account_id ` set (tb_accounts db)) \<and>
     (\<forall>m \<in> set (tb_messages db). ms_account_id m \<in> ac_account_id ` set (tb_accounts db) \<and>
       (\<forall>k. ms_recipient_key m = Some k \<longrightarrow> (\<exists>r \<in> set (tb_recipients db).
          sql_equal M (rp_recipient_key r) k \<and> rp_account_id r = ms_account_id m)))"

lemma filter_distinct_key:
  "distinct (map f xs) \<Longrightarrow> filter (\<lambda>x. f x = v) xs = (case find (\<lambda>x. f x = v) xs of Some x \<Rightarrow> [x] | None \<Rightarrow> [])"
proof (induction xs)
  case (Cons x xs)
  from Cons.prems have "f x = v \<Longrightarrow> filter (\<lambda>x. f x = v) xs = []"
    by (auto simp: filter_empty_conv image_iff)
  with Cons show ?case by simp
qed simp

lemma accounts_of_find:
  "tables_ok M db \<Longrightarrow> accounts_of M db a =
     (case find (\<lambda>r. sql_equal M (ac_auth_pubkey r) a) (tb_accounts db) of Some r \<Rightarrow> [r] | None \<Rightarrow> [])"
  using filter_distinct_key [of "sq_weight M \<circ> ac_auth_pubkey" "tb_accounts db" "sq_weight M a"]
  by (auto simp: accounts_of_def tables_ok_def sql_equal_def split: option.splits)

lemma recipients_with_find:
  "tables_ok M db \<Longrightarrow> recipients_with M db k =
     (case find (\<lambda>r. sql_equal M (rp_recipient_key r) k) (tb_recipients db) of Some r \<Rightarrow> [r] | None \<Rightarrow> [])"
  using filter_distinct_key [of "sq_weight M \<circ> rp_recipient_key" "tb_recipients db" "sq_weight M k"]
  by (auto simp: recipients_with_def tables_ok_def sql_equal_def split: option.splits)

lemma sql_Ok [simp]: "sql M st bound v = Ok x \<longleftrightarrow> sq_refuses M st bound = None \<and> v = x"
  by (auto simp: sql_def split: option.splits)

lemma sql_Err [simp]: "sql M st bound v = Err e \<longleftrightarrow> sq_refuses M st bound = Some e"
  by (auto simp: sql_def split: option.splits)

lemma sql_no_panic [simp]: "sql M st bound v \<noteq> Panic"
  by (auto simp: sql_def split: option.splits)

lemma fetch_account_Ok:
  "tables_ok M db \<Longrightarrow> fetch_account M db st a = Ok r \<longleftrightarrow>
     sq_refuses M st [a] = None \<and> find (\<lambda>r. sql_equal M (ac_auth_pubkey r) a) (tb_accounts db) = Some r"
  by (auto simp: fetch_account_def accounts_of_find split: option.splits list.splits)

lemma get_account_id_Ok:
  "tables_ok M db \<Longrightarrow> get_account_id M db a = Ok i \<Longrightarrow> acct_of M db a = Some i"
  by (auto simp: get_account_id_def fetch_account_Ok acct_of_def)

lemma find_weight:
  "sq_weight M k = sq_weight M k' \<Longrightarrow> owner_of M db k = owner_of M db k' \<and> acct_of M db k = acct_of M db k'"
  by (simp add: owner_of_def acct_of_def sql_equal_def)


text \<open>Every operation preserves the invariant; what it does to the three views.\<close>

lemma find_append: "find Q (xs @ ys) = (case find Q xs of Some x \<Rightarrow> Some x | None \<Rightarrow> find Q ys)"
  by (induction xs) auto

lemma acct_of_Some: "acct_of M db a = Some acc \<Longrightarrow> acc \<in> ac_account_id ` set (tb_accounts db)"
  by (auto simp: acct_of_def find_Some_iff)

lemma owner_of_None: "owner_of M db k = None \<longleftrightarrow> (\<forall>r \<in> set (tb_recipients db). \<not> sql_equal M (rp_recipient_key r) k)"
  by (auto simp: owner_of_def find_None_iff)

lemma owner_of_Some:
  assumes "tables_ok M db" and "r \<in> set (tb_recipients db)" and "sql_equal M (rp_recipient_key r) k"
  shows "owner_of M db k = Some (rp_account_id r)"
proof -
  have "r \<in> set (recipients_with M db k)" using assms(2,3) by (simp add: recipients_with_def)
  with assms(1) show ?thesis
    by (cases "find (\<lambda>r. sql_equal M (rp_recipient_key r) k) (tb_recipients db)")
      (simp_all add: recipients_with_find owner_of_def)
qed

lemma insert_account_ok:
  assumes "tables_ok M db" and "insert_account M db a v d = (r, db')"
  shows "tables_ok M db' \<and> tb_recipients db' = tb_recipients db \<and> tb_messages db' = tb_messages db \<and>
    (r \<noteq> Ok () \<longrightarrow> db' = db) \<and>
    (r = Ok () \<longrightarrow> acct_of M db a = None \<and> acct_of M db' a \<noteq> None \<and>
      (\<exists>row. tb_accounts db' = tb_accounts db @ [row]))"
proof (cases "r = Ok ()")
  case True
  with assms(2) obtain j where
    new: "\<forall>r \<in> set (tb_accounts db). sq_weight M (ac_auth_pubkey r) \<noteq> sq_weight M a \<and> ac_account_id r \<noteq> sq_new_uuid M db"
      "db' = db\<lparr>tb_accounts := tb_accounts db @ [\<lparr>ac_account_id = sq_new_uuid M db, ac_auth_pubkey = a,
         ac_our_signing_key = v, ac_did_doc = j\<rparr>]\<rparr>"
    by (auto simp: insert_account_def sql_equal_def split: result.splits option.splits if_splits)
  from new(1) have "sq_weight M a \<notin> (sq_weight M \<circ> ac_auth_pubkey) ` set (tb_accounts db)"
    "sq_new_uuid M db \<notin> ac_account_id ` set (tb_accounts db)" by fastforce+
  with assms(1) have "tables_ok M db'" by (auto simp: tables_ok_def new(2))
  moreover from new(1) have "find (\<lambda>r. sql_equal M (ac_auth_pubkey r) a) (tb_accounts db) = None"
    by (simp add: find_None_iff sql_equal_def)
  ultimately show ?thesis using True by (simp add: new(2) acct_of_def find_append sql_equal_def)
next
  case False
  with assms show ?thesis
    by (auto simp: insert_account_def split: result.splits option.splits if_splits)
qed

lemma add_recipient_ok:
  assumes ok: "tables_ok M db" and add: "add_recipient M db a k = (Ok u, db')"
  shows "tables_ok M db' \<and> acct_of M db a \<noteq> None \<and> owner_of M db k = None \<and> acct_of M db' = acct_of M db \<and>
    pending_of M db' = pending_of M db \<and>
    owner_of M db' = (\<lambda>k'. if sq_weight M k' = sq_weight M k then acct_of M db a else owner_of M db k')"
proof -
  from add obtain i where i: "get_account_id M db a = Ok i" "owner_of M db k = None"
    "db' = db\<lparr>tb_recipients := tb_recipients db @ [\<lparr>rp_account_id = i, rp_recipient_key = k\<rparr>]\<rparr>"
    by (auto simp: add_recipient_def owner_of_None split: result.splits if_splits)
  from get_account_id_Ok [OF ok i(1)] have acc: "acct_of M db a = Some i" .
  from i(2) have fresh: "sq_weight M k \<notin> (sq_weight M \<circ> rp_recipient_key) ` set (tb_recipients db)"
    by (fastforce simp: owner_of_None sql_equal_def)
  have "tables_ok M db'"
    using ok fresh acct_of_Some [OF acc] by (auto simp: tables_ok_def i(3))
  moreover have "owner_of M db' k' = (if sq_weight M k' = sq_weight M k then acct_of M db a else owner_of M db k')" for k'
    using i(2) acc find_weight [of M k' k db]
    by (auto simp: owner_of_def i(3) find_append sql_equal_def split: option.splits)
  ultimately show ?thesis
    using i(2) acc by (auto simp: i(3) acct_of_def pending_of_def)
qed


lemma find_filter: "(\<And>x. x \<in> set xs \<Longrightarrow> Q x \<Longrightarrow> R x) \<Longrightarrow> find Q (filter R xs) = find Q xs"
  by (induction xs) auto

lemma letter_unreferenced [simp]: "snd (letter M (unreferenced M gone r)) = snd (letter M r)"
  "ms_account_id (unreferenced M gone r) = ms_account_id r" "ms_message_idb (unreferenced M gone r) = ms_message_idb r"
  by (auto simp: letter_def unreferenced_def split: option.splits)

lemma unreferenced_key:
  "ms_recipient_key (unreferenced M gone r) = Some k \<longleftrightarrow>
     ms_recipient_key r = Some k \<and> (\<forall>g \<in> set gone. \<not> sql_equal M (rp_recipient_key g) k)"
  by (auto simp: unreferenced_def split: option.splits)

lemma delete_recipient_sound:
  assumes "tables_ok M db"
  shows "tables_ok M (delete_recipient M db i k)"
proof -
  let ?hit = "\<lambda>r. rp_account_id r = i \<and> sql_equal M (rp_recipient_key r) k"
  have refs: "\<exists>r \<in> set (tb_recipients db). \<not> ?hit r \<and> sql_equal M (rp_recipient_key r) k' \<and> rp_account_id r = ms_account_id m"
    if "m \<in> set (tb_messages db)" "ms_recipient_key (unreferenced M (filter ?hit (tb_recipients db)) m) = Some k'" for m k'
    using assms that unfolding tables_ok_def unreferenced_key by fastforce
  have "map ms_message_idb (map (unreferenced M g) ms) = map ms_message_idb ms" for g ms
    by simp
  with assms refs show ?thesis
    unfolding tables_ok_def delete_recipient_def Let_def
    by (simp add: distinct_map_filter del: map_map) blast
qed

lemma delete_recipient_owner:
  assumes ok: "tables_ok M db"
  shows "owner_of M (delete_recipient M db i k) =
    (\<lambda>k'. if sq_weight M k' = sq_weight M k \<and> owner_of M db k = Some i then None else owner_of M db k')"
proof
  fix k'
  let ?hit = "\<lambda>r. rp_account_id r = i \<and> sql_equal M (rp_recipient_key r) k"
  let ?db = "delete_recipient M db i k"
  show "owner_of M ?db k' =
    (if sq_weight M k' = sq_weight M k \<and> owner_of M db k = Some i then None else owner_of M db k')"
  proof (cases "sq_weight M k' = sq_weight M k \<and> owner_of M db k = Some i")
    case True
    have "?hit r" if "r \<in> set (tb_recipients db)" "sql_equal M (rp_recipient_key r) k'" for r
      using that True owner_of_Some [OF ok that(1), of k] by (simp add: sql_equal_def)
    then have "owner_of M ?db k' = None" by (auto simp: owner_of_None delete_recipient_def Let_def)
    with True show ?thesis by simp
  next
    case False
    have "\<not> ?hit r" if "r \<in> set (tb_recipients db)" "sql_equal M (rp_recipient_key r) k'" for r
      using that False owner_of_Some [OF ok that(1), of k] by (auto simp: sql_equal_def)
    then show ?thesis using False
      by (auto simp: owner_of_def delete_recipient_def Let_def find_filter)
  qed
qed

lemma delete_recipient_pending:
  "image_mset snd (pending_of M (delete_recipient M db i k) acc) = image_mset snd (pending_of M db acc)"
proof -
  have "image_mset (snd \<circ> letter M) (filter_mset (\<lambda>r. ms_account_id r = acc) (mset (map (unreferenced M g) ms))) =
    image_mset (snd \<circ> letter M) (filter_mset (\<lambda>r. ms_account_id r = acc) (mset ms))" for g ms
    by (induction ms) auto
  then show ?thesis
    by (simp add: pending_of_def delete_recipient_def Let_def multiset.map_comp)
qed

lemma remove_recipient_ok:
  assumes ok: "tables_ok M db" and del: "remove_recipient M db a k = (Ok u, db')"
  shows "tables_ok M db' \<and> acct_of M db a \<noteq> None \<and> acct_of M db' = acct_of M db \<and>
    (\<forall>acc. image_mset snd (pending_of M db' acc) = image_mset snd (pending_of M db acc)) \<and>
    owner_of M db' = (\<lambda>k'. if sq_weight M k' = sq_weight M k \<and> owner_of M db k = acct_of M db a then None
      else owner_of M db k')"
proof -
  from del obtain i where i: "get_account_id M db a = Ok i" "db' = delete_recipient M db i k"
    by (auto simp: remove_recipient_def split: result.splits)
  from get_account_id_Ok [OF ok i(1)] have "acct_of M db a = Some i" .
  moreover have "acct_of M db' = acct_of M db" by (auto simp: i(2) acct_of_def delete_recipient_def Let_def)
  ultimately show ?thesis
    using delete_recipient_sound [OF ok] delete_recipient_owner [OF ok] delete_recipient_pending
    by (simp add: i(2))
qed

lemma persist_ok:
  assumes ok: "tables_ok M db" and ins: "persist_forward_message M db k m = (Ok u, db')"
  shows "tables_ok M db' \<and> acct_of M db' = acct_of M db \<and> owner_of M db' = owner_of M db \<and>
    (\<exists>acc. owner_of M db k = Some acc \<and>
      pending_of M db' = (pending_of M db)(acc := add_mset (Some (sq_weight M k), m) (pending_of M db acc)))"
proof -
  from ins obtain row where
    row: "find (\<lambda>r. sql_equal M (rp_recipient_key r) k) (tb_recipients db) = Some row" and
    new: "\<forall>r \<in> set (tb_messages db). ms_message_idb r \<noteq> sq_new_uuid M db" and
    db': "db' = db\<lparr>tb_messages := tb_messages db @ [\<lparr>ms_account_id = rp_account_id row, ms_recipient_key = Some k,
      ms_message_idb = sq_new_uuid M db, ms_message_data = m\<rparr>]\<rparr>"
    by (auto simp: persist_forward_message_def recipients_with_find [OF ok] insert_message_def
        split: result.splits list.splits option.splits if_splits)
  from row have r: "row \<in> set (tb_recipients db)" "sql_equal M (rp_recipient_key row) k"
    by (auto simp: find_Some_iff)
  from new have "sq_new_uuid M db \<notin> ms_message_idb ` set (tb_messages db)" by fastforce
  with ok r have "tables_ok M db'" by (auto simp: tables_ok_def db')
  moreover have "owner_of M db k = Some (rp_account_id row)" using row by (simp add: owner_of_def)
  ultimately show ?thesis
    by (auto simp: db' acct_of_def owner_of_def pending_of_def letter_def fun_eq_iff)
qed


text \<open>The loop over the rows takes the first \<open>max 1 limit\<close> of them.\<close>

abbreviation row_pair :: "mysql \<Rightarrow> message_row \<Rightarrow> string \<times> string" where
  "row_pair M r \<equiv> (sq_uuid_text M (ms_message_idb r), ms_message_data r)"

lemma fetch_rows_take:
  "length acc < max 1 (unat limit) \<Longrightarrow>
   fetch_rows M limit acc rows = Ok (acc @ map (row_pair M) (take (max 1 (unat limit) - length acc) rows))"
proof (induction rows arbitrary: acc)
  case (Cons row rows)
  have lim: "unat limit < 2 ^ 32" using unsigned_less [of limit, where 'a = nat] by simp
  show ?case
  proof (cases "unat limit \<le> Suc (length acc)")
    case True
    with Cons.prems have "max 1 (unat limit) - length acc = 1" by arith
    with True lim Cons.prems show ?thesis by (simp add: Let_def)
  next
    case False
    then have "max 1 (unat limit) - length acc = Suc (max 1 (unat limit) - Suc (length acc))" by arith
    with False lim Cons.IH [of "acc @ [row_pair M row]"] show ?thesis by (simp add: Let_def)
  qed
qed simp

lemma messages_of_letters:
  "image_mset (letter M) (mset (messages_of M db acc rk)) = filter_mset (addressed (sq_weight M) rk) (pending_of M db acc)"
proof -
  have "filter_mset (addressed (sq_weight M) rk) (image_mset (letter M) A) =
      image_mset (letter M) (filter_mset (\<lambda>r. case rk of None \<Rightarrow> True
        | Some k \<Rightarrow> (case ms_recipient_key r of Some k' \<Rightarrow> sql_equal M k' k | None \<Rightarrow> False)) A)" for A
    by (simp add: filter_mset_image_mset addressed_def letter_def sql_equal_def comp_def split: option.splits)
      (auto intro!: arg_cong [of _ _ "image_mset (letter M)"] filter_mset_cong simp: letter_def split: option.splits)
  then show ?thesis
    by (simp add: messages_of_def pending_of_def filter_filter_mset conj_commute)
qed

lemma retrieve_ok:
  assumes ok: "tables_ok M db" and ret: "retrieve_pending_messages M db a limit rk = Ok ms"
  shows "\<exists>acc. acct_of M db a = Some acc \<and>
    mset (map snd ms) \<subseteq># image_mset snd (filter_mset (addressed (sq_weight M) rk) (pending_of M db acc)) \<and>
    length ms = min (max 1 (unat limit)) (size (filter_mset (addressed (sq_weight M) rk) (pending_of M db acc)))"
proof -
  from ret obtain i where i: "get_account_id M db a = Ok i"
    "fetch_rows M limit [] (messages_of M db i rk) = Ok ms"
    by (auto simp: retrieve_pending_messages_def split: result.splits)
  from i(2) have ms: "ms = map (row_pair M) (take (max 1 (unat limit)) (messages_of M db i rk))"
    by (simp add: fetch_rows_take)
  have "mset (map snd ms) = image_mset ms_message_data (mset (take (max 1 (unat limit)) (messages_of M db i rk)))"
    by (simp add: ms comp_def)
  also have "\<dots> \<subseteq># image_mset ms_message_data (mset (messages_of M db i rk))"
    by (intro image_mset_subseteq_mono) (metis append_take_drop_id mset_append mset_subset_eq_add_left)
  also have "\<dots> = image_mset snd (image_mset (letter M) (mset (messages_of M db i rk)))"
    by (simp add: multiset.map_comp comp_def letter_def)
  finally have sub: "mset (map snd ms) \<subseteq># image_mset snd (filter_mset (addressed (sq_weight M) rk) (pending_of M db i))"
    by (simp add: messages_of_letters)
  have "length ms = min (max 1 (unat limit)) (size (image_mset (letter M) (mset (messages_of M db i rk))))"
    by (simp add: ms)
  with sub get_account_id_Ok [OF ok i(1)] show ?thesis by (auto simp: messages_of_letters)
qed

lemma count_ok:
  assumes ok: "tables_ok M db" and cnt: "retrieve_pending_message_count M db a rk = Ok n"
  shows "\<exists>acc. acct_of M db a = Some acc \<and>
    unat n = size (filter_mset (addressed (sq_weight M) rk) (pending_of M db acc))"
proof -
  from cnt obtain i where i: "get_account_id M db a = Ok i"
    "length (messages_of M db i rk) < 2 ^ 31" "n = of_nat (length (messages_of M db i rk))"
    by (auto simp: retrieve_pending_message_count_def split: if_splits)
  then have "unat n = size (image_mset (letter M) (mset (messages_of M db i rk)))"
    by (simp add: unat_of_nat)
  with get_account_id_Ok [OF ok i(1)] show ?thesis by (auto simp: messages_of_letters)
qed

lemma create_account_ok:
  assumes "tables_ok M db" and "create_account M db a v d = (r, db')"
  shows "tables_ok M db' \<and> owner_of M db' = owner_of M db \<and> pending_of M db' = pending_of M db \<and>
    (\<forall>b acc. acct_of M db b = Some acc \<longrightarrow> acct_of M db' b = Some acc) \<and>
    (r = Ok () \<longrightarrow> acct_of M db a = None \<and> acct_of M db' a \<noteq> None)"
proof -
  obtain q db2 where q: "insert_account M db a v d = (q, db2)" by fastforce
  from assms(2) q have db2: "db' = db2" "r = Ok () \<Longrightarrow> q = Ok ()"
    by (auto simp: create_account_def split: result.splits)
  from insert_account_ok [OF assms(1) q] db2 show ?thesis
    by (cases "q = Ok ()") (auto simp: owner_of_def pending_of_def fun_eq_iff acct_of_def find_append)
qed

lemma details_ok:
  assumes "tables_ok M db" and "get_account_details M db a = Ok det"
  shows "acct_of M db a = Some (ad_account_id det) \<and> sq_weight M (ad_auth_pubkey det) = sq_weight M a"
proof -
  from assms obtain row where row: "find (\<lambda>r. sql_equal M (ac_auth_pubkey r) a) (tb_accounts db) = Some row"
    "ad_account_id det = ac_account_id row" "ad_auth_pubkey det = ac_auth_pubkey row"
    by (auto simp: get_account_details_def fetch_account_Ok)
  then have "sql_equal M (ac_auth_pubkey row) a" by (auto simp: find_Some_iff)
  with row show ?thesis by (simp add: acct_of_def sql_equal_def)
qed

lemma owner_has_account:
  assumes ok: "tables_ok M db" and "owner_of M db k = Some acc"
  shows "\<exists>a. acct_of M db a = Some acc"
proof -
  from assms(2) obtain r where "r \<in> set (tb_recipients db)" "rp_account_id r = acc"
    by (auto simp: owner_of_def find_Some_iff dest: nth_mem)
  with ok obtain x where x: "x \<in> set (tb_accounts db)" "ac_account_id x = acc"
    by (auto simp: tables_ok_def image_iff)
  then have "x \<in> set (accounts_of M db (ac_auth_pubkey x))" by (simp add: accounts_of_def sql_equal_def)
  then have "acct_of M db (ac_auth_pubkey x) = Some acc"
    using x(2) by (cases "find (\<lambda>r. sql_equal M (ac_auth_pubkey r) (ac_auth_pubkey x)) (tb_accounts db)")
      (simp_all add: accounts_of_find [OF ok] acct_of_def)
  then show ?thesis by blast
qed

lemma refused_ok:
  "fst (add_recipient M s a k) \<noteq> Ok () \<Longrightarrow> snd (add_recipient M s a k) = s"
  "fst (remove_recipient M s a k) \<noteq> Ok () \<Longrightarrow> snd (remove_recipient M s a k) = s"
  "fst (persist_forward_message M s k m) \<noteq> Ok () \<Longrightarrow> snd (persist_forward_message M s k m) = s"
  by (auto simp: add_recipient_def remove_recipient_def persist_forward_message_def insert_message_def
      split: result.splits list.splits if_splits)

lemma mysql_persistence_sel [simp]:
  "ps_create_account (mysql_persistence M) = create_account M"
  "ps_get_account_id (mysql_persistence M) = get_account_id M"
  "ps_add_recipient (mysql_persistence M) = add_recipient M"
  "ps_remove_recipient (mysql_persistence M) = remove_recipient M"
  "ps_list_recipient_keys (mysql_persistence M) = list_recipient_keys M"
  "ps_persist_forward_message (mysql_persistence M) = persist_forward_message M"
  "ps_retrieve_pending_message_count (mysql_persistence M) = retrieve_pending_message_count M"
  "ps_retrieve_pending_messages (mysql_persistence M) = retrieve_pending_messages M"
  "ps_get_account_details (mysql_persistence M) = get_account_details M"
  by (simp_all add: mysql_persistence_def)

interpretation mysql: mediator_storage
  "mysql_persistence M" "sq_weight M" "tables_ok M" "acct_of M" "owner_of M" "pending_of M"
  by (unfold_locales, unfold mysql_persistence_sel)
    (fact add_recipient_ok remove_recipient_ok persist_ok refused_ok create_account_ok details_ok retrieve_ok
      count_ok owner_has_account find_weight)+

end
