(* ===== verification/Mediator.thy ===== *)
theory Mediator
  imports Mediator_Storage
begin

text \<open>
  The mediator agent (\<open>agents/mediator/src\<close>): coordination of mediation, forwarded messages and their
  pickup (\<open>mediation\<close>), the agent with its wallet and storage (\<open>aries_agent\<close>) and the dispatcher of
  incoming envelopes (\<open>didcomm_handlers\<close>). Every handler takes the storage as a record of functions and
  threads its state; the dispatcher threads the wallet beside it. A \<open>panic!\<close>, a \<open>todo!\<close>, an \<open>unwrap\<close> and
  an \<open>expect\<close> that fail are the outcome \<open>Panic\<close> (the router turns it into an error answer).
\<close>

section \<open>Coordination (\<open>mediation/coordination.rs\<close>)\<close>

text \<open>\<open>Result::unwrap\<close>, \<open>Result::expect\<close> and a \<open>todo!\<close> on an error.\<close>

definition unwrapped :: "('e, 'a) result \<Rightarrow> ('f, 'a) result" where
  "unwrapped r = (case r of Ok x \<Rightarrow> Ok x | _ \<Rightarrow> Panic)"

lemma unwrapped_Ok [simp]: "unwrapped r = Ok x \<longleftrightarrow> r = Ok x" "unwrapped (Ok x) = Ok x"
  by (auto simp: unwrapped_def split: result.splits)

definition unthreaded :: "'c \<Rightarrow> string \<Rightarrow> ('c, ThreadDecorators) MsgParts" where
  "unthreaded content uuid = \<lparr>mp_id = uuid, mp_content = content, mp_decorators = \<lparr>th_thread = None\<rparr>\<rparr>"

definition handle_mediate_request ::
  "'p persistence \<Rightarrow> 'p \<Rightarrow> string \<Rightarrow> string \<Rightarrow> string \<Rightarrow> string \<Rightarrow> MediateGrantContent \<Rightarrow>
   (string, CoordinateMediation) result \<times> 'p" where
  "handle_mediate_request P s uuid auth_pubkey did_doc our_signing_key grant_content =
     (case ps_create_account P s auth_pubkey our_signing_key did_doc of
        (Ok _, s) \<Rightarrow> (Ok (CM_MediateGrant (unthreaded grant_content uuid)), s)
      | (Err _, s) \<Rightarrow> (Ok (CM_MediateDeny (unthreaded () uuid)), s)
      | (Panic, s) \<Rightarrow> (Panic, s))"

definition handle_keylist_query ::
  "'p persistence \<Rightarrow> 'p \<Rightarrow> string \<Rightarrow> KeylistQueryContent \<Rightarrow> string \<Rightarrow> (string, CoordinateMediation) result" where
  "handle_keylist_query P s uuid keylist_query_data auth_pubkey =
     and_then (unwrapped (ps_list_recipient_keys P s auth_pubkey)) (\<lambda>recipient_keys.
     Ok (CM_Keylist (unthreaded \<lparr>kl_keys = map (\<lambda>k. \<lparr>ki_recipient_key = k\<rparr>) recipient_keys,
       kl_pagination = None\<rparr> uuid)))"

definition update_recipient :: "'p persistence \<Rightarrow> 'p \<Rightarrow> string \<Rightarrow> KeylistUpdateItem \<Rightarrow> unit pers_res \<times> 'p" where
  "update_recipient P s auth_pubkey item =
     (case ku_action item of
        Key_Add \<Rightarrow> ps_add_recipient P s auth_pubkey (ku_recipient_key item)
      | Key_Remove \<Rightarrow> ps_remove_recipient P s auth_pubkey (ku_recipient_key item))"

text \<open>The loop over the updates: each is tried, in order, whatever became of those before it.\<close>

fun update_recipients ::
  "'p persistence \<Rightarrow> string \<Rightarrow> KeylistUpdateItem list \<Rightarrow> 'p \<Rightarrow> (string, KeylistUpdateResponseItem list) result \<times> 'p" where
  "update_recipients P auth_pubkey [] s = (Ok [], s)"
| "update_recipients P auth_pubkey (item # items) s =
     (case update_recipient P s auth_pubkey item of
        (Panic, s) \<Rightarrow> (Panic, s)
      | (r, s) \<Rightarrow>
          and_thenw (update_recipients P auth_pubkey items s) (\<lambda>updated s.
          (Ok (\<lparr>kr_recipient_key = ku_recipient_key item, kr_action = ku_action item,
             kr_result = (if is_ok r then Update_Success else Update_ServerError)\<rparr> # updated), s)))"

definition handle_keylist_update ::
  "'p persistence \<Rightarrow> 'p \<Rightarrow> string \<Rightarrow> KeylistUpdateContent \<Rightarrow> string \<Rightarrow> (string, CoordinateMediation) result \<times> 'p" where
  "handle_keylist_update P s uuid keylist_update_data auth_pubkey =
     and_thenw (update_recipients P auth_pubkey (ku_updates keylist_update_data) s) (\<lambda>updated s.
     (Ok (CM_KeylistUpdateResponse (unthreaded \<lparr>kr_updated = updated\<rparr> uuid)), s))"

definition handle_coord_authenticated ::
  "'p persistence \<Rightarrow> 'p \<Rightarrow> string \<Rightarrow> CoordinateMediation \<Rightarrow> string \<Rightarrow> (string, CoordinateMediation) result \<times> 'p" where
  "handle_coord_authenticated P s uuid message auth_pubkey =
     (case message of
        CM_KeylistUpdate keylist_update \<Rightarrow> handle_keylist_update P s uuid (mp_content keylist_update) auth_pubkey
      | CM_KeylistQuery keylist_query \<Rightarrow> (handle_keylist_query P s uuid (mp_content keylist_query) auth_pubkey, s)
      | _ \<Rightarrow> (Panic, s))"

section \<open>Forwarded messages (\<open>mediation/forward.rs\<close>)\<close>

text \<open>The status computed from the outcome is bound to \<open>_ack_status\<close> and not used.\<close>

definition handle_forward ::
  "ext \<Rightarrow> 'p persistence \<Rightarrow> 'p \<Rightarrow> string \<Rightarrow> Forward \<Rightarrow> (string, Ack) result \<times> 'p" where
  "handle_forward E P s uuid forward_msg =
     (case ps_persist_forward_message P s (fwd_to (mp_content forward_msg))
         (x_json_print E (fwd_msg (mp_content forward_msg))) of
        (Panic, s) \<Rightarrow> (Panic, s)
      | (_, s) \<Rightarrow> (Ok \<lparr>mp_id = uuid, mp_content = \<lparr>ack_status = Ack_Ok\<rparr>,
          mp_decorators = \<lparr>ak_thread = new_thread (mp_id forward_msg), ak_timing = None\<rparr>\<rparr>, s))"

section \<open>Pickup (\<open>mediation/pickup.rs\<close>)\<close>

definition untransported :: "'c \<Rightarrow> string \<Rightarrow> ('c, TransportDecorators) MsgParts" where
  "untransported content uuid = \<lparr>mp_id = uuid, mp_content = content,
     mp_decorators = \<lparr>tp_transport = None, tp_thread = None\<rparr>\<rparr>"

definition handle_pickup_status_req ::
  "'p persistence \<Rightarrow> 'p \<Rightarrow> string \<Rightarrow> StatusRequestContent \<Rightarrow> string \<Rightarrow> (string, Pickup) result" where
  "handle_pickup_status_req P s uuid status_request auth_pubkey =
     and_then (unwrapped (ps_retrieve_pending_message_count P s auth_pubkey (sr_recipient_key status_request)))
       (\<lambda>message_count. Ok (PU_Status (untransported \<lparr>st_message_count = message_count,
          st_recipient_key = sr_recipient_key status_request\<rparr> uuid)))"

definition handle_pickup_default_status ::
  "'p persistence \<Rightarrow> 'p \<Rightarrow> string \<Rightarrow> string \<Rightarrow> (string, Pickup) result" where
  "handle_pickup_default_status P s uuid auth_pubkey =
     handle_pickup_status_req P s uuid \<lparr>sr_recipient_key = None\<rparr> auth_pubkey"

definition pickup_attachment :: "wire \<Rightarrow> string \<times> string \<Rightarrow> Attachment" where
  "pickup_attachment Z im =
     \<lparr>att_id = Some (fst im), att_description = None, att_filename = None, att_mime_type = None,
      att_lastmod_time = None, att_byte_count = None,
      att_data = \<lparr>ad_jws = None, ad_sha256 = None, ad_content = Base64 (wr_b64url_encode Z (snd im))\<rparr>\<rparr>"

definition handle_pickup_delivery_req ::
  "wire \<Rightarrow> 'p persistence \<Rightarrow> 'p \<Rightarrow> string \<Rightarrow> DeliveryRequestContent \<Rightarrow> string \<Rightarrow> (string, Pickup) result" where
  "handle_pickup_delivery_req Z P s uuid delivery_request auth_pubkey =
     and_then (unwrapped (ps_retrieve_pending_messages P s auth_pubkey (dr_limit delivery_request)
         (dr_recipient_key delivery_request))) (\<lambda>messages.
     let attach = map (pickup_attachment Z) messages
     in if attach \<noteq> []
        then Ok (PU_Delivery (untransported \<lparr>dl_recipient_key = dr_recipient_key delivery_request,
          dl_attach = attach\<rparr> uuid))
        else handle_pickup_default_status P s uuid auth_pubkey)"

definition handle_pickup_authenticated ::
  "wire \<Rightarrow> 'p persistence \<Rightarrow> 'p \<Rightarrow> string \<Rightarrow> Pickup \<Rightarrow> string \<Rightarrow> (string, Pickup) result" where
  "handle_pickup_authenticated Z P s uuid pickup_message auth_pubkey =
     (case pickup_message of
        PU_StatusRequest status_request \<Rightarrow>
          handle_pickup_status_req P s uuid (mp_content status_request) auth_pubkey
      | PU_Status _ \<Rightarrow> handle_pickup_default_status P s uuid auth_pubkey
      | PU_DeliveryRequest delivery_request \<Rightarrow>
          handle_pickup_delivery_req Z P s uuid (mp_content delivery_request) auth_pubkey
      | _ \<Rightarrow> handle_pickup_default_status P s uuid auth_pubkey)"

section \<open>The agent (\<open>aries_agent\<close>)\<close>

record Agent =
  ag_service :: "AriesService option"

text \<open>Texts and documents the agent prints: \<open>Debug\<close> of messages and errors, a document as JSON.\<close>

record med_ext =
  mx_debug_con :: "Connection \<Rightarrow> string"
  mx_debug_msg :: "AriesMessage \<Rightarrow> string"
  mx_debug_diddoc_error :: "DiddocError \<Rightarrow> string"
  mx_ser_did_doc :: "AriesDidDoc \<Rightarrow> string"

definition reset_service ::
  "key_ext \<Rightarrow> 'w wallet \<Rightarrow> 'w \<Rightarrow> Agent \<Rightarrow> string list \<Rightarrow> string \<Rightarrow> Agent wallet_res \<times> 'w" where
  "reset_service K W w self rks service_endpoint =
     and_thenw (wl_create_and_store_my_did W w None None) (\<lambda>did_data w.
     (Ok (self\<lparr>ag_service := Some \<lparr>sv_id = ''#inline'', sv_type = ''did-communication'', sv_priority = 0,
        sv_recipient_keys = [key_base58 K (dd_verkey did_data)], sv_routing_keys = rks,
        sv_service_endpoint = service_endpoint\<rparr>\<rparr>), w))"

definition get_oob_invite :: "string \<Rightarrow> Agent \<Rightarrow> (string, OobInvitation) result" where
  "get_oob_invite uuid self =
     (case ag_service self of
        Some service \<Rightarrow> Ok (os_oob (append_service (sender_create uuid) (Oob_AriesService service)))
      | None \<Rightarrow> Err ''No service to create invite for'')"

definition unpack_didcomm :: "'w wallet \<Rightarrow> 'w \<Rightarrow> string \<Rightarrow> (string, UnpackMessageOutput) result" where
  "unpack_didcomm W w didcomm_msg = unwrapped (wl_unpack_message W w didcomm_msg)"

definition pack_didcomm ::
  "ext \<Rightarrow> dd_ext \<Rightarrow> key_ext \<Rightarrow> msg_codecs \<Rightarrow> 'w wallet \<Rightarrow> 'w \<Rightarrow> (nat \<Rightarrow> string) \<Rightarrow> string \<Rightarrow> string \<Rightarrow>
   AriesDidDoc \<Rightarrow> (string, string) result" where
  "pack_didcomm E X K R W w uuids message our_vk their_diddoc =
     map_err format_error (create_from_legacy E X K R W w uuids message (Some our_vk) their_diddoc)"

definition auth_and_get_details ::
  "'p persistence \<Rightarrow> 'p \<Rightarrow> string option \<Rightarrow> (string, AccountDetails) result" where
  "auth_and_get_details P s sender_verkey =
     and_then (ok_or sender_verkey ''Anonymous sender can't be authenticated'') (\<lambda>auth_pubkey.
     map_err show_persistence_error (ps_get_account_details P s auth_pubkey))"

definition agent_create_account ::
  "med_ext \<Rightarrow> 'p persistence \<Rightarrow> 'p \<Rightarrow> string \<Rightarrow> string \<Rightarrow> AriesDidDoc \<Rightarrow> (string, unit) result \<times> 'p" where
  "agent_create_account D P s their_vk our_vk did_doc =
     (case ps_create_account P s their_vk our_vk (mx_ser_did_doc D did_doc) of
        (r, s) \<Rightarrow> (map_err show_create_account_error r, s))"

text \<open>\<open>aries_agent/utils.rs\<close>\<close>

definition mediator_response_content ::
  "key_ext \<Rightarrow> wire \<Rightarrow> 'w wallet \<Rightarrow> 'w \<Rightarrow> string \<Rightarrow> u64 \<Rightarrow> string \<Rightarrow> string \<Rightarrow> string \<Rightarrow> string \<Rightarrow> string \<Rightarrow>
   string list \<Rightarrow> Response VcxResult" where
  "mediator_response_content K Z W w uuid ts thread_id old_recipient_vk new_recipient_did new_recipient_vk
       new_service_endpoint new_rks =
     (let did_doc = set_recipient_keys [new_recipient_vk] (set_routing_keys new_rks
            (set_service_endpoint new_service_endpoint (set_id new_recipient_did default_did_doc)))
      in and_then (sign_connection_response K Z W w ts old_recipient_vk
             \<lparr>cn_did = new_recipient_did, cn_did_doc = did_doc\<rparr>) (\<lambda>con_sig.
         Ok \<lparr>mp_id = uuid, mp_content = \<lparr>rs_connection_sig = con_sig\<rparr>,
           mp_decorators = \<lparr>pd_thread = new_thread thread_id, pd_please_ack = None, pd_timing = None\<rparr>\<rparr>))"

definition handle_connection_req ::
  "ext \<Rightarrow> dd_ext \<Rightarrow> key_ext \<Rightarrow> wire \<Rightarrow> msg_codecs \<Rightarrow> med_ext \<Rightarrow> 'w wallet \<Rightarrow> 'p persistence \<Rightarrow> Agent \<Rightarrow>
   'w \<times> 'p \<Rightarrow> string \<Rightarrow> (nat \<Rightarrow> string) \<Rightarrow> u64 \<Rightarrow> Request \<Rightarrow> (string, string) result \<times> ('w \<times> 'p)" where
  "handle_connection_req E X K Z R D W P self ws uuid uuids ts request =
     (let their_diddoc = cn_did_doc (rc_connection (mp_content request)) in
     and_thenw (pure_w (map_err (\<lambda>err. ''Request DidDoc validation failed! '' @ mx_debug_diddoc_error D err)
         (validate_did_doc X their_diddoc)) ws) (\<lambda>_ (w, s).
     and_thenw (case wl_create_and_store_my_did W w None None of
         (r, w) \<Rightarrow> (map_err show_wallet_error r, (w, s))) (\<lambda>did_data (w, s).
     case ag_service self of
       None \<Rightarrow> (Panic, (w, s))
     | Some service \<Rightarrow>
         (case sv_recipient_keys service of
            [] \<Rightarrow> (Panic, (w, s))
          | old_vk # _ \<Rightarrow>
              and_thenw (pure_w (map_err format_error (mediator_response_content K Z W w uuid ts
                  (request_thread_id request) old_vk (dd_did did_data) (key_base58 K (dd_verkey did_data))
                  (sv_service_endpoint service) (sv_routing_keys service))) (w, s)) (\<lambda>response (w, s).
              and_thenw (pure_w (map_err format_error (create_from_legacy E X K R W w uuids
                  (message_text E R (Connection (Con_Response response))) (Some old_vk) their_diddoc)) (w, s))
                (\<lambda>envelope (w, s).
              and_thenw (pure_w (map_err show_DiddocError (recipient_keys X their_diddoc)) (w, s))
                (\<lambda>their_keys (w, s).
              case their_keys of
                [] \<Rightarrow> (Err ''No recipient key for client :/ ?'', (w, s))
              | auth_pubkey # _ \<Rightarrow>
                  and_thenw (case agent_create_account D P s auth_pubkey (key_base58 K (dd_verkey did_data))
                      their_diddoc of (r, s) \<Rightarrow> (r, (w, s))) (\<lambda>_ (w, s).
                  (Ok envelope, (w, s))))))))))"

text \<open>The client role (\<open>aries_agent/client\<close>): what becomes of an answer and of a finished connection.\<close>

definition client_handle_connection_response ::
  "ext \<Rightarrow> dd_ext \<Rightarrow> key_ext \<Rightarrow> wire \<Rightarrow> con_ext \<Rightarrow> 'w wallet \<Rightarrow> 'w \<Rightarrow> InviteeRequested InviteeConnection \<Rightarrow>
   Response \<Rightarrow> (string, InviteeCompleted InviteeConnection) result" where
  "client_handle_connection_response E X K Z C W w state response =
     map_err format_error (handle_response E X K Z C W w state response)"

definition save_completed_connection_as_contact ::
  "dd_ext \<Rightarrow> med_ext \<Rightarrow> 'p persistence \<Rightarrow> 'p \<Rightarrow> InviteeCompleted InviteeConnection \<Rightarrow> (string, unit) result \<times> 'p" where
  "save_completed_connection_as_contact X D P s state =
     and_thenw (pure_w (map_err format_error (remote_vk_of X (eec_did_doc (con_state state)))) s) (\<lambda>their_vk s.
     agent_create_account D P s their_vk (pw_vk (con_pairwise_info state)) (eec_did_doc (con_state state)))"

definition list_contacts :: "'p persistence \<Rightarrow> 'p \<Rightarrow> (string, (string \<times> string) list) result" where
  "list_contacts P s = map_err show_persistence_error (ps_list_accounts P s)"

section \<open>The dispatcher (\<open>didcomm_handlers\<close>)\<close>

definition handle_aries_connection ::
  "ext \<Rightarrow> dd_ext \<Rightarrow> key_ext \<Rightarrow> wire \<Rightarrow> msg_codecs \<Rightarrow> med_ext \<Rightarrow> 'w wallet \<Rightarrow> 'p persistence \<Rightarrow> Agent \<Rightarrow>
   'w \<times> 'p \<Rightarrow> string \<Rightarrow> (nat \<Rightarrow> string) \<Rightarrow> u64 \<Rightarrow> Connection \<Rightarrow> (string, string) result \<times> ('w \<times> 'p)" where
  "handle_aries_connection E X K Z R D W P agent ws uuid uuids ts connection =
     (case connection of
        Con_Invitation _ \<Rightarrow> (Err ''Mediator does not handle random invites. Sorry.'', ws)
      | Con_Request register_request \<Rightarrow> handle_connection_req E X K Z R D W P agent ws uuid uuids ts register_request
      | _ \<Rightarrow> (Err (''Don't know how to handle this message type '' @ mx_debug_con D connection), ws))"

definition handle_mediation_coord ::
  "'p persistence \<Rightarrow> Agent \<Rightarrow> 'p \<Rightarrow> string \<Rightarrow> CoordinateMediation \<Rightarrow> string \<Rightarrow>
   (string, CoordinateMediation) result \<times> 'p" where
  "handle_mediation_coord P agent s uuid coord_msg auth_pubkey =
     (case coord_msg of
        CM_MediateRequest _ \<Rightarrow>
          (case ag_service agent of
             None \<Rightarrow> (Err ''Mediation agent must have service defined.'', s)
           | Some service \<Rightarrow>
               (case sv_recipient_keys service of
                  [] \<Rightarrow> (Panic, s)
                | k # _ \<Rightarrow> (Ok (CM_MediateGrant (unthreaded \<lparr>mg_endpoint = sv_service_endpoint service,
                    mg_routing_keys = sv_routing_keys service @ [k]\<rparr> uuid)), s)))
      | _ \<Rightarrow> handle_coord_authenticated P s uuid coord_msg auth_pubkey)"

definition handle_account_message ::
  "wire \<Rightarrow> med_ext \<Rightarrow> 'p persistence \<Rightarrow> Agent \<Rightarrow> 'p \<Rightarrow> string \<Rightarrow> AriesMessage \<Rightarrow> string \<Rightarrow>
   (string, AriesMessage) result \<times> 'p" where
  "handle_account_message Z D P agent s uuid message auth_pubkey =
     (case message of
        Pickup pickup_message \<Rightarrow>
          (map_ok Pickup (handle_pickup_authenticated Z P s uuid pickup_message auth_pubkey), s)
      | CoordinateMediation coord_message \<Rightarrow>
          (case handle_mediation_coord P agent s uuid coord_message auth_pubkey of
             (r, s) \<Rightarrow> (map_ok CoordinateMediation r, s))
      | _ \<Rightarrow> (Err (''Don't know how to handle this message type '' @ mx_debug_msg D message), s))"

definition handle_aries ::
  "ext \<Rightarrow> dd_ext \<Rightarrow> key_ext \<Rightarrow> wire \<Rightarrow> msg_codecs \<Rightarrow> med_ext \<Rightarrow> 'w wallet \<Rightarrow> 'p persistence \<Rightarrow> Agent \<Rightarrow>
   'w \<times> 'p \<Rightarrow> string \<Rightarrow> (nat \<Rightarrow> string) \<Rightarrow> u64 \<Rightarrow> string \<Rightarrow> (string, json) result \<times> ('w \<times> 'p)" where
  "handle_aries E X K Z R D W P agent ws uuid uuids ts didcomm_msg =
     and_thenw (pure_w (unpack_didcomm W (fst ws) didcomm_msg) ws) (\<lambda>unpacked ws.
     and_thenw (pure_w (read_message E Z R (um_message unpacked)) ws) (\<lambda>aries_message (w, s).
     case aries_message of
       Routing forward \<Rightarrow>
         (case handle_forward E P s uuid forward of
            (r, s) \<Rightarrow> (map_ok (\<lambda>_. JObject []) r, (w, s)))
     | _ \<Rightarrow>
         and_thenw
           (case aries_message of
              Connection conn \<Rightarrow> handle_aries_connection E X K Z R D W P agent (w, s) uuid uuids ts conn
            | _ \<Rightarrow>
                and_thenw (pure_w (auth_and_get_details P s (um_sender_verkey unpacked)) (w, s))
                  (\<lambda>account_details (w, s).
                and_thenw (case handle_account_message Z D P agent s uuid aries_message
                    (ad_auth_pubkey account_details) of (r, s) \<Rightarrow> (r, (w, s))) (\<lambda>aries_response (w, s).
                (pack_didcomm E X K R W w uuids (message_text E R aries_response)
                   (ad_our_signing_key account_details) (ad_their_did_doc account_details), (w, s)))))
           (\<lambda>packed_message_bytes ws. (unwrapped (x_json_parse E packed_message_bytes), ws))))"


section \<open>What the handlers do to the accounts\<close>

text \<open>An account is untouched when it keeps its keys and all messages that wait for it.\<close>

definition untouched ::
  "('p \<Rightarrow> string \<Rightarrow> string option) \<Rightarrow> ('p \<Rightarrow> string \<Rightarrow> (string option \<times> string) multiset) \<Rightarrow>
   string \<Rightarrow> 'p \<Rightarrow> 'p \<Rightarrow> bool" where
  "untouched owner pending acc s s' \<longleftrightarrow>
     (\<forall>k. owner s k = Some acc \<longrightarrow> owner s' k = Some acc) \<and>
     image_mset snd (pending s acc) \<subseteq># image_mset snd (pending s' acc)"

lemma untouched_refl [simp]: "untouched owner pending acc s s"
  by (simp add: untouched_def)

lemma untouched_trans:
  "untouched owner pending acc s t \<Longrightarrow> untouched owner pending acc t u \<Longrightarrow> untouched owner pending acc s u"
  by (auto simp: untouched_def intro: subset_mset.order_trans)

lemma untouched_same: "owner s' = owner s \<Longrightarrow> pending s' = pending s \<Longrightarrow> untouched owner pending acc s s'"
  by (simp add: untouched_def)

lemma ok_or_Ok: "ok_or r e = Ok x \<longleftrightarrow> r = Some x"
  by (cases r) auto

lemma and_thenw_state:
  assumes "and_thenw rs f = (r, t)" and "\<And>x s q. rs = (Ok x, s) \<Longrightarrow> f x s = (r, t) \<Longrightarrow> thesis"
    and "\<And>e. rs = (e, t) \<Longrightarrow> thesis"
  shows thesis
  using assms by (cases rs; cases "fst rs") auto

context mediator_storage
begin

lemma update_recipient_keeps:
  assumes "sound s" and "update_recipient P s a item = (r, s')"
  shows "sound s' \<and> acct s' = acct s \<and> (acct s a \<noteq> Some acc \<longrightarrow> untouched owner pending acc s s')"
proof (cases "r = Ok ()")
  case False
  with assms(2) refused(1) [of s a "ku_recipient_key item"] refused(2) [of s a "ku_recipient_key item"]
  have "s' = s" by (cases "ku_action item") (simp_all add: update_recipient_def)
  with assms(1) show ?thesis by simp
next
  case True
  show ?thesis
  proof (cases "ku_action item")
    case Key_Add
    with assms(2) True have "ps_add_recipient P s a (ku_recipient_key item) = (Ok (), s')"
      by (simp add: update_recipient_def)
    note law = add [OF assms(1) this]
    have "owner s' k = Some acc" if "owner s k = Some acc" "acct s a \<noteq> Some acc" for k
      using law that weighed [of k "ku_recipient_key item"] by auto
    with law show ?thesis by (simp add: untouched_def)
  next
    case Key_Remove
    with assms(2) True have "ps_remove_recipient P s a (ku_recipient_key item) = (Ok (), s')"
      by (simp add: update_recipient_def)
    note law = remove [OF assms(1) this]
    have "owner s' k = Some acc" if "owner s k = Some acc" "acct s a \<noteq> Some acc" for k
      using law that weighed [of k "ku_recipient_key item"] by auto
    with law show ?thesis by (simp add: untouched_def)
  qed
qed

lemma update_recipients_keeps:
  "sound s \<Longrightarrow> update_recipients P a items s = (r, s') \<Longrightarrow>
   sound s' \<and> acct s' = acct s \<and> (acct s a \<noteq> Some acc \<longrightarrow> untouched owner pending acc s s')"
proof (induction items arbitrary: s r s')
  case (Cons item items)
  obtain q t where q: "update_recipient P s a item = (q, t)" by fastforce
  note head = update_recipient_keeps [OF Cons.prems(1) q]
  show ?case
  proof (cases "q = Panic")
    case True
    with Cons.prems(2) q head show ?thesis by simp
  next
    case False
    obtain rs u where rs: "update_recipients P a items t = (rs, u)" by fastforce
    from False Cons.prems(2) q rs have "s' = u" by (cases q; cases rs) auto
    with Cons.IH [OF _ rs] head show ?thesis by (auto intro: untouched_trans)
  qed
qed simp

lemma coordination_keeps:
  assumes "sound s" and "handle_mediation_coord P agent s uuid m a = (r, s')"
  shows "sound s' \<and> acct s' = acct s \<and> (acct s a \<noteq> Some acc \<longrightarrow> untouched owner pending acc s s')"
proof -
  consider "s' = s" | items q where "update_recipients P a items s = (q, s')"
    using assms(2)
    by (cases m) (auto simp: handle_mediation_coord_def handle_coord_authenticated_def handle_keylist_update_def
        split: option.splits list.splits elim!: and_thenw_state)
  then show ?thesis using assms(1) update_recipients_keeps by cases auto
qed

lemma forward_keeps:
  assumes "sound s" and "handle_forward E P s uuid f = (r, s')"
  shows "sound s' \<and> acct s' = acct s \<and> untouched owner pending acc s s'"
proof -
  obtain q t where q: "ps_persist_forward_message P s (fwd_to (mp_content f)) (x_json_print E (fwd_msg (mp_content f))) = (q, t)"
    by fastforce
  with assms(2) have "s' = t" by (auto simp: handle_forward_def split: result.splits)
  moreover have "sound t \<and> acct t = acct s \<and> untouched owner pending acc s t"
  proof (cases "q = Ok ()")
    case True
    with persist [OF assms(1)] q show ?thesis by (fastforce simp: untouched_def)
  next
    case False
    with refused(3) q assms(1) show ?thesis by (metis fst_conv snd_conv untouched_refl)
  qed
  ultimately show ?thesis by simp
qed

lemma connection_req_state:
  assumes "handle_connection_req E X K Z R D W P agent (w, s) uuid uuids ts request = (r, (w', s'))"
  shows "s' = s \<or> (\<exists>a v d q. ps_create_account P s a v d = (q, s'))"
  using assms
  by (auto simp: handle_connection_req_def Let_def agent_create_account_def pure_w_def
      simp del: and_thenw_pure elim!: and_thenw_state split: prod.splits option.splits list.splits)

lemma connection_keeps:
  assumes "sound s" and "handle_aries_connection E X K Z R D W P agent (w, s) uuid uuids ts c = (r, (w', s'))"
  shows "sound s' \<and> (\<forall>b i. acct s b = Some i \<longrightarrow> acct s' b = Some i) \<and> untouched owner pending acc s s'"
proof -
  from assms(2) connection_req_state have "s' = s \<or> (\<exists>a v d q. ps_create_account P s a v d = (q, s'))"
    by (cases c) (simp_all add: handle_aries_connection_def)
  then show ?thesis using assms(1) create by (auto intro!: untouched_same)
qed

lemma account_message_keeps:
  assumes "sound s" and "handle_account_message Z D P agent s uuid m a = (r, s')"
  shows "sound s' \<and> acct s' = acct s \<and> (acct s a \<noteq> Some acc \<longrightarrow> untouched owner pending acc s s')"
proof -
  from assms(2) have "s' = s \<or> (\<exists>c q. handle_mediation_coord P agent s uuid c a = (q, s'))"
    by (cases m) (auto simp: handle_account_message_def split: prod.splits)
  then show ?thesis using assms(1) coordination_keeps by auto
qed

text \<open>
  Whatever is sent to the mediator, by whomever: the storage stays sound, and an account is untouched
  unless the envelope was sent with the key of this very account.
\<close>

lemma handle_aries_keeps:
  assumes sound: "sound s"
    and run: "handle_aries E X K Z R D W P agent (w, s) uuid uuids ts msg = (r, (w', s'))"
  shows "sound s' \<and> (\<forall>b i. acct s b = Some i \<longrightarrow> acct s' b = Some i) \<and>
    ((\<forall>u v. wl_unpack_message W w msg = Ok u \<longrightarrow> um_sender_verkey u = Some v \<longrightarrow> acct s v \<noteq> Some acc) \<longrightarrow>
     untouched owner pending acc s s')"
proof -
  have "s' = s \<or> (\<exists>f q. handle_forward E P s uuid f = (q, s')) \<or>
      (\<exists>c q w1. handle_aries_connection E X K Z R D W P agent (w, s) uuid uuids ts c = (q, (w1, s'))) \<or>
      (\<exists>u v det m q. wl_unpack_message W w msg = Ok u \<and> um_sender_verkey u = Some v \<and>
         ps_get_account_details P s v = Ok det \<and>
         handle_account_message Z D P agent s uuid m (ad_auth_pubkey det) = (q, s'))"
  proof (cases "unpack_didcomm W w msg")
    case (Ok u)
    then have u: "wl_unpack_message W w msg = Ok u" by (simp add: unpack_didcomm_def)
    show ?thesis
    proof (cases "read_message E Z R (um_message u)")
      case (Ok m)
      from run u Ok show ?thesis
        by (cases m)
          (auto simp: handle_aries_def pure_w_def unpack_didcomm_def auth_and_get_details_def ok_or_Ok
            simp del: and_thenw_pure elim!: and_thenw_state split: prod.splits)
    qed (use run u in \<open>simp_all add: handle_aries_def unpack_didcomm_def pure_w_def del: and_thenw_pure\<close>)
  qed (use run in \<open>simp_all add: handle_aries_def pure_w_def del: and_thenw_pure\<close>)
  then consider "s' = s" | f q where "handle_forward E P s uuid f = (q, s')"
    | c q w1 where "handle_aries_connection E X K Z R D W P agent (w, s) uuid uuids ts c = (q, (w1, s'))"
    | u v det m q where "wl_unpack_message W w msg = Ok u" "um_sender_verkey u = Some v"
        "ps_get_account_details P s v = Ok det" "handle_account_message Z D P agent s uuid m (ad_auth_pubkey det) = (q, s')"
    by blast
  then show ?thesis
  proof cases
    case 1
    with sound show ?thesis by simp
  next
    case 2
    with forward_keeps [OF sound 2] show ?thesis by simp
  next
    case 3
    with connection_keeps [OF sound 3] show ?thesis by simp
  next
    case 4
    from details [OF sound 4(3)] weighed [of "ad_auth_pubkey det" v] have "acct s (ad_auth_pubkey det) = acct s v"
      by simp
    with account_message_keeps [OF sound 4(4)] 4(1,2) show ?thesis by auto
  qed
qed

lemma delivery_outcome:
  assumes "sound s" and "ps_retrieve_pending_messages P s a limit rk = Ok ms"
    and "ps_retrieve_pending_message_count P s a None = Ok n"
  shows "\<exists>acc. acct s a = Some acc \<and>
    (if filter_mset (addressed weight rk) (pending s acc) = {#}
     then \<exists>st. handle_pickup_delivery_req Z P s uuid \<lparr>dr_limit = limit, dr_recipient_key = rk\<rparr> a = Ok (PU_Status st)
     else \<exists>d. handle_pickup_delivery_req Z P s uuid \<lparr>dr_limit = limit, dr_recipient_key = rk\<rparr> a = Ok (PU_Delivery d) \<and>
       dl_attach (mp_content d) = map (pickup_attachment Z) ms \<and>
       length ms = min (max 1 (unat limit)) (size (filter_mset (addressed weight rk) (pending s acc))))"
proof -
  let ?X = "\<lambda>acc. filter_mset (addressed weight rk) (pending s acc)"
  from retrieve [OF assms(1,2)] obtain acc where acc: "acct s a = Some acc"
    "length ms = min (max 1 (unat limit)) (size (?X acc))" by blast
  show ?thesis
  proof (cases "?X acc = {#}")
    case True
    with acc(2) have "ms = []" by simp
    with acc(1) True assms(2,3) show ?thesis
      by (simp add: handle_pickup_delivery_req_def handle_pickup_default_status_def handle_pickup_status_req_def)
  next
    case False
    then have "size (?X acc) \<noteq> 0" by (metis size_eq_0_iff_empty)
    with acc(2) have "length ms \<noteq> 0" by linarith
    then have "map (pickup_attachment Z) ms \<noteq> []" by simp
    with assms(2) have "\<exists>d. handle_pickup_delivery_req Z P s uuid \<lparr>dr_limit = limit, dr_recipient_key = rk\<rparr> a =
        Ok (PU_Delivery d) \<and> dl_attach (mp_content d) = map (pickup_attachment Z) ms"
      by (simp add: handle_pickup_delivery_req_def untransported_def)
    with acc(2) have "if ?X acc = {#}
      then \<exists>st. handle_pickup_delivery_req Z P s uuid \<lparr>dr_limit = limit, dr_recipient_key = rk\<rparr> a = Ok (PU_Status st)
      else \<exists>d. handle_pickup_delivery_req Z P s uuid \<lparr>dr_limit = limit, dr_recipient_key = rk\<rparr> a = Ok (PU_Delivery d) \<and>
        dl_attach (mp_content d) = map (pickup_attachment Z) ms \<and>
        length ms = min (max 1 (unat limit)) (size (?X acc))"
      by (subst if_not_P [OF False]) blast
    show ?thesis by (rule exI [of _ acc], rule conjI) fact+
  qed
qed

end

text \<open>A run of the mediator: the envelopes it is sent, with what each handling obtains from outside.\<close>

fun serve ::
  "ext \<Rightarrow> dd_ext \<Rightarrow> key_ext \<Rightarrow> wire \<Rightarrow> msg_codecs \<Rightarrow> med_ext \<Rightarrow> 'w wallet \<Rightarrow> 'p persistence \<Rightarrow> Agent \<Rightarrow>
   (string \<times> (nat \<Rightarrow> string) \<times> u64 \<times> string) list \<Rightarrow> 'w \<times> 'p \<Rightarrow> 'w \<times> 'p" where
  "serve E X K Z R D W P agent [] ws = ws"
| "serve E X K Z R D W P agent ((uuid, uuids, ts, msg) # es) ws =
     serve E X K Z R D W P agent es (snd (handle_aries E X K Z R D W P agent ws uuid uuids ts msg))"

text \<open>None of the envelopes was sent with a key of account \<open>acc\<close>.\<close>

fun silent ::
  "ext \<Rightarrow> dd_ext \<Rightarrow> key_ext \<Rightarrow> wire \<Rightarrow> msg_codecs \<Rightarrow> med_ext \<Rightarrow> 'w wallet \<Rightarrow> mysql \<Rightarrow> Agent \<Rightarrow> string \<Rightarrow>
   (string \<times> (nat \<Rightarrow> string) \<times> u64 \<times> string) list \<Rightarrow> 'w \<times> tables \<Rightarrow> bool" where
  "silent E X K Z R D W M agent acc [] ws = True"
| "silent E X K Z R D W M agent acc ((uuid, uuids, ts, msg) # es) ws =
     ((case wl_unpack_message W (fst ws) msg of
         Ok u \<Rightarrow> (case um_sender_verkey u of Some v \<Rightarrow> acct_of M (snd ws) v \<noteq> Some acc | None \<Rightarrow> True)
       | _ \<Rightarrow> True) \<and>
      silent E X K Z R D W M agent acc es
        (snd (handle_aries E X K Z R D W (mysql_persistence M) agent ws uuid uuids ts msg)))"

lemma serve_keeps:
  "tables_ok M (snd ws) \<Longrightarrow> serve E X K Z R D W (mysql_persistence M) agent es ws = ws' \<Longrightarrow>
   tables_ok M (snd ws') \<and> (\<forall>b i. acct_of M (snd ws) b = Some i \<longrightarrow> acct_of M (snd ws') b = Some i) \<and>
   (silent E X K Z R D W M agent acc es ws \<longrightarrow> untouched (owner_of M) (pending_of M) acc (snd ws) (snd ws'))"
proof (induction es arbitrary: ws)
  case (Cons e es)
  obtain uuid uuids ts msg where e: "e = (uuid, uuids, ts, msg)" by (cases e)
  obtain w s r w1 s1 where ws: "ws = (w, s)" and
    run: "handle_aries E X K Z R D W (mysql_persistence M) agent (w, s) uuid uuids ts msg = (r, (w1, s1))"
    by (metis prod.exhaust)
  from mysql.handle_aries_keeps [OF _ run, where acc = acc] Cons.prems(1) ws have
    k: "tables_ok M s1" "\<And>b i. acct_of M s b = Some i \<Longrightarrow> acct_of M s1 b = Some i"
      "(\<forall>u v. wl_unpack_message W w msg = Ok u \<longrightarrow> um_sender_verkey u = Some v \<longrightarrow> acct_of M s v \<noteq> Some acc) \<Longrightarrow>
       untouched (owner_of M) (pending_of M) acc s s1" by auto
  from Cons.IH [of "(w1, s1)"] k(1) Cons.prems(2) ws e run have
    i: "tables_ok M (snd ws')" "\<And>b i. acct_of M s1 b = Some i \<Longrightarrow> acct_of M (snd ws') b = Some i"
      "silent E X K Z R D W M agent acc es (w1, s1) \<Longrightarrow>
       untouched (owner_of M) (pending_of M) acc s1 (snd ws')" by auto
  have "untouched (owner_of M) (pending_of M) acc s (snd ws')" if "silent E X K Z R D W M agent acc (e # es) ws"
  proof -
    from that ws e run have "silent E X K Z R D W M agent acc es (w1, s1)" by simp
    moreover have "acct_of M s v \<noteq> Some acc" if "wl_unpack_message W w msg = Ok u" "um_sender_verkey u = Some v" for u v
      using that \<open>silent E X K Z R D W M agent acc (e # es) ws\<close> ws e by simp
    ultimately show ?thesis by (intro untouched_trans [OF k(3) i(3)]) auto
  qed
  with i k ws show ?case by simp
qed simp


section \<open>Properties of the mediator\<close>

text \<open>
  C22. Invariant: whatever envelopes the mediator is sent, in whatever order, its tables keep the
  constraints of the migration (unique keys and identifiers, no dangling reference), a message that
  still names a recipient key belongs to the account that owns the key, and no account disappears.
\<close>

theorem mediator_tables_invariant:
  assumes "tables_ok M db" and "serve E X K Z R D W (mysql_persistence M) agent es (w, db) = (w', db')"
  shows "tables_ok M db' \<and> (\<forall>b. acct_of M db b \<noteq> None \<longrightarrow> acct_of M db' b = acct_of M db b)"
  using serve_keeps [of M "(w, db)" E X K Z R D W agent es "(w', db')"] assms by auto

text \<open>
  C21. Accounts are separate: as long as no envelope is sent with a key of an account, every recipient
  key it owns stays its own (nobody can take it over or remove it) and no message that waits for it is
  lost, whoever else uses the mediator.
\<close>

theorem accounts_isolated:
  assumes "tables_ok M db" and "serve E X K Z R D W (mysql_persistence M) agent es (w, db) = (w', db')"
    and "silent E X K Z R D W M agent acc es (w, db)"
  shows "(\<forall>k. owner_of M db k = Some acc \<longrightarrow> owner_of M db' k = Some acc) \<and>
    image_mset snd (pending_of M db acc) \<subseteq># image_mset snd (pending_of M db' acc)"
  using serve_keeps [of M "(w, db)" E X K Z R D W agent es "(w', db')" acc] assms
  by (simp add: untouched_def)

text \<open>
  C6. A forwarded message arrives: once it is stored for a recipient key, then after any number of
  envelopes from others a delivery request of the account that owns the key, with a limit that covers
  what waits, is answered with a delivery that carries the message.
\<close>

theorem forwarded_message_delivered:
  assumes ok: "tables_ok M db" and acc: "acct_of M db a = Some acc" "owner_of M db k = Some acc"
    and fwd: "persist_forward_message M db k data = (Ok (), db1)"
    and run: "serve E X K Z R D W (mysql_persistence M) agent es (w, db1) = (w', db2)"
      "silent E X K Z R D W M agent acc es (w, db1)"
    and up: "retrieve_pending_messages M db2 a limit None = Ok ms"
    and room: "size (pending_of M db2 acc) \<le> unat limit"
  shows "\<exists>d. handle_pickup_delivery_req Z (mysql_persistence M) db2 uuid
      \<lparr>dr_limit = limit, dr_recipient_key = None\<rparr> a = Ok (PU_Delivery d) \<and>
    (\<exists>i. pickup_attachment Z (i, data) \<in> set (dl_attach (mp_content d)))"
proof -
  from persist_ok [OF ok fwd] acc have db1: "tables_ok M db1" "acct_of M db1 a = Some acc"
    "pending_of M db1 acc = add_mset (Some (sq_weight M k), data) (pending_of M db acc)" by auto
  from serve_keeps [of M "(w, db1)" E X K Z R D W agent es "(w', db2)" acc] db1 run have
    db2: "tables_ok M db2" "acct_of M db2 a = Some acc"
      "image_mset snd (pending_of M db1 acc) \<subseteq># image_mset snd (pending_of M db2 acc)"
    by (auto simp: untouched_def)
  have all: "filter_mset (addressed (sq_weight M) None) A = A" for A :: "(string option \<times> string) multiset"
    by (induction A) (simp_all add: addressed_def)
  from mysql.retrieve_all [OF db2(1), of a limit None ms acc] db2(2) up room
  have "mset (map snd ms) = image_mset snd (pending_of M db2 acc)" by (simp add: all)
  with db1(3) db2(3) have "data \<in># mset (map snd ms)" by (auto dest: mset_subset_eqD)
  then obtain i where i: "(i, data) \<in> set ms" by (auto simp del: mset_map)
  then have "map (pickup_attachment Z) ms \<noteq> []" by auto
  with up i show ?thesis
    by (auto simp: handle_pickup_delivery_req_def untransported_def)
qed

text \<open>
  Who may receive: a client that adds a recipient key nobody has registered owns it afterwards; a
  key that is registered is refused with a server error and nothing changes, even when it is the
  client's own.
\<close>

theorem registration_outcome:
  assumes "tables_ok M db" and "acct_of M db a = Some acc" and "\<And>st b. sq_refuses M st b = None"
  shows "\<exists>db'. handle_keylist_update (mysql_persistence M) db uuid
      \<lparr>ku_updates = [\<lparr>ku_recipient_key = k, ku_action = Key_Add\<rparr>]\<rparr> a =
      (Ok (CM_KeylistUpdateResponse (unthreaded \<lparr>kr_updated = [\<lparr>kr_recipient_key = k, kr_action = Key_Add,
         kr_result = (if owner_of M db k = None then Update_Success else Update_ServerError)\<rparr>]\<rparr> uuid)), db') \<and>
    owner_of M db' k = (if owner_of M db k = None then Some acc else owner_of M db k) \<and>
    (owner_of M db k \<noteq> None \<longrightarrow> db' = db)"
proof -
  from assms obtain row where row: "find (\<lambda>r. sql_equal M (ac_auth_pubkey r) a) (tb_accounts db) = Some row"
    by (auto simp: acct_of_def)
  with assms have i: "get_account_id M db a = Ok acc"
    by (auto simp: get_account_id_def fetch_account_Ok acct_of_def)
  obtain q db' where add: "add_recipient M db a k = (q, db')" by fastforce
  show ?thesis
  proof (cases "owner_of M db k = None")
    case True
    with add i assms(3) have "q = Ok ()"
      by (auto simp: add_recipient_def owner_of_None sql_def)
    with add_recipient_ok [OF assms(1)] add assms(2) True show ?thesis
      by (fastforce simp: handle_keylist_update_def update_recipient_def)
  next
    case False
    with add i assms(3) have "is_ok q = False" "q \<noteq> Panic" "db' = db"
      by (auto simp: add_recipient_def owner_of_None sql_def)
    with add False show ?thesis
      by (cases q) (auto simp: handle_keylist_update_def update_recipient_def)
  qed
qed

text \<open>
  A lost message is acknowledged: when nobody has registered the recipient key of a forwarded
  message, nothing is stored and yet the answer is an acknowledgement with status OK on the thread of
  the message.
\<close>

theorem lost_forward_acknowledged:
  assumes "tables_ok M db" and "owner_of M db (fwd_to (mp_content f)) = None"
  shows "\<exists>ack. handle_forward E (mysql_persistence M) db uuid f = (Ok ack, db) \<and>
    ack_status (mp_content ack) = Ack_Ok \<and> thid (ak_thread (mp_decorators ack)) = mp_id f \<and>
    fst (persist_forward_message M db (fwd_to (mp_content f)) (x_json_print E (fwd_msg (mp_content f)))) \<noteq> Ok ()"
proof -
  from assms have "find (\<lambda>r. sql_equal M (rp_recipient_key r) (fwd_to (mp_content f))) (tb_recipients db) = None"
    by (simp add: owner_of_def)
  with assms(1) have none: "recipients_with M db (fwd_to (mp_content f)) = []" by (simp add: recipients_with_find)
  then have "\<exists>e. persist_forward_message M db (fwd_to (mp_content f)) t = (Err e, db)" for t
    by (cases "sq_refuses M Select_Recipient [fwd_to (mp_content f)]") (simp_all add: persist_forward_message_def sql_def)
  then obtain e where "persist_forward_message M db (fwd_to (mp_content f)) (x_json_print E (fwd_msg (mp_content f))) = (Err e, db)"
    by blast
  then show ?thesis by (simp add: handle_forward_def)
qed

text \<open>
  C33. The bounds of a delivery: it carries as many messages as the limit allows and the account has, but
  never fewer than one when any waits, so a request with limit 0 is answered with one message; and no
  pickup message, the one that confirms receipt included, changes the storage, so that what was
  delivered is delivered again.
\<close>

theorem delivery_bounds:
  assumes "tables_ok M db" and "retrieve_pending_messages M db a limit rk = Ok ms"
    and "retrieve_pending_message_count M db a None = Ok n"
  shows "\<exists>acc. acct_of M db a = Some acc \<and>
    (if filter_mset (addressed (sq_weight M) rk) (pending_of M db acc) = {#}
     then \<exists>st. handle_pickup_delivery_req Z (mysql_persistence M) db uuid
       \<lparr>dr_limit = limit, dr_recipient_key = rk\<rparr> a = Ok (PU_Status st)
     else \<exists>d. handle_pickup_delivery_req Z (mysql_persistence M) db uuid
         \<lparr>dr_limit = limit, dr_recipient_key = rk\<rparr> a = Ok (PU_Delivery d) \<and>
       length (dl_attach (mp_content d)) =
         min (max 1 (unat limit)) (size (filter_mset (addressed (sq_weight M) rk) (pending_of M db acc)))) \<and>
    snd (handle_account_message Z D (mysql_persistence M) agent db uuid (Pickup p) a) = db"
proof -
  have "snd (handle_account_message Z D (mysql_persistence M) agent db uuid (Pickup p) a) = db"
    by (simp add: handle_account_message_def)
  moreover from mysql.delivery_outcome [OF assms(1), of a limit rk ms n Z uuid] assms(2,3)
  obtain acc where "acct_of M db a = Some acc"
    "if filter_mset (addressed (sq_weight M) rk) (pending_of M db acc) = {#}
     then \<exists>st. handle_pickup_delivery_req Z (mysql_persistence M) db uuid
       \<lparr>dr_limit = limit, dr_recipient_key = rk\<rparr> a = Ok (PU_Status st)
     else \<exists>d. handle_pickup_delivery_req Z (mysql_persistence M) db uuid
         \<lparr>dr_limit = limit, dr_recipient_key = rk\<rparr> a = Ok (PU_Delivery d) \<and>
       dl_attach (mp_content d) = map (pickup_attachment Z) ms \<and>
       length ms = min (max 1 (unat limit)) (size (filter_mset (addressed (sq_weight M) rk) (pending_of M db acc)))"
    by auto
  ultimately show ?thesis by (metis length_map)
qed


section \<open>A concrete mediator\<close>

definition sample_mysql :: mysql where
  "sample_mysql = \<lparr>sq_refuses = (\<lambda>_ _. None), sq_weight = (\<lambda>s. s),
     sq_new_uuid = (\<lambda>db. replicate (length (tb_accounts db) + length (tb_messages db)) CHR ''u''),
     sq_uuid_text = (\<lambda>s. s), sq_account_rank = (\<lambda>_. 0), sq_recipient_rank = (\<lambda>_. 0), sq_message_rank = (\<lambda>_. 0),
     sq_violation = [], sq_json = (\<lambda>_. Some JNull), sq_de_did_doc = (\<lambda>_. Ok default_did_doc)\<rparr>"

definition sample_tables :: tables where
  "sample_tables =
     \<lparr>tb_accounts = [\<lparr>ac_account_id = ''1'', ac_auth_pubkey = ''a'', ac_our_signing_key = ''s'', ac_did_doc = JNull\<rparr>],
      tb_recipients = [\<lparr>rp_account_id = ''1'', rp_recipient_key = ''k''\<rparr>], tb_messages = []\<rparr>"

definition sample_med :: med_ext where
  "sample_med = \<lparr>mx_debug_con = (\<lambda>_. []), mx_debug_msg = (\<lambda>_. []), mx_debug_diddoc_error = (\<lambda>_. []),
     mx_ser_did_doc = (\<lambda>_. [])\<rparr>"

definition sample_forward :: Forward where
  "sample_forward = \<lparr>mp_id = ''f'', mp_content = \<lparr>fwd_to = ''k'', fwd_msg = JNull\<rparr>, mp_decorators = ()\<rparr>"

text \<open>Two envelopes: an anonymous forward message to key \<open>k\<close> and a text that is no message.\<close>

definition sample_envelopes :: "(string \<times> (nat \<Rightarrow> string) \<times> u64 \<times> string) list" where
  "sample_envelopes = [(''u'', (\<lambda>_. []), 0, ''to k''), (''v'', (\<lambda>_. []), 0, ''junk'')]"

definition sample_reader :: ext where
  "sample_reader = sample_ext (\<lambda>s. if s = ''to k'' then Ok (delayed_serialize forward_codecs (Routing sample_forward))
     else Err \<lparr>se_display = s, se_debug = s\<rparr>)"

abbreviation sample_serve :: "nat \<times> tables \<Rightarrow> nat \<times> tables" where
  "sample_serve \<equiv> serve sample_reader sample_dx sample_kx (sample_wire sample_con_data) forward_codecs sample_med
     sample_wallet (mysql_persistence sample_mysql) \<lparr>ag_service = None\<rparr> sample_envelopes"

abbreviation sample_silent :: "nat \<times> tables \<Rightarrow> bool" where
  "sample_silent \<equiv> silent sample_reader sample_dx sample_kx (sample_wire sample_con_data) forward_codecs sample_med
     sample_wallet sample_mysql \<lparr>ag_service = None\<rparr> ''1'' sample_envelopes"

definition sample_stored :: "string \<Rightarrow> tables" where
  "sample_stored data = sample_tables\<lparr>tb_messages := [\<lparr>ms_account_id = ''1'', ms_recipient_key = Some ''k'',
     ms_message_idb = ''u'', ms_message_data = data\<rparr>]\<rparr>"

lemma sample_tables_facts:
  "tables_ok sample_mysql sample_tables" "acct_of sample_mysql sample_tables ''a'' = Some ''1''"
  "owner_of sample_mysql sample_tables ''k'' = Some ''1''" "owner_of sample_mysql sample_tables ''z'' = None"
  by (simp_all add: sample_tables_def sample_mysql_def tables_ok_def acct_of_def owner_of_def sql_equal_def)

lemma sample_stored_ok: "tables_ok sample_mysql (sample_stored data)"
  by (simp add: sample_stored_def sample_tables_def sample_mysql_def tables_ok_def sql_equal_def)

lemma sample_persist:
  "persist_forward_message sample_mysql sample_tables ''k'' data = (Ok (), sample_stored data)"
  by (simp add: persist_forward_message_def sql_def recipients_with_def sql_equal_def insert_message_def
      sample_mysql_def sample_tables_def sample_stored_def)

lemma sample_reads:
  "read_message sample_reader (sample_wire sample_con_data) forward_codecs ''to k'' = Ok (Routing sample_forward)"
  "\<exists>e. read_message sample_reader (sample_wire sample_con_data) forward_codecs ''junk'' = Err e"
  using Routing_roundtrip [of forward_codecs sample_forward] forwarding_laws(4)
  by (simp_all add: read_message_def sample_reader_def sample_ext_def forwards_read_def del: delayed_serialize.simps)

lemma sample_handled:
  "handle_aries sample_reader sample_dx sample_kx (sample_wire sample_con_data) forward_codecs sample_med
     sample_wallet (mysql_persistence sample_mysql) \<lparr>ag_service = None\<rparr> (w, db) uuid uuids ts ''to k''
   = (Ok (JObject []), (w, snd (persist_forward_message sample_mysql db ''k'' [])))"
  "snd (handle_aries sample_reader sample_dx sample_kx (sample_wire sample_con_data) forward_codecs sample_med
     sample_wallet (mysql_persistence sample_mysql) \<lparr>ag_service = None\<rparr> (w, db) uuid uuids ts ''junk'')
   = (w, db)"
proof -
  have "fst (persist_forward_message sample_mysql db ''k'' []) \<noteq> Panic"
    by (simp add: persist_forward_message_def sql_def insert_message_def sample_mysql_def split: list.split)
  then show "handle_aries sample_reader sample_dx sample_kx (sample_wire sample_con_data) forward_codecs sample_med
     sample_wallet (mysql_persistence sample_mysql) \<lparr>ag_service = None\<rparr> (w, db) uuid uuids ts ''to k''
     = (Ok (JObject []), (w, snd (persist_forward_message sample_mysql db ''k'' [])))"
    using sample_reads(1)
    by (auto simp: handle_aries_def unpack_didcomm_def sample_wallet_def sample_forward_def handle_forward_def
        mysql_persistence_def sample_reader_def sample_ext_def split: prod.splits result.splits)
  obtain e where e: "read_message sample_reader (sample_wire sample_con_data) forward_codecs ''junk'' = Err e"
    using sample_reads(2) by blast
  have um: "unpack_didcomm sample_wallet w ''junk'' = Ok \<lparr>um_message = ''junk'',
      um_recipient_verkey = sample_verkey, um_sender_verkey = None\<rparr>"
    by (simp add: unpack_didcomm_def sample_wallet_def unwrapped_def)
  show "snd (handle_aries sample_reader sample_dx sample_kx (sample_wire sample_con_data) forward_codecs sample_med
     sample_wallet (mysql_persistence sample_mysql) \<lparr>ag_service = None\<rparr> (w, db) uuid uuids ts ''junk'') = (w, db)"
    by (simp add: handle_aries_def e um)
qed

lemma sample_serve_sent: "sample_serve (w, db) = (w, snd (persist_forward_message sample_mysql db ''k'' []))"
  by (simp add: sample_envelopes_def sample_handled)

lemma sample_is_silent: "sample_silent (w, db)"
  by (simp add: sample_envelopes_def sample_wallet_def)

theorem mediator_tables_invariant_witness:
  "sample_serve (0, sample_tables) = (0, sample_stored []) \<and> tables_ok sample_mysql (sample_stored [])"
proof -
  have run: "sample_serve (0, sample_tables) = (0, sample_stored [])"
    by (simp add: sample_serve_sent sample_persist)
  from mediator_tables_invariant [OF sample_tables_facts(1) this] run show ?thesis by blast
qed

theorem accounts_isolated_witness:
  "owner_of sample_mysql (snd (sample_serve (0, sample_tables))) ''k'' = Some ''1''"
proof -
  obtain w' db' where run: "sample_serve (0, sample_tables) = (w', db')" by fastforce
  from accounts_isolated [OF sample_tables_facts(1) this sample_is_silent] show ?thesis
    by (simp add: sample_tables_facts run)
qed

theorem forwarded_message_delivered_witness:
  "\<exists>d i. handle_pickup_delivery_req (sample_wire sample_con_data) (mysql_persistence sample_mysql)
      (snd (sample_serve (0, sample_stored ''hello''))) ''u'' \<lparr>dr_limit = 5, dr_recipient_key = None\<rparr> ''a'' =
      Ok (PU_Delivery d) \<and>
    pickup_attachment (sample_wire sample_con_data) (i, ''hello'') \<in> set (dl_attach (mp_content d))"
proof -
  obtain w' db' where run: "sample_serve (0, sample_stored ''hello'') = (w', db')" by fastforce
  then have db': "db' = snd (persist_forward_message sample_mysql (sample_stored ''hello'') ''k'' [])"
    by (simp add: sample_serve_sent)
  have up: "\<exists>ms. retrieve_pending_messages sample_mysql db' ''a'' 5 None = Ok ms"
    unfolding db' by (simp add: retrieve_pending_messages_def persist_forward_message_def sql_def recipients_with_def
        sql_equal_def insert_message_def sample_mysql_def sample_tables_def sample_stored_def get_account_id_def
        fetch_account_def accounts_of_def messages_of_def Let_def)
  have room: "size (pending_of sample_mysql db' ''1'') \<le> unat (5 :: u32)"
    unfolding db' by (simp add: persist_forward_message_def sql_def recipients_with_def pending_of_def
        sql_equal_def insert_message_def sample_mysql_def sample_tables_def sample_stored_def)
  from up obtain ms where "retrieve_pending_messages sample_mysql db' ''a'' 5 None = Ok ms" by blast
  from forwarded_message_delivered [OF sample_tables_facts(1,2,3) sample_persist run sample_is_silent this room]
  show ?thesis by (auto simp: run)
qed

theorem registration_outcome_witness:
  "\<exists>db'. owner_of sample_mysql db' ''z'' = Some ''1''"
  using registration_outcome [OF sample_tables_facts(1,2), where k = "''z''"] sample_tables_facts(4)
  by (fastforce simp: sample_mysql_def)

theorem lost_forward_acknowledged_witness:
  "fst (handle_forward sample_reader (mysql_persistence sample_mysql) (sample_tables\<lparr>tb_recipients := []\<rparr>) ''u''
     sample_forward) \<noteq> Panic"
proof -
  have "tables_ok sample_mysql (sample_tables\<lparr>tb_recipients := []\<rparr>)"
    and "owner_of sample_mysql (sample_tables\<lparr>tb_recipients := []\<rparr>) (fwd_to (mp_content sample_forward)) = None"
    by (simp_all add: sample_tables_def sample_mysql_def tables_ok_def owner_of_def)
  from lost_forward_acknowledged [OF this, of sample_reader "''u''"] show ?thesis by auto
qed

theorem delivery_bounds_witness:
  "\<exists>d. handle_pickup_delivery_req (sample_wire sample_con_data) (mysql_persistence sample_mysql)
      (sample_stored ''hello'') ''u'' \<lparr>dr_limit = 0, dr_recipient_key = None\<rparr> ''a'' = Ok (PU_Delivery d) \<and>
    length (dl_attach (mp_content d)) = 1"
proof -
  have "\<exists>ms. retrieve_pending_messages sample_mysql (sample_stored ''hello'') ''a'' 0 None = Ok ms"
    and "\<exists>n. retrieve_pending_message_count sample_mysql (sample_stored ''hello'') ''a'' None = Ok n"
    by (simp_all add: retrieve_pending_messages_def retrieve_pending_message_count_def sql_def
        sample_mysql_def sample_tables_def sample_stored_def get_account_id_def
        fetch_account_def accounts_of_def messages_of_def sql_equal_def Let_def)
  then obtain ms n where q: "retrieve_pending_messages sample_mysql (sample_stored ''hello'') ''a'' 0 None = Ok ms"
    "retrieve_pending_message_count sample_mysql (sample_stored ''hello'') ''a'' None = Ok n" by blast
  define A where "A = filter_mset (addressed (sq_weight sample_mysql) None)
      (pending_of sample_mysql (sample_stored ''hello'') ''1'')"
  have one: "size A = 1" "A \<noteq> {#}" and acc: "acct_of sample_mysql (sample_stored ''hello'') ''a'' = Some ''1''"
    by (simp_all add: A_def pending_of_def sample_stored_def sample_tables_def sample_mysql_def letter_def
        addressed_def acct_of_def sql_equal_def)
  from delivery_bounds [OF sample_stored_ok q, where Z = "sample_wire sample_con_data" and uuid = "''u''" and D = sample_med
      and agent = "\<lparr>ag_service = None\<rparr>" and p = p]
  obtain acc where acc': "acct_of sample_mysql (sample_stored ''hello'') ''a'' = Some acc" and
    outcome: "if filter_mset (addressed (sq_weight sample_mysql) None) (pending_of sample_mysql (sample_stored ''hello'') acc) = {#}
     then \<exists>st. handle_pickup_delivery_req (sample_wire sample_con_data)
       (mysql_persistence sample_mysql) (sample_stored ''hello'') ''u'' \<lparr>dr_limit = 0, dr_recipient_key = None\<rparr> ''a'' =
       Ok (PU_Status st)
     else \<exists>d. handle_pickup_delivery_req (sample_wire sample_con_data) (mysql_persistence sample_mysql)
       (sample_stored ''hello'') ''u'' \<lparr>dr_limit = 0, dr_recipient_key = None\<rparr> ''a'' = Ok (PU_Delivery d) \<and>
       length (dl_attach (mp_content d)) = min (max 1 (unat (0 :: u32)))
         (size (filter_mset (addressed (sq_weight sample_mysql) None) (pending_of sample_mysql (sample_stored ''hello'') acc)))"
    by (elim exE conjE) (rule that)
  from acc acc' have "acc = ''1''" by simp
  with outcome have "if A = {#} then \<exists>st. handle_pickup_delivery_req (sample_wire sample_con_data)
       (mysql_persistence sample_mysql) (sample_stored ''hello'') ''u'' \<lparr>dr_limit = 0, dr_recipient_key = None\<rparr> ''a'' =
       Ok (PU_Status st)
     else \<exists>d. handle_pickup_delivery_req (sample_wire sample_con_data) (mysql_persistence sample_mysql)
       (sample_stored ''hello'') ''u'' \<lparr>dr_limit = 0, dr_recipient_key = None\<rparr> ''a'' = Ok (PU_Delivery d) \<and>
       length (dl_attach (mp_content d)) = min (max 1 (unat (0 :: u32))) (size A)"
    by (simp only: A_def)
  with one show ?thesis by simp
qed

end
