(* ===== verification/Did_Doc.thy ===== *)
theory Did_Doc
  imports Did_Parser Public_Key Json
begin

text \<open>
  DID documents (crates \<open>did_core/did_doc\<close> and \<open>did_core/did_methods/did_key\<close>): verification methods and
  the keys they carry, services with their extra fields, the document with its setters and look-ups.
  Decoders of other encodings, the URI library, the JWK library and the names of Rust types enter as the
  record \<open>doc_ext\<close>. Hash maps of extra fields are partial functions. The model
  has the feature \<open>jwk\<close> of the crate switched on.
\<close>

section \<open>\<open>did:key\<close>\<close>

datatype DidKeyError = Dk_PublicKeyError PublicKeyError | Dk_DidParserError ParseError

fun show_DidKeyError :: "DidKeyError \<Rightarrow> string" where
  "show_DidKeyError (Dk_PublicKeyError e) = ''Public key error: '' @ show_PublicKeyError e"
| "show_DidKeyError (Dk_DidParserError e) = ''DID parser error: '' @ show_ParseError e"

record DidKey =
  dk_key :: Key
  dk_did :: Did

definition DidKey_parse :: "nom \<Rightarrow> key_ext \<Rightarrow> string \<Rightarrow> (DidKeyError, DidKey) result" where
  "DidKey_parse N K did =
     and_then (map_err Dk_DidParserError (parse_did N did)) (\<lambda>did.
     and_then (map_err Dk_PublicKeyError (from_fingerprint K (did_id did))) (\<lambda>key.
     Ok \<lparr>dk_key = key, dk_did = did\<rparr>))"

definition DidKey_of_key :: "nom \<Rightarrow> key_ext \<Rightarrow> Key \<Rightarrow> (DidKeyError, DidKey) result" where
  "DidKey_of_key N K key =
     and_then (map_err Dk_DidParserError (parse_did N (''did:key:'' @ fingerprint K key))) (\<lambda>did.
     Ok \<lparr>dk_key = key, dk_did = did\<rparr>)"

section \<open>Verification methods\<close>

datatype VerificationMethodType =
    JsonWebKey2020 | EcdsaSecp256k1VerificationKey2019 | Ed25519VerificationKey2018
  | Ed25519VerificationKey2020 | Bls12381G1Key2020 | Bls12381G2Key2020 | PgpVerificationKey2021
  | X25519KeyAgreementKey2019 | X25519KeyAgreementKey2020 | EcdsaSecp256k1RecoveryMethod2020 | Multikey

fun context_for_type :: "VerificationMethodType \<Rightarrow> string" where
  "context_for_type JsonWebKey2020 = ''https://w3id.org/security/suites/jws-2020/v1''"
| "context_for_type EcdsaSecp256k1VerificationKey2019 = ''https://w3id.org/security/suites/secp256k1-2019/v1''"
| "context_for_type Ed25519VerificationKey2018 = ''https://w3id.org/security/suites/ed25519-2018/v1''"
| "context_for_type Ed25519VerificationKey2020 = ''https://w3id.org/security/suites/ed25519-2020/v1''"
| "context_for_type Bls12381G1Key2020 = ''https://w3id.org/security/bbs/v1''"
| "context_for_type Bls12381G2Key2020 = ''https://w3id.org/security/bbs/v1''"
| "context_for_type PgpVerificationKey2021 = ''https://w3id.org/pgp/v1''"
| "context_for_type X25519KeyAgreementKey2019 = ''https://w3id.org/security/suites/x25519-2019/v1''"
| "context_for_type X25519KeyAgreementKey2020 = ''https://w3id.org/security/suites/x25519-2020/v1''"
| "context_for_type EcdsaSecp256k1RecoveryMethod2020 =
     ''https://w3id.org/security/suites/secp256k1recovery-2020/v2''"
| "context_for_type Multikey = ''https://w3id.org/security/multikey/v1''"

fun show_VerificationMethodType :: "VerificationMethodType \<Rightarrow> string" where
  "show_VerificationMethodType JsonWebKey2020 = ''JsonWebKey2020''"
| "show_VerificationMethodType EcdsaSecp256k1VerificationKey2019 = ''EcdsaSecp256k1VerificationKey2019''"
| "show_VerificationMethodType Ed25519VerificationKey2018 = ''Ed25519VerificationKey2018''"
| "show_VerificationMethodType Ed25519VerificationKey2020 = ''Ed25519VerificationKey2020''"
| "show_VerificationMethodType Bls12381G1Key2020 = ''Bls12381G1Key2020''"
| "show_VerificationMethodType Bls12381G2Key2020 = ''Bls12381G2Key2020''"
| "show_VerificationMethodType PgpVerificationKey2021 = ''PgpVerificationKey2021''"
| "show_VerificationMethodType X25519KeyAgreementKey2019 = ''X25519KeyAgreementKey2019''"
| "show_VerificationMethodType X25519KeyAgreementKey2020 = ''X25519KeyAgreementKey2020''"
| "show_VerificationMethodType EcdsaSecp256k1RecoveryMethod2020 = ''EcdsaSecp256k1RecoveryMethod2020''"
| "show_VerificationMethodType Multikey = ''Multikey''"

text \<open>\<open>KeyDecodingError\<close>: a reason and the text of what caused it.\<close>

record KeyDecodingError =
  kd_reason :: string
  kd_source :: "string option"

definition key_decoding :: "string \<Rightarrow> (string, 'a) result \<Rightarrow> (KeyDecodingError, 'a) result" where
  "key_decoding reason = map_err (\<lambda>e. \<lparr>kd_reason = reason, kd_source = Some e\<rparr>)"

definition show_KeyDecodingError :: "KeyDecodingError \<Rightarrow> string" where
  "show_KeyDecodingError e =
     (case kd_source e of
        Some s \<Rightarrow> ''KeyDecodingError, reason: '' @ kd_reason e @ '', source: '' @ s
      | None \<Rightarrow> ''KeyDecodingError, reason: '' @ kd_reason e)"

datatype DidDocumentBuilderError =
    Db_CustomError string
  | Db_MissingField string
  | Db_JsonError string
  | Db_KeyDecodingError KeyDecodingError
  | Db_UnsupportedVerificationMethodType VerificationMethodType
  | Db_PublicKeyError PublicKeyError

fun show_DidDocumentBuilderError :: "DidDocumentBuilderError \<Rightarrow> string" where
  "show_DidDocumentBuilderError (Db_MissingField field) = ''Missing field: '' @ field"
| "show_DidDocumentBuilderError (Db_JsonError e) = ''(De)serialization error: '' @ e"
| "show_DidDocumentBuilderError (Db_UnsupportedVerificationMethodType t) =
     ''Unsupported verification method type: '' @ show_VerificationMethodType t"
| "show_DidDocumentBuilderError (Db_PublicKeyError e) = ''Public key error: '' @ show_PublicKeyError e"
| "show_DidDocumentBuilderError (Db_CustomError s) = ''Custom DidDocumentBuilderError: '' @ s"
| "show_DidDocumentBuilderError (Db_KeyDecodingError e) = ''Key decoding error: '' @ show_KeyDecodingError e"

type_synonym 'a doc_res = "(DidDocumentBuilderError, 'a) result"

record JsonWebKey =
  jw_kty :: string
  jw_crv :: string
  jw_x :: string
  jw_extra :: "string \<rightharpoonup> json"

record 'k doc_ext =
  dc_b64_decode :: "string \<Rightarrow> (string, string) result"
  dc_hex_decode :: "string \<Rightarrow> (string, string) result"
  dc_pem_decode :: "string \<Rightarrow> (string, string) result"
  dc_ser_jwk :: "JsonWebKey \<Rightarrow> string"
  dc_jwk :: "'k jwk_ext"
  dc_uri :: "string \<Rightarrow> (string, string) result"
  dc_type_name :: "string \<Rightarrow> string"

datatype PublicKeyField =
    Pkf_Multibase string | Pkf_Jwk JsonWebKey | Pkf_Base58 string | Pkf_Base64 string | Pkf_Hex string
  | Pkf_Pem string | Pkf_Pgp string

fun key_decoded :: "key_ext \<Rightarrow> 'k doc_ext \<Rightarrow> PublicKeyField \<Rightarrow> (KeyDecodingError, string) result" where
  "key_decoded K C (Pkf_Multibase public_key_multibase) =
     and_then (key_decoding ''Failed to decode multibase public key''
       (map_err show_PublicKeyError (from_fingerprint K public_key_multibase))) (\<lambda>key. Ok (ky_bytes key))"
| "key_decoded K C (Pkf_Base58 public_key_base58) =
     key_decoding ''Failed to decode base58'' (kx_b58_decode K public_key_base58)"
| "key_decoded K C (Pkf_Base64 public_key_base64) =
     key_decoding ''Failed to decode base64'' (dc_b64_decode C public_key_base64)"
| "key_decoded K C (Pkf_Hex public_key_hex) =
     key_decoding ''Failed to decode hex value'' (dc_hex_decode C public_key_hex)"
| "key_decoded K C (Pkf_Pem public_key_pem) =
     key_decoding ''Failed to decode PEM'' (dc_pem_decode C public_key_pem)"
| "key_decoded K C (Pkf_Jwk _) = Err \<lparr>kd_reason = ''JWK public key decoding not supported'', kd_source = None\<rparr>"
| "key_decoded K C (Pkf_Pgp _) = Err \<lparr>kd_reason = ''PGP public key decoding not supported'', kd_source = None\<rparr>"

definition field_base58 :: "key_ext \<Rightarrow> 'k doc_ext \<Rightarrow> PublicKeyField \<Rightarrow> (KeyDecodingError, string) result" where
  "field_base58 K C f = map_ok (kx_b58_encode K) (key_decoded K C f)"

fun key_type_of_vm :: "VerificationMethodType \<Rightarrow> KeyType doc_res" where
  "key_type_of_vm Ed25519VerificationKey2018 = Ok Ed25519"
| "key_type_of_vm Ed25519VerificationKey2020 = Ok Ed25519"
| "key_type_of_vm Bls12381G1Key2020 = Ok Bls12381g1"
| "key_type_of_vm Bls12381G2Key2020 = Ok Bls12381g2"
| "key_type_of_vm X25519KeyAgreementKey2019 = Ok X25519"
| "key_type_of_vm X25519KeyAgreementKey2020 = Ok X25519"
| "key_type_of_vm value = Err (Db_UnsupportedVerificationMethodType value)"

record VerificationMethod =
  vm_id :: DidUrl
  vm_controller :: Did
  vm_type :: VerificationMethodType
  vm_public_key :: PublicKeyField

definition vm_key :: "key_ext \<Rightarrow> 'k doc_ext \<Rightarrow> VerificationMethod \<Rightarrow> Key doc_res" where
  "vm_key K C vm =
     (case vm_public_key vm of
        Pkf_Multibase public_key_multibase \<Rightarrow> map_err Db_PublicKeyError (from_fingerprint K public_key_multibase)
      | Pkf_Jwk public_key_jwk \<Rightarrow>
          map_err Db_PublicKeyError (from_jwk K (dc_jwk C) (dc_ser_jwk C public_key_jwk))
      | field \<Rightarrow>
          and_then (map_err Db_KeyDecodingError (key_decoded K C field)) (\<lambda>bytes.
          and_then (key_type_of_vm (vm_type vm)) (\<lambda>key_type.
          map_err Db_PublicKeyError (Key_new K bytes key_type))))"

datatype VerificationMethodKind = Vm_Resolved VerificationMethod | Vm_Resolvable DidUrl

fun resolved :: "VerificationMethodKind \<Rightarrow> VerificationMethod option" where
  "resolved (Vm_Resolved x) = Some x"
| "resolved (Vm_Resolvable _) = None"

section \<open>Services\<close>

datatype 'a OneOrList = One 'a | Many "'a list"

fun one_or_list :: "'a list \<Rightarrow> 'a OneOrList" where
  "one_or_list [x] = One x"
| "one_or_list xs = Many xs"

fun first_of :: "string OneOrList \<Rightarrow> string option" where
  "first_of (One s) = Some s"
| "first_of (Many []) = None"
| "first_of (Many (s # _)) = Some s"

text \<open>\<open>uniresid::Uri\<close>, by its text.\<close>

datatype Uri = Uri (uri_text: string)

definition Uri_new :: "'k doc_ext \<Rightarrow> string \<Rightarrow> (string, Uri) result" where
  "Uri_new C uri = map_err (\<lambda>e. ''UriWrapperError: '' @ e) (map_ok Uri (dc_uri C uri))"

datatype ServiceKeyKind = SK_DidKey DidKey | SK_Reference DidUrl | SK_Value string

fun show_ServiceKeyKind :: "ServiceKeyKind \<Rightarrow> string" where
  "show_ServiceKeyKind (SK_Reference did_url) = du_text did_url"
| "show_ServiceKeyKind (SK_Value v) = v"
| "show_ServiceKeyKind (SK_DidKey did_key) = did_text (dk_did did_key)"

text \<open>Untagged (de)serialisation: a text is tried as \<open>did:key\<close>, then as DID URL, and else kept.\<close>

definition ser_service_key :: "ServiceKeyKind \<Rightarrow> json" where
  "ser_service_key k = JString (show_ServiceKeyKind k)"

definition de_service_key :: "nom \<Rightarrow> key_ext \<Rightarrow> json \<Rightarrow> (string, ServiceKeyKind) result" where
  "de_service_key N K j =
     (case j of
        JString s \<Rightarrow>
          (case DidKey_parse N K s of
             Ok k \<Rightarrow> Ok (SK_DidKey k)
           | Err _ \<Rightarrow> (case parse_did_url N s of Ok u \<Rightarrow> Ok (SK_Reference u) | Err _ \<Rightarrow> Ok (SK_Value s) | Panic \<Rightarrow> Panic)
           | Panic \<Rightarrow> Panic)
      | _ \<Rightarrow> Err ''data did not match any variant of untagged enum ServiceKeyKind'')"

datatype ServiceAcceptType = Accept_DIDCommV1 | Accept_DIDCommV2 | Accept_Other string

definition accept_type :: "string \<Rightarrow> ServiceAcceptType" where
  "accept_type s =
     (if s = ''didcomm/aip2;env=rfc19'' then Accept_DIDCommV1
      else if s = ''didcomm/v2'' then Accept_DIDCommV2 else Accept_Other s)"

fun show_accept :: "ServiceAcceptType \<Rightarrow> string" where
  "show_accept Accept_DIDCommV1 = ''didcomm/aip2;env=rfc19''"
| "show_accept Accept_DIDCommV2 = ''didcomm/v2''"
| "show_accept (Accept_Other other) = other"

definition de_accept :: "json \<Rightarrow> (string, ServiceAcceptType) result" where
  "de_accept j = (case j of JString s \<Rightarrow> Ok (accept_type s) | _ \<Rightarrow> Err ''expected a string'')"

datatype ServiceType = St_AIP1 | St_DIDCommV1 | St_DIDCommV2 | St_Legacy | St_Other string

definition service_type_of :: "string \<Rightarrow> ServiceType" where
  "service_type_of s =
     (if s = ''endpoint'' then St_AIP1
      else if s = ''did-communication'' then St_DIDCommV1
      else if s = ''DIDCommMessaging'' then St_DIDCommV2
      else if s = ''IndyAgent'' then St_Legacy
      else St_Other s)"

fun show_ServiceType :: "ServiceType \<Rightarrow> string" where
  "show_ServiceType St_AIP1 = ''endpoint''"
| "show_ServiceType St_DIDCommV1 = ''did-communication''"
| "show_ServiceType St_DIDCommV2 = ''DIDCommMessaging''"
| "show_ServiceType St_Legacy = ''IndyAgent''"
| "show_ServiceType (St_Other other) = other"

record Service =
  sc_id :: Uri
  sc_service_type :: "ServiceType OneOrList"
  sc_service_endpoint :: string
  sc_extra :: "string \<rightharpoonup> json"

definition service_types :: "Service \<Rightarrow> ServiceType list" where
  "service_types s = (case sc_service_type s of One t \<Rightarrow> [t] | Many ts \<Rightarrow> ts)"

text \<open>\<open>serde_json::from_value\<close> for a list and for \<open>u32\<close>.\<close>

definition de_list :: "(json \<Rightarrow> (string, 'a) result) \<Rightarrow> json \<Rightarrow> (string, 'a list) result" where
  "de_list de j = (case j of JArray js \<Rightarrow> try_map de js | _ \<Rightarrow> Err ''expected a sequence'')"

definition de_u32 :: "json \<Rightarrow> (string, u32) result" where
  "de_u32 j =
     (case j of
        JNumber (PosInt n) \<Rightarrow> if unat n < 2 ^ 32 then Ok (of_nat (unat n)) else Err ''invalid value''
      | _ \<Rightarrow> Err ''expected u32'')"

definition ser_u32 :: "u32 \<Rightarrow> json" where
  "ser_u32 n = JNumber (PosInt (of_nat (unat n)))"

definition extra_field_as_as ::
  "'k doc_ext \<Rightarrow> string \<Rightarrow> (json \<Rightarrow> (string, 'a) result) \<Rightarrow> Service \<Rightarrow> string \<Rightarrow> 'a doc_res option" where
  "extra_field_as_as C type_name de s key =
     map_option (\<lambda>value. map_err (\<lambda>_. Db_CustomError
       (''Extra field '' @ key @ '' is not of type '' @ dc_type_name C type_name)) (de value)) (sc_extra s key)"

definition expected_extra_field_type ::
  "'k doc_ext \<Rightarrow> string \<Rightarrow> (json \<Rightarrow> (string, 'a) result) \<Rightarrow> Service \<Rightarrow> string \<Rightarrow> 'a doc_res" where
  "expected_extra_field_type C type_name de s key =
     (case extra_field_as_as C type_name de s key of
        None \<Rightarrow> Err (Db_MissingField key)
      | Some value \<Rightarrow> value)"

definition extra_field_priority :: "'k doc_ext \<Rightarrow> Service \<Rightarrow> u32 doc_res" where
  "extra_field_priority C s = expected_extra_field_type C ''u32'' de_u32 s ''priority''"

definition extra_field_routing_keys :: "nom \<Rightarrow> key_ext \<Rightarrow> 'k doc_ext \<Rightarrow> Service \<Rightarrow> ServiceKeyKind list doc_res" where
  "extra_field_routing_keys N K C s =
     expected_extra_field_type C ''Vec<ServiceKeyKind>'' (de_list (de_service_key N K)) s ''routingKeys''"

definition extra_field_recipient_keys :: "nom \<Rightarrow> key_ext \<Rightarrow> 'k doc_ext \<Rightarrow> Service \<Rightarrow> ServiceKeyKind list doc_res" where
  "extra_field_recipient_keys N K C s =
     expected_extra_field_type C ''Vec<ServiceKeyKind>'' (de_list (de_service_key N K)) s ''recipientKeys''"

definition extra_field_accept :: "'k doc_ext \<Rightarrow> Service \<Rightarrow> ServiceAcceptType list doc_res" where
  "extra_field_accept C s = expected_extra_field_type C ''Vec<ServiceAcceptType>'' (de_list de_accept) s ''accept''"

text \<open>\<open>add_extra_field_as\<close>, for the values whose serialisation cannot fail.\<close>

definition add_extra_field_as :: "string \<Rightarrow> json \<Rightarrow> Service \<Rightarrow> Service" where
  "add_extra_field_as key value s = s\<lparr>sc_extra := (sc_extra s)(key \<mapsto> value)\<rparr>"

definition add_extra_field_routing_keys :: "ServiceKeyKind list \<Rightarrow> Service \<Rightarrow> Service" where
  "add_extra_field_routing_keys ks = add_extra_field_as ''routingKeys'' (JArray (map ser_service_key ks))"

definition add_extra_field_recipient_keys :: "ServiceKeyKind list \<Rightarrow> Service \<Rightarrow> Service" where
  "add_extra_field_recipient_keys ks = add_extra_field_as ''recipientKeys'' (JArray (map ser_service_key ks))"

definition add_extra_field_accept :: "ServiceAcceptType list \<Rightarrow> Service \<Rightarrow> Service" where
  "add_extra_field_accept a = add_extra_field_as ''accept'' (JArray (map (JString \<circ> show_accept) a))"

definition add_extra_field_priority :: "u32 \<Rightarrow> Service \<Rightarrow> Service" where
  "add_extra_field_priority n = add_extra_field_as ''priority'' (ser_u32 n)"

text \<open>Services of DIDComm version 1 (\<open>typed/didcommv1.rs\<close>)\<close>

record ServiceDidCommV1 =
  s1_id :: Uri
  s1_service_endpoint :: string
  s1_priority :: u32
  s1_recipient_keys :: "ServiceKeyKind list"
  s1_routing_keys :: "ServiceKeyKind list"
  s1_accept :: "ServiceAcceptType list"

definition ServiceDidCommV1_new ::
  "Uri \<Rightarrow> string \<Rightarrow> u32 \<Rightarrow> ServiceKeyKind list \<Rightarrow> ServiceKeyKind list \<Rightarrow> ServiceDidCommV1" where
  "ServiceDidCommV1_new i service_endpoint priority recipient_keys routing_keys =
     \<lparr>s1_id = i, s1_service_endpoint = service_endpoint, s1_priority = priority,
      s1_recipient_keys = recipient_keys, s1_routing_keys = routing_keys, s1_accept = [Accept_DIDCommV1]\<rparr>"

definition service_of_didcommv1 :: "ServiceDidCommV1 \<Rightarrow> Service doc_res" where
  "service_of_didcommv1 d =
     Ok \<lparr>sc_id = s1_id d, sc_service_type = One St_DIDCommV1, sc_service_endpoint = s1_service_endpoint d,
       sc_extra = [''priority'' \<mapsto> ser_u32 (s1_priority d),
         ''recipientKeys'' \<mapsto> JArray (map ser_service_key (s1_recipient_keys d)),
         ''routingKeys'' \<mapsto> JArray (map ser_service_key (s1_routing_keys d)),
         ''accept'' \<mapsto> JArray (map (JString \<circ> show_accept) (s1_accept d))]\<rparr>"

section \<open>Documents\<close>

record DidDocument =
  doc_id :: Did
  doc_also_known_as :: "Uri list"
  doc_controller :: "Did OneOrList option"
  doc_verification_method :: "VerificationMethod list"
  doc_authentication :: "VerificationMethodKind list"
  doc_assertion_method :: "VerificationMethodKind list"
  doc_key_agreement :: "VerificationMethodKind list"
  doc_capability_invocation :: "VerificationMethodKind list"
  doc_capability_delegation :: "VerificationMethodKind list"
  doc_service :: "Service list"
  doc_extra :: "string \<rightharpoonup> json"

definition DidDocument_new :: "Did \<Rightarrow> DidDocument" where
  "DidDocument_new i = \<lparr>doc_id = i, doc_also_known_as = [], doc_controller = None,
     doc_verification_method = [], doc_authentication = [], doc_assertion_method = [], doc_key_agreement = [],
     doc_capability_invocation = [], doc_capability_delegation = [], doc_service = [], doc_extra = Map.empty\<rparr>"

definition doc_set_id :: "Did \<Rightarrow> DidDocument \<Rightarrow> DidDocument" where
  "doc_set_id i d = d\<lparr>doc_id := i\<rparr>"

definition doc_set_also_known_as :: "Uri list \<Rightarrow> DidDocument \<Rightarrow> DidDocument" where
  "doc_set_also_known_as uris d = d\<lparr>doc_also_known_as := uris\<rparr>"

definition doc_add_also_known_as :: "Uri \<Rightarrow> DidDocument \<Rightarrow> DidDocument" where
  "doc_add_also_known_as uri d = d\<lparr>doc_also_known_as := doc_also_known_as d @ [uri]\<rparr>"

definition doc_set_controller :: "Did OneOrList \<Rightarrow> DidDocument \<Rightarrow> DidDocument" where
  "doc_set_controller controller d = d\<lparr>doc_controller := Some controller\<rparr>"

definition doc_add_verification_method :: "VerificationMethod \<Rightarrow> DidDocument \<Rightarrow> DidDocument" where
  "doc_add_verification_method method d = d\<lparr>doc_verification_method := doc_verification_method d @ [method]\<rparr>"

definition doc_add_authentication :: "VerificationMethodKind \<Rightarrow> DidDocument \<Rightarrow> DidDocument" where
  "doc_add_authentication method d = d\<lparr>doc_authentication := doc_authentication d @ [method]\<rparr>"

definition doc_add_authentication_object :: "VerificationMethod \<Rightarrow> DidDocument \<Rightarrow> DidDocument" where
  "doc_add_authentication_object method d = d\<lparr>doc_authentication := doc_authentication d @ [Vm_Resolved method]\<rparr>"

definition doc_add_authentication_ref :: "DidUrl \<Rightarrow> DidDocument \<Rightarrow> DidDocument" where
  "doc_add_authentication_ref reference d = d\<lparr>doc_authentication := doc_authentication d @ [Vm_Resolvable reference]\<rparr>"

definition doc_add_assertion_method :: "VerificationMethodKind \<Rightarrow> DidDocument \<Rightarrow> DidDocument" where
  "doc_add_assertion_method method d = d\<lparr>doc_assertion_method := doc_assertion_method d @ [method]\<rparr>"

definition doc_add_assertion_method_object :: "VerificationMethod \<Rightarrow> DidDocument \<Rightarrow> DidDocument" where
  "doc_add_assertion_method_object method d = d\<lparr>doc_assertion_method := doc_assertion_method d @ [Vm_Resolved method]\<rparr>"

definition doc_add_assertion_method_ref :: "DidUrl \<Rightarrow> DidDocument \<Rightarrow> DidDocument" where
  "doc_add_assertion_method_ref reference d = d\<lparr>doc_assertion_method := doc_assertion_method d @ [Vm_Resolvable reference]\<rparr>"

definition doc_add_key_agreement :: "VerificationMethodKind \<Rightarrow> DidDocument \<Rightarrow> DidDocument" where
  "doc_add_key_agreement method d = d\<lparr>doc_key_agreement := doc_key_agreement d @ [method]\<rparr>"

definition doc_add_key_agreement_object :: "VerificationMethod \<Rightarrow> DidDocument \<Rightarrow> DidDocument" where
  "doc_add_key_agreement_object method d = d\<lparr>doc_key_agreement := doc_key_agreement d @ [Vm_Resolved method]\<rparr>"

definition doc_add_key_agreement_ref :: "DidUrl \<Rightarrow> DidDocument \<Rightarrow> DidDocument" where
  "doc_add_key_agreement_ref reference d = d\<lparr>doc_key_agreement := doc_key_agreement d @ [Vm_Resolvable reference]\<rparr>"

definition doc_add_capability_invocation :: "VerificationMethodKind \<Rightarrow> DidDocument \<Rightarrow> DidDocument" where
  "doc_add_capability_invocation method d = d\<lparr>doc_capability_invocation := doc_capability_invocation d @ [method]\<rparr>"

definition doc_add_capability_invocation_object :: "VerificationMethod \<Rightarrow> DidDocument \<Rightarrow> DidDocument" where
  "doc_add_capability_invocation_object method d = d\<lparr>doc_capability_invocation := doc_capability_invocation d @ [Vm_Resolved method]\<rparr>"

definition doc_add_capability_invocation_ref :: "DidUrl \<Rightarrow> DidDocument \<Rightarrow> DidDocument" where
  "doc_add_capability_invocation_ref reference d = d\<lparr>doc_capability_invocation := doc_capability_invocation d @ [Vm_Resolvable reference]\<rparr>"

definition doc_add_capability_delegation :: "VerificationMethodKind \<Rightarrow> DidDocument \<Rightarrow> DidDocument" where
  "doc_add_capability_delegation method d = d\<lparr>doc_capability_delegation := doc_capability_delegation d @ [method]\<rparr>"

definition doc_add_capability_delegation_object :: "VerificationMethod \<Rightarrow> DidDocument \<Rightarrow> DidDocument" where
  "doc_add_capability_delegation_object method d = d\<lparr>doc_capability_delegation := doc_capability_delegation d @ [Vm_Resolved method]\<rparr>"

definition doc_add_capability_delegation_ref :: "DidUrl \<Rightarrow> DidDocument \<Rightarrow> DidDocument" where
  "doc_add_capability_delegation_ref reference d = d\<lparr>doc_capability_delegation := doc_capability_delegation d @ [Vm_Resolvable reference]\<rparr>"

definition doc_set_service :: "Service list \<Rightarrow> DidDocument \<Rightarrow> DidDocument" where
  "doc_set_service services d = d\<lparr>doc_service := services\<rparr>"

definition doc_add_service :: "Service \<Rightarrow> DidDocument \<Rightarrow> DidDocument" where
  "doc_add_service service d = d\<lparr>doc_service := doc_service d @ [service]\<rparr>"

definition doc_set_extra_field :: "string \<Rightarrow> json \<Rightarrow> DidDocument \<Rightarrow> DidDocument" where
  "doc_set_extra_field key value d = d\<lparr>doc_extra := (doc_extra d)(key \<mapsto> value)\<rparr>"

definition doc_remove_extra_field :: "string \<Rightarrow> DidDocument \<Rightarrow> DidDocument" where
  "doc_remove_extra_field key d = d\<lparr>doc_extra := (doc_extra d)(key := None)\<rparr>"

definition doc_extra_field :: "DidDocument \<Rightarrow> string \<Rightarrow> json option" where
  "doc_extra_field d key = doc_extra d key"

section \<open>Look-ups\<close>

text \<open>\<open>iter().filter_map(|k| k.resolved())\<close>\<close>

definition all_resolved :: "VerificationMethodKind list \<Rightarrow> VerificationMethod list" where
  "all_resolved ks = List.map_filter resolved ks"

definition all_vms :: "DidDocument \<Rightarrow> VerificationMethod list" where
  "all_vms d = doc_verification_method d @ all_resolved (doc_assertion_method d) @
     all_resolved (doc_key_agreement d) @ all_resolved (doc_authentication d) @
     all_resolved (doc_capability_invocation d) @ all_resolved (doc_capability_delegation d)"

definition dereference_key :: "DidDocument \<Rightarrow> DidUrl \<Rightarrow> VerificationMethod option" where
  "dereference_key d reference = find (\<lambda>vm. du_fragment (vm_id vm) = du_fragment reference) (all_vms d)"

definition verification_method_by_id :: "DidDocument \<Rightarrow> string \<Rightarrow> VerificationMethod option" where
  "verification_method_by_id d i = find (\<lambda>vm. du_fragment (vm_id vm) = Some i) (doc_verification_method d)"

fun try_match_and_deref :: "DidDocument \<Rightarrow> VerificationMethodKind \<Rightarrow> string \<Rightarrow> VerificationMethod option" where
  "try_match_and_deref d (Vm_Resolved vm) i = (if du_fragment (vm_id vm) = Some i then Some vm else None)"
| "try_match_and_deref d (Vm_Resolvable vm_ref) i =
     (if du_fragment vm_ref = Some i then dereference_key d vm_ref else None)"

text \<open>The loop of the five \<open>*_by_id\<close> functions: the first entry that matches and can be dereferenced.\<close>

fun first_match :: "DidDocument \<Rightarrow> string \<Rightarrow> VerificationMethodKind list \<Rightarrow> VerificationMethod option" where
  "first_match d i [] = None"
| "first_match d i (k # ks) =
     (case try_match_and_deref d k i of Some vm \<Rightarrow> Some vm | None \<Rightarrow> first_match d i ks)"

definition authentication_by_id :: "DidDocument \<Rightarrow> string \<Rightarrow> VerificationMethod option" where
  "authentication_by_id d i = first_match d i (doc_authentication d)"

definition assertion_method_by_key :: "DidDocument \<Rightarrow> string \<Rightarrow> VerificationMethod option" where
  "assertion_method_by_key d i = first_match d i (doc_assertion_method d)"

definition key_agreement_by_id :: "DidDocument \<Rightarrow> string \<Rightarrow> VerificationMethod option" where
  "key_agreement_by_id d i = first_match d i (doc_key_agreement d)"

definition capability_invocation_by_id :: "DidDocument \<Rightarrow> string \<Rightarrow> VerificationMethod option" where
  "capability_invocation_by_id d i = first_match d i (doc_capability_invocation d)"

definition capability_delegation_by_id :: "DidDocument \<Rightarrow> string \<Rightarrow> VerificationMethod option" where
  "capability_delegation_by_id d i = first_match d i (doc_capability_delegation d)"

datatype DidDocumentLookupError = DidDocumentLookupError string

text \<open>\<open>get_key_agreement_of_type\<close>: the loop stops at the first reference that leads nowhere.\<close>

fun find_key_of_type ::
  "DidDocument \<Rightarrow> VerificationMethodType list \<Rightarrow> VerificationMethodKind list \<Rightarrow>
   (DidDocumentLookupError, VerificationMethod) result" where
  "find_key_of_type d key_types [] =
     Err (DidDocumentLookupError ''No supported key_agreement keys have been found'')"
| "find_key_of_type d key_types (kind # kinds) =
     and_then
       (case kind of
          Vm_Resolved vm \<Rightarrow> Ok vm
        | Vm_Resolvable reference \<Rightarrow>
            (case dereference_key d reference of
               None \<Rightarrow> Err (DidDocumentLookupError
                 (''Unable to resolve key agreement key by reference: '' @ du_text reference))
             | Some vm \<Rightarrow> Ok vm))
       (\<lambda>vm. if vm_type vm \<in> set key_types then Ok vm else find_key_of_type d key_types kinds)"

definition get_key_agreement_of_type ::
  "DidDocument \<Rightarrow> VerificationMethodType list \<Rightarrow> (DidDocumentLookupError, VerificationMethod) result" where
  "get_key_agreement_of_type d key_types = find_key_of_type d key_types (doc_key_agreement d)"

definition get_service_of_type :: "DidDocument \<Rightarrow> ServiceType \<Rightarrow> (DidDocumentLookupError, Service) result" where
  "get_service_of_type d t =
     ok_or (find (\<lambda>s. t \<in> set (service_types s)) (doc_service d))
       (DidDocumentLookupError (''Failed to look up service object by type '' @ show_ServiceType t))"

definition get_service_by_id :: "DidDocument \<Rightarrow> Uri \<Rightarrow> (DidDocumentLookupError, Service) result" where
  "get_service_by_id d i =
     ok_or (find (\<lambda>s. sc_id s = i) (doc_service d))
       (DidDocumentLookupError (''Failed to look up service object by id '' @ uri_text i))"

section \<open>What look-ups find\<close>

lemma find_SomeD: "find P xs = Some x \<Longrightarrow> x \<in> set xs \<and> P x"
  by (auto simp: find_Some_iff)

lemma dereference_key_Some: "dereference_key d r = Some vm \<Longrightarrow> vm \<in> set (all_vms d) \<and>
    du_fragment (vm_id vm) = du_fragment r"
  by (auto simp: dereference_key_def dest: find_SomeD)

lemma set_all_resolved: "vm \<in> set (all_resolved ks) \<longleftrightarrow> Vm_Resolved vm \<in> set ks"
proof -
  have "resolved k = Some vm \<longleftrightarrow> k = Vm_Resolved vm" for k by (cases k) auto
  then show ?thesis by (force simp: all_resolved_def List.map_filter_def)
qed

text \<open>An embedded method of any of the relationships can be dereferenced by its fragment.\<close>

lemma embedded_in_all_vms:
  "Vm_Resolved vm \<in> set (doc_authentication d) \<union> set (doc_assertion_method d) \<union> set (doc_key_agreement d) \<union>
     set (doc_capability_invocation d) \<union> set (doc_capability_delegation d) \<Longrightarrow> vm \<in> set (all_vms d)"
  by (auto simp: all_vms_def set_all_resolved)

lemma dereference_key_exists:
  assumes "vm \<in> set (all_vms d)" and "du_fragment (vm_id vm) = du_fragment r"
  shows "\<exists>vm'. dereference_key d r = Some vm'"
  using assms by (cases "dereference_key d r") (auto simp: dereference_key_def find_None_iff)

lemma first_match_sound:
  assumes "first_match d i ks = Some vm"
  shows "du_fragment (vm_id vm) = Some i \<and> (Vm_Resolved vm \<in> set ks \<or> vm \<in> set (all_vms d))"
  using assms
proof (induction ks)
  case (Cons k ks)
  then show ?case
    by (cases k) (auto split: if_splits option.splits dest: dereference_key_Some)
qed simp

text \<open>
  Looking up a key by its fragment is sound: the five look-ups and the dereferencing of a reference give
  a verification method of the document with exactly this fragment.
\<close>

lemma lookups_sound:
  assumes "vm \<in> {vm. key_agreement_by_id d i = Some vm \<or> authentication_by_id d i = Some vm \<or>
      assertion_method_by_key d i = Some vm \<or> capability_invocation_by_id d i = Some vm \<or>
      capability_delegation_by_id d i = Some vm \<or> verification_method_by_id d i = Some vm}"
  shows "du_fragment (vm_id vm) = Some i \<and> vm \<in> set (all_vms d)"
proof -
  have "du_fragment (vm_id vm) = Some i \<and> vm \<in> set (all_vms d)"
    if "first_match d i ks = Some vm" and "\<And>x. Vm_Resolved x \<in> set ks \<Longrightarrow> x \<in> set (all_vms d)" for ks
    using first_match_sound [OF that(1)] that(2) by blast
  moreover have "verification_method_by_id d i = Some vm \<Longrightarrow>
      du_fragment (vm_id vm) = Some i \<and> vm \<in> set (all_vms d)"
    by (auto simp: verification_method_by_id_def all_vms_def dest: find_SomeD)
  ultimately show ?thesis
    using assms embedded_in_all_vms
    by (auto simp: key_agreement_by_id_def authentication_by_id_def assertion_method_by_key_def
        capability_invocation_by_id_def capability_delegation_by_id_def)
qed

text \<open>
  Which key agreement key is found: the result is the first one whose type is wanted, provided that
  every reference before it leads somewhere; a reference that leads nowhere fails the look-up even if a
  wanted key comes later.
\<close>

definition kind_vm :: "DidDocument \<Rightarrow> VerificationMethodKind \<Rightarrow> VerificationMethod option" where
  "kind_vm d k = (case k of Vm_Resolved vm \<Rightarrow> Some vm | Vm_Resolvable r \<Rightarrow> dereference_key d r)"

lemma first_split_Cons:
  "(\<exists>before x after. y # ys = before @ x # after \<and> P x \<and> (\<forall>b \<in> set before. Q b)) \<longleftrightarrow>
     P y \<or> Q y \<and> (\<exists>before x after. ys = before @ x # after \<and> P x \<and> (\<forall>b \<in> set before. Q b))"
  (is "?l \<longleftrightarrow> ?r")
proof
  assume ?l
  then obtain before x after where "y # ys = before @ x # after" "P x" "\<forall>b \<in> set before. Q b" by blast
  then show ?r by (cases before) auto
next
  assume r: ?r
  show ?l
  proof (cases "P y")
    case True
    then show ?thesis by (intro exI [of _ "[]"]) simp
  next
    case False
    with r obtain before x after where "Q y" "ys = before @ x # after" "P x" "\<forall>b \<in> set before. Q b" by blast
    then show ?thesis by (intro exI [of _ "y # before"] exI [of _ x] exI [of _ after]) simp
  qed
qed

lemma find_key_of_type_iff:
  "find_key_of_type d ts ks = Ok vm \<longleftrightarrow>
     (\<exists>before k after. ks = before @ k # after \<and> (kind_vm d k = Some vm \<and> vm_type vm \<in> set ts) \<and>
       (\<forall>b \<in> set before. \<exists>x. kind_vm d b = Some x \<and> vm_type x \<notin> set ts))"
proof (induction ks)
  case (Cons k ks)
  have "find_key_of_type d ts (k # ks) = Ok vm \<longleftrightarrow> kind_vm d k = Some vm \<and> vm_type vm \<in> set ts \<or>
      (\<exists>x. kind_vm d k = Some x \<and> vm_type x \<notin> set ts) \<and> find_key_of_type d ts ks = Ok vm"
    by (auto simp: kind_vm_def split: VerificationMethodKind.splits option.splits if_splits)
  then show ?case by (simp only: first_split_Cons Cons.IH)
qed simp

section \<open>Services survive their JSON form\<close>

lemma try_map_inverse: "(\<And>x. x \<in> set xs \<Longrightarrow> f (g x) = Ok x) \<Longrightarrow> try_map f (map g xs) = Ok xs"
  by (induction xs) auto

lemma accept_type_show: "(\<forall>s. a = Accept_Other s \<longrightarrow> accept_type s = a) \<Longrightarrow> accept_type (show_accept a) = a"
  by (cases a) (auto simp: accept_type_def)

lemma service_type_show: "(\<forall>s. t = St_Other s \<longrightarrow> service_type_of s = t) \<Longrightarrow> service_type_of (show_ServiceType t) = t"
  by (cases t) (auto simp: service_type_of_def)

lemma de_u32_ser [simp]: "de_u32 (ser_u32 n) = Ok n"
proof -
  have "unat n < 2 ^ 32" by (rule unat_u32_bound)
  moreover from this have "unat (of_nat (unat n) :: u64) = unat n"
    by (simp add: unsigned_ucast_eq take_bit_nat_eq_self)
  ultimately show ?thesis by (simp add: de_u32_def ser_u32_def)
qed

text \<open>
  A service of DIDComm version 1 gives back what it was made of: its priority, its recipient and routing
  keys and what it accepts, for keys that are read back as what they are.
\<close>

lemma didcommv1_service_roundtrip:
  assumes "\<And>k. k \<in> set rks \<union> set routing \<Longrightarrow> de_service_key N K (ser_service_key k) = Ok k"
    and "service_of_didcommv1 (ServiceDidCommV1_new i e n rks routing) = Ok s"
  shows "sc_id s = i \<and> sc_service_endpoint s = e \<and> service_types s = [St_DIDCommV1] \<and>
    extra_field_priority C s = Ok n \<and> extra_field_recipient_keys N K C s = Ok rks \<and>
    extra_field_routing_keys N K C s = Ok routing \<and> extra_field_accept C s = Ok [Accept_DIDCommV1]"
proof -
  have "try_map (de_service_key N K) (map ser_service_key ks) = Ok ks" if "set ks \<subseteq> set rks \<union> set routing" for ks
    using assms(1) that by (intro try_map_inverse) auto
  from this [of rks] this [of routing] assms(2) show ?thesis
    by (auto simp: service_of_didcommv1_def ServiceDidCommV1_new_def service_types_def
        extra_field_priority_def extra_field_recipient_keys_def extra_field_routing_keys_def extra_field_accept_def
        expected_extra_field_type_def extra_field_as_as_def de_list_def de_accept_def accept_type_def)
qed

text \<open>\<open>did:key\<close>: the identifier made of a key is read back as the key.\<close>

lemma did_key_roundtrip:
  assumes "multibase_inverse K" and "varint_inverse K" and "DidKey_of_key N K k = Ok d"
    and "did_id (dk_did d) = fingerprint K k"
  shows "DidKey_parse N K (did_text (dk_did d)) = Ok d \<and> dk_key d = k"
proof -
  from assms(3) obtain did where d: "parse_did N (''did:key:'' @ fingerprint K k) = Ok did"
    "d = \<lparr>dk_key = k, dk_did = did\<rparr>" by (auto simp: DidKey_of_key_def)
  moreover from d(1) have "did_text did = ''did:key:'' @ fingerprint K k" by (rule parse_did_text)
  ultimately show ?thesis
    using assms(4) from_fingerprint_prefixed [OF assms(1,2)] by (simp add: DidKey_parse_def fingerprint_def)
qed

end
