(* ===== verification/Did_Peer.thy ===== *)
theory Did_Peer
  imports Did_Doc
begin

text \<open>
  Peer DIDs of numalgo 4 (\<open>did_core/did_methods/did_peer\<close>): a DID that carries its document, in a long
  form with the encoded document and a short form with its hash only; the kinds of peer DIDs; and the
  registry of resolvers (\<open>did_core/did_resolver_registry\<close>). The serialiser of documents and SHA-256 enter as
  the record \<open>peer_ext\<close>; the document inside a DID is the JSON text in multibase behind a multicodec code.
\<close>

section \<open>Kinds of peer DIDs\<close>

datatype NumalgoKind = InceptionKeyWithoutDoc | GenesisDoc | MultipleInceptionKeys | DidShortening | DidPeer4

fun numalgo_char :: "NumalgoKind \<Rightarrow> char" where
  "numalgo_char InceptionKeyWithoutDoc = CHR ''0''"
| "numalgo_char GenesisDoc = CHR ''1''"
| "numalgo_char MultipleInceptionKeys = CHR ''2''"
| "numalgo_char DidShortening = CHR ''3''"
| "numalgo_char DidPeer4 = CHR ''4''"

datatype DidPeerError =
    Dp_DidParserError ParseError
  | Dp_ParsingError string
  | Dp_DidValidationError string
  | Dp_DidDocumentBuilderError DidDocumentBuilderError
  | Dp_InvalidKeyReference string
  | Dp_InvalidService string
  | Dp_UnsupportedNumalgo NumalgoKind
  | Dp_InvalidNumalgoCharacter char
  | Dp_UnsupportedPurpose char
  | Dp_UnsupportedVerificationMethodType VerificationMethodType
  | Dp_Base64DecodingError string
  | Dp_KeyDecodingError KeyDecodingError
  | Dp_JsonError string
  | Dp_RegexError string
  | Dp_PublicKeyError PublicKeyError
  | Dp_GeneralError string

fun show_DidPeerError :: "DidPeerError \<Rightarrow> string" where
  "show_DidPeerError (Dp_DidParserError e) = ''DID parser error: '' @ show_ParseError e"
| "show_DidPeerError (Dp_ParsingError s) = ''Parsing error: '' @ s"
| "show_DidPeerError (Dp_DidValidationError s) = ''DID validation error: '' @ s"
| "show_DidPeerError (Dp_DidDocumentBuilderError e) =
     ''DID document builder error: '' @ show_DidDocumentBuilderError e"
| "show_DidPeerError (Dp_InvalidKeyReference s) = ''Invalid key reference: '' @ s"
| "show_DidPeerError (Dp_InvalidService s) = ''Invalid service: '' @ s"
| "show_DidPeerError (Dp_UnsupportedNumalgo k) = ''Unsupported numalgo: '' @ [numalgo_char k]"
| "show_DidPeerError (Dp_InvalidNumalgoCharacter c) = ''Invalid numalgo character: '' @ [c]"
| "show_DidPeerError (Dp_UnsupportedPurpose c) = ''Unsupported purpose character: '' @ [c]"
| "show_DidPeerError (Dp_UnsupportedVerificationMethodType t) =
     ''Unsupported verification method type: '' @ show_VerificationMethodType t"
| "show_DidPeerError (Dp_Base64DecodingError _) = ''Base 64 decoding error''"
| "show_DidPeerError (Dp_KeyDecodingError _) = ''Key decoding error''"
| "show_DidPeerError (Dp_JsonError s) = ''JSON error: '' @ s"
| "show_DidPeerError (Dp_RegexError s) = ''Regex error: '' @ s"
| "show_DidPeerError (Dp_PublicKeyError e) = ''Public key error: '' @ show_PublicKeyError e"
| "show_DidPeerError (Dp_GeneralError s) = ''General error: '' @ s"

definition NumalgoKind_try_from :: "char \<Rightarrow> (DidPeerError, NumalgoKind) result" where
  "NumalgoKind_try_from c =
     (if c = CHR ''0'' then Ok InceptionKeyWithoutDoc
      else if c = CHR ''1'' then Ok GenesisDoc
      else if c = CHR ''2'' then Ok MultipleInceptionKeys
      else if c = CHR ''3'' then Ok DidShortening
      else if c = CHR ''4'' then Ok DidPeer4
      else Err (Dp_InvalidNumalgoCharacter c))"

definition parse_numalgo :: "Did \<Rightarrow> (DidPeerError, NumalgoKind) result" where
  "parse_numalgo did =
     (case did_id did of
        [] \<Rightarrow> Err (Dp_DidValidationError
          (''Invalid peer did: '' @ did_text did @ '' because numalgo couldn't be parsed''))
      | c # _ \<Rightarrow> NumalgoKind_try_from c)"

datatype AnyPeerDid = Any_Numalgo2 Did | Any_Numalgo3 Did | Any_Numalgo4 Did

definition AnyPeerDid_parse :: "nom \<Rightarrow> string \<Rightarrow> (DidPeerError, AnyPeerDid) result" where
  "AnyPeerDid_parse N did =
     and_then (map_err Dp_DidParserError (parse_did N did)) (\<lambda>did.
     and_then (parse_numalgo did) (\<lambda>numalgo.
     case numalgo of
       MultipleInceptionKeys \<Rightarrow> Ok (Any_Numalgo2 did)
     | DidShortening \<Rightarrow> Ok (Any_Numalgo3 did)
     | DidPeer4 \<Rightarrow> Ok (Any_Numalgo4 did)
     | _ \<Rightarrow> Panic))"

fun any_numalgo :: "AnyPeerDid \<Rightarrow> NumalgoKind" where
  "any_numalgo (Any_Numalgo2 _) = MultipleInceptionKeys"
| "any_numalgo (Any_Numalgo3 _) = DidShortening"
| "any_numalgo (Any_Numalgo4 _) = DidPeer4"

section \<open>The document inside the DID\<close>

record DidPeer4VerificationMethod =
  v4_id :: DidUrl
  v4_type :: VerificationMethodType
  v4_public_key :: PublicKeyField

datatype DidPeer4VerificationMethodKind = P4_Resolved DidPeer4VerificationMethod | P4_Resolvable DidUrl

record DidPeer4ConstructionDidDocument =
  c4_also_known_as :: "Uri list"
  c4_verification_method :: "DidPeer4VerificationMethod list"
  c4_authentication :: "DidPeer4VerificationMethodKind list"
  c4_assertion_method :: "DidPeer4VerificationMethodKind list"
  c4_key_agreement :: "DidPeer4VerificationMethodKind list"
  c4_capability_invocation :: "DidPeer4VerificationMethodKind list"
  c4_capability_delegation :: "DidPeer4VerificationMethodKind list"
  c4_service :: "Service list"
  c4_extra :: "string \<rightharpoonup> json"

definition c4_new :: DidPeer4ConstructionDidDocument where
  "c4_new = \<lparr>c4_also_known_as = [], c4_verification_method = [], c4_authentication = [],
     c4_assertion_method = [], c4_key_agreement = [], c4_capability_invocation = [],
     c4_capability_delegation = [], c4_service = [], c4_extra = Map.empty\<rparr>"

definition c4_set_also_known_as :: "Uri list \<Rightarrow> DidPeer4ConstructionDidDocument \<Rightarrow> DidPeer4ConstructionDidDocument" where
  "c4_set_also_known_as uris d = d\<lparr>c4_also_known_as := uris\<rparr>"

definition c4_add_also_known_as :: "Uri \<Rightarrow> DidPeer4ConstructionDidDocument \<Rightarrow> DidPeer4ConstructionDidDocument" where
  "c4_add_also_known_as uri d = d\<lparr>c4_also_known_as := c4_also_known_as d @ [uri]\<rparr>"

definition c4_add_verification_method ::
  "DidPeer4VerificationMethod \<Rightarrow> DidPeer4ConstructionDidDocument \<Rightarrow> DidPeer4ConstructionDidDocument" where
  "c4_add_verification_method method d = d\<lparr>c4_verification_method := c4_verification_method d @ [method]\<rparr>"

definition c4_add_authentication :: "DidPeer4VerificationMethod \<Rightarrow> DidPeer4ConstructionDidDocument \<Rightarrow> DidPeer4ConstructionDidDocument" where
  "c4_add_authentication method d = d\<lparr>c4_authentication := c4_authentication d @ [P4_Resolved method]\<rparr>"

definition c4_add_authentication_ref :: "DidUrl \<Rightarrow> DidPeer4ConstructionDidDocument \<Rightarrow> DidPeer4ConstructionDidDocument" where
  "c4_add_authentication_ref reference d = d\<lparr>c4_authentication := c4_authentication d @ [P4_Resolvable reference]\<rparr>"

definition c4_add_assertion_method :: "DidPeer4VerificationMethod \<Rightarrow> DidPeer4ConstructionDidDocument \<Rightarrow> DidPeer4ConstructionDidDocument" where
  "c4_add_assertion_method method d = d\<lparr>c4_assertion_method := c4_assertion_method d @ [P4_Resolved method]\<rparr>"

definition c4_add_assertion_method_ref :: "DidUrl \<Rightarrow> DidPeer4ConstructionDidDocument \<Rightarrow> DidPeer4ConstructionDidDocument" where
  "c4_add_assertion_method_ref reference d = d\<lparr>c4_assertion_method := c4_assertion_method d @ [P4_Resolvable reference]\<rparr>"

definition c4_add_key_agreement :: "DidPeer4VerificationMethod \<Rightarrow> DidPeer4ConstructionDidDocument \<Rightarrow> DidPeer4ConstructionDidDocument" where
  "c4_add_key_agreement method d = d\<lparr>c4_key_agreement := c4_key_agreement d @ [P4_Resolved method]\<rparr>"

definition c4_add_key_agreement_ref :: "DidUrl \<Rightarrow> DidPeer4ConstructionDidDocument \<Rightarrow> DidPeer4ConstructionDidDocument" where
  "c4_add_key_agreement_ref reference d = d\<lparr>c4_key_agreement := c4_key_agreement d @ [P4_Resolvable reference]\<rparr>"

definition c4_add_capability_invocation :: "DidPeer4VerificationMethod \<Rightarrow> DidPeer4ConstructionDidDocument \<Rightarrow> DidPeer4ConstructionDidDocument" where
  "c4_add_capability_invocation method d = d\<lparr>c4_capability_invocation := c4_capability_invocation d @ [P4_Resolved method]\<rparr>"

definition c4_add_capability_invocation_ref :: "DidUrl \<Rightarrow> DidPeer4ConstructionDidDocument \<Rightarrow> DidPeer4ConstructionDidDocument" where
  "c4_add_capability_invocation_ref reference d = d\<lparr>c4_capability_invocation := c4_capability_invocation d @ [P4_Resolvable reference]\<rparr>"

definition c4_add_capability_delegation :: "DidPeer4VerificationMethod \<Rightarrow> DidPeer4ConstructionDidDocument \<Rightarrow> DidPeer4ConstructionDidDocument" where
  "c4_add_capability_delegation method d = d\<lparr>c4_capability_delegation := c4_capability_delegation d @ [P4_Resolved method]\<rparr>"

definition c4_add_capability_delegation_ref :: "DidUrl \<Rightarrow> DidPeer4ConstructionDidDocument \<Rightarrow> DidPeer4ConstructionDidDocument" where
  "c4_add_capability_delegation_ref reference d = d\<lparr>c4_capability_delegation := c4_capability_delegation d @ [P4_Resolvable reference]\<rparr>"

definition c4_set_service :: "Service list \<Rightarrow> DidPeer4ConstructionDidDocument \<Rightarrow> DidPeer4ConstructionDidDocument" where
  "c4_set_service services d = d\<lparr>c4_service := services\<rparr>"

definition c4_add_service :: "Service \<Rightarrow> DidPeer4ConstructionDidDocument \<Rightarrow> DidPeer4ConstructionDidDocument" where
  "c4_add_service service d = d\<lparr>c4_service := c4_service d @ [service]\<rparr>"

definition c4_set_extra_field ::
  "string \<Rightarrow> json \<Rightarrow> DidPeer4ConstructionDidDocument \<Rightarrow> DidPeer4ConstructionDidDocument" where
  "c4_set_extra_field key value d = d\<lparr>c4_extra := (c4_extra d)(key \<mapsto> value)\<rparr>"

definition c4_remove_extra_field :: "string \<Rightarrow> DidPeer4ConstructionDidDocument \<Rightarrow> DidPeer4ConstructionDidDocument" where
  "c4_remove_extra_field key d = d\<lparr>c4_extra := (c4_extra d)(key := None)\<rparr>"

section \<open>Numalgo 4\<close>

text \<open>\<open>PeerDid<Numalgo4>\<close> is a DID; the marker \<open>Numalgo4\<close> carries nothing.\<close>

record PeerDid4 =
  pd4_did :: Did

record peer_ext =
  pe_ser_doc :: "DidPeer4ConstructionDidDocument \<Rightarrow> (string, string) result"
  pe_de_doc :: "string \<Rightarrow> (string, DidPeer4ConstructionDidDocument) result"
  pe_sha256 :: "string \<Rightarrow> string"

definition MULTIHASH_SHA2_256 :: string where
  "MULTIHASH_SHA2_256 = [CHR 0x12, CHR 0x20]"

definition MULTICODEC_JSON_VARINT :: string where
  "MULTICODEC_JSON_VARINT = [CHR 0x80, CHR 0x04]"

definition PeerDid4_new ::
  "nom \<Rightarrow> key_ext \<Rightarrow> peer_ext \<Rightarrow> DidPeer4ConstructionDidDocument \<Rightarrow> (DidPeerError, PeerDid4) result" where
  "PeerDid4_new N K P document =
     and_then (map_err Dp_JsonError (pe_ser_doc P document)) (\<lambda>serialized.
     let encoded_document = kx_mb_encode K (MULTICODEC_JSON_VARINT @ serialized);
         hash = kx_mb_encode K (MULTIHASH_SHA2_256 @ pe_sha256 P encoded_document)
     in and_then (map_err Dp_DidParserError (parse_did N (''did:peer:4'' @ hash @ '':'' @ encoded_document)))
          (\<lambda>did. Ok \<lparr>pd4_did = did\<rparr>))"

definition encoded_did_peer_4_document :: "PeerDid4 \<Rightarrow> string option" where
  "encoded_did_peer_4_document p =
     (case split_char CHR '':'' (did_id (pd4_did p)) of _ # d # _ \<Rightarrow> Some d | _ \<Rightarrow> None)"

definition long_form :: "PeerDid4 \<Rightarrow> (DidPeerError, Did) result" where
  "long_form p =
     and_then (ok_or (encoded_did_peer_4_document p)
       (Dp_GeneralError (''Long form is not available for peer did: '' @ did_text (pd4_did p))))
       (\<lambda>_. Ok (pd4_did p))"

text \<open>The parser of the short form is expected to succeed; if it does not, the code panics.\<close>

definition short_form :: "nom \<Rightarrow> PeerDid4 \<Rightarrow> ('e, Did) result" where
  "short_form N p =
     (case split_char CHR '':'' (did_id (pd4_did p)) of
        [] \<Rightarrow> Ok (pd4_did p)
      | short_form_id # _ \<Rightarrow> (case parse_did N (''did:peer:'' @ short_form_id) of Ok d \<Rightarrow> Ok d | _ \<Rightarrow> Panic))"

definition peer4_hash :: "nom \<Rightarrow> PeerDid4 \<Rightarrow> (DidPeerError, string) result" where
  "peer4_hash N p =
     and_then (short_form N p) (\<lambda>short_form_did.
     case did_id short_form_did of [] \<Rightarrow> Panic | _ # hash \<Rightarrow> Ok hash)"

definition to_did_peer_4_encoded_diddoc ::
  "key_ext \<Rightarrow> peer_ext \<Rightarrow> PeerDid4 \<Rightarrow> (DidPeerError, DidPeer4ConstructionDidDocument) result" where
  "to_did_peer_4_encoded_diddoc K P p =
     and_then (ok_or (encoded_did_peer_4_document p) (Dp_GeneralError
       (''to_did_peer_4_encoded_diddoc >> Long form is not available for peer did: '' @ did_text (pd4_did p))))
       (\<lambda>encoded_did_doc.
     and_then (map_err (\<lambda>e. Dp_GeneralError (''Failed to decode multibase prefix from encoded did doc: '' @ e))
       (kx_mb_decode K encoded_did_doc)) (\<lambda>diddoc_with_multibase_prefix.
     if length diddoc_with_multibase_prefix < 2 then Panic
     else map_err (\<lambda>e. Dp_GeneralError (''Failed to decode the encoded did doc: '' @ e))
       (pe_de_doc P (drop 2 diddoc_with_multibase_prefix))))"

text \<open>Contextualisation: relative entries get the short form of the DID as their controller.\<close>

definition vm_contextualize :: "nom \<Rightarrow> PeerDid4 \<Rightarrow> DidPeer4VerificationMethod \<Rightarrow> ('e, VerificationMethod) result" where
  "vm_contextualize N p vm =
     and_then (short_form N p) (\<lambda>controller.
     Ok \<lparr>vm_id = v4_id vm, vm_controller = controller, vm_type = v4_type vm, vm_public_key = v4_public_key vm\<rparr>)"

definition kind_contextualize ::
  "nom \<Rightarrow> PeerDid4 \<Rightarrow> DidPeer4VerificationMethodKind \<Rightarrow> ('e, VerificationMethodKind) result" where
  "kind_contextualize N p k =
     (case k of
        P4_Resolved vm \<Rightarrow> map_ok Vm_Resolved (vm_contextualize N p vm)
      | P4_Resolvable did_url \<Rightarrow> Ok (Vm_Resolvable did_url))"

definition contextualize_to_did_doc ::
  "nom \<Rightarrow> 'k doc_ext \<Rightarrow> PeerDid4 \<Rightarrow> DidPeer4ConstructionDidDocument \<Rightarrow> ('e, DidDocument) result" where
  "contextualize_to_did_doc N C p d =
     (let did_doc = doc_set_service (c4_service d) (DidDocument_new (pd4_did p)) in
     and_then (try_fold (\<lambda>doc vm. map_ok (\<lambda>vm. doc_add_verification_method vm doc) (vm_contextualize N p vm))
       did_doc (c4_verification_method d)) (\<lambda>did_doc.
     and_then (try_fold (\<lambda>doc vm. map_ok (\<lambda>vm. doc_add_key_agreement vm doc) (kind_contextualize N p vm))
       did_doc (c4_key_agreement d)) (\<lambda>did_doc.
     and_then (try_fold (\<lambda>doc vm. map_ok (\<lambda>vm. doc_add_authentication vm doc) (kind_contextualize N p vm))
       did_doc (c4_authentication d)) (\<lambda>did_doc.
     and_then (try_fold (\<lambda>doc vm. map_ok (\<lambda>vm. doc_add_assertion_method vm doc) (kind_contextualize N p vm))
       did_doc (c4_assertion_method d)) (\<lambda>did_doc.
     and_then (try_fold (\<lambda>doc vm. map_ok (\<lambda>vm. doc_add_capability_delegation vm doc) (kind_contextualize N p vm))
       did_doc (c4_capability_delegation d)) (\<lambda>did_doc.
     and_then (try_fold (\<lambda>doc vm. map_ok (\<lambda>vm. doc_add_capability_invocation vm doc) (kind_contextualize N p vm))
       did_doc (c4_capability_invocation d)) (\<lambda>did_doc.
     and_then (short_form N p) (\<lambda>did_short_form.
     case Uri_new C (did_text did_short_form) of
       Ok did_as_uri \<Rightarrow> Ok (doc_add_also_known_as did_as_uri did_doc)
     | _ \<Rightarrow> Panic))))))))"

definition resolve_did_doc ::
  "nom \<Rightarrow> key_ext \<Rightarrow> peer_ext \<Rightarrow> 'k doc_ext \<Rightarrow> PeerDid4 \<Rightarrow> (DidPeerError, DidDocument) result" where
  "resolve_did_doc N K P C p =
     and_then (to_did_peer_4_encoded_diddoc K P p) (\<lambda>encoded. contextualize_to_did_doc N C p encoded)"

section \<open>A peer DID resolves to the document it was made of\<close>

text \<open>The parts of the grammar of \<open>did:peer:4\<close> that matter here, and multibase texts inside it.\<close>

definition alphanumeric :: "char \<Rightarrow> bool" where
  "alphanumeric c \<longleftrightarrow> in_range 48 57 c \<or> in_range 65 90 c \<or> in_range 97 122 c"

definition plain :: "string \<Rightarrow> bool" where
  "plain s \<longleftrightarrow> s \<noteq> [] \<and> (\<forall>c \<in> set s. alphanumeric c)"

definition reads_peer4 :: "nom \<Rightarrow> bool" where
  "reads_peer4 N \<longleftrightarrow> (\<forall>i rest. plain i \<and> (rest = [] \<or> (\<exists>d. rest = CHR '':'' # d \<and> plain d)) \<longrightarrow>
     nm_did_ranges N (''did:peer:4'' @ i @ rest) =
       Ok (to_did_ranges (''did'', ''peer'', None, CHR ''4'' # i @ rest)))"

definition plain_multibase :: "key_ext \<Rightarrow> bool" where
  "plain_multibase K \<longleftrightarrow> (\<forall>b. plain (kx_mb_encode K b))"

lemma plain_no_colon: "plain s \<Longrightarrow> CHR '':'' \<notin> set s"
  by (auto simp: plain_def alphanumeric_def in_range_def)

lemma parse_peer4:
  assumes "reads_peer4 N" and "plain i" and "rest = [] \<or> (\<exists>d. rest = CHR '':'' # d \<and> plain d)"
  shows "\<exists>d. parse_did N (''did:peer:4'' @ i @ rest) = Ok d \<and> did_text d = ''did:peer:4'' @ i @ rest \<and>
    did_id d = CHR ''4'' # i @ rest \<and> did_method d = Some ''peer''"
proof -
  from assms have "nm_did_ranges N (''did:peer:4'' @ i @ rest) =
      Ok (to_did_ranges (''did'', ''peer'', None, CHR ''4'' # i @ rest))"
    unfolding reads_peer4_def by blast
  then show ?thesis
    by (auto simp: parse_did_def to_did_ranges_def did_id_def did_method_def slice_def Let_def)
qed

lemma peer4_parts:
  assumes "reads_peer4 N" "plain_multibase K" and "PeerDid4_new N K P doc = Ok p"
  obtains t hash where "pe_ser_doc P doc = Ok t"
    "did_text (pd4_did p) = ''did:peer:4'' @ hash @ '':'' @ kx_mb_encode K (MULTICODEC_JSON_VARINT @ t)"
    "split_char CHR '':'' (did_id (pd4_did p)) = [CHR ''4'' # hash, kx_mb_encode K (MULTICODEC_JSON_VARINT @ t)]"
    "hash = kx_mb_encode K (MULTIHASH_SHA2_256 @ pe_sha256 P (kx_mb_encode K (MULTICODEC_JSON_VARINT @ t)))"
proof -
  from assms(3) obtain t where t: "pe_ser_doc P doc = Ok t" by (auto simp: PeerDid4_new_def)
  let ?d = "kx_mb_encode K (MULTICODEC_JSON_VARINT @ t)"
  let ?h = "kx_mb_encode K (MULTIHASH_SHA2_256 @ pe_sha256 P ?d)"
  have pl: "plain (kx_mb_encode K b)" for b using assms(2) by (simp add: plain_multibase_def)
  from parse_peer4 [OF assms(1) pl [of "MULTIHASH_SHA2_256 @ pe_sha256 P ?d"], of "'':'' @ ?d"] pl
  obtain d where d: "parse_did N (''did:peer:4'' @ ?h @ '':'' @ ?d) = Ok d"
    "did_text d = ''did:peer:4'' @ ?h @ '':'' @ ?d" "did_id d = CHR ''4'' # ?h @ '':'' @ ?d" by auto
  with assms(3) t have p: "pd4_did p = d" by (auto simp: PeerDid4_new_def Let_def)
  have "split_char CHR '':'' (did_id d) = [CHR ''4'' # ?h, ?d]"
    using plain_no_colon [OF pl [of "MULTIHASH_SHA2_256 @ pe_sha256 P ?d"]]
      plain_no_colon [OF pl [of "MULTICODEC_JSON_VARINT @ t"]] split_char_append [of "CHR '':''" "CHR ''4'' # ?h" ?d] split_char_none [of "CHR '':''" ?d]
    by (simp add: d(3))
  with t d(2) p show ?thesis by (intro that [of t ?h]) simp_all
qed

text \<open>Contextualisation, as one value.\<close>

definition in_context :: "Did \<Rightarrow> DidPeer4VerificationMethod \<Rightarrow> VerificationMethod" where
  "in_context s vm = \<lparr>vm_id = v4_id vm, vm_controller = s, vm_type = v4_type vm, vm_public_key = v4_public_key vm\<rparr>"

definition kind_in_context :: "Did \<Rightarrow> DidPeer4VerificationMethodKind \<Rightarrow> VerificationMethodKind" where
  "kind_in_context s k = (case k of P4_Resolved vm \<Rightarrow> Vm_Resolved (in_context s vm) | P4_Resolvable u \<Rightarrow> Vm_Resolvable u)"

lemma try_fold_push:
  assumes "\<And>x. f x = Ok (g x)" and "\<And>y ys. add y (upd ys) = upd (ys @ [y])"
  shows "try_fold (\<lambda>d x. map_ok (\<lambda>y. add y d) (f x)) (upd ys) xs = Ok (upd (ys @ map g xs))"
proof (induction xs arbitrary: ys)
  case (Cons x xs)
  then show ?case using Cons [of "ys @ [g x]"] by (simp add: assms)
qed simp

lemma contextualize_eq:
  assumes s: "short_form N p = (Ok s :: ('e, Did) result)" and u: "Uri_new C (did_text s) = Ok u"
  shows "contextualize_to_did_doc N C p d = (Ok (\<lparr>doc_id = pd4_did p, doc_also_known_as = [u],
    doc_controller = None, doc_verification_method = map (in_context s) (c4_verification_method d),
    doc_authentication = map (kind_in_context s) (c4_authentication d),
    doc_assertion_method = map (kind_in_context s) (c4_assertion_method d),
    doc_key_agreement = map (kind_in_context s) (c4_key_agreement d),
    doc_capability_invocation = map (kind_in_context s) (c4_capability_invocation d),
    doc_capability_delegation = map (kind_in_context s) (c4_capability_delegation d),
    doc_service = c4_service d, doc_extra = Map.empty\<rparr>) :: ('e, DidDocument) result)"
proof -
  have vm: "vm_contextualize N p x = (Ok (in_context s x) :: ('e, VerificationMethod) result)" for x
    by (simp add: vm_contextualize_def s in_context_def)
  then have kind: "kind_contextualize N p x = (Ok (kind_in_context s x) :: ('e, VerificationMethodKind) result)" for x
    by (simp add: kind_contextualize_def kind_in_context_def split: DidPeer4VerificationMethodKind.split)
  note push = try_fold_push [where f = "vm_contextualize N p", OF vm]
    try_fold_push [where f = "kind_contextualize N p", OF kind]
  have vms: "try_fold (\<lambda>doc x. map_ok (\<lambda>vm. doc_add_verification_method vm doc) (vm_contextualize N p x)) D xs =
      (Ok (D\<lparr>doc_verification_method := doc_verification_method D @ map (in_context s) xs\<rparr>) :: ('e, DidDocument) result)" for D xs
    using push(1) [of doc_add_verification_method "\<lambda>ys. D\<lparr>doc_verification_method := doc_verification_method D @ ys\<rparr>" "[]" xs]
    by (simp add: doc_add_verification_method_def)
  have ka: "try_fold (\<lambda>doc x. map_ok (\<lambda>vm. doc_add_key_agreement vm doc) (kind_contextualize N p x)) D xs =
      (Ok (D\<lparr>doc_key_agreement := doc_key_agreement D @ map (kind_in_context s) xs\<rparr>) :: ('e, DidDocument) result)" for D xs
    using push(2) [of doc_add_key_agreement "\<lambda>ys. D\<lparr>doc_key_agreement := doc_key_agreement D @ ys\<rparr>" "[]" xs]
    by (simp add: doc_add_key_agreement_def)
  have au: "try_fold (\<lambda>doc x. map_ok (\<lambda>vm. doc_add_authentication vm doc) (kind_contextualize N p x)) D xs =
      (Ok (D\<lparr>doc_authentication := doc_authentication D @ map (kind_in_context s) xs\<rparr>) :: ('e, DidDocument) result)" for D xs
    using push(2) [of doc_add_authentication "\<lambda>ys. D\<lparr>doc_authentication := doc_authentication D @ ys\<rparr>" "[]" xs]
    by (simp add: doc_add_authentication_def)
  have am: "try_fold (\<lambda>doc x. map_ok (\<lambda>vm. doc_add_assertion_method vm doc) (kind_contextualize N p x)) D xs =
      (Ok (D\<lparr>doc_assertion_method := doc_assertion_method D @ map (kind_in_context s) xs\<rparr>) :: ('e, DidDocument) result)" for D xs
    using push(2) [of doc_add_assertion_method "\<lambda>ys. D\<lparr>doc_assertion_method := doc_assertion_method D @ ys\<rparr>" "[]" xs]
    by (simp add: doc_add_assertion_method_def)
  have ci: "try_fold (\<lambda>doc x. map_ok (\<lambda>vm. doc_add_capability_invocation vm doc) (kind_contextualize N p x)) D xs =
      (Ok (D\<lparr>doc_capability_invocation := doc_capability_invocation D @ map (kind_in_context s) xs\<rparr>) :: ('e, DidDocument) result)" for D xs
    using push(2) [of doc_add_capability_invocation
        "\<lambda>ys. D\<lparr>doc_capability_invocation := doc_capability_invocation D @ ys\<rparr>" "[]" xs]
    by (simp add: doc_add_capability_invocation_def)
  have cd: "try_fold (\<lambda>doc x. map_ok (\<lambda>vm. doc_add_capability_delegation vm doc) (kind_contextualize N p x)) D xs =
      (Ok (D\<lparr>doc_capability_delegation := doc_capability_delegation D @ map (kind_in_context s) xs\<rparr>) :: ('e, DidDocument) result)" for D xs
    using push(2) [of doc_add_capability_delegation
        "\<lambda>ys. D\<lparr>doc_capability_delegation := doc_capability_delegation D @ ys\<rparr>" "[]" xs]
    by (simp add: doc_add_capability_delegation_def)
  show ?thesis
    by (simp add: contextualize_to_did_doc_def vms ka au am ci cd s u doc_set_service_def DidDocument_new_def
        doc_add_also_known_as_def Let_def)
qed

text \<open>The short form of a created DID, and what the short form alone gives.\<close>

lemma created_short_form:
  assumes "reads_peer4 N" "plain_multibase K" and "PeerDid4_new N K P doc = Ok p"
  obtains s where "short_form N p = (Ok s :: ('e, Did) result)"
    "short_form N \<lparr>pd4_did = s\<rparr> = (Ok s :: ('e, Did) result)"
    "\<exists>d. did_text (pd4_did p) = did_text s @ CHR '':'' # d" "encoded_did_peer_4_document \<lparr>pd4_did = s\<rparr> = None"
    "\<exists>i. plain i \<and> did_text s = ''did:peer:4'' @ i"
proof -
  from peer4_parts [OF assms] obtain t hash where
    txt0: "did_text (pd4_did p) = ''did:peer:4'' @ hash @ '':'' @ kx_mb_encode K (MULTICODEC_JSON_VARINT @ t)" and
    split: "split_char CHR '':'' (did_id (pd4_did p)) = [CHR ''4'' # hash, kx_mb_encode K (MULTICODEC_JSON_VARINT @ t)]" and
    hash: "hash = kx_mb_encode K (MULTIHASH_SHA2_256 @ pe_sha256 P (kx_mb_encode K (MULTICODEC_JSON_VARINT @ t)))"
    by metis
  from hash assms(2) have pl: "plain hash" by (simp add: plain_multibase_def)
  from parse_peer4 [OF assms(1) this, of "[]"] obtain s where
    s: "parse_did N (''did:peer:4'' @ hash) = Ok s" "did_text s = ''did:peer:4'' @ hash" "did_id s = CHR ''4'' # hash"
    by auto
  have one: "split_char CHR '':'' (did_id s) = [CHR ''4'' # hash]"
    using split_char_none [of "CHR '':''" "did_id s"] plain_no_colon [OF pl] by (simp add: s(3))
  show ?thesis
    using s split txt0 one pl by (intro that [of s]) (auto simp: short_form_def encoded_did_peer_4_document_def)
qed

lemma created_decodes:
  assumes "reads_peer4 N" "plain_multibase K" "multibase_inverse K" and "PeerDid4_new N K P doc = Ok p"
    and "\<And>t. pe_ser_doc P doc = Ok t \<Longrightarrow> pe_de_doc P t = Ok doc"
  shows "to_did_peer_4_encoded_diddoc K P p = Ok doc"
proof -
  from peer4_parts [OF assms(1,2,4)] obtain t hash where t: "pe_ser_doc P doc = Ok t" and
    split: "split_char CHR '':'' (did_id (pd4_did p)) = [CHR ''4'' # hash, kx_mb_encode K (MULTICODEC_JSON_VARINT @ t)]"
    by metis
  with assms(3) assms(5) [OF t] show ?thesis
    by (simp add: to_did_peer_4_encoded_diddoc_def encoded_did_peer_4_document_def multibase_inverse_def
        MULTICODEC_JSON_VARINT_def)
qed

text \<open>The short forms of peer DIDs are URIs, kept as they are written.\<close>

definition reads_peer_uri :: "'k doc_ext \<Rightarrow> bool" where
  "reads_peer_uri C \<longleftrightarrow> (\<forall>i. plain i \<longrightarrow> dc_uri C (''did:peer:4'' @ i) = Ok (''did:peer:4'' @ i))"

text \<open>
  C31. A peer DID resolves to the document it was made of, when that document survives its JSON form: reading
  back what is encoded in the DID gives the construction document, put in the context of the DID (its id is
  the long form, the controller of every embedded key is the short form, which is also listed as a name).
  The short form is a prefix of the long form, is its own short form, and does not resolve. Names and extra
  members of the construction document are lost.
\<close>

theorem peer_did_resolves:
  assumes laws: "reads_peer4 N" "plain_multibase K" "multibase_inverse K"
    and "PeerDid4_new N K P doc = Ok p" and "\<And>t. pe_ser_doc P doc = Ok t \<Longrightarrow> pe_de_doc P t = Ok doc"
    and uri: "reads_peer_uri C"
  shows "\<exists>s. short_form N p = (Ok s :: (DidPeerError, Did) result) \<and>
    (\<exists>d. did_text (pd4_did p) = did_text s @ CHR '':'' # d) \<and>
    long_form p = Ok (pd4_did p) \<and> short_form N \<lparr>pd4_did = s\<rparr> = (Ok s :: (DidPeerError, Did) result) \<and>
    (\<exists>e. resolve_did_doc N K P C \<lparr>pd4_did = s\<rparr> = Err (Dp_GeneralError e)) \<and>
    resolve_did_doc N K P C p = Ok \<lparr>doc_id = pd4_did p, doc_also_known_as = [Uri (did_text s)],
      doc_controller = None, doc_verification_method = map (in_context s) (c4_verification_method doc),
      doc_authentication = map (kind_in_context s) (c4_authentication doc),
      doc_assertion_method = map (kind_in_context s) (c4_assertion_method doc),
      doc_key_agreement = map (kind_in_context s) (c4_key_agreement doc),
      doc_capability_invocation = map (kind_in_context s) (c4_capability_invocation doc),
      doc_capability_delegation = map (kind_in_context s) (c4_capability_delegation doc),
      doc_service = c4_service doc, doc_extra = Map.empty\<rparr>"
proof -
  from peer4_parts [OF laws(1,2) assms(4)] obtain t hash where t: "pe_ser_doc P doc = Ok t" and
    split: "split_char CHR '':'' (did_id (pd4_did p)) = [CHR ''4'' # hash, kx_mb_encode K (MULTICODEC_JSON_VARINT @ t)]"
    by metis
  obtain s where s: "short_form N p = (Ok s :: (DidPeerError, Did) result)"
    "short_form N \<lparr>pd4_did = s\<rparr> = (Ok s :: (DidPeerError, Did) result)"
    "\<exists>d. did_text (pd4_did p) = did_text s @ CHR '':'' # d" "encoded_did_peer_4_document \<lparr>pd4_did = s\<rparr> = None"
    "\<exists>i. plain i \<and> did_text s = ''did:peer:4'' @ i"
    by (rule created_short_form [OF laws(1,2) assms(4)]) (rule that)
  from laws assms(4,5) have decoded: "to_did_peer_4_encoded_diddoc K P p = Ok doc" by (rule created_decodes)
  have long: "long_form p = Ok (pd4_did p)"
    using split by (simp add: long_form_def encoded_did_peer_4_document_def)
  have short: "\<exists>e. resolve_did_doc N K P C \<lparr>pd4_did = s\<rparr> = Err (Dp_GeneralError e)"
    using s(4) by (simp add: resolve_did_doc_def to_did_peer_4_encoded_diddoc_def)
  have "Uri_new C (did_text s) = Ok (Uri (did_text s))" using s(5) uri by (auto simp: Uri_new_def reads_peer_uri_def)
  from contextualize_eq [OF s(1) this, of doc] s long short show ?thesis
    by (intro exI [of _ s] conjI) (simp_all add: resolve_did_doc_def decoded)
qed

section \<open>The registry of resolvers\<close>

datatype DidResolverRegistryError = Rr_UnsupportedMethod | Rr_UnqualifiedDid

fun show_registry_error :: "DidResolverRegistryError \<Rightarrow> string" where
  "show_registry_error Rr_UnsupportedMethod = ''Unsupported DID method''"
| "show_registry_error Rr_UnqualifiedDid = ''Attempted to resolve unqualified DID''"

text \<open>
  \<open>DidResolutionOutput\<close>: the document and its metadata, which no caller here reads. A boxed error is its
  text. A registered resolver is the adaptor around it, a function of the DID and the options.
\<close>

record 'm DidResolutionOutput =
  ro_did_document :: DidDocument
  ro_metadata :: 'm

type_synonym 'm resolver = "Did \<Rightarrow> (string, json) hash_map \<Rightarrow> (string, 'm DidResolutionOutput) result"
type_synonym 'm ResolverRegistry = "string \<rightharpoonup> 'm resolver"

text \<open>The adaptor reads the options as JSON and passes the document through its JSON form.\<close>

definition adaptor_resolve ::
  "(json \<Rightarrow> (string, 'o) result) \<Rightarrow> 'o \<Rightarrow> (DidDocument \<Rightarrow> json) \<Rightarrow> (json \<Rightarrow> (string, DidDocument) result) \<Rightarrow>
   (Did \<Rightarrow> 'o \<Rightarrow> (string, 'm DidResolutionOutput) result) \<Rightarrow> 'm resolver" where
  "adaptor_resolve de_options default_options ser_doc de_doc inner did options =
     and_then (if options = [] then Ok default_options
       else de_options (JObject (foldr (\<lambda>(k, v). btree_insert k v) options []))) (\<lambda>options.
     and_then (inner did options) (\<lambda>result_inner.
     case as_object (ser_doc (ro_did_document result_inner)) of
       None \<Rightarrow> Panic
     | Some did_document \<Rightarrow>
         and_then (de_doc (JObject did_document)) (\<lambda>did_document.
         Ok \<lparr>ro_did_document = did_document, ro_metadata = ro_metadata result_inner\<rparr>)))"

definition register_resolver :: "string \<Rightarrow> 'm resolver \<Rightarrow> 'm ResolverRegistry \<Rightarrow> 'm ResolverRegistry" where
  "register_resolver method resolver g = g(method \<mapsto> resolver)"

definition unregister_resolver :: "string \<Rightarrow> 'm ResolverRegistry \<Rightarrow> 'm ResolverRegistry" where
  "unregister_resolver method g = g(method := None)"

definition registry_resolve ::
  "'m ResolverRegistry \<Rightarrow> Did \<Rightarrow> (string, json) hash_map \<Rightarrow> (string, 'm DidResolutionOutput) result" where
  "registry_resolve g did options =
     and_then (ok_or (did_method did) (show_registry_error Rr_UnsupportedMethod)) (\<lambda>method.
     case g method of
       Some resolver \<Rightarrow> resolver did options
     | None \<Rightarrow> Err (show_registry_error Rr_UnsupportedMethod))"

text \<open>
  The registry asks the resolver registered last for the method of the DID, and none after it was
  unregistered; a DID without a method is refused.
\<close>

lemma registry_dispatch:
  "did_method did = Some m \<Longrightarrow> registry_resolve (register_resolver m r g) did opts = r did opts"
  "did_method did = Some m \<Longrightarrow> m \<noteq> m' \<Longrightarrow>
     registry_resolve (register_resolver m' r g) did opts = registry_resolve g did opts"
  "did_method did = Some m \<Longrightarrow> registry_resolve (unregister_resolver m g) did opts = Err ''Unsupported DID method''"
  "did_method did = None \<Longrightarrow> registry_resolve g did opts = Err ''Unsupported DID method''"
  by (simp_all add: registry_resolve_def register_resolver_def unregister_resolver_def)

text \<open>An adaptor gives what the resolver gives when documents survive their JSON form.\<close>

lemma adaptor_transparent:
  assumes "inner did default_options = Ok out" and "as_object (ser_doc (ro_did_document out)) = Some m"
    and "de_doc (JObject m) = Ok (ro_did_document out)"
  shows "adaptor_resolve de_options default_options ser_doc de_doc inner did [] = Ok out"
  using assms by (simp add: adaptor_resolve_def)

section \<open>A concrete instance\<close>

text \<open>A multibase of two letters per byte, and a reader of the prefix \<open>did:peer:\<close>.\<close>

fun letters :: "string \<Rightarrow> string" where
  "letters [] = []"
| "letters (c # s) = char_of (97 + of_char c div 16 :: nat) # char_of (97 + of_char c mod 16 :: nat) # letters s"

fun unletters :: "string \<Rightarrow> (string, string) result" where
  "unletters (a # b # s) = map_ok (\<lambda>t. char_of ((of_char a - 97) * 16 + (of_char b - 97) :: nat) # t) (unletters s)"
| "unletters s = Ok []"

lemma unletters_letters: "unletters (letters s) = Ok s"
proof (induction s)
  case (Cons c s)
  have "of_char c < (256 :: nat)" by simp
  then have "97 + of_char c div 16 < (256 :: nat)" "97 + of_char c mod 16 < (256 :: nat)" by linarith+
  with Cons show ?case by (simp add: of_char_of)
qed simp

definition peer_kx :: key_ext where
  "peer_kx = sample_kx\<lparr>kx_mb_encode := (\<lambda>s. CHR ''z'' # letters s),
     kx_mb_decode := (\<lambda>s. case s of c # t \<Rightarrow> unletters t | [] \<Rightarrow> Err ''empty'')\<rparr>"

definition peer_nom :: nom where
  "peer_nom = sample_nom\<lparr>nm_did_ranges := (\<lambda>s. Ok (if take 10 s = ''did:peer:4''
     then to_did_ranges (''did'', ''peer'', None, drop 9 s) else to_id_range s))\<rparr>"

definition peer_sample :: peer_ext where
  "peer_sample = \<lparr>pe_ser_doc = (\<lambda>_. Ok ''doc''), pe_de_doc = (\<lambda>_. Ok c4_new), pe_sha256 = (\<lambda>_. ''hash'')\<rparr>"

lemma letters_alphanumeric: "\<forall>c \<in> set (letters s). alphanumeric c"
proof (induction s)
  case (Cons c s)
  have "of_char c < (256 :: nat)" by simp
  then have "of_char c div 16 < (16 :: nat)" "of_char c mod 16 < (16 :: nat)" by linarith+
  with Cons show ?case by (simp add: alphanumeric_def in_range_def of_char_of)
qed simp

lemma peer_sample_laws:
  "reads_peer4 peer_nom" "plain_multibase peer_kx" "multibase_inverse peer_kx"
  using letters_alphanumeric
  by (simp_all add: reads_peer4_def plain_multibase_def multibase_inverse_def plain_def peer_nom_def peer_kx_def
      unletters_letters alphanumeric_def in_range_def)

text \<open>URIs are the texts without a backslash.\<close>

definition sample_uri :: "string \<Rightarrow> (string, string) result" where
  "sample_uri s = (if CHR 0x5C \<in> set s then Err ''invalid character'' else Ok s)"

lemma sample_uri_plain: "plain i \<Longrightarrow> sample_uri (''did:peer:4'' @ i) = Ok (''did:peer:4'' @ i)"
  by (auto simp: sample_uri_def plain_def alphanumeric_def in_range_def)

definition peer_doc_ext :: "unit doc_ext" where
  "peer_doc_ext = \<lparr>dc_b64_decode = Ok, dc_hex_decode = Ok, dc_pem_decode = Ok, dc_ser_jwk = (\<lambda>_. []),
     dc_jwk = \<lparr>jx_from_jwk = (\<lambda>_. Ok ()), jx_algorithm = (\<lambda>_. Alg_Ed25519), jx_to_public_bytes = (\<lambda>_. Ok []),
       jx_from_public_bytes = (\<lambda>_ _. Ok ()), jx_to_jwk_public = (\<lambda>_. Ok []), jx_show_alg = (\<lambda>_. []),
       jx_debug_alg = (\<lambda>_. [])\<rparr>, dc_uri = sample_uri, dc_type_name = (\<lambda>s. s)\<rparr>"

theorem peer_did_resolves_witness:
  "\<exists>p s. PeerDid4_new peer_nom peer_kx peer_sample c4_new = Ok p \<and>
     short_form peer_nom p = (Ok s :: (DidPeerError, Did) result) \<and> did_text s \<noteq> did_text (pd4_did p)"
proof -
  obtain p where p: "PeerDid4_new peer_nom peer_kx peer_sample c4_new = Ok p"
    by (simp add: PeerDid4_new_def peer_nom_def peer_kx_def peer_sample_def parse_did_def to_did_ranges_def)
  have "reads_peer_uri peer_doc_ext" using sample_uri_plain by (simp add: reads_peer_uri_def peer_doc_ext_def)
  from peer_did_resolves [OF peer_sample_laws p _ this] obtain s d where
    "short_form peer_nom p = (Ok s :: (DidPeerError, Did) result)" "did_text (pd4_did p) = did_text s @ CHR '':'' # d"
    by (fastforce simp: peer_sample_def)
  with p show ?thesis by (metis append_self_conv list.distinct(1))
qed

end
