(* ===== verification/Did_Keys.thy ===== *)
theory Did_Keys
  imports Ledger_Transactions Did_Peer
begin

text \<open>
  Keys of DID documents: how a service key or a key agreement entry becomes a key
  (\<open>aries_vcx/src/utils/didcomm_utils.rs\<close>, \<open>protocols/did_exchange/mod.rs\<close>), envelopes for parties known
  by a document (\<open>EncryptionEnvelope::create\<close>), and the peer DID an agent makes for itself
  (\<open>create_peer_did_4\<close> of \<open>did_exchange/state_machine/helpers.rs\<close>). The derived JSON code of documents and
  the texts of messages are the record \<open>ddoc_ext\<close>.
\<close>

section \<open>Errors\<close>

text \<open>The conversions of \<open>errors/mapping_others.rs\<close>\<close>

definition from_doc_builder :: "'a doc_res \<Rightarrow> 'a VcxResult" where
  "from_doc_builder = map_err (from_msg InvalidState \<circ> show_DidDocumentBuilderError)"

fun show_DidDocumentLookupError :: "DidDocumentLookupError \<Rightarrow> string" where
  "show_DidDocumentLookupError (DidDocumentLookupError reason) = ''DiddocLookupError: '' @ reason"

definition from_doc_lookup :: "(DidDocumentLookupError, 'a) result \<Rightarrow> 'a VcxResult" where
  "from_doc_lookup = map_err (from_msg InvalidState \<circ> show_DidDocumentLookupError)"

definition from_did_peer :: "(DidPeerError, 'a) result \<Rightarrow> 'a VcxResult" where
  "from_did_peer = map_err (from_msg InvalidState \<circ> show_DidPeerError)"

definition from_did_key :: "(DidKeyError, 'a) result \<Rightarrow> 'a VcxResult" where
  "from_did_key = map_err (from_msg InvalidState \<circ> show_DidKeyError)"

text \<open>A boxed error and an error of the URI wrapper are their texts.\<close>

definition from_generic :: "(string, 'a) result \<Rightarrow> 'a VcxResult" where
  "from_generic = map_err (from_msg InvalidState)"

definition from_uri :: "(string, 'a) result \<Rightarrow> 'a VcxResult" where
  "from_uri = map_err (from_msg InvalidInput)"

lemmas from_error_defs =
  from_doc_builder_def from_doc_lookup_def from_did_peer_def from_did_key_def from_generic_def from_uri_def

lemma from_error_Ok [simp]:
  "from_doc_builder (Ok a) = Ok a" "from_doc_lookup (Ok b) = Ok b" "from_did_peer (Ok c) = Ok c"
  "from_did_key (Ok d) = Ok d" "from_generic (Ok e) = Ok e" "from_uri (Ok f) = Ok f"
  by (simp_all add: from_error_defs)

lemma from_error_eq_Ok [simp]:
  "from_doc_builder r1 = Ok a \<longleftrightarrow> r1 = Ok a" "from_doc_lookup r2 = Ok b \<longleftrightarrow> r2 = Ok b"
  "from_did_peer r3 = Ok c \<longleftrightarrow> r3 = Ok c" "from_did_key r4 = Ok d \<longleftrightarrow> r4 = Ok d"
  "from_generic r5 = Ok e \<longleftrightarrow> r5 = Ok e" "from_uri r6 = Ok f \<longleftrightarrow> r6 = Ok f"
  by (simp_all add: from_error_defs)

record ddoc_ext =
  dj_show_doc :: "DidDocument \<Rightarrow> string"
  dj_debug_attach :: "Attachment \<Rightarrow> string"
  dj_ser_doc :: "DidDocument \<Rightarrow> string serde"
  dj_de_doc_value :: "json \<Rightarrow> DidDocument serde"
  dj_de_doc :: "string \<Rightarrow> DidDocument serde"

section \<open>Keys of a document\<close>

definition resolve_service_key_to_typed_key ::
  "key_ext \<Rightarrow> 'k doc_ext \<Rightarrow> ServiceKeyKind \<Rightarrow> DidDocument \<Rightarrow> Key VcxResult" where
  "resolve_service_key_to_typed_key K C key did_document =
     (case key of
        SK_DidKey did_key \<Rightarrow> Ok (dk_key did_key)
      | SK_Reference reference \<Rightarrow>
          and_then (ok_or (dereference_key did_document reference)
            (from_msg InvalidState (''Unable to dereference key: '' @ du_text reference))) (\<lambda>verification_method.
          map_err (\<lambda>err. from_msg InvalidState
            (''Unable to get public key from verification method: '' @ show_DidDocumentBuilderError err))
            (vm_key K C verification_method))
      | SK_Value value \<Rightarrow> from_pk (Key_new K value Ed25519))"

definition resolve_ed25519_key_agreement :: "key_ext \<Rightarrow> 'k doc_ext \<Rightarrow> DidDocument \<Rightarrow> Key VcxResult" where
  "resolve_ed25519_key_agreement K C did_document =
     (let vm_types = [Ed25519VerificationKey2018, Ed25519VerificationKey2020, X25519KeyAgreementKey2019,
        X25519KeyAgreementKey2020, Multikey]
      in and_then (from_doc_lookup (get_key_agreement_of_type did_document vm_types)) (\<lambda>vm.
         and_then (from_doc_builder (vm_key K C vm)) (\<lambda>key.
         from_pk (validate_key_type key Ed25519))))"

text \<open>Routing and recipient keys: a list that cannot be read counts as empty; keys of other types are skipped.\<close>

definition ed25519_keys ::
  "key_ext \<Rightarrow> 'k doc_ext \<Rightarrow> DidDocument \<Rightarrow> ServiceKeyKind list doc_res \<Rightarrow> Key list VcxResult" where
  "ed25519_keys K C doc field =
     (case field of
        Ok keys \<Rightarrow> map_ok (filter (\<lambda>pub_key. ky_type pub_key = Ed25519))
          (try_map (\<lambda>key. resolve_service_key_to_typed_key K C key doc) keys)
      | Err _ \<Rightarrow> Ok []
      | Panic \<Rightarrow> Panic)"

definition get_ed25519_routing_keys ::
  "nom \<Rightarrow> key_ext \<Rightarrow> 'k doc_ext \<Rightarrow> DidDocument \<Rightarrow> Uri \<Rightarrow> Key list VcxResult" where
  "get_ed25519_routing_keys N K C their_did_doc service_id =
     and_then (from_doc_lookup (get_service_by_id their_did_doc service_id)) (\<lambda>service.
     ed25519_keys K C their_did_doc (extra_field_routing_keys N K C service))"

definition get_ed25519_recipient_keys ::
  "nom \<Rightarrow> key_ext \<Rightarrow> 'k doc_ext \<Rightarrow> DidDocument \<Rightarrow> Uri \<Rightarrow> Key list VcxResult" where
  "get_ed25519_recipient_keys N K C their_did_doc service_id =
     and_then (from_doc_lookup (get_service_by_id their_did_doc service_id)) (\<lambda>service.
     ed25519_keys K C their_did_doc (extra_field_recipient_keys N K C service))"

text \<open>\<open>EncryptionEnvelope::create\<close>\<close>

definition create_envelope ::
  "ext \<Rightarrow> nom \<Rightarrow> key_ext \<Rightarrow> 'k doc_ext \<Rightarrow> msg_codecs \<Rightarrow> 'w wallet \<Rightarrow> 'w \<Rightarrow> (nat \<Rightarrow> string) \<Rightarrow> string \<Rightarrow>
   DidDocument \<Rightarrow> DidDocument \<Rightarrow> Uri \<Rightarrow> string VcxResult" where
  "create_envelope E N K C R W w uuid d our_did_doc their_did_doc their_service_id =
     and_then (resolve_ed25519_key_agreement K C our_did_doc) (\<lambda>sender_vk.
     and_then (and_then (get_ed25519_recipient_keys N K C their_did_doc their_service_id) (\<lambda>service_keys.
       case service_keys of
         key # _ \<Rightarrow> Ok key
       | [] \<Rightarrow> resolve_ed25519_key_agreement K C their_did_doc)) (\<lambda>recipient_key.
     and_then (get_ed25519_routing_keys N K C their_did_doc their_service_id) (\<lambda>routing_keys.
     create_from_keys E K R W w uuid d (Some sender_vk) recipient_key routing_keys)))"

section \<open>Keys for the DID exchange\<close>

definition resolve_verification_method :: "ddoc_ext \<Rightarrow> DidDocument \<Rightarrow> DidUrl \<Rightarrow> VerificationMethod VcxResult" where
  "resolve_verification_method J did_doc verification_method_ref =
     ok_or (find (\<lambda>key_agreement.
       case du_fragment verification_method_ref of
         None \<Rightarrow> False
       | Some reference_fragment \<Rightarrow>
           (case du_fragment (vm_id key_agreement) of
              None \<Rightarrow> False
            | Some key_agreement_fragment \<Rightarrow> reference_fragment = key_agreement_fragment))
       (doc_verification_method did_doc))
       (from_msg InvalidState (''Verification method not found in resolved did document '' @ dj_show_doc J did_doc))"

definition resolve_first_key_agreement :: "ddoc_ext \<Rightarrow> DidDocument \<Rightarrow> VerificationMethod VcxResult" where
  "resolve_first_key_agreement J did_document =
     (case doc_key_agreement did_document of
        [] \<Rightarrow> vcx_err InvalidState
          (''No verification method found in resolved did document '' @ dj_show_doc J did_document)
      | Vm_Resolved verification_method # _ \<Rightarrow> Ok verification_method
      | Vm_Resolvable verification_method_ref # _ \<Rightarrow>
          resolve_verification_method J did_document verification_method_ref)"

definition resolve_enc_key_from_did_doc ::
  "nom \<Rightarrow> key_ext \<Rightarrow> 'k doc_ext \<Rightarrow> ddoc_ext \<Rightarrow> DidDocument \<Rightarrow> Key VcxResult" where
  "resolve_enc_key_from_did_doc N K C J did_doc =
     (let fallback = and_then (resolve_first_key_agreement J did_doc) (\<lambda>key. from_doc_builder (vm_key K C key))
      in case doc_service did_doc of
           [] \<Rightarrow> fallback
         | s # _ \<Rightarrow>
             (case extra_field_recipient_keys N K C s of
                Ok (service_recipient_key # _) \<Rightarrow> resolve_service_key_to_typed_key K C service_recipient_key did_doc
              | Panic \<Rightarrow> Panic
              | _ \<Rightarrow> fallback))"

definition resolve_enc_key_from_did ::
  "nom \<Rightarrow> key_ext \<Rightarrow> 'k doc_ext \<Rightarrow> ddoc_ext \<Rightarrow> string \<Rightarrow> 'm ResolverRegistry \<Rightarrow> Key VcxResult" where
  "resolve_enc_key_from_did N K C J did G =
     and_then (from_parse_error (parse_did N did)) (\<lambda>did.
     and_then (map_err (\<lambda>err. from_msg InvalidDid (''DID resolution failed: '' @ err)) (registry_resolve G did []))
       (\<lambda>out. resolve_enc_key_from_did_doc N K C J (ro_did_document out)))"

definition resolve_enc_key_from_invitation ::
  "nom \<Rightarrow> key_ext \<Rightarrow> 'k doc_ext \<Rightarrow> ddoc_ext \<Rightarrow> OobInvitation \<Rightarrow> 'm ResolverRegistry \<Rightarrow> Key VcxResult" where
  "resolve_enc_key_from_invitation N K C J invitation G =
     (case oi_services (mp_content invitation) of
        [] \<Rightarrow> vcx_err InvalidInput ''Invitation does not contain any services''
      | Oob_Did did # _ \<Rightarrow>
          and_then (from_parse_error (parse_did N did)) (\<lambda>did.
          and_then (map_err (\<lambda>err. from_msg InvalidDid (''DID resolution failed: '' @ err)) (registry_resolve G did []))
            (\<lambda>out. resolve_enc_key_from_did_doc N K C J (ro_did_document out)))
      | Oob_AriesService _ # _ \<Rightarrow> Panic)"

section \<open>The peer DID of an agent\<close>

definition generate_keypair :: "key_ext \<Rightarrow> 'w wallet \<Rightarrow> 'w \<Rightarrow> KeyType \<Rightarrow> Key VcxResult \<times> 'w" where
  "generate_keypair K W w kt =
     and_thenw (PairwiseInfo_create K W w) (\<lambda>pairwise_info w.
     pure_w (from_pk (from_base58 K (pw_vk pairwise_info) kt)) w)"

definition peer_construction_doc ::
  "key_ext \<Rightarrow> Key \<Rightarrow> DidUrl \<Rightarrow> Service \<Rightarrow> DidPeer4ConstructionDidDocument" where
  "peer_construction_doc K key_enc vm_ka_id service =
     (let vm_ka = \<lparr>v4_id = vm_ka_id, v4_type = Ed25519VerificationKey2020,
            v4_public_key = Pkf_Multibase (fingerprint K key_enc)\<rparr>
      in c4_add_service service (c4_add_key_agreement_ref vm_ka_id (c4_add_verification_method vm_ka c4_new)))"

definition create_peer_did_4 ::
  "nom \<Rightarrow> key_ext \<Rightarrow> 'k doc_ext \<Rightarrow> peer_ext \<Rightarrow> 'w wallet \<Rightarrow> 'w \<Rightarrow> string \<Rightarrow> string list \<Rightarrow>
   (PeerDid4 \<times> Key) VcxResult \<times> 'w" where
  "create_peer_did_4 N K C P W w service_endpoint rks =
     and_thenw (generate_keypair K W w Ed25519) (\<lambda>key_enc w.
     pure_w (and_then (from_parse_error (from_fragment N ''key1'')) (\<lambda>vm_ka_id.
       and_then (from_uri (Uri_new C ''#0'')) (\<lambda>service_id.
       and_then (from_doc_builder (service_of_didcommv1 (ServiceDidCommV1_new service_id service_endpoint 0
           [SK_Reference vm_ka_id] (map SK_Value rks)))) (\<lambda>service.
       and_then (from_did_peer (PeerDid4_new N K P (peer_construction_doc K key_enc vm_ka_id service))) (\<lambda>peer_did.
       Ok (peer_did, key_enc)))))) w)"

section \<open>The keys a new peer DID publishes\<close>

text \<open>
  The grammar reads \<open>#key1\<close> as a reference to that fragment (and not as a \<open>did:key\<close>), and the document
  that is made survives its JSON form.
\<close>

definition reads_reference :: "nom \<Rightarrow> key_ext \<Rightarrow> string \<Rightarrow> bool" where
  "reads_reference N K f \<longleftrightarrow>
     (\<exists>u. from_fragment N f = Ok u \<and> de_service_key N K (JString (CHR ''#'' # f)) = Ok (SK_Reference u))"

definition document_survives :: "peer_ext \<Rightarrow> DidPeer4ConstructionDidDocument \<Rightarrow> bool" where
  "document_survives P d \<longleftrightarrow> (\<forall>t. pe_ser_doc P d = Ok t \<longrightarrow> pe_de_doc P t = Ok d)"

text \<open>The service of a new peer DID, and the documents made for a key and such a service.\<close>

definition peer_service :: "string \<Rightarrow> DidUrl \<Rightarrow> string list \<Rightarrow> Service doc_res" where
  "peer_service e u rks =
     service_of_didcommv1 (ServiceDidCommV1_new (Uri ''#0'') e 0 [SK_Reference u] (map SK_Value rks))"

definition made_documents_survive :: "nom \<Rightarrow> key_ext \<Rightarrow> peer_ext \<Rightarrow> Key \<Rightarrow> string \<Rightarrow> string list \<Rightarrow> bool" where
  "made_documents_survive N K P key e rks \<longleftrightarrow>
     (\<forall>u service. from_fragment N ''key1'' = Ok u \<longrightarrow> peer_service e u rks = Ok service \<longrightarrow>
        document_survives P (peer_construction_doc K key u service))"

text \<open>The URIs that occur are kept as they are written: the short forms and the id of the service.\<close>

definition reads_uris :: "'k doc_ext \<Rightarrow> bool" where
  "reads_uris C \<longleftrightarrow> reads_peer_uri C \<and> dc_uri C ''#0'' = Ok ''#0''"

text \<open>A routing key given in base58 is read as a plain value, being no DID key and no DID URL.\<close>

definition plain_values :: "nom \<Rightarrow> key_ext \<Rightarrow> string list \<Rightarrow> bool" where
  "plain_values N K rks \<longleftrightarrow> (\<forall>rk \<in> set rks. de_service_key N K (JString rk) = Ok (SK_Value rk))"

lemma generate_keypair_type: "generate_keypair K W w kt = (Ok key, w') \<Longrightarrow> ky_type key = kt"
  by (auto simp: generate_keypair_def and_thenw_Ok pure_w_def from_base58_def simp del: and_thenw_pure)

text \<open>The document of a new peer DID: one key under \<open>#key1\<close>, one service under \<open>#0\<close>.\<close>

definition peer_document :: "PeerDid4 \<Rightarrow> Did \<Rightarrow> key_ext \<Rightarrow> Key \<Rightarrow> DidUrl \<Rightarrow> Service \<Rightarrow> DidDocument" where
  "peer_document p s K key u service = (DidDocument_new (pd4_did p))
     \<lparr>doc_also_known_as := [Uri (did_text s)],
      doc_verification_method := [\<lparr>vm_id = u, vm_controller = s, vm_type = Ed25519VerificationKey2020,
        vm_public_key = Pkf_Multibase (fingerprint K key)\<rparr>],
      doc_key_agreement := [Vm_Resolvable u], doc_service := [service]\<rparr>"

lemma create_peer_did_4_Ok:
  assumes laws: "reads_peer4 N" "plain_multibase K" "multibase_inverse K" "reads_uris C"
    and made: "create_peer_did_4 N K C P W w e rks = (Ok (p, key), w')" and docs: "made_documents_survive N K P key e rks"
  obtains u s service where "from_fragment N ''key1'' = Ok u" "ky_type key = Ed25519" "peer_service e u rks = Ok service"
    "resolve_did_doc N K P C p = Ok (peer_document p s K key u service)"
proof -
  from laws(4) have zero: "Uri_new C ''#0'' = Ok (Uri ''#0'')" by (simp add: Uri_new_def reads_uris_def)
  from made obtain u service where parts: "generate_keypair K W w Ed25519 = (Ok key, w')"
    "from_fragment N ''key1'' = Ok u" "peer_service e u rks = Ok service"
    "PeerDid4_new N K P (peer_construction_doc K key u service) = Ok p"
    by (auto simp: create_peer_did_4_def and_thenw_Ok pure_w_def zero from_parse_error_def peer_service_def
        simp del: and_thenw_pure)
  let ?d = "peer_construction_doc K key u service"
  obtain s where short: "short_form N p = (Ok s :: (DidPeerError, Did) result)"
    and s: "\<exists>i. plain i \<and> did_text s = ''did:peer:4'' @ i"
    by (rule created_short_form [OF laws(1,2) parts(4)]) (rule that)
  have "document_survives P ?d" using docs parts(2,3) by (simp add: made_documents_survive_def)
  then have "to_did_peer_4_encoded_diddoc K P p = Ok ?d"
    by (intro created_decodes [OF laws(1-3) parts(4)]) (simp add: document_survives_def)
  moreover have "Uri_new C (did_text s) = Ok (Uri (did_text s))"
    using s laws(4) by (auto simp: Uri_new_def reads_uris_def reads_peer_uri_def)
  ultimately have "resolve_did_doc N K P C p = Ok (peer_document p s K key u service)"
    using contextualize_eq [OF short, of C _ ?d]
    by (simp add: resolve_did_doc_def peer_document_def DidDocument_new_def peer_construction_doc_def c4_add_service_def
        c4_add_key_agreement_ref_def c4_add_verification_method_def c4_new_def in_context_def kind_in_context_def Let_def)
  with parts generate_keypair_type show ?thesis by (intro that) auto
qed

text \<open>What the service says when it is read back.\<close>

definition misread :: "key_ext \<Rightarrow> string \<Rightarrow> Key" where
  "misread K rk = \<lparr>ky_type = Ed25519, ky_bytes = strip_multicodec_prefix_if_present K rk Ed25519\<rparr>"

lemma misread_type [simp]: "ky_type (misread K rk) = Ed25519"
  by (simp add: misread_def)

lemma peer_service_keys:
  assumes "from_fragment N ''key1'' = Ok u" and "reads_reference N K ''key1''" and "plain_values N K rks"
    and "peer_service e u rks = Ok service"
  shows "extra_field_recipient_keys N K C service = Ok [SK_Reference u]"
    "extra_field_routing_keys N K C service = Ok (map SK_Value rks)" "sc_id service = Uri ''#0''"
proof -
  from from_fragment_fragment [OF assms(1)] have "de_service_key N K (ser_service_key (SK_Reference u)) = Ok (SK_Reference u)"
    using assms(1,2) by (auto simp: reads_reference_def ser_service_key_def)
  then have "de_service_key N K (ser_service_key k) = Ok k" if "k \<in> set [SK_Reference u] \<union> set (map SK_Value rks)" for k
    using that assms(3) by (auto simp: ser_service_key_def plain_values_def)
  from didcommv1_service_roundtrip [where rks = "[SK_Reference u]" and routing = "map SK_Value rks" and N = N and K = K
      and C = C, OF this assms(4) [unfolded peer_service_def]]
  show "extra_field_recipient_keys N K C service = Ok [SK_Reference u]"
    "extra_field_routing_keys N K C service = Ok (map SK_Value rks)" "sc_id service = Uri ''#0''" by simp_all
qed

lemma peer_routing_keys:
  assumes "extra_field_routing_keys N K C service = Ok (map SK_Value rks)" and "sc_id service = Uri ''#0''"
  shows "get_ed25519_routing_keys N K C (peer_document p s K key u service) (Uri ''#0'') = Ok (map (misread K) rks)"
proof -
  have keys: "try_map (\<lambda>key. resolve_service_key_to_typed_key K C key D) (map SK_Value ks) = Ok (map (misread K) ks)" for D ks
    by (induction ks) (simp_all add: resolve_service_key_to_typed_key_def Key_new_def misread_def)
  have "get_service_by_id (peer_document p s K key u service) (Uri ''#0'') = Ok service"
    by (simp add: get_service_by_id_def peer_document_def assms)
  with assms keys show ?thesis by (simp add: get_ed25519_routing_keys_def ed25519_keys_def o_def)
qed

text \<open>
  C30. The key the wallet made for a new peer DID is the key everybody finds in its document: as recipient key
  of its service, as key agreement key, and as the key the DID exchange encrypts for. The routing keys are
  found as well, but not as they were given: they are published as base58 texts and read back as if the
  characters of the text were the bytes of the key.
\<close>

theorem peer_did_publishes_key:
  assumes "reads_peer4 N" "plain_multibase K" "multibase_inverse K" "reads_uris C" "varint_inverse K"
    and "reads_reference N K ''key1''" and "plain_values N K rks"
    and "create_peer_did_4 N K C P W w e rks = (Ok (p, key), w')" and "made_documents_survive N K P key e rks"
  shows "\<exists>doc. resolve_did_doc N K P C p = Ok doc \<and> doc_id doc = pd4_did p \<and>
    get_ed25519_recipient_keys N K C doc (Uri ''#0'') = Ok [key] \<and>
    get_ed25519_routing_keys N K C doc (Uri ''#0'') = Ok (map (misread K) rks) \<and>
    resolve_ed25519_key_agreement K C doc = Ok key \<and> resolve_enc_key_from_did_doc N K C J doc = Ok key"
proof -
  obtain u s service where
    u: "from_fragment N ''key1'' = Ok u" and kt: "ky_type key = Ed25519" and
    service: "peer_service e u rks = Ok service" and doc: "resolve_did_doc N K P C p = Ok (peer_document p s K key u service)"
    by (rule create_peer_did_4_Ok [OF assms(1-4,8,9)])
  let ?d = "peer_document p s K key u service"
  let ?vm = "\<lparr>vm_id = u, vm_controller = s, vm_type = Ed25519VerificationKey2020,
    vm_public_key = Pkf_Multibase (fingerprint K key)\<rparr>"
  note read = peer_service_keys(1,2) [OF u assms(6,7) service, where C = C] peer_service_keys(3) [OF u assms(6,7) service]
  from from_fragment_fragment [OF u] have f: "du_fragment u = Some ''key1''" "du_text u = ''#key1''" by auto
  have "doc_key_agreement ?d = [Vm_Resolvable u]" "doc_service ?d = [service]" "doc_id ?d = pd4_did p"
    by (simp_all add: peer_document_def DidDocument_new_def)
  moreover have "vm_key K C ?vm = Ok key"
    using assms(3,5) by (simp add: vm_key_def fingerprint_def from_fingerprint_prefixed)
  moreover have "dereference_key ?d u = Some ?vm"
    by (simp add: dereference_key_def all_vms_def peer_document_def DidDocument_new_def)
  moreover have "get_service_by_id ?d (Uri ''#0'') = Ok service"
    by (simp add: get_service_by_id_def peer_document_def read)
  ultimately show ?thesis
    using doc kt f read peer_routing_keys [OF read(2,3)] by (simp add: get_ed25519_recipient_keys_def ed25519_keys_def
        resolve_service_key_to_typed_key_def resolve_ed25519_key_agreement_def get_key_agreement_of_type_def
        validate_key_type_def resolve_enc_key_from_did_doc_def Let_def)
qed

text \<open>
  So a routing key that is to be published is not the one that is read: unless the text happens to start
  with a multicodec code, forwards are packed for a key whose bytes are the base58 text of the given key.
\<close>

theorem published_routing_keys_misread:
  assumes "reads_peer4 N" "plain_multibase K" "multibase_inverse K" "reads_uris C"
    and "reads_reference N K ''key1''" and "plain_values N K rks"
    and "create_peer_did_4 N K C P W w e rks = (Ok (p, key), w')" and "made_documents_survive N K P key e rks"
    and "rk \<in> set rks" and "strip_multicodec_prefix_if_present K rk Ed25519 = rk"
  shows "\<exists>doc ks. resolve_did_doc N K P C p = Ok doc \<and> get_ed25519_routing_keys N K C doc (Uri ''#0'') = Ok ks \<and>
    \<lparr>ky_type = Ed25519, ky_bytes = rk\<rparr> \<in> set ks"
proof -
  obtain u s service where u: "from_fragment N ''key1'' = Ok u" and service: "peer_service e u rks = Ok service"
    and doc: "resolve_did_doc N K P C p = Ok (peer_document p s K key u service)"
    by (rule create_peer_did_4_Ok [OF assms(1-4,7,8)])
  note read = peer_service_keys(1,2) [OF u assms(5,6) service, where C = C] peer_service_keys(3) [OF u assms(5,6) service]
  have "\<lparr>ky_type = Ed25519, ky_bytes = rk\<rparr> = misread K rk" by (simp add: misread_def assms(10))
  with doc peer_routing_keys [OF read(2,3)] assms(9) show ?thesis by auto
qed

section \<open>A concrete instance\<close>

text \<open>A serialiser that knows one document, that of the sample wallet with the given routing keys.\<close>

definition one_doc_ext :: "DidPeer4ConstructionDidDocument \<Rightarrow> peer_ext" where
  "one_doc_ext doc = \<lparr>pe_ser_doc = (\<lambda>d. if d = doc then Ok ''doc'' else Err ''unknown''), pe_de_doc = (\<lambda>_. Ok doc),
     pe_sha256 = (\<lambda>_. ''hash'')\<rparr>"

definition key1_ref :: DidUrl where
  "key1_ref = \<lparr>du_text = ''#key1'', du_did_range = None, du_method_range = None, du_namespace_range = None,
     du_id_range = None, du_path_range = None, du_fragment_range = Some (1, 5), du_query_ranges = []\<rparr>"

definition sample_service :: "string list \<Rightarrow> Service" where
  "sample_service rks = (case service_of_didcommv1 (ServiceDidCommV1_new (Uri ''#0'') ''http://a'' 0
     [SK_Reference key1_ref] (map SK_Value rks)) of Ok s \<Rightarrow> s)"

definition sample_construction :: "string list \<Rightarrow> DidPeer4ConstructionDidDocument" where
  "sample_construction rks = peer_construction_doc peer_kx \<lparr>ky_type = Ed25519, ky_bytes = sample_verkey\<rparr>
     key1_ref (sample_service rks)"

text \<open>A grammar in which texts that start with neither a hash sign nor \<open>did:\<close> are no DID URLs.\<close>

definition key_nom :: nom where
  "key_nom = peer_nom\<lparr>nm_did_prefix := (\<lambda>s. if take 1 s = ''#'' then Ok (s, (None, None, None)) else Err ''no DID'')\<rparr>"

lemma key1_parsed: "from_fragment key_nom ''key1'' = Ok key1_ref"
  by (simp add: from_fragment_def key_nom_def peer_nom_def sample_nom_def key1_ref_def)

lemma text_no_did_key:
  assumes "s \<in> {''#key1'', ''rk''}"
  shows "\<exists>e. DidKey_parse key_nom peer_kx s = Err e"
  using assms by (auto simp: DidKey_parse_def parse_did_def key_nom_def peer_nom_def sample_nom_def to_id_range_def
      did_id_def slice_def from_fingerprint_def peer_kx_def sample_kx_def unary_decode_def KeyType_try_from_def)

lemma key_nom_laws: "reads_peer4 key_nom" "de_service_key key_nom peer_kx (JString ''rk'') = Ok (SK_Value ''rk'')"
proof -
  from peer_sample_laws(1) show "reads_peer4 key_nom" by (simp add: reads_peer4_def key_nom_def)
  from text_no_did_key [of "''rk''"] show "de_service_key key_nom peer_kx (JString ''rk'') = Ok (SK_Value ''rk'')"
    by (auto simp: de_service_key_def parse_did_url_def key_nom_def)
qed

lemma sample_survives: "made_documents_survive key_nom peer_kx (one_doc_ext (sample_construction rks))
    \<lparr>ky_type = Ed25519, ky_bytes = sample_verkey\<rparr> ''http://a'' rks"
  by (auto simp: made_documents_survive_def document_survives_def one_doc_ext_def)

lemma sample_reads_uris: "reads_uris peer_doc_ext"
  using sample_uri_plain by (simp add: reads_uris_def reads_peer_uri_def peer_doc_ext_def) (simp add: sample_uri_def)

lemma sample_construction_laws:
  "varint_inverse peer_kx" "reads_reference key_nom peer_kx ''key1''" "plain_values key_nom peer_kx [''rk'']"
proof -
  show "reads_reference key_nom peer_kx ''key1''"
    using text_no_did_key [of "''#key1''"] key1_parsed
    by (auto simp: reads_reference_def de_service_key_def parse_did_url_def key_nom_def peer_nom_def sample_nom_def
        validate_result_not_empty_def to_did_url_ranges_def key1_ref_def)
  show "plain_values key_nom peer_kx [''rk'']" using key_nom_laws(2) by (simp add: plain_values_def)
qed (simp add: varint_inverse_def peer_kx_def sample_kx_def unary_inverse)

lemma sample_created:
  "\<exists>p. create_peer_did_4 key_nom peer_kx peer_doc_ext (one_doc_ext (sample_construction rks)) sample_wallet 0
     ''http://a'' rks = (Ok (p, \<lparr>ky_type = Ed25519, ky_bytes = sample_verkey\<rparr>), 1)"
proof -
  have "generate_keypair peer_kx sample_wallet 0 Ed25519 = (Ok \<lparr>ky_type = Ed25519, ky_bytes = sample_verkey\<rparr>, 1)"
    by (simp add: generate_keypair_def PairwiseInfo_create_def pure_w_def sample_wallet_def from_base58_def key_base58_def
        peer_kx_def sample_kx_def)
  moreover have "service_of_didcommv1 (ServiceDidCommV1_new (Uri ''#0'') ''http://a'' 0 [SK_Reference key1_ref]
      (map SK_Value rks)) = Ok (sample_service rks)"
    by (simp add: sample_service_def service_of_didcommv1_def)
  moreover have "\<exists>p. PeerDid4_new key_nom peer_kx (one_doc_ext D) D = Ok p" for D
    by (simp add: PeerDid4_new_def key_nom_def peer_nom_def peer_kx_def one_doc_ext_def parse_did_def to_did_ranges_def)
  ultimately show ?thesis
    by (simp add: create_peer_did_4_def pure_w_def key1_parsed Uri_new_def peer_doc_ext_def sample_uri_def sample_construction_def)
qed

lemma sample_key_created:
  obtains p where "create_peer_did_4 key_nom peer_kx peer_doc_ext (one_doc_ext (sample_construction [''rk''])) sample_wallet 0
     ''http://a'' [''rk''] = (Ok (p, \<lparr>ky_type = Ed25519, ky_bytes = sample_verkey\<rparr>), 1)"
  using sample_created by blast

theorem peer_did_publishes_key_witness:
  "\<exists>p key doc. create_peer_did_4 key_nom peer_kx peer_doc_ext (one_doc_ext (sample_construction [''rk''])) sample_wallet 0
     ''http://a'' [''rk''] = (Ok (p, key), 1) \<and>
     resolve_did_doc key_nom peer_kx (one_doc_ext (sample_construction [''rk''])) peer_doc_ext p = Ok doc \<and>
     resolve_ed25519_key_agreement peer_kx peer_doc_ext doc = Ok key"
proof -
  obtain p where p: "create_peer_did_4 key_nom peer_kx peer_doc_ext (one_doc_ext (sample_construction [''rk''])) sample_wallet 0
     ''http://a'' [''rk''] = (Ok (p, \<lparr>ky_type = Ed25519, ky_bytes = sample_verkey\<rparr>), 1)" by (rule sample_key_created)
  from peer_did_publishes_key [OF key_nom_laws(1) peer_sample_laws(2,3) sample_reads_uris sample_construction_laws p
      sample_survives] p show ?thesis by blast
qed

theorem published_routing_keys_misread_witness:
  "\<exists>p doc ks. resolve_did_doc key_nom peer_kx (one_doc_ext (sample_construction [''rk''])) peer_doc_ext p = Ok doc \<and>
     get_ed25519_routing_keys key_nom peer_kx peer_doc_ext doc (Uri ''#0'') = Ok ks \<and>
     \<lparr>ky_type = Ed25519, ky_bytes = ''rk''\<rparr> \<in> set ks"
proof -
  obtain p where p: "create_peer_did_4 key_nom peer_kx peer_doc_ext (one_doc_ext (sample_construction [''rk''])) sample_wallet 0
     ''http://a'' [''rk''] = (Ok (p, \<lparr>ky_type = Ed25519, ky_bytes = sample_verkey\<rparr>), 1)" by (rule sample_key_created)
  have "strip_multicodec_prefix_if_present peer_kx ''rk'' Ed25519 = ''rk''"
    by (simp add: strip_multicodec_prefix_if_present_def peer_kx_def sample_kx_def unary_decode_def)
  from published_routing_keys_misread [OF key_nom_laws(1) peer_sample_laws(2,3) sample_reads_uris
      sample_construction_laws(2,3) p sample_survives _ this] show ?thesis by force
qed

end
