(* ===== verification/Did_Exchange.thy ===== *)
theory Did_Exchange
  imports Oob Did_Keys
begin

text \<open>
  The DID exchange protocol (\<open>aries_vcx/src/protocols/did_exchange\<close>), versions 1.0 and 1.1: the requester
  sends a request with its peer DID, the responder answers with its own DID in an attachment signed by the
  invitation key, the requester checks the signature and completes. The typestate machines of the two
  roles and their untyped form \<open>GenericDidExchange\<close>. Identifiers and times of new messages are the arguments
  \<open>uuid\<close> and \<open>now\<close>; the registry of resolvers, the wallet and the texts are parameters.
\<close>

section \<open>Attachments and their signatures\<close>

text \<open>\<open>state_machine/helpers.rs\<close>\<close>

definition dx_thread :: "string option \<Rightarrow> string \<Rightarrow> Thread" where
  "dx_thread parent request_id =
     (case parent of Some p \<Rightarrow> thread_with_parent request_id p | None \<Rightarrow> new_thread request_id)"

definition construct_response_v1_0 ::
  "string \<Rightarrow> DateTime \<Rightarrow> string option \<Rightarrow> string \<Rightarrow> Did \<Rightarrow> Attachment \<Rightarrow> ResponseV1_0" where
  "construct_response_v1_0 uuid now request_pthid request_id did signed_diddoc_attach =
     \<lparr>mp_id = uuid,
      mp_content = \<lparr>xr0_did = did_text did, xr0_did_doc = Some signed_diddoc_attach\<rparr>,
      mp_decorators = \<lparr>ak_thread = dx_thread request_pthid request_id, ak_timing = Some (timing_out now)\<rparr>\<rparr>"

definition construct_response_v1_1 ::
  "string \<Rightarrow> DateTime \<Rightarrow> string option \<Rightarrow> string \<Rightarrow> Did \<Rightarrow> Attachment \<Rightarrow> ResponseV1_1" where
  "construct_response_v1_1 uuid now request_pthid request_id did signed_didrotate_attach =
     \<lparr>mp_id = uuid,
      mp_content = \<lparr>xr_did = did_text did, xr_did_doc = None, xr_did_rotate = Some signed_didrotate_attach\<rparr>,
      mp_decorators = \<lparr>ak_thread = dx_thread request_pthid request_id, ak_timing = Some (timing_out now)\<rparr>\<rparr>"

definition base64_attachment :: "string \<Rightarrow> Attachment" where
  "base64_attachment content_b64 =
     \<lparr>att_id = None, att_description = None, att_filename = None, att_mime_type = None,
      att_lastmod_time = None, att_byte_count = None,
      att_data = \<lparr>ad_jws = None, ad_sha256 = None, ad_content = Base64 content_b64\<rparr>\<rparr>"

definition ddo_to_attach :: "wire \<Rightarrow> ddoc_ext \<Rightarrow> DidDocument \<Rightarrow> Attachment VcxResult" where
  "ddo_to_attach Z J ddo =
     and_then (from_serde (dj_ser_doc J ddo)) (\<lambda>s. Ok (base64_attachment (wr_b64url_encode Z s)))"

definition assemble_did_rotate_attachment :: "wire \<Rightarrow> Did \<Rightarrow> Attachment" where
  "assemble_did_rotate_attachment Z did = base64_attachment (wr_b64url_encode Z (did_text did))"

definition jws_sign_attach ::
  "ext \<Rightarrow> nom \<Rightarrow> key_ext \<Rightarrow> wire \<Rightarrow> 'w wallet \<Rightarrow> 'w \<Rightarrow> Attachment \<Rightarrow> Key \<Rightarrow> Attachment VcxResult" where
  "jws_sign_attach E N K Z W w attach verkey =
     (case ad_content (att_data attach) of
        Base64 attach_base64 \<Rightarrow>
          if ky_type verkey \<noteq> Ed25519 then
            vcx_err InvalidVerkey ''Only JWS signatures with Ed25519 based keys are currently supported.''
          else
            and_then (from_did_key (DidKey_of_key N K verkey)) (\<lambda>did_key.
            let verkey_b64 = wr_b64url_encode Z (ky_bytes verkey);
                kid = JString (did_text (dk_did did_key));
                protected_header = JObject [(''alg'', JString ''EdDSA''),
                  (''jwk'', JObject [(''crv'', JString ''Ed25519''), (''kid'', kid), (''kty'', JString ''OKP''),
                     (''x'', JString verkey_b64)])];
                unprotected_header = JObject [(''kid'', kid)];
                b64_protected = wr_b64url_encode Z (x_json_print E protected_header);
                sign_input = b64_protected @ ''.'' @ attach_base64
            in and_then (from_wallet (wl_sign W w verkey sign_input)) (\<lambda>signed.
               let jws = [(''header'', unprotected_header), (''protected'', JString b64_protected),
                          (''signature'', JString (wr_b64url_encode Z signed))]
               in Ok (attach\<lparr>att_data := (att_data attach)\<lparr>ad_jws := Some jws\<rparr>\<rparr>)))
      | _ \<Rightarrow> vcx_err InvalidInput ''Cannot sign non-base64-encoded attachment'')"

definition jws_verify_attachment :: "wire \<Rightarrow> 'w wallet \<Rightarrow> 'w \<Rightarrow> Attachment \<Rightarrow> Key \<Rightarrow> bool VcxResult" where
  "jws_verify_attachment Z W w attach expected_signer =
     (case ad_content (att_data attach) of
        Base64 attach_base64 \<Rightarrow>
          let attach_base64 = filter (\<lambda>c. c \<noteq> CHR ''='') attach_base64
          in (case ad_jws (att_data attach) of
                None \<Rightarrow> vcx_err InvalidInput ''Attachment has no JWS signature attached. Cannot verify.''
              | Some jws \<Rightarrow>
                  (case (Option.bind (map_of jws ''protected'') as_str, Option.bind (map_of jws ''signature'') as_str) of
                     (Some b64_protected, Some b64_signature) \<Rightarrow>
                       let sign_input = b64_protected @ ''.'' @ attach_base64
                       in and_then (map_err (\<lambda>_. from_msg EncodeError
                            ''Attachment JWS signature was not correctly base64Url encoded.'')
                            (wr_b64url_decode Z b64_signature)) (\<lambda>signature.
                          from_wallet (wl_verify W w expected_signer sign_input signature))
                   | _ \<Rightarrow> vcx_err InvalidInput ''Attachment has an invalid JWS with missing fields. Cannot verify.''))
      | _ \<Rightarrow> vcx_err InvalidInput ''Cannot verify JWS of a non-base64-encoded attachment'')"

definition attachment_to_diddoc :: "wire \<Rightarrow> ddoc_ext \<Rightarrow> Attachment \<Rightarrow> DidDocument VcxResult" where
  "attachment_to_diddoc Z J attachment =
     (case ad_content (att_data attachment) of
        Json_value v \<Rightarrow> from_serde (dj_de_doc_value J v)
      | Base64 v \<Rightarrow>
          and_then (map_err (\<lambda>err. from_msg SerializationError
            (''Attachment base 64 decoding failed; attach: '' @ dj_debug_attach J attachment @ '', err: '' @ se_display err))
            (wr_b64url_decode Z v)) (\<lambda>bytes. from_serde (dj_de_doc J bytes))
      | _ \<Rightarrow> vcx_err InvalidJson ''Attachment is not a JSON or Base64'')"

section \<open>Messages of the requester\<close>

text \<open>\<open>state_machine/requester/helpers.rs\<close>\<close>

definition construct_request ::
  "string \<Rightarrow> DateTime \<Rightarrow> string option \<Rightarrow> string \<Rightarrow> string \<Rightarrow> DidExchangeTypeV1 \<Rightarrow> AnyRequest" where
  "construct_request uuid now invitation_id our_did our_label version =
     (let req = \<lparr>mp_id = uuid,
        mp_content = \<lparr>xq_label = our_label, xq_goal_code = Some (Known AriesRelBuild),
          xq_goal = Some ''To establish a connection'', xq_did = our_did, xq_did_doc = None\<rparr>,
        mp_decorators = \<lparr>od_thread = Some (dx_thread invitation_id uuid), od_timing = Some (timing_out now)\<rparr>\<rparr>
      in case version of DidExchangeV1_1 \<Rightarrow> Variant_V1_1 req | DidExchangeV1_0 \<Rightarrow> Variant_V1_0 req)"

definition construct_didexchange_complete ::
  "string \<Rightarrow> DateTime \<Rightarrow> string option \<Rightarrow> string \<Rightarrow> DidExchangeTypeV1 \<Rightarrow> AnyComplete" where
  "construct_didexchange_complete uuid now invitation_id request_id version =
     (let msg = \<lparr>mp_id = uuid, mp_content = (),
        mp_decorators = \<lparr>ak_thread = dx_thread invitation_id request_id, ak_timing = Some (timing_out now)\<rparr>\<rparr>
      in case version of DidExchangeV1_1 \<Rightarrow> Variant_V1_1 msg | DidExchangeV1_0 \<Rightarrow> Variant_V1_0 msg)"

fun first_did_service :: "nom \<Rightarrow> OobService list \<Rightarrow> Did VcxResult" where
  "first_did_service N [] = vcx_err InvalidState ''Invitation does not contain did service''"
| "first_did_service N (Oob_Did did_string # services) =
     map_err (\<lambda>err. from_msg InvalidState (''Invalid DID in invitation: '' @ show_ParseError err)) (parse_did N did_string)"
| "first_did_service N (Oob_AriesService _ # services) = first_did_service N services"

definition invitation_get_first_did_service :: "nom \<Rightarrow> OobInvitation \<Rightarrow> Did VcxResult" where
  "invitation_get_first_did_service N invitation = first_did_service N (oi_services (mp_content invitation))"

definition invitation_get_acceptable_did_exchange_version :: "OobInvitation \<Rightarrow> DidExchangeTypeV1 VcxResult" where
  "invitation_get_acceptable_did_exchange_version invitation =
     (let protos = (case oi_handshake_protocols (mp_content invitation) of Some ps \<Rightarrow> ps | None \<Rightarrow> []);
          accepted = (\<lambda>v. Known (DidExchangeType (DidExchangeType_V1 v)) \<in> set protos)
      in case (accepted DidExchangeV1_1, accepted DidExchangeV1_0) of
           (True, _) \<Rightarrow> Ok DidExchangeV1_1
         | (False, True) \<Rightarrow> Ok DidExchangeV1_0
         | _ \<Rightarrow> vcx_err InvalidInput
             ''OOB invitation does not have a suitable handshake protocol for DIDExchange'')"

section \<open>The machines\<close>

record RequestSent =
  dxq_request_id :: string
  dxq_invitation_id :: "string option"

record ResponseSent =
  dxr_request_id :: string

record CompletedExchange =
  dxc_request_id :: string

record AbandonedExchange =
  dxa_reason :: string
  dxa_request_id :: string

text \<open>\<open>DidExchange<I, S>\<close>; the role \<open>I\<close> is phantom data.\<close>

record 's DidExchangeSM =
  dx_state :: 's
  dx_our_did_document :: DidDocument
  dx_their_did_document :: DidDocument

record 's TransitionError =
  te_state :: 's
  te_error :: AriesVcxError

text \<open>\<open>fail\<close> and \<open>receive_problem_report\<close>, for any state that has a thread id.\<close>

definition dx_fail ::
  "string \<Rightarrow> DateTime \<Rightarrow> ('s \<Rightarrow> string) \<Rightarrow> 's DidExchangeSM \<Rightarrow> string \<Rightarrow> ProblemCode option \<Rightarrow>
   AbandonedExchange DidExchangeSM \<times> AnyProblemReport" where
  "dx_fail uuid now thread_id m reason problem_code =
     (\<lparr>dx_state = \<lparr>dxa_reason = reason, dxa_request_id = thread_id (dx_state m)\<rparr>,
       dx_our_did_document = dx_our_did_document m, dx_their_did_document = dx_their_did_document m\<rparr>,
      Variant_V1_1 \<lparr>mp_id = uuid, mp_content = \<lparr>cp_problem_code = problem_code, cp_explain = Some reason\<rparr>,
        mp_decorators = \<lparr>cpd_thread = new_thread (thread_id (dx_state m)), cpd_localization = None,
          cpd_timing = Some (timing_out now)\<rparr>\<rparr>)"

definition dx_receive_problem_report ::
  "('s \<Rightarrow> string) \<Rightarrow> 's DidExchangeSM \<Rightarrow> DxProblemReport \<Rightarrow> AbandonedExchange DidExchangeSM" where
  "dx_receive_problem_report thread_id m problem_report =
     \<lparr>dx_state = \<lparr>dxa_reason = (case cp_explain (mp_content problem_report) of Some e \<Rightarrow> e | None \<Rightarrow> []),
        dxa_request_id = thread_id (dx_state m)\<rparr>,
      dx_our_did_document = dx_our_did_document m, dx_their_did_document = dx_their_did_document m\<rparr>"

subsection \<open>Requester\<close>

text \<open>\<open>requester/request_sent/mod.rs\<close>\<close>

definition requester_construct_request ::
  "nom \<Rightarrow> key_ext \<Rightarrow> 'k doc_ext \<Rightarrow> peer_ext \<Rightarrow> 'm ResolverRegistry \<Rightarrow> string \<Rightarrow> DateTime \<Rightarrow> string option \<Rightarrow> Did \<Rightarrow>
   PeerDid4 \<Rightarrow> string \<Rightarrow> DidExchangeTypeV1 \<Rightarrow> (RequestSent DidExchangeSM \<times> AnyRequest) VcxResult" where
  "requester_construct_request N K C P G uuid now invitation_id their_did our_peer_did our_label version =
     and_then (from_generic (registry_resolve G their_did [])) (\<lambda>out.
     and_then (from_did_peer (resolve_did_doc N K P C our_peer_did)) (\<lambda>our_did_document.
     let request = construct_request uuid now invitation_id (did_text (pd4_did our_peer_did)) our_label version
     in Ok (\<lparr>dx_state = \<lparr>dxq_request_id = mp_id (variant_inner request), dxq_invitation_id = invitation_id\<rparr>,
          dx_our_did_document = our_did_document, dx_their_did_document = ro_did_document out\<rparr>, request)))"

definition extract_and_verify_responder_did_doc ::
  "nom \<Rightarrow> wire \<Rightarrow> ddoc_ext \<Rightarrow> 'm ResolverRegistry \<Rightarrow> 'w wallet \<Rightarrow> 'w \<Rightarrow> Key \<Rightarrow> ResponseV1_1 \<Rightarrow>
   DidDocument VcxResult" where
  "extract_and_verify_responder_did_doc N Z J G W w invitation_key response =
     (let their_did = xr_did (mp_content response)
      in case xr_did_doc (mp_content response) of
           Some did_doc_attach \<Rightarrow>
             and_then (jws_verify_attachment Z W w did_doc_attach invitation_key) (\<lambda>verified_signature.
             if \<not> verified_signature then vcx_err InvalidInput
               ''DIDExchange response did not have a valid DIDDoc signature from the expected inviter''
             else and_then (attachment_to_diddoc Z J did_doc_attach) (\<lambda>did_doc.
               if did_text (doc_id did_doc) \<noteq> their_did then vcx_err InvalidInput
                 ''DIDExchange response had a DIDDoc which did not match the response DID''
               else Ok did_doc))
         | None \<Rightarrow>
             (case xr_did_rotate (mp_content response) of
                Some did_rotate_attach \<Rightarrow>
                  and_then (jws_verify_attachment Z W w did_rotate_attach invitation_key) (\<lambda>verified_signature.
                  if \<not> verified_signature then vcx_err InvalidInput
                    ''DIDExchange response did not have a valid DID rotate signature from the expected inviter''
                  else and_then (case ad_content (att_data did_rotate_attach) of
                      Base64 signed_did_b64 \<Rightarrow> Ok signed_did_b64
                    | _ \<Rightarrow> vcx_err EncodeError ''DIDExchange response did not have a valid DID rotate attachment'')
                    (\<lambda>signed_did_b64.
                  and_then (map_err (\<lambda>_. from_msg EncodeError
                      ''DIDExchange response did not have a valid base64 did rotate attachment'')
                      (wr_b64url_decode Z signed_did_b64)) (\<lambda>did_bytes.
                  and_then (ok_or (from_utf8 did_bytes) (from_msg EncodeError
                      ''DIDExchange response did not have a valid UTF8 did rotate attachment'')) (\<lambda>signed_did.
                  if signed_did \<noteq> their_did then vcx_err InvalidInput
                    (''DIDExchange response had a DID rotate which did not match the response DID. Wanted '' @
                     their_did @ '', found '' @ signed_did)
                  else and_then (from_parse_error (parse_did N their_did)) (\<lambda>did.
                    map_ok ro_did_document (from_generic (registry_resolve G did [])))))))
              | None \<Rightarrow> vcx_err InvalidInput
                  ''DIDExchange response could not be verified. No DIDDoc nor DIDRotate was attached.''))"

definition requester_receive_response ::
  "nom \<Rightarrow> wire \<Rightarrow> ddoc_ext \<Rightarrow> 'm ResolverRegistry \<Rightarrow> 'w wallet \<Rightarrow> 'w \<Rightarrow> string \<Rightarrow> DateTime \<Rightarrow>
   RequestSent DidExchangeSM \<Rightarrow> Key \<Rightarrow> AnyResponse \<Rightarrow>
   (RequestSent DidExchangeSM TransitionError, CompletedExchange DidExchangeSM \<times> AnyComplete) result" where
  "requester_receive_response N Z J G W w uuid now m invitation_key response =
     (let version = get_version response; response = any_response_into_v1_1 response
      in if thid (ak_thread (mp_decorators response)) \<noteq> dxq_request_id (dx_state m) then
           Err \<lparr>te_state = m, te_error = from_msg InvalidState ''Response thread ID does not match request ID''\<rparr>
         else
           and_then (map_err (\<lambda>e. \<lparr>te_state = m, te_error = e\<rparr>)
             (extract_and_verify_responder_did_doc N Z J G W w invitation_key response)) (\<lambda>did_document.
           let complete_message = construct_didexchange_complete uuid now (dxq_invitation_id (dx_state m))
             (dxq_request_id (dx_state m)) version
           in Ok (\<lparr>dx_state = \<lparr>dxc_request_id = dxq_request_id (dx_state m)\<rparr>,
                dx_our_did_document = dx_our_did_document m, dx_their_did_document = did_document\<rparr>,
              complete_message)))"

subsection \<open>Responder\<close>

text \<open>
  \<open>responder/response_sent/mod.rs\<close>. The argument of \<open>unwrap_or\<close> is evaluated before the call, so that the
  DID of the request is resolved also when a document is attached.
\<close>

definition resolve_ddo_from_request ::
  "nom \<Rightarrow> wire \<Rightarrow> ddoc_ext \<Rightarrow> 'm ResolverRegistry \<Rightarrow> DxRequest \<Rightarrow> DidDocument VcxResult" where
  "resolve_ddo_from_request N Z J G request =
     and_then (transpose_opt (map_option (attachment_to_diddoc Z J) (xq_did_doc (mp_content request)))) (\<lambda>attached.
     and_then (from_parse_error (parse_did N (xq_did (mp_content request)))) (\<lambda>did.
     and_then (from_generic (registry_resolve G did [])) (\<lambda>out.
     Ok (case attached of Some did_doc \<Rightarrow> did_doc | None \<Rightarrow> ro_did_document out))))"

definition responder_receive_request ::
  "ext \<Rightarrow> nom \<Rightarrow> key_ext \<Rightarrow> 'k doc_ext \<Rightarrow> peer_ext \<Rightarrow> wire \<Rightarrow> ddoc_ext \<Rightarrow> 'm ResolverRegistry \<Rightarrow> 'w wallet \<Rightarrow> 'w \<Rightarrow>
   string \<Rightarrow> DateTime \<Rightarrow> AnyRequest \<Rightarrow> PeerDid4 \<Rightarrow> Key \<Rightarrow> (ResponseSent DidExchangeSM \<times> AnyResponse) VcxResult" where
  "responder_receive_request E N K C P Z J G W w uuid now request our_peer_did invitation_key =
     (let version = get_version request; request = variant_inner request
      in and_then (resolve_ddo_from_request N Z J G request) (\<lambda>their_ddo.
         and_then (from_did_peer (resolve_did_doc N K P C our_peer_did)) (\<lambda>our_did_document.
         and_then (case version of
             DidExchangeV1_1 \<Rightarrow> Ok (assemble_did_rotate_attachment Z (pd4_did our_peer_did))
           | DidExchangeV1_0 \<Rightarrow> ddo_to_attach Z J our_did_document) (\<lambda>unsigned_attachment.
         and_then (jws_sign_attach E N K Z W w unsigned_attachment invitation_key) (\<lambda>attachment.
         let request_id = mp_id request;
             request_pthid = Option.bind (od_thread (mp_decorators request)) pthid;
             response = (case version of
                 DidExchangeV1_1 \<Rightarrow> Variant_V1_1 (construct_response_v1_1 uuid now request_pthid request_id
                   (pd4_did our_peer_did) attachment)
               | DidExchangeV1_0 \<Rightarrow> Variant_V1_0 (construct_response_v1_0 uuid now request_pthid request_id
                   (pd4_did our_peer_did) attachment))
         in Ok (\<lparr>dx_state = \<lparr>dxr_request_id = mp_id request\<rparr>, dx_our_did_document = our_did_document,
              dx_their_did_document = their_ddo\<rparr>, response))))))"

definition responder_receive_complete ::
  "ResponseSent DidExchangeSM \<Rightarrow> Complete \<Rightarrow>
   (ResponseSent DidExchangeSM TransitionError, CompletedExchange DidExchangeSM) result" where
  "responder_receive_complete m complete =
     (if thid (ak_thread (mp_decorators complete)) \<noteq> dxr_request_id (dx_state m) then
        Err \<lparr>te_state = m, te_error = from_msg InvalidState
          ''Thread ID of the complete message does not match the id of the request''\<rparr>
      else Ok \<lparr>dx_state = \<lparr>dxc_request_id = dxr_request_id (dx_state m)\<rparr>,
        dx_our_did_document = dx_our_did_document m, dx_their_did_document = dx_their_did_document m\<rparr>)"

subsection \<open>The untyped exchange\<close>

text \<open>\<open>state_machine/generic\<close>. The accessors of documents are \<open>todo!()\<close> for abandoned exchanges.\<close>

datatype RequesterState =
    Rq_RequestSent "RequestSent DidExchangeSM"
  | Rq_Completed "CompletedExchange DidExchangeSM"
  | Rq_Abandoned "AbandonedExchange DidExchangeSM"

datatype ResponderState =
    Rp_ResponseSent "ResponseSent DidExchangeSM"
  | Rp_Completed "CompletedExchange DidExchangeSM"
  | Rp_Abandoned "AbandonedExchange DidExchangeSM"

datatype GenericDidExchange = Requester RequesterState | Responder ResponderState

datatype ThinStateDx = Dx_RequestSent | Dx_ResponseSent | Dx_Completed | Dx_Abandoned

type_synonym 'a dx_result = "(GenericDidExchange \<times> AriesVcxError, 'a) result"

fun our_did_document :: "GenericDidExchange \<Rightarrow> ('e, DidDocument) result" where
  "our_did_document (Requester (Rq_RequestSent m)) = Ok (dx_our_did_document m)"
| "our_did_document (Requester (Rq_Completed m)) = Ok (dx_our_did_document m)"
| "our_did_document (Requester (Rq_Abandoned _)) = Panic"
| "our_did_document (Responder (Rp_ResponseSent m)) = Ok (dx_our_did_document m)"
| "our_did_document (Responder (Rp_Completed m)) = Ok (dx_our_did_document m)"
| "our_did_document (Responder (Rp_Abandoned _)) = Panic"

fun their_did_document :: "GenericDidExchange \<Rightarrow> ('e, DidDocument) result" where
  "their_did_document (Requester (Rq_RequestSent m)) = Ok (dx_their_did_document m)"
| "their_did_document (Requester (Rq_Completed m)) = Ok (dx_their_did_document m)"
| "their_did_document (Requester (Rq_Abandoned _)) = Panic"
| "their_did_document (Responder (Rp_ResponseSent m)) = Ok (dx_their_did_document m)"
| "their_did_document (Responder (Rp_Completed m)) = Ok (dx_their_did_document m)"
| "their_did_document (Responder (Rp_Abandoned _)) = Panic"

definition dx_construct_request ::
  "nom \<Rightarrow> key_ext \<Rightarrow> 'k doc_ext \<Rightarrow> peer_ext \<Rightarrow> 'm ResolverRegistry \<Rightarrow> string \<Rightarrow> DateTime \<Rightarrow> string option \<Rightarrow> Did \<Rightarrow>
   PeerDid4 \<Rightarrow> string \<Rightarrow> DidExchangeTypeV1 \<Rightarrow> (GenericDidExchange \<times> AnyRequest) VcxResult" where
  "dx_construct_request N K C P G uuid now invitation_id their_did our_peer_did our_label version =
     and_then (requester_construct_request N K C P G uuid now invitation_id their_did our_peer_did our_label version)
       (\<lambda>(state, out). Ok (Requester (Rq_RequestSent state), out))"

definition dx_handle_request ::
  "ext \<Rightarrow> nom \<Rightarrow> key_ext \<Rightarrow> 'k doc_ext \<Rightarrow> peer_ext \<Rightarrow> wire \<Rightarrow> ddoc_ext \<Rightarrow> 'm ResolverRegistry \<Rightarrow> 'w wallet \<Rightarrow> 'w \<Rightarrow>
   string \<Rightarrow> DateTime \<Rightarrow> AnyRequest \<Rightarrow> PeerDid4 \<Rightarrow> Key \<Rightarrow> (GenericDidExchange \<times> AnyResponse) VcxResult" where
  "dx_handle_request E N K C P Z J G W w uuid now request our_peer_did invitation_key =
     and_then (responder_receive_request E N K C P Z J G W w uuid now request our_peer_did invitation_key)
       (\<lambda>(state, out). Ok (Responder (Rp_ResponseSent state), out))"

definition dx_handle_response ::
  "nom \<Rightarrow> wire \<Rightarrow> ddoc_ext \<Rightarrow> 'm ResolverRegistry \<Rightarrow> 'w wallet \<Rightarrow> 'w \<Rightarrow> string \<Rightarrow> DateTime \<Rightarrow>
   GenericDidExchange \<Rightarrow> Key \<Rightarrow> AnyResponse \<Rightarrow> (GenericDidExchange \<times> AnyComplete) dx_result" where
  "dx_handle_response N Z J G W w uuid now g invitation_key response =
     (case g of
        Requester (Rq_RequestSent m) \<Rightarrow>
          map_err (\<lambda>e. (Requester (Rq_RequestSent (te_state e)), te_error e))
            (map_ok (\<lambda>(state, out). (Requester (Rq_Completed state), out))
              (requester_receive_response N Z J G W w uuid now m invitation_key response))
      | Requester (Rq_Completed m) \<Rightarrow> Err (g, from_msg InvalidState ''Attempted to handle response in completed state'')
      | Requester (Rq_Abandoned m) \<Rightarrow> Err (g, from_msg InvalidState ''Attempted to handle response in abandoned state'')
      | Responder _ \<Rightarrow> Err (g, from_msg InvalidState ''Attempted to handle response as a responder''))"

definition dx_handle_complete :: "GenericDidExchange \<Rightarrow> Complete \<Rightarrow> GenericDidExchange dx_result" where
  "dx_handle_complete g complete =
     (case g of
        Responder (Rp_ResponseSent m) \<Rightarrow>
          map_err (\<lambda>e. (Responder (Rp_ResponseSent (te_state e)), te_error e))
            (map_ok (\<lambda>state. Responder (Rp_Completed state)) (responder_receive_complete m complete))
      | Responder (Rp_Completed m) \<Rightarrow> Err (g, from_msg InvalidState ''Attempted to handle complete in completed state'')
      | Responder (Rp_Abandoned m) \<Rightarrow> Err (g, from_msg InvalidState ''Attempted to handle complete in abandoned state'')
      | Requester _ \<Rightarrow> Err (g, from_msg InvalidState ''Attempted to handle complete as a requester''))"

definition dx_handle_problem_report :: "GenericDidExchange \<Rightarrow> DxProblemReport \<Rightarrow> GenericDidExchange dx_result" where
  "dx_handle_problem_report g problem_report =
     (case g of
        Requester (Rq_RequestSent m) \<Rightarrow>
          Ok (Requester (Rq_Abandoned (dx_receive_problem_report dxq_request_id m problem_report)))
      | Requester (Rq_Completed m) \<Rightarrow>
          Err (g, from_msg InvalidState ''Attempted to handle problem report in completed state'')
      | Requester (Rq_Abandoned m) \<Rightarrow> Ok g
      | Responder (Rp_ResponseSent m) \<Rightarrow>
          Ok (Responder (Rp_Abandoned (dx_receive_problem_report dxr_request_id m problem_report)))
      | Responder (Rp_Completed m) \<Rightarrow>
          Err (g, from_msg InvalidState ''Attempted to handle problem report in completed state'')
      | Responder (Rp_Abandoned m) \<Rightarrow> Ok g)"

text \<open>The state a responder reports after its response is \<open>request-sent\<close>.\<close>

fun dx_get_state :: "GenericDidExchange \<Rightarrow> ThinStateDx" where
  "dx_get_state (Requester (Rq_RequestSent _)) = Dx_RequestSent"
| "dx_get_state (Requester (Rq_Completed _)) = Dx_Completed"
| "dx_get_state (Requester (Rq_Abandoned _)) = Dx_Abandoned"
| "dx_get_state (Responder (Rp_ResponseSent _)) = Dx_RequestSent"
| "dx_get_state (Responder (Rp_Completed _)) = Dx_Completed"
| "dx_get_state (Responder (Rp_Abandoned _)) = Dx_Abandoned"

section \<open>Signed attachments\<close>

text \<open>
  A signature a verifying wallet accepts, and base64 without padding: what the texts of the two documents
  promise.
\<close>

definition signatures_accepted :: "'v wallet \<Rightarrow> 'w wallet \<Rightarrow> bool" where
  "signatures_accepted V W \<longleftrightarrow> (\<forall>v w k m s. wl_sign V v k m = Ok s \<longrightarrow> wl_verify W w k m s = Ok True)"

definition b64url_unpadded :: "wire \<Rightarrow> bool" where
  "b64url_unpadded Z \<longleftrightarrow> (\<forall>s. CHR ''='' \<notin> set (wr_b64url_encode Z s))"

text \<open>What signing adds to an attachment.\<close>

definition with_jws :: "wire \<Rightarrow> string \<Rightarrow> json \<Rightarrow> string \<Rightarrow> string \<Rightarrow> Attachment" where
  "with_jws Z t header protected signature =
     (base64_attachment t)\<lparr>att_data := \<lparr>ad_jws = Some [(''header'', header), (''protected'', JString protected),
        (''signature'', JString (wr_b64url_encode Z signature))], ad_sha256 = None, ad_content = Base64 t\<rparr>\<rparr>"

lemma jws_sign_Ok:
  assumes "jws_sign_attach E N K Z V v (base64_attachment t) key = Ok a"
  obtains header protected signature where "wl_sign V v key (protected @ ''.'' @ t) = Ok signature"
    "a = with_jws Z t header protected signature"
proof -
  have c: "ad_content (att_data (base64_attachment t)) = Base64 t" by (simp add: base64_attachment_def)
  from assms obtain dk where "DidKey_of_key N K key = Ok dk"
    by (auto simp: jws_sign_attach_def c split: if_splits)
  with assms c show ?thesis
    by (auto simp: jws_sign_attach_def Let_def with_jws_def base64_attachment_def split: if_splits intro: that)
qed

lemma with_jws_sel:
  "ad_content (att_data (with_jws Z t h p s)) = Base64 t"
  "ad_jws (att_data (with_jws Z t h p s)) = Some [(''header'', h), (''protected'', JString p),
     (''signature'', JString (wr_b64url_encode Z s))]"
  by (simp_all add: with_jws_def)

lemma jws_roundtrip:
  assumes "b64url_inverse Z" "b64url_unpadded Z" "signatures_accepted V W"
    and "jws_sign_attach E N K Z V v (base64_attachment (wr_b64url_encode Z t)) key = Ok a"
  shows "jws_verify_attachment Z W w a key = Ok True" "ad_content (att_data a) = Base64 (wr_b64url_encode Z t)"
proof -
  from assms(4) obtain h p s where s: "wl_sign V v key (p @ ''.'' @ wr_b64url_encode Z t) = Ok s"
    and a: "a = with_jws Z (wr_b64url_encode Z t) h p s" by (rule jws_sign_Ok)
  have "filter (\<lambda>c. c \<noteq> CHR ''='') (wr_b64url_encode Z t) = wr_b64url_encode Z t"
    using assms(2) by (auto simp: filter_id_conv b64url_unpadded_def)
  moreover have "wl_verify W w key (p @ ''.'' @ wr_b64url_encode Z t) s = Ok True"
    using assms(3) s unfolding signatures_accepted_def by blast
  moreover have "wr_b64url_decode Z (wr_b64url_encode Z s) = Ok s" using assms(1) by (simp add: b64url_inverse_def)
  ultimately show "jws_verify_attachment Z W w a key = Ok True"
    by (simp add: jws_verify_attachment_def a with_jws_sel Let_def)
  show "ad_content (att_data a) = Base64 (wr_b64url_encode Z t)" by (simp add: a with_jws_sel)
qed

lemma jws_sign_succeeds:
  assumes "ky_type key = Ed25519" and "DidKey_of_key N K key = Ok dk" and "\<And>m. \<exists>s. wl_sign V v key m = Ok s"
  shows "\<exists>a. jws_sign_attach E N K Z V v (base64_attachment t) key = Ok a"
proof -
  have "\<exists>a. and_then (from_wallet (wl_sign V v key m)) (\<lambda>s. Ok (f s)) = Ok a" for m and f :: "string \<Rightarrow> Attachment"
    using assms(3) [of m] by auto
  then show ?thesis
    unfolding jws_sign_attach_def base64_attachment_def Let_def by (simp add: assms(1,2) del: ex_simps)
qed

text \<open>What an accepted signature says: it is one of the expected key over the content.\<close>

definition signed_by :: "wire \<Rightarrow> 'w wallet \<Rightarrow> 'w \<Rightarrow> Key \<Rightarrow> Attachment \<Rightarrow> string \<Rightarrow> bool" where
  "signed_by Z W w key a content \<longleftrightarrow> ad_content (att_data a) = Base64 content \<and>
     (\<exists>header sig. wl_verify W w key (header @ ''.'' @ filter (\<lambda>c. c \<noteq> CHR ''='') content) sig = Ok True)"

lemma jws_verified:
  assumes "jws_verify_attachment Z W w a key = Ok True"
  shows "\<exists>content. signed_by Z W w key a content"
  using assms by (auto simp: jws_verify_attachment_def signed_by_def Let_def
      split: AttachmentType.splits option.splits)

section \<open>The requester is not fooled\<close>

lemma extract_Ok:
  assumes "extract_and_verify_responder_did_doc N Z J G W w key response = Ok doc"
  shows "(\<exists>a content bytes. xr_did_doc (mp_content response) = Some a \<and> signed_by Z W w key a content \<and>
       wr_b64url_decode Z content = Ok bytes \<and> dj_de_doc J bytes = Ok doc \<and>
       did_text (doc_id doc) = xr_did (mp_content response)) \<or>
    (\<exists>a content did out. xr_did_doc (mp_content response) = None \<and> xr_did_rotate (mp_content response) = Some a \<and>
       signed_by Z W w key a content \<and> wr_b64url_decode Z content = Ok (xr_did (mp_content response)) \<and>
       parse_did N (xr_did (mp_content response)) = Ok did \<and> registry_resolve G did [] = Ok out \<and>
       doc = ro_did_document out)"
proof (cases "xr_did_doc (mp_content response)")
  case (Some a)
  with assms have v: "jws_verify_attachment Z W w a key = Ok True" and doc: "attachment_to_diddoc Z J a = Ok doc"
    "did_text (doc_id doc) = xr_did (mp_content response)"
    by (auto simp: extract_and_verify_responder_did_doc_def Let_def split: if_splits)
  from jws_verified [OF v] obtain content where c: "signed_by Z W w key a content" ..
  with doc(1) obtain bytes where "wr_b64url_decode Z content = Ok bytes" "dj_de_doc J bytes = Ok doc"
    by (auto simp: attachment_to_diddoc_def signed_by_def from_serde_def)
  with Some c doc(2) show ?thesis by blast
next
  case None
  with assms obtain a where a: "xr_did_rotate (mp_content response) = Some a"
    by (auto simp: extract_and_verify_responder_did_doc_def Let_def split: option.splits)
  with None assms have v: "jws_verify_attachment Z W w a key = Ok True"
    by (auto simp: extract_and_verify_responder_did_doc_def Let_def split: if_splits)
  from jws_verified [OF v] obtain content where c: "signed_by Z W w key a content" ..
  with None a assms show ?thesis
    by (auto simp: extract_and_verify_responder_did_doc_def Let_def signed_by_def from_utf8_def from_parse_error_def
        split: if_splits)
qed

text \<open>
  C12. A requester completes only with a response on the thread of its request whose attachment is signed by
  the key of the invitation, and the document it then holds is the signed one, for the DID of the
  response, or what the registry gives for the signed DID. The answer to it carries the same thread and
  version.
\<close>

theorem did_exchange_response_authentic:
  assumes "dx_handle_response N Z J G W w uuid now (Requester (Rq_RequestSent m)) key response = Ok (g, complete)"
  shows "\<exists>a content bytes doc.
    thid (ak_thread (mp_decorators (any_response_into_v1_1 response))) = dxq_request_id (dx_state m) \<and>
    signed_by Z W w key a content \<and> wr_b64url_decode Z content = Ok bytes \<and>
    g = Requester (Rq_Completed \<lparr>dx_state = \<lparr>dxc_request_id = dxq_request_id (dx_state m)\<rparr>,
      dx_our_did_document = dx_our_did_document m, dx_their_did_document = doc\<rparr>) \<and>
    (dj_de_doc J bytes = Ok doc \<and> did_text (doc_id doc) = xr_did (mp_content (any_response_into_v1_1 response)) \<or>
     (\<exists>did out. parse_did N bytes = Ok did \<and> registry_resolve G did [] = Ok out \<and> doc = ro_did_document out)) \<and>
    thid (ak_thread (mp_decorators (variant_inner complete))) = dxq_request_id (dx_state m) \<and>
    get_version complete = get_version response"
proof -
  let ?r = "any_response_into_v1_1 response"
  from assms obtain doc where doc: "extract_and_verify_responder_did_doc N Z J G W w key ?r = Ok doc"
    and thread: "thid (ak_thread (mp_decorators ?r)) = dxq_request_id (dx_state m)"
    and g: "g = Requester (Rq_Completed \<lparr>dx_state = \<lparr>dxc_request_id = dxq_request_id (dx_state m)\<rparr>,
      dx_our_did_document = dx_our_did_document m, dx_their_did_document = doc\<rparr>)"
    and c: "complete = construct_didexchange_complete uuid now (dxq_invitation_id (dx_state m))
      (dxq_request_id (dx_state m)) (get_version response)"
    by (auto simp: dx_handle_response_def requester_receive_response_def Let_def split: if_splits)
  have "thid (ak_thread (mp_decorators (variant_inner complete))) = dxq_request_id (dx_state m)"
    "get_version complete = get_version response"
    by (auto simp: c construct_didexchange_complete_def dx_thread_def Let_def split: DidExchangeTypeV1.split option.split)
  with extract_Ok [OF doc] thread g show ?thesis by metis
qed

section \<open>Runs of an exchange\<close>

text \<open>
  The operations on an exchange that has begun; a failed operation gives the exchange back. The wallet,
  identifiers and times may be different in every step.
\<close>

inductive dx_step ::
  "nom \<Rightarrow> wire \<Rightarrow> ddoc_ext \<Rightarrow> 'm ResolverRegistry \<Rightarrow> 'w wallet \<Rightarrow> GenericDidExchange \<Rightarrow> GenericDidExchange \<Rightarrow> bool"
  for N Z J G W where
  response: "dx_handle_response N Z J G W w uuid now g key r = Ok (g', c) \<Longrightarrow> dx_step N Z J G W g g'"
| response_failed: "dx_handle_response N Z J G W w uuid now g key r = Err (g', e) \<Longrightarrow> dx_step N Z J G W g g'"
| complete: "dx_handle_complete g c = Ok g' \<Longrightarrow> dx_step N Z J G W g g'"
| complete_failed: "dx_handle_complete g c = Err (g', e) \<Longrightarrow> dx_step N Z J G W g g'"
| report: "dx_handle_problem_report g p = Ok g' \<Longrightarrow> dx_step N Z J G W g g'"
| report_failed: "dx_handle_problem_report g p = Err (g', e) \<Longrightarrow> dx_step N Z J G W g g'"

fun dx_thread_id :: "GenericDidExchange \<Rightarrow> string" where
  "dx_thread_id (Requester (Rq_RequestSent m)) = dxq_request_id (dx_state m)"
| "dx_thread_id (Requester (Rq_Completed m)) = dxc_request_id (dx_state m)"
| "dx_thread_id (Requester (Rq_Abandoned m)) = dxa_request_id (dx_state m)"
| "dx_thread_id (Responder (Rp_ResponseSent m)) = dxr_request_id (dx_state m)"
| "dx_thread_id (Responder (Rp_Completed m)) = dxc_request_id (dx_state m)"
| "dx_thread_id (Responder (Rp_Abandoned m)) = dxa_request_id (dx_state m)"

definition dx_settled :: "GenericDidExchange \<Rightarrow> bool" where
  "dx_settled g \<longleftrightarrow> dx_get_state g \<in> {Dx_Completed, Dx_Abandoned}"

fun is_requester :: "GenericDidExchange \<Rightarrow> bool" where
  "is_requester (Requester _) \<longleftrightarrow> True"
| "is_requester (Responder _) \<longleftrightarrow> False"

text \<open>One operation moves at most from a begun exchange to a settled one.\<close>

lemma requester_keeps_state:
  "requester_receive_response N Z J G W w uuid now m key r = Err e \<Longrightarrow> te_state e = m"
  by (auto simp: requester_receive_response_def Let_def and_then_eq_Err map_err_eq_Err split: if_splits)

lemma dx_step_move:
  assumes "dx_step N Z J G W g g'"
  shows "g' = g \<or> (\<not> dx_settled g \<and> dx_settled g' \<and> dx_thread_id g' = dx_thread_id g \<and>
    is_requester g' = is_requester g)"
  using assms
proof (cases rule: dx_step.cases)
  case response then show ?thesis
    by (auto simp: dx_handle_response_def requester_receive_response_def dx_settled_def Let_def
        split: GenericDidExchange.splits RequesterState.splits if_splits)
next
  case response_failed then show ?thesis
    by (auto simp: dx_handle_response_def map_err_eq_Err dest: requester_keeps_state
        split: GenericDidExchange.splits RequesterState.splits if_splits)
next
  case complete then show ?thesis
    by (auto simp: dx_handle_complete_def responder_receive_complete_def dx_settled_def
        split: GenericDidExchange.splits ResponderState.splits if_splits)
next
  case complete_failed then show ?thesis
    by (auto simp: dx_handle_complete_def responder_receive_complete_def dx_settled_def
        split: GenericDidExchange.splits ResponderState.splits if_splits)
next
  case report then show ?thesis
    by (auto simp: dx_handle_problem_report_def dx_receive_problem_report_def dx_settled_def
        split: GenericDidExchange.splits ResponderState.splits RequesterState.splits)
next
  case report_failed then show ?thesis
    by (auto simp: dx_handle_problem_report_def dx_receive_problem_report_def dx_settled_def
        split: GenericDidExchange.splits ResponderState.splits RequesterState.splits)
qed

text \<open>
  C29. An exchange terminates: among the operations only finitely many, in fact at most one, change it, in any
  order of messages, whatever they contain. A settled exchange is never changed again.
\<close>

theorem did_exchange_terminates:
  "wfp (\<lambda>g' g. dx_step N Z J G W g g' \<and> g' \<noteq> g)"
proof (rule wfp_if_convertible_to_nat)
  show "(if dx_settled g' then 0 else 1) < (if dx_settled g then 0 else (1::nat))"
    if "dx_step N Z J G W g g' \<and> g' \<noteq> g" for g' g
    using that by (auto dest!: dx_step_move)
qed

text \<open>
  Over a whole run the role and the thread of an exchange never change, and it is still the same exchange
  or it has settled, once and for all.
\<close>

theorem did_exchange_settles_once:
  assumes "(dx_step N Z J G W)\<^sup>*\<^sup>* g g'"
  shows "dx_thread_id g' = dx_thread_id g \<and> is_requester g' = is_requester g \<and>
    (g' = g \<or> \<not> dx_settled g \<and> dx_settled g')"
  using assms by (induction rule: rtranclp_induct) (auto dest!: dx_step_move)

section \<open>Two honest parties complete\<close>

text \<open>What the parties need: resolvers that know the DIDs, DIDs whose text is read back, documents that survive.\<close>

definition registry_reads :: "'m ResolverRegistry \<Rightarrow> Did \<Rightarrow> DidDocument \<Rightarrow> bool" where
  "registry_reads G did doc \<longleftrightarrow> (\<exists>out. registry_resolve G did [] = Ok out \<and> ro_did_document out = doc)"

definition did_reads :: "nom \<Rightarrow> Did \<Rightarrow> bool" where
  "did_reads N did \<longleftrightarrow> parse_did N (did_text did) = Ok did \<and> utf8_valid (did_text did)"

definition document_reads :: "ddoc_ext \<Rightarrow> DidDocument \<Rightarrow> bool" where
  "document_reads J doc \<longleftrightarrow> (\<exists>t. dj_ser_doc J doc = Ok t \<and> dj_de_doc J t = Ok doc)"

lemma construct_request_sel:
  "get_version (construct_request uuid now i d l v) = v"
  "mp_id (variant_inner (construct_request uuid now i d l v)) = uuid"
  "xq_did (mp_content (variant_inner (construct_request uuid now i d l v))) = d"
  "xq_did_doc (mp_content (variant_inner (construct_request uuid now i d l v))) = None"
  "Option.bind (od_thread (mp_decorators (variant_inner (construct_request uuid now i d l v)))) pthid = i"
  by (cases v; simp add: construct_request_def dx_thread_def split: option.split)+

text \<open>The responder answers: its attachment is its document or its DID, signed.\<close>

definition dx_response ::
  "string \<Rightarrow> DateTime \<Rightarrow> string option \<Rightarrow> string \<Rightarrow> Did \<Rightarrow> Attachment \<Rightarrow> DidExchangeTypeV1 \<Rightarrow> AnyResponse" where
  "dx_response uuid now i request_id did a v = (case v of
     DidExchangeV1_1 \<Rightarrow> Variant_V1_1 (construct_response_v1_1 uuid now i request_id did a)
   | DidExchangeV1_0 \<Rightarrow> Variant_V1_0 (construct_response_v1_0 uuid now i request_id did a))"

lemma responder_answers:
  assumes did: "did_reads N d1" "registry_reads G d1 doc1"
    and own: "resolve_did_doc N K P C p2 = Ok doc2" "document_reads J doc2"
    and sign: "ky_type key = Ed25519" "DidKey_of_key N K key = Ok dk" "\<And>m. \<exists>s. wl_sign V v key m = Ok s"
  obtains t a where "dx_handle_request E N K C P Z J G V v uuid now (construct_request i0 now0 i (did_text d1) l ver) p2 key =
      Ok (Responder (Rp_ResponseSent \<lparr>dx_state = \<lparr>dxr_request_id = i0\<rparr>, dx_our_did_document = doc2,
        dx_their_did_document = doc1\<rparr>), dx_response uuid now i i0 (pd4_did p2) a ver)"
    "jws_sign_attach E N K Z V v (base64_attachment (wr_b64url_encode Z t)) key = Ok a"
    "case ver of DidExchangeV1_1 \<Rightarrow> t = did_text (pd4_did p2) | DidExchangeV1_0 \<Rightarrow> dj_de_doc J t = Ok doc2"
proof -
  let ?r = "construct_request i0 now0 i (did_text d1) l ver"
  from did have ddo: "resolve_ddo_from_request N Z J G (variant_inner ?r) = Ok doc1"
    by (auto simp: resolve_ddo_from_request_def did_reads_def registry_reads_def construct_request_sel from_parse_error_def)
  from own(2) obtain t0 where t0: "dj_ser_doc J doc2 = Ok t0" "dj_de_doc J t0 = Ok doc2" by (auto simp: document_reads_def)
  let ?t = "case ver of DidExchangeV1_1 \<Rightarrow> did_text (pd4_did p2) | DidExchangeV1_0 \<Rightarrow> t0"
  from jws_sign_succeeds [OF sign, where E = E and Z = Z and t = "wr_b64url_encode Z ?t"] obtain a where
    a: "jws_sign_attach E N K Z V v (base64_attachment (wr_b64url_encode Z ?t)) key = Ok a" ..
  have "dx_handle_request E N K C P Z J G V v uuid now ?r p2 key =
      Ok (Responder (Rp_ResponseSent \<lparr>dx_state = \<lparr>dxr_request_id = i0\<rparr>, dx_our_did_document = doc2,
        dx_their_did_document = doc1\<rparr>), dx_response uuid now i i0 (pd4_did p2) a ver)"
    using ddo own(1) a t0
    by (cases ver) (simp_all add: dx_handle_request_def responder_receive_request_def construct_request_sel dx_response_def
        assemble_did_rotate_attachment_def ddo_to_attach_def Let_def)
  from this a show ?thesis by (rule that) (cases ver; simp add: t0)
qed

text \<open>The requester accepts it.\<close>

lemma requester_accepts:
  assumes laws: "b64url_inverse Z" "b64url_unpadded Z" "signatures_accepted V W"
    and sign: "jws_sign_attach E N K Z V v (base64_attachment (wr_b64url_encode Z t)) key = Ok a"
    and t: "case ver of DidExchangeV1_1 \<Rightarrow> t = did_text d2 | DidExchangeV1_0 \<Rightarrow> dj_de_doc J t = Ok doc2"
    and did: "did_reads N d2" "registry_reads G d2 doc2" "doc_id doc2 = d2"
  shows "dx_handle_response N Z J G W w uuid now (Requester (Rq_RequestSent
      \<lparr>dx_state = \<lparr>dxq_request_id = i0, dxq_invitation_id = i\<rparr>, dx_our_did_document = doc1, dx_their_did_document = x\<rparr>))
      key (dx_response uuid' now' i i0 d2 a ver) =
    Ok (Requester (Rq_Completed \<lparr>dx_state = \<lparr>dxc_request_id = i0\<rparr>, dx_our_did_document = doc1,
      dx_their_did_document = doc2\<rparr>), construct_didexchange_complete uuid now i i0 ver)"
proof -
  let ?r = "any_response_into_v1_1 (dx_response uuid' now' i i0 d2 a ver)"
  note jws = jws_roundtrip [OF laws sign]
  have "extract_and_verify_responder_did_doc N Z J G W w key ?r = Ok doc2"
  proof (cases ver)
    case DidExchangeV1_1
    with jws t laws(1) did show ?thesis
      by (auto simp: extract_and_verify_responder_did_doc_def dx_response_def construct_response_v1_1_def b64url_inverse_def
          did_reads_def registry_reads_def from_utf8_def from_parse_error_def)
  next
    case DidExchangeV1_0
    with jws t laws(1) did show ?thesis
      by (auto simp: extract_and_verify_responder_did_doc_def dx_response_def construct_response_v1_0_def
          response_into_v1_1_def b64url_inverse_def attachment_to_diddoc_def)
  qed
  moreover have "thid (ak_thread (mp_decorators ?r)) = i0" "get_version (dx_response uuid' now' i i0 d2 a ver) = ver"
    by (cases ver; simp add: dx_response_def construct_response_v1_1_def construct_response_v1_0_def
        response_into_v1_1_def dx_thread_def split: option.split)+
  ultimately show ?thesis by (simp add: dx_handle_response_def requester_receive_response_def Let_def)
qed

lemma resolved_id:
  assumes "resolve_did_doc N K P C p = Ok doc"
  shows "doc_id doc = pd4_did p"
proof -
  from assms obtain enc where c: "contextualize_to_did_doc N C p enc = (Ok doc :: (DidPeerError, DidDocument) result)"
    by (auto simp: resolve_did_doc_def)
  then obtain s :: Did where s: "short_form N p = (Ok s :: (DidPeerError, Did) result)"
    by (auto simp: contextualize_to_did_doc_def Let_def)
  from c s obtain u where "Uri_new C (did_text s) = Ok u"
    by (cases "Uri_new C (did_text s)") (auto simp: contextualize_to_did_doc_def Let_def)
  with contextualize_eq [OF s this, of enc] c show ?thesis by auto
qed

text \<open>
  C5. Two honest parties complete an exchange, in either version: the responder answers the request, the
  requester accepts the answer and the responder the completion. Both end completed on the thread of the
  request, and each holds the document the DID of the other resolves to.
\<close>

theorem did_exchange_completes:
  assumes laws: "b64url_inverse Z" "b64url_unpadded Z" "signatures_accepted V W"
    and requester: "registry_resolve G their_did [] = Ok out" "resolve_did_doc N K P C p1 = Ok doc1"
      "did_reads N (pd4_did p1)" "registry_reads G (pd4_did p2) doc2"
    and responder: "resolve_did_doc N K P C p2 = Ok doc2" "did_reads N (pd4_did p2)" "registry_reads H (pd4_did p1) doc1"
      "document_reads J doc2" "ky_type key = Ed25519" "DidKey_of_key N K key = Ok dk" "\<And>m. \<exists>s. wl_sign V v key m = Ok s"
  shows "\<exists>q request r response q' complete r'.
    dx_construct_request N K C P G i0 now0 i their_did p1 label ver = Ok (q, request) \<and>
    dx_handle_request E N K C P Z J H V v i1 now1 request p2 key = Ok (r, response) \<and>
    dx_handle_response N Z J G W w i2 now2 q key response = Ok (q', complete) \<and>
    dx_handle_complete r (variant_inner complete) = Ok r' \<and>
    get_version request = ver \<and> get_version response = ver \<and> get_version complete = ver \<and>
    dx_get_state q' = Dx_Completed \<and> dx_get_state r' = Dx_Completed \<and>
    dx_thread_id q' = i0 \<and> dx_thread_id r' = i0 \<and>
    our_did_document q' = (Ok doc1 :: (unit, DidDocument) result) \<and>
    their_did_document q' = (Ok doc2 :: (unit, DidDocument) result) \<and>
    our_did_document r' = (Ok doc2 :: (unit, DidDocument) result) \<and>
    their_did_document r' = (Ok doc1 :: (unit, DidDocument) result)"
proof -
  let ?q = "Requester (Rq_RequestSent \<lparr>dx_state = \<lparr>dxq_request_id = i0, dxq_invitation_id = i\<rparr>,
    dx_our_did_document = doc1, dx_their_did_document = ro_did_document out\<rparr>)"
  let ?request = "construct_request i0 now0 i (did_text (pd4_did p1)) label ver"
  have start: "dx_construct_request N K C P G i0 now0 i their_did p1 label ver = Ok (?q, ?request)"
    using requester(1,2)
    by (simp add: dx_construct_request_def requester_construct_request_def construct_request_sel Let_def)
  obtain t a where answer: "dx_handle_request E N K C P Z J H V v i1 now1 ?request p2 key =
      Ok (Responder (Rp_ResponseSent \<lparr>dx_state = \<lparr>dxr_request_id = i0\<rparr>, dx_our_did_document = doc2,
        dx_their_did_document = doc1\<rparr>), dx_response i1 now1 i i0 (pd4_did p2) a ver)"
    and a: "jws_sign_attach E N K Z V v (base64_attachment (wr_b64url_encode Z t)) key = Ok a"
      "case ver of DidExchangeV1_1 \<Rightarrow> t = did_text (pd4_did p2) | DidExchangeV1_0 \<Rightarrow> dj_de_doc J t = Ok doc2"
    by (rule responder_answers [OF requester(3) responder(3,1,4,5,6,7)])
  note accept = requester_accepts [OF laws a responder(2) requester(4) resolved_id [OF responder(1)]]
  have "thid (ak_thread (mp_decorators (variant_inner (construct_didexchange_complete i2 now2 i i0 ver)))) = i0"
    "get_version (construct_didexchange_complete i2 now2 i i0 ver) = ver"
    "get_version (dx_response i1 now1 i i0 (pd4_did p2) a ver) = ver"
    by (cases ver; simp add: construct_didexchange_complete_def dx_response_def dx_thread_def split: option.split)+
  with start answer accept show ?thesis
    by (simp add: construct_request_sel dx_handle_complete_def responder_receive_complete_def)
qed

section \<open>A concrete instance\<close>

lemma plain_ascii: "plain s \<Longrightarrow> c \<in> set s \<Longrightarrow> of_char c \<le> (127 :: nat)"
  by (auto simp: plain_def alphanumeric_def in_range_def)

lemma created_reads:
  assumes "reads_peer4 N" "plain_multibase K" "PeerDid4_new N K P d = Ok p"
  shows "did_reads N (pd4_did p)" "did_method (pd4_did p) = Some ''peer''"
proof -
  from peer4_parts [OF assms] obtain t hash where
    dtxt: "did_text (pd4_did p) = ''did:peer:4'' @ hash @ '':'' @ kx_mb_encode K (MULTICODEC_JSON_VARINT @ t)" and
    hash: "hash = kx_mb_encode K (MULTIHASH_SHA2_256 @ pe_sha256 P (kx_mb_encode K (MULTICODEC_JSON_VARINT @ t)))"
    by metis
  have pl: "plain (kx_mb_encode K b)" for b using assms(2) by (simp add: plain_multibase_def)
  from parse_peer4 [OF assms(1), of hash "'':'' @ kx_mb_encode K (MULTICODEC_JSON_VARINT @ t)"] pl hash
  obtain q where q: "parse_did N (did_text (pd4_did p)) = Ok q" "did_method q = Some ''peer''"
    by (auto simp: dtxt)
  from assms(3) obtain s where "parse_did N s = Ok (pd4_did p)" by (auto simp: PeerDid4_new_def Let_def)
  with parse_did_text [OF this] q have pq: "parse_did N (did_text (pd4_did p)) = Ok (pd4_did p)" "q = pd4_did p" by auto
  have "utf8_valid (did_text (pd4_did p))"
    by (intro utf8_valid_ascii) (auto simp: dtxt hash intro: plain_ascii [OF pl])
  with pq q show "did_reads N (pd4_did p)" "did_method (pd4_did p) = Some ''peer''" by (simp_all add: did_reads_def)
qed

definition dx_wire :: wire where
  "dx_wire = (sample_wire sample_con_data)\<lparr>wr_b64url_encode := letters,
     wr_b64url_decode := (\<lambda>s. map_err (\<lambda>e. \<lparr>se_display = e, se_debug = e\<rparr>) (unletters s))\<rparr>"

definition one_registry :: "DidDocument \<Rightarrow> unit ResolverRegistry" where
  "one_registry doc = [''peer'' \<mapsto> (\<lambda>_ _. Ok \<lparr>ro_did_document = doc, ro_metadata = ()\<rparr>)]"

definition one_ddoc :: "DidDocument \<Rightarrow> ddoc_ext" where
  "one_ddoc doc = \<lparr>dj_show_doc = (\<lambda>_. []), dj_debug_attach = (\<lambda>_. []), dj_ser_doc = (\<lambda>_. Ok ''doc''),
     dj_de_doc_value = (\<lambda>_. Ok doc), dj_de_doc = (\<lambda>_. Ok doc)\<rparr>"

abbreviation sample_vk :: Key where
  "sample_vk \<equiv> \<lparr>ky_type = Ed25519, ky_bytes = sample_verkey\<rparr>"

lemma dx_wire_laws: "b64url_inverse dx_wire" "b64url_unpadded dx_wire" "signatures_accepted sample_wallet sample_wallet"
proof -
  have "\<not> alphanumeric (CHR ''='')" by (simp add: alphanumeric_def in_range_def)
  with letters_alphanumeric show "b64url_unpadded dx_wire" by (auto simp: b64url_unpadded_def dx_wire_def)
qed (auto simp: b64url_inverse_def dx_wire_def unletters_letters signatures_accepted_def sample_wallet_def)

lemma sample_dx_signs:
  "ky_type sample_vk = Ed25519" "\<exists>s. wl_sign sample_wallet w sample_vk m = Ok s"
  "\<exists>dk. DidKey_of_key key_nom peer_kx sample_vk = Ok dk"
  by (simp_all add: sample_wallet_def DidKey_of_key_def parse_did_def key_nom_def peer_nom_def sample_nom_def
      to_id_range_def)

lemma sample_dx_did:
  obtains p doc where "resolve_did_doc key_nom peer_kx (one_doc_ext (sample_construction [])) peer_doc_ext p = Ok doc"
    "did_reads key_nom (pd4_did p)" "registry_reads (one_registry doc) (pd4_did p) doc" "document_reads (one_ddoc doc) doc"
proof -
  let ?P = "one_doc_ext (sample_construction [])"
  obtain p where p: "create_peer_did_4 key_nom peer_kx peer_doc_ext ?P sample_wallet 0 ''http://a'' [] = (Ok (p, sample_vk), 1)"
    using sample_created by blast
  obtain u s service where
    "resolve_did_doc key_nom peer_kx ?P peer_doc_ext p = Ok (peer_document p s peer_kx sample_vk u service)"
    by (rule create_peer_did_4_Ok [OF key_nom_laws(1) peer_sample_laws(2,3) sample_reads_uris p sample_survives])
  moreover from p obtain d where "PeerDid4_new key_nom peer_kx ?P d = Ok p"
    by (auto simp: create_peer_did_4_def and_thenw_Ok pure_w_def simp del: and_thenw_pure)
  note created_reads [OF key_nom_laws(1) peer_sample_laws(2) this]
  moreover from this(2) have "registry_reads (one_registry doc) (pd4_did p) doc" for doc
    by (simp add: registry_reads_def registry_resolve_def one_registry_def)
  moreover have "document_reads (one_ddoc doc) doc" for doc by (simp add: document_reads_def one_ddoc_def)
  ultimately show ?thesis by (intro that)
qed

theorem did_exchange_completes_witness:
  "\<exists>p doc q request r response q' complete r'.
     dx_construct_request key_nom peer_kx peer_doc_ext (one_doc_ext (sample_construction [])) (one_registry doc)
       ''id'' 0 None (pd4_did p) p ''label'' DidExchangeV1_1 = Ok (q, request) \<and>
     dx_handle_request (sample_ext (\<lambda>_. Ok JNull)) key_nom peer_kx peer_doc_ext (one_doc_ext (sample_construction []))
       dx_wire (one_ddoc doc) (one_registry doc) sample_wallet 0 ''id1'' 0 request p sample_vk = Ok (r, response) \<and>
     dx_handle_response key_nom dx_wire (one_ddoc doc) (one_registry doc) sample_wallet 0 ''id2'' 0 q sample_vk
       response = Ok (q', complete) \<and>
     dx_handle_complete r (variant_inner complete) = Ok r' \<and> dx_get_state q' = Dx_Completed"
proof -
  obtain p doc where s: "resolve_did_doc key_nom peer_kx (one_doc_ext (sample_construction [])) peer_doc_ext p = Ok doc"
    "did_reads key_nom (pd4_did p)" "registry_reads (one_registry doc) (pd4_did p) doc" "document_reads (one_ddoc doc) doc"
    by (rule sample_dx_did)
  from s(3) obtain out where out: "registry_resolve (one_registry doc) (pd4_did p) [] = Ok out"
    by (auto simp: registry_reads_def)
  obtain dk where dk: "DidKey_of_key key_nom peer_kx sample_vk = Ok dk" using sample_dx_signs(3) ..
  from did_exchange_completes [OF dx_wire_laws out s(1,2,3) s(1,2,3) s(4) sample_dx_signs(1) dk sample_dx_signs(2)]
  show ?thesis by meson
qed

theorem did_exchange_response_authentic_witness:
  "\<exists>a content. signed_by dx_wire sample_wallet 0 sample_vk a content"
proof -
  obtain p doc where s: "resolve_did_doc key_nom peer_kx (one_doc_ext (sample_construction [])) peer_doc_ext p = Ok doc"
    "did_reads key_nom (pd4_did p)" "registry_reads (one_registry doc) (pd4_did p) doc" "document_reads (one_ddoc doc) doc"
    by (rule sample_dx_did)
  obtain dk where dk: "DidKey_of_key key_nom peer_kx sample_vk = Ok dk" using sample_dx_signs(3) ..
  let ?t = "wr_b64url_encode dx_wire (did_text (pd4_did p))"
  obtain a where a: "jws_sign_attach (sample_ext (\<lambda>_. Ok JNull)) key_nom peer_kx dx_wire sample_wallet 0
      (base64_attachment ?t) sample_vk = Ok a"
    using jws_sign_succeeds [OF sample_dx_signs(1) dk sample_dx_signs(2)] by blast
  have "case DidExchangeV1_1 of DidExchangeV1_1 \<Rightarrow> did_text (pd4_did p) = did_text (pd4_did p)
      | DidExchangeV1_0 \<Rightarrow> dj_de_doc (one_ddoc doc) (did_text (pd4_did p)) = Ok doc" by simp
  then have "\<exists>g c. dx_handle_response key_nom dx_wire (one_ddoc doc) (one_registry doc) sample_wallet 0 ''id2'' 0
      (Requester (Rq_RequestSent \<lparr>dx_state = \<lparr>dxq_request_id = ''id'', dxq_invitation_id = None\<rparr>, dx_our_did_document = doc,
        dx_their_did_document = doc\<rparr>)) sample_vk (dx_response ''id1'' 0 None ''id'' (pd4_did p) a DidExchangeV1_1) = Ok (g, c)"
    using requester_accepts [OF dx_wire_laws a _ s(2,3) resolved_id [OF s(1)]] by blast
  then obtain g c where "dx_handle_response key_nom dx_wire (one_ddoc doc) (one_registry doc) sample_wallet 0 ''id2'' 0
      (Requester (Rq_RequestSent \<lparr>dx_state = \<lparr>dxq_request_id = ''id'', dxq_invitation_id = None\<rparr>, dx_our_did_document = doc,
        dx_their_did_document = doc\<rparr>)) sample_vk (dx_response ''id1'' 0 None ''id'' (pd4_did p) a DidExchangeV1_1) = Ok (g, c)"
    by blast
  from did_exchange_response_authentic [OF this] show ?thesis by blast
qed

theorem did_exchange_settles_once_witness:
  "\<exists>g g'. (dx_step key_nom dx_wire (one_ddoc (DidDocument_new sample_did)) (one_registry (DidDocument_new sample_did)) sample_wallet)\<^sup>*\<^sup>* g g' \<and> g' \<noteq> g \<and>
     dx_settled g' \<and> \<not> dx_settled g \<and> dx_thread_id g' = ''id''"
proof -
  let ?doc = "DidDocument_new sample_did"
  let ?g = "Responder (Rp_ResponseSent \<lparr>dx_state = \<lparr>dxr_request_id = ''id''\<rparr>, dx_our_did_document = ?doc,
    dx_their_did_document = ?doc\<rparr>)"
  let ?p = "\<lparr>mp_id = ''p'', mp_content = \<lparr>cp_problem_code = None, cp_explain = Some ''no''\<rparr>,
    mp_decorators = \<lparr>cpd_thread = new_thread ''id'', cpd_localization = None, cpd_timing = None\<rparr>\<rparr>"
  obtain g' where g': "dx_handle_problem_report ?g ?p = Ok g'" "g' \<noteq> ?g"
    by (simp add: dx_handle_problem_report_def)
  then have "(dx_step key_nom dx_wire (one_ddoc (DidDocument_new sample_did)) (one_registry (DidDocument_new sample_did)) sample_wallet)\<^sup>*\<^sup>* ?g g'"
    by (blast intro: dx_step.report)
  with did_exchange_settles_once [OF this] g'(2) show ?thesis by auto
qed

end
