(* ===== verification/Registry_Data.thy ===== *)
theory Registry_Data
  imports Anoncreds_Types Did_Parser
begin

text \<open>
  Ledger objects of the anoncreds back end and the pure functions on them: schemas and registry
  definitions (\<open>anoncreds_types/src/data_types/ledger\<close>), the identifiers made from a DID
  (\<open>make_schema_id\<close> and its relatives, \<open>schema_parts\<close>), and the conversions between a revocation
  delta and a revocation status list (\<open>anoncreds_types/src/utils/conversions.rs\<close> and
  \<open>anoncreds/mod.rs\<close>). A \<open>BitVec\<close> is a list of booleans; its \<open>insert\<close>, which moves everything
  behind the position by one, belongs to the crate \<open>bitvec\<close> and is the argument \<open>ins\<close>.
\<close>

section \<open>Objects\<close>

definition validate_issuer_id :: "string \<Rightarrow> (at_error, unit) result" where
  "validate_issuer_id s =
     (if URI_IDENTIFIER s then Ok ()
      else if LEGACY_DID_IDENTIFIER s then Ok ()
      else Err (invalid_id ''IssuerId'' s))"

definition IssuerId_new :: "string \<Rightarrow> (at_error, string) result" where
  "IssuerId_new s = and_then (validate_issuer_id s) (\<lambda>_. Ok s)"

record LedgerSchema =
  sch_id :: SchemaId
  sch_seq_no :: "u32 option"
  sch_name :: string
  sch_version :: string
  sch_attr_names :: "string list"
  sch_issuer_id :: string

definition MAX_ATTRIBUTES_COUNT :: nat where
  "MAX_ATTRIBUTES_COUNT = 125"

definition validate_attribute_names :: "string list \<Rightarrow> (at_error, unit) result" where
  "validate_attribute_names names =
     (if \<not> distinct names then Err (at_error_msg At_Input ''Attributes inside the schema must be unique'')
      else if names = [] then Err (at_error_msg At_Input ''Empty list of Schema attributes has been passed'')
      else if length names > MAX_ATTRIBUTES_COUNT then
        Err (at_error_msg At_Input (''The number of Schema attributes '' @ show_nat (length names)
          @ '' cannot be greater than '' @ show_nat MAX_ATTRIBUTES_COUNT))
      else Ok ())"

definition validate_schema :: "LedgerSchema \<Rightarrow> (at_error, unit) result" where
  "validate_schema self =
     and_then (validate_issuer_id (sch_issuer_id self)) (\<lambda>_.
     and_then (validate_attribute_names (sch_attr_names self)) (\<lambda>_. Ok ()))"

text \<open>\<open>RegistryType\<close> and \<open>SignatureType\<close> have one value each and are left out.\<close>

record CredentialDefinition =
  cdf_id :: CredentialDefinitionId
  cdf_schema_id :: SchemaId
  cdf_tag :: string
  cdf_value :: json
  cdf_issuer_id :: string

record RevRegDef =
  rgd_id :: RevocationRegistryDefinitionId
  rgd_issuer_id :: string
  rgd_tag :: string
  rgd_cred_def_id :: CredentialDefinitionId
  rgd_max_cred_num :: u32
  rgd_public_keys :: json
  rgd_tails_hash :: string
  rgd_tails_location :: string

record RevStatusList =
  rsl_rev_reg_def_id :: "RevocationRegistryDefinitionId option"
  rsl_issuer_id :: string
  rsl_revocation_list :: "bool list"
  rsl_accum :: "json option"
  rsl_timestamp :: "u64 option"

definition RevStatusList_new ::
  "string option \<Rightarrow> string \<Rightarrow> bool list \<Rightarrow> json option \<Rightarrow> u64 option \<Rightarrow> (at_error, RevStatusList) result" where
  "RevStatusList_new rev_reg_def_id issuer_id revocation_list registry timestamp =
     and_then (transpose_opt (map_option RevocationRegistryDefinitionId_new rev_reg_def_id)) (\<lambda>i.
     Ok \<lparr>rsl_rev_reg_def_id = i, rsl_issuer_id = issuer_id, rsl_revocation_list = revocation_list,
       rsl_accum = registry, rsl_timestamp = timestamp\<rparr>)"

lemma validate_attribute_names_iff:
  "validate_attribute_names names = Ok () \<longleftrightarrow> distinct names \<and> names \<noteq> [] \<and> length names \<le> 125"
  by (simp add: validate_attribute_names_def MAX_ATTRIBUTES_COUNT_def)

section \<open>Status lists and deltas\<close>

definition mark_bit ::
  "(bool list \<Rightarrow> nat \<Rightarrow> bool \<Rightarrow> bool list) \<Rightarrow> nat \<Rightarrow> string \<Rightarrow> bool \<Rightarrow> bool list \<Rightarrow> u32 \<Rightarrow> (at_error, bool list) result" where
  "mark_bit ins revocation_len what flag revocation_list i =
     (if revocation_len \<le> unat i then
        Err (at_error_msg At_ConversionError
          (''Error whilst constructing a revocation status list from the ledger's delta. ''
            @ ''Ledger delta reported an '' @ what @ '' for cred_rev_id ''
            @ [CHR 0x27] @ show_u32 i @ [CHR 0x27] @ '', but the ''
            @ ''revocation_list max size is '' @ show_nat revocation_len))
      else Ok (ins revocation_list (unat i) flag))"

definition status_list_of_delta ::
  "(bool list \<Rightarrow> nat \<Rightarrow> bool \<Rightarrow> bool list) \<Rightarrow> RevocationRegistryDelta \<Rightarrow> u64 \<Rightarrow> RevocationRegistryDefinitionId \<Rightarrow>
   nat \<Rightarrow> string \<Rightarrow> (at_error, RevStatusList) result" where
  "status_list_of_delta ins delta timestamp rev_reg_id max_cred_num issuer_id =
     (let revocation_list = replicate max_cred_num False; revocation_len = length revocation_list
      in and_then (try_fold (mark_bit ins revocation_len ''issuance'' False) revocation_list (rrd_issued delta))
        (\<lambda>revocation_list.
      and_then (try_fold (mark_bit ins revocation_len ''revocation'' True) revocation_list (rrd_revoked delta))
        (\<lambda>revocation_list.
      RevStatusList_new (Some rev_reg_id) issuer_id revocation_list (Some (rrd_accum delta)) (Some timestamp))))"

definition revoked_indices :: "bool list \<Rightarrow> u32 list" where
  "revoked_indices state = map of_nat (filter (\<lambda>idx. state ! idx) [0..<length state])"

definition delta_of_status_list ::
  "RevStatusList \<Rightarrow> json option \<Rightarrow> (VcxAnoncredsError, RevocationRegistryDelta) result" where
  "delta_of_status_list rev_status_list prev_accum =
     and_then (ok_or (rsl_accum rev_status_list) (Ae_InvalidState
       (''Revocation registry delta cannot be created from revocation status list without ''
         @ ''accumulator''))) (\<lambda>accum.
     Ok \<lparr>rrd_prev_accum = prev_accum, rrd_accum = accum, rrd_issued = [],
       rrd_revoked = revoked_indices (rsl_revocation_list rev_status_list)\<rparr>)"

section \<open>Identifiers\<close>

definition method_prefix :: "string \<Rightarrow> Did \<Rightarrow> string" where
  "method_prefix kind did = (case did_method did of
     Some method \<Rightarrow> kind @ '':'' @ method @ '':'' | None \<Rightarrow> [])"

text \<open>\<open>unwrap\<close> on a rejected identifier panics.\<close>

definition unwrap_id :: "(at_error, string) result \<Rightarrow> ('e, string) result" where
  "unwrap_id r = (case r of Ok i \<Rightarrow> Ok i | _ \<Rightarrow> Panic)"

definition make_schema_id :: "Did \<Rightarrow> string \<Rightarrow> string \<Rightarrow> ('e, SchemaId) result" where
  "make_schema_id did name version =
     (let prefix = method_prefix ''schema'' did;
          i = prefix @ did_text did @ '':2:'' @ name @ '':'' @ version
      in unwrap_id (SchemaId_new i))"

definition make_credential_definition_id ::
  "Did \<Rightarrow> SchemaId \<Rightarrow> u32 option \<Rightarrow> string \<Rightarrow> ('e, CredentialDefinitionId) result" where
  "make_credential_definition_id origin_did schema_id schema_seq_no tag =
     (let tag = (if tag = [] then [] else '':'' @ tag);
          prefix = method_prefix ''creddef'' origin_did;
          schema_infix_id = (case schema_seq_no of Some n \<Rightarrow> show_u32 n | None \<Rightarrow> schema_id);
          i = prefix @ did_text origin_did @ '':3:'' @ ''CL'' @ '':'' @ schema_infix_id @ tag
      in unwrap_id (CredentialDefinitionId_new i))"

definition make_revocation_registry_id ::
  "Did \<Rightarrow> CredentialDefinitionId \<Rightarrow> string \<Rightarrow> ('e, RevocationRegistryDefinitionId) result" where
  "make_revocation_registry_id origin_did cred_def_id tag =
     unwrap_id (RevocationRegistryDefinitionId_new
       (method_prefix ''revreg'' origin_did @ did_text origin_did @ '':4:'' @ cred_def_id @ '':''
         @ ''CL_ACCUM'' @ '':'' @ tag))"

text \<open>\<open>split_terminator\<close>: as \<open>split\<close>, without the last part when it is empty.\<close>

definition split_terminator :: "char \<Rightarrow> string \<Rightarrow> string list" where
  "split_terminator c s = (let ps = split_char c s in if last ps = [] then butlast ps else ps)"

definition schema_parts :: "nom \<Rightarrow> string \<Rightarrow> (string option \<times> Did \<times> string \<times> string) option" where
  "schema_parts N i =
     (let parts = split_terminator (CHR '':'') i
      in if length parts = 1 then None
         else if length parts = 4 then
           (case parse_did N (parts ! 0) of
              Ok did \<Rightarrow> Some (None, did, parts ! 2, parts ! 3)
            | _ \<Rightarrow> None)
         else if length parts = 8 then
           (case parse_did N (parts ! 2 @ '':'' @ parts ! 3 @ '':'' @ parts ! 4) of
              Ok did \<Rightarrow> Some (Some (parts ! 1), did, parts ! 6, parts ! 7)
            | _ \<Rightarrow> None)
         else None)"

section \<open>What a list built from a delta marks\<close>

definition inserts :: "(bool list \<Rightarrow> nat \<Rightarrow> bool \<Rightarrow> bool list) \<Rightarrow> bool" where
  "inserts ins \<longleftrightarrow> (\<forall>l i b. i \<le> length l \<longrightarrow> ins l i b = take i l @ b # drop i l)"

definition marked :: "bool list \<Rightarrow> nat set" where
  "marked l = {i. i < length l \<and> l ! i}"

lemma marked_insert:
  assumes "inserts ins" and "i \<le> length l"
  shows "marked (ins l i True) = insert i {j. j < i \<and> j \<in> marked l} \<union> Suc ` {j. i \<le> j \<and> j \<in> marked l}"
proof -
  have "x \<in> marked (ins l i True) \<longleftrightarrow> x = i \<or> x < i \<and> x \<in> marked l \<or> (\<exists>j. x = Suc j \<and> i \<le> j \<and> j \<in> marked l)" for x
  proof (cases x i rule: linorder_cases)
    case greater
    then obtain j where "x = Suc j" "i \<le> j" by (cases x) auto
    with assms show ?thesis by (auto simp: inserts_def marked_def nth_append Suc_diff_le)
  qed (use assms in \<open>auto simp: inserts_def marked_def nth_append\<close>)
  then show ?thesis by auto
qed

lemma insert_False_replicate: "inserts ins \<Longrightarrow> i \<le> n \<Longrightarrow> ins (replicate n False) i False = replicate (Suc n) False"
  by (simp add: inserts_def flip: replicate_add replicate_Suc)

lemma mark_bit_Ok: "unat i < n \<Longrightarrow> mark_bit ins n w b l i = Ok (ins l (unat i) b)"
  by (simp add: mark_bit_def)

text \<open>Issued indices only make the list longer.\<close>

lemma mark_issued:
  assumes "inserts ins" and "n \<le> m" and "\<forall>i \<in> set is. unat i < n"
  shows "try_fold (mark_bit ins n w False) (replicate m False) is = Ok (replicate (m + length is) False)"
  using assms(2,3)
proof (induction "is" arbitrary: m)
  case (Cons i "is")
  then have "ins (replicate m False) (unat i) False = replicate (Suc m) False"
    by (intro insert_False_replicate [OF assms(1)]) auto
  with Cons.prems Cons.IH [of "Suc m"] show ?case by (simp add: mark_bit_Ok)
qed simp

text \<open>Ascending indices are marked where they are: everything marked so far lies before them.\<close>

lemma mark_ascending:
  assumes "inserts ins" and "n \<le> length l" and "\<forall>i \<in> set is. unat i < n"
    and "sorted_wrt (<) is" and "\<forall>i \<in> set is. \<forall>j \<in> marked l. j < unat i"
  shows "\<exists>l'. try_fold (mark_bit ins n w True) l is = Ok l' \<and> marked l' = marked l \<union> unat ` set is \<and>
    length l' = length l + length is"
  using assms(2-5)
proof (induction "is" arbitrary: l)
  case (Cons i "is")
  let ?l = "ins l (unat i) True"
  have i: "unat i < n" "unat i \<le> length l" using Cons.prems by auto
  have m: "marked ?l = insert (unat i) (marked l)"
    using Cons.prems(4) by (subst marked_insert [OF assms(1) i(2)]) (auto dest: not_less_iff_gr_or_eq [THEN iffD1])
  have len: "length ?l = Suc (length l)" using assms(1) i(2) by (simp add: inserts_def)
  have "\<forall>k \<in> set is. \<forall>j \<in> marked ?l. j < unat k"
    using Cons.prems(3,4) m by (auto simp: word_less_nat_alt)
  with Cons.IH [of ?l] Cons.prems len obtain l' where
    "try_fold (mark_bit ins n w True) ?l is = Ok l'" "marked l' = marked ?l \<union> unat ` set is"
    "length l' = length ?l + length is" by auto
  with i(1) m len show ?case by (simp add: mark_bit_Ok)
qed simp

lemma revoked_indices_marked: "set (revoked_indices l) = of_nat ` marked l"
  by (auto simp: revoked_indices_def marked_def)

lemma marked_indices: "filter (\<lambda>i. l ! i) [0..<length l] = sorted_list_of_set (marked l)"
proof -
  have "marked l = set (filter (\<lambda>i. l ! i) [0..<length l])" by (auto simp: marked_def)
  then show ?thesis
    by (metis distinct_filter distinct_upt sorted_list_of_set.idem_if_sorted_distinct sorted_upt sorted_wrt_filter)
qed

lemma revoked_of_ascending:
  assumes "sorted_wrt (<) is" and "marked l = unat ` set is"
  shows "revoked_indices l = (is :: u32 list)"
proof -
  have s: "sorted_wrt (<) (map unat is)" using assms(1)
    by (simp add: sorted_wrt_map word_less_nat_alt [abs_def])
  then have "sorted (map unat is)" "distinct (map unat is)" using strict_sorted_iff by blast+
  then have "sorted_list_of_set (set (map unat is)) = map unat is"
    by (rule sorted_list_of_set.idem_if_sorted_distinct)
  with assms(2) show ?thesis by (simp add: revoked_indices_def marked_indices comp_def)
qed

lemma status_of_ascending:
  assumes "inserts ins" and "sorted_wrt (<) (rrd_revoked delta)"
    and "\<forall>i \<in> set (rrd_issued delta) \<union> set (rrd_revoked delta). unat i < max_cred_num"
  shows "\<exists>l. marked l = unat ` set (rrd_revoked delta) \<and>
    status_list_of_delta ins delta timestamp rev_reg_id max_cred_num issuer_id =
      RevStatusList_new (Some rev_reg_id) issuer_id l (Some (rrd_accum delta)) (Some timestamp)"
proof -
  let ?r = "replicate (max_cred_num + length (rrd_issued delta)) False"
  have issued: "try_fold (mark_bit ins max_cred_num w False) (replicate max_cred_num False) (rrd_issued delta) = Ok ?r" for w
    using mark_issued [OF assms(1)] assms(3) by simp
  have "marked ?r = {}" by (auto simp: marked_def)
  then obtain l where l: "try_fold (mark_bit ins max_cred_num ''revocation'' True) ?r (rrd_revoked delta) = Ok l"
    "marked l = unat ` set (rrd_revoked delta)"
    using mark_ascending [OF assms(1) _ _ assms(2), of max_cred_num ?r "''revocation''"] assms(3) by auto
  with issued show ?thesis by (intro exI [of _ l]) (simp add: status_list_of_delta_def)
qed

text \<open>
  C37. A delta whose revoked indices are in ascending order becomes the status list that marks exactly
  them, and the status list gives the delta back.
\<close>

theorem ascending_delta_roundtrip:
  assumes "inserts ins" and "sorted_wrt (<) (rrd_revoked delta)"
    and "\<forall>i \<in> set (rrd_issued delta) \<union> set (rrd_revoked delta). unat i < max_cred_num"
    and "RevocationRegistryDefinitionId_new rev_reg_id = Ok rev_reg_id"
  shows "\<exists>l. status_list_of_delta ins delta timestamp rev_reg_id max_cred_num issuer_id = Ok l \<and>
    marked (rsl_revocation_list l) = unat ` set (rrd_revoked delta) \<and>
    delta_of_status_list l prev_accum = Ok (delta\<lparr>rrd_prev_accum := prev_accum, rrd_issued := []\<rparr>)"
proof -
  from status_of_ascending [OF assms(1-3)] obtain l where l: "marked l = unat ` set (rrd_revoked delta)"
    "status_list_of_delta ins delta timestamp rev_reg_id max_cred_num issuer_id =
      RevStatusList_new (Some rev_reg_id) issuer_id l (Some (rrd_accum delta)) (Some timestamp)" by blast
  have "revoked_indices l = rrd_revoked delta" by (rule revoked_of_ascending [OF assms(2) l(1)])
  with l assms(4) show ?thesis by (simp add: RevStatusList_new_def delta_of_status_list_def)
qed

text \<open>A list that could be made marks indices in range only.\<close>

lemma mark_bits_in_range:
  "try_fold (mark_bit ins n w b) l is = Ok l' \<Longrightarrow> \<forall>i \<in> set is. unat i < n"
  by (induction "is" arbitrary: l) (auto simp: mark_bit_def split: if_splits)

lemma status_in_range:
  assumes "status_list_of_delta ins delta timestamp rev_reg_id max_cred_num issuer_id = Ok l"
  shows "\<forall>i \<in> set (rrd_issued delta) \<union> set (rrd_revoked delta). unat i < max_cred_num"
  using assms by (auto simp: status_list_of_delta_def dest!: mark_bits_in_range)

lemma status_of_ascending_Ok:
  assumes "inserts ins" and "sorted_wrt (<) (rrd_revoked delta)"
    and "status_list_of_delta ins delta timestamp rev_reg_id max_cred_num issuer_id = Ok l"
  shows "marked (rsl_revocation_list l) = unat ` set (rrd_revoked delta)"
proof -
  from status_of_ascending [OF assms(1,2) status_in_range [OF assms(3)]] obtain m where
    "marked m = unat ` set (rrd_revoked delta)"
    "RevStatusList_new (Some rev_reg_id) issuer_id m (Some (rrd_accum delta)) (Some timestamp) = Ok l"
    using assms(3) by metis
  then show ?thesis by (auto simp: RevStatusList_new_def)
qed

text \<open>
  Out of order the list marks the wrong index: a credential revoked before one with a smaller
  index counts as valid, and its successor as revoked in its place.
\<close>

theorem unordered_delta_misread:
  assumes "inserts ins" and "b < a" and "unat a < max_cred_num"
    and "rrd_issued delta = []" and "rrd_revoked delta = [a, b]"
    and "RevocationRegistryDefinitionId_new rev_reg_id = Ok rev_reg_id"
  shows "\<exists>l. status_list_of_delta ins delta timestamp rev_reg_id max_cred_num issuer_id = Ok l \<and>
    marked (rsl_revocation_list l) = {unat b, Suc (unat a)}"
proof -
  let ?z = "replicate max_cred_num False" and ?l = "ins (replicate max_cred_num False) (unat a) True"
  have b: "unat b < unat a" using assms(2) by (simp add: word_less_nat_alt)
  have z: "marked ?z = {}" by (auto simp: marked_def)
  have l: "marked ?l = {unat a}" using marked_insert [OF assms(1), of "unat a" ?z] assms(3) z by simp
  have "length ?l = Suc max_cred_num" using assms(1,3) by (simp add: inserts_def)
  then have "marked (ins ?l (unat b) True) = {unat b, Suc (unat a)}"
    using marked_insert [OF assms(1), of "unat b" ?l] b assms(3) l by auto
  with assms(3-6) b show ?thesis
    by (simp add: status_list_of_delta_def RevStatusList_new_def mark_bit_Ok)
qed

section \<open>Schema identifiers\<close>

definition colon_free :: "string \<Rightarrow> bool" where
  "colon_free s \<longleftrightarrow> CHR '':'' \<notin> set s"

lemma split_char_plain: "colon_free s \<Longrightarrow> split_char (CHR '':'') s = [s]"
  by (simp add: colon_free_def split_char_none)

lemma split_char_part: "colon_free a \<Longrightarrow> split_char (CHR '':'') (a @ CHR '':'' # s) = a # split_char (CHR '':'') s"
  by (simp add: colon_free_def split_char_append)

lemma unwrap_id_Ok: "unwrap_id r = Ok i \<longleftrightarrow> r = Ok i"
  by (simp add: unwrap_id_def split: result.splits)

lemma make_schema_id_text:
  "make_schema_id did name version = Ok i \<Longrightarrow>
    i = method_prefix ''schema'' did @ did_text did @ CHR '':'' # CHR ''2'' # CHR '':'' # name @ CHR '':'' # version"
  by (auto simp: make_schema_id_def Let_def unwrap_id_Ok SchemaId_new_def)

lemma split_schema_id:
  assumes "colon_free d" and "colon_free name" and "colon_free version"
  shows "split_char (CHR '':'') (d @ CHR '':'' # CHR ''2'' # CHR '':'' # name @ CHR '':'' # version) =
    [d, ''2'', name, version]"
proof -
  have "split_char (CHR '':'') (''2'' @ CHR '':'' # name @ CHR '':'' # version) = [''2'', name, version]"
    using assms by (subst split_char_part) (simp_all add: colon_free_def split_char_part split_char_plain)
  with assms(1) show ?thesis by (simp add: split_char_part)
qed

text \<open>
  The identifier made for a schema is taken apart again into the method, the DID, the name and
  the version, for an unqualified DID and for one of the form \<open>did:method:id\<close>, if no part has a
  colon of its own.
\<close>

theorem schema_id_roundtrip:
  assumes "make_schema_id did name version = Ok i" and "parse_did N (did_text did) = Ok did"
    and "colon_free name" and "colon_free version" and "version \<noteq> []"
    and "(case did_method did of None \<Rightarrow> colon_free (did_text did)
        | Some m \<Rightarrow> colon_free m \<and> (\<exists>x. colon_free x \<and> did_text did = ''did:'' @ m @ '':'' @ x))"
  shows "schema_parts N i = Some (did_method did, did, name, version)"
proof (cases "did_method did")
  case None
  with make_schema_id_text [OF assms(1)] assms(2-6) show ?thesis
    by (simp add: schema_parts_def method_prefix_def split_terminator_def split_schema_id Let_def)
next
  case (Some m)
  with assms(6) obtain x where m: "colon_free m" "colon_free x" and d: "did_text did = ''did:'' @ m @ '':'' @ x" by auto
  let ?rest = "CHR '':'' # CHR ''2'' # CHR '':'' # name @ CHR '':'' # version"
  have p: "colon_free ''schema''" "colon_free ''did''" by (simp_all add: colon_free_def)
  have i: "i = ''schema'' @ CHR '':'' # m @ CHR '':'' # ''did'' @ CHR '':'' # m @ CHR '':'' # x @ ?rest"
    using make_schema_id_text [OF assms(1)] Some d by (simp add: method_prefix_def)
  have t: "split_char (CHR '':'') (x @ ?rest) = [x, ''2'', name, version]"
    by (rule split_schema_id [OF m(2) assms(3,4)])
  have "split_terminator (CHR '':'') i = [''schema'', m, ''did'', m, x, ''2'', name, version]"
    unfolding i split_terminator_def using p m t assms(5) by (simp only: split_char_part) simp
  with d assms(2) Some show ?thesis by (simp add: schema_parts_def)
qed

text \<open>
  The identifier of a schema of a DID with a namespace, such as \<open>did:indy:sovrin:...\<close>, has nine
  parts and cannot be taken apart.
\<close>

theorem namespaced_schema_id_unreadable:
  assumes "make_schema_id did name version = Ok i" and "did_method did = Some m"
    and "did_text did = ''did:'' @ m @ '':'' @ ns @ '':'' @ x"
    and "colon_free m" and "colon_free ns" and "colon_free x" and "colon_free name" and "colon_free version" and "version \<noteq> []"
  shows "schema_parts N i = None"
proof -
  let ?rest = "CHR '':'' # CHR ''2'' # CHR '':'' # name @ CHR '':'' # version"
  have p: "colon_free ''schema''" "colon_free ''did''" by (simp_all add: colon_free_def)
  have i: "i = ''schema'' @ CHR '':'' # m @ CHR '':'' # ''did'' @ CHR '':'' # m @ CHR '':'' # ns @ CHR '':'' # x @ ?rest"
    using make_schema_id_text [OF assms(1)] assms(2,3) by (simp add: method_prefix_def)
  have t: "split_char (CHR '':'') (x @ ?rest) = [x, ''2'', name, version]"
    by (rule split_schema_id [OF assms(6-8)])
  have "split_terminator (CHR '':'') i = [''schema'', m, ''did'', m, ns, x, ''2'', name, version]"
    unfolding i split_terminator_def using p assms(4,5,9) t by (simp only: split_char_part) simp
  then show ?thesis by (simp add: schema_parts_def)
qed

section \<open>Concrete instances\<close>

definition sample_ins :: "bool list \<Rightarrow> nat \<Rightarrow> bool \<Rightarrow> bool list" where
  "sample_ins l i b = take i l @ b # drop i l"

lemma sample_inserts [simp]: "inserts sample_ins"
  by (simp add: inserts_def sample_ins_def)

definition sample_delta :: "u32 list \<Rightarrow> RevocationRegistryDelta" where
  "sample_delta r = \<lparr>rrd_prev_accum = None, rrd_accum = JNull, rrd_issued = [], rrd_revoked = r\<rparr>"

lemma sample_registry_id: "RevocationRegistryDefinitionId_new ''r:1'' = Ok ''r:1''"
  by (simp add: RevocationRegistryDefinitionId_new_def validate_rev_reg_def_id_def URI_IDENTIFIER_def
      is_scheme_char_def is_alnum_def in_any_range_def in_range_def strip_def no_newline_def)

theorem ascending_delta_roundtrip_witness:
  "\<exists>l. status_list_of_delta sample_ins (sample_delta [0, 2]) 7 ''r:1'' 4 ''i:1'' = Ok l \<and>
    marked (rsl_revocation_list l) = {0, 2} \<and>
    delta_of_status_list l None = Ok (sample_delta [0, 2])"
  using ascending_delta_roundtrip [OF sample_inserts _ _ sample_registry_id, of "sample_delta [0, 2]" 4 7 "''i:1''" None]
  by (simp add: sample_delta_def)

theorem unordered_delta_misread_witness:
  "\<exists>l. status_list_of_delta sample_ins (sample_delta [1, 0]) 7 ''r:1'' 4 ''i:1'' = Ok l \<and>
    marked (rsl_revocation_list l) = {0, 2}"
  using unordered_delta_misread [OF sample_inserts _ _ _ _ sample_registry_id, of 0 1 4 "sample_delta [1, 0]" 7 "''i:1''"]
  by (simp add: sample_delta_def numeral_2_eq_2)

definition legacy_did :: Did where
  "legacy_did = \<lparr>did_text = ''NcYxiDXkpYi6ov5FcYDi1e'', did_method_range = None, did_namespace_range = None, did_id_range = (0, 22)\<rparr>"

definition legacy_nom :: nom where
  "legacy_nom = \<lparr>nm_did_ranges = (\<lambda>s. Ok (None, None, Some (0, length s))), nm_did_prefix = (\<lambda>_. Err []),
     nm_url_part = (\<lambda>_. Err []), nm_fragment = (\<lambda>_. Err [])\<rparr>"

theorem schema_id_roundtrip_witness:
  "schema_parts legacy_nom ''NcYxiDXkpYi6ov5FcYDi1e:2:gvt:1.0'' = Some (None, legacy_did, ''gvt'', ''1.0'')"
proof -
  have "make_schema_id legacy_did ''gvt'' ''1.0'' = (Ok ''NcYxiDXkpYi6ov5FcYDi1e:2:gvt:1.0'' :: (unit, string) result)"
    by (simp add: make_schema_id_def legacy_did_def method_prefix_def did_method_def SchemaId_new_def
        validate_schema_id_def URI_IDENTIFIER_def is_scheme_char_def is_alnum_def in_any_range_def in_range_def
        strip_def no_newline_def unwrap_id_def)
  from schema_id_roundtrip [OF this, of legacy_nom] show ?thesis
    by (simp add: legacy_did_def legacy_nom_def parse_did_def did_method_def colon_free_def)
qed

end
