(* ===== verification/Ledger_Responses.thy ===== *)
theory Ledger_Responses
  imports Registry_Data Json
begin

text \<open>
  Replies of an Indy ledger (crate \<open>misc/indy_ledger_response_parser\<close>): the envelope of a reply
  with its check of the transaction type (\<open>domain/response.rs\<close>) and the functions that turn each
  kind of reply into an object of \<open>indy_vdr\<close> (\<open>lib.rs\<close>). The derived readers are the fields of the
  record \<open>reply_reader\<close>; the identifiers of \<open>indy_vdr\<close>, which are texts here, and its functions on
  them are the record \<open>vdr_ids\<close>. A \<open>HashSet\<close> is the list of its elements in the order of its
  iteration.
\<close>

section \<open>Objects of \<open>indy_vdr\<close>\<close>

record VdrSchema =
  vsc_id :: string
  vsc_name :: string
  vsc_version :: string
  vsc_attr_names :: "string list"
  vsc_seq_no :: "u32 option"

record VdrCredDef =
  vcd_id :: string
  vcd_schema_id :: string
  vcd_tag :: string
  vcd_primary :: json
  vcd_revocation :: "json option"

datatype IssuanceType = ISSUANCE_BY_DEFAULT | ISSUANCE_ON_DEMAND

record VdrRevRegDef =
  vrd_id :: string
  vrd_tag :: string
  vrd_cred_def_id :: string
  vrd_max_cred_num :: u32
  vrd_accum_key :: json
  vrd_tails_hash :: string
  vrd_tails_location :: string
  vrd_issuance_type :: IssuanceType

text \<open>
  \<open>DidValue::new\<close> and \<open>validate\<close>, \<open>SchemaId::new\<close>, \<open>validate\<close> and \<open>parts\<close>, and the same for the
  other identifiers. \<open>vi_show\<close> is \<open>Display\<close>; \<open>parts\<close> of a schema id gives the method, the DID, the
  name and the version.
\<close>

record vdr_ids =
  vi_did_value :: "string \<Rightarrow> string option \<Rightarrow> string"
  vi_did_validate :: "string \<Rightarrow> (string, unit) result"
  vi_show :: "string \<Rightarrow> string"
  vi_schema_id :: "string \<Rightarrow> string \<Rightarrow> string \<Rightarrow> string"
  vi_schema_validate :: "string \<Rightarrow> (string, unit) result"
  vi_schema_parts :: "string \<Rightarrow> (string option \<times> string \<times> string \<times> string) option"
  vi_cred_def_id :: "string \<Rightarrow> string \<Rightarrow> string \<Rightarrow> string \<Rightarrow> string"
  vi_cred_def_parts :: "string \<Rightarrow> (string option \<times> string \<times> string \<times> string \<times> string) option"
  vi_rev_reg_parts :: "string \<Rightarrow> (string \<times> string \<times> string \<times> string) option"

section \<open>The envelope\<close>

datatype ParserError =
    Lp_JsonError string
  | Lp_LedgerItemNotFound string
  | Lp_InvalidTransaction string

fun show_ParserError :: "ParserError \<Rightarrow> string" where
  "show_ParserError (Lp_JsonError e) = ''JSON error: '' @ e"
| "show_ParserError (Lp_LedgerItemNotFound e) = ''Ledger item not found: '' @ e"
| "show_ParserError (Lp_InvalidTransaction e) = ''Invalid transaction: '' @ e"

text \<open>The second layout carries an array of exactly one result.\<close>

datatype 'a LedgerReply = Lr_V0 'a | Lr_V1 'a

primrec reply_result :: "'a LedgerReply \<Rightarrow> 'a" where
  "reply_result (Lr_V0 x) = x"
| "reply_result (Lr_V1 x) = x"

record LedgerRefusal =
  lf_req_id :: u64
  lf_reason :: string

datatype 'a LedgerMessage =
    Lm_ReqNACK LedgerRefusal
  | Lm_Reply "'a LedgerReply"
  | Lm_Reject LedgerRefusal

record 'a TypedReply =
  tr_reply :: 'a
  tr_type :: string

definition typed_result :: "string \<Rightarrow> 'a TypedReply \<Rightarrow> (ParserError, 'a) result" where
  "typed_result expected_type v =
     (let actual_type = tr_type v
      in if expected_type \<noteq> actual_type then
           Err (Lp_InvalidTransaction (''Unexpected response type:'' @ [CHR 0x0A] @ ''Expected: '' @ expected_type
             @ [CHR 0x0A] @ ''Actual: '' @ actual_type))
         else Ok (tr_reply v))"

definition reply_try_from :: "string \<Rightarrow> 'a TypedReply LedgerReply \<Rightarrow> (ParserError, 'a LedgerReply) result" where
  "reply_try_from expected v = (case v of
     Lr_V0 r \<Rightarrow> map_ok Lr_V0 (typed_result expected r)
   | Lr_V1 r \<Rightarrow> map_ok Lr_V1 (typed_result expected r))"

definition message_try_from ::
  "string \<Rightarrow> 'a TypedReply LedgerMessage \<Rightarrow> (ParserError, 'a LedgerMessage) result" where
  "message_try_from expected v = (case v of
     Lm_ReqNACK r \<Rightarrow> Ok (Lm_ReqNACK r)
   | Lm_Reply r \<Rightarrow> map_ok Lm_Reply (reply_try_from expected r)
   | Lm_Reject r \<Rightarrow> Ok (Lm_Reject r))"

text \<open>
  \<open>serde_json::from_str::<Message<T>>\<close>: the derived reader of the typed message, then the
  conversion, whose refusal is an error of the reader too.
\<close>

definition read_reply_message ::
  "string \<Rightarrow> (string \<Rightarrow> (string, 'a TypedReply LedgerMessage) result) \<Rightarrow> string \<Rightarrow> (string, 'a LedgerMessage) result" where
  "read_reply_message expected de s =
     and_then (de s) (\<lambda>m. map_err show_ParserError (message_try_from expected m))"

definition NOT_FOUND_TEXT :: string where
  "NOT_FOUND_TEXT = ''Structure doesn't correspond to type. Most probably not found''"

definition parse_ledger_response ::
  "string \<Rightarrow> (string \<Rightarrow> (string, 'a TypedReply LedgerMessage) result) \<Rightarrow> string \<Rightarrow> (ParserError, 'a LedgerReply) result" where
  "parse_ledger_response expected de response =
     and_then (map_err (\<lambda>_. Lp_LedgerItemNotFound NOT_FOUND_TEXT) (read_reply_message expected de response)) (\<lambda>message.
     case message of
       Lm_Reject r \<Rightarrow> Err (Lp_InvalidTransaction (lf_reason r))
     | Lm_ReqNACK r \<Rightarrow> Err (Lp_InvalidTransaction (lf_reason r))
     | Lm_Reply reply \<Rightarrow> Ok reply)"

section \<open>Results\<close>

text \<open>\<open>GetReplyResultV1<T>\<close> with its transaction's data and metadata.\<close>

record 'a ResultV1 =
  rv_data :: 'a
  rv_seq_no :: u32
  rv_creation_time :: u64

record NymDataV0 =
  nd_identifier :: "string option"
  nd_dest :: string
  nd_role :: "string option"
  nd_verkey :: "string option"

record NymDataV1 =
  ne_ver :: string
  ne_id :: string
  ne_did :: string
  ne_verkey :: "string option"
  ne_role :: "string option"

datatype GetNymReplyResult = GetNym_V0 "string option" | GetNym_V1 "NymDataV1 ResultV1"

record NymData =
  ny_did :: string
  ny_verkey :: "string option"
  ny_role :: "string option"

record SchemaResultV0 =
  sv_seq_no :: u32
  sv_name :: string
  sv_version :: string
  sv_attr_names :: "string list"
  sv_dest :: string

record SchemaDataV1 =
  sd_ver :: string
  sd_id :: string
  sd_schema_name :: string
  sd_schema_version :: string
  sd_attr_names :: "string list"

datatype GetSchemaReplyResult = GetSchema_V0 SchemaResultV0 | GetSchema_V1 "SchemaDataV1 ResultV1"

record CredDefResultV0 =
  cv_identifier :: string
  cv_ref :: u64
  cv_seq_no :: int
  cv_origin :: string
  cv_tag :: "string option"
  cv_primary :: json
  cv_revocation :: "json option"

record CredDefDataV1 =
  ce_ver :: string
  ce_id :: string
  ce_tag :: string
  ce_schema_ref :: string
  ce_primary :: json
  ce_revocation :: "json option"

datatype GetCredDefReplyResult = GetCredDef_V0 CredDefResultV0 | GetCredDef_V1 "CredDefDataV1 ResultV1"

datatype GetRevocRegDefReplyResult = GetRevocRegDef_V0 VdrRevRegDef | GetRevocRegDef_V1 "VdrRevRegDef ResultV1"

record RevocRegResultV0 =
  rr0_revoc_reg_def_id :: string
  rr0_data :: json
  rr0_txn_time :: u64

record RevocRegDataV1 =
  rr1_revoc_reg_def_id :: string
  rr1_value :: json

datatype GetRevocRegReplyResult = GetRevocReg_V0 RevocRegResultV0 | GetRevocReg_V1 "RevocRegDataV1 ResultV1"

record AccumulatorState =
  au_value :: json
  au_txn_time :: u64

record DeltaData =
  dda_accum_from :: "AccumulatorState option"
  dda_accum_to :: AccumulatorState
  dda_issued :: "u32 list"
  dda_revoked :: "u32 list"

datatype GetRevocRegDeltaReplyResult =
    GetRevocRegDelta_V0 string DeltaData
  | GetRevocRegDelta_V1 string "DeltaData ResultV1"

record TaaData =
  ta_text :: string
  ta_version :: string
  ta_aml :: "json option"
  ta_digest :: "string option"
  ta_ratification_ts :: "u64 option"

datatype GetTxnReplyResult = GetTxn_V0 "json option" | GetTxn_V1 "json ResultV1"

record LedgerRegInfo =
  rgi_revoc_reg :: json
  rgi_revoc_reg_def_id :: string
  rgi_timestamp :: u64

section \<open>The parsers\<close>

text \<open>
  One derived reader per kind of reply. \<open>ry_nym_data\<close> reads the text inside the older reply to a
  nym, \<open>ry_delta_value\<close> is \<open>from_parts\<close> of the signature library with \<open>to_value\<close> behind it.
\<close>

record reply_reader =
  ry_nym :: "string \<Rightarrow> (string, GetNymReplyResult TypedReply LedgerMessage) result"
  ry_nym_data :: "string \<Rightarrow> (string, NymDataV0) result"
  ry_schema :: "string \<Rightarrow> (string, GetSchemaReplyResult TypedReply LedgerMessage) result"
  ry_cred_def :: "string \<Rightarrow> (string, GetCredDefReplyResult TypedReply LedgerMessage) result"
  ry_rev_reg_def :: "string \<Rightarrow> (string, GetRevocRegDefReplyResult TypedReply LedgerMessage) result"
  ry_rev_reg :: "string \<Rightarrow> (string, GetRevocRegReplyResult TypedReply LedgerMessage) result"
  ry_rev_reg_delta :: "string \<Rightarrow> (string, GetRevocRegDeltaReplyResult TypedReply LedgerMessage) result"
  ry_taa :: "string \<Rightarrow> (string, TaaData option TypedReply LedgerMessage) result"
  ry_txn :: "string \<Rightarrow> (string, GetTxnReplyResult TypedReply LedgerMessage) result"
  ry_delta_value :: "json option \<Rightarrow> json \<Rightarrow> u32 list \<Rightarrow> u32 list \<Rightarrow> (string, json) result"

definition GET_NYM :: string where "GET_NYM = ''105''"
definition GET_SCHEMA :: string where "GET_SCHEMA = ''107''"
definition GET_CRED_DEF :: string where "GET_CRED_DEF = ''108''"
definition GET_REVOC_REG_DEF :: string where "GET_REVOC_REG_DEF = ''115''"
definition GET_REVOC_REG :: string where "GET_REVOC_REG = ''116''"
definition GET_REVOC_REG_DELTA :: string where "GET_REVOC_REG_DELTA = ''117''"
definition GET_TXN_AUTHR_AGRMT :: string where "GET_TXN_AUTHR_AGRMT = ''6''"
definition GET_TXN :: string where "GET_TXN = ''3''"

definition parse_get_nym_response :: "reply_reader \<Rightarrow> string \<Rightarrow> (ParserError, NymData) result" where
  "parse_get_nym_response Y response =
     and_then (parse_ledger_response GET_NYM (ry_nym Y) response) (\<lambda>reply.
     case reply_result reply of
       GetNym_V0 d \<Rightarrow>
         and_then (and_then (ok_or d (Lp_LedgerItemNotFound ''NYM''))
             (\<lambda>text. map_err Lp_JsonError (ry_nym_data Y text))) (\<lambda>d.
         Ok \<lparr>ny_did = nd_dest d, ny_verkey = nd_verkey d, ny_role = nd_role d\<rparr>)
     | GetNym_V1 res \<Rightarrow>
         Ok \<lparr>ny_did = ne_did (rv_data res), ny_verkey = ne_verkey (rv_data res), ny_role = ne_role (rv_data res)\<rparr>)"

definition parse_get_schema_response ::
  "vdr_ids \<Rightarrow> reply_reader \<Rightarrow> string \<Rightarrow> string option \<Rightarrow> (ParserError, VdrSchema) result" where
  "parse_get_schema_response V Y response method_name =
     and_then (parse_ledger_response GET_SCHEMA (ry_schema Y) response) (\<lambda>reply.
     Ok (case reply_result reply of
       GetSchema_V0 res \<Rightarrow>
         \<lparr>vsc_id = vi_schema_id V (vi_did_value V (sv_dest res) method_name) (sv_name res) (sv_version res),
           vsc_name = sv_name res, vsc_version = sv_version res, vsc_attr_names = sv_attr_names res,
           vsc_seq_no = Some (sv_seq_no res)\<rparr>
     | GetSchema_V1 res \<Rightarrow>
         \<lparr>vsc_id = vi_schema_id V (vi_did_value V (sd_id (rv_data res)) method_name) (sd_schema_name (rv_data res))
             (sd_schema_version (rv_data res)),
           vsc_name = sd_schema_name (rv_data res), vsc_version = sd_schema_version (rv_data res),
           vsc_attr_names = sd_attr_names (rv_data res), vsc_seq_no = Some (rv_seq_no res)\<rparr>))"

definition parse_get_cred_def_response ::
  "vdr_ids \<Rightarrow> reply_reader \<Rightarrow> string \<Rightarrow> string option \<Rightarrow> (ParserError, VdrCredDef) result" where
  "parse_get_cred_def_response V Y response method_name =
     and_then (parse_ledger_response GET_CRED_DEF (ry_cred_def Y) response) (\<lambda>reply.
     Ok (case reply_result reply of
       GetCredDef_V0 res \<Rightarrow>
         \<lparr>vcd_id = vi_cred_def_id V (vi_did_value V (cv_origin res) method_name) (show_u64 (cv_ref res)) ''CL''
             (unwrap_default (cv_tag res) []),
           vcd_schema_id = show_u64 (cv_ref res), vcd_tag = unwrap_default (cv_tag res) [],
           vcd_primary = cv_primary res, vcd_revocation = cv_revocation res\<rparr>
     | GetCredDef_V1 res \<Rightarrow>
         \<lparr>vcd_id = ce_id (rv_data res), vcd_schema_id = ce_schema_ref (rv_data res), vcd_tag = ce_tag (rv_data res),
           vcd_primary = ce_primary (rv_data res), vcd_revocation = ce_revocation (rv_data res)\<rparr>))"

definition parse_get_revoc_reg_def_response :: "reply_reader \<Rightarrow> string \<Rightarrow> (ParserError, VdrRevRegDef) result" where
  "parse_get_revoc_reg_def_response Y response =
     and_then (parse_ledger_response GET_REVOC_REG_DEF (ry_rev_reg_def Y) response) (\<lambda>reply.
     Ok (case reply_result reply of GetRevocRegDef_V0 d \<Rightarrow> d | GetRevocRegDef_V1 res \<Rightarrow> rv_data res))"

definition parse_get_revoc_reg_response :: "reply_reader \<Rightarrow> string \<Rightarrow> (ParserError, LedgerRegInfo) result" where
  "parse_get_revoc_reg_response Y response =
     and_then (parse_ledger_response GET_REVOC_REG (ry_rev_reg Y) response) (\<lambda>reply.
     Ok (case reply_result reply of
       GetRevocReg_V0 res \<Rightarrow>
         \<lparr>rgi_revoc_reg = rr0_data res, rgi_revoc_reg_def_id = rr0_revoc_reg_def_id res,
           rgi_timestamp = rr0_txn_time res\<rparr>
     | GetRevocReg_V1 res \<Rightarrow>
         \<lparr>rgi_revoc_reg = rr1_value (rv_data res), rgi_revoc_reg_def_id = rr1_revoc_reg_def_id (rv_data res),
           rgi_timestamp = rv_creation_time res\<rparr>))"

definition parse_get_txn_author_agreement_response :: "reply_reader \<Rightarrow> string \<Rightarrow> (ParserError, TaaData) result" where
  "parse_get_txn_author_agreement_response Y taa_response =
     and_then (parse_ledger_response GET_TXN_AUTHR_AGRMT (ry_taa Y) taa_response) (\<lambda>reply.
     ok_or (reply_result reply) (Lp_LedgerItemNotFound ''TAA''))"

definition parse_get_revoc_reg_delta_response :: "reply_reader \<Rightarrow> string \<Rightarrow> (ParserError, LedgerRegInfo) result" where
  "parse_get_revoc_reg_delta_response Y response =
     and_then (parse_ledger_response GET_REVOC_REG_DELTA (ry_rev_reg_delta Y) response) (\<lambda>reply.
     let (revoc_reg_def_id, revoc_reg) = (case reply_result reply of
           GetRevocRegDelta_V0 i d \<Rightarrow> (i, d)
         | GetRevocRegDelta_V1 i res \<Rightarrow> (i, rv_data res))
     in and_then (map_err Lp_JsonError (ry_delta_value Y (map_option au_value (dda_accum_from revoc_reg))
            (au_value (dda_accum_to revoc_reg)) (dda_issued revoc_reg) (dda_revoked revoc_reg))) (\<lambda>revoc_reg_delta.
        Ok \<lparr>rgi_revoc_reg = revoc_reg_delta, rgi_revoc_reg_def_id = revoc_reg_def_id,
          rgi_timestamp = au_txn_time (dda_accum_to revoc_reg)\<rparr>))"

definition parse_get_txn_response :: "reply_reader \<Rightarrow> string \<Rightarrow> (ParserError, json) result" where
  "parse_get_txn_response Y response =
     and_then (parse_ledger_response GET_TXN (ry_txn Y) response) (\<lambda>reply.
     Ok (case reply_result reply of
       GetTxn_V0 d \<Rightarrow> (case d of Some v \<Rightarrow> v | None \<Rightarrow> JNull)
     | GetTxn_V1 res \<Rightarrow> rv_data res))"

section \<open>What a reply is taken for\<close>

text \<open>
  Only the refusals of the ledger keep their text. Everything else that is not the expected reply is
  reported as an item that was not found.
\<close>

lemma parse_ledger_response_cases:
  "parse_ledger_response expected de response = (case de response of
     Err _ \<Rightarrow> Err (Lp_LedgerItemNotFound NOT_FOUND_TEXT)
   | Panic \<Rightarrow> Panic
   | Ok m \<Rightarrow> (case m of
       Lm_Reject r \<Rightarrow> Err (Lp_InvalidTransaction (lf_reason r))
     | Lm_ReqNACK r \<Rightarrow> Err (Lp_InvalidTransaction (lf_reason r))
     | Lm_Reply t \<Rightarrow>
         if tr_type (reply_result t) = expected then Ok (map_LedgerReply tr_reply t)
         else Err (Lp_LedgerItemNotFound NOT_FOUND_TEXT)))"
proof (cases "de response")
  case (Ok m)
  then show ?thesis
  proof (cases m)
    case (Lm_Reply t)
    with Ok show ?thesis
      by (cases t) (simp_all add: parse_ledger_response_def read_reply_message_def message_try_from_def
          reply_try_from_def typed_result_def Let_def)
  qed (simp_all add: parse_ledger_response_def read_reply_message_def message_try_from_def)
qed (simp_all add: parse_ledger_response_def read_reply_message_def)

lemma parse_ledger_response_Ok:
  "parse_ledger_response expected de response = Ok reply \<longleftrightarrow>
     (\<exists>t. de response = Ok (Lm_Reply t) \<and> tr_type (reply_result t) = expected
       \<and> reply = map_LedgerReply tr_reply t)"
  by (auto simp: parse_ledger_response_cases split: result.splits LedgerMessage.splits if_splits)

lemma reply_result_map [simp]: "reply_result (map_LedgerReply f t) = f (reply_result t)"
  by (cases t) simp_all

lemma unreadable_not_found:
  "de response = Err d \<Longrightarrow> parse_ledger_response expected de response = Err (Lp_LedgerItemNotFound NOT_FOUND_TEXT)"
  by (simp add: parse_ledger_response_cases)

lemma other_type_not_found:
  "de response = Ok (Lm_Reply t) \<Longrightarrow> tr_type (reply_result t) \<noteq> expected \<Longrightarrow>
     parse_ledger_response expected de response = Err (Lp_LedgerItemNotFound NOT_FOUND_TEXT)"
  by (simp add: parse_ledger_response_cases)

end
