(* ===== verification/Records.thy ===== *)
theory Records
  imports Wallet "HOL-Library.Multiset" "HOL-Library.Product_Lexorder"
begin

text \<open>
  The records of a wallet (\<open>aries_vcx_wallet/src/wallet\<close>): categories, tags and records, the
  interface \<open>RecordWallet\<close>, and the migration of records between two wallets
  (\<open>base_wallet/migrate.rs\<close>). An operation of the interface that changes the wallet returns its
  new state. The predicate \<open>record_store\<close> is the contract the clients rely on: a wallet is a map
  from category and name to value, an operation that fails leaves it as it was.
\<close>

section \<open>Categories\<close>

datatype RecordCategory = Rc_LinkSecret | Rc_Cred | Rc_CredDef | Rc_CredKeyCorrectnessProof
  | Rc_CredDefPriv | Rc_CredSchema | Rc_CredMapSchemaId | Rc_RevReg | Rc_RevRegDelta
  | Rc_RevRegInfo | Rc_RevRegDef | Rc_RevRegDefPriv | Rc_Did | Rc_TmpDid | Rc_Key

fun show_category :: "RecordCategory \<Rightarrow> string" where
  "show_category Rc_LinkSecret = ''VCX_LINK_SECRET''"
| "show_category Rc_Cred = ''VCX_CREDENTIAL''"
| "show_category Rc_CredDef = ''VCX_CRED_DEF''"
| "show_category Rc_CredKeyCorrectnessProof = ''VCX_CRED_KEY_CORRECTNESS_PROOF''"
| "show_category Rc_CredDefPriv = ''VCX_CRED_DEF_PRIV''"
| "show_category Rc_CredSchema = ''VCX_CRED_SCHEMA''"
| "show_category Rc_CredMapSchemaId = ''VCX_CRED_MAP_SCHEMA_ID''"
| "show_category Rc_RevReg = ''VCX_REV_REG''"
| "show_category Rc_RevRegDelta = ''VCX_REV_REG_DELTA''"
| "show_category Rc_RevRegInfo = ''VCX_REV_REG_INFO''"
| "show_category Rc_RevRegDef = ''VCX_REV_REG_DEF''"
| "show_category Rc_RevRegDefPriv = ''VCX_REV_REG_DEF_PRIV''"
| "show_category Rc_Did = ''Indy::Did''"
| "show_category Rc_TmpDid = ''Indy::TemporaryDid''"
| "show_category Rc_Key = ''Indy::Key''"

definition category_from_str :: "string \<Rightarrow> RecordCategory wallet_res" where
  "category_from_str s =
     (if s = ''VCX_LINK_SECRET'' then Ok Rc_LinkSecret
      else if s = ''VCX_CREDENTIAL'' then Ok Rc_Cred
      else if s = ''VCX_CRED_DEF'' then Ok Rc_CredDef
      else if s = ''VCX_CRED_KEY_CORRECTNESS_PROOF'' then Ok Rc_CredKeyCorrectnessProof
      else if s = ''VCX_CRED_DEF_PRIV'' then Ok Rc_CredDefPriv
      else if s = ''VCX_CRED_SCHEMA'' then Ok Rc_CredSchema
      else if s = ''VCX_CRED_MAP_SCHEMA_ID'' then Ok Rc_CredMapSchemaId
      else if s = ''VCX_REV_REG'' then Ok Rc_RevReg
      else if s = ''VCX_REV_REG_DELTA'' then Ok Rc_RevRegDelta
      else if s = ''VCX_REV_REG_INFO'' then Ok Rc_RevRegInfo
      else if s = ''VCX_REV_REG_DEF'' then Ok Rc_RevRegDef
      else if s = ''VCX_REV_REG_DEF_PRIV'' then Ok Rc_RevRegDefPriv
      else if s = ''Indy::Did'' then Ok Rc_Did
      else if s = ''Indy::TemporaryDid'' then Ok Rc_TmpDid
      else if s = ''Indy::Key'' then Ok Rc_Key
      else Err (We_UnknownRecordCategory s))"

lemma category_roundtrip [simp]: "category_from_str (show_category c) = Ok c"
  by (cases c) (simp_all add: category_from_str_def)

lemma category_from_str_Ok: "category_from_str s = Ok c \<longleftrightarrow> s = show_category c"
proof
  assume "category_from_str s = Ok c"
  then show "s = show_category c" by (auto simp: category_from_str_def split: if_splits)
qed simp

lemma show_category_inject [simp]: "show_category a = show_category b \<longleftrightarrow> a = b"
  by (metis category_roundtrip result.inject(1))

section \<open>Tags\<close>

text \<open>
  The derived order of \<open>RecordTag\<close> compares the key, then the value, both byte by byte.
\<close>

datatype RecordTag = RecordTag (tag_key: string) (tag_value: string)

instantiation RecordTag :: linorder
begin

definition less_eq_RecordTag :: "RecordTag \<Rightarrow> RecordTag \<Rightarrow> bool" where
  "less_eq_RecordTag a b \<longleftrightarrow> (tag_key a, tag_value a) \<le> (tag_key b, tag_value b)"

definition less_RecordTag :: "RecordTag \<Rightarrow> RecordTag \<Rightarrow> bool" where
  "less_RecordTag a b \<longleftrightarrow> (tag_key a, tag_value a) < (tag_key b, tag_value b)"

instance
  by standard (auto simp: less_eq_RecordTag_def less_RecordTag_def RecordTag.expand)

end

text \<open>\<open>RecordTags\<close> is a vector that every operation leaves sorted.\<close>

type_synonym RecordTags = "RecordTag list"

definition RecordTags_new :: "RecordTag list \<Rightarrow> RecordTags" where
  "RecordTags_new inner = sort inner"

definition tags_add :: "RecordTags \<Rightarrow> RecordTag \<Rightarrow> RecordTags" where
  "tags_add self tag = sort (self @ [tag])"

definition tags_merge :: "RecordTags \<Rightarrow> RecordTags \<Rightarrow> RecordTags" where
  "tags_merge self other = sort (self @ other)"

definition tags_remove :: "RecordTags \<Rightarrow> RecordTag \<Rightarrow> RecordTags" where
  "tags_remove self tag = sort (filter (\<lambda>existing_tag. tag_key existing_tag \<noteq> tag_key tag) self)"

definition tags_from_list :: "RecordTag list \<Rightarrow> RecordTags" where
  "tags_from_list value = foldl tags_add [] value"

lemma sorted_tags [simp]:
  "sorted (RecordTags_new ts)" "sorted (tags_add ts t)" "sorted (tags_merge ts us)"
  "sorted (tags_remove ts t)"
  by (simp_all add: RecordTags_new_def tags_add_def tags_merge_def tags_remove_def)

lemma foldl_tags_add:
  assumes "sorted acc"
  shows "foldl tags_add acc ts = sort (acc @ ts)"
  using assms
proof (induction ts arbitrary: acc)
  case (Cons t ts)
  have "foldl tags_add acc (t # ts) = sort (tags_add acc t @ ts)" using Cons.IH [of "tags_add acc t"] by simp
  also have "\<dots> = sort (acc @ t # ts)"
    by (rule properties_for_sort) (simp_all add: tags_add_def)
  finally show ?case .
qed (simp add: sorted_sort_id)

lemma tags_from_list_sort: "tags_from_list ts = sort ts"
  by (simp add: tags_from_list_def foldl_tags_add)

lemma set_tags_add [simp]: "set (tags_add ts t) = insert t (set ts)"
  by (simp add: tags_add_def)

section \<open>Records\<close>

record Record =
  rec_category :: RecordCategory
  rec_name :: string
  rec_value :: string
  rec_tags :: RecordTags

record PartialRecord =
  par_category :: "string option"
  par_name :: string
  par_value :: "string option"
  par_tags :: "RecordTags option"

text \<open>The key pair of a key record, both halves in base58; reading it is derived code of serde.\<close>

record KeyValue =
  kv_verkey :: string
  kv_signkey :: string

definition is_key :: "Record \<Rightarrow> bool" where
  "is_key self \<longleftrightarrow> rec_category self = Rc_Key"

definition key_value :: "(string \<Rightarrow> (string, KeyValue) result) \<Rightarrow> Record \<Rightarrow> KeyValue wallet_res" where
  "key_value de self = map_err We_InvalidJson (de (rec_value self))"

text \<open>
  The iterator over all records of a wallet: its count, and what the calls of \<open>next\<close> return until
  the end.
\<close>

record AllRecords =
  all_total :: "nat option wallet_res"
  all_items :: "PartialRecord wallet_res list"

section \<open>The interface\<close>

record 'w record_wallet =
  rw_all_records :: "'w \<Rightarrow> AllRecords wallet_res"
  rw_add_record :: "'w \<Rightarrow> Record \<Rightarrow> unit wallet_res \<times> 'w"
  rw_get_record :: "'w \<Rightarrow> RecordCategory \<Rightarrow> string \<Rightarrow> Record wallet_res"
  rw_update_record_tags :: "'w \<Rightarrow> RecordCategory \<Rightarrow> string \<Rightarrow> RecordTags \<Rightarrow> unit wallet_res \<times> 'w"
  rw_update_record_value :: "'w \<Rightarrow> RecordCategory \<Rightarrow> string \<Rightarrow> string \<Rightarrow> unit wallet_res \<times> 'w"
  rw_delete_record :: "'w \<Rightarrow> RecordCategory \<Rightarrow> string \<Rightarrow> unit wallet_res \<times> 'w"
  rw_search_record :: "'w \<Rightarrow> RecordCategory \<Rightarrow> string option \<Rightarrow> Record list wallet_res"
  rw_create_key :: "'w \<Rightarrow> string \<Rightarrow> KeyValue \<Rightarrow> RecordTags \<Rightarrow> unit wallet_res \<times> 'w"

text \<open>What a wallet holds: a value by category and name (the tags only guide the search).\<close>

type_synonym store = "RecordCategory \<times> string \<rightharpoonup> string"

definition add_law :: "'w record_wallet \<Rightarrow> ('w \<Rightarrow> store) \<Rightarrow> bool" where
  "add_law W view \<longleftrightarrow> (\<forall>w r x w'. rw_add_record W w r = (x, w') \<longrightarrow>
     (if x = Ok () then view w (rec_category r, rec_name r) = None \<and>
        view w' = (view w)((rec_category r, rec_name r) \<mapsto> rec_value r)
      else view w' = view w))"

definition get_law :: "'w record_wallet \<Rightarrow> ('w \<Rightarrow> store) \<Rightarrow> bool" where
  "get_law W view \<longleftrightarrow> (\<forall>w c n r. rw_get_record W w c n = Ok r \<longrightarrow>
     rec_category r = c \<and> rec_name r = n \<and> view w (c, n) = Some (rec_value r))"

definition update_value_law :: "'w record_wallet \<Rightarrow> ('w \<Rightarrow> store) \<Rightarrow> bool" where
  "update_value_law W view \<longleftrightarrow> (\<forall>w c n v x w'. rw_update_record_value W w c n v = (x, w') \<longrightarrow>
     (if x = Ok () then view w (c, n) \<noteq> None \<and> view w' = (view w)((c, n) \<mapsto> v) else view w' = view w))"

definition update_tags_law :: "'w record_wallet \<Rightarrow> ('w \<Rightarrow> store) \<Rightarrow> bool" where
  "update_tags_law W view \<longleftrightarrow> (\<forall>w c n t. view (snd (rw_update_record_tags W w c n t)) = view w)"

definition delete_law :: "'w record_wallet \<Rightarrow> ('w \<Rightarrow> store) \<Rightarrow> bool" where
  "delete_law W view \<longleftrightarrow> (\<forall>w c n x w'. rw_delete_record W w c n = (x, w') \<longrightarrow>
     view w' = (if x = Ok () then (view w)((c, n) := None) else view w))"

definition record_store :: "'w record_wallet \<Rightarrow> ('w \<Rightarrow> store) \<Rightarrow> bool" where
  "record_store W view \<longleftrightarrow> add_law W view \<and> get_law W view \<and> update_value_law W view
     \<and> update_tags_law W view \<and> delete_law W view"

text \<open>The same laws as rules over one call.\<close>

lemma add_cases:
  assumes "record_store W view" and "rw_add_record W w r = (x, w')"
  shows "x = Ok () \<and> view w (rec_category r, rec_name r) = None \<and>
      view w' = (view w)((rec_category r, rec_name r) \<mapsto> rec_value r)
    \<or> x \<noteq> Ok () \<and> view w' = view w"
proof -
  from assms(1) have "add_law W view" by (simp add: record_store_def)
  with assms(2) show ?thesis unfolding add_law_def by (cases "x = Ok ()") (simp, metis+)
qed

lemma get_view:
  assumes "record_store W view" and "rw_get_record W w c n = Ok r"
  shows "view w (c, n) = Some (rec_value r)"
  using assms by (auto simp: record_store_def get_law_def)

lemma update_value_cases:
  assumes "record_store W view" and "rw_update_record_value W w c n v = (x, w')"
  shows "x = Ok () \<and> view w (c, n) \<noteq> None \<and> view w' = (view w)((c, n) \<mapsto> v)
    \<or> x \<noteq> Ok () \<and> view w' = view w"
proof -
  from assms(1) have "update_value_law W view" by (simp add: record_store_def)
  with assms(2) show ?thesis unfolding update_value_law_def by (cases "x = Ok ()") (simp, metis+)
qed

lemma delete_cases:
  assumes "record_store W view" and "rw_delete_record W w c n = (x, w')"
  shows "x = Ok () \<and> view w' = (view w)((c, n) := None) \<or> x \<noteq> Ok () \<and> view w' = view w"
proof -
  from assms(1) have "delete_law W view" by (simp add: record_store_def)
  with assms(2) show ?thesis unfolding delete_law_def by (cases "x = Ok ()") (simp, metis+)
qed

section \<open>Migration\<close>

text \<open>
  The counters are \<open>u32\<close>. \<open>migrate_fn\<close> is the caller's function; its mutable state is not modelled.
\<close>

record MigrationStats =
  ms_migrated :: u32
  ms_skipped :: u32
  ms_duplicated :: u32
  ms_failed :: u32

definition transform_record :: "PartialRecord \<Rightarrow> MigrationStats \<Rightarrow> Record option \<times> MigrationStats" where
  "transform_record source_record stats =
     (case par_category source_record of
        None \<Rightarrow> (None, stats\<lparr>ms_skipped := ms_skipped stats + 1\<rparr>)
      | Some cat \<Rightarrow>
          (case category_from_str cat of
             Ok category \<Rightarrow>
               (case par_value source_record of
                  None \<Rightarrow> (None, stats\<lparr>ms_skipped := ms_skipped stats + 1\<rparr>)
                | Some value \<Rightarrow>
                    (Some \<lparr>rec_category = category, rec_name = par_name source_record, rec_value = value,
                       rec_tags = (case par_tags source_record of None \<Rightarrow> [] | Some tags \<Rightarrow> tags)\<rparr>, stats))
           | _ \<Rightarrow> (None, stats\<lparr>ms_skipped := ms_skipped stats + 1\<rparr>)))"

definition migrate_add_key ::
  "(string \<Rightarrow> (string, KeyValue) result) \<Rightarrow> 'w record_wallet \<Rightarrow> 'w \<Rightarrow> MigrationStats \<Rightarrow> Record \<Rightarrow>
   MigrationStats wallet_res \<times> 'w" where
  "migrate_add_key de new_wallet w stats key_record =
     (case key_value de key_record of
        Err err \<Rightarrow> (Ok (stats\<lparr>ms_failed := ms_failed stats + 1\<rparr>), w)
      | Panic \<Rightarrow> (Panic, w)
      | Ok val \<Rightarrow>
          (case rw_create_key new_wallet w (rec_name key_record) val (rec_tags key_record) of
             (Err err, w) \<Rightarrow> (Ok (stats\<lparr>ms_failed := ms_failed stats + 1\<rparr>), w)
           | (Panic, w) \<Rightarrow> (Panic, w)
           | (Ok _, w) \<Rightarrow> (Ok (stats\<lparr>ms_migrated := ms_migrated stats + 1\<rparr>), w)))"

definition migrate_add_record ::
  "'w record_wallet \<Rightarrow> 'w \<Rightarrow> MigrationStats \<Rightarrow> Record \<Rightarrow> MigrationStats wallet_res \<times> 'w" where
  "migrate_add_record new_wallet w stats r =
     (case rw_add_record new_wallet w r of
        (Err err, w) \<Rightarrow>
          (case err of
             We_DuplicateRecord _ \<Rightarrow> (Ok (stats\<lparr>ms_duplicated := ms_duplicated stats + 1\<rparr>), w)
           | _ \<Rightarrow> (Ok (stats\<lparr>ms_failed := ms_failed stats + 1\<rparr>), w))
      | (Panic, w) \<Rightarrow> (Panic, w)
      | (Ok _, w) \<Rightarrow> (Ok (stats\<lparr>ms_migrated := ms_migrated stats + 1\<rparr>), w))"

definition migrate_one ::
  "(string \<Rightarrow> (string, KeyValue) result) \<Rightarrow> 'w record_wallet \<Rightarrow> (Record \<Rightarrow> ('e, Record option) result) \<Rightarrow>
   PartialRecord \<Rightarrow> MigrationStats \<Rightarrow> 'w \<Rightarrow> MigrationStats wallet_res \<times> 'w" where
  "migrate_one de dest migrate_fn source_record stats w =
     (case transform_record source_record stats of
        (None, stats) \<Rightarrow> (Ok stats, w)
      | (Some some_record, stats) \<Rightarrow>
          (case migrate_fn some_record of
             Err err \<Rightarrow> (Ok (stats\<lparr>ms_failed := ms_failed stats + 1\<rparr>), w)
           | Panic \<Rightarrow> (Panic, w)
           | Ok None \<Rightarrow> (Ok (stats\<lparr>ms_skipped := ms_skipped stats + 1\<rparr>), w)
           | Ok (Some migrated_record) \<Rightarrow>
               if is_key migrated_record then migrate_add_key de dest w stats migrated_record
               else migrate_add_record dest w stats migrated_record))"

fun migrate_loop ::
  "(string \<Rightarrow> (string, KeyValue) result) \<Rightarrow> 'w record_wallet \<Rightarrow> (Record \<Rightarrow> ('e, Record option) result) \<Rightarrow>
   PartialRecord wallet_res list \<Rightarrow> MigrationStats \<Rightarrow> 'w \<Rightarrow> MigrationStats wallet_res \<times> 'w" where
  "migrate_loop de dest migrate_fn [] stats w = (Ok stats, w)"
| "migrate_loop de dest migrate_fn (item # items) stats w =
     and_thenw (pure_w item w) (\<lambda>source_record w.
     and_thenw (migrate_one de dest migrate_fn source_record stats w) (\<lambda>stats w.
     migrate_loop de dest migrate_fn items stats w))"

definition migrate_records ::
  "(string \<Rightarrow> (string, KeyValue) result) \<Rightarrow> 'v record_wallet \<Rightarrow> 'v \<Rightarrow> 'w record_wallet \<Rightarrow> 'w \<Rightarrow>
   (Record \<Rightarrow> ('e, Record option) result) \<Rightarrow> MigrationStats wallet_res \<times> 'w" where
  "migrate_records de src_wallet v dest w migrate_fn =
     and_thenw (pure_w (rw_all_records src_wallet v) w) (\<lambda>records w.
     and_thenw (pure_w (all_total records) w) (\<lambda>total w.
     migrate_loop de dest migrate_fn (all_items records)
       \<lparr>ms_migrated = 0, ms_skipped = 0, ms_duplicated = 0, ms_failed = 0\<rparr> w))"

section \<open>Every record is accounted for\<close>

definition accounted :: "MigrationStats \<Rightarrow> u32" where
  "accounted s = ms_migrated s + ms_skipped s + ms_duplicated s + ms_failed s"

lemma accounted_bump [simp]:
  "accounted (s\<lparr>ms_migrated := ms_migrated s + 1\<rparr>) = accounted s + 1"
  "accounted (s\<lparr>ms_skipped := ms_skipped s + 1\<rparr>) = accounted s + 1"
  "accounted (s\<lparr>ms_duplicated := ms_duplicated s + 1\<rparr>) = accounted s + 1"
  "accounted (s\<lparr>ms_failed := ms_failed s + 1\<rparr>) = accounted s + 1"
  by (simp_all add: accounted_def)

lemma transform_accounted:
  "transform_record p s = (r, s') \<Longrightarrow> accounted s' = (if r = None then accounted s + 1 else accounted s)"
  by (auto simp: transform_record_def split: option.splits result.splits)

lemma migrate_add_key_accounted:
  "migrate_add_key de D w s r = (Ok s', w') \<Longrightarrow> accounted s' = accounted s + 1"
  by (auto simp: migrate_add_key_def split: result.splits prod.splits)

lemma migrate_add_record_accounted:
  "migrate_add_record D w s r = (Ok s', w') \<Longrightarrow> accounted s' = accounted s + 1"
  by (auto simp: migrate_add_record_def split: result.splits prod.splits VcxWalletError.splits)

lemma migrate_one_accounted:
  assumes "migrate_one de D f p s w = (Ok s', w')"
  shows "accounted s' = accounted s + 1"
proof (cases "transform_record p s")
  case (Pair r t)
  show ?thesis
  proof (cases r)
    case None
    with assms Pair transform_accounted [OF Pair] show ?thesis by (simp add: migrate_one_def)
  next
    case (Some q)
    with transform_accounted [OF Pair] have "accounted t = accounted s" by simp
    with assms Pair Some show ?thesis
      by (auto simp: migrate_one_def split: result.splits option.splits if_splits
          dest: migrate_add_key_accounted migrate_add_record_accounted)
  qed
qed

lemma migrate_loop_accounted:
  "migrate_loop de D f items s w = (Ok s', w') \<Longrightarrow> accounted s' = accounted s + of_nat (length items)"
proof (induction items arbitrary: s w)
  case (Cons i items)
  from Cons.prems obtain p t w1 where "migrate_one de D f p s w = (Ok t, w1)"
    and "migrate_loop de D f items t w1 = (Ok s', w')"
    by (auto simp: and_thenw_Ok split: result.splits)
  from migrate_one_accounted [OF this(1)] Cons.IH [OF this(2)] show ?case by simp
qed simp

section \<open>The destination is extended, never overwritten\<close>

text \<open>Keys are kept beside the records: making one leaves the records of the wallet alone.\<close>

definition keys_apart :: "'w record_wallet \<Rightarrow> ('w \<Rightarrow> store) \<Rightarrow> bool" where
  "keys_apart W view \<longleftrightarrow> (\<forall>w n kv t. view (snd (rw_create_key W w n kv t)) = view w)"

lemma create_key_view:
  "keys_apart W view \<Longrightarrow> rw_create_key W w n kv t = (x, w') \<Longrightarrow> view w' = view w"
  by (metis keys_apart_def snd_conv)

lemma migrate_add_key_view:
  assumes "keys_apart D view" and "migrate_add_key de D w s r = (x, w')"
  shows "view w' = view w"
  using assms(2)
  by (auto simp: migrate_add_key_def split: result.splits prod.splits dest: create_key_view [OF assms(1)])

lemma migrate_add_record_view:
  assumes "record_store D view" and "migrate_add_record D w s r = (x, w')"
  shows "view w \<subseteq>\<^sub>m view w' \<and> dom (view w') \<subseteq> insert (rec_category r, rec_name r) (dom (view w))"
proof -
  obtain y w1 where add: "rw_add_record D w r = (y, w1)" by (cases "rw_add_record D w r")
  with assms(2) have "w' = w1"
    by (auto simp: migrate_add_record_def split: result.splits VcxWalletError.splits)
  with add_cases [OF assms(1) add] show ?thesis by (auto simp: map_le_def dom_def)
qed

lemma migrate_one_view:
  assumes "record_store D view" and "keys_apart D view" and "migrate_one de D f p s w = (x, w')"
  shows "view w \<subseteq>\<^sub>m view w'"
proof (cases "transform_record p s")
  case (Pair r t)
  with assms(3) show ?thesis
    by (auto simp: migrate_one_def split: option.splits result.splits if_splits
        dest: migrate_add_key_view [OF assms(2)] migrate_add_record_view [OF assms(1)])
qed

lemma migrate_loop_view:
  assumes "record_store D view" and "keys_apart D view" and "migrate_loop de D f items s w = (x, w')"
  shows "view w \<subseteq>\<^sub>m view w'"
  using assms(3)
proof (induction items arbitrary: s w)
  case (Cons i items)
  show ?case
  proof (cases i)
    case (Ok p)
    obtain y w1 where one: "migrate_one de D f p s w = (y, w1)" by (cases "migrate_one de D f p s w")
    have "view w \<subseteq>\<^sub>m view w1" by (rule migrate_one_view [OF assms(1,2) one])
    moreover have "view w1 \<subseteq>\<^sub>m view w'"
      using Cons one Ok by (cases y) (auto simp: Cons.IH)
    ultimately show ?thesis by (rule map_le_trans)
  qed (use Cons.prems in \<open>auto simp: pure_w_def\<close>)
qed simp

text \<open>
  C35. A migration that runs to its end has counted every record of the source exactly once, as
  migrated, skipped, duplicated or failed, and the destination still holds every record it held
  before, with the value it had.
\<close>

theorem migration_accounts:
  assumes "record_store D view" and "keys_apart D view"
    and "migrate_records de S v D w f = (Ok stats, w')"
  shows "\<exists>records. rw_all_records S v = Ok records \<and>
    accounted stats = of_nat (length (all_items records)) \<and> view w \<subseteq>\<^sub>m view w'"
proof -
  let ?zero = "\<lparr>ms_migrated = 0, ms_skipped = 0, ms_duplicated = 0, ms_failed = 0\<rparr>"
  from assms(3) obtain records where records: "rw_all_records S v = Ok records"
    and loop: "migrate_loop de D f (all_items records) ?zero w = (Ok stats, w')"
    by (auto simp: migrate_records_def split: result.splits)
  from migrate_loop_accounted [OF loop] have "accounted stats = of_nat (length (all_items records))"
    by (simp add: accounted_def)
  with records migrate_loop_view [OF assms(1,2) loop] show ?thesis by blast
qed

section \<open>A concrete instance\<close>

text \<open>A wallet that is an association list of records; keys are not kept, and nothing is searched.\<close>

definition list_view :: "Record list \<Rightarrow> store" where
  "list_view w = map_of (map (\<lambda>r. ((rec_category r, rec_name r), rec_value r)) w)"

definition is_at :: "RecordCategory \<Rightarrow> string \<Rightarrow> Record \<Rightarrow> bool" where
  "is_at c n r \<longleftrightarrow> rec_category r = c \<and> rec_name r = n"

definition list_wallet :: "Record list record_wallet" where
  "list_wallet = \<lparr>
     rw_all_records = (\<lambda>w. Ok \<lparr>all_total = Ok (Some (length w)), all_items =
       map (\<lambda>r. Ok \<lparr>par_category = Some (show_category (rec_category r)), par_name = rec_name r,
         par_value = Some (rec_value r), par_tags = Some (rec_tags r)\<rparr>) w\<rparr>),
     rw_add_record = (\<lambda>w r. if find (is_at (rec_category r) (rec_name r)) w = None then (Ok (), r # w)
       else (Err (We_DuplicateRecord (rec_name r)), w)),
     rw_get_record = (\<lambda>w c n. case find (is_at c n) w of Some r \<Rightarrow> Ok r | None \<Rightarrow> Err (We_RecordNotFound None)),
     rw_update_record_tags = (\<lambda>w c n t. case find (is_at c n) w of
       Some r \<Rightarrow> (Ok (), r\<lparr>rec_tags := t\<rparr> # w) | None \<Rightarrow> (Err (We_RecordNotFound None), w)),
     rw_update_record_value = (\<lambda>w c n v. case find (is_at c n) w of
       Some r \<Rightarrow> (Ok (), r\<lparr>rec_value := v\<rparr> # w) | None \<Rightarrow> (Err (We_RecordNotFound None), w)),
     rw_delete_record = (\<lambda>w c n. if find (is_at c n) w = None then (Err (We_RecordNotFound None), w)
       else (Ok (), filter (\<lambda>r. \<not> is_at c n r) w)),
     rw_search_record = (\<lambda>w c q. Ok (filter (\<lambda>r. rec_category r = c) w)),
     rw_create_key = (\<lambda>w n kv t. (Ok (), w))\<rparr>"

lemma list_view_find: "list_view w (c, n) = map_option rec_value (find (is_at c n) w)"
  by (induction w) (auto simp: list_view_def is_at_def)

lemma find_is_at: "find (is_at c n) w = Some r \<Longrightarrow> rec_category r = c \<and> rec_name r = n"
  by (auto simp: find_Some_iff is_at_def)

lemma list_view_Cons [simp]:
  "list_view (r # w) = (list_view w)((rec_category r, rec_name r) \<mapsto> rec_value r)"
  by (simp add: list_view_def)

lemma list_view_filter: "list_view (filter (\<lambda>r. \<not> is_at c n r) w) = (list_view w)((c, n) := None)"
  by (induction w) (auto simp: is_at_def fun_eq_iff, auto simp: list_view_def)

lemma list_view_touch:
  "find (is_at c n) w = Some r \<Longrightarrow> (list_view w)((rec_category r, rec_name r) \<mapsto> rec_value r) = list_view w"
  by (metis find_is_at fun_upd_triv list_view_find option.simps(9))

lemma list_update_tags: "update_tags_law list_wallet list_view"
  unfolding update_tags_law_def by (auto simp: list_wallet_def list_view_touch split: option.splits)

lemma list_record_store [simp]: "record_store list_wallet list_view"
  using list_update_tags
  unfolding record_store_def add_law_def get_law_def update_value_law_def delete_law_def
  by (auto simp: list_wallet_def list_view_find list_view_filter split: option.splits dest!: find_is_at)

lemma list_keys_apart [simp]: "keys_apart list_wallet list_view"
  by (simp add: keys_apart_def list_wallet_def)

definition sample_record :: Record where
  "sample_record = \<lparr>rec_category = Rc_Cred, rec_name = ''c'', rec_value = ''v'', rec_tags = []\<rparr>"

theorem migration_accounts_witness:
  "accounted \<lparr>ms_migrated = 1, ms_skipped = 0, ms_duplicated = 0, ms_failed = 0\<rparr> = of_nat (length [sample_record])
   \<and> list_view [] \<subseteq>\<^sub>m list_view [sample_record]"
proof -
  have run: "migrate_records (\<lambda>_. Err []) list_wallet [sample_record] list_wallet [] (\<lambda>r. Ok (Some r) :: (string, _) result) =
    (Ok \<lparr>ms_migrated = 1, ms_skipped = 0, ms_duplicated = 0, ms_failed = 0\<rparr>, [sample_record])"
    by (simp add: migrate_records_def list_wallet_def migrate_one_def transform_record_def is_key_def
        migrate_add_record_def sample_record_def category_from_str_def)
  from migration_accounts [OF list_record_store list_keys_apart run] show ?thesis
    by (auto simp: list_wallet_def)
qed

end
