(* ===== verification/Anoncreds_Backend.thy ===== *)
theory Anoncreds_Backend
  imports Registry_Data Records "HOL-Library.Countable"
begin

text \<open>
  The anoncreds back end (\<open>aries_vcx_anoncreds/src/anoncreds/anoncreds/mod.rs\<close>): what the issuer
  and the holder keep in the wallet, and what they ask the crate \<open>anoncreds\<close> to compute. The crate is
  the record \<open>anc_lib\<close>, the derived (de)serialisers and conversions are \<open>anc_codec\<close>; objects the code
  only hands on are JSON values. The wallet is any \<open>record_wallet\<close>; clock and fresh identifiers are
  arguments. The last sections show what revocation indices are given out, that link secrets are
  never replaced, and what a stored definition can be read as.
\<close>

section \<open>The third-party interface\<close>

datatype AncErrorKind = An_Input | An_IOError | An_InvalidState | An_Unexpected | An_CredentialRevoked
  | An_InvalidUserRevocId | An_ProofRejected | An_RevocationRegistryFull

type_synonym 'a anc_res = "(AncErrorKind \<times> string, 'a) result"

text \<open>\<open>From<anoncreds::Error>\<close>; the errors of conversions and of \<open>anoncreds_types\<close> become \<open>InvalidState\<close>.\<close>

fun from_anc_error :: "AncErrorKind \<times> string \<Rightarrow> VcxAnoncredsError" where
  "from_anc_error (An_Input, err) = Ae_InvalidInput err"
| "from_anc_error (An_IOError, err) = Ae_IOError err"
| "from_anc_error (An_InvalidState, err) = Ae_InvalidState err"
| "from_anc_error (An_Unexpected, err) = Ae_UnknownError err"
| "from_anc_error (An_CredentialRevoked, err) = Ae_InvalidState err"
| "from_anc_error (An_InvalidUserRevocId, err) = Ae_InvalidInput err"
| "from_anc_error (An_ProofRejected, err) = Ae_ProofRejected err"
| "from_anc_error (An_RevocationRegistryFull, err) = Ae_InvalidState err"

definition from_lib :: "'a anc_res \<Rightarrow> 'a anon_res" where
  "from_lib = map_err from_anc_error"

definition from_conv :: "(string, 'a) result \<Rightarrow> 'a anon_res" where
  "from_conv = map_err Ae_InvalidState"

definition from_at :: "(at_error, 'a) result \<Rightarrow> 'a anon_res" where
  "from_at = map_err (\<lambda>e. Ae_InvalidState (show_at_error e))"

definition from_de :: "(string, 'a) result \<Rightarrow> 'a anon_res" where
  "from_de = map_err Ae_InvalidJson"

definition from_records :: "'a wallet_res \<Rightarrow> 'a anon_res" where
  "from_records = map_err Ae_WalletError"

lemma from_lib_Ok [simp]: "from_lib r = Ok x \<longleftrightarrow> r = Ok x"
  by (simp add: from_lib_def)

lemma from_conv_Ok [simp]: "from_conv r = Ok x \<longleftrightarrow> r = Ok x" "from_de r = Ok x \<longleftrightarrow> r = Ok x"
  by (simp_all add: from_conv_def from_de_def)

lemma from_at_Ok [simp]: "from_at r = Ok x \<longleftrightarrow> r = Ok x"
  by (simp add: from_at_def)

lemma from_records_Ok [simp]: "from_records r = Ok x \<longleftrightarrow> r = Ok x"
  by (simp add: from_records_def)

text \<open>The crate's own schema, credential definition and registry definition.\<close>

record AncSchema =
  as_name :: string
  as_version :: string
  as_attr_names :: "string list"
  as_issuer_id :: string

record AncCredDef =
  ad_schema_id :: string
  ad_tag :: string
  ad_value :: json
  ad_issuer_id :: string

record AncRevRegDef =
  ar_issuer_id :: string
  ar_tag :: string
  ar_cred_def_id :: string
  ar_max_cred_num :: u32
  ar_public_keys :: json
  ar_tails_hash :: string
  ar_tails_location :: string

record RevocationConfig =
  rf_reg_def :: AncRevRegDef
  rf_reg_def_private :: json
  rf_registry_idx :: u32
  rf_status_list :: RevStatusList

text \<open>
  \<open>CredentialRequestMetadata\<close> is known by the one field the code reads, the name of the link secret,
  and the rest.
\<close>

record RequestMetadata =
  rm_link_secret_name :: string
  rm_rest :: json

record PresentCredential =
  pc_credential :: Credential
  pc_timestamp :: "u64 option"
  pc_rev_state :: "json option"
  pc_attributes :: "(string \<times> bool) list"
  pc_predicates :: "string list"

record anc_lib =
  al_create_revocation_registry_def :: "AncCredDef \<Rightarrow> string \<Rightarrow> string \<Rightarrow> u32 \<Rightarrow> string \<Rightarrow> (AncRevRegDef \<times> json) anc_res"
  al_create_revocation_status_list ::
    "AncCredDef \<Rightarrow> string \<Rightarrow> AncRevRegDef \<Rightarrow> json \<Rightarrow> u64 option \<Rightarrow> RevStatusList anc_res"
  al_update_revocation_status_list ::
    "AncCredDef \<Rightarrow> AncRevRegDef \<Rightarrow> json \<Rightarrow> RevStatusList \<Rightarrow> u32 list option \<Rightarrow> RevStatusList anc_res"
  al_create_credential_definition ::
    "string \<Rightarrow> AncSchema \<Rightarrow> string \<Rightarrow> string \<Rightarrow> bool \<Rightarrow> (AncCredDef \<times> json \<times> json) anc_res"
  al_create_credential_offer :: "string \<Rightarrow> string \<Rightarrow> json \<Rightarrow> CredentialOffer anc_res"
  al_create_credential ::
    "AncCredDef \<Rightarrow> json \<Rightarrow> CredentialOffer \<Rightarrow> CredentialRequest \<Rightarrow> CredentialValues \<Rightarrow>
     RevocationConfig option \<Rightarrow> Credential anc_res"
  al_create_credential_request ::
    "string option \<Rightarrow> string \<Rightarrow> AncCredDef \<Rightarrow> string \<Rightarrow> string \<Rightarrow> CredentialOffer \<Rightarrow>
     (CredentialRequest \<times> RequestMetadata) anc_res"
  al_process_credential ::
    "Credential \<Rightarrow> RequestMetadata \<Rightarrow> string \<Rightarrow> AncCredDef \<Rightarrow> AncRevRegDef option \<Rightarrow> Credential anc_res"
  al_create_presentation ::
    "PresentationRequest \<Rightarrow> PresentCredential list \<Rightarrow> (string \<rightharpoonup> string) \<Rightarrow> string \<Rightarrow>
     (string \<times> AncSchema) list \<Rightarrow> (string \<times> AncCredDef) list \<Rightarrow> Presentation anc_res"
  al_create_link_secret :: "string anc_res"
  al_link_secret_text :: "string \<Rightarrow> (string, string) result"
  al_link_secret_of_text :: "string \<Rightarrow> string option"
  al_create_schema :: "string \<Rightarrow> string \<Rightarrow> string \<Rightarrow> string list \<Rightarrow> AncSchema anc_res"
  al_create_or_update_revocation_state :: "string \<Rightarrow> AncRevRegDef \<Rightarrow> RevStatusList \<Rightarrow> u32 \<Rightarrow> json anc_res"
  al_generate_nonce :: "string anc_res"
  al_issuer_id :: "string \<Rightarrow> (string, string) result"
  al_schema_id :: "string \<Rightarrow> (string, string) result"
  al_cred_def_id :: "string \<Rightarrow> (string, string) result"
  al_rev_reg_def_id :: "string \<Rightarrow> (string, string) result"

record RevRegInfo =
  rri_id :: RevocationRegistryDefinitionId
  rri_curr_id :: u32
  rri_used_ids :: "u32 set"

text \<open>
  Texts by category, for the objects that are only handed on (\<open>cc_de_obj\<close>, \<open>cc_ser_obj\<close>), and
  \<open>serde_convert\<close> for each type it is used at.
\<close>

record anc_codec =
  cc_de_obj :: "RecordCategory \<Rightarrow> string \<Rightarrow> (string, json) result"
  cc_ser_obj :: "RecordCategory \<Rightarrow> json \<Rightarrow> string"
  cc_de_anc_cred_def :: "string \<Rightarrow> (string, AncCredDef) result"
  cc_ser_anc_cred_def :: "AncCredDef \<Rightarrow> string"
  cc_de_cred_def :: "string \<Rightarrow> (string, CredentialDefinition) result"
  cc_de_anc_rev_reg_def :: "string \<Rightarrow> (string, AncRevRegDef) result"
  cc_anc_rev_reg_def_value :: "AncRevRegDef \<Rightarrow> json"
  cc_de_rev_reg_def :: "string \<Rightarrow> (string, RevRegDef) result"
  cc_de_info :: "string \<Rightarrow> (string, RevRegInfo) result"
  cc_ser_info :: "RevRegInfo \<Rightarrow> string"
  cc_de_delta :: "string \<Rightarrow> (string, RevocationRegistryDelta) result"
  cc_ser_delta :: "RevocationRegistryDelta \<Rightarrow> string"
  cc_de_credential :: "string \<Rightarrow> (string, Credential) result"
  cc_ser_credential :: "Credential \<Rightarrow> string"
  cc_ser_schema :: "LedgerSchema \<Rightarrow> string"
  cc_print :: "json \<Rightarrow> string"
  cc_conv_keys :: "json \<Rightarrow> (string, json) result"
  cc_conv_rev_reg :: "json \<Rightarrow> (string, json) result"
  cc_conv_offer :: "CredentialOffer \<Rightarrow> (string, CredentialOffer) result"
  cc_conv_request :: "CredentialRequest \<Rightarrow> (string, CredentialRequest) result"
  cc_conv_metadata :: "RequestMetadata \<Rightarrow> (string, RequestMetadata) result"
  cc_conv_values :: "CredentialValues \<Rightarrow> (string, CredentialValues) result"
  cc_conv_parts :: "Credential \<Rightarrow> (string, Credential) result"
  cc_conv_pres_request :: "PresentationRequest \<Rightarrow> (string, PresentationRequest) result"
  cc_conv_presentation :: "Presentation \<Rightarrow> (string, Presentation) result"
  cc_conv_state :: "json \<Rightarrow> (string, json) result"
  cc_conv_status :: "RevStatusList \<Rightarrow> (string, RevStatusList) result"
  cc_conv_nonce :: "string \<Rightarrow> (string, string) result"
  cc_lowercase :: "string \<Rightarrow> string"
  cc_set_iter :: "string set \<Rightarrow> string list"
  cc_attr_iter :: "(string \<rightharpoonup> RequestedAttribute) \<Rightarrow> (string \<times> RequestedAttribute) list"
  cc_pred_iter :: "(string \<rightharpoonup> RequestedPredicate) \<Rightarrow> (string \<times> RequestedPredicate) list"
  cc_detail_iter :: "(string \<times> PresentCredential) list \<Rightarrow> (string \<times> PresentCredential) list"

section \<open>Conversions\<close>

text \<open>\<open>type_conversion.rs\<close>: the identifiers of the target type are validated, the rest is copied.\<close>

definition schema_to_anc :: "anc_lib \<Rightarrow> LedgerSchema \<Rightarrow> AncSchema anon_res" where
  "schema_to_anc L self =
     and_then (from_conv (al_issuer_id L (sch_issuer_id self))) (\<lambda>i.
     Ok \<lparr>as_name = sch_name self, as_version = sch_version self, as_attr_names = sch_attr_names self,
       as_issuer_id = i\<rparr>)"

definition schema_of_anc :: "string \<Rightarrow> AncSchema \<Rightarrow> LedgerSchema anon_res" where
  "schema_of_anc schema_id self =
     and_then (from_at (SchemaId_new schema_id)) (\<lambda>sid.
     and_then (from_at (IssuerId_new (as_issuer_id self))) (\<lambda>i.
     Ok \<lparr>sch_id = sid, sch_seq_no = None, sch_name = as_name self, sch_version = as_version self,
       sch_attr_names = as_attr_names self, sch_issuer_id = i\<rparr>))"

definition cred_def_of_anc :: "string \<Rightarrow> AncCredDef \<Rightarrow> CredentialDefinition anon_res" where
  "cred_def_of_anc cred_def_id self =
     and_then (from_at (CredentialDefinitionId_new cred_def_id)) (\<lambda>cid.
     and_then (from_at (IssuerId_new (ad_issuer_id self))) (\<lambda>i.
     Ok \<lparr>cdf_id = cid, cdf_schema_id = ad_schema_id self, cdf_tag = ad_tag self, cdf_value = ad_value self,
       cdf_issuer_id = i\<rparr>))"

definition cred_def_to_anc :: "anc_lib \<Rightarrow> CredentialDefinition \<Rightarrow> AncCredDef anon_res" where
  "cred_def_to_anc L self =
     and_then (from_conv (al_issuer_id L (cdf_issuer_id self))) (\<lambda>i.
     Ok \<lparr>ad_schema_id = cdf_schema_id self, ad_tag = cdf_tag self, ad_value = cdf_value self,
       ad_issuer_id = i\<rparr>)"

definition rev_reg_def_to_anc :: "anc_lib \<Rightarrow> anc_codec \<Rightarrow> RevRegDef \<Rightarrow> AncRevRegDef anon_res" where
  "rev_reg_def_to_anc L C self =
     and_then (from_conv (al_issuer_id L (rgd_issuer_id self))) (\<lambda>i.
     and_then (from_conv (al_cred_def_id L (rgd_cred_def_id self))) (\<lambda>cid.
     and_then (from_conv (cc_conv_keys C (rgd_public_keys self))) (\<lambda>keys.
     Ok \<lparr>ar_issuer_id = i, ar_tag = rgd_tag self, ar_cred_def_id = cid,
       ar_max_cred_num = rgd_max_cred_num self, ar_public_keys = keys,
       ar_tails_hash = rgd_tails_hash self, ar_tails_location = rgd_tails_location self\<rparr>)))"

definition rev_reg_def_of_anc :: "anc_codec \<Rightarrow> string \<Rightarrow> AncRevRegDef \<Rightarrow> RevRegDef anon_res" where
  "rev_reg_def_of_anc C rev_reg_def_id self =
     and_then (from_at (RevocationRegistryDefinitionId_new rev_reg_def_id)) (\<lambda>rid.
     and_then (from_at (IssuerId_new (ar_issuer_id self))) (\<lambda>i.
     and_then (from_at (CredentialDefinitionId_new (ar_cred_def_id self))) (\<lambda>cid.
     and_then (from_conv (cc_conv_keys C (ar_public_keys self))) (\<lambda>keys.
     Ok \<lparr>rgd_id = rid, rgd_issuer_id = i, rgd_tag = ar_tag self, rgd_cred_def_id = cid,
       rgd_max_cred_num = ar_max_cred_num self, rgd_public_keys = keys,
       rgd_tails_hash = ar_tails_hash self, rgd_tails_location = ar_tails_location self\<rparr>))))"

definition credential_to_anc :: "anc_lib \<Rightarrow> anc_codec \<Rightarrow> Credential \<Rightarrow> Credential anon_res" where
  "credential_to_anc L C self =
     and_then (from_conv (al_schema_id L (cd_schema_id self))) (\<lambda>sid.
     and_then (from_conv (al_cred_def_id L (cd_cred_def_id self))) (\<lambda>cid.
     and_then (from_conv (transpose_opt (map_option (al_rev_reg_def_id L) (cd_rev_reg_id self)))) (\<lambda>rid.
     and_then (from_conv (cc_conv_parts C self)) (\<lambda>parts.
     Ok (parts\<lparr>cd_schema_id := sid, cd_cred_def_id := cid, cd_rev_reg_id := rid\<rparr>)))))"

definition credential_of_anc :: "anc_codec \<Rightarrow> Credential \<Rightarrow> Credential anon_res" where
  "credential_of_anc C self =
     and_then (from_at (CredentialDefinitionId_new (cd_cred_def_id self))) (\<lambda>cid.
     and_then (from_at (transpose_opt (map_option RevocationRegistryDefinitionId_new (cd_rev_reg_id self)))) (\<lambda>rid.
     and_then (from_conv (cc_conv_parts C self)) (\<lambda>parts.
     Ok (parts\<lparr>cd_schema_id := cd_schema_id self, cd_cred_def_id := cid, cd_rev_reg_id := rid\<rparr>))))"

text \<open>
  The conversions of hash maps, entry by entry; a map is the list of its entries. A verifier's
  registries become one status list for each time stamp, without any bits.
\<close>

definition convert_entries ::
  "(string \<Rightarrow> (string, string) result) \<Rightarrow> ('a \<Rightarrow> 'b anon_res) \<Rightarrow> (string \<times> 'a) list \<Rightarrow> (string \<times> 'b) list anon_res" where
  "convert_entries key_of value_of entries =
     try_map (\<lambda>(i, x). and_then (from_conv (key_of i)) (\<lambda>i. map_ok (Pair i) (value_of x))) entries"

definition status_list_of_registry ::
  "anc_codec \<Rightarrow> string \<Rightarrow> string \<Rightarrow> u64 \<times> json \<Rightarrow> RevStatusList anon_res" where
  "status_list_of_registry C rev_reg_def_id issuer_id entry = (case entry of (timestamp, accum) \<Rightarrow>
     and_then (from_at (RevStatusList_new (Some rev_reg_def_id) issuer_id [] (Some accum) (Some timestamp)))
       (\<lambda>rev_status_list. from_conv (cc_conv_status C rev_status_list)))"

definition status_lists_of_registries ::
  "anc_codec \<Rightarrow> (string \<times> (u64 \<times> json) list \<times> string) list \<Rightarrow> RevStatusList list anon_res" where
  "status_lists_of_registries C registries =
     map_ok concat (try_map (\<lambda>(rev_reg_def_id, timestamp_map, issuer_id).
       try_map (status_list_of_registry C rev_reg_def_id issuer_id) timestamp_map) registries)"

section \<open>Reading the wallet\<close>

definition get_wallet_record_value ::
  "'w record_wallet \<Rightarrow> 'w \<Rightarrow> (string \<Rightarrow> (string, 'a) result) \<Rightarrow> RecordCategory \<Rightarrow> string \<Rightarrow> 'a anon_res" where
  "get_wallet_record_value W w de category i =
     and_then (from_records (rw_get_record W w category i)) (\<lambda>str_record.
     from_de (de (rec_value str_record)))"

definition get_link_secret :: "'w record_wallet \<Rightarrow> anc_lib \<Rightarrow> 'w \<Rightarrow> string \<Rightarrow> string anon_res" where
  "get_link_secret W L w link_secret_id =
     and_then (from_records (rw_get_record W w Rc_LinkSecret link_secret_id)) (\<lambda>ms_decimal.
     case al_link_secret_of_text L (rec_value ms_decimal) of Some s \<Rightarrow> Ok s | None \<Rightarrow> Panic)"

definition get_credentials :: "'w record_wallet \<Rightarrow> anc_codec \<Rightarrow> 'w \<Rightarrow> string \<Rightarrow> (string \<times> Credential) list anon_res" where
  "get_credentials W C w wql =
     and_then (from_records (rw_search_record W w Rc_Cred (Some wql))) (\<lambda>records.
     try_map (\<lambda>r. and_then (from_de (cc_de_credential C (rec_value r))) (\<lambda>credential.
       Ok (rec_name r, credential))) records)"

definition value_tag_name :: "string \<Rightarrow> string" where
  "value_tag_name attribute_name = ''attr::'' @ attribute_name @ ''::value''"

definition marker_tag_name :: "string \<Rightarrow> string" where
  "marker_tag_name attribute_name = ''attr::'' @ attribute_name @ ''::marker''"

definition normalize_attr_name :: "anc_codec \<Rightarrow> string \<Rightarrow> string" where
  "normalize_attr_name C name = cc_lowercase C (filter (\<lambda>c. c \<noteq> CHR '' '') name)"

definition attr_query :: "json option \<Rightarrow> string list \<Rightarrow> json anon_res" where
  "attr_query restrictions attr_names =
     (let attrs = map (\<lambda>name. JObject [(marker_tag_name name, JString ''1'')]) attr_names
      in case restrictions of
           Some (JArray restrictions) \<Rightarrow>
             Ok (JObject [(''$and'', JArray (attrs @ [JObject [(''$or'', JArray restrictions)]]))])
         | Some (JObject restriction) \<Rightarrow> Ok (JObject [(''$and'', JArray (attrs @ [JObject restriction]))])
         | Some JNull \<Rightarrow> Ok (JObject [(''$and'', JArray attrs)])
         | Some _ \<Rightarrow> Err (Ae_InvalidInput ''Invalid attribute restrictions (must be array or an object)'')
         | None \<Rightarrow> Ok (JObject [(''$and'', JArray attrs)]))"

definition get_credentials_for_attr_name ::
  "'w record_wallet \<Rightarrow> anc_codec \<Rightarrow> 'w \<Rightarrow> json option \<Rightarrow> string list \<Rightarrow> (string \<times> Credential) list anon_res" where
  "get_credentials_for_attr_name W C w restrictions attr_names =
     and_then (attr_query restrictions attr_names) (\<lambda>wql_query.
     get_credentials W C w (cc_print C wql_query))"

text \<open>Adding one record without tags.\<close>

definition put_record ::
  "'w record_wallet \<Rightarrow> 'w \<Rightarrow> RecordCategory \<Rightarrow> string \<Rightarrow> string \<Rightarrow> unit anon_res \<times> 'w" where
  "put_record W w category name value =
     (case rw_add_record W w \<lparr>rec_category = category, rec_name = name, rec_value = value, rec_tags = []\<rparr> of
        (r, w) \<Rightarrow> (from_records r, w))"

definition update_value ::
  "'w record_wallet \<Rightarrow> 'w \<Rightarrow> RecordCategory \<Rightarrow> string \<Rightarrow> string \<Rightarrow> unit anon_res \<times> 'w" where
  "update_value W w category name value =
     (case rw_update_record_value W w category name value of (r, w) \<Rightarrow> (from_records r, w))"

section \<open>The verifier\<close>

text \<open>
  \<open>check\<close> is the crate's \<open>verify_presentation\<close>. Registries without a definition are left out, and
  without definitions no registry is looked at.
\<close>

definition registries_with_issuer ::
  "(string \<times> RevRegDef) list \<Rightarrow> (string \<times> (u64 \<times> json) list) list \<Rightarrow> (string \<times> (u64 \<times> json) list \<times> string) list" where
  "registries_with_issuer defs regs =
     List.map_filter (\<lambda>(k, v). map_option (\<lambda>def. (k, v, rgd_issuer_id def)) (map_of defs k)) regs"

definition backend_verify_proof ::
  "anc_lib \<Rightarrow> anc_codec \<Rightarrow>
   (Presentation \<Rightarrow> PresentationRequest \<Rightarrow> (string \<times> AncSchema) list \<Rightarrow> (string \<times> AncCredDef) list \<Rightarrow>
    (string \<times> AncRevRegDef) list option \<Rightarrow> RevStatusList list option \<Rightarrow> bool anc_res) \<Rightarrow>
   PresentationRequest \<Rightarrow> Presentation \<Rightarrow> (string \<times> LedgerSchema) list \<Rightarrow> (string \<times> CredentialDefinition) list \<Rightarrow>
   (string \<times> RevRegDef) list option \<Rightarrow> (string \<times> (u64 \<times> json) list) list option \<Rightarrow> bool anon_res" where
  "backend_verify_proof L C check proof_request presentation schemas cred_defs rev_reg_defs rev_regs =
     and_then (from_conv (cc_conv_presentation C presentation)) (\<lambda>presentation.
     and_then (from_conv (cc_conv_pres_request C proof_request)) (\<lambda>pres_req.
     and_then (convert_entries (al_schema_id L) (schema_to_anc L) schemas) (\<lambda>schemas.
     and_then (convert_entries (al_cred_def_id L) (cred_def_to_anc L) cred_defs) (\<lambda>cred_defs.
     let rev_regs_map_with_issuer_ids = (case (rev_regs, rev_reg_defs) of
           (Some regs, Some defs) \<Rightarrow> Some (registries_with_issuer defs regs) | _ \<Rightarrow> None)
     in
     and_then (transpose_opt (map_option (convert_entries (al_rev_reg_def_id L) (rev_reg_def_to_anc L C)) rev_reg_defs))
       (\<lambda>rev_reg_defs.
     and_then (transpose_opt (map_option (status_lists_of_registries C) rev_regs_map_with_issuer_ids))
       (\<lambda>rev_status_lists.
     from_lib (check presentation pres_req schemas cred_defs rev_reg_defs rev_status_lists)))))))"

section \<open>The issuer\<close>

text \<open>\<open>value.as_object_mut().unwrap().insert(key, x)\<close>\<close>

fun object_insert :: "json \<Rightarrow> string \<Rightarrow> json \<Rightarrow> ('e, json) result" where
  "object_insert (JObject m) k x = Ok (JObject (btree_insert k x m))"
| "object_insert _ k x = Panic"

definition rev_reg_def_value :: "anc_codec \<Rightarrow> AncRevRegDef \<Rightarrow> string \<Rightarrow> ('e, json) result" where
  "rev_reg_def_value C rev_reg_def rev_reg_id =
     and_then (object_insert (cc_anc_rev_reg_def_value C rev_reg_def) ''id'' (JString rev_reg_id)) (\<lambda>v.
     and_then (object_insert v ''ver'' (JString ''1.0'')) (\<lambda>v.
     and_then (object_insert (json_index v ''value'') ''issuanceType'' (JString ''ISSUANCE_BY_DEFAULT'')) (\<lambda>x.
     object_insert v ''value'' x)))"

definition issuer_create_and_store_revoc_reg ::
  "'w record_wallet \<Rightarrow> anc_lib \<Rightarrow> anc_codec \<Rightarrow> u64 \<Rightarrow> 'w \<Rightarrow> Did \<Rightarrow> CredentialDefinitionId \<Rightarrow> string \<Rightarrow> u32 \<Rightarrow>
   string \<Rightarrow> (RevocationRegistryDefinitionId \<times> RevRegDef \<times> json) anon_res \<times> 'w" where
  "issuer_create_and_store_revoc_reg W L C now w issuer_did cred_def_id tails_dir max_creds tag =
     and_thenw (pure_w (get_wallet_record_value W w (cc_de_anc_cred_def C) Rc_CredDef cred_def_id) w) (\<lambda>cred_def w.
     and_thenw (pure_w (make_revocation_registry_id issuer_did cred_def_id tag) w) (\<lambda>rev_reg_id w.
     and_thenw (pure_w (case al_cred_def_id L cred_def_id of Ok i \<Rightarrow> Ok i | _ \<Rightarrow> Panic) w) (\<lambda>cid w.
     and_thenw (pure_w (from_lib (al_create_revocation_registry_def L cred_def cid tag max_creds tails_dir)) w)
       (\<lambda>(rev_reg_def, rev_reg_def_priv) w.
     and_thenw (pure_w (case al_rev_reg_def_id L rev_reg_id of Ok i \<Rightarrow> Ok i | _ \<Rightarrow> Panic) w) (\<lambda>rid w.
     and_thenw (pure_w (from_lib (al_create_revocation_status_list L cred_def rid rev_reg_def rev_reg_def_priv
         (Some now))) w) (\<lambda>rev_status_list w.
     and_thenw (pure_w (case rsl_accum rev_status_list of Some r \<Rightarrow> Ok r | None \<Rightarrow> Panic) w) (\<lambda>rev_reg w.
     and_thenw (put_record W w Rc_RevRegInfo rev_reg_id
         (cc_ser_info C \<lparr>rri_id = rev_reg_id, rri_curr_id = 0, rri_used_ids = {}\<rparr>)) (\<lambda>_ w.
     and_thenw (pure_w (rev_reg_def_value C rev_reg_def rev_reg_id) w) (\<lambda>rev_reg_def_val w.
     and_thenw (put_record W w Rc_RevRegDef rev_reg_id (cc_print C rev_reg_def_val)) (\<lambda>_ w.
     and_thenw (put_record W w Rc_RevRegDefPriv rev_reg_id (cc_ser_obj C Rc_RevRegDefPriv rev_reg_def_priv)) (\<lambda>_ w.
     and_thenw (put_record W w Rc_RevReg rev_reg_id (cc_ser_obj C Rc_RevReg rev_reg)) (\<lambda>_ w.
     and_thenw (pure_w (from_at (RevocationRegistryDefinitionId_new rev_reg_id)) w) (\<lambda>i w.
     and_thenw (pure_w (rev_reg_def_of_anc C rev_reg_id rev_reg_def) w) (\<lambda>d w.
     and_thenw (pure_w (from_conv (cc_conv_rev_reg C rev_reg)) w) (\<lambda>r w.
     (Ok (i, d, r), w))))))))))))))))"

text \<open>A result that is only logged when it is an error.\<close>

fun warn_only :: "unit anon_res \<times> 'w \<Rightarrow> unit anon_res \<times> 'w" where
  "warn_only (Panic, w) = (Panic, w)"
| "warn_only (_, w) = (Ok (), w)"

text \<open>
  \<open>cred_def_val\<close>, the value with the identifier, is computed by the source and not used: what is
  stored is the definition without it.
\<close>

definition issuer_create_and_store_credential_def ::
  "'w record_wallet \<Rightarrow> anc_lib \<Rightarrow> anc_codec \<Rightarrow> 'w \<Rightarrow> Did \<Rightarrow> SchemaId \<Rightarrow> LedgerSchema \<Rightarrow> string \<Rightarrow> bool \<Rightarrow>
   CredentialDefinition anon_res \<times> 'w" where
  "issuer_create_and_store_credential_def W L C w issuer_did schema_id schema tag support_revocation =
     and_thenw (pure_w (make_credential_definition_id issuer_did schema_id (sch_seq_no schema) tag) w) (\<lambda>cred_def_id w.
     case get_wallet_record_value W w (cc_de_cred_def C) Rc_CredDef cred_def_id of
       Ok cred_def \<Rightarrow> (Ok cred_def, w)
     | Panic \<Rightarrow> (Panic, w)
     | Err _ \<Rightarrow>
         and_thenw (pure_w (case sch_seq_no schema of Some n \<Rightarrow> Ok (show_u32 n) | None \<Rightarrow> Panic) w) (\<lambda>seq_no w.
         and_thenw (pure_w (schema_to_anc L schema) w) (\<lambda>s w.
         and_thenw (pure_w (from_conv (al_issuer_id L (sch_issuer_id schema))) w) (\<lambda>issuer w.
         and_thenw (pure_w (from_lib (al_create_credential_definition L seq_no s issuer tag support_revocation)) w)
           (\<lambda>(cred_def, cred_def_priv, cred_key_correctness_proof) w.
         and_thenw (put_record W w Rc_CredDef cred_def_id (cc_ser_anc_cred_def C cred_def)) (\<lambda>_ w.
         and_thenw (put_record W w Rc_CredDefPriv cred_def_id (cc_ser_obj C Rc_CredDefPriv cred_def_priv)) (\<lambda>_ w.
         and_thenw (put_record W w Rc_CredKeyCorrectnessProof cred_def_id
             (cc_ser_obj C Rc_CredKeyCorrectnessProof cred_key_correctness_proof)) (\<lambda>_ w.
         and_thenw (warn_only (put_record W w Rc_CredSchema schema_id (cc_ser_schema C schema))) (\<lambda>_ w.
         and_thenw (put_record W w Rc_CredMapSchemaId cred_def_id
             (cc_print C (JObject [(''schemaId'', JString schema_id)]))) (\<lambda>_ w.
         and_thenw (pure_w (cred_def_of_anc cred_def_id cred_def) w) (\<lambda>d w.
         (Ok d, w))))))))))))"

definition issuer_create_credential_offer ::
  "'w record_wallet \<Rightarrow> anc_lib \<Rightarrow> anc_codec \<Rightarrow> 'w \<Rightarrow> CredentialDefinitionId \<Rightarrow> CredentialOffer anon_res" where
  "issuer_create_credential_offer W L C w cred_def_id =
     and_then (get_wallet_record_value W w (cc_de_obj C Rc_CredKeyCorrectnessProof) Rc_CredKeyCorrectnessProof cred_def_id)
       (\<lambda>correctness_proof.
     and_then (get_wallet_record_value W w (cc_de_obj C Rc_CredMapSchemaId) Rc_CredMapSchemaId cred_def_id)
       (\<lambda>schema_id_value.
     and_then (case as_str (json_index schema_id_value ''schemaId'') of
         Some s \<Rightarrow> (case al_schema_id L s of Ok i \<Rightarrow> Ok i | _ \<Rightarrow> Panic) | None \<Rightarrow> Panic) (\<lambda>sid.
     and_then (case al_cred_def_id L cred_def_id of Ok i \<Rightarrow> Ok i | _ \<Rightarrow> Panic) (\<lambda>cid.
     and_then (from_lib (al_create_credential_offer L sid cid correctness_proof)) (\<lambda>offer.
     from_conv (cc_conv_offer C offer))))))"

text \<open>
  The parts of the revocation configuration. A directory without a registry, or the reverse, is
  logged and the credential is issued without revocation.
\<close>

definition revocation_parts ::
  "'w record_wallet \<Rightarrow> anc_lib \<Rightarrow> anc_codec \<Rightarrow> 'w \<Rightarrow> string option \<Rightarrow> string option \<Rightarrow>
   (AncRevRegDef \<times> string \<times> json \<times> json \<times> RevRegInfo) option anon_res" where
  "revocation_parts W L C w tails_dir rev_reg_id =
     (case (tails_dir, rev_reg_id) of
        (Some tails_dir, Some rev_reg_def_id) \<Rightarrow>
          and_then (get_wallet_record_value W w (cc_de_anc_rev_reg_def C) Rc_RevRegDef rev_reg_def_id) (\<lambda>rev_reg_def.
          and_then (get_wallet_record_value W w (cc_de_obj C Rc_RevRegDefPriv) Rc_RevRegDefPriv rev_reg_def_id)
            (\<lambda>rev_reg_def_priv.
          and_then (get_wallet_record_value W w (cc_de_obj C Rc_RevReg) Rc_RevReg rev_reg_def_id) (\<lambda>rev_reg.
          and_then (get_wallet_record_value W w (cc_de_info C) Rc_RevRegInfo rev_reg_def_id) (\<lambda>rev_reg_info.
          and_then (case al_rev_reg_def_id L rev_reg_def_id of Ok i \<Rightarrow> Ok i | _ \<Rightarrow> Panic) (\<lambda>rid.
          Ok (Some (rev_reg_def, rid, rev_reg_def_priv, rev_reg, rev_reg_info)))))))
      | _ \<Rightarrow> Ok None)"

text \<open>The counter is a \<open>u32\<close>; it wraps as in a release build.\<close>

definition next_index ::
  "AncRevRegDef \<Rightarrow> RevRegInfo \<Rightarrow> RevRegInfo anon_res" where
  "next_index rev_reg_def rev_reg_info =
     (let curr_id = rri_curr_id rev_reg_info + 1
      in if curr_id > ar_max_cred_num rev_reg_def then
           Err (Ae_ActionNotSupported ''The revocation registry is full'')
         else Ok (rev_reg_info\<lparr>rri_curr_id := curr_id, rri_used_ids := insert curr_id (rri_used_ids rev_reg_info)\<rparr>))"

definition revocation_config ::
  "anc_lib \<Rightarrow> AncCredDef \<Rightarrow> (AncRevRegDef \<times> string \<times> json \<times> json \<times> RevRegInfo) option \<Rightarrow>
   (RevocationConfig \<times> RevRegInfo) option anon_res" where
  "revocation_config L cred_def parts =
     (case parts of
        Some (rev_reg_def, rid, rev_reg_def_priv, _, rev_reg_info) \<Rightarrow>
          and_then (from_lib (al_create_revocation_status_list L cred_def rid rev_reg_def rev_reg_def_priv None))
            (\<lambda>rev_status_list.
          and_then (next_index rev_reg_def rev_reg_info) (\<lambda>info.
          Ok (Some (\<lparr>rf_reg_def = rev_reg_def, rf_reg_def_private = rev_reg_def_priv,
            rf_registry_idx = rri_curr_id info, rf_status_list = rev_status_list\<rparr>, info))))
      | None \<Rightarrow> Ok None)"

definition store_index ::
  "'w record_wallet \<Rightarrow> anc_codec \<Rightarrow> 'w \<Rightarrow> string option \<Rightarrow> Credential \<Rightarrow> (RevocationConfig \<times> RevRegInfo) option \<Rightarrow>
   u32 option anon_res \<times> 'w" where
  "store_index W C w rev_reg_id cred config =
     (case (rev_reg_id, cd_rev_reg cred, config) of
        (Some rid, Some rev_reg, Some (_, rev_reg_info)) \<Rightarrow>
          and_thenw (update_value W w Rc_RevReg rid (cc_ser_obj C Rc_RevReg rev_reg)) (\<lambda>_ w.
          and_thenw (update_value W w Rc_RevRegInfo rid (cc_ser_info C rev_reg_info)) (\<lambda>_ w.
          (Ok (Some (rri_curr_id rev_reg_info)), w)))
      | _ \<Rightarrow> (Ok None, w))"

definition issuer_create_credential ::
  "'w record_wallet \<Rightarrow> anc_lib \<Rightarrow> anc_codec \<Rightarrow> 'w \<Rightarrow> CredentialOffer \<Rightarrow> CredentialRequest \<Rightarrow> CredentialValues \<Rightarrow>
   RevocationRegistryDefinitionId option \<Rightarrow> string option \<Rightarrow> (Credential \<times> u32 option) anon_res \<times> 'w" where
  "issuer_create_credential W L C w offer request cred_values rev_reg_id tails_dir =
     and_thenw (pure_w (from_conv (cc_conv_offer C offer)) w) (\<lambda>cred_offer w.
     and_thenw (pure_w (from_conv (cc_conv_request C request)) w) (\<lambda>cred_request w.
     and_thenw (pure_w (from_conv (cc_conv_values C cred_values)) w) (\<lambda>vals w.
     and_thenw (pure_w (get_wallet_record_value W w (cc_de_anc_cred_def C) Rc_CredDef (co_cred_def_id cred_offer)) w)
       (\<lambda>cred_def w.
     and_thenw (pure_w (get_wallet_record_value W w (cc_de_obj C Rc_CredDefPriv) Rc_CredDefPriv
         (co_cred_def_id cred_offer)) w) (\<lambda>cred_def_private w.
     and_thenw (pure_w (revocation_parts W L C w tails_dir rev_reg_id) w) (\<lambda>parts w.
     and_thenw (pure_w (revocation_config L cred_def parts) w) (\<lambda>config w.
     and_thenw (pure_w (from_lib (al_create_credential L cred_def cred_def_private cred_offer cred_request vals
         (map_option fst config))) w) (\<lambda>cred w.
     and_thenw (store_index W C w rev_reg_id cred config) (\<lambda>cred_rev_id w.
     and_thenw (pure_w (credential_of_anc C cred) w) (\<lambda>c w.
     (Ok (c, cred_rev_id), w)))))))))))"

definition backend_issuer_create_schema ::
  "anc_lib \<Rightarrow> Did \<Rightarrow> string \<Rightarrow> string \<Rightarrow> string list \<Rightarrow> LedgerSchema anon_res" where
  "backend_issuer_create_schema L issuer_did name version attrs =
     and_then (case al_issuer_id L (did_text issuer_did) of Ok i \<Rightarrow> Ok i | _ \<Rightarrow> Panic) (\<lambda>issuer.
     and_then (from_lib (al_create_schema L name version issuer attrs)) (\<lambda>schema.
     and_then (make_schema_id issuer_did name version) (\<lambda>schema_id.
     schema_of_anc schema_id schema)))"

section \<open>Revocation\<close>

definition backend_get_rev_reg_delta ::
  "'w record_wallet \<Rightarrow> anc_codec \<Rightarrow> 'w \<Rightarrow> RevocationRegistryDefinitionId \<Rightarrow> RevocationRegistryDelta option anon_res" where
  "backend_get_rev_reg_delta W C w rev_reg_id =
     (case get_wallet_record_value W w (cc_de_delta C) Rc_RevRegDelta rev_reg_id of
        Ok d \<Rightarrow> Ok (Some d) | Err err \<Rightarrow> Ok None | Panic \<Rightarrow> Panic)"

definition backend_clear_rev_reg_delta ::
  "'w record_wallet \<Rightarrow> anc_codec \<Rightarrow> 'w \<Rightarrow> RevocationRegistryDefinitionId \<Rightarrow> unit anon_res \<times> 'w" where
  "backend_clear_rev_reg_delta W C w rev_reg_id =
     and_thenw (pure_w (backend_get_rev_reg_delta W C w rev_reg_id) w) (\<lambda>found w.
     if found \<noteq> None then
       (case rw_delete_record W w Rc_RevRegDelta rev_reg_id of (r, w) \<Rightarrow> (from_records r, w))
     else (Ok (), w))"

definition backend_revoke_credential_local ::
  "'w record_wallet \<Rightarrow> anc_lib \<Rightarrow> anc_codec \<Rightarrow> (bool list \<Rightarrow> nat \<Rightarrow> bool \<Rightarrow> bool list) \<Rightarrow> u64 \<Rightarrow> 'w \<Rightarrow>
   RevocationRegistryDefinitionId \<Rightarrow> u32 \<Rightarrow> RevocationRegistryDelta \<Rightarrow> unit anon_res \<times> 'w" where
  "backend_revoke_credential_local W L C ins now w rev_reg_id cred_rev_id ledger_delta =
     and_thenw (pure_w (get_wallet_record_value W w (cc_de_rev_reg_def C) Rc_RevRegDef rev_reg_id) w) (\<lambda>rev_reg_def w.
     and_thenw (pure_w (backend_get_rev_reg_delta W C w rev_reg_id) w) (\<lambda>stored w.
     let last_rev_reg_delta = (case stored of Some d \<Rightarrow> d | None \<Rightarrow> ledger_delta);
         prev_accum = rrd_accum ledger_delta
     in
     and_thenw (pure_w (from_at (status_list_of_delta ins last_rev_reg_delta now (rgd_id rev_reg_def)
         (unat (rgd_max_cred_num rev_reg_def)) (rgd_issuer_id rev_reg_def))) w) (\<lambda>rev_status_list w.
     and_thenw (pure_w (get_wallet_record_value W w (cc_de_anc_cred_def C) Rc_CredDef (rgd_cred_def_id rev_reg_def)) w)
       (\<lambda>cred_def w.
     and_thenw (pure_w (get_wallet_record_value W w (cc_de_obj C Rc_RevRegDefPriv) Rc_RevRegDefPriv rev_reg_id) w)
       (\<lambda>rev_reg_def_priv w.
     and_thenw (pure_w (rev_reg_def_to_anc L C rev_reg_def) w) (\<lambda>d w.
     and_thenw (pure_w (from_conv (cc_conv_status C rev_status_list)) w) (\<lambda>status w.
     and_thenw (pure_w (from_lib (al_update_revocation_status_list L cred_def d rev_reg_def_priv status
         (Some [cred_rev_id]))) w) (\<lambda>updated w.
     and_thenw (pure_w (from_conv (cc_conv_status C updated)) w) (\<lambda>updated w.
     and_thenw (pure_w (delta_of_status_list updated (Some prev_accum)) w) (\<lambda>updated_delta w.
     if stored \<noteq> None then update_value W w Rc_RevRegDelta rev_reg_id (cc_ser_delta C updated_delta)
     else put_record W w Rc_RevRegDelta rev_reg_id (cc_ser_delta C updated_delta)))))))))))"

section \<open>The holder\<close>

definition backend_create_link_secret ::
  "'w record_wallet \<Rightarrow> anc_lib \<Rightarrow> 'w \<Rightarrow> string \<Rightarrow> unit anon_res \<times> 'w" where
  "backend_create_link_secret W L w link_secret_id =
     (case rw_get_record W w Rc_LinkSecret link_secret_id of
        Ok _ \<Rightarrow> (Err (Ae_DuplicationMasterSecret
          (''Master secret id: '' @ link_secret_id @ '' already exists in wallet.'')), w)
      | Panic \<Rightarrow> (Panic, w)
      | Err _ \<Rightarrow>
          and_thenw (pure_w (from_lib (al_create_link_secret L)) w) (\<lambda>secret w.
          and_thenw (pure_w (map_err (\<lambda>err. Ae_UrsaError
              (''Failed convert BigNumber to decimal string: '' @ err)) (al_link_secret_text L secret)) w)
            (\<lambda>ms_decimal w.
          put_record W w Rc_LinkSecret link_secret_id ms_decimal)))"

definition make_cred_info :: "string \<Rightarrow> Credential \<Rightarrow> RetrievedCredentialInfo anon_res" where
  "make_cred_info credential_id cred =
     (let rev_info = json_get (cd_signature cred) ''r_credential'';
          cred_rev_id = Option.bind (Option.bind rev_info (\<lambda>x. json_get x ''i'')) (\<lambda>i. map_option ucast (as_u64 i))
      in Ok \<lparr>rci_referent = credential_id,
           rci_attributes = map (\<lambda>(x, y). (x, av_raw y)) (cd_values cred),
           rci_schema_id = cd_schema_id cred, rci_cred_def_id = cd_cred_def_id cred,
           rci_rev_reg_id = cd_rev_reg_id cred, rci_cred_rev_id = cred_rev_id\<rparr>)"

definition backend_get_credential ::
  "'w record_wallet \<Rightarrow> anc_codec \<Rightarrow> 'w \<Rightarrow> string \<Rightarrow> RetrievedCredentialInfo anon_res" where
  "backend_get_credential W C w cred_id =
     and_then (get_wallet_record_value W w (cc_de_credential C) Rc_Cred cred_id) (make_cred_info cred_id)"

definition backend_get_credentials ::
  "'w record_wallet \<Rightarrow> anc_codec \<Rightarrow> 'w \<Rightarrow> string option \<Rightarrow> RetrievedCredentialInfo list anon_res" where
  "backend_get_credentials W C w filter_json =
     and_then (get_credentials W C w (case filter_json of Some x \<Rightarrow> x | None \<Rightarrow> ''{}'')) (\<lambda>creds.
     try_map (\<lambda>(credential_id, cred). make_cred_info credential_id cred) creds)"

text \<open>What is searched for one referent: attributes by normalised names, predicates by the name as it is.\<close>

definition referent_query ::
  "anc_codec \<Rightarrow> PresentationRequestPayload \<Rightarrow> string \<Rightarrow> (string list \<times> NonRevokedInterval option \<times> Query option) anon_res" where
  "referent_query C req reft =
     (case map_of (prp_requested_attributes req) reft of
        Some attribute_info \<Rightarrow>
          and_then (case (ai_name attribute_info, ai_names attribute_info) of
              (Some name, None) \<Rightarrow> Ok [normalize_attr_name C name]
            | (None, Some names) \<Rightarrow> Ok (map (normalize_attr_name C) names)
            | _ \<Rightarrow> Err (Ae_InvalidInput (''exactly one of '' @ [CHR 0x27] @ ''name'' @ [CHR 0x27] @ '' or ''
                @ [CHR 0x27] @ ''names'' @ [CHR 0x27] @ '' must be present''))) (\<lambda>attr_names.
          Ok (attr_names, ai_non_revoked attribute_info, ai_restrictions attribute_info))
      | None \<Rightarrow>
          (case map_of (prp_requested_predicates req) reft of
             Some requested_val \<Rightarrow>
               Ok ([pi_name requested_val], pi_non_revoked requested_val, pi_restrictions requested_val)
           | None \<Rightarrow>
               Err (Ae_InvalidProofRequest ''Requested attribute or predicate not found in proof request'')))"

definition credentials_for_referent ::
  "'w record_wallet \<Rightarrow> anc_codec \<Rightarrow> 'w \<Rightarrow> PresentationRequestPayload \<Rightarrow> string \<Rightarrow>
   RetrievedCredentialForReferent list anon_res" where
  "credentials_for_referent W C w req reft =
     and_then (referent_query C req reft) (\<lambda>(names, non_revoked, restrictions).
     and_then (get_credentials_for_attr_name W C w (map_option to_value restrictions) names) (\<lambda>credx_creds.
     try_map (\<lambda>(cred_id, credx_cred).
       and_then (make_cred_info cred_id credx_cred) (\<lambda>i.
       Ok \<lparr>rcr_cred_info = i, rcr_interval = non_revoked\<rparr>)) credx_creds))"

definition backend_get_credentials_for_proof_req ::
  "'w record_wallet \<Rightarrow> anc_codec \<Rightarrow> 'w \<Rightarrow> PresentationRequest \<Rightarrow> RetrievedCredentials anon_res" where
  "backend_get_credentials_for_proof_req W C w proof_request =
     (let req = pr_value proof_request;
          referents = cc_set_iter C (fst ` set (prp_requested_attributes req) \<union> fst ` set (prp_requested_predicates req))
      in try_fold (\<lambda>cred_by_attr reft.
           and_then (credentials_for_referent W C w req reft) (\<lambda>credentials_json.
           Ok (entry_insert reft credentials_json cred_by_attr))) [] referents)"

definition backend_create_credential_req ::
  "'w record_wallet \<Rightarrow> anc_lib \<Rightarrow> anc_codec \<Rightarrow> 'w \<Rightarrow> Did \<Rightarrow> CredentialOffer \<Rightarrow> CredentialDefinition \<Rightarrow> string \<Rightarrow>
   (CredentialRequest \<times> RequestMetadata) anon_res" where
  "backend_create_credential_req W L C w prover_did offer cred_def link_secret_id =
     and_then (cred_def_to_anc L cred_def) (\<lambda>cred_def.
     and_then (from_conv (cc_conv_offer C offer)) (\<lambda>credential_offer.
     and_then (get_link_secret W L w link_secret_id) (\<lambda>link_secret.
     and_then (from_lib (al_create_credential_request L None (did_text prover_did) cred_def link_secret
         link_secret_id credential_offer)) (\<lambda>(cred_req, cred_req_metadata).
     and_then (from_conv (cc_conv_request C cred_req)) (\<lambda>r.
     and_then (from_conv (cc_conv_metadata C cred_req_metadata)) (\<lambda>m.
     Ok (r, m)))))))"

definition add_attr_tags :: "anc_codec \<Rightarrow> string \<times> AttributeValues \<Rightarrow> RecordTags \<Rightarrow> RecordTags" where
  "add_attr_tags C attr tags =
     (let attr_name = normalize_attr_name C (fst attr)
      in tags_add (tags_add tags (RecordTag (value_tag_name attr_name) (av_raw (snd attr))))
           (RecordTag (marker_tag_name attr_name) ''1''))"

definition credential_tags :: "anc_codec \<Rightarrow> Credential \<Rightarrow> LedgerSchema \<Rightarrow> string \<Rightarrow> RecordTags" where
  "credential_tags C credential schema issuer_did =
     (let tags = RecordTags_new
            [RecordTag ''schema_id'' (cd_schema_id credential),
             RecordTag ''schema_issuer_did'' (sch_issuer_id schema),
             RecordTag ''schema_name'' (sch_name schema),
             RecordTag ''schema_version'' (sch_version schema),
             RecordTag ''issuer_did'' issuer_did,
             RecordTag ''cred_def_id'' (cd_cred_def_id credential)];
          tags = (case cd_rev_reg_id credential of
            Some rev_reg_id \<Rightarrow> tags_add tags (RecordTag ''rev_reg_id'' rev_reg_id) | None \<Rightarrow> tags)
      in fold (add_attr_tags C) (cd_values credential) tags)"

definition backend_store_credential ::
  "'w record_wallet \<Rightarrow> anc_lib \<Rightarrow> anc_codec \<Rightarrow> string \<Rightarrow> 'w \<Rightarrow> RequestMetadata \<Rightarrow> Credential \<Rightarrow> LedgerSchema \<Rightarrow>
   CredentialDefinition \<Rightarrow> RevRegDef option \<Rightarrow> string anon_res \<times> 'w" where
  "backend_store_credential W L C uuid w metadata unprocessed_cred schema cred_def rev_reg_def =
     and_thenw (pure_w (credential_to_anc L C unprocessed_cred) w) (\<lambda>credential w.
     and_thenw (pure_w (from_conv (cc_conv_metadata C metadata)) w) (\<lambda>cred_request_metadata w.
     and_thenw (pure_w (get_link_secret W L w (rm_link_secret_name cred_request_metadata)) w) (\<lambda>link_secret w.
     and_thenw (pure_w (cred_def_to_anc L cred_def) w) (\<lambda>cred_def w.
     and_thenw (pure_w (transpose_opt (map_option (rev_reg_def_to_anc L C) rev_reg_def)) w) (\<lambda>rev_reg_def w.
     and_thenw (pure_w (from_lib (al_process_credential L credential cred_request_metadata link_secret cred_def
         rev_reg_def)) w) (\<lambda>credential w.
     and_thenw (case rw_add_record W w \<lparr>rec_category = Rc_Cred, rec_name = uuid,
           rec_value = cc_ser_credential C credential,
           rec_tags = credential_tags C credential schema (ad_issuer_id cred_def)\<rparr> of
         (r, w) \<Rightarrow> (from_records r, w)) (\<lambda>_ w.
     (Ok uuid, w))))))))"

definition backend_delete_credential :: "'w record_wallet \<Rightarrow> 'w \<Rightarrow> string \<Rightarrow> unit anon_res \<times> 'w" where
  "backend_delete_credential W w cred_id =
     (case rw_delete_record W w Rc_Cred cred_id of (r, w) \<Rightarrow> (from_records r, w))"

definition get_rev_state ::
  "string \<Rightarrow> Credential \<Rightarrow> u64 option \<Rightarrow> (string \<rightharpoonup> (u64 \<rightharpoonup> json)) option \<Rightarrow> (u64 option \<times> json option) anon_res" where
  "get_rev_state cred_id credential timestamp rev_states =
     and_then (case (timestamp, cd_rev_reg_id credential) of
         (Some timestamp, Some cred_rev_reg_id) \<Rightarrow>
           and_then (ok_or (Option.bind rev_states (\<lambda>s. s cred_rev_reg_id)) (Ae_InvalidJson
             (''No revocation states provided for credential '' @ [CHR 0x27] @ cred_id @ [CHR 0x27]
               @ '' with rev_reg_id '' @ [CHR 0x27] @ cred_rev_reg_id @ [CHR 0x27]))) (\<lambda>rev_state.
           and_then (ok_or (rev_state timestamp) (Ae_InvalidJson
             (''No revocation states provided for credential '' @ [CHR 0x27] @ cred_id @ [CHR 0x27]
               @ '' with rev_reg_id '' @ [CHR 0x27] @ cred_rev_reg_id @ [CHR 0x27] @ '' at ''
               @ ''timestamp '' @ [CHR 0x27] @ show_u64 timestamp @ [CHR 0x27]))) (\<lambda>rev_state.
           Ok (Some rev_state)))
       | _ \<Rightarrow> Ok None) (\<lambda>rev_state.
     Ok (timestamp, rev_state))"

text \<open>
  The details of a proof by credential. The first referent of a credential decides its time stamp
  and revocation state; later ones only add their names.
\<close>

definition add_detail ::
  "'w record_wallet \<Rightarrow> anc_lib \<Rightarrow> anc_codec \<Rightarrow> 'w \<Rightarrow> (string \<rightharpoonup> (u64 \<rightharpoonup> json)) option \<Rightarrow> string \<Rightarrow> u64 option \<Rightarrow>
   (PresentCredential \<Rightarrow> PresentCredential) \<Rightarrow> (string \<times> PresentCredential) list \<Rightarrow>
   (string \<times> PresentCredential) list anon_res" where
  "add_detail W L C w rev_states cred_id timestamp add details =
     (if cred_id \<in> fst ` set details then
        Ok (map (\<lambda>(i, p). (i, if i = cred_id then add p else p)) details)
      else
        and_then (get_wallet_record_value W w (cc_de_credential C) Rc_Cred cred_id) (\<lambda>credential.
        and_then (get_rev_state cred_id credential timestamp rev_states) (\<lambda>(timestamp, rev_state).
        and_then (credential_to_anc L C credential) (\<lambda>c.
        and_then (from_conv (transpose_opt (map_option (cc_conv_state C) rev_state))) (\<lambda>rev_state.
        Ok (details @ [(cred_id, add \<lparr>pc_credential = c, pc_timestamp = timestamp, pc_rev_state = rev_state,
          pc_attributes = [], pc_predicates = []\<rparr>)]))))))"

definition backend_create_proof ::
  "'w record_wallet \<Rightarrow> anc_lib \<Rightarrow> anc_codec \<Rightarrow> 'w \<Rightarrow> PresentationRequest \<Rightarrow> RequestedCredentials \<Rightarrow> string \<Rightarrow>
   (string \<times> LedgerSchema) list \<Rightarrow> (string \<times> CredentialDefinition) list \<Rightarrow> (string \<rightharpoonup> (u64 \<rightharpoonup> json)) option \<Rightarrow>
   Presentation anon_res" where
  "backend_create_proof W L C w proof_req requested link_secret_id schemas credential_defs revoc_states =
     and_then (from_conv (cc_conv_pres_request C proof_req)) (\<lambda>pres_req.
     and_then (convert_entries (al_schema_id L) (schema_to_anc L) schemas) (\<lambda>schemas.
     and_then (convert_entries (al_cred_def_id L) (cred_def_to_anc L) credential_defs) (\<lambda>cred_defs.
     and_then (try_fold (\<lambda>details (reft, detail).
         add_detail W L C w revoc_states (ra_cred_id detail) (ra_timestamp detail)
           (\<lambda>p. p\<lparr>pc_attributes := pc_attributes p @ [(reft, ra_revealed detail)]\<rparr>) details)
         [] (cc_attr_iter C (rc_requested_attributes requested))) (\<lambda>details.
     and_then (try_fold (\<lambda>details (reft, detail).
         add_detail W L C w revoc_states (rp_cred_id detail) (rp_timestamp detail)
           (\<lambda>p. p\<lparr>pc_predicates := pc_predicates p @ [reft]\<rparr>) details)
         details (cc_pred_iter C (rc_requested_predicates requested))) (\<lambda>details.
     and_then (get_link_secret W L w link_secret_id) (\<lambda>link_secret.
     and_then (from_lib (al_create_presentation L pres_req (map snd (cc_detail_iter C details))
         (rc_self_attested_attributes requested) link_secret schemas cred_defs)) (\<lambda>presentation.
     from_conv (cc_conv_presentation C presentation))))))))"

definition backend_create_revocation_state ::
  "anc_lib \<Rightarrow> anc_codec \<Rightarrow> (string \<Rightarrow> string \<Rightarrow> string) \<Rightarrow> string \<Rightarrow> RevRegDef \<Rightarrow> RevStatusList \<Rightarrow> u32 \<Rightarrow> json anon_res" where
  "backend_create_revocation_state L C path_push tails_dir rev_reg_def rev_status_list cred_rev_id =
     and_then (rev_reg_def_to_anc L C rev_reg_def) (\<lambda>revoc_reg_def.
     and_then (from_conv (cc_conv_status C rev_status_list)) (\<lambda>status.
     and_then (from_lib (al_create_or_update_revocation_state L
         (path_push tails_dir (ar_tails_hash revoc_reg_def)) revoc_reg_def status cred_rev_id)) (\<lambda>rev_state.
     from_conv (cc_conv_state C rev_state))))"

definition backend_generate_nonce :: "anc_lib \<Rightarrow> anc_codec \<Rightarrow> string anon_res" where
  "backend_generate_nonce L C =
     and_then (from_lib (al_generate_nonce L)) (\<lambda>n. from_conv (cc_conv_nonce C n))"

section \<open>Revocation indices\<close>

text \<open>A step that only reads leaves the wallet alone and passes an error on.\<close>

lemma read_cases:
  assumes "and_thenw (pure_w a w) f = (r, w')"
  obtains (ok) x where "a = Ok x" "f x w = (r, w')" | (stop) "w' = w" "\<And>y. r \<noteq> Ok y"
  using assms by (cases a) auto

lemma put_record_cases:
  assumes "record_store W view" and "put_record W w c n v = (r, w')"
  shows "r = Ok () \<and> view w (c, n) = None \<and> view w' = (view w)((c, n) \<mapsto> v) \<or> r \<noteq> Ok () \<and> view w' = view w"
proof -
  let ?r = "\<lparr>rec_category = c, rec_name = n, rec_value = v, rec_tags = []\<rparr>"
  from assms(2) obtain x where x: "rw_add_record W w ?r = (x, w')" "r = from_records x"
    by (auto simp: put_record_def split: prod.splits)
  from add_cases [OF assms(1) x(1)] x(2) show ?thesis by auto
qed

lemma update_value_effect:
  assumes "record_store W view" and "update_value W w c n v = (r, w')"
  shows "r = Ok () \<and> view w (c, n) \<noteq> None \<and> view w' = (view w)((c, n) \<mapsto> v) \<or> r \<noteq> Ok () \<and> view w' = view w"
proof -
  from assms(2) obtain x where x: "rw_update_record_value W w c n v = (x, w')" "r = from_records x"
    by (auto simp: update_value_def split: prod.splits)
  from update_value_cases [OF assms(1) x(1)] x(2) show ?thesis by auto
qed

lemma get_value_view:
  assumes "record_store W view" and "get_wallet_record_value W w de c n = Ok x"
  shows "\<exists>v. view w (c, n) = Some v \<and> de v = Ok x"
  using assms(2) by (auto simp: get_wallet_record_value_def dest: get_view [OF assms(1)])

text \<open>An index is stored, or the counter stays where it was.\<close>

lemma store_index_effect:
  assumes "record_store W view" and "store_index W C w (Some rid) cred config = (r, w')"
  shows "view w' (Rc_RevRegDef, rid) = view w (Rc_RevRegDef, rid) \<and>
    (view w' (Rc_RevRegInfo, rid) = view w (Rc_RevRegInfo, rid) \<and> (\<forall>i. r \<noteq> Ok (Some i)) \<or>
     (\<exists>f info. config = Some (f, info) \<and> view w' (Rc_RevRegInfo, rid) = Some (cc_ser_info C info) \<and>
       r = Ok (Some (rri_curr_id info))))"
proof (cases "cd_rev_reg cred")
  case (Some rev_reg)
  show ?thesis
  proof (cases config)
    case (Some p)
    obtain f info where p: "p = (f, info)" by fastforce
    obtain x w1 where u1: "update_value W w Rc_RevReg rid (cc_ser_obj C Rc_RevReg rev_reg) = (x, w1)" by fastforce
    obtain y w2 where u2: "update_value W w1 Rc_RevRegInfo rid (cc_ser_info C info) = (y, w2)" by fastforce
    from assms(2) Some p \<open>cd_rev_reg cred = Some rev_reg\<close> u1 u2 show ?thesis
      using update_value_effect [OF assms(1) u1] update_value_effect [OF assms(1) u2]
      by (cases x; cases y) (auto simp: store_index_def)
  qed (use assms(2) Some in \<open>auto simp: store_index_def\<close>)
qed (use assms(2) in \<open>auto simp: store_index_def\<close>)

lemma create_credential_cases:
  assumes "issuer_create_credential W L C w offer q v rid dir = (r, w')"
  shows "w' = w \<and> (\<forall>y. r \<noteq> Ok y) \<or>
    (\<exists>cd parts config cred x. revocation_parts W L C w dir rid = Ok parts \<and> revocation_config L cd parts = Ok config \<and>
      store_index W C w rid cred config = (x, w') \<and> (\<forall>c i. r = Ok (c, i) \<longrightarrow> x = Ok i))"
  using assms unfolding issuer_create_credential_def
proof (elim read_cases, goal_cases)
  case (1 a b c d e parts config cred)
  obtain x w1 where s: "store_index W C w rid cred config = (x, w1)" by fastforce
  with 1(9) have "w1 = w'" "\<forall>c i. r = Ok (c, i) \<longrightarrow> x = Ok i"
    by (cases x; auto split: result.splits)+
  with 1 s show ?case by blast
qed auto

lemma revocation_config_Some:
  assumes "revocation_config L cd parts = Ok (Some (f, info))"
  shows "\<exists>d rid p rr i0. parts = Some (d, rid, p, rr, i0) \<and> next_index d i0 = Ok info"
  using assms by (auto simp: revocation_config_def split: option.splits)

definition info_reads :: "anc_codec \<Rightarrow> bool" where
  "info_reads C \<longleftrightarrow> (\<forall>i. cc_de_info C (cc_ser_info C i) = Ok i)"

text \<open>The registry in the wallet: its definition and its counter.\<close>

definition registry_at :: "anc_codec \<Rightarrow> store \<Rightarrow> RevocationRegistryDefinitionId \<Rightarrow> AncRevRegDef \<Rightarrow> RevRegInfo \<Rightarrow> bool" where
  "registry_at C s rid d info \<longleftrightarrow> (\<exists>v. s (Rc_RevRegDef, rid) = Some v \<and> cc_de_anc_rev_reg_def C v = Ok d) \<and>
     s (Rc_RevRegInfo, rid) = Some (cc_ser_info C info)"

lemma revocation_parts_at:
  assumes "record_store W view" and "info_reads C" and "registry_at C (view w) rid d info"
    and "revocation_parts W L C w (Some dir) (Some rid) = Ok (Some (d', i, p, rr, info'))"
  shows "d' = d \<and> info' = info"
proof -
  from assms(4) have "get_wallet_record_value W w (cc_de_anc_rev_reg_def C) Rc_RevRegDef rid = Ok d'"
    "get_wallet_record_value W w (cc_de_info C) Rc_RevRegInfo rid = Ok info'"
    by (auto simp: revocation_parts_def)
  from this [THEN get_value_view [OF assms(1)]] assms(2,3) show ?thesis
    by (auto simp: registry_at_def info_reads_def)
qed

lemma create_credential_registry:
  assumes "record_store W view" and "info_reads C" and "registry_at C (view w) rid d info"
    and "issuer_create_credential W L C w offer q v (Some rid) (Some dir) = (r, w')"
  shows "registry_at C (view w') rid d info \<and> (\<forall>c i. r \<noteq> Ok (c, Some i)) \<or>
    (\<exists>info'. next_index d info = Ok info' \<and> registry_at C (view w') rid d info' \<and>
      (\<forall>c i. r = Ok (c, Some i) \<longrightarrow> i = rri_curr_id info'))"
proof -
  consider "w' = w" "\<forall>y. r \<noteq> Ok y" | cd parts config cred x where
      "revocation_parts W L C w (Some dir) (Some rid) = Ok parts" "revocation_config L cd parts = Ok config"
      "store_index W C w (Some rid) cred config = (x, w')" "\<forall>c i. r = Ok (c, i) \<longrightarrow> x = Ok i"
    using create_credential_cases [OF assms(4)] by blast
  then show ?thesis
  proof cases
    case 2
    note s = store_index_effect [OF assms(1) 2(3)]
    show ?thesis
    proof (cases "\<exists>f info'. config = Some (f, info') \<and> x = Ok (Some (rri_curr_id info')) \<and>
        view w' (Rc_RevRegInfo, rid) = Some (cc_ser_info C info')")
      case True
      then obtain f info' where c: "config = Some (f, info')" "x = Ok (Some (rri_curr_id info'))"
        "view w' (Rc_RevRegInfo, rid) = Some (cc_ser_info C info')" by blast
      with revocation_config_Some 2(2) obtain d' i p rr info0 where
        "parts = Some (d', i, p, rr, info0)" "next_index d' info0 = Ok info'" by metis
      with revocation_parts_at [OF assms(1-3)] 2(1) have "next_index d info = Ok info'" by auto
      with c s assms(3) 2(4) show ?thesis by (auto simp: registry_at_def)
    next
      case False
      with s assms(3) 2(4) show ?thesis by (auto simp: registry_at_def)
    qed
  qed (use assms(3) in auto)
qed

text \<open>Issuing on one registry again and again: the indices of the credentials that were delivered.\<close>

fun issue_many ::
  "'w record_wallet \<Rightarrow> anc_lib \<Rightarrow> anc_codec \<Rightarrow> RevocationRegistryDefinitionId \<Rightarrow> string \<Rightarrow> 'w \<Rightarrow>
   (CredentialOffer \<times> CredentialRequest \<times> CredentialValues) list \<Rightarrow> u32 list" where
  "issue_many W L C rid dir w [] = []"
| "issue_many W L C rid dir w ((offer, q, v) # rest) =
     (case issuer_create_credential W L C w offer q v (Some rid) (Some dir) of
        (Ok (_, Some i), w) \<Rightarrow> i # issue_many W L C rid dir w rest
      | (_, w) \<Rightarrow> issue_many W L C rid dir w rest)"

lemma next_index_Ok:
  assumes "next_index d info = Ok info'" and "rri_curr_id info \<le> ar_max_cred_num d" and "ar_max_cred_num d < - 1"
  shows "rri_curr_id info < rri_curr_id info' \<and> rri_curr_id info' \<le> ar_max_cred_num d"
proof -
  from assms(1) have i: "rri_curr_id info' = rri_curr_id info + 1" "rri_curr_id info' \<le> ar_max_cred_num d"
    by (auto simp: next_index_def Let_def split: if_splits)
  from assms(2,3) have "rri_curr_id info \<noteq> - 1" by auto
  then have "1 + rri_curr_id info \<noteq> 0" by (metis add.commute eq_neg_iff_add_eq_0)
  from unatSuc [OF this] have "rri_curr_id info < rri_curr_id info + 1"
    by (simp add: word_less_nat_alt add.commute)
  with i show ?thesis by simp
qed

lemma next_index_full:
  "rri_curr_id info + 1 > ar_max_cred_num d \<Longrightarrow>
    next_index d info = Err (Ae_ActionNotSupported ''The revocation registry is full'')"
  by (simp add: next_index_def Let_def)

text \<open>
  C15. Whatever fails on the way, the credentials delivered on a registry have ascending revocation
  indices, all above the counter the registry had and none above its size: no index is given out
  twice.
\<close>

theorem indices_fresh:
  assumes "record_store W view" and "info_reads C" and "registry_at C (view w) rid d info"
    and "rri_curr_id info \<le> ar_max_cred_num d" and "ar_max_cred_num d < - 1"
  shows "sorted_wrt (<) (issue_many W L C rid dir w requests) \<and>
    (\<forall>i \<in> set (issue_many W L C rid dir w requests). rri_curr_id info < i \<and> i \<le> ar_max_cred_num d)"
  using assms(3,4)
proof (induction requests arbitrary: w info)
  case (Cons x rest)
  obtain offer q v where x: "x = (offer, q, v)" by (cases x) auto
  obtain r w1 where step: "issuer_create_credential W L C w offer q v (Some rid) (Some dir) = (r, w1)" by fastforce
  from create_credential_registry [OF assms(1,2) Cons.prems(1) step] show ?case
  proof (elim disjE exE conjE)
    assume "registry_at C (view w1) rid d info" and no: "\<forall>c i. r \<noteq> Ok (c, Some i)"
    from Cons.IH [OF this(1) Cons.prems(2)] no x step show ?case by (auto split: result.splits option.splits)
  next
    fix info' assume n: "next_index d info = Ok info'" and at: "registry_at C (view w1) rid d info'"
      and i: "\<forall>c i. r = Ok (c, Some i) \<longrightarrow> i = rri_curr_id info'"
    note lt = next_index_Ok [OF n Cons.prems(2) assms(5)]
    from Cons.IH [OF at] lt have IH: "sorted_wrt (<) (issue_many W L C rid dir w1 rest)"
      "\<forall>i \<in> set (issue_many W L C rid dir w1 rest). rri_curr_id info' < i \<and> i \<le> ar_max_cred_num d" by auto
    from lt IH(2) have "\<forall>i \<in> set (issue_many W L C rid dir w1 rest). rri_curr_id info < i \<and> i \<le> ar_max_cred_num d"
      by (auto intro: less_trans)
    with IH lt i x step show ?case by (auto split: result.splits option.splits)
  qed
qed simp

section \<open>Link secrets\<close>

text \<open>The decimal text of a link secret is read back as the secret.\<close>

definition secret_text_inverse :: "anc_lib \<Rightarrow> bool" where
  "secret_text_inverse L \<longleftrightarrow> (\<forall>s t. al_link_secret_text L s = Ok t \<longrightarrow> al_link_secret_of_text L t = Some s)"

lemma create_link_secret_cases:
  assumes "backend_create_link_secret W L w i = (r, w')" and "\<And>x. rw_get_record W w Rc_LinkSecret i \<noteq> Ok x"
  shows "w' = w \<and> r \<noteq> Ok () \<or> (\<exists>s t. al_create_link_secret L = Ok s \<and> al_link_secret_text L s = Ok t
    \<and> put_record W w Rc_LinkSecret i t = (r, w'))"
  using assms by (auto simp: backend_create_link_secret_def from_lib_def split: result.splits elim!: read_cases)

lemma stored_secret_read:
  assumes "record_store W view" and "secret_text_inverse L" and "al_link_secret_text L s = Ok t"
    and "view w (Rc_LinkSecret, i) = Some t"
  shows "get_link_secret W L w i = map_ok (\<lambda>_. s) (from_records (rw_get_record W w Rc_LinkSecret i))"
proof (cases "rw_get_record W w Rc_LinkSecret i")
  case (Ok m)
  with get_view [OF assms(1) Ok] assms(2-4) show ?thesis
    by (auto simp: secret_text_inverse_def get_link_secret_def from_records_def)
qed (simp_all add: get_link_secret_def from_records_def)

text \<open>
  C36. A name that the wallet has a link secret for is refused as a duplicate and nothing changes.
  Otherwise a success means that the name was free, that exactly one record was added, and that
  reading it gives the secret that was made or an error of the wallet, nothing else; a failure, whatever the reason, leaves the records as they were.
\<close>

theorem link_secret_kept:
  assumes "record_store W view" and "secret_text_inverse L"
    and "backend_create_link_secret W L w link_secret_id = (r, w')"
  shows "case rw_get_record W w Rc_LinkSecret link_secret_id of
      Ok _ \<Rightarrow> (\<exists>m. r = Err (Ae_DuplicationMasterSecret m)) \<and> w' = w
    | _ \<Rightarrow> (if r = Ok () then view w (Rc_LinkSecret, link_secret_id) = None \<and>
          (\<exists>s t. al_create_link_secret L = Ok s \<and> al_link_secret_text L s = Ok t \<and>
            view w' = (view w)((Rc_LinkSecret, link_secret_id) \<mapsto> t) \<and>
            get_link_secret W L w' link_secret_id
              = map_ok (\<lambda>_. s) (from_records (rw_get_record W w' Rc_LinkSecret link_secret_id)))
        else view w' = view w)"
proof (cases "\<exists>x. rw_get_record W w Rc_LinkSecret link_secret_id = Ok x")
  case True
  with assms(3) show ?thesis by (auto simp: backend_create_link_secret_def)
next
  case False
  then have "\<And>x. rw_get_record W w Rc_LinkSecret link_secret_id \<noteq> Ok x" by blast
  from create_link_secret_cases [OF assms(3) this]
  have "if r = Ok () then view w (Rc_LinkSecret, link_secret_id) = None \<and>
      (\<exists>s t. al_create_link_secret L = Ok s \<and> al_link_secret_text L s = Ok t \<and>
        view w' = (view w)((Rc_LinkSecret, link_secret_id) \<mapsto> t) \<and>
        get_link_secret W L w' link_secret_id
              = map_ok (\<lambda>_. s) (from_records (rw_get_record W w' Rc_LinkSecret link_secret_id)))
    else view w' = view w"
  proof (elim disjE exE conjE)
    fix s t assume s: "al_create_link_secret L = Ok s" "al_link_secret_text L s = Ok t"
      and put: "put_record W w Rc_LinkSecret link_secret_id t = (r, w')"
    from put_record_cases [OF assms(1) put] show ?thesis
      using s stored_secret_read [OF assms(1,2) s(2), of w' link_secret_id] by auto
  qed auto
  then show ?thesis using False by (cases "rw_get_record W w Rc_LinkSecret link_secret_id") simp_all
qed

section \<open>Credential definitions\<close>

text \<open>
  The stored text of a definition is the crate's, which has no identifier; read as the type the
  back end returns it is refused.
\<close>

definition stored_without_id :: "anc_codec \<Rightarrow> bool" where
  "stored_without_id C \<longleftrightarrow> (\<forall>d. \<exists>e. cc_de_cred_def C (cc_ser_anc_cred_def C d) = Err e)"

lemma put_record_keeps:
  assumes "record_store W view" and "put_record W w c n v = (r, w')" and "view w (c', n') = Some v'"
  shows "view w' (c', n') = Some v'"
  using put_record_cases [OF assms(1,2)] assms(3) by auto

lemma warn_only_Ok: "warn_only p = (Ok (), w) \<longleftrightarrow> (\<exists>x. p = (x, w) \<and> x \<noteq> Panic)"
  by (cases p; cases "fst p") auto

lemma cred_def_stored:
  assumes "record_store W view" and "stored_without_id C"
    and "issuer_create_and_store_credential_def W L C w did schema_id schema tag sr = (Ok d, w')"
    and "\<And>x. get_wallet_record_value W w (cc_de_cred_def C) Rc_CredDef cid \<noteq> Ok x"
    and "make_credential_definition_id did schema_id (sch_seq_no schema) tag = (Ok cid :: (VcxAnoncredsError, _) result)"
  shows "\<exists>a. view w' (Rc_CredDef, cid) = Some (cc_ser_anc_cred_def C a)"
proof -
  from assms(3-5) obtain a b c w1 w2 w3 x w4 w5 where
    put: "put_record W w Rc_CredDef cid (cc_ser_anc_cred_def C a) = (Ok (), w1)"
    "put_record W w1 Rc_CredDefPriv cid b = (Ok (), w2)"
    "put_record W w2 Rc_CredKeyCorrectnessProof cid c = (Ok (), w3)"
    "put_record W w3 Rc_CredSchema schema_id (cc_ser_schema C schema) = (x, w4)"
    "put_record W w4 Rc_CredMapSchemaId cid (cc_print C (JObject [(''schemaId'', JString schema_id)])) = (Ok (), w')"
    by (auto simp: issuer_create_and_store_credential_def_def and_thenw_Ok pure_w_def warn_only_Ok
        simp del: and_thenw_pure split: result.splits)
  from put_record_cases [OF assms(1) put(1)] have "view w1 (Rc_CredDef, cid) = Some (cc_ser_anc_cred_def C a)" by auto
  with put(2-5) show ?thesis by (metis put_record_keeps [OF assms(1)])
qed

text \<open>
  A definition that has been created cannot be created, or got, a second time: the record found
  for it cannot be read, so that it is made anew, and storing it fails.
\<close>

theorem cred_def_not_returned:
  assumes "record_store W view" and "stored_without_id C"
    and "view w (Rc_CredDef, cid) = Some (cc_ser_anc_cred_def C a)"
    and "make_credential_definition_id did schema_id (sch_seq_no schema) tag = (Ok cid :: (VcxAnoncredsError, _) result)"
  shows "fst (issuer_create_and_store_credential_def W L C w did schema_id schema tag sr) \<noteq> Ok d"
proof
  assume "fst (issuer_create_and_store_credential_def W L C w did schema_id schema tag sr) = Ok d"
  then obtain w' where run: "issuer_create_and_store_credential_def W L C w did schema_id schema tag sr = (Ok d, w')"
    by (metis prod.collapse)
  have no: "get_wallet_record_value W w (cc_de_cred_def C) Rc_CredDef cid \<noteq> Ok x" for x
  proof
    assume "get_wallet_record_value W w (cc_de_cred_def C) Rc_CredDef cid = Ok x"
    from get_value_view [OF assms(1) this] assms(3) have "cc_de_cred_def C (cc_ser_anc_cred_def C a) = Ok x" by simp
    with assms(2) show False unfolding stored_without_id_def by (metis result.distinct(1))
  qed
  from run no assms(4) obtain b w1 where "put_record W w Rc_CredDef cid b = (Ok (), w1)"
    by (auto simp: issuer_create_and_store_credential_def_def and_thenw_Ok pure_w_def warn_only_Ok
        simp del: and_thenw_pure split: result.splits)
  from put_record_cases [OF assms(1) this] assms(3) show False by simp
qed

section \<open>Finding credentials\<close>

lemma set_attr_tags:
  "set (fold (add_attr_tags C) vs tags) =
    set tags \<union> (\<Union>x \<in> set vs. {RecordTag (value_tag_name (normalize_attr_name C (fst x))) (av_raw (snd x)),
      RecordTag (marker_tag_name (normalize_attr_name C (fst x))) ''1''})"
  by (induction vs arbitrary: tags) (auto simp: add_attr_tags_def Let_def)

text \<open>Every attribute of a credential is marked under its normalised name, and nothing else is.\<close>

lemma set_RecordTags_new: "set (RecordTags_new ts) = set ts"
  by (simp add: RecordTags_new_def)

lemma value_tag_not_marker: "value_tag_name a \<noteq> marker_tag_name b"
proof
  assume "value_tag_name a = marker_tag_name b"
  then have "last (value_tag_name a) = last (marker_tag_name b)" by simp
  then show False by (simp add: value_tag_name_def marker_tag_name_def)
qed

lemma marker_tag_eq: "marker_tag_name b = marker_tag_name c \<longleftrightarrow> b = c"
  by (simp add: marker_tag_name_def)

lemma marker_not_field:
  "marker_tag_name m \<noteq> ''schema_id''" "marker_tag_name m \<noteq> ''schema_issuer_did''"
  "marker_tag_name m \<noteq> ''schema_name''" "marker_tag_name m \<noteq> ''schema_version''"
  "marker_tag_name m \<noteq> ''issuer_did''" "marker_tag_name m \<noteq> ''cred_def_id''" "marker_tag_name m \<noteq> ''rev_reg_id''"
  by (simp_all add: marker_tag_name_def)

lemma add_attr_marker:
  "RecordTag (marker_tag_name m) ''1'' \<in> set (add_attr_tags C x ts) \<longleftrightarrow>
    RecordTag (marker_tag_name m) ''1'' \<in> set ts \<or> normalize_attr_name C (fst x) = m"
  using value_tag_not_marker [of "normalize_attr_name C (fst x)" m]
    marker_tag_eq [of m "normalize_attr_name C (fst x)"]
  by (auto simp: add_attr_tags_def Let_def)

lemma fold_attr_marker:
  "RecordTag (marker_tag_name m) ''1'' \<in> set (fold (add_attr_tags C) vs ts) \<longleftrightarrow>
    RecordTag (marker_tag_name m) ''1'' \<in> set ts \<or> (\<exists>x \<in> set vs. normalize_attr_name C (fst x) = m)"
  by (induction vs arbitrary: ts) (simp_all add: add_attr_marker)

lemma marker_stored_iff:
  "RecordTag (marker_tag_name m) ''1'' \<in> set (credential_tags C credential schema issuer_did) \<longleftrightarrow>
    (\<exists>x \<in> set (cd_values credential). normalize_attr_name C (fst x) = m)"
  by (cases "cd_rev_reg_id credential")
    (simp_all add: credential_tags_def fold_attr_marker set_RecordTags_new marker_not_field)

text \<open>
  A predicate is searched by the name as it stands in the request, an attribute by its
  normalised name: a credential that has the attribute is marked for the one and not for the other
  whenever normalising changes the name.
\<close>

theorem predicate_name_not_normalised:
  assumes "map_of (prp_requested_attributes req) reft = None"
    and "map_of (prp_requested_predicates req) reft = Some p"
    and "\<And>n. normalize_attr_name C n \<noteq> pi_name p"
  shows "referent_query C req reft = Ok ([pi_name p], pi_non_revoked p, pi_restrictions p) \<and>
    RecordTag (marker_tag_name (pi_name p)) ''1'' \<notin> set (credential_tags C credential schema issuer_did)"
  using assms by (simp add: referent_query_def marker_stored_iff)

text \<open>
  An attribute that the request asks for by name is searched by a marker the credential carries.
\<close>

theorem attribute_marker_stored:
  assumes "map_of (prp_requested_attributes req) reft = Some i" and "ai_name i = Some name" and "ai_names i = None"
    and "(n, v) \<in> set (cd_values credential)" and "normalize_attr_name C n = normalize_attr_name C name"
  shows "\<exists>m. referent_query C req reft = Ok ([m], ai_non_revoked i, ai_restrictions i) \<and>
    RecordTag (marker_tag_name m) ''1'' \<in> set (credential_tags C credential schema issuer_did)"
  using assms by (force simp: referent_query_def marker_stored_iff)

section \<open>Local revocations\<close>

text \<open>
  The crate marks the indices it is given and keeps the accumulator; converting a list copies it.
\<close>

definition status_laws :: "anc_lib \<Rightarrow> anc_codec \<Rightarrow> bool" where
  "status_laws L C \<longleftrightarrow> (\<forall>s s'. cc_conv_status C s = Ok s' \<longrightarrow> s' = s) \<and>
     (\<forall>cd d p s i s'. al_update_revocation_status_list L cd d p s (Some [i]) = Ok s' \<longrightarrow>
       marked (rsl_revocation_list s') = insert (unat i) (marked (rsl_revocation_list s)))"

lemma revoked_indices_ascending:
  assumes "\<forall>i \<in> marked l. i < 2 ^ 32"
  shows "sorted_wrt (<) (revoked_indices l)"
proof -
  have "sorted_wrt (<) (filter (\<lambda>idx. l ! idx) [0..<length l])" by (simp add: sorted_wrt_filter)
  then have "sorted_wrt (\<lambda>x y. (of_nat x :: u32) < of_nat y) (filter (\<lambda>idx. l ! idx) [0..<length l])"
    by (rule sorted_wrt_mono_rel [rotated])
      (use assms in \<open>auto simp: marked_def word_less_nat_alt unat_of_nat\<close>)
  then show ?thesis by (simp add: revoked_indices_def sorted_wrt_map)
qed

lemma update_list_marks:
  assumes "status_laws L C" and "cc_conv_status C s = Ok s1"
    and "al_update_revocation_status_list L cd d p s1 (Some [i]) = Ok s2" and "cc_conv_status C s2 = Ok s3"
  shows "marked (rsl_revocation_list s3) = insert (unat i) (marked (rsl_revocation_list s))"
  using assms unfolding status_laws_def by metis

lemma insert_read:
  assumes "put_record W w c n v = (Ok (), w')" and "record_store W view"
  shows "view w (c, n) = None \<and> view w' (c, n) = Some v"
  using put_record_cases [OF assms(2,1)] by auto

lemma unat_u32: "unat (i :: u32) < 2 ^ 32"
  using unsigned_less [of i] by simp

lemma revoke_local_Ok:
  assumes "backend_revoke_credential_local W L C ins now w rid i ledger_delta = (Ok (), w')"
  obtains stored n iss j status upd d cd g p s s2
    where "backend_get_rev_reg_delta W C w rid = Ok stored"
    and "status_list_of_delta ins (case stored of Some d \<Rightarrow> d | None \<Rightarrow> ledger_delta) now j n iss = Ok status"
    and "cc_conv_status C status = Ok s" and "al_update_revocation_status_list L cd g p s (Some [i]) = Ok s2"
    and "cc_conv_status C s2 = Ok upd" and "delta_of_status_list upd (Some (rrd_accum ledger_delta)) = Ok d"
    and "(if stored \<noteq> None then update_value W w Rc_RevRegDelta rid (cc_ser_delta C d)
     else put_record W w Rc_RevRegDelta rid (cc_ser_delta C d)) = (Ok (), w')"
proof -
  from assms show ?thesis unfolding backend_revoke_credential_local_def
    by (simp add: and_thenw_Ok pure_w_def Let_def del: and_thenw_pure not_None_eq)
      (elim exE conjE, rule that, assumption+)
qed

text \<open>What waits for the ledger: the stored delta, or the ledger's own when there is none.\<close>

definition pending_delta :: "anc_codec \<Rightarrow> store \<Rightarrow> string \<Rightarrow> RevocationRegistryDelta \<Rightarrow> RevocationRegistryDelta \<Rightarrow> bool" where
  "pending_delta C s rid ledger_delta d \<longleftrightarrow>
     s (Rc_RevRegDelta, rid) = Some (cc_ser_delta C d) \<or> s (Rc_RevRegDelta, rid) = None \<and> d = ledger_delta"

definition delta_reads :: "anc_codec \<Rightarrow> bool" where
  "delta_reads C \<longleftrightarrow> (\<forall>d. cc_de_delta C (cc_ser_delta C d) = Ok d)"

lemma get_delta_view:
  assumes "record_store W view" and "backend_get_rev_reg_delta W C w rid = Ok (Some d)"
  shows "\<exists>v. view w (Rc_RevRegDelta, rid) = Some v \<and> cc_de_delta C v = Ok d"
  using assms(2) get_value_view [OF assms(1), of w "cc_de_delta C" Rc_RevRegDelta rid d]
  by (auto simp: backend_get_rev_reg_delta_def split: result.splits)

lemma stored_delta_written:
  assumes "record_store W view" and "delta_reads C" and "pending_delta C (view w) rid ledger_delta d"
    and "backend_get_rev_reg_delta W C w rid = Ok stored"
    and "(if stored \<noteq> None then update_value W w Rc_RevRegDelta rid t else put_record W w Rc_RevRegDelta rid t) = (Ok (), w')"
  shows "(case stored of Some d \<Rightarrow> d | None \<Rightarrow> ledger_delta) = d \<and> view w' (Rc_RevRegDelta, rid) = Some t"
proof (cases stored)
  case None
  with assms(5) have "put_record W w Rc_RevRegDelta rid t = (Ok (), w')" by simp
  from insert_read [OF this assms(1)] assms(3) None show ?thesis by (simp add: pending_delta_def)
next
  case (Some x)
  with get_delta_view [OF assms(1)] assms(4) obtain v where
    v: "view w (Rc_RevRegDelta, rid) = Some v" "cc_de_delta C v = Ok x" by blast
  with assms(2,3) have "x = d" by (auto simp: pending_delta_def delta_reads_def)
  moreover have "update_value W w Rc_RevRegDelta rid t = (Ok (), w')" using assms(5) Some by simp
  ultimately show ?thesis using update_value_effect [OF assms(1)] Some by fastforce
qed

lemma revoke_local_effect:
  assumes "record_store W view" and "status_laws L C" and "inserts ins" and "delta_reads C"
    and "pending_delta C (view w) rid ledger_delta d" and "sorted_wrt (<) (rrd_revoked d)"
    and "backend_revoke_credential_local W L C ins now w rid i ledger_delta = (Ok (), w')"
  shows "\<exists>d'. view w' (Rc_RevRegDelta, rid) = Some (cc_ser_delta C d') \<and>
    sorted_wrt (<) (rrd_revoked d') \<and> set (rrd_revoked d') = insert i (set (rrd_revoked d))"
proof -
  obtain stored n iss j status upd d' cd g p s s2 where
    st: "backend_get_rev_reg_delta W C w rid = Ok stored" and
    l: "status_list_of_delta ins (case stored of Some d \<Rightarrow> d | None \<Rightarrow> ledger_delta) now j n iss = Ok status" and
    u: "cc_conv_status C status = Ok s" "al_update_revocation_status_list L cd g p s (Some [i]) = Ok s2"
      "cc_conv_status C s2 = Ok upd" and
    d': "delta_of_status_list upd (Some (rrd_accum ledger_delta)) = Ok d'" and
    wr: "(if stored \<noteq> None then update_value W w Rc_RevRegDelta rid (cc_ser_delta C d')
     else put_record W w Rc_RevRegDelta rid (cc_ser_delta C d')) = (Ok (), w')" by (rule revoke_local_Ok [OF assms(7)])
  note w' = stored_delta_written [OF assms(1,4,5) st wr]
  with l status_of_ascending_Ok [OF assms(3,6)] have "marked (rsl_revocation_list status) = unat ` set (rrd_revoked d)"
    by simp
  with update_list_marks [OF assms(2) u] have
    m: "marked (rsl_revocation_list upd) = unat ` insert i (set (rrd_revoked d))" by simp
  have r: "rrd_revoked d' = revoked_indices (rsl_revocation_list upd)"
    using d' by (auto simp: delta_of_status_list_def split: option.splits)
  have "sorted_wrt (<) (rrd_revoked d')" unfolding r
    by (rule revoked_indices_ascending) (use m unat_u32 in auto)
  moreover have "set (rrd_revoked d') = insert i (set (rrd_revoked d))"
    unfolding r revoked_indices_marked m by (simp add: image_image)
  ultimately show ?thesis using w' by blast
qed

text \<open>
  Revoking locally adds the index to those that wait for the ledger and loses none of them, and
  keeps them ascending, which reading them back depends on.
\<close>

theorem local_revocation_accumulates:
  assumes "record_store W view" and "status_laws L C" and "inserts ins" and "delta_reads C"
    and "view w (Rc_RevRegDelta, rid) = Some (cc_ser_delta C d)" and "sorted_wrt (<) (rrd_revoked d)"
    and "backend_revoke_credential_local W L C ins now w rid i ledger_delta = (Ok (), w')"
  shows "\<exists>d'. view w' (Rc_RevRegDelta, rid) = Some (cc_ser_delta C d') \<and>
    sorted_wrt (<) (rrd_revoked d') \<and> set (rrd_revoked d') = insert i (set (rrd_revoked d))"
  using revoke_local_effect [OF assms(1-4) _ assms(6,7)] assms(5) by (simp add: pending_delta_def)

section \<open>What the verifier is given\<close>

definition list_key :: "RevStatusList \<Rightarrow> string option \<times> u64 option \<times> bool list" where
  "list_key s = (rsl_rev_reg_def_id s, rsl_timestamp s, rsl_revocation_list s)"

definition registry_keys ::
  "(string \<times> (u64 \<times> json) list \<times> string) list \<Rightarrow> (string option \<times> u64 option \<times> bool list) list" where
  "registry_keys registries =
     concat (map (\<lambda>(i, timestamps, _). map (\<lambda>(t, _). (Some i, Some t, [])) timestamps) registries)"

lemma status_list_key:
  assumes "\<forall>s s'. cc_conv_status C s = Ok s' \<longrightarrow> s' = s" and "status_list_of_registry C i issuer (t, accum) = Ok s"
  shows "list_key s = (Some i, Some t, [])"
  using assms(2) assms(1) [rule_format]
  by (fastforce simp: status_list_of_registry_def RevStatusList_new_def RevocationRegistryDefinitionId_new_def list_key_def)

lemma status_list_keys:
  assumes "\<forall>s s'. cc_conv_status C s = Ok s' \<longrightarrow> s' = s"
  shows "try_map (status_list_of_registry C i issuer) timestamps = Ok ls \<Longrightarrow>
    map list_key ls = map (\<lambda>(t, _). (Some i, Some t, [])) timestamps"
  by (induction timestamps arbitrary: ls) (auto dest: status_list_key [OF assms])

text \<open>
  The verifier is given one status list for each registry it has a definition of and each time
  stamp, in their order, and none of them has a bit set: what counts is the accumulator.
\<close>

theorem verifier_status_lists:
  assumes "\<forall>s s'. cc_conv_status C s = Ok s' \<longrightarrow> s' = s"
    and "status_lists_of_registries C registries = Ok ls"
  shows "map list_key ls = registry_keys registries"
proof -
  have "map list_key (concat lss) = registry_keys registries"
    if "try_map (\<lambda>(i, timestamps, issuer). try_map (status_list_of_registry C i issuer) timestamps) registries = Ok lss" for lss
    using that
    by (induction registries arbitrary: lss)
      (auto simp: registry_keys_def dest: status_list_keys [OF assms(1)])
  with assms(2) show ?thesis by (auto simp: status_lists_of_registries_def)
qed

section \<open>A concrete instance\<close>

text \<open>
  Serialised objects are numbers in unary; the crate makes fixed objects and marks what it is told to.
\<close>

instance json_number :: countable
  by countable_datatype

instance json :: countable
  by countable_datatype

definition numeral_text :: "nat \<Rightarrow> string" where
  "numeral_text n = replicate n (CHR ''1'')"

lemma length_numeral_text [simp]: "length (numeral_text n) = n"
  by (simp add: numeral_text_def)

definition sample_reg_def :: AncRevRegDef where
  "sample_reg_def = \<lparr>ar_issuer_id = ''i:1'', ar_tag = ''t'', ar_cred_def_id = ''c:1'', ar_max_cred_num = 2,
     ar_public_keys = JNull, ar_tails_hash = [], ar_tails_location = []\<rparr>"

definition sample_anc_cred_def :: AncCredDef where
  "sample_anc_cred_def = \<lparr>ad_schema_id = ''s:1'', ad_tag = ''t'', ad_value = JNull, ad_issuer_id = ''i:1''\<rparr>"

definition sample_rev_def :: RevRegDef where
  "sample_rev_def = \<lparr>rgd_id = ''r:1'', rgd_issuer_id = ''i:1'', rgd_tag = ''t'', rgd_cred_def_id = ''c:1'',
     rgd_max_cred_num = 4, rgd_public_keys = JNull, rgd_tails_hash = [], rgd_tails_location = []\<rparr>"

definition sample_backend_cred :: Credential where
  "sample_backend_cred = \<lparr>cd_schema_id = ''s:1'', cd_cred_def_id = ''c:1'', cd_rev_reg_id = Some ''r:1'',
     cd_values = [(''a b'', \<lparr>av_raw = ''x'', av_encoded = ''1''\<rparr>)], cd_signature = JNull,
     cd_signature_correctness_proof = JNull, cd_rev_reg = Some JNull, cd_witness = None\<rparr>"

definition sample_status :: RevStatusList where
  "sample_status = \<lparr>rsl_rev_reg_def_id = None, rsl_issuer_id = ''i:1'', rsl_revocation_list = [],
     rsl_accum = Some JNull, rsl_timestamp = None\<rparr>"

definition mark_at :: "RevStatusList \<Rightarrow> u32 \<Rightarrow> RevStatusList" where
  "mark_at s i = s\<lparr>rsl_revocation_list :=
     (rsl_revocation_list s @ replicate (Suc (unat i)) False)[unat i := True]\<rparr>"

lemma marked_mark_at: "marked (rsl_revocation_list (mark_at s i)) = insert (unat i) (marked (rsl_revocation_list s))"
  by (auto simp: mark_at_def marked_def nth_list_update nth_append simp del: replicate_Suc split: if_splits)

definition sample_info_text :: "RevRegInfo \<Rightarrow> string" where
  "sample_info_text i = numeral_text (to_nat (rri_id i, unat (rri_curr_id i), set_encode (unat ` rri_used_ids i)))"

definition sample_delta_text :: "RevocationRegistryDelta \<Rightarrow> string" where
  "sample_delta_text d = numeral_text (to_nat (rrd_prev_accum d, rrd_accum d, map unat (rrd_issued d), map unat (rrd_revoked d)))"

definition sample_anc_codec :: anc_codec where
  "sample_anc_codec = \<lparr>cc_de_obj = (\<lambda>c s. Ok JNull), cc_ser_obj = (\<lambda>c j. []),
     cc_de_anc_cred_def = (\<lambda>s. Ok sample_anc_cred_def), cc_ser_anc_cred_def = (\<lambda>d. ''d''),
     cc_de_cred_def = (\<lambda>s. Err ''missing field `id`''), cc_de_anc_rev_reg_def = (\<lambda>s. Ok sample_reg_def),
     cc_anc_rev_reg_def_value = (\<lambda>d. JObject []), cc_de_rev_reg_def = (\<lambda>s. Ok sample_rev_def),
     cc_de_info = (\<lambda>s. case from_nat (length s) of (i, c, u) \<Rightarrow>
       Ok \<lparr>rri_id = i, rri_curr_id = of_nat c, rri_used_ids = of_nat ` set_decode u\<rparr>),
     cc_ser_info = sample_info_text,
     cc_de_delta = (\<lambda>s. case from_nat (length s) of (p, a, i, r) \<Rightarrow>
       Ok \<lparr>rrd_prev_accum = p, rrd_accum = a, rrd_issued = map of_nat i, rrd_revoked = map of_nat r\<rparr>),
     cc_ser_delta = sample_delta_text, cc_de_credential = (\<lambda>s. Ok sample_backend_cred), cc_ser_credential = (\<lambda>c. []),
     cc_ser_schema = (\<lambda>s. []), cc_print = (\<lambda>j. []), cc_conv_keys = Ok, cc_conv_rev_reg = Ok, cc_conv_offer = Ok,
     cc_conv_request = Ok, cc_conv_metadata = Ok, cc_conv_values = Ok, cc_conv_parts = Ok, cc_conv_pres_request = Ok,
     cc_conv_presentation = Ok, cc_conv_state = Ok, cc_conv_status = Ok, cc_conv_nonce = Ok, cc_lowercase = (\<lambda>s. s),
     cc_set_iter = (\<lambda>s. []), cc_attr_iter = (\<lambda>m. []), cc_pred_iter = (\<lambda>m. []), cc_detail_iter = (\<lambda>l. l)\<rparr>"

definition sample_anc_lib :: anc_lib where
  "sample_anc_lib = \<lparr>
     al_create_revocation_registry_def = (\<lambda>d i t m l. Ok (sample_reg_def, JNull)),
     al_create_revocation_status_list = (\<lambda>d i r p t. Ok sample_status),
     al_update_revocation_status_list = (\<lambda>d r p s i. Ok (fold (\<lambda>i s. mark_at s i) (case i of Some is \<Rightarrow> is | None \<Rightarrow> []) s)),
     al_create_credential_definition = (\<lambda>i s id t r. Ok (sample_anc_cred_def, JNull, JNull)),
     al_create_credential_offer = (\<lambda>s c p. Ok \<lparr>co_schema_id = s, co_cred_def_id = c, co_key_correctness_proof = p,
       co_nonce = ''1'', co_method_name = None\<rparr>),
     al_create_credential = (\<lambda>d p o' q v r. Ok sample_backend_cred),
     al_create_credential_request = (\<lambda>e p d l i o'. Err (An_Unexpected, [])),
     al_process_credential = (\<lambda>c m l d r. Ok c), al_create_presentation = (\<lambda>r c s l ss ds. Err (An_Unexpected, [])),
     al_create_link_secret = Ok ''7'', al_link_secret_text = Ok, al_link_secret_of_text = Some,
     al_create_schema = (\<lambda>n v i a. Err (An_Unexpected, [])),
     al_create_or_update_revocation_state = (\<lambda>t d s i. Err (An_Unexpected, [])), al_generate_nonce = Ok ''1'',
     al_issuer_id = Ok, al_schema_id = Ok, al_cred_def_id = Ok, al_rev_reg_def_id = Ok\<rparr>"

lemma sample_info_reads [simp]: "info_reads sample_anc_codec"
  by (simp add: info_reads_def sample_anc_codec_def sample_info_text_def image_image)

lemma sample_delta_reads [simp]: "delta_reads sample_anc_codec"
  by (simp add: delta_reads_def sample_anc_codec_def sample_delta_text_def comp_def)

lemma sample_status_laws [simp]: "status_laws sample_anc_lib sample_anc_codec"
  by (simp add: status_laws_def sample_anc_codec_def sample_anc_lib_def marked_mark_at)

text \<open>A registry for two credentials, none of them given out.\<close>

definition fresh_info :: RevRegInfo where
  "fresh_info = \<lparr>rri_id = ''r:1'', rri_curr_id = 0, rri_used_ids = {}\<rparr>"

definition sample_registry :: "Record list" where
  "sample_registry = map (\<lambda>(c, n, v). \<lparr>rec_category = c, rec_name = n, rec_value = v, rec_tags = []\<rparr>)
     [(Rc_CredDef, ''c:1'', ''d''), (Rc_CredDefPriv, ''c:1'', []), (Rc_RevRegDef, ''r:1'', []),
      (Rc_RevRegDefPriv, ''r:1'', []), (Rc_RevReg, ''r:1'', []), (Rc_RevRegInfo, ''r:1'', cc_ser_info sample_anc_codec fresh_info)]"

lemma sample_registry_at: "registry_at sample_anc_codec (list_view sample_registry) ''r:1'' sample_reg_def fresh_info"
  by (simp add: registry_at_def sample_registry_def list_view_def sample_anc_codec_def)

theorem link_secret_kept_witness:
  "\<exists>w. backend_create_link_secret list_wallet sample_anc_lib [] ''main'' = (Ok (), w) \<and>
    list_view w = (list_view [])((Rc_LinkSecret, ''main'') \<mapsto> ''7'')"
proof -
  let ?w = "[\<lparr>rec_category = Rc_LinkSecret, rec_name = ''main'', rec_value = ''7'', rec_tags = []\<rparr>]"
  have run: "backend_create_link_secret list_wallet sample_anc_lib [] ''main'' = (Ok (), ?w)"
    by (simp add: backend_create_link_secret_def list_wallet_def sample_anc_lib_def put_record_def from_records_def
        from_lib_def pure_w_def)
  have "secret_text_inverse sample_anc_lib" by (simp add: secret_text_inverse_def sample_anc_lib_def)
  from link_secret_kept [OF list_record_store this run] have "list_view ?w = (list_view [])((Rc_LinkSecret, ''main'') \<mapsto> ''7'')"
    by (auto simp: sample_anc_lib_def list_wallet_def split: result.splits)
  with run show ?thesis by blast
qed

definition sample_issue_request :: "CredentialOffer \<times> CredentialRequest \<times> CredentialValues" where
  "sample_issue_request = (sample_offer, \<lparr>cr_entropy = None, cr_prover_did = None, cr_cred_def_id = ''c:1'',
     cr_blinded_ms = JNull, cr_blinded_ms_correctness_proof = JNull, cr_nonce = ''1''\<rparr>, [])"

lemma sample_backend_ids: "CredentialDefinitionId_new ''c:1'' = Ok ''c:1''" "RevocationRegistryDefinitionId_new ''r:1'' = Ok ''r:1''"
  by (simp_all add: CredentialDefinitionId_new_def validate_cred_def_id_def URI_IDENTIFIER_def sample_registry_id
      is_scheme_char_def is_alnum_def in_any_range_def in_range_def strip_def no_newline_def)

lemma sample_codec_fields:
  "cc_conv_offer sample_anc_codec = Ok" "cc_conv_request sample_anc_codec = Ok" "cc_conv_values sample_anc_codec = Ok"
  "cc_conv_parts sample_anc_codec = Ok" "cc_de_obj sample_anc_codec = (\<lambda>c s. Ok JNull)"
  "cc_de_anc_cred_def sample_anc_codec = (\<lambda>s. Ok sample_anc_cred_def)"
  "cc_de_anc_rev_reg_def sample_anc_codec = (\<lambda>s. Ok sample_reg_def)"
  "cc_ser_obj sample_anc_codec = (\<lambda>c j. [])"
  "cc_de_info sample_anc_codec (cc_ser_info sample_anc_codec i) = Ok i"
  using sample_info_reads unfolding info_reads_def by (simp_all add: sample_anc_codec_def)

lemma sample_issue_many:
  "issue_many list_wallet sample_anc_lib sample_anc_codec ''r:1'' [] sample_registry (replicate 3 sample_issue_request) = [1, 2]"
  by (simp add: numeral_3_eq_3 issuer_create_credential_def list_wallet_def pure_w_def sample_registry_def
      sample_issue_request_def sample_offer_def get_wallet_record_value_def is_at_def sample_anc_lib_def from_records_def
      from_de_def from_lib_def from_conv_def revocation_parts_def revocation_config_def next_index_def fresh_info_def
      sample_reg_def_def store_index_def update_value_def credential_of_anc_def sample_backend_cred_def sample_backend_ids
      from_at_def sample_codec_fields)

theorem indices_fresh_witness: "sorted_wrt (<) [1, 2 :: u32] \<and> set [1, 2 :: u32] \<subseteq> {1..2}"
  using indices_fresh [OF list_record_store sample_info_reads sample_registry_at, of sample_anc_lib "[]" "replicate 3 sample_issue_request"]
  unfolding sample_issue_many by (simp add: sample_reg_def_def fresh_info_def)

definition registry_with_delta :: "Record list" where
  "registry_with_delta = \<lparr>rec_category = Rc_RevRegDelta, rec_name = ''r:1'',
     rec_value = cc_ser_delta sample_anc_codec (sample_delta [2]), rec_tags = []\<rparr> # sample_registry"

lemma sample_codec_more:
  "cc_conv_status sample_anc_codec = Ok" "cc_conv_keys sample_anc_codec = Ok"
  "cc_de_rev_reg_def sample_anc_codec = (\<lambda>s. Ok sample_rev_def)"
  "cc_de_delta sample_anc_codec (cc_ser_delta sample_anc_codec d) = Ok d"
  using sample_delta_reads unfolding delta_reads_def by (simp_all add: sample_anc_codec_def)

lemma sample_revoke_local:
  "fst (backend_revoke_credential_local list_wallet sample_anc_lib sample_anc_codec sample_ins 7 registry_with_delta
    ''r:1'' 1 (sample_delta [])) = Ok ()"
  by (simp add: backend_revoke_credential_local_def list_wallet_def pure_w_def registry_with_delta_def sample_registry_def
      get_wallet_record_value_def is_at_def sample_anc_lib_def from_records_def from_de_def from_lib_def from_conv_def
      sample_codec_fields sample_codec_more backend_get_rev_reg_delta_def sample_rev_def_def rev_reg_def_to_anc_def
      status_list_of_delta_def mark_bit_def RevStatusList_new_def sample_registry_id from_at_def sample_delta_def
      delta_of_status_list_def mark_at_def update_value_def Let_def)

theorem local_revocation_accumulates_witness:
  "\<exists>w' d'. list_view w' (Rc_RevRegDelta, ''r:1'') = Some (cc_ser_delta sample_anc_codec d') \<and> set (rrd_revoked d') = {1, 2}"
proof -
  obtain w' where run: "backend_revoke_credential_local list_wallet sample_anc_lib sample_anc_codec sample_ins 7
      registry_with_delta ''r:1'' 1 (sample_delta []) = (Ok (), w')"
    using sample_revoke_local by (metis prod.collapse)
  from local_revocation_accumulates [OF list_record_store sample_status_laws sample_inserts sample_delta_reads _ _ run, of "sample_delta [2]"]
  show ?thesis by (fastforce simp: sample_delta_def registry_with_delta_def)
qed

lemma digit_seven: "digit_char 7 = CHR ''7''"
  by code_simp

lemma sample_make_id:
  "make_credential_definition_id legacy_did ''s:1'' (Some 7) ''t'' =
    (Ok ''NcYxiDXkpYi6ov5FcYDi1e:3:CL:7:t'' :: (VcxAnoncredsError, _) result)"
  by (simp add: make_credential_definition_id_def legacy_did_def method_prefix_def did_method_def
      CredentialDefinitionId_new_def validate_cred_def_id_def URI_IDENTIFIER_def is_scheme_char_def is_alnum_def
      in_any_range_def in_range_def strip_def no_newline_def unwrap_id_def show_u32_def show_nat.simps digit_seven)

definition sample_ledger_schema :: LedgerSchema where
  "sample_ledger_schema = \<lparr>sch_id = ''s:1'', sch_seq_no = Some 7, sch_name = ''gvt'', sch_version = ''1.0'',
     sch_attr_names = [''a''], sch_issuer_id = ''i:1''\<rparr>"

theorem cred_def_not_returned_witness:
  "fst (issuer_create_and_store_credential_def list_wallet sample_anc_lib sample_anc_codec
    [\<lparr>rec_category = Rc_CredDef, rec_name = ''NcYxiDXkpYi6ov5FcYDi1e:3:CL:7:t'', rec_value = ''d'', rec_tags = []\<rparr>]
    legacy_did ''s:1'' sample_ledger_schema ''t'' True) \<noteq> Ok d"
  by (rule cred_def_not_returned [OF list_record_store])
    (simp_all add: stored_without_id_def sample_anc_codec_def list_view_def sample_ledger_schema_def sample_make_id)

definition sample_predicate :: PredicateInfo where
  "sample_predicate = \<lparr>pi_name = ''a b'', pi_p_type = GE, pi_p_value = 18, pi_restrictions = None, pi_non_revoked = None\<rparr>"

definition sample_predicate_request :: PresentationRequestPayload where
  "sample_predicate_request = \<lparr>prp_nonce = ''1'', prp_name = ''r'', prp_version = ''1.0'', prp_requested_attributes = [],
     prp_requested_predicates = [(''p'', sample_predicate)], prp_non_revoked = None\<rparr>"

lemma sample_normalize: "normalize_attr_name sample_anc_codec n \<noteq> ''a b''"
proof
  assume "normalize_attr_name sample_anc_codec n = ''a b''"
  then have "CHR '' '' \<in> set (filter (\<lambda>c. c \<noteq> CHR '' '') n)" by (simp add: normalize_attr_name_def sample_anc_codec_def)
  then show False by simp
qed

theorem predicate_name_not_normalised_witness:
  "referent_query sample_anc_codec sample_predicate_request ''p'' = Ok ([''a b''], None, None)"
  using predicate_name_not_normalised [of sample_predicate_request "''p''" sample_predicate sample_anc_codec] sample_normalize
  by (simp add: sample_predicate_request_def sample_predicate_def)

theorem attribute_marker_stored_witness:
  "\<exists>m. RecordTag (marker_tag_name m) ''1'' \<in> set (credential_tags sample_anc_codec sample_backend_cred sample_ledger_schema ''i:1'')"
proof -
  let ?i = "\<lparr>ai_name = Some ''ab'', ai_names = None, ai_restrictions = None, ai_non_revoked = None,
    ai_self_attest_allowed = None\<rparr>"
  have "normalize_attr_name sample_anc_codec ''a b'' = normalize_attr_name sample_anc_codec ''ab''"
    by (simp add: normalize_attr_name_def sample_anc_codec_def)
  from attribute_marker_stored [of "sample_predicate_request\<lparr>prp_requested_attributes := [(''r'', ?i)]\<rparr>" "''r''", OF _ _ _ _ this]
  show ?thesis by (force simp: sample_backend_cred_def)
qed

end
