(* ===== verification/Askar_Wallet.thy ===== *)
theory Askar_Wallet
  imports Records "HOL-Library.Countable"
begin

text \<open>
  The Askar wallet (\<open>aries_vcx_wallet/src/wallet/askar\<close>): records, keys and DIDs over a session of
  the \<open>aries_askar\<close> crate, and the encrypted message format. The crate enters as two records:
  \<open>askar\<close> is a store, its sessions and transactions (an operation returns the new state of the
  store), \<open>kms\<close> is a key and the cryptography on it. Random choices are the record \<open>randomness\<close>.
  The last sections state the contract of the record interface, the round trip of packed messages,
  and what becomes of the keys of a DID.
\<close>

section \<open>The third-party interface\<close>

datatype AskarErrorKind = Ak_Backend | Ak_Custom | Ak_Encryption | Ak_Input | Ak_Unexpected
  | Ak_Unsupported | Ak_Busy | Ak_Duplicate | Ak_NotFound

record askar_error =
  ae_kind :: AskarErrorKind
  ae_text :: string

type_synonym 'a askar_res = "(askar_error, 'a) result"

text \<open>\<open>From<aries_askar::Error> for VcxWalletError\<close>\<close>

definition from_askar_error :: "askar_error \<Rightarrow> VcxWalletError" where
  "from_askar_error err = (case ae_kind err of
     Ak_Duplicate \<Rightarrow> We_DuplicateRecord (ae_text err)
   | Ak_NotFound \<Rightarrow> We_RecordNotFound None
   | _ \<Rightarrow> We_Unknown (ae_text err))"

definition askar :: "'a askar_res \<Rightarrow> 'a wallet_res" where
  "askar = map_err from_askar_error"

definition askar_w :: "'a askar_res \<times> 's \<Rightarrow> 'a wallet_res \<times> 's" where
  "askar_w r = (askar (fst r), snd r)"

lemma askar_Ok [simp]: "askar r = Ok x \<longleftrightarrow> r = Ok x"
  by (simp add: askar_def)

lemma askar_simps [simp]: "askar (Ok x) = Ok x" "askar (Err e) = Err (from_askar_error e)" "askar Panic = Panic"
  by (simp_all add: askar_def)

lemma askar_w_Ok [simp]: "askar_w r = (Ok x, w) \<longleftrightarrow> r = (Ok x, w)"
  by (cases r) (simp add: askar_w_def)

datatype EntryTag = Encrypted string string | Plaintext string string

record Entry =
  en_category :: string
  en_name :: string
  en_value :: string
  en_tags :: "EntryTag list"

record 'k KeyEntry =
  ke_name :: string
  ke_tags :: "EntryTag list"
  ke_load_local_key :: "'k askar_res"

record ('s, 'k) askar =
  ak_session :: "'s \<Rightarrow> unit askar_res"
  ak_transaction :: "'s \<Rightarrow> unit askar_res"
  ak_commit :: "'s \<Rightarrow> unit askar_res"
  ak_insert :: "'s \<Rightarrow> string \<Rightarrow> string \<Rightarrow> string \<Rightarrow> EntryTag list option \<Rightarrow> unit askar_res \<times> 's"
  ak_replace :: "'s \<Rightarrow> string \<Rightarrow> string \<Rightarrow> string \<Rightarrow> EntryTag list option \<Rightarrow> unit askar_res \<times> 's"
  ak_remove :: "'s \<Rightarrow> string \<Rightarrow> string \<Rightarrow> unit askar_res \<times> 's"
  ak_fetch :: "'s \<Rightarrow> string \<Rightarrow> string \<Rightarrow> bool \<Rightarrow> Entry option askar_res"
  ak_fetch_all :: "'s \<Rightarrow> string option \<Rightarrow> json option \<Rightarrow> Entry list askar_res"
  ak_parse_filter :: "string \<Rightarrow> (string, json) result"
  ak_insert_key :: "'s \<Rightarrow> string \<Rightarrow> 'k \<Rightarrow> EntryTag list option \<Rightarrow> unit askar_res \<times> 's"
  ak_fetch_key :: "'s \<Rightarrow> string \<Rightarrow> 'k KeyEntry option askar_res"
  ak_remove_key :: "'s \<Rightarrow> string \<Rightarrow> unit askar_res \<times> 's"
  ak_fetch_all_keys :: "'s \<Rightarrow> 'k KeyEntry list askar_res"

record EncryptedBytes =
  eb_nonce :: string
  eb_ciphertext :: string
  eb_tag :: string

record 'k kms =
  lk_from_secret_bytes :: "KeyAlg \<Rightarrow> string \<Rightarrow> 'k askar_res"
  lk_from_public_bytes :: "KeyAlg \<Rightarrow> string \<Rightarrow> 'k askar_res"
  lk_to_public_bytes :: "'k \<Rightarrow> string askar_res"
  lk_to_secret_bytes :: "'k \<Rightarrow> string askar_res"
  lk_algorithm :: "'k \<Rightarrow> KeyAlg"
  lk_show_alg :: "KeyAlg \<Rightarrow> string"
  lk_convert_key :: "'k \<Rightarrow> KeyAlg \<Rightarrow> 'k askar_res"
  lk_sign_message :: "'k \<Rightarrow> string \<Rightarrow> string option \<Rightarrow> string askar_res"
  lk_verify_signature :: "'k \<Rightarrow> string \<Rightarrow> string \<Rightarrow> string option \<Rightarrow> bool askar_res"
  lk_crypto_box :: "'k \<Rightarrow> 'k \<Rightarrow> string \<Rightarrow> string \<Rightarrow> string askar_res"
  lk_crypto_box_open :: "'k \<Rightarrow> 'k \<Rightarrow> string \<Rightarrow> string \<Rightarrow> string askar_res"
  lk_crypto_box_seal :: "'k \<Rightarrow> string \<Rightarrow> string askar_res"
  lk_crypto_box_seal_open :: "'k \<Rightarrow> string \<Rightarrow> string askar_res"
  lk_aead_encrypt :: "'k \<Rightarrow> string \<Rightarrow> string \<Rightarrow> string \<Rightarrow> EncryptedBytes askar_res"
  lk_aead_decrypt :: "'k \<Rightarrow> string \<Rightarrow> string \<Rightarrow> string \<Rightarrow> string \<Rightarrow> string askar_res"

record 'k randomness =
  rn_seed :: string
  rn_key :: "'k askar_res"
  rn_box_nonce :: "nat \<Rightarrow> string askar_res"
  rn_aead_nonce :: "string askar_res"

section \<open>Tags and entries\<close>

fun tag_of_entry :: "EntryTag \<Rightarrow> RecordTag" where
  "tag_of_entry (Encrypted key val) = RecordTag key val"
| "tag_of_entry (Plaintext key val) = RecordTag (''~'' @ key) val"

definition entry_of_tag :: "RecordTag \<Rightarrow> EntryTag" where
  "entry_of_tag entry_tag =
     (if starts_with (tag_key entry_tag) ''~''
      then Plaintext (dropWhile (\<lambda>c. c = CHR ''~'') (tag_key entry_tag)) (tag_value entry_tag)
      else Encrypted (tag_key entry_tag) (tag_value entry_tag))"

definition entries_of_tags :: "RecordTags \<Rightarrow> EntryTag list" where
  "entries_of_tags tags = map entry_of_tag tags"

definition tags_of_entries :: "EntryTag list \<Rightarrow> RecordTags" where
  "tags_of_entries askar_tags = foldl tags_add [] (map tag_of_entry askar_tags)"

lemma dropWhile_not_Cons: "dropWhile P l \<noteq> x # l"
  by (metis impossible_Cons length_dropWhile_le)

text \<open>A tag survives exactly when its key does not start with two tildes.\<close>

lemma tag_roundtrip: "tag_of_entry (entry_of_tag t) = t \<longleftrightarrow> \<not> starts_with (tag_key t) ''~~''"
  by (cases t; cases "tag_key t"; cases "tl (tag_key t)")
    (auto simp: entry_of_tag_def starts_with_def dropWhile_not_Cons)

lemma tags_roundtrip:
  assumes "sorted ts" and "\<forall>t \<in> set ts. \<not> starts_with (tag_key t) ''~~''"
  shows "tags_of_entries (entries_of_tags ts) = ts"
proof -
  have "map (tag_of_entry \<circ> entry_of_tag) ts = ts"
    using assms(2) by (simp add: tag_roundtrip map_idI)
  then show ?thesis using assms(1)
    by (simp add: tags_of_entries_def entries_of_tags_def foldl_tags_add sorted_sort_id)
qed

text \<open>\<open>NotUtf8\<close> carries the \<open>FromUtf8Error\<close>, which is given here by the bytes it holds.\<close>

definition bytes_to_string :: "string \<Rightarrow> string wallet_res" where
  "bytes_to_string vec = (case from_utf8 vec of Some s \<Rightarrow> Ok s | None \<Rightarrow> Err (We_NotUtf8 vec))"

definition record_of_entry :: "Entry \<Rightarrow> Record wallet_res" where
  "record_of_entry entry =
     and_then (category_from_str (en_category entry)) (\<lambda>category.
     and_then (bytes_to_string (en_value entry)) (\<lambda>value.
     Ok \<lparr>rec_category = category, rec_name = en_name entry, rec_value = value,
       rec_tags = tags_of_entries (en_tags entry)\<rparr>))"

definition bytes_to_bs58 :: "key_ext \<Rightarrow> string \<Rightarrow> string" where
  "bytes_to_bs58 K bytes = kx_b58_encode K bytes"

definition bs58_to_bytes :: "key_ext \<Rightarrow> string \<Rightarrow> string wallet_res" where
  "bs58_to_bytes K key = map_err We_NotBase58 (kx_b58_decode K key)"

definition local_key_to_bs58_public_key :: "key_ext \<Rightarrow> 'k kms \<Rightarrow> 'k \<Rightarrow> string wallet_res" where
  "local_key_to_bs58_public_key K L local_key =
     and_then (askar (lk_to_public_bytes L local_key)) (\<lambda>b. Ok (bytes_to_bs58 K b))"

definition local_key_to_bs58_private_key :: "key_ext \<Rightarrow> 'k kms \<Rightarrow> 'k \<Rightarrow> string wallet_res" where
  "local_key_to_bs58_private_key K L local_key =
     and_then (askar (lk_to_secret_bytes L local_key)) (\<lambda>b. Ok (bytes_to_bs58 K b))"

definition wallet_pk :: "(PublicKeyError, 'a) result \<Rightarrow> 'a wallet_res" where
  "wallet_pk = map_err (\<lambda>e. We_PublicKeyError (show_PublicKeyError e))"

definition local_key_to_public_key :: "key_ext \<Rightarrow> 'k kms \<Rightarrow> 'k \<Rightarrow> Key wallet_res" where
  "local_key_to_public_key K L local_key =
     and_then (askar (lk_to_public_bytes L local_key)) (\<lambda>b. wallet_pk (Key_new K b Ed25519))"

definition wallet_key_alg :: "KeyType \<Rightarrow> KeyAlg wallet_res" where
  "wallet_key_alg value =
     (case value of
        Ed25519 \<Rightarrow> Ok Alg_Ed25519
      | X25519 \<Rightarrow> Ok Alg_X25519
      | Bls12381g1g2 \<Rightarrow> Ok (Alg_Bls12_381 G1G2)
      | Bls12381g1 \<Rightarrow> Ok (Alg_Bls12_381 G1)
      | Bls12381g2 \<Rightarrow> Ok (Alg_Bls12_381 G2)
      | P256 \<Rightarrow> Ok (Alg_EcCurve Secp256r1)
      | P384 \<Rightarrow> Ok (Alg_EcCurve Secp384r1)
      | _ \<Rightarrow> Err (We_Unimplemented (''Unsupported key type: '' @ show_KeyType value)))"

definition public_key_to_local_key :: "'k kms \<Rightarrow> Key \<Rightarrow> 'k wallet_res" where
  "public_key_to_local_key L key =
     and_then (wallet_key_alg (ky_type key)) (\<lambda>alg.
     askar (lk_from_public_bytes L alg (ky_bytes key)))"

definition ed25519_to_x25519 :: "'k kms \<Rightarrow> 'k \<Rightarrow> 'k wallet_res" where
  "ed25519_to_x25519 L local_key = askar (lk_convert_key L local_key Alg_X25519)"

definition seed_from_opt :: "'k randomness \<Rightarrow> string option \<Rightarrow> string" where
  "seed_from_opt N maybe_seed = (case maybe_seed of Some val \<Rightarrow> val | None \<Rightarrow> rn_seed N)"

datatype SigType = EdDSA | ES256 | ES256K | ES384

fun sig_type_str :: "SigType \<Rightarrow> string" where
  "sig_type_str EdDSA = ''eddsa''"
| "sig_type_str ES256 = ''es256''"
| "sig_type_str ES256K = ''es256k''"
| "sig_type_str ES384 = ''es384''"

definition try_from_key_alg :: "'k kms \<Rightarrow> KeyAlg \<Rightarrow> SigType wallet_res" where
  "try_from_key_alg L key_alg =
     (case key_alg of
        Alg_Ed25519 \<Rightarrow> Ok EdDSA
      | Alg_EcCurve item \<Rightarrow>
          (case item of Secp256r1 \<Rightarrow> Ok ES256 | Secp256k1 \<Rightarrow> Ok ES256K | Secp384r1 \<Rightarrow> Ok ES384)
      | alg \<Rightarrow> Err (We_InvalidInput (lk_show_alg L alg @ '' does not support signing'')))"

section \<open>Records\<close>

definition not_found :: "RecordCategory \<Rightarrow> string \<Rightarrow> VcxWalletError" where
  "not_found category name =
     We_RecordNotFound (Some (''Not found, category: '' @ show_category category @ '', name '' @ name))"

definition askar_fetch ::
  "('s, 'k) askar \<Rightarrow> 's \<Rightarrow> RecordCategory \<Rightarrow> string \<Rightarrow> bool \<Rightarrow> Entry wallet_res" where
  "askar_fetch A w category name for_update =
     and_then (map_err (\<lambda>err. if ae_kind err = Ak_NotFound then not_found category name
                                else from_askar_error err)
         (ak_fetch A w (show_category category) name for_update)) (\<lambda>maybe_entry.
     ok_or maybe_entry (not_found category name))"

definition askar_add_record :: "('s, 'k) askar \<Rightarrow> 's \<Rightarrow> Record \<Rightarrow> unit wallet_res \<times> 's" where
  "askar_add_record A w r =
     and_thenw (pure_w (askar (ak_session A w)) w) (\<lambda>_ w.
     askar_w (ak_insert A w (show_category (rec_category r)) (rec_name r) (rec_value r)
       (Some (entries_of_tags (rec_tags r)))))"

definition askar_get_record :: "('s, 'k) askar \<Rightarrow> 's \<Rightarrow> RecordCategory \<Rightarrow> string \<Rightarrow> Record wallet_res" where
  "askar_get_record A w category name =
     and_then (askar (ak_session A w)) (\<lambda>_.
     and_then (askar_fetch A w category name False) record_of_entry)"

definition askar_update_record_tags ::
  "('s, 'k) askar \<Rightarrow> 's \<Rightarrow> RecordCategory \<Rightarrow> string \<Rightarrow> RecordTags \<Rightarrow> unit wallet_res \<times> 's" where
  "askar_update_record_tags A w category name new_tags =
     and_thenw (pure_w (askar (ak_session A w)) w) (\<lambda>_ w.
     and_thenw (pure_w (askar_fetch A w category name True) w) (\<lambda>entry w.
     askar_w (ak_replace A w (show_category category) name (en_value entry)
       (Some (entries_of_tags new_tags)))))"

definition askar_update_record_value ::
  "('s, 'k) askar \<Rightarrow> 's \<Rightarrow> RecordCategory \<Rightarrow> string \<Rightarrow> string \<Rightarrow> unit wallet_res \<times> 's" where
  "askar_update_record_value A w category name new_value =
     and_thenw (pure_w (askar (ak_session A w)) w) (\<lambda>_ w.
     and_thenw (pure_w (askar_fetch A w category name True) w) (\<lambda>entry w.
     askar_w (ak_replace A w (show_category category) name new_value (Some (en_tags entry)))))"

definition askar_delete_record ::
  "('s, 'k) askar \<Rightarrow> 's \<Rightarrow> RecordCategory \<Rightarrow> string \<Rightarrow> unit wallet_res \<times> 's" where
  "askar_delete_record A w category name =
     and_thenw (pure_w (askar (ak_session A w)) w) (\<lambda>_ w.
     askar_w (ak_remove A w (show_category category) name))"

definition askar_search_record ::
  "('s, 'k) askar \<Rightarrow> 's \<Rightarrow> RecordCategory \<Rightarrow> string option \<Rightarrow> Record list wallet_res" where
  "askar_search_record A w category search_filter =
     and_then (map_err We_InvalidInput
         (transpose_opt (map_option (ak_parse_filter A) search_filter))) (\<lambda>filt.
     and_then (askar (ak_session A w)) (\<lambda>_.
     and_then (askar (ak_fetch_all A w (Some (show_category category)) filt)) (\<lambda>entries.
     try_map record_of_entry entries)))"

definition partial_of_entry :: "Entry \<Rightarrow> PartialRecord wallet_res" where
  "partial_of_entry entry =
     and_then (bytes_to_string (en_value entry)) (\<lambda>value.
     Ok \<lparr>par_category = Some (en_category entry), par_name = en_name entry, par_value = Some value,
       par_tags = Some (tags_of_entries (en_tags entry))\<rparr>)"

definition partial_of_key_entry ::
  "key_ext \<Rightarrow> 'k kms \<Rightarrow> (KeyValue \<Rightarrow> string) \<Rightarrow> 'k KeyEntry \<Rightarrow> PartialRecord wallet_res" where
  "partial_of_key_entry K L ser key_entry =
     and_then (askar (ke_load_local_key key_entry)) (\<lambda>local_key.
     and_then (local_key_to_bs58_private_key K L local_key) (\<lambda>signkey.
     and_then (local_key_to_bs58_public_key K L local_key) (\<lambda>verkey.
     Ok \<lparr>par_category = Some (show_category Rc_Key), par_name = ke_name key_entry,
       par_value = Some (ser \<lparr>kv_verkey = verkey, kv_signkey = signkey\<rparr>),
       par_tags = Some (tags_of_entries (ke_tags key_entry))\<rparr>)))"

definition askar_all_records ::
  "key_ext \<Rightarrow> 'k kms \<Rightarrow> (KeyValue \<Rightarrow> string) \<Rightarrow> ('s, 'k) askar \<Rightarrow> 's \<Rightarrow> AllRecords wallet_res" where
  "askar_all_records K L ser A w =
     and_then (askar (ak_session A w)) (\<lambda>_.
     and_then (askar (ak_fetch_all A w None None)) (\<lambda>entries.
     and_then (try_map partial_of_entry entries) (\<lambda>recs.
     and_then (askar (ak_fetch_all_keys A w)) (\<lambda>keys.
     and_then (try_map (partial_of_key_entry K L ser) keys) (\<lambda>local_keys.
     let recs = recs @ local_keys
     in Ok \<lparr>all_total = Ok (Some (length recs)), all_items = map Ok recs\<rparr>)))))"

definition askar_create_key ::
  "key_ext \<Rightarrow> 'k kms \<Rightarrow> ('s, 'k) askar \<Rightarrow> 's \<Rightarrow> string \<Rightarrow> KeyValue \<Rightarrow> RecordTags \<Rightarrow> unit wallet_res \<times> 's" where
  "askar_create_key K L A w name value tags =
     and_thenw (pure_w (askar (ak_session A w)) w) (\<lambda>_ w.
     and_thenw (pure_w (bs58_to_bytes K (kv_signkey value)) w) (\<lambda>bytes w.
     and_thenw (pure_w (if length bytes < 32 then Panic
         else askar (lk_from_secret_bytes L Alg_Ed25519 (take 32 bytes))) w) (\<lambda>key w.
     askar_w (ak_insert_key A w name key (Some (entries_of_tags tags))))))"

definition askar_records ::
  "key_ext \<Rightarrow> 'k kms \<Rightarrow> (KeyValue \<Rightarrow> string) \<Rightarrow> ('s, 'k) askar \<Rightarrow> 's record_wallet" where
  "askar_records K L ser A = \<lparr>
     rw_all_records = askar_all_records K L ser A, rw_add_record = askar_add_record A,
     rw_get_record = askar_get_record A, rw_update_record_tags = askar_update_record_tags A,
     rw_update_record_value = askar_update_record_value A, rw_delete_record = askar_delete_record A,
     rw_search_record = askar_search_record A, rw_create_key = askar_create_key K L A\<rparr>"

section \<open>Keys and DIDs\<close>

text \<open>
  A \<open>DidValue\<close> is a key; writing it and reading an optional one are derived code of serde, as are
  writing and reading a JWE and its protected header.
\<close>

datatype JweAlg = Authcrypt | Anoncrypt

record AuthcryptRecipient =
  acr_encrypted_key :: string
  acr_kid :: string
  acr_iv :: string
  acr_sender :: string

record AnoncryptRecipient =
  anr_encrypted_key :: string
  anr_kid :: string

datatype Recipient = R_Authcrypt AuthcryptRecipient | R_Anoncrypt AnoncryptRecipient

datatype ProtectedHeaderEnc = XChaCha20Poly1305
datatype ProtectedHeaderTyp = Jwm

record ProtectedData =
  pd_enc :: ProtectedHeaderEnc
  pd_typ :: ProtectedHeaderTyp
  pd_alg :: JweAlg
  pd_recipients :: "Recipient list"

record Jwe =
  jwe_protected :: string
  jwe_iv :: string
  jwe_ciphertext :: string
  jwe_tag :: string

record askar_codec =
  aw_b64_encode :: "string \<Rightarrow> string"
  aw_b64_decode :: "string \<Rightarrow> (string, string) result"
  aw_ser_did_value :: "Key \<Rightarrow> string"
  aw_de_did_value :: "string \<Rightarrow> (string, Key option) result"
  aw_ser_protected :: "ProtectedData \<Rightarrow> string"
  aw_de_protected :: "string \<Rightarrow> (string, ProtectedData) result"
  aw_ser_jwe :: "Jwe \<Rightarrow> string"
  aw_de_jwe :: "string \<Rightarrow> (string, Jwe) result"

text \<open>
  A transaction works on the store; it takes effect when it is committed and is rolled back when
  the function returns before.
\<close>

definition in_transaction ::
  "('s, 'k) askar \<Rightarrow> 's \<Rightarrow> ('s \<Rightarrow> 'a wallet_res \<times> 's) \<Rightarrow> 'a wallet_res \<times> 's" where
  "in_transaction A w body =
     (case askar (ak_transaction A w) of
        Ok _ \<Rightarrow>
          (case body w of
             (Ok x, tx) \<Rightarrow>
               (case askar (ak_commit A tx) of Ok _ \<Rightarrow> (Ok x, tx) | Err e \<Rightarrow> (Err e, w) | Panic \<Rightarrow> (Panic, w))
           | (Err e, tx) \<Rightarrow> (Err e, w)
           | (Panic, tx) \<Rightarrow> (Panic, w))
      | Err e \<Rightarrow> (Err e, w)
      | Panic \<Rightarrow> (Panic, w))"

definition fetch_key_entry :: "('s, 'k) askar \<Rightarrow> 's \<Rightarrow> string \<Rightarrow> 'k KeyEntry wallet_res" where
  "fetch_key_entry A w key_name =
     and_then (askar (ak_fetch_key A w key_name)) (\<lambda>k. ok_or k (not_found Rc_Key key_name))"

definition fetch_local_key :: "('s, 'k) askar \<Rightarrow> 's \<Rightarrow> string \<Rightarrow> 'k wallet_res" where
  "fetch_local_key A w key_name =
     and_then (fetch_key_entry A w key_name) (\<lambda>e. askar (ke_load_local_key e))"

definition askar_insert_key ::
  "key_ext \<Rightarrow> 'k kms \<Rightarrow> ('s, 'k) askar \<Rightarrow> 's \<Rightarrow> KeyAlg \<Rightarrow> string \<Rightarrow> (string \<times> 'k) wallet_res \<times> 's" where
  "askar_insert_key K L A w alg seed =
     and_thenw (pure_w (askar (lk_from_secret_bytes L alg seed)) w) (\<lambda>key w.
     and_thenw (pure_w (local_key_to_bs58_public_key K L key) w) (\<lambda>key_name w.
     and_thenw (askar_w (ak_insert_key A w key_name key None)) (\<lambda>_ w.
     (Ok (key_name, key), w))))"

definition find_did ::
  "askar_codec \<Rightarrow> ('s, 'k) askar \<Rightarrow> 's \<Rightarrow> string \<Rightarrow> RecordCategory \<Rightarrow> Key option wallet_res" where
  "find_did C A w did category =
     and_then (askar_fetch A w category did False) (\<lambda>entry.
     case from_utf8 (en_value entry) of
       Some val \<Rightarrow> map_err We_InvalidJson (aw_de_did_value C val)
     | None \<Rightarrow> Err (We_InvalidInput ''wallet entry value is not a valid character sequence''))"

definition find_current_did :: "askar_codec \<Rightarrow> ('s, 'k) askar \<Rightarrow> 's \<Rightarrow> string \<Rightarrow> Key option wallet_res" where
  "find_current_did C A w did = find_did C A w did Rc_Did"

text \<open>The presence check passes the DID as the category and the category as the name.\<close>

definition insert_did ::
  "askar_codec \<Rightarrow> ('s, 'k) askar \<Rightarrow> 's \<Rightarrow> string \<Rightarrow> string \<Rightarrow> Key \<Rightarrow> EntryTag list option \<Rightarrow>
   unit wallet_res \<times> 's" where
  "insert_did C A w did category verkey tags =
     and_thenw (pure_w (askar (ak_fetch A w did category False)) w) (\<lambda>found w.
     if found \<noteq> None then
       (Err (We_DuplicateRecord (''category: '' @ show_category Rc_Did @ '', name: '' @ category)), w)
     else askar_w (ak_insert A w category did (aw_ser_did_value C verkey) tags))"

definition update_did ::
  "askar_codec \<Rightarrow> ('s, 'k) askar \<Rightarrow> 's \<Rightarrow> string \<Rightarrow> string \<Rightarrow> Key \<Rightarrow> EntryTag list option \<Rightarrow>
   unit wallet_res \<times> 's" where
  "update_did C A w did category verkey tags =
     askar_w (ak_replace A w category did (aw_ser_did_value C verkey) tags)"

definition askar_key_count :: "('s, 'k) askar \<Rightarrow> 's \<Rightarrow> nat wallet_res" where
  "askar_key_count A w =
     and_then (askar (ak_session A w)) (\<lambda>_.
     map_ok length (askar (ak_fetch_all_keys A w)))"

definition nym_of_verkey :: "key_ext \<Rightarrow> Key \<Rightarrow> string wallet_res" where
  "nym_of_verkey K verkey =
     (let pk = ky_bytes verkey
      in if length pk \<noteq> 32 then Err (We_InvalidInput (''Invalid key length: '' @ show_nat (length pk)))
         else Ok (kx_b58_encode K (take 16 pk)))"

definition askar_create_and_store_my_did ::
  "key_ext \<Rightarrow> 'k kms \<Rightarrow> askar_codec \<Rightarrow> 'k randomness \<Rightarrow> ('s, 'k) askar \<Rightarrow> 's \<Rightarrow> string option \<Rightarrow>
   string option \<Rightarrow> DidData wallet_res \<times> 's" where
  "askar_create_and_store_my_did K L C N A w seed did_method_name =
     in_transaction A w (\<lambda>tx.
       and_thenw (askar_insert_key K L A tx Alg_Ed25519 (seed_from_opt N seed)) (\<lambda>(_, local_key) tx.
       and_thenw (pure_w (local_key_to_public_key K L local_key) tx) (\<lambda>verkey tx.
       and_thenw (pure_w (nym_of_verkey K verkey) tx) (\<lambda>nym tx.
       and_thenw (insert_did C A tx nym (show_category Rc_Did) verkey None) (\<lambda>_ tx.
       (Ok \<lparr>dd_did = nym, dd_verkey = verkey\<rparr>, tx))))))"

definition askar_key_for_did :: "askar_codec \<Rightarrow> ('s, 'k) askar \<Rightarrow> 's \<Rightarrow> string \<Rightarrow> Key wallet_res" where
  "askar_key_for_did C A w did =
     and_then (askar (ak_session A w)) (\<lambda>_.
     and_then (find_current_did C A w did) (\<lambda>data.
     ok_or data (not_found Rc_Did did)))"

definition askar_replace_did_key_start ::
  "key_ext \<Rightarrow> 'k kms \<Rightarrow> askar_codec \<Rightarrow> 'k randomness \<Rightarrow> ('s, 'k) askar \<Rightarrow> 's \<Rightarrow> string \<Rightarrow> string option \<Rightarrow>
   Key wallet_res \<times> 's" where
  "askar_replace_did_key_start K L C N A w did seed =
     in_transaction A w (\<lambda>tx.
       and_thenw (pure_w (find_current_did C A tx did) tx) (\<lambda>found tx.
       if found \<noteq> None then
         and_thenw (askar_insert_key K L A tx Alg_Ed25519 (seed_from_opt N seed)) (\<lambda>(_, local_key) tx.
         and_thenw (pure_w (local_key_to_public_key K L local_key) tx) (\<lambda>verkey tx.
         and_thenw (insert_did C A tx did (show_category Rc_TmpDid) verkey None) (\<lambda>_ tx.
         (Ok verkey, tx))))
       else (Err (not_found Rc_Did did), tx)))"

definition askar_replace_did_key_apply ::
  "key_ext \<Rightarrow> askar_codec \<Rightarrow> ('s, 'k) askar \<Rightarrow> 's \<Rightarrow> string \<Rightarrow> unit wallet_res \<times> 's" where
  "askar_replace_did_key_apply K C A w did =
     in_transaction A w (\<lambda>tx.
       and_thenw (pure_w (find_did C A tx did Rc_TmpDid) tx) (\<lambda>found tx.
       case found of
         Some did_value \<Rightarrow>
           and_thenw (askar_w (ak_remove A tx (show_category Rc_TmpDid) did)) (\<lambda>_ tx.
           and_thenw (askar_w (ak_remove_key A tx (key_base58 K did_value))) (\<lambda>_ tx.
           update_did C A tx did (show_category Rc_Did) did_value None))
       | None \<Rightarrow> (Err (not_found Rc_TmpDid did), tx)))"

definition askar_sign ::
  "key_ext \<Rightarrow> 'k kms \<Rightarrow> ('s, 'k) askar \<Rightarrow> 's \<Rightarrow> Key \<Rightarrow> string \<Rightarrow> string wallet_res" where
  "askar_sign K L A w key msg =
     and_then (askar (ak_session A w)) (\<lambda>_.
     and_then (askar (ak_fetch_key A w (key_base58 K key))) (\<lambda>found.
     case found of
       None \<Rightarrow> Err (not_found Rc_Key (key_base58 K key))
     | Some entry \<Rightarrow>
         and_then (askar (ke_load_local_key entry)) (\<lambda>local_key.
         and_then (try_from_key_alg L (lk_algorithm L local_key)) (\<lambda>key_alg.
         askar (lk_sign_message L local_key msg (Some (sig_type_str key_alg)))))))"

definition askar_verify :: "'k kms \<Rightarrow> Key \<Rightarrow> string \<Rightarrow> string \<Rightarrow> bool wallet_res" where
  "askar_verify L key msg signature =
     and_then (public_key_to_local_key L key) (\<lambda>local_key.
     and_then (try_from_key_alg L (lk_algorithm L local_key)) (\<lambda>sig_alg.
     askar (lk_verify_signature L local_key msg signature (Some (sig_type_str sig_alg)))))"

section \<open>Packing\<close>

definition check_supported_key_alg :: "'k kms \<Rightarrow> 'k \<Rightarrow> unit wallet_res" where
  "check_supported_key_alg L key =
     (if lk_algorithm L key \<noteq> Alg_Ed25519
      then Err (We_InvalidInput (''Unsupported key algorithm, expected one of: '' @ lk_show_alg L Alg_Ed25519))
      else Ok ())"

definition encode_protected_data :: "askar_codec \<Rightarrow> Recipient list \<Rightarrow> JweAlg \<Rightarrow> string wallet_res" where
  "encode_protected_data C encrypted_recipients jwe_alg =
     Ok (aw_b64_encode C (aw_ser_protected C \<lparr>pd_enc = XChaCha20Poly1305, pd_typ = Jwm, pd_alg = jwe_alg,
       pd_recipients = encrypted_recipients\<rparr>))"

definition pack_authcrypt_recipient ::
  "key_ext \<Rightarrow> 'k kms \<Rightarrow> askar_codec \<Rightarrow> 'k randomness \<Rightarrow> 'k \<Rightarrow> 'k \<Rightarrow> 'k \<Rightarrow> nat \<Rightarrow> Key \<Rightarrow> Recipient wallet_res" where
  "pack_authcrypt_recipient K L C N enc_key sender_local_key sender_converted_key i recipient_key =
     and_then (askar (lk_from_public_bytes L Alg_Ed25519 (ky_bytes recipient_key))) (\<lambda>recipient_public_key.
     and_then (askar (rn_box_nonce N i)) (\<lambda>nonce.
     and_then (ed25519_to_x25519 L recipient_public_key) (\<lambda>recipient_converted_key.
     and_then (askar (lk_to_secret_bytes L enc_key)) (\<lambda>secret.
     and_then (askar (lk_crypto_box L recipient_converted_key sender_converted_key secret nonce)) (\<lambda>enc_cek.
     and_then (askar (lk_to_public_bytes L sender_local_key)) (\<lambda>sender_ed25519_pk.
     and_then (askar (lk_crypto_box_seal L recipient_converted_key (bytes_to_bs58 K sender_ed25519_pk)))
       (\<lambda>enc_sender.
     Ok (R_Authcrypt \<lparr>acr_encrypted_key = aw_b64_encode C enc_cek, acr_kid = key_base58 K recipient_key,
       acr_iv = aw_b64_encode C nonce, acr_sender = aw_b64_encode C enc_sender\<rparr>))))))))"

fun pack_authcrypt_loop ::
  "key_ext \<Rightarrow> 'k kms \<Rightarrow> askar_codec \<Rightarrow> 'k randomness \<Rightarrow> 'k \<Rightarrow> 'k \<Rightarrow> 'k \<Rightarrow> nat \<Rightarrow> Key list \<Rightarrow>
   Recipient list wallet_res" where
  "pack_authcrypt_loop K L C N ek s sx i [] = Ok []"
| "pack_authcrypt_loop K L C N ek s sx i (recipient_key # keys) =
     and_then (pack_authcrypt_recipient K L C N ek s sx i recipient_key) (\<lambda>r.
     map_ok ((#) r) (pack_authcrypt_loop K L C N ek s sx (Suc i) keys))"

definition pack_authcrypt_recipients ::
  "key_ext \<Rightarrow> 'k kms \<Rightarrow> askar_codec \<Rightarrow> 'k randomness \<Rightarrow> 'k \<Rightarrow> Key list \<Rightarrow> 'k \<Rightarrow> Recipient list wallet_res" where
  "pack_authcrypt_recipients K L C N enc_key recips sender_local_key =
     and_then (ed25519_to_x25519 L sender_local_key) (\<lambda>sender_converted_key.
     pack_authcrypt_loop K L C N enc_key sender_local_key sender_converted_key 0 recips)"

definition pack_anoncrypt_recipient ::
  "key_ext \<Rightarrow> 'k kms \<Rightarrow> askar_codec \<Rightarrow> string \<Rightarrow> Key \<Rightarrow> Recipient wallet_res" where
  "pack_anoncrypt_recipient K L C enc_key_secret recipient_key =
     and_then (bs58_to_bytes K (key_base58 K recipient_key)) (\<lambda>recipient_pubkey.
     and_then (askar (lk_from_public_bytes L Alg_Ed25519 recipient_pubkey)) (\<lambda>recipient_local_key.
     and_then (ed25519_to_x25519 L recipient_local_key) (\<lambda>converted.
     and_then (askar (lk_crypto_box_seal L converted enc_key_secret)) (\<lambda>enc_cek.
     Ok (R_Anoncrypt \<lparr>anr_encrypted_key = aw_b64_encode C enc_cek,
       anr_kid = bytes_to_bs58 K recipient_pubkey\<rparr>)))))"

definition pack_anoncrypt_recipients ::
  "key_ext \<Rightarrow> 'k kms \<Rightarrow> askar_codec \<Rightarrow> 'k \<Rightarrow> Key list \<Rightarrow> Recipient list wallet_res" where
  "pack_anoncrypt_recipients K L C enc_key recips =
     and_then (askar (lk_to_secret_bytes L enc_key)) (\<lambda>enc_key_secret.
     try_map (pack_anoncrypt_recipient K L C enc_key_secret) recips)"

definition pack_authcrypt ::
  "key_ext \<Rightarrow> 'k kms \<Rightarrow> askar_codec \<Rightarrow> 'k randomness \<Rightarrow> 'k \<Rightarrow> Key list \<Rightarrow> 'k \<Rightarrow> string wallet_res" where
  "pack_authcrypt K L C N self recips sender_local_key =
     and_then (check_supported_key_alg L sender_local_key) (\<lambda>_.
     and_then (pack_authcrypt_recipients K L C N self recips sender_local_key) (\<lambda>rs.
     encode_protected_data C rs Authcrypt))"

definition pack_anoncrypt ::
  "key_ext \<Rightarrow> 'k kms \<Rightarrow> askar_codec \<Rightarrow> 'k \<Rightarrow> Key list \<Rightarrow> string wallet_res" where
  "pack_anoncrypt K L C self recips =
     and_then (pack_anoncrypt_recipients K L C self recips) (\<lambda>encrypted_recipients.
     encode_protected_data C encrypted_recipients Anoncrypt)"

definition pack_all ::
  "'k kms \<Rightarrow> askar_codec \<Rightarrow> 'k randomness \<Rightarrow> 'k \<Rightarrow> string \<Rightarrow> string \<Rightarrow> string wallet_res" where
  "pack_all L C N self base64_data msg =
     and_then (askar (rn_aead_nonce N)) (\<lambda>nonce.
     and_then (askar (lk_aead_encrypt L self msg nonce base64_data)) (\<lambda>enc.
     Ok (aw_ser_jwe C \<lparr>jwe_protected = base64_data, jwe_iv = aw_b64_encode C (eb_nonce enc),
       jwe_ciphertext = aw_b64_encode C (eb_ciphertext enc), jwe_tag = aw_b64_encode C (eb_tag enc)\<rparr>)))"

definition askar_pack_message ::
  "key_ext \<Rightarrow> 'k kms \<Rightarrow> askar_codec \<Rightarrow> 'k randomness \<Rightarrow> ('s, 'k) askar \<Rightarrow> 's \<Rightarrow> Key option \<Rightarrow> Key list \<Rightarrow>
   string \<Rightarrow> string wallet_res" where
  "askar_pack_message K L C N A w sender_vk recips msg =
     (if recips = []
      then Err (We_InvalidInput (''recipient keys should not be empty for 'pack_message'' @ [CHR 0x27]))
      else and_then (askar (rn_key N)) (\<lambda>enc_key.
        and_then (case sender_vk of
            Some sender_verkey \<Rightarrow>
              and_then (askar (ak_session A w)) (\<lambda>_.
              and_then (fetch_local_key A w (key_base58 K sender_verkey)) (\<lambda>my_key.
              pack_authcrypt K L C N enc_key recips my_key))
          | None \<Rightarrow> pack_anoncrypt K L C enc_key recips) (\<lambda>base64_data.
        pack_all L C N enc_key base64_data msg)))"

section \<open>Unpacking\<close>

definition b64_decode :: "askar_codec \<Rightarrow> string \<Rightarrow> string wallet_res" where
  "b64_decode C s = map_err We_NotBase64 (aw_b64_decode C s)"

fun unwrap_kid :: "Recipient \<Rightarrow> string" where
  "unwrap_kid (R_Anoncrypt inner) = anr_kid inner"
| "unwrap_kid (R_Authcrypt inner) = acr_kid inner"

definition unpack_protected_data :: "askar_codec \<Rightarrow> Jwe \<Rightarrow> ProtectedData wallet_res" where
  "unpack_protected_data C jwe =
     and_then (b64_decode C (jwe_protected jwe)) (\<lambda>bytes.
     and_then (bytes_to_string bytes) (\<lambda>text.
     map_err We_InvalidJson (aw_de_protected C text)))"

fun find_recipient_key ::
  "('s, 'k) askar \<Rightarrow> 's \<Rightarrow> Recipient list \<Rightarrow> (Recipient \<times> 'k KeyEntry) wallet_res" where
  "find_recipient_key A w [] = Err We_NoRecipientKeyFound"
| "find_recipient_key A w (recipient # rs) =
     and_then (askar (ak_fetch_key A w (unwrap_kid recipient))) (\<lambda>found.
     case found of
       Some key_entry \<Rightarrow> Ok (recipient, key_entry)
     | None \<Rightarrow> find_recipient_key A w rs)"

definition unpack_authcrypt ::
  "key_ext \<Rightarrow> 'k kms \<Rightarrow> askar_codec \<Rightarrow> 'k \<Rightarrow> AuthcryptRecipient \<Rightarrow> ('k \<times> Key option) wallet_res" where
  "unpack_authcrypt K L C local_key recipient =
     and_then (ed25519_to_x25519 L local_key) (\<lambda>recipient_x25519_key.
     and_then (b64_decode C (acr_sender recipient)) (\<lambda>encrypted_sender_vk.
     and_then (askar (lk_crypto_box_seal_open L recipient_x25519_key encrypted_sender_vk)) (\<lambda>sender58.
     and_then (bs58_to_bytes K sender58) (\<lambda>sender_vk.
     and_then (askar (lk_from_public_bytes L Alg_Ed25519 sender_vk)) (\<lambda>sender_key.
     and_then (ed25519_to_x25519 L sender_key) (\<lambda>sender_x25519_key.
     and_then (b64_decode C (acr_encrypted_key recipient)) (\<lambda>enc_key.
     and_then (b64_decode C (acr_iv recipient)) (\<lambda>iv.
     and_then (askar (lk_crypto_box_open L recipient_x25519_key sender_x25519_key enc_key iv)) (\<lambda>secret.
     and_then (askar (lk_from_secret_bytes L Alg_Chacha20_C20P secret)) (\<lambda>shared_enc_key.
     and_then (wallet_pk (Key_new K sender_vk Ed25519)) (\<lambda>sender_ed25519_pk.
     Ok (shared_enc_key, Some sender_ed25519_pk))))))))))))"

definition unpack_anoncrypt ::
  "'k kms \<Rightarrow> askar_codec \<Rightarrow> 'k \<Rightarrow> AnoncryptRecipient \<Rightarrow> ('k \<times> Key option) wallet_res" where
  "unpack_anoncrypt L C local_key recipient =
     and_then (ed25519_to_x25519 L local_key) (\<lambda>recipient_key.
     and_then (b64_decode C (anr_encrypted_key recipient)) (\<lambda>enc_key.
     and_then (askar (lk_crypto_box_seal_open L recipient_key enc_key)) (\<lambda>key.
     and_then (askar (lk_from_secret_bytes L Alg_Chacha20_C20P key)) (\<lambda>shared_enc_key.
     Ok (shared_enc_key, None)))))"

fun unpack_recipient ::
  "key_ext \<Rightarrow> 'k kms \<Rightarrow> askar_codec \<Rightarrow> Recipient \<Rightarrow> 'k \<Rightarrow> ('k \<times> Key option) wallet_res" where
  "unpack_recipient K L C (R_Authcrypt auth_recipient) local_key = unpack_authcrypt K L C local_key auth_recipient"
| "unpack_recipient K L C (R_Anoncrypt anon_recipient) local_key = unpack_anoncrypt L C local_key anon_recipient"

definition unpack_msg :: "'k kms \<Rightarrow> askar_codec \<Rightarrow> Jwe \<Rightarrow> 'k \<Rightarrow> string wallet_res" where
  "unpack_msg L C jwe enc_key =
     and_then (b64_decode C (jwe_ciphertext jwe)) (\<lambda>ciphertext.
     and_then (b64_decode C (jwe_tag jwe)) (\<lambda>tag.
     and_then (b64_decode C (jwe_iv jwe)) (\<lambda>iv.
     and_then (askar (lk_aead_decrypt L enc_key ciphertext tag iv (jwe_protected jwe))) (\<lambda>plain.
     bytes_to_string plain))))"

definition local_key_unpack ::
  "key_ext \<Rightarrow> 'k kms \<Rightarrow> askar_codec \<Rightarrow> 'k \<Rightarrow> Recipient \<Rightarrow> Jwe \<Rightarrow> UnpackMessageOutput wallet_res" where
  "local_key_unpack K L C self recipient jwe =
     and_then (unpack_recipient K L C recipient self) (\<lambda>(enc_key, sender_verkey).
     and_then (unpack_msg L C jwe enc_key) (\<lambda>message.
     Ok \<lparr>um_message = message, um_recipient_verkey = unwrap_kid recipient,
       um_sender_verkey = map_option (key_base58 K) sender_verkey\<rparr>))"

definition askar_unpack ::
  "key_ext \<Rightarrow> 'k kms \<Rightarrow> askar_codec \<Rightarrow> ('s, 'k) askar \<Rightarrow> 's \<Rightarrow> Jwe \<Rightarrow> UnpackMessageOutput wallet_res" where
  "askar_unpack K L C A w jwe =
     and_then (unpack_protected_data C jwe) (\<lambda>protected_data.
     and_then (find_recipient_key A w (pd_recipients protected_data)) (\<lambda>(recipient, key_entry).
     and_then (askar (ke_load_local_key key_entry)) (\<lambda>local_key.
     local_key_unpack K L C local_key recipient jwe)))"

definition askar_unpack_message ::
  "key_ext \<Rightarrow> 'k kms \<Rightarrow> askar_codec \<Rightarrow> ('s, 'k) askar \<Rightarrow> 's \<Rightarrow> string \<Rightarrow> UnpackMessageOutput wallet_res" where
  "askar_unpack_message K L C A w msg =
     and_then (map_err We_InvalidJson (aw_de_jwe C msg)) (\<lambda>jwe.
     and_then (askar (ak_session A w)) (\<lambda>_.
     askar_unpack K L C A w jwe))"

definition askar_wallet ::
  "key_ext \<Rightarrow> 'k kms \<Rightarrow> askar_codec \<Rightarrow> 'k randomness \<Rightarrow> ('s, 'k) askar \<Rightarrow> 's wallet" where
  "askar_wallet K L C N A = \<lparr>
     wl_create_and_store_my_did = askar_create_and_store_my_did K L C N A,
     wl_key_for_did = askar_key_for_did C A,
     wl_replace_did_key_start = askar_replace_did_key_start K L C N A,
     wl_replace_did_key_apply = askar_replace_did_key_apply K C A,
     wl_sign = askar_sign K L A, wl_verify = (\<lambda>w. askar_verify L),
     wl_pack_message = askar_pack_message K L C N A,
     wl_unpack_message = askar_unpack_message K L C A\<rparr>"

section \<open>What the crate promises\<close>

text \<open>
  A store is a map from category and name to bytes, and one from names to keys; an operation that
  fails changes neither. What is fetched is what is held. Nothing is assumed here about an
  operation succeeding; \<open>available\<close> adds that reading does.
\<close>

definition insert_law where
  "insert_law A ev kv \<longleftrightarrow> (\<forall>w c n v t x w'. ak_insert A w c n v t = (x, w') \<longrightarrow> kv w' = kv w \<and>
     (if x = Ok () then ev w (c, n) = None \<and> ev w' = (ev w)((c, n) \<mapsto> v) else ev w' = ev w))"

definition replace_law where
  "replace_law A ev kv \<longleftrightarrow> (\<forall>w c n v t x w'. ak_replace A w c n v t = (x, w') \<longrightarrow> kv w' = kv w \<and>
     (if x = Ok () then ev w (c, n) \<noteq> None \<and> ev w' = (ev w)((c, n) \<mapsto> v) else ev w' = ev w))"

definition remove_law where
  "remove_law A ev kv \<longleftrightarrow> (\<forall>w c n x w'. ak_remove A w c n = (x, w') \<longrightarrow> kv w' = kv w \<and>
     ev w' = (if x = Ok () then (ev w)((c, n) := None) else ev w))"

definition fetch_law where
  "fetch_law A ev \<longleftrightarrow> (\<forall>w c n b r. ak_fetch A w c n b = Ok r \<longrightarrow> map_option en_value r = ev w (c, n) \<and>
     (\<forall>e. r = Some e \<longrightarrow> en_category e = c \<and> en_name e = n))"

definition insert_key_law where
  "insert_key_law A ev kv \<longleftrightarrow> (\<forall>w n k t x w'. ak_insert_key A w n k t = (x, w') \<longrightarrow> ev w' = ev w \<and>
     (if x = Ok () then kv w n = None \<and> kv w' = (kv w)(n \<mapsto> k) else kv w' = kv w))"

definition remove_key_law where
  "remove_key_law A ev kv \<longleftrightarrow> (\<forall>w n x w'. ak_remove_key A w n = (x, w') \<longrightarrow> ev w' = ev w \<and>
     kv w' = (if x = Ok () then (kv w)(n := None) else kv w))"

definition fetch_key_law where
  "fetch_key_law A kv \<longleftrightarrow> (\<forall>w n r. ak_fetch_key A w n = Ok r \<longrightarrow>
     (r = None \<longleftrightarrow> kv w n = None) \<and> (\<forall>e k. r = Some e \<longrightarrow> ke_load_local_key e = Ok k \<longrightarrow> kv w n = Some k))"

definition askar_store ::
  "('s, 'k) askar \<Rightarrow> ('s \<Rightarrow> string \<times> string \<rightharpoonup> string) \<Rightarrow> ('s \<Rightarrow> string \<rightharpoonup> 'k) \<Rightarrow> bool" where
  "askar_store A ev kv \<longleftrightarrow> insert_law A ev kv \<and> replace_law A ev kv \<and> remove_law A ev kv \<and> fetch_law A ev
     \<and> insert_key_law A ev kv \<and> remove_key_law A ev kv \<and> fetch_key_law A kv"

definition available :: "('s, 'k) askar \<Rightarrow> bool" where
  "available A \<longleftrightarrow> (\<forall>w. ak_session A w = Ok ()) \<and> (\<forall>w c n b. \<exists>r. ak_fetch A w c n b = Ok r) \<and>
     (\<forall>w n. \<exists>r. ak_fetch_key A w n = Ok r \<and> (\<forall>e. r = Some e \<longrightarrow> (\<exists>k. ke_load_local_key e = Ok k)))"

lemmas askar_store_laws = askar_store_def insert_law_def replace_law_def remove_law_def fetch_law_def
  insert_key_law_def remove_key_law_def fetch_key_law_def

lemma store_insert:
  "askar_store A ev kv \<Longrightarrow> ak_insert A w c n v t = (x, w') \<Longrightarrow> kv w' = kv w \<and>
    (x = Ok () \<and> ev w (c, n) = None \<and> ev w' = (ev w)((c, n) \<mapsto> v) \<or> x \<noteq> Ok () \<and> ev w' = ev w)"
  unfolding askar_store_def insert_law_def by (cases "x = Ok ()") (simp, metis+)

lemma store_replace:
  "askar_store A ev kv \<Longrightarrow> ak_replace A w c n v t = (x, w') \<Longrightarrow> kv w' = kv w \<and>
    (x = Ok () \<and> ev w (c, n) \<noteq> None \<and> ev w' = (ev w)((c, n) \<mapsto> v) \<or> x \<noteq> Ok () \<and> ev w' = ev w)"
  unfolding askar_store_def replace_law_def by (cases "x = Ok ()") (simp, metis+)

lemma store_remove:
  "askar_store A ev kv \<Longrightarrow> ak_remove A w c n = (x, w') \<Longrightarrow> kv w' = kv w \<and>
    (x = Ok () \<and> ev w' = (ev w)((c, n) := None) \<or> x \<noteq> Ok () \<and> ev w' = ev w)"
  unfolding askar_store_def remove_law_def by (cases "x = Ok ()") (simp, metis+)

lemma store_fetch:
  "askar_store A ev kv \<Longrightarrow> ak_fetch A w c n b = Ok r \<Longrightarrow> map_option en_value r = ev w (c, n)"
  unfolding askar_store_def fetch_law_def by metis

lemma store_insert_key:
  "askar_store A ev kv \<Longrightarrow> ak_insert_key A w n k t = (x, w') \<Longrightarrow> ev w' = ev w \<and>
    (x = Ok () \<and> kv w n = None \<and> kv w' = (kv w)(n \<mapsto> k) \<or> x \<noteq> Ok () \<and> kv w' = kv w)"
  unfolding askar_store_def insert_key_law_def by (cases "x = Ok ()") (simp, metis+)

lemma store_remove_key:
  "askar_store A ev kv \<Longrightarrow> ak_remove_key A w n = (x, w') \<Longrightarrow> ev w' = ev w \<and>
    (x = Ok () \<and> kv w' = (kv w)(n := None) \<or> x \<noteq> Ok () \<and> kv w' = kv w)"
  unfolding askar_store_def remove_key_law_def by (cases "x = Ok ()") (simp, metis+)

lemma store_fetch_key:
  "askar_store A ev kv \<Longrightarrow> ak_fetch_key A w n = Ok r \<Longrightarrow>
    (r = None \<longleftrightarrow> kv w n = None) \<and> (\<forall>e k. r = Some e \<longrightarrow> ke_load_local_key e = Ok k \<longrightarrow> kv w n = Some k)"
  unfolding askar_store_def fetch_key_law_def by metis

section \<open>The record interface keeps its contract\<close>

definition askar_view :: "('s \<Rightarrow> string \<times> string \<rightharpoonup> string) \<Rightarrow> 's \<Rightarrow> store" where
  "askar_view ev w = (\<lambda>(c, n). ev w (show_category c, n))"

lemma askar_view_upd:
  "ev w' = (ev w)((show_category c, n) := v) \<Longrightarrow> askar_view ev w' = (askar_view ev w)((c, n) := v)"
  by (auto simp: askar_view_def fun_eq_iff)

lemma askar_view_same: "ev w' = ev w \<Longrightarrow> askar_view ev w' = askar_view ev w"
  by (simp add: askar_view_def)

lemma askar_view_apply [simp]: "askar_view ev w (c, n) = ev w (show_category c, n)"
  by (simp add: askar_view_def)

lemma askar_fetch_Ok:
  assumes "askar_store A ev kv" and "askar_fetch A w c n b = Ok e"
  shows "ev w (show_category c, n) = Some (en_value e) \<and> en_category e = show_category c \<and> en_name e = n"
proof -
  from assms(2) have "ak_fetch A w (show_category c) n b = Ok (Some e)" by (auto simp: askar_fetch_def)
  moreover have "fetch_law A ev" using assms(1) by (simp add: askar_store_def)
  ultimately show ?thesis unfolding fetch_law_def by (metis option.simps(9))
qed

lemma askar_w_cases: "askar_w r = (x, w') \<Longrightarrow> \<exists>y. r = (y, w') \<and> (x = Ok () \<longleftrightarrow> y = Ok ())"
  by (cases r; cases "fst r") (auto simp: askar_w_def)

lemma askar_add_law:
  assumes "askar_store A ev kv"
  shows "add_law (askar_records K L ser A) (askar_view ev)"
  unfolding add_law_def askar_records_def record_wallet.simps askar_add_record_def
  by (auto split: result.splits if_splits dest!: askar_w_cases store_insert [OF assms]
      intro!: askar_view_upd askar_view_same)

lemma askar_get_law:
  assumes "askar_store A ev kv"
  shows "get_law (askar_records K L ser A) (askar_view ev)"
  unfolding get_law_def askar_records_def record_wallet.simps askar_get_record_def
  by (auto simp: record_of_entry_def bytes_to_string_def from_utf8_def category_from_str_Ok
      dest!: askar_fetch_Ok [OF assms] split: option.splits if_splits)

lemma askar_update_value_law:
  assumes "askar_store A ev kv"
  shows "update_value_law (askar_records K L ser A) (askar_view ev)"
  unfolding update_value_law_def askar_records_def record_wallet.simps askar_update_record_value_def
  by (auto split: result.splits if_splits dest!: askar_w_cases store_replace [OF assms]
      intro!: askar_view_upd askar_view_same)

lemma askar_delete_law:
  assumes "askar_store A ev kv"
  shows "delete_law (askar_records K L ser A) (askar_view ev)"
  unfolding delete_law_def askar_records_def record_wallet.simps askar_delete_record_def
  by (auto split: result.splits if_splits dest!: askar_w_cases store_remove [OF assms]
      intro!: askar_view_upd askar_view_same)

lemma askar_update_tags_view:
  assumes "askar_store A ev kv" and "askar_update_record_tags A w c n t = (x, w')"
  shows "askar_view ev w' = askar_view ev w"
proof (cases "askar_fetch A w c n True")
  case (Ok e)
  have e: "ev w (show_category c, n) = Some (en_value e)" using askar_fetch_Ok [OF assms(1) Ok] by simp
  from assms(2) Ok have "w' = w \<or> (\<exists>y. ak_replace A w (show_category c) n (en_value e)
      (Some (entries_of_tags t)) = (y, w'))"
    by (auto simp: askar_update_record_tags_def split: result.splits dest!: askar_w_cases)
  then have "ev w' = ev w" using store_replace [OF assms(1)] e by (metis fun_upd_triv)
  then show ?thesis by (rule askar_view_same)
qed (use assms(2) in \<open>auto simp: askar_update_record_tags_def split: result.splits\<close>)

lemma askar_create_key_view:
  assumes "askar_store A ev kv" and "askar_create_key K L A w n v t = (x, w')"
  shows "askar_view ev w' = askar_view ev w"
proof -
  have "w' = w \<or> (\<exists>k y. ak_insert_key A w n k (Some (entries_of_tags t)) = (y, w'))"
    using assms(2) unfolding askar_create_key_def
    by (auto split: result.splits if_splits dest!: askar_w_cases)
  then have "ev w' = ev w" by (auto dest: store_insert_key [OF assms(1)])
  then show ?thesis by (rule askar_view_same)
qed

text \<open>
  C18. The record operations of the Askar wallet keep the contract of the record interface, and
  making a key leaves the records alone, whenever the store underneath is a map.
\<close>

theorem askar_keeps_contract:
  assumes "askar_store A ev kv"
  shows "record_store (askar_records K L ser A) (askar_view ev) \<and> keys_apart (askar_records K L ser A) (askar_view ev)"
proof
  have "askar_view ev (snd (askar_update_record_tags A w c n t)) = askar_view ev w" for w c n t
    by (rule askar_update_tags_view [OF assms prod.collapse [symmetric]])
  then have "update_tags_law (askar_records K L ser A) (askar_view ev)"
    by (simp add: update_tags_law_def askar_records_def)
  then show "record_store (askar_records K L ser A) (askar_view ev)"
    unfolding record_store_def
    using askar_add_law [OF assms] askar_get_law [OF assms] askar_update_value_law [OF assms]
      askar_delete_law [OF assms] by blast
  have "askar_view ev (snd (askar_create_key K L A w n v t)) = askar_view ev w" for w n v t
    by (rule askar_create_key_view [OF assms prod.collapse [symmetric]])
  then show "keys_apart (askar_records K L ser A) (askar_view ev)"
    by (simp add: keys_apart_def askar_records_def)
qed

section \<open>The keys of a DID\<close>

definition codec_laws :: "askar_codec \<Rightarrow> bool" where
  "codec_laws C \<longleftrightarrow> (\<forall>s. aw_b64_decode C (aw_b64_encode C s) = Ok s) \<and>
     (\<forall>k. utf8_valid (aw_ser_did_value C k) \<and> aw_de_did_value C (aw_ser_did_value C k) = Ok (Some k)) \<and>
     (\<forall>p. utf8_valid (aw_ser_protected C p) \<and> aw_de_protected C (aw_ser_protected C p) = Ok p) \<and>
     (\<forall>j. aw_de_jwe C (aw_ser_jwe C j) = Ok j)"

lemma in_transaction_Ok:
  "in_transaction A w f = (Ok x, w') \<longleftrightarrow>
    ak_transaction A w = Ok () \<and> f w = (Ok x, w') \<and> ak_commit A w' = Ok ()"
proof (cases "f w")
  case (Pair r tx)
  then show ?thesis by (cases r) (auto simp: in_transaction_def split: result.splits)
qed

text \<open>A function that works in a transaction and fails leaves the store as it was.\<close>

lemma in_transaction_atomic:
  assumes "in_transaction A w f = (r, w')" and "\<And>x. r \<noteq> Ok x"
  shows "w' = w"
proof (cases "f w")
  case (Pair q tx)
  with assms show ?thesis by (cases q) (auto simp: in_transaction_def split: result.splits)
qed

lemma askar_insert_key_Ok:
  assumes "askar_store A ev kv" and "askar_insert_key K L A w alg seed = (Ok (n, k), w')"
  shows "lk_from_secret_bytes L alg seed = Ok k \<and> (\<exists>b. lk_to_public_bytes L k = Ok b \<and> n = kx_b58_encode K b) \<and>
    kv w' = (kv w)(n \<mapsto> k) \<and> ev w' = ev w"
proof -
  from assms(2) have "lk_from_secret_bytes L alg seed = Ok k" "ak_insert_key A w n k None = (Ok (), w')"
    "\<exists>b. lk_to_public_bytes L k = Ok b \<and> n = kx_b58_encode K b"
    by (auto simp: askar_insert_key_def and_thenw_Ok local_key_to_bs58_public_key_def bytes_to_bs58_def
        split: result.splits)
  with store_insert_key [OF assms(1)] show ?thesis by blast
qed

lemma insert_did_Ok:
  assumes "askar_store A ev kv" and "insert_did C A w did category vk t = (Ok (), w')"
  shows "kv w' = kv w \<and> ev w' = (ev w)((category, did) \<mapsto> aw_ser_did_value C vk)"
proof -
  from assms(2) have "ak_insert A w category did (aw_ser_did_value C vk) t = (Ok (), w')"
    by (auto simp: insert_did_def split: result.splits if_splits)
  from store_insert [OF assms(1) this] show ?thesis by simp
qed

text \<open>Whether the DID is already there is looked up under the wrong category and name.\<close>

lemma insert_did_checks_swapped:
  assumes "ak_fetch A w did category False = Ok None"
  shows "insert_did C A w did category vk t = askar_w (ak_insert A w category did (aw_ser_did_value C vk) t)"
  using assms by (simp add: insert_did_def)

lemma find_did_Ok:
  assumes "askar_store A ev kv" and "find_did C A w did category = Ok (Some k)"
  shows "\<exists>v. ev w (show_category category, did) = Some v \<and> aw_de_did_value C v = Ok (Some k)"
proof -
  from assms(2) obtain e where e: "askar_fetch A w category did False = Ok e"
    and "aw_de_did_value C (en_value e) = Ok (Some k)"
    by (auto simp: find_did_def from_utf8_def split: option.splits if_splits)
  with askar_fetch_Ok [OF assms(1) e] show ?thesis by blast
qed

lemma available_fetch:
  assumes "askar_store A ev kv" and "available A" and "ev w (show_category category, did) = Some v"
  shows "\<exists>e. askar_fetch A w category did b = Ok e \<and> en_value e = v"
proof -
  from assms(2) obtain r where r: "ak_fetch A w (show_category category) did b = Ok r"
    unfolding available_def by blast
  from store_fetch [OF assms(1) r] assms(3) obtain e where "r = Some e" "en_value e = v" by auto
  with r show ?thesis by (auto simp: askar_fetch_def)
qed

lemma find_did_available:
  assumes "askar_store A ev kv" and "available A" and "codec_laws C"
    and "ev w (show_category category, did) = Some (aw_ser_did_value C k)"
  shows "find_did C A w did category = Ok (Some k)"
proof -
  from available_fetch [OF assms(1,2,4)] obtain e where
    "askar_fetch A w category did False = Ok e" "en_value e = aw_ser_did_value C k" by blast
  with assms(3) show ?thesis by (simp add: find_did_def from_utf8_def codec_laws_def)
qed

lemma key_for_did_available:
  assumes "askar_store A ev kv" and "available A" and "codec_laws C"
    and "ev w (show_category Rc_Did, did) = Some (aw_ser_did_value C k)"
  shows "askar_key_for_did C A w did = Ok k"
  using find_did_available [OF assms] assms(2)
  by (simp add: askar_key_for_did_def find_current_did_def available_def)

lemma sign_available:
  assumes "askar_store A ev kv" and "available A" and "kv w (key_base58 K key) = Some k"
  shows "askar_sign K L A w key msg = and_then (try_from_key_alg L (lk_algorithm L k))
    (\<lambda>alg. askar (lk_sign_message L k msg (Some (sig_type_str alg))))"
proof -
  from assms(2) obtain r where r: "ak_fetch_key A w (key_base58 K key) = Ok r"
    and load: "\<forall>e. r = Some e \<longrightarrow> (\<exists>k. ke_load_local_key e = Ok k)"
    unfolding available_def by blast
  from store_fetch_key [OF assms(1) r] assms(3) load obtain e where
    "r = Some e" "ke_load_local_key e = Ok k" by fastforce
  with r assms(2) show ?thesis by (simp add: askar_sign_def available_def)
qed

lemma sign_without_key:
  assumes "askar_store A ev kv" and "available A" and "kv w (key_base58 K key) = None"
  shows "askar_sign K L A w key msg = Err (not_found Rc_Key (key_base58 K key))"
proof -
  from assms(2) obtain r where r: "ak_fetch_key A w (key_base58 K key) = Ok r"
    unfolding available_def by blast
  with store_fetch_key [OF assms(1) r] assms(3) have "r = None" by blast
  with r assms(2) show ?thesis by (simp add: askar_sign_def available_def)
qed

lemma replace_start_Ok:
  assumes "askar_store A ev kv" and "askar_replace_did_key_start K L C N A w did seed = (Ok k, w')"
  shows "ev w' (show_category Rc_TmpDid, did) = Some (aw_ser_did_value C k) \<and>
    ev w' (show_category Rc_Did, did) = ev w (show_category Rc_Did, did)"
proof -
  from assms(2) obtain n lk tx where
    key: "askar_insert_key K L A w Alg_Ed25519 (seed_from_opt N seed) = (Ok (n, lk), tx)"
    and ins: "insert_did C A tx did (show_category Rc_TmpDid) k None = (Ok (), w')"
    by (auto simp: askar_replace_did_key_start_def in_transaction_Ok and_thenw_Ok pure_w_def
        simp del: and_thenw_pure split: if_splits)
  from askar_insert_key_Ok [OF assms(1) key] insert_did_Ok [OF assms(1) ins] show ?thesis by simp
qed

lemma replace_apply_Ok:
  assumes "askar_store A ev kv" and "askar_replace_did_key_apply K C A w did = (Ok (), w')"
  shows "\<exists>k. find_did C A w did Rc_TmpDid = Ok (Some k) \<and> kv w' (key_base58 K k) = None \<and>
    ev w' (show_category Rc_Did, did) = Some (aw_ser_did_value C k)"
proof -
  from assms(2) obtain k t1 t2 where k: "find_did C A w did Rc_TmpDid = Ok (Some k)"
    and t1: "ak_remove A w (show_category Rc_TmpDid) did = (Ok (), t1)"
    and t2: "ak_remove_key A t1 (key_base58 K k) = (Ok (), t2)"
    and upd: "ak_replace A t2 (show_category Rc_Did) did (aw_ser_did_value C k) None = (Ok (), w')"
    by (auto simp: askar_replace_did_key_apply_def in_transaction_Ok and_thenw_Ok update_did_def
        split: result.splits option.splits)
  from store_remove_key [OF assms(1) t2] store_replace [OF assms(1) upd] k show ?thesis by auto
qed

lemma replaced_key_gone:
  assumes "askar_store A ev kv" and "available A" and "codec_laws C"
    and "askar_replace_did_key_start K L C N A w did seed = (Ok k, w1)"
    and "askar_replace_did_key_apply K C A w1 did = (Ok (), w2)"
  shows "askar_key_for_did C A w2 did = Ok k \<and>
    askar_sign K L A w2 k msg = Err (not_found Rc_Key (key_base58 K k))"
proof -
  from replace_apply_Ok [OF assms(1,5)] obtain k' where
    k': "find_did C A w1 did Rc_TmpDid = Ok (Some k')" "kv w2 (key_base58 K k') = None"
      "ev w2 (show_category Rc_Did, did) = Some (aw_ser_did_value C k')" by blast
  from replace_start_Ok [OF assms(1,4)] find_did_available [OF assms(1-3)] k'(1) have "k' = k"
    by (metis option.inject result.inject(1))
  with k' show ?thesis
    using key_for_did_available [OF assms(1-3)] sign_without_key [OF assms(1,2)] by blast
qed

text \<open>
  Replacing the key of a DID loses the new key: when both steps have succeeded the wallet names
  the new key as the key of the DID, but no longer holds it, so that nothing can be signed with it.
\<close>

theorem rotated_key_is_lost:
  assumes "askar_store A ev kv" and "available A" and "codec_laws C"
    and "askar_replace_did_key_start K L C N A w did seed = (Ok k, w1)"
    and "askar_replace_did_key_apply K C A w1 did = (Ok (), w2)"
  shows "askar_key_for_did C A w2 did = Ok k \<and>
    askar_sign K L A w2 k msg = Err (not_found Rc_Key (key_base58 K k))"
  by (rule replaced_key_gone [OF assms])

text \<open>
  The documented behaviour of the key objects: an Ed25519 key has 32 public bytes, the object made
  of a secret has the algorithm it was made for, and a signature is accepted by the object made of
  the public bytes. Reading a varint consumes something.
\<close>

definition key_laws :: "'k kms \<Rightarrow> bool" where
  "key_laws L \<longleftrightarrow>
     (\<forall>alg s k. lk_from_secret_bytes L alg s = Ok k \<longrightarrow> lk_algorithm L k = alg) \<and>
     (\<forall>alg s k. lk_from_public_bytes L alg s = Ok k \<longrightarrow> lk_algorithm L k = alg) \<and>
     (\<forall>k b. lk_algorithm L k = Alg_Ed25519 \<longrightarrow> lk_to_public_bytes L k = Ok b \<longrightarrow> length b = 32) \<and>
     (\<forall>k b m t s. lk_to_public_bytes L k = Ok b \<longrightarrow> lk_sign_message L k m t = Ok s \<longrightarrow>
       (\<exists>p. lk_from_public_bytes L (lk_algorithm L k) b = Ok p \<and> lk_verify_signature L p m s t = Ok True))"

lemma key_algorithm: "key_laws L \<Longrightarrow> lk_from_secret_bytes L alg s = Ok k \<Longrightarrow> lk_algorithm L k = alg"
  by (auto simp: key_laws_def)

lemma signature_verifies:
  assumes "key_laws L" and "lk_to_public_bytes L k = Ok b" and "lk_sign_message L k m t = Ok s"
  shows "\<exists>p. lk_from_public_bytes L (lk_algorithm L k) b = Ok p \<and> lk_algorithm L p = lk_algorithm L k \<and>
    lk_verify_signature L p m s t = Ok True"
proof -
  from assms obtain p where "lk_from_public_bytes L (lk_algorithm L k) b = Ok p"
    "lk_verify_signature L p m s t = Ok True"
    unfolding key_laws_def by blast
  moreover from this(1) assms(1) have "lk_algorithm L p = lk_algorithm L k" by (auto simp: key_laws_def)
  ultimately show ?thesis by blast
qed

definition varint_consumes :: "key_ext \<Rightarrow> bool" where
  "varint_consumes K \<longleftrightarrow> (\<forall>b c r. kx_varint_decode K b = Ok (c, r) \<longrightarrow> length r < length b)"

lemma full_length_key:
  assumes "varint_consumes K" and "Key_new K b Ed25519 = Ok k" and "length (ky_bytes k) = length b"
  shows "k = \<lparr>ky_type = Ed25519, ky_bytes = b\<rparr>"
  using assms
  by (auto simp: Key_new_def strip_multicodec_prefix_if_present_def varint_consumes_def
      split: result.splits if_splits) (metis less_irrefl)

lemma create_did_Ok:
  assumes "askar_store A ev kv" and "askar_create_and_store_my_did K L C N A w seed m = (Ok d, w')"
  shows "\<exists>k b. lk_from_secret_bytes L Alg_Ed25519 (seed_from_opt N seed) = Ok k \<and> lk_to_public_bytes L k = Ok b \<and>
    Key_new K b Ed25519 = Ok (dd_verkey d) \<and> length (ky_bytes (dd_verkey d)) = 32 \<and>
    dd_did d = kx_b58_encode K (take 16 (ky_bytes (dd_verkey d))) \<and>
    kv w' = (kv w)(kx_b58_encode K b \<mapsto> k) \<and>
    ev w' = (ev w)((show_category Rc_Did, dd_did d) \<mapsto> aw_ser_did_value C (dd_verkey d))"
proof -
  from assms(2) obtain n k tx where
    key: "askar_insert_key K L A w Alg_Ed25519 (seed_from_opt N seed) = (Ok (n, k), tx)"
    and verkey: "local_key_to_public_key K L k = Ok (dd_verkey d)"
    and nym: "nym_of_verkey K (dd_verkey d) = Ok (dd_did d)"
    and ins: "insert_did C A tx (dd_did d) (show_category Rc_Did) (dd_verkey d) None = (Ok (), w')"
    by (auto simp: askar_create_and_store_my_did_def in_transaction_Ok and_thenw_Ok pure_w_def
        simp del: and_thenw_pure)
  from verkey obtain b where "lk_to_public_bytes L k = Ok b" "Key_new K b Ed25519 = Ok (dd_verkey d)"
    by (auto simp: local_key_to_public_key_def wallet_pk_def)
  moreover from nym have "length (ky_bytes (dd_verkey d)) = 32"
    "dd_did d = kx_b58_encode K (take 16 (ky_bytes (dd_verkey d)))"
    by (auto simp: nym_of_verkey_def Let_def split: if_splits)
  ultimately show ?thesis
    using askar_insert_key_Ok [OF assms(1) key] insert_did_Ok [OF assms(1) ins] by auto
qed

text \<open>
  C19. A DID that was created can be used: the wallet names its key, signs with it, and everybody
  who has the key accepts the signature.
\<close>

theorem created_did_signs:
  assumes "askar_store A ev kv" and "available A" and "codec_laws C" and "key_laws L" and "varint_consumes K"
    and "askar_create_and_store_my_did K L C N A w seed m = (Ok d, w')"
  shows "askar_key_for_did C A w' (dd_did d) = Ok (dd_verkey d) \<and>
    (\<exists>k. \<forall>msg. askar_sign K L A w' (dd_verkey d) msg = askar (lk_sign_message L k msg (Some ''eddsa'')) \<and>
      (\<forall>s. lk_sign_message L k msg (Some ''eddsa'') = Ok s \<longrightarrow> askar_verify L (dd_verkey d) msg s = Ok True))"
proof -
  from create_did_Ok [OF assms(1,6)] obtain k b where
    k: "lk_from_secret_bytes L Alg_Ed25519 (seed_from_opt N seed) = Ok k" and
    b: "lk_to_public_bytes L k = Ok b" and new: "Key_new K b Ed25519 = Ok (dd_verkey d)" and
    len: "length (ky_bytes (dd_verkey d)) = 32" and kv: "kv w' = (kv w)(kx_b58_encode K b \<mapsto> k)" and
    ev: "ev w' = (ev w)((show_category Rc_Did, dd_did d) \<mapsto> aw_ser_did_value C (dd_verkey d))"
    by blast
  have alg: "lk_algorithm L k = Alg_Ed25519" by (rule key_algorithm [OF assms(4) k])
  with b assms(4) have "length b = 32" by (auto simp: key_laws_def)
  with full_length_key [OF assms(5) new] len have vk: "dd_verkey d = \<lparr>ky_type = Ed25519, ky_bytes = b\<rparr>" by simp
  with kv have "kv w' (key_base58 K (dd_verkey d)) = Some k" by (simp add: key_base58_def)
  from sign_available [OF assms(1,2) this] alg have
    sign: "askar_sign K L A w' (dd_verkey d) msg = askar (lk_sign_message L k msg (Some ''eddsa''))" for msg
    by (simp add: try_from_key_alg_def)
  have "askar_verify L (dd_verkey d) msg s = Ok True" if "lk_sign_message L k msg (Some ''eddsa'') = Ok s" for msg s
  proof -
    from signature_verifies [OF assms(4) b that] alg obtain p where
      "lk_from_public_bytes L Alg_Ed25519 b = Ok p" "lk_algorithm L p = Alg_Ed25519"
      "lk_verify_signature L p msg s (Some ''eddsa'') = Ok True" by auto
    with vk show ?thesis
      by (simp add: askar_verify_def public_key_to_local_key_def wallet_key_alg_def try_from_key_alg_def)
  qed
  moreover have "askar_key_for_did C A w' (dd_did d) = Ok (dd_verkey d)"
    by (rule key_for_did_available [OF assms(1-3)]) (simp add: ev)
  ultimately show ?thesis using sign by blast
qed

section \<open>Packed messages are read by their recipients\<close>

text \<open>
  What the cryptography promises. A key object holds its secret half when it gives its secret bytes;
  the object made from public bytes alone does not. An Ed25519 key with its secret half has a public
  object, and both convert to X25519. A sealed text opens with the secret half of the key it was sealed
  for, a box with the secret half of its recipient and the public half of its sender. A content key
  is restored from its bytes and decrypts what it encrypted with the same associated data.
\<close>

definition has_secret :: "'k kms \<Rightarrow> 'k \<Rightarrow> bool" where
  "has_secret L k \<longleftrightarrow> (\<exists>e. lk_to_secret_bytes L k = Ok e)"

text \<open>The X25519 forms of the public object of \<open>b\<close> and of an object with the secret half.\<close>

definition halves :: "'k kms \<Rightarrow> string \<Rightarrow> 'k \<Rightarrow> 'k \<Rightarrow> bool" where
  "halves L b px kx \<longleftrightarrow> (\<exists>p k. lk_from_public_bytes L Alg_Ed25519 b = Ok p \<and> lk_convert_key L p Alg_X25519 = Ok px \<and>
     lk_algorithm L k = Alg_Ed25519 \<and> has_secret L k \<and> lk_to_public_bytes L k = Ok b \<and>
     lk_convert_key L k Alg_X25519 = Ok kx)"

definition crypto_laws :: "'k kms \<Rightarrow> bool" where
  "crypto_laws L \<longleftrightarrow>
     (\<forall>k b. lk_to_public_bytes L k = Ok b \<longrightarrow> lk_algorithm L k = Alg_Ed25519 \<longrightarrow> has_secret L k \<longrightarrow>
       (\<exists>p px kx. lk_from_public_bytes L Alg_Ed25519 b = Ok p \<and> lk_convert_key L p Alg_X25519 = Ok px \<and>
         lk_convert_key L k Alg_X25519 = Ok kx)) \<and>
     (\<forall>b px kx m c. halves L b px kx \<longrightarrow> lk_crypto_box_seal L px m = Ok c \<longrightarrow>
       lk_crypto_box_seal_open L kx c = Ok m) \<and>
     (\<forall>b px kx a qx sx m n c. halves L b px kx \<longrightarrow> halves L a qx sx \<longrightarrow> lk_crypto_box L px sx m n = Ok c \<longrightarrow>
       lk_crypto_box_open L kx qx c n = Ok m) \<and>
     (\<forall>k e m n a enc. lk_algorithm L k = Alg_Chacha20_C20P \<longrightarrow> lk_to_secret_bytes L k = Ok e \<longrightarrow>
       lk_aead_encrypt L k m n a = Ok enc \<longrightarrow>
       (\<exists>k'. lk_from_secret_bytes L Alg_Chacha20_C20P e = Ok k' \<and>
         lk_aead_decrypt L k' (eb_ciphertext enc) (eb_tag enc) (eb_nonce enc) a = Ok m))"

text \<open>The content keys are made for the algorithm they are asked for.\<close>

definition content_keys :: "'k kms \<Rightarrow> 'k randomness \<Rightarrow> bool" where
  "content_keys L N \<longleftrightarrow> (\<forall>k. rn_key N = Ok k \<longrightarrow> lk_algorithm L k = Alg_Chacha20_C20P)"

lemma key_converts:
  assumes "crypto_laws L" and "lk_to_public_bytes L k = Ok b" and "lk_algorithm L k = Alg_Ed25519" and "has_secret L k"
  shows "\<exists>p px kx. lk_from_public_bytes L Alg_Ed25519 b = Ok p \<and> lk_convert_key L p Alg_X25519 = Ok px \<and>
    lk_convert_key L k Alg_X25519 = Ok kx \<and> halves L b px kx"
proof -
  from assms obtain p px kx where "lk_from_public_bytes L Alg_Ed25519 b = Ok p"
    "lk_convert_key L p Alg_X25519 = Ok px" "lk_convert_key L k Alg_X25519 = Ok kx"
    unfolding crypto_laws_def by meson
  with assms(2-4) show ?thesis unfolding halves_def by blast
qed

lemma seal_opens: "crypto_laws L \<Longrightarrow> halves L b px kx \<Longrightarrow> lk_crypto_box_seal L px m = Ok c \<Longrightarrow>
    lk_crypto_box_seal_open L kx c = Ok m"
  unfolding crypto_laws_def by blast

lemma box_opens: "crypto_laws L \<Longrightarrow> halves L b px kx \<Longrightarrow> halves L a qx sx \<Longrightarrow>
    lk_crypto_box L px sx m n = Ok c \<Longrightarrow> lk_crypto_box_open L kx qx c n = Ok m"
  unfolding crypto_laws_def by blast

lemma aead_decrypts: "crypto_laws L \<Longrightarrow> lk_algorithm L k = Alg_Chacha20_C20P \<Longrightarrow> lk_to_secret_bytes L k = Ok e \<Longrightarrow> lk_aead_encrypt L k m n a = Ok enc \<Longrightarrow>
    \<exists>k'. lk_from_secret_bytes L Alg_Chacha20_C20P e = Ok k' \<and>
      lk_aead_decrypt L k' (eb_ciphertext enc) (eb_tag enc) (eb_nonce enc) a = Ok m"
  unfolding crypto_laws_def by blast

lemma codec_b64 [simp]: "codec_laws C \<Longrightarrow> b64_decode C (aw_b64_encode C s) = Ok s"
  by (simp add: codec_laws_def b64_decode_def)

text \<open>A wallet that holds the secret half of a key under its base58 text.\<close>

definition holds_key :: "key_ext \<Rightarrow> 'k kms \<Rightarrow> (string \<rightharpoonup> 'k) \<Rightarrow> Key \<Rightarrow> 'k \<Rightarrow> bool" where
  "holds_key K L keys key k \<longleftrightarrow> keys (key_base58 K key) = Some k \<and>
     lk_to_public_bytes L k = Ok (ky_bytes key) \<and> lk_algorithm L k = Alg_Ed25519 \<and> has_secret L k"

lemma unpack_authcrypt_recipient:
  assumes "crypto_laws L" and "codec_laws C" and "b58_inverse K"
    and pack: "pack_authcrypt_recipient K L C N ek s sx i key = Ok r"
    and s: "lk_to_public_bytes L s = Ok a" "lk_algorithm L s = Alg_Ed25519" "has_secret L s"
      "lk_convert_key L s Alg_X25519 = Ok sx"
    and k: "lk_to_public_bytes L k = Ok (ky_bytes key)" "lk_algorithm L k = Alg_Ed25519" "has_secret L k"
    and e: "lk_to_secret_bytes L ek = Ok e" "lk_from_secret_bytes L Alg_Chacha20_C20P e = Ok ek'"
    and new: "Key_new K a Ed25519 = Ok sender"
  shows "unwrap_kid r = key_base58 K key \<and> unpack_recipient K L C r k = Ok (ek', Some sender)"
proof -
  from key_converts [OF assms(1) k] obtain p px kx where
    p: "lk_from_public_bytes L Alg_Ed25519 (ky_bytes key) = Ok p" "lk_convert_key L p Alg_X25519 = Ok px"
    "lk_convert_key L k Alg_X25519 = Ok kx" and h: "halves L (ky_bytes key) px kx" by blast
  from key_converts [OF assms(1) s(1-3)] obtain q qx sx' where
    q: "lk_from_public_bytes L Alg_Ed25519 a = Ok q" "lk_convert_key L q Alg_X25519 = Ok qx"
    and hs: "lk_convert_key L s Alg_X25519 = Ok sx'" "halves L a qx sx'" by blast
  with s(4) have hs: "halves L a qx sx" by simp
  from pack p s(1) e(1) obtain n c d where
    "lk_crypto_box L px sx e n = Ok c" "lk_crypto_box_seal L px (kx_b58_encode K a) = Ok d"
    and r: "r = R_Authcrypt \<lparr>acr_encrypted_key = aw_b64_encode C c, acr_kid = key_base58 K key,
       acr_iv = aw_b64_encode C n, acr_sender = aw_b64_encode C d\<rparr>"
    by (auto simp: pack_authcrypt_recipient_def ed25519_to_x25519_def bytes_to_bs58_def)
  with box_opens [OF assms(1) h hs] seal_opens [OF assms(1) h] have
    "lk_crypto_box_open L kx qx c n = Ok e" "lk_crypto_box_seal_open L kx d = Ok (kx_b58_encode K a)"
    by blast+
  with r p q e new assms(2,3) show ?thesis
    by (simp add: unpack_authcrypt_def ed25519_to_x25519_def bs58_to_bytes_def b58_inverse_def wallet_pk_def)
qed

lemma unpack_anoncrypt_recipient:
  assumes "crypto_laws L" and "codec_laws C" and "b58_inverse K"
    and pack: "pack_anoncrypt_recipient K L C e key = Ok r"
    and k: "lk_to_public_bytes L k = Ok (ky_bytes key)" "lk_algorithm L k = Alg_Ed25519" "has_secret L k"
    and e: "lk_from_secret_bytes L Alg_Chacha20_C20P e = Ok ek'"
  shows "unwrap_kid r = key_base58 K key \<and> unpack_recipient K L C r k = Ok (ek', None)"
proof -
  from key_converts [OF assms(1) k] obtain p px kx where
    p: "lk_from_public_bytes L Alg_Ed25519 (ky_bytes key) = Ok p" "lk_convert_key L p Alg_X25519 = Ok px"
    "lk_convert_key L k Alg_X25519 = Ok kx" and h: "halves L (ky_bytes key) px kx" by blast
  from pack p assms(3) obtain c where c: "lk_crypto_box_seal L px e = Ok c"
    and r: "r = R_Anoncrypt \<lparr>anr_encrypted_key = aw_b64_encode C c, anr_kid = key_base58 K key\<rparr>"
    by (auto simp: pack_anoncrypt_recipient_def ed25519_to_x25519_def bs58_to_bytes_def b58_inverse_def
        bytes_to_bs58_def key_base58_def)
  from seal_opens [OF assms(1) h c] have "lk_crypto_box_seal_open L kx c = Ok e" .
  with r p e assms(2) show ?thesis by (simp add: unpack_anoncrypt_def ed25519_to_x25519_def)
qed

text \<open>The first recipient whose key the wallet holds is the one that is read.\<close>

lemma find_recipient_first:
  assumes "askar_store A ev kv" and "available A" and "list_all2 P keys rs"
    and kid: "\<And>key r. P key r \<Longrightarrow> unwrap_kid r = key_base58 K key"
    and "find (\<lambda>key. kv w (key_base58 K key) \<noteq> None) keys = Some key"
  shows "\<exists>r e. find_recipient_key A w rs = Ok (r, e) \<and> P key r \<and>
    (\<exists>k. ke_load_local_key e = Ok k \<and> kv w (key_base58 K key) = Some k)"
  using assms(3,5)
proof (induction rule: list_all2_induct)
  case (Cons x xs r rs)
  from assms(2) obtain f where f: "ak_fetch_key A w (key_base58 K x) = Ok f"
    and load: "\<forall>e. f = Some e \<longrightarrow> (\<exists>k. ke_load_local_key e = Ok k)" unfolding available_def by blast
  note fk = store_fetch_key [OF assms(1) f]
  have u: "unwrap_kid r = key_base58 K x" using kid Cons.hyps(1) by blast
  show ?case
  proof (cases f)
    case None
    with fk Cons.prems have "find (\<lambda>key. kv w (key_base58 K key) \<noteq> None) xs = Some key" by simp
    with Cons.IH None f u show ?thesis by simp
  next
    case (Some e)
    with fk Cons.prems have "x = key" by (auto split: if_splits)
    moreover from load Some obtain k where "ke_load_local_key e = Ok k" by blast
    moreover from this fk Some have "kv w (key_base58 K x) = Some k" by blast
    ultimately show ?thesis using Some f u Cons.hyps(1) by auto
  qed
qed simp

lemma pack_authcrypt_loop_all2:
  "pack_authcrypt_loop K L C N ek s sx i keys = Ok rs \<Longrightarrow>
    list_all2 (\<lambda>key r. \<exists>i. pack_authcrypt_recipient K L C N ek s sx i key = Ok r) keys rs"
  by (induction keys arbitrary: i rs) auto

lemma try_map_all2: "try_map f xs = Ok ys \<Longrightarrow> list_all2 (\<lambda>x y. f x = Ok y) xs ys"
  by (induction xs arbitrary: ys) auto

lemma unpack_of_packed:
  assumes "codec_laws C" and "crypto_laws L" and "ak_session A w = Ok ()" and "utf8_valid msg"
    and all: "pack_all L C N ek (aw_b64_encode C (aw_ser_protected C pd)) msg = Ok packed"
    and find: "find_recipient_key A w (pd_recipients pd) = Ok (r, entry)" "ke_load_local_key entry = Ok k"
    and e: "lk_algorithm L ek = Alg_Chacha20_C20P" "lk_to_secret_bytes L ek = Ok e"
    and r: "\<And>ek'. lk_from_secret_bytes L Alg_Chacha20_C20P e = Ok ek' \<Longrightarrow>
      unwrap_kid r = kid \<and> unpack_recipient K L C r k = Ok (ek', sender)"
  shows "askar_unpack_message K L C A w packed = Ok \<lparr>um_message = msg, um_recipient_verkey = kid,
    um_sender_verkey = map_option (key_base58 K) sender\<rparr>"
proof -
  let ?b = "aw_b64_encode C (aw_ser_protected C pd)"
  from all obtain n enc where enc: "lk_aead_encrypt L ek msg n ?b = Ok enc"
    and p: "packed = aw_ser_jwe C \<lparr>jwe_protected = ?b, jwe_iv = aw_b64_encode C (eb_nonce enc),
       jwe_ciphertext = aw_b64_encode C (eb_ciphertext enc), jwe_tag = aw_b64_encode C (eb_tag enc)\<rparr>"
    by (auto simp: pack_all_def)
  from aead_decrypts [OF assms(2) e enc] obtain ek' where
    ek': "lk_from_secret_bytes L Alg_Chacha20_C20P e = Ok ek'"
    "lk_aead_decrypt L ek' (eb_ciphertext enc) (eb_tag enc) (eb_nonce enc) ?b = Ok msg" by blast
  note r = r [OF ek'(1)]
  have "unpack_protected_data C \<lparr>jwe_protected = ?b, jwe_iv = aw_b64_encode C (eb_nonce enc),
       jwe_ciphertext = aw_b64_encode C (eb_ciphertext enc), jwe_tag = aw_b64_encode C (eb_tag enc)\<rparr> = Ok pd"
    using assms(1) by (simp add: unpack_protected_data_def bytes_to_string_def from_utf8_def)
      (simp add: codec_laws_def)
  moreover have "aw_de_jwe C (aw_ser_jwe C j) = Ok j" for j using assms(1) by (simp add: codec_laws_def)
  ultimately show ?thesis
    using assms(1,3,4) p find r ek'(2)
    by (simp add: askar_unpack_message_def askar_unpack_def local_key_unpack_def unpack_msg_def
        bytes_to_string_def from_utf8_def)
qed

text \<open>
  C14. A message packed with a sender for several recipients is read by every wallet that holds the
  key of one of them: it gets the text, the first of the recipients whose key it has, and the key of
  the sender.
\<close>

theorem packed_message_read:
  assumes "codec_laws C" and "crypto_laws L" and "content_keys L N" and "b58_inverse K"
    and "askar_store A ev kv" and "available A" and "utf8_valid msg"
    and "holds_key K L (kv w) sender s" and "Key_new K (ky_bytes sender) Ed25519 = Ok sender"
    and "askar_pack_message K L C N A w (Some sender) keys msg = Ok packed"
    and "find (\<lambda>key. kv w' (key_base58 K key) \<noteq> None) keys = Some key" and "holds_key K L (kv w') key k"
  shows "askar_unpack_message K L C A w' packed = Ok \<lparr>um_message = msg, um_recipient_verkey = key_base58 K key,
    um_sender_verkey = Some (key_base58 K sender)\<rparr>"
proof -
  from assms(10) obtain ek my rs where ek: "rn_key N = Ok ek"
    and my: "fetch_local_key A w (key_base58 K sender) = Ok my"
    and rs: "pack_authcrypt_recipients K L C N ek keys my = Ok rs"
    and all: "pack_all L C N ek (aw_b64_encode C (aw_ser_protected C \<lparr>pd_enc = XChaCha20Poly1305, pd_typ = Jwm,
      pd_alg = Authcrypt, pd_recipients = rs\<rparr>)) msg = Ok packed"
    by (auto simp: askar_pack_message_def pack_authcrypt_def encode_protected_data_def split: if_splits)
  from my have "kv w (key_base58 K sender) = Some my"
    by (auto simp: fetch_local_key_def fetch_key_entry_def dest: store_fetch_key [OF assms(5)])
  with assms(8) have s: "lk_to_public_bytes L my = Ok (ky_bytes sender)" "lk_algorithm L my = Alg_Ed25519"
    "has_secret L my"
    by (auto simp: holds_key_def)
  from rs obtain sx where sx: "lk_convert_key L my Alg_X25519 = Ok sx"
    and loop: "pack_authcrypt_loop K L C N ek my sx 0 keys = Ok rs"
    by (auto simp: pack_authcrypt_recipients_def ed25519_to_x25519_def)
  let ?P = "\<lambda>key r. \<exists>i. pack_authcrypt_recipient K L C N ek my sx i key = Ok r"
  have kid: "unwrap_kid r = key_base58 K key" if "?P key r" for key r
    using that by (auto simp: pack_authcrypt_recipient_def)
  from find_recipient_first [OF assms(5,6) pack_authcrypt_loop_all2 [OF loop] kid assms(11)] obtain r en k' where
    find: "find_recipient_key A w' rs = Ok (r, en)" "ke_load_local_key en = Ok k'"
    and P: "?P key r" and k': "kv w' (key_base58 K key) = Some k'" by blast
  from k' assms(12) have k: "lk_to_public_bytes L k' = Ok (ky_bytes key)" "lk_algorithm L k' = Alg_Ed25519"
    "has_secret L k'"
    by (auto simp: holds_key_def)
  from P obtain e where e: "lk_to_secret_bytes L ek = Ok e" by (auto simp: pack_authcrypt_recipient_def)
  from P obtain i where pack: "pack_authcrypt_recipient K L C N ek my sx i key = Ok r" by blast
  have r: "unwrap_kid r = key_base58 K key \<and> unpack_recipient K L C r k' = Ok (ek', Some sender)"
    if "lk_from_secret_bytes L Alg_Chacha20_C20P e = Ok ek'" for ek'
    by (rule unpack_authcrypt_recipient [OF assms(2,1,4) pack s sx k e that assms(9)])
  have chacha: "lk_algorithm L ek = Alg_Chacha20_C20P" using assms(3) ek by (simp add: content_keys_def)
  have session: "ak_session A w' = Ok ()" using assms(6) by (simp add: available_def)
  from unpack_of_packed [OF assms(1,2) session assms(7) all _ find(2) chacha e r] find(1) show ?thesis by simp
qed

text \<open>The same for an anonymous message, whose reader learns no sender.\<close>

theorem anonymous_message_read:
  assumes "codec_laws C" and "crypto_laws L" and "content_keys L N" and "b58_inverse K"
    and "askar_store A ev kv" and "available A" and "utf8_valid msg"
    and "askar_pack_message K L C N A w None keys msg = Ok packed"
    and "find (\<lambda>key. kv w' (key_base58 K key) \<noteq> None) keys = Some key" and "holds_key K L (kv w') key k"
  shows "askar_unpack_message K L C A w' packed =
    Ok \<lparr>um_message = msg, um_recipient_verkey = key_base58 K key, um_sender_verkey = None\<rparr>"
proof -
  from assms(8) obtain ek e rs where ek: "rn_key N = Ok ek" and e: "lk_to_secret_bytes L ek = Ok e"
    and rs: "try_map (pack_anoncrypt_recipient K L C e) keys = Ok rs"
    and all: "pack_all L C N ek (aw_b64_encode C (aw_ser_protected C \<lparr>pd_enc = XChaCha20Poly1305, pd_typ = Jwm,
      pd_alg = Anoncrypt, pd_recipients = rs\<rparr>)) msg = Ok packed"
    by (auto simp: askar_pack_message_def pack_anoncrypt_def pack_anoncrypt_recipients_def
        encode_protected_data_def split: if_splits)
  have kid: "unwrap_kid r = key_base58 K key" if "pack_anoncrypt_recipient K L C e key = Ok r" for key r
    using that assms(4) by (auto simp: pack_anoncrypt_recipient_def bytes_to_bs58_def bs58_to_bytes_def
        b58_inverse_def key_base58_def)
  from find_recipient_first [OF assms(5,6) try_map_all2 [OF rs] kid assms(9)] obtain r en k' where
    find: "find_recipient_key A w' rs = Ok (r, en)" "ke_load_local_key en = Ok k'"
    and pack: "pack_anoncrypt_recipient K L C e key = Ok r" and k': "kv w' (key_base58 K key) = Some k'" by blast
  from k' assms(10) have k: "lk_to_public_bytes L k' = Ok (ky_bytes key)" "lk_algorithm L k' = Alg_Ed25519"
    "has_secret L k'"
    by (auto simp: holds_key_def)
  have r: "unwrap_kid r = key_base58 K key \<and> unpack_recipient K L C r k' = Ok (ek', None)"
    if "lk_from_secret_bytes L Alg_Chacha20_C20P e = Ok ek'" for ek'
    by (rule unpack_anoncrypt_recipient [OF assms(2,1,4) pack k that])
  have chacha: "lk_algorithm L ek = Alg_Chacha20_C20P" using assms(3) ek by (simp add: content_keys_def)
  have session: "ak_session A w' = Ok ()" using assms(6) by (simp add: available_def)
  from unpack_of_packed [OF assms(1,2) session assms(7) all _ find(2) chacha e r] find(1) show ?thesis by simp
qed

section \<open>A concrete instance\<close>

text \<open>
  The store is a pair of maps. A key is its algorithm, its bytes and whether it has the secret half;
  sealing and encrypting leave the text as it is and opening needs the secret half, as signing does;
  a signature is the bytes of the key before the message.
  The texts of the derived code are numbers in unary.
\<close>

type_synonym sample_askar_key = "KeyAlg \<times> string \<times> bool"
type_synonym sample_store = "(string \<times> string \<rightharpoonup> string) \<times> (string \<rightharpoonup> sample_askar_key)"

definition sample_err :: "AskarErrorKind \<Rightarrow> 'a askar_res" where
  "sample_err k = Err \<lparr>ae_kind = k, ae_text = []\<rparr>"

definition sample_askar :: "(sample_store, sample_askar_key) askar" where
  "sample_askar = \<lparr>ak_session = (\<lambda>_. Ok ()), ak_transaction = (\<lambda>_. Ok ()), ak_commit = (\<lambda>_. Ok ()),
     ak_insert = (\<lambda>(e, k) c n v t. if e (c, n) = None then (Ok (), (e((c, n) \<mapsto> v), k))
       else (sample_err Ak_Duplicate, (e, k))),
     ak_replace = (\<lambda>(e, k) c n v t. if e (c, n) \<noteq> None then (Ok (), (e((c, n) \<mapsto> v), k))
       else (sample_err Ak_NotFound, (e, k))),
     ak_remove = (\<lambda>(e, k) c n. (Ok (), (e((c, n) := None), k))),
     ak_fetch = (\<lambda>(e, k) c n b. Ok (map_option (\<lambda>v. \<lparr>en_category = c, en_name = n, en_value = v, en_tags = []\<rparr>) (e (c, n)))),
     ak_fetch_all = (\<lambda>_ _ _. Ok []), ak_parse_filter = (\<lambda>_. Ok JNull),
     ak_insert_key = (\<lambda>(e, k) n x t. if k n = None then (Ok (), (e, k(n \<mapsto> x))) else (sample_err Ak_Duplicate, (e, k))),
     ak_fetch_key = (\<lambda>(e, k) n. Ok (map_option (\<lambda>x. \<lparr>ke_name = n, ke_tags = [], ke_load_local_key = Ok x\<rparr>) (k n))),
     ak_remove_key = (\<lambda>(e, k) n. (Ok (), (e, k(n := None)))),
     ak_fetch_all_keys = (\<lambda>_. Ok [])\<rparr>"

fun needs_secret :: "sample_askar_key \<Rightarrow> 'a askar_res \<Rightarrow> 'a askar_res" where
  "needs_secret (_, _, secret) r = (if secret then r else sample_err Ak_Input)"

definition sample_kms :: "sample_askar_key kms" where
  "sample_kms = \<lparr>
     lk_from_secret_bytes = (\<lambda>a b. if a = Alg_Ed25519 \<and> length b \<noteq> 32 then sample_err Ak_Input else Ok (a, b, True)),
     lk_from_public_bytes = (\<lambda>a b. Ok (a, b, False)),
     lk_to_public_bytes = (\<lambda>k. if fst k = Alg_Ed25519 \<and> length (fst (snd k)) \<noteq> 32 then sample_err Ak_Input
       else Ok (fst (snd k))),
     lk_to_secret_bytes = (\<lambda>k. needs_secret k (Ok (fst (snd k)))),
     lk_algorithm = fst, lk_show_alg = (\<lambda>_. ''ed25519''), lk_convert_key = (\<lambda>k a. Ok (a, snd k)),
     lk_sign_message = (\<lambda>k m t. needs_secret k (Ok (fst (snd k) @ m))),
     lk_verify_signature = (\<lambda>k m s t. Ok (s = fst (snd k) @ m)),
     lk_crypto_box = (\<lambda>r s m n. needs_secret s (Ok m)), lk_crypto_box_open = (\<lambda>r s c n. needs_secret r (Ok c)),
     lk_crypto_box_seal = (\<lambda>r m. Ok m), lk_crypto_box_seal_open = (\<lambda>r c. needs_secret r (Ok c)),
     lk_aead_encrypt = (\<lambda>k m n a. needs_secret k (Ok \<lparr>eb_nonce = n, eb_ciphertext = m, eb_tag = []\<rparr>)),
     lk_aead_decrypt = (\<lambda>k c t n a. needs_secret k (Ok c))\<rparr>"

definition seed_of :: "char \<Rightarrow> string" where
  "seed_of c = replicate 32 c"

definition sample_rn :: "sample_askar_key randomness" where
  "sample_rn = \<lparr>rn_seed = seed_of (CHR ''a''), rn_key = Ok (Alg_Chacha20_C20P, ''k'', True), rn_box_nonce = (\<lambda>_. Ok ''n''),
     rn_aead_nonce = Ok ''n''\<rparr>"

instance KeyType :: countable
  by countable_datatype

definition unary :: "nat \<Rightarrow> string" where
  "unary n = replicate n (CHR ''1'')"

fun recipient_code :: "Recipient \<Rightarrow> (string \<times> string \<times> string \<times> string) + (string \<times> string)" where
  "recipient_code (R_Authcrypt r) = Inl (acr_encrypted_key r, acr_kid r, acr_iv r, acr_sender r)"
| "recipient_code (R_Anoncrypt r) = Inr (anr_encrypted_key r, anr_kid r)"

fun recipient_of_code :: "(string \<times> string \<times> string \<times> string) + (string \<times> string) \<Rightarrow> Recipient" where
  "recipient_of_code (Inl (e, k, i, s)) = R_Authcrypt \<lparr>acr_encrypted_key = e, acr_kid = k, acr_iv = i, acr_sender = s\<rparr>"
| "recipient_of_code (Inr (e, k)) = R_Anoncrypt \<lparr>anr_encrypted_key = e, anr_kid = k\<rparr>"

lemma recipient_of_code [simp]: "recipient_of_code (recipient_code r) = r"
  by (cases r) simp_all

definition protected_code :: "ProtectedData \<Rightarrow> nat" where
  "protected_code p = to_nat (pd_alg p = Authcrypt, map recipient_code (pd_recipients p))"

definition protected_of_code :: "nat \<Rightarrow> ProtectedData" where
  "protected_of_code n = (case from_nat n of (b, rs) \<Rightarrow> \<lparr>pd_enc = XChaCha20Poly1305, pd_typ = Jwm,
     pd_alg = (if b then Authcrypt else Anoncrypt), pd_recipients = map recipient_of_code rs\<rparr>)"

lemma protected_of_code [simp]: "protected_of_code (protected_code p) = p"
  by (cases p; cases "pd_alg p"; cases "pd_enc p"; cases "pd_typ p")
    (simp_all add: protected_of_code_def protected_code_def map_idI)

definition sample_aw_codec :: askar_codec where
  "sample_aw_codec = \<lparr>aw_b64_encode = (\<lambda>s. s), aw_b64_decode = Ok,
     aw_ser_did_value = (\<lambda>k. unary (to_nat (ky_type k, ky_bytes k))),
     aw_de_did_value = (\<lambda>s. case from_nat (length s) of (t, b) \<Rightarrow> Ok (Some \<lparr>ky_type = t, ky_bytes = b\<rparr>)),
     aw_ser_protected = (\<lambda>p. unary (protected_code p)), aw_de_protected = (\<lambda>s. Ok (protected_of_code (length s))),
     aw_ser_jwe = (\<lambda>j. unary (to_nat (jwe_protected j, jwe_iv j, jwe_ciphertext j, jwe_tag j))),
     aw_de_jwe = (\<lambda>s. case from_nat (length s) of (p, i, c, t) \<Rightarrow>
       Ok \<lparr>jwe_protected = p, jwe_iv = i, jwe_ciphertext = c, jwe_tag = t\<rparr>)\<rparr>"

lemma unary_simps [simp]: "utf8_valid (unary n)" "length (unary n) = n"
  by (simp_all add: unary_def utf8_valid_ascii)

lemma sample_codec_laws [simp]: "codec_laws sample_aw_codec"
  by (simp add: codec_laws_def sample_aw_codec_def)

lemma sample_askar_store [simp]: "askar_store sample_askar fst snd"
  unfolding askar_store_laws
  by (auto simp: sample_askar_def sample_err_def option.map_comp comp_def option.map_ident split: if_splits)

lemma sample_available [simp]: "available sample_askar"
  by (auto simp: available_def sample_askar_def)

lemma sample_key_laws [simp]: "key_laws sample_kms"
  by (auto simp: key_laws_def sample_kms_def sample_err_def split: if_splits)

lemma sample_crypto_laws [simp]: "crypto_laws sample_kms"
  by (auto simp: crypto_laws_def halves_def has_secret_def sample_kms_def sample_err_def split: if_splits)

lemma sample_content_keys [simp]: "content_keys sample_kms sample_rn"
  by (simp add: content_keys_def sample_kms_def sample_rn_def)

lemma unary_shorter: "dropWhile (\<lambda>c. c = CHR ''1'') s = x # r \<Longrightarrow> length r < length s"
  using length_dropWhile_le [of "\<lambda>c. c = CHR ''1''" s] by simp

lemma sample_varint_consumes [simp]: "varint_consumes sample_kx"
  by (auto simp: varint_consumes_def sample_kx_def unary_decode_def dest: unary_shorter split: list.splits)

lemma length_seed [simp]: "length (seed_of c) = 32"
  by (simp add: seed_of_def)

lemma seed_of_Cons: "seed_of c = c # replicate 31 c"
  by (simp add: seed_of_def numeral_eq_Suc)

lemma letter_key [simp]:
  "c \<noteq> CHR ''1'' \<Longrightarrow> strip_multicodec_prefix_if_present sample_kx (seed_of c) Ed25519 = seed_of c"
  by (simp add: strip_multicodec_prefix_if_present_def sample_kx_def unary_decode_def seed_of_Cons)

text \<open>The wallet after a DID was created from the seed of letters \<open>a\<close>.\<close>

definition letter_vk :: "char \<Rightarrow> Key" where
  "letter_vk c = \<lparr>ky_type = Ed25519, ky_bytes = seed_of c\<rparr>"

lemma letter_vk_simps [simp]: "ky_bytes (letter_vk c) = seed_of c" "ky_type (letter_vk c) = Ed25519"
  by (simp_all add: letter_vk_def)

definition created_store :: sample_store where
  "created_store = ([(''Indy::Did'', take 16 (seed_of (CHR ''a''))) \<mapsto> aw_ser_did_value sample_aw_codec (letter_vk (CHR ''a''))],
     [seed_of (CHR ''a'') \<mapsto> (Alg_Ed25519, seed_of (CHR ''a''), True)])"

lemma sample_b58 [simp]: "kx_b58_encode sample_kx s = s" "key_base58 sample_kx k = ky_bytes k"
  by (simp_all add: sample_kx_def key_base58_def)

lemma sample_askar_create:
  "askar_create_and_store_my_did sample_kx sample_kms sample_aw_codec sample_rn sample_askar (Map.empty, Map.empty) None None =
    (Ok \<lparr>dd_did = take 16 (seed_of (CHR ''a'')), dd_verkey = letter_vk (CHR ''a'')\<rparr>, created_store)"
  by (simp add: askar_create_and_store_my_did_def sample_askar_def sample_kms_def sample_rn_def in_transaction_def
      askar_insert_key_def local_key_to_bs58_public_key_def bytes_to_bs58_def local_key_to_public_key_def
      wallet_pk_def Key_new_def insert_did_def askar_w_def nym_of_verkey_def seed_from_opt_def letter_vk_def
      created_store_def)

theorem created_did_signs_witness:
  "askar_key_for_did sample_aw_codec sample_askar created_store (take 16 (seed_of (CHR ''a''))) = Ok (letter_vk (CHR ''a''))"
  using created_did_signs [OF sample_askar_store sample_available sample_codec_laws sample_key_laws
      sample_varint_consumes sample_askar_create] by simp

theorem askar_keeps_contract_witness:
  "record_store (askar_records sample_kx sample_kms (\<lambda>_. []) sample_askar) (askar_view fst)"
  using askar_keeps_contract [OF sample_askar_store, of sample_kx sample_kms "\<lambda>_. []"] by blast

text \<open>Replacing the key by the one of the letters \<open>b\<close>.\<close>

definition started_store :: sample_store where
  "started_store = ((fst created_store)((''Indy::TemporaryDid'', take 16 (seed_of (CHR ''a''))) \<mapsto>
       aw_ser_did_value sample_aw_codec (letter_vk (CHR ''b''))),
     (snd created_store)(seed_of (CHR ''b'') \<mapsto> (Alg_Ed25519, seed_of (CHR ''b''), True)))"

lemma seeds_differ [simp]: "seed_of a = seed_of b \<longleftrightarrow> a = b"
  by (simp add: seed_of_def)

lemma sample_did_value [simp]:
  "from_utf8 (aw_ser_did_value sample_aw_codec k) = Some (aw_ser_did_value sample_aw_codec k)"
  "aw_de_did_value sample_aw_codec (aw_ser_did_value sample_aw_codec k) = Ok (Some k)"
  using sample_codec_laws unfolding codec_laws_def by (simp_all add: from_utf8_def)

lemma sample_start:
  "askar_replace_did_key_start sample_kx sample_kms sample_aw_codec sample_rn sample_askar created_store
      (take 16 (seed_of (CHR ''a''))) (Some (seed_of (CHR ''b''))) = (Ok (letter_vk (CHR ''b'')), started_store)"
  by (simp add: askar_replace_did_key_start_def sample_askar_def sample_kms_def sample_rn_def in_transaction_def
      askar_insert_key_def local_key_to_bs58_public_key_def bytes_to_bs58_def local_key_to_public_key_def
      wallet_pk_def Key_new_def insert_did_def askar_w_def seed_from_opt_def letter_vk_def created_store_def
      started_store_def find_current_did_def find_did_def askar_fetch_def)

lemma sample_apply:
  "\<exists>w. askar_replace_did_key_apply sample_kx sample_aw_codec sample_askar started_store
      (take 16 (seed_of (CHR ''a''))) = (Ok (), w)"
  by (simp add: askar_replace_did_key_apply_def sample_askar_def in_transaction_def askar_w_def update_did_def
      created_store_def started_store_def find_did_def askar_fetch_def)

theorem rotated_key_is_lost_witness:
  "\<exists>w. askar_key_for_did sample_aw_codec sample_askar w (take 16 (seed_of (CHR ''a''))) = Ok (letter_vk (CHR ''b'')) \<and>
    askar_sign sample_kx sample_kms sample_askar w (letter_vk (CHR ''b'')) ''m'' =
      Err (not_found Rc_Key (seed_of (CHR ''b'')))"
proof -
  from sample_apply obtain w where "askar_replace_did_key_apply sample_kx sample_aw_codec sample_askar started_store
      (take 16 (seed_of (CHR ''a''))) = (Ok (), w)" by blast
  from rotated_key_is_lost [OF sample_askar_store sample_available sample_codec_laws sample_start this, of "''m''"]
  show ?thesis by (intro exI [of _ w]) simp
qed

text \<open>The owner of \<open>a\<close> writes to \<open>c\<close> and \<open>b\<close>; the wallet that has only \<open>b\<close> reads.\<close>

definition b_store :: sample_store where
  "b_store = (Map.empty, [seed_of (CHR ''b'') \<mapsto> (Alg_Ed25519, seed_of (CHR ''b''), True)])"

lemma sample_holds:
  "holds_key sample_kx sample_kms (snd created_store) (letter_vk (CHR ''a'')) (Alg_Ed25519, seed_of (CHR ''a''), True)"
  "holds_key sample_kx sample_kms (snd b_store) (letter_vk (CHR ''b'')) (Alg_Ed25519, seed_of (CHR ''b''), True)"
  by (simp_all add: holds_key_def has_secret_def letter_vk_def created_store_def b_store_def sample_kms_def)

lemma sample_pack:
  "\<exists>p. askar_pack_message sample_kx sample_kms sample_aw_codec sample_rn sample_askar created_store
    (Some (letter_vk (CHR ''a''))) [letter_vk (CHR ''c''), letter_vk (CHR ''b'')] ''hello'' = Ok p"
  by (simp add: askar_pack_message_def sample_rn_def sample_askar_def fetch_local_key_def fetch_key_entry_def
      created_store_def letter_vk_def pack_authcrypt_def check_supported_key_alg_def sample_kms_def
      pack_authcrypt_recipients_def ed25519_to_x25519_def pack_authcrypt_recipient_def encode_protected_data_def
      pack_all_def)

theorem packed_message_read_witness:
  "\<exists>p. askar_unpack_message sample_kx sample_kms sample_aw_codec sample_askar b_store p =
    Ok \<lparr>um_message = ''hello'', um_recipient_verkey = seed_of (CHR ''b''), um_sender_verkey = Some (seed_of (CHR ''a''))\<rparr>"
proof -
  from sample_pack obtain p where p: "askar_pack_message sample_kx sample_kms sample_aw_codec sample_rn sample_askar
    created_store (Some (letter_vk (CHR ''a''))) [letter_vk (CHR ''c''), letter_vk (CHR ''b'')] ''hello'' = Ok p" by blast
  have u: "utf8_valid ''hello''" by (simp add: utf8_valid_ascii)
  have n: "Key_new sample_kx (ky_bytes (letter_vk (CHR ''a''))) Ed25519 = Ok (letter_vk (CHR ''a''))"
    by (simp add: Key_new_def letter_vk_def)
  have f: "find (\<lambda>key. snd b_store (key_base58 sample_kx key) \<noteq> None) [letter_vk (CHR ''c''), letter_vk (CHR ''b'')] =
    Some (letter_vk (CHR ''b''))" by (simp add: b_store_def letter_vk_def ex_bool_eq)
  from packed_message_read [OF sample_codec_laws sample_crypto_laws sample_content_keys sample_kx_laws(1) sample_askar_store sample_available
      u sample_holds(1) n p f sample_holds(2)] show ?thesis by (intro exI [of _ p]) simp
qed

end
