(* ===== verification/Primitives.thy ===== *)
theory Primitives
  imports Anoncreds_Backend Askar_Wallet Ledger_Transactions
begin

text \<open>
  The primitives an issuer publishes (\<open>aries_vcx/src/common/primitives\<close>): schemas, credential
  definitions and revocation registries, over the anoncreds back end (\<open>issuer_ops\<close>, of which
  \<open>anoncreds_ops\<close> is the model of the repository's own) and a ledger whose state is explicit. The
  last sections compose them: a registry is published once, what is revoked locally is what the
  ledger is told, and a rotated key over the Askar wallet is lost.
\<close>

section \<open>Interfaces\<close>

record 'w issuer_ops =
  io_create_schema :: "Did \<Rightarrow> string \<Rightarrow> string \<Rightarrow> string list \<Rightarrow> LedgerSchema anon_res"
  io_create_cred_def ::
    "'w \<Rightarrow> Did \<Rightarrow> SchemaId \<Rightarrow> LedgerSchema \<Rightarrow> string \<Rightarrow> bool \<Rightarrow> CredentialDefinition anon_res \<times> 'w"
  io_create_rev_reg ::
    "'w \<Rightarrow> Did \<Rightarrow> CredentialDefinitionId \<Rightarrow> string \<Rightarrow> u32 \<Rightarrow> string \<Rightarrow>
     (RevocationRegistryDefinitionId \<times> RevRegDef \<times> json) anon_res \<times> 'w"
  io_revoke_local ::
    "'w \<Rightarrow> RevocationRegistryDefinitionId \<Rightarrow> u32 \<Rightarrow> RevocationRegistryDelta \<Rightarrow> unit anon_res \<times> 'w"
  io_get_delta :: "'w \<Rightarrow> RevocationRegistryDefinitionId \<Rightarrow> RevocationRegistryDelta option anon_res"
  io_clear_delta :: "'w \<Rightarrow> RevocationRegistryDefinitionId \<Rightarrow> unit anon_res \<times> 'w"

record 'l registry_read =
  rr_get_schema :: "'l \<Rightarrow> SchemaId \<Rightarrow> Did option \<Rightarrow> LedgerSchema ledger_res"
  rr_get_cred_def :: "'l \<Rightarrow> CredentialDefinitionId \<Rightarrow> Did option \<Rightarrow> CredentialDefinition ledger_res"
  rr_get_rev_reg_delta ::
    "'l \<Rightarrow> RevocationRegistryDefinitionId \<Rightarrow> u64 option \<Rightarrow> u64 option \<Rightarrow>
     (RevocationRegistryDelta \<times> u64) ledger_res"

text \<open>Writing signs with a key of the wallet, which it does not change.\<close>

record ('w, 'l) registry_write =
  ru_publish_schema :: "'w \<Rightarrow> 'l \<Rightarrow> LedgerSchema \<Rightarrow> Did \<Rightarrow> unit ledger_res \<times> 'l"
  ru_publish_cred_def :: "'w \<Rightarrow> 'l \<Rightarrow> CredentialDefinition \<Rightarrow> Did \<Rightarrow> unit ledger_res \<times> 'l"
  ru_publish_rev_reg_def :: "'w \<Rightarrow> 'l \<Rightarrow> RevRegDef \<Rightarrow> Did \<Rightarrow> unit ledger_res \<times> 'l"
  ru_publish_rev_reg_delta ::
    "'w \<Rightarrow> 'l \<Rightarrow> RevocationRegistryDefinitionId \<Rightarrow> RevocationRegistryDelta \<Rightarrow> Did \<Rightarrow> unit ledger_res \<times> 'l"

text \<open>The derived texts, and the \<open>Debug\<close> text of an error.\<close>

record prim_codec =
  pm_ser_cred_def :: "CredentialDefinition \<Rightarrow> string"
  pm_de_cred_def :: "string \<Rightarrow> CredentialDefinition serde"
  pm_ser_rev_reg_def :: "RevRegDef \<Rightarrow> string"
  pm_de_rev_reg_def :: "string \<Rightarrow> RevRegDef serde"
  pm_ser_rev_reg :: "json \<Rightarrow> string"
  pm_de_delta :: "string \<Rightarrow> RevocationRegistryDelta serde"
  pm_debug_error :: "AriesVcxError \<Rightarrow> string"

text \<open>The repository's back end over a wallet; clock and bit-vector insertion are arguments.\<close>

definition anoncreds_ops ::
  "'w record_wallet \<Rightarrow> anc_lib \<Rightarrow> anc_codec \<Rightarrow> (bool list \<Rightarrow> nat \<Rightarrow> bool \<Rightarrow> bool list) \<Rightarrow> u64 \<Rightarrow> 'w issuer_ops" where
  "anoncreds_ops W L C ins now = \<lparr>
     io_create_schema = backend_issuer_create_schema L,
     io_create_cred_def = issuer_create_and_store_credential_def W L C,
     io_create_rev_reg = issuer_create_and_store_revoc_reg W L C now,
     io_revoke_local = backend_revoke_credential_local W L C ins now,
     io_get_delta = backend_get_rev_reg_delta W C,
     io_clear_delta = backend_clear_rev_reg_delta W C\<rparr>"

definition ledger_w :: "'w \<Rightarrow> 'a ledger_res \<times> 'l \<Rightarrow> 'a ledger_res \<times> 'w \<times> 'l" where
  "ledger_w w r = (fst r, w, snd r)"

text \<open>An error with another error's text, and \<open>?\<close> on a ledger's error.\<close>

definition ledger_err :: "(VcxLedgerError \<Rightarrow> AriesVcxError) \<Rightarrow> 'a ledger_res \<times> 's \<Rightarrow> 'a VcxResult \<times> 's" where
  "ledger_err f r = (map_err f (fst r), snd r)"

section \<open>Schemas\<close>

datatype PublicEntityStateType = Pe_Built | Pe_Published

fun entity_state_u32 :: "PublicEntityStateType \<Rightarrow> u32" where
  "entity_state_u32 Pe_Built = 0"
| "entity_state_u32 Pe_Published = 1"

definition entity_state_of_u8 :: "u8 \<Rightarrow> (string, PublicEntityStateType) result" where
  "entity_state_of_u8 value =
     (if value = 0 then Ok Pe_Built else if value = 1 then Ok Pe_Published
      else Err (''unknown PublicEntityStateType value: '' @ show_u8 value))"

record PrimSchema =
  psc_data :: "string list"
  psc_version :: string
  psc_schema_id :: SchemaId
  psc_name :: string
  psc_source_id :: string
  psc_submitter_did :: Did
  psc_state :: PublicEntityStateType
  psc_schema_json :: LedgerSchema

definition prim_schema_create ::
  "'w issuer_ops \<Rightarrow> string \<Rightarrow> Did \<Rightarrow> string \<Rightarrow> string \<Rightarrow> string list \<Rightarrow> PrimSchema VcxResult" where
  "prim_schema_create A source_id submitter_did name version attributes =
     and_then (from_anon (io_create_schema A submitter_did name version attributes)) (\<lambda>schema_json.
     Ok \<lparr>psc_data = attributes, psc_version = version, psc_schema_id = sch_id schema_json, psc_name = name,
       psc_source_id = source_id, psc_submitter_did = submitter_did, psc_state = Pe_Built,
       psc_schema_json = schema_json\<rparr>)"

definition prim_schema_publish ::
  "('w, 'l) registry_write \<Rightarrow> 'w \<Rightarrow> 'l \<Rightarrow> PrimSchema \<Rightarrow> PrimSchema VcxResult \<times> 'l" where
  "prim_schema_publish R w l self =
     and_thenw (ledger_err from_ledger_error (ru_publish_schema R w l (psc_schema_json self) (psc_submitter_did self)))
       (\<lambda>_ l. (Ok (self\<lparr>psc_state := Pe_Published\<rparr>), l))"

section \<open>Credential definitions\<close>

record CredentialDef =
  cdp_id :: CredentialDefinitionId
  cdp_tag :: string
  cdp_source_id :: string
  cdp_issuer_did :: Did
  cdp_cred_def_json :: string
  cdp_support_revocation :: bool
  cdp_schema_id :: SchemaId
  cdp_state :: PublicEntityStateType

definition try_get_cred_def_from_ledger ::
  "prim_codec \<Rightarrow> 'l registry_read \<Rightarrow> 'l \<Rightarrow> Did \<Rightarrow> CredentialDefinitionId \<Rightarrow> string option VcxResult" where
  "try_get_cred_def_from_ledger P R l issuer_did cred_def_id =
     (case rr_get_cred_def R l cred_def_id (Some issuer_did) of
        Ok cred_def \<Rightarrow> Ok (Some (pm_ser_cred_def P cred_def))
      | Err Le_LedgerItemNotFound \<Rightarrow> Ok None
      | Err err \<Rightarrow> vcx_err InvalidLedgerResponse
          (''Failed to check presence of credential definition id '' @ cred_def_id @ '' on the ''
            @ ''ledger'' @ [CHR 0x0A] @ ''Error: '' @ show_ledger_error err)
      | Panic \<Rightarrow> Panic)"

definition generate_cred_def ::
  "'w issuer_ops \<Rightarrow> 'w \<Rightarrow> Did \<Rightarrow> SchemaId \<Rightarrow> LedgerSchema \<Rightarrow> string \<Rightarrow> bool option \<Rightarrow>
   CredentialDefinition VcxResult \<times> 'w" where
  "generate_cred_def A w issuer_did schema_id schema_json tag support_revocation =
     anon_w (io_create_cred_def A w issuer_did schema_id schema_json tag (case support_revocation of Some b \<Rightarrow> b | None \<Rightarrow> False))"

definition cred_def_create ::
  "prim_codec \<Rightarrow> 'w issuer_ops \<Rightarrow> 'l registry_read \<Rightarrow> 'l \<Rightarrow> 'w \<Rightarrow> string \<Rightarrow> Did \<Rightarrow> SchemaId \<Rightarrow> string \<Rightarrow> bool \<Rightarrow>
   CredentialDef VcxResult \<times> 'w" where
  "cred_def_create P A R l w source_id issuer_did schema_id tag support_revocation =
     and_thenw (pure_w (from_ledger (rr_get_schema R l schema_id (Some issuer_did))) w) (\<lambda>schema_json w.
     and_thenw (generate_cred_def A w issuer_did schema_id schema_json tag (Some support_revocation)) (\<lambda>cred_def w.
     (Ok \<lparr>cdp_id = cdf_id cred_def, cdp_tag = tag, cdp_source_id = source_id, cdp_issuer_did = issuer_did,
        cdp_cred_def_json = pm_ser_cred_def P cred_def, cdp_support_revocation = support_revocation,
        cdp_schema_id = schema_id, cdp_state = Pe_Built\<rparr>, w)))"

definition publish_cred_def ::
  "prim_codec \<Rightarrow> 'l registry_read \<Rightarrow> ('w, 'l) registry_write \<Rightarrow> 'w \<Rightarrow> 'l \<Rightarrow> CredentialDef \<Rightarrow>
   CredentialDef VcxResult \<times> 'l" where
  "publish_cred_def P R U w l self =
     and_thenw (pure_w (try_get_cred_def_from_ledger P R l (cdp_issuer_did self) (cdp_id self)) l) (\<lambda>found l.
     case found of
       Some ledger_cred_def_json \<Rightarrow>
         (vcx_err CredDefAlreadyCreated (''Credential definition with id '' @ cdp_id self
            @ '' already exists on the ledger: '' @ ledger_cred_def_json), l)
     | None \<Rightarrow>
         and_thenw (pure_w (from_serde (pm_de_cred_def P (cdp_cred_def_json self))) l) (\<lambda>cred_def_json l.
         and_thenw (ledger_err from_ledger_error (ru_publish_cred_def U w l cred_def_json (cdp_issuer_did self)))
           (\<lambda>_ l. (Ok (self\<lparr>cdp_state := Pe_Published\<rparr>), l))))"

definition cred_def_update_state ::
  "'l registry_read \<Rightarrow> 'l \<Rightarrow> CredentialDef \<Rightarrow> u32 VcxResult \<times> CredentialDef" where
  "cred_def_update_state R l self =
     (case vcx_cred_def_id (cdp_id self) of
        Ok i \<Rightarrow>
          (case rr_get_cred_def R l i None of
             Panic \<Rightarrow> (Panic, self)
           | Ok _ \<Rightarrow> (Ok (entity_state_u32 Pe_Published), self\<lparr>cdp_state := Pe_Published\<rparr>)
           | Err _ \<Rightarrow> (Ok (entity_state_u32 (cdp_state self)), self))
      | Err e \<Rightarrow> (Err e, self)
      | Panic \<Rightarrow> (Panic, self))"

section \<open>Revocation registries\<close>

record RevocationRegistry =
  rvr_cred_def_id :: string
  rvr_issuer_did :: Did
  rvr_rev_reg_id :: string
  rvr_rev_reg_def :: RevRegDef
  rvr_rev_reg_entry :: string
  rvr_tails_dir :: string
  rvr_max_creds :: u32
  rvr_tag :: u32
  rvr_def_state :: PublicEntityStateType
  rvr_delta_state :: PublicEntityStateType

definition generate_rev_reg ::
  "prim_codec \<Rightarrow> 'w issuer_ops \<Rightarrow> 'w \<Rightarrow> Did \<Rightarrow> CredentialDefinitionId \<Rightarrow> string \<Rightarrow> u32 \<Rightarrow> string \<Rightarrow>
   (string \<times> RevRegDef \<times> string) VcxResult \<times> 'w" where
  "generate_rev_reg P A w issuer_did cred_def_id tails_dir max_creds tag =
     and_thenw (anon_w (io_create_rev_reg A w issuer_did cred_def_id tails_dir max_creds tag))
       (\<lambda>(rev_reg_id, rev_reg_def_json, rev_reg_entry_json) w.
     (Ok (rev_reg_id, rev_reg_def_json, pm_ser_rev_reg P rev_reg_entry_json), w))"

definition rev_reg_create ::
  "prim_codec \<Rightarrow> 'w issuer_ops \<Rightarrow> 'w \<Rightarrow> Did \<Rightarrow> CredentialDefinitionId \<Rightarrow> string \<Rightarrow> u32 \<Rightarrow> u32 \<Rightarrow>
   RevocationRegistry VcxResult \<times> 'w" where
  "rev_reg_create P A w issuer_did cred_def_id tails_dir max_creds tag =
     and_thenw (case generate_rev_reg P A w issuer_did cred_def_id tails_dir max_creds (''tag'' @ show_u32 tag) of
         (r, w) \<Rightarrow> (map_err (\<lambda>err. from_msg SerializationError
           (''Failed to locally create a new Revocation Registry: '' @ pm_debug_error P err)) r, w))
       (\<lambda>(rev_reg_id, rev_reg_def, rev_reg_entry) w.
     (Ok \<lparr>rvr_cred_def_id = cred_def_id, rvr_issuer_did = issuer_did, rvr_rev_reg_id = rev_reg_id,
        rvr_rev_reg_def = rev_reg_def, rvr_rev_reg_entry = rev_reg_entry, rvr_tails_dir = tails_dir,
        rvr_max_creds = max_creds, rvr_tag = tag, rvr_def_state = Pe_Built, rvr_delta_state = Pe_Built\<rparr>, w))"

text \<open>
  The operations on \<open>&mut self\<close>: the registry and the ledger are threaded together. The tails
  location is set before anything is sent.
\<close>

definition publish_rev_reg_def ::
  "prim_codec \<Rightarrow> ('w, 'l) registry_write \<Rightarrow> 'w \<Rightarrow> RevocationRegistry \<times> 'l \<Rightarrow> Did \<Rightarrow> string \<Rightarrow>
   unit VcxResult \<times> RevocationRegistry \<times> 'l" where
  "publish_rev_reg_def P U w s issuer_did tails_url = (case s of (self, l) \<Rightarrow>
     let self = self\<lparr>rvr_rev_reg_def := (rvr_rev_reg_def self)\<lparr>rgd_tails_location := tails_url\<rparr>\<rparr> in
     and_thenw (pure_w (from_serde (pm_de_rev_reg_def P (pm_ser_rev_reg_def P (rvr_rev_reg_def self)))) (self, l))
       (\<lambda>d (self, l).
     and_thenw (ledger_err (\<lambda>err. from_msg InvalidState (''Cannot publish revocation registry definition; '' @ show_ledger_error err))
         (ledger_w self (ru_publish_rev_reg_def U w l d issuer_did))) (\<lambda>_ (self, l).
     (Ok (), self\<lparr>rvr_def_state := Pe_Published\<rparr>, l))))"

definition publish_rev_reg_delta ::
  "prim_codec \<Rightarrow> ('w, 'l) registry_write \<Rightarrow> 'w \<Rightarrow> RevocationRegistry \<times> 'l \<Rightarrow> Did \<Rightarrow>
   unit VcxResult \<times> RevocationRegistry \<times> 'l" where
  "publish_rev_reg_delta P U w s issuer_did =
     and_thenw (pure_w (vcx_rev_reg_def_id (rvr_rev_reg_id (fst s))) s) (\<lambda>i s.
     and_thenw (pure_w (from_serde (pm_de_delta P (rvr_rev_reg_entry (fst s)))) s) (\<lambda>delta (self, l).
     and_thenw (ledger_err (\<lambda>err. from_msg InvalidRevocationEntry (''Cannot publish revocation entry; '' @ show_ledger_error err))
         (ledger_w self (ru_publish_rev_reg_delta U w l i delta issuer_did))) (\<lambda>_ (self, l).
     (Ok (), self\<lparr>rvr_delta_state := Pe_Published\<rparr>, l))))"

definition publish_built_rev_reg_delta ::
  "prim_codec \<Rightarrow> ('w, 'l) registry_write \<Rightarrow> 'w \<Rightarrow> RevocationRegistry \<times> 'l \<Rightarrow>
   unit VcxResult \<times> RevocationRegistry \<times> 'l" where
  "publish_built_rev_reg_delta P U w s =
     (if rvr_delta_state (fst s) = Pe_Published then (Ok (), s)
      else publish_rev_reg_delta P U w s (rvr_issuer_did (fst s)))"

definition publish_built_rev_reg_def ::
  "prim_codec \<Rightarrow> ('w, 'l) registry_write \<Rightarrow> 'w \<Rightarrow> RevocationRegistry \<times> 'l \<Rightarrow> string \<Rightarrow>
   unit VcxResult \<times> RevocationRegistry \<times> 'l" where
  "publish_built_rev_reg_def P U w s tails_url =
     (if rvr_def_state (fst s) = Pe_Published then (Ok (), s)
      else publish_rev_reg_def P U w s (rvr_issuer_did (fst s)) tails_url)"

definition publish_revocation_primitives ::
  "prim_codec \<Rightarrow> ('w, 'l) registry_write \<Rightarrow> 'w \<Rightarrow> RevocationRegistry \<times> 'l \<Rightarrow> string \<Rightarrow>
   unit VcxResult \<times> RevocationRegistry \<times> 'l" where
  "publish_revocation_primitives P U w s tails_url =
     and_thenw (publish_built_rev_reg_def P U w s tails_url) (\<lambda>_ s.
     publish_built_rev_reg_delta P U w s)"

definition registry_revoke_local ::
  "'w issuer_ops \<Rightarrow> 'l registry_read \<Rightarrow> RevocationRegistry \<Rightarrow> 'w \<Rightarrow> 'l \<Rightarrow> u32 \<Rightarrow> unit VcxResult \<times> 'w" where
  "registry_revoke_local A R self w l cred_rev_id =
     and_thenw (pure_w (vcx_rev_reg_def_id (rvr_rev_reg_id self)) w) (\<lambda>i w.
     and_thenw (pure_w (from_ledger (rr_get_rev_reg_delta R l i None None)) w) (\<lambda>rev_reg_delta_json w.
     and_thenw (pure_w (vcx_rev_reg_def_id (rvr_rev_reg_id self)) w) (\<lambda>i w.
     anon_w (io_revoke_local A w i cred_rev_id (fst rev_reg_delta_json)))))"

definition publish_local_revocations ::
  "'w issuer_ops \<Rightarrow> ('w, 'l) registry_write \<Rightarrow> RevocationRegistry \<Rightarrow> 'w \<times> 'l \<Rightarrow> Did \<Rightarrow> unit VcxResult \<times> 'w \<times> 'l" where
  "publish_local_revocations A U self s submitter_did =
     and_thenw (pure_w (vcx_rev_reg_def_id (rvr_rev_reg_id self)) s) (\<lambda>i s.
     and_thenw (pure_w (from_anon (io_get_delta A (fst s) i)) s) (\<lambda>found s.
     case found of
       Some delta \<Rightarrow>
         and_thenw (case s of (w, l) \<Rightarrow> ledger_err from_ledger_error
             (ledger_w w (ru_publish_rev_reg_delta U w l i delta submitter_did))) (\<lambda>_ (w, l).
         case io_clear_delta A w i of
           (Ok _, w) \<Rightarrow> (Ok (), w, l)
         | (Err err, w) \<Rightarrow> (vcx_err RevDeltaFailedToClear
             (''Failed to clear revocation delta storage for rev_reg_id: '' @ rvr_rev_reg_id self @ '', error: ''
               @ show_anoncreds_error err), w, l)
         | (Panic, w) \<Rightarrow> (Panic, w, l))
     | None \<Rightarrow>
         (vcx_err RevDeltaNotFound
            (''Failed to publish revocation delta for revocation registry '' @ rvr_rev_reg_id self @ '', no delta ''
              @ ''found. Possibly already published?''), s)))"

section \<open>Publishing once\<close>

text \<open>
  The writing ledger with two counters in front of its state: the definitions and the deltas it
  has accepted.
\<close>

definition count_ok :: "nat \<Rightarrow> 'a ledger_res \<Rightarrow> nat" where
  "count_ok n r = (case r of Ok _ \<Rightarrow> Suc n | _ \<Rightarrow> n)"

definition counted :: "('w, 'l) registry_write \<Rightarrow> ('w, nat \<times> nat \<times> 'l) registry_write" where
  "counted U = \<lparr>
     ru_publish_schema = (\<lambda>w (d, e, l) x did. case ru_publish_schema U w l x did of (r, l) \<Rightarrow> (r, d, e, l)),
     ru_publish_cred_def = (\<lambda>w (d, e, l) x did. case ru_publish_cred_def U w l x did of (r, l) \<Rightarrow> (r, d, e, l)),
     ru_publish_rev_reg_def = (\<lambda>w (d, e, l) x did. case ru_publish_rev_reg_def U w l x did of
       (r, l) \<Rightarrow> (r, count_ok d r, e, l)),
     ru_publish_rev_reg_delta = (\<lambda>w (d, e, l) i x did. case ru_publish_rev_reg_delta U w l i x did of
       (r, l) \<Rightarrow> (r, d, count_ok e r, l))\<rparr>"

text \<open>Publishing again and again, whatever came of it, each time with a tails location.\<close>

fun publish_attempts ::
  "prim_codec \<Rightarrow> ('w, 'l) registry_write \<Rightarrow> 'w \<Rightarrow> RevocationRegistry \<times> 'l \<Rightarrow> string list \<Rightarrow> RevocationRegistry \<times> 'l" where
  "publish_attempts P U w s [] = s"
| "publish_attempts P U w s (tails_url # rest) =
     publish_attempts P U w (snd (publish_revocation_primitives P U w s tails_url)) rest"

text \<open>The flags of a registry say what the ledger has accepted, and the delta never comes first.\<close>

definition state_count :: "PublicEntityStateType \<Rightarrow> nat" where
  "state_count s = (if s = Pe_Published then 1 else 0)"

fun flags_count :: "RevocationRegistry \<times> nat \<times> nat \<times> 'l \<Rightarrow> bool" where
  "flags_count (self, d, e, l) \<longleftrightarrow>
     d = state_count (rvr_def_state self) \<and> e = state_count (rvr_delta_state self) \<and> e \<le> d"

lemma state_count_simps [simp]: "state_count Pe_Published = 1" "state_count Pe_Built = 0"
  by (simp_all add: state_count_def)

lemma not_published: "s \<noteq> Pe_Published \<longleftrightarrow> s = Pe_Built"
  by (cases s) auto

lemma publish_def_counts:
  assumes "flags_count s"
  shows "flags_count (snd (publish_built_rev_reg_def P (counted U) w s tails_url)) \<and>
    (fst (publish_built_rev_reg_def P (counted U) w s tails_url) = Ok () \<longrightarrow>
      rvr_def_state (fst (snd (publish_built_rev_reg_def P (counted U) w s tails_url))) = Pe_Published)"
  using assms
  by (cases s)
    (auto simp: publish_built_rev_reg_def_def publish_rev_reg_def_def counted_def ledger_err_def ledger_w_def
      count_ok_def not_published Let_def split: result.splits prod.splits)

lemma publish_delta_counts:
  assumes "flags_count s" and "rvr_def_state (fst s) = Pe_Published"
  shows "flags_count (snd (publish_built_rev_reg_delta P (counted U) w s))"
  using assms
  by (cases s)
    (auto simp: publish_built_rev_reg_delta_def publish_rev_reg_delta_def counted_def ledger_err_def ledger_w_def
      count_ok_def not_published split: result.splits prod.splits)

lemma publish_primitives_counts:
  assumes "flags_count s"
  shows "flags_count (snd (publish_revocation_primitives P (counted U) w s tails_url))"
proof -
  obtain r t where p: "publish_built_rev_reg_def P (counted U) w s tails_url = (r, t)" by (metis prod.collapse)
  with publish_def_counts [OF assms, of P U w tails_url] have "flags_count t" "r = Ok () \<Longrightarrow> rvr_def_state (fst t) = Pe_Published"
    by auto
  with p publish_delta_counts [of t P U w] show ?thesis by (cases r) (auto simp: publish_revocation_primitives_def)
qed

text \<open>
  C16. However often an issuer tries to publish a new registry, and whatever fails on the way, the
  ledger accepts its definition at most once and its first delta at most once and not before the
  definition; the two flags of the registry tell exactly what was accepted.
\<close>

theorem registry_published_once:
  assumes "rvr_def_state self = Pe_Built" and "rvr_delta_state self = Pe_Built"
    and "publish_attempts P (counted U) w (self, 0, 0, l) urls = (self', d, e, l')"
  shows "d = state_count (rvr_def_state self') \<and> e = state_count (rvr_delta_state self') \<and> e \<le> d \<and> d \<le> 1"
proof -
  have "flags_count (publish_attempts P (counted U) w s urls)" if "flags_count s" for s
    using that by (induction urls arbitrary: s) (simp_all add: publish_primitives_counts del: flags_count.simps)
  from this [of "(self, 0, 0, l)"] assms show ?thesis by (simp add: state_count_def)
qed

text \<open>A registry that has been published is not published again, under no other tails location.\<close>

lemma published_registry_stays:
  assumes "rvr_def_state self = Pe_Published" and "rvr_delta_state self = Pe_Published"
  shows "publish_revocation_primitives P U w (self, l) tails_url = (Ok (), self, l)"
  using assms by (simp add: publish_revocation_primitives_def publish_built_rev_reg_def_def publish_built_rev_reg_delta_def)

text \<open>
  C17. A credential definition is written only when the ledger has just said that it has none under
  the identifier: any other answer, errors included, leaves the ledger as it was.
\<close>

theorem cred_def_never_overwritten:
  assumes "publish_cred_def P R U w l self = (r, l')"
    and "rr_get_cred_def R l (cdp_id self) (Some (cdp_issuer_did self)) \<noteq> Err Le_LedgerItemNotFound"
  shows "l' = l \<and> (\<forall>x. r \<noteq> Ok x)"
  using assms
  by (auto simp: publish_cred_def_def try_get_cred_def_from_ledger_def split: result.splits VcxLedgerError.splits)

section \<open>Local revocations and the ledger\<close>

fun revoke_all ::
  "'w issuer_ops \<Rightarrow> 'l registry_read \<Rightarrow> RevocationRegistry \<Rightarrow> 'w \<Rightarrow> 'l \<Rightarrow> u32 list \<Rightarrow> unit VcxResult \<times> 'w" where
  "revoke_all A R self w l [] = (Ok (), w)"
| "revoke_all A R self w l (i # rest) =
     and_thenw (registry_revoke_local A R self w l i) (\<lambda>_ w. revoke_all A R self w l rest)"

lemma vcx_rev_reg_def_id_Ok: "vcx_rev_reg_def_id s = Ok i \<Longrightarrow> i = s"
  by (auto simp: vcx_rev_reg_def_id_def RevocationRegistryDefinitionId_new_def)

lemma registry_revoke_Ok:
  assumes "registry_revoke_local (anoncreds_ops W L C ins now) R self w l i = (Ok (), w')"
    and "rr_get_rev_reg_delta R l (rvr_rev_reg_id self) None None = Ok (ld, t)"
  shows "backend_revoke_credential_local W L C ins now w (rvr_rev_reg_id self) i ld = (Ok (), w')"
  using assms
  by (auto simp: registry_revoke_local_def anoncreds_ops_def anon_w_def from_anon_def prod_eq_iff split: result.splits
      dest!: vcx_rev_reg_def_id_Ok)

lemma revoke_all_pending:
  assumes "record_store W view" and "status_laws L C" and "inserts ins" and "delta_reads C"
    and "rr_get_rev_reg_delta R l (rvr_rev_reg_id self) None None = Ok (ld, t)"
    and "revoke_all (anoncreds_ops W L C ins now) R self w l is = (Ok (), w')"
    and "pending_delta C (view w) (rvr_rev_reg_id self) ld d" and "sorted_wrt (<) (rrd_revoked d)"
  shows "\<exists>d'. pending_delta C (view w') (rvr_rev_reg_id self) ld d' \<and> sorted_wrt (<) (rrd_revoked d') \<and>
    set (rrd_revoked d') = set is \<union> set (rrd_revoked d) \<and>
    (is \<noteq> [] \<longrightarrow> view w' (Rc_RevRegDelta, rvr_rev_reg_id self) = Some (cc_ser_delta C d'))"
  using assms(6-8)
proof (induction "is" arbitrary: w d)
  case (Cons i "is")
  from Cons.prems(1) obtain w1 where
    one: "registry_revoke_local (anoncreds_ops W L C ins now) R self w l i = (Ok (), w1)"
    and rest: "revoke_all (anoncreds_ops W L C ins now) R self w1 l is = (Ok (), w')"
    by (auto simp: and_thenw_Ok)
  from revoke_local_effect [OF assms(1-4) Cons.prems(2,3) registry_revoke_Ok [OF one assms(5)]] obtain d1 where
    d1: "view w1 (Rc_RevRegDelta, rvr_rev_reg_id self) = Some (cc_ser_delta C d1)" "sorted_wrt (<) (rrd_revoked d1)"
      "set (rrd_revoked d1) = insert i (set (rrd_revoked d))" by blast
  have p: "pending_delta C (view w1) (rvr_rev_reg_id self) ld d1" using d1(1) by (simp add: pending_delta_def)
  show ?case
  proof (cases "is = []")
    case True
    with rest d1 p show ?thesis by (intro exI [of _ d1]) auto
  next
    case False
    with Cons.IH [OF rest p d1(2)] d1(3) show ?thesis by auto
  qed
qed auto

lemma io_ops_simps [simp]:
  "io_get_delta (anoncreds_ops W L C ins now) = backend_get_rev_reg_delta W C"
  "io_clear_delta (anoncreds_ops W L C ins now) = backend_clear_rev_reg_delta W C"
  by (simp_all add: anoncreds_ops_def)

text \<open>Nothing was sent, the ledger refused, or the delta was accepted and clearing it decides.\<close>

lemma publish_local_cases:
  assumes "publish_local_revocations A U self (w, l) did = (r, w', l')"
  obtains "w' = w" and "l' = l" and "r \<noteq> Ok ()"
  | d x where "io_get_delta A w (rvr_rev_reg_id self) = Ok (Some d)"
      and "ru_publish_rev_reg_delta U w l (rvr_rev_reg_id self) d did = (x, l')" and "x \<noteq> Ok ()" and "w' = w" and "r \<noteq> Ok ()"
  | d c where "io_get_delta A w (rvr_rev_reg_id self) = Ok (Some d)"
      and "ru_publish_rev_reg_delta U w l (rvr_rev_reg_id self) d did = (Ok (), l')"
      and "io_clear_delta A w (rvr_rev_reg_id self) = (c, w')" and "r = Ok () \<longleftrightarrow> c = Ok ()"
proof (cases "\<exists>d. vcx_rev_reg_def_id (rvr_rev_reg_id self) = Ok (rvr_rev_reg_id self) \<and>
    io_get_delta A w (rvr_rev_reg_id self) = Ok (Some d)")
  case True
  then obtain d where d: "vcx_rev_reg_def_id (rvr_rev_reg_id self) = Ok (rvr_rev_reg_id self)"
    "io_get_delta A w (rvr_rev_reg_id self) = Ok (Some d)" by blast
  obtain x m where u: "ru_publish_rev_reg_delta U w l (rvr_rev_reg_id self) d did = (x, m)" by fastforce
  obtain c v where c: "io_clear_delta A w (rvr_rev_reg_id self) = (c, v)" by fastforce
  have run: "l' = m \<and> (if x = Ok () then w' = v \<and> (r = Ok () \<longleftrightarrow> c = Ok ()) else w' = w \<and> r \<noteq> Ok ())"
    using assms d u c by (cases x; cases c) (auto simp: publish_local_revocations_def ledger_err_def ledger_w_def)
  show thesis
  proof (cases "x = Ok ()")
    case True
    with run u c show thesis by (intro that(3) [OF d(2)]) simp_all
  next
    case False
    with run u show thesis by (intro that(2) [OF d(2)]) simp_all
  qed
next
  case False
  with assms that(1) show thesis
    by (auto simp: publish_local_revocations_def from_anon_def split: result.splits option.splits
        dest: vcx_rev_reg_def_id_Ok)
qed

lemma clear_delta_effect:
  assumes "record_store W view" and "backend_clear_rev_reg_delta W C w rid = (r, w')"
    and "backend_get_rev_reg_delta W C w rid = Ok (Some d)"
  shows "r = Ok () \<and> view w' = (view w)((Rc_RevRegDelta, rid) := None) \<or> r \<noteq> Ok () \<and> view w' = view w"
proof -
  obtain x where x: "rw_delete_record W w Rc_RevRegDelta rid = (x, w')" "r = from_records x"
    using assms(2,3) by (auto simp: backend_clear_rev_reg_delta_def split: prod.splits)
  from delete_cases [OF assms(1) x(1)] x(2) show ?thesis by auto
qed

lemma no_delta_not_published:
  assumes "record_store W view" and "view w (Rc_RevRegDelta, rvr_rev_reg_id self) = None"
  shows "\<exists>r. publish_local_revocations (anoncreds_ops W L C ins now) U self (w, l) did = (r, w, l) \<and> r \<noteq> Ok ()"
proof -
  have "backend_get_rev_reg_delta W C w (rvr_rev_reg_id self) \<noteq> Ok (Some d)" for d
    using get_delta_view [OF assms(1)] assms(2) by fastforce
  then show ?thesis
    by (auto simp: publish_local_revocations_def from_anon_def split: result.splits option.splits
        dest!: vcx_rev_reg_def_id_Ok)
qed

text \<open>
  C3. Credentials that were revoked locally are revoked on the ledger: the delta an issuer publishes
  after revoking names, in ascending order, the indices that were revoked and those that the
  ledger's own delta had; afterwards nothing waits any more and publishing again sends nothing.
\<close>

theorem local_revocations_reach_ledger:
  assumes "record_store W view" and "status_laws L C" and "inserts ins" and "delta_reads C"
    and "rr_get_rev_reg_delta R l (rvr_rev_reg_id self) None None = Ok (ld, t)" and "sorted_wrt (<) (rrd_revoked ld)"
    and "view w (Rc_RevRegDelta, rvr_rev_reg_id self) = None"
    and "revoke_all (anoncreds_ops W L C ins now) R self w l is = (Ok (), w1)"
    and "publish_local_revocations (anoncreds_ops W L C ins now) U self (w1, l) did = (Ok (), w2, l2)"
  shows "\<exists>d. ru_publish_rev_reg_delta U w1 l (rvr_rev_reg_id self) d did = (Ok (), l2) \<and>
    sorted_wrt (<) (rrd_revoked d) \<and> set (rrd_revoked d) = set is \<union> set (rrd_revoked ld) \<and>
    (\<exists>r. publish_local_revocations (anoncreds_ops W L C ins now) U self (w2, l2) did = (r, w2, l2) \<and> r \<noteq> Ok ())"
proof -
  have "pending_delta C (view w) (rvr_rev_reg_id self) ld ld" using assms(7) by (simp add: pending_delta_def)
  from revoke_all_pending [OF assms(1-5,8) this assms(6)] obtain d' where
    d': "pending_delta C (view w1) (rvr_rev_reg_id self) ld d'" "sorted_wrt (<) (rrd_revoked d')"
      "set (rrd_revoked d') = set is \<union> set (rrd_revoked ld)" by blast
  from assms(9) obtain d where
    d: "backend_get_rev_reg_delta W C w1 (rvr_rev_reg_id self) = Ok (Some d)"
      "ru_publish_rev_reg_delta U w1 l (rvr_rev_reg_id self) d did = (Ok (), l2)"
      "backend_clear_rev_reg_delta W C w1 (rvr_rev_reg_id self) = (Ok (), w2)"
    by (cases rule: publish_local_cases) auto
  from get_delta_view [OF assms(1) d(1)] assms(4) d'(1) have "d' = d"
    by (auto simp: pending_delta_def delta_reads_def)
  from clear_delta_effect [OF assms(1) d(3,1)] have "view w2 (Rc_RevRegDelta, rvr_rev_reg_id self) = None"
    by auto
  from no_delta_not_published [OF assms(1) this] have
    "\<exists>r. publish_local_revocations (anoncreds_ops W L C ins now) U self (w2, l2) did = (r, w2, l2) \<and> r \<noteq> Ok ()" .
  with d(2) d'(2,3) \<open>d' = d\<close> show ?thesis by blast
qed

text \<open>
  When the stored delta cannot be cleared after it was published, it still waits: the next
  attempt finds the same delta and sends it again.
\<close>

theorem uncleared_delta_published_again:
  assumes "record_store W view"
    and "publish_local_revocations (anoncreds_ops W L C ins now) U self (w, l) did = (r, w', l')"
    and "r \<noteq> Ok ()" and "l' \<noteq> l"
    and "\<And>d x m. ru_publish_rev_reg_delta U w l (rvr_rev_reg_id self) d did = (x, m) \<Longrightarrow> x \<noteq> Ok () \<Longrightarrow> m = l"
  shows "\<exists>d v. ru_publish_rev_reg_delta U w l (rvr_rev_reg_id self) d did = (Ok (), l') \<and>
    view w' (Rc_RevRegDelta, rvr_rev_reg_id self) = Some v \<and> cc_de_delta C v = Ok d"
  using assms(2)
proof (cases rule: publish_local_cases)
  case (3 d c)
  with assms(3) have "c \<noteq> Ok ()" "backend_clear_rev_reg_delta W C w (rvr_rev_reg_id self) = (c, w')"
    "backend_get_rev_reg_delta W C w (rvr_rev_reg_id self) = Ok (Some d)" by simp_all
  with clear_delta_effect [OF assms(1)] get_delta_view [OF assms(1)] have "view w' = view w"
    "\<exists>v. view w (Rc_RevRegDelta, rvr_rev_reg_id self) = Some v \<and> cc_de_delta C v = Ok d" by blast+
  with 3(2) show ?thesis by auto
qed (use assms(4,5) in auto)

section \<open>Rotating a key\<close>

text \<open>
  C20. Rotating the key of a DID over the Askar wallet succeeds and leaves the owner without it: the
  ledger has the new key, the wallet names it, and signing with it fails.
\<close>

theorem rotation_locks_out:
  assumes "askar_store A ev kv" and "available A" and "codec_laws X"
    and "rotate_verkey E K (askar_wallet K L X N A) I (w, l) did = (Ok (), w', l')"
  shows "\<exists>k. wl_key_for_did (askar_wallet K L X N A) w' (did_text did) = Ok k \<and>
    wl_sign (askar_wallet K L X N A) w' k msg = Err (not_found Rc_Key (key_base58 K k))"
proof -
  from assms(4) obtain k w1 where start: "askar_replace_did_key_start K L X N A w (did_text did) None = (Ok k, w1)"
    and rest: "rotate_verkey_apply E K (askar_wallet K L X N A) I (w1, l) did (key_base58 K k) = (Ok (), w', l')"
    by (auto simp: rotate_verkey_def and_thenw_Ok askar_wallet_def from_wallet_def split: prod.splits)
  from rest obtain pk res a b where
    pub: "(case iw_publish_nym I l w1 did did (Some pk) None None of (r, l') \<Rightarrow> (from_ledger r, w1, l')) = (Ok res, a, b)"
    and ap: "(case askar_replace_did_key_apply K X A a (did_text did) of (r, w'') \<Rightarrow> (from_wallet r, w'', b)) = (Ok (), w', l')"
    by (auto simp: rotate_verkey_apply_def and_thenw_Ok pure_w_def Let_def askar_wallet_def
        simp del: and_thenw_pure split: if_splits)
  from pub have "a = w1" by (simp add: case_prod_unfold)
  with ap have "askar_replace_did_key_apply K X A w1 (did_text did) = (Ok (), w')"
    by (simp add: case_prod_unfold from_wallet_def prod_eq_iff)
  from replaced_key_gone [OF assms(1-3) start this] show ?thesis by (auto simp: askar_wallet_def)
qed

section \<open>A concrete instance\<close>

text \<open>A ledger that keeps the deltas it is sent and knows nothing else.\<close>

definition sample_prim_codec :: prim_codec where
  "sample_prim_codec = \<lparr>pm_ser_cred_def = (\<lambda>_. []), pm_de_cred_def = (\<lambda>_. Err \<lparr>se_display = [], se_debug = []\<rparr>),
     pm_ser_rev_reg_def = (\<lambda>_. []), pm_de_rev_reg_def = (\<lambda>_. Ok sample_rev_def), pm_ser_rev_reg = (\<lambda>_. []),
     pm_de_delta = (\<lambda>_. Ok (sample_delta [])), pm_debug_error = (\<lambda>_. [])\<rparr>"

definition sample_reads :: "RevocationRegistryDelta list registry_read" where
  "sample_reads = \<lparr>rr_get_schema = (\<lambda>_ _ _. Err Le_LedgerItemNotFound),
     rr_get_cred_def = (\<lambda>_ _ _. Err (Le_IOError [])), rr_get_rev_reg_delta = (\<lambda>_ _ _ _. Ok (sample_delta [], 0))\<rparr>"

definition sample_writes :: "('w, RevocationRegistryDelta list) registry_write" where
  "sample_writes = \<lparr>ru_publish_schema = (\<lambda>w l x d. (Ok (), l)), ru_publish_cred_def = (\<lambda>w l x d. (Ok (), l)),
     ru_publish_rev_reg_def = (\<lambda>w l x d. (Ok (), l)), ru_publish_rev_reg_delta = (\<lambda>w l i x d. (Ok (), l @ [x]))\<rparr>"

definition built_registry :: RevocationRegistry where
  "built_registry = \<lparr>rvr_cred_def_id = ''c:1'', rvr_issuer_did = legacy_did, rvr_rev_reg_id = ''r:1'',
     rvr_rev_reg_def = sample_rev_def, rvr_rev_reg_entry = [], rvr_tails_dir = [], rvr_max_creds = 4, rvr_tag = 1,
     rvr_def_state = Pe_Built, rvr_delta_state = Pe_Built\<rparr>"

lemma built_registry_id [simp]:
  "rvr_rev_reg_id built_registry = ''r:1''" "vcx_rev_reg_def_id ''r:1'' = Ok ''r:1''"
  by (simp_all add: built_registry_def vcx_rev_reg_def_id_def sample_registry_id)

theorem registry_published_once_witness:
  "\<exists>self' d e l'. publish_attempts sample_prim_codec (counted sample_writes) () (built_registry, 0, 0, []) [''u'', ''v''] =
      (self', d, e, l') \<and> d = state_count (rvr_def_state self') \<and> e \<le> d \<and> d \<le> 1"
proof -
  obtain self' d e l' where run: "publish_attempts sample_prim_codec (counted sample_writes) () (built_registry, 0, 0, [])
      [''u'', ''v''] = (self', d, e, l')" by (metis prod.collapse)
  from registry_published_once [OF _ _ run] show ?thesis using run by (auto simp: built_registry_def)
qed

definition sample_cred_def_prim :: CredentialDef where
  "sample_cred_def_prim = \<lparr>cdp_id = ''c:1'', cdp_tag = ''t'', cdp_source_id = [], cdp_issuer_did = legacy_did,
     cdp_cred_def_json = [], cdp_support_revocation = True, cdp_schema_id = ''s:1'', cdp_state = Pe_Built\<rparr>"

theorem cred_def_never_overwritten_witness:
  "snd (publish_cred_def sample_prim_codec sample_reads sample_writes () [] sample_cred_def_prim) = []"
proof -
  obtain r l' where run: "publish_cred_def sample_prim_codec sample_reads sample_writes () [] sample_cred_def_prim = (r, l')"
    by (metis prod.collapse)
  from cred_def_never_overwritten [OF run] show ?thesis using run by (simp add: sample_reads_def)
qed

lemma sample_marks: "revoked_indices ((replicate 4 False @ False # replicate 2 False)[2 := True]) = [2]"
  by code_simp

lemma sample_revoke_all:
  "fst (revoke_all (anoncreds_ops list_wallet sample_anc_lib sample_anc_codec sample_ins 7) sample_reads built_registry
    sample_registry [] [2, 1]) = Ok ()"
  by (simp add: registry_revoke_local_def sample_reads_def anoncreds_ops_def anon_w_def
      backend_revoke_credential_local_def list_wallet_def pure_w_def sample_registry_def put_record_def
      get_wallet_record_value_def is_at_def sample_anc_lib_def from_records_def from_de_def from_lib_def from_conv_def
      sample_codec_fields sample_codec_more backend_get_rev_reg_delta_def sample_rev_def_def rev_reg_def_to_anc_def
      status_list_of_delta_def mark_bit_def RevStatusList_new_def sample_registry_id from_at_def sample_delta_def
      delta_of_status_list_def mark_at_def update_value_def Let_def sample_marks)

lemma sample_publish:
  assumes "revoke_all (anoncreds_ops list_wallet sample_anc_lib sample_anc_codec sample_ins 7) sample_reads
      built_registry sample_registry [] [2, 1] = (Ok (), w1)"
  shows "\<exists>w2 l2. publish_local_revocations (anoncreds_ops list_wallet sample_anc_lib sample_anc_codec sample_ins 7)
      sample_writes built_registry (w1, []) legacy_did = (Ok (), w2, l2)"
proof -
  have p: "pending_delta sample_anc_codec (list_view sample_registry) (rvr_rev_reg_id built_registry) (sample_delta [])
      (sample_delta [])" and s: "sorted_wrt (<) (rrd_revoked (sample_delta []))"
    by (simp_all add: sample_delta_def pending_delta_def sample_registry_def list_view_def)
  have read: "rr_get_rev_reg_delta sample_reads [] (rvr_rev_reg_id built_registry) None None = Ok (sample_delta [], 0)"
    by (simp add: sample_reads_def)
  obtain d where "list_view w1 (Rc_RevRegDelta, ''r:1'') = Some (cc_ser_delta sample_anc_codec d)"
    using revoke_all_pending [OF list_record_store sample_status_laws sample_inserts sample_delta_reads read assms p s]
    by auto
  then obtain r where r: "find (is_at Rc_RevRegDelta ''r:1'') w1 = Some r" "rec_value r = cc_ser_delta sample_anc_codec d"
    by (auto simp: list_view_find)
  then have "get_wallet_record_value list_wallet w1 (cc_de_delta sample_anc_codec) Rc_RevRegDelta ''r:1'' = Ok d"
    by (simp add: get_wallet_record_value_def list_wallet_def from_records_def from_de_def sample_codec_more)
  then have "backend_get_rev_reg_delta list_wallet sample_anc_codec w1 ''r:1'' = Ok (Some d)"
    by (simp add: backend_get_rev_reg_delta_def)
  moreover have "fst (rw_delete_record list_wallet w1 Rc_RevRegDelta ''r:1'') = Ok ()"
    using r(1) by (simp add: list_wallet_def)
  ultimately show ?thesis
    by (auto simp: publish_local_revocations_def sample_writes_def ledger_err_def ledger_w_def
        backend_clear_rev_reg_delta_def from_records_def split: prod.splits)
qed

theorem local_revocations_reach_ledger_witness:
  "\<exists>(w :: Record list) d. ru_publish_rev_reg_delta sample_writes w [] ''r:1'' d legacy_did = (Ok (), [d]) \<and>
    sorted_wrt (<) (rrd_revoked d) \<and> set (rrd_revoked d) = {1, 2}"
proof -
  obtain w1 where rev: "revoke_all (anoncreds_ops list_wallet sample_anc_lib sample_anc_codec sample_ins 7) sample_reads
      built_registry sample_registry [] [2, 1] = (Ok (), w1)"
    using sample_revoke_all by (metis prod.collapse)
  have none: "list_view sample_registry (Rc_RevRegDelta, rvr_rev_reg_id built_registry) = None"
    by (simp add: sample_registry_def list_view_def)
  have read: "rr_get_rev_reg_delta sample_reads [] (rvr_rev_reg_id built_registry) None None = Ok (sample_delta [], 0)"
    "sorted_wrt (<) (rrd_revoked (sample_delta []))" by (simp_all add: sample_reads_def sample_delta_def)
  obtain w2 l2 where pub: "publish_local_revocations (anoncreds_ops list_wallet sample_anc_lib sample_anc_codec sample_ins 7)
      sample_writes built_registry (w1, []) legacy_did = (Ok (), w2, l2)"
    using sample_publish rev by blast
  from local_revocations_reach_ledger [OF list_record_store sample_status_laws sample_inserts sample_delta_reads read none rev pub]
  obtain d where "ru_publish_rev_reg_delta sample_writes w1 [] ''r:1'' d legacy_did = (Ok (), l2)"
    "sorted_wrt (<) (rrd_revoked d)" "set (rrd_revoked d) = {1, 2}" by (auto simp: sample_delta_def)
  then show ?thesis by (intro exI [of _ w1] exI [of _ d]) (simp add: sample_writes_def)
qed

text \<open>The owner of the key \<open>a\<close> rotates to the key of the letters \<open>b\<close>; the ledger accepts it.\<close>

definition rotating_wallet :: "sample_store wallet" where
  "rotating_wallet = askar_wallet sample_kx sample_kms sample_aw_codec (sample_rn\<lparr>rn_seed := seed_of (CHR ''b'')\<rparr>) sample_askar"

definition accepting_indy :: "(sample_store, unit) indy_write" where
  "accepting_indy = \<lparr>iw_publish_nym = (\<lambda>l w a b k r x. (Ok [], l)), iw_add_attr = (\<lambda>l w d a. (Ok [], l)),
     iw_write_did = (\<lambda>l w a b k r x. (Ok [], l))\<rparr>"

definition rotated_did :: Did where
  "rotated_did = \<lparr>did_text = take 16 (seed_of (CHR ''a'')), did_method_range = None, did_namespace_range = None,
     did_id_range = (0, 16)\<rparr>"

lemma rotation_seed: "seed_from_opt (sample_rn\<lparr>rn_seed := s\<rparr>) None = seed_from_opt sample_rn (Some s)"
  by (simp add: seed_from_opt_def)

lemma sample_rotation:
  "\<exists>w'. rotate_verkey (sample_ext (\<lambda>_. Ok (JObject [(''op'', JString ''REPLY'')]))) sample_kx rotating_wallet accepting_indy
    (created_store, ()) rotated_did = (Ok (), w', ())"
proof -
  have start: "askar_replace_did_key_start sample_kx sample_kms sample_aw_codec (sample_rn\<lparr>rn_seed := seed_of (CHR ''b'')\<rparr>)
      sample_askar created_store (take 16 (seed_of (CHR ''a''))) None = (Ok (letter_vk (CHR ''b'')), started_store)"
    using sample_start unfolding askar_replace_did_key_start_def rotation_seed .
  obtain w where ap: "askar_replace_did_key_apply sample_kx sample_aw_codec sample_askar started_store
      (take 16 (seed_of (CHR ''a''))) = (Ok (), w)" using sample_apply by blast
  have "from_base58 sample_kx (seed_of (CHR ''b'')) Ed25519 = Ok (letter_vk (CHR ''b''))"
    by (simp add: from_base58_def sample_kx_def Key_new_def letter_vk_def)
  with start ap show ?thesis
    by (simp add: rotate_verkey_def rotate_verkey_apply_def rotating_wallet_def askar_wallet_def rotated_did_def
        accepting_indy_def sample_ext_def json_index_def)
qed

theorem rotation_locks_out_witness:
  "\<exists>w k. wl_key_for_did rotating_wallet w (take 16 (seed_of (CHR ''a''))) = Ok k \<and>
    wl_sign rotating_wallet w k ''m'' = Err (not_found Rc_Key (key_base58 sample_kx k))"
proof -
  from sample_rotation obtain w' where "rotate_verkey (sample_ext (\<lambda>_. Ok (JObject [(''op'', JString ''REPLY'')]))) sample_kx
      rotating_wallet accepting_indy (created_store, ()) rotated_did = (Ok (), w', ())" by blast
  from rotation_locks_out [OF sample_askar_store sample_available sample_codec_laws this [unfolded rotating_wallet_def], of "''m''"]
  show ?thesis by (intro exI [of _ w']) (auto simp: rotating_wallet_def rotated_did_def)
qed

end
