(* ===== verification/Indy_Ledger.thy ===== *)
theory Indy_Ledger
  imports Ledger_Responses Primitives
begin

text \<open>
  The client of an Indy ledger (\<open>aries_vcx_ledger/src/ledger/indy_vdr_ledger.rs\<close> with
  \<open>type_conversion.rs\<close>, \<open>common.rs\<close>, \<open>response_cacher\<close> and \<open>request_submitter\<close>). Requests are built,
  signed and sent by the crate \<open>indy_vdr\<close>, whose functions are the record \<open>vdr\<close>; a request is a value
  of the type \<open>'r\<close>. Sending is the argument \<open>submit\<close>; the pool's state is explicit. The cache of
  responses is the crate's \<open>InMemoryResponseCacher\<close> over an LRU map (the record \<open>lru\<close>). Instants are
  numbers of nanoseconds and are arguments.
\<close>

section \<open>Errors\<close>

datatype VdrErrorKind =
    Vk_Config | Vk_Connection | Vk_FileSystem | Vk_Input | Vk_Resource | Vk_Unavailable | Vk_Unexpected
  | Vk_Incompatible | Vk_PoolNoConsensus | Vk_Resolver | Vk_PoolTimeout | Vk_PoolRequestFailed string

text \<open>A \<open>VdrError\<close> is its kind and its text.\<close>

type_synonym 'a vdr_res = "(VdrErrorKind \<times> string, 'a) result"

fun from_vdr_error :: "VdrErrorKind \<times> string \<Rightarrow> VcxLedgerError" where
  "from_vdr_error (Vk_Config, err) = Le_InvalidConfiguration err"
| "from_vdr_error (Vk_Connection, err) = Le_PoolLedgerConnect err"
| "from_vdr_error (Vk_FileSystem, err) = Le_IOError err"
| "from_vdr_error (Vk_Input, err) = Le_InvalidInput err"
| "from_vdr_error (Vk_PoolRequestFailed _, err) = Le_InvalidLedgerResponse err"
| "from_vdr_error (_, err) = Le_UnknownError err"

definition from_validation :: "(string, 'a) result \<Rightarrow> 'a ledger_res" where
  "from_validation = map_err Le_InvalidInput"

fun from_parser_error :: "ParserError \<Rightarrow> VcxLedgerError" where
  "from_parser_error (Lp_JsonError e) = Le_InvalidJson e"
| "from_parser_error (Lp_LedgerItemNotFound _) = Le_LedgerItemNotFound"
| "from_parser_error (Lp_InvalidTransaction e) = Le_InvalidLedgerResponse (show_ParserError (Lp_InvalidTransaction e))"

text \<open>\<open>From<Box<dyn Error>>\<close>, and \<open>?\<close> on the errors of the wallet, of the parsers and of serde.\<close>

definition from_boxed :: "(string, 'a) result \<Rightarrow> 'a ledger_res" where
  "from_boxed = map_err Le_InvalidState"

definition from_vdr :: "'a vdr_res \<Rightarrow> 'a ledger_res" where
  "from_vdr = map_err from_vdr_error"

definition from_parser :: "(ParserError, 'a) result \<Rightarrow> 'a ledger_res" where
  "from_parser = map_err from_parser_error"

definition json_err :: "'a serde \<Rightarrow> 'a ledger_res" where
  "json_err = map_err (\<lambda>e. Le_InvalidJson (se_display e))"

definition did_err :: "(ParseError, 'a) result \<Rightarrow> 'a ledger_res" where
  "did_err = map_err (\<lambda>e. Le_ParseError (show_ParseError e))"

lemmas ledger_conv = from_validation_def from_boxed_def from_vdr_def from_parser_def json_err_def did_err_def

definition map_error_not_found_to_none :: "('e \<Rightarrow> VcxLedgerError) \<Rightarrow> ('e, 'a) result \<Rightarrow> 'a option ledger_res" where
  "map_error_not_found_to_none into res = (case res of
     Ok response \<Rightarrow> Ok (Some response)
   | Err err \<Rightarrow> (case into err of Le_LedgerItemNotFound \<Rightarrow> Ok None | e \<Rightarrow> Err e)
   | Panic \<Rightarrow> Panic)"

section \<open>The cache of responses\<close>

text \<open>The crate \<open>lru\<close>: \<open>new\<close> with a capacity, \<open>put\<close>, \<open>get\<close> (which marks the entry as used) and \<open>pop\<close>.\<close>

record 'c lru =
  lc_new :: "nat \<Rightarrow> 'c"
  lc_put :: "string \<Rightarrow> string \<times> nat \<Rightarrow> 'c \<Rightarrow> 'c"
  lc_get :: "string \<Rightarrow> 'c \<Rightarrow> (string \<times> nat) option \<times> 'c"
  lc_pop :: "string \<Rightarrow> 'c \<Rightarrow> 'c"

record CacherConfig =
  cc_ttl :: nat
  cc_capacity :: nat

text \<open>The builder: a time to live, then a capacity that is not zero, then \<open>build\<close>.\<close>

definition config_capacity :: "nat \<Rightarrow> nat \<Rightarrow> (nat \<times> nat) ledger_res" where
  "config_capacity ttl capacity =
     and_then (ok_or (if capacity = 0 then None else Some capacity)
       (Le_InvalidOption ''Failed to parse cache capacity into NonZeroUsize'')) (\<lambda>capacity.
     Ok (ttl, capacity))"

definition config_build :: "nat \<times> nat \<Rightarrow> CacherConfig" where
  "config_build = (\<lambda>(ttl, capacity). \<lparr>cc_ttl = ttl, cc_capacity = capacity\<rparr>)"

definition cacher_new :: "'c lru \<Rightarrow> CacherConfig \<Rightarrow> 'c" where
  "cacher_new U config = lc_new U (cc_capacity config)"

text \<open>The value is a text, stored as its JSON.\<close>

record text_codec =
  tc_ser :: "string \<Rightarrow> string serde"
  tc_de :: "string \<Rightarrow> string serde"

definition cacher_put ::
  "'c lru \<Rightarrow> text_codec \<Rightarrow> nat \<Rightarrow> string \<Rightarrow> string \<Rightarrow> 'c \<Rightarrow> unit ledger_res \<times> 'c" where
  "cacher_put U T now i obj cache =
     and_thenw (pure_w (json_err (tc_ser T obj)) cache) (\<lambda>obj cache.
     (Ok (), lc_put U i (obj, now) cache))"

text \<open>\<open>elapsed\<close> of an instant that lies ahead is zero.\<close>

definition cacher_get ::
  "'c lru \<Rightarrow> text_codec \<Rightarrow> CacherConfig \<Rightarrow> nat \<Rightarrow> nat option option \<Rightarrow> string \<Rightarrow> 'c \<Rightarrow> string option ledger_res \<times> 'c" where
  "cacher_get U T config now opt i cache =
     (let ttl = (case opt of Some t \<Rightarrow> (case t of Some d \<Rightarrow> d | None \<Rightarrow> cc_ttl config) | None \<Rightarrow> cc_ttl config)
      in case lc_get U i cache of
           (Some (obj, timestamp), cache) \<Rightarrow>
             if now - timestamp > ttl then (Ok None, lc_pop U i cache)
             else and_thenw (pure_w (json_err (tc_de T obj)) cache) (\<lambda>obj cache. (Ok (Some obj), cache))
         | (None, cache) \<Rightarrow> (Ok None, cache))"

text \<open>What the reader uses of a cache, and the cache that keeps nothing.\<close>

record 'c cacher =
  ch_get :: "nat \<Rightarrow> string \<Rightarrow> 'c \<Rightarrow> string option ledger_res \<times> 'c"
  ch_put :: "nat \<Rightarrow> string \<Rightarrow> string \<Rightarrow> 'c \<Rightarrow> unit ledger_res \<times> 'c"

definition in_memory_cacher :: "'c lru \<Rightarrow> text_codec \<Rightarrow> CacherConfig \<Rightarrow> 'c cacher" where
  "in_memory_cacher U T config = \<lparr>ch_get = (\<lambda>now. cacher_get U T config now None), ch_put = cacher_put U T\<rparr>"

definition noop_cacher :: "'c cacher" where
  "noop_cacher = \<lparr>ch_get = (\<lambda>_ _ c. (Ok None, c)), ch_put = (\<lambda>_ _ _ c. (Ok (), c))\<rparr>"

section \<open>Requests\<close>

text \<open>
  The calls of \<open>RequestBuilder\<close>, with the arguments that are not the same in every call. A time is
  an \<open>i64\<close>, a sequence number an \<open>i32\<close>; both are integers here.
\<close>

datatype LedgerRequest =
    Rq_GetAttrib string string
  | Rq_GetNym string
  | Rq_GetTaa
  | Rq_GetTxn "string option" int
  | Rq_Nym string string "string option" "string option" "UpdateRole option"
  | Rq_Attrib string string json
  | Rq_Schema string VdrSchema
  | Rq_GetSchema string
  | Rq_CredDef string VdrCredDef
  | Rq_GetCredDef "string option" string
  | Rq_RevRegDef string VdrRevRegDef
  | Rq_GetRevRegDef string
  | Rq_RevRegEntry string string json
  | Rq_GetRevReg string int
  | Rq_GetRevRegDelta string "int option" int

datatype ProtocolVersion = Node1_3 | Node1_4

record 'r vdr =
  vr_ids :: vdr_ids
  vr_build :: "ProtocolVersion \<Rightarrow> LedgerRequest \<Rightarrow> 'r vdr_res"
  vr_taa_data :: "ProtocolVersion \<Rightarrow> string \<Rightarrow> string \<Rightarrow> string \<Rightarrow> u64 \<Rightarrow> json vdr_res"
  vr_set_taa :: "'r \<Rightarrow> json \<Rightarrow> 'r vdr_res"
  vr_signature_input :: "'r \<Rightarrow> string vdr_res"
  vr_set_signature :: "'r \<Rightarrow> string \<Rightarrow> 'r vdr_res"
  vr_set_multi_signature :: "'r \<Rightarrow> string \<Rightarrow> string \<Rightarrow> 'r vdr_res"
  vr_set_endorser :: "'r \<Rightarrow> string \<Rightarrow> 'r vdr_res"
  vr_of_json :: "string \<Rightarrow> 'r vdr_res"
  vr_json :: "'r \<Rightarrow> string"
  vr_cred_def_id :: "string \<Rightarrow> string ledger_res"
  vr_rev_reg_id :: "string \<Rightarrow> string ledger_res"
  vr_update_role :: "string \<Rightarrow> UpdateRole ledger_res"

type_synonym ('r, 'l) submitter = "'r \<Rightarrow> 'l \<Rightarrow> string ledger_res \<times> 'l"

text \<open>
  \<open>IndyVdrSubmitter::submit\<close>: the runner takes the request or not; then the callback delivers a
  result over a channel, or the channel is closed (its text is an argument).
\<close>

datatype RequestResult = RR_Reply string | RR_Failed "VdrErrorKind \<times> string"

definition vdr_submit ::
  "('r \<Rightarrow> 'l \<Rightarrow> RequestResult vdr_res option vdr_res \<times> 'l) \<Rightarrow> string \<Rightarrow> ('r, 'l) submitter" where
  "vdr_submit send_request closed request l =
     (case send_request request l of (sent, l) \<Rightarrow>
       (and_then (from_vdr sent) (\<lambda>received.
        and_then (ok_or received (Le_InvalidState closed)) (\<lambda>send_req_result.
        and_then (from_vdr send_req_result) (\<lambda>result.
        case result of RR_Reply reply \<Rightarrow> Ok reply | RR_Failed failed \<Rightarrow> from_vdr (Err failed)))), l))"

definition proxy_submit :: "('r \<Rightarrow> 'l \<Rightarrow> (string, string) result \<times> 'l) \<Rightarrow> ('r, 'l) submitter" where
  "proxy_submit post request l = (case post request l of (r, l) \<Rightarrow> (map_err Le_InvalidLedgerResponse r, l))"

section \<open>Conversions\<close>

text \<open>
  The values of a credential definition, of a registry and of a delta are read and written through
  JSON. The public keys of a registry definition are their one field, the accumulator key.
\<close>

record led_codec =
  ld_data :: "json \<Rightarrow> json option \<Rightarrow> json"
  ld_primary :: "json \<Rightarrow> json"
  ld_revocation :: "json \<Rightarrow> json option"
  ld_read_primary :: "json \<Rightarrow> json serde"
  ld_read_revocation :: "json \<Rightarrow> json serde"
  ld_write_primary :: "json \<Rightarrow> json serde"
  ld_write_revocation :: "json \<Rightarrow> json serde"
  ld_read_accum_key :: "json \<Rightarrow> json serde"
  ld_write_accum_key :: "json \<Rightarrow> json serde"
  ld_read_registry :: "json \<Rightarrow> json serde"
  ld_read_delta :: "json \<Rightarrow> RevocationRegistryDelta serde"
  ld_write_delta :: "RevocationRegistryDelta \<Rightarrow> json serde"
  ld_same_value :: "json \<Rightarrow> json serde"
  ld_debug_delta :: "RevocationRegistryDelta \<Rightarrow> string"
  ld_ser_taa :: "TaaData \<Rightarrow> string serde"
  ld_json_parse :: "string \<Rightarrow> json serde"
  ld_json_show :: "json \<Rightarrow> string"

definition boxed :: "(at_error, 'a) result \<Rightarrow> (string, 'a) result" where
  "boxed = map_err show_at_error"

definition boxed_serde :: "'a serde \<Rightarrow> (string, 'a) result" where
  "boxed_serde = map_err se_display"

text \<open>\<open>parts().unwrap()\<close> panics on an identifier without parts.\<close>

definition schema_of_vdr :: "vdr_ids \<Rightarrow> VdrSchema \<Rightarrow> (string, LedgerSchema) result" where
  "schema_of_vdr V schema =
     (case vi_schema_parts V (vsc_id schema) of
        None \<Rightarrow> Panic
      | Some (_, issuer_id, _) \<Rightarrow>
          and_then (boxed (SchemaId_new (vi_show V (vsc_id schema)))) (\<lambda>i.
          and_then (boxed (IssuerId_new (vi_show V issuer_id))) (\<lambda>issuer_id.
          Ok \<lparr>sch_id = i, sch_seq_no = vsc_seq_no schema, sch_name = vsc_name schema,
            sch_version = vsc_version schema, sch_attr_names = vsc_attr_names schema, sch_issuer_id = issuer_id\<rparr>)))"

definition vdr_of_schema :: "vdr_ids \<Rightarrow> LedgerSchema \<Rightarrow> (string, VdrSchema) result" where
  "vdr_of_schema V self =
     Ok \<lparr>vsc_id = vi_schema_id V (vi_did_value V (sch_issuer_id self) None) (sch_name self) (sch_version self),
       vsc_name = sch_name self, vsc_version = sch_version self, vsc_attr_names = sch_attr_names self,
       vsc_seq_no = sch_seq_no self\<rparr>"

definition vdr_schema_id :: "vdr_ids \<Rightarrow> SchemaId \<Rightarrow> (string, string) result" where
  "vdr_schema_id V self =
     (let parts = split_char (CHR '':'') self
      in if length parts = 4 then Ok (vi_schema_id V (parts ! 0) (parts ! 2) (parts ! 3))
         else if length parts = 8 then
           Ok (vi_schema_id V (parts ! 2 @ '':'' @ parts ! 3 @ '':'' @ parts ! 4) (parts ! 6) (parts ! 7))
         else Err ''Invalid schema id'')"

definition vdr_did :: "vdr_ids \<Rightarrow> Did \<Rightarrow> string" where
  "vdr_did V did = vi_did_value V (did_text did) None"

definition cred_def_of_vdr :: "vdr_ids \<Rightarrow> led_codec \<Rightarrow> VdrCredDef \<Rightarrow> (string, CredentialDefinition) result" where
  "cred_def_of_vdr V C cred_def =
     (case vi_cred_def_parts V (vcd_id cred_def) of
        None \<Rightarrow> Err (''cred def ID is malformed. cannot convert. '' @ vi_show V (vcd_id cred_def))
      | Some (_, issuer_id, _) \<Rightarrow>
          and_then (boxed (CredentialDefinitionId_new (vi_show V (vcd_id cred_def)))) (\<lambda>i.
          and_then (boxed (SchemaId_new (vi_show V (vcd_schema_id cred_def)))) (\<lambda>schema_id.
          and_then (boxed_serde (ld_read_primary C (vcd_primary cred_def))) (\<lambda>primary.
          and_then (transpose_opt (map_option (boxed_serde \<circ> ld_read_revocation C) (vcd_revocation cred_def))) (\<lambda>revocation.
          and_then (boxed (IssuerId_new (vi_show V issuer_id))) (\<lambda>issuer_id.
          Ok \<lparr>cdf_id = i, cdf_schema_id = schema_id, cdf_tag = vcd_tag cred_def,
            cdf_value = ld_data C primary revocation, cdf_issuer_id = issuer_id\<rparr>))))))"

definition vdr_of_cred_def :: "led_codec \<Rightarrow> CredentialDefinition \<Rightarrow> (string, VdrCredDef) result" where
  "vdr_of_cred_def C self =
     and_then (boxed_serde (ld_write_primary C (ld_primary C (cdf_value self)))) (\<lambda>primary.
     and_then (transpose_opt (map_option (boxed_serde \<circ> ld_write_revocation C) (ld_revocation C (cdf_value self)))) (\<lambda>revocation.
     Ok \<lparr>vcd_id = cdf_id self, vcd_schema_id = cdf_schema_id self, vcd_tag = cdf_tag self, vcd_primary = primary,
       vcd_revocation = revocation\<rparr>))"

definition vdr_of_rev_reg_def :: "led_codec \<Rightarrow> RevRegDef \<Rightarrow> (string, VdrRevRegDef) result" where
  "vdr_of_rev_reg_def C self =
     and_then (boxed_serde (ld_write_accum_key C (rgd_public_keys self))) (\<lambda>accum_key.
     Ok \<lparr>vrd_id = rgd_id self, vrd_tag = rgd_tag self, vrd_cred_def_id = rgd_cred_def_id self,
       vrd_max_cred_num = rgd_max_cred_num self, vrd_accum_key = accum_key, vrd_tails_hash = rgd_tails_hash self,
       vrd_tails_location = rgd_tails_location self, vrd_issuance_type = ISSUANCE_BY_DEFAULT\<rparr>)"

definition rev_reg_def_of_vdr :: "vdr_ids \<Rightarrow> led_codec \<Rightarrow> VdrRevRegDef \<Rightarrow> (string, RevRegDef) result" where
  "rev_reg_def_of_vdr V C d =
     (case vi_rev_reg_parts V (vrd_id d) of
        None \<Rightarrow> Err (''rev reg id is not valid: '' @ vi_show V (vrd_id d))
      | Some (issuer_id, _) \<Rightarrow>
          and_then (boxed (RevocationRegistryDefinitionId_new (vi_show V (vrd_id d)))) (\<lambda>i.
          and_then (boxed (IssuerId_new (vi_show V issuer_id))) (\<lambda>issuer_id.
          and_then (boxed (CredentialDefinitionId_new (vi_show V (vrd_cred_def_id d)))) (\<lambda>cred_def_id.
          and_then (boxed_serde (ld_read_accum_key C (vrd_accum_key d))) (\<lambda>accum_key.
          Ok \<lparr>rgd_id = i, rgd_issuer_id = issuer_id, rgd_tag = vrd_tag d, rgd_cred_def_id = cred_def_id,
            rgd_max_cred_num = vrd_max_cred_num d, rgd_public_keys = accum_key, rgd_tails_hash = vrd_tails_hash d,
            rgd_tails_location = vrd_tails_location d\<rparr>)))))"

definition rev_reg_of_vdr :: "led_codec \<Rightarrow> json \<Rightarrow> (string, json) result" where
  "rev_reg_of_vdr C v = boxed_serde (ld_read_registry C v)"

definition delta_of_vdr :: "led_codec \<Rightarrow> json \<Rightarrow> (string, RevocationRegistryDelta) result" where
  "delta_of_vdr C v = boxed_serde (ld_read_delta C v)"

text \<open>\<open>from_value\<close> to a \<open>Value\<close> behind \<open>to_value\<close>.\<close>

definition vdr_of_delta :: "led_codec \<Rightarrow> RevocationRegistryDelta \<Rightarrow> (string, json) result" where
  "vdr_of_delta C self =
     and_then (boxed_serde (ld_write_delta C self)) (\<lambda>v. boxed_serde (ld_same_value C v))"

section \<open>Reading\<close>

text \<open>The parts of \<open>IndyVdrLedgerRead\<close>; its cache and the pool are the state.\<close>

record ('r, 'c, 'l) indy_reader =
  ir_submitter :: "('r, 'l) submitter"
  ir_parser :: reply_reader
  ir_cacher :: "'c cacher"
  ir_version :: ProtocolVersion
  ir_vdr :: "'r vdr"
  ir_codec :: led_codec

definition ir_ids :: "('r, 'c, 'l) indy_reader \<Rightarrow> vdr_ids" where
  "ir_ids R = vr_ids (ir_vdr R)"

definition ir_build :: "('r, 'c, 'l) indy_reader \<Rightarrow> LedgerRequest \<Rightarrow> 'r ledger_res" where
  "ir_build R q = from_vdr (vr_build (ir_vdr R) (ir_version R) q)"

definition ir_submit :: "('r, 'c, 'l) indy_reader \<Rightarrow> 'r \<Rightarrow> 'c \<times> 'l \<Rightarrow> string ledger_res \<times> 'c \<times> 'l" where
  "ir_submit R request = (\<lambda>(c, l). case ir_submitter R request l of (r, l) \<Rightarrow> (r, c, l))"

text \<open>
  \<open>submit_request\<close>; the flag tells where the response comes from. The cache is asked at one instant
  and filled at a later one.
\<close>

definition ir_submit_request ::
  "('r, 'c, 'l) indy_reader \<Rightarrow> nat \<times> nat \<Rightarrow> string option \<Rightarrow> 'r \<Rightarrow> 'c \<times> 'l \<Rightarrow> (string \<times> bool) ledger_res \<times> 'c \<times> 'l" where
  "ir_submit_request R at cache_id request s =
     (case cache_id of
        Some cache_id \<Rightarrow>
          and_thenw (case s of (c, l) \<Rightarrow> (case ch_get (ir_cacher R) (fst at) cache_id c of (r, c) \<Rightarrow> (r, c, l))) (\<lambda>found s.
          case found of
            Some response \<Rightarrow> (Ok (response, True), s)
          | None \<Rightarrow>
              and_thenw (ir_submit R request s) (\<lambda>response (c, l).
              and_thenw (case ch_put (ir_cacher R) (snd at) cache_id response c of (r, c) \<Rightarrow> (r, c, l)) (\<lambda>_ s.
              (Ok (response, False), s))))
      | None \<Rightarrow> and_thenw (ir_submit R request s) (\<lambda>response s. (Ok (response, False), s)))"

text \<open>A request that is built, submitted without the cache and read.\<close>

definition ir_uncached ::
  "('r, 'c, 'l) indy_reader \<Rightarrow> LedgerRequest \<Rightarrow> 'c \<times> 'l \<Rightarrow> string ledger_res \<times> 'c \<times> 'l" where
  "ir_uncached R q s =
     and_thenw (pure_w (ir_build R q) s) (\<lambda>request s.
     and_thenw (ir_submit_request R (0, 0) None request s) (\<lambda>response s. (Ok (fst response), s)))"

definition indy_get_attr ::
  "('r, 'c, 'l) indy_reader \<Rightarrow> 'c \<times> 'l \<Rightarrow> Did \<Rightarrow> string \<Rightarrow> string ledger_res \<times> 'c \<times> 'l" where
  "indy_get_attr R s target_did attr =
     ir_uncached R (Rq_GetAttrib (vdr_did (ir_ids R) target_did) attr) s"

definition indy_get_nym :: "('r, 'c, 'l) indy_reader \<Rightarrow> 'c \<times> 'l \<Rightarrow> Did \<Rightarrow> string ledger_res \<times> 'c \<times> 'l" where
  "indy_get_nym R s did = ir_uncached R (Rq_GetNym (vdr_did (ir_ids R) did)) s"

definition indy_get_txn_author_agreement ::
  "('r, 'c, 'l) indy_reader \<Rightarrow> 'c \<times> 'l \<Rightarrow> string option ledger_res \<times> 'c \<times> 'l" where
  "indy_get_txn_author_agreement R s =
     and_thenw (ir_uncached R Rq_GetTaa s) (\<lambda>response s.
     and_thenw (pure_w (map_error_not_found_to_none from_parser_error
         (parse_get_txn_author_agreement_response (ir_parser R) response)) s) (\<lambda>taa s.
     (transpose_opt (map_option (json_err \<circ> ld_ser_taa (ir_codec R)) taa), s)))"

definition indy_get_ledger_txn ::
  "('r, 'c, 'l) indy_reader \<Rightarrow> 'c \<times> 'l \<Rightarrow> int \<Rightarrow> Did option \<Rightarrow> string ledger_res \<times> 'c \<times> 'l" where
  "indy_get_ledger_txn R s seq_no submitter_did =
     ir_uncached R (Rq_GetTxn (map_option (vdr_did (ir_ids R)) submitter_did) seq_no) s"

text \<open>
  \<open>value[key].take()\<close>: the member of an object or \<open>Null\<close>, also of \<open>Null\<close> itself; any other value
  panics.
\<close>

fun take_member :: "json \<Rightarrow> string \<Rightarrow> ('e, json) result" where
  "take_member (JObject m) k = Ok (json_index (JObject m) k)"
| "take_member JNull k = Ok JNull"
| "take_member _ k = Panic"

definition resolve_schema_id_from_seq_no ::
  "('r, 'c, 'l) indy_reader \<Rightarrow> 'c \<times> 'l \<Rightarrow> int \<Rightarrow> Did option \<Rightarrow> string ledger_res \<times> 'c \<times> 'l" where
  "resolve_schema_id_from_seq_no R s seq_no submitter_did =
     and_thenw (indy_get_ledger_txn R s seq_no submitter_did) (\<lambda>response s.
     and_thenw (pure_w (from_parser (parse_get_txn_response (ir_parser R) response)) s) (\<lambda>txn_response s.
     and_thenw (pure_w (take_member txn_response ''txn'') s) (\<lambda>txn s.
     let txn_type = json_index txn ''type''
     in if txn_type \<noteq> JString ''101'' then
          (Err (Le_InvalidLedgerResponse (''Expected indy schema transaction type (101), found: ''
             @ ld_json_show (ir_codec R) txn_type)), s)
        else
          let schema_did = json_index (json_index txn ''metadata'') ''from'';
              schema_data = json_index (json_index txn ''data'') ''data''
          in case (schema_did, json_index schema_data ''name'', json_index schema_data ''version'') of
               (JString did, JString name, JString ver) \<Rightarrow>
                 (let did = vi_did_value (ir_ids R) did None
                  in and_thenw (pure_w (from_validation (vi_did_validate (ir_ids R) did)) s) (\<lambda>_ s.
                     let schema_id = vi_schema_id (ir_ids R) did name ver
                     in and_thenw (pure_w (from_validation (vi_schema_validate (ir_ids R) schema_id)) s) (\<lambda>_ s.
                        (Ok schema_id, s))))
             | _ \<Rightarrow> (Err (Le_InvalidLedgerResponse ''Could not resolve schema DID, name & version from txn''), s))))"

text \<open>\<open>parse::<i32>()\<close>, of which only success is looked at.\<close>

definition parse_i32 :: "string \<Rightarrow> int option" where
  "parse_i32 s =
     (if s \<noteq> [] \<and> hd s = CHR ''-'' then
        (case tl s of [] \<Rightarrow> None
         | ds \<Rightarrow> (case parse_digits (2 ^ 31 + 1) 0 ds of Ok n \<Rightarrow> Some (- int n) | _ \<Rightarrow> None))
      else (case parse_unsigned (2 ^ 31) s of Ok n \<Rightarrow> Some (int n) | _ \<Rightarrow> None))"

definition indy_get_schema ::
  "('r, 'c, 'l) indy_reader \<Rightarrow> 'c \<times> 'l \<Rightarrow> SchemaId \<Rightarrow> Did option \<Rightarrow> LedgerSchema ledger_res \<times> 'c \<times> 'l" where
  "indy_get_schema R s schema_id submitter_did =
     and_thenw (pure_w (from_boxed (vdr_schema_id (ir_ids R) schema_id)) s) (\<lambda>i s.
     and_thenw (ir_uncached R (Rq_GetSchema i) s) (\<lambda>response s.
     and_thenw (pure_w (from_parser (parse_get_schema_response (ir_ids R) (ir_parser R) response None)) s) (\<lambda>schema s.
     (from_boxed (schema_of_vdr (ir_ids R) schema), s))))"

definition indy_get_cred_def ::
  "('r, 'c, 'l) indy_reader \<Rightarrow> 'c \<times> 'l \<Rightarrow> CredentialDefinitionId \<Rightarrow> Did option \<Rightarrow>
   CredentialDefinition ledger_res \<times> 'c \<times> 'l" where
  "indy_get_cred_def R s cred_def_id submitter_did =
     and_thenw (pure_w (vr_cred_def_id (ir_vdr R) cred_def_id) s) (\<lambda>i s.
     and_thenw (ir_uncached R (Rq_GetCredDef (map_option (vdr_did (ir_ids R)) submitter_did) i) s) (\<lambda>response s.
     and_thenw (pure_w (from_parser (parse_get_cred_def_response (ir_ids R) (ir_parser R) response None)) s)
       (\<lambda>cred_def s.
     and_thenw (case parse_i32 (vcd_schema_id cred_def) of
         Some seq_no \<Rightarrow>
           and_thenw (resolve_schema_id_from_seq_no R s seq_no submitter_did) (\<lambda>i s.
           (Ok (cred_def\<lparr>vcd_schema_id := i\<rparr>), s))
       | None \<Rightarrow> (Ok cred_def, s)) (\<lambda>cred_def s.
     (from_boxed (cred_def_of_vdr (ir_ids R) (ir_codec R) cred_def), s)))))"

record RegistryMeta =
  me_max_cred_num :: nat
  me_issuer_id :: string

definition indy_get_rev_reg_def_json ::
  "('r, 'c, 'l) indy_reader \<Rightarrow> nat \<times> nat \<Rightarrow> 'c \<times> 'l \<Rightarrow> RevocationRegistryDefinitionId \<Rightarrow>
   (RevRegDef \<times> RegistryMeta) ledger_res \<times> 'c \<times> 'l" where
  "indy_get_rev_reg_def_json R at s rev_reg_id =
     and_thenw (pure_w (vr_rev_reg_id (ir_vdr R) rev_reg_id) s) (\<lambda>i s.
     and_thenw (pure_w (ir_build R (Rq_GetRevRegDef i)) s) (\<lambda>request s.
     and_thenw (ir_submit_request R at (Some rev_reg_id) request s) (\<lambda>response s.
     and_thenw (pure_w (from_parser (parse_get_revoc_reg_def_response (ir_parser R) (fst response))) s) (\<lambda>rev_reg_def s.
     and_thenw (pure_w (from_boxed (rev_reg_def_of_vdr (ir_ids R) (ir_codec R) rev_reg_def)) s) (\<lambda>d s.
     (Ok (d, \<lparr>me_max_cred_num = unat (rgd_max_cred_num d), me_issuer_id = rgd_issuer_id d\<rparr>), s))))))"

text \<open>\<open>x as i64\<close> wraps; \<open>now\<close> is the clock's \<open>i64\<close>.\<close>

definition indy_get_rev_reg_delta_json ::
  "('r, 'c, 'l) indy_reader \<Rightarrow> int \<Rightarrow> 'c \<times> 'l \<Rightarrow> RevocationRegistryDefinitionId \<Rightarrow> u64 option \<Rightarrow> u64 option \<Rightarrow>
   (RevocationRegistryDelta \<times> u64) ledger_res \<times> 'c \<times> 'l" where
  "indy_get_rev_reg_delta_json R now s rev_reg_id from to =
     and_thenw (pure_w (vr_rev_reg_id (ir_vdr R) rev_reg_id) s) (\<lambda>i s.
     let from = map_option sint from; to = (case to of Some x \<Rightarrow> sint x | None \<Rightarrow> now)
     in and_thenw (ir_uncached R (Rq_GetRevRegDelta i from to) s) (\<lambda>response s.
        and_thenw (pure_w (from_parser (parse_get_revoc_reg_delta_response (ir_parser R) response)) s) (\<lambda>info s.
        and_thenw (pure_w (from_boxed (delta_of_vdr (ir_codec R) (rgi_revoc_reg info))) s) (\<lambda>delta s.
        (Ok (delta, rgi_timestamp info), s)))))"

definition indy_get_rev_status_list ::
  "(bool list \<Rightarrow> nat \<Rightarrow> bool \<Rightarrow> bool list) \<Rightarrow> ('r, 'c, 'l) indy_reader \<Rightarrow> nat \<times> nat \<Rightarrow> int \<Rightarrow> 'c \<times> 'l \<Rightarrow>
   RevocationRegistryDefinitionId \<Rightarrow> u64 \<Rightarrow> RegistryMeta option \<Rightarrow> (RevStatusList \<times> u64) ledger_res \<times> 'c \<times> 'l" where
  "indy_get_rev_status_list ins R at now s rev_reg_id timestamp rev_reg_def_meta =
     and_thenw (indy_get_rev_reg_delta_json R now s rev_reg_id (Some 0) (Some timestamp)) (\<lambda>(delta, entry_time) s.
     and_thenw (case rev_reg_def_meta of
         Some x \<Rightarrow> (Ok x, s)
       | None \<Rightarrow> and_thenw (indy_get_rev_reg_def_json R at s rev_reg_id) (\<lambda>d s. (Ok (snd d), s))) (\<lambda>meta s.
     and_thenw (pure_w (map_err (\<lambda>e. Le_InvalidLedgerResponse
         (''received rev status delta could not be translated to status list: '' @ show_at_error e @ '' ''
           @ ld_debug_delta (ir_codec R) delta))
         (status_list_of_delta ins delta entry_time rev_reg_id (me_max_cred_num meta) (me_issuer_id meta))) s)
       (\<lambda>status_list s. (Ok (status_list, entry_time), s))))"

text \<open>\<open>try_into().unwrap()\<close> panics above the largest \<open>i64\<close>.\<close>

definition indy_get_rev_reg ::
  "('r, 'c, 'l) indy_reader \<Rightarrow> 'c \<times> 'l \<Rightarrow> RevocationRegistryDefinitionId \<Rightarrow> u64 \<Rightarrow>
   (json \<times> u64) ledger_res \<times> 'c \<times> 'l" where
  "indy_get_rev_reg R s rev_reg_id timestamp =
     and_thenw (pure_w (vr_rev_reg_id (ir_vdr R) rev_reg_id) s) (\<lambda>i s.
     and_thenw (pure_w (if unat timestamp < 2 ^ 63 then Ok (uint timestamp) else Panic) s) (\<lambda>time s.
     and_thenw (ir_uncached R (Rq_GetRevReg i time) s) (\<lambda>response s.
     and_thenw (pure_w (from_parser (parse_get_revoc_reg_response (ir_parser R) response)) s) (\<lambda>info s.
     and_thenw (pure_w (from_boxed (rev_reg_of_vdr (ir_codec R) (rgi_revoc_reg info))) s) (\<lambda>reg s.
     (Ok (reg, rgi_timestamp info), s))))))"

text \<open>Which identifiers the reader is asked for.\<close>

definition did_method_is_supported :: "string \<Rightarrow> bool" where
  "did_method_is_supported i = (starts_with i ''did:sov:'' \<or> \<not> starts_with i ''did'')"

definition indy_supports_schema :: "SchemaId \<Rightarrow> bool" where
  "indy_supports_schema i = (if LEGACY_SCHEMA_IDENTIFIER i then True else did_method_is_supported i)"

definition indy_supports_credential_definition :: "CredentialDefinitionId \<Rightarrow> bool" where
  "indy_supports_credential_definition i =
     (if LEGACY_CRED_DEF_IDENTIFIER i then True else did_method_is_supported i)"

definition indy_supports_revocation_registry :: "RevocationRegistryDefinitionId \<Rightarrow> bool" where
  "indy_supports_revocation_registry i =
     (if LEGACY_DID_IDENTIFIER i then True else did_method_is_supported i)"

section \<open>Writing\<close>

record TxnAuthrAgrmtOptions =
  to_text :: string
  to_version :: string
  to_mechanism :: string

record IndyVdrLedgerWriteConfig =
  wc_taa_options :: "TxnAuthrAgrmtOptions option"
  wc_protocol_version :: ProtocolVersion

record IndyVdrLedgerWrite =
  ivw_taa_options :: "TxnAuthrAgrmtOptions option"
  ivw_protocol_version :: ProtocolVersion

definition ledger_write_new :: "IndyVdrLedgerWriteConfig \<Rightarrow> IndyVdrLedgerWrite" where
  "ledger_write_new config =
     \<lparr>ivw_taa_options = None, ivw_protocol_version = wc_protocol_version config\<rparr>"

definition indyvdr_build_ledger_write :: "TxnAuthrAgrmtOptions option \<Rightarrow> IndyVdrLedgerWrite" where
  "indyvdr_build_ledger_write taa_options =
     ledger_write_new \<lparr>wc_taa_options = taa_options, wc_protocol_version = Node1_4\<rparr>"

definition set_txn_author_agreement_options ::
  "IndyVdrLedgerWrite \<Rightarrow> TxnAuthrAgrmtOptions \<Rightarrow> unit ledger_res \<times> IndyVdrLedgerWrite" where
  "set_txn_author_agreement_options self taa_options = (Ok (), self\<lparr>ivw_taa_options := Some taa_options\<rparr>)"

definition get_txn_author_agreement_options :: "IndyVdrLedgerWrite \<Rightarrow> TxnAuthrAgrmtOptions option ledger_res" where
  "get_txn_author_agreement_options self = Ok (ivw_taa_options self)"

text \<open>\<open>?\<close> on an error of the wallet.\<close>

definition wallet_err :: "'a wallet_res \<Rightarrow> 'a ledger_res" where
  "wallet_err = map_err Le_WalletError"

definition sign_request :: "'r vdr \<Rightarrow> 'w wallet \<Rightarrow> 'w \<Rightarrow> Did \<Rightarrow> 'r \<Rightarrow> string ledger_res" where
  "sign_request D W w did request =
     and_then (from_vdr (vr_signature_input D request)) (\<lambda>to_sign.
     and_then (wallet_err (wl_key_for_did W w (did_text did))) (\<lambda>signer_verkey.
     wallet_err (wl_sign W w signer_verkey to_sign)))"

definition sign_and_submit_request ::
  "'r vdr \<Rightarrow> ('r, 'l) submitter \<Rightarrow> 'w wallet \<Rightarrow> 'w \<Rightarrow> 'l \<Rightarrow> Did \<Rightarrow> 'r \<Rightarrow> string ledger_res \<times> 'l" where
  "sign_and_submit_request D submit W w l submitter_did request =
     and_thenw (pure_w (sign_request D W w submitter_did request) l) (\<lambda>signature l.
     and_thenw (pure_w (from_vdr (vr_set_signature D request signature)) l) (\<lambda>request l.
     submit request l))"

definition append_txn_author_agreement_to_request ::
  "'r vdr \<Rightarrow> u64 \<Rightarrow> IndyVdrLedgerWrite \<Rightarrow> 'r \<Rightarrow> 'r ledger_res" where
  "append_txn_author_agreement_to_request D now self request =
     (case ivw_taa_options self of
        Some taa_options \<Rightarrow>
          and_then (from_vdr (vr_taa_data D (ivw_protocol_version self) (to_text taa_options) (to_version taa_options)
            (to_mechanism taa_options) now)) (\<lambda>taa_data.
          from_vdr (vr_set_taa D request taa_data))
      | None \<Rightarrow> Ok request)"

text \<open>The part that all writing operations share: build, append the agreement, sign, submit.\<close>

definition write_request ::
  "'r vdr \<Rightarrow> ('r, 'l) submitter \<Rightarrow> 'w wallet \<Rightarrow> u64 \<Rightarrow> IndyVdrLedgerWrite \<Rightarrow> 'w \<Rightarrow> 'l \<Rightarrow> Did \<Rightarrow> LedgerRequest \<Rightarrow>
   string ledger_res \<times> 'l" where
  "write_request D submit W now self w l submitter_did q =
     and_thenw (pure_w (from_vdr (vr_build D (ivw_protocol_version self) q)) l) (\<lambda>request l.
     and_thenw (pure_w (append_txn_author_agreement_to_request D now self request) l) (\<lambda>request l.
     sign_and_submit_request D submit W w l submitter_did request))"

definition indy_publish_nym ::
  "key_ext \<Rightarrow> 'r vdr \<Rightarrow> ('r, 'l) submitter \<Rightarrow> 'w wallet \<Rightarrow> u64 \<Rightarrow> IndyVdrLedgerWrite \<Rightarrow> 'l \<Rightarrow> 'w \<Rightarrow> Did \<Rightarrow> Did \<Rightarrow>
   Key option \<Rightarrow> string option \<Rightarrow> string option \<Rightarrow> string ledger_res \<times> 'l" where
  "indy_publish_nym K D submit W now self l w submitter_did target_did verkey data_text role =
     and_thenw (pure_w (transpose_opt (map_option (vr_update_role D) role)) l) (\<lambda>role l.
     write_request D submit W now self w l submitter_did
       (Rq_Nym (vdr_did (vr_ids D) submitter_did) (vdr_did (vr_ids D) target_did) (map_option (key_base58 K) verkey)
         data_text role))"

definition indy_add_attr ::
  "led_codec \<Rightarrow> 'r vdr \<Rightarrow> ('r, 'l) submitter \<Rightarrow> 'w wallet \<Rightarrow> u64 \<Rightarrow> IndyVdrLedgerWrite \<Rightarrow> 'l \<Rightarrow> 'w \<Rightarrow> Did \<Rightarrow>
   string \<Rightarrow> string ledger_res \<times> 'l" where
  "indy_add_attr C D submit W now self l w target_did attrib_json =
     and_thenw (pure_w (json_err (ld_json_parse C attrib_json)) l) (\<lambda>v l.
     write_request D submit W now self w l target_did
       (Rq_Attrib (vdr_did (vr_ids D) target_did) (vdr_did (vr_ids D) target_did) v))"

definition indy_write_did ::
  "key_ext \<Rightarrow> 'r vdr \<Rightarrow> ('r, 'l) submitter \<Rightarrow> 'w wallet \<Rightarrow> u64 \<Rightarrow> IndyVdrLedgerWrite \<Rightarrow> 'l \<Rightarrow> 'w \<Rightarrow> Did \<Rightarrow> Did \<Rightarrow>
   Key \<Rightarrow> UpdateRole option \<Rightarrow> string option \<Rightarrow> string ledger_res \<times> 'l" where
  "indy_write_did K D submit W now self l w submitter_did target_did target_vk role alias =
     write_request D submit W now self w l submitter_did
       (Rq_Nym (vdr_did (vr_ids D) submitter_did) (vdr_did (vr_ids D) target_did) (Some (key_base58 K target_vk))
         alias role)"

definition indy_publish_schema ::
  "'r vdr \<Rightarrow> ('r, 'l) submitter \<Rightarrow> 'w wallet \<Rightarrow> u64 \<Rightarrow> IndyVdrLedgerWrite \<Rightarrow> 'w \<Rightarrow> 'l \<Rightarrow> LedgerSchema \<Rightarrow> Did \<Rightarrow>
   unit ledger_res \<times> 'l" where
  "indy_publish_schema D submit W now self w l schema_json submitter_did =
     and_thenw (pure_w (from_boxed (vdr_of_schema (vr_ids D) schema_json)) l) (\<lambda>schema l.
     and_thenw (pure_w (from_vdr (vr_build D (ivw_protocol_version self)
         (Rq_Schema (vdr_did (vr_ids D) submitter_did) schema))) l) (\<lambda>request l.
     and_thenw (pure_w (append_txn_author_agreement_to_request D now self request) l) (\<lambda>request l.
     case sign_and_submit_request D submit W w l submitter_did request of
       (Err (Le_InvalidLedgerResponse _), l) \<Rightarrow> (Err Le_DuplicationSchema, l)
     | (sign_result, l) \<Rightarrow> (map_ok (\<lambda>_. ()) sign_result, l))))"

definition indy_publish_cred_def ::
  "led_codec \<Rightarrow> 'r vdr \<Rightarrow> ('r, 'l) submitter \<Rightarrow> 'w wallet \<Rightarrow> u64 \<Rightarrow> IndyVdrLedgerWrite \<Rightarrow> 'w \<Rightarrow> 'l \<Rightarrow>
   CredentialDefinition \<Rightarrow> Did \<Rightarrow> unit ledger_res \<times> 'l" where
  "indy_publish_cred_def C D submit W now self w l cred_def_json submitter_did =
     and_thenw (pure_w (from_boxed (vdr_of_cred_def C cred_def_json)) l) (\<lambda>cred_def l.
     and_thenw (write_request D submit W now self w l submitter_did
         (Rq_CredDef (vdr_did (vr_ids D) submitter_did) cred_def)) (\<lambda>_ l. (Ok (), l)))"

definition indy_publish_rev_reg_def ::
  "led_codec \<Rightarrow> 'r vdr \<Rightarrow> ('r, 'l) submitter \<Rightarrow> 'w wallet \<Rightarrow> u64 \<Rightarrow> IndyVdrLedgerWrite \<Rightarrow> 'w \<Rightarrow> 'l \<Rightarrow> RevRegDef \<Rightarrow>
   Did \<Rightarrow> unit ledger_res \<times> 'l" where
  "indy_publish_rev_reg_def C D submit W now self w l rev_reg_def submitter_did =
     and_thenw (pure_w (from_boxed (vdr_of_rev_reg_def C rev_reg_def)) l) (\<lambda>d l.
     and_thenw (write_request D submit W now self w l submitter_did
         (Rq_RevRegDef (vdr_did (vr_ids D) submitter_did) d)) (\<lambda>_ l. (Ok (), l)))"

definition indy_publish_rev_reg_delta ::
  "led_codec \<Rightarrow> 'r vdr \<Rightarrow> ('r, 'l) submitter \<Rightarrow> 'w wallet \<Rightarrow> u64 \<Rightarrow> IndyVdrLedgerWrite \<Rightarrow> 'w \<Rightarrow> 'l \<Rightarrow>
   RevocationRegistryDefinitionId \<Rightarrow> RevocationRegistryDelta \<Rightarrow> Did \<Rightarrow> unit ledger_res \<times> 'l" where
  "indy_publish_rev_reg_delta C D submit W now self w l rev_reg_id rev_reg_entry_json submitter_did =
     and_thenw (pure_w (vr_rev_reg_id D rev_reg_id) l) (\<lambda>i l.
     and_thenw (pure_w (from_boxed (vdr_of_delta C rev_reg_entry_json)) l) (\<lambda>v l.
     and_thenw (write_request D submit W now self w l submitter_did
         (Rq_RevRegEntry (vdr_did (vr_ids D) submitter_did) i v)) (\<lambda>_ l. (Ok (), l))))"

section \<open>Endorsement\<close>

record EndorseRequest =
  en_req_id :: u64
  en_identifier :: string
  en_signature :: "string option"
  en_signatures :: "(string \<times> string) list option"
  en_endorser :: "string option"

definition verify_transaction_can_be_endorsed ::
  "nom \<Rightarrow> (string \<Rightarrow> EndorseRequest serde) \<Rightarrow> string \<Rightarrow> Did \<Rightarrow> unit ledger_res" where
  "verify_transaction_can_be_endorsed N de transaction_json submitter_did =
     and_then (json_err (de transaction_json)) (\<lambda>transaction.
     and_then (ok_or (en_endorser transaction)
       (Le_InvalidState ''Transaction cannot be endorsed: endorser DID is not set.'')) (\<lambda>endorser_did.
     and_then (did_err (parse_did N endorser_did)) (\<lambda>d.
     if d \<noteq> submitter_did then
       Err (Le_InvalidState (''Transaction cannot be endorsed: transaction endorser DID `'' @ endorser_did
         @ ''` and sender DID `'' @ did_text submitter_did @ ''` are different''))
     else
       let i = en_identifier transaction
       in if en_signature transaction = None
             \<and> \<not> (case en_signatures transaction of
                  Some signatures \<Rightarrow> map_of signatures i \<noteq> None | None \<Rightarrow> False)
          then Err (Le_InvalidState ''Transaction cannot be endorsed: the author must sign the transaction.'')
          else Ok ())))"

definition indy_set_endorser ::
  "'r vdr \<Rightarrow> 'w wallet \<Rightarrow> 'w \<Rightarrow> Did \<Rightarrow> string \<Rightarrow> Did \<Rightarrow> string ledger_res" where
  "indy_set_endorser D W w submitter_did request_json endorser =
     and_then (from_vdr (vr_of_json D request_json)) (\<lambda>request.
     and_then (from_vdr (vr_set_endorser D request (vdr_did (vr_ids D) endorser))) (\<lambda>request.
     and_then (sign_request D W w submitter_did request) (\<lambda>signature_submitter.
     and_then (from_vdr (vr_set_multi_signature D request (vdr_did (vr_ids D) submitter_did) signature_submitter))
       (\<lambda>request. Ok (vr_json D request)))))"

definition indy_endorse_transaction ::
  "nom \<Rightarrow> (string \<Rightarrow> EndorseRequest serde) \<Rightarrow> 'r vdr \<Rightarrow> ('r, 'l) submitter \<Rightarrow> 'w wallet \<Rightarrow> 'w \<Rightarrow> 'l \<Rightarrow> Did \<Rightarrow> string \<Rightarrow>
   unit ledger_res \<times> 'l" where
  "indy_endorse_transaction N de D submit W w l endorser_did request_json =
     and_thenw (pure_w (from_vdr (vr_of_json D request_json)) l) (\<lambda>request l.
     and_thenw (pure_w (verify_transaction_can_be_endorsed N de request_json endorser_did) l) (\<lambda>_ l.
     and_thenw (pure_w (sign_request D W w endorser_did request) l) (\<lambda>signature_endorser l.
     and_thenw (pure_w (from_vdr (vr_set_multi_signature D request (vdr_did (vr_ids D) endorser_did) signature_endorser)) l)
       (\<lambda>request l. and_thenw (submit request l) (\<lambda>_ l. (Ok (), l))))))"

section \<open>The interfaces the client provides\<close>

text \<open>A read of the interface without a state gives the answer at the state it is given.\<close>

definition indy_read_of :: "('r, 'c, 'l) indy_reader \<Rightarrow> 'c \<times> 'l \<Rightarrow> indy_read" where
  "indy_read_of R s = \<lparr>il_get_attr = (\<lambda>d a. fst (indy_get_attr R s d a)), il_get_nym = (\<lambda>d. fst (indy_get_nym R s d))\<rparr>"

definition indy_registry_read :: "('r, 'c, 'l) indy_reader \<Rightarrow> int \<Rightarrow> 'c \<Rightarrow> 'l registry_read" where
  "indy_registry_read R now c = \<lparr>
     rr_get_schema = (\<lambda>l i d. fst (indy_get_schema R (c, l) i d)),
     rr_get_cred_def = (\<lambda>l i d. fst (indy_get_cred_def R (c, l) i d)),
     rr_get_rev_reg_delta = (\<lambda>l i from to. fst (indy_get_rev_reg_delta_json R now (c, l) i from to))\<rparr>"

definition indy_write_of ::
  "key_ext \<Rightarrow> led_codec \<Rightarrow> 'r vdr \<Rightarrow> ('r, 'l) submitter \<Rightarrow> 'w wallet \<Rightarrow> u64 \<Rightarrow> IndyVdrLedgerWrite \<Rightarrow> ('w, 'l) indy_write" where
  "indy_write_of K C D submit W now self = \<lparr>
     iw_publish_nym = indy_publish_nym K D submit W now self,
     iw_add_attr = indy_add_attr C D submit W now self,
     iw_write_did = indy_write_did K D submit W now self\<rparr>"

definition indy_registry_write ::
  "led_codec \<Rightarrow> 'r vdr \<Rightarrow> ('r, 'l) submitter \<Rightarrow> 'w wallet \<Rightarrow> u64 \<Rightarrow> IndyVdrLedgerWrite \<Rightarrow> ('w, 'l) registry_write" where
  "indy_registry_write C D submit W now self = \<lparr>
     ru_publish_schema = indy_publish_schema D submit W now self,
     ru_publish_cred_def = indy_publish_cred_def C D submit W now self,
     ru_publish_rev_reg_def = indy_publish_rev_reg_def C D submit W now self,
     ru_publish_rev_reg_delta = indy_publish_rev_reg_delta C D submit W now self\<rparr>"

section \<open>What a cached answer is worth\<close>

text \<open>Requests under an id, each with the instants at which the cache is asked and filled.\<close>

fun ir_reads ::
  "('r, 'c, 'l) indy_reader \<Rightarrow> 'c \<times> 'l \<Rightarrow> (string \<times> 'r \<times> nat \<times> nat) list \<Rightarrow> (string \<times> bool) ledger_res list" where
  "ir_reads R s [] = []"
| "ir_reads R s ((i, q, at) # reqs) =
     (case ir_submit_request R at (Some i) q s of (r, s) \<Rightarrow> r # ir_reads R s reqs)"

text \<open>
  The contract of a cache of responses. \<open>held\<close> is what it holds: the response and the instant it
  was stored. A hit gives a response that is held and not older than \<open>ttl\<close>; only storing a
  response adds one.
\<close>

locale response_cacher =
  fixes ch :: "'c cacher"
    and held :: "'c \<Rightarrow> string \<Rightarrow> (string \<times> nat) option"
    and ttl :: nat
  assumes hit_held: "ch_get ch now i c = (Ok (Some x), c') \<Longrightarrow> \<exists>t. held c i = Some (x, t) \<and> now - t \<le> ttl"
    and get_keeps: "ch_get ch now i c = (g, c') \<Longrightarrow> held c' k = Some v \<Longrightarrow> held c k = Some v"
    and put_adds: "ch_put ch now i x c = (r, c') \<Longrightarrow> held c' k = Some v \<Longrightarrow>
      r = Ok () \<and> k = i \<and> v = (x, now) \<or> held c k = Some v"
begin

lemma submit_hit:
  assumes "ir_submit_request R at (Some i) q (c, l) = (Ok (x, True), s')" and "ir_cacher R = ch"
  shows "\<exists>t. held c i = Some (x, t) \<and> fst at - t \<le> ttl"
proof -
  from assms obtain c' where "ch_get ch (fst at) i c = (Ok (Some x), c')"
    by (cases "ch_get ch (fst at) i c") (auto simp: ir_submit_request_def and_thenw_Ok split: option.splits)
  then show ?thesis by (rule hit_held)
qed

lemma submit_holds:
  assumes "ir_submit_request R at (Some i) q (c, l) = (r, c', l')" and "ir_cacher R = ch" and "held c' k = Some v"
  shows "held c k = Some v \<or> (\<exists>x. k = i \<and> v = (x, snd at) \<and> r = Ok (x, False))"
proof -
  obtain g c1 where g: "ch_get ch (fst at) i c = (g, c1)" by (cases "ch_get ch (fst at) i c")
  note keeps = get_keeps [OF g]
  show ?thesis
  proof (cases "g = Ok None")
    case False
    with assms g have "c' = c1" by (cases g) (auto simp: ir_submit_request_def split: option.splits)
    with keeps assms(3) show ?thesis by blast
  next
    case True
    obtain a l1 where a: "ir_submitter R q l = (a, l1)" by (cases "ir_submitter R q l")
    show ?thesis
    proof (cases "\<exists>y. a = Ok y")
      case False
      with True assms g a have "c' = c1" by (cases a) (auto simp: ir_submit_request_def ir_submit_def)
      with keeps assms(3) show ?thesis by blast
    next
      case True
      then obtain y where y: "a = Ok y" by blast
      obtain p c2 where p: "ch_put ch (snd at) i y c1 = (p, c2)" by (cases "ch_put ch (snd at) i y c1")
      with \<open>g = Ok None\<close> assms g a y have c: "c' = c2" and r: "p = Ok () \<Longrightarrow> r = Ok (y, False)"
        by (cases p; auto simp: ir_submit_request_def ir_submit_def)+
      from put_adds [OF p] assms(3) c have "p = Ok () \<and> k = i \<and> v = (y, snd at) \<or> held c1 k = Some v" by blast
      with r keeps show ?thesis by blast
    qed
  qed
qed

lemma reads_held:
  assumes "ir_cacher R = ch" and "n < length reqs" and "ir_reads R (c, l) reqs ! n = Ok (x, True)"
  shows "(\<exists>m < n. fst (reqs ! m) = fst (reqs ! n) \<and> ir_reads R (c, l) reqs ! m = Ok (x, False)
      \<and> fst (snd (snd (reqs ! n))) - snd (snd (snd (reqs ! m))) \<le> ttl)
    \<or> (\<exists>t. held c (fst (reqs ! n)) = Some (x, t) \<and> fst (snd (snd (reqs ! n))) - t \<le> ttl)"
  using assms(2,3)
proof (induction reqs arbitrary: c l n)
  case (Cons req reqs)
  obtain i q at where req: "req = (i, q, at)" by (cases req)
  obtain r c' l' where r: "ir_submit_request R at (Some i) q (c, l) = (r, c', l')" by (metis prod.collapse)
  have reads: "ir_reads R (c, l) (req # reqs) = r # ir_reads R (c', l') reqs" by (simp add: req r)
  show ?case
  proof (cases n)
    case 0
    with Cons.prems(2) reads have "r = Ok (x, True)" by simp
    from submit_hit [OF r [unfolded this] assms(1)] show ?thesis by (simp add: 0 req)
  next
    case (Suc k)
    with Cons.prems reads have "k < length reqs" "ir_reads R (c', l') reqs ! k = Ok (x, True)" by simp_all
    from Cons.IH [OF this] show ?thesis
    proof
      assume "\<exists>m < k. fst (reqs ! m) = fst (reqs ! k) \<and> ir_reads R (c', l') reqs ! m = Ok (x, False)
        \<and> fst (snd (snd (reqs ! k))) - snd (snd (snd (reqs ! m))) \<le> ttl"
      then obtain m where "m < k" "fst (reqs ! m) = fst (reqs ! k)" "ir_reads R (c', l') reqs ! m = Ok (x, False)"
        "fst (snd (snd (reqs ! k))) - snd (snd (snd (reqs ! m))) \<le> ttl" by blast
      then show ?thesis using Suc reads by (intro disjI1 exI [of _ "Suc m"]) simp
    next
      assume "\<exists>t. held c' (fst (reqs ! k)) = Some (x, t) \<and> fst (snd (snd (reqs ! k))) - t \<le> ttl"
      then obtain t where t: "held c' (fst (reqs ! k)) = Some (x, t)" "fst (snd (snd (reqs ! k))) - t \<le> ttl" by blast
      from submit_holds [OF r assms(1) t(1)] show ?thesis
      proof
        assume "held c (fst (reqs ! k)) = Some (x, t)"
        with t(2) Suc show ?thesis by auto
      next
        assume "\<exists>y. fst (reqs ! k) = i \<and> (x, t) = (y, snd at) \<and> r = Ok (y, False)"
        with t(2) Suc reads req show ?thesis by (intro disjI1 exI [of _ 0]) auto
      qed
    qed
  qed
qed simp

end

interpretation noop: response_cacher noop_cacher "\<lambda>_. Map.empty" 0
  by unfold_locales (auto simp: noop_cacher_def)

text \<open>What is relied on of an LRU map: \<open>get\<close> tells what it holds, and only \<open>put\<close> adds an entry.\<close>

definition lru_laws :: "'c lru \<Rightarrow> ('c \<Rightarrow> string \<Rightarrow> (string \<times> nat) option) \<Rightarrow> bool" where
  "lru_laws U view \<longleftrightarrow>
     (\<forall>n. view (lc_new U n) = Map.empty)
   \<and> (\<forall>i c. fst (lc_get U i c) = view c i \<and> view (snd (lc_get U i c)) = view c)
   \<and> (\<forall>i v c. view (lc_put U i v c) \<subseteq>\<^sub>m (view c)(i \<mapsto> v))
   \<and> (\<forall>i c. view (lc_pop U i c) \<subseteq>\<^sub>m view c)"

text \<open>The responses a view of stored texts stands for.\<close>

definition held_of :: "text_codec \<Rightarrow> ('c \<Rightarrow> string \<Rightarrow> (string \<times> nat) option) \<Rightarrow> 'c \<Rightarrow> string \<Rightarrow> (string \<times> nat) option" where
  "held_of T view c i = (case view c i of
     Some (text_of, t) \<Rightarrow> (case tc_de T text_of of Ok x \<Rightarrow> Some (x, t) | _ \<Rightarrow> None)
   | None \<Rightarrow> None)"

definition text_inverse :: "text_codec \<Rightarrow> bool" where
  "text_inverse T \<longleftrightarrow> (\<forall>s t. tc_ser T s = Ok t \<longrightarrow> tc_de T t = Ok s)"

lemma held_of_Some: "held_of T view c k = Some (x, t) \<longleftrightarrow> (\<exists>u. view c k = Some (u, t) \<and> tc_de T u = Ok x)"
  by (auto simp: held_of_def split: option.splits result.splits)

lemma in_memory_contract:
  assumes laws: "lru_laws U view" and "text_inverse T"
  shows "response_cacher (in_memory_cacher U T config) (held_of T view) (cc_ttl config)"
proof
  fix now i c x c'
  assume "ch_get (in_memory_cacher U T config) now i c = (Ok (Some x), c')"
  then have "cacher_get U T config now None i c = (Ok (Some x), c')" by (simp add: in_memory_cacher_def)
  then obtain u t where "fst (lc_get U i c) = Some (u, t)" "now - t \<le> cc_ttl config" "tc_de T u = Ok x"
    by (cases "lc_get U i c") (auto simp: cacher_get_def json_err_def and_thenw_Ok pure_w_def
        split: option.splits if_splits prod.splits)
  with laws show "\<exists>t. held_of T view c i = Some (x, t) \<and> now - t \<le> cc_ttl config"
    by (auto simp: lru_laws_def held_of_Some)
next
  fix now i c g c' k v
  assume "ch_get (in_memory_cacher U T config) now i c = (g, c')" and held: "held_of T view c' k = Some v"
  then have "cacher_get U T config now None i c = (g, c')" by (simp add: in_memory_cacher_def)
  then have "c' = snd (lc_get U i c) \<or> c' = lc_pop U i (snd (lc_get U i c))"
    by (cases "lc_get U i c") (auto simp: cacher_get_def split: option.splits if_splits result.splits)
  with laws have "view c' \<subseteq>\<^sub>m view c" by (metis lru_laws_def map_le_refl)
  with held show "held_of T view c k = Some v" by (cases v) (auto simp: held_of_Some map_le_def dom_def)
next
  fix now i x c r c' k v
  assume "ch_put (in_memory_cacher U T config) now i x c = (r, c')" and held: "held_of T view c' k = Some v"
  then have "cacher_put U T now i x c = (r, c')" by (simp add: in_memory_cacher_def)
  then consider "c' = c" | u where "tc_ser T x = Ok u" "r = Ok ()" "c' = lc_put U i (u, now) c"
    by (cases "tc_ser T x") (auto simp: cacher_put_def json_err_def)
  then show "r = Ok () \<and> k = i \<and> v = (x, now) \<or> held_of T view c k = Some v"
  proof cases
    case (2 u)
    obtain y t where v: "v = (y, t)" by (cases v)
    with held obtain w where w: "view c' k = Some (w, t)" "tc_de T w = Ok y" by (auto simp: held_of_Some)
    from laws 2(3) have "view c' \<subseteq>\<^sub>m (view c)(i \<mapsto> (u, now))" by (simp add: lru_laws_def)
    with w(1) have "((view c)(i \<mapsto> (u, now))) k = Some (w, t)" by (auto simp: map_le_def dom_def)
    with w(2) v 2 assms(2) show ?thesis by (auto simp: held_of_Some text_inverse_def split: if_splits)
  qed (use held in simp)
qed

text \<open>
  A reader over the in-memory cache that starts empty: a response that does not come from the
  ledger is one the ledger gave to an earlier request under the same id, and it was stored at most
  the configured time before.
\<close>

theorem cached_answers_fresh:
  assumes "lru_laws U view" and "text_inverse T" and "ir_cacher R = in_memory_cacher U T config"
    and "n < length reqs" and "ir_reads R (cacher_new U config, l) reqs ! n = Ok (x, True)"
  shows "\<exists>m < n. fst (reqs ! m) = fst (reqs ! n)
    \<and> ir_reads R (cacher_new U config, l) reqs ! m = Ok (x, False)
    \<and> fst (snd (snd (reqs ! n))) - snd (snd (snd (reqs ! m))) \<le> cc_ttl config"
proof -
  have "held_of T view (cacher_new U config) i = None" for i
    using assms(1) by (simp add: held_of_def cacher_new_def lru_laws_def)
  with response_cacher.reads_held [OF in_memory_contract [OF assms(1,2)] assms(3-5)] show ?thesis by simp
qed

text \<open>An LRU map: the entries with the last used first, and a text codec that changes nothing.\<close>

definition list_lru :: "(nat \<times> (string \<times> string \<times> nat) list) lru" where
  "list_lru = \<lparr>lc_new = (\<lambda>n. (n, [])),
     lc_put = (\<lambda>i v (n, es). (n, take n ((i, v) # filter (\<lambda>e. fst e \<noteq> i) es))),
     lc_get = (\<lambda>i (n, es). case map_of es i of
       Some v \<Rightarrow> (Some v, n, (i, v) # filter (\<lambda>e. fst e \<noteq> i) es) | None \<Rightarrow> (None, n, es)),
     lc_pop = (\<lambda>i (n, es). (n, filter (\<lambda>e. fst e \<noteq> i) es))\<rparr>"

definition same_text :: text_codec where
  "same_text = \<lparr>tc_ser = Ok, tc_de = Ok\<rparr>"

lemma map_of_without: "map_of (filter (\<lambda>e. fst e \<noteq> i) es) = (map_of es)(i := None)"
  by (induction es) (auto simp: fun_eq_iff)

lemma map_of_take: "map_of (take n es) \<subseteq>\<^sub>m map_of es"
proof (induction es arbitrary: n)
  case (Cons e es)
  then show ?case by (cases n) (auto simp: map_le_def dom_def)
qed simp

lemma list_lru_laws: "lru_laws list_lru (\<lambda>c. map_of (snd c))"
proof -
  have g: "fst (lc_get list_lru i c) = map_of (snd c) i \<and> map_of (snd (snd (lc_get list_lru i c))) = map_of (snd c)" for i c
    by (cases c) (auto simp: list_lru_def map_of_without fun_eq_iff split: option.splits)
  have p: "map_of (snd (lc_put list_lru i v c)) \<subseteq>\<^sub>m (map_of (snd c))(i \<mapsto> v)" for i v c
  proof (cases c)
    case (Pair n es)
    have "map_of ((i, v) # filter (\<lambda>e. fst e \<noteq> i) es) = (map_of es)(i \<mapsto> v)" by (auto simp: map_of_without)
    with map_of_take [of n "(i, v) # filter (\<lambda>e. fst e \<noteq> i) es"] Pair show ?thesis by (simp add: list_lru_def)
  qed
  have d: "map_of (snd (lc_pop list_lru i c)) \<subseteq>\<^sub>m map_of (snd c)" for i c
    by (cases c) (auto simp: list_lru_def map_of_without map_le_def)
  show ?thesis using g p d by (simp add: lru_laws_def) (simp add: list_lru_def)
qed

lemma same_text_inverse: "text_inverse same_text"
  by (simp add: text_inverse_def same_text_def)

interpretation in_memory: response_cacher "in_memory_cacher list_lru same_text config"
    "held_of same_text (\<lambda>c. map_of (snd c))" "cc_ttl config" for config
  by (rule in_memory_contract [OF list_lru_laws same_text_inverse])

section \<open>Missing and unreadable items\<close>

lemma ir_uncached_cases:
  "ir_uncached R q (c, l) = (case ir_build R q of
     Ok request \<Rightarrow> (case ir_submitter R request l of (r, l') \<Rightarrow> (r, c, l'))
   | Err e \<Rightarrow> (Err e, c, l) | Panic \<Rightarrow> (Panic, c, l))"
proof (cases "ir_build R q")
  case (Ok request)
  obtain r l' where "ir_submitter R request l = (r, l')" by (cases "ir_submitter R request l")
  with Ok show ?thesis
    by (cases r) (simp_all add: ir_uncached_def pure_w_def ir_submit_request_def ir_submit_def)
qed (simp_all add: ir_uncached_def)

text \<open>A reply to the request for a credential definition that cannot be read counts as \<open>not found\<close>.\<close>

lemma unreadable_cred_def:
  assumes "vr_cred_def_id (ir_vdr R) cred_def_id = Ok i"
    and "ir_build R (Rq_GetCredDef (map_option (vdr_did (ir_ids R)) did) i) = Ok request"
    and "ir_submitter R request l = (Ok reply, l1)" and "ry_cred_def (ir_parser R) reply = Err why"
  shows "fst (indy_get_cred_def R (c, l) cred_def_id did) = Err Le_LedgerItemNotFound"
  using assms by (simp add: indy_get_cred_def_def ir_uncached_cases parse_get_cred_def_response_def from_parser_def
      unreadable_not_found)

text \<open>
  A reply that cannot be read lets a credential definition be written. The check before the
  publication asks the ledger whether the definition exists; when the reply has a layout the reader does
  not know, the definition is published as if there were none.
\<close>

theorem unreadable_reply_publishes:
  assumes "vr_cred_def_id (ir_vdr R) (cdp_id self) = Ok i"
    and "ir_build R (Rq_GetCredDef (Some (vdr_did (ir_ids R) (cdp_issuer_did self))) i) = Ok request"
    and "ir_submitter R request l = (Ok reply, l1)" and "ry_cred_def (ir_parser R) reply = Err why"
    and "pm_de_cred_def P (cdp_cred_def_json self) = Ok cred_def"
    and "ru_publish_cred_def U w l cred_def (cdp_issuer_did self) = (Ok (), l')"
  shows "publish_cred_def P (indy_registry_read R now c) U w l self = (Ok (self\<lparr>cdp_state := Pe_Published\<rparr>), l')"
proof -
  have "rr_get_cred_def (indy_registry_read R now c) l (cdp_id self) (Some (cdp_issuer_did self)) = Err Le_LedgerItemNotFound"
    using unreadable_cred_def [OF assms(1) _ assms(3,4), of "Some (cdp_issuer_did self)"] assms(2)
    by (simp add: indy_registry_read_def)
  with assms(5,6) show ?thesis
    by (simp add: publish_cred_def_def try_get_cred_def_from_ledger_def ledger_err_def)
qed

text \<open>
  A definition of the older layout names its schema by a sequence number. When the transaction of the
  schema cannot be read, the definition, which is there, counts as not found too.
\<close>

theorem unreadable_schema_hides_cred_def:
  assumes "vr_cred_def_id (ir_vdr R) cred_def_id = Ok i"
    and "ir_build R (Rq_GetCredDef (map_option (vdr_did (ir_ids R)) did) i) = Ok request"
    and "ir_submitter R request l = (Ok reply, l1)"
    and "parse_get_cred_def_response (ir_ids R) (ir_parser R) reply None = Ok cred_def"
    and "parse_i32 (vcd_schema_id cred_def) = Some seq_no"
    and "ir_build R (Rq_GetTxn (map_option (vdr_did (ir_ids R)) did) seq_no) = Ok request'"
    and "ir_submitter R request' l1 = (Ok reply', l2)" and "ry_txn (ir_parser R) reply' = Err why"
  shows "fst (indy_get_cred_def R (c, l) cred_def_id did) = Err Le_LedgerItemNotFound"
proof -
  have "resolve_schema_id_from_seq_no R (c, l1) seq_no did = (Err Le_LedgerItemNotFound, c, l2)"
    using assms(6-8) by (simp add: resolve_schema_id_from_seq_no_def indy_get_ledger_txn_def ir_uncached_cases
        parse_get_txn_response_def from_parser_def unreadable_not_found)
  with assms(1-5) show ?thesis by (simp add: indy_get_cred_def_def ir_uncached_cases from_parser_def)
qed

section \<open>Endorsement\<close>

lemma verify_endorse_Ok:
  "verify_transaction_can_be_endorsed N de j d = Ok () \<longleftrightarrow>
     (\<exists>t e. de j = Ok t \<and> en_endorser t = Some e \<and> parse_did N e = Ok d
       \<and> (en_signature t \<noteq> None \<or> (\<exists>m. en_signatures t = Some m \<and> map_of m (en_identifier t) \<noteq> None)))"
proof (cases "de j")
  case (Ok t)
  show ?thesis
  proof (cases "en_endorser t")
    case (Some e)
    with Ok show ?thesis by (cases "parse_did N e")
        (auto simp: verify_transaction_can_be_endorsed_def json_err_def did_err_def Let_def split: option.splits)
  qed (simp add: Ok verify_transaction_can_be_endorsed_def json_err_def)
qed (simp_all add: verify_transaction_can_be_endorsed_def json_err_def)

text \<open>
  Only the endorser a transaction names endorses it, and only when its author signed it: then the
  ledger is sent exactly that transaction with the endorser's signature added.
\<close>

theorem endorsed_only_when_signed:
  assumes "indy_endorse_transaction N de D submit W w l endorser request_json = (Ok (), l')"
  shows "\<exists>t e request sig signed reply. de request_json = Ok t \<and> en_endorser t = Some e \<and> parse_did N e = Ok endorser
    \<and> (en_signature t \<noteq> None \<or> (\<exists>m. en_signatures t = Some m \<and> map_of m (en_identifier t) \<noteq> None))
    \<and> vr_of_json D request_json = Ok request \<and> sign_request D W w endorser request = Ok sig
    \<and> vr_set_multi_signature D request (vdr_did (vr_ids D) endorser) sig = Ok signed \<and> submit signed l = (Ok reply, l')"
proof -
  from assms obtain request sig signed reply where run: "vr_of_json D request_json = Ok request"
    "verify_transaction_can_be_endorsed N de request_json endorser = Ok ()" "sign_request D W w endorser request = Ok sig"
    "vr_set_multi_signature D request (vdr_did (vr_ids D) endorser) sig = Ok signed" "submit signed l = (Ok reply, l')"
    by (auto simp: indy_endorse_transaction_def and_thenw_Ok pure_w_def from_vdr_def simp del: and_thenw_pure)
  from run(2) obtain t e where "de request_json = Ok t" "en_endorser t = Some e" "parse_did N e = Ok endorser"
    "en_signature t \<noteq> None \<or> (\<exists>m. en_signatures t = Some m \<and> map_of m (en_identifier t) \<noteq> None)"
    unfolding verify_endorse_Ok by blast
  with run(1,3-5) show ?thesis by blast
qed

text \<open>A refused endorsement does not reach the ledger.\<close>

theorem refused_not_submitted:
  assumes "verify_transaction_can_be_endorsed N de request_json endorser \<noteq> Ok ()"
  shows "snd (indy_endorse_transaction N de D submit W w l endorser request_json) = l"
  using assms by (cases "vr_of_json D request_json"; cases "verify_transaction_can_be_endorsed N de request_json endorser")
    (simp_all add: indy_endorse_transaction_def from_vdr_def)

section \<open>Schemas\<close>

text \<open>What is relied on of the identifiers: a schema id gives back the DID it is made of.\<close>

definition schema_ids :: "vdr_ids \<Rightarrow> LedgerSchema \<Rightarrow> bool" where
  "schema_ids V s \<longleftrightarrow>
     (let did = vi_did_value V (sch_issuer_id s) None; i = vi_schema_id V did (sch_name s) (sch_version s)
      in vi_show V did = sch_issuer_id s \<and> vi_show V i = sch_id s
        \<and> (\<exists>m. vi_schema_parts V i = Some (m, did, sch_name s, sch_version s)))"

text \<open>
  A published schema is read back as it was published, with the sequence number the ledger
  gave it.
\<close>

theorem published_schema_reads_back:
  assumes ids: "schema_ids (ir_ids R) schema" and valid: "SchemaId_new (sch_id schema) = Ok (sch_id schema)"
      "IssuerId_new (sch_issuer_id schema) = Ok (sch_issuer_id schema)"
    and sent: "vdr_of_schema (ir_ids R) schema = Ok sent"
    and request: "vdr_schema_id (ir_ids R) (sch_id schema) = Ok i" "ir_build R (Rq_GetSchema i) = Ok request"
      "ir_submitter R request l = (Ok reply, l')"
    and echo: "ry_schema (ir_parser R) reply = Ok (Lm_Reply (Lr_V0 \<lparr>tr_reply = GetSchema_V0 \<lparr>sv_seq_no = n,
        sv_name = vsc_name sent, sv_version = vsc_version sent, sv_attr_names = vsc_attr_names sent,
        sv_dest = sch_issuer_id schema\<rparr>, tr_type = ''107''\<rparr>))"
  shows "indy_get_schema R (c, l) (sch_id schema) did = (Ok (schema\<lparr>sch_seq_no := Some n\<rparr>), c, l')"
proof -
  let ?V = "ir_ids R"
  let ?i = "vi_schema_id ?V (vi_did_value ?V (sch_issuer_id schema) None) (sch_name schema) (sch_version schema)"
  let ?v = "\<lparr>vsc_id = ?i, vsc_name = sch_name schema, vsc_version = sch_version schema,
    vsc_attr_names = sch_attr_names schema, vsc_seq_no = Some n\<rparr>"
  from sent have "vsc_name sent = sch_name schema" "vsc_version sent = sch_version schema"
    "vsc_attr_names sent = sch_attr_names schema" by (auto simp: vdr_of_schema_def)
  with echo have p: "parse_get_schema_response ?V (ir_parser R) reply None = Ok ?v"
    by (simp add: parse_get_schema_response_def parse_ledger_response_cases GET_SCHEMA_def)
  from ids valid have "schema_of_vdr ?V ?v = Ok (schema\<lparr>sch_seq_no := Some n\<rparr>)"
    by (auto simp: schema_of_vdr_def schema_ids_def Let_def boxed_def)
  with p request show ?thesis
    by (simp add: indy_get_schema_def ir_uncached_cases from_boxed_def from_parser_def)
qed

text \<open>
  Whatever the reason the pool gives for refusing a schema (an author without the right, a missing
  agreement, a malformed request), the caller is told that the schema exists already.
\<close>

theorem refused_schema_reported_duplicate:
  assumes "vr_build D (ivw_protocol_version self) (Rq_Schema (vdr_did (vr_ids D) did) schema) = Ok request"
    and "vdr_of_schema (vr_ids D) schema_json = Ok schema"
    and "append_txn_author_agreement_to_request D now self request = Ok agreed"
    and "sign_request D W w did agreed = Ok signature" and "vr_set_signature D agreed signature = Ok signed"
    and "send_request signed l = (Ok (Some (Ok (RR_Failed (Vk_PoolRequestFailed reason, why)))), l')"
  shows "indy_publish_schema D (vdr_submit send_request closed) W now self w l schema_json did
    = (Err Le_DuplicationSchema, l')"
  using assms by (simp add: indy_publish_schema_def sign_and_submit_request_def vdr_submit_def from_vdr_def from_boxed_def)

text \<open>The agreement a writer is configured with is not appended to its requests.\<close>

theorem configured_agreement_dropped:
  "append_txn_author_agreement_to_request D now (indyvdr_build_ledger_write taa_options) request = Ok request"
  by (simp add: append_txn_author_agreement_to_request_def indyvdr_build_ledger_write_def ledger_write_new_def)

section \<open>Times\<close>

text \<open>
  From \<open>2 ^ 63\<close> seconds on, the read of a registry panics, while the read of a delta asks the ledger for a
  negative time.
\<close>

theorem late_timestamp_panics:
  assumes "2 ^ 63 \<le> unat timestamp" and "vr_rev_reg_id (ir_vdr R) rev_reg_id = Ok i"
  shows "indy_get_rev_reg R s rev_reg_id timestamp = (Panic, s)"
  using assms by (simp add: indy_get_rev_reg_def)

lemma late_time_negative:
  assumes "2 ^ 63 \<le> unat (t :: u64)"
  shows "sint t < 0"
proof (rule ccontr)
  assume n: "\<not> sint t < 0"
  have lt: "sint t < 2 ^ 63" using sint_lt [of t] by simp
  have "uint t = take_bit 64 (sint t)"
    using uint_sint [of t] by (simp only: len_num0 len_bit0 len_num1 len_bit1) simp
  also have "\<dots> = sint t" using n by (intro take_bit_int_eq_self less_trans [OF lt]) simp_all
  finally have "unat t < 2 ^ 63" using lt
    by (metis unat_eq_nat_uint nat_less_iff uint_ge_0 of_nat_numeral of_nat_power)
  with assms show False using leD by blast
qed
section \<open>A concrete client\<close>

text \<open>A request is the call that builds it, and signatures leave it as it is.\<close>

definition sample_ids_of_vdr :: vdr_ids where
  "sample_ids_of_vdr = \<lparr>vi_did_value = (\<lambda>d _. d), vi_did_validate = (\<lambda>_. Ok ()), vi_show = (\<lambda>i. i),
     vi_schema_id = (\<lambda>d n v. d @ '':2:'' @ n @ '':'' @ v), vi_schema_validate = (\<lambda>_. Ok ()),
     vi_schema_parts = (\<lambda>i. case split_char (CHR '':'') i of [d, _, n, v] \<Rightarrow> Some (None, d, n, v) | _ \<Rightarrow> None),
     vi_cred_def_id = (\<lambda>d s t g. d @ '':3:'' @ t @ '':'' @ s @ '':'' @ g), vi_cred_def_parts = (\<lambda>_. None),
     vi_rev_reg_parts = (\<lambda>_. None)\<rparr>"

definition sample_vdr :: "LedgerRequest vdr" where
  "sample_vdr = \<lparr>vr_ids = sample_ids_of_vdr, vr_build = (\<lambda>_. Ok), vr_taa_data = (\<lambda>_ _ _ _ _. Ok JNull),
     vr_set_taa = (\<lambda>r _. Ok r), vr_signature_input = (\<lambda>_. Ok ''in''), vr_set_signature = (\<lambda>r _. Ok r),
     vr_set_multi_signature = (\<lambda>r _ _. Ok r), vr_set_endorser = (\<lambda>r _. Ok r), vr_of_json = (\<lambda>_. Ok Rq_GetTaa),
     vr_json = (\<lambda>_. []), vr_cred_def_id = Ok, vr_rev_reg_id = Ok, vr_update_role = (\<lambda>_. Ok Role_Reset)\<rparr>"

text \<open>The readers know one reply, a schema; every other text is unreadable.\<close>

definition sample_reply_reader :: reply_reader where
  "sample_reply_reader = \<lparr>ry_nym = (\<lambda>_. Err []), ry_nym_data = (\<lambda>_. Err []),
     ry_schema = (\<lambda>_. Ok (Lm_Reply (Lr_V0 \<lparr>tr_reply = GetSchema_V0 \<lparr>sv_seq_no = 7, sv_name = ''gvt'', sv_version = ''1.0'',
       sv_attr_names = [''a''], sv_dest = ''NcYxiDXkpYi6ov5FcYDi1e''\<rparr>, tr_type = ''107''\<rparr>))),
     ry_cred_def = (\<lambda>_. Err []), ry_rev_reg_def = (\<lambda>_. Err []), ry_rev_reg = (\<lambda>_. Err []),
     ry_rev_reg_delta = (\<lambda>_. Err []), ry_taa = (\<lambda>_. Err []), ry_txn = (\<lambda>_. Err []),
     ry_delta_value = (\<lambda>_ _ _ _. Err [])\<rparr>"

definition sample_led_codec :: led_codec where
  "sample_led_codec = \<lparr>ld_data = (\<lambda>p _. p), ld_primary = (\<lambda>v. v), ld_revocation = (\<lambda>_. None), ld_read_primary = Ok,
     ld_read_revocation = Ok, ld_write_primary = Ok, ld_write_revocation = Ok, ld_read_accum_key = Ok,
     ld_write_accum_key = Ok, ld_read_registry = Ok, ld_read_delta = (\<lambda>_. Ok (sample_delta [])),
     ld_write_delta = (\<lambda>_. Ok JNull), ld_same_value = Ok, ld_debug_delta = (\<lambda>_. []), ld_ser_taa = (\<lambda>_. Ok []),
     ld_json_parse = (\<lambda>_. Ok JNull), ld_json_show = (\<lambda>_. [])\<rparr>"

definition sample_indy_reader ::
  "'c cacher \<Rightarrow> (LedgerRequest, 'c, 'l) indy_reader" where
  "sample_indy_reader ch = \<lparr>ir_submitter = (\<lambda>_ l. (Ok ''reply'', l)), ir_parser = sample_reply_reader, ir_cacher = ch,
     ir_version = Node1_4, ir_vdr = sample_vdr, ir_codec = sample_led_codec\<rparr>"

lemma sample_indy_reader_simps [simp]:
  "ir_ids (sample_indy_reader ch) = sample_ids_of_vdr" "ir_build (sample_indy_reader ch) q = Ok q"
  "ir_vdr (sample_indy_reader ch) = sample_vdr" "ir_parser (sample_indy_reader ch) = sample_reply_reader"
  "ir_submitter (sample_indy_reader ch) = (\<lambda>_ l. (Ok ''reply'', l))" "ir_cacher (sample_indy_reader ch) = ch"
  by (simp_all add: sample_indy_reader_def ir_ids_def ir_build_def sample_vdr_def from_vdr_def)

text \<open>Two reads of one registry within a minute: the second comes from the cache.\<close>

definition sample_config :: CacherConfig where
  "sample_config = \<lparr>cc_ttl = 60, cc_capacity = 2\<rparr>"

definition two_reads :: "(string \<times> LedgerRequest \<times> nat \<times> nat) list" where
  "two_reads = [(''r:1'', Rq_GetRevRegDef ''r:1'', 0, 1), (''r:1'', Rq_GetRevRegDef ''r:1'', 20, 21)]"

lemma sample_two_reads:
  "ir_reads (sample_indy_reader (in_memory_cacher list_lru same_text sample_config))
     (cacher_new list_lru sample_config, ()) two_reads = [Ok (''reply'', False), Ok (''reply'', True)]"
  by (simp add: two_reads_def ir_submit_request_def in_memory_cacher_def cacher_get_def cacher_put_def list_lru_def
      cacher_new_def sample_config_def same_text_def ir_submit_def json_err_def pure_w_def)

theorem cached_answers_fresh_witness:
  "\<exists>m < 1. fst (two_reads ! m) = ''r:1'' \<and> 20 - snd (snd (snd (two_reads ! m))) \<le> 60"
proof -
  from cached_answers_fresh [OF list_lru_laws same_text_inverse sample_indy_reader_simps(6), of 1 two_reads sample_config
      "()" "''reply''"] show ?thesis
    unfolding sample_two_reads by (auto simp: two_reads_def sample_config_def)
qed

definition sample_prim_reader :: prim_codec where
  "sample_prim_reader = sample_prim_codec\<lparr>pm_de_cred_def := (\<lambda>_. Ok \<lparr>cdf_id = ''c:1'', cdf_schema_id = ''s:1'',
     cdf_tag = ''t'', cdf_value = JNull, cdf_issuer_id = ''i:1''\<rparr>)\<rparr>"

theorem unreadable_reply_publishes_witness:
  "publish_cred_def sample_prim_reader (indy_registry_read (sample_indy_reader noop_cacher) 0 ()) sample_writes ()
     [] sample_cred_def_prim = (Ok (sample_cred_def_prim\<lparr>cdp_state := Pe_Published\<rparr>), [])"
  by (rule unreadable_reply_publishes [where i = "''c:1''"])
    (simp_all add: sample_vdr_def sample_cred_def_prim_def sample_reply_reader_def sample_prim_reader_def sample_writes_def)

definition signed_request :: EndorseRequest where
  "signed_request = \<lparr>en_req_id = 1, en_identifier = ''a'', en_signature = None, en_signatures = Some [(''a'', ''s'')],
     en_endorser = Some ''d''\<rparr>"

theorem endorsed_only_when_signed_witness:
  "\<exists>t e. en_endorser signed_request = Some e \<and> parse_did sample_nom e = Ok sample_did \<and> t = signed_request \<and>
    (en_signature t \<noteq> None \<or> (\<exists>m. en_signatures t = Some m \<and> map_of m (en_identifier t) \<noteq> None))"
proof -
  have "indy_endorse_transaction sample_nom (\<lambda>_. Ok signed_request) sample_vdr (\<lambda>_ l. (Ok [], l)) sample_wallet 0 ()
    sample_did ''j'' = (Ok (), ())"
    by (simp add: indy_endorse_transaction_def verify_transaction_can_be_endorsed_def sample_vdr_def from_vdr_def
        json_err_def signed_request_def did_err_def sample_parse sample_did_def sign_request_def sample_wallet_def
        wallet_err_def)
  from endorsed_only_when_signed [OF this] show ?thesis by blast
qed

definition published_schema :: LedgerSchema where
  "published_schema = sample_ledger_schema\<lparr>sch_id := ''NcYxiDXkpYi6ov5FcYDi1e:2:gvt:1.0'',
     sch_issuer_id := ''NcYxiDXkpYi6ov5FcYDi1e'', sch_seq_no := None\<rparr>"

lemma published_schema_valid:
  "SchemaId_new (sch_id published_schema) = Ok (sch_id published_schema)"
  "IssuerId_new (sch_issuer_id published_schema) = Ok (sch_issuer_id published_schema)"
  by code_simp+

theorem published_schema_reads_back_witness:
  "indy_get_schema (sample_indy_reader noop_cacher) ((), ()) ''NcYxiDXkpYi6ov5FcYDi1e:2:gvt:1.0'' None =
     (Ok (published_schema\<lparr>sch_seq_no := Some 7\<rparr>), (), ())"
proof -
  let ?R = "sample_indy_reader noop_cacher :: (LedgerRequest, unit, unit) indy_reader"
  let ?i = "''NcYxiDXkpYi6ov5FcYDi1e:2:gvt:1.0''"
  have i: "sch_id published_schema = ?i" by (simp add: published_schema_def)
  have ids: "schema_ids (ir_ids ?R) published_schema"
    by (simp add: schema_ids_def sample_ids_of_vdr_def published_schema_def sample_ledger_schema_def)
  have sent: "vdr_of_schema (ir_ids ?R) published_schema = Ok \<lparr>vsc_id = ?i, vsc_name = ''gvt'', vsc_version = ''1.0'',
      vsc_attr_names = [''a''], vsc_seq_no = None\<rparr>"
    by (simp add: vdr_of_schema_def sample_ids_of_vdr_def published_schema_def sample_ledger_schema_def)
  have q: "vdr_schema_id (ir_ids ?R) (sch_id published_schema) = Ok ?i"
    by (simp add: vdr_schema_id_def sample_ids_of_vdr_def published_schema_def)
  from published_schema_reads_back [OF ids published_schema_valid sent q sample_indy_reader_simps(2), of "()" "''reply''" "()" 7 "()" None]
  show ?thesis by (simp add: i) (simp add: sample_reply_reader_def published_schema_def)
qed

end
