(* ===== verification/Did_Cheqd.thy ===== *)
theory Did_Cheqd
  imports Did_Peer Backends "HOL-Library.Product_Lexorder"
begin

text \<open>
  The method \<open>did:cheqd\<close> (crate \<open>did_core/did_methods/did_cheqd\<close>): its errors, the conversion of ledger
  documents and resource metadata (\<open>resolution/transformer.rs\<close>), and the resolver of documents and of
  DID-linked resources with its lazily created clients (\<open>resolution/resolver.rs\<close>). The generated gRPC
  clients are the record \<open>grpc\<close>, a client being a value of \<open>'g\<close>; chrono and the normalisation of protobuf
  timestamps are the record \<open>time_lib\<close>. A time is its seconds and nanoseconds.
\<close>

section \<open>Errors\<close>

datatype ParsingErrorSource =
    Cs_DidDocumentParsingError ParseError
  | Cs_DidDocumentParsingUriError string
  | Cs_JsonError string
  | Cs_UrlParsingError string
  | Cs_Utf8Error string
  | Cs_IntConversionError string

fun show_ParsingErrorSource :: "ParsingErrorSource \<Rightarrow> string" where
  "show_ParsingErrorSource (Cs_DidDocumentParsingError e) = ''DID document parsing error: '' @ show_ParseError e"
| "show_ParsingErrorSource (Cs_DidDocumentParsingUriError e) = ''DID document parsing URI error: '' @ e"
| "show_ParsingErrorSource (Cs_JsonError e) = ''JSON parsing error: '' @ e"
| "show_ParsingErrorSource (Cs_UrlParsingError e) = ''Invalid URL: '' @ e"
| "show_ParsingErrorSource (Cs_Utf8Error e) = ''Invalid encoding: '' @ e"
| "show_ParsingErrorSource (Cs_IntConversionError e) = ''Invalid encoding: '' @ e"

datatype DidCheqdError =
    Ch_MethodNotSupported string
  | Ch_NetworkNotSupported string
  | Ch_BadConfiguration string
  | Ch_TransportError string
  | Ch_NonSuccessResponse string
  | Ch_InvalidResponse string
  | Ch_InvalidDidDocument string
  | Ch_InvalidDidUrl string
  | Ch_ResourceNotFound string
  | Ch_ParsingError ParsingErrorSource
  | Ch_Other string

fun show_DidCheqdError :: "DidCheqdError \<Rightarrow> string" where
  "show_DidCheqdError (Ch_MethodNotSupported e) = ''DID method not supported: '' @ e"
| "show_DidCheqdError (Ch_NetworkNotSupported e) = ''Cheqd network not supported: '' @ e"
| "show_DidCheqdError (Ch_BadConfiguration e) = ''Bad configuration: '' @ e"
| "show_DidCheqdError (Ch_TransportError e) = ''Transport error: '' @ e"
| "show_DidCheqdError (Ch_NonSuccessResponse e) = ''Non-success resolver response: '' @ e"
| "show_DidCheqdError (Ch_InvalidResponse e) = ''Response from resolver is invalid: '' @ e"
| "show_DidCheqdError (Ch_InvalidDidDocument e) = ''Invalid DID Document structure resolved: '' @ e"
| "show_DidCheqdError (Ch_InvalidDidUrl e) = ''Invalid DID Url: '' @ e"
| "show_DidCheqdError (Ch_ResourceNotFound e) = ''Resource could not be found: '' @ e"
| "show_DidCheqdError (Ch_ParsingError e) = ''Parsing error: '' @ show_ParsingErrorSource e"
| "show_DidCheqdError (Ch_Other e) = e"

type_synonym 'a cheqd_res = "(DidCheqdError, 'a) result"

text \<open>The conversions that \<open>?\<close> applies.\<close>

definition ch_parse :: "(ParseError, 'a) result \<Rightarrow> 'a cheqd_res" where
  "ch_parse = map_err (Ch_ParsingError \<circ> Cs_DidDocumentParsingError)"

definition ch_uri :: "(string, 'a) result \<Rightarrow> 'a cheqd_res" where
  "ch_uri = map_err (Ch_ParsingError \<circ> Cs_DidDocumentParsingUriError)"

definition ch_json :: "(string, 'a) result \<Rightarrow> 'a cheqd_res" where
  "ch_json = map_err (Ch_ParsingError \<circ> Cs_JsonError)"

definition ch_url :: "(string, 'a) result \<Rightarrow> 'a cheqd_res" where
  "ch_url = map_err (Ch_ParsingError \<circ> Cs_UrlParsingError)"

lemmas cheqd_conv = ch_parse_def ch_uri_def ch_json_def ch_url_def

section \<open>What the ledger returns\<close>

type_synonym timestamp = "int \<times> int"

record CheqdVerificationMethod =
  cvm_id :: string
  cvm_type :: string
  cvm_controller :: string
  cvm_material :: string

record CheqdService =
  csv_id :: string
  csv_type :: string
  csv_endpoint :: "string list"

record CheqdDidDoc =
  cdd_context :: "string list"
  cdd_id :: string
  cdd_controller :: "string list"
  cdd_verification_method :: "CheqdVerificationMethod list"
  cdd_authentication :: "string list"
  cdd_assertion_method :: "string list"
  cdd_capability_invocation :: "string list"
  cdd_capability_delegation :: "string list"
  cdd_key_agreement :: "string list"
  cdd_service :: "CheqdService list"
  cdd_also_known_as :: "string list"

record CheqdDocMetadata =
  cdm_created :: "timestamp option"
  cdm_updated :: "timestamp option"
  cdm_deactivated :: bool
  cdm_version_id :: string
  cdm_next_version_id :: string

record CheqdResourceMetadata =
  crm_collection_id :: string
  crm_id :: string
  crm_name :: string
  crm_version :: string
  crm_resource_type :: string
  crm_also_known_as :: "(string \<times> string) list"
  crm_media_type :: string
  crm_created :: "timestamp option"
  crm_checksum :: string
  crm_previous_version_id :: string
  crm_next_version_id :: string

text \<open>A document with its metadata; a resource, its bytes and metadata. Every level may be absent.\<close>

type_synonym DidDocResponse = "(CheqdDidDoc option \<times> CheqdDocMetadata option) option"
type_synonym ResourceResponse = "(string option \<times> CheqdResourceMetadata option) option"

text \<open>
  \<open>gr_tls\<close> builds the connector, \<open>gr_client\<close> reads the URL of a node and makes a client for it. A
  refused call gives the text of its status.
\<close>

record 'g grpc =
  gr_tls :: "(string, unit) result"
  gr_client :: "string \<Rightarrow> (string, 'g) result"
  gr_did_doc :: "'g \<Rightarrow> string \<Rightarrow> (string, DidDocResponse) result"
  gr_resource :: "'g \<Rightarrow> string \<Rightarrow> string \<Rightarrow> (string, ResourceResponse) result"
  gr_collection :: "'g \<Rightarrow> string \<Rightarrow> (string, CheqdResourceMetadata list) result"

record time_lib =
  tl_normalized :: "timestamp \<Rightarrow> timestamp"
  tl_from_timestamp :: "int \<Rightarrow> int \<Rightarrow> timestamp option"
  tl_parse_rfc3339 :: "string \<Rightarrow> (string, timestamp) result"
  tl_rfc3339_millis :: "timestamp \<Rightarrow> string"
  tl_show :: "timestamp \<Rightarrow> string"
  tl_debug :: "timestamp \<Rightarrow> string"
  tl_int_error :: string

text \<open>The derived readers, \<open>Url::parse\<close>, \<open>trim\<close>, percent decoding and the \<open>Debug\<close> texts.\<close>

record 'k cheqd_ext =
  ct_doc :: "'k doc_ext"
  ct_de_vm_type :: "string \<Rightarrow> (string, VerificationMethodType) result"
  ct_de_jwk :: "string \<Rightarrow> (string, JsonWebKey) result"
  ct_de_service_type :: "string \<Rightarrow> (string, ServiceType OneOrList) result"
  ct_url :: "string \<Rightarrow> (string, string) result"
  ct_trim :: "string \<Rightarrow> string"
  ct_percent_decode :: "string \<Rightarrow> string"
  ct_debug_opt :: "string option \<Rightarrow> string"
  ct_debug_meta :: "CheqdResourceMetadata \<Rightarrow> string"
  ct_time :: time_lib
  ct_nom :: nom

section \<open>Conversions\<close>

definition prost_timestamp_to_dt :: "time_lib \<Rightarrow> timestamp \<Rightarrow> timestamp cheqd_res" where
  "prost_timestamp_to_dt L timestamp =
     (let timestamp = tl_normalized L timestamp
      in and_then (if 0 \<le> snd timestamp then Ok (snd timestamp)
           else Err (Ch_ParsingError (Cs_IntConversionError (tl_int_error L)))) (\<lambda>nanos.
         ok_or (tl_from_timestamp L (fst timestamp) nanos)
           (Ch_Other (''Unknown error, bad timestamp: '' @ tl_debug L timestamp))))"

definition cheqd_public_key :: "'k cheqd_ext \<Rightarrow> VerificationMethodType \<Rightarrow> string \<Rightarrow> PublicKeyField cheqd_res" where
  "cheqd_public_key X t encoded = (case t of
     Ed25519VerificationKey2020 \<Rightarrow> Ok (Pkf_Multibase encoded)
   | JsonWebKey2020 \<Rightarrow> and_then (ch_json (ct_de_jwk X encoded)) (\<lambda>k. Ok (Pkf_Jwk k))
   | Ed25519VerificationKey2018 \<Rightarrow> Ok (Pkf_Base58 encoded)
   | Bls12381G1Key2020 \<Rightarrow> Ok (Pkf_Base58 encoded)
   | Bls12381G2Key2020 \<Rightarrow> Ok (Pkf_Base58 encoded)
   | X25519KeyAgreementKey2019 \<Rightarrow> Ok (Pkf_Base58 encoded)
   | X25519KeyAgreementKey2020 \<Rightarrow> Ok (Pkf_Multibase encoded)
   | Multikey \<Rightarrow> Ok (Pkf_Multibase encoded)
   | PgpVerificationKey2021 \<Rightarrow> Ok (Pkf_Pgp encoded)
   | EcdsaSecp256k1VerificationKey2019 \<Rightarrow> Err (Ch_InvalidDidDocument
       ''DidDocument uses VM type of EcdsaSecp256k1VerificationKey2019, cannot process'')
   | EcdsaSecp256k1RecoveryMethod2020 \<Rightarrow> Err (Ch_InvalidDidDocument
       ''DidDocument uses VM type of EcdsaSecp256k1RecoveryMethod2020, cannot process''))"

definition vm_of_cheqd :: "'k cheqd_ext \<Rightarrow> CheqdVerificationMethod \<Rightarrow> VerificationMethod cheqd_res" where
  "vm_of_cheqd X v =
     and_then (ch_json (ct_de_vm_type X (cvm_type v))) (\<lambda>t.
     and_then (cheqd_public_key X t (cvm_material v)) (\<lambda>pk.
     and_then (ch_parse (parse_did_url (ct_nom X) (cvm_id v))) (\<lambda>i.
     and_then (ch_parse (parse_did (ct_nom X) (cvm_controller v))) (\<lambda>controller.
     Ok \<lparr>vm_id = i, vm_controller = controller, vm_type = t, vm_public_key = pk\<rparr>))))"

definition service_of_cheqd :: "'k cheqd_ext \<Rightarrow> CheqdService \<Rightarrow> Service cheqd_res" where
  "service_of_cheqd X v =
     and_then (case csv_endpoint v of endpoint # _ \<Rightarrow> Ok endpoint
       | [] \<Rightarrow> Err (Ch_InvalidDidDocument ''DID Document Service is missing an endpoint'')) (\<lambda>endpoint.
     and_then (ch_uri (Uri_new (ct_doc X) (csv_id v))) (\<lambda>i.
     and_then (ch_url (ct_url X endpoint)) (\<lambda>endpoint.
     and_then (ch_json (ct_de_service_type X (csv_type v))) (\<lambda>service_type.
     Ok \<lparr>sc_id = i, sc_service_type = service_type, sc_service_endpoint = endpoint, sc_extra = Map.empty\<rparr>))))"

definition push_new :: "string \<Rightarrow> string list \<Rightarrow> string list" where
  "push_new c context = (if c \<in> set context then context else context @ [c])"

text \<open>The loop over the verification methods collects their contexts.\<close>

definition cheqd_add_vm ::
  "'k cheqd_ext \<Rightarrow> DidDocument \<times> string list \<Rightarrow> CheqdVerificationMethod \<Rightarrow> (DidDocument \<times> string list) cheqd_res" where
  "cheqd_add_vm X s v =
     and_then (vm_of_cheqd X v) (\<lambda>vm.
     Ok (doc_add_verification_method vm (fst s), push_new (context_for_type (vm_type vm)) (snd s)))"

definition cheqd_add_ref ::
  "'k cheqd_ext \<Rightarrow> (DidUrl \<Rightarrow> DidDocument \<Rightarrow> DidDocument) \<Rightarrow> DidDocument \<Rightarrow> string \<Rightarrow> DidDocument cheqd_res" where
  "cheqd_add_ref X add doc i = and_then (ch_parse (parse_did_url (ct_nom X) i)) (\<lambda>url. Ok (add url doc))"

definition doc_of_cheqd :: "'k cheqd_ext \<Rightarrow> CheqdDidDoc \<Rightarrow> DidDocument cheqd_res" where
  "doc_of_cheqd X v =
     and_then (ch_parse (parse_did (ct_nom X) (cdd_id v))) (\<lambda>i.
     let doc = DidDocument_new i; context = push_new ''https://www.w3.org/ns/did/v1'' (cdd_context v)
     in and_then (try_map (ch_parse \<circ> parse_did (ct_nom X)) (cdd_controller v)) (\<lambda>controller.
     let doc = (if controller \<noteq> [] then doc_set_controller (one_or_list controller) doc else doc)
     in and_then (try_fold (cheqd_add_vm X) (doc, context) (cdd_verification_method v)) (\<lambda>(doc, context).
     and_then (try_fold (cheqd_add_ref X doc_add_authentication_ref) doc (cdd_authentication v)) (\<lambda>doc.
     and_then (try_fold (cheqd_add_ref X doc_add_assertion_method_ref) doc (cdd_assertion_method v)) (\<lambda>doc.
     and_then (try_fold (cheqd_add_ref X doc_add_capability_invocation_ref) doc (cdd_capability_invocation v)) (\<lambda>doc.
     and_then (try_fold (cheqd_add_ref X doc_add_capability_delegation_ref) doc (cdd_capability_delegation v)) (\<lambda>doc.
     and_then (try_fold (cheqd_add_ref X doc_add_key_agreement_ref) doc (cdd_key_agreement v)) (\<lambda>doc.
     and_then (try_fold (\<lambda>doc svc. and_then (service_of_cheqd X svc) (\<lambda>svc. Ok (doc_add_service svc doc))) doc
       (cdd_service v)) (\<lambda>doc.
     and_then (try_map (ch_uri \<circ> Uri_new (ct_doc X)) (cdd_also_known_as v)) (\<lambda>aka.
     Ok (doc_set_extra_field ''@context'' (JArray (map JString context)) (doc_set_also_known_as aka doc))))))))))))"

record DidDocumentMetadata =
  dm_created :: "timestamp option"
  dm_updated :: "timestamp option"
  dm_deactivated :: "bool option"
  dm_next_update :: "timestamp option"
  dm_version_id :: "string option"
  dm_next_version_id :: "string option"
  dm_equivalent_id :: "Did list"
  dm_canonical_id :: "Did option"

definition default_doc_metadata :: DidDocumentMetadata where
  "default_doc_metadata = \<lparr>dm_created = None, dm_updated = None, dm_deactivated = None, dm_next_update = None,
     dm_version_id = None, dm_next_version_id = None, dm_equivalent_id = [], dm_canonical_id = None\<rparr>"

definition doc_metadata_of_cheqd :: "time_lib \<Rightarrow> CheqdDocMetadata \<Rightarrow> DidDocumentMetadata cheqd_res" where
  "doc_metadata_of_cheqd L v =
     and_then (transpose_opt (map_option (prost_timestamp_to_dt L) (cdm_created v))) (\<lambda>created.
     and_then (transpose_opt (map_option (prost_timestamp_to_dt L) (cdm_updated v))) (\<lambda>updated.
     Ok (default_doc_metadata\<lparr>dm_created := created, dm_updated := updated,
       dm_deactivated := Some (cdm_deactivated v), dm_version_id := Some (cdm_version_id v),
       dm_next_version_id := Some (cdm_next_version_id v)\<rparr>)))"

record DidResourceMetadata =
  drm_resource_uri :: string
  drm_resource_collection_id :: string
  drm_resource_id :: string
  drm_resource_name :: string
  drm_resource_type :: string
  drm_resource_version :: "string option"
  drm_also_known_as :: "json list option"
  drm_media_type :: string
  drm_created :: timestamp
  drm_updated :: "timestamp option"
  drm_checksum :: string
  drm_previous_version_id :: "string option"
  drm_next_version_id :: "string option"

record DidResource =
  res_content :: string
  res_metadata :: DidResourceMetadata

definition non_blank :: "'k cheqd_ext \<Rightarrow> string \<Rightarrow> string option" where
  "non_blank X s = (if ct_trim X s \<noteq> [] then Some s else None)"

definition resource_metadata_of_cheqd ::
  "'k cheqd_ext \<Rightarrow> string \<Rightarrow> CheqdResourceMetadata \<Rightarrow> DidResourceMetadata cheqd_res" where
  "resource_metadata_of_cheqd X uri v =
     and_then (ok_or (crm_created v) (Ch_InvalidDidDocument
       (''created field missing from resource: '' @ ct_debug_meta X v))) (\<lambda>created.
     and_then (prost_timestamp_to_dt (ct_time X) created) (\<lambda>created.
     Ok \<lparr>drm_resource_uri = uri, drm_resource_collection_id = crm_collection_id v, drm_resource_id = crm_id v,
       drm_resource_name = crm_name v, drm_resource_type = crm_resource_type v,
       drm_resource_version = non_blank X (crm_version v),
       drm_also_known_as = Some (map (\<lambda>(u, d). JObject [(''description'', JString d), (''uri'', JString u)])
         (crm_also_known_as v)),
       drm_media_type = crm_media_type v, drm_created = created, drm_updated = None, drm_checksum = crm_checksum v,
       drm_previous_version_id = non_blank X (crm_previous_version_id v),
       drm_next_version_id = non_blank X (crm_next_version_id v)\<rparr>))"

section \<open>Networks\<close>

definition MAINNET_NAMESPACE :: string where "MAINNET_NAMESPACE = ''mainnet''"
definition MAINNET_DEFAULT_GRPC :: string where "MAINNET_DEFAULT_GRPC = ''https://grpc.cheqd.net:443''"
definition TESTNET_NAMESPACE :: string where "TESTNET_NAMESPACE = ''testnet''"
definition TESTNET_DEFAULT_GRPC :: string where "TESTNET_DEFAULT_GRPC = ''https://grpc.cheqd.network:443''"

record NetworkConfiguration =
  nw_grpc_url :: string
  nw_namespace :: string

definition mainnet :: NetworkConfiguration where
  "mainnet = \<lparr>nw_grpc_url = MAINNET_DEFAULT_GRPC, nw_namespace = MAINNET_NAMESPACE\<rparr>"

definition testnet :: NetworkConfiguration where
  "testnet = \<lparr>nw_grpc_url = TESTNET_DEFAULT_GRPC, nw_namespace = TESTNET_NAMESPACE\<rparr>"

definition default_networks :: "NetworkConfiguration list" where
  "default_networks = [mainnet, testnet]"

text \<open>The resolver: the networks it knows and the clients it has made.\<close>

record 'g DidCheqdResolver =
  cq_networks :: "NetworkConfiguration list"
  cq_clients :: "string \<rightharpoonup> 'g"

definition DidCheqdResolver_new :: "NetworkConfiguration list \<Rightarrow> 'g DidCheqdResolver" where
  "DidCheqdResolver_new networks = \<lparr>cq_networks = networks, cq_clients = Map.empty\<rparr>"

definition native_tls_hyper_client :: "'g grpc \<Rightarrow> unit cheqd_res" where
  "native_tls_hyper_client G = map_err (\<lambda>e. Ch_BadConfiguration (''Failed to build TlsConnector: '' @ e)) (gr_tls G)"

definition client_for_network ::
  "'g grpc \<Rightarrow> 'g DidCheqdResolver \<Rightarrow> string \<Rightarrow> 'g cheqd_res \<times> 'g DidCheqdResolver" where
  "client_for_network G self network =
     (case cq_clients self network of
        Some client \<Rightarrow> (Ok client, self)
      | None \<Rightarrow>
          and_thenw (pure_w (ok_or (find (\<lambda>n. nw_namespace n = network) (cq_networks self))
              (Ch_NetworkNotSupported network)) self) (\<lambda>network_config self.
          and_thenw (pure_w (native_tls_hyper_client G) self) (\<lambda>_ self.
          and_thenw (pure_w (map_err (\<lambda>e. Ch_BadConfiguration
              (''GRPC URL is not a URI: '' @ nw_grpc_url network_config @ '' '' @ e))
              (gr_client G (nw_grpc_url network_config))) self) (\<lambda>client self.
          (Ok client, self\<lparr>cq_clients := (cq_clients self)(network \<mapsto> client)\<rparr>)))))"

section \<open>Documents\<close>

definition resolve_cheqd_did ::
  "'k cheqd_ext \<Rightarrow> 'g grpc \<Rightarrow> 'g DidCheqdResolver \<Rightarrow> Did \<Rightarrow>
   DidDocumentMetadata DidResolutionOutput cheqd_res \<times> 'g DidCheqdResolver" where
  "resolve_cheqd_did X G self did =
     (if did_method did \<noteq> Some ''cheqd'' then
        (Err (Ch_MethodNotSupported (ct_debug_opt X (did_method did))), self)
      else
        and_thenw (client_for_network G self (case did_namespace did of Some n \<Rightarrow> n | None \<Rightarrow> MAINNET_NAMESPACE)) (\<lambda>client self.
        (and_then (map_err Ch_NonSuccessResponse (gr_did_doc G client (did_text did))) (\<lambda>query_response.
         and_then (ok_or query_response (Ch_InvalidResponse ''DIDDoc query did not return a value'')) (\<lambda>query_doc_res.
         and_then (ok_or (fst query_doc_res) (Ch_InvalidResponse ''DIDDoc query did not return a DIDDoc'')) (\<lambda>query_doc.
         and_then (doc_of_cheqd X query_doc) (\<lambda>doc.
         and_then (case snd query_doc_res of
             Some query_metadata \<Rightarrow> doc_metadata_of_cheqd (ct_time X) query_metadata
           | None \<Rightarrow> Ok default_doc_metadata) (\<lambda>meta.
         Ok \<lparr>ro_did_document = doc, ro_metadata = meta\<rparr>))))), self)))"

section \<open>Resources\<close>

definition filter_resources_by_name_and_type ::
  "CheqdResourceMetadata list \<Rightarrow> string \<Rightarrow> string \<Rightarrow> CheqdResourceMetadata list" where
  "filter_resources_by_name_and_type resources name rtyp =
     filter (\<lambda>r. crm_name r = name \<and> crm_resource_type r = rtyp) resources"

definition created_key :: "time_lib \<Rightarrow> CheqdResourceMetadata \<Rightarrow> timestamp" where
  "created_key L r = (case crm_created r of Some v \<Rightarrow> tl_normalized L v | None \<Rightarrow> (0, 0))"

text \<open>A stable sort, the latest first: seconds are compared before nanoseconds.\<close>

definition sort_desc_chronological :: "time_lib \<Rightarrow> CheqdResourceMetadata list \<Rightarrow> CheqdResourceMetadata list" where
  "sort_desc_chronological L =
     sort_key (\<lambda>r. case created_key L r of (secs, ns) \<Rightarrow> (- secs, - ns))"

fun find_resource_just_before_time ::
  "time_lib \<Rightarrow> timestamp \<Rightarrow> CheqdResourceMetadata list \<Rightarrow> CheqdResourceMetadata option" where
  "find_resource_just_before_time L before_time [] = None"
| "find_resource_just_before_time L before_time (r # rs) =
     (case crm_created r of
        None \<Rightarrow> find_resource_just_before_time L before_time rs
      | Some created \<Rightarrow>
          if fst (tl_normalized L created) < fst before_time then Some r
          else find_resource_just_before_time L before_time rs)"

definition resolve_resource_by_id ::
  "'k cheqd_ext \<Rightarrow> 'g grpc \<Rightarrow> 'g DidCheqdResolver \<Rightarrow> string \<Rightarrow> string \<Rightarrow> string \<Rightarrow>
   DidResource cheqd_res \<times> 'g DidCheqdResolver" where
  "resolve_resource_by_id X G self collection_id resource_id network =
     and_thenw (client_for_network G self network) (\<lambda>client self.
     (and_then (map_err Ch_NonSuccessResponse (gr_resource G client collection_id resource_id)) (\<lambda>query_response.
      and_then (ok_or query_response (Ch_InvalidResponse ''Resource query did not return a value'')) (\<lambda>query_response.
      and_then (ok_or (fst query_response) (Ch_InvalidResponse ''Resource query did not return a resource'')) (\<lambda>content.
      and_then (ok_or (snd query_response) (Ch_InvalidResponse ''Resource query did not return metadata'')) (\<lambda>query_metadata.
      and_then (resource_metadata_of_cheqd X
          (''did:cheqd:'' @ network @ '':'' @ crm_collection_id query_metadata @ ''/resources/'' @ crm_id query_metadata)
          query_metadata) (\<lambda>metadata.
      Ok \<lparr>res_content = content, res_metadata = metadata\<rparr>))))), self))"

definition resolve_resource_by_name_type_and_time ::
  "'k cheqd_ext \<Rightarrow> 'g grpc \<Rightarrow> 'g DidCheqdResolver \<Rightarrow> string \<Rightarrow> string \<Rightarrow> string \<Rightarrow> timestamp \<Rightarrow> string \<Rightarrow>
   DidResource cheqd_res \<times> 'g DidCheqdResolver" where
  "resolve_resource_by_name_type_and_time X G self collection_id name rtyp time network =
     and_thenw (client_for_network G self network) (\<lambda>client self.
     and_thenw (pure_w (map_err Ch_NonSuccessResponse (gr_collection G client collection_id)) self) (\<lambda>resources self.
     let filtered = sort_desc_chronological (ct_time X) (filter_resources_by_name_and_type resources name rtyp)
     in case find_resource_just_before_time (ct_time X) time filtered of
          None \<Rightarrow> (Err (Ch_ResourceNotFound
            (''network: '' @ network @ '', collection: '' @ collection_id @ '', name: '' @ name @ '', type: '' @ rtyp
              @ '', time: '' @ tl_show (ct_time X) time)), self)
        | Some meta \<Rightarrow> resolve_resource_by_id X G self collection_id (crm_id meta) network))"

text \<open>
  The code collects the queries in a hash map; of several with one key its order decides, here the last in
  the URL counts. \<open>now\<close> is \<open>Utc::now()\<close>.
\<close>

definition resolve_resource ::
  "'k cheqd_ext \<Rightarrow> 'g grpc \<Rightarrow> timestamp \<Rightarrow> 'g DidCheqdResolver \<Rightarrow> DidUrl \<Rightarrow> DidResource cheqd_res \<times> 'g DidCheqdResolver" where
  "resolve_resource X G now self url =
     (if du_method url \<noteq> Some ''cheqd'' then
        (Err (Ch_MethodNotSupported (ct_debug_opt X (du_method url))), self)
      else
        let network = (case du_namespace url of Some n \<Rightarrow> n | None \<Rightarrow> MAINNET_NAMESPACE)
        in and_thenw (pure_w (ok_or (du_id url) (Ch_InvalidDidUrl (''missing ID '' @ du_text url))) self) (\<lambda>collection_id self.
        case du_path url of
          Some path \<Rightarrow>
            (case strip_prefix path ''/resources/'' of
               None \<Rightarrow> (Err (Ch_InvalidDidUrl (''DID Resource URL has a path without `/resources/`: '' @ path)), self)
             | Some resource_id \<Rightarrow> resolve_resource_by_id X G self collection_id resource_id network)
        | None \<Rightarrow>
            let params = map_of (rev (du_queries (ct_percent_decode X) url))
            in case (params ''resourceName'', params ''resourceType'') of
                 (Some resource_name, Some resource_type) \<Rightarrow>
                   and_thenw (pure_w (case params ''resourceVersionTime'' of
                       Some v \<Rightarrow> map_err Ch_InvalidDidUrl (tl_parse_rfc3339 (ct_time X) v)
                     | None \<Rightarrow> Ok now) self) (\<lambda>version_time self.
                   resolve_resource_by_name_type_and_time X G self collection_id resource_name resource_type version_time network)
               | _ \<Rightarrow> (Err (Ch_InvalidDidUrl
                   (''Resolver can only resolve by exact resource ID or name+type combination '' @ du_text url)), self)))"

section \<open>Which resource is found\<close>

lemma sort_desc_set [simp]: "set (sort_desc_chronological L rs) = set rs"
  by (simp add: sort_desc_chronological_def)

text \<open>The order of the list: earlier elements are not older.\<close>

definition not_older :: "time_lib \<Rightarrow> CheqdResourceMetadata \<Rightarrow> CheqdResourceMetadata \<Rightarrow> bool" where
  "not_older L r s \<longleftrightarrow> created_key L s \<le> created_key L r"

lemma sort_desc_sorted: "sorted_wrt (not_older L) (sort_desc_chronological L rs)"
proof -
  let ?k = "\<lambda>r. case created_key L r of (secs, ns) \<Rightarrow> (- secs, - ns)"
  have "?k r \<le> ?k s \<longleftrightarrow> not_older L r s" for r s
    by (cases "created_key L r"; cases "created_key L s") (auto simp: not_older_def)
  moreover have "sorted_wrt (\<lambda>r s. ?k r \<le> ?k s) (sort_key ?k rs)"
    using sorted_sort_key [of ?k rs] by (simp add: sorted_map)
  ultimately show ?thesis by (simp add: sort_desc_chronological_def)
qed

definition created_before :: "time_lib \<Rightarrow> timestamp \<Rightarrow> CheqdResourceMetadata \<Rightarrow> bool" where
  "created_before L t r \<longleftrightarrow> (\<exists>c. crm_created r = Some c \<and> fst (tl_normalized L c) < fst t)"

lemma find_before_eq: "find_resource_just_before_time L t rs = find (created_before L t) rs"
  by (induction rs) (auto simp: created_before_def split: option.splits)

lemma find_first_sorted:
  assumes "sorted_wrt P rs" and "find Q rs = Some r" and "\<And>x. P x x"
  shows "r \<in> set rs \<and> Q r \<and> (\<forall>s \<in> set rs. Q s \<longrightarrow> P r s)"
  using assms by (induction rs) (auto split: if_splits)

lemma found_resource:
  assumes "find_resource_just_before_time L t (sort_desc_chronological L rs) = Some r"
  shows "r \<in> set rs \<and> created_before L t r \<and> (\<forall>s \<in> set rs. created_before L t s \<longrightarrow> not_older L r s)"
  using find_first_sorted [OF sort_desc_sorted assms [unfolded find_before_eq]] by (simp add: not_older_def)

lemma client_kept:
  assumes "client_for_network G self network = (Ok client, self')"
  shows "client_for_network G self' network = (Ok client, self')"
  using assms by (auto simp: client_for_network_def and_thenw_Ok pure_w_def split: option.splits simp del: and_thenw_pure)

text \<open>The chosen resource, what is fetched for it, and that nothing later was to be had.\<close>

definition served_from ::
  "'k cheqd_ext \<Rightarrow> 'g grpc \<Rightarrow> 'g \<Rightarrow> CheqdResourceMetadata list \<Rightarrow> string \<Rightarrow> string \<Rightarrow> string \<Rightarrow> timestamp \<Rightarrow> DidResource \<Rightarrow>
   CheqdResourceMetadata \<Rightarrow> bool" where
  "served_from X G client resources collection_id name rtyp t resource r \<longleftrightarrow>
     r \<in> set resources \<and> crm_name r = name \<and> crm_resource_type r = rtyp \<and> created_before (ct_time X) t r
     \<and> (\<forall>s \<in> set resources. crm_name s = name \<and> crm_resource_type s = rtyp \<and> created_before (ct_time X) t s
         \<longrightarrow> not_older (ct_time X) r s)
     \<and> (\<exists>m uri. gr_resource G client collection_id (crm_id r) = Ok (Some (Some (res_content resource), Some m))
         \<and> resource_metadata_of_cheqd X uri m = Ok (res_metadata resource))"

lemma resource_by_time:
  assumes "resolve_resource_by_name_type_and_time X G self collection_id name rtyp t network = (Ok resource, self')"
  shows "\<exists>client resources r. gr_collection G client collection_id = Ok resources
    \<and> served_from X G client resources collection_id name rtyp t resource r"
proof -
  let ?rs = "\<lambda>resources. filter_resources_by_name_and_type resources name rtyp"
  from assms obtain client s1 resources r where run: "client_for_network G self network = (Ok client, s1)"
    "gr_collection G client collection_id = Ok resources"
    "find_resource_just_before_time (ct_time X) t (sort_desc_chronological (ct_time X) (?rs resources)) = Some r"
    "resolve_resource_by_id X G s1 collection_id (crm_id r) network = (Ok resource, self')"
    by (auto simp: resolve_resource_by_name_type_and_time_def and_thenw_Ok pure_w_def Let_def
        split: option.splits simp del: and_thenw_pure)
  from run(4) client_kept [OF run(1)] have
    "\<exists>m uri. gr_resource G client collection_id (crm_id r) = Ok (Some (Some (res_content resource), Some m))
       \<and> resource_metadata_of_cheqd X uri m = Ok (res_metadata resource)"
    by (auto simp: resolve_resource_by_id_def)
  moreover from found_resource [OF run(3)] have "r \<in> set resources" "crm_name r = name" "crm_resource_type r = rtyp"
    "created_before (ct_time X) t r"
    "\<forall>s \<in> set resources. crm_name s = name \<and> crm_resource_type s = rtyp \<and> created_before (ct_time X) t s
        \<longrightarrow> not_older (ct_time X) r s"
    by (auto simp: filter_resources_by_name_and_type_def)
  ultimately show ?thesis using run(2) unfolding served_from_def by blast
qed

text \<open>
  By name, type and time the resolver returns the resource of that name and type that was
  created last before the time: it asks for the identifier of a resource of the collection, and
  every other candidate created before the time is at most as late.
\<close>

theorem latest_resource_served:
  assumes "resolve_resource_by_name_type_and_time X G self collection_id name rtyp t network = (Ok resource, self')"
  shows "\<exists>client resources r content m. gr_collection G client collection_id = Ok resources \<and> r \<in> set resources
    \<and> crm_name r = name \<and> crm_resource_type r = rtyp \<and> created_before (ct_time X) t r
    \<and> (\<forall>s \<in> set resources. crm_name s = name \<and> crm_resource_type s = rtyp \<and> created_before (ct_time X) t s
        \<longrightarrow> not_older (ct_time X) r s)
    \<and> gr_resource G client collection_id (crm_id r) = Ok (Some (Some content, Some m)) \<and> res_content resource = content"
  using resource_by_time [OF assms] unfolding served_from_def by blast

text \<open>
  A resource that was created in the very second it is asked for is not found, although the
  documentation promises the state at that time.
\<close>

theorem same_second_not_served:
  assumes "client_for_network G self network = (Ok client, self')" and "gr_collection G client collection_id = Ok [r]"
    and "crm_created r = Some c" and "fst (tl_normalized (ct_time X) c) = fst t"
  shows "\<exists>e. resolve_resource_by_name_type_and_time X G self collection_id (crm_name r) (crm_resource_type r) t network
    = (Err (Ch_ResourceNotFound e), self')"
  using assms by (simp add: resolve_resource_by_name_type_and_time_def filter_resources_by_name_and_type_def
      sort_desc_chronological_def)

section \<open>A collection of three versions\<close>

definition sample_time_lib :: time_lib where
  "sample_time_lib = \<lparr>tl_normalized = id, tl_from_timestamp = (\<lambda>s n. Some (s, n)), tl_parse_rfc3339 = (\<lambda>_. Err ''no time''),
     tl_rfc3339_millis = (\<lambda>_. []), tl_show = (\<lambda>_. []), tl_debug = (\<lambda>_. []), tl_int_error = []\<rparr>"

definition sample_cheqd_ext :: "'k doc_ext \<Rightarrow> 'k cheqd_ext" where
  "sample_cheqd_ext D = \<lparr>ct_doc = D, ct_de_vm_type = (\<lambda>_. Err ''type''), ct_de_jwk = (\<lambda>_. Err ''jwk''),
     ct_de_service_type = (\<lambda>_. Err ''type''), ct_url = Ok, ct_trim = id, ct_percent_decode = id, ct_debug_opt = (\<lambda>_. []),
     ct_debug_meta = (\<lambda>_. []), ct_time = sample_time_lib, ct_nom = sample_nom\<rparr>"

definition sample_version :: "string \<Rightarrow> int \<Rightarrow> CheqdResourceMetadata" where
  "sample_version i secs = \<lparr>crm_collection_id = ''c'', crm_id = i, crm_name = ''n'', crm_version = [],
     crm_resource_type = ''t'', crm_also_known_as = [], crm_media_type = [], crm_created = Some (secs, 0),
     crm_checksum = [], crm_previous_version_id = [], crm_next_version_id = []\<rparr>"

definition sample_grpc :: "unit grpc" where
  "sample_grpc = \<lparr>gr_tls = Ok (), gr_client = (\<lambda>_. Ok ()), gr_did_doc = (\<lambda>_ _. Ok None),
     gr_resource = (\<lambda>_ _ i. Ok (Some (Some (''content of '' @ i), Some (sample_version i 10)))),
     gr_collection = (\<lambda>_ _. Ok [sample_version ''a'' 10, sample_version ''b'' 20, sample_version ''c'' 30])\<rparr>"

lemmas sample_cheqd_simps = sample_time_lib_def sample_cheqd_ext_def sample_version_def sample_grpc_def

lemma sample_resolves:
  "\<exists>resource self'. resolve_resource_by_name_type_and_time (sample_cheqd_ext D) sample_grpc
      (DidCheqdResolver_new default_networks) ''c'' ''n'' ''t'' (25, 0) ''mainnet'' = (Ok resource, self')
    \<and> res_content resource = ''content of b''"
  by (simp add: resolve_resource_by_name_type_and_time_def resolve_resource_by_id_def client_for_network_def
      DidCheqdResolver_new_def default_networks_def mainnet_def MAINNET_NAMESPACE_def native_tls_hyper_client_def
      filter_resources_by_name_and_type_def sort_desc_chronological_def created_key_def resource_metadata_of_cheqd_def
      prost_timestamp_to_dt_def ok_or_def sample_cheqd_simps)

theorem latest_resource_served_witness:
  "\<exists>client resources r m. gr_collection sample_grpc client ''c'' = Ok resources \<and> r \<in> set resources \<and> crm_name r = ''n''
    \<and> created_before sample_time_lib (25, 0) r \<and> gr_resource sample_grpc client ''c'' (crm_id r) = Ok (Some (Some ''content of b'', Some m))"
proof -
  fix D :: "unit doc_ext"
  obtain resource self' where r: "resolve_resource_by_name_type_and_time (sample_cheqd_ext D) sample_grpc
      (DidCheqdResolver_new default_networks) ''c'' ''n'' ''t'' (25, 0) ''mainnet'' = (Ok resource, self')"
    "res_content resource = ''content of b''"
    using sample_resolves by blast
  show ?thesis using latest_resource_served [OF r(1)] r(2) by (auto simp: sample_cheqd_ext_def)
qed

section \<open>Clients\<close>

text \<open>
  Every client the resolver holds was made for the URL of the first network of that name, whatever it
  is asked to resolve.
\<close>

definition clients_ok :: "'g grpc \<Rightarrow> 'g DidCheqdResolver \<Rightarrow> bool" where
  "clients_ok G self \<longleftrightarrow> (\<forall>network client. cq_clients self network = Some client \<longrightarrow>
     (\<exists>n. find (\<lambda>n. nw_namespace n = network) (cq_networks self) = Some n \<and> gr_client G (nw_grpc_url n) = Ok client))"

lemma new_clients_ok: "clients_ok G (DidCheqdResolver_new networks)"
  by (simp add: clients_ok_def DidCheqdResolver_new_def)

lemma client_for_network_new:
  assumes "cq_clients self network = None" and "find (\<lambda>n. nw_namespace n = network) (cq_networks self) = Some n"
  shows "snd (client_for_network G self network) = self
    \<or> (\<exists>client. gr_client G (nw_grpc_url n) = Ok client
        \<and> snd (client_for_network G self network) = self\<lparr>cq_clients := (cq_clients self)(network \<mapsto> client)\<rparr>)"
  using assms by (cases "gr_tls G"; cases "gr_client G (nw_grpc_url n)")
    (simp_all add: client_for_network_def native_tls_hyper_client_def)

lemma client_for_network_ok:
  assumes "clients_ok G self"
  shows "clients_ok G (snd (client_for_network G self network))"
proof (cases "cq_clients self network")
  case None
  show ?thesis
  proof (cases "find (\<lambda>n. nw_namespace n = network) (cq_networks self)")
    case (Some n)
    from client_for_network_new [of self network n G, OF None this] show ?thesis
    proof
      assume "\<exists>client. gr_client G (nw_grpc_url n) = Ok client
        \<and> snd (client_for_network G self network) = self\<lparr>cq_clients := (cq_clients self)(network \<mapsto> client)\<rparr>"
      then obtain client where c: "gr_client G (nw_grpc_url n) = Ok client"
        "snd (client_for_network G self network) = self\<lparr>cq_clients := (cq_clients self)(network \<mapsto> client)\<rparr>" by blast
      show ?thesis unfolding c(2) using assms Some c(1) by (auto simp: clients_ok_def)
    qed (simp add: assms)
  qed (use None assms in \<open>simp add: client_for_network_def\<close>)
qed (use assms in \<open>simp add: client_for_network_def\<close>)

lemma snd_pure_last: "snd (and_thenw rw (\<lambda>x s. (f x s, s))) = snd rw"
  by (cases rw; cases "fst rw") auto

lemma and_thenw_keeps:
  assumes "P (snd rw)" and "\<And>x s. P s \<Longrightarrow> P (snd (f x s))"
  shows "P (snd (and_thenw rw f))"
  using assms by (cases rw; cases "fst rw") auto

lemma resolve_by_id_ok: "clients_ok G self \<Longrightarrow> clients_ok G (snd (resolve_resource_by_id X G self collection_id i network))"
  by (simp add: resolve_resource_by_id_def snd_pure_last client_for_network_ok)

lemma option_keeps:
  assumes "P (snd a)" and "\<And>x. P (snd (f x))"
  shows "P (snd (case opt of None \<Rightarrow> a | Some x \<Rightarrow> f x))"
  using assms by (cases opt) auto

lemma resolve_by_name_ok:
  assumes "clients_ok G self"
  shows "clients_ok G (snd (resolve_resource_by_name_type_and_time X G self collection_id name rtyp t network))"
  unfolding resolve_resource_by_name_type_and_time_def Let_def
  by (intro and_thenw_keeps [where P = "clients_ok G"])
    (auto simp: client_for_network_ok [OF assms] resolve_by_id_ok split: option.splits)

lemma resolve_did_ok: "clients_ok G self \<Longrightarrow> clients_ok G (snd (resolve_cheqd_did X G self did))"
  by (simp add: resolve_cheqd_did_def snd_pure_last client_for_network_ok)

lemma resolve_params_ok:
  assumes "clients_ok G self"
  shows "clients_ok G (snd (case (a, b) of (Some n, Some t) \<Rightarrow>
        and_thenw (pure_w v self) (\<lambda>time self. resolve_resource_by_name_type_and_time X G self i n t time network)
      | _ \<Rightarrow> (Err e, self)))"
  using assms by (cases a; cases b; cases v) (simp_all add: resolve_by_name_ok)

lemma resolve_path_ok:
  assumes "clients_ok G self"
  shows "clients_ok G (snd (case p of None \<Rightarrow> (Err e, self) | Some r \<Rightarrow> resolve_resource_by_id X G self i r network))"
  using assms by (cases p) (simp_all add: resolve_by_id_ok)

text \<open>
  Whatever is resolved, a client the resolver keeps for a network is one that was made for the URL
  configured for it.
\<close>

theorem resolver_clients_ok:
  assumes "clients_ok G self"
  shows "clients_ok G (snd (resolve_resource X G now self url))"
proof (cases "du_method url = Some ''cheqd''")
  case True
  then have m: "\<not> du_method url \<noteq> Some ''cheqd''" by simp
  show ?thesis
    unfolding resolve_resource_def Let_def if_not_P [OF m]
    by (rule and_thenw_keeps, simp add: assms, rule option_keeps, erule resolve_params_ok, erule resolve_path_ok)
next
  case False
  then show ?thesis using assms unfolding resolve_resource_def by (simp only: if_True not_False_eq_True snd_conv)
qed

end
