(* ===== verification/Ledger_Readers.thy ===== *)
theory Ledger_Readers
  imports Indy_Ledger Did_Cheqd
begin

text \<open>
  The readers of AnonCreds objects beside the Indy one: the reader of DID-linked resources on cheqd
  (\<open>aries_vcx_ledger/src/ledger/cheqd\<close>) and the reader that dispatches on the identifier
  (\<open>ledger/multi_ledger.rs\<close>). The trait \<open>AnoncredsLedgerRead\<close> with \<open>AnoncredsLedgerSupport\<close> is the record
  \<open>object_reader\<close> over the state \<open>'s\<close> of the reader, \<open>'m\<close> being its additional metadata.
\<close>

section \<open>The trait\<close>

record ('s, 'm) object_reader =
  or_schema :: "'s \<Rightarrow> SchemaId \<Rightarrow> Did option \<Rightarrow> LedgerSchema ledger_res \<times> 's"
  or_cred_def :: "'s \<Rightarrow> CredentialDefinitionId \<Rightarrow> Did option \<Rightarrow> CredentialDefinition ledger_res \<times> 's"
  or_rev_reg_def :: "'s \<Rightarrow> RevocationRegistryDefinitionId \<Rightarrow> (RevRegDef \<times> 'm) ledger_res \<times> 's"
  or_rev_reg_delta :: "'s \<Rightarrow> RevocationRegistryDefinitionId \<Rightarrow> u64 option \<Rightarrow> u64 option \<Rightarrow>
    (RevocationRegistryDelta \<times> u64) ledger_res \<times> 's"
  or_rev_status_list :: "'s \<Rightarrow> RevocationRegistryDefinitionId \<Rightarrow> u64 \<Rightarrow> 'm option \<Rightarrow>
    (RevStatusList \<times> u64) ledger_res \<times> 's"
  or_rev_reg :: "'s \<Rightarrow> RevocationRegistryDefinitionId \<Rightarrow> u64 \<Rightarrow> (json \<times> u64) ledger_res \<times> 's"
  or_supports_schema :: "SchemaId \<Rightarrow> bool"
  or_supports_cred_def :: "CredentialDefinitionId \<Rightarrow> bool"
  or_supports_rev_reg :: "RevocationRegistryDefinitionId \<Rightarrow> bool"

section \<open>cheqd\<close>

fun from_cheqd_error :: "DidCheqdError \<Rightarrow> VcxLedgerError" where
  "from_cheqd_error (Ch_MethodNotSupported e) = Le_InvalidInput (show_DidCheqdError (Ch_MethodNotSupported e))"
| "from_cheqd_error (Ch_NetworkNotSupported e) = Le_InvalidInput (show_DidCheqdError (Ch_NetworkNotSupported e))"
| "from_cheqd_error (Ch_BadConfiguration e) = Le_InvalidInput (show_DidCheqdError (Ch_BadConfiguration e))"
| "from_cheqd_error (Ch_TransportError e) = Le_InvalidLedgerResponse (show_DidCheqdError (Ch_TransportError e))"
| "from_cheqd_error (Ch_NonSuccessResponse e) = Le_InvalidLedgerResponse (show_DidCheqdError (Ch_NonSuccessResponse e))"
| "from_cheqd_error (Ch_InvalidResponse e) = Le_InvalidLedgerResponse (show_DidCheqdError (Ch_InvalidResponse e))"
| "from_cheqd_error (Ch_InvalidDidDocument e) = Le_InvalidInput (show_DidCheqdError (Ch_InvalidDidDocument e))"
| "from_cheqd_error (Ch_InvalidDidUrl e) = Le_InvalidInput (show_DidCheqdError (Ch_InvalidDidUrl e))"
| "from_cheqd_error (Ch_ParsingError (Cs_DidDocumentParsingError e)) = Le_ParseError (show_ParseError e)"
| "from_cheqd_error (Ch_Other e) = Le_UnknownError (show_DidCheqdError (Ch_Other e))"
| "from_cheqd_error e = Le_UnknownError (show_DidCheqdError e)"

definition SCHEMA_RESOURCE_TYPE :: string where "SCHEMA_RESOURCE_TYPE = ''anonCredsSchema''"
definition CRED_DEF_RESOURCE_TYPE :: string where "CRED_DEF_RESOURCE_TYPE = ''anonCredsCredDef''"
definition REV_REG_DEF_RESOURCE_TYPE :: string where "REV_REG_DEF_RESOURCE_TYPE = ''anonCredsRevocRegDef''"
definition STATUS_LIST_RESOURCE_TYPE :: string where "STATUS_LIST_RESOURCE_TYPE = ''anonCredsStatusList''"

text \<open>The objects as cheqd stores them; the derived readers and \<open>Url\<close> are the record \<open>cheqd_codec\<close>.\<close>

record CheqdAnoncredsSchema =
  qs_name :: string
  qs_version :: string
  qs_attr_names :: "string list"

record CheqdAnoncredsCredentialDefinition =
  qc_schema_id :: SchemaId
  qc_tag :: string
  qc_value :: json

record CheqdAnoncredsRevocationRegistryDefinition =
  qr_cred_def_id :: CredentialDefinitionId
  qr_tag :: string
  qr_max_cred_num :: u32
  qr_public_keys :: json
  qr_tails_hash :: string
  qr_tails_location :: string

record CheqdAnoncredsRevocationStatusList =
  ql_revocation_list :: "bool list"
  ql_accum :: "json option"

text \<open>\<open>cz_query\<close> parses a DID as a URL, appends the pairs and prints the result.\<close>

record cheqd_codec =
  cz_schema :: "string \<Rightarrow> CheqdAnoncredsSchema serde"
  cz_cred_def :: "string \<Rightarrow> CheqdAnoncredsCredentialDefinition serde"
  cz_rev_reg_def :: "string \<Rightarrow> CheqdAnoncredsRevocationRegistryDefinition serde"
  cz_status_list :: "string \<Rightarrow> CheqdAnoncredsRevocationStatusList serde"
  cz_query :: "string \<Rightarrow> (string \<times> string) list \<Rightarrow> (string, string) result"
  cz_debug_list :: "RevStatusList \<Rightarrow> string"

text \<open>The reader: its libraries, the network and the clock \<open>Utc::now()\<close>; its state is the resolver.\<close>

record ('k, 'g) cheqd_reader =
  ch_ext :: "'k cheqd_ext"
  ch_grpc :: "'g grpc"
  ch_codec :: cheqd_codec
  ch_now :: timestamp

definition check_resource_type :: "DidResource \<Rightarrow> string \<Rightarrow> unit ledger_res" where
  "check_resource_type resource expected =
     (let rtyp = drm_resource_type (res_metadata resource)
      in if rtyp \<noteq> expected then
           Err (Le_InvalidLedgerResponse (''Returned resource is not expected type. Got '' @ rtyp @ '', expected: '' @ expected))
         else Ok ())"

definition extract_issuer_id :: "DidUrl \<Rightarrow> string ledger_res" where
  "extract_issuer_id url =
     and_then (ok_or (du_did url) (Le_InvalidInput (''DID URL is missing a DID: '' @ du_text url))) (\<lambda>did.
     map_err (\<lambda>e. Le_InvalidInput (''DID is not an IssuerId '' @ show_at_error e)) (IssuerId_new did))"

text \<open>The steps that every read begins with: parse, resolve, check the type.\<close>

definition fetch_resource ::
  "('k, 'g) cheqd_reader \<Rightarrow> 'g DidCheqdResolver \<Rightarrow> string \<Rightarrow> string \<Rightarrow> (DidUrl \<times> DidResource) ledger_res \<times> 'g DidCheqdResolver" where
  "fetch_resource H s text expected =
     and_thenw (pure_w (did_err (parse_did_url (ct_nom (ch_ext H)) text)) s) (\<lambda>url s.
     and_thenw (case resolve_resource (ch_ext H) (ch_grpc H) (ch_now H) s url of (r, s) \<Rightarrow> (map_err from_cheqd_error r, s)) (\<lambda>resource s.
     and_thenw (pure_w (check_resource_type resource expected) s) (\<lambda>_ s.
     (Ok (url, resource), s))))"

definition cheqd_get_schema ::
  "('k, 'g) cheqd_reader \<Rightarrow> 'g DidCheqdResolver \<Rightarrow> SchemaId \<Rightarrow> Did option \<Rightarrow> LedgerSchema ledger_res \<times> 'g DidCheqdResolver" where
  "cheqd_get_schema H s schema_id _ =
     and_thenw (fetch_resource H s schema_id SCHEMA_RESOURCE_TYPE) (\<lambda>(url, resource) s.
     (and_then (json_err (cz_schema (ch_codec H) (res_content resource))) (\<lambda>data.
      and_then (extract_issuer_id url) (\<lambda>issuer_id.
      Ok \<lparr>sch_id = schema_id, sch_seq_no = None, sch_name = qs_name data, sch_version = qs_version data,
        sch_attr_names = qs_attr_names data, sch_issuer_id = issuer_id\<rparr>)), s))"

definition cheqd_get_cred_def ::
  "('k, 'g) cheqd_reader \<Rightarrow> 'g DidCheqdResolver \<Rightarrow> CredentialDefinitionId \<Rightarrow> Did option \<Rightarrow>
   CredentialDefinition ledger_res \<times> 'g DidCheqdResolver" where
  "cheqd_get_cred_def H s cred_def_id _ =
     and_thenw (fetch_resource H s cred_def_id CRED_DEF_RESOURCE_TYPE) (\<lambda>(url, resource) s.
     (and_then (json_err (cz_cred_def (ch_codec H) (res_content resource))) (\<lambda>data.
      and_then (extract_issuer_id url) (\<lambda>issuer_id.
      Ok \<lparr>cdf_id = cred_def_id, cdf_schema_id = qc_schema_id data, cdf_tag = qc_tag data, cdf_value = qc_value data,
        cdf_issuer_id = issuer_id\<rparr>)), s))"

definition get_rev_reg_def_with_resource_metadata ::
  "('k, 'g) cheqd_reader \<Rightarrow> 'g DidCheqdResolver \<Rightarrow> RevocationRegistryDefinitionId \<Rightarrow>
   (RevRegDef \<times> DidResourceMetadata) ledger_res \<times> 'g DidCheqdResolver" where
  "get_rev_reg_def_with_resource_metadata H s rev_reg_id =
     and_thenw (fetch_resource H s rev_reg_id REV_REG_DEF_RESOURCE_TYPE) (\<lambda>(url, resource) s.
     (and_then (json_err (cz_rev_reg_def (ch_codec H) (res_content resource))) (\<lambda>data.
      and_then (extract_issuer_id url) (\<lambda>issuer_id.
      Ok (\<lparr>rgd_id = rev_reg_id, rgd_issuer_id = issuer_id, rgd_tag = qr_tag data, rgd_cred_def_id = qr_cred_def_id data,
          rgd_max_cred_num = qr_max_cred_num data, rgd_public_keys = qr_public_keys data,
          rgd_tails_hash = qr_tails_hash data, rgd_tails_location = qr_tails_location data\<rparr>, res_metadata resource))), s))"

text \<open>The additional metadata is the one name of the resource.\<close>

definition cheqd_get_rev_reg_def_json ::
  "('k, 'g) cheqd_reader \<Rightarrow> 'g DidCheqdResolver \<Rightarrow> RevocationRegistryDefinitionId \<Rightarrow>
   (RevRegDef \<times> string) ledger_res \<times> 'g DidCheqdResolver" where
  "cheqd_get_rev_reg_def_json H s rev_reg_id =
     and_thenw (get_rev_reg_def_with_resource_metadata H s rev_reg_id) (\<lambda>(rev_reg_def, meta) s.
     (Ok (rev_reg_def, drm_resource_name meta), s))"

definition cheqd_get_rev_reg_delta_json ::
  "'s \<Rightarrow> RevocationRegistryDefinitionId \<Rightarrow> u64 option \<Rightarrow> u64 option \<Rightarrow> (RevocationRegistryDelta \<times> u64) ledger_res \<times> 's" where
  "cheqd_get_rev_reg_delta_json s _ _ _ =
     (Err (Le_UnimplementedFeature ''get_rev_reg_delta_json not supported for cheqd''), s)"

text \<open>\<open>x as i64\<close> and \<open>x as u64\<close> wrap.\<close>

definition cheqd_get_rev_status_list ::
  "('k, 'g) cheqd_reader \<Rightarrow> 'g DidCheqdResolver \<Rightarrow> RevocationRegistryDefinitionId \<Rightarrow> u64 \<Rightarrow> string option \<Rightarrow>
   (RevStatusList \<times> u64) ledger_res \<times> 'g DidCheqdResolver" where
  "cheqd_get_rev_status_list H s rev_reg_id timestamp rev_reg_def_meta =
     (let L = ct_time (ch_ext H); C = ch_codec H
      in and_thenw (pure_w (did_err (parse_did_url (ct_nom (ch_ext H)) rev_reg_id)) s) (\<lambda>rev_reg_def_url s.
         and_thenw (case rev_reg_def_meta of
             Some v \<Rightarrow> (Ok v, s)
           | None \<Rightarrow> and_thenw (cheqd_get_rev_reg_def_json H s rev_reg_id) (\<lambda>d s. (Ok (snd d), s))) (\<lambda>name s.
         and_thenw (pure_w (ok_or (du_did rev_reg_def_url)
             (Le_InvalidInput (''DID URL missing DID '' @ du_text rev_reg_def_url))) s) (\<lambda>did s.
         and_thenw (pure_w (ok_or (tl_from_timestamp L (sint timestamp) 0)
             (Le_InvalidInput (''input status list timestamp is not valid '' @ show_u64 timestamp))) s) (\<lambda>resource_dt s.
         and_thenw (pure_w (map_err (\<lambda>e. Le_InvalidInput (''cannot parse DID as URL: '' @ e))
             (cz_query C did [(''resourceType'', STATUS_LIST_RESOURCE_TYPE), (''resourceName'', name),
               (''resourceVersionTime'', tl_rfc3339_millis L resource_dt)])) s) (\<lambda>query s.
         and_thenw (fetch_resource H s query STATUS_LIST_RESOURCE_TYPE) (\<lambda>(_, resource) s.
         (and_then (json_err (cz_status_list C (res_content resource))) (\<lambda>data.
          let timestamp = word_of_int (fst (drm_created (res_metadata resource)))
          in and_then (extract_issuer_id rev_reg_def_url) (\<lambda>issuer_id.
             Ok (\<lparr>rsl_rev_reg_def_id = Some rev_reg_id, rsl_issuer_id = issuer_id,
                 rsl_revocation_list = ql_revocation_list data, rsl_accum = ql_accum data,
                 rsl_timestamp = Some timestamp\<rparr>, timestamp))), s))))))))"

definition cheqd_get_rev_reg ::
  "('k, 'g) cheqd_reader \<Rightarrow> 'g DidCheqdResolver \<Rightarrow> RevocationRegistryDefinitionId \<Rightarrow> u64 \<Rightarrow>
   (json \<times> u64) ledger_res \<times> 'g DidCheqdResolver" where
  "cheqd_get_rev_reg H s rev_reg_id timestamp =
     and_thenw (cheqd_get_rev_status_list H s rev_reg_id timestamp None) (\<lambda>(lst, last_updated) s.
     (and_then (ok_or (rsl_accum lst) (Le_InvalidLedgerResponse
        (''response status list is missing an accumulator: '' @ cz_debug_list (ch_codec H) lst))) (\<lambda>accum.
      Ok (accum, last_updated)), s))"

text \<open>The three \<open>supports\<close> functions have one body.\<close>

definition cheqd_supports :: "nom \<Rightarrow> string \<Rightarrow> bool" where
  "cheqd_supports N i = (case parse_did_url N i of Ok url \<Rightarrow> du_method url = Some ''cheqd'' | _ \<Rightarrow> False)"

section \<open>Several ledgers\<close>

text \<open>
  The adaptor turns the metadata to JSON and back; a reader is registered behind the ones before it.
\<close>

definition reader_adaptor ::
  "('m \<Rightarrow> json serde) \<Rightarrow> (json \<Rightarrow> 'm serde) \<Rightarrow> ('s, 'm) object_reader \<Rightarrow> ('s, json) object_reader" where
  "reader_adaptor ser de r = \<lparr>
     or_schema = or_schema r, or_cred_def = or_cred_def r,
     or_rev_reg_def = (\<lambda>s i. and_thenw (or_rev_reg_def r s i) (\<lambda>(reg, meta) s.
       (and_then (json_err (ser meta)) (\<lambda>v. Ok (reg, v)), s))),
     or_rev_reg_delta = or_rev_reg_delta r,
     or_rev_status_list = (\<lambda>s i timestamp meta.
       and_thenw (pure_w (transpose_opt (map_option (json_err \<circ> de) meta)) s) (\<lambda>meta s.
       or_rev_status_list r s i timestamp meta)),
     or_rev_reg = or_rev_reg r,
     or_supports_schema = or_supports_schema r, or_supports_cred_def = or_supports_cred_def r,
     or_supports_rev_reg = or_supports_rev_reg r\<rparr>"

definition register_reader ::
  "('m \<Rightarrow> json serde) \<Rightarrow> (json \<Rightarrow> 'm serde) \<Rightarrow> ('s, json) object_reader list \<Rightarrow> ('s, 'm) object_reader \<Rightarrow>
   ('s, json) object_reader list" where
  "register_reader ser de readers reader = readers @ [reader_adaptor ser de reader]"

definition dispatch ::
  "('s, json) object_reader list \<Rightarrow> (('s, json) object_reader \<Rightarrow> string \<Rightarrow> bool) \<Rightarrow> string \<Rightarrow> 's \<Rightarrow>
   (('s, json) object_reader \<Rightarrow> 'a ledger_res \<times> 's) \<Rightarrow> 'a ledger_res \<times> 's" where
  "dispatch readers supports i s f =
     and_thenw (pure_w (ok_or (find (\<lambda>r. supports r i) readers) (Le_UnsupportedLedgerIdentifier i)) s) (\<lambda>r _. f r)"

definition multi_reader :: "('s, json) object_reader list \<Rightarrow> ('s, json) object_reader" where
  "multi_reader readers = \<lparr>
     or_schema = (\<lambda>s i d. dispatch readers or_supports_schema i s (\<lambda>r. or_schema r s i d)),
     or_cred_def = (\<lambda>s i d. dispatch readers or_supports_cred_def i s (\<lambda>r. or_cred_def r s i d)),
     or_rev_reg_def = (\<lambda>s i. dispatch readers or_supports_rev_reg i s (\<lambda>r. or_rev_reg_def r s i)),
     or_rev_reg_delta = (\<lambda>s i from to. dispatch readers or_supports_rev_reg i s (\<lambda>r. or_rev_reg_delta r s i from to)),
     or_rev_status_list = (\<lambda>s i t m. dispatch readers or_supports_rev_reg i s (\<lambda>r. or_rev_status_list r s i t m)),
     or_rev_reg = (\<lambda>s i t. dispatch readers or_supports_rev_reg i s (\<lambda>r. or_rev_reg r s i t)),
     or_supports_schema = (\<lambda>i. list_ex (\<lambda>r. or_supports_schema r i) readers),
     or_supports_cred_def = (\<lambda>i. list_ex (\<lambda>r. or_supports_cred_def r i) readers),
     or_supports_rev_reg = (\<lambda>i. list_ex (\<lambda>r. or_supports_rev_reg r i) readers)\<rparr>"

section \<open>The two readers\<close>

text \<open>\<open>at\<close> are the instants at which the cache is asked and filled.\<close>

definition indy_object_reader ::
  "(bool list \<Rightarrow> nat \<Rightarrow> bool \<Rightarrow> bool list) \<Rightarrow> ('r, 'c, 'l) indy_reader \<Rightarrow> nat \<times> nat \<Rightarrow> int \<Rightarrow> ('c \<times> 'l, RegistryMeta) object_reader" where
  "indy_object_reader ins R at now = \<lparr>
     or_schema = indy_get_schema R, or_cred_def = indy_get_cred_def R,
     or_rev_reg_def = indy_get_rev_reg_def_json R at, or_rev_reg_delta = indy_get_rev_reg_delta_json R now,
     or_rev_status_list = indy_get_rev_status_list ins R at now, or_rev_reg = indy_get_rev_reg R,
     or_supports_schema = indy_supports_schema, or_supports_cred_def = indy_supports_credential_definition,
     or_supports_rev_reg = indy_supports_revocation_registry\<rparr>"

definition cheqd_object_reader :: "('k, 'g) cheqd_reader \<Rightarrow> ('g DidCheqdResolver, string) object_reader" where
  "cheqd_object_reader H = \<lparr>
     or_schema = cheqd_get_schema H, or_cred_def = cheqd_get_cred_def H,
     or_rev_reg_def = cheqd_get_rev_reg_def_json H, or_rev_reg_delta = cheqd_get_rev_reg_delta_json,
     or_rev_status_list = cheqd_get_rev_status_list H, or_rev_reg = cheqd_get_rev_reg H,
     or_supports_schema = cheqd_supports (ct_nom (ch_ext H)), or_supports_cred_def = cheqd_supports (ct_nom (ch_ext H)),
     or_supports_rev_reg = cheqd_supports (ct_nom (ch_ext H))\<rparr>"

text \<open>A reader beside others, over its part of their common state.\<close>

definition with_part :: "('w \<Rightarrow> 's) \<Rightarrow> ('s \<Rightarrow> 'w \<Rightarrow> 'w) \<Rightarrow> ('s \<Rightarrow> 'a \<times> 's) \<Rightarrow> 'w \<Rightarrow> 'a \<times> 'w" where
  "with_part get put f w = (case f (get w) of (x, s) \<Rightarrow> (x, put s w))"

definition reader_on :: "('w \<Rightarrow> 's) \<Rightarrow> ('s \<Rightarrow> 'w \<Rightarrow> 'w) \<Rightarrow> ('s, 'm) object_reader \<Rightarrow> ('w, 'm) object_reader" where
  "reader_on get put r = \<lparr>
     or_schema = (\<lambda>w i d. with_part get put (\<lambda>s. or_schema r s i d) w),
     or_cred_def = (\<lambda>w i d. with_part get put (\<lambda>s. or_cred_def r s i d) w),
     or_rev_reg_def = (\<lambda>w i. with_part get put (\<lambda>s. or_rev_reg_def r s i) w),
     or_rev_reg_delta = (\<lambda>w i from to. with_part get put (\<lambda>s. or_rev_reg_delta r s i from to) w),
     or_rev_status_list = (\<lambda>w i t m. with_part get put (\<lambda>s. or_rev_status_list r s i t m) w),
     or_rev_reg = (\<lambda>w i t. with_part get put (\<lambda>s. or_rev_reg r s i t) w),
     or_supports_schema = or_supports_schema r, or_supports_cred_def = or_supports_cred_def r,
     or_supports_rev_reg = or_supports_rev_reg r\<rparr>"

definition indy_in_process ::
  "(RegistryMeta \<Rightarrow> json serde) \<Rightarrow> (json \<Rightarrow> RegistryMeta serde) \<Rightarrow> (bool list \<Rightarrow> nat \<Rightarrow> bool \<Rightarrow> bool list) \<Rightarrow>
   ('r, 'c, 'l) indy_reader \<Rightarrow> nat \<times> nat \<Rightarrow> int \<Rightarrow> (('c \<times> 'l) \<times> 'q, json) object_reader" where
  "indy_in_process ser de ins R at now =
     reader_adaptor ser de (reader_on fst (\<lambda>s (_, y). (s, y)) (indy_object_reader ins R at now))"

definition cheqd_in_process ::
  "(string \<Rightarrow> json serde) \<Rightarrow> (json \<Rightarrow> string serde) \<Rightarrow> ('k, 'g) cheqd_reader \<Rightarrow> ('p \<times> 'g DidCheqdResolver, json) object_reader" where
  "cheqd_in_process ser de H = reader_adaptor ser de (reader_on snd (\<lambda>s (x, _). (x, s)) (cheqd_object_reader H))"

section \<open>No identifier has two readers\<close>

text \<open>The grammar of DIDs: a method, where there is one, stands behind \<open>did:\<close> and before a colon.\<close>

definition method_law :: "nom \<Rightarrow> bool" where
  "method_law N \<longleftrightarrow> (\<forall>s rest m rs. nm_did_prefix N s = Ok (rest, Some m, rs) \<longrightarrow> starts_with s (''did:'' @ slice s m @ '':''))"

lemma parsed_ranges:
  assumes "parse_did_url N s = Ok url"
  shows "du_text url = s \<and> (\<exists>rest rs. nm_did_prefix N s = Ok (rest, du_method_range url, rs))"
  using assms by (auto simp: parse_did_url_def case_prod_beta' split: if_splits)

lemma parsed_method:
  assumes "method_law N" and "parse_did_url N s = Ok url" and "du_method url = Some method"
  shows "starts_with s (''did:'' @ method @ '':'')"
proof -
  from assms(3) obtain m where m: "du_method_range url = Some m" "method = slice (du_text url) m"
    by (auto simp: du_method_def)
  with parsed_ranges [OF assms(2)] assms(1) show ?thesis unfolding method_law_def by metis
qed

lemma starts_with_did: "starts_with s (''did:'' @ m) \<Longrightarrow> \<exists>r. s = ''did:'' @ m @ r"
  unfolding starts_with_def by (metis append_assoc append_take_drop_id)

lemma did_not_legacy:
  "\<not> LEGACY_SCHEMA_IDENTIFIER (''did:'' @ r)" "\<not> LEGACY_CRED_DEF_IDENTIFIER (''did:'' @ r)" "\<not> LEGACY_DID_IDENTIFIER (''did:'' @ r)"
  by (simp_all add: LEGACY_SCHEMA_IDENTIFIER_def LEGACY_CRED_DEF_IDENTIFIER_def LEGACY_DID_IDENTIFIER_def is_b58_def
      in_any_range_def in_range_def)

lemma cheqd_not_indy:
  assumes "method_law N" and "cheqd_supports N i"
  shows "\<not> indy_supports_schema i" "\<not> indy_supports_credential_definition i" "\<not> indy_supports_revocation_registry i"
proof -
  from assms have "starts_with i (''did:'' @ ''cheqd'' @ '':'')"
    by (auto simp: cheqd_supports_def split: result.splits dest: parsed_method)
  then obtain r where i: "i = ''did:'' @ ''cheqd:'' @ r" using starts_with_did [of i "''cheqd:''"] by auto
  have "\<not> did_method_is_supported i" unfolding i by (simp add: did_method_is_supported_def starts_with_def)
  then show "\<not> indy_supports_schema i" "\<not> indy_supports_credential_definition i" "\<not> indy_supports_revocation_registry i"
    unfolding i indy_supports_schema_def indy_supports_credential_definition_def indy_supports_revocation_registry_def
    using did_not_legacy [of "''cheqd:'' @ r"] by simp_all
qed

lemma multi_reader_swap:
  assumes "\<And>i. \<not> (or_supports_schema a i \<and> or_supports_schema b i)"
    and "\<And>i. \<not> (or_supports_cred_def a i \<and> or_supports_cred_def b i)"
    and "\<And>i. \<not> (or_supports_rev_reg a i \<and> or_supports_rev_reg b i)"
  shows "multi_reader [a, b] = multi_reader [b, a]"
  using assms by (auto simp: multi_reader_def fun_eq_iff dispatch_def)

text \<open>
  With a reader for an Indy ledger and one for cheqd, it does not matter which was registered
  first: no identifier is supported by both.
\<close>

theorem registration_order_irrelevant:
  assumes "method_law (ct_nom (ch_ext H))"
  shows "multi_reader [indy_in_process ser de ins R at now, cheqd_in_process ser' de' H]
    = multi_reader [cheqd_in_process ser' de' H, indy_in_process ser de ins R at now]"
  by (rule multi_reader_swap; use cheqd_not_indy [OF assms] in
      \<open>simp add: indy_in_process_def cheqd_in_process_def reader_adaptor_def reader_on_def
        indy_object_reader_def cheqd_object_reader_def\<close>; blast)

end
