(* ===== verification/Spec2Isabelle.thy ===== *)
theory Spec2Isabelle
  imports Issuance_Exchange Presentation_Exchange Query Mediated_Connection Mediator Did_Exchange Ledger_Readers
begin

text \<open>
  A verification library for aries-vcx, the Rust implementation of the Aries protocols for
  verifiable credentials: \<open>src/aries/aries_vcx\<close>, the crates it stands on
  (\<open>messages\<close>, \<open>aries_vcx_wallet\<close>, \<open>aries_vcx_anoncreds\<close>, \<open>aries_vcx_ledger\<close>, \<open>did_core\<close>) and the mediator
  agent built on it.

  \<^bold>\<open>The program.\<close> Two agents first connect: an invitation, passed out of band, leads to a request, a
  signed response and an acknowledgement (\<open>protocols/connection\<close>, the older
  \<open>protocols/mediated_connection\<close>, or \<open>protocols/did_exchange\<close> with DIDs and their documents). Over a
  connection they run pairs of state
  machines: issuer and holder (\<open>protocols/issuance\<close>), verifier and prover
  (\<open>protocols/proof_presentation\<close>), sender and receiver of revocation notifications. Each machine owns
  its state, a thread id and a source id; a handler owns a machine, replaces it by the result of a
  transition when that succeeds and keeps it otherwise. Messages are typed JSON (\<open>src/aries/messages\<close>),
  packed into encrypted envelopes with one layer per routing key (\<open>utils/encryption_envelope.rs\<close>); a
  mediator (\<open>src/aries/agents/mediator\<close>) opens the outermost layer, stores the rest for the owner of the
  next key and hands it out on request. The machines call three interfaces. The wallet keeps records, keys
  and DIDs; its implementation is a store of the Askar library. The anoncreds back end makes and checks
  credentials with the anoncreds library and keeps its objects in the wallet. The ledger holds schemas,
  credential definitions and revocation registries; its clients talk to Indy and cheqd nodes. Error values
  carry a kind and a text; the text ends up in problem reports.

  \<^bold>\<open>Theories and the code they model.\<close>
  \<^item> \<open>Vcx_Prelude\<close>: \<open>Result\<close> with panics as a third outcome, loops that stop at the first error,
    and the locales \<open>protocol_machine\<close> and \<open>threaded_machine\<close>, the contract of a state machine
    with respect to an abstract graph; they are interpreted by every machine below.
  \<^item> \<open>Rust_Std\<close>, \<open>Json\<close>: what the code uses of the standard library and of \<open>serde_json\<close>: decimal
    texts of \<open>u32\<close>, splitting, UTF-8, JSON values, sorted maps; the locales \<open>decimal_codec\<close> and
    \<open>key_store\<close> with the loop that fetches what is missing.
  \<^item> \<open>Vcx_Errors\<close> (\<open>errors/\<close>), \<open>Messages\<close> (\<open>src/aries/messages\<close>), \<open>Util\<close> (\<open>handlers/util.rs\<close>,
    \<open>protocols/common.rs\<close>): errors and conversions, messages, the thread check, attachments.
  \<^item> \<open>Msg_Types\<close>, \<open>Message_Serde\<close> (\<open>messages/src/msg_types\<close>, \<open>msg_fields\<close>, \<open>msg_parts.rs\<close>): protocols, versions
    and message types as texts; the reading of a message by its type and its writing.
  \<^item> \<open>Query\<close>, \<open>Anoncreds_Types\<close>, \<open>Registry_Data\<close> (\<open>src/aries/misc/anoncreds_types\<close>): restriction queries,
    identifiers and validation of requests, offers, credentials and presentations; ledger objects, status
    lists and deltas of revocation registries and the conversions between them.
  \<^item> \<open>Backends\<close>: the traits of ledger and anoncreds and the third-party functions, as records of
    functions that the operations take as arguments; a concrete instance for evaluation.
  \<^item> \<open>Encoding\<close> (\<open>common/credentials\<close>, \<open>utils/openssl.rs\<close>): encoding of attributes, previews,
    revocation status.
  \<^item> \<open>Issuer_SM\<close>, \<open>Holder_SM\<close>, \<open>Issuance_Exchange\<close>: the two sides of issuance and the legs between
    them.
  \<^item> \<open>Revocation_Notification\<close>: sender, receiver and the issuer's helper.
  \<^item> \<open>Proofs\<close> (\<open>common/proofs\<close>), \<open>Verifier_SM\<close>, \<open>Prover_SM\<close>, \<open>Presentation_Exchange\<close>: preparing and
    checking proofs, the two sides of presentation and the legs between them.
  \<^item> \<open>Public_Key\<close> (\<open>did_core/public_key\<close>), \<open>Diddoc_Legacy\<close> (\<open>misc/legacy/diddoc_legacy\<close>), \<open>Wallet\<close> (the wallet
    trait, \<open>pairwise_info.rs\<close>, \<open>common/signing.rs\<close>), \<open>Envelope\<close> (\<open>utils/encryption_envelope.rs\<close>),
    \<open>Ledger_Transactions\<close> (\<open>common/ledger\<close>, \<open>common/keys.rs\<close>): keys, documents, signatures, packing and
    what is read from and written to the ledger.
  \<^item> \<open>Did_Parser\<close> (\<open>did_core/did_parser_nom\<close>), \<open>Did_Doc\<close> (\<open>did_core/did_doc\<close>, \<open>did_methods/did_key\<close>),
    \<open>Did_Peer\<close> (\<open>did_methods/did_peer\<close>, numalgo 4, and \<open>did_resolver_registry\<close>), \<open>Did_Keys\<close>
    (\<open>utils/didcomm_utils.rs\<close>, the keys of \<open>did_exchange\<close>), \<open>Did_Exchange\<close> (\<open>protocols/did_exchange\<close>,
    versions 1.0 and 1.1): DIDs, documents, the DID that carries its document, and the exchange of DIDs.
  \<^item> \<open>Oob\<close>, \<open>Small_Protocols\<close> (\<open>handlers/out_of_band\<close>, \<open>protocols/oob\<close>, \<open>trustping\<close>, discovery of features),
    \<open>Connection_SM\<close> (\<open>protocols/connection\<close>), \<open>Mediated_Connection\<close> (\<open>protocols/mediated_connection\<close>).
  \<^item> \<open>Records\<close> (\<open>aries_vcx_wallet/src/wallet\<close>: records, tags, migration), \<open>Askar_Wallet\<close>
    (\<open>wallet/askar\<close>: every operation on records, keys and DIDs, packing and unpacking).
    \<open>record_store\<close> is what users of records rely on; the Askar operations are shown to provide it.
  \<^item> \<open>Anoncreds_Backend\<close> (\<open>aries_vcx_anoncreds\<close>), \<open>Primitives\<close> (\<open>common/primitives\<close>): issuing, storing,
    searching, proving and revoking over the wallet; publication of definitions and registries.
  \<^item> \<open>Ledger_Responses\<close> (\<open>misc/indy_ledger_response_parser\<close>), \<open>Indy_Ledger\<close>
    (\<open>aries_vcx_ledger/src/ledger/indy_vdr_ledger.rs\<close>, \<open>type_conversion.rs\<close>, \<open>response_cacher\<close>,
    \<open>request_submitter\<close>), \<open>Did_Cheqd\<close> (\<open>did_methods/did_cheqd\<close>), \<open>Ledger_Readers\<close> (\<open>ledger/cheqd\<close>,
    \<open>multi_ledger.rs\<close>): the clients of the two ledgers, with the locale \<open>response_cacher\<close>, and the reader
    over both.
  \<^item> \<open>Mediator_Storage\<close>, \<open>Mediator\<close> (\<open>agents/mediator/src\<close>): the tables and the SQL operations with the
    locale \<open>mediator_storage\<close> that states what the handlers rely on; coordination, forwarding, pickup
    and the dispatcher.

  \<^bold>\<open>Correspondence.\<close> A struct is a record with the field names of the source behind a short
  prefix, an enum a datatype. A transition \<open>fn op(self, ...) -> VcxResult<Self>\<close> is a definition
  \<open><machine>_op\<close> from the machine to a result; a handler method \<open>fn op(&mut self, ...)\<close> is a
  definition \<open><Handler>_op\<close> that returns the result and the new handler. Calls that are given the
  wallet, a transport, the ledger or the database return its new state too. What a call obtains from outside
  (a fresh uuid, a nonce, the clock) is an argument. The derived \<open>Debug\<close> texts, base64, SHA-256, the order in
  which a hash map is iterated and the derived readers and printers are arguments as well. Logging is left
  out.

  \<^bold>\<open>Laws of outside code.\<close> Where a property needs more of an argument than its type it says so by name:
  \<open>base64_inverse\<close>, \<open>b58_inverse\<close>, \<open>multibase_inverse\<close>, \<open>varint_inverse\<close>, \<open>secret_text_inverse\<close> (what is encoded is
  decoded again); \<open>reads_peer4\<close>, \<open>reads_reference\<close>, \<open>reads_uris\<close>, \<open>reads_peer_uri\<close>, \<open>method_law\<close> (the grammars
  accept the texts in question; nothing is said of other texts); \<open>crypto_laws\<close> and \<open>content_keys\<close> (boxes are
  opened by the key that has the secret half, \<open>has_secret\<close>, and signatures verify); \<open>askar_store\<close> and
  \<open>available\<close> (the store returns what was put into it); \<open>lru_laws\<close> (the cache drops, but never invents);
  \<open>keeps_attribute\<close> (the ledger answers with the attribute that was written, in a reply that may carry
  anything else besides). Each but \<open>method_law\<close> is shown to hold of a concrete instance by a witness.

  \<^bold>\<open>What is shown.\<close> For each machine: every run of successful calls is a walk in the abstract
  graph of its protocol, terminal states are final, identity is kept; an invariant of all
  reachable states ties the stored messages to the thread and the outcome to what the back ends
  returned (no credential without a request and an offer it answers, no valid presentation without a
  positive check, no presentation the back end did not create, no connection without the inviter's
  signature); and each operation's outcome on every branch. For the pairs: honest exchanges complete with
  the right outcome on both sides. For the mediator: its tables stay consistent under every sequence of
  envelopes, accounts do not disturb each other, and a stored message is delivered. For the wallet: the
  Askar operations keep the contract of a record store, created keys sign, packed messages are read. For the
  back end: revocation indices are fresh, link secrets are never replaced, local revocations reach the
  ledger once, definitions and registries are published once. For the ledger clients: cached answers are
  not older than allowed, only signed transactions are endorsed, schemas are read back as published, the
  latest resource is served. For the helpers: round trips (messages as JSON, envelopes through mediators,
  invitations as URLs, keys as fingerprints, peer DIDs, signed responses, queries, deltas), equivalences
  (query optimisation, preview and encoding), exact characterisations (validation, the check of revealed
  values, inputs of the prover). Some theorems
  record behaviour that differs from what the code means to do; they are the ones about reports after
  the credential, unchecked threads, tails files, requested acknowledgements, unfetched revocation
  data, revealed groups, failed preparations and counter-proposals of the prover, truncated keys,
  unresolved invitations, repeated connection requests, failed invitees, lost forward messages, rotated
  keys, routing keys of peer DIDs, deltas out of order, predicate names, stored credential definitions,
  uncleared deltas, unread ledger replies, refused schemas and agreement options.

  \<^bold>\<open>Bounds.\<close> No definition uses fuel: loops are structural recursion over the data they walk, and the
  reader of queries has a termination proof. Indices and timestamps are 32 and 64 bit words.

  \<^bold>\<open>Not modelled.\<close> Network and storage themselves: HTTP servers and transports, the pool of Indy nodes
  with its genesis files, the opening of Askar stores, the SQL engine beyond the statements used. Third-party
  code, which stays a parameter: cryptography, the anoncreds, Askar, \<open>indy_vdr\<close> and \<open>nom\<close> crates, the
  generated gRPC client of cheqd, derived serialisers. Of the DID methods: did:web, did:sov, did:jwk and the
  other numalgos of did:peer. Agents other than the mediator, foreign-language bindings, test harnesses and
  derive macros.
\<close>

section \<open>Issuance across the two sides\<close>

text \<open>
  C1. An honest exchange completes. Whatever the back ends, if each of them succeeds where it is
  called and every text one side writes is read back by the other, then the offer of a fresh
  issuer, taken by a holder, leads to a request the issuer accepts, a credential the holder
  stores and an acknowledgement the issuer accepts: both sides finish with success on the same
  thread, the holder under the id its wallet returned, the issuer with the revocation index of
  its back end.
\<close>

theorem issuance_completes:
  assumes E: "base64_inverse E"
    and offer: "build_credential_preview E (oi_credential_json info) = Ok prev"
      "ac_issuer_create_credential_offer A w0 (oi_cred_def_id info) = (Ok off, w1)"
      "utf8_valid (c_ser_offer C off)" "c_de_offer C (c_ser_offer C off) = Ok off"
    and request: "lg_get_cred_def L (co_cred_def_id off) None = Ok cdj" "c_clone_cred_def C cdj = Ok clone"
      "ac_prover_create_credential_req B v0 did off clone DEFAULT_LINK_SECRET_ALIAS = (Ok (r, meta), v1)"
      "utf8_valid (c_ser_request C r)" "c_de_request C (c_ser_request C r) = Ok r"
    and issue: "encode_attributes E (oi_credential_json info) = Ok v" "c_de_values C v = Ok vals"
      "transpose_opt (map_option vcx_rev_reg_def_id (oi_rev_reg_id info)) = Ok rid"
      "ac_issuer_create_credential A w1 off r vals rid (oi_tails_file info) = (Ok (cr, n), w2)"
      "utf8_valid (c_ser_credential C cr)" "c_de_credential C (c_ser_credential C cr) = Ok cr"
    and store: "lg_get_schema L (co_schema_id off) None = Ok sch"
      "x_json_parse E (c_ser_credential C cr) = Ok pc"
      "case as_str (json_index pc ''rev_reg_id'') of
         None \<Rightarrow> rrd = None
       | Some i \<Rightarrow> \<exists>rid j m. vcx_rev_reg_def_id i = Ok rid
           \<and> lg_get_rev_reg_def_json L rid = Ok (j, m) \<and> rrd = Some j"
      "c_de_metadata C (x_json_print E meta) = Ok meta'" "c_de_schema C (x_json_print E sch) = Ok sch'"
      "c_de_cred_def C (x_json_print E cdj) = Ok cd'"
      "ac_prover_store_credential B v1 meta' cr sch' cd' rrd = (Ok cred_id, v2)"
  shows "\<exists>i1 offm h1 reqm i2 i3 credm h2 ackm i4.
      Issuer_build_credential_offer_msg E C A w0 now1 \<lparr>issuer_sm = issuer_new t src\<rparr> info com
        = ((Ok (), i1), w1)
    \<and> Issuer_get_credential_offer_msg i1 = Ok (ci1_msg (CI1_OfferCredential offm))
    \<and> Holder_prepare_credential_request E C L B v0 u2 now2 \<lparr>holder_sm = holder_from_offer offm hsrc\<rparr> did
        = ((Ok reqm, h1), v1)
    \<and> Issuer_process_aries_msg E i1 reqm = (Ok (), i2)
    \<and> Issuer_build_credential E C A w1 u3 i2 = ((Ok (), i3), w2)
    \<and> issuer_get_msg_issue_credential now3 (issuer_sm i3) = Ok credm
    \<and> Holder_process_aries_msg E C L B v1 u4 h1 (ci1_msg (CI1_IssueCredential credm)) = ((Ok (), h2), v2)
    \<and> Holder_get_final_message u5 now4 h2 = Ok (Some ackm)
    \<and> Issuer_process_aries_msg E i3 ackm = (Ok (), i4)
    \<and> issuer_get_state (issuer_sm i4) = Is_Finished \<and> holder_get_state (holder_sm h2) = Hs_Finished
    \<and> is_thread_id (issuer_sm i4) = t \<and> hs_thread_id (holder_sm h2) = t
    \<and> holder_get_cred_id (holder_sm h2) = Ok cred_id
    \<and> (\<forall>k. n = Some k \<longrightarrow> Issuer_get_revocation_id i4 = Ok k)"
proof -
  let ?off = "exchange_offer E C now1 t off prev com"
  let ?plain = "build_credential_request E u2 now2 (c_ser_request C r) t"
  let ?req = "?plain\<lparr>mp_decorators := (mp_decorators ?plain)\<lparr>od_timing := Some (timing_out now2)\<rparr>\<rparr>"
  let ?msg = "build_credential_message E C u3 cr t"
  let ?cred = "?msg\<lparr>mp_decorators := (mp_decorators ?msg)\<lparr>pd_timing := Some (timing_out now3)\<rparr>\<rparr>"
  let ?rs = "\<lparr>rss_req_meta = x_json_print E meta, rss_cred_def_json = x_json_print E cdj,
    rss_schema_id = co_schema_id off, rss_msg_credential_request = ?plain\<rparr>"
  note attach = exchange_offer_simps(3) [OF E offer(3)]
  have req: "matches_opt_thread_id (od_thread (mp_decorators ?req)) t"
    "get_attach_as_string E (rqc_requests_attach (mp_content ?req)) = Ok (c_ser_request C r)"
    using E request(4) by (simp_all add: build_credential_request_def)
  have cred: "get_attach_as_string E (isc_credentials_attach (mp_content ?cred)) = Ok (c_ser_credential C cr)"
    "pd_please_ack (mp_decorators ?cred) \<noteq> None"
    using E issue(5) by (simp_all add: build_credential_message_def)
  note l1 = offer_leg [OF offer(1,2)]
  note l2 = request_leg [OF build_credential_request_msg_succeeds [OF attach offer(4) request(1-3)]
      exchange_offer_simps(1)]
  note l3 = accept_leg [OF req(1)]
  note l4 = issue_leg [OF create_credential_succeeds [OF attach req issue(1) offer(4) request(5)
      issue(2-4)]]
  have l5: "Holder_process_aries_msg E C L B v1 u4 (requested_holder t hsrc ?rs)
      (ci1_msg (CI1_IssueCredential ?cred))
      = ((Ok (), stored_holder t hsrc cred_id ?cred (map_option (x_json_print E) rrd)), v2)"
    by (rule store_leg [of L ?rs sch E C B v1 ?cred])
      (simp_all only: RequestSetState.simps store(1)
        store_credential_succeeds [OF cred(1) store(2,3,4) issue(6) store(5,6,7)])
  have fin: "holder_get_state (holder_sm (stored_holder t hsrc cred_id ?cred rr)) = Hs_Finished"
    "holder_get_cred_id (holder_sm (stored_holder t hsrc cred_id ?cred rr)) = Ok cred_id"
    "hs_thread_id (holder_sm (stored_holder t hsrc cred_id ?cred rr)) = t" for rr
    by (simp_all add: stored_holder_def holder_view_defs FinishedHolderState_from_def)
  show ?thesis
    by (intro exI conjI, (rule l1 l2 l3 l4 l5 issued_msg ack_leg [OF cred(2)])+)
      (simp_all add: fin issuer_get_state_def issued_issuer_def Issuer_get_revocation_id_def
        issuer_get_revocation_info_def)
qed

theorem issuance_completes_witness:
  "\<exists>i3 h2 ackm i4. Issuer_process_aries_msg sample_issue_ext i3 ackm = (Ok (), i4)
    \<and> Holder_get_final_message ''a'' 5 h2 = Ok (Some ackm)
    \<and> issuer_get_state (issuer_sm i4) = Is_Finished \<and> holder_get_state (holder_sm h2) = Hs_Finished
    \<and> holder_get_cred_id (holder_sm h2) = Ok ''cred-1'' \<and> Issuer_get_revocation_id i4 = Ok 7"
proof -
  obtain prev where prev:
    "build_credential_preview sample_issue_ext (oi_credential_json sample_info) = Ok prev"
    by (simp add: build_credential_preview_def preview_member_def sample_ext_def)
  have offer: "ac_issuer_create_credential_offer sample_anoncreds () (oi_cred_def_id sample_info)
      = (Ok sample_offer, ())" "utf8_valid (c_ser_offer sample_codec sample_offer)"
    "c_de_offer sample_codec (c_ser_offer sample_codec sample_offer) = Ok sample_offer"
    by (simp_all add: sample_codec_def sample_anoncreds_def)
  have request: "lg_get_cred_def sample_ledger (co_cred_def_id sample_offer) None = Ok JNull"
    "c_clone_cred_def sample_codec JNull = Ok JNull"
    "ac_prover_create_credential_req sample_anoncreds () ''did'' sample_offer JNull
       DEFAULT_LINK_SECRET_ALIAS = (Ok (sample_request, JNull), ())"
    "utf8_valid (c_ser_request sample_codec sample_request)"
    "c_de_request sample_codec (c_ser_request sample_codec sample_request) = Ok sample_request"
    by (simp_all add: sample_codec_def sample_anoncreds_def sample_ledger_def)
  have issue: "encode_attributes sample_issue_ext (oi_credential_json sample_info) = Ok []"
    "c_de_values sample_codec [] = Ok (cd_values sample_credential)"
    "transpose_opt (map_option vcx_rev_reg_def_id (oi_rev_reg_id sample_info)) = Ok (Some ''r:1'')"
    "ac_issuer_create_credential sample_anoncreds () sample_offer sample_request
       (cd_values sample_credential) (Some ''r:1'') (oi_tails_file sample_info)
     = (Ok (sample_credential, Some 7), ())"
    "utf8_valid (c_ser_credential sample_codec sample_credential)"
    "c_de_credential sample_codec (c_ser_credential sample_codec sample_credential) = Ok sample_credential"
    by (simp_all add: sample_info_def sample_encode sample_rev_reg_id sample_codec_def sample_anoncreds_def)
  have store: "lg_get_schema sample_ledger (co_schema_id sample_offer) None = Ok JNull"
    "x_json_parse sample_issue_ext (c_ser_credential sample_codec sample_credential)
      = Ok (JObject [(''age'', JString ''42'')])"
    "case as_str (json_index (JObject [(''age'', JString ''42'')]) ''rev_reg_id'') of
         None \<Rightarrow> None = None
       | Some i \<Rightarrow> \<exists>rid j m. vcx_rev_reg_def_id i = Ok rid
           \<and> lg_get_rev_reg_def_json sample_ledger rid = Ok (j, m) \<and> None = Some j"
    "c_de_metadata sample_codec (x_json_print sample_issue_ext JNull) = Ok JNull"
    "c_de_schema sample_codec (x_json_print sample_issue_ext JNull) = Ok JNull"
    "c_de_cred_def sample_codec (x_json_print sample_issue_ext JNull) = Ok JNull"
    "ac_prover_store_credential sample_anoncreds () JNull sample_credential JNull JNull None
      = (Ok ''cred-1'', ())"
    by (simp_all only: sample_no_rev_reg option.case) (simp_all add: sample_defs)
  from issuance_completes [OF sample_base64 prev offer request issue store, of 0 "''t''" "''i''" None
      "''q''" 1 "''h''" "''m''" 2 "''s''" "''a''" 5]
  show ?thesis by (elim exE conjE) (intro exI conjI, assumption+, simp)
qed

section \<open>Presentation across the two sides\<close>

text \<open>
  C2. A presentation exchange completes with the verdict of the check, on both sides. Whatever
  the back ends, if the prover's creates a proof for the request it is given and the verifier's
  check of that proof returns a verdict, then the messages of the two handlers carry the
  exchange to its end: the verifier reports \<open>Valid\<close> or \<open>Invalid\<close> as the check said, and the prover
  ends with success or failed accordingly, on the same thread.
\<close>

theorem presentation_completes:
  assumes E: "base64_inverse E"
    and request: "utf8_valid (c_ser_pres_request C req)"
      "c_de_pres_request C (c_ser_pres_request C req) = Ok req"
    and pres: "generate_indy_proof L B w0 clock creds self_attested req = (Ok pres, w1)"
      "utf8_valid (c_ser_presentation C pres)"
    and check: "validate_indy_proof E C dbg L A (c_ser_presentation C pres) (c_ser_pres_request C req) = Ok verdict"
  shows "\<exists>v0 v1 v2 r p1 p2 p3 m final.
      Verifier_create_from_request E C t now1 vsrc req = Ok v0
    \<and> Verifier_mark_presentation_request_sent v0 = (Ok r, v1)
    \<and> Prover_generate_presentation E C L B w0 clock u2 now2 \<lparr>prover_sm = prover_from_request r psrc\<rparr>
        creds self_attested = ((Ok (), p1), w1)
    \<and> Prover_mark_presentation_sent p1 = (Ok m, p2)
    \<and> Verifier_process_aries_msg E C dbg d L A u3 u4 now3 v1 m = (Ok (Some final), v2)
    \<and> Prover_process_aries_msg p2 final = (Ok (), p3)
    \<and> vs_thread_id (verifier_sm v2) = t \<and> ps_thread_id (prover_sm p3) = t
    \<and> verifier_get_state (verifier_sm v2) = Vs_Finished
    \<and> verifier_get_verification_status (verifier_sm v2) = (if verdict then Pvs_Valid else Pvs_Invalid)
    \<and> prover_get_state (prover_sm p3) = (if verdict then Ps_Finished else Ps_Failed)"
proof -
  note r = exchange_request_simps(3) [OF E request(1)]
  note m = exchange_presentation_simps(3) [OF E pres(2)]
  note legs = request_set_leg generate_leg [OF r request(2) pres(1) exchange_request_simps(1)] send_leg
    verify_leg [OF exchange_presentation_simps(1) m r check]
  show ?thesis
    by (intro exI conjI, (rule legs final_leg)+)
      (simp_all add: verifier_at_def prover_at_def vcx_views verifier_finish prover_finish)
qed

theorem presentation_completes_witness:
  "\<exists>v2 p3 m final v1 p2. Verifier_process_aries_msg sample_proof_ext sample_codec (\<lambda>_. []) (\<lambda>_. [])
      sample_gap_ledger sample_anoncreds ''u'' ''a'' 3 v1 m = (Ok (Some final), v2)
    \<and> Prover_process_aries_msg p2 final = (Ok (), p3)
    \<and> verifier_get_verification_status (verifier_sm v2) = Pvs_Valid
    \<and> prover_get_state (prover_sm p3) = Ps_Finished"
proof -
  have "generate_indy_proof sample_gap_ledger sample_anoncreds () (\<lambda>_. 3) [] Map.empty sample_pres_request
      = (Ok sample_presentation, ())"
    by (simp add: generate_indy_proof_def credential_def_identifiers_def build_rev_states_json_def
        build_requested_credentials_json_def build_schemas_json_prover_def build_cred_defs_json_prover_def
        fetch_missing_def sample_anoncreds_def)
  moreover have "utf8_valid (c_ser_pres_request sample_codec sample_pres_request)"
    "c_de_pres_request sample_codec (c_ser_pres_request sample_codec sample_pres_request) = Ok sample_pres_request"
    "utf8_valid (c_ser_presentation sample_codec sample_presentation)" by (simp_all add: sample_codec_def)
  ultimately show ?thesis
    using presentation_completes [OF sample_base64 _ _ _ _ sample_validate, of sample_pres_request
        sample_anoncreds "()" "\<lambda>_. 3" "[]" Map.empty sample_presentation "()" "''t''" 1 "''v''" "''m''" 2
        "''p''" "\<lambda>_. []" "''u''" "''a''" 3]
    by (simp only: if_True simp_thms) blast
qed

end
